(* ===== verification/Cosai_Prelude.thy ===== *)
theory Cosai_Prelude
  imports Complex_Main "HOL-Library.AList"
begin

text \<open>
  What the components of the development share: the types that stand for Python's
  scalar types, insertion-ordered dictionaries as association lists, the counter
  dictionaries that \<open>middleware/state.py\<close> keeps per owner and per tenant, and the
  interfaces (locales) between components.

  Python's \<open>float\<close> clock values are rationals here: every finite binary float is one,
  comparisons are exact, and the rounding of a sum is not modelled. A \<open>str\<close> that the
  code only compares, measures, slices and concatenates is a HOL \<open>string\<close>; where the
  code looks at code points beyond Latin-1 the component uses lists of code points.
\<close>

type_synonym time = rat
type_synonym codepoints = "nat list"

definition ascii :: "string \<Rightarrow> codepoints" where
  "ascii s = map of_char s"

lemma ascii_eq_iff [simp]: "ascii s = ascii t \<longleftrightarrow> s = t"
  by (simp add: ascii_def inj_def)

lemma ascii_eq_Nil [simp]: "ascii s = [] \<longleftrightarrow> s = []" "[] = ascii s \<longleftrightarrow> s = []"
  by (auto simp: ascii_def)

lemma ascii_bound: "n \<in> set (ascii s) \<Longrightarrow> n < 256"
proof -
  have "of_char c < (256 :: nat)" for c
    using mod_less_divisor [of 256 "of_char c"] by simp
  then show "n \<in> set (ascii s) \<Longrightarrow> n < 256" by (auto simp: ascii_def)
qed

lemma length_ascii [simp]: "length (ascii s) = length s"
  by (simp add: ascii_def)

lemma ascii_simps [simp]:
  "ascii [] = []" "ascii (c # s) = of_char c # ascii s" "ascii (s @ t) = ascii s @ ascii t"
  by (simp_all add: ascii_def)

named_theorems dict_simps \<open>rewriting of dictionary reads after writes\<close>
named_theorems inv_intros \<open>introduction rules for component invariants\<close>

section \<open>Insertion-ordered dictionaries\<close>

text \<open>
  A Python \<open>dict\<close> that the code iterates over is an association list with distinct keys:
  \<open>AList.update\<close> overwrites in place or appends, as \<open>d[k] = v\<close> does, and \<open>AList.delete\<close>
  removes, as \<open>del d[k]\<close> and \<open>d.pop(k, None)\<close> do.
\<close>

type_synonym ('k, 'v) dict = "('k \<times> 'v) list"

abbreviation dict_ok :: "('k, 'v) dict \<Rightarrow> bool" where
  "dict_ok d \<equiv> distinct (map fst d)"

lemmas [dict_simps] = update_conv' delete_conv' distinct_update distinct_delete

lemma dict_ok_filter [simp, intro]: "dict_ok d \<Longrightarrow> dict_ok (filter P d)"
  by (induction d) auto

lemma map_of_Some_in: "map_of d k = Some v \<Longrightarrow> (k, v) \<in> set d"
  by (rule map_of_SomeD)

lemma map_of_iff_in: "dict_ok d \<Longrightarrow> map_of d k = Some v \<longleftrightarrow> (k, v) \<in> set d"
  by simp

lemma map_of_filter_Some:
  "dict_ok d \<Longrightarrow> map_of (filter P d) k = Some v \<longleftrightarrow> map_of d k = Some v \<and> P (k, v)"
  by (auto simp: map_of_iff_in)

lemma update_fresh: "k \<notin> fst ` set d \<Longrightarrow> AList.update k v d = d @ [(k, v)]"
  by (induction d) auto

lemma length_delete_present:
  "dict_ok d \<Longrightarrow> k \<in> fst ` set d \<Longrightarrow> Suc (length (AList.delete k d)) = length d"
proof (induction d)
  case Nil
  then show ?case by simp
next
  case (Cons e d)
  then show ?case
    by (cases "k \<in> fst ` set d") auto
qed

lemma map_of_filter:
  assumes "dict_ok d"
  shows "map_of (filter P d) k =
           (case map_of d k of None \<Rightarrow> None | Some v \<Rightarrow> if P (k, v) then Some v else None)"
  using assms
proof (induction d)
  case Nil
  then show ?case by simp
next
  case (Cons e d)
  obtain k' v' where e: "e = (k', v')" by (cases e)
  show ?case
  proof (cases "k' = k")
    case True
    with Cons.prems e have "map_of d k = None" by (auto simp: map_of_eq_None_iff)
    with True Cons e show ?thesis by auto
  next
    case False
    with Cons e show ?thesis by auto
  qed
qed

text \<open>The number of entries whose value satisfies a predicate, and how writes change it.\<close>

definition vcount :: "('v \<Rightarrow> bool) \<Rightarrow> ('k, 'v) dict \<Rightarrow> nat" where
  "vcount P d = length (filter (P \<circ> snd) d)"

lemma vcount_simps [simp]:
  "vcount P [] = 0"
  "vcount P ((k, v) # d) = (if P v then Suc (vcount P d) else vcount P d)"
  by (simp_all add: vcount_def)

lemma vcount_append: "vcount P (d @ e) = vcount P d + vcount P e"
  by (simp add: vcount_def)

lemma vcount_delete:
  "dict_ok d \<Longrightarrow> map_of d k = Some v \<Longrightarrow>
     vcount P (AList.delete k d) = vcount P d - (if P v then 1 else 0)"
proof (induction d)
  case Nil
  then show ?case by simp
next
  case (Cons e d)
  obtain k' v' where e: "e = (k', v')" by (cases e)
  show ?case
  proof (cases "k' = k")
    case True
    with Cons.prems e have "k \<notin> fst ` set d" by auto
    then have "AList.delete k d = d" by (rule delete_id)
    with True Cons.prems e show ?thesis by simp
  next
    case False
    with Cons.prems e have v: "map_of d k = Some v" and d: "dict_ok d" by auto
    then have "P v \<Longrightarrow> 0 < vcount P d"
      by (force simp: vcount_def filter_empty_conv dest: map_of_SomeD)
    with Cons.IH [OF d v] False e show ?thesis by auto
  qed
qed

lemma vcount_le_length: "vcount P d \<le> length d"
  by (simp add: vcount_def)

section \<open>Counter dictionaries\<close>

text \<open>
  \<open>counts[k] = counts.get(k, 0) + 1\<close>, and \<open>_decrement\<close> of \<open>middleware/state.py\<close>, which
  drops a counter that reaches zero. Such a dictionary is never iterated, so it is a map.
\<close>

type_synonym 'o counts = "'o \<rightharpoonup> int"

definition cget :: "'o counts \<Rightarrow> 'o \<Rightarrow> int" where
  "cget c k = (case c k of None \<Rightarrow> 0 | Some n \<Rightarrow> n)"

definition increment :: "'o counts \<Rightarrow> 'o \<Rightarrow> 'o counts" where
  "increment c k = c(k \<mapsto> cget c k + 1)"

definition decrement :: "'o counts \<Rightarrow> 'o \<Rightarrow> 'o counts" where
  "decrement c k =
     (let left = (case c k of None \<Rightarrow> 1 | Some n \<Rightarrow> n) - 1
      in if left > 0 then c(k \<mapsto> left) else c(k := None))"

text \<open>A counter dictionary agrees with a dictionary of owned entries.\<close>

definition counts_ok :: "('v \<Rightarrow> 'o) \<Rightarrow> 'o counts \<Rightarrow> ('k, 'v) dict \<Rightarrow> bool" where
  "counts_ok own c d \<longleftrightarrow>
     (\<forall>o'. c o' = (let n = vcount (\<lambda>v. own v = o') d in if n = 0 then None else Some (int n)))"

lemma counts_ok_get: "counts_ok own c d \<Longrightarrow> cget c o' = int (vcount (\<lambda>v. own v = o') d)"
  by (simp add: counts_ok_def cget_def Let_def)

lemma counts_ok_empty [simp]: "counts_ok own Map.empty []"
  by (simp add: counts_ok_def)

lemma counts_ok_increment:
  assumes "counts_ok own c d" and "k \<notin> fst ` set d"
  shows "counts_ok own (increment c (own v)) (AList.update k v d)"
  using assms by (auto simp: counts_ok_def increment_def cget_def update_fresh vcount_append Let_def)

lemma counts_ok_decrement:
  assumes "counts_ok own c d" and "dict_ok d" and "map_of d k = Some v"
  shows "counts_ok own (decrement c (own v)) (AList.delete k d)"
proof -
  have pos: "0 < vcount (\<lambda>w. own w = own v) d"
    using map_of_SomeD [OF assms(3)] by (force simp: vcount_def filter_empty_conv)
  have keep: "vcount (\<lambda>w. own w = o') (AList.delete k d) = vcount (\<lambda>w. own w = o') d - (if own v = o' then 1 else 0)" for o'
    by (rule vcount_delete [OF assms(2,3)])
  show ?thesis
    using assms(1) pos by (auto simp: counts_ok_def decrement_def keep Let_def)
qed

section \<open>Interfaces\<close>

text \<open>
  A stateful component whose operations keep an invariant: every run keeps it. The
  operations are the constructors of an operation type or their labels.
\<close>

definition run_ops :: "('op \<Rightarrow> 's \<Rightarrow> 's) \<Rightarrow> 'op list \<Rightarrow> 's \<Rightarrow> 's" where
  "run_ops step ops s = fold step ops s"

lemma run_ops_simps [simp]:
  "run_ops step [] s = s"
  "run_ops step (x # xs) s = run_ops step xs (step x s)"
  "run_ops step (xs @ ys) s = run_ops step ys (run_ops step xs s)"
  by (simp_all add: run_ops_def)

locale component =
  fixes step :: "'op \<Rightarrow> 's \<Rightarrow> 's"
    and good :: "'s \<Rightarrow> bool"
  assumes step_good: "good s \<Longrightarrow> good (step x s)"
begin

lemma run_good: "good s \<Longrightarrow> good (run_ops step xs s)"
  by (induction xs arbitrary: s) (auto simp: step_good)

end

text \<open>
  A replay guard admits a request at most once within the request's window. The laws are
  those of one call: a held key is refused, a call does not forget a key that is still
  held, and an admitted key is held until its deadline. What the clients need, that no run
  of calls in between lets a request in twice, follows for every provider.
\<close>

definition serve :: "('r \<Rightarrow> time \<Rightarrow> 's \<Rightarrow> bool \<times> 's) \<Rightarrow> ('r \<times> time) list \<Rightarrow> 's \<Rightarrow> 's" where
  "serve admit calls s = fold (\<lambda>(r, t) s. snd (admit r t s)) calls s"

lemma serve_simps [simp]:
  "serve admit [] s = s"
  "serve admit ((r, t) # calls) s = serve admit calls (snd (admit r t s))"
  by (simp_all add: serve_def)

locale replay_guard =
  fixes admit :: "'r \<Rightarrow> time \<Rightarrow> 's \<Rightarrow> bool \<times> 's"
    and key_of :: "'r \<Rightarrow> 'k"
    and until :: "'s \<Rightarrow> 'r \<Rightarrow> time \<Rightarrow> time"
    and holds :: "'s \<Rightarrow> time \<Rightarrow> 'k \<Rightarrow> bool"
    and good :: "'s \<Rightarrow> bool"
  assumes admit_good: "good s \<Longrightarrow> good (snd (admit r t s))"
    and admit_refuses: "good s \<Longrightarrow> holds s t (key_of r) \<Longrightarrow> \<not> fst (admit r t s)"
    and admit_keeps: "good s \<Longrightarrow> holds s u k \<Longrightarrow> t \<le> u \<Longrightarrow> holds (snd (admit r t s)) u k"
    and admit_records: "good s \<Longrightarrow> fst (admit r t s) \<Longrightarrow> t \<le> u \<Longrightarrow> u < until s r t \<Longrightarrow>
                          holds (snd (admit r t s)) u (key_of r)"
begin

lemma serve_good: "good s \<Longrightarrow> good (serve admit calls s)"
  by (induction calls arbitrary: s) (auto simp: admit_good)

lemma serve_keeps:
  "good s \<Longrightarrow> holds s u k \<Longrightarrow> \<forall>(r, t) \<in> set calls. t \<le> u \<Longrightarrow> holds (serve admit calls s) u k"
  by (induction calls arbitrary: s) (auto simp: admit_good admit_keeps)

lemma no_replay:
  assumes "good s" and "fst (admit r t s)" and "\<forall>(q, v) \<in> set calls. v \<le> u"
    and "t \<le> u" and "u < until s r t" and "key_of r' = key_of r"
  shows "\<not> fst (admit r' u (serve admit calls (snd (admit r t s))))"
proof -
  have "holds (snd (admit r t s)) u (key_of r)"
    using assms(1,2,4,5) by (rule admit_records)
  then have "holds (serve admit calls (snd (admit r t s))) u (key_of r')"
    using assms(1,3,6) by (simp add: serve_keeps admit_good)
  then show ?thesis
    using assms(1) by (intro admit_refuses serve_good admit_good)
qed

end

end
