(* ===== verification/Jti_Cache.thy ===== *)
theory Jti_Cache
  imports Cosai_Prelude
begin

text \<open>
  \<open>middleware/auth.py\<close>: the replay-detection cache \<open>JtiCache\<close>. One cache is shared by the
  bearer tokens and the DPoP proofs of \<open>middleware/session.py\<close>. The lock makes a call
  atomic, so a call is one function from the state to the answer and the new state;
  \<open>time.monotonic()\<close> is the argument \<open>now\<close>.
\<close>

record 'j jti_cache =
  jc_maxsize :: int
  jc_ttl :: time
  jc_cache :: "('j, time) dict"

definition new_jti_cache :: "int \<Rightarrow> time \<Rightarrow> 'j jti_cache" where
  "new_jti_cache maxsize ttl = \<lparr>jc_maxsize = maxsize, jc_ttl = ttl, jc_cache = []\<rparr>"

definition sweep_expired :: "time \<Rightarrow> ('j, time) dict \<Rightarrow> ('j, time) dict" where
  "sweep_expired now d = filter (\<lambda>(k, e). \<not> e \<le> now) d"

definition check_and_add :: "'j \<Rightarrow> time \<Rightarrow> 'j jti_cache \<Rightarrow> bool \<times> 'j jti_cache" where
  "check_and_add jti now c =
     (let swept = sweep_expired now (jc_cache c);
          c' = c\<lparr>jc_cache := swept\<rparr>
      in if jti \<in> fst ` set swept then (False, c')
         else if int (length swept) \<ge> jc_maxsize c then (False, c')
         else (True, c'\<lparr>jc_cache := AList.update jti (now + jc_ttl c) swept\<rparr>))"

definition jti_live :: "'j jti_cache \<Rightarrow> time \<Rightarrow> 'j \<Rightarrow> bool" where
  "jti_live c now jti \<longleftrightarrow> (\<exists>e. map_of (jc_cache c) jti = Some e \<and> now < e)"

definition live_count :: "'j jti_cache \<Rightarrow> time \<Rightarrow> nat" where
  "live_count c now = vcount (\<lambda>e. now < e) (jc_cache c)"

definition jti_good :: "'j jti_cache \<Rightarrow> bool" where
  "jti_good c \<longleftrightarrow> dict_ok (jc_cache c) \<and> int (length (jc_cache c)) \<le> max 0 (jc_maxsize c)"

lemma jti_good_new [simp]: "jti_good (new_jti_cache m ttl)"
  by (simp add: jti_good_def new_jti_cache_def)

lemma sweep_lookup:
  assumes "dict_ok d"
  shows "map_of (sweep_expired now d) k =
           (case map_of d k of None \<Rightarrow> None | Some e \<Rightarrow> if now < e then Some e else None)"
  by (auto simp: sweep_expired_def map_of_filter [OF assms] split: option.splits)

lemma sweep_mem:
  "dict_ok (jc_cache c) \<Longrightarrow> jti \<in> fst ` set (sweep_expired now (jc_cache c)) \<longleftrightarrow> jti_live c now jti"
  by (force simp: jti_live_def map_of_iff_in sweep_expired_def)

lemma sweep_length: "length (sweep_expired now (jc_cache c)) = live_count c now"
  by (simp add: live_count_def vcount_def comp_def case_prod_beta' not_le sweep_expired_def)

lemma sweep_ok [simp]: "dict_ok d \<Longrightarrow> dict_ok (sweep_expired now d)"
  unfolding sweep_expired_def by (rule dict_ok_filter)

lemma check_and_add_fst:
  assumes "dict_ok (jc_cache c)"
  shows "fst (check_and_add jti now c) \<longleftrightarrow>
           \<not> jti_live c now jti \<and> int (live_count c now) < jc_maxsize c"
  by (simp add: check_and_add_def Let_def sweep_mem [OF assms] sweep_length not_le)

lemma check_and_add_config [simp]:
  "jc_maxsize (snd (check_and_add jti now c)) = jc_maxsize c"
  "jc_ttl (snd (check_and_add jti now c)) = jc_ttl c"
  by (simp_all add: check_and_add_def Let_def)

lemma check_and_add_lookup:
  assumes "dict_ok (jc_cache c)"
  shows "map_of (jc_cache (snd (check_and_add jti now c))) k =
           (if fst (check_and_add jti now c) \<and> k = jti then Some (now + jc_ttl c)
            else case map_of (jc_cache c) k of None \<Rightarrow> None
                 | Some e \<Rightarrow> if now < e then Some e else None)"
  by (simp add: check_and_add_def Let_def update_conv' sweep_lookup [OF assms])

lemma check_and_add_good [inv_intros]: "jti_good c \<Longrightarrow> jti_good (snd (check_and_add jti now c))"
proof -
  assume good: "jti_good c"
  have "live_count c now \<le> length (jc_cache c)"
    by (simp add: live_count_def vcount_le_length)
  with good show ?thesis
    by (auto simp: jti_good_def check_and_add_def Let_def update_fresh sweep_length
          distinct_update)
qed

interpretation jti: replay_guard
  where admit = check_and_add and key_of = "\<lambda>j. j"
    and until = "\<lambda>c j t. t + jc_ttl c" and holds = jti_live and good = jti_good
proof unfold_locales
  fix c :: "'j jti_cache" and t u and r k :: 'j
  assume good: "jti_good c"
  then have ok: "dict_ok (jc_cache c)" by (simp add: jti_good_def)
  show "jti_good (snd (check_and_add r t c))" using good by (rule check_and_add_good)
  show "jti_live c t r \<Longrightarrow> \<not> fst (check_and_add r t c)"
    by (simp add: check_and_add_fst [OF ok])
  show "jti_live c u k \<Longrightarrow> t \<le> u \<Longrightarrow> jti_live (snd (check_and_add r t c)) u k"
    by (auto simp: jti_live_def check_and_add_lookup [OF ok] check_and_add_fst [OF ok])
  show "fst (check_and_add r t c) \<Longrightarrow> t \<le> u \<Longrightarrow> u < t + jc_ttl c \<Longrightarrow>
          jti_live (snd (check_and_add r t c)) u r"
    by (simp add: jti_live_def check_and_add_lookup [OF ok])
qed

lemma serve_config [simp]:
  "jc_maxsize (serve check_and_add calls c) = jc_maxsize c"
  "jc_ttl (serve check_and_add calls c) = jc_ttl c"
  by (induction calls arbitrary: c) auto

lemma serve_new_good: "jti_good (serve check_and_add calls (new_jti_cache m ttl))"
  by (rule jti.serve_good) simp

text \<open>C1. Replay protection over whole runs of the cache. Start from a fresh cache, serve any
  sequence of identifiers, and let \<open>jti\<close> be admitted at time \<open>t\<close>. Whatever is served in
  between (up to the later time \<open>u\<close>), \<open>jti\<close> is not admitted again before its window
  \<open>t + ttl\<close> is over.\<close>

theorem jti_no_replay_in_window:
  assumes "c = serve check_and_add history (new_jti_cache maxsize ttl)"
    and "fst (check_and_add jti t c)"
    and "\<forall>(j, v) \<in> set calls. v \<le> u" and "t \<le> u" and "u < t + ttl"
  shows "\<not> fst (check_and_add jti u (serve check_and_add calls (snd (check_and_add jti t c))))"
proof -
  have "jti_good c" and "jc_ttl c = ttl"
    using assms(1) by (simp_all add: serve_new_good, simp add: new_jti_cache_def)
  then show ?thesis
    using assms(2-5) by (intro jti.no_replay) auto
qed

theorem jti_no_replay_in_window_witness:
  "\<not> fst (check_and_add ''a'' 6 (serve check_and_add [(''b'', 3), (''c'', 6)]
       (snd (check_and_add ''a'' 2 (serve check_and_add [(''z'', 1)] (new_jti_cache 10 5))))))"
  by (rule jti_no_replay_in_window [OF refl, where t = 2])
     (simp_all add: check_and_add_def new_jti_cache_def sweep_expired_def)

text \<open>C2. Exact admission rule and capacity, in every state a run of the cache can reach: an
  identifier is admitted exactly when it is not live and fewer than \<open>maxsize\<close> live entries
  are held (a full cache refuses instead of evicting a live entry), and the cache never
  holds more than \<open>maxsize\<close> entries.\<close>

theorem jti_admission_rule:
  "let c = serve check_and_add history (new_jti_cache maxsize ttl) in
     (fst (check_and_add jti now c) \<longleftrightarrow>
        \<not> jti_live c now jti \<and> int (live_count c now) < maxsize) \<and>
     int (length (jc_cache (snd (check_and_add jti now c)))) \<le> max 0 maxsize"
proof -
  let ?c = "serve check_and_add history (new_jti_cache maxsize ttl)"
  have good: "jti_good ?c" by (rule serve_new_good)
  have "jti_good (snd (check_and_add jti now ?c))" by (rule check_and_add_good [OF good])
  moreover have "jc_maxsize ?c = maxsize" by (simp, simp add: new_jti_cache_def)
  ultimately show ?thesis
    using good check_and_add_fst [of ?c jti now] by (simp add: jti_good_def Let_def)
qed

end
