(* ===== verification/Authz.thy ===== *)
theory Authz
  imports Cosai_Prelude
begin

text \<open>
  \<open>middleware/authz.py\<close>: per-tool access policies and their enforcement at dispatch time.
  The configuration dictionaries read by \<open>from_dict\<close> are records with optional entries;
  a missing entry takes the default of the code's \<open>d.get\<close>.
\<close>

record tool_policy =
  tp_required_scopes :: "codepoints set"
  tp_user_only :: bool

record policy_config =
  pc_required_scopes :: "codepoints list option"
  pc_user_only :: "bool option"

definition tool_policy_from_dict :: "policy_config \<Rightarrow> tool_policy" where
  "tool_policy_from_dict d =
     \<lparr>tp_required_scopes = set (case pc_required_scopes d of None \<Rightarrow> [] | Some xs \<Rightarrow> xs),
      tp_user_only = (case pc_user_only d of None \<Rightarrow> False | Some b \<Rightarrow> b)\<rparr>"

record authz_context =
  ac_scopes :: "codepoints set"
  ac_has_user_claim :: bool

record context_config =
  cc_scopes :: "codepoints list option"
  cc_has_user_claim :: "bool option"

definition authz_context_from_dict :: "context_config \<Rightarrow> authz_context" where
  "authz_context_from_dict d =
     \<lparr>ac_scopes = set (case cc_scopes d of None \<Rightarrow> [] | Some xs \<Rightarrow> xs),
      ac_has_user_claim = (case cc_has_user_claim d of None \<Rightarrow> False | Some b \<Rightarrow> b)\<rparr>"

datatype authz_error =
    ConfusedDeputyError codepoints
  | InsufficientScopeError codepoints "codepoints set"
  | AuthzLookupError codepoints

record authz_enforcer =
  az_policies :: "codepoints \<rightharpoonup> tool_policy"
  az_allow_unconfigured :: bool

definition new_authz :: "bool \<Rightarrow> authz_enforcer" where
  "new_authz allow_unconfigured =
     \<lparr>az_policies = Map.empty, az_allow_unconfigured = allow_unconfigured\<rparr>"

definition register_policy :: "codepoints \<Rightarrow> tool_policy \<Rightarrow> authz_enforcer \<Rightarrow> authz_enforcer" where
  "register_policy tool_name policy az =
     az\<lparr>az_policies := (az_policies az)(tool_name \<mapsto> policy)\<rparr>"

fun register_policies :: "(codepoints \<times> policy_config) list \<Rightarrow> authz_enforcer \<Rightarrow> authz_enforcer" where
  "register_policies [] az = az"
| "register_policies ((tool_name, policy_dict) # policies) az =
     register_policies policies
       (az\<lparr>az_policies := (az_policies az)(tool_name \<mapsto> tool_policy_from_dict policy_dict)\<rparr>)"

definition authz_check :: "authz_enforcer \<Rightarrow> codepoints \<Rightarrow> authz_context \<Rightarrow> authz_error + unit" where
  "authz_check az tool_name context =
     (case az_policies az tool_name of
        None \<Rightarrow> (if az_allow_unconfigured az then Inr () else Inl (AuthzLookupError tool_name))
      | Some policy \<Rightarrow>
          (if tp_user_only policy \<and> \<not> ac_has_user_claim context
           then Inl (ConfusedDeputyError tool_name)
           else let missing = tp_required_scopes policy - ac_scopes context
                in if missing \<noteq> {} then Inl (InsufficientScopeError tool_name missing)
                   else Inr ()))"

text \<open>
  The promise of the component, stated without the code's control flow: a policy table
  \<open>access\<close> that grants a call, and which error explains a refusal.
\<close>

definition policy_grants :: "tool_policy \<Rightarrow> authz_context \<Rightarrow> bool" where
  "policy_grants p ctx \<longleftrightarrow>
     (tp_user_only p \<longrightarrow> ac_has_user_claim ctx) \<and> tp_required_scopes p \<subseteq> ac_scopes ctx"

lemma authz_check_granted:
  "authz_check az tool ctx = Inr () \<longleftrightarrow>
     (case az_policies az tool of None \<Rightarrow> az_allow_unconfigured az | Some p \<Rightarrow> policy_grants p ctx)"
  by (auto simp: authz_check_def policy_grants_def Let_def split: option.splits)

lemma register_policies_append:
  "register_policies (xs @ ys) az = register_policies ys (register_policies xs az)"
  by (induction xs az rule: register_policies.induct) auto

lemma register_policies_allow [simp]:
  "az_allow_unconfigured (register_policies ps az) = az_allow_unconfigured az"
  by (induction ps az rule: register_policies.induct) auto

lemma register_policies_lookup:
  "az_policies (register_policies ps az) tool =
     (case map_of (rev ps) tool of
        None \<Rightarrow> az_policies az tool
      | Some d \<Rightarrow> Some (tool_policy_from_dict d))"
  by (induction ps az rule: register_policies.induct)
     (auto simp: map_of_append map_add_def split: option.splits)

text \<open>C3. The access decision of a deployment configured by \<open>register_policies\<close>. A tool is
  decided by its last registered policy: the call passes exactly when that policy grants
  it (user claim where required, and every required scope held). A tool with no policy is
  refused with a lookup error unless unconfigured tools were allowed. A refusal names the
  cause: the confused-deputy check comes first, and a scope refusal reports exactly the
  missing scopes, which are not empty.\<close>

theorem authz_decision:
  "let az = register_policies ps (new_authz allow); r = authz_check az tool ctx in
   case map_of (rev ps) tool of
     None \<Rightarrow> r = (if allow then Inr () else Inl (AuthzLookupError tool))
   | Some d \<Rightarrow>
       (let p = tool_policy_from_dict d in
          (r = Inr () \<longleftrightarrow> policy_grants p ctx) \<and>
          (r = Inl (ConfusedDeputyError tool) \<longleftrightarrow> tp_user_only p \<and> \<not> ac_has_user_claim ctx) \<and>
          (\<forall>missing. r = Inl (InsufficientScopeError tool missing) \<longleftrightarrow>
             \<not> (tp_user_only p \<and> \<not> ac_has_user_claim ctx) \<and>
             missing = tp_required_scopes p - ac_scopes ctx \<and> missing \<noteq> {}))"
  by (auto simp: authz_check_def register_policies_lookup new_authz_def policy_grants_def Let_def
        split: option.splits)

lemma policy_grants_mono:
  "policy_grants p ctx \<Longrightarrow> ac_scopes ctx \<subseteq> ac_scopes ctx' \<Longrightarrow>
     (ac_has_user_claim ctx \<longrightarrow> ac_has_user_claim ctx') \<Longrightarrow> policy_grants p ctx'"
  by (auto simp: policy_grants_def)

end
