(* ===== verification/Resources.thy ===== *)
theory Resources
  imports Cosai_Prelude
begin

text \<open>
  \<open>middleware/resources.py\<close>: the call budget, the recursive-call detector and the progress
  monitor of T10. \<open>time.monotonic()\<close> readings are arguments; each method body runs under
  its lock and is one function on the state.
\<close>

section \<open>Call budget\<close>

datatype budget_error = CallsExceeded int int | WallExceeded time time

record budget =
  bg_max_calls :: int
  bg_max_wall :: time
  bg_call_count :: int
  bg_start_time :: "time option"

definition new_budget :: "int \<Rightarrow> time \<Rightarrow> budget" where
  "new_budget max_calls max_wall =
     \<lparr>bg_max_calls = max_calls, bg_max_wall = max_wall, bg_call_count = 0, bg_start_time = None\<rparr>"

text \<open>\<open>now1\<close> is the reading taken when the clock starts, \<open>now2\<close> the one of the elapsed time.\<close>

definition budget_record_call :: "time \<Rightarrow> time \<Rightarrow> budget \<Rightarrow> (budget_error + unit) \<times> budget" where
  "budget_record_call now1 now2 b =
     (let start = (case bg_start_time b of None \<Rightarrow> now1 | Some t \<Rightarrow> t);
          n = bg_call_count b + 1;
          b' = b\<lparr>bg_start_time := Some start, bg_call_count := n\<rparr>
      in if n > bg_max_calls b then (Inl (CallsExceeded n (bg_max_calls b)), b')
         else if bg_max_wall b > 0 then
           (let elapsed = now2 - start
            in if elapsed > bg_max_wall b then (Inl (WallExceeded elapsed (bg_max_wall b)), b')
               else (Inr (), b'))
         else (Inr (), b'))"

text \<open>A session's calls, each with its two clock readings, and their outcomes in order.\<close>

fun budget_session :: "(time \<times> time) list \<Rightarrow> budget \<Rightarrow> (budget_error + unit) list" where
  "budget_session [] b = []"
| "budget_session ((now1, now2) # calls) b =
     fst (budget_record_call now1 now2 b) #
       budget_session calls (snd (budget_record_call now1 now2 b))"

lemma budget_record_call_state:
  "snd (budget_record_call now1 now2 b) =
     b\<lparr>bg_start_time := Some (case bg_start_time b of None \<Rightarrow> now1 | Some t \<Rightarrow> t),
       bg_call_count := bg_call_count b + 1\<rparr>"
  by (simp add: budget_record_call_def Let_def)

lemma budget_record_call_fields [simp]:
  "bg_max_calls (snd (budget_record_call now1 now2 b)) = bg_max_calls b"
  "bg_max_wall (snd (budget_record_call now1 now2 b)) = bg_max_wall b"
  "bg_call_count (snd (budget_record_call now1 now2 b)) = bg_call_count b + 1"
  "bg_start_time (snd (budget_record_call now1 now2 b)) =
     Some (case bg_start_time b of None \<Rightarrow> now1 | Some t \<Rightarrow> t)"
  by (simp_all add: budget_record_call_state)

text \<open>The outcome of the \<open>n\<close>-th call of a session that started at \<open>start\<close>.\<close>

definition budget_outcome :: "int \<Rightarrow> time \<Rightarrow> int \<Rightarrow> time \<Rightarrow> budget_error + unit" where
  "budget_outcome max_calls max_wall n elapsed =
     (if n > max_calls then Inl (CallsExceeded n max_calls)
      else if max_wall > 0 \<and> elapsed > max_wall then Inl (WallExceeded elapsed max_wall)
      else Inr ())"

lemma budget_record_call_outcome:
  "fst (budget_record_call now1 now2 b) =
     budget_outcome (bg_max_calls b) (bg_max_wall b) (bg_call_count b + 1)
       (now2 - (case bg_start_time b of None \<Rightarrow> now1 | Some t \<Rightarrow> t))"
  by (simp add: budget_record_call_def budget_outcome_def Let_def)

lemma budget_session_nth:
  "i < length calls \<Longrightarrow>
     budget_session calls b ! i =
       budget_outcome (bg_max_calls b) (bg_max_wall b) (bg_call_count b + int i + 1)
         (snd (calls ! i) - (case bg_start_time b of None \<Rightarrow> fst (calls ! 0) | Some t \<Rightarrow> t))"
proof (induction calls arbitrary: i b)
  case Nil
  then show ?case by simp
next
  case (Cons call calls)
  obtain now1 now2 where call: "call = (now1, now2)" by (cases call)
  show ?case
  proof (cases i)
    case 0
    then show ?thesis by (simp add: call budget_record_call_outcome split: option.split)
  next
    case (Suc j)
    with Cons.prems Cons.IH [of j "snd (budget_record_call now1 now2 b)"] show ?thesis
      by (simp add: call add.assoc split: option.split)
  qed
qed

text \<open>C4. The budget over a whole session of a fresh enforcer: the \<open>i\<close>-th call (from 0) is
  allowed exactly when it is within the call limit and, if a wall limit is set, the time
  since the first call is within it. So never more than \<open>max_calls\<close> calls pass, and the
  first one over the limit raises with its own number.\<close>

theorem budget_session_outcomes:
  "\<forall>i < length calls.
     (let r = budget_session calls (new_budget max_calls max_wall) ! i;
          elapsed = snd (calls ! i) - fst (calls ! 0)
      in (r = Inr () \<longleftrightarrow> int i < max_calls \<and> (max_wall > 0 \<longrightarrow> elapsed \<le> max_wall)) \<and>
         (int i \<ge> max_calls \<longrightarrow> r = Inl (CallsExceeded (int i + 1) max_calls)))"
  by (auto simp: budget_session_nth new_budget_def budget_outcome_def Let_def)

theorem budget_session_outcomes_witness:
  "budget_session [(0, 0), (0, 1), (0, 2)] (new_budget 2 0) ! 2 = Inl (CallsExceeded 3 2)"
proof -
  have "\<forall>i < length [(0::time, 0::time), (0, 1), (0, 2)].
     (let r = budget_session [(0, 0), (0, 1), (0, 2)] (new_budget 2 0) ! i;
          elapsed = snd ([(0::time, 0::time), (0, 1), (0, 2)] ! i) - fst ([(0::time, 0::time), (0, 1), (0, 2)] ! 0)
      in (r = Inr () \<longleftrightarrow> int i < 2 \<and> ((0::time) > 0 \<longrightarrow> elapsed \<le> 0)) \<and>
         (int i \<ge> 2 \<longrightarrow> r = Inl (CallsExceeded (int i + 1) 2)))"
    by (rule budget_session_outcomes)
  then show ?thesis by (elim allE [where x = 2]) (simp add: Let_def)
qed

section \<open>Recursive-call detection\<close>




definition parent_of :: "(string, string option) dict \<Rightarrow> string \<Rightarrow> string option" where
  "parent_of parents e = Option.bind (map_of parents e) (\<lambda>p. p)"

lemma finite_dom_parent_of [simp]: "finite (dom (parent_of parents))"
proof (rule finite_subset)
  show "dom (parent_of parents) \<subseteq> dom (map_of parents)"
    by (auto simp: parent_of_def bind_eq_Some_conv)
qed (simp add: finite_dom_map_of)

text \<open>
  The loop of \<open>_compute_depth\<close>. It ends on every parent dictionary, cyclic ones included:
  each iteration visits an entry that has a parent and was not visited, or leaves a
  visited one for a parent that was not.
\<close>

function depth_walk ::
  "(string, string option) dict \<Rightarrow> string \<Rightarrow> string set \<Rightarrow> nat \<Rightarrow> nat" where
  "depth_walk parents current seen depth =
     (case parent_of parents current of
        None \<Rightarrow> depth
      | Some parent \<Rightarrow>
          if parent \<in> seen then depth
          else depth_walk parents parent (insert current seen) (depth + 1))"
  by pat_completeness auto
termination
proof (relation "measure (\<lambda>(parents, current, seen, depth).
         2 * card (dom (parent_of parents) - seen) + (if current \<in> seen then 1 else 0))")
  fix parents :: "(string, string option) dict" and current seen parent
  fix depth :: nat
  assume p: "parent_of parents current = Some parent" and new: "parent \<notin> seen"
  let ?D = "dom (parent_of parents)"
  show "((parents, parent, insert current seen, depth + 1), (parents, current, seen, depth))
        \<in> measure (\<lambda>(parents, current, seen, depth).
            2 * card (dom (parent_of parents) - seen) + (if current \<in> seen then 1 else 0))"
  proof (cases "current \<in> seen")
    case True
    with new show ?thesis by (auto simp: insert_absorb)
  next
    case False
    with p have "card (?D - insert current seen) < card (?D - seen)"
      by (intro psubset_card_mono) auto
    with False show ?thesis by simp
  qed
qed simp

declare depth_walk.simps [simp del]

definition compute_depth :: "(string, string option) dict \<Rightarrow> string \<Rightarrow> nat" where
  "compute_depth parents entry_id = depth_walk parents entry_id {} 1"



text \<open>The specification: the length of the chain from an entry back to a root.\<close>

inductive chain_length :: "(string, string option) dict \<Rightarrow> string \<Rightarrow> nat \<Rightarrow> bool"
  for parents where
  root: "parent_of parents e = None \<Longrightarrow> chain_length parents e 1"
| child: "parent_of parents e = Some p \<Longrightarrow> chain_length parents p n \<Longrightarrow>
            chain_length parents e (Suc n)"

inductive_cases chain_length_rootE: "chain_length parents e (Suc 0)"




lemma depth_walk_bound:
  "depth_walk parents current seen d \<le> d + card (dom (parent_of parents) - seen) +
     (if current \<in> seen \<and> \<not> (\<exists>p. parent_of parents current = Some p \<and> p \<in> seen) then 1 else 0)"
proof (induction parents current seen d rule: depth_walk.induct)
  case (1 parents current seen d)
  let ?D = "dom (parent_of parents)"
  show ?case
  proof (cases "\<exists>p. parent_of parents current = Some p \<and> p \<notin> seen")
    case False
    then show ?thesis by (subst depth_walk.simps) (auto split: option.splits)
  next
    case True
    then obtain p where p: "parent_of parents current = Some p" and new: "p \<notin> seen" by auto
    have step: "depth_walk parents current seen d = depth_walk parents p (insert current seen) (d + 1)"
      using p new by (subst depth_walk.simps) simp
    have less: "current \<notin> seen \<Longrightarrow> card (?D - insert current seen) < card (?D - seen)"
      using p by (intro psubset_card_mono) auto
    show ?thesis
      using 1 [OF p new] p new less step by (auto simp: insert_absorb split: if_splits)
  qed
qed

text \<open>C5. \<open>compute_depth\<close> always returns, also on a parent table with cycles: the depth it
  reports is at least 1 and at most the number of recorded entries plus 1.\<close>

theorem compute_depth_bounds:
  "1 \<le> compute_depth parents e \<and> compute_depth parents e \<le> length parents + 1"
proof
  have "d \<le> depth_walk parents current seen d" for current seen d
    by (induction parents current seen d rule: depth_walk.induct)
       (subst depth_walk.simps, fastforce split: option.splits)
  then show "1 \<le> compute_depth parents e" by (simp add: compute_depth_def)
  have "dom (parent_of parents) \<subseteq> fst ` set parents"
    by (force simp: parent_of_def bind_eq_Some_conv dest: map_of_SomeD)
  then have "card (dom (parent_of parents)) \<le> card (fst ` set parents)"
    by (intro card_mono) auto
  also have "\<dots> \<le> length parents"
    using card_length [of "map fst parents"] by simp
  finally show "compute_depth parents e \<le> length parents + 1"
    using depth_walk_bound [of parents e "{}" 1] by (simp add: compute_depth_def)
qed















section \<open>Progress monitor\<close>

text \<open>
  \<open>HeartbeatMonitor\<close> keeps one event flag per tool. Blocking in \<open>event.wait\<close> is modelled by
  what the waiting thread cannot see: \<open>arrives\<close> says whether another thread sets the flag
  within the timeout.
\<close>

datatype heartbeat_error = MissingHeartbeatError string time

type_synonym heartbeat = "string \<rightharpoonup> bool"

definition notify_progress :: "string \<Rightarrow> heartbeat \<Rightarrow> heartbeat" where
  "notify_progress tool_name events =
     (let events' = (if events tool_name = None then events(tool_name \<mapsto> False) else events)
      in events'(tool_name \<mapsto> True))"

definition expect_progress :: "bool \<Rightarrow> string \<Rightarrow> time \<Rightarrow> heartbeat \<Rightarrow> (heartbeat_error + unit) \<times> heartbeat" where
  "expect_progress arrives tool_name timeout events =
     (let events' = (if events tool_name = None then events(tool_name \<mapsto> False) else events);
          events'' = (if arrives then events'(tool_name \<mapsto> True) else events')
      in if events'' tool_name = Some True then (Inr (), events'')
         else (Inl (MissingHeartbeatError tool_name timeout), events''))"

definition reset_progress :: "string \<Rightarrow> heartbeat \<Rightarrow> heartbeat" where
  "reset_progress tool_name events =
     (if events tool_name = None then events else events(tool_name \<mapsto> False))"

lemma expect_after_notify: "fst (expect_progress a t d (notify_progress t ev)) = Inr ()"
  by (simp add: expect_progress_def notify_progress_def Let_def)

lemma expect_after_reset:
  "fst (expect_progress a t d (reset_progress t ev)) = Inr () \<longleftrightarrow> a"
  by (auto simp: expect_progress_def reset_progress_def Let_def)

lemma progress_frame:
  "u \<noteq> t \<Longrightarrow> notify_progress t ev u = ev u"
  "u \<noteq> t \<Longrightarrow> snd (expect_progress a t d ev) u = ev u"
  "u \<noteq> t \<Longrightarrow> reset_progress t ev u = ev u"
  by (simp_all add: notify_progress_def expect_progress_def reset_progress_def Let_def)

end
