(* ===== verification/Handles.thy ===== *)
theory Handles
  imports Cosai_Prelude
begin

text \<open>
  \<open>HandleRegistry\<close> of \<open>middleware/state.py\<close>: opaque server-held references. A handle is a
  dictionary key; the CSPRNG token is the argument \<open>tok\<close> of \<open>mint\<close>, the clock the
  argument \<open>now\<close>. An argument that is not a string is \<open>None\<close>. The \<open>on_revoke\<close> callback is the
  caller's: it is a predicate telling for which records it returns normally, and the model
  returns the list of records it is run on.
\<close>

record handle_record =
  hr_handle :: string
  hr_principal :: string
  hr_tenant :: string
  hr_kind :: string
  hr_created_at :: time
  hr_expires_at :: time

datatype handle_error =
    HandleError
  | HandleValueError string
  | HandleRuntimeError string
  | OnRevokeFailed nat nat

record handle_registry =
  hg_records :: "(string, handle_record) dict"
  hg_max :: int
  hg_max_per_principal :: int
  hg_counts :: "(string \<times> string) counts"
  hg_max_per_tenant :: int
  hg_tenant_counts :: "string counts"
  hg_next_purge :: time
  hg_max_ttl :: int

definition owner_floor :: int where
  "owner_floor = 8"

definition new_registry :: "int \<Rightarrow> int \<Rightarrow> int option \<Rightarrow> int \<Rightarrow> handle_registry" where
  "new_registry max_handles max_per_principal max_per_tenant max_ttl =
     \<lparr>hg_records = [], hg_max = max_handles, hg_max_per_principal = max_per_principal,
      hg_counts = Map.empty,
      hg_max_per_tenant = (case max_per_tenant of Some m \<Rightarrow> m | None \<Rightarrow> max 1 (max_handles div 4)),
      hg_tenant_counts = Map.empty, hg_next_purge = 0, hg_max_ttl = max_ttl\<rparr>"

abbreviation owner_of :: "handle_record \<Rightarrow> string \<times> string" where
  "owner_of r \<equiv> (hr_principal r, hr_tenant r)"

definition drop_handle :: "string \<Rightarrow> handle_registry \<Rightarrow> handle_record option \<times> handle_registry" where
  "drop_handle handle reg =
     (case map_of (hg_records reg) handle of
        None \<Rightarrow> (None, reg)
      | Some rec \<Rightarrow>
          (Some rec, reg\<lparr>hg_records := AList.delete handle (hg_records reg),
             hg_counts := decrement (hg_counts reg) (owner_of rec),
             hg_tenant_counts := decrement (hg_tenant_counts reg) (hr_tenant rec)\<rparr>))"

definition purge :: "time \<Rightarrow> bool \<Rightarrow> handle_registry \<Rightarrow> handle_registry" where
  "purge now force reg =
     (if \<not> force \<and> now < hg_next_purge reg then reg
      else fold (\<lambda>h reg. snd (drop_handle h reg))
             (map fst (filter (\<lambda>(h, r). hr_expires_at r \<le> now) (hg_records reg)))
             (reg\<lparr>hg_next_purge := now + 1\<rparr>))"

text \<open>The records the callback ran on, and the error raised after the last one.\<close>

definition notify :: "(handle_record \<Rightarrow> bool) option \<Rightarrow> handle_record list \<Rightarrow>
    handle_record list \<times> (handle_error + unit)" where
  "notify on_revoke records =
     (case on_revoke of
        None \<Rightarrow> ([], Inr ())
      | Some cb \<Rightarrow>
          (let failures = length (filter (\<lambda>r. \<not> cb r) records)
           in (records, if failures > 0 then Inl (OnRevokeFailed failures (length records)) else Inr ())))"

text \<open>\<open>mint\<close> runs three admission checks, each of which may sweep expired entries first.\<close>

definition admit_total :: "time \<Rightarrow> string \<times> string \<Rightarrow> handle_registry \<Rightarrow>
    (handle_error + unit) \<times> handle_registry" where
  "admit_total now owner reg =
     (let reg1 = purge now False reg;
          reg2 = (if int (length (hg_records reg1)) \<ge> hg_max reg1 then purge now True reg1 else reg1);
          mine = cget (hg_counts reg2) owner
      in if int (length (hg_records reg2)) \<ge> hg_max reg2 \<and>
            (mine \<ge> owner_floor \<or> int (length (hg_records reg2)) \<ge> 2 * hg_max reg2)
         then (Inl (HandleRuntimeError ''handle registry is full''), reg2)
         else (Inr (), reg2))"

definition admit_owner :: "time \<Rightarrow> string \<times> string \<Rightarrow> handle_registry \<Rightarrow>
    (handle_error + unit) \<times> handle_registry" where
  "admit_owner now owner reg =
     (if cget (hg_counts reg) owner \<ge> hg_max_per_principal reg then
        let reg' = purge now True reg
        in if cget (hg_counts reg') owner \<ge> hg_max_per_principal reg'
           then (Inl (HandleRuntimeError ''handle limit reached for this principal''), reg')
           else (Inr (), reg')
      else (Inr (), reg))"

definition admit_tenant :: "time \<Rightarrow> string \<times> string \<Rightarrow> handle_registry \<Rightarrow>
    (handle_error + unit) \<times> handle_registry" where
  "admit_tenant now owner reg =
     (if cget (hg_tenant_counts reg) (snd owner) \<ge> hg_max_per_tenant reg then
        let reg' = purge now True reg;
            in_tenant = cget (hg_tenant_counts reg') (snd owner)
        in if in_tenant \<ge> hg_max_per_tenant reg' \<and>
              (cget (hg_counts reg') owner \<ge> owner_floor \<or> in_tenant \<ge> 2 * hg_max_per_tenant reg')
           then (Inl (HandleRuntimeError ''handle limit reached for this tenant''), reg')
           else (Inr (), reg')
      else (Inr (), reg))"

definition store_record :: "handle_record \<Rightarrow> handle_registry \<Rightarrow> handle_registry" where
  "store_record r reg =
     reg\<lparr>hg_counts := increment (hg_counts reg) (owner_of r),
         hg_tenant_counts := increment (hg_tenant_counts reg) (hr_tenant r),
         hg_records := AList.update (hr_handle r) r (hg_records reg)\<rparr>"

definition new_record :: "string \<Rightarrow> time \<Rightarrow> string \<Rightarrow> string \<Rightarrow> string \<Rightarrow> int \<Rightarrow> handle_record" where
  "new_record tok now prin tenant kind ttl_seconds =
     \<lparr>hr_handle = tok, hr_principal = prin, hr_tenant = tenant, hr_kind = kind,
      hr_created_at = now, hr_expires_at = now + of_int ttl_seconds\<rparr>"

definition mint :: "string \<Rightarrow> time \<Rightarrow> string \<Rightarrow> string \<Rightarrow> string \<Rightarrow> int \<Rightarrow> handle_registry \<Rightarrow>
    (handle_error + string) \<times> handle_registry" where
  "mint tok now prin tenant kind ttl_seconds reg =
     (if prin = [] \<or> tenant = [] then
        (Inl (HandleValueError ''principal and tenant are required''), reg)
      else if \<not> (0 < ttl_seconds \<and> ttl_seconds \<le> hg_max_ttl reg) then
        (Inl (HandleValueError ''ttl_seconds must be 1..max_ttl''), reg)
      else
        case admit_total now (prin, tenant) reg of (Inl e, reg1) \<Rightarrow> (Inl e, reg1) | (Inr _, reg1) \<Rightarrow>
        (case admit_owner now (prin, tenant) reg1 of (Inl e, reg2) \<Rightarrow> (Inl e, reg2) | (Inr _, reg2) \<Rightarrow>
        (case admit_tenant now (prin, tenant) reg2 of (Inl e, reg3) \<Rightarrow> (Inl e, reg3) | (Inr _, reg3) \<Rightarrow>
           (Inr tok, store_record (new_record tok now prin tenant kind ttl_seconds) reg3))))"

definition resolve :: "string option \<Rightarrow> time \<Rightarrow> string \<Rightarrow> string \<Rightarrow> string option \<Rightarrow> handle_registry \<Rightarrow>
    (handle_error + handle_record) \<times> handle_registry" where
  "resolve handle now prin tenant kind reg =
     (case handle of
        None \<Rightarrow> (Inl HandleError, reg)
      | Some h \<Rightarrow>
          if length h > 256 then (Inl HandleError, reg)
          else
            let rec0 = map_of (hg_records reg) h;
                expired = (case rec0 of None \<Rightarrow> False | Some r \<Rightarrow> hr_expires_at r \<le> now);
                reg' = (if expired then snd (drop_handle h reg) else reg);
                rec = (if expired then None else rec0)
            in (case rec of
                  None \<Rightarrow> (Inl HandleError, reg')
                | Some r \<Rightarrow>
                    if prin \<noteq> hr_principal r \<or> tenant \<noteq> hr_tenant r \<or>
                       (\<exists>k. kind = Some k \<and> hr_kind r \<noteq> k)
                    then (Inl HandleError, reg') else (Inr r, reg')))"

text \<open>Revocations also return the records the callback ran on.\<close>

definition admin_revoke :: "(handle_record \<Rightarrow> bool) option \<Rightarrow> string option \<Rightarrow> handle_registry \<Rightarrow>
    (handle_error + bool) \<times> handle_record list \<times> handle_registry" where
  "admin_revoke on_revoke handle reg =
     (let (rec, reg') = (case handle of None \<Rightarrow> (None, reg) | Some h \<Rightarrow> drop_handle h reg)
      in (case rec of
            None \<Rightarrow> (Inr False, [], reg')
          | Some r \<Rightarrow>
              (let (ran, out) = notify on_revoke [r]
               in (case out of Inl e \<Rightarrow> (Inl e, ran, reg') | Inr _ \<Rightarrow> (Inr True, ran, reg')))))"

definition revoke :: "(handle_record \<Rightarrow> bool) option \<Rightarrow> string option \<Rightarrow> time \<Rightarrow> string \<Rightarrow> string \<Rightarrow>
    handle_registry \<Rightarrow> (handle_error + bool) \<times> handle_record list \<times> handle_registry" where
  "revoke on_revoke handle now prin tenant reg =
     (case resolve handle now prin tenant None reg of
        (Inl e, reg') \<Rightarrow> (Inl e, [], reg')
      | (Inr r, reg') \<Rightarrow> admin_revoke on_revoke (Some (hr_handle r)) reg')"

definition owned_by :: "string \<Rightarrow> string option \<Rightarrow> handle_record \<Rightarrow> bool" where
  "owned_by prin tenant r \<longleftrightarrow>
     hr_principal r = prin \<and> (case tenant of None \<Rightarrow> True | Some t \<Rightarrow> hr_tenant r = t)"

definition revoke_principal :: "(handle_record \<Rightarrow> bool) option \<Rightarrow> string \<Rightarrow> string option \<Rightarrow>
    handle_registry \<Rightarrow> (handle_error + handle_record list) \<times> handle_record list \<times> handle_registry" where
  "revoke_principal on_revoke prin tenant reg =
     (let doomed = filter (owned_by prin tenant) (map snd (hg_records reg));
          reg' = fold (\<lambda>r reg. snd (drop_handle (hr_handle r) reg)) doomed reg;
          (ran, out) = notify on_revoke doomed
      in (case out of Inl e \<Rightarrow> (Inl e, ran, reg') | Inr _ \<Rightarrow> (Inr doomed, ran, reg')))"

definition list_for_principal :: "time \<Rightarrow> string \<Rightarrow> string option \<Rightarrow> handle_registry \<Rightarrow>
    handle_record list \<times> handle_registry" where
  "list_for_principal now prin tenant reg =
     (let reg' = purge now True reg
      in (filter (owned_by prin tenant) (map snd (hg_records reg')), reg'))"

section \<open>The registry invariant\<close>

text \<open>
  Both counter dictionaries agree with the records, every record sits under its own handle,
  and the three caps hold: twice the registry and tenant limits (owners below the floor are
  let in above the limit), and the plain per-principal limit.
\<close>

definition registry_consistent :: "handle_registry \<Rightarrow> bool" where
  "registry_consistent reg \<longleftrightarrow>
     dict_ok (hg_records reg) \<and>
     (\<forall>(h, r) \<in> set (hg_records reg). hr_handle r = h) \<and>
     counts_ok owner_of (hg_counts reg) (hg_records reg) \<and>
     counts_ok hr_tenant (hg_tenant_counts reg) (hg_records reg)"

definition owned :: "string \<times> string \<Rightarrow> handle_registry \<Rightarrow> nat" where
  "owned owner reg = vcount (\<lambda>r. owner_of r = owner) (hg_records reg)"

definition in_tenant :: "string \<Rightarrow> handle_registry \<Rightarrow> nat" where
  "in_tenant tenant reg = vcount (\<lambda>r. hr_tenant r = tenant) (hg_records reg)"

definition registry_capped :: "handle_registry \<Rightarrow> bool" where
  "registry_capped reg \<longleftrightarrow>
     int (length (hg_records reg)) \<le> max 0 (2 * hg_max reg) \<and>
     (\<forall>owner. int (owned owner reg) \<le> max 0 (hg_max_per_principal reg)) \<and>
     (\<forall>tenant. int (in_tenant tenant reg) \<le> max 0 (2 * hg_max_per_tenant reg))"

lemma registry_gets:
  assumes "registry_consistent reg"
  shows "cget (hg_counts reg) owner = int (owned owner reg)"
    and "cget (hg_tenant_counts reg) tenant = int (in_tenant tenant reg)"
  using assms by (simp_all add: registry_consistent_def owned_def in_tenant_def counts_ok_get)

text \<open>What shrinking a registry keeps: a later state whose records are among the earlier ones.\<close>

definition shrinks :: "handle_registry \<Rightarrow> handle_registry \<Rightarrow> bool" where
  "shrinks reg reg' \<longleftrightarrow>
     registry_consistent reg' \<and>
     (\<exists>P. hg_records reg' = filter P (hg_records reg)) \<and>
     hg_max reg' = hg_max reg \<and> hg_max_per_principal reg' = hg_max_per_principal reg \<and>
     hg_max_per_tenant reg' = hg_max_per_tenant reg \<and> hg_max_ttl reg' = hg_max_ttl reg"

lemma shrinks_refl: "registry_consistent reg \<Longrightarrow> shrinks reg reg"
  by (auto simp: shrinks_def intro: exI [where x = "\<lambda>_. True"])

lemma shrinks_trans: "shrinks a b \<Longrightarrow> shrinks b c \<Longrightarrow> shrinks a c"
  unfolding shrinks_def by (auto simp: filter_filter)

lemma vcount_filter_le: "vcount P (filter Q d) \<le> vcount P d"
  by (induction d) auto

lemma shrinks_le:
  assumes "shrinks reg reg'"
  shows "length (hg_records reg') \<le> length (hg_records reg)"
    and "owned owner reg' \<le> owned owner reg"
    and "in_tenant tenant reg' \<le> in_tenant tenant reg"
  using assms by (auto simp: shrinks_def owned_def in_tenant_def vcount_filter_le)

lemma shrinks_capped: "shrinks reg reg' \<Longrightarrow> registry_capped reg \<Longrightarrow> registry_capped reg'"
proof -
  assume s: "shrinks reg reg'" and c: "registry_capped reg"
  note le = shrinks_le [OF s]
  from s have "hg_max reg' = hg_max reg" "hg_max_per_principal reg' = hg_max_per_principal reg"
    "hg_max_per_tenant reg' = hg_max_per_tenant reg" by (simp_all add: shrinks_def)
  with c show ?thesis
    unfolding registry_capped_def
    by (metis le(1) le(2) le(3) of_nat_mono order_trans)
qed

lemma drop_handle_records [simp]:
  "hg_records (snd (drop_handle h reg)) = AList.delete h (hg_records reg)"
  by (auto simp: drop_handle_def map_of_eq_None_iff split: option.splits)

lemma drop_handle_fst [simp]: "fst (drop_handle h reg) = map_of (hg_records reg) h"
  by (simp add: drop_handle_def split: option.splits)

lemma drop_handle_fields [simp]:
  "hg_max (snd (drop_handle h reg)) = hg_max reg"
  "hg_max_per_principal (snd (drop_handle h reg)) = hg_max_per_principal reg"
  "hg_max_per_tenant (snd (drop_handle h reg)) = hg_max_per_tenant reg"
  "hg_max_ttl (snd (drop_handle h reg)) = hg_max_ttl reg"
  by (simp_all add: drop_handle_def split: option.splits)

lemma drop_handle_shrinks:
  assumes "registry_consistent reg"
  shows "shrinks reg (snd (drop_handle h reg))"
proof (cases "map_of (hg_records reg) h")
  case None
  then show ?thesis using assms by (simp add: drop_handle_def shrinks_refl)
next
  case (Some r)
  then have "snd (drop_handle h reg) = reg\<lparr>hg_records := AList.delete h (hg_records reg),
      hg_counts := decrement (hg_counts reg) (owner_of r),
      hg_tenant_counts := decrement (hg_tenant_counts reg) (hr_tenant r)\<rparr>"
    by (simp add: drop_handle_def)
  moreover have "AList.delete h (hg_records reg) = filter (\<lambda>(k, _). h \<noteq> k) (hg_records reg)"
    by (simp add: AList.delete_eq)
  ultimately show ?thesis
    using assms Some
    by (auto simp: shrinks_def registry_consistent_def counts_ok_decrement distinct_delete
        dest: counts_ok_decrement [where own = owner_of] counts_ok_decrement [where own = hr_tenant])
qed

text \<open>Dropping a list of handles, as the sweeps and \<open>revoke_principal\<close> do.\<close>

definition drop_all :: "string list \<Rightarrow> handle_registry \<Rightarrow> handle_registry" where
  "drop_all hs reg = fold (\<lambda>h reg. snd (drop_handle h reg)) hs reg"

lemma drop_all_shrinks: "registry_consistent reg \<Longrightarrow> shrinks reg (drop_all hs reg)"
proof (induction hs arbitrary: reg)
  case Nil
  then show ?case by (simp add: drop_all_def shrinks_refl)
next
  case (Cons h hs)
  have "shrinks reg (snd (drop_handle h reg))"
    using Cons.prems by (rule drop_handle_shrinks)
  moreover from this have "shrinks (snd (drop_handle h reg)) (drop_all hs (snd (drop_handle h reg)))"
    by (intro Cons.IH) (simp add: shrinks_def)
  ultimately show ?case
    by (simp add: drop_all_def) (rule shrinks_trans)
qed

lemma drop_all_records:
  "hg_records (drop_all hs reg) = filter (\<lambda>(h, r). h \<notin> set hs) (hg_records reg)"
  by (induction hs arbitrary: reg) (auto simp: drop_all_def AList.delete_eq filter_filter intro!: filter_cong)

lemma drop_all_handles:
  assumes "\<forall>(h, r) \<in> set d. hr_handle r = h"
  shows "fold (\<lambda>r reg. snd (drop_handle (hr_handle r) reg)) (filter P (map snd d)) reg
       = drop_all (map fst (filter (\<lambda>(h, r). P r) d)) reg"
  using assms by (induction d arbitrary: reg) (auto simp: drop_all_def)

lemma drop_all_filter:
  assumes "dict_ok (hg_records reg)"
  shows "hg_records (drop_all (map fst (filter (\<lambda>(h, r). P r) (hg_records reg))) reg)
       = filter (\<lambda>(h, r). \<not> P r) (hg_records reg)"
  unfolding drop_all_records
proof (rule filter_cong [OF refl])
  fix e assume e: "e \<in> set (hg_records reg)"
  obtain h r where hr: "e = (h, r)" by (cases e)
  have "h \<in> set (map fst (filter (\<lambda>(h, r). P r) (hg_records reg))) \<longleftrightarrow> P r"
  proof
    assume "h \<in> set (map fst (filter (\<lambda>(h, r). P r) (hg_records reg)))"
    then obtain r' where "(h, r') \<in> set (hg_records reg)" and "P r'" by auto
    with e hr eq_key_imp_eq_value [OF assms] show "P r" by blast
  next
    assume "P r"
    with e hr show "h \<in> set (map fst (filter (\<lambda>(h, r). P r) (hg_records reg)))"
      by (simp add: image_iff) blast
  qed
  with hr show "(case e of (h, r) \<Rightarrow> h \<notin> set (map fst (filter (\<lambda>(h, r). P r) (hg_records reg)))) =
      (case e of (h, r) \<Rightarrow> \<not> P r)"
    by simp
qed

lemma purge_eq:
  "purge now force reg =
     (if \<not> force \<and> now < hg_next_purge reg then reg
      else drop_all (map fst (filter (\<lambda>(h, r). hr_expires_at r \<le> now) (hg_records reg)))
             (reg\<lparr>hg_next_purge := now + 1\<rparr>))"
  by (simp add: purge_def drop_all_def)

lemma consistent_next_purge [simp]:
  "registry_consistent (reg\<lparr>hg_next_purge := t\<rparr>) = registry_consistent reg"
  by (simp add: registry_consistent_def)

lemma shrinks_next_purge: "shrinks (reg\<lparr>hg_next_purge := t\<rparr>) reg' \<Longrightarrow> shrinks reg reg'"
  by (simp add: shrinks_def)

lemma purge_shrinks: "registry_consistent reg \<Longrightarrow> shrinks reg (purge now force reg)"
  by (auto simp: purge_eq shrinks_refl intro!: shrinks_next_purge [OF drop_all_shrinks])

lemma purge_forced_records:
  assumes "registry_consistent reg"
  shows "hg_records (purge now True reg) = filter (\<lambda>(h, r). now < hr_expires_at r) (hg_records reg)"
  using drop_all_filter [of "reg\<lparr>hg_next_purge := now + 1\<rparr>" "\<lambda>r. hr_expires_at r \<le> now"] assms
  by (simp add: purge_eq registry_consistent_def not_le)

text \<open>A shrunk registry that still has every entry live at \<open>now\<close>.\<close>

definition keeps_live :: "time \<Rightarrow> handle_registry \<Rightarrow> handle_registry \<Rightarrow> bool" where
  "keeps_live now reg reg' \<longleftrightarrow>
     (\<forall>h r. map_of (hg_records reg) h = Some r \<longrightarrow> now < hr_expires_at r \<longrightarrow>
        map_of (hg_records reg') h = Some r)"

lemma keeps_live_refl [simp]: "keeps_live now reg reg"
  by (simp add: keeps_live_def)

lemma keeps_live_trans: "keeps_live now a b \<Longrightarrow> keeps_live now b c \<Longrightarrow> keeps_live now a c"
  by (simp add: keeps_live_def)

lemma purge_keeps_live:
  assumes "registry_consistent reg"
  shows "keeps_live now reg (purge now force reg)"
proof (cases "\<not> force \<and> now < hg_next_purge reg")
  case True
  then show ?thesis by (simp add: purge_def)
next
  case False
  then have "hg_records (purge now force reg) = hg_records (purge now True reg)"
    by (auto simp: purge_def)
  then show ?thesis
    using assms by (auto simp: keeps_live_def purge_forced_records map_of_filter registry_consistent_def)
qed

section \<open>Minting\<close>

text \<open>
  Each admission check leaves a registry that only lost expired entries and, if it passes,
  has room in its respect; later checks do not undo the room found by earlier ones.
\<close>

definition room_total :: "string \<times> string \<Rightarrow> handle_registry \<Rightarrow> bool" where
  "room_total owner reg \<longleftrightarrow>
     int (length (hg_records reg)) < hg_max reg \<or>
     int (owned owner reg) < owner_floor \<and> int (length (hg_records reg)) < 2 * hg_max reg"

definition room_owner :: "string \<times> string \<Rightarrow> handle_registry \<Rightarrow> bool" where
  "room_owner owner reg \<longleftrightarrow> int (owned owner reg) < hg_max_per_principal reg"

definition room_tenant :: "string \<times> string \<Rightarrow> handle_registry \<Rightarrow> bool" where
  "room_tenant owner reg \<longleftrightarrow>
     int (in_tenant (snd owner) reg) < hg_max_per_tenant reg \<or>
     int (owned owner reg) < owner_floor \<and> int (in_tenant (snd owner) reg) < 2 * hg_max_per_tenant reg"

lemma room_shrinks:
  assumes "shrinks reg reg'"
  shows "room_total owner reg \<Longrightarrow> room_total owner reg'"
    and "room_owner owner reg \<Longrightarrow> room_owner owner reg'"
    and "room_tenant owner reg \<Longrightarrow> room_tenant owner reg'"
proof -
  have le: "length (hg_records reg') \<le> length (hg_records reg)"
    "owned owner reg' \<le> owned owner reg" "in_tenant (snd owner) reg' \<le> in_tenant (snd owner) reg"
    using shrinks_le [OF assms] by auto
  have eq: "hg_max reg' = hg_max reg" "hg_max_per_principal reg' = hg_max_per_principal reg"
    "hg_max_per_tenant reg' = hg_max_per_tenant reg"
    using assms by (auto simp: shrinks_def)
  show "room_total owner reg \<Longrightarrow> room_total owner reg'"
    using le eq unfolding room_total_def by linarith
  show "room_owner owner reg \<Longrightarrow> room_owner owner reg'"
    using le eq unfolding room_owner_def by linarith
  show "room_tenant owner reg \<Longrightarrow> room_tenant owner reg'"
    using le eq unfolding room_tenant_def by linarith
qed

text \<open>A state that only lost expired entries.\<close>

definition swept :: "time \<Rightarrow> handle_registry \<Rightarrow> handle_registry \<Rightarrow> bool" where
  "swept now reg reg' \<longleftrightarrow> shrinks reg reg' \<and> keeps_live now reg reg'"

lemma swept_refl: "registry_consistent reg \<Longrightarrow> swept now reg reg"
  by (simp add: swept_def shrinks_refl)

lemma swept_trans: "swept now a b \<Longrightarrow> swept now b c \<Longrightarrow> swept now a c"
  unfolding swept_def by (blast intro: shrinks_trans keeps_live_trans)

lemma swept_consistent: "swept now reg reg' \<Longrightarrow> registry_consistent reg'"
  by (simp add: swept_def shrinks_def)

lemma swept_purge: "registry_consistent reg \<Longrightarrow> swept now reg (purge now force reg)"
  by (simp add: swept_def purge_shrinks purge_keeps_live)

lemma admit_total_spec:
  assumes "registry_consistent reg"
  shows "swept now reg (snd (admit_total now owner reg))"
    and "fst (admit_total now owner reg) = Inr () \<longleftrightarrow> room_total owner (snd (admit_total now owner reg))"
proof -
  define reg1 where "reg1 = purge now False reg"
  define reg2 where "reg2 = (if int (length (hg_records reg1)) \<ge> hg_max reg1 then purge now True reg1 else reg1)"
  have "swept now reg reg1"
    unfolding reg1_def using assms by (rule swept_purge)
  moreover from this have "swept now reg1 reg2"
    unfolding reg2_def by (simp add: swept_purge swept_consistent swept_refl)
  ultimately have sw: "swept now reg reg2" by (rule swept_trans)
  show "swept now reg (snd (admit_total now owner reg))"
    using sw unfolding reg2_def reg1_def by (simp add: admit_total_def Let_def)
  have snd: "snd (admit_total now owner reg) = reg2"
    unfolding reg2_def reg1_def by (simp add: admit_total_def Let_def)
  have get: "cget (hg_counts reg2) owner = int (owned owner reg2)"
    using swept_consistent [OF sw] by (rule registry_gets)
  show "fst (admit_total now owner reg) = Inr () \<longleftrightarrow> room_total owner (snd (admit_total now owner reg))"
    unfolding snd
    by (simp add: admit_total_def Let_def room_total_def get flip: reg1_def reg2_def) linarith
qed

lemma admit_owner_spec:
  assumes "registry_consistent reg"
  shows "swept now reg (snd (admit_owner now owner reg))"
    and "fst (admit_owner now owner reg) = Inr () \<longleftrightarrow> room_owner owner (snd (admit_owner now owner reg))"
  using assms swept_consistent [OF swept_purge [OF assms], of now True]
  by (auto simp: admit_owner_def Let_def swept_purge swept_refl room_owner_def registry_gets)

lemma admit_tenant_spec:
  assumes "registry_consistent reg"
  shows "swept now reg (snd (admit_tenant now owner reg))"
    and "fst (admit_tenant now owner reg) = Inr () \<longleftrightarrow> room_tenant owner (snd (admit_tenant now owner reg))"
  using assms swept_consistent [OF swept_purge [OF assms], of now True]
  by (auto simp: admit_tenant_def Let_def swept_purge swept_refl room_tenant_def registry_gets)

definition mint_args_ok :: "string \<Rightarrow> string \<Rightarrow> int \<Rightarrow> handle_registry \<Rightarrow> bool" where
  "mint_args_ok prin tenant ttl reg \<longleftrightarrow>
     prin \<noteq> [] \<and> tenant \<noteq> [] \<and> 0 < ttl \<and> ttl \<le> hg_max_ttl reg"

lemma mint_cases:
  assumes "registry_consistent reg"
  obtains (refused) e reg' where "mint tok now prin tenant kind ttl reg = (Inl e, reg')"
      and "swept now reg reg'"
      and "mint_args_ok prin tenant ttl reg \<longrightarrow>
           \<not> (room_total (prin, tenant) reg' \<and> room_owner (prin, tenant) reg' \<and> room_tenant (prin, tenant) reg')"
  | (stored) reg' where "mint tok now prin tenant kind ttl reg =
        (Inr tok, store_record (new_record tok now prin tenant kind ttl) reg')"
      and "swept now reg reg'" and "mint_args_ok prin tenant ttl reg"
      and "room_total (prin, tenant) reg'" and "room_owner (prin, tenant) reg'"
      and "room_tenant (prin, tenant) reg'"
proof -
  let ?owner = "(prin, tenant)"
  obtain out1 reg1 where a1: "admit_total now ?owner reg = (out1, reg1)" by fastforce
  obtain out2 reg2 where a2: "admit_owner now ?owner reg1 = (out2, reg2)" by fastforce
  obtain out3 reg3 where a3: "admit_tenant now ?owner reg2 = (out3, reg3)" by fastforce
  have w1: "swept now reg reg1" and r1: "out1 = Inr () \<longleftrightarrow> room_total ?owner reg1"
    using admit_total_spec [OF assms, of now ?owner] a1 by auto
  have w2: "swept now reg1 reg2" and r2: "out2 = Inr () \<longleftrightarrow> room_owner ?owner reg2"
    using admit_owner_spec [OF swept_consistent [OF w1], of now ?owner] a2 by auto
  have w3: "swept now reg2 reg3" and r3: "out3 = Inr () \<longleftrightarrow> room_tenant ?owner reg3"
    using admit_tenant_spec [OF swept_consistent [OF w2], of now ?owner] a3 by auto
  have keep: "room_total ?owner reg1 \<Longrightarrow> room_total ?owner reg3" "room_owner ?owner reg2 \<Longrightarrow> room_owner ?owner reg3"
    using room_shrinks [of reg1 reg2] room_shrinks [of reg2 reg3] w2 w3 by (auto simp: swept_def)
  show thesis
  proof (cases "mint_args_ok prin tenant ttl reg")
    case False
    then have "\<exists>e. mint tok now prin tenant kind ttl reg = (Inl e, reg)"
      by (cases "prin = [] \<or> tenant = []") (auto simp: mint_def mint_args_ok_def)
    then obtain e where "mint tok now prin tenant kind ttl reg = (Inl e, reg)" ..
    with False assms show ?thesis by (intro refused) (auto simp: swept_refl)
  next
    case True
    then have mint: "mint tok now prin tenant kind ttl reg =
        (case out1 of Inl e \<Rightarrow> (Inl e, reg1) | Inr _ \<Rightarrow>
         (case out2 of Inl e \<Rightarrow> (Inl e, reg2) | Inr _ \<Rightarrow>
         (case out3 of Inl e \<Rightarrow> (Inl e, reg3) | Inr _ \<Rightarrow>
            (Inr tok, store_record (new_record tok now prin tenant kind ttl) reg3))))"
      by (simp add: mint_def mint_args_ok_def a1 a2 a3 split: sum.split)
    consider (one) e where "out1 = Inl e" | (two) e where "out1 = Inr ()" "out2 = Inl e"
      | (three) e where "out1 = Inr ()" "out2 = Inr ()" "out3 = Inl e"
      | (ok) "out1 = Inr ()" "out2 = Inr ()" "out3 = Inr ()"
      by (cases out1; cases out2; cases out3) auto
    then show ?thesis
    proof cases
      case one
      then show ?thesis using mint w1 r1 by (intro refused) auto
    next
      case two
      then show ?thesis using mint r2 swept_trans [OF w1 w2] by (intro refused) auto
    next
      case three
      then show ?thesis using mint r3 swept_trans [OF swept_trans [OF w1 w2] w3] by (intro refused) auto
    next
      case ok
      then show ?thesis
        using mint True r1 r2 r3 keep swept_trans [OF swept_trans [OF w1 w2] w3]
        by (intro stored [of reg3]) auto
    qed
  qed
qed

lemma store_record_consistent:
  assumes "registry_consistent reg" and "hr_handle r \<notin> fst ` set (hg_records reg)"
  shows "registry_consistent (store_record r reg)"
proof -
  from assms(1) have c: "dict_ok (hg_records reg)" "\<forall>(h, r) \<in> set (hg_records reg). hr_handle r = h"
    "counts_ok owner_of (hg_counts reg) (hg_records reg)"
    "counts_ok hr_tenant (hg_tenant_counts reg) (hg_records reg)"
    by (simp_all add: registry_consistent_def)
  show ?thesis
    using c(1,2) counts_ok_increment [OF c(3) assms(2), of r] counts_ok_increment [OF c(4) assms(2), of r]
    by (simp add: registry_consistent_def store_record_def distinct_update)
       (simp add: update_fresh [OF assms(2)])
qed

lemma store_record_capped:
  assumes "registry_capped reg" and new: "hr_handle r \<notin> fst ` set (hg_records reg)"
    and "room_total (owner_of r) reg" and "room_owner (owner_of r) reg" and "room_tenant (owner_of r) reg"
  shows "registry_capped (store_record r reg)"
proof -
  have len: "length (hg_records (store_record r reg)) = Suc (length (hg_records reg))"
    and own: "owned owner (store_record r reg) = owned owner reg + (if owner_of r = owner then 1 else 0)"
    and ten: "in_tenant t (store_record r reg) = in_tenant t reg + (if hr_tenant r = t then 1 else 0)" for owner t
    using new by (simp_all add: store_record_def owned_def in_tenant_def update_fresh vcount_append)
  have cfg: "hg_max (store_record r reg) = hg_max reg"
    "hg_max_per_principal (store_record r reg) = hg_max_per_principal reg"
    "hg_max_per_tenant (store_record r reg) = hg_max_per_tenant reg"
    by (simp_all add: store_record_def)
  show ?thesis
    unfolding registry_capped_def cfg len own ten
    using assms(1,3-5) by (auto simp: registry_capped_def room_total_def room_owner_def room_tenant_def)
qed

lemma swept_capped: "swept now reg reg' \<Longrightarrow> registry_capped reg \<Longrightarrow> registry_capped reg'"
  unfolding swept_def by (blast intro: shrinks_capped)

lemma shrinks_absent: "shrinks reg reg' \<Longrightarrow> h \<notin> fst ` set (hg_records reg) \<Longrightarrow> h \<notin> fst ` set (hg_records reg')"
  by (auto simp: shrinks_def)

definition registry_good :: "handle_registry \<Rightarrow> bool" where
  "registry_good reg \<longleftrightarrow> registry_consistent reg \<and> registry_capped reg"

lemma registry_good_shrinks: "shrinks reg reg' \<Longrightarrow> registry_good reg \<Longrightarrow> registry_good reg'"
  using shrinks_capped by (auto simp: registry_good_def shrinks_def)

lemma mint_good:
  assumes "registry_good reg" and "tok \<notin> fst ` set (hg_records reg)"
  shows "registry_good (snd (mint tok now prin tenant kind ttl reg))"
proof -
  from assms(1) have "registry_consistent reg" by (simp add: registry_good_def)
  then show ?thesis
  proof (cases rule: mint_cases [of reg tok now prin tenant kind ttl])
    case (refused e reg')
    then show ?thesis using assms(1) by (auto simp: swept_def intro: registry_good_shrinks)
  next
    case (stored reg')
    have "tok \<notin> fst ` set (hg_records reg')" and "registry_good reg'"
      using stored(2) assms by (blast dest: shrinks_absent registry_good_shrinks
          swept_def [THEN iffD1, THEN conjunct1])+
    then show ?thesis
      using stored unfolding registry_good_def
      by (simp add: store_record_consistent store_record_capped new_record_def)
  qed
qed

section \<open>The other operations\<close>

lemma resolve_shrinks:
  "registry_consistent reg \<Longrightarrow> shrinks reg (snd (resolve handle now prin tenant kind reg))"
  by (auto simp: resolve_def Let_def drop_handle_shrinks shrinks_refl split: option.split)

lemma admit_revoke_state:
  "snd (snd (admin_revoke cb handle reg)) =
     (case handle of None \<Rightarrow> reg | Some h \<Rightarrow> snd (drop_handle h reg))"
  by (auto simp: admin_revoke_def Let_def split_beta split: option.split sum.split)

lemma admin_revoke_shrinks:
  "registry_consistent reg \<Longrightarrow> shrinks reg (snd (snd (admin_revoke cb handle reg)))"
  by (simp add: admit_revoke_state drop_handle_shrinks shrinks_refl split: option.split)

lemma revoke_shrinks:
  assumes "registry_consistent reg"
  shows "shrinks reg (snd (snd (revoke cb handle now prin tenant reg)))"
proof -
  have s: "shrinks reg (snd (resolve handle now prin tenant None reg))"
    using assms by (rule resolve_shrinks)
  show ?thesis
  proof (cases "resolve handle now prin tenant None reg")
    case (Pair out reg')
    with s have s': "shrinks reg reg'" by simp
    then have "shrinks reg' (snd (snd (admin_revoke cb h reg')))" for h
      by (intro admin_revoke_shrinks) (simp add: shrinks_def)
    with s' Pair show ?thesis
      by (auto simp: revoke_def intro: shrinks_trans split: sum.split)
  qed
qed

lemma revoke_principal_state:
  assumes "registry_consistent reg"
  shows "snd (snd (revoke_principal cb prin tenant reg)) =
           drop_all (map fst (filter (\<lambda>(h, r). owned_by prin tenant r) (hg_records reg))) reg"
  using assms
  by (auto simp: revoke_principal_def Let_def split_beta registry_consistent_def drop_all_handles
      split: sum.split)

lemma revoke_principal_shrinks:
  "registry_consistent reg \<Longrightarrow> shrinks reg (snd (snd (revoke_principal cb prin tenant reg)))"
  by (simp add: revoke_principal_state drop_all_shrinks)

lemma list_for_principal_shrinks:
  "registry_consistent reg \<Longrightarrow> shrinks reg (snd (list_for_principal now prin tenant reg))"
  by (simp add: list_for_principal_def Let_def purge_shrinks)

section \<open>Reachable registries\<close>

text \<open>
  The server's calls in any order, with any arguments and clock readings. The only
  assumption is the one the code makes of its CSPRNG: a minted token is not in use.
\<close>

inductive registry_step :: "handle_registry \<Rightarrow> handle_registry \<Rightarrow> bool" where
  step_mint: "tok \<notin> fst ` set (hg_records reg) \<Longrightarrow>
     registry_step reg (snd (mint tok now prin tenant kind ttl reg))"
| step_resolve: "registry_step reg (snd (resolve handle now prin tenant kind_opt reg))"
| step_revoke: "registry_step reg (snd (snd (revoke cb handle now prin tenant reg)))"
| step_admin_revoke: "registry_step reg (snd (snd (admin_revoke cb handle reg)))"
| step_revoke_principal: "registry_step reg (snd (snd (revoke_principal cb prin tenant_opt reg)))"
| step_list: "registry_step reg (snd (list_for_principal now prin tenant_opt reg))"

inductive registry_reachable :: "handle_registry \<Rightarrow> handle_registry \<Rightarrow> bool" for reg0 where
  start: "registry_reachable reg0 reg0"
| step: "registry_reachable reg0 reg \<Longrightarrow> registry_step reg reg' \<Longrightarrow> registry_reachable reg0 reg'"

lemma registry_good_new: "registry_good (new_registry m mp mt ttl)"
  by (simp add: registry_good_def registry_consistent_def registry_capped_def new_registry_def
      owned_def in_tenant_def)

lemma registry_goodD: "registry_good reg \<Longrightarrow> registry_consistent reg"
  by (simp add: registry_good_def)

lemma registry_step_cases:
  assumes "registry_step reg reg'" and "registry_consistent reg"
  obtains (lost) "shrinks reg reg'"
  | (gained) tok now prin tenant kind ttl where "tok \<notin> fst ` set (hg_records reg)"
      and "reg' = snd (mint tok now prin tenant kind ttl reg)"
  using assms
  by (induction rule: registry_step.induct)
     (blast intro: resolve_shrinks revoke_shrinks admin_revoke_shrinks revoke_principal_shrinks
        list_for_principal_shrinks)+

lemma registry_step_good:
  assumes "registry_step reg reg'" and "registry_good reg"
  shows "registry_good reg'"
  using assms(1) registry_goodD [OF assms(2)]
proof (cases rule: registry_step_cases)
  case lost
  then show ?thesis using assms(2) by (rule registry_good_shrinks)
next
  case gained
  then show ?thesis using assms(2) by (simp add: mint_good)
qed

text \<open>The limits are set once, by the constructor.\<close>

definition registry_config :: "handle_registry \<Rightarrow> int \<times> int \<times> int \<times> int" where
  "registry_config reg = (hg_max reg, hg_max_per_principal reg, hg_max_per_tenant reg, hg_max_ttl reg)"

lemma shrinks_config: "shrinks reg reg' \<Longrightarrow> registry_config reg' = registry_config reg"
  by (simp add: shrinks_def registry_config_def)

lemma mint_config:
  assumes "registry_consistent reg"
  shows "registry_config (snd (mint tok now prin tenant kind ttl reg)) = registry_config reg"
  using assms
proof (cases rule: mint_cases [of reg tok now prin tenant kind ttl])
  case (refused e reg')
  then show ?thesis by (simp add: swept_def shrinks_config)
next
  case (stored reg')
  have "registry_config (store_record r reg') = registry_config reg'" for r
    by (simp add: store_record_def registry_config_def)
  with stored show ?thesis by (simp add: swept_def shrinks_config)
qed

lemma registry_step_config:
  assumes "registry_step reg reg'" and "registry_good reg"
  shows "registry_config reg' = registry_config reg"
  using assms(1) registry_goodD [OF assms(2)]
  by (cases rule: registry_step_cases) (auto simp: shrinks_config mint_config registry_goodD [OF assms(2)])

lemma registry_reachable_good:
  "registry_reachable reg0 reg \<Longrightarrow> registry_good reg0 \<Longrightarrow>
     registry_good reg \<and> registry_config reg = registry_config reg0"
  by (induction rule: registry_reachable.induct)
     (auto dest: registry_step_good registry_step_config)

text \<open>C7. Capacity of the handle registry in every state that any sequence of server calls can
  reach: at most twice \<open>max_handles\<close> records, at most \<open>max_per_principal\<close> for a principal and
  tenant, at most twice the tenant limit for a tenant; and the two counter dictionaries, which
  the code maintains incrementally, always count the stored records exactly.\<close>

theorem registry_capacity:
  assumes "registry_reachable (new_registry m mp (Some mt) ttl) reg"
  shows "int (length (hg_records reg)) \<le> max 0 (2 * m) \<and>
         int (owned owner reg) \<le> max 0 mp \<and>
         int (in_tenant tenant reg) \<le> max 0 (2 * mt) \<and>
         cget (hg_counts reg) owner = int (owned owner reg) \<and>
         cget (hg_tenant_counts reg) tenant = int (in_tenant tenant reg)"
proof -
  have good: "registry_good reg" and cfg: "registry_config reg = (m, mp, mt, ttl)"
    using registry_reachable_good [OF assms registry_good_new]
    by (simp_all, simp add: registry_config_def new_registry_def)
  note gets = registry_gets [OF registry_goodD [OF good]]
  from good cfg show ?thesis
    unfolding gets registry_good_def registry_capped_def registry_config_def prod.inject
    by blast
qed

theorem registry_capacity_witness:
  "cget (hg_counts (snd (mint ''h'' 0 ''u'' ''t'' ''task'' 60 (new_registry 4 2 (Some 1) 100)))) (''u'', ''t'')
     = int (owned (''u'', ''t'') (snd (mint ''h'' 0 ''u'' ''t'' ''task'' 60 (new_registry 4 2 (Some 1) 100))))"
proof -
  have "registry_step (new_registry 4 2 (Some 1) 100)
          (snd (mint ''h'' 0 ''u'' ''t'' ''task'' 60 (new_registry 4 2 (Some 1) 100)))"
    by (rule step_mint) (simp add: new_registry_def)
  with registry_reachable.start show ?thesis
    by (intro registry_capacity [THEN conjunct2, THEN conjunct2, THEN conjunct2, THEN conjunct1])
       (rule registry_reachable.step)
qed

text \<open>C8. \<open>resolve\<close> as an authorization decision: it returns a record exactly when the handle (of
  at most 256 characters) is stored, not expired, and belongs to the calling principal and
  tenant (and is of the requested kind, if one is given). Every other outcome is the same
  uninformative error, and the only change of state is that an expired record is dropped.\<close>

theorem resolve_authorizes:
  "(fst (resolve handle now prin tenant kind reg) = Inr r \<longleftrightarrow>
      (\<exists>h. handle = Some h \<and> length h \<le> 256 \<and> map_of (hg_records reg) h = Some r \<and>
           now < hr_expires_at r \<and> hr_principal r = prin \<and> hr_tenant r = tenant \<and>
           (kind = None \<or> kind = Some (hr_kind r)))) \<and>
   ((\<exists>r. fst (resolve handle now prin tenant kind reg) = Inr r) \<or>
      fst (resolve handle now prin tenant kind reg) = Inl HandleError) \<and>
   (snd (resolve handle now prin tenant kind reg) = reg \<or>
      (\<exists>h r. handle = Some h \<and> map_of (hg_records reg) h = Some r \<and> hr_expires_at r \<le> now \<and>
         snd (resolve handle now prin tenant kind reg) = snd (drop_handle h reg)))"
  by (cases kind; cases handle)
     (auto simp: resolve_def Let_def not_le split: option.splits)


section \<open>Incident response and availability\<close>

lemma map_snd_filter: "map snd (filter (\<lambda>(h, r). P r) d) = filter P (map snd d)"
  by (induction d) auto

lemma revoke_principal_records:
  assumes "registry_consistent reg"
  shows "hg_records (snd (snd (revoke_principal cb prin tenant reg))) =
           filter (\<lambda>(h, r). \<not> owned_by prin tenant r) (hg_records reg)"
  using assms by (simp add: revoke_principal_state drop_all_filter registry_consistent_def)

lemma notify_simps [simp]:
  "notify None records = ([], Inr ())"
  "fst (notify (Some cb) records) = records"
  "snd (notify (Some cb) records) = Inr () \<longleftrightarrow> (\<forall>r \<in> set records. cb r)"
  by (auto simp: notify_def Let_def filter_empty_conv)

lemma revoke_principal_ran:
  "fst (snd (revoke_principal (Some cb) prin tenant reg)) =
     filter (owned_by prin tenant) (map snd (hg_records reg))"
  by (simp add: revoke_principal_def Let_def split_beta split: sum.split)

lemma revoke_principal_returns:
  "fst (revoke_principal (Some cb) prin tenant reg) =
     (let doomed = filter (owned_by prin tenant) (map snd (hg_records reg))
      in if \<forall>r \<in> set doomed. cb r then Inr doomed
         else Inl (OnRevokeFailed (length (filter (\<lambda>r. \<not> cb r) doomed)) (length doomed)))"
  by (auto simp: revoke_principal_def notify_def Let_def filter_empty_conv)

lemma resolve_owned_after:
  assumes "map snd (hg_records reg) = filter (\<lambda>r. \<not> owned_by prin None r) d"
  shows "fst (resolve h now prin tenant kind reg) = Inl HandleError"
proof -
  have "hr_principal r \<noteq> prin" if "map_of (hg_records reg) k = Some r" for k r
  proof -
    have "r \<in> snd ` set (hg_records reg)"
      using map_of_SomeD [OF that] by force
    then have "r \<in> set (filter (\<lambda>r. \<not> owned_by prin None r) d)"
      by (metis assms list.set_map)
    then show ?thesis by (simp add: owned_by_def)
  qed
  then show ?thesis
    by (force simp: resolve_def Let_def split: option.split)
qed

text \<open>C9. Incident response on any reachable registry: \<open>revoke_principal\<close> removes exactly the
  records of the principal (of one tenant, or of every tenant when none is given) and keeps the
  others in order; the callback is run on every removed record even when it raises on some, and
  the failures are then reported with their number; after a revocation in every tenant no handle
  resolves for that principal any more.\<close>

theorem revoke_principal_effect:
  assumes "registry_reachable (new_registry m mp mt ttl) reg"
    and "revoke_principal (Some cb) prin tenant reg = (out, called, reg')"
  shows "map snd (hg_records reg') = filter (\<lambda>r. \<not> owned_by prin tenant r) (map snd (hg_records reg)) \<and>
         called = filter (owned_by prin tenant) (map snd (hg_records reg)) \<and>
         out = (if \<forall>r \<in> set called. cb r then Inr called
                else Inl (OnRevokeFailed (length (filter (\<lambda>r. \<not> cb r) called)) (length called))) \<and>
         (tenant = None \<longrightarrow> fst (resolve h now prin t kind reg') = Inl HandleError)"
proof -
  have con: "registry_consistent reg"
    using registry_reachable_good [OF assms(1) registry_good_new] by (simp add: registry_good_def)
  have records: "map snd (hg_records reg') = filter (\<lambda>r. \<not> owned_by prin tenant r) (map snd (hg_records reg))"
    using revoke_principal_records [OF con, of "Some cb" prin tenant] assms(2)
    by (simp only: snd_conv map_snd_filter)
  have called: "called = filter (owned_by prin tenant) (map snd (hg_records reg))"
    using revoke_principal_ran [of cb prin tenant reg] assms(2) by simp
  moreover have "out = (if \<forall>r \<in> set called. cb r then Inr called
      else Inl (OnRevokeFailed (length (filter (\<lambda>r. \<not> cb r) called)) (length called)))"
    using revoke_principal_returns [of cb prin tenant reg] assms(2) called by (simp add: Let_def)
  moreover have "tenant = None \<longrightarrow> fst (resolve h now prin t kind reg') = Inl HandleError"
    using records by (blast intro: resolve_owned_after)
  ultimately show ?thesis using records by blast
qed

definition sample_registry :: handle_registry where
  "sample_registry = snd (mint ''h'' 0 ''u'' ''t'' ''task'' 60 (new_registry 4 2 (Some 1) 100))"

lemma sample_registry_reachable: "registry_reachable (new_registry 4 2 (Some 1) 100) sample_registry"
  unfolding sample_registry_def
  by (rule registry_reachable.step [OF registry_reachable.start step_mint]) (simp add: new_registry_def)

lemma sample_registry_records:
  "hg_records sample_registry = [(''h'', new_record ''h'' 0 ''u'' ''t'' ''task'' 60)]"
  by (simp add: sample_registry_def mint_def new_registry_def admit_total_def admit_owner_def
      admit_tenant_def purge_def store_record_def new_record_def cget_def owner_floor_def)

theorem revoke_principal_effect_witness:
  "hg_records (snd (snd (revoke_principal (Some (\<lambda>_. False)) ''u'' None sample_registry))) = [] \<and>
   fst (revoke_principal (Some (\<lambda>_. False)) ''u'' None sample_registry) = Inl (OnRevokeFailed 1 1)"
proof -
  obtain out called reg' where r: "revoke_principal (Some (\<lambda>_. False)) ''u'' None sample_registry = (out, called, reg')"
    by (cases "revoke_principal (Some (\<lambda>_. False)) ''u'' None sample_registry")
  show ?thesis
    using revoke_principal_effect [OF sample_registry_reachable r] unfolding r
    by (simp add: sample_registry_records owned_by_def new_record_def)
qed

text \<open>C10. No lock-out: in a reachable registry, an owner below the guaranteed floor of eight
  handles and below its own limit can always mint while the registry and its tenant are below
  twice their limits, however the other owners behave; and the minted handle resolves for that
  owner until its expiry.\<close>

theorem mint_no_lockout:
  assumes "registry_reachable (new_registry m mp (Some mt) max_ttl) reg"
    and "prin \<noteq> []" and "tenant \<noteq> []" and "0 < ttl" and "ttl \<le> max_ttl" and "length tok \<le> 256"
    and "int (owned (prin, tenant) reg) < 8" and "int (owned (prin, tenant) reg) < mp"
    and "int (length (hg_records reg)) < 2 * m" and "int (in_tenant tenant reg) < 2 * mt"
    and "later < now + of_int ttl"
  shows "\<exists>reg'. mint tok now prin tenant kind ttl reg = (Inr tok, reg') \<and>
           fst (resolve (Some tok) later prin tenant (Some kind) reg') =
             Inr (new_record tok now prin tenant kind ttl)"
proof -
  have good: "registry_good reg" and cfg: "registry_config reg = (m, mp, mt, max_ttl)"
    using registry_reachable_good [OF assms(1) registry_good_new]
    by (simp_all, simp add: registry_config_def new_registry_def)
  then have con: "registry_consistent reg" by (simp add: registry_good_def)
  have room: "room_total (prin, tenant) reg" "room_owner (prin, tenant) reg"
    "room_tenant (prin, tenant) reg" "mint_args_ok prin tenant ttl reg"
    using cfg assms(2-10)
    by (simp_all add: room_total_def room_owner_def room_tenant_def mint_args_ok_def
        registry_config_def owner_floor_def)
  from con show ?thesis
  proof (cases rule: mint_cases [of reg tok now prin tenant kind ttl])
    case (refused e reg')
    then show ?thesis using room room_shrinks [of reg reg'] by (auto simp: swept_def)
  next
    case (stored reg')
    then show ?thesis
      using assms(6,11) by (simp add: resolve_def store_record_def new_record_def update_conv')
  qed
qed

theorem mint_no_lockout_witness:
  "\<exists>reg'. mint ''k'' 3 ''v'' ''s'' ''task'' 60 sample_registry = (Inr ''k'', reg') \<and>
     fst (resolve (Some ''k'') 10 ''v'' ''s'' (Some ''task'') reg') =
       Inr (new_record ''k'' 3 ''v'' ''s'' ''task'' 60)"
  by (rule mint_no_lockout [OF sample_registry_reachable])
     (simp_all add: owned_def in_tenant_def sample_registry_records new_record_def)

end
