(* ===== verification/Py_Codec.thy ===== *)
theory Py_Codec
  imports Cosai_Prelude "HOL-Library.Word"
begin

text \<open>
  The text and binary codecs of Python's standard library that the program uses: UTF-8
  (\<open>str.encode\<close> and strict \<open>bytes.decode\<close>) and base64 in its standard and URL-safe alphabets,
  with the lenient and the strict decoder of \<open>binascii.a2b_base64\<close>. A \<open>str\<close> is the list of its
  code points, \<open>bytes\<close> a list of 8-bit words; an exception is \<open>None\<close>.
\<close>

type_synonym str = codepoints
type_synonym byte = "8 word"

definition byte_of :: "nat \<Rightarrow> byte" where
  "byte_of n = of_nat n"

lemma unat_byte_of: "n < 256 \<Longrightarrow> unat (byte_of n) = n"
  by (simp add: byte_of_def unat_of_nat)

lemma unat_byte_lt [simp]: "unat (b :: byte) < 256"
  using unsigned_less [of b] by simp

lemma byte_of_unat [simp]: "byte_of (unat b) = b"
  by (simp add: byte_of_def)

section \<open>UTF-8\<close>

definition surrogate :: "nat \<Rightarrow> bool" where
  "surrogate n \<longleftrightarrow> 0xD800 \<le> n \<and> n \<le> 0xDFFF"

definition utf8_char :: "nat \<Rightarrow> byte list option" where
  "utf8_char n =
     (if n < 0x80 then Some [byte_of n]
      else if n < 0x800 then Some [byte_of (192 + n div 64), byte_of (128 + n mod 64)]
      else if surrogate n then None
      else if n < 0x10000 then
        Some [byte_of (224 + n div 4096), byte_of (128 + n div 64 mod 64), byte_of (128 + n mod 64)]
      else if n < 0x110000 then
        Some [byte_of (240 + n div 262144), byte_of (128 + n div 4096 mod 64),
              byte_of (128 + n div 64 mod 64), byte_of (128 + n mod 64)]
      else None)"

fun utf8_encode :: "str \<Rightarrow> byte list option" where
  "utf8_encode [] = Some []"
| "utf8_encode (n # s) =
     (case utf8_char n of None \<Rightarrow> None
      | Some bs \<Rightarrow> map_option ((@) bs) (utf8_encode s))"

definition cont :: "byte \<Rightarrow> bool" where
  "cont b \<longleftrightarrow> 128 \<le> unat b \<and> unat b < 192"

definition utf8_next :: "byte list \<Rightarrow> (nat \<times> byte list) option" where
  "utf8_next bs =
     (case bs of [] \<Rightarrow> None
      | b0 # r0 \<Rightarrow>
        if unat b0 < 128 then Some (unat b0, r0)
        else if unat b0 < 194 then None
        else (case r0 of [] \<Rightarrow> None
        | b1 # r1 \<Rightarrow>
          if \<not> cont b1 then None
          else if unat b0 < 224 then Some ((unat b0 - 192) * 64 + (unat b1 - 128), r1)
          else (case r1 of [] \<Rightarrow> None
          | b2 # r2 \<Rightarrow>
            if \<not> cont b2 then None
            else if unat b0 < 240 then
              (let n = (unat b0 - 224) * 4096 + (unat b1 - 128) * 64 + (unat b2 - 128)
               in if n < 0x800 \<or> surrogate n then None else Some (n, r2))
            else (case r2 of [] \<Rightarrow> None
            | b3 # r3 \<Rightarrow>
              if \<not> cont b3 then None
              else (let n = (unat b0 - 240) * 262144 + (unat b1 - 128) * 4096
                            + (unat b2 - 128) * 64 + (unat b3 - 128)
                    in if n < 0x10000 \<or> n \<ge> 0x110000 then None else Some (n, r3))))))"

lemma utf8_next_shorter: "utf8_next bs = Some (n, r) \<Longrightarrow> length r < length bs"
  by (auto simp: utf8_next_def Let_def split: list.splits if_splits)

function utf8_decode :: "byte list \<Rightarrow> str option" where
  "utf8_decode bs =
     (if bs = [] then Some []
      else case utf8_next bs of None \<Rightarrow> None
           | Some (n, r) \<Rightarrow> map_option ((#) n) (utf8_decode r))"
  by pat_completeness auto
termination
  by (relation "measure length") (auto dest: utf8_next_shorter)

declare utf8_decode.simps [simp del]

lemma sextet_sums:
  fixes n :: nat
  shows "n div 64 * 64 + n mod 64 = n"
    and "n div 4096 * 4096 + n div 64 mod 64 * 64 + n mod 64 = n"
    and "n div 262144 * 262144 + n div 4096 mod 64 * 4096 + n div 64 mod 64 * 64 + n mod 64 = n"
proof -
  have a: "n div 64 * 64 + n mod 64 = n" by simp
  have b: "n div 4096 * 64 + n div 64 mod 64 = n div 64"
    using div_mult_mod_eq [of "n div 64" 64] by (simp add: div_mult2_eq [of n 64 64, simplified])
  have c: "n div 262144 * 64 + n div 4096 mod 64 = n div 4096"
    using div_mult_mod_eq [of "n div 4096" 64] by (simp add: div_mult2_eq [of n 4096 64, simplified])
  show "n div 64 * 64 + n mod 64 = n" by (rule a)
  show "n div 4096 * 4096 + n div 64 mod 64 * 64 + n mod 64 = n"
    using a b by linarith
  then show "n div 262144 * 262144 + n div 4096 mod 64 * 4096 + n div 64 mod 64 * 64 + n mod 64 = n"
    using c by linarith
qed

lemma utf8_next_char:
  assumes "utf8_char n = Some bs"
  shows "utf8_next (bs @ r) = Some (n, r)"
proof -
  consider "n < 128" | "128 \<le> n" "n < 2048" | "2048 \<le> n" "n < 65536" "\<not> surrogate n"
    | "65536 \<le> n" "n < 1114112"
    using assms by (auto simp: utf8_char_def split: if_splits)
  then show ?thesis
  proof cases
    case 1
    then show ?thesis using assms by (auto simp: utf8_char_def utf8_next_def unat_byte_of)
  next
    case 2
    then have "n div 64 < 32" "2 \<le> n div 64" by auto
    with 2 have "bs = [byte_of (192 + n div 64), byte_of (128 + n mod 64)]" "unat (byte_of (192 + n div 64)) = 192 + n div 64"
      "unat (byte_of (128 + n mod 64)) = 128 + n mod 64" "n mod 64 < 64"
      using assms by (simp_all add: utf8_char_def unat_byte_of)
    with \<open>n div 64 < 32\<close> \<open>2 \<le> n div 64\<close> show ?thesis
      by (simp add: utf8_next_def cont_def sextet_sums)
  next
    case 3
    then have l: "n div 4096 < 16" by auto
    have m: "n div 64 mod 64 < 64" "n mod 64 < 64" by auto
    have "bs = [byte_of (224 + n div 4096), byte_of (128 + n div 64 mod 64), byte_of (128 + n mod 64)]"
      using assms 3 by (simp add: utf8_char_def)
    moreover have "unat (byte_of (224 + n div 4096)) = 224 + n div 4096"
      "unat (byte_of (128 + n div 64 mod 64)) = 128 + n div 64 mod 64"
      "unat (byte_of (128 + n mod 64)) = 128 + n mod 64"
      using l m by (simp_all add: unat_byte_of)
    ultimately show ?thesis
      using 3 l m by (simp add: utf8_next_def cont_def sextet_sums Let_def)
  next
    case 4
    then have l: "n div 262144 < 5" by auto
    have m: "n div 4096 mod 64 < 64" "n div 64 mod 64 < 64" "n mod 64 < 64" by auto
    have "bs = [byte_of (240 + n div 262144), byte_of (128 + n div 4096 mod 64),
              byte_of (128 + n div 64 mod 64), byte_of (128 + n mod 64)]"
      using assms 4 by (simp add: utf8_char_def surrogate_def)
    moreover have "unat (byte_of (240 + n div 262144)) = 240 + n div 262144"
      "unat (byte_of (128 + n div 4096 mod 64)) = 128 + n div 4096 mod 64"
      "unat (byte_of (128 + n div 64 mod 64)) = 128 + n div 64 mod 64"
      "unat (byte_of (128 + n mod 64)) = 128 + n mod 64"
      using l m by (simp_all add: unat_byte_of)
    ultimately show ?thesis
      using 4 l m by (simp add: utf8_next_def cont_def sextet_sums Let_def)
  qed
qed

lemma utf8_round_trip: "utf8_encode s = Some bs \<Longrightarrow> utf8_decode bs = Some s"
proof (induction s arbitrary: bs)
  case Nil
  then show ?case by (simp add: utf8_decode.simps)
next
  case (Cons n s)
  from Cons.prems obtain cs ds where cs: "utf8_char n = Some cs" and ds: "utf8_encode s = Some ds"
    and bs: "bs = cs @ ds"
    by (auto split: option.splits)
  have "cs \<noteq> []" using cs by (auto simp: utf8_char_def split: if_splits)
  then have "utf8_decode (cs @ ds) = map_option ((#) n) (utf8_decode ds)"
    by (simp add: utf8_decode.simps [of "cs @ ds"] utf8_next_char [OF cs])
  with Cons.IH [OF ds] bs show ?case by simp
qed

lemma utf8_encode_inj: "utf8_encode s = Some bs \<Longrightarrow> utf8_encode t = Some bs \<Longrightarrow> s = t"
  by (metis option.inject utf8_round_trip)

lemma utf8_encode_ok: "utf8_encode s \<noteq> None \<longleftrightarrow> (\<forall>n \<in> set s. n < 0x110000 \<and> \<not> surrogate n)"
  by (induction s) (auto simp: utf8_char_def surrogate_def split: option.splits)

lemma utf8_encode_ascii: "\<forall>n \<in> set s. n < 128 \<Longrightarrow> utf8_encode s = Some (map byte_of s)"
  by (induction s) (auto simp: utf8_char_def)

lemma utf8_decode_ascii: "\<forall>n \<in> set s. n < 128 \<Longrightarrow> utf8_decode (map byte_of s) = Some s"
  by (rule utf8_round_trip) (rule utf8_encode_ascii)

section \<open>Base64\<close>

text \<open>\<open>b64_digit True\<close> is the URL-safe alphabet, which writes 62 and 63 as \<open>-\<close> and \<open>_\<close>.\<close>

definition b64_digit :: "bool \<Rightarrow> nat \<Rightarrow> nat" where
  "b64_digit url n =
     (if n < 26 then 65 + n else if n < 52 then 71 + n else if n < 62 then n - 4
      else if n = 62 then (if url then 45 else 43) else (if url then 95 else 47))"

definition b64_value :: "nat \<Rightarrow> nat option" where
  "b64_value c =
     (if 65 \<le> c \<and> c \<le> 90 then Some (c - 65) else if 97 \<le> c \<and> c \<le> 122 then Some (c - 71)
      else if 48 \<le> c \<and> c \<le> 57 then Some (c + 4) else if c = 43 then Some 62
      else if c = 47 then Some 63 else None)"

text \<open>The encoder without its padding, and with it.\<close>

fun b64_body :: "bool \<Rightarrow> byte list \<Rightarrow> str" where
  "b64_body url [] = []"
| "b64_body url [a] = [b64_digit url (unat a div 4), b64_digit url (unat a mod 4 * 16)]"
| "b64_body url [a, b] =
     [b64_digit url (unat a div 4), b64_digit url (unat a mod 4 * 16 + unat b div 16),
      b64_digit url (unat b mod 16 * 4)]"
| "b64_body url (a # b # c # r) =
     b64_digit url (unat a div 4) # b64_digit url (unat a mod 4 * 16 + unat b div 16)
     # b64_digit url (unat b mod 16 * 4 + unat c div 64) # b64_digit url (unat c mod 64)
     # b64_body url r"

definition b64_pad :: "str \<Rightarrow> str" where
  "b64_pad s = replicate ((4 - length s mod 4) mod 4) 61"

definition b64encode :: "bool \<Rightarrow> byte list \<Rightarrow> str" where
  "b64encode url bs = b64_body url bs @ b64_pad (b64_body url bs)"

text \<open>
  The decoder's state: the position in the quad, the bits left over, the pads seen in a row and
  whether padding has started. In strict mode a foreign character, data after the padding and
  padding in the middle are errors; otherwise foreign characters are skipped.
\<close>

fun a2b :: "bool \<Rightarrow> nat \<Rightarrow> nat \<Rightarrow> nat \<Rightarrow> bool \<Rightarrow> str \<Rightarrow> byte list option" where
  "a2b strict q left pads started [] = (if q = 0 then Some [] else None)"
| "a2b strict q left pads started (c # s) =
     (if c = 61 then
        if q \<ge> 2 \<and> q + Suc pads \<ge> 4 then (if strict \<and> s \<noteq> [] then None else Some [])
        else a2b strict q left (if q \<ge> 2 then Suc pads else pads) True s
      else case b64_value c of
        None \<Rightarrow> if strict then None else a2b strict q left pads started s
      | Some v \<Rightarrow>
          if strict \<and> started then None
          else if q = 0 then a2b strict 1 v 0 started s
          else if q = 1 then map_option ((#) (byte_of (left * 4 + v div 16))) (a2b strict 2 (v mod 16) 0 started s)
          else if q = 2 then map_option ((#) (byte_of (left * 16 + v div 4))) (a2b strict 3 (v mod 4) 0 started s)
          else map_option ((#) (byte_of (left * 64 + v))) (a2b strict 0 0 0 started s))"

definition b64decode :: "bool \<Rightarrow> str \<Rightarrow> byte list option" where
  "b64decode strict s =
     (if \<exists>c \<in> set s. c \<ge> 128 then None
      else if strict \<and> s \<noteq> [] \<and> hd s = 61 then None
      else a2b strict 0 0 0 False s)"

definition urlsafe_translate :: "nat \<Rightarrow> nat" where
  "urlsafe_translate c = (if c = 45 then 43 else if c = 95 then 47 else c)"

definition urlsafe_b64decode :: "str \<Rightarrow> byte list option" where
  "urlsafe_b64decode s = b64decode False (map urlsafe_translate s)"

lemma b64_digit_value:
  "n < 64 \<Longrightarrow> b64_value (b64_digit False n) = Some n"
  by (auto simp: b64_value_def b64_digit_def)

lemma b64_digit_range:
  "n < 64 \<Longrightarrow> b64_digit url n \<noteq> 61 \<and> b64_digit url n < 127 \<and> b64_digit url n > 42"
  by (auto simp: b64_digit_def)

lemma b64_digit_translate:
  "n < 64 \<Longrightarrow> urlsafe_translate (b64_digit True n) = b64_digit False n"
  by (auto simp: b64_digit_def urlsafe_translate_def)

lemma sextets_nat:
  fixes a b :: nat
  assumes "a < 256" and "b < 256"
  shows "a div 4 < 64" and "a mod 4 * 16 < 64" and "a mod 16 * 4 < 64"
    and "a mod 4 * 16 + b div 16 < 64" and "a mod 16 * 4 + b div 64 < 64" and "a mod 64 < 64"
proof -
  have q: "a div 4 < 64" "b div 16 < 16" "b div 64 < 4" "a mod 4 < 4" "a mod 16 < 16" "a mod 64 < 64"
    using assms by auto
  then show "a div 4 < 64" "a mod 4 * 16 < 64" "a mod 16 * 4 < 64"
    "a mod 4 * 16 + b div 16 < 64" "a mod 16 * 4 + b div 64 < 64" "a mod 64 < 64"
    by linarith+
qed

lemmas sextets = sextets_nat [OF unat_byte_lt unat_byte_lt]

lemma byte_digits [simp]:
  "unat (b :: byte) div 16 div 16 = 0" "unat b div 16 mod 16 = unat b div 16"
  "unat b div 64 div 4 = 0" "unat b div 64 mod 4 = unat b div 64"
proof -
  have "unat b div 16 < 16" "unat b div 64 < 4" by (simp_all add: div_less_iff_less_mult)
  then show "unat b div 16 div 16 = 0" "unat b div 16 mod 16 = unat b div 16"
    "unat b div 64 div 4 = 0" "unat b div 64 mod 4 = unat b div 64"
    by simp_all
qed

lemma a2b_digit:
  assumes "n < 64"
  shows "a2b strict q left pads False (b64_digit False n # s) =
     (if q = 0 then a2b strict 1 n 0 False s
      else if q = 1 then map_option ((#) (byte_of (left * 4 + n div 16))) (a2b strict 2 (n mod 16) 0 False s)
      else if q = 2 then map_option ((#) (byte_of (left * 16 + n div 4))) (a2b strict 3 (n mod 4) 0 False s)
      else map_option ((#) (byte_of (left * 64 + n))) (a2b strict 0 0 0 False s))"
  using assms b64_digit_range [OF assms, of False] by (simp add: b64_digit_value)

lemma b64_pad_quad [simp]: "b64_pad (w # x # y # z # s) = b64_pad s"
  by (simp add: b64_pad_def)

lemma b64_pad_short [simp]:
  "b64_pad [] = []" "b64_pad [x, y] = [61, 61]" "b64_pad [x, y, z] = [61]"
  by (simp_all add: b64_pad_def numeral_2_eq_2)

lemma triple_induct [case_names none one two many]:
  assumes "P []" and "\<And>a. P [a]" and "\<And>a b. P [a, b]" and "\<And>a b c r. P r \<Longrightarrow> P (a # b # c # r)"
  shows "P (bs :: byte list)"
  using assms by (induction_schema) (pat_completeness, lexicographic_order)

lemma a2b_body: "a2b strict 0 0 0 False (b64_body False bs @ b64_pad (b64_body False bs)) = Some bs"
proof (induction bs rule: triple_induct)
  case none
  then show ?case by simp
next
  case (one a)
  then show ?case by (simp add: a2b_digit sextets del: a2b.simps(2)) simp
next
  case (two a b)
  then show ?case by (simp add: a2b_digit sextets del: a2b.simps(2)) simp
next
  case (many a b c r)
  then show ?case by (simp add: a2b_digit sextets del: a2b.simps(2))
qed

lemma b64_body_range: "c \<in> set (b64_body url bs) \<Longrightarrow> c \<noteq> 61 \<and> c < 127 \<and> c > 42"
  by (induction bs rule: triple_induct) (auto simp: b64_digit_range sextets)

lemma b64_body_translate:
  "map urlsafe_translate (b64_body True bs) = b64_body False bs"
  by (induction bs rule: triple_induct) (simp_all add: b64_digit_translate sextets)

lemma b64_body_length [simp]: "length (b64_body True bs) = length (b64_body False bs)"
  by (induction bs rule: triple_induct) simp_all

lemma b64_pad_cong: "length s = length t \<Longrightarrow> b64_pad s = b64_pad t"
  by (simp add: b64_pad_def)

lemma b64_pad_set: "set (b64_pad s) \<subseteq> {61}"
  by (auto simp: b64_pad_def)

theorem b64_round_trip: "b64decode strict (b64encode False bs) = Some bs"
proof -
  have "\<not> (\<exists>c \<in> set (b64encode False bs). c \<ge> 128)"
    using b64_body_range b64_pad_set by (fastforce simp: b64encode_def)
  moreover have "b64encode False bs = [] \<or> hd (b64encode False bs) \<noteq> 61"
  proof (cases "b64_body False bs")
    case Nil
    then show ?thesis by (simp add: b64encode_def)
  next
    case (Cons c s)
    then show ?thesis using b64_body_range [of c False bs] by (simp add: b64encode_def)
  qed
  moreover have "a2b strict 0 0 0 False (b64encode False bs) = Some bs"
    unfolding b64encode_def by (rule a2b_body)
  ultimately show ?thesis
    unfolding b64decode_def by auto
qed

text \<open>Encoding without padding, decoding with the padding restored from the length.\<close>

theorem urlsafe_round_trip: "urlsafe_b64decode (b64_body True bs @ b64_pad (b64_body True bs)) = Some bs"
proof -
  have "map urlsafe_translate (b64_pad s) = b64_pad s" for s
    by (simp add: b64_pad_def urlsafe_translate_def)
  moreover have "b64_pad (b64_body True bs) = b64_pad (b64_body False bs)"
    by (rule b64_pad_cong) simp
  moreover have "\<not> (\<exists>c \<in> set (b64_body False bs @ b64_pad (b64_body False bs)). c \<ge> 128)"
    using b64_body_range b64_pad_set by fastforce
  ultimately show ?thesis
    unfolding urlsafe_b64decode_def by (simp add: b64_body_translate b64decode_def a2b_body)
qed

text \<open>\<open>rstrip(b"=")\<close> removes exactly the padding.\<close>

definition rstrip_eq :: "str \<Rightarrow> str" where
  "rstrip_eq s = rev (dropWhile (\<lambda>c. c = 61) (rev s))"

lemma rstrip_b64encode: "rstrip_eq (b64encode url bs) = b64_body url bs"
proof -
  have "dropWhile (\<lambda>c. c = 61) (rev (b64_pad s) @ t) = dropWhile (\<lambda>c. c = 61) t" for s t
    by (rule dropWhile_append2) (use b64_pad_set in fastforce)
  moreover have "dropWhile (\<lambda>c. c = 61) (rev (b64_body url bs)) = rev (b64_body url bs)"
  proof (cases "rev (b64_body url bs)")
    case (Cons c r)
    then have "c \<in> set (b64_body url bs)" by (metis list.set_intros(1) set_rev)
    then have "c \<noteq> 61" by (simp add: b64_body_range)
    with Cons show ?thesis by simp
  qed simp
  ultimately show ?thesis
    by (simp add: rstrip_eq_def b64encode_def)
qed

end
