(* ===== verification/Py_Json.thy ===== *)
theory Py_Json
  imports Py_Codec "HOL-Library.List_Lexorder"
begin

text \<open>
  JSON values as Python sees them, \<open>json.dumps\<close> with the default \<open>ensure_ascii\<close> and \<open>json.loads\<close>
  of a text. A finite float is a decimal \<open>m / 10 ^ k\<close> in the normal form of its positional
  \<open>repr\<close> (at least one decimal, no superfluous trailing zero); the parser does not round to the
  53 bits of a double. Dictionaries have string keys; on a duplicate key the last value wins.
  The parser's fuel bounds its nesting, and one more than the length of the text is enough.
\<close>

datatype nonfinite = NaN | PosInf | NegInf

datatype json =
    JNull
  | JBool bool
  | JInt int
  | JFloat int nat
  | JNonFinite nonfinite
  | JStr str
  | JList "json list"
  | JDict "(str \<times> json) list"

section \<open>Numerals\<close>

fun digits :: "nat \<Rightarrow> str" where
  "digits n = (if n < 10 then [48 + n] else digits (n div 10) @ [48 + n mod 10])"

declare digits.simps [simp del]

definition is_digit :: "nat \<Rightarrow> bool" where
  "is_digit c \<longleftrightarrow> 48 \<le> c \<and> c \<le> 57"

definition digits_value :: "str \<Rightarrow> nat" where
  "digits_value s = foldl (\<lambda>n c. 10 * n + (c - 48)) 0 s"

lemma digits_value_snoc [simp]: "digits_value (s @ [c]) = 10 * digits_value s + (c - 48)"
  by (simp add: digits_value_def)

lemma digits_value_digits [simp]: "digits_value (digits n) = n"
proof (induction n rule: digits.induct)
  case (1 n)
  show ?case
    using 1 by (cases "n < 10") (simp_all add: digits.simps [of n] digits_value_def)
qed

lemma digits_all: "c \<in> set (digits n) \<Longrightarrow> is_digit c"
proof (induction n arbitrary: c rule: digits.induct)
  case (1 n)
  have "n mod 10 < 10" by simp
  with 1 show ?case
    by (auto simp: digits.simps [of n] is_digit_def split: if_splits)
qed

lemma digits_nonempty [simp]: "digits n \<noteq> []"
  by (subst digits.simps) simp

lemma digits_hd: "digits n = 48 # s \<Longrightarrow> n = 0 \<and> s = []"
proof (induction n arbitrary: s rule: digits.induct)
  case (1 n)
  show ?case
  proof (cases "n < 10")
    case True
    then show ?thesis using 1(2) by (simp add: digits.simps [of n])
  next
    case False
    then obtain c r where cr: "digits (n div 10) = c # r" by (cases "digits (n div 10)") auto
    with False 1 have "n div 10 = 0" by (simp add: digits.simps [of n])
    with False show ?thesis by simp
  qed
qed

lemma digits_value_append: "digits_value (replicate k 48 @ s) = digits_value s"
  by (induction k) (simp_all add: digits_value_def)

lemma digits_value_Nil [simp]: "digits_value [] = 0"
  by (simp add: digits_value_def)

lemma digits_value_split: "digits_value (s @ t) = digits_value s * 10 ^ length t + digits_value t"
  by (induction t rule: rev_induct) (simp_all add: algebra_simps flip: append_assoc)

lemma digits_length: "n < 10 ^ k \<Longrightarrow> 0 < k \<Longrightarrow> length (digits n) \<le> k"
proof (induction n arbitrary: k rule: digits.induct)
  case (1 n)
  show ?case
  proof (cases "n < 10")
    case True
    then show ?thesis using 1 by (simp add: digits.simps [of n])
  next
    case False
    obtain j where k: "k = Suc j" using 1(3) by (cases k) auto
    with False 1(2) have j: "0 < j" by (cases j) auto
    have "n div 10 < 10 ^ j" using 1(2) k by (simp add: div_less_iff_less_mult mult.commute)
    then show ?thesis using 1(1) [OF False _ j] False k by (simp add: digits.simps [of n])
  qed
qed

section \<open>Printing\<close>

definition hex_digit :: "nat \<Rightarrow> nat" where
  "hex_digit n = (if n < 10 then 48 + n else 87 + n)"

definition hex4 :: "nat \<Rightarrow> str" where
  "hex4 n = [hex_digit (n div 4096 mod 16), hex_digit (n div 256 mod 16),
             hex_digit (n div 16 mod 16), hex_digit (n mod 16)]"

definition u_escape :: "nat \<Rightarrow> str" where
  "u_escape n = 92 # 117 # hex4 n"

definition escape_char :: "nat \<Rightarrow> str" where
  "escape_char n =
     (if n = 34 then [92, 34] else if n = 92 then [92, 92]
      else if n = 10 then ascii [CHR 0x5C, CHR ''n''] else if n = 13 then ascii [CHR 0x5C, CHR ''r'']
      else if n = 9 then ascii [CHR 0x5C, CHR ''t''] else if n = 12 then ascii [CHR 0x5C, CHR ''f'']
      else if n = 8 then ascii [CHR 0x5C, CHR ''b'']
      else if 32 \<le> n \<and> n \<le> 126 then [n]
      else if n < 0x10000 then u_escape n
      else u_escape (0xD800 + (n - 0x10000) div 1024 mod 1024) @ u_escape (0xDC00 + (n - 0x10000) mod 1024))"

definition dump_str :: "str \<Rightarrow> str" where
  "dump_str s = 34 # concat (map escape_char s) @ [34]"

definition dump_int :: "int \<Rightarrow> str" where
  "dump_int i = (if i < 0 then 45 # digits (nat (- i)) else digits (nat i))"

definition pad_digits :: "nat \<Rightarrow> nat \<Rightarrow> str" where
  "pad_digits k n = replicate (k - length (digits n)) 48 @ digits n"

definition dump_float :: "int \<Rightarrow> nat \<Rightarrow> str" where
  "dump_float m k =
     (let a = nat \<bar>m\<bar>
      in (if m < 0 then [45] else []) @ digits (a div 10 ^ k) @ 46 # pad_digits k (a mod 10 ^ k))"

fun join :: "str \<Rightarrow> str list \<Rightarrow> str" where
  "join sep [] = []"
| "join sep [x] = x"
| "join sep (x # y # xs) = x @ sep @ join sep (y # xs)"

fun dumps :: "str \<Rightarrow> str \<Rightarrow> json \<Rightarrow> str" where
  "dumps isep ksep JNull = ascii ''null''"
| "dumps isep ksep (JBool b) = (if b then ascii ''true'' else ascii ''false'')"
| "dumps isep ksep (JInt i) = dump_int i"
| "dumps isep ksep (JFloat m k) = dump_float m k"
| "dumps isep ksep (JNonFinite x) =
     (case x of NaN \<Rightarrow> ascii ''NaN'' | PosInf \<Rightarrow> ascii ''Infinity'' | NegInf \<Rightarrow> ascii ''-Infinity'')"
| "dumps isep ksep (JStr s) = dump_str s"
| "dumps isep ksep (JList xs) = 91 # join isep (map (dumps isep ksep) xs) @ [93]"
| "dumps isep ksep (JDict ps) =
     123 # join isep (map (\<lambda>(k, v). dump_str k @ ksep @ dumps isep ksep v) ps) @ [125]"

text \<open>\<open>sort_keys=True\<close> is printing the value with every dictionary sorted, \<open>allow_nan=False\<close> raises
  when a non-finite float occurs.\<close>

fun sorted_json :: "json \<Rightarrow> json" where
  "sorted_json (JList xs) = JList (map sorted_json xs)"
| "sorted_json (JDict ps) = JDict (sort_key fst (map (\<lambda>(k, v). (k, sorted_json v)) ps))"
| "sorted_json v = v"

fun finite_json :: "json \<Rightarrow> bool" where
  "finite_json (JNonFinite x) = False"
| "finite_json (JList xs) = (\<forall>x \<in> set xs. finite_json x)"
| "finite_json (JDict ps) = (\<forall>(k, v) \<in> set ps. finite_json v)"
| "finite_json v = True"

abbreviation compact :: "json \<Rightarrow> str" where
  "compact \<equiv> dumps [44] [58]"

abbreviation canonical :: "json \<Rightarrow> str" where
  "canonical v \<equiv> compact (sorted_json v)"

section \<open>Parsing\<close>

definition is_ws :: "nat \<Rightarrow> bool" where
  "is_ws c \<longleftrightarrow> c = 32 \<or> c = 9 \<or> c = 10 \<or> c = 13"

definition skip_ws :: "str \<Rightarrow> str" where
  "skip_ws s = dropWhile is_ws s"

definition hex_value :: "nat \<Rightarrow> nat option" where
  "hex_value c = (if is_digit c then Some (c - 48) else if 97 \<le> c \<and> c \<le> 102 then Some (c - 87)
                  else if 65 \<le> c \<and> c \<le> 70 then Some (c - 55) else None)"

fun parse_hex4 :: "str \<Rightarrow> (nat \<times> str) option" where
  "parse_hex4 (a # b # c # d # s) =
     (case (hex_value a, hex_value b, hex_value c, hex_value d) of
        (Some w, Some x, Some y, Some z) \<Rightarrow> Some (((w * 16 + x) * 16 + y) * 16 + z, s)
      | _ \<Rightarrow> None)"
| "parse_hex4 s = None"

definition high_surrogate :: "nat \<Rightarrow> bool" where
  "high_surrogate n \<longleftrightarrow> 0xD800 \<le> n \<and> n \<le> 0xDBFF"

definition low_surrogate :: "nat \<Rightarrow> bool" where
  "low_surrogate n \<longleftrightarrow> 0xDC00 \<le> n \<and> n \<le> 0xDFFF"

text \<open>The character an escape \<open>\u\<close> denotes, joining a high surrogate with an escaped low one.\<close>

definition parse_u :: "str \<Rightarrow> (nat \<times> str) option" where
  "parse_u s =
     (case parse_hex4 s of None \<Rightarrow> None
      | Some (n, r) \<Rightarrow>
          if high_surrogate n \<and> take 2 r = [92, 117] then
            (case parse_hex4 (drop 2 r) of None \<Rightarrow> None
             | Some (m, r') \<Rightarrow>
                 if low_surrogate m then Some (0x10000 + (n - 0xD800) * 1024 + (m - 0xDC00), r')
                 else Some (n, r))
          else Some (n, r))"

definition simple_escape :: "nat \<Rightarrow> nat option" where
  "simple_escape c =
     (if c = 34 \<or> c = 92 \<or> c = 47 then Some c else if c = 98 then Some 8 else if c = 102 then Some 12
      else if c = 110 then Some 10 else if c = 114 then Some 13 else if c = 116 then Some 9 else None)"

fun parse_chars :: "nat \<Rightarrow> str \<Rightarrow> (str \<times> str) option" where
  "parse_chars 0 s = None"
| "parse_chars (Suc f) [] = None"
| "parse_chars (Suc f) (c # s) =
     (if c = 34 then Some ([], s)
      else if c < 32 then None
      else if c \<noteq> 92 then map_option (apfst ((#) c)) (parse_chars f s)
      else case s of [] \<Rightarrow> None
      | e # s' \<Rightarrow>
          if e = 117 then
            (case parse_u s' of None \<Rightarrow> None | Some (n, r) \<Rightarrow> map_option (apfst ((#) n)) (parse_chars f r))
          else
            (case simple_escape e of None \<Rightarrow> None
             | Some n \<Rightarrow> map_option (apfst ((#) n)) (parse_chars f s')))"

definition parse_str :: "str \<Rightarrow> (str \<times> str) option" where
  "parse_str s = parse_chars (Suc (length s)) s"

fun norm_float :: "int \<Rightarrow> nat \<Rightarrow> json" where
  "norm_float m 0 = JFloat (m * 10) 1"
| "norm_float m (Suc 0) = JFloat m 1"
| "norm_float m (Suc (Suc k)) = (if m mod 10 = 0 then norm_float (m div 10) (Suc k) else JFloat m (Suc (Suc k)))"

text \<open>The fraction and the exponent are taken only when digits follow the dot and the \<open>e\<close>.\<close>

definition parse_frac :: "str \<Rightarrow> str \<times> str" where
  "parse_frac s =
     (case s of c # r \<Rightarrow> if c = 46 \<and> r \<noteq> [] \<and> is_digit (hd r) then (takeWhile is_digit r, dropWhile is_digit r)
                        else ([], s)
      | [] \<Rightarrow> ([], s))"

definition parse_exp :: "str \<Rightarrow> int option \<times> str" where
  "parse_exp s =
     (case s of c # r \<Rightarrow>
        if c = 101 \<or> c = 69 then
          (let neg = (r \<noteq> [] \<and> hd r = 45);
               r' = (if r \<noteq> [] \<and> (hd r = 45 \<or> hd r = 43) then tl r else r);
               e = int (digits_value (takeWhile is_digit r'))
           in if r' \<noteq> [] \<and> is_digit (hd r') then (Some (if neg then - e else e), dropWhile is_digit r')
              else (None, s))
        else (None, s)
      | [] \<Rightarrow> (None, s))"

definition make_number :: "bool \<Rightarrow> str \<Rightarrow> str \<Rightarrow> int option \<Rightarrow> json" where
  "make_number neg whole fr e =
     (let m = int (digits_value (whole @ fr)); m = (if neg then - m else m)
      in if fr = [] \<and> e = None then JInt m
         else let k = int (length fr) - (case e of None \<Rightarrow> 0 | Some x \<Rightarrow> x)
              in if k \<ge> 0 then norm_float m (nat k) else norm_float (m * 10 ^ nat (- k)) 0)"

definition whole_part :: "str \<Rightarrow> str" where
  "whole_part s = (if hd s = 48 then [48] else takeWhile is_digit s)"

definition parse_number :: "str \<Rightarrow> (json \<times> str) option" where
  "parse_number s =
     (let neg = (s \<noteq> [] \<and> hd s = 45);
          s1 = (if neg then tl s else s)
      in if s1 = [] \<or> \<not> is_digit (hd s1) then None
         else let whole = whole_part s1;
                  s2 = drop (length whole) s1;
                  (fr, s3) = parse_frac s2;
                  (e, s4) = parse_exp s3
              in Some (make_number neg whole fr e, s4))"

definition json_words :: "(str \<times> json) list" where
  "json_words = [(ascii ''null'', JNull), (ascii ''true'', JBool True), (ascii ''false'', JBool False),
     (ascii ''NaN'', JNonFinite NaN), (ascii ''Infinity'', JNonFinite PosInf),
     (ascii ''-Infinity'', JNonFinite NegInf)]"

fun parse_keyword :: "(str \<times> json) list \<Rightarrow> str \<Rightarrow> (json \<times> str) option" where
  "parse_keyword [] s = None"
| "parse_keyword ((w, v) # ws) s =
     (if take (length w) s = w then Some (v, drop (length w) s) else parse_keyword ws s)"

definition dict_of_pairs :: "(str \<times> json) list \<Rightarrow> (str \<times> json) list" where
  "dict_of_pairs ps = fold (\<lambda>(k, v) d. AList.update k v d) ps []"

fun parse_value :: "nat \<Rightarrow> str \<Rightarrow> (json \<times> str) option"
  and parse_items :: "nat \<Rightarrow> str \<Rightarrow> (json list \<times> str) option"
  and parse_pairs :: "nat \<Rightarrow> str \<Rightarrow> ((str \<times> json) list \<times> str) option" where
  "parse_value 0 s = None"
| "parse_value (Suc f) s =
     (case s of [] \<Rightarrow> None
      | c # r \<Rightarrow>
        if c = 34 then map_option (apfst JStr) (parse_str r)
        else if c = 91 then
          (case skip_ws r of [] \<Rightarrow> None
           | d # r' \<Rightarrow> if d = 93 then Some (JList [], r')
                       else map_option (apfst JList) (parse_items f (d # r')))
        else if c = 123 then
          (case skip_ws r of [] \<Rightarrow> None
           | d # r' \<Rightarrow> if d = 125 then Some (JDict [], r')
                       else map_option (apfst (\<lambda>ps. JDict (dict_of_pairs ps))) (parse_pairs f (d # r')))
        else case parse_keyword json_words s of Some x \<Rightarrow> Some x | None \<Rightarrow> parse_number s)"
| "parse_items 0 s = None"
| "parse_items (Suc f) s =
     (case parse_value f s of None \<Rightarrow> None
      | Some (v, r) \<Rightarrow>
        (case skip_ws r of [] \<Rightarrow> None
         | c # r' \<Rightarrow> if c = 93 then Some ([v], r')
                     else if c = 44 then map_option (apfst ((#) v)) (parse_items f (skip_ws r'))
                     else None))"
| "parse_pairs 0 s = None"
| "parse_pairs (Suc f) s =
     (case s of [] \<Rightarrow> None
      | q # r0 \<Rightarrow>
        if q \<noteq> 34 then None
        else case parse_str r0 of None \<Rightarrow> None
        | Some (k, r) \<Rightarrow>
          (case skip_ws r of [] \<Rightarrow> None
           | c # r1 \<Rightarrow>
             if c \<noteq> 58 then None
             else case parse_value f (skip_ws r1) of None \<Rightarrow> None
             | Some (v, r2) \<Rightarrow>
               (case skip_ws r2 of [] \<Rightarrow> None
                | c # r3 \<Rightarrow> if c = 125 then Some ([(k, v)], r3)
                            else if c = 44 then map_option (apfst ((#) (k, v))) (parse_pairs f (skip_ws r3))
                            else None)))"

definition loads :: "str \<Rightarrow> json option" where
  "loads s =
     (case parse_value (Suc (length s)) (skip_ws s) of
        None \<Rightarrow> None
      | Some (v, r) \<Rightarrow> if skip_ws r = [] then Some v else None)"

section \<open>Parsing undoes printing\<close>

text \<open>
  A string that the escape syntax cannot represent is one in which a high surrogate is
  directly followed by a low one: the parser joins them.
\<close>

fun str_ok :: "str \<Rightarrow> bool" where
  "str_ok [] = True"
| "str_ok (n # s) = (n < 0x110000 \<and> \<not> (high_surrogate n \<and> s \<noteq> [] \<and> low_surrogate (hd s)) \<and> str_ok s)"

fun json_ok :: "json \<Rightarrow> bool" where
  "json_ok (JFloat m k) = (0 < k \<and> (k = 1 \<or> m mod 10 \<noteq> 0))"
| "json_ok (JStr s) = str_ok s"
| "json_ok (JList xs) = (\<forall>x \<in> set xs. json_ok x)"
| "json_ok (JDict ps) = (dict_ok ps \<and> (\<forall>(k, v) \<in> set ps. str_ok k \<and> json_ok v))"
| "json_ok v = True"

lemma hex_value_digit [simp]: "n < 16 \<Longrightarrow> hex_value (hex_digit n) = Some n"
  by (auto simp: hex_value_def hex_digit_def is_digit_def)

lemma hex4_sum:
  assumes "n < 65536"
  shows "((n div 4096 mod 16 * 16 + n div 256 mod 16) * 16 + n div 16 mod 16) * 16 + n mod 16 = (n :: nat)"
proof -
  have "n div 4096 < 16" using assms by (simp add: div_less_iff_less_mult)
  moreover have "n div 4096 * 16 + n div 256 mod 16 = n div 256"
    using div_mult_mod_eq [of "n div 256" 16] by (simp add: div_mult2_eq [of n 256 16, simplified])
  moreover have "n div 256 * 16 + n div 16 mod 16 = n div 16"
    using div_mult_mod_eq [of "n div 16" 16] by (simp add: div_mult2_eq [of n 16 16, simplified])
  moreover have "n div 16 * 16 + n mod 16 = n" by simp
  ultimately show ?thesis by simp
qed

lemma parse_hex4_escape [simp]: "n < 65536 \<Longrightarrow> parse_hex4 (hex4 n @ r) = Some (n, r)"
  using hex4_sum [of n] by (simp add: hex4_def)

lemma length_hex4 [simp]: "length (hex4 n) = 4"
  by (simp add: hex4_def)

declare parse_hex4.simps [simp del]

lemma surrogate_pair:
  fixes n :: nat
  assumes "65536 \<le> n" and "n < 0x110000"
  shows "0x10000 + (n - 0x10000) div 1024 mod 1024 * 1024 + (n - 0x10000) mod 1024 = n"
proof -
  have "(n - 0x10000) div 1024 < 1024" using assms by (simp add: div_less_iff_less_mult)
  then show ?thesis using assms div_mult_mod_eq [of "n - 0x10000" 1024] by simp
qed

definition escaped :: "str \<Rightarrow> str \<Rightarrow> str" where
  "escaped s r = concat (map escape_char s) @ 34 # r"

lemma escaped_simps [simp]:
  "escaped [] r = 34 # r" "escaped (n # s) r = escape_char n @ escaped s r"
  by (simp_all add: escaped_def)

lemma escape_char_cases:
  obtains (short) c where "escape_char n = [92, c]" "c \<noteq> 117" "simple_escape c = Some n"
    | (plain) "escape_char n = [n]" "32 \<le> n" "n \<noteq> 34" "n \<noteq> 92"
    | (bmp) "escape_char n = u_escape n" "n < 65536"
    | (pair) "escape_char n = u_escape (0xD800 + (n - 0x10000) div 1024 mod 1024)
                             @ u_escape (0xDC00 + (n - 0x10000) mod 1024)" "65536 \<le> n"
proof -
  define special where "special = [(34, 34), (92, 92), (10, 110), (13, 114), (9, 116), (12, 102), (8 :: nat, 98 :: nat)]"
  show thesis
  proof (cases "n \<in> fst ` set special")
    case True
    then obtain c where "(n, c) \<in> set special" by auto
    moreover have "\<forall>(m, d) \<in> set special. escape_char m = [92, d] \<and> d \<noteq> 117 \<and> simple_escape d = Some m"
      unfolding special_def by (simp add: escape_char_def simple_escape_def)
    ultimately have "escape_char n = [92, c] \<and> c \<noteq> 117 \<and> simple_escape c = Some n" by auto
    then show thesis using short by blast
  next
    case False
    then have n: "n \<noteq> 34" "n \<noteq> 92" "n \<noteq> 10" "n \<noteq> 13" "n \<noteq> 9" "n \<noteq> 12" "n \<noteq> 8"
      by (simp_all add: special_def)
    consider "32 \<le> n \<and> n \<le> 126" | "\<not> (32 \<le> n \<and> n \<le> 126)" "n < 65536" | "65536 \<le> n"
      by linarith
    then show thesis
    proof cases
      case 1
      then show thesis using n by (intro plain) (simp_all add: escape_char_def)
    next
      case 2
      then show thesis using n by (intro bmp) (auto simp: escape_char_def)
    next
      case 3
      then show thesis by (intro pair) (auto simp: escape_char_def)
    qed
  qed
qed

lemma escaped_u:
  assumes "str_ok s" and "take 2 (escaped s r) = [92, 117]"
  obtains m x where "parse_hex4 (drop 2 (escaped s r)) = Some (m, x)" and "s \<noteq> []"
    and "m = hd s \<or> high_surrogate m"
proof (cases s)
  case Nil
  then show ?thesis using assms(2) by simp
next
  case (Cons n t)
  show ?thesis
  proof (cases n rule: escape_char_cases)
    case bmp
    then show ?thesis using Cons by (intro that [of n]) (simp_all add: u_escape_def)
  next
    case pair
    define h where "h = (n - 0x10000) div 1024 mod 1024"
    have h: "h < 1024" by (simp add: h_def)
    have "drop 2 (escaped s r) = hex4 (0xD800 + h) @ u_escape (0xDC00 + (n - 0x10000) mod 1024) @ escaped t r"
      using pair(1) Cons by (simp add: u_escape_def flip: h_def)
    then show ?thesis
      using h Cons by (intro that [of "0xD800 + h"]) (simp_all add: high_surrogate_def)
  qed (use assms(2) Cons in simp_all)
qed

lemma parse_u_bmp:
  assumes "n < 65536" and "str_ok (n # s)"
  shows "parse_u (drop 2 (u_escape n) @ escaped s r) = Some (n, escaped s r)"
proof (cases "high_surrogate n \<and> take 2 (escaped s r) = [92, 117]")
  case True
  then obtain m x where "parse_hex4 (drop 2 (escaped s r)) = Some (m, x)" and "s \<noteq> []"
    and "m = hd s \<or> high_surrogate m"
    using assms escaped_u [of s r] by auto
  moreover have "\<not> low_surrogate m"
    using True assms(2) calculation by (auto simp: high_surrogate_def low_surrogate_def)
  ultimately show ?thesis
    using assms(1) True by (simp add: parse_u_def u_escape_def)
next
  case False
  then show ?thesis
    using assms(1) by (auto simp: parse_u_def u_escape_def)
qed

lemma parse_u_pair:
  assumes "65536 \<le> n" and "n < 0x110000"
  shows "parse_u (drop 2 (u_escape (0xD800 + (n - 0x10000) div 1024 mod 1024)) @
                  u_escape (0xDC00 + (n - 0x10000) mod 1024) @ r) = Some (n, r)"
proof -
  define h where "h = (n - 0x10000) div 1024 mod 1024"
  define l where "l = (n - 0x10000) mod 1024"
  have lt: "h < 1024" "l < 1024" by (simp_all add: h_def l_def)
  have "parse_u (drop 2 (u_escape (0xD800 + h)) @ u_escape (0xDC00 + l) @ r) =
      Some (0x10000 + h * 1024 + l, r)"
    using lt by (simp add: parse_u_def u_escape_def high_surrogate_def low_surrogate_def)
  then show ?thesis
    using surrogate_pair [OF assms] by (simp add: h_def l_def)
qed

lemma parse_chars_u:
  "parse_chars (Suc f) (u_escape n @ x) =
     (case parse_u (drop 2 (u_escape n) @ x) of None \<Rightarrow> None
      | Some (m, r) \<Rightarrow> map_option (apfst ((#) m)) (parse_chars f r))"
  by (simp add: u_escape_def)

lemma parse_chars_escaped:
  "str_ok s \<Longrightarrow> length s < f \<Longrightarrow> parse_chars f (escaped s r) = Some (s, r)"
proof (induction s arbitrary: f)
  case Nil
  then show ?case by (cases f) simp_all
next
  case (Cons n s)
  then obtain g where f: "f = Suc g" and g: "length s < g" by (cases f) auto
  have ih: "parse_chars g (escaped s r) = Some (s, r)" using Cons.IH [OF _ g] Cons.prems by simp
  show ?case
  proof (cases n rule: escape_char_cases)
    case bmp
    then show ?thesis using f ih Cons.prems parse_u_bmp [of n s r] by (simp add: parse_chars_u)
  next
    case pair
    then show ?thesis using f ih Cons.prems parse_u_pair [of n "escaped s r"] by (simp add: parse_chars_u)
  qed (use f ih in auto)+
qed

lemma escape_char_nonempty: "0 < length (escape_char n)"
  by (simp add: escape_char_def u_escape_def)

lemma escaped_length: "length s < length (escaped s r)"
proof (induction s)
  case (Cons n s)
  then show ?case using escape_char_nonempty [of n] by (simp only: escaped_simps length_append list.size)
qed simp

lemma parse_str_dump: "str_ok s \<Longrightarrow> parse_str (tl (dump_str s) @ r) = Some (s, r)"
proof -
  have "tl (dump_str s) @ r = escaped s r" by (simp add: dump_str_def escaped_def)
  then show "str_ok s \<Longrightarrow> parse_str (tl (dump_str s) @ r) = Some (s, r)"
    using escaped_length [of s r] by (simp add: parse_str_def parse_chars_escaped)
qed

text \<open>What can follow a value.\<close>

definition delim :: "str \<Rightarrow> bool" where
  "delim r \<longleftrightarrow> r = [] \<or> hd r \<in> {44, 93, 125}"

lemma delim_simps [simp]: "delim []" "delim (c # r) \<longleftrightarrow> c \<in> {44, 93, 125}"
  by (simp_all add: delim_def)

lemma takeWhile_digits:
  assumes "\<forall>c \<in> set s. is_digit c" and "r = [] \<or> \<not> is_digit (hd r)"
  shows "takeWhile is_digit (s @ r) = s" and "dropWhile is_digit (s @ r) = r"
proof -
  have "takeWhile is_digit r = []" "dropWhile is_digit r = r"
    using assms(2) by (cases r; auto)+
  then show "takeWhile is_digit (s @ r) = s" "dropWhile is_digit (s @ r) = r"
    using assms(1) by (simp_all add: takeWhile_append2 dropWhile_append2)
qed

lemma digits_value_pad:
  assumes "n < 10 ^ k" and "0 < k"
  shows "length (pad_digits k n) = k" and "digits_value (pad_digits k n) = n"
    and "\<forall>c \<in> set (pad_digits k n). is_digit c"
  using digits_length [OF assms] digits_all
  by (auto simp: pad_digits_def digits_value_append is_digit_def)

lemma norm_float_ok: "0 < k \<Longrightarrow> k = 1 \<or> m mod 10 \<noteq> 0 \<Longrightarrow> norm_float m k = JFloat m k"
  by (cases "(m, k)" rule: norm_float.cases) auto

lemma parse_number_digits:
  assumes "r = [] \<or> \<not> is_digit (hd r)"
  shows "parse_number ((if neg then [45] else []) @ digits n @ r) =
     (let (fr, s3) = parse_frac r; (e, s4) = parse_exp s3 in Some (make_number neg (digits n) fr e, s4))"
proof -
  have tw: "takeWhile is_digit (digits n @ r) = digits n"
    by (rule takeWhile_digits(1) [OF _ assms]) (simp add: digits_all)
  have hd: "is_digit (hd (digits n))" by (rule digits_all, rule hd_in_set, rule digits_nonempty)
  then have hd45: "hd (digits n) \<noteq> 45" by (auto simp: is_digit_def)
  have zero: "hd (digits n) = 48 \<Longrightarrow> digits n = [48]"
    using digits_hd [of n "tl (digits n)"] by (cases "digits n") auto
  have whole: "whole_part (digits n @ r) = digits n"
    using zero tw by (simp add: whole_part_def)
  have unsigned: "parse_number (digits n @ r) =
      (let (fr, s3) = parse_frac r; (e, s4) = parse_exp s3 in Some (make_number False (digits n) fr e, s4))"
    unfolding parse_number_def Let_def using hd hd45 by (simp add: whole)
  have "parse_number (45 # digits n @ r) =
      (let (fr, s3) = parse_frac r; (e, s4) = parse_exp s3 in Some (make_number True (digits n) fr e, s4))"
    unfolding parse_number_def Let_def using hd by (simp add: whole)
  with unsigned show ?thesis by (cases neg) simp_all
qed

lemma parse_rest_delim: "delim r \<Longrightarrow> parse_frac r = ([], r)" "delim r \<Longrightarrow> parse_exp r = (None, r)"
  by (cases r; auto simp: parse_frac_def parse_exp_def)+

lemma delim_digit: "delim r \<Longrightarrow> r = [] \<or> \<not> is_digit (hd r)"
  by (cases r) (auto simp: is_digit_def)

lemma parse_number_int: "delim r \<Longrightarrow> parse_number (dump_int i @ r) = Some (JInt i, r)"
  using parse_number_digits [OF delim_digit, of r "i < 0" "nat \<bar>i\<bar>"]
  by (cases "i < 0") (simp_all add: dump_int_def parse_rest_delim make_number_def Let_def)

lemma parse_number_float:
  assumes "delim r" and "0 < k" and "k = 1 \<or> m mod 10 \<noteq> 0"
  shows "parse_number (dump_float m k @ r) = Some (JFloat m k, r)"
proof -
  define a where "a = nat \<bar>m\<bar>"
  have lt: "a mod 10 ^ k < 10 ^ k" by simp
  note pad = digits_value_pad [OF lt assms(2)]
  have "pad_digits k (a mod 10 ^ k) \<noteq> []" using pad(1) assms(2) by auto
  then have frac: "parse_frac (46 # pad_digits k (a mod 10 ^ k) @ r) = (pad_digits k (a mod 10 ^ k), r)"
    using takeWhile_digits [OF pad(3) delim_digit [OF assms(1)]] pad(3)
    by (simp add: parse_frac_def)
  have val: "digits_value (digits (a div 10 ^ k) @ pad_digits k (a mod 10 ^ k)) = a"
    unfolding digits_value_split pad digits_value_digits by (rule div_mult_mod_eq)
  have m: "(if m < 0 then - int a else int a) = m" by (simp add: a_def)
  have num: "make_number (m < 0) (digits (a div 10 ^ k)) (pad_digits k (a mod 10 ^ k)) None = JFloat m k"
    unfolding make_number_def Let_def val m
    using assms(2,3) pad(1) \<open>pad_digits k (a mod 10 ^ k) \<noteq> []\<close> by (simp add: norm_float_ok)
  have "dump_float m k @ r = (if m < 0 then [45] else []) @ digits (a div 10 ^ k) @ 46 # pad_digits k (a mod 10 ^ k) @ r"
    by (simp add: dump_float_def Let_def a_def)
  then show ?thesis
    using parse_number_digits [of "46 # pad_digits k (a mod 10 ^ k) @ r" "m < 0" "a div 10 ^ k"]
      frac parse_rest_delim(2) [OF assms(1)] num
    by (simp add: is_digit_def)
qed


text \<open>Separators as the code passes them, \<open>","\<close> and \<open>":"\<close>, possibly followed by blanks.\<close>

definition sep_ok :: "nat \<Rightarrow> str \<Rightarrow> bool" where
  "sep_ok c sep \<longleftrightarrow> sep \<noteq> [] \<and> hd sep = c \<and> (\<forall>w \<in> set (tl sep). is_ws w)"

lemma skip_ws_sep: "sep_ok c sep \<Longrightarrow> c \<notin> {32, 9, 10, 13} \<Longrightarrow> skip_ws (sep @ r) = c # tl sep @ r"
  by (cases sep) (auto simp: sep_ok_def skip_ws_def is_ws_def)

lemma skip_ws_blanks: "\<forall>w \<in> set ws. is_ws w \<Longrightarrow> skip_ws (ws @ r) = skip_ws r"
  by (induction ws) (auto simp: skip_ws_def)

lemma skip_ws_other: "c \<notin> {32, 9, 10, 13} \<Longrightarrow> skip_ws (c # r) = c # r"
  by (simp add: skip_ws_def is_ws_def)

lemma digits_start: "\<exists>c s. digits n = c # s \<and> is_digit c"
  using digits_all [of _ n] by (cases "digits n") auto

lemma dump_start: "\<exists>c s. dumps isep ksep v = c # s \<and> c \<notin> {32, 9, 10, 13, 44, 93, 125}"
proof (cases v)
  case (JInt i)
  then show ?thesis using digits_start [of "nat i"] by (auto simp: dump_int_def is_digit_def)
next
  case (JFloat m k)
  then show ?thesis using digits_start [of "nat \<bar>m\<bar> div 10 ^ k"]
    by (cases "m < 0") (auto simp: dump_float_def Let_def is_digit_def)
qed (auto simp: dump_str_def split: nonfinite.split)

lemma skip_ws_dump [simp]: "skip_ws (dumps isep ksep v @ r) = dumps isep ksep v @ r"
  using dump_start [of isep ksep v] by (auto simp: skip_ws_def is_ws_def)

lemma keyword_digit: "is_digit c \<Longrightarrow> parse_keyword json_words (c # r) = None"
  by (auto simp: json_words_def is_digit_def)

lemma keyword_minus: "is_digit c \<Longrightarrow> parse_keyword json_words (45 # c # r) = None"
  by (auto simp: json_words_def is_digit_def)

lemma parse_value_number:
  assumes "is_digit c"
  shows "parse_value (Suc f) (c # r) = parse_number (c # r)"
    and "parse_value (Suc f) (45 # c # r) = parse_number (45 # c # r)"
  using assms keyword_digit [OF assms] keyword_minus [OF assms]
  by (auto simp: is_digit_def)

lemma parse_value_int: "delim r \<Longrightarrow> parse_value (Suc f) (dump_int i @ r) = Some (JInt i, r)"
  using parse_number_int [of r i] digits_start [of "nat i"] digits_start [of "nat (- i)"]
  by (auto simp: dump_int_def parse_value_number simp del: parse_value.simps)

lemma parse_value_float:
  assumes "delim r" and "0 < k" and "k = 1 \<or> m mod 10 \<noteq> 0"
  shows "parse_value (Suc f) (dump_float m k @ r) = Some (JFloat m k, r)"
  using parse_number_float [OF assms] digits_start [of "nat \<bar>m\<bar> div 10 ^ k"]
  by (cases "m < 0") (auto simp: dump_float_def Let_def parse_value_number simp del: parse_value.simps)

lemma dict_of_pairs_distinct: "dict_ok ps \<Longrightarrow> dict_of_pairs ps = ps"
proof -
  have "dict_ok (d @ ps) \<Longrightarrow> fold (\<lambda>(k, v) d. AList.update k v d) ps d = d @ ps" for d
  proof (induction ps arbitrary: d)
    case (Cons p ps)
    obtain k v where p: "p = (k, v)" by (cases p)
    have "AList.update k v d = d @ [(k, v)]" using Cons.prems p by (intro update_fresh) auto
    with Cons.IH [of "d @ [(k, v)]"] Cons.prems p show ?case by simp
  qed simp
  from this [of "[]"] show "dict_ok ps \<Longrightarrow> dict_of_pairs ps = ps" by (simp add: dict_of_pairs_def)
qed

definition parses :: "str \<Rightarrow> str \<Rightarrow> json \<Rightarrow> bool" where
  "parses isep ksep v \<longleftrightarrow>
     (\<forall>f r. length (dumps isep ksep v) \<le> f \<longrightarrow> delim r \<longrightarrow>
        parse_value f (dumps isep ksep v @ r) = Some (v, r))"

lemma parse_items_dump:
  assumes "sep_ok 44 isep" and "xs \<noteq> []" and "\<forall>x \<in> set xs. parses isep ksep x"
    and "length (join isep (map (dumps isep ksep) xs)) < f"
  shows "parse_items f (join isep (map (dumps isep ksep) xs) @ 93 # r) = Some (xs, r)"
  using assms(2-)
proof (induction xs arbitrary: f rule: list_nonempty_induct)
  case (single x)
  then obtain g where "f = Suc g" "length (dumps isep ksep x) \<le> g" by (cases f) auto
  with single show ?case by (simp add: parses_def skip_ws_other)
next
  case (cons x xs)
  obtain g where f: "f = Suc g" using cons.prems by (cases f) auto
  obtain y ys where xs: "xs = y # ys" using cons.hyps by (cases xs) auto
  have sep: "0 < length isep" "\<forall>w \<in> set (tl isep). is_ws w" using assms(1) by (auto simp: sep_ok_def)
  have g: "length (dumps isep ksep x) \<le> g" "length (join isep (map (dumps isep ksep) xs)) < g"
    using cons.prems f xs sep(1) dump_start [of isep ksep x] by auto
  define rest where "rest = join isep (map (dumps isep ksep) xs) @ 93 # r"
  have rest: "skip_ws rest = rest"
    unfolding rest_def xs by (cases ys) simp_all
  have "delim (isep @ rest)" using assms(1) by (cases isep) (auto simp: sep_ok_def)
  then have "parse_value g (dumps isep ksep x @ isep @ rest) = Some (x, isep @ rest)"
    using cons.prems(1) g(1) by (simp add: parses_def)
  moreover have "skip_ws (isep @ rest) = 44 # tl isep @ rest" "skip_ws (tl isep @ rest) = rest"
    using skip_ws_sep [OF assms(1)] skip_ws_blanks [OF sep(2)] rest by simp_all
  moreover have "parse_items g rest = Some (xs, r)"
    unfolding rest_def using cons.IH [of g] cons.prems(1) g(2) by simp
  ultimately show ?case
    using f xs rest by (simp add: rest_def)
qed

lemma parse_pairs_dump:
  assumes "sep_ok 44 isep" and "sep_ok 58 ksep" and "ps \<noteq> []"
    and "\<forall>(k, v) \<in> set ps. str_ok k \<and> parses isep ksep v"
    and "length (join isep (map (\<lambda>(k, v). dump_str k @ ksep @ dumps isep ksep v) ps)) < f"
  shows "parse_pairs f (join isep (map (\<lambda>(k, v). dump_str k @ ksep @ dumps isep ksep v) ps) @ 125 # r)
       = Some (ps, r)"
  using assms(3-)
proof (induction ps arbitrary: f rule: list_nonempty_induct)
  case (single p)
  obtain k v where p: "p = (k, v)" by (cases p)
  obtain g where f: "f = Suc g" "length (dumps isep ksep v) \<le> g"
    using single p by (cases f) auto
  have sep: "\<forall>w \<in> set (tl ksep). is_ws w" using assms(2) by (auto simp: sep_ok_def)
  have key: "dump_str k @ x = 34 # tl (dump_str k) @ x" for x by (simp add: dump_str_def)
  have "parse_value g (dumps isep ksep v @ 125 # r) = Some (v, 125 # r)"
    using single p f(2) by (simp add: parses_def)
  then show ?case
    using single p f(1) parse_str_dump [of k] skip_ws_sep [OF assms(2)] skip_ws_blanks [OF sep]
    by (simp add: key skip_ws_other)
next
  case (cons p ps)
  obtain k v where p: "p = (k, v)" by (cases p)
  obtain g where f: "f = Suc g" using cons.prems by (cases f) auto
  obtain q qs where ps: "ps = q # qs" using cons.hyps by (cases ps) auto
  have sep: "0 < length isep" "\<forall>w \<in> set (tl isep). is_ws w" "\<forall>w \<in> set (tl ksep). is_ws w"
    using assms(1,2) by (auto simp: sep_ok_def)
  have key: "dump_str k @ x = 34 # tl (dump_str k) @ x" for x k by (simp add: dump_str_def)
  have g: "length (dumps isep ksep v) \<le> g"
    "length (join isep (map (\<lambda>(k, v). dump_str k @ ksep @ dumps isep ksep v) ps)) < g"
  proof -
    have "length (dump_str k) + (length ksep + (length (dumps isep ksep v) + (length isep +
        length (join isep (map (\<lambda>(k, v). dump_str k @ ksep @ dumps isep ksep v) ps))))) < Suc g"
      using cons.prems(2) f p ps by simp
    moreover have "length (dumps isep ksep v) \<ge> 1" using dump_start [of isep ksep v] by auto
    ultimately show "length (dumps isep ksep v) \<le> g"
      "length (join isep (map (\<lambda>(k, v). dump_str k @ ksep @ dumps isep ksep v) ps)) < g"
      using sep(1) by linarith+
  qed
  define rest where "rest = join isep (map (\<lambda>(k, v). dump_str k @ ksep @ dumps isep ksep v) ps) @ 125 # r"
  have rest: "skip_ws rest = rest"
    unfolding rest_def ps by (cases qs; cases q) (simp_all add: key skip_ws_other)
  have "delim (isep @ rest)" using assms(1) by (cases isep) (auto simp: sep_ok_def)
  then have val: "parse_value g (dumps isep ksep v @ isep @ rest) = Some (v, isep @ rest)"
    using cons.prems(1) p g(1) by (simp add: parses_def)
  have isep: "skip_ws (isep @ rest) = 44 # tl isep @ rest" "skip_ws (tl isep @ rest) = rest"
    using skip_ws_sep [OF assms(1)] skip_ws_blanks [OF sep(2)] rest by simp_all
  have ksep: "skip_ws (ksep @ x) = 58 # tl ksep @ x" "skip_ws (tl ksep @ x) = skip_ws x" for x
    using skip_ws_sep [OF assms(2)] skip_ws_blanks [OF sep(3)] by simp_all
  have ih: "parse_pairs g rest = Some (ps, r)"
    unfolding rest_def using cons.IH [of g] cons.prems(1) g(2) by simp
  have input: "join isep (map (\<lambda>(k, v). dump_str k @ ksep @ dumps isep ksep v) (p # ps)) @ 125 # r
      = 34 # tl (dump_str k) @ ksep @ dumps isep ksep v @ isep @ rest"
    by (simp add: p ps rest_def key)
  have "str_ok k" using cons.prems(1) p by simp
  then show ?case
    unfolding input f by (simp add: parse_str_dump ksep val isep ih p)
qed

lemma parsesI:
  assumes "\<And>f r. length (dumps isep ksep v) \<le> Suc f \<Longrightarrow> delim r \<Longrightarrow>
             parse_value (Suc f) (dumps isep ksep v @ r) = Some (v, r)"
  shows "parses isep ksep v"
  unfolding parses_def
proof (intro allI impI)
  fix f r
  assume f: "length (dumps isep ksep v) \<le> f" and r: "delim r"
  then obtain g where "f = Suc g" using dump_start [of isep ksep v] by (cases f) auto
  then show "parse_value f (dumps isep ksep v @ r) = Some (v, r)" using assms f r by blast
qed

lemma join_start: "xs \<noteq> [] \<Longrightarrow> \<exists>y. join sep xs = hd xs @ y"
  by (induction sep xs rule: join.induct) auto

lemma join_items_start:
  "xs \<noteq> [] \<Longrightarrow> \<exists>c s. join isep (map (dumps isep ksep) xs) = c # s \<and> c \<noteq> 93 \<and>
     skip_ws (c # s @ r) = c # s @ r"
  using join_start [of "map (dumps isep ksep) xs" isep] dump_start [of isep ksep "hd xs"]
  by (auto simp: hd_map skip_ws_other)

lemma join_pairs_start:
  "ps \<noteq> [] \<Longrightarrow> \<exists>s. join isep (map (\<lambda>(k, v). dump_str k @ ksep @ dumps isep ksep v) ps) = 34 # s"
  using join_start [of "map (\<lambda>(k, v). dump_str k @ ksep @ dumps isep ksep v) ps" isep]
  by (cases ps) (auto simp: dump_str_def)

lemma parse_value_dump:
  assumes "sep_ok 44 isep" and "sep_ok 58 ksep" and "json_ok v"
  shows "parses isep ksep v"
  using assms(3)
proof (induction v)
  case (JInt i)
  show ?case by (rule parsesI) (simp add: parse_value_int del: parse_value.simps)
next
  case (JFloat m k)
  then show ?case by (intro parsesI) (simp add: parse_value_float del: parse_value.simps)
next
  case (JStr s)
  then have "parse_str (tl (dump_str s) @ r) = Some (s, r)" for r by (simp add: parse_str_dump)
  moreover obtain t where "dump_str s = 34 # t" by (simp add: dump_str_def)
  ultimately show ?case by (intro parsesI) simp
next
  case (JList xs)
  have items: "\<forall>x \<in> set xs. parses isep ksep x" using JList by simp
  show ?case
  proof (cases "xs = []")
    case True
    then show ?thesis by (intro parsesI) (simp add: skip_ws_other)
  next
    case False
    show ?thesis
    proof (rule parsesI)
      fix f r assume f: "length (dumps isep ksep (JList xs)) \<le> Suc f"
      obtain c s where cs: "join isep (map (dumps isep ksep) xs) = c # s" "c \<noteq> 93"
        "skip_ws (c # s @ 93 # r) = c # s @ 93 # r"
        using join_items_start [OF False] by metis
      have "parse_items f (c # s @ 93 # r) = Some (xs, r)"
        using parse_items_dump [OF assms(1) False items, of f r] f cs(1) by simp
      then show "parse_value (Suc f) (dumps isep ksep (JList xs) @ r) = Some (JList xs, r)"
        using cs by simp
    qed
  qed
next
  case (JDict ps)
  have pairs: "\<forall>(k, v) \<in> set ps. str_ok k \<and> parses isep ksep v" using JDict by fastforce
  show ?case
  proof (cases "ps = []")
    case True
    then show ?thesis by (intro parsesI) (simp add: skip_ws_other)
  next
    case False
    show ?thesis
    proof (rule parsesI)
      fix f r assume f: "length (dumps isep ksep (JDict ps)) \<le> Suc f"
      obtain s where s: "join isep (map (\<lambda>(k, v). dump_str k @ ksep @ dumps isep ksep v) ps) = 34 # s"
        using join_pairs_start [OF False] by metis
      have "parse_pairs f (34 # s @ 125 # r) = Some (ps, r)"
        using parse_pairs_dump [OF assms(1,2) False pairs, of f r] f s by simp
      then show "parse_value (Suc f) (dumps isep ksep (JDict ps) @ r) = Some (JDict ps, r)"
        using s JDict.prems by (simp add: skip_ws_other dict_of_pairs_distinct)
    qed
  qed
qed (rule parsesI, auto simp: json_words_def split: nonfinite.split)+

theorem loads_dumps:
  assumes "sep_ok 44 isep" and "sep_ok 58 ksep" and "json_ok v"
  shows "loads (dumps isep ksep v) = Some v"
proof -
  have "parse_value (Suc (length (dumps isep ksep v))) (dumps isep ksep v @ []) = Some (v, [])"
    using parse_value_dump [OF assms] unfolding parses_def by (metis delim_simps(1) le_SucI order_refl)
  moreover have "skip_ws [] = []" by (simp add: skip_ws_def)
  ultimately show ?thesis
    using skip_ws_dump [of isep ksep v "[]"] by (simp add: loads_def del: parse_value.simps)
qed

lemma compact_seps [simp]: "sep_ok 44 [44]" "sep_ok 58 [58]" "sep_ok 44 [44, 32]" "sep_ok 58 [58, 32]"
  by (simp_all add: sep_ok_def is_ws_def)

lemma dumps_inj:
  "sep_ok 44 isep \<Longrightarrow> sep_ok 58 ksep \<Longrightarrow> json_ok v \<Longrightarrow> json_ok w \<Longrightarrow> dumps isep ksep v = dumps isep ksep w \<Longrightarrow> v = w"
  by (metis loads_dumps option.inject)

lemma map_fst_sort_key: "map fst (sort_key fst ps) = sort (map fst ps)"
proof -
  have "map fst (insort_key fst p qs) = insort (fst p) (map fst qs)" for p and qs :: "('a \<times> 'b) list"
    by (induction qs) auto
  then show ?thesis by (induction ps) auto
qed

lemma sorted_json_ok: "json_ok v \<Longrightarrow> json_ok (sorted_json v)"
proof (induction v)
  case (JDict ps)
  have "map fst (map (\<lambda>(k, v). (k, sorted_json v)) ps) = map fst ps" by (induction ps) auto
  then have "dict_ok (sort_key fst (map (\<lambda>(k, v). (k, sorted_json v)) ps))"
    using JDict.prems by (simp only: map_fst_sort_key) simp
  then show ?case using JDict by fastforce
qed auto

text \<open>Two values with the same canonical text are equal up to the order of their keys.\<close>

lemma canonical_inj:
  "json_ok v \<Longrightarrow> json_ok w \<Longrightarrow> canonical v = canonical w \<Longrightarrow> sorted_json v = sorted_json w"
  by (rule dumps_inj [OF compact_seps(1,2)]) (simp_all add: sorted_json_ok)

lemma canonical_loads: "json_ok v \<Longrightarrow> loads (canonical v) = Some (sorted_json v)"
  by (rule loads_dumps) (simp_all add: sorted_json_ok)

text \<open>The printed text is ASCII, so encoding it never fails.\<close>

lemma digits_ascii: "\<forall>c \<in> set (digits n). c < 128"
  by (auto dest!: digits_all simp: is_digit_def)

lemma hex_digit_ascii: "n < 16 \<Longrightarrow> hex_digit n < 128"
  by (simp add: hex_digit_def)

lemma u_escape_ascii: "\<forall>c \<in> set (u_escape n). c < 128"
  by (simp add: u_escape_def hex4_def hex_digit_ascii)

lemma escape_char_ascii: "\<forall>c \<in> set (escape_char n). c < 128"
proof (cases n rule: escape_char_cases)
  case (short c)
  then show ?thesis by (auto simp: simple_escape_def split: if_splits)
next
  case plain
  then show ?thesis by (auto simp: escape_char_def u_escape_def split: if_splits)
qed (use u_escape_ascii in auto)

lemma join_all:
  "(\<forall>c \<in> set sep. P c) \<Longrightarrow> (\<forall>x \<in> set xs. \<forall>c \<in> set x. P c) \<Longrightarrow> \<forall>c \<in> set (join sep xs). P c"
proof (induction sep xs rule: join.induct)
  case (3 sep x y ys)
  from 3(3) have "\<forall>x \<in> set (y # ys). \<forall>c \<in> set x. P c" by simp
  with 3(1,2) have "\<forall>c \<in> set (join sep (y # ys)). P c" by blast
  then show ?case using 3(2,3) by (simp add: ball_Un)
qed simp_all

lemma join_ascii: "(\<forall>c \<in> set sep. c < 128) \<Longrightarrow> (\<forall>x \<in> set xs. \<forall>c \<in> set x. c < (128 :: nat)) \<Longrightarrow> \<forall>c \<in> set (join sep xs). c < 128"
  by (rule join_all)

lemma dumps_ascii:
  assumes "\<forall>c \<in> set isep. c < 128" and "\<forall>c \<in> set ksep. c < 128"
  shows "\<forall>c \<in> set (dumps isep ksep v). c < 128"
proof (induction v)
  case (JFloat m k)
  then show ?case using digits_ascii by (auto simp: dump_float_def Let_def pad_digits_def)
next
  case (JList xs)
  have "\<forall>c \<in> set (join isep (map (dumps isep ksep) xs)). c < 128"
    using JList by (intro join_ascii [OF assms(1)]) auto
  then show ?case by auto
next
  case (JDict ps)
  have "\<forall>c \<in> set (join isep (map (\<lambda>(k, v). dump_str k @ ksep @ dumps isep ksep v) ps)). c < 128"
    using JDict escape_char_ascii assms(2)
    by (intro join_ascii [OF assms(1)]) (fastforce simp: dump_str_def)
  then show ?case by auto
qed (use digits_ascii escape_char_ascii in \<open>auto simp: dump_int_def dump_str_def split: nonfinite.split\<close>)

end
