(* ===== verification/Request_State.thy ===== *)
theory Request_State
  imports Py_Json "HOL-Library.Product_Lexorder" "HOL-Library.Multiset"
begin

text \<open>
  \<open>RequestStateSealer\<close> and \<open>request_fingerprint\<close> of \<open>middleware/state.py\<close>: state that the client
  carries, sealed with AES-GCM. The AEAD and SHA-256 are parameters (the record \<open>crypto\<close>), the
  nonce, the token id and the clock readings arguments. The clock of \<open>seal\<close> is the decimal
  \<open>m / 10 ^ k\<close> that the printed float shows. The expiry heap is kept as the sorted list of its
  entries: \<open>heap[0]\<close> is its head and \<open>heappop\<close> its tail. A non-finite expiry (which only a key
  holder can seal) never expires and is not put on the heap.
\<close>

record crypto =
  cr_encrypt :: "byte list \<Rightarrow> byte list \<Rightarrow> byte list \<Rightarrow> byte list \<Rightarrow> byte list"
  cr_decrypt :: "byte list \<Rightarrow> byte list \<Rightarrow> byte list \<Rightarrow> byte list \<Rightarrow> byte list option"
  cr_sha256 :: "byte list \<Rightarrow> byte list"

text \<open>
  Documented behaviour of \<open>AESGCM(key).encrypt(nonce, data, aad)\<close> and \<open>decrypt\<close>: decryption
  recomputes the tag, so it returns a plaintext exactly for what encryption yields for it, and
  the ciphertext is the plaintext's length plus the 16 bytes of the tag.
\<close>

definition aead_ok :: "crypto \<Rightarrow> bool" where
  "aead_ok cr \<longleftrightarrow>
     (\<forall>key nonce ct aad data. cr_decrypt cr key nonce ct aad = Some data \<longleftrightarrow> ct = cr_encrypt cr key nonce data aad) \<and>
     (\<forall>key nonce data aad. length (cr_encrypt cr key nonce data aad) = length data + 16)"

section \<open>Request fingerprints\<close>

definition ascii_bytes :: "str \<Rightarrow> byte list" where
  "ascii_bytes s = map byte_of s"

definition hexdigest :: "byte list \<Rightarrow> str" where
  "hexdigest bs = concat (map (\<lambda>b. [hex_digit (unat b div 16), hex_digit (unat b mod 16)]) bs)"

definition salient :: "(str \<times> json) list \<Rightarrow> (str \<times> json) list" where
  "salient params = filter (\<lambda>(k, v). k \<notin> {ascii ''requestState'', ascii ''inputResponses'', ascii ''_meta''}) params"

text \<open>\<open>None\<close> is the \<open>ValueError\<close> of \<open>allow_nan=False\<close>.\<close>

definition request_fingerprint :: "crypto \<Rightarrow> str \<Rightarrow> (str \<times> json) list \<Rightarrow> str option" where
  "request_fingerprint cr mthd params =
     (let v = JDict (salient params)
      in if finite_json v
         then Some (mthd @ 58 # hexdigest (cr_sha256 cr (ascii_bytes (canonical v))))
         else None)"

section \<open>The sealer\<close>

datatype seal_error = SealValueError string | SealRuntimeError string | SealUnicodeError

datatype open_error = StateVerificationError | OpenUnicodeError

record spent_cache =
  sc_spent :: "(str, str \<times> str) dict"
  sc_heap :: "(time \<times> str) list"
  sc_per_owner :: "(str \<times> str) counts"
  sc_per_tenant :: "str counts"

record sealer =
  sl_keys :: "(str, byte list) dict"
  sl_active :: str
  sl_ttl :: int
  sl_single_use :: bool
  sl_audience :: str
  sl_has_store :: bool
  sl_seals :: "str counts"
  sl_cache :: spent_cache

definition max_state_chars :: nat where "max_state_chars = 64 * 1024"
definition max_ttl_seconds :: int where "max_ttl_seconds = 3600"
definition max_seals_per_key :: int where "max_seals_per_key = 2 ^ 31"
definition max_spent_entries :: int where "max_spent_entries = 1000000"
definition max_spent_per_owner :: int where "max_spent_per_owner = 10000"
definition max_spent_per_tenant :: int where "max_spent_per_tenant = max_spent_entries div 4"
definition state_owner_floor :: int where "state_owner_floor = 8"

text \<open>\<open>$\<close> also matches before a final newline.\<close>

definition kid_char :: "nat \<Rightarrow> bool" where
  "kid_char c \<longleftrightarrow> 65 \<le> c \<and> c \<le> 90 \<or> 97 \<le> c \<and> c \<le> 122 \<or> is_digit c \<or> c = 95 \<or> c = 45"

definition kid_ok :: "str \<Rightarrow> bool" where
  "kid_ok kid =
     (let body = (if kid \<noteq> [] \<and> last kid = 10 then butlast kid else kid)
      in 1 \<le> length body \<and> length body \<le> 32 \<and> (\<forall>c \<in> set body. kid_char c))"

definition is_weak_key :: "byte list \<Rightarrow> bool" where
  "is_weak_key key \<longleftrightarrow> card (set key) < 16 \<or> (\<forall>b \<in> set key. 0x20 \<le> unat b \<and> unat b \<le> 0x7E)"

fun check_keys :: "(str, byte list) dict \<Rightarrow> seal_error + unit" where
  "check_keys [] = Inr ()"
| "check_keys ((kid, key) # keys) =
     (if \<not> kid_ok kid then Inl (SealValueError ''invalid key id'')
      else if length key \<noteq> 32 then Inl (SealValueError ''sealing keys must be exactly 32 bytes (AES-256)'')
      else if is_weak_key key then Inl (SealValueError ''sealing key looks non-random'')
      else check_keys keys)"

definition new_sealer :: "(str, byte list) dict \<Rightarrow> str \<Rightarrow> str \<Rightarrow> int \<Rightarrow> bool \<Rightarrow> bool \<Rightarrow> seal_error + sealer" where
  "new_sealer keys active_kid audience default_ttl single_use has_store =
     (if keys = [] then Inl (SealValueError ''at least one sealing key is required'')
      else case check_keys keys of Inl e \<Rightarrow> Inl e
      | Inr _ \<Rightarrow>
          if audience = [] then Inl (SealValueError ''audience is required'')
          else if active_kid \<notin> fst ` set keys then
            Inl (SealValueError ''active_kid must be one of the configured keys'')
          else if \<not> (0 < default_ttl \<and> default_ttl \<le> max_ttl_seconds) then
            Inl (SealValueError ''default_ttl_seconds out of range'')
          else Inr \<lparr>sl_keys = keys, sl_active = active_kid, sl_ttl = default_ttl,
                     sl_single_use = single_use, sl_audience = audience, sl_has_store = has_store,
                     sl_seals = map_of (map (\<lambda>(k, _). (k, 0)) keys),
                     sl_cache = \<lparr>sc_spent = [], sc_heap = [], sc_per_owner = Map.empty,
                                 sc_per_tenant = Map.empty\<rparr>\<rparr>)"

definition state_aad :: "crypto \<Rightarrow> sealer \<Rightarrow> str \<Rightarrow> byte list option" where
  "state_aad cr s kid =
     map_option (\<lambda>aud. ascii_bytes (ascii ''cosai-requestState|v1|'' @ kid @ [124]) @ cr_sha256 cr aud)
       (utf8_encode (sl_audience s))"

definition b64 :: "byte list \<Rightarrow> str" where
  "b64 bs = rstrip_eq (b64encode True bs)"

definition unb64 :: "str \<Rightarrow> byte list option" where
  "unb64 s = urlsafe_b64decode (s @ b64_pad s)"

definition state_body :: "int \<times> nat \<Rightarrow> int \<Rightarrow> str \<Rightarrow> (str \<times> json) list \<Rightarrow> str \<Rightarrow> str \<Rightarrow> str \<Rightarrow> json" where
  "state_body clk ttl jti payload prin request_id tenant =
     JDict [(ascii ''p'', JStr prin), (ascii ''t'', JStr tenant), (ascii ''r'', JStr request_id),
            (ascii ''exp'', JFloat (fst clk + ttl * 10 ^ snd clk) (snd clk)),
            (ascii ''jti'', JStr jti), (ascii ''d'', JDict payload)]"

definition seal :: "crypto \<Rightarrow> byte list \<Rightarrow> str \<Rightarrow> int \<times> nat \<Rightarrow> (str \<times> json) list \<Rightarrow> str \<Rightarrow> str \<Rightarrow> str \<Rightarrow>
    int option \<Rightarrow> sealer \<Rightarrow> (seal_error + str) \<times> sealer" where
  "seal cr nonce jti clk payload prin request_id tenant ttl_seconds s =
     (if prin = [] \<or> request_id = [] then
        (Inl (SealValueError ''principal and request_id are required''), s)
      else if tenant = [] then (Inl (SealValueError ''tenant is required''), s)
      else
        let ttl = (case ttl_seconds of None \<Rightarrow> sl_ttl s | Some t \<Rightarrow> t)
        in if \<not> (0 < ttl \<and> ttl \<le> max_ttl_seconds) then (Inl (SealValueError ''ttl_seconds out of range''), s)
        else
          let body = compact (state_body clk ttl jti payload prin request_id tenant);
              used = cget (sl_seals s) (sl_active s)
          in if used \<ge> max_seals_per_key then
               (Inl (SealRuntimeError ''sealing key usage limit reached; rotate active_kid''), s)
          else
            let s' = s\<lparr>sl_seals := (sl_seals s)(sl_active s \<mapsto> used + 1)\<rparr>
            in (case (state_aad cr s (sl_active s), map_of (sl_keys s) (sl_active s)) of
                  (Some aad, Some key) \<Rightarrow>
                    (let ct = cr_encrypt cr key nonce (ascii_bytes body) aad;
                         token = ascii ''v1.'' @ sl_active s @ [46] @ b64 (nonce @ ct)
                     in if length token > max_state_chars
                        then (Inl (SealValueError ''sealed requestState exceeds the maximum size''), s')
                        else (Inr token, s'))
                | _ \<Rightarrow> (Inl SealUnicodeError, s')))"

section \<open>Opening a token\<close>

text \<open>\<open>token.split(".", 2)\<close> unpacked into three parts.\<close>

definition split3 :: "str \<Rightarrow> (str \<times> str \<times> str) option" where
  "split3 s =
     (case dropWhile (\<lambda>c. c \<noteq> 46) s of [] \<Rightarrow> None
      | _ # r \<Rightarrow> (case dropWhile (\<lambda>c. c \<noteq> 46) r of [] \<Rightarrow> None
                  | _ # blob \<Rightarrow> Some (takeWhile (\<lambda>c. c \<noteq> 46) s, takeWhile (\<lambda>c. c \<noteq> 46) r, blob)))"

definition unseal :: "crypto \<Rightarrow> str option \<Rightarrow> sealer \<Rightarrow> json option" where
  "unseal cr token s =
     (case token of None \<Rightarrow> None
      | Some tok \<Rightarrow>
          if length tok > max_state_chars then None
          else case split3 tok of None \<Rightarrow> None
          | Some (fmt, kid, blob) \<Rightarrow>
              if fmt \<noteq> ascii ''v1'' then None
              else (case (map_of (sl_keys s) kid, unb64 blob, state_aad cr s kid) of
                      (Some key, Some raw, Some aad) \<Rightarrow>
                        if length raw \<le> 12 then None
                        else (case cr_decrypt cr key (take 12 raw) (drop 12 raw) aad of None \<Rightarrow> None
                              | Some body \<Rightarrow> Option.bind (utf8_decode body) loads)
                    | _ \<Rightarrow> None))"

definition claim_of :: "json \<Rightarrow> str \<Rightarrow> json option" where
  "claim_of v k = (case v of JDict ps \<Rightarrow> map_of ps k | _ \<Rightarrow> None)"

text \<open>
  \<open>exp\<close> as a number: a bool is an int in Python. \<open>Some None\<close> never expires, as a comparison
  with NaN or infinity is false.
\<close>

definition exp_number :: "json option \<Rightarrow> time option option" where
  "exp_number v =
     (case v of Some (JInt i) \<Rightarrow> Some (Some (of_int i))
      | Some (JBool b) \<Rightarrow> Some (Some (if b then 1 else 0))
      | Some (JFloat m k) \<Rightarrow> Some (Some (of_int m / 10 ^ k))
      | Some (JNonFinite x) \<Rightarrow> (if x = NegInf then None else Some None)
      | _ \<Rightarrow> None)"

definition expired_at :: "time \<Rightarrow> time option \<Rightarrow> bool" where
  "expired_at now deadline = (case deadline of None \<Rightarrow> False | Some e \<Rightarrow> e \<le> now)"

text \<open>\<open>_eq\<close>: \<open>None\<close> is the \<open>UnicodeEncodeError\<close> of a lone surrogate.\<close>

definition str_eq :: "json option \<Rightarrow> str \<Rightarrow> bool option" where
  "str_eq a b =
     (case a of Some (JStr s) \<Rightarrow>
        (case (utf8_encode s, utf8_encode b) of (Some x, Some y) \<Rightarrow> Some (x = y) | _ \<Rightarrow> None)
      | _ \<Rightarrow> Some False)"

definition eq_check :: "json option \<Rightarrow> str \<Rightarrow> open_error + unit" where
  "eq_check a b =
     (case str_eq a b of None \<Rightarrow> Inl OpenUnicodeError
      | Some ok \<Rightarrow> if ok then Inr () else Inl StateVerificationError)"

definition check_claims :: "json \<Rightarrow> time \<Rightarrow> str \<Rightarrow> str \<Rightarrow> str \<Rightarrow>
    open_error + (time option \<times> (str \<times> json) list)" where
  "check_claims claims now prin request_id tenant =
     (case exp_number (claim_of claims (ascii ''exp'')) of
        None \<Rightarrow> Inl StateVerificationError
      | Some deadline \<Rightarrow>
          if expired_at now deadline then Inl StateVerificationError
          else case eq_check (claim_of claims (ascii ''p'')) prin of Inl e \<Rightarrow> Inl e | Inr _ \<Rightarrow>
               (case eq_check (claim_of claims (ascii ''t'')) tenant of Inl e \<Rightarrow> Inl e | Inr _ \<Rightarrow>
               (case eq_check (claim_of claims (ascii ''r'')) request_id of Inl e \<Rightarrow> Inl e | Inr _ \<Rightarrow>
               (case claim_of claims (ascii ''d'') of
                  Some (JDict d) \<Rightarrow> Inr (deadline, d)
                | _ \<Rightarrow> Inl StateVerificationError))))"

section \<open>The replay cache\<close>

definition drop_spent :: "str \<Rightarrow> spent_cache \<Rightarrow> spent_cache" where
  "drop_spent old c =
     (case map_of (sc_spent c) old of None \<Rightarrow> c
      | Some owner \<Rightarrow> c\<lparr>sc_spent := AList.delete old (sc_spent c),
                         sc_per_owner := decrement (sc_per_owner c) owner,
                         sc_per_tenant := decrement (sc_per_tenant c) (snd owner)\<rparr>)"

fun purge_spent :: "time \<Rightarrow> (time \<times> str) list \<Rightarrow> spent_cache \<Rightarrow> spent_cache" where
  "purge_spent now [] c = c\<lparr>sc_heap := []\<rparr>"
| "purge_spent now ((e, old) # heap) c =
     (if e \<le> now then purge_spent now heap (drop_spent old c) else c\<lparr>sc_heap := (e, old) # heap\<rparr>)"

definition spent_full :: "str \<times> str \<Rightarrow> spent_cache \<Rightarrow> bool" where
  "spent_full owner c =
     (let mine = cget (sc_per_owner c) owner;
          total = int (length (sc_spent c));
          in_tenant = cget (sc_per_tenant c) (snd owner)
      in mine \<ge> max_spent_per_owner
         \<or> in_tenant \<ge> max_spent_per_tenant \<and> (mine \<ge> state_owner_floor \<or> in_tenant \<ge> 2 * max_spent_per_tenant)
         \<or> total \<ge> max_spent_entries \<and> (mine \<ge> state_owner_floor \<or> total \<ge> 2 * max_spent_entries))"

definition record_spent :: "str \<Rightarrow> time option \<Rightarrow> str \<times> str \<Rightarrow> spent_cache \<Rightarrow> spent_cache" where
  "record_spent jti deadline owner c =
     c\<lparr>sc_spent := AList.update jti owner (sc_spent c),
       sc_per_owner := increment (sc_per_owner c) owner,
       sc_per_tenant := increment (sc_per_tenant c) (snd owner),
       sc_heap := (case deadline of None \<Rightarrow> sc_heap c | Some e \<Rightarrow> insort (e, jti) (sc_heap c))\<rparr>"

definition redeem :: "str \<times> time option \<times> str \<times> str \<Rightarrow> time \<Rightarrow> spent_cache \<Rightarrow> bool \<times> spent_cache" where
  "redeem r now c =
     (case r of (jti, deadline, owner) \<Rightarrow>
        let c' = purge_spent now (sc_heap c) c
        in if jti \<in> fst ` set (sc_spent c') then (False, c')
           else if spent_full owner c' then (False, c')
           else (True, record_spent jti deadline owner c'))"

text \<open>
  \<open>store_reply\<close> is the answer of the shared store to \<open>add_if_absent\<close>, \<open>None\<close> when it raises.
\<close>

definition consume :: "(str \<Rightarrow> time option \<Rightarrow> bool option) \<Rightarrow> json option \<Rightarrow> time option \<Rightarrow> str \<times> str \<Rightarrow> time \<Rightarrow>
    sealer \<Rightarrow> bool \<times> sealer" where
  "consume store_reply jti deadline owner now s =
     (case jti of
        Some (JStr j) \<Rightarrow>
          if j = [] then (False, s)
          else if sl_has_store s then (store_reply j deadline = Some True, s)
          else (let (fresh, c) = redeem (j, deadline, owner) now (sl_cache s)
                in (fresh, s\<lparr>sl_cache := c\<rparr>))
      | _ \<Rightarrow> (False, s))"

definition open_state :: "crypto \<Rightarrow> (str \<Rightarrow> time option \<Rightarrow> bool option) \<Rightarrow> str option \<Rightarrow> str \<Rightarrow> str \<Rightarrow> str \<Rightarrow>
    time \<Rightarrow> sealer \<Rightarrow> (open_error + (str \<times> json) list) \<times> sealer" where
  "open_state cr store_reply token prin request_id tenant now s =
     (case unseal cr token s of None \<Rightarrow> (Inl StateVerificationError, s)
      | Some claims \<Rightarrow>
        (case check_claims claims now prin request_id tenant of Inl e \<Rightarrow> (Inl e, s)
         | Inr (deadline, d) \<Rightarrow>
             if \<not> sl_single_use s then (Inr d, s)
             else let (fresh, s') = consume store_reply (claim_of claims (ascii ''jti'')) deadline (prin, tenant) now s
                  in (if fresh then Inr d else Inl StateVerificationError, s')))"

section \<open>The replay cache admits a token id once\<close>

definition cache_good :: "spent_cache \<Rightarrow> bool" where
  "cache_good c \<longleftrightarrow>
     dict_ok (sc_spent c) \<and> sorted (sc_heap c) \<and> distinct (map snd (sc_heap c)) \<and>
     snd ` set (sc_heap c) \<subseteq> fst ` set (sc_spent c) \<and>
     counts_ok (\<lambda>v. v) (sc_per_owner c) (sc_spent c) \<and> counts_ok snd (sc_per_tenant c) (sc_spent c)"

definition cache_capped :: "spent_cache \<Rightarrow> bool" where
  "cache_capped c \<longleftrightarrow>
     int (length (sc_spent c)) \<le> 2 * max_spent_entries \<and>
     (\<forall>owner. int (vcount (\<lambda>v. v = owner) (sc_spent c)) \<le> max_spent_per_owner) \<and>
     (\<forall>tenant. int (vcount (\<lambda>v. snd v = tenant) (sc_spent c)) \<le> 2 * max_spent_per_tenant)"

definition tables_ok :: "spent_cache \<Rightarrow> bool" where
  "tables_ok c \<longleftrightarrow> dict_ok (sc_spent c) \<and>
     counts_ok (\<lambda>v. v) (sc_per_owner c) (sc_spent c) \<and> counts_ok snd (sc_per_tenant c) (sc_spent c)"

lemma drop_spent_tables:
  assumes "tables_ok c"
  shows "tables_ok (drop_spent old c)" and "sc_spent (drop_spent old c) = filter (\<lambda>(k, v). k \<noteq> old) (sc_spent c)"
proof -
  have "sc_spent (drop_spent old c) = AList.delete old (sc_spent c)"
    by (auto simp: drop_spent_def map_of_eq_None_iff split: option.split)
  then show "sc_spent (drop_spent old c) = filter (\<lambda>(k, v). k \<noteq> old) (sc_spent c)"
    by (simp add: AList.delete_eq eq_commute [of _ old])
  show "tables_ok (drop_spent old c)"
    using assms counts_ok_decrement [of "\<lambda>v. v" "sc_per_owner c" "sc_spent c" old]
      counts_ok_decrement [of snd "sc_per_tenant c" "sc_spent c" old]
    by (auto simp: tables_ok_def drop_spent_def distinct_delete split: option.split)
qed

definition dead_keys :: "time \<Rightarrow> (time \<times> str) list \<Rightarrow> str set" where
  "dead_keys now heap = snd ` set (filter (\<lambda>(e, k). e \<le> now) heap)"

lemma purge_spent_eq:
  assumes "sorted heap" and "tables_ok c"
  shows "tables_ok (purge_spent now heap c) \<and>
         sc_heap (purge_spent now heap c) = filter (\<lambda>(e, k). now < e) heap \<and>
         sc_spent (purge_spent now heap c) = filter (\<lambda>(k, v). k \<notin> dead_keys now heap) (sc_spent c)"
  using assms
proof (induction now heap c rule: purge_spent.induct)
  case (1 now c)
  then show ?case by (simp add: tables_ok_def dead_keys_def)
next
  case (2 now e old heap c)
  show ?case
  proof (cases "e \<le> now")
    case True
    have "filter (\<lambda>(k, v). k \<notin> dead_keys now heap) (filter (\<lambda>(k, v). k \<noteq> old) (sc_spent c))
        = filter (\<lambda>(k, v). k \<notin> dead_keys now ((e, old) # heap)) (sc_spent c)"
      using True by (auto simp: dead_keys_def filter_filter intro!: filter_cong)
    with True 2 drop_spent_tables [OF 2(3), of old] show ?thesis by auto
  next
    case False
    then have "\<forall>(d, k) \<in> set heap. now < d"
      using 2(2) by (force simp: less_eq_prod_def)
    then have live: "filter (\<lambda>(e, k). now < e) heap = heap" "filter (\<lambda>(e, k). e \<le> now) heap = []"
      by (auto simp: filter_id_conv filter_empty_conv)
    then show ?thesis using False 2(3) by (auto simp: tables_ok_def dead_keys_def)
  qed
qed

lemma cache_goodD: "cache_good c \<Longrightarrow> sorted (sc_heap c) \<and> tables_ok c"
  by (simp add: cache_good_def tables_ok_def)

text \<open>The cache after the purge that starts every redemption.\<close>

definition purged :: "time \<Rightarrow> spent_cache \<Rightarrow> spent_cache" where
  "purged now c = purge_spent now (sc_heap c) c"

lemma purged_eq:
  assumes "cache_good c"
  shows "tables_ok (purged now c)"
    and "sc_heap (purged now c) = filter (\<lambda>(e, k). now < e) (sc_heap c)"
    and "sc_spent (purged now c) = filter (\<lambda>(k, v). k \<notin> dead_keys now (sc_heap c)) (sc_spent c)"
  using purge_spent_eq cache_goodD [OF assms] by (simp_all add: purged_def)

lemma distinct_snd_unique: "distinct (map snd h) \<Longrightarrow> (d, k) \<in> set h \<Longrightarrow> (e, k) \<in> set h \<Longrightarrow> d = e"
  by (induction h) (auto simp: image_iff)

lemma purged_good:
  assumes "cache_good c"
  shows "cache_good (purged now c)"
proof -
  note eq = purged_eq [OF assms, of now]
  have c: "sorted (sc_heap c)" "distinct (map snd (sc_heap c))"
    "snd ` set (sc_heap c) \<subseteq> fst ` set (sc_spent c)"
    using assms by (simp_all add: cache_good_def)
  have sub: "snd ` set (sc_heap (purged now c)) \<subseteq> fst ` set (sc_spent (purged now c))"
  proof
    fix k assume "k \<in> snd ` set (sc_heap (purged now c))"
    then obtain e where e: "(e, k) \<in> set (sc_heap c)" "now < e" by (auto simp: eq)
    have "k \<notin> dead_keys now (sc_heap c)"
    proof
      assume "k \<in> dead_keys now (sc_heap c)"
      then obtain d where d: "(d, k) \<in> set (sc_heap c)" "d \<le> now" by (auto simp: dead_keys_def)
      have "e = d" by (rule distinct_snd_unique [OF c(2) e(1) d(1)])
      with e(2) d(2) show False by simp
    qed
    moreover have "k \<in> fst ` set (sc_spent c)" using c(3) e(1) by force
    ultimately show "k \<in> fst ` set (sc_spent (purged now c))"
      by (force simp: eq)
  qed
  show ?thesis
    unfolding cache_good_def
  proof (intro conjI)
    show "sorted (sc_heap (purged now c))" using c(1) by (simp add: eq sorted_wrt_filter)
    show "distinct (map snd (sc_heap (purged now c)))" using c(2) by (simp add: eq distinct_map_filter)
    show "snd ` set (sc_heap (purged now c)) \<subseteq> fst ` set (sc_spent (purged now c))" by (rule sub)
  qed (use eq(1) in \<open>simp_all add: tables_ok_def\<close>)
qed

lemma record_spent_good:
  assumes "cache_good c" and "jti \<notin> fst ` set (sc_spent c)"
  shows "cache_good (record_spent jti deadline owner c)"
proof -
  have new: "jti \<notin> snd ` set (sc_heap c)" using assms by (auto simp: cache_good_def)
  have "distinct (map snd (insort (e, jti) (sc_heap c)))" for e
  proof (rule mset_eq_imp_distinct_iff [THEN iffD2])
    show "mset (map snd (insort (e, jti) (sc_heap c))) = mset (jti # map snd (sc_heap c))" by simp
    show "distinct (jti # map snd (sc_heap c))" using assms(1) new by (simp add: cache_good_def)
  qed
  then have heap: "distinct (map snd (sc_heap (record_spent jti deadline owner c)))"
    using assms(1) by (simp add: record_spent_def cache_good_def split: option.split)
  have spent: "sc_spent (record_spent jti deadline owner c) = sc_spent c @ [(jti, owner)]"
    using assms(2) by (simp add: record_spent_def update_fresh)
  show ?thesis
    unfolding cache_good_def
  proof (intro conjI)
    show "dict_ok (sc_spent (record_spent jti deadline owner c))"
      using assms by (simp add: spent cache_good_def)
    show "sorted (sc_heap (record_spent jti deadline owner c))"
      using assms(1) by (simp add: record_spent_def cache_good_def sorted_insort split: option.split)
    show "snd ` set (sc_heap (record_spent jti deadline owner c)) \<subseteq> fst ` set (sc_spent (record_spent jti deadline owner c))"
      using assms(1) unfolding spent
      by (cases deadline) (auto simp: record_spent_def cache_good_def set_insort_key)
    show "counts_ok (\<lambda>v. v) (sc_per_owner (record_spent jti deadline owner c)) (sc_spent (record_spent jti deadline owner c))"
      using assms counts_ok_increment [of "\<lambda>v. v" "sc_per_owner c" "sc_spent c" jti owner]
      by (simp add: record_spent_def cache_good_def)
    show "counts_ok snd (sc_per_tenant (record_spent jti deadline owner c)) (sc_spent (record_spent jti deadline owner c))"
      using assms counts_ok_increment [of snd "sc_per_tenant c" "sc_spent c" jti owner]
      by (simp add: record_spent_def cache_good_def)
  qed (rule heap)
qed

lemma cache_gets:
  assumes "cache_good c"
  shows "cget (sc_per_owner c) owner = int (vcount (\<lambda>v. v = owner) (sc_spent c))"
    and "cget (sc_per_tenant c) tenant = int (vcount (\<lambda>v. snd v = tenant) (sc_spent c))"
  using assms counts_ok_get by (force simp: cache_good_def)+

lemma record_spent_capped:
  assumes "cache_good c" and "cache_capped c" and "\<not> spent_full owner c" and new: "jti \<notin> fst ` set (sc_spent c)"
  shows "cache_capped (record_spent jti deadline owner c)"
proof -
  have spent: "sc_spent (record_spent jti deadline owner c) = sc_spent c @ [(jti, owner)]"
    using new by (simp add: record_spent_def update_fresh)
  show ?thesis
    using assms(2,3) unfolding cache_capped_def spent spent_full_def Let_def cache_gets [OF assms(1)]
    by (auto simp: vcount_append state_owner_floor_def max_spent_entries_def max_spent_per_owner_def
        max_spent_per_tenant_def)
qed

lemma vcount_filter_less: "vcount P (filter Q d) \<le> vcount P d"
  by (induction d) auto

lemma purged_capped: "cache_good c \<Longrightarrow> cache_capped c \<Longrightarrow> cache_capped (purged now c)"
  unfolding cache_capped_def purged_eq(3)
  by (meson dual_order.trans int_ops(1) length_filter_le of_nat_mono vcount_filter_less)

lemma redeem_eq:
  "redeem (jti, deadline, owner) now c =
     (if jti \<in> fst ` set (sc_spent (purged now c)) \<or> spent_full owner (purged now c) then (False, purged now c)
      else (True, record_spent jti deadline owner (purged now c)))"
  by (simp add: redeem_def purged_def Let_def)

definition cache_inv :: "spent_cache \<Rightarrow> bool" where
  "cache_inv c \<longleftrightarrow> cache_good c \<and> cache_capped c"

lemma redeem_inv: "cache_inv c \<Longrightarrow> cache_inv (snd (redeem r now c))"
  by (cases r) (auto simp: redeem_eq cache_inv_def purged_good purged_capped record_spent_good record_spent_capped)

text \<open>A token id is held while it is recorded with no deadline up to that time.\<close>

definition spent_held :: "spent_cache \<Rightarrow> time \<Rightarrow> str \<Rightarrow> bool" where
  "spent_held c u k \<longleftrightarrow> k \<in> fst ` set (sc_spent c) \<and> (\<forall>e. (e, k) \<in> set (sc_heap c) \<longrightarrow> u < e)"

definition lasts_until :: "spent_cache \<Rightarrow> str \<times> time option \<times> str \<times> str \<Rightarrow> time \<Rightarrow> time" where
  "lasts_until c r t = (case fst (snd r) of None \<Rightarrow> t + 1 | Some e \<Rightarrow> e)"

lemma purged_holds: "cache_good c \<Longrightarrow> spent_held c u k \<Longrightarrow> t \<le> u \<Longrightarrow> spent_held (purged t c) u k"
  by (force simp: spent_held_def purged_eq dead_keys_def)

lemma record_holds_other: "spent_held c u k \<Longrightarrow> k \<noteq> jti \<Longrightarrow> spent_held (record_spent jti deadline owner c) u k"
  by (auto simp: spent_held_def record_spent_def dom_update set_insort_key split: option.splits)

lemma record_holds_new:
  assumes "cache_good c" and "jti \<notin> fst ` set (sc_spent c)" and "\<forall>e. deadline = Some e \<longrightarrow> u < e"
  shows "spent_held (record_spent jti deadline owner c) u jti"
  using assms by (force simp: spent_held_def record_spent_def dom_update set_insort_key cache_good_def
      split: option.splits)

interpretation spent: replay_guard redeem fst lasts_until spent_held cache_inv
proof
  fix s r and t :: time
  assume "cache_inv s"
  then show "cache_inv (snd (redeem r t s))" by (rule redeem_inv)
next
  fix s t and r :: "str \<times> time option \<times> str \<times> str"
  assume "cache_inv s" and "spent_held s t (fst r)"
  then have "spent_held (purged t s) t (fst r)" by (auto simp: cache_inv_def intro: purged_holds)
  then show "\<not> fst (redeem r t s)" by (cases r) (auto simp: redeem_eq spent_held_def)
next
  fix s u k t and r :: "str \<times> time option \<times> str \<times> str"
  assume "cache_inv s" and "spent_held s u k" and "t \<le> u"
  then have "spent_held (purged t s) u k" by (auto simp: cache_inv_def intro: purged_holds)
  then show "spent_held (snd (redeem r t s)) u k"
    by (cases r) (auto simp: redeem_eq intro!: record_holds_other, auto simp: spent_held_def)
next
  fix s r t u
  assume inv: "cache_inv s" and ok: "fst (redeem r t s)" and u: "t \<le> u" "u < lasts_until s r t"
  obtain jti deadline owner where r: "r = (jti, deadline, owner)" by (cases r)
  have "\<forall>e. deadline = Some e \<longrightarrow> u < e" using u(2) r by (auto simp: lasts_until_def)
  then show "spent_held (snd (redeem r t s)) u (fst r)"
    using inv ok unfolding r
    by (auto simp: redeem_eq cache_inv_def purged_good split: if_splits intro!: record_holds_new)
qed

section \<open>Runs of the sealer\<close>

datatype sealer_op =
    DoSeal "byte list" str "int \<times> nat" "(str \<times> json) list" str str str "int option"
  | DoOpen "str option" str str str time

fun sealer_step :: "crypto \<Rightarrow> (str \<Rightarrow> time option \<Rightarrow> bool option) \<Rightarrow> sealer_op \<Rightarrow> sealer \<Rightarrow> sealer" where
  "sealer_step cr store (DoSeal nonce jti clk payload p r t ttl) s = snd (seal cr nonce jti clk payload p r t ttl s)"
| "sealer_step cr store (DoOpen tok p r t now) s = snd (open_state cr store tok p r t now s)"

fun clock_le :: "time \<Rightarrow> sealer_op \<Rightarrow> bool" where
  "clock_le u (DoSeal nonce jti clk payload p r t ttl) = True"
| "clock_le u (DoOpen tok p r t now) = (now \<le> u)"

definition sealer_config :: "sealer \<Rightarrow> (str, byte list) dict \<times> str \<times> int \<times> bool \<times> str \<times> bool" where
  "sealer_config s = (sl_keys s, sl_active s, sl_ttl s, sl_single_use s, sl_audience s, sl_has_store s)"

definition sealer_good :: "sealer \<Rightarrow> bool" where
  "sealer_good s \<longleftrightarrow> cache_inv (sl_cache s)"

lemma seal_state: "\<exists>c. snd (seal cr nonce jti clk payload p r t ttl s) = s\<lparr>sl_seals := c\<rparr>"
proof -
  have "snd (seal cr nonce jti clk payload p r t ttl s) = s \<or>
      snd (seal cr nonce jti clk payload p r t ttl s) = s\<lparr>sl_seals := (sl_seals s)(sl_active s \<mapsto> cget (sl_seals s) (sl_active s) + 1)\<rparr>"
    by (simp add: seal_def Let_def split: option.split)
  moreover have "s\<lparr>sl_seals := sl_seals s\<rparr> = s" by simp
  ultimately show ?thesis by metis
qed

lemma consume_cases:
  obtains (same) "snd (consume store jti deadline owner now s) = s" 
  | (redeemed) q where "snd (consume store jti deadline owner now s) = s\<lparr>sl_cache := snd (redeem q now (sl_cache s))\<rparr>"
proof (cases "\<exists>j. jti = Some (JStr j) \<and> j \<noteq> [] \<and> \<not> sl_has_store s")
  case True
  then obtain j where "jti = Some (JStr j)" "j \<noteq> []" "\<not> sl_has_store s" by blast
  then show thesis by (intro redeemed [of "(j, deadline, owner)"]) (simp add: consume_def Let_def split_beta)
next
  case False
  then show thesis by (intro same) (auto simp: consume_def split: option.split json.split)
qed

lemma open_state_state:
  obtains (same) "snd (open_state cr store tok p r t now s) = s"
  | (redeemed) q where "snd (open_state cr store tok p r t now s) = s\<lparr>sl_cache := snd (redeem q now (sl_cache s))\<rparr>"
proof (cases "snd (open_state cr store tok p r t now s) = s")
  case False
  then obtain claims deadline where "snd (open_state cr store tok p r t now s) =
      snd (consume store (claim_of claims (ascii ''jti'')) deadline (p, t) now s)"
    by (auto simp: open_state_def Let_def split_beta split: option.splits sum.splits if_splits)
  with False show thesis
    using consume_cases [of store "claim_of claims (ascii ''jti'')" deadline "(p, t)" now s] redeemed by metis
qed (rule same)

lemma sealer_step_config: "sealer_config (sealer_step cr store x s) = sealer_config s"
proof (cases x)
  case (DoSeal nonce jti clk payload p r t ttl)
  then show ?thesis using seal_state [of cr nonce jti clk payload p r t ttl s] by (auto simp: sealer_config_def)
next
  case (DoOpen tok p r t now)
  then show ?thesis by (cases rule: open_state_state [of cr store tok p r t now s]) (simp_all add: sealer_config_def)
qed

lemma sealer_step_good: "sealer_good s \<Longrightarrow> sealer_good (sealer_step cr store x s)"
proof (cases x)
  case (DoSeal nonce jti clk payload p r t ttl)
  assume "sealer_good s"
  then show ?thesis using DoSeal seal_state [of cr nonce jti clk payload p r t ttl s] by (auto simp: sealer_good_def)
next
  case (DoOpen tok p r t now)
  assume "sealer_good s"
  then show ?thesis using DoOpen
    by (cases rule: open_state_state [of cr store tok p r t now s])
       (simp_all add: sealer_good_def spent.admit_good)
qed

interpretation sealer_run: component "sealer_step cr store" sealer_good for cr store
  by standard (rule sealer_step_good)

lemma sealer_run_config: "sealer_config (run_ops (sealer_step cr store) xs s) = sealer_config s"
  by (induction xs arbitrary: s) (simp_all add: sealer_step_config)

lemma new_sealer_good: "new_sealer keys kid aud ttl su st = Inr s \<Longrightarrow> sealer_good s"
  by (auto simp: new_sealer_def sealer_good_def cache_inv_def cache_good_def cache_capped_def
      max_spent_entries_def max_spent_per_owner_def max_spent_per_tenant_def
      split: if_splits sum.splits)

lemma sealer_step_holds:
  assumes "sealer_good s" and "spent_held (sl_cache s) u k" and "clock_le u x"
  shows "spent_held (sl_cache (sealer_step cr store x s)) u k"
proof (cases x)
  case (DoSeal nonce jti clk payload p r t ttl)
  then show ?thesis using assms seal_state [of cr nonce jti clk payload p r t ttl s] by auto
next
  case (DoOpen tok p r t now)
  then show ?thesis using assms
    by (cases rule: open_state_state [of cr store tok p r t now s])
       (simp_all add: sealer_good_def spent.admit_keeps)
qed

lemma sealer_run_holds:
  "sealer_good s \<Longrightarrow> spent_held (sl_cache s) u k \<Longrightarrow> \<forall>x \<in> set xs. clock_le u x \<Longrightarrow>
     spent_held (sl_cache (run_ops (sealer_step cr store) xs s)) u k"
  by (induction xs arbitrary: s) (simp_all add: sealer_step_good sealer_step_holds)

lemma unseal_config:
  assumes "sealer_config s = sealer_config s'"
  shows "unseal cr tok s = unseal cr tok s'"
proof -
  have eq: "sl_keys s = sl_keys s'" "sl_audience s = sl_audience s'"
    using assms by (simp_all add: sealer_config_def)
  then have aad: "state_aad cr s = state_aad cr s'" by (simp add: state_aad_def fun_eq_iff)
  show ?thesis unfolding unseal_def eq aad ..
qed

lemma check_claims_ok:
  "check_claims claims now p r t = Inr (deadline, d) \<longleftrightarrow>
     exp_number (claim_of claims (ascii ''exp'')) = Some deadline \<and> \<not> expired_at now deadline \<and>
     str_eq (claim_of claims (ascii ''p'')) p = Some True \<and> str_eq (claim_of claims (ascii ''t'')) t = Some True \<and>
     str_eq (claim_of claims (ascii ''r'')) r = Some True \<and> claim_of claims (ascii ''d'') = Some (JDict d)"
  by (auto simp: check_claims_def eq_check_def split: option.splits if_splits json.splits)

lemma open_state_ok:
  assumes "open_state cr store tok p r t now s = (Inr d, s')"
  obtains claims deadline where "unseal cr tok s = Some claims"
    and "check_claims claims now p r t = Inr (deadline, d)"
    and "sl_single_use s \<Longrightarrow> consume store (claim_of claims (ascii ''jti'')) deadline (p, t) now s = (True, s')"
  using assms
  by (auto simp: open_state_def Let_def split_beta prod_eq_iff split: option.splits sum.splits if_splits)

lemma consume_ok:
  assumes "consume store jti deadline owner now s = (True, s')" and "\<not> sl_has_store s"
  obtains j where "jti = Some (JStr j)" and "redeem (j, deadline, owner) now (sl_cache s) = (True, sl_cache s')"
    and "s' = s\<lparr>sl_cache := sl_cache s'\<rparr>"
  using assms
  by (auto simp: consume_def Let_def split_beta prod_eq_iff split: option.splits json.splits if_splits)

lemma dropWhile_found:
  assumes "dropWhile (\<lambda>c. c \<noteq> x) s = c # r"
  shows "s = takeWhile (\<lambda>c. c \<noteq> x) s @ x # r"
proof -
  have "c = x" using hd_dropWhile [of "\<lambda>c. c \<noteq> x" s] assms by simp
  then show ?thesis using takeWhile_dropWhile_id [of "\<lambda>c. c \<noteq> x" s] assms by simp
qed

lemma split3_join:
  assumes "split3 s = Some (a, b, c)"
  shows "s = a @ 46 # b @ 46 # c"
proof -
  obtain x r y where r: "dropWhile (\<lambda>c. c \<noteq> 46) s = x # r" "dropWhile (\<lambda>c. c \<noteq> 46) r = y # c"
    and ab: "a = takeWhile (\<lambda>c. c \<noteq> 46) s" "b = takeWhile (\<lambda>c. c \<noteq> 46) r"
    using assms by (auto simp: split3_def split: list.splits)
  show ?thesis using dropWhile_found [OF r(1)] dropWhile_found [OF r(2)] ab by metis
qed

section \<open>Opening what was sealed\<close>

definition encodable :: "str \<Rightarrow> bool" where
  "encodable s \<longleftrightarrow> utf8_encode s \<noteq> None"

lemma encodable_str_ok: "encodable s \<Longrightarrow> str_ok s"
proof -
  have "\<forall>n \<in> set s. n < 0x110000 \<and> \<not> surrogate n \<Longrightarrow> str_ok s"
    by (induction s) (auto simp: surrogate_def high_surrogate_def)
  then show "encodable s \<Longrightarrow> str_ok s" unfolding encodable_def utf8_encode_ok by blast
qed

lemma encodable_ascii: "encodable (ascii s)"
  unfolding encodable_def utf8_encode_ok surrogate_def using ascii_bound by fastforce

lemma str_eq_encodable: "encodable a \<Longrightarrow> encodable b \<Longrightarrow> str_eq (Some (JStr a)) b = Some (a = b)"
  by (auto simp: encodable_def str_eq_def dest: utf8_encode_inj)

definition clock_ok :: "int \<times> nat \<Rightarrow> bool" where
  "clock_ok clk \<longleftrightarrow> 0 < snd clk \<and> (snd clk = 1 \<or> fst clk mod 10 \<noteq> 0)"

definition state_deadline :: "int \<times> nat \<Rightarrow> int \<Rightarrow> time" where
  "state_deadline clk ttl = of_int (fst clk) / 10 ^ snd clk + of_int ttl"

lemma state_deadline_float: "of_int (fst clk + ttl * 10 ^ snd clk) / 10 ^ snd clk = state_deadline clk ttl"
  by (simp add: state_deadline_def add_divide_distrib)

lemma state_body_ok:
  assumes "encodable p" and "encodable t" and "encodable r" and "encodable jti" and "json_ok (JDict payload)"
    and "clock_ok clk"
  shows "json_ok (state_body clk ttl jti payload p r t)"
proof -
  have "(fst clk + ttl * 10 ^ snd clk) mod 10 = fst clk mod 10" if pos: "0 < snd clk"
  proof -
    obtain k where "snd clk = Suc k" using pos by (cases "snd clk") auto
    then have "ttl * 10 ^ snd clk = 10 * (ttl * 10 ^ k)" by simp
    then show ?thesis by (simp only: mod_mult_self2)
  qed
  moreover have "str_ok (ascii ''p'')" "str_ok (ascii ''t'')" "str_ok (ascii ''r'')" "str_ok (ascii ''exp'')"
    "str_ok (ascii ''jti'')" "str_ok (ascii ''d'')"
    by (simp_all add: high_surrogate_def)
  ultimately show ?thesis
    using assms by (auto simp: state_body_def encodable_str_ok clock_ok_def)
qed

lemma body_claims:
  "claim_of (state_body clk ttl jti payload p r t) (ascii ''p'') = Some (JStr p)"
  "claim_of (state_body clk ttl jti payload p r t) (ascii ''t'') = Some (JStr t)"
  "claim_of (state_body clk ttl jti payload p r t) (ascii ''r'') = Some (JStr r)"
  "claim_of (state_body clk ttl jti payload p r t) (ascii ''exp'') = Some (JFloat (fst clk + ttl * 10 ^ snd clk) (snd clk))"
  "claim_of (state_body clk ttl jti payload p r t) (ascii ''jti'') = Some (JStr jti)"
  "claim_of (state_body clk ttl jti payload p r t) (ascii ''d'') = Some (JDict payload)"
  by (simp_all add: claim_of_def state_body_def)

lemma unb64_b64: "unb64 (b64 bs) = Some bs"
  unfolding unb64_def b64_def rstrip_b64encode by (rule urlsafe_round_trip)

lemma split3_token: "46 \<notin> set a \<Longrightarrow> 46 \<notin> set b \<Longrightarrow> split3 (a @ 46 # b @ 46 # c) = Some (a, b, c)"
proof -
  have drop: "dropWhile (\<lambda>c. c \<noteq> 46) (x @ 46 # y) = 46 # y" and take: "takeWhile (\<lambda>c. c \<noteq> 46) (x @ 46 # y) = x"
    if "46 \<notin> set x" for x y :: str
    using that by (induction x) auto
  then show "46 \<notin> set a \<Longrightarrow> 46 \<notin> set b \<Longrightarrow> split3 (a @ 46 # b @ 46 # c) = Some (a, b, c)"
    by (simp add: split3_def)
qed

lemma kid_no_dot: "kid_ok kid \<Longrightarrow> 46 \<notin> set kid"
proof
  assume ok: "kid_ok kid" and dot: "46 \<in> set kid"
  then have "kid \<noteq> []" by auto
  then have kid: "set kid = insert (last kid) (set (butlast kid))"
    by (metis append_butlast_last_id insert_is_Un list.simps(15) set_append set_empty sup_commute empty_set)
  show False using ok dot kid
    by (cases "last kid = 10") (auto simp: kid_ok_def Let_def kid_char_def is_digit_def split: if_splits)
qed

lemma check_keys_kid: "check_keys keys = Inr () \<Longrightarrow> map_of keys kid = Some key \<Longrightarrow> kid_ok kid"
  by (induction keys rule: check_keys.induct) (auto split: if_splits)

lemma new_sealer_kid:
  assumes "new_sealer keys kid aud ttl su st = Inr s"
  shows "kid_ok (sl_active s)" and "\<exists>key. map_of (sl_keys s) (sl_active s) = Some key"
proof -
  have s: "sl_active s = kid" "sl_keys s = keys" "kid \<in> fst ` set keys" "check_keys keys = Inr ()"
    using assms by (auto simp: new_sealer_def split: if_splits sum.splits)
  then obtain key where "map_of keys kid = Some key" by (metis map_of_eq_None_iff option.exhaust)
  then show "kid_ok (sl_active s)" "\<exists>key. map_of (sl_keys s) (sl_active s) = Some key"
    using s check_keys_kid by auto
qed

definition seal_ttl :: "int option \<Rightarrow> sealer \<Rightarrow> int" where
  "seal_ttl ttl s = (case ttl of None \<Rightarrow> sl_ttl s | Some t \<Rightarrow> t)"

lemma seal_ok:
  assumes "seal cr nonce jti clk payload p r t ttl s = (Inr tok, s1)"
  obtains key aad where "map_of (sl_keys s) (sl_active s) = Some key" and "state_aad cr s (sl_active s) = Some aad"
    and "tok = ascii ''v1'' @ 46 # sl_active s @ 46 # b64 (nonce @ cr_encrypt cr key nonce
           (ascii_bytes (compact (state_body clk (seal_ttl ttl s) jti payload p r t))) aad)"
    and "length tok \<le> max_state_chars"
  using assms by (auto simp: seal_def seal_ttl_def Let_def split: if_splits option.splits)

lemma compact_ascii: "\<forall>c \<in> set (compact v). c < 128"
  by (rule dumps_ascii) simp_all

lemma ascii_bytes_decode: "utf8_decode (ascii_bytes (compact v)) = Some (compact v)"
  unfolding ascii_bytes_def by (rule utf8_decode_ascii) (rule dumps_ascii, simp_all)

lemma unseal_sealed:
  assumes "aead_ok cr" and "seal cr nonce jti clk payload p r t ttl s = (Inr tok, s1)"
    and "kid_ok (sl_active s)" and "length nonce = 12"
    and "json_ok (state_body clk (seal_ttl ttl s) jti payload p r t)"
    and "sealer_config s' = sealer_config s"
  shows "unseal cr (Some tok) s' = Some (state_body clk (seal_ttl ttl s) jti payload p r t)"
proof -
  let ?v = "state_body clk (seal_ttl ttl s) jti payload p r t"
  obtain key aad where key: "map_of (sl_keys s) (sl_active s) = Some key"
    and aad: "state_aad cr s (sl_active s) = Some aad"
    and tok: "tok = ascii ''v1'' @ 46 # sl_active s @ 46 # b64 (nonce @ cr_encrypt cr key nonce (ascii_bytes (compact ?v)) aad)"
    and len: "length tok \<le> max_state_chars"
    using seal_ok [OF assms(2)] by metis
  have dec: "cr_decrypt cr key nonce (cr_encrypt cr key nonce (ascii_bytes (compact ?v)) aad) aad = Some (ascii_bytes (compact ?v))"
    and ct: "length (cr_encrypt cr key nonce (ascii_bytes (compact ?v)) aad) > 0"
    using assms(1) by (simp_all add: aead_ok_def)
  have sp: "split3 tok = Some (ascii ''v1'', sl_active s, b64 (nonce @ cr_encrypt cr key nonce (ascii_bytes (compact ?v)) aad))"
    unfolding tok by (rule split3_token) (simp_all add: kid_no_dot assms(3))
  have "unseal cr (Some tok) s = Some ?v"
    using len sp key aad dec ct assms(4,5)
    by (simp add: unseal_def unb64_b64 ascii_bytes_decode loads_dumps del: ascii_simps)
  then show ?thesis using unseal_config [OF assms(6)] by simp
qed

lemma check_claims_sealed:
  assumes "encodable p" and "encodable t" and "encodable r" and "encodable p'" and "encodable t'" and "encodable r'"
  shows "check_claims (state_body clk ttl jti payload p r t) now p' r' t' =
     (if now < state_deadline clk ttl \<and> p' = p \<and> t' = t \<and> r' = r
      then Inr (Some (state_deadline clk ttl), payload) else Inl StateVerificationError)"
proof -
  have eq: "eq_check (Some (JStr a)) b = (if a = b then Inr () else Inl StateVerificationError)"
    if "encodable a" "encodable b" for a b
    using that by (simp add: eq_check_def str_eq_encodable)
  have "exp_number (claim_of (state_body clk ttl jti payload p r t) (ascii ''exp'')) = Some (Some (state_deadline clk ttl))"
    unfolding body_claims by (simp add: exp_number_def state_deadline_float [simplified])
  then show ?thesis
    using assms unfolding check_claims_def body_claims by (auto simp: expired_at_def eq)
qed

lemma consume_fresh:
  "jti \<noteq> [] \<Longrightarrow> fst (consume store (Some (JStr jti)) deadline owner now s) =
     (if sl_has_store s then store jti deadline = Some True else fst (redeem (jti, deadline, owner) now (sl_cache s)))"
  by (simp add: consume_def Let_def split_beta)

lemma open_sealed:
  assumes "aead_ok cr" and "new_sealer keys kid aud dttl su st = Inr s0"
    and "seal cr nonce jti clk payload p r t ttl (run_ops (sealer_step cr store) xs s0) = (Inr tok, s1)"
    and "length nonce = 12" and "clock_ok clk" and "json_ok (JDict payload)" and "jti \<noteq> []" and "encodable jti"
    and "encodable p" and "encodable t" and "encodable r" and "encodable p'" and "encodable t'" and "encodable r'"
    and "sealer_config s' = sealer_config s0"
  shows "fst (open_state cr store (Some tok) p' r' t' now s') =
     (let deadline = state_deadline clk (case ttl of None \<Rightarrow> dttl | Some n \<Rightarrow> n)
      in if p' = p \<and> t' = t \<and> r' = r \<and> now < deadline \<and>
            (su \<longrightarrow> (if st then store jti (Some deadline) = Some True
                      else fst (redeem (jti, Some deadline, p, t) now (sl_cache s'))))
         then Inr payload else Inl StateVerificationError)"
proof -
  define s where "s = run_ops (sealer_step cr store) xs s0"
  have cfg: "sealer_config s = sealer_config s0" by (simp add: s_def sealer_run_config)
  have s0: "sl_ttl s0 = dttl" "sl_single_use s0 = su" "sl_has_store s0 = st"
    using assms(2) by (auto simp: new_sealer_def split: if_splits sum.splits)
  have ttl: "seal_ttl ttl s = (case ttl of None \<Rightarrow> dttl | Some n \<Rightarrow> n)" and active: "kid_ok (sl_active s)"
    and mode: "sl_single_use s' = su" "sl_has_store s' = st"
    using cfg s0 assms(15) new_sealer_kid [OF assms(2)] by (auto simp: seal_ttl_def sealer_config_def split: option.split)
  have "unseal cr (Some tok) s' = Some (state_body clk (seal_ttl ttl s) jti payload p r t)"
    using assms(1) assms(3) [folded s_def] active assms(4)
  proof (rule unseal_sealed)
    show "json_ok (state_body clk (seal_ttl ttl s) jti payload p r t)"
      using assms(5-11) by (intro state_body_ok)
    show "sealer_config s' = sealer_config s" using assms(15) cfg by simp
  qed
  then show ?thesis
    using assms(7,9-14)
    unfolding open_state_def ttl Let_def
    by (simp add: check_claims_sealed mode body_claims consume_fresh split_beta del: ascii_simps)
qed

lemma hexdigest_inj: "hexdigest xs = hexdigest ys \<Longrightarrow> xs = ys"
proof (induction xs arbitrary: ys)
  case Nil
  then show ?case by (cases ys) (auto simp: hexdigest_def)
next
  case (Cons x xs)
  then obtain y zs where ys: "ys = y # zs" by (cases ys) (auto simp: hexdigest_def)
  have hex: "hex_digit a = hex_digit b \<Longrightarrow> a < 16 \<Longrightarrow> b < 16 \<Longrightarrow> a = b" for a b
    by (metis hex_value_digit option.inject)
  have lt: "unat z div 16 < 16" "unat z mod 16 < 16" for z :: byte
    by (simp_all add: div_less_iff_less_mult)
  have "unat x div 16 = unat y div 16" "unat x mod 16 = unat y mod 16" "hexdigest xs = hexdigest zs"
    using Cons.prems ys lt by (auto simp: hexdigest_def intro: hex)
  then have "x = y" by (metis byte_of_unat div_mult_mod_eq)
  with Cons.IH [OF \<open>hexdigest xs = hexdigest zs\<close>] ys show ?case by simp
qed

lemma length_hexdigest: "length (hexdigest bs) = 2 * length bs"
  by (induction bs) (simp_all add: hexdigest_def)

lemma ascii_bytes_inj:
  "\<forall>c \<in> set a. c < 128 \<Longrightarrow> \<forall>c \<in> set b. c < 128 \<Longrightarrow> ascii_bytes a = ascii_bytes b \<Longrightarrow> a = b"
  unfolding ascii_bytes_def by (metis option.inject utf8_decode_ascii)

text \<open>A concrete AEAD that satisfies its hypothesis, for the examples.\<close>

definition toy_crypto :: crypto where
  "toy_crypto = \<lparr>cr_encrypt = (\<lambda>key nonce data aad. data @ replicate 16 0),
     cr_decrypt = (\<lambda>key nonce ct aad.
        if 16 \<le> length ct \<and> drop (length ct - 16) ct = replicate 16 0 then Some (take (length ct - 16) ct) else None),
     cr_sha256 = (\<lambda>bs. take 32 (bs @ replicate 32 0))\<rparr>"

lemma toy_crypto_ok: "aead_ok toy_crypto"
proof -
  have "(if 16 \<le> length ct \<and> drop (length ct - 16) ct = replicate 16 0 then Some (take (length ct - 16) ct) else None) = Some data
      \<longleftrightarrow> ct = data @ replicate 16 (0 :: byte)" for ct data
    by (auto simp: append_take_drop_id [symmetric] split: if_splits) (metis append_take_drop_id)
  then show ?thesis by (simp add: aead_ok_def toy_crypto_def)
qed

definition toy_sealer :: sealer where
  "toy_sealer = \<lparr>sl_keys = [(ascii ''k1'', map byte_of [0..<32])], sl_active = ascii ''k1'', sl_ttl = 300,
     sl_single_use = True, sl_audience = ascii ''srv'', sl_has_store = False,
     sl_seals = [ascii ''k1'' \<mapsto> 0],
     sl_cache = \<lparr>sc_spent = [], sc_heap = [], sc_per_owner = Map.empty, sc_per_tenant = Map.empty\<rparr>\<rparr>"

lemma toy_sealer_new:
  "new_sealer [(ascii ''k1'', map byte_of [0..<32])] (ascii ''k1'') (ascii ''srv'') 300 True False = Inr toy_sealer"
proof -
  have inj: "inj_on byte_of {0..<32}"
    by (rule inj_on_inverseI [where g = unat]) (simp add: unat_byte_of)
  have "card (set (map byte_of [0..<32])) = 32"
    using card_image [OF inj] by simp
  moreover have "unat (byte_of 0) = 0" by (simp add: unat_byte_of)
  then have "\<not> (\<forall>b \<in> set (map byte_of [0..<32]). 0x20 \<le> unat b \<and> unat b \<le> 0x7E)" by force
  ultimately have "\<not> is_weak_key (map byte_of [0..<32])" by (simp add: is_weak_key_def)
  moreover have "kid_ok (ascii ''k1'')" by (simp add: kid_ok_def kid_char_def is_digit_def)
  ultimately show ?thesis by (simp add: new_sealer_def toy_sealer_def max_ttl_seconds_def del: upt_Suc ascii_simps)
qed


lemma toy_seal:
  "\<exists>tok s1. seal toy_crypto (replicate 12 0) (ascii ''j'') (5, 1) [] (ascii ''u'') (ascii ''r'') (ascii ''t'') None toy_sealer
     = (Inr tok, s1)"
proof -
  let ?v = "state_body (5, 1) 300 (ascii ''j'') [] (ascii ''u'') (ascii ''r'') (ascii ''t'')"
  have aud: "utf8_encode (ascii ''srv'') = Some (map byte_of (ascii ''srv''))"
    by (rule utf8_encode_ascii) simp
  have b64: "length (b64_body url bs) \<le> 2 * length bs + 2" for url bs
    by (induction bs rule: triple_induct) auto
  have float: "length (dump_float 3005 (Suc 0)) = 5"
    by (simp add: dump_float_def pad_digits_def digits.simps)
  have "length (compact ?v) = 54"
    by (simp add: state_body_def dump_str_def escape_char_def float)
  then have "length (b64 (replicate 12 0 @ ascii_bytes (compact ?v) @ replicate 16 0)) \<le> 170"
    unfolding b64_def rstrip_b64encode by (rule_tac order_trans [OF b64]) (simp add: ascii_bytes_def)
  then show ?thesis
    by (simp add: seal_def toy_sealer_def toy_crypto_def max_ttl_seconds_def max_seals_per_key_def
        state_aad_def aud cget_def max_state_chars_def Let_def del: dumps.simps ascii_simps)
qed


lemma toy_open:
  "\<exists>tok s1. open_state toy_crypto (\<lambda>_ _. None) (Some tok) (ascii ''u'') (ascii ''r'') (ascii ''t'') 7 toy_sealer = (Inr [], s1)"
proof -
  obtain tok s1 where tok: "seal toy_crypto (replicate 12 0) (ascii ''j'') (5, 1) [] (ascii ''u'') (ascii ''r'')
      (ascii ''t'') None toy_sealer = (Inr tok, s1)"
    using toy_seal by blast
  have red: "fst (redeem (ascii ''j'', deadline, owner) 7 (sl_cache toy_sealer))" for deadline owner
    by (simp add: redeem_def toy_sealer_def spent_full_def cget_def max_spent_entries_def max_spent_per_owner_def
        max_spent_per_tenant_def)
  have "fst (open_state toy_crypto (\<lambda>_ _. None) (Some tok) (ascii ''u'') (ascii ''r'') (ascii ''t'') 7 toy_sealer) = Inr []"
    using open_sealed [OF toy_crypto_ok toy_sealer_new, where xs = "[]" and store = "\<lambda>_ _. None"
        and s' = toy_sealer and now = 7 and p' = "ascii ''u''" and r' = "ascii ''r''" and t' = "ascii ''t''"] tok red
    by (simp add: encodable_ascii clock_ok_def state_deadline_def Let_def del: ascii_simps)
  then show ?thesis by (metis prod.collapse)
qed

section \<open>Properties of sealed state\<close>

text \<open>C11. Single use: once a token has been opened successfully on a sealer with its own replay
  cache, no later presentation of the same token succeeds, by any principal, after any sequence of
  seals and opens whose clock readings do not lie after the second presentation, even when the
  cache purges expired entries or refuses others for lack of room.\<close>

theorem request_state_single_use:
  assumes "new_sealer keys kid aud ttl True False = Inr s0"
    and "open_state cr store (Some tok) p r t now (run_ops (sealer_step cr store) before s0) = (Inr d, s1)"
    and "\<forall>x \<in> set between. clock_le u x" and "now \<le> u"
  shows "isl (fst (open_state cr store (Some tok) p' r' t' u (run_ops (sealer_step cr store) between s1)))"
proof (rule ccontr)
  define s where "s = run_ops (sealer_step cr store) before s0"
  define s2 where "s2 = run_ops (sealer_step cr store) between s1"
  assume "\<not> isl (fst (open_state cr store (Some tok) p' r' t' u (run_ops (sealer_step cr store) between s1)))"
  then obtain d' s3 where second: "open_state cr store (Some tok) p' r' t' u s2 = (Inr d', s3)"
    unfolding s2_def by (metis isl_def prod.collapse sum.exhaust)
  have first: "open_state cr store (Some tok) p r t now s = (Inr d, s1)" using assms(2) by (simp add: s_def)
  have good: "sealer_good s" and cfg: "sealer_config s = sealer_config s0"
    unfolding s_def by (simp_all add: sealer_run.run_good new_sealer_good [OF assms(1)] sealer_run_config)
  have mode: "sl_single_use s" "\<not> sl_has_store s"
    using cfg assms(1) by (auto simp: new_sealer_def sealer_config_def split: if_splits sum.splits)
  have s1: "s1 = sealer_step cr store (DoOpen (Some tok) p r t now) s" using first by simp
  have cfg2: "sealer_config s2 = sealer_config s"
    unfolding s2_def s1 by (simp add: sealer_run_config sealer_step_config del: sealer_step.simps)
  have good1: "sealer_good s1" unfolding s1 using good by (rule sealer_step_good)
  obtain claims deadline where c: "unseal cr (Some tok) s = Some claims"
    and ok: "check_claims claims now p r t = Inr (deadline, d)"
    and use1: "consume store (claim_of claims (ascii ''jti'')) deadline (p, t) now s = (True, s1)"
    using open_state_ok [OF first] mode by metis
  obtain j where j: "claim_of claims (ascii ''jti'') = Some (JStr j)"
    and red: "redeem (j, deadline, p, t) now (sl_cache s) = (True, sl_cache s1)"
    using consume_ok [OF use1 mode(2)] by metis
  obtain deadline' where "check_claims claims u p' r' t' = Inr (deadline', d')"
    and use2: "consume store (claim_of claims (ascii ''jti'')) deadline' (p', t') u s2 = (True, s3)"
    using open_state_ok [OF second] c mode cfg2 unseal_config [OF cfg2]
    by (metis option.inject sealer_config_def prod.inject)
  moreover from this have "deadline' = deadline" using ok by (simp add: check_claims_ok)
  ultimately have live: "\<not> expired_at u deadline" by (simp add: check_claims_ok)
  have "\<not> sl_has_store s2" using cfg2 mode(2) by (simp add: sealer_config_def)
  then have red2: "fst (redeem (j, deadline', p', t') u (sl_cache s2))"
    using consume_ok [OF use2] j by (metis fst_conv json.inject(5) option.inject)
  have inv: "cache_inv (sl_cache s)" using good by (simp add: sealer_good_def)
  have "sl_cache s1 = record_spent j deadline (p, t) (purged now (sl_cache s))"
    and "j \<notin> fst ` set (sc_spent (purged now (sl_cache s)))"
    using red by (auto simp: redeem_eq split: if_splits)
  moreover have "cache_good (purged now (sl_cache s))" using inv by (simp add: cache_inv_def purged_good)
  moreover have "\<forall>e. deadline = Some e \<longrightarrow> u < e" using live by (auto simp: expired_at_def)
  ultimately have "spent_held (sl_cache s1) u j" by (simp add: record_holds_new)
  then have "spent_held (sl_cache s2) u j"
    unfolding s2_def using good1 assms(3) by (intro sealer_run_holds)
  moreover have "cache_inv (sl_cache s2)"
    using sealer_run.run_good [OF good1] by (simp add: s2_def sealer_good_def)
  ultimately show False
    using spent.admit_refuses [of "sl_cache s2" u "(j, deadline', p', t')"] red2 by simp
qed

theorem request_state_single_use_witness:
  "\<exists>tok d s1. open_state toy_crypto (\<lambda>_ _. None) (Some tok) (ascii ''u'') (ascii ''r'') (ascii ''t'') 7 toy_sealer = (Inr d, s1) \<and>
     isl (fst (open_state toy_crypto (\<lambda>_ _. None) (Some tok) (ascii ''u'') (ascii ''r'') (ascii ''t'') 8 s1))"
proof -
  obtain tok s2 where ok: "open_state toy_crypto (\<lambda>_ _. None) (Some tok) (ascii ''u'') (ascii ''r'') (ascii ''t'') 7 toy_sealer = (Inr [], s2)"
    using toy_open by blast
  moreover have "isl (fst (open_state toy_crypto (\<lambda>_ _. None) (Some tok) (ascii ''u'') (ascii ''r'') (ascii ''t'') 8
      (run_ops (sealer_step toy_crypto (\<lambda>_ _. None)) [] s2)))"
    using toy_sealer_new by (rule request_state_single_use [where before = "[]" and now = 7]) (use ok in simp_all)
  ultimately show ?thesis by auto
qed

text \<open>C12. Authenticity: a token that opens is, up to the spelling of its base64 part, one that the
  AEAD produced under a configured key of this sealer for this audience and key id, of a body that
  names the caller's principal, tenant and request and an expiry still ahead. (The hypothesis is
  the documented behaviour of AES-GCM.)\<close>

theorem open_only_authentic:
  assumes "aead_ok cr" and "open_state cr store (Some tok) p r t now s = (Inr d, s')"
  shows "\<exists>kid blob key aad nonce body claims deadline.
           tok = ascii ''v1.'' @ kid @ [46] @ blob \<and> map_of (sl_keys s) kid = Some key \<and>
           state_aad cr s kid = Some aad \<and> length nonce = 12 \<and>
           unb64 blob = Some (nonce @ cr_encrypt cr key nonce body aad) \<and>
           Option.bind (utf8_decode body) loads = Some (JDict claims) \<and>
           map_of claims (ascii ''p'') = Some (JStr p) \<and> map_of claims (ascii ''t'') = Some (JStr t) \<and>
           map_of claims (ascii ''r'') = Some (JStr r) \<and> map_of claims (ascii ''d'') = Some (JDict d) \<and>
           exp_number (map_of claims (ascii ''exp'')) = Some deadline \<and> \<not> expired_at now deadline"
proof -
  obtain claims deadline where c: "unseal cr (Some tok) s = Some claims"
    and ok: "check_claims claims now p r t = Inr (deadline, d)"
    using open_state_ok [OF assms(2)] by metis
  obtain kid blob key raw aad body where sp: "split3 tok = Some (ascii ''v1'', kid, blob)"
    and key: "map_of (sl_keys s) kid = Some key" and raw: "unb64 blob = Some raw"
    and aad: "state_aad cr s kid = Some aad" and len: "12 < length raw"
    and dec: "cr_decrypt cr key (take 12 raw) (drop 12 raw) aad = Some body"
    and body: "Option.bind (utf8_decode body) loads = Some claims"
    using c by (auto simp: unseal_def split: option.splits if_splits)
  have tok: "tok = ascii ''v1.'' @ kid @ [46] @ blob"
    using split3_join [OF sp] by simp
  obtain nonce where nonce: "length nonce = 12" "raw = nonce @ cr_encrypt cr key nonce body aad"
  proof
    show "length (take 12 raw) = 12" using len by simp
    show "raw = take 12 raw @ cr_encrypt cr key (take 12 raw) body aad"
      using assms(1) dec append_take_drop_id [of 12 raw] by (simp add: aead_ok_def)
  qed
  obtain cl where cl: "claims = JDict cl"
    using ok by (cases claims) (auto simp: check_claims_ok claim_of_def exp_number_def)
  have str: "str_eq v q = Some True \<longleftrightarrow> v = Some (JStr q) \<and> utf8_encode q \<noteq> None" for v q
    by (auto simp: str_eq_def split: option.splits json.splits dest: utf8_encode_inj)
  have facts: "map_of cl (ascii ''p'') = Some (JStr p)" "map_of cl (ascii ''t'') = Some (JStr t)"
    "map_of cl (ascii ''r'') = Some (JStr r)" "map_of cl (ascii ''d'') = Some (JDict d)"
    "exp_number (map_of cl (ascii ''exp'')) = Some deadline" "\<not> expired_at now deadline"
    using ok unfolding check_claims_ok str cl by (simp_all add: claim_of_def)
  show ?thesis
    using tok key aad raw [unfolded nonce(2)] nonce(1) body [unfolded cl] facts by blast
qed

theorem open_only_authentic_witness:
  "\<exists>tok d s1 kid blob. open_state toy_crypto (\<lambda>_ _. None) (Some tok) (ascii ''u'') (ascii ''r'') (ascii ''t'') 7 toy_sealer = (Inr d, s1) \<and>
     tok = ascii ''v1.'' @ kid @ [46] @ blob"
proof -
  obtain tok s1 where "open_state toy_crypto (\<lambda>_ _. None) (Some tok) (ascii ''u'') (ascii ''r'') (ascii ''t'') 7 toy_sealer = (Inr [], s1)"
    using toy_open by blast
  with open_only_authentic [OF toy_crypto_ok this] show ?thesis by blast
qed

text \<open>C13. Sealing and opening are inverse, and the seal binds: a token sealed by any run of a
  sealer, presented to a sealer of the same configuration in any state, opens to the sealed payload
  exactly when the principal, tenant and request are the sealed ones, its deadline lies ahead, and
  single use (the shared store's answer or the sealer's own cache) admits its id; otherwise the
  answer is the uninformative error. All strings are encodable (no lone surrogate).\<close>

theorem open_of_sealed:
  assumes "aead_ok cr" and "new_sealer keys kid aud dttl su st = Inr s0"
    and "seal cr nonce jti clk payload p r t ttl (run_ops (sealer_step cr store) xs s0) = (Inr tok, s1)"
    and "length nonce = 12" and "clock_ok clk" and "json_ok (JDict payload)" and "jti \<noteq> []" and "encodable jti"
    and "encodable p" and "encodable t" and "encodable r" and "encodable p'" and "encodable t'" and "encodable r'"
    and "sealer_config s' = sealer_config s0"
  shows "fst (open_state cr store (Some tok) p' r' t' now s') =
     (let deadline = state_deadline clk (case ttl of None \<Rightarrow> dttl | Some n \<Rightarrow> n)
      in if p' = p \<and> t' = t \<and> r' = r \<and> now < deadline \<and>
            (su \<longrightarrow> (if st then store jti (Some deadline) = Some True
                      else fst (redeem (jti, Some deadline, p, t) now (sl_cache s'))))
         then Inr payload else Inl StateVerificationError)"
  using assms by (rule open_sealed)

theorem open_of_sealed_witness:
  "\<exists>tok. fst (open_state toy_crypto (\<lambda>_ _. None) (Some tok) (ascii ''w'') (ascii ''r'') (ascii ''t'') 7 toy_sealer)
     = Inl StateVerificationError"
proof -
  obtain tok s1 where tok: "seal toy_crypto (replicate 12 0) (ascii ''j'') (5, 1) [] (ascii ''u'') (ascii ''r'')
      (ascii ''t'') None toy_sealer = (Inr tok, s1)"
    using toy_seal by blast
  then show ?thesis
    using open_of_sealed [OF toy_crypto_ok toy_sealer_new, where xs = "[]" and store = "\<lambda>_ _. None"
        and s' = toy_sealer and now = 7 and p' = "ascii ''w''" and r' = "ascii ''r''" and t' = "ascii ''t''"]
    by (force simp: encodable_ascii clock_ok_def Let_def simp del: ascii_simps)
qed

text \<open>C14. What a request fingerprint identifies: two requests with the same fingerprint have the
  same method, and their salient parameters are equal up to the order of keys, unless their two
  canonical texts are a collision of SHA-256 (whose digests have 32 bytes).\<close>

theorem fingerprint_identifies:
  assumes "request_fingerprint cr m1 params1 = Some f" and "request_fingerprint cr m2 params2 = Some f"
    and "json_ok (JDict (salient params1))" and "json_ok (JDict (salient params2))"
    and "\<forall>bs. length (cr_sha256 cr bs) = 32"
  shows "m1 = m2 \<and>
         (sorted_json (JDict (salient params1)) = sorted_json (JDict (salient params2)) \<or>
          (let a = ascii_bytes (canonical (JDict (salient params1)));
               b = ascii_bytes (canonical (JDict (salient params2)))
           in a \<noteq> b \<and> cr_sha256 cr a = cr_sha256 cr b))"
proof -
  let ?a = "canonical (JDict (salient params1))" and ?b = "canonical (JDict (salient params2))"
  have "m1 @ 58 # hexdigest (cr_sha256 cr (ascii_bytes ?a)) = m2 @ 58 # hexdigest (cr_sha256 cr (ascii_bytes ?b))"
    using assms(1,2) by (auto simp: request_fingerprint_def Let_def split: if_splits simp del: dumps.simps)
  then have m: "m1 = m2" and digest: "cr_sha256 cr (ascii_bytes ?a) = cr_sha256 cr (ascii_bytes ?b)"
    using assms(5) by (auto simp: append_eq_append_conv length_hexdigest dest: hexdigest_inj)
  have "ascii_bytes ?a = ascii_bytes ?b \<Longrightarrow> sorted_json (JDict (salient params1)) = sorted_json (JDict (salient params2))"
    by (rule canonical_inj [OF assms(3,4) ascii_bytes_inj [OF compact_ascii compact_ascii]])
  with m digest show ?thesis by (auto simp: Let_def simp del: dumps.simps sorted_json.simps)
qed

theorem fingerprint_identifies_witness:
  "request_fingerprint toy_crypto (ascii ''m'') [(ascii ''b'', JNull), (ascii ''a'', JNull)] =
     request_fingerprint toy_crypto (ascii ''m'') [(ascii ''a'', JNull), (ascii ''b'', JNull)] \<and>
   sorted_json (JDict (salient [(ascii ''b'', JNull), (ascii ''a'', JNull)])) =
     sorted_json (JDict (salient [(ascii ''a'', JNull), (ascii ''b'', JNull)]))"
proof -
  let ?p = "[(ascii ''b'', JNull), (ascii ''a'', JNull)]" and ?q = "[(ascii ''a'', JNull), (ascii ''b'', JNull)]"
  have sal: "salient ?p = ?p" "salient ?q = ?q" by (simp_all add: salient_def)
  have same: "sorted_json (JDict ?p) = JDict ?q" "sorted_json (JDict ?q) = JDict ?q" by simp_all
  have fp: "request_fingerprint toy_crypto (ascii ''m'') ?p = request_fingerprint toy_crypto (ascii ''m'') ?q"
    unfolding request_fingerprint_def sal same by simp
  obtain f where f: "request_fingerprint toy_crypto (ascii ''m'') ?q = Some f"
    unfolding request_fingerprint_def sal by simp
  have len: "\<forall>bs. length (cr_sha256 toy_crypto bs) = 32" by (auto simp: toy_crypto_def min_def)
  have ok: "json_ok (JDict (salient ?p))" "json_ok (JDict (salient ?q))" unfolding sal by simp_all
  show ?thesis
    using fingerprint_identifies [OF fp [unfolded f] f ok len] fp
    unfolding sal same Let_def by blast
qed

end
