(* ===== verification/Protocol.thy ===== *)
theory Protocol
  imports Py_Json
begin

text \<open>
  The wire helpers of \<open>protocol.py\<close>: request metadata, the header encoding, the \<open>x-mcp-header\<close>
  annotations, the classification of a \<open>server/discover\<close> response and the schema hygiene walk.
  Values decoded from JSON are \<open>json\<close>; a value that is missing is \<open>None\<close>, as \<open>dict.get\<close> returns.
  Where the code can raise, the result is an option or a sum. Full Unicode lower-casing is an
  argument; for the ASCII names it is \<open>ascii_lower\<close>. Violation messages are constructors.
\<close>

section \<open>Reading JSON values\<close>

definition jget :: "json \<Rightarrow> str \<Rightarrow> json option" where
  "jget v k = (case v of JDict ps \<Rightarrow> map_of ps k | _ \<Rightarrow> None)"

text \<open>Python's numeric equality: a bool is an int, and \<open>1.0 == 1\<close>.\<close>

definition num_is :: "json \<Rightarrow> int \<Rightarrow> bool" where
  "num_is v n =
     (case v of JInt i \<Rightarrow> i = n | JFloat m k \<Rightarrow> m = n * 10 ^ k | JBool b \<Rightarrow> (if b then 1 else 0) = n | _ \<Rightarrow> False)"

definition hashable :: "json \<Rightarrow> bool" where
  "hashable v = (case v of JList _ \<Rightarrow> False | JDict _ \<Rightarrow> False | _ \<Rightarrow> True)"

definition py_space :: "nat \<Rightarrow> bool" where
  "py_space c \<longleftrightarrow> 9 \<le> c \<and> c \<le> 13 \<or> 28 \<le> c \<and> c \<le> 32 \<or> c = 133 \<or> c = 160 \<or> c = 5760 \<or>
     8192 \<le> c \<and> c \<le> 8202 \<or> c = 8232 \<or> c = 8233 \<or> c = 8239 \<or> c = 8287 \<or> c = 12288"

definition py_strip :: "str \<Rightarrow> str" where
  "py_strip s = rev (dropWhile py_space (rev (dropWhile py_space s)))"

definition ascii_lower :: "str \<Rightarrow> str" where
  "ascii_lower s = map (\<lambda>c. if 65 \<le> c \<and> c \<le> 90 then c + 32 else c) s"

definition starts_with :: "str \<Rightarrow> str \<Rightarrow> bool" where
  "starts_with p s \<longleftrightarrow> take (length p) s = p"

definition ends_with :: "str \<Rightarrow> str \<Rightarrow> bool" where
  "ends_with p s \<longleftrightarrow> length p \<le> length s \<and> drop (length s - length p) s = p"

section \<open>Versions and request metadata\<close>

definition modern_version :: str where "modern_version = ascii ''2026-07-28''"

definition modern_versions :: "str list" where "modern_versions = [modern_version]"

definition legacy_versions :: "str list" where
  "legacy_versions = map ascii [''2025-11-25'', ''2025-06-18'', ''2025-03-26'', ''2024-11-05'']"

datatype era_detection = EraModern | EraLegacy | ModernIncompatible | ModernError | Undetermined

definition build_request_meta :: "(str \<times> json) list \<Rightarrow> (str \<times> json) list \<Rightarrow> str \<Rightarrow> (str \<times> json) list" where
  "build_request_meta client_info client_capabilities version =
     [(ascii ''io.modelcontextprotocol/protocolVersion'', JStr version),
      (ascii ''io.modelcontextprotocol/clientInfo'', JDict client_info),
      (ascii ''io.modelcontextprotocol/clientCapabilities'', JDict client_capabilities)]"

text \<open>\<open>{**a, **b}\<close>: the later value wins, the earlier position stays.\<close>

definition dict_merge :: "(str, 'v) dict \<Rightarrow> (str, 'v) dict \<Rightarrow> (str, 'v) dict" where
  "dict_merge a b = fold (\<lambda>(k, v) d. AList.update k v d) b a"

definition with_request_meta :: "(str \<times> json) list \<Rightarrow> (str \<times> json) list \<Rightarrow> (str \<times> json) list" where
  "with_request_meta params meta =
     (case map_of params (ascii ''_meta'') of
        None \<Rightarrow> AList.update (ascii ''_meta'') (JDict meta) params
      | Some JNull \<Rightarrow> AList.update (ascii ''_meta'') (JDict meta) params
      | Some (JDict existing) \<Rightarrow> AList.update (ascii ''_meta'') (JDict (dict_merge meta existing)) params
      | Some _ \<Rightarrow> params)"

section \<open>Header values\<close>

definition b64_prefix :: str where "b64_prefix = ascii ''=?base64?''"
definition b64_suffix :: str where "b64_suffix = ascii ''?=''"

definition sentinel :: "str \<Rightarrow> bool" where
  "sentinel s \<longleftrightarrow> starts_with b64_prefix s \<and> ends_with b64_suffix s"

definition header_char :: "nat \<Rightarrow> bool" where
  "header_char c \<longleftrightarrow> c = 9 \<or> 32 \<le> c \<and> c \<le> 126"

definition plain_value :: "str \<Rightarrow> bool" where
  "plain_value s \<longleftrightarrow> s = py_strip s \<and> (\<forall>c \<in> set s. header_char c) \<and> \<not> sentinel s"

definition encode_header_value :: "str \<Rightarrow> str option" where
  "encode_header_value s =
     (if plain_value s then Some s
      else map_option (\<lambda>bs. b64_prefix @ b64encode False bs @ b64_suffix) (utf8_encode s))"

definition decode_header_value :: "str \<Rightarrow> str option" where
  "decode_header_value s =
     (if sentinel s
      then Option.bind (b64decode True (take (length s - 2 - 9) (drop 9 s))) utf8_decode
      else Some s)"

definition name_bearing_field :: "str \<Rightarrow> str option" where
  "name_bearing_field mthd =
     (if mthd = ascii ''tools/call'' then Some (ascii ''name'')
      else if mthd = ascii ''prompts/get'' then Some (ascii ''name'')
      else if mthd = ascii ''resources/read'' then Some (ascii ''uri'') else None)"

definition mcp_name_for :: "str \<Rightarrow> (str \<times> json) list \<Rightarrow> str option" where
  "mcp_name_for mthd params =
     (case name_bearing_field mthd of None \<Rightarrow> None
      | Some field \<Rightarrow> (case map_of params field of Some (JStr s) \<Rightarrow> Some s | _ \<Rightarrow> None))"

definition request_metadata_headers :: "str \<Rightarrow> (str \<times> json) list \<Rightarrow> str \<Rightarrow> (str, str) dict" where
  "request_metadata_headers mthd params version =
     [(ascii ''MCP-Protocol-Version'', version), (ascii ''Mcp-Method'', mthd)] @
     (case Option.bind (mcp_name_for mthd params) encode_header_value of
        None \<Rightarrow> [] | Some v \<Rightarrow> [(ascii ''Mcp-Name'', v)])"

text \<open>\<open>None\<close> is the \<open>UnicodeEncodeError\<close> that strict mode lets through.\<close>

definition header_param_value :: "bool \<Rightarrow> json option \<Rightarrow> str option option" where
  "header_param_value strict v =
     (case v of
        Some (JBool b) \<Rightarrow> Some (Some (if b then ascii ''true'' else ascii ''false''))
      | Some (JInt i) \<Rightarrow> Some (if \<bar>i\<bar> > 2 ^ 53 - 1 then None else Some (dump_int i))
      | Some (JStr s) \<Rightarrow> (case encode_header_value s of
                            None \<Rightarrow> if strict then None else Some None
                          | Some e \<Rightarrow> Some (Some e))
      | _ \<Rightarrow> Some None)"

section \<open>Header annotations\<close>

definition token_char :: "nat \<Rightarrow> bool" where
  "token_char c \<longleftrightarrow> is_digit c \<or> 65 \<le> c \<and> c \<le> 90 \<or> 97 \<le> c \<and> c \<le> 122 \<or>
     c \<in> set (ascii [CHR ''!'', CHR ''#'', CHR ''$'', CHR ''%'', CHR ''&'', CHR 0x27, CHR ''*'', CHR ''+'', CHR ''-'',
                 CHR ''.'', CHR 0x5E, CHR ''_'', CHR 0x60, CHR ''|'', CHR ''~''])"

text \<open>\<open>^[...]+$\<close> with \<open>re.match\<close>: \<open>$\<close> also matches before a final newline.\<close>

definition token_match :: "str \<Rightarrow> bool" where
  "token_match s =
     (let body = (if s \<noteq> [] \<and> last s = 10 then butlast s else s)
      in body \<noteq> [] \<and> (\<forall>c \<in> set body. token_char c))"

definition primitive_type :: "json option \<Rightarrow> json option" where
  "primitive_type ty =
     (case ty of
        Some (JList ts) \<Rightarrow>
          (case filter (\<lambda>t. t \<noteq> JStr (ascii ''null'')) ts of [t] \<Rightarrow> Some t | _ \<Rightarrow> None)
      | _ \<Rightarrow> ty)"

definition primitive_types :: "json list" where
  "primitive_types = map (JStr \<circ> ascii) [''string'', ''integer'', ''boolean'']"

text \<open>The walk visits depths 0 to 16; its fuel is the number of depths left.\<close>

fun walk_annotations :: "nat \<Rightarrow> json \<Rightarrow> str list \<Rightarrow> (str \<times> str list \<times> json option) list" where
  "walk_annotations 0 schema path = []"
| "walk_annotations (Suc f) schema path =
     (case jget schema (ascii ''properties'') of
        Some (JDict props) \<Rightarrow>
          concat (map (\<lambda>(key, sub).
            (case sub of JDict _ \<Rightarrow>
               (case jget sub (ascii ''x-mcp-header'') of
                  Some (JStr ann) \<Rightarrow> [(ann, path @ [key], jget sub (ascii ''type''))]
                | _ \<Rightarrow> []) @ walk_annotations f sub (path @ [key])
             | _ \<Rightarrow> [])) props)
      | _ \<Rightarrow> [])"

fun valid_annotations :: "str list \<Rightarrow> (str \<times> str list \<times> json option) list \<Rightarrow> (str \<times> str list) list" where
  "valid_annotations seen [] = []"
| "valid_annotations seen ((nm, path, ty) # anns) =
     (if \<not> token_match nm \<or> ascii_lower nm \<in> set seen then valid_annotations seen anns
      else if (case primitive_type ty of None \<Rightarrow> True | Some t \<Rightarrow> t \<notin> set primitive_types)
           then valid_annotations (ascii_lower nm # seen) anns
      else (nm, path) # valid_annotations (ascii_lower nm # seen) anns)"

definition x_mcp_header_annotations :: "json \<Rightarrow> (str \<times> str list) list" where
  "x_mcp_header_annotations schema =
     (case schema of JDict _ \<Rightarrow> valid_annotations [] (walk_annotations 17 schema []) | _ \<Rightarrow> [])"

fun follow :: "json option \<Rightarrow> str list \<Rightarrow> json option" where
  "follow v [] = v"
| "follow v (step # path) =
     (case v of Some (JDict ps) \<Rightarrow> follow (map_of ps step) path | _ \<Rightarrow> None)"

fun param_headers :: "bool \<Rightarrow> json \<Rightarrow> (str \<times> str list) list \<Rightarrow> (str, str) dict \<Rightarrow> (str, str) dict option" where
  "param_headers strict arguments [] headers = Some headers"
| "param_headers strict arguments ((nm, path) # anns) headers =
     (case header_param_value strict (follow (Some arguments) path) of
        None \<Rightarrow> None
      | Some None \<Rightarrow> param_headers strict arguments anns headers
      | Some (Some e) \<Rightarrow>
          param_headers strict arguments anns (AList.update (ascii ''Mcp-Param-'' @ nm) e headers))"

definition x_mcp_param_headers :: "bool \<Rightarrow> json \<Rightarrow> json \<Rightarrow> (str, str) dict option" where
  "x_mcp_param_headers strict schema arguments =
     (case arguments of
        JDict _ \<Rightarrow> param_headers strict arguments (x_mcp_header_annotations schema) []
      | _ \<Rightarrow> Some [])"

section \<open>Classifying a discover response\<close>

text \<open>\<open>v in FROZENSET\<close> hashes \<open>v\<close>: a list or a dictionary raises \<open>TypeError\<close> (\<open>None\<close>).\<close>

fun any_version :: "str list \<Rightarrow> json list \<Rightarrow> bool option" where
  "any_version versions [] = Some False"
| "any_version versions (v # vs) =
     (if \<not> hashable v then None
      else if v \<in> JStr ` set versions then Some True else any_version versions vs)"

definition classify_versions :: "json option \<Rightarrow> era_detection option" where
  "classify_versions supported =
     (case supported of
        Some (JList vs) \<Rightarrow>
          (case any_version modern_versions vs of None \<Rightarrow> None
           | Some True \<Rightarrow> Some EraModern
           | Some False \<Rightarrow>
               (case any_version legacy_versions vs of None \<Rightarrow> None
                | Some True \<Rightarrow> Some EraLegacy | Some False \<Rightarrow> Some ModernIncompatible))
      | _ \<Rightarrow> Some ModernIncompatible)"

definition status_undetermined :: "json option \<Rightarrow> bool" where
  "status_undetermined status =
     (case status of Some (JInt i) \<Rightarrow> i \<in> {401, 403, 429} \<or> i \<ge> 500 | _ \<Rightarrow> False)"

definition code_is :: "(str \<times> json) list \<Rightarrow> int \<Rightarrow> bool" where
  "code_is err n = (case map_of err (ascii ''code'') of None \<Rightarrow> False | Some v \<Rightarrow> num_is v n)"

definition classify_status :: "json \<Rightarrow> era_detection" where
  "classify_status response =
     (if status_undetermined (jget response (ascii ''_status_code'')) then Undetermined else EraLegacy)"

definition classify_error :: "json \<Rightarrow> era_detection option" where
  "classify_error response =
     (case jget response (ascii ''error'') of
        Some (JDict err) \<Rightarrow>
          if code_is err (- 32022) then
            classify_versions (case map_of err (ascii ''data'') of
                                 Some (JDict d) \<Rightarrow> map_of d (ascii ''supported'') | _ \<Rightarrow> None)
          else if code_is err (- 32020) \<or> code_is err (- 32021) then Some ModernError
          else Some (classify_status response)
      | _ \<Rightarrow> Some (classify_status response))"

definition classify_discover_response :: "json \<Rightarrow> era_detection option" where
  "classify_discover_response response =
     (case response of
        JDict (p # ps) \<Rightarrow>
          (case jget response (ascii ''result'') of
             Some (JDict r) \<Rightarrow>
               if ascii ''supportedVersions'' \<in> fst ` set r
               then classify_versions (map_of r (ascii ''supportedVersions''))
               else classify_error response
           | _ \<Rightarrow> classify_error response)
      | _ \<Rightarrow> Some EraLegacy)"

section \<open>Schema hygiene\<close>

datatype header_problem = NotAToken | DuplicateName | BadType "json option" | NotViaProperties

datatype schema_violation =
    ExternalRef str str
  | InvalidHeader str header_problem
  | TooManyNodes
  | TooDeep nat

record schema_walk =
  sw_nodes :: nat
  sw_max_depth :: nat
  sw_names :: "str list"
  sw_violations :: "schema_violation list"

definition max_schema_nodes :: nat where "max_schema_nodes = 2000"
definition max_schema_depth :: nat where "max_schema_depth = 32"

text \<open>
  The problem of an annotation: \<open>None\<close> is the \<open>TypeError\<close> of testing an unhashable \<open>type\<close> for
  membership in a frozenset.
\<close>

definition header_problem_of :: "(str \<Rightarrow> str) \<Rightarrow> str list \<Rightarrow> json \<Rightarrow> json option \<Rightarrow> bool \<Rightarrow>
    header_problem option option" where
  "header_problem_of lower names ann ty via =
     (case ann of
        JStr a \<Rightarrow>
          if \<not> token_match a then Some (Some NotAToken)
          else if lower a \<in> set names then Some (Some DuplicateName)
          else (case ty of
                  None \<Rightarrow> Some (Some (BadType None))
                | Some t \<Rightarrow>
                    if \<not> hashable t then None
                    else if t \<notin> set primitive_types then Some (Some (BadType (Some t)))
                    else if \<not> via then Some (Some NotViaProperties) else Some None)
      | _ \<Rightarrow> Some (Some NotAToken))"

definition or_root :: "str \<Rightarrow> str" where
  "or_root path = (if path = [] then [47] else path)"

definition check_ref :: "json \<Rightarrow> str \<Rightarrow> schema_walk \<Rightarrow> schema_walk" where
  "check_ref node path w =
     (case jget node (ascii ''$ref'') of
        Some (JStr ref) \<Rightarrow>
          if starts_with [35] ref then w
          else w\<lparr>sw_violations := sw_violations w @ [ExternalRef (or_root path) (take 120 ref)]\<rparr>
      | _ \<Rightarrow> w)"

definition note_name :: "(str \<Rightarrow> str) \<Rightarrow> json \<Rightarrow> schema_walk \<Rightarrow> schema_walk" where
  "note_name lower ann w = (case ann of JStr a \<Rightarrow> w\<lparr>sw_names := lower a # sw_names w\<rparr> | _ \<Rightarrow> w)"

definition note_problem :: "str \<Rightarrow> header_problem option \<Rightarrow> schema_walk \<Rightarrow> schema_walk" where
  "note_problem path problem w =
     (case problem of None \<Rightarrow> w
      | Some p \<Rightarrow> w\<lparr>sw_violations := sw_violations w @ [InvalidHeader (or_root path) p]\<rparr>)"

definition check_annotation :: "(str \<Rightarrow> str) \<Rightarrow> json \<Rightarrow> bool \<Rightarrow> str \<Rightarrow> schema_walk \<Rightarrow> schema_walk option" where
  "check_annotation lower node via path w =
     (case jget node (ascii ''x-mcp-header'') of
        None \<Rightarrow> Some w
      | Some ann \<Rightarrow>
          if ann = JNull then Some w
          else map_option (\<lambda>problem. note_problem path problem (note_name lower ann w))
                 (header_problem_of lower (sw_names w) ann (primitive_type (jget node (ascii ''type''))) via))"

definition is_container :: "json \<Rightarrow> bool" where
  "is_container v = (case v of JList _ \<Rightarrow> True | JDict _ \<Rightarrow> True | _ \<Rightarrow> False)"

function walk_node :: "(str \<Rightarrow> str) \<Rightarrow> json \<Rightarrow> nat \<Rightarrow> bool \<Rightarrow> str \<Rightarrow> schema_walk \<Rightarrow> schema_walk option"
  and walk_items :: "(str \<Rightarrow> str) \<Rightarrow> json list \<Rightarrow> nat \<Rightarrow> nat \<Rightarrow> str \<Rightarrow> schema_walk \<Rightarrow> schema_walk option"
  and walk_keys :: "(str \<Rightarrow> str) \<Rightarrow> (str \<times> json) list \<Rightarrow> nat \<Rightarrow> bool \<Rightarrow> str \<Rightarrow> schema_walk \<Rightarrow> schema_walk option"
  and walk_props :: "(str \<Rightarrow> str) \<Rightarrow> (str \<times> json) list \<Rightarrow> nat \<Rightarrow> bool \<Rightarrow> str \<Rightarrow> schema_walk \<Rightarrow> schema_walk option" where
  "walk_node lower node depth via path w =
     (if sw_nodes w > max_schema_nodes then Some w
      else
        let w1 = w\<lparr>sw_nodes := sw_nodes w + 1, sw_max_depth := max (sw_max_depth w) depth\<rparr>
        in (case node of
              JList xs \<Rightarrow> walk_items lower xs 0 depth path w1
            | JDict ps \<Rightarrow>
                (case check_annotation lower node via path (check_ref node path w1) of
                   None \<Rightarrow> None
                 | Some w2 \<Rightarrow> walk_keys lower ps depth via path w2)
            | _ \<Rightarrow> Some w1))"
| "walk_items lower [] i depth path w = Some w"
| "walk_items lower (x # xs) i depth path w =
     (case walk_node lower x (depth + 1) False (path @ 91 # digits i @ [93]) w of
        None \<Rightarrow> None
      | Some w1 \<Rightarrow> walk_items lower xs (i + 1) depth path w1)"
| "walk_keys lower [] depth via path w = Some w"
| "walk_keys lower ((key, v) # ps) depth via path w =
     (case (case v of
              JDict props \<Rightarrow>
                if key = ascii ''properties''
                then walk_props lower props depth via path w
                else walk_node lower v (depth + 1) False (path @ 47 # key) w
            | JList _ \<Rightarrow> walk_node lower v (depth + 1) False (path @ 47 # key) w
            | _ \<Rightarrow> Some w) of
        None \<Rightarrow> None
      | Some w1 \<Rightarrow> walk_keys lower ps depth via path w1)"
| "walk_props lower [] depth via path w = Some w"
| "walk_props lower ((prop, sub) # ps) depth via path w =
     (case walk_node lower sub (depth + 1) via (path @ ascii ''/properties/'' @ prop) w of
        None \<Rightarrow> None
      | Some w1 \<Rightarrow> walk_props lower ps depth via path w1)"
  by pat_completeness auto
termination
  by (relation "measure (case_sum
        (case_sum (\<lambda>(l, v, d, b, p, w). size v) (\<lambda>(l, xs, i, d, p, w). size_list size xs))
        (case_sum (\<lambda>(l, ps, d, b, p, w). size_list (size_prod (\<lambda>_. 0) size) ps)
                  (\<lambda>(l, ps, d, b, p, w). size_list (size_prod (\<lambda>_. 0) size) ps)))")
     auto

declare walk_node.simps [simp del]

definition tool_schema_violations :: "(str \<Rightarrow> str) \<Rightarrow> json \<Rightarrow> schema_violation list option" where
  "tool_schema_violations lower schema =
     (case schema of
        JDict _ \<Rightarrow>
          map_option (\<lambda>w. sw_violations w
              @ (if sw_nodes w > max_schema_nodes then [TooManyNodes] else [])
              @ (if sw_max_depth w > max_schema_depth then [TooDeep (sw_max_depth w)] else []))
            (walk_node lower schema 0 True []
               \<lparr>sw_nodes = 0, sw_max_depth = 0, sw_names = [], sw_violations = []\<rparr>)
      | _ \<Rightarrow> Some [])"

section \<open>Header values survive the wire\<close>

lemma py_strip_id: "s = [] \<or> \<not> py_space (hd s) \<and> \<not> py_space (last s) \<Longrightarrow> py_strip s = s"
proof -
  have keep: "dropWhile py_space t = t" if "t \<noteq> []" "\<not> py_space (hd t)" for t
    using that by (cases t) auto
  assume "s = [] \<or> \<not> py_space (hd s) \<and> \<not> py_space (last s)"
  then show ?thesis
  proof
    assume "\<not> py_space (hd s) \<and> \<not> py_space (last s)"
    then show ?thesis
      by (cases "s = []") (simp_all add: py_strip_def keep hd_rev)
  qed (simp add: py_strip_def)
qed

lemma sentinel_wrapped: "sentinel (b64_prefix @ s @ b64_suffix)"
  by (simp add: sentinel_def starts_with_def ends_with_def)

lemma wrapped_slice:
  "take (length (b64_prefix @ s @ b64_suffix) - 2 - 9) (drop 9 (b64_prefix @ s @ b64_suffix)) = s"
proof -
  have "length b64_prefix = 9" "length b64_suffix = 2" by (simp_all add: b64_prefix_def b64_suffix_def)
  then show ?thesis by simp
qed

lemma wrapped_safe:
  "\<forall>c \<in> set (b64_prefix @ b64encode False bs @ b64_suffix). header_char c"
proof -
  have "c \<in> set (b64_body False bs) \<Longrightarrow> header_char c" for c
    using b64_body_range [of c False bs] by (simp add: header_char_def)
  moreover have "c \<in> set (b64_pad t) \<Longrightarrow> header_char c" for c t
    using b64_pad_set [of t] by (auto simp: header_char_def)
  ultimately show ?thesis
    by (auto simp: b64encode_def header_char_def b64_prefix_def b64_suffix_def)
qed

lemma decode_encoded:
  assumes "encode_header_value s = Some e"
  shows "decode_header_value e = Some s"
proof (cases "plain_value s")
  case True
  then show ?thesis using assms by (auto simp: encode_header_value_def decode_header_value_def plain_value_def)
next
  case False
  then obtain bs where bs: "utf8_encode s = Some bs" and e: "e = b64_prefix @ b64encode False bs @ b64_suffix"
    using assms by (auto simp: encode_header_value_def)
  show ?thesis
    unfolding decode_header_value_def e
    by (simp only: sentinel_wrapped wrapped_slice if_True b64_round_trip bind.bind_lunit utf8_round_trip [OF bs])
qed

text \<open>C15. Header values survive the wire and cannot break it: decoding an encoded value gives the
  original string back, for every string that can be encoded; and what is sent consists of printable
  ASCII, blanks and tabs only (no CR or LF, so no header injection), with no blank at either end.\<close>

theorem header_value_round_trip:
  assumes "encode_header_value s = Some e"
  shows "decode_header_value e = Some s \<and> (\<forall>c \<in> set e. header_char c) \<and> py_strip e = e"
proof (cases "plain_value s")
  case True
  then show ?thesis using assms decode_encoded by (auto simp: encode_header_value_def plain_value_def)
next
  case False
  then obtain bs where e: "e = b64_prefix @ b64encode False bs @ b64_suffix"
    using assms by (auto simp: encode_header_value_def)
  have "py_strip e = e"
  proof (rule py_strip_id, rule disjI2)
    have "hd e = 61" "last e = 61" by (simp_all add: e b64_prefix_def b64_suffix_def)
    then show "\<not> py_space (hd e) \<and> \<not> py_space (last e)" by (simp add: py_space_def)
  qed
  then show ?thesis using wrapped_safe e decode_encoded [OF assms] by blast
qed

theorem header_value_round_trip_witness:
  "\<exists>e. encode_header_value [10, 0x1F600] = Some e \<and> decode_header_value e = Some [10, 0x1F600]"
proof -
  have "\<exists>e. encode_header_value [10, 0x1F600] = Some e"
    by (simp add: encode_header_value_def plain_value_def py_strip_def py_space_def utf8_char_def surrogate_def)
  then show ?thesis using header_value_round_trip by blast
qed

section \<open>Annotations\<close>

fun keys_ok :: "json \<Rightarrow> bool" where
  "keys_ok (JList xs) = (\<forall>x \<in> set xs. keys_ok x)"
| "keys_ok (JDict ps) = (dict_ok ps \<and> (\<forall>(k, v) \<in> set ps. keys_ok v))"
| "keys_ok v = True"

text \<open>The subschema at a path of property names.\<close>

fun schema_at :: "json \<Rightarrow> str list \<Rightarrow> json option" where
  "schema_at schema [] = Some schema"
| "schema_at schema (key # path) =
     (case jget schema (ascii ''properties'') of
        Some (JDict props) \<Rightarrow> Option.bind (map_of props key) (\<lambda>sub. schema_at sub path)
      | _ \<Rightarrow> None)"

lemma schema_at_append: "schema_at s (p @ q) = Option.bind (schema_at s p) (\<lambda>t. schema_at t q)"
  by (induction p arbitrary: s) (simp_all split: option.split json.split)

lemma keys_ok_sub:
  assumes "keys_ok s" and "jget s (ascii ''properties'') = Some (JDict props)" and "(key, sub) \<in> set props"
  shows "schema_at s [key] = Some sub" and "keys_ok sub"
proof -
  obtain ps where s: "s = JDict ps" and "map_of ps (ascii ''properties'') = Some (JDict props)"
    using assms(2) by (auto simp: jget_def split: json.splits)
  then have "keys_ok (JDict props)" using assms(1) map_of_SomeD by fastforce
  then have "map_of props key = Some sub" "keys_ok sub" using assms(3) by auto
  then show "schema_at s [key] = Some sub" "keys_ok sub" using assms(2) by (simp_all del: ascii_simps)
qed

lemma walk_annotations_step:
  assumes "(nm, p, ty) \<in> set (walk_annotations (Suc f) schema path)"
  obtains props key sub where "jget schema (ascii ''properties'') = Some (JDict props)"
    and "(key, sub) \<in> set props"
    and "(nm, p, ty) \<in> set (walk_annotations f sub (path @ [key])) \<or>
      p = path @ [key] \<and> jget sub (ascii ''x-mcp-header'') = Some (JStr nm) \<and> ty = jget sub (ascii ''type'')"
proof -
  have "\<exists>props. jget schema (ascii ''properties'') = Some (JDict props)"
  proof (rule ccontr)
    assume "\<nexists>props. jget schema (ascii ''properties'') = Some (JDict props)"
    then have "walk_annotations (Suc f) schema path = []"
      by (simp split: option.split json.split del: ascii_simps)
    then show False using assms by simp
  qed
  then obtain props where props: "jget schema (ascii ''properties'') = Some (JDict props)" ..
  then obtain key sub where "(key, sub) \<in> set props"
    and "(nm, p, ty) \<in> set ((case jget sub (ascii ''x-mcp-header'') of
            Some (JStr ann) \<Rightarrow> [(ann, path @ [key], jget sub (ascii ''type''))]
          | _ \<Rightarrow> []) @ walk_annotations f sub (path @ [key]))"
    using assms by (auto split: json.splits simp del: ascii_simps)
  with props show thesis by (intro that) (auto split: option.splits json.splits simp del: ascii_simps)
qed

lemma walk_annotations_sound:
  "keys_ok schema \<Longrightarrow> (nm, p, ty) \<in> set (walk_annotations f schema path) \<Longrightarrow>
     \<exists>q sub. p = path @ q \<and> q \<noteq> [] \<and> length q \<le> f \<and> schema_at schema q = Some sub \<and>
       jget sub (ascii ''x-mcp-header'') = Some (JStr nm) \<and> ty = jget sub (ascii ''type'')"
proof (induction f arbitrary: schema path)
  case (Suc f)
  obtain props key sub where props: "jget schema (ascii ''properties'') = Some (JDict props)"
    and sub: "(key, sub) \<in> set props"
    and cases: "(nm, p, ty) \<in> set (walk_annotations f sub (path @ [key])) \<or>
      p = path @ [key] \<and> jget sub (ascii ''x-mcp-header'') = Some (JStr nm) \<and> ty = jget sub (ascii ''type'')"
    by (rule walk_annotations_step [OF Suc.prems(2)])
  note at = keys_ok_sub [OF Suc.prems(1) props sub]
  show ?case
  proof (cases "(nm, p, ty) \<in> set (walk_annotations f sub (path @ [key]))")
    case True
    obtain q t where q: "p = (path @ [key]) @ q" "q \<noteq> []" "length q \<le> f" "schema_at sub q = Some t"
      "jget t (ascii ''x-mcp-header'') = Some (JStr nm)" "ty = jget t (ascii ''type'')"
      using Suc.IH [OF at(2) True] by blast
    have "schema_at schema ([key] @ q) = Some t"
      unfolding schema_at_append using at(1) q(4) by simp
    then show ?thesis using q by (intro exI [of _ "[key] @ q"] exI [of _ t]) simp
  next
    case False
    then show ?thesis using cases at(1) by (intro exI [of _ "[key]"] exI [of _ sub]) simp
  qed
qed simp

lemma valid_annotations_sound:
  "(nm, p) \<in> set (valid_annotations seen anns) \<Longrightarrow>
     ascii_lower nm \<notin> set seen \<and> token_match nm \<and>
     (\<exists>ty t. (nm, p, ty) \<in> set anns \<and> primitive_type ty = Some t \<and> t \<in> set primitive_types)"
proof (induction seen anns rule: valid_annotations.induct)
  case (2 seen nm' path ty anns)
  then show ?case
    by (cases "primitive_type ty") (auto split: if_splits)
qed simp

lemma valid_annotations_distinct:
  "distinct (map (ascii_lower \<circ> fst) (valid_annotations seen anns))"
proof (induction seen anns rule: valid_annotations.induct)
  case (2 seen nm path ty anns)
  have "ascii_lower nm \<notin> (ascii_lower \<circ> fst) ` set (valid_annotations (ascii_lower nm # seen) anns)"
    using valid_annotations_sound by fastforce
  then show ?case using 2 by simp
qed simp

text \<open>C16. Every accepted \<open>x-mcp-header\<close> annotation is genuine: its path, of at most 17 steps, leads
  from the root through \<open>properties\<close> to a subschema that carries this name and a (nullable)
  primitive type; names match the token pattern and are pairwise different ignoring case.\<close>

theorem annotations_genuine:
  assumes "keys_ok schema"
  shows "(\<forall>(nm, path) \<in> set (x_mcp_header_annotations schema).
            token_match nm \<and> path \<noteq> [] \<and> length path \<le> 17 \<and>
            (\<exists>sub t. schema_at schema path = Some sub \<and> jget sub (ascii ''x-mcp-header'') = Some (JStr nm) \<and>
               primitive_type (jget sub (ascii ''type'')) = Some t \<and> t \<in> set primitive_types)) \<and>
         distinct (map (ascii_lower \<circ> fst) (x_mcp_header_annotations schema))"
proof -
  have "token_match nm \<and> path \<noteq> [] \<and> length path \<le> 17 \<and>
      (\<exists>sub t. schema_at schema path = Some sub \<and> jget sub (ascii ''x-mcp-header'') = Some (JStr nm) \<and>
         primitive_type (jget sub (ascii ''type'')) = Some t \<and> t \<in> set primitive_types)"
    if "(nm, path) \<in> set (x_mcp_header_annotations schema)" for nm path
  proof -
    have "(nm, path) \<in> set (valid_annotations [] (walk_annotations 17 schema []))"
      using that by (auto simp: x_mcp_header_annotations_def split: json.splits)
    from valid_annotations_sound [OF this] obtain ty t where "token_match nm"
      and ann: "(nm, path, ty) \<in> set (walk_annotations 17 schema [])"
      and "primitive_type ty = Some t" "t \<in> set primitive_types"
      by blast
    with walk_annotations_sound [OF assms ann] show ?thesis by auto
  qed
  moreover have "distinct (map (ascii_lower \<circ> fst) (x_mcp_header_annotations schema))"
    by (cases schema) (simp_all only: x_mcp_header_annotations_def json.case valid_annotations_distinct
        distinct.simps list.map)
  ultimately show ?thesis by blast
qed

theorem annotations_genuine_witness:
  "\<exists>sub t. schema_at (JDict [(ascii ''properties'', JDict [(ascii ''q'', JDict [(ascii ''x-mcp-header'', JStr (ascii ''Q'')),
       (ascii ''type'', JStr (ascii ''string''))])])]) [ascii ''q''] = Some sub \<and>
     jget sub (ascii ''x-mcp-header'') = Some (JStr (ascii ''Q'')) \<and>
     primitive_type (jget sub (ascii ''type'')) = Some t \<and> t \<in> set primitive_types"
proof -
  let ?s = "JDict [(ascii ''properties'', JDict [(ascii ''q'', JDict [(ascii ''x-mcp-header'', JStr (ascii ''Q'')),
       (ascii ''type'', JStr (ascii ''string''))])])]"
  have ok: "keys_ok ?s" by simp
  have "walk_annotations 17 ?s [] = [(ascii ''Q'', [ascii ''q''], Some (JStr (ascii ''string'')))]"
    by (simp add: numeral_eq_Suc jget_def del: ascii_simps)
  moreover have "token_match (ascii ''Q'')" by (simp add: token_match_def token_char_def)
  ultimately have "(ascii ''Q'', [ascii ''q'']) \<in> set (x_mcp_header_annotations ?s)"
    unfolding x_mcp_header_annotations_def
    by (simp add: primitive_type_def primitive_types_def del: walk_annotations.simps ascii_simps)
  then show ?thesis using annotations_genuine [OF ok] by blast
qed

section \<open>The hygiene walk\<close>

inductive visits :: "json \<Rightarrow> json \<Rightarrow> bool" where
  visit_self: "visits v v"
| visit_item: "x \<in> set xs \<Longrightarrow> visits x n \<Longrightarrow> visits (JList xs) n"
| visit_key: "(k, v) \<in> set ps \<Longrightarrow> is_container v \<Longrightarrow> \<not> (k = ascii ''properties'' \<and> (\<exists>q. v = JDict q)) \<Longrightarrow>
     visits v n \<Longrightarrow> visits (JDict ps) n"
| visit_prop: "(ascii ''properties'', JDict props) \<in> set ps \<Longrightarrow> (prop, sub) \<in> set props \<Longrightarrow>
     visits sub n \<Longrightarrow> visits (JDict ps) n"

inductive_cases visits_listE: "visits (JList xs) n"
inductive_cases visits_dictE: "visits (JDict ps) n"

definition external_ref :: "json \<Rightarrow> str option" where
  "external_ref node =
     (case jget node (ascii ''$ref'') of
        Some (JStr ref) \<Rightarrow> if starts_with [35] ref then None else Some ref
      | _ \<Rightarrow> None)"

definition reported :: "schema_violation list \<Rightarrow> json \<Rightarrow> bool" where
  "reported vs n \<longleftrightarrow> (\<forall>ref. external_ref n = Some ref \<longrightarrow> (\<exists>path. ExternalRef path (take 120 ref) \<in> set vs))"

lemma reported_mono: "reported vs n \<Longrightarrow> set vs \<subseteq> set vs' \<Longrightarrow> reported vs' n"
  unfolding reported_def by blast

text \<open>What every part of the walk guarantees: nodes are counted up to one above the limit,
  violations are only added, and if the limit was not hit, all visited references are reported.\<close>

definition walked :: "schema_walk \<Rightarrow> schema_walk \<Rightarrow> (json \<Rightarrow> bool) \<Rightarrow> bool" where
  "walked w w' N \<longleftrightarrow>
     sw_nodes w \<le> sw_nodes w' \<and> (sw_nodes w \<le> max_schema_nodes + 1 \<longrightarrow> sw_nodes w' \<le> max_schema_nodes + 1) \<and>
     set (sw_violations w) \<subseteq> set (sw_violations w') \<and>
     (sw_nodes w' \<le> max_schema_nodes \<longrightarrow> (\<forall>n. N n \<longrightarrow> reported (sw_violations w') n))"

lemma walked_refl: "(\<And>n. \<not> N n) \<Longrightarrow> walked w w N"
  by (simp add: walked_def)

lemma walked_trans:
  "walked a b M \<Longrightarrow> walked b c N \<Longrightarrow> (\<And>n. K n \<Longrightarrow> M n \<or> N n) \<Longrightarrow> walked a c K"
  unfolding walked_def by (metis order_trans reported_mono)

lemma check_ref_reports:
  "sw_nodes (check_ref node path w) = sw_nodes w"
  "set (sw_violations w) \<subseteq> set (sw_violations (check_ref node path w))"
  "reported (sw_violations (check_ref node path w)) node"
  by (auto simp: check_ref_def reported_def external_ref_def simp del: ascii_simps split: option.split json.split)

lemma note_keeps [simp]:
  "sw_nodes (note_name lower ann w) = sw_nodes w" "sw_violations (note_name lower ann w) = sw_violations w"
  "sw_nodes (note_problem path p w) = sw_nodes w"
  "set (sw_violations w) \<subseteq> set (sw_violations (note_problem path p w))"
  by (auto simp: note_name_def note_problem_def split: json.split option.split)

lemma check_annotation_keeps:
  assumes "check_annotation lower node via path w = Some w'"
  shows "sw_nodes w' = sw_nodes w" and "set (sw_violations w) \<subseteq> set (sw_violations w')"
  using assms note_keeps(4) [of "note_name lower ann w" for ann]
  by (auto simp: check_annotation_def simp del: ascii_simps split: option.splits if_splits)

text \<open>What is visited below a dictionary.\<close>

definition below1 :: "str \<Rightarrow> json \<Rightarrow> json \<Rightarrow> bool" where
  "below1 k v n \<longleftrightarrow>
     (if k = ascii ''properties'' \<and> (\<exists>q. v = JDict q)
      then \<exists>q. v = JDict q \<and> (\<exists>(p, sub) \<in> set q. visits sub n) else is_container v \<and> visits v n)"

lemma below1_eq:
  "below1 (ascii ''properties'') (JDict q) = (\<lambda>n. \<exists>(p, sub) \<in> set q. visits sub n)"
  "k \<noteq> ascii ''properties'' \<Longrightarrow> below1 k (JDict q) = visits (JDict q)"
  "below1 k (JList xs) = visits (JList xs)"
  by (auto simp: below1_def is_container_def fun_eq_iff simp del: ascii_simps)

definition below :: "(str \<times> json) list \<Rightarrow> json \<Rightarrow> bool" where
  "below ps n \<longleftrightarrow> (\<exists>(k, v) \<in> set ps. below1 k v n)"

lemma below_simps: "\<not> below [] n" "below ((k, v) # ps) n \<longleftrightarrow> below1 k v n \<or> below ps n"
  by (auto simp: below_def)

lemma visits_dict: "visits (JDict ps) n \<Longrightarrow> n = JDict ps \<or> below ps n"
  by (erule visits_dictE) (force simp: below_def below1_def)+

lemma visits_list: "visits (JList xs) n \<Longrightarrow> n = JList xs \<or> (\<exists>x \<in> set xs. visits x n)"
  by (erule visits_listE) auto

lemma external_ref_container: "external_ref n \<noteq> None \<Longrightarrow> is_container n"
  by (auto simp: external_ref_def jget_def is_container_def split: json.splits option.splits)

lemma visits_atom: "visits v n \<Longrightarrow> \<not> is_container v \<Longrightarrow> n = v"
  by (cases rule: visits.cases) (auto simp: is_container_def)

lemma reported_atom: "\<not> is_container v \<Longrightarrow> visits v n \<Longrightarrow> reported vs n"
  by (metis external_ref_container option.distinct(1) reported_def visits_atom)

lemma walked_checked:
  assumes "check_annotation lower node via path (check_ref node path w) = Some w2" and "walked w2 w' N"
  shows "walked w w' (\<lambda>n. n = node \<or> N n)"
proof -
  have "sw_nodes w2 = sw_nodes w" "set (sw_violations w) \<subseteq> set (sw_violations w2)"
    "reported (sw_violations w2) node"
    using check_annotation_keeps [OF assms(1)] check_ref_reports [where node = node and path = path and w = w]
    by (auto intro: reported_mono)
  then show ?thesis using assms(2) unfolding walked_def by (metis dual_order.trans reported_mono)
qed

definition count_node :: "nat \<Rightarrow> schema_walk \<Rightarrow> schema_walk" where
  "count_node depth w = w\<lparr>sw_nodes := sw_nodes w + 1, sw_max_depth := max (sw_max_depth w) depth\<rparr>"

lemma walked_start:
  assumes "\<not> sw_nodes w > max_schema_nodes"
    and "walked (count_node d w) w' N"
    and "\<And>n. K n \<Longrightarrow> N n \<or> reported (sw_violations w') n"
  shows "walked w w' K"
  using assms unfolding walked_def count_node_def by (auto; fastforce)

lemma walk_node_over: "sw_nodes w > max_schema_nodes \<Longrightarrow> walk_node lower v depth via path w = Some w"
  by (subst walk_node.simps) simp

lemma walk_node_atom:
  "\<not> sw_nodes w > max_schema_nodes \<Longrightarrow> \<not> is_container v \<Longrightarrow>
     walk_node lower v depth via path w = Some (count_node depth w)"
  by (subst walk_node.simps) (simp add: is_container_def count_node_def Let_def split: json.splits)

lemma walk_node_list:
  "\<not> sw_nodes w > max_schema_nodes \<Longrightarrow>
     walk_node lower (JList xs) depth via path w = walk_items lower xs 0 depth path (count_node depth w)"
  by (subst walk_node.simps) (simp add: count_node_def Let_def)

lemma walk_node_dict:
  "\<not> sw_nodes w > max_schema_nodes \<Longrightarrow>
     walk_node lower (JDict ps) depth via path w =
       (case check_annotation lower (JDict ps) via path (check_ref (JDict ps) path (count_node depth w)) of
          None \<Rightarrow> None | Some w2 \<Rightarrow> walk_keys lower ps depth via path w2)"
  by (subst walk_node.simps) (simp add: count_node_def Let_def)

lemma walk_spec:
  "walk_node lower v depth via path w = Some w' \<Longrightarrow> walked w w' (visits v)"
  "walk_items lower xs i depth path w = Some w' \<Longrightarrow> walked w w' (\<lambda>n. \<exists>x \<in> set xs. visits x n)"
  "walk_keys lower ps depth via path w = Some w' \<Longrightarrow> walked w w' (below ps)"
  "walk_props lower ps depth via path w = Some w' \<Longrightarrow> walked w w' (\<lambda>n. \<exists>(p, sub) \<in> set ps. visits sub n)"
proof (induction lower v depth via path w and lower xs i depth path w and lower ps depth via path w and lower ps depth via path w
    arbitrary: w' and w' and w' and w'
    rule: walk_node_walk_items_walk_keys_walk_props.induct)
  case (1 lower node depth via path w)
  let ?w1 = "count_node depth w"
  show ?case
  proof (cases "sw_nodes w > max_schema_nodes")
    case True
    then show ?thesis using 1(3) by (simp add: walk_node_over walked_def)
  next
    case False
    note limit = False
    show ?thesis
    proof (cases "is_container node")
      case False
      then have "w' = ?w1" using 1(3) limit
        by (simp add: walk_node_atom)
      moreover have "walked ?w1 ?w1 (\<lambda>_. False)" by (simp add: walked_def)
      ultimately show ?thesis
        using walked_start [OF limit, of depth w' "\<lambda>_. False"] reported_atom [OF False] by blast
    next
      case True
      then consider (list) xs where "node = JList xs" | (dict) ps where "node = JDict ps"
        by (cases node) (auto simp: is_container_def)
      then show ?thesis
      proof cases
        case list
        have "walk_items lower xs 0 depth path ?w1 = Some w'"
          using 1(3) limit list by (simp add: walk_node_list)
        then have "walked ?w1 w' (\<lambda>n. \<exists>x \<in> set xs. visits x n)"
          using 1(1) [OF limit refl list] by (simp add: count_node_def)
        moreover have "external_ref (JList xs) = None" by (simp add: external_ref_def jget_def)
        ultimately show ?thesis
          by (rule_tac walked_start [OF limit]) (auto simp: list reported_def dest: visits_list)
      next
        case dict
        obtain w2 where w2: "check_annotation lower node via path (check_ref node path ?w1) = Some w2"
          and keys: "walk_keys lower ps depth via path w2 = Some w'"
          using 1(3) limit dict by (auto simp: walk_node_dict split: option.splits)
        have "walked w2 w' (below ps)"
          using 1(2) [OF limit refl dict w2 [unfolded count_node_def, folded dict]] w2 keys by blast
        then have "walked ?w1 w' (\<lambda>n. n = node \<or> below ps n)"
          using walked_checked [OF w2] by blast
        then show ?thesis
          by (rule walked_start [OF limit]) (auto simp: dict dest: visits_dict)
      qed
    qed
  qed
next
  case (2 lower i depth path w)
  then show ?case by (simp add: walked_refl)
next
  case (3 lower x xs i depth path w)
  then obtain w1 where "walk_node lower x (depth + 1) False (path @ 91 # digits i @ [93]) w = Some w1"
    "walk_items lower xs (i + 1) depth path w1 = Some w'" by (auto split: option.splits)
  with 3 show ?case by (intro walked_trans [of w w1 "visits x" w']) auto
next
  case (4 lower depth via path w)
  then show ?case by (auto intro!: walked_refl simp: below_simps)
next
  case (5 lower key v ps depth via path w)
  obtain w1 where w1: "(case v of
              JDict props \<Rightarrow>
                if key = ascii ''properties''
                then walk_props lower props depth via path w
                else walk_node lower v (depth + 1) False (path @ 47 # key) w
            | JList _ \<Rightarrow> walk_node lower v (depth + 1) False (path @ 47 # key) w
            | _ \<Rightarrow> Some w) = Some w1" and rest: "walk_keys lower ps depth via path w1 = Some w'"
    using 5(5) by (auto simp del: ascii_simps split: option.splits)
  have "walked w w1 (below1 key v)"
  proof (cases v)
    case (JDict props)
    then show ?thesis
      using w1 5(1-3) JDict
      by (cases "key = ascii ''properties''") (auto simp: below1_eq simp del: ascii_simps)
  next
    case (JList xs)
    then show ?thesis
      using w1 5(1-3) JList by (auto simp: below1_eq)
  qed (use w1 in \<open>auto simp: below1_def is_container_def intro!: walked_refl\<close>)
  moreover have "walked w1 w' (below ps)" using 5(4) [OF w1 rest] .
  ultimately show ?case by (rule walked_trans) (auto simp: below_simps)
next
  case (6 lower depth via path w)
  then show ?case by (simp add: walked_refl)
next
  case (7 lower p sub ps depth via path w)
  then obtain w1 where "walk_node lower sub (depth + 1) via (path @ ascii ''/properties/'' @ p) w = Some w1"
    "walk_props lower ps depth via path w1 = Some w'" by (auto split: option.splits)
  with 7 show ?case by (intro walked_trans [of w w1 "visits sub" w']) auto
qed

text \<open>The walk is documented never to raise, but a schema that a hostile server sends can make it.\<close>

lemma schema_walk_raises:
  "tool_schema_violations id (JDict [(ascii ''x-mcp-header'', JStr (ascii ''A'')), (ascii ''type'', JDict [])]) = None"
  by (simp add: tool_schema_violations_def walk_node.simps max_schema_nodes_def check_annotation_def check_ref_def
      jget_def header_problem_of_def token_match_def token_char_def primitive_type_def hashable_def)

text \<open>The annotation on which the walk raises: its name is a token, and its type cannot be hashed.\<close>

definition raising_annotation :: "json \<Rightarrow> bool" where
  "raising_annotation node \<longleftrightarrow>
     (case (jget node (ascii ''x-mcp-header''), primitive_type (jget node (ascii ''type''))) of
        (Some (JStr name), Some t) \<Rightarrow> token_match name \<and> \<not> hashable t
      | _ \<Rightarrow> False)"

lemma annotation_raises: "check_annotation lower node via path w = None \<Longrightarrow> raising_annotation node"
  by (auto simp: check_annotation_def raising_annotation_def header_problem_of_def simp del: ascii_simps
      split: option.splits json.splits if_splits)

lemma below_visits: "below ps n \<Longrightarrow> visits (JDict ps) n"
  by (auto simp: below_def below1_def simp del: ascii_simps split: if_splits intro: visit_key visit_prop)

lemma walk_raises:
  "walk_node lower v depth via path w = None \<Longrightarrow> \<exists>n. visits v n \<and> raising_annotation n"
  "walk_items lower xs i depth path w = None \<Longrightarrow> \<exists>x \<in> set xs. \<exists>n. visits x n \<and> raising_annotation n"
  "walk_keys lower ps depth via path w = None \<Longrightarrow> \<exists>n. below ps n \<and> raising_annotation n"
  "walk_props lower ps depth via path w = None \<Longrightarrow> \<exists>(p, sub) \<in> set ps. \<exists>n. visits sub n \<and> raising_annotation n"
proof (induction lower v depth via path w and lower xs i depth path w and lower ps depth via path w and lower ps depth via path w
    rule: walk_node_walk_items_walk_keys_walk_props.induct)
  case (1 lower node depth via path w)
  have limit: "\<not> sw_nodes w > max_schema_nodes" using 1(3) walk_node_over by fastforce
  have "is_container node" using 1(3) limit by (metis walk_node_atom option.distinct(1))
  then consider (list) xs where "node = JList xs" | (dict) ps where "node = JDict ps"
    by (cases node) (auto simp: is_container_def)
  then show ?case
  proof cases
    case list
    have "walk_items lower xs 0 depth path (count_node depth w) = None"
      using 1(3) limit list by (simp add: walk_node_list)
    then have "\<exists>x \<in> set xs. \<exists>n. visits x n \<and> raising_annotation n"
      using 1(1) [OF limit refl list] by (simp add: count_node_def)
    then show ?thesis using list visit_item by blast
  next
    case dict
    show ?thesis
    proof (cases "check_annotation lower node via path (check_ref node path (count_node depth w))")
      case None
      then show ?thesis using annotation_raises visit_self by blast
    next
      case (Some w2)
      then have "walk_keys lower ps depth via path w2 = None" using 1(3) limit dict by (simp add: walk_node_dict)
      then have "\<exists>n. below ps n \<and> raising_annotation n"
        using 1(2) [OF limit refl dict Some [unfolded count_node_def, folded dict]] Some by blast
      then show ?thesis using below_visits dict by blast
    qed
  qed
next
  case (3 lower x xs i depth path w)
  then show ?case by (auto split: option.splits)
next
  case (5 lower key v ps depth via path w)
  let ?step = "case v of
              JDict props \<Rightarrow>
                if key = ascii ''properties''
                then walk_props lower props depth via path w
                else walk_node lower v (depth + 1) False (path @ 47 # key) w
            | JList _ \<Rightarrow> walk_node lower v (depth + 1) False (path @ 47 # key) w
            | _ \<Rightarrow> Some w"
  show ?case
  proof (cases ?step)
    case None
    have "\<exists>n. below1 key v n \<and> raising_annotation n"
    proof (cases v)
      case (JDict props)
      show ?thesis
      proof (cases "key = ascii ''properties''")
        case True
        then have "walk_props lower props depth via path w = None" using None JDict by (simp del: ascii_simps)
        then have "\<exists>(p, sub) \<in> set props. \<exists>n. visits sub n \<and> raising_annotation n" using 5(1-3) JDict True by blast
        then show ?thesis unfolding JDict True below1_eq by blast
      next
        case False
        then have "walk_node lower v (depth + 1) False (path @ 47 # key) w = None" using None JDict by (simp del: ascii_simps)
        then have "\<exists>n. visits v n \<and> raising_annotation n" using 5(1-3) JDict False by blast
        then show ?thesis unfolding JDict below1_eq(2) [OF False] .
      qed
    next
      case (JList xs)
      then have "walk_node lower v (depth + 1) False (path @ 47 # key) w = None" using None by simp
      then have "\<exists>n. visits v n \<and> raising_annotation n" using 5(1-3) JList by blast
      then show ?thesis unfolding JList below1_eq .
    qed (use None in simp_all)
    then show ?thesis by (auto simp: below_simps)
  next
    case (Some w1)
    then have "walk_keys lower ps depth via path w1 = None" using 5(5) by (simp del: ascii_simps)
    then have "\<exists>n. below ps n \<and> raising_annotation n" by (rule 5(4) [OF Some])
    then show ?thesis by (auto simp: below_simps)
  qed
next
  case (7 lower p sub ps depth via path w)
  then show ?case by (auto split: option.splits)
qed simp_all

text \<open>C17. Completeness of the hygiene walk over every schema: either it returns, and then, unless the report says that
  the schema has too many subschemas, every reference to outside the document, in any subschema however deeply nested
  (inside \<open>properties\<close>, lists or any other keyword), is reported; or it raises, and then some subschema that it visits has
  an \<open>x-mcp-header\<close> annotation whose \<open>type\<close> cannot be hashed. (Python's limit on the depth of recursion is not in the
  model.)\<close>

theorem schema_refs_reported:
  "case tool_schema_violations lower (JDict ps) of
     None \<Rightarrow> \<exists>node. visits (JDict ps) node \<and> raising_annotation node
   | Some vs \<Rightarrow> TooManyNodes \<in> set vs \<or>
       (\<forall>node ref. visits (JDict ps) node \<and> external_ref node = Some ref \<longrightarrow> (\<exists>path. ExternalRef path (take 120 ref) \<in> set vs))"
proof -
  let ?w0 = "\<lparr>sw_nodes = 0, sw_max_depth = 0, sw_names = [], sw_violations = []\<rparr>"
  show ?thesis
  proof (cases "walk_node lower (JDict ps) 0 True [] ?w0")
    case None
    then show ?thesis using walk_raises(1) [OF None] by (simp add: tool_schema_violations_def)
  next
    case (Some w)
    have "walked ?w0 w (visits (JDict ps))" using Some by (rule walk_spec(1))
    then have "sw_nodes w \<le> max_schema_nodes \<Longrightarrow> visits (JDict ps) node \<Longrightarrow> reported (sw_violations w) node" for node
      by (simp add: walked_def)
    then show ?thesis using Some by (auto simp: tool_schema_violations_def reported_def not_less)
  qed
qed

theorem schema_refs_reported_witness:
  "(\<exists>vs path. tool_schema_violations id (JDict [(ascii ''items'', JDict [(ascii ''$ref'', JStr (ascii ''http://x''))])]) = Some vs \<and>
     ExternalRef path (ascii ''http://x'') \<in> set vs) \<and>
   (\<exists>node. visits (JDict [(ascii ''x-mcp-header'', JStr (ascii ''A'')), (ascii ''type'', JDict [])]) node \<and> raising_annotation node)"
proof
  let ?n = "JDict [(ascii ''$ref'', JStr (ascii ''http://x''))]"
  let ?s = "[(ascii ''items'', ?n)]"
  obtain vs where vs: "tool_schema_violations id (JDict ?s) = Some vs" and few: "TooManyNodes \<notin> set vs"
    by (simp add: tool_schema_violations_def walk_node.simps max_schema_nodes_def max_schema_depth_def
        check_annotation_def check_ref_def jget_def starts_with_def)
  have "visits (JDict ?s) ?n" by (rule visit_key) (auto simp: is_container_def intro: visit_self)
  moreover have "external_ref ?n = Some (ascii ''http://x'')" by (simp add: external_ref_def jget_def starts_with_def)
  moreover have "\<forall>node ref. visits (JDict ?s) node \<and> external_ref node = Some ref \<longrightarrow> (\<exists>path. ExternalRef path (take 120 ref) \<in> set vs)"
    using schema_refs_reported [of ?s id] few unfolding vs by simp
  ultimately obtain path where "ExternalRef path (take 120 (ascii ''http://x'')) \<in> set vs" by blast
  then show "\<exists>vs path. tool_schema_violations id (JDict ?s) = Some vs \<and> ExternalRef path (ascii ''http://x'') \<in> set vs"
    using vs by auto
  show "\<exists>node. visits (JDict [(ascii ''x-mcp-header'', JStr (ascii ''A'')), (ascii ''type'', JDict [])]) node \<and> raising_annotation node"
    using schema_refs_reported [of "[(ascii ''x-mcp-header'', JStr (ascii ''A'')), (ascii ''type'', JDict [])]" id]
    unfolding schema_walk_raises by (simp del: ascii_simps)
qed

text \<open>
  Another input a hostile server can send that makes one of these functions raise \<open>TypeError\<close>: an unhashable
  element of \<open>supportedVersions\<close>. And a header name may end in a newline.
\<close>

lemma classify_raises:
  "classify_discover_response (JDict [(ascii ''result'', JDict [(ascii ''supportedVersions'', JList [JDict []])])]) = None"
  by (simp add: classify_discover_response_def jget_def classify_versions_def hashable_def)

lemma annotation_name_with_newline:
  "x_mcp_header_annotations (JDict [(ascii ''properties'', JDict [(ascii ''q'', JDict [(ascii ''x-mcp-header'', JStr [65, 10]),
       (ascii ''type'', JStr (ascii ''string''))])])]) = [([65, 10], [ascii ''q''])]"
proof -
  have "walk_annotations 17 (JDict [(ascii ''properties'', JDict [(ascii ''q'', JDict [(ascii ''x-mcp-header'', JStr [65, 10]),
       (ascii ''type'', JStr (ascii ''string''))])])]) [] = [([65, 10], [ascii ''q''], Some (JStr (ascii ''string'')))]"
    by (simp add: numeral_eq_Suc jget_def del: ascii_simps)
  moreover have "token_match [65, 10]" by (simp add: token_match_def token_char_def)
  ultimately show ?thesis
    unfolding x_mcp_header_annotations_def
    by (simp add: primitive_type_def primitive_types_def del: walk_annotations.simps ascii_simps)
qed

end
