(* ===== verification/Request_Envelope.thy ===== *)
theory Request_Envelope
  imports Protocol
begin

text \<open>
  \<open>validate_request_metadata\<close> of \<open>middleware/request_meta.py\<close>: the check that the routing headers
  of a modern HTTP request agree with the JSON-RPC body. A header name or value is a string, bytes,
  or something else; an element of the header list that does not unpack into a pair is \<open>None\<close>.
  Python's Unicode \<open>str.lower\<close> is the argument \<open>lower\<close>; an error carries its code and its label.
\<close>

datatype field_value = FieldStr str | FieldBytes "byte list" | FieldOther

datatype envelope_error = MetadataError int str | HeaderTypeError

datatype header_input =
    HeaderPairs "(field_value \<times> field_value) option list"
  | WsgiEnviron "(field_value \<times> field_value) list"
  | WsgiNotMapping

type_synonym header_map = "(str, str list) dict"

definition field_text :: "field_value \<Rightarrow> envelope_error + str" where
  "field_text v =
     (case v of FieldStr s \<Rightarrow> Inr s | FieldBytes bs \<Rightarrow> Inr (map unat bs) | FieldOther \<Rightarrow> Inl HeaderTypeError)"

definition h_version :: str where "h_version = ascii ''mcp-protocol-version''"
definition h_method :: str where "h_method = ascii ''mcp-method''"
definition h_name :: str where "h_name = ascii ''mcp-name''"
definition h_param :: str where "h_param = ascii ''mcp-param-''"

definition mismatch :: "str \<Rightarrow> envelope_error" where
  "mismatch label = MetadataError (- 32020) label"

definition is_routing :: "str \<Rightarrow> bool" where
  "is_routing nm \<longleftrightarrow> nm = h_version \<or> nm = h_method \<or> nm = h_name \<or> starts_with h_param nm"

definition add_header :: "str \<Rightarrow> str \<Rightarrow> header_map \<Rightarrow> header_map" where
  "add_header nm v hs =
     AList.update nm ((case map_of hs nm of None \<Rightarrow> [] | Some vs \<Rightarrow> vs) @ [v]) hs"

definition dashes :: "str \<Rightarrow> str" where
  "dashes s = map (\<lambda>c. if c = 95 then 45 else c) s"

definition http_alias :: "str \<Rightarrow> str" where
  "http_alias nm = (let a = dashes nm in if starts_with (ascii ''http-'') a then drop 5 a else a)"

fun header_pairs :: "(str \<Rightarrow> str) \<Rightarrow> (field_value \<times> field_value) option list \<Rightarrow> header_map \<Rightarrow>
    envelope_error + header_map" where
  "header_pairs lower [] hs = Inr hs"
| "header_pairs lower (None # ps) hs = Inl HeaderTypeError"
| "header_pairs lower (Some (k, v) # ps) hs =
     (case field_text k of Inl e \<Rightarrow> Inl e
      | Inr kt \<Rightarrow>
          (let nm = lower (py_strip kt)
           in if http_alias nm \<noteq> nm \<and> is_routing (http_alias nm) then Inl (mismatch (ascii ''header-alias''))
              else case field_text v of Inl e \<Rightarrow> Inl e
                   | Inr vt \<Rightarrow> header_pairs lower ps (add_header nm vt hs)))"

fun wsgi_pairs :: "(str \<Rightarrow> str) \<Rightarrow> (field_value \<times> field_value) list \<Rightarrow> header_map \<Rightarrow> envelope_error + header_map" where
  "wsgi_pairs lower [] hs = Inr hs"
| "wsgi_pairs lower ((k, v) # ps) hs =
     (case k of
        FieldStr s \<Rightarrow>
          if starts_with (ascii ''HTTP_'') s then
            (case field_text v of Inl e \<Rightarrow> Inl e
             | Inr vt \<Rightarrow> wsgi_pairs lower ps (add_header (dashes (lower (drop 5 s))) vt hs))
          else wsgi_pairs lower ps hs
      | _ \<Rightarrow> wsgi_pairs lower ps hs)"

definition header_multimap :: "(str \<Rightarrow> str) \<Rightarrow> header_input \<Rightarrow> envelope_error + header_map" where
  "header_multimap lower headers =
     (case headers of HeaderPairs ps \<Rightarrow> header_pairs lower ps []
      | WsgiEnviron ps \<Rightarrow> wsgi_pairs lower ps []
      | WsgiNotMapping \<Rightarrow> Inl HeaderTypeError)"

section \<open>The checks, in the order of the code\<close>

definition single :: "header_map \<Rightarrow> str \<Rightarrow> str \<Rightarrow> envelope_error + str option" where
  "single hs nm label =
     (case map_of hs nm of None \<Rightarrow> Inr None
      | Some [v] \<Rightarrow> Inr (Some v)
      | Some _ \<Rightarrow> Inl (mismatch label))"

definition l_version :: str where "l_version = ascii ''MCP-Protocol-Version''"
definition l_method :: str where "l_method = ascii ''Mcp-Method''"
definition l_name :: str where "l_name = ascii ''Mcp-Name''"
definition l_params :: str where "l_params = ascii ''Mcp-Param-*''"

definition unsupported :: envelope_error where
  "unsupported = MetadataError (- 32022) (ascii ''unsupported_version'')"

text \<open>What the legacy gate raises, if anything.\<close>

definition legacy_gate :: "str list \<Rightarrow> header_map \<Rightarrow> envelope_error option" where
  "legacy_gate supported hs =
     (if h_method \<in> fst ` set hs then Some (mismatch l_method)
      else if h_name \<in> fst ` set hs then Some (mismatch l_name)
      else if \<exists>h \<in> fst ` set hs. starts_with h_param h then Some (mismatch l_params)
      else case single hs h_version l_version of
             Inl e \<Rightarrow> Some e
           | Inr None \<Rightarrow> None
           | Inr (Some hv) \<Rightarrow>
               if hv \<in> set legacy_versions then None
               else if hv \<in> set supported then Some (mismatch l_version) else Some unsupported)"

definition gated :: "str list \<Rightarrow> header_map \<Rightarrow> envelope_error \<Rightarrow> envelope_error" where
  "gated supported hs e = (case legacy_gate supported hs of Some e' \<Rightarrow> e' | None \<Rightarrow> e)"

definition check_method :: "header_map \<Rightarrow> str \<Rightarrow> envelope_error + unit" where
  "check_method hs mthd =
     (case single hs h_method l_method of Inl e \<Rightarrow> Inl e
      | Inr v \<Rightarrow> if v \<noteq> Some mthd then Inl (mismatch l_method) else Inr ())"

definition check_name :: "header_map \<Rightarrow> str \<Rightarrow> (str \<times> json) list \<Rightarrow> envelope_error + unit" where
  "check_name hs mthd params =
     (case single hs h_name l_name of Inl e \<Rightarrow> Inl e
      | Inr raw \<Rightarrow>
          if name_bearing_field mthd \<noteq> None then
            (case mcp_name_for mthd params of
               None \<Rightarrow> Inl (MetadataError (- 32602) (ascii ''invalid_name''))
             | Some nm \<Rightarrow>
                 (case encode_header_value nm of
                    None \<Rightarrow> Inl (MetadataError (- 32602) (ascii ''invalid_name''))
                  | Some canon \<Rightarrow> if raw \<noteq> Some canon then Inl (mismatch l_name) else Inr ()))
          else if raw \<noteq> None then Inl (mismatch l_name) else Inr ())"

definition param_header :: "str \<Rightarrow> str" where
  "param_header nm = h_param @ ascii_lower nm"

fun check_params :: "header_map \<Rightarrow> json option \<Rightarrow> (str, str) dict \<Rightarrow> (str \<times> str list) list \<Rightarrow>
    envelope_error + unit" where
  "check_params hs arguments expected [] = Inr ()"
| "check_params hs arguments expected ((nm, path) # anns) =
     (case single hs (param_header nm) (param_header nm) of Inl e \<Rightarrow> Inl e
      | Inr raw \<Rightarrow>
          (case map_of expected (param_header nm) of
             None \<Rightarrow>
               if (case follow arguments path of None \<Rightarrow> False | Some v \<Rightarrow> v \<noteq> JNull)
               then Inl (mismatch (ascii ''Mcp-Param-'' @ nm))
               else if raw \<noteq> None then Inl (mismatch (ascii ''Mcp-Param-'' @ nm))
               else check_params hs arguments expected anns
           | Some want \<Rightarrow>
               if raw \<noteq> Some want then Inl (mismatch (ascii ''Mcp-Param-'' @ nm))
               else check_params hs arguments expected anns))"

definition lower_keys :: "(str, str) dict \<Rightarrow> (str, str) dict" where
  "lower_keys d = fold (\<lambda>(k, v) out. AList.update (ascii_lower k) v out) d []"

definition arguments_of :: "(str \<times> json) list \<Rightarrow> json" where
  "arguments_of params = (case map_of params (ascii ''arguments'') of None \<Rightarrow> JNull | Some v \<Rightarrow> v)"

definition param_names :: "header_map \<Rightarrow> str list" where
  "param_names hs = filter (starts_with h_param) (map fst hs)"

definition check_call_params :: "header_map \<Rightarrow> (str \<times> json) list \<Rightarrow> (str \<rightharpoonup> json) \<Rightarrow> envelope_error + unit" where
  "check_call_params hs params schemas =
     (case map_of params (ascii ''name'') of
        Some (JStr tool) \<Rightarrow>
          (case schemas tool of
             None \<Rightarrow> Inl (MetadataError (- 32602) (ascii ''unknown_tool''))
           | Some schema \<Rightarrow>
               (case x_mcp_param_headers True schema (arguments_of params) of
                  None \<Rightarrow> Inl (mismatch l_params)
                | Some headers \<Rightarrow>
                    (let anns = x_mcp_header_annotations schema in
                     if \<not> set (param_names hs) \<subseteq> set (map (param_header \<circ> fst) anns)
                     then Inl (mismatch l_params)
                     else check_params hs (Some (arguments_of params)) (lower_keys headers) anns)))
      | _ \<Rightarrow> Inl (MetadataError (- 32602) (ascii ''unknown_tool'')))"

definition check_param_headers :: "header_map \<Rightarrow> str \<Rightarrow> (str \<times> json) list \<Rightarrow> (str \<rightharpoonup> json) option \<Rightarrow>
    envelope_error + unit" where
  "check_param_headers hs mthd params tool_schemas =
     (case (if mthd = ascii ''tools/call'' then tool_schemas else None) of
        None \<Rightarrow> if param_names hs \<noteq> [] then Inl (mismatch l_params) else Inr ()
      | Some schemas \<Rightarrow> check_call_params hs params schemas)"

definition params_of :: "(str \<times> json) list \<Rightarrow> (str \<times> json) list" where
  "params_of body = (case map_of body (ascii ''params'') of Some (JDict ps) \<Rightarrow> ps | _ \<Rightarrow> [])"

definition k_version :: str where
  "k_version = ascii ''io.modelcontextprotocol/protocolVersion''"

text \<open>The protocol version \<open>_meta\<close> declares: an error if it is malformed, \<open>None\<close> if it is missing.\<close>

definition meta_version :: "(str \<times> json) list \<Rightarrow> envelope_error + str option" where
  "meta_version params =
     (case map_of params (ascii ''_meta'') of
        None \<Rightarrow> Inr None
      | Some JNull \<Rightarrow> Inr None
      | Some (JDict meta) \<Rightarrow>
          (case map_of meta k_version of
             None \<Rightarrow> Inr None
           | Some (JStr v) \<Rightarrow> Inr (Some v)
           | Some _ \<Rightarrow> Inl (MetadataError (- 32602) (ascii ''invalid_meta'')))
      | Some _ \<Rightarrow> Inl (MetadataError (- 32602) (ascii ''invalid_meta'')))"

definition check_request :: "str list \<Rightarrow> (str \<rightharpoonup> json) option \<Rightarrow> header_map \<Rightarrow> (str \<times> json) list \<Rightarrow> str \<Rightarrow>
    envelope_error + str" where
  "check_request supported tool_schemas hs body mthd =
     (case single hs h_version l_version of Inl e \<Rightarrow> Inl e
      | Inr header_version \<Rightarrow>
        (case meta_version (params_of body) of Inl e \<Rightarrow> Inl e
         | Inr None \<Rightarrow> Inl (gated supported hs (MetadataError (- 32602) (ascii ''missing_meta'')))
         | Inr (Some version) \<Rightarrow>
             if header_version \<noteq> Some version then Inl (mismatch l_version)
             else if version \<notin> set supported then Inl unsupported
             else case check_method hs mthd of Inl e \<Rightarrow> Inl e | Inr _ \<Rightarrow>
                  (case check_name hs mthd (params_of body) of Inl e \<Rightarrow> Inl e | Inr _ \<Rightarrow>
                  (case check_param_headers hs mthd (params_of body) tool_schemas of Inl e \<Rightarrow> Inl e
                   | Inr _ \<Rightarrow> Inr version))))"

definition validate_request_metadata :: "(str \<Rightarrow> str) \<Rightarrow> str list \<Rightarrow> (str \<rightharpoonup> json) option \<Rightarrow> header_input \<Rightarrow>
    json \<Rightarrow> envelope_error + str" where
  "validate_request_metadata lower supported tool_schemas headers body =
     (case header_multimap lower headers of Inl e \<Rightarrow> Inl e
      | Inr hs \<Rightarrow>
        (case body of
           JList _ \<Rightarrow> Inl (gated supported hs (MetadataError (- 32600) (ascii ''batch'')))
         | JDict b \<Rightarrow>
             (case map_of b (ascii ''method'') of
                None \<Rightarrow> Inl (MetadataError (- 32600) (ascii ''not_a_request''))
              | Some (JStr mthd) \<Rightarrow> check_request supported tool_schemas hs b mthd
              | Some _ \<Rightarrow> Inl (MetadataError (- 32600) (ascii ''invalid_request'')))
         | _ \<Rightarrow> Inl (MetadataError (- 32600) (ascii ''invalid_request''))))"

section \<open>No split brain\<close>

text \<open>The canonical parameter headers of a call, one for each annotated argument that has a rendering.\<close>

definition rendered :: "json \<Rightarrow> (str \<times> str list) list \<Rightarrow> (str \<times> str) list" where
  "rendered arguments anns =
     concat (map (\<lambda>(nm, path). case header_param_value True (follow (Some arguments) path) of
                    Some (Some e) \<Rightarrow> [(nm, e)] | _ \<Rightarrow> []) anns)"

lemma rendered_simps [simp]:
  "rendered arguments [] = []"
  "rendered arguments ((nm, path) # anns) =
     (case header_param_value True (follow (Some arguments) path) of Some (Some e) \<Rightarrow> [(nm, e)] | _ \<Rightarrow> [])
     @ rendered arguments anns"
  by (simp_all add: rendered_def)

lemma rendered_name: "(nm, e) \<in> set (rendered arguments anns) \<Longrightarrow> \<exists>path. (nm, path) \<in> set anns"
  by (induction anns) (auto split: option.splits, blast+)

lemma param_headers_rendered:
  "param_headers True arguments anns hs = Some out \<Longrightarrow> distinct (map fst anns) \<Longrightarrow>
     \<forall>nm \<in> fst ` set anns. ascii ''Mcp-Param-'' @ nm \<notin> fst ` set hs \<Longrightarrow>
     out = hs @ map (apfst ((@) (ascii ''Mcp-Param-''))) (rendered arguments anns)"
proof (induction anns arbitrary: hs)
  case (Cons ann anns)
  obtain nm path where ann: "ann = (nm, path)" by (cases ann)
  show ?case
  proof (cases "header_param_value True (follow (Some arguments) path)")
    case None
    then show ?thesis using Cons.prems(1) ann by simp
  next
    case (Some r)
    show ?thesis
    proof (cases r)
      case None
      then show ?thesis using Cons Some ann by (simp del: ascii_simps)
    next
      case (Some e)
      have "AList.update (ascii ''Mcp-Param-'' @ nm) e hs = hs @ [(ascii ''Mcp-Param-'' @ nm, e)]"
        using Cons.prems(3) ann by (intro update_fresh) simp
      moreover have "\<forall>n \<in> fst ` set anns. ascii ''Mcp-Param-'' @ n \<notin> fst ` set (hs @ [(ascii ''Mcp-Param-'' @ nm, e)])"
        using Cons.prems(2,3) ann by (auto simp del: ascii_simps)
      ultimately show ?thesis
        using Cons.IH [of "hs @ [(ascii ''Mcp-Param-'' @ nm, e)]"] Cons.prems(1,2) ann
          \<open>header_param_value True (follow (Some arguments) path) = Some r\<close> Some
        by (simp del: ascii_simps)
    qed
  qed
qed simp

lemma lower_keys_fresh:
  "distinct (map (ascii_lower \<circ> fst) d) \<Longrightarrow> lower_keys d = map (apfst ascii_lower) d"
proof -
  have "distinct (map (ascii_lower \<circ> fst) d) \<Longrightarrow> \<forall>k \<in> fst ` set d. ascii_lower k \<notin> fst ` set out \<Longrightarrow>
      fold (\<lambda>(k, v) out. AList.update (ascii_lower k) v out) d out = out @ map (apfst ascii_lower) d" for out
  proof (induction d arbitrary: out)
    case (Cons kv d)
    obtain k v where kv: "kv = (k, v)" by (cases kv)
    have "AList.update (ascii_lower k) v out = out @ [(ascii_lower k, v)]"
      using Cons.prems(2) kv by (intro update_fresh) simp
    moreover have "\<forall>k' \<in> fst ` set d. ascii_lower k' \<notin> fst ` set (out @ [(ascii_lower k, v)])"
      using Cons.prems kv by (auto simp: image_iff)
    ultimately show ?case using Cons.IH [of "out @ [(ascii_lower k, v)]"] Cons.prems(1) kv by simp
  qed simp
  from this [of "[]"] show "distinct (map (ascii_lower \<circ> fst) d) \<Longrightarrow> lower_keys d = map (apfst ascii_lower) d"
    by (simp add: lower_keys_def)
qed

lemma ascii_lower_param: "ascii_lower (ascii ''Mcp-Param-'' @ nm) = param_header nm"
  by (simp add: ascii_lower_def param_header_def h_param_def)

text \<open>What the body dictates for a parameter header.\<close>

definition dictated_param :: "json \<Rightarrow> json \<Rightarrow> str \<Rightarrow> str option" where
  "dictated_param schema arguments h =
     map_of (map (apfst param_header) (rendered arguments (x_mcp_header_annotations schema))) h"

lemma annotations_distinct: "distinct (map (ascii_lower \<circ> fst) (x_mcp_header_annotations schema))"
  by (cases schema) (simp_all only: x_mcp_header_annotations_def json.case valid_annotations_distinct
        distinct.simps list.map)

lemma rendered_distinct:
  "distinct (map (f \<circ> fst) anns) \<Longrightarrow> distinct (map (f \<circ> fst) (rendered arguments anns))"
proof (induction anns)
  case (Cons ann anns)
  then show ?case by (cases ann) (force split: option.splits dest: rendered_name)
qed simp

lemma expected_headers:
  assumes "x_mcp_param_headers True schema (JDict args) = Some headers"
  shows "map_of (lower_keys headers) h = dictated_param schema (JDict args) h"
proof -
  let ?anns = "x_mcp_header_annotations schema" and ?p = "(@) (ascii ''Mcp-Param-'') :: str \<Rightarrow> str"
  have "distinct (map fst ?anns)"
    using annotations_distinct [of schema] by (metis distinct_map map_map)
  then have h: "headers = map (apfst ?p) (rendered (JDict args) ?anns)"
    using param_headers_rendered [of "JDict args" ?anns "[]" headers] assms
    by (simp add: x_mcp_param_headers_def)
  have eq: "ascii_lower \<circ> fst \<circ> apfst ?p = param_header \<circ> (fst :: str \<times> str \<Rightarrow> str)"
    by (auto simp: fun_eq_iff ascii_lower_param simp del: ascii_simps)
  have "distinct (map (param_header \<circ> fst) (rendered (JDict args) ?anns))"
    using annotations_distinct [of schema] unfolding param_header_def
    by (intro rendered_distinct) (simp add: distinct_map comp_inj_on inj_on_def)
  then have "distinct (map (ascii_lower \<circ> fst) headers)" unfolding h map_map eq .
  have "lower_keys headers = map (apfst param_header) (rendered (JDict args) ?anns)"
    unfolding lower_keys_fresh [OF \<open>distinct (map (ascii_lower \<circ> fst) headers)\<close>]
    unfolding h by (force simp: ascii_lower_param simp del: ascii_simps)
  then show ?thesis by (simp add: dictated_param_def)
qed

lemma expected_headers_any:
  assumes "x_mcp_param_headers True schema args = Some headers"
  shows "map_of (lower_keys headers) h = (case args of JDict _ \<Rightarrow> dictated_param schema args h | _ \<Rightarrow> None)"
  using assms expected_headers [of schema _ headers h]
  by (cases args) (auto simp: x_mcp_param_headers_def lower_keys_def)

lemma single_ok: "single hs nm label = Inr v \<Longrightarrow> map_of hs nm = map_option (\<lambda>x. [x]) v"
  by (auto simp: single_def split: option.splits list.splits)

lemma check_params_ok:
  "check_params hs arguments expected anns = Inr () \<Longrightarrow> (nm, path) \<in> set anns \<Longrightarrow>
     map_of hs (param_header nm) = map_option (\<lambda>x. [x]) (map_of expected (param_header nm))"
  by (induction anns)
     (auto split: sum.splits option.splits if_splits dest!: single_ok)

text \<open>What the body dictates for each routing header.\<close>

definition dictated :: "(str \<rightharpoonup> json) option \<Rightarrow> (str \<times> json) list \<Rightarrow> str \<Rightarrow> str \<Rightarrow> str \<Rightarrow> str option" where
  "dictated tool_schemas params mthd version h =
     (if h = h_version then Some version
      else if h = h_method then Some mthd
      else if h = h_name then Option.bind (mcp_name_for mthd params) encode_header_value
      else (case (if mthd = ascii ''tools/call'' then tool_schemas else None) of
              None \<Rightarrow> None
            | Some schemas \<Rightarrow>
                (case (mcp_name_for mthd params, arguments_of params) of
                   (Some tool, JDict args) \<Rightarrow>
                     Option.bind (schemas tool) (\<lambda>schema. dictated_param schema (JDict args) h)
                 | _ \<Rightarrow> None)))"

lemma name_for_bearing: "mcp_name_for mthd params = Some nm \<Longrightarrow> name_bearing_field mthd \<noteq> None"
  by (auto simp: mcp_name_for_def split: option.splits)

lemma check_name_ok:
  assumes "check_name hs mthd params = Inr ()"
  shows "map_of hs h_name = map_option (\<lambda>x. [x]) (Option.bind (mcp_name_for mthd params) encode_header_value)"
proof -
  obtain raw where raw: "single hs h_name l_name = Inr raw"
    using assms by (auto simp: check_name_def split: sum.splits)
  have "raw = Option.bind (mcp_name_for mthd params) encode_header_value"
    using assms raw by (auto simp: check_name_def mcp_name_for_def split: option.splits if_splits)
  then show ?thesis using single_ok [OF raw] by simp
qed

lemma call_tool: "mcp_name_for (ascii ''tools/call'') params =
    (case map_of params (ascii ''name'') of Some (JStr s) \<Rightarrow> Some s | _ \<Rightarrow> None)"
  by (simp add: mcp_name_for_def name_bearing_field_def del: ascii_simps)

lemma dictated_param_declared:
  assumes "dictated_param schema args h = Some v"
  shows "h \<in> set (map (param_header \<circ> fst) (x_mcp_header_annotations schema))"
proof -
  have "h \<in> set (map fst (map (apfst param_header) (rendered args (x_mcp_header_annotations schema))))"
    using map_of_SomeD [OF assms [unfolded dictated_param_def]] by force
  then show ?thesis by (force dest: rendered_name)
qed

lemma check_param_headers_ok:
  assumes "check_param_headers hs mthd params tool_schemas = Inr ()" and "starts_with h_param h"
    and "h \<noteq> h_version" and "h \<noteq> h_method" and "h \<noteq> h_name"
  shows "map_of hs h = map_option (\<lambda>x. [x]) (dictated tool_schemas params mthd version h)"
proof (cases "if mthd = ascii ''tools/call'' then tool_schemas else None")
  case None
  then have "param_names hs = []" using assms(1) by (auto simp: check_param_headers_def split: if_splits)
  then have "map_of hs h = None" using assms(2) by (auto simp: map_of_eq_None_iff param_names_def filter_empty_conv)
  moreover have "dictated tool_schemas params mthd version h = None"
    unfolding dictated_def None using assms(3-5) by simp
  ultimately show ?thesis by simp
next
  case (Some schemas)
  then have m: "mthd = ascii ''tools/call''" by (simp split: if_splits)
  have c: "check_call_params hs params schemas = Inr ()"
    using assms(1) unfolding check_param_headers_def Some by simp
  obtain tool where nm: "map_of params (ascii ''name'') = Some (JStr tool)"
    using c by (auto simp: check_call_params_def simp del: ascii_simps split: option.splits json.splits)
  obtain schema where schema: "schemas tool = Some schema"
    using c nm by (auto simp: check_call_params_def simp del: ascii_simps split: option.splits)
  obtain headers where headers: "x_mcp_param_headers True schema (arguments_of params) = Some headers"
    using c nm schema by (auto simp: check_call_params_def simp del: ascii_simps split: option.splits)
  have decl: "set (param_names hs) \<subseteq> set (map (param_header \<circ> fst) (x_mcp_header_annotations schema))"
    and chk: "check_params hs (Some (arguments_of params)) (lower_keys headers) (x_mcp_header_annotations schema) = Inr ()"
    using c nm schema headers by (simp_all add: check_call_params_def Let_def del: ascii_simps split: if_splits)
  have tool: "mcp_name_for mthd params = Some tool" using nm by (simp add: m call_tool del: ascii_simps)
  have d: "dictated tool_schemas params mthd version h = map_of (lower_keys headers) h"
    unfolding dictated_def Some expected_headers_any [OF headers] using assms(3-5) tool schema
    by (simp split: json.split)
  show ?thesis
  proof (cases "h \<in> set (map (param_header \<circ> fst) (x_mcp_header_annotations schema))")
    case True
    then obtain nm path where "(nm, path) \<in> set (x_mcp_header_annotations schema)" "h = param_header nm" by auto
    then show ?thesis unfolding d using check_params_ok [OF chk] by blast
  next
    case False
    then have "h \<notin> fst ` set hs" using decl assms(2) by (auto simp: param_names_def)
    then have "map_of hs h = None" by (auto simp: map_of_eq_None_iff)
    moreover have "map_of (lower_keys headers) h = None"
      using False dictated_param_declared unfolding expected_headers_any [OF headers]
      by (cases "dictated_param schema (arguments_of params) h") (auto split: json.split)
    ultimately show ?thesis unfolding d by simp
  qed
qed

text \<open>C18. No split brain: when the envelope of a request is accepted, with whatever list of
  headers, every routing header (the version, the method, the name and each \<open>Mcp-Param-*\<close>) is present
  exactly when the body dictates a value for it, then exactly once, and with exactly that value; and
  the version returned is supported and the one in the body's \<open>_meta\<close>.\<close>

theorem no_split_brain:
  assumes "validate_request_metadata lower supported tool_schemas headers body = Inr version"
  shows "\<exists>hs b mthd. header_multimap lower headers = Inr hs \<and> body = JDict b \<and>
           map_of b (ascii ''method'') = Some (JStr mthd) \<and>
           meta_version (params_of b) = Inr (Some version) \<and> version \<in> set supported \<and>
           (\<forall>h. is_routing h \<longrightarrow>
              map_of hs h = map_option (\<lambda>x. [x]) (dictated tool_schemas (params_of b) mthd version h))"
proof -
  obtain hs b mthd where hs: "header_multimap lower headers = Inr hs" and b: "body = JDict b"
    and m: "map_of b (ascii ''method'') = Some (JStr mthd)"
    and chk: "check_request supported tool_schemas hs b mthd = Inr version"
    using assms by (auto simp: validate_request_metadata_def simp del: ascii_simps split: sum.splits json.splits option.splits)
  have v: "single hs h_version l_version = Inr (Some version)" "meta_version (params_of b) = Inr (Some version)"
    "version \<in> set supported" and cm: "check_method hs mthd = Inr ()"
    and cn: "check_name hs mthd (params_of b) = Inr ()"
    and cp: "check_param_headers hs mthd (params_of b) tool_schemas = Inr ()"
    using chk by (auto simp: check_request_def split: sum.splits option.splits if_splits)
  have "map_of hs h_method = Some [mthd]"
    using cm by (auto simp: check_method_def split: sum.splits if_splits dest!: single_ok)
  moreover have ne: "h_method \<noteq> h_version" "h_name \<noteq> h_version" "h_name \<noteq> h_method"
    by (simp_all add: h_method_def h_version_def h_name_def)
  ultimately have "map_of hs h = map_option (\<lambda>x. [x]) (dictated tool_schemas (params_of b) mthd version h)"
    if "is_routing h" for h
    using that single_ok [OF v(1)] check_name_ok [OF cn] check_param_headers_ok [OF cp]
    by (cases "h \<in> {h_version, h_method, h_name}") (auto simp: is_routing_def dictated_def)
  then show ?thesis using hs b m v by blast
qed

theorem no_split_brain_witness:
  "\<exists>hs. header_multimap ascii_lower (HeaderPairs
        [Some (FieldStr (ascii ''MCP-Protocol-Version''), FieldStr modern_version),
         Some (FieldStr (ascii ''Mcp-Method''), FieldStr (ascii ''ping''))]) = Inr hs \<and>
     map_of hs h_name = None"
proof -
  let ?h = "HeaderPairs
        [Some (FieldStr (ascii ''MCP-Protocol-Version''), FieldStr modern_version),
         Some (FieldStr (ascii ''Mcp-Method''), FieldStr (ascii ''ping''))]"
  let ?b = "JDict [(ascii ''method'', JStr (ascii ''ping'')),
       (ascii ''params'', JDict [(ascii ''_meta'', JDict [(k_version, JStr modern_version)])])]"
  have "header_multimap ascii_lower ?h = Inr [(h_version, [modern_version]), (h_method, [ascii ''ping''])]"
    by (simp add: header_multimap_def field_text_def py_strip_def py_space_def ascii_lower_def http_alias_def
        dashes_def starts_with_def add_header_def h_version_def h_method_def)
  moreover have "param_names [(h_version, [modern_version]), (h_method, [ascii ''ping''])] = []"
    by (simp add: param_names_def starts_with_def h_version_def h_method_def h_param_def)
  moreover have ne: "h_version \<noteq> h_method" "h_version \<noteq> h_name" "h_method \<noteq> h_name"
    by (simp_all add: h_version_def h_method_def h_name_def)
  ultimately have "validate_request_metadata ascii_lower modern_versions None ?h ?b = Inr modern_version"
    by (simp add: validate_request_metadata_def check_request_def single_def
        meta_version_def params_of_def modern_versions_def check_method_def check_name_def
        name_bearing_field_def check_param_headers_def del: ascii_simps)
  from no_split_brain [OF this] obtain hs b mthd where hs: "header_multimap ascii_lower ?h = Inr hs"
    and b: "?b = JDict b" and m: "map_of b (ascii ''method'') = Some (JStr mthd)"
    and d: "\<forall>h. is_routing h \<longrightarrow> map_of hs h = map_option (\<lambda>x. [x]) (dictated None (params_of b) mthd modern_version h)"
    by blast
  have "mthd = ascii ''ping''" using b m by (auto simp del: ascii_simps)
  then have "dictated None (params_of b) mthd modern_version h_name = None"
    by (simp add: dictated_def mcp_name_for_def name_bearing_field_def ne [symmetric] del: ascii_simps)
  then have "map_of hs h_name = None" using d by (simp add: is_routing_def)
  then show ?thesis using hs by blast
qed

end
