(* ===== verification/Meta_Identity.thy ===== *)
theory Meta_Identity
  imports Protocol
begin

text \<open>
  \<open>meta_identity.py\<close> and \<open>telemetry/tracecontext.py\<close>: recognising keys that name an identity, and
  the W3C trace context. The Unicode database of Python's standard library (normal forms, case
  folding, categories) and percent-decoding are the fields of the record \<open>unicode\<close>.
\<close>

record unicode =
  u_nfkc :: "str \<Rightarrow> str"
  u_nfkd :: "str \<Rightarrow> str"
  u_casefold :: "str \<Rightarrow> str"
  u_lower :: "str \<Rightarrow> str"
  u_word :: "nat \<Rightarrow> bool"
  u_invisible :: "nat \<Rightarrow> bool"
  u_printable :: "nat \<Rightarrow> bool"
  u_unquote_plus :: "str \<Rightarrow> str"
  u_requote :: "str \<Rightarrow> str"

section \<open>Splitting\<close>

fun split_on :: "(nat \<Rightarrow> bool) \<Rightarrow> str \<Rightarrow> str list" where
  "split_on P [] = [[]]"
| "split_on P (c # s) =
     (if P c then [] # split_on P s
      else case split_on P s of [] \<Rightarrow> [[c]] | w # ws \<Rightarrow> (c # w) # ws)"

definition words_on :: "(nat \<Rightarrow> bool) \<Rightarrow> str \<Rightarrow> str list" where
  "words_on P s = filter (\<lambda>w. w \<noteq> []) (split_on P s)"

text \<open>\<open>\w\<close> without the underscore.\<close>

definition alnum :: "unicode \<Rightarrow> nat \<Rightarrow> bool" where
  "alnum u c \<longleftrightarrow> u_word u c \<and> c \<noteq> 95"

section \<open>Names\<close>

definition norm_name :: "unicode \<Rightarrow> str \<Rightarrow> str" where
  "norm_name u nm = filter (alnum u) (u_casefold u (u_nfkc u nm))"

text \<open>The constant names are lower-case ASCII, so normalising them drops their underscores.\<close>

definition plain_names :: "string list \<Rightarrow> str list" where
  "plain_names ns = map (\<lambda>s. filter (\<lambda>c. c \<noteq> 95) (ascii s)) ns"

definition subject_names :: "str list" where
  "subject_names = plain_names
     [''user'', ''user_id'', ''uid'', ''sub'', ''subject'', ''principal'', ''on_behalf_of'', ''act'', ''actor'',
      ''username'', ''email'', ''enduser'', ''enduser_id'', ''impersonate'', ''impersonate_user'', ''run_as'',
      ''owner'', ''owner_id'', ''identity'', ''caller'', ''customer_id'', ''oid'', ''upn'', ''login'',
      ''preferred_username'', ''unique_name'', ''given_name'', ''family_name'', ''nickname'']"

definition tenant_names :: "str list" where
  "tenant_names = plain_names
     [''tenant'', ''tenant_id'', ''org'', ''org_id'', ''organization'', ''organisation'', ''account'', ''account_id'',
      ''workspace'', ''workspace_id'', ''project'', ''project_id'', ''team'', ''team_id'', ''customer'', ''realm'',
      ''tid'']"

definition client_names :: "str list" where
  "client_names = plain_names [''client_id'', ''azp'', ''appid'', ''cid'']"

definition scope_names :: "str list" where
  "scope_names = plain_names
     [''role'', ''roles'', ''scope'', ''scopes'', ''scp'', ''permissions'', ''groups'', ''entitlements'',
      ''authorities'', ''enduser_role'', ''enduser_scope'', ''wids'', ''resource_access'']"

definition admin_names :: "str list" where
  "admin_names = plain_names [''admin'', ''is_admin'', ''superuser'', ''root'', ''sudo'', ''elevated'']"

definition identity_names :: "str list" where
  "identity_names = subject_names @ tenant_names @ client_names @ scope_names @ admin_names"

definition identity_tokens :: "str list" where
  "identity_tokens = map ascii
     [''tenant'', ''tenants'', ''org'', ''orgs'', ''organization'', ''organisation'', ''user'', ''users'',
      ''username'', ''subject'', ''sub'', ''principal'', ''role'', ''roles'', ''scope'', ''scopes'', ''admin'',
      ''email'', ''owner'', ''account'', ''actor'', ''acting'', ''impersonate'', ''impersonation'',
      ''delegate'', ''delegated'', ''delegation'', ''sudo'', ''uid'', ''enduser'', ''identity'',
      ''customer'', ''workspace'', ''permission'', ''permissions'', ''entitlement'', ''entitlements'',
      ''superuser'', ''realm'', ''team'', ''teams'', ''project'', ''projects'', ''group'', ''groups'',
      ''caller'', ''authorities'', ''authority'', ''elevated'', ''runas'', ''actas'', ''actingas'',
      ''azp'', ''scp'', ''tid'', ''oid'', ''upn'', ''wids'', ''appid'', ''cid'', ''idp'', ''sid'', ''nickname'',
      ''iss'', ''aud'']"

definition token_exempt_words :: "str list" where
  "token_exempt_words = map ascii [''root'', ''client'', ''act'', ''id'', ''login'']"

definition affix_tokens :: "str list" where
  "affix_tokens = filter (\<lambda>t. 4 \<le> length t) identity_tokens"

definition affix_qualifiers :: "str list" where
  "affix_qualifiers = map ascii
     [''id'', ''ids'', ''uid'', ''uuid'', ''guid'', ''name'', ''names'', ''role'', ''roles'', ''handle'', ''email'',
      ''mail'', ''slug'', ''key'', ''mode'', ''type'', ''info'', ''scope'', ''scopes'', ''level'', ''list'',
      ''ref'', ''code'', ''num'', ''number'', ''claim'', ''claims'', ''context'', ''ctx'', ''override'']"

definition affix_prefixes :: "str list" where
  "affix_prefixes = map ascii
     [''is'', ''super'', ''end'', ''run'', ''runas'', ''act'', ''actas'', ''acting'', ''as'', ''my'', ''current'',
      ''effective'', ''delegated'', ''impersonated'', ''on'', ''for'', ''target'', ''real'']"

section \<open>Matching\<close>

definition clean :: "unicode \<Rightarrow> str \<Rightarrow> str" where
  "clean u key = u_nfkc u (filter (\<lambda>c. \<not> u_invisible u c) (u_nfkd u key))"

definition name_views :: "str \<Rightarrow> bool \<Rightarrow> str list" where
  "name_views key prefixed =
     (if \<not> prefixed \<or> 47 \<notin> set key then [key]
      else
        let pre = takeWhile (\<lambda>c. c \<noteq> 47) key;
            nm = tl (dropWhile (\<lambda>c. c \<noteq> 47) key);
            labels = words_on (\<lambda>c. c = 46) pre;
            kept = (if length labels > 1 then tl labels else labels)
        in if kept \<noteq> [] then [nm, join [46] (kept @ [nm])] else [nm])"

definition camel_before :: "nat \<Rightarrow> bool" where
  "camel_before c \<longleftrightarrow> 97 \<le> c \<and> c \<le> 122 \<or> is_digit c"

fun camel_spaced :: "str \<Rightarrow> str" where
  "camel_spaced (a # b # s) =
     (if camel_before a \<and> 65 \<le> b \<and> b \<le> 90 then a # 32 # camel_spaced (b # s) else a # camel_spaced (b # s))"
| "camel_spaced s = s"

definition tokens_of :: "unicode \<Rightarrow> str \<Rightarrow> str list" where
  "tokens_of u nm = words_on (\<lambda>c. \<not> alnum u c) (u_casefold u (camel_spaced nm))"

definition name_tokens :: "unicode \<Rightarrow> str \<Rightarrow> bool \<Rightarrow> str list" where
  "name_tokens u key prefixed = concat (map (tokens_of u) (name_views (clean u key) prefixed))"

definition segment_break :: "nat \<Rightarrow> bool" where
  "segment_break c \<longleftrightarrow> c \<in> {47, 46, 58, 64, 61}"

definition view_names :: "unicode \<Rightarrow> str \<Rightarrow> str list" where
  "view_names u view =
     (let parts = words_on segment_break view
      in norm_name u view #
         (if parts = [] then []
          else [norm_name u (last parts)] @
               (if length parts \<ge> 2 then [norm_name u (last (butlast parts) @ last parts)] else []) @
               (if u_lower u (take 2 (last parts)) \<in> {ascii ''x-'', ascii ''x_''}
                then [norm_name u (drop 2 (last parts))] else [])))"

definition candidate_names :: "unicode \<Rightarrow> str \<Rightarrow> bool \<Rightarrow> str list" where
  "candidate_names u key prefixed = concat (map (view_names u) (name_views (clean u key) prefixed))"

definition affix_match :: "str \<Rightarrow> bool" where
  "affix_match t \<longleftrightarrow>
     (\<exists>w \<in> set affix_tokens.
        starts_with w t \<and> drop (length w) t \<in> set affix_qualifiers \<or>
        ends_with w t \<and> take (length t - length w) t \<in> set affix_prefixes)"

definition has_identity_word :: "unicode \<Rightarrow> str \<Rightarrow> bool \<Rightarrow> bool" where
  "has_identity_word u key prefixed =
     (let toks = name_tokens u key prefixed;
          segments = concat (map (split_on segment_break) (name_views (clean u key) prefixed));
          norm_toks = map (norm_name u) toks @ map (norm_name u) segments
      in (\<exists>t \<in> set toks. t \<in> set identity_tokens) \<or>
         (\<exists>t \<in> set norm_toks. t \<in> set identity_names \<and> t \<notin> set token_exempt_words) \<or>
         (\<exists>t \<in> set toks. affix_match t))"

definition names_hit :: "str list \<Rightarrow> str list \<Rightarrow> bool" where
  "names_hit names family \<longleftrightarrow> (\<exists>n \<in> set names. n \<in> set family)"

definition is_identity_key :: "unicode \<Rightarrow> str \<Rightarrow> bool \<Rightarrow> bool" where
  "is_identity_key u key prefixed =
     (let decoded = u_unquote_plus u key
      in names_hit (candidate_names u decoded prefixed) identity_names \<or> has_identity_word u decoded prefixed)"

section \<open>Trace context\<close>

definition lower_hex :: "nat \<Rightarrow> bool" where
  "lower_hex c \<longleftrightarrow> is_digit c \<or> 97 \<le> c \<and> c \<le> 102"

text \<open>The parts of a version-00 \<open>traceparent\<close>.\<close>

definition parse_traceparent :: "json option \<Rightarrow> (str \<times> str \<times> str) option" where
  "parse_traceparent v =
     (case v of Some (JStr raw) \<Rightarrow>
        (let s = py_strip raw; tid = take 32 (drop 3 s); pid = take 16 (drop 36 s); flags = drop 53 s
         in if length s = 55 \<and> take 3 s = ascii ''00-'' \<and> s ! 35 = 45 \<and> s ! 52 = 45 \<and>
               (\<forall>c \<in> set (tid @ pid @ flags). lower_hex c) \<and>
               tid \<noteq> replicate 32 48 \<and> pid \<noteq> replicate 16 48
            then Some (tid, pid, flags) else None)
      | _ \<Rightarrow> None)"

definition sensitive_baggage_keys :: "str list" where
  "sensitive_baggage_keys = map ascii
     [''user'', ''userid'', ''username'', ''email'', ''sub'', ''subject'', ''principal'', ''tenant'',
      ''tenantid'', ''org'', ''orgid'', ''organization'', ''organisation'', ''account'', ''accountid'',
      ''session'', ''sessionid'', ''token'', ''accesstoken'', ''authorization'', ''clientid'',
      ''enduser'', ''enduserid'', ''enduserrole'', ''enduserscope'', ''apikey'', ''password'',
      ''secret'', ''customerid'', ''uid'']"

definition norm_key :: "unicode \<Rightarrow> str \<Rightarrow> str" where
  "norm_key u key = filter (\<lambda>c. \<not> (c \<in> {45, 46, 95} \<or> py_space c)) (u_lower u key)"

definition baggage_key_char :: "nat \<Rightarrow> bool" where
  "baggage_key_char c \<longleftrightarrow> token_char c"

definition baggage_key_match :: "str \<Rightarrow> bool" where
  "baggage_key_match s =
     (let body = (if s \<noteq> [] \<and> last s = 10 then butlast s else s)
      in 1 \<le> length body \<and> length body \<le> 64 \<and> (\<forall>c \<in> set body. baggage_key_char c))"

definition partition_on :: "nat \<Rightarrow> str \<Rightarrow> str \<times> bool \<times> str" where
  "partition_on x s = (takeWhile (\<lambda>c. c \<noteq> x) s, x \<in> set s, tl (dropWhile (\<lambda>c. c \<noteq> x) s))"

definition allowed_baggage :: "unicode \<Rightarrow> str list \<Rightarrow> str list" where
  "allowed_baggage u allowed_keys =
     map (u_lower u) (filter (\<lambda>k. norm_key u k \<notin> set sensitive_baggage_keys \<and> \<not> is_identity_key u k False) allowed_keys)"

text \<open>\<open>value.split(",", 64)[:64]\<close> is the first 64 pieces of a full split.\<close>

definition baggage_entry :: "unicode \<Rightarrow> str list \<Rightarrow> str \<Rightarrow> str option" where
  "baggage_entry u allowed member =
     (let (key, sep, rest) = partition_on 61 (py_strip member); key = py_strip key
      in if \<not> sep \<or> \<not> baggage_key_match key \<or> u_lower u key \<notin> set allowed \<or> 37 \<in> set key \<or> 43 \<in> set key then None
         else Some (key @ 61 # u_requote u (py_strip (takeWhile (\<lambda>c. c \<noteq> 59) rest))))"

fun keep_baggage :: "unicode \<Rightarrow> str list \<Rightarrow> nat \<Rightarrow> str list \<Rightarrow> str list \<Rightarrow> nat \<Rightarrow> str list" where
  "keep_baggage u allowed max_bytes [] kept used = kept"
| "keep_baggage u allowed max_bytes (member # members) kept used =
     (if length member > max_bytes then keep_baggage u allowed max_bytes members kept used
      else case baggage_entry u allowed member of
        None \<Rightarrow> keep_baggage u allowed max_bytes members kept used
      | Some entry \<Rightarrow>
          if used + length entry + (if kept \<noteq> [] then 1 else 0) > max_bytes then kept
          else keep_baggage u allowed max_bytes members (kept @ [entry])
                 (used + length entry + (if length (kept @ [entry]) > 1 then 1 else 0)))"

definition sanitize_baggage :: "unicode \<Rightarrow> json option \<Rightarrow> str list \<Rightarrow> nat \<Rightarrow> str option" where
  "sanitize_baggage u v allowed_keys max_bytes =
     (case v of Some (JStr s) \<Rightarrow>
        if length s > 8192 then None
        else (let kept = keep_baggage u (allowed_baggage u allowed_keys) max_bytes
                           (take 64 (split_on (\<lambda>c. c = 44) s)) [] 0
              in if join [44] kept = [] then None else Some (join [44] kept))
      | _ \<Rightarrow> None)"

definition format_traceparent :: "str \<times> str \<times> str \<Rightarrow> str" where
  "format_traceparent tp = (case tp of (t, p, f) \<Rightarrow> ascii ''00-'' @ t @ 45 # p @ 45 # f)"

definition preserve_client_trace :: "(str \<times> json) list \<Rightarrow> (str \<times> json) list \<Rightarrow> (str \<times> str) list \<times> bool" where
  "preserve_client_trace client_meta server_meta =
     (let client_tp = parse_traceparent (map_of client_meta (ascii ''traceparent''));
          server_tp = parse_traceparent (map_of server_meta (ascii ''traceparent''))
      in case client_tp of
           None \<Rightarrow> ((case server_tp of None \<Rightarrow> [] | Some tp \<Rightarrow> [(ascii ''traceparent'', format_traceparent tp)]), False)
         | Some c \<Rightarrow>
             (case server_tp of
                Some sv \<Rightarrow> if fst sv = fst c then ([(ascii ''traceparent'', format_traceparent sv)], False)
                          else ([(ascii ''traceparent'', format_traceparent c)], True)
              | None \<Rightarrow> ([(ascii ''traceparent'', format_traceparent c)],
                         ascii ''traceparent'' \<in> fst ` set server_meta)))"

section \<open>Properties\<close>

lemma length_join_snoc:
  "length (join [c] (xs @ [x])) = length (join [c] xs) + length x + (if xs = [] then 0 else 1)"
  by (induction "[c]" xs rule: join.induct) auto

text \<open>An entry that may leave. Its key, as the client spelled it, is no sensitive name; up to letter case it is a key on
  the operator's list that, as the operator spelled it, names no identity.\<close>

definition baggage_entry_ok :: "unicode \<Rightarrow> str list \<Rightarrow> str \<Rightarrow> bool" where
  "baggage_entry_ok u allowed_keys e \<longleftrightarrow>
     (\<exists>key v k. e = key @ 61 # v \<and> baggage_key_match key \<and> {37, 43} \<inter> set key = {} \<and>
        norm_key u key \<notin> set sensitive_baggage_keys \<and>
        k \<in> set allowed_keys \<and> u_lower u key = u_lower u k \<and> \<not> is_identity_key u k False)"

lemma norm_key_case: "u_lower u key = u_lower u k \<Longrightarrow> norm_key u key = norm_key u k"
  by (simp add: norm_key_def)

lemma baggage_entry_sound:
  "baggage_entry u (allowed_baggage u allowed_keys) m = Some e \<Longrightarrow> baggage_entry_ok u allowed_keys e"
proof -
  assume e: "baggage_entry u (allowed_baggage u allowed_keys) m = Some e"
  define key v where "key = py_strip (takeWhile (\<lambda>c. c \<noteq> 61) (py_strip m))"
    and "v = u_requote u (py_strip (takeWhile (\<lambda>c. c \<noteq> 59) (tl (dropWhile (\<lambda>c. c \<noteq> 61) (py_strip m)))))"
  have "e = key @ 61 # v" "baggage_key_match key" "{37, 43} \<inter> set key = {}"
    and "u_lower u key \<in> set (allowed_baggage u allowed_keys)"
    using e by (simp_all add: baggage_entry_def partition_on_def Let_def key_def v_def split: if_splits)
  moreover from this(4) obtain k where "k \<in> set allowed_keys" "u_lower u key = u_lower u k"
    "norm_key u k \<notin> set sensitive_baggage_keys" "\<not> is_identity_key u k False"
    by (auto simp: allowed_baggage_def simp del: ascii_simps)
  ultimately show "baggage_entry_ok u allowed_keys e"
    unfolding baggage_entry_ok_def using norm_key_case by metis
qed

lemma keep_baggage_sound:
  assumes "used = length (join [44] kept)" and "used \<le> max_bytes"
    and "\<forall>e \<in> set kept. baggage_entry_ok u allowed_keys e"
  shows "length (join [44] (keep_baggage u (allowed_baggage u allowed_keys) max_bytes ms kept used)) \<le> max_bytes \<and>
         (\<forall>e \<in> set (keep_baggage u (allowed_baggage u allowed_keys) max_bytes ms kept used).
            baggage_entry_ok u allowed_keys e)"
  using assms
proof (induction ms arbitrary: kept used)
  case (Cons m ms)
  note IH = Cons.IH [OF Cons.prems]
  show ?case
  proof (cases "baggage_entry u (allowed_baggage u allowed_keys) m")
    case (Some e)
    show ?thesis
    proof (cases "length m > max_bytes \<or> used + length e + (if kept \<noteq> [] then 1 else 0) > max_bytes")
      case True
      then consider "length m > max_bytes"
        | "\<not> length m > max_bytes" "used + length e + (if kept \<noteq> [] then 1 else 0) > max_bytes" by blast
      then show ?thesis by cases (use IH Cons.prems Some in simp_all)
    next
      case False
      have len: "length (join [44] (kept @ [e])) = used + length e + (if kept \<noteq> [] then 1 else 0)"
        using Cons.prems(1) by (simp add: length_join_snoc)
      have ok: "\<forall>e \<in> set (kept @ [e]). baggage_entry_ok u allowed_keys e"
        using Cons.prems(3) baggage_entry_sound [OF Some] by auto
      have le: "used + length e + (if kept \<noteq> [] then 1 else 0) \<le> max_bytes" using False by simp
      have step: "keep_baggage u (allowed_baggage u allowed_keys) max_bytes (m # ms) kept used =
          keep_baggage u (allowed_baggage u allowed_keys) max_bytes ms (kept @ [e])
            (used + length e + (if kept \<noteq> [] then 1 else 0))"
        using False Some by (cases kept) auto
      show ?thesis unfolding step using len le ok by (intro Cons.IH) auto
    qed
  next
    case None
    then have "keep_baggage u (allowed_baggage u allowed_keys) max_bytes (m # ms) kept used =
        keep_baggage u (allowed_baggage u allowed_keys) max_bytes ms kept used" by simp
    then show ?thesis using IH by simp
  qed
qed simp

text \<open>C19. Baggage is bounded and carries only allowlisted names: whatever header arrives, the sanitized
  baggage is at most \<open>max_bytes\<close> long and is a comma-separated list of \<open>key=value\<close> entries. The key of each is, as the
  client spelled it, within the grammar and none of the sensitive names (user, tenant, token and the like), even if the
  operator listed one; and up to letter case it is a key on the operator's list that, as the operator spelled it, names no
  identity. The client's own spelling is not checked for an identity (\<open>client_spelling_names_identity\<close> below).\<close>

theorem sanitized_baggage_safe:
  assumes "sanitize_baggage u v allowed_keys max_bytes = Some out"
  shows "length out \<le> max_bytes \<and>
         (\<exists>entries. entries \<noteq> [] \<and> out = join [44] entries \<and>
            (\<forall>e \<in> set entries. baggage_entry_ok u allowed_keys e))"
proof -
  obtain s where "v = Some (JStr s)"
    and out: "out = join [44] (keep_baggage u (allowed_baggage u allowed_keys) max_bytes
                      (take 64 (split_on (\<lambda>c. c = 44) s)) [] 0)" and "out \<noteq> []"
    using assms by (auto simp: sanitize_baggage_def Let_def split: option.splits json.splits if_splits)
  then show ?thesis
    using keep_baggage_sound [of 0 "[]" max_bytes u allowed_keys "take 64 (split_on (\<lambda>c. c = 44) s)"]
    by (metis empty_iff join.simps(1) le0 list.set(1) list.size(3))
qed

definition plain_unicode :: unicode where
  "plain_unicode =
     \<lparr>u_nfkc = (\<lambda>s. s), u_nfkd = (\<lambda>s. s), u_casefold = ascii_lower, u_lower = ascii_lower,
      u_word = (\<lambda>c. is_digit c \<or> 65 \<le> c \<and> c \<le> 90 \<or> 97 \<le> c \<and> c \<le> 122 \<or> c = 95),
      u_invisible = (\<lambda>c. c < 32), u_printable = (\<lambda>c. 32 \<le> c), u_unquote_plus = (\<lambda>s. s), u_requote = (\<lambda>s. s)\<rparr>"

text \<open>Formatting a parsed \<open>traceparent\<close> and parsing it again.\<close>

definition trace_parts :: "str \<times> str \<times> str \<Rightarrow> bool" where
  "trace_parts tp = (case tp of (t, p, f) \<Rightarrow> length t = 32 \<and> length p = 16 \<and> length f = 2 \<and>
     (\<forall>c \<in> set (t @ p @ f). lower_hex c) \<and> t \<noteq> replicate 32 48 \<and> p \<noteq> replicate 16 48)"

lemma parsed_parts: "parse_traceparent v = Some tp \<Longrightarrow> trace_parts tp"
  by (auto simp: parse_traceparent_def trace_parts_def Let_def split: option.splits json.splits if_splits)

lemma lower_hex_not_space: "lower_hex c \<Longrightarrow> \<not> py_space c"
  by (auto simp: lower_hex_def py_space_def is_digit_def)

lemma parse_format:
  assumes "trace_parts tp"
  shows "parse_traceparent (Some (JStr (format_traceparent tp))) = Some tp"
proof -
  obtain t p f where tp: "tp = (t, p, f)" by (cases tp)
  have len: "length t = 32" "length p = 16" "length f = 2" using assms by (auto simp: tp trace_parts_def)
  let ?s = "[48, 48, 45] @ t @ 45 # p @ 45 # f"
  have "last ?s = last f" using len by (cases f) auto
  moreover have "last f \<in> set f" using len by (cases f) auto
  ultimately have "\<not> py_space (last ?s)" using assms lower_hex_not_space by (auto simp: tp trace_parts_def)
  then have "py_strip ?s = ?s" by (intro py_strip_id) (simp add: py_space_def)
  moreover have "?s ! 35 = 45" "?s ! 52 = 45" using len by (simp_all add: nth_append nth_Cons')
  moreover have "take 32 (drop 3 ?s) = t" "take 16 (drop 36 ?s) = p" "drop 53 ?s = f" using len by simp_all
  ultimately show ?thesis using assms len
    by (simp add: parse_traceparent_def format_traceparent_def Let_def tp trace_parts_def)
qed

text \<open>C20. A server cannot replace the client's trace identity: if the client sent a valid
  \<open>traceparent\<close>, the merged trace context holds a valid one with the client's trace id (the server's
  own if it is a child span of that trace, the client's otherwise), and an attempt to put anything
  else in its place is reported.\<close>

theorem client_trace_preserved:
  assumes "parse_traceparent (map_of client_meta (ascii ''traceparent'')) = Some (t, p, f)"
    and "preserve_client_trace client_meta server_meta = (out, overwrite)"
  shows "\<exists>s p' f'. out = [(ascii ''traceparent'', s)] \<and> parse_traceparent (Some (JStr s)) = Some (t, p', f') \<and>
           (overwrite \<longleftrightarrow> ascii ''traceparent'' \<in> fst ` set server_meta \<and>
              \<not> (\<exists>p' f'. parse_traceparent (map_of server_meta (ascii ''traceparent'')) = Some (t, p', f')))"
proof (cases "parse_traceparent (map_of server_meta (ascii ''traceparent''))")
  case None
  then show ?thesis using assms parse_format [OF parsed_parts [OF assms(1)]]
    by (auto simp: preserve_client_trace_def simp del: ascii_simps)
next
  case (Some sv)
  obtain st sp sf where sv: "sv = (st, sp, sf)" by (cases sv)
  have "ascii ''traceparent'' \<in> fst ` set server_meta"
    using Some by (cases "map_of server_meta (ascii ''traceparent'')")
      (auto simp: parse_traceparent_def simp del: ascii_simps dest!: map_of_SomeD intro: rev_image_eqI)
  then show ?thesis
    using assms parse_format [OF parsed_parts [OF assms(1)]] parse_format [OF parsed_parts [OF Some]] Some sv
    by (auto simp: preserve_client_trace_def simp del: ascii_simps split: if_splits)
qed

lemma identity_tokens_long: "t \<in> set identity_tokens \<Longrightarrow> 3 \<le> length t"
  unfolding identity_tokens_def by (auto simp del: ascii_simps)

lemma identity_names_long: "t \<in> set identity_names \<Longrightarrow> 3 \<le> length t"
  unfolding identity_names_def subject_names_def tenant_names_def client_names_def scope_names_def
    admin_names_def plain_names_def by auto

lemma sensitive_long: "t \<in> set sensitive_baggage_keys \<Longrightarrow> 3 \<le> length t"
  unfolding sensitive_baggage_keys_def by (auto simp del: ascii_simps)

lemma rg_plain: "is_identity_key plain_unicode (ascii ''rg'') False = False"
proof -
  let ?rg = "ascii ''rg''"
  have c: "clean plain_unicode ?rg = ?rg" by (simp add: clean_def plain_unicode_def)
  have n: "norm_name plain_unicode ?rg = ?rg"
    by (simp add: norm_name_def plain_unicode_def alnum_def ascii_lower_def)
  have t: "tokens_of plain_unicode ?rg = [?rg]"
    by (simp add: tokens_of_def words_on_def plain_unicode_def alnum_def ascii_lower_def camel_before_def is_digit_def)
  have w: "words_on segment_break ?rg = [?rg]" "split_on segment_break ?rg = [?rg]"
    by (simp_all add: words_on_def segment_break_def)
  have l: "u_lower plain_unicode (take 2 ?rg) = ?rg" by (simp add: plain_unicode_def ascii_lower_def)
  have no: "?rg \<notin> set identity_names" "?rg \<notin> set identity_tokens"
    using identity_names_long [of ?rg] identity_tokens_long [of ?rg] by auto
  have "length w \<le> 2 \<Longrightarrow> w \<notin> set affix_tokens" for w by (auto simp: affix_tokens_def)
  moreover have "length w \<le> 2" if "starts_with w ?rg \<or> ends_with w ?rg" for w
  proof -
    have "length (take (length w) ?rg) \<le> 2" by simp
    with that show ?thesis by (auto simp: starts_with_def ends_with_def simp del: length_take ascii_simps)
  qed
  ultimately have a: "\<not> affix_match ?rg" unfolding affix_match_def by blast
  have "name_views ?rg False = [?rg]" by (simp add: name_views_def)
  then have "candidate_names plain_unicode ?rg False = [?rg, ?rg]" "name_tokens plain_unicode ?rg False = [?rg]"
    using w n l t by (simp_all add: candidate_names_def name_tokens_def c view_names_def Let_def del: ascii_simps)
  then show ?thesis using no a w n c \<open>name_views ?rg False = [?rg]\<close>
    by (simp add: is_identity_key_def names_hit_def has_identity_word_def plain_unicode_def Let_def del: ascii_simps)
qed

lemma rg_allowed: "allowed_baggage plain_unicode [ascii ''rg''] = [ascii ''rg'']"
proof -
  have "norm_key plain_unicode (ascii ''rg'') \<notin> set sensitive_baggage_keys"
    using sensitive_long [of "norm_key plain_unicode (ascii ''rg'')"]
    by (force simp: norm_key_def plain_unicode_def ascii_lower_def py_space_def)
  moreover have "u_lower plain_unicode (ascii ''rg'') = ascii ''rg''" by (simp add: plain_unicode_def ascii_lower_def)
  ultimately show ?thesis by (simp add: allowed_baggage_def rg_plain del: ascii_simps)
qed

lemma not_replicate: "xs = replicate n x \<longleftrightarrow> length xs = n \<and> (\<forall>y \<in> set xs. y = x)"
  by (auto simp: replicate_eqI)

theorem sanitized_baggage_safe_witness:
  "\<exists>out. sanitize_baggage plain_unicode (Some (JStr (ascii ''rg=eu,tenant=acme''))) [ascii ''rg''] 64
           = Some out \<and> length out \<le> 64"
proof -
  have "allowed_baggage plain_unicode [ascii ''rg''] = [ascii ''rg'']" by (rule rg_allowed)
  moreover have "baggage_entry plain_unicode [ascii ''rg''] (ascii ''rg=eu'') = Some (ascii ''rg=eu'')"
    "baggage_entry plain_unicode [ascii ''rg''] (ascii ''tenant=acme'') = None"
    by (simp_all add: baggage_entry_def partition_on_def py_strip_def py_space_def baggage_key_match_def
        baggage_key_char_def token_char_def plain_unicode_def ascii_lower_def is_digit_def)
  moreover have "split_on (\<lambda>c. c = 44) (ascii ''rg=eu,tenant=acme'') = [ascii ''rg=eu'', ascii ''tenant=acme'']" by simp
  ultimately have "sanitize_baggage plain_unicode (Some (JStr (ascii ''rg=eu,tenant=acme'')))
       [ascii ''rg''] 64 = Some (ascii ''rg=eu'')"
    by (simp add: sanitize_baggage_def)
  from this sanitized_baggage_safe [OF this] show ?thesis by blast
qed

text \<open>The client's capital makes a word of its own of the identity \<open>org\<close>, which the operator's spelling does not have.\<close>

lemma client_spelling_names_identity:
  "is_identity_key plain_unicode (ascii ''orgA'') False"
  "sanitize_baggage plain_unicode (Some (JStr (ascii ''orgA=x''))) [ascii ''orga''] 64 = Some (ascii ''orgA=x'')"
proof -
  show "is_identity_key plain_unicode (ascii ''orgA'') False" by code_simp
  have "\<not> is_identity_key plain_unicode (ascii ''orga'') False" by code_simp
  moreover have "norm_key plain_unicode (ascii ''orga'') = ascii ''orga''"
    by (simp add: norm_key_def plain_unicode_def ascii_lower_def py_space_def)
  then have "norm_key plain_unicode (ascii ''orga'') \<notin> set sensitive_baggage_keys"
    by (simp add: sensitive_baggage_keys_def del: ascii_simps)
  moreover have "u_lower plain_unicode (ascii ''orga'') = ascii ''orga''" by (simp add: plain_unicode_def ascii_lower_def)
  ultimately have "allowed_baggage plain_unicode [ascii ''orga''] = [ascii ''orga'']"
    by (simp add: allowed_baggage_def del: ascii_simps)
  moreover have "baggage_entry plain_unicode [ascii ''orga''] (ascii ''orgA=x'') = Some (ascii ''orgA=x'')"
    by (simp add: baggage_entry_def partition_on_def py_strip_def py_space_def baggage_key_match_def
        baggage_key_char_def token_char_def plain_unicode_def ascii_lower_def is_digit_def)
  moreover have "split_on (\<lambda>c. c = 44) (ascii ''orgA=x'') = [ascii ''orgA=x'']" by simp
  ultimately show "sanitize_baggage plain_unicode (Some (JStr (ascii ''orgA=x''))) [ascii ''orga''] 64 = Some (ascii ''orgA=x'')"
    by (simp add: sanitize_baggage_def)
qed

theorem client_trace_preserved_witness:
  "\<exists>out. preserve_client_trace
      [(ascii ''traceparent'', JStr (ascii ''00-0123456789abcdef0123456789abcdef-0123456789abcdef-01''))]
      [(ascii ''traceparent'', JStr (ascii ''evil''))] = (out, True) \<and> out \<noteq> []"
proof -
  let ?tp = "ascii ''00-0123456789abcdef0123456789abcdef-0123456789abcdef-01''"
  let ?c = "[(ascii ''traceparent'', JStr ?tp)]" and ?s = "[(ascii ''traceparent'', JStr (ascii ''evil''))]"
  have p: "parse_traceparent (map_of ?c (ascii ''traceparent'')) =
     Some (ascii ''0123456789abcdef0123456789abcdef'', ascii ''0123456789abcdef'', ascii ''01'')"
    by (simp add: parse_traceparent_def Let_def py_strip_def py_space_def lower_hex_def is_digit_def not_replicate)
  have e: "parse_traceparent (map_of ?s (ascii ''traceparent'')) = None"
    by (simp add: parse_traceparent_def Let_def py_strip_def py_space_def)
  obtain out ov where r: "preserve_client_trace ?c ?s = (out, ov)" by (cases "preserve_client_trace ?c ?s") 
  from client_trace_preserved [OF p r] e show ?thesis unfolding r by (auto simp del: ascii_simps)
qed

end
