(* ===== verification/Meta_Trust.thy ===== *)
theory Meta_Trust
  imports Meta_Identity
begin

text \<open>
  \<open>reconcile_meta\<close> of \<open>middleware/request_meta.py\<close>: no claim in a request's \<open>_meta\<close> may differ from
  the authenticated principal. The offending key paths are collected in the order of the walk.
\<close>

record auth_principal =
  ap_subject :: str
  ap_tenant :: "str option"
  ap_client_id :: "str option"
  ap_scopes :: "str list"

definition as_set :: "json \<Rightarrow> str list option" where
  "as_set v =
     (case v of
        JStr s \<Rightarrow> Some (words_on py_space (map (\<lambda>c. if c = 44 then 32 else c) s))
      | JList xs \<Rightarrow>
          if \<forall>x \<in> set xs. case x of JStr _ \<Rightarrow> True | _ \<Rightarrow> False
          then Some (map (\<lambda>x. case x of JStr s \<Rightarrow> s | _ \<Rightarrow> []) xs) else None
      | _ \<Rightarrow> None)"

definition differs :: "json \<Rightarrow> str option \<Rightarrow> bool" where
  "differs v w = (case v of JStr s \<Rightarrow> Some s \<noteq> w | _ \<Rightarrow> True)"

definition admin_conflict :: "json \<Rightarrow> str list \<Rightarrow> bool" where
  "admin_conflict v scopes =
     (case v of
        JNull \<Rightarrow> False
      | JBool b \<Rightarrow> b \<and> ascii ''admin'' \<notin> set scopes
      | JInt i \<Rightarrow> i \<noteq> 0 \<and> ascii ''admin'' \<notin> set scopes
      | JStr s \<Rightarrow> s \<noteq> ascii ''false'' \<and> ascii ''admin'' \<notin> set scopes
      | _ \<Rightarrow> True)"

definition claim_conflicts :: "str list \<Rightarrow> json \<Rightarrow> auth_principal \<Rightarrow> bool" where
  "claim_conflicts names v prin =
     (if names_hit names subject_names then differs v (Some (ap_subject prin))
      else if names_hit names tenant_names then differs v (ap_tenant prin)
      else if names_hit names client_names then differs v (ap_client_id prin)
      else if names_hit names scope_names then
        (case as_set v of None \<Rightarrow> True | Some claimed \<Rightarrow> \<not> set claimed \<subseteq> set (ap_scopes prin))
      else if names_hit names admin_names then admin_conflict v (ap_scopes prin)
      else False)"

definition safe_key :: "unicode \<Rightarrow> str \<Rightarrow> str" where
  "safe_key u key = map (\<lambda>c. if u_printable u c then c else 63) (take 128 key)"

definition trace_member_bad :: "unicode \<Rightarrow> str \<Rightarrow> bool" where
  "trace_member_bad u part =
     (let pkey = py_strip (takeWhile (\<lambda>c. c \<noteq> 61) part)
      in 37 \<in> set pkey \<or> 43 \<in> set pkey \<or> is_identity_key u pkey False)"

definition trace_key_invalid :: "unicode \<Rightarrow> str \<Rightarrow> json \<Rightarrow> bool" where
  "trace_key_invalid u key v =
     (case v of
        JStr s \<Rightarrow>
          if length s > 8192 then True
          else if key = ascii ''traceparent'' then parse_traceparent (Some v) = None
          else if key = ascii ''baggage'' then
            (\<exists>m \<in> set (split_on (\<lambda>c. c = 44) s). \<exists>part \<in> set (split_on (\<lambda>c. c = 59) m). trace_member_bad u part)
          else if key = ascii ''tracestate'' then \<exists>m \<in> set (split_on (\<lambda>c. c = 44) s). trace_member_bad u m
          else False
      | _ \<Rightarrow> True)"

definition protocol_keys :: "str list" where
  "protocol_keys = [ascii ''io.modelcontextprotocol/protocolVersion'']"

definition trace_keys :: "str list" where
  "trace_keys = map ascii [''traceparent'', ''tracestate'', ''baggage'']"

definition self_reported_keys :: "str list" where
  "self_reported_keys =
     map ascii [''io.modelcontextprotocol/clientInfo'', ''io.modelcontextprotocol/clientCapabilities'']"

definition reserved_keys :: "str list" where
  "reserved_keys = protocol_keys @ trace_keys @ self_reported_keys"

definition max_meta_depth :: nat where "max_meta_depth = 4"

definition max_self_reported_depth :: nat where "max_self_reported_depth = 8"

text \<open>
  \<open>_visit\<close>, given what \<open>_descend\<close> reports of the entry's value; the prefix grammar applies at depth 0.
\<close>

definition visit_entry :: "unicode \<Rightarrow> auth_principal \<Rightarrow> bool \<Rightarrow> str \<Rightarrow> json \<Rightarrow> str \<Rightarrow> nat \<Rightarrow> str list \<Rightarrow> str list" where
  "visit_entry u prin approved key v path depth descended =
     (let names = candidate_names u key (depth = 0)
      in if names_hit names identity_names then
           (if claim_conflicts names v prin then [path] else descended)
         else if \<not> approved \<and> has_identity_word u key (depth = 0) then [path]
         else descended)"

function descend :: "unicode \<Rightarrow> auth_principal \<Rightarrow> json \<Rightarrow> str \<Rightarrow> nat \<Rightarrow> nat \<Rightarrow> str list" where
  "descend u prin v path depth limit =
     (if \<not> is_container v \<or> v = JList [] \<or> v = JDict [] then []
      else if depth + 1 \<ge> limit then [path]
      else case v of
        JDict ps \<Rightarrow>
          concat (map (\<lambda>(k, w).
            visit_entry u prin False k w (path @ 62 # k) (depth + 1)
              (descend u prin w (path @ 62 # k) (depth + 1) limit)) ps)
      | JList xs \<Rightarrow>
          concat (map (\<lambda>(i, x). descend u prin x (path @ 62 # digits i) (depth + 1) limit)
                      (List.enumerate 0 (take 256 xs)))
          @ (if length xs > 256 then [path] else [])
      | _ \<Rightarrow> [])"
  by pat_completeness auto

termination descend
  by (relation "measure (\<lambda>(u, prin, v, path, depth, limit). limit - depth)") auto

declare descend.simps [simp del]

definition reconcile_key :: "unicode \<Rightarrow> auth_principal \<Rightarrow> str list option \<Rightarrow> str \<Rightarrow> json \<Rightarrow> str list" where
  "reconcile_key u prin allowed key v =
     (if key \<in> set protocol_keys then
        (case v of JStr s \<Rightarrow> if length s \<le> 64 then [] else [key] | _ \<Rightarrow> [key])
      else if length (filter (\<lambda>c. c = 47) key) > 1 then [key]
      else if key \<in> set trace_keys then (if trace_key_invalid u key v then [key] else [])
      else if key \<in> set self_reported_keys then descend u prin v key 0 max_self_reported_depth
      else case allowed of
        Some ks \<Rightarrow>
          if key \<notin> set (ks @ reserved_keys) then [key]
          else visit_entry u prin True key v key 0 (descend u prin v key 0 max_meta_depth)
      | None \<Rightarrow> visit_entry u prin False key v key 0 (descend u prin v key 0 max_meta_depth))"

definition reconcile_meta :: "unicode \<Rightarrow> auth_principal \<Rightarrow> str list option \<Rightarrow> (str \<times> json) list \<Rightarrow> str list + unit" where
  "reconcile_meta u prin allowed meta =
     (let bad = concat (map (\<lambda>(k, v). reconcile_key u prin allowed k v) meta)
      in if bad = [] then Inr () else Inl (take 32 (sort (map (safe_key u) bad))))"

section \<open>Properties\<close>

text \<open>An entry that some mapping inside a value holds, at whatever depth.\<close>

inductive holds_entry :: "json \<Rightarrow> str \<Rightarrow> json \<Rightarrow> bool" where
  here: "(k, v) \<in> set ps \<Longrightarrow> holds_entry (JDict ps) k v"
| dict: "(k, v) \<in> set ps \<Longrightarrow> holds_entry v k' v' \<Longrightarrow> holds_entry (JDict ps) k' v'"
| list: "x \<in> set xs \<Longrightarrow> holds_entry x k v \<Longrightarrow> holds_entry (JList xs) k v"

inductive_simps holds_entry_str [simp]: "holds_entry (JStr s) k v"

text \<open>An entry that makes no claim other than the principal's own.\<close>

definition entry_agrees :: "unicode \<Rightarrow> auth_principal \<Rightarrow> bool \<Rightarrow> bool \<Rightarrow> str \<Rightarrow> json \<Rightarrow> bool" where
  "entry_agrees u prin prefixed approved key v \<longleftrightarrow>
     (let names = candidate_names u key prefixed
      in if names_hit names identity_names then \<not> claim_conflicts names v prin
         else approved \<or> \<not> has_identity_word u key prefixed)"

lemma visit_entry_agrees:
  "visit_entry u prin approved key v path depth ds = [] \<Longrightarrow>
     entry_agrees u prin (depth = 0) approved key v \<and> ds = []"
  by (auto simp: visit_entry_def entry_agrees_def Let_def split: if_splits)

lemma descend_dict:
  assumes "descend u prin (JDict ps) path depth limit = []" and "(k, v) \<in> set ps"
  shows "entry_agrees u prin False False k v \<and> descend u prin v (path @ 62 # k) (Suc depth) limit = []"
proof -
  have "visit_entry u prin False k v (path @ 62 # k) (depth + 1)
      (descend u prin v (path @ 62 # k) (depth + 1) limit) = []"
    using assms by (subst (asm) descend.simps) (auto simp: is_container_def split: if_splits)
  from visit_entry_agrees [OF this] show ?thesis by simp
qed

lemma descend_list:
  assumes "descend u prin (JList xs) path depth limit = []" and "x \<in> set xs"
  shows "\<exists>i. descend u prin x (path @ 62 # digits i) (Suc depth) limit = []"
proof -
  have short: "length xs \<le> 256" and all: "\<forall>(i, y) \<in> set (List.enumerate 0 xs). descend u prin y (path @ 62 # digits i) (Suc depth) limit = []"
    using assms by (subst (asm) (1) descend.simps; auto simp: is_container_def split: if_splits)+
  from assms(2) obtain i where "i < length xs" "x = xs ! i" by (auto simp: in_set_conv_nth)
  then have "(i, x) \<in> set (List.enumerate 0 xs)" by (simp add: in_set_enumerate_eq)
  with all show ?thesis by auto
qed

lemma descend_inspects:
  "holds_entry v k w \<Longrightarrow> descend u prin v path depth limit = [] \<Longrightarrow> entry_agrees u prin False False k w"
proof (induction arbitrary: path depth rule: holds_entry.induct)
  case (here k v ps)
  then show ?case using descend_dict by blast
next
  case (dict k v ps k' v')
  then show ?case using descend_dict by blast
next
  case (list x xs k v)
  then show ?case using descend_list by blast
qed

text \<open>C21. No identity but the principal's: if \<open>reconcile_meta\<close> accepts, then every entry of \<open>_meta\<close>,
  in whatever mapping or list it is nested, claims nothing but what the authenticated principal is:
  a subject, tenant, client, scope or administrator claim restates the principal's own, any other
  name with an identity word in it is absent (unless the operator listed that top-level key), and
  with an allow-list no other top-level key is present.\<close>

theorem accepted_meta_agrees:
  assumes "reconcile_meta u prin allowed meta = Inr ()" and "(key, v) \<in> set meta"
  shows "(key \<notin> set reserved_keys \<longrightarrow> entry_agrees u prin True (allowed \<noteq> None) key v) \<and>
         (\<forall>ks. allowed = Some ks \<longrightarrow> key \<in> set (ks @ reserved_keys)) \<and>
         (\<forall>k' v'. holds_entry v k' v' \<longrightarrow> entry_agrees u prin False False k' v')"
proof -
  have bad: "reconcile_key u prin allowed key v = []"
    using assms by (auto simp: reconcile_meta_def Let_def split: if_splits)
  consider (protocol) s where "key \<in> set reserved_keys" "v = JStr s"
    | (self) "key \<in> set reserved_keys" "descend u prin v key 0 max_self_reported_depth = []"
    | (other) "key \<notin> set reserved_keys"
        "visit_entry u prin (allowed \<noteq> None) key v key 0 (descend u prin v key 0 max_meta_depth) = []"
        "\<forall>ks. allowed = Some ks \<longrightarrow> key \<in> set (ks @ reserved_keys)"
    using bad unfolding reconcile_key_def reserved_keys_def set_append
    by (cases v) (auto simp: trace_key_invalid_def split: if_splits option.splits)
  then show ?thesis
  proof cases
    case protocol
    then show ?thesis by auto
  next
    case self
    then show ?thesis using descend_inspects by fastforce
  next
    case other
    then show ?thesis using descend_inspects visit_entry_agrees [OF other(2)] by auto
  qed
qed

lemma plain_candidates: "candidate_names plain_unicode (ascii ''sub'') True = [ascii ''sub'', ascii ''sub'']"
proof -
  let ?sub = "ascii ''sub''"
  have c: "clean plain_unicode ?sub = ?sub" by (simp add: clean_def plain_unicode_def)
  have n: "norm_name plain_unicode ?sub = ?sub"
    by (simp add: norm_name_def plain_unicode_def alnum_def ascii_lower_def)
  have w: "words_on segment_break ?sub = [?sub]" by (simp add: words_on_def segment_break_def)
  have l: "u_lower plain_unicode (take 2 ?sub) = ascii ''su''" by (simp add: plain_unicode_def ascii_lower_def)
  have "name_views ?sub True = [?sub]" by (simp add: name_views_def)
  then show ?thesis using w n l by (simp add: candidate_names_def c view_names_def Let_def del: ascii_simps)
qed

lemma sub_is_subject: "ascii ''sub'' \<in> set subject_names"
  by (simp add: subject_names_def plain_names_def)

theorem accepted_meta_agrees_witness:
  "reconcile_meta plain_unicode \<lparr>ap_subject = ascii ''alice'', ap_tenant = None, ap_client_id = None, ap_scopes = []\<rparr>
       None [(ascii ''sub'', JStr (ascii ''alice''))] = Inr () \<and>
   entry_agrees plain_unicode \<lparr>ap_subject = ascii ''alice'', ap_tenant = None, ap_client_id = None, ap_scopes = []\<rparr>
       True False (ascii ''sub'') (JStr (ascii ''alice''))"
proof -
  let ?p = "\<lparr>ap_subject = ascii ''alice'', ap_tenant = None, ap_client_id = None, ap_scopes = []\<rparr>"
  have nr: "ascii ''sub'' \<notin> set reserved_keys"
    by (simp add: reserved_keys_def protocol_keys_def trace_keys_def self_reported_keys_def del: ascii_simps)
  have hit: "names_hit [ascii ''sub'', ascii ''sub''] subject_names" "names_hit [ascii ''sub'', ascii ''sub''] identity_names"
    using sub_is_subject by (simp_all add: names_hit_def identity_names_def del: ascii_simps)
  have "descend plain_unicode ?p (JStr (ascii ''alice'')) (ascii ''sub'') 0 max_meta_depth = []"
    by (subst descend.simps) (simp add: is_container_def)
  moreover have "length (filter (\<lambda>c. c = 47) (ascii ''sub'')) = 0" by simp
  ultimately have ok: "reconcile_meta plain_unicode ?p None [(ascii ''sub'', JStr (ascii ''alice''))] = Inr ()"
    using nr hit by (simp add: reconcile_meta_def reconcile_key_def visit_entry_def plain_candidates
        claim_conflicts_def differs_def reserved_keys_def del: ascii_simps)
  from accepted_meta_agrees [OF this, of "ascii ''sub''" "JStr (ascii ''alice'')"] nr
  show ?thesis using ok by (simp del: ascii_simps)
qed

end
