(* ===== verification/Json_Facts.thy ===== *)
theory Json_Facts
  imports Protocol
begin

text \<open>
  What the parser returns: \<open>json.loads\<close> of a decoded text is a value that \<open>json.dumps\<close> prints and
  \<open>json.loads\<close> reads back. Sorting the keys of a value is idempotent.
\<close>

definition text_ok :: "str \<Rightarrow> bool" where
  "text_ok s \<longleftrightarrow> (\<forall>c \<in> set s. c < 0x110000 \<and> \<not> high_surrogate c \<and> \<not> low_surrogate c)"

lemma text_ok_simps [simp]:
  "text_ok []" "text_ok (c # s) \<longleftrightarrow> c < 0x110000 \<and> \<not> high_surrogate c \<and> \<not> low_surrogate c \<and> text_ok s"
  by (auto simp: text_ok_def)

lemma text_ok_drop: "text_ok s \<Longrightarrow> text_ok (drop n s)"
  by (auto simp: text_ok_def dest: in_set_dropD)

lemma text_ok_dropWhile: "text_ok s \<Longrightarrow> text_ok (dropWhile P s)"
  by (auto simp: text_ok_def dest: set_dropWhileD)

lemma text_ok_skip [simp]: "text_ok s \<Longrightarrow> text_ok (skip_ws s)"
  by (simp add: skip_ws_def text_ok_dropWhile)

lemma surrogate_iff: "surrogate n \<longleftrightarrow> high_surrogate n \<or> low_surrogate n"
  by (auto simp: surrogate_def high_surrogate_def low_surrogate_def)

lemma utf8_next_text: "utf8_next bs = Some (n, r) \<Longrightarrow> n < 0x110000 \<and> \<not> surrogate n"
  by (auto simp: utf8_next_def Let_def surrogate_def cont_def split: list.splits if_splits)

lemma utf8_decode_text: "utf8_decode bs = Some s \<Longrightarrow> text_ok s"
proof (induction bs arbitrary: s rule: utf8_decode.induct)
  case (1 bs)
  show ?case
  proof (cases "bs = []")
    case False
    with 1(2) obtain n r t where n: "utf8_next bs = Some (n, r)" and t: "utf8_decode r = Some t" "s = n # t"
      by (auto simp: utf8_decode.simps [of bs] split: option.splits)
    then show ?thesis using 1(1) [OF False n refl t(1)] utf8_next_text [OF n] by (auto simp: surrogate_iff)
  qed (use 1(2) in \<open>simp add: utf8_decode.simps\<close>)
qed

section \<open>Strings\<close>

lemma parse_hex4_text: "parse_hex4 s = Some (n, r) \<Longrightarrow> n < 0x10000 \<and> (text_ok s \<longrightarrow> text_ok r)"
proof -
  have d: "hex_value c = Some v \<Longrightarrow> v < 16" for c v
    by (auto simp: hex_value_def is_digit_def split: if_splits)
  show "parse_hex4 s = Some (n, r) \<Longrightarrow> n < 0x10000 \<and> (text_ok s \<longrightarrow> text_ok r)"
    by (cases s rule: parse_hex4.cases) (auto simp: parse_hex4.simps split: option.splits dest!: d)
qed

lemma parse_u_text:
  assumes "parse_u s = Some (n, r)" and "text_ok s"
  shows "n < 0x110000 \<and> text_ok r \<and> (low_surrogate n \<longrightarrow> (\<exists>r'. parse_hex4 s = Some (n, r'))) \<and>
         (high_surrogate n \<longrightarrow> take 2 r \<noteq> [92, 117] \<or>
            (\<exists>m r'. parse_hex4 (drop 2 r) = Some (m, r') \<and> \<not> low_surrogate m))"
proof -
  obtain m q where m: "parse_hex4 s = Some (m, q)" using assms(1) by (auto simp: parse_u_def split: option.splits)
  have q: "m < 0x10000" "text_ok q" using parse_hex4_text [OF m] assms(2) by auto
  show ?thesis
  proof (cases "high_surrogate m \<and> take 2 q = [92, 117]")
    case True
    then obtain k p where k: "parse_hex4 (drop 2 q) = Some (k, p)" using assms(1) m by (auto simp: parse_u_def split: option.splits)
    have p: "text_ok p" using parse_hex4_text [OF k] q(2) text_ok_drop by blast
    have "text_ok p \<and> n = 0x10000 + (m - 0xD800) * 1024 + (k - 0xDC00) \<and> r = p \<and> low_surrogate k \<or>
        n = m \<and> r = q \<and> \<not> low_surrogate k"
      using assms(1) True m k p by (auto simp: parse_u_def split: if_splits)
    then show ?thesis using True q k by (auto simp: low_surrogate_def high_surrogate_def)
  next
    case False
    then have "n = m" "r = q" using assms(1) m by (auto simp: parse_u_def split: if_splits)
    then show ?thesis using False q m by auto
  qed
qed

text \<open>A parsed string starts with a low surrogate only if the text starts with its escape.\<close>

definition low_escape :: "str \<Rightarrow> nat \<Rightarrow> bool" where
  "low_escape s n \<longleftrightarrow> take 2 s = [92, 117] \<and> (\<exists>r. parse_hex4 (drop 2 s) = Some (n, r))"

lemma simple_escape_small: "simple_escape c = Some n \<Longrightarrow> n < 128 \<and> \<not> high_surrogate n \<and> \<not> low_surrogate n"
  by (auto simp: simple_escape_def high_surrogate_def low_surrogate_def split: if_splits)

lemma str_ok_plain: "n < 0x110000 \<Longrightarrow> \<not> high_surrogate n \<Longrightarrow> str_ok s \<Longrightarrow> str_ok (n # s)"
  by simp

lemma parse_chars_text:
  "parse_chars f s = Some (t, r) \<Longrightarrow> text_ok s \<Longrightarrow>
     str_ok t \<and> text_ok r \<and> (t \<noteq> [] \<longrightarrow> low_surrogate (hd t) \<longrightarrow> low_escape s (hd t))"
proof (induction f s arbitrary: t r rule: parse_chars.induct)
  case (3 f c s)
  consider (quote) "c = 34" | (plain) "c \<noteq> 34" "32 \<le> c" "c \<noteq> 92"
    | (u) s' where "c = 92" "s = 117 # s'" | (simple) e s' where "c = 92" "s = e # s'" "e \<noteq> 117"
    using 3(4) by (cases s) (auto split: if_splits)
  then show ?case
  proof cases
    case quote
    then show ?thesis using 3 by auto
  next
    case plain
    then obtain t' where "parse_chars f s = Some (t', r)" "t = c # t'" using 3(4) by auto
    then show ?thesis using 3 plain by auto
  next
    case (u s')
    then obtain n q t' where n: "parse_u s' = Some (n, q)" and t: "parse_chars f q = Some (t', r)" "t = n # t'"
      using 3(4) by (auto split: option.splits)
    have ok: "text_ok s'" using 3(5) u by simp
    note pn = parse_u_text [OF n ok]
    have IH: "str_ok t' \<and> text_ok r \<and> (t' \<noteq> [] \<longrightarrow> low_surrogate (hd t') \<longrightarrow> low_escape q (hd t'))"
      using 3(2) [of 117 s' "(n, q)" n q] u n t pn by auto
    have "\<not> (high_surrogate n \<and> t' \<noteq> [] \<and> low_surrogate (hd t'))"
      using IH pn by (auto simp: low_escape_def)
    moreover have "low_surrogate n \<longrightarrow> low_escape (c # s) n" using u pn by (auto simp: low_escape_def)
    ultimately show ?thesis using IH t pn by auto
  next
    case (simple e s')
    then obtain n t' where n: "simple_escape e = Some n" and t: "parse_chars f s' = Some (t', r)" "t = n # t'"
      using 3(4) by (auto split: option.splits)
    then show ?thesis using 3(3) [of e s' n] 3(5) simple simple_escape_small [OF n] by auto
  qed
qed auto

lemma parse_str_text: "parse_str s = Some (t, r) \<Longrightarrow> text_ok s \<Longrightarrow> str_ok t \<and> text_ok r"
  using parse_chars_text by (auto simp: parse_str_def)

section \<open>Numbers and keywords\<close>

lemma norm_float_json_ok: "json_ok (norm_float m k)"
  by (induction m k rule: norm_float.induct) auto

lemma make_number_ok: "json_ok (make_number neg w fr e)"
  by (simp add: make_number_def Let_def norm_float_json_ok)

lemma parse_number_text: "parse_number s = Some (v, r) \<Longrightarrow> text_ok s \<Longrightarrow> json_ok v \<and> text_ok r"
proof -
  have fr: "text_ok q \<Longrightarrow> text_ok (snd (parse_frac q))" for q
    by (auto simp: parse_frac_def text_ok_dropWhile split: list.split)
  have ex: "text_ok q \<Longrightarrow> text_ok (snd (parse_exp q))" for q
    by (auto simp: parse_exp_def Let_def text_ok_dropWhile split: list.split)
      (metis list.collapse text_ok_dropWhile text_ok_simps(2))+
  have tl: "text_ok q \<Longrightarrow> text_ok (tl q)" for q by (cases q) auto
  show "parse_number s = Some (v, r) \<Longrightarrow> text_ok s \<Longrightarrow> json_ok v \<and> text_ok r"
    by (auto simp: parse_number_def Let_def make_number_ok split: if_splits prod.splits)
      (metis ex fr snd_conv text_ok_drop tl)+
qed

lemma parse_keyword_text:
  "parse_keyword ws s = Some (v, r) \<Longrightarrow> \<forall>(w, v) \<in> set ws. json_ok v \<Longrightarrow> text_ok s \<Longrightarrow> json_ok v \<and> text_ok r"
  by (induction ws s rule: parse_keyword.induct) (auto simp: text_ok_drop split: if_splits)

lemma dict_of_pairs_ok:
  assumes "\<forall>(k, v) \<in> set ps. str_ok k \<and> json_ok v"
  shows "json_ok (JDict (dict_of_pairs ps))"
proof -
  have "json_ok (JDict d) \<Longrightarrow> \<forall>(k, v) \<in> set qs. str_ok k \<and> json_ok v \<Longrightarrow>
      json_ok (JDict (fold (\<lambda>(k, v) d. AList.update k v d) qs d))" for qs d
  proof (induction qs arbitrary: d)
    case (Cons q qs)
    obtain k v where q: "q = (k, v)" by (cases q)
    have "set (AList.update k v d) \<subseteq> insert (k, v) (set d)" by (induction d) auto
    then have "json_ok (JDict (AList.update k v d))"
      using Cons.prems q by (auto simp: distinct_update)
    then show ?case using Cons q by auto
  qed simp
  from this [of "[]" ps] show ?thesis using assms by (simp add: dict_of_pairs_def)
qed

lemma parse_value_text:
  "(parse_value f s = Some (v, r) \<longrightarrow> text_ok s \<longrightarrow> json_ok v \<and> text_ok r) \<and>
   (parse_items f s = Some (vs, r) \<longrightarrow> text_ok s \<longrightarrow> (\<forall>v \<in> set vs. json_ok v) \<and> text_ok r) \<and>
   (parse_pairs f s = Some (ps, r) \<longrightarrow> text_ok s \<longrightarrow> (\<forall>(k, v) \<in> set ps. str_ok k \<and> json_ok v) \<and> text_ok r)"
proof (induction f arbitrary: s v vs ps r)
  case (Suc f)
  have ws: "text_ok q \<Longrightarrow> skip_ws q = c # q' \<Longrightarrow> text_ok q'" for q c q'
    using text_ok_skip [of q] by simp
  have kw: "\<forall>(w, v) \<in> set json_words. json_ok v" by (simp add: json_words_def del: ascii_simps)
  have IHv: "parse_value f s = Some (v, r) \<Longrightarrow> text_ok s \<Longrightarrow> json_ok v \<and> text_ok r"
    and IHi: "parse_items f s = Some (vs, r) \<Longrightarrow> text_ok s \<Longrightarrow> (\<forall>v \<in> set vs. json_ok v) \<and> text_ok r"
    and IHp: "parse_pairs f s = Some (ps, r) \<Longrightarrow> text_ok s \<Longrightarrow> (\<forall>(k, v) \<in> set ps. str_ok k \<and> json_ok v) \<and> text_ok r"
    for s v vs ps r using Suc.IH by blast+
  have 1: "json_ok v \<and> text_ok r" if p: "parse_value (Suc f) s = Some (v, r)" and s: "text_ok s"
  proof (cases s)
    case (Cons c q)
    have q: "text_ok q" using s Cons by simp
    consider (str) "c = 34" | (list) "c = 91" | (dict) "c = 123" | (other) "c \<noteq> 34" "c \<noteq> 91" "c \<noteq> 123" by blast
    then show ?thesis
    proof cases
      case str
      then show ?thesis using p Cons q by (auto dest: parse_str_text)
    next
      case list
      then obtain d q' where d: "skip_ws q = d # q'" using p Cons by (auto split: list.splits)
      then have ok: "text_ok (d # q')" using text_ok_skip [OF q] by simp
      show ?thesis
      proof (cases "d = 93")
        case False
        then obtain vs where "parse_items f (d # q') = Some (vs, r)" "v = JList vs" using p Cons d list by auto
        then show ?thesis using IHi ok by auto
      qed (use p Cons d list ok in auto)
    next
      case dict
      then obtain d q' where d: "skip_ws q = d # q'" using p Cons by (auto split: list.splits)
      then have ok: "text_ok (d # q')" using text_ok_skip [OF q] by simp
      show ?thesis
      proof (cases "d = 125")
        case False
        then obtain ps where "parse_pairs f (d # q') = Some (ps, r)" "v = JDict (dict_of_pairs ps)"
          using p Cons d dict by auto
        then show ?thesis using IHp ok dict_of_pairs_ok by blast
      qed (use p Cons d dict ok in auto)
    next
      case other
      then consider "parse_keyword json_words s = Some (v, r)" | "parse_number s = Some (v, r)"
        using p Cons by (auto split: option.splits)
      then show ?thesis using s by cases (auto dest: parse_number_text parse_keyword_text [OF _ kw])
    qed
  qed (use p in simp)
  have 2: "(\<forall>v \<in> set vs. json_ok v) \<and> text_ok r"
    if p: "parse_items (Suc f) s = Some (vs, r)" and s: "text_ok s"
  proof -
    obtain w q where w: "parse_value f s = Some (w, q)" using p by (auto split: option.splits)
    have wok: "json_ok w" "text_ok q" using IHv [OF w s] by auto
    obtain c q' where c: "skip_ws q = c # q'" using p w by (auto split: list.splits)
    have q': "text_ok (skip_ws q')" using ws [OF wok(2) c] by simp
    show ?thesis
    proof (cases "c = 93")
      case False
      then obtain us where "parse_items f (skip_ws q') = Some (us, r)" "vs = w # us"
        using p w c by (auto split: if_splits)
      then show ?thesis using IHi q' wok by auto
    qed (use p w c wok ws in auto)
  qed
  have 3: "(\<forall>(k, v) \<in> set ps. str_ok k \<and> json_ok v) \<and> text_ok r"
    if p: "parse_pairs (Suc f) s = Some (ps, r)" and s: "text_ok s"
  proof -
    obtain q0 where q0: "s = 34 # q0" using p by (auto split: list.splits if_splits)
    obtain k q where k: "parse_str q0 = Some (k, q)" using p q0 by (auto split: option.splits)
    have kok: "str_ok k" "text_ok q" using parse_str_text [OF k] s q0 by auto
    obtain c q1 where c: "skip_ws q = c # q1" using p q0 k by (auto split: list.splits)
    have c58: "c = 58" using p q0 k c by (simp split: if_splits)
    obtain v q2 where v: "parse_value f (skip_ws q1) = Some (v, q2)"
      using p q0 k c c58 by (auto split: option.splits)
    have vok: "json_ok v" "text_ok q2" using IHv [OF v] ws [OF kok(2) c] by auto
    obtain d q3 where d: "skip_ws q2 = d # q3" using p q0 k c c58 v by (auto split: list.splits)
    have q3: "text_ok q3" using ws [OF vok(2) d] .
    show ?thesis
    proof (cases "d = 125")
      case False
      then obtain us where "parse_pairs f (skip_ws q3) = Some (us, r)" "ps = (k, v) # us"
        using p q0 k c c58 v d by (auto split: if_splits)
      then show ?thesis using IHp q3 kok vok by auto
    qed (use p q0 k c c58 v d kok vok q3 in auto)
  qed
  show ?case using 1 2 3 by blast
qed (simp_all add: parse_value.simps parse_items.simps parse_pairs.simps)

lemma loads_ok: "loads s = Some v \<Longrightarrow> text_ok s \<Longrightarrow> json_ok v"
  using parse_value_text text_ok_skip by (fastforce simp: loads_def simp del: parse_value.simps split: option.splits if_splits)

section \<open>Sorting keys\<close>

lemma sort_key_map_fst:
  assumes "\<And>x. fst (g x) = fst x"
  shows "sort_key fst (map g xs) = map g (sort_key fst xs)"
proof -
  have "insort_key fst (g x) (map g ys) = map g (insort_key fst x ys)" for x ys
    by (induction ys) (auto simp: assms)
  then show ?thesis by (induction xs) auto
qed

lemma sort_key_sorted: "sorted (map f xs) \<Longrightarrow> sort_key f xs = xs"
  by (induction xs) (auto simp: insort_is_Cons)

lemma sorted_json_idem [simp]: "sorted_json (sorted_json v) = sorted_json v"
proof (induction v)
  case (JDict ps)
  let ?g = "\<lambda>(k, v). (k, sorted_json v)"
  have "map ?g (map ?g ps) = map ?g ps" unfolding map_map using JDict by (intro map_cong) fastforce+
  then have "map ?g (sort_key fst (map ?g ps)) = sort_key fst (map ?g ps)"
    using sort_key_map_fst [of ?g "map ?g ps"] by (simp only:) (simp add: split_def)
  then show ?case by (simp add: sort_key_sorted)
qed auto

end
