(* ===== verification/Audit_Log.thy ===== *)
theory Audit_Log
  imports Json_Facts
begin

text \<open>
  \<open>middleware/audit.py\<close>: the hash-chained append-only log. The file is the list of its lines, each
  ended by a newline, or absent; SHA-256 of a text (as hex digits) is the argument \<open>sha\<close>, which
  characters are printable and Python's \<open>str\<close> of a value are arguments too. The lock makes a call
  atomic, so a run is a sequence of calls; the entry id and the time are arguments of a call.
\<close>

section \<open>Entries\<close>

record audit_entry =
  ae_entry_id :: json
  ae_parent_id :: json
  ae_session_id :: json
  ae_method :: json
  ae_params_digest :: json
  ae_timestamp_utc :: json
  ae_prev_hash :: json
  ae_chain_hash :: json
  ae_event :: "json option"

definition entry_to_dict :: "audit_entry \<Rightarrow> (str \<times> json) list" where
  "entry_to_dict e =
     [(ascii ''entry_id'', ae_entry_id e), (ascii ''parent_id'', ae_parent_id e),
      (ascii ''session_id'', ae_session_id e), (ascii ''method'', ae_method e),
      (ascii ''params_digest'', ae_params_digest e), (ascii ''timestamp_utc'', ae_timestamp_utc e),
      (ascii ''prev_hash'', ae_prev_hash e), (ascii ''chain_hash'', ae_chain_hash e)]
     @ (case ae_event e of None \<Rightarrow> [] | Some v \<Rightarrow> [(ascii ''event'', v)])"

text \<open>\<open>None\<close> is the \<open>KeyError\<close> of a missing field.\<close>

definition entry_from_dict :: "(str \<times> json) list \<Rightarrow> audit_entry option" where
  "entry_from_dict d =
     (case (map_of d (ascii ''entry_id''), map_of d (ascii ''session_id''), map_of d (ascii ''method''),
            map_of d (ascii ''params_digest''), map_of d (ascii ''timestamp_utc''),
            map_of d (ascii ''prev_hash''), map_of d (ascii ''chain_hash'')) of
        (Some i, Some s, Some m, Some p, Some t, Some ph, Some ch) \<Rightarrow>
          Some \<lparr>ae_entry_id = i,
                ae_parent_id = (case map_of d (ascii ''parent_id'') of None \<Rightarrow> JNull | Some v \<Rightarrow> v),
                ae_session_id = s, ae_method = m, ae_params_digest = p, ae_timestamp_utc = t,
                ae_prev_hash = ph, ae_chain_hash = ch,
                ae_event = (case map_of d (ascii ''event'') of Some JNull \<Rightarrow> None | v \<Rightarrow> v)\<rparr>
      | _ \<Rightarrow> None)"

definition params_digest :: "(str \<Rightarrow> str) \<Rightarrow> (str \<times> json) list \<Rightarrow> str" where
  "params_digest sha params = sha (canonical (JDict params))"

definition chain_hash :: "(str \<Rightarrow> str) \<Rightarrow> (str \<times> json) list \<Rightarrow> str" where
  "chain_hash sha d = sha (canonical (JDict d))"

definition clean_text :: "(nat \<Rightarrow> bool) \<Rightarrow> str \<Rightarrow> str" where
  "clean_text printable s = map (\<lambda>c. if printable c then c else 63) (take 256 s)"

fun clean_value :: "(nat \<Rightarrow> bool) \<Rightarrow> (json \<Rightarrow> str) \<Rightarrow> json \<Rightarrow> json" where
  "clean_value printable repr (JStr s) = JStr (clean_text printable s)"
| "clean_value printable repr (JList xs) = JList (take 32 (map (clean_value printable repr) xs))"
| "clean_value printable repr (JDict ps) = JStr (clean_text printable (repr (JDict ps)))"
| "clean_value printable repr v = v"

definition clean_event :: "(nat \<Rightarrow> bool) \<Rightarrow> (json \<Rightarrow> str) \<Rightarrow> (str \<times> json) list \<Rightarrow> (str \<times> json) list" where
  "clean_event printable repr ev =
     dict_of_pairs (map (\<lambda>(k, v). (take 64 (clean_text printable k), clean_value printable repr v)) (take 16 ev))"

section \<open>The logger\<close>

definition genesis :: str where "genesis = replicate 64 48"

definition k_chain :: str where "k_chain = ascii ''chain_hash''"

definition k_prev :: str where "k_prev = ascii ''prev_hash''"

record audit_logger =
  al_file :: "byte list list option"
  al_prev_hash :: json
  al_entry_count :: nat

text \<open>Reading one line of the file: decode, strip, parse; blank lines are skipped by every reader.\<close>

datatype line_read = LineBlank | LineObject "(str \<times> json) list" | LineBadJson | LineNotText | LineNotObject

definition read_line :: "byte list \<Rightarrow> line_read" where
  "read_line raw =
     (case utf8_decode raw of None \<Rightarrow> LineNotText
      | Some t \<Rightarrow>
          if py_strip t = [] then LineBlank
          else (case loads (py_strip t) of
                  None \<Rightarrow> LineBadJson
                | Some v \<Rightarrow> (case v of JDict d \<Rightarrow> LineObject d | _ \<Rightarrow> LineNotObject)))"

text \<open>
  \<open>_load_tail\<close>; \<open>None\<close> is an exception (a line that is not UTF-8, or a JSON value that is not an object).
\<close>

fun load_tail :: "byte list list \<Rightarrow> json \<Rightarrow> nat \<Rightarrow> (json \<times> nat) option" where
  "load_tail [] last_hash count = Some (last_hash, count)"
| "load_tail (raw # raws) last_hash count =
     (case read_line raw of
        LineObject d \<Rightarrow>
          load_tail raws (case map_of d k_chain of None \<Rightarrow> JStr genesis | Some h \<Rightarrow> h) (count + 1)
      | LineBlank \<Rightarrow> load_tail raws last_hash count
      | LineBadJson \<Rightarrow> load_tail raws last_hash count
      | _ \<Rightarrow> None)"

definition new_audit_logger :: "byte list list option \<Rightarrow> audit_logger option" where
  "new_audit_logger file =
     (case file of
        Some (raw # raws) \<Rightarrow>
          map_option (\<lambda>(h, n). \<lparr>al_file = file, al_prev_hash = h, al_entry_count = n\<rparr>)
            (load_tail (raw # raws) (JStr genesis) 0)
      | _ \<Rightarrow> Some \<lparr>al_file = file, al_prev_hash = JStr genesis, al_entry_count = 0\<rparr>)"

record audit_call =
  ac_entry_id :: str
  ac_now :: json
  ac_method :: str
  ac_session_id :: str
  ac_params :: "(str \<times> json) list"
  ac_parent_id :: "str option"
  ac_event :: "(str \<times> json) list option"

definition partial_entry :: "(str \<Rightarrow> str) \<Rightarrow> (nat \<Rightarrow> bool) \<Rightarrow> (json \<Rightarrow> str) \<Rightarrow> json \<Rightarrow> audit_call \<Rightarrow> (str \<times> json) list" where
  "partial_entry sha printable repr prev c =
     [(ascii ''entry_id'', JStr (ac_entry_id c)),
      (ascii ''parent_id'', case ac_parent_id c of None \<Rightarrow> JNull | Some p \<Rightarrow> JStr p),
      (ascii ''session_id'', JStr (ac_session_id c)),
      (ascii ''method'', JStr (ac_method c)),
      (ascii ''params_digest'', JStr (params_digest sha (ac_params c))),
      (ascii ''timestamp_utc'', ac_now c),
      (k_prev, prev)]
     @ (case ac_event c of None \<Rightarrow> [] | Some ev \<Rightarrow> [(ascii ''event'', JDict (clean_event printable repr ev))])"

definition file_lines :: "byte list list option \<Rightarrow> byte list list" where
  "file_lines file = (case file of None \<Rightarrow> [] | Some raws \<Rightarrow> raws)"

definition audit_log :: "(str \<Rightarrow> str) \<Rightarrow> (nat \<Rightarrow> bool) \<Rightarrow> (json \<Rightarrow> str) \<Rightarrow> audit_call \<Rightarrow> audit_logger \<Rightarrow> str \<times> audit_logger" where
  "audit_log sha printable repr c lg =
     (let part = partial_entry sha printable repr (al_prev_hash lg) c;
          h = chain_hash sha part;
          line = canonical (JDict (part @ [(k_chain, JStr h)]))
      in (ac_entry_id c,
          \<lparr>al_file = Some (file_lines (al_file lg) @ [map byte_of line]),
           al_prev_hash = JStr h, al_entry_count = al_entry_count lg + 1\<rparr>))"

section \<open>Verification\<close>

datatype audit_error =
    HeadMissing
  | BadJson nat
  | PrevMismatch nat
  | HashMismatch nat
  | HeadMismatch nat
  | NotText nat
  | NotObject nat

definition strip_hash :: "(str \<times> json) list \<Rightarrow> (str \<times> json) list" where
  "strip_hash d = filter (\<lambda>(k, v). k \<noteq> k_chain) d"

definition get_text :: "(str \<times> json) list \<Rightarrow> str \<Rightarrow> json" where
  "get_text d k = (case map_of d k of None \<Rightarrow> JStr [] | Some v \<Rightarrow> v)"

fun verify_lines :: "(str \<Rightarrow> str) \<Rightarrow> nat \<Rightarrow> str \<Rightarrow> nat \<Rightarrow> byte list list \<Rightarrow> audit_error + (str \<times> nat)" where
  "verify_lines sha lineno prev count [] = Inr (prev, count)"
| "verify_lines sha lineno prev count (raw # raws) =
     (case read_line raw of
        LineObject d \<Rightarrow>
          if get_text d k_prev \<noteq> JStr prev then Inl (PrevMismatch lineno)
          else if get_text d k_chain \<noteq> JStr (chain_hash sha (strip_hash d)) then Inl (HashMismatch lineno)
          else verify_lines sha (lineno + 1) (chain_hash sha (strip_hash d)) (count + 1) raws
      | LineBlank \<Rightarrow> verify_lines sha (lineno + 1) prev count raws
      | LineBadJson \<Rightarrow> Inl (BadJson lineno)
      | LineNotText \<Rightarrow> Inl (NotText lineno)
      | LineNotObject \<Rightarrow> Inl (NotObject lineno))"

definition verify_chain :: "(str \<Rightarrow> str) \<Rightarrow> byte list list option \<Rightarrow> str option \<Rightarrow> audit_error + nat" where
  "verify_chain sha file expected_head =
     (case file of
        None \<Rightarrow>
          (case expected_head of
             Some h \<Rightarrow> if h \<noteq> genesis then Inl HeadMissing else Inr 0
           | None \<Rightarrow> Inr 0)
      | Some raws \<Rightarrow>
          (case verify_lines sha 1 genesis 0 raws of
             Inl e \<Rightarrow> Inl e
           | Inr (prev, count) \<Rightarrow>
               (case expected_head of
                  Some h \<Rightarrow> if prev \<noteq> h then Inl (HeadMismatch count) else Inr count
                | None \<Rightarrow> Inr count)))"

text \<open>The objects on the lines of a file; \<open>None\<close> when reading raises.\<close>

fun line_objects :: "byte list list \<Rightarrow> (str \<times> json) list list option" where
  "line_objects [] = Some []"
| "line_objects (raw # raws) =
     (case read_line raw of
        LineObject d \<Rightarrow> map_option ((#) d) (line_objects raws)
      | LineBlank \<Rightarrow> line_objects raws
      | _ \<Rightarrow> None)"

fun those_entries :: "audit_entry option list \<Rightarrow> audit_entry list option" where
  "those_entries [] = Some []"
| "those_entries (None # es) = None"
| "those_entries (Some e # es) = map_option ((#) e) (those_entries es)"

definition audit_entries :: "byte list list option \<Rightarrow> audit_entry list option" where
  "audit_entries file = Option.bind (line_objects (file_lines file)) (\<lambda>ds. those_entries (map entry_from_dict ds))"

text \<open>Parent identifiers are strings or null, as their type says.\<close>

definition build_dag :: "audit_entry list \<Rightarrow> (json, audit_entry list) dict" where
  "build_dag es =
     fold (\<lambda>e dag. AList.update (ae_parent_id e)
             ((case map_of dag (ae_parent_id e) of None \<Rightarrow> [] | Some xs \<Rightarrow> xs) @ [e]) dag) es []"

section \<open>Logging keeps the chain\<close>

lemma verify_lines_append:
  "verify_lines sha n p c (xs @ ys) =
     (case verify_lines sha n p c xs of Inl e \<Rightarrow> Inl e | Inr (q, d) \<Rightarrow> verify_lines sha (n + length xs) q d ys)"
  by (induction xs arbitrary: n p c) (auto split: line_read.split sum.split)

lemma load_tail_append:
  "load_tail (xs @ ys) h n = Option.bind (load_tail xs h n) (\<lambda>(h', n'). load_tail ys h' n')"
  by (induction xs arbitrary: h n) (auto split: line_read.split)

definition sorted_pairs :: "(str \<times> json) list \<Rightarrow> (str \<times> json) list" where
  "sorted_pairs d = sort_key fst (map (\<lambda>(k, v). (k, sorted_json v)) d)"

lemma sorted_json_pairs: "sorted_json (JDict d) = JDict (sorted_pairs d)"
  by (simp add: sorted_pairs_def)

lemma map_of_sorted_pairs: "dict_ok d \<Longrightarrow> map_of (sorted_pairs d) k = map_option sorted_json (map_of d k)"
proof -
  assume d: "dict_ok d"
  let ?m = "map (\<lambda>(k, v). (k, sorted_json v)) d"
  have keys: "map fst ?m = map fst d" by (induction d) auto
  have "dict_ok ?m" unfolding keys by (rule d)
  then have "dict_ok (sort_key fst ?m)" by (simp only: map_fst_sort_key) simp
  then have "map_of (sort_key fst ?m) = map_of ?m"
    by (rule map_of_inject_set [THEN iffD2, OF _ \<open>dict_ok ?m\<close>]) simp
  then show ?thesis by (simp add: sorted_pairs_def map_of_map)
qed

lemma strip_sorted_pairs:
  assumes "k_chain \<notin> fst ` set d"
  shows "strip_hash (sorted_pairs (d @ [(k_chain, h)])) = sorted_pairs d"
proof -
  have "filter (\<lambda>(k, v). k \<noteq> k_chain) (map (\<lambda>(k, v). (k, sorted_json v)) d) = map (\<lambda>(k, v). (k, sorted_json v)) d"
    using assms by (induction d) auto
  then show ?thesis by (simp add: strip_hash_def sorted_pairs_def filter_sort)
qed

lemma chain_hash_sorted [simp]: "chain_hash sha (sorted_pairs d) = chain_hash sha d"
  unfolding chain_hash_def sorted_json_pairs [symmetric] by (simp only: sorted_json_idem)

lemma read_canonical:
  assumes "json_ok (JDict d)"
  shows "read_line (map byte_of (canonical (JDict d))) = LineObject (sorted_pairs d)"
proof -
  let ?t = "canonical (JDict d)"
  have "utf8_decode (map byte_of ?t) = Some ?t" by (rule utf8_decode_ascii) (rule dumps_ascii; simp)
  moreover have "?t = 123 # tl ?t" "last ?t = 125" by simp_all
  then have "py_strip ?t = ?t" by (intro py_strip_id) (simp add: py_space_def)
  moreover have "?t \<noteq> []" by simp
  ultimately show ?thesis
    using canonical_loads [OF assms] unfolding sorted_json_pairs by (simp add: read_line_def)
qed

lemma str_ok_take: "str_ok s \<Longrightarrow> str_ok (take n s)"
  by (induction s arbitrary: n rule: str_ok.induct) (auto simp: take_Cons' neq_Nil_conv)

lemma clean_text_ok: "str_ok s \<Longrightarrow> str_ok (clean_text printable s)"
proof -
  have "str_ok (map (\<lambda>c. if printable c then c else 63) s)" if "str_ok s" for s
    using that by (induction s rule: str_ok.induct)
      (auto simp: neq_Nil_conv high_surrogate_def low_surrogate_def split: if_splits)
  then show "str_ok s \<Longrightarrow> str_ok (clean_text printable s)" by (simp add: clean_text_def str_ok_take)
qed

lemma clean_value_ok: "json_ok v \<Longrightarrow> \<forall>w. str_ok (repr w) \<Longrightarrow> json_ok (clean_value printable repr v)"
  by (induction v) (auto simp: clean_text_ok dest!: in_set_takeD)

lemma clean_event_ok:
  assumes "json_ok (JDict ev)" and "\<forall>w. str_ok (repr w)"
  shows "json_ok (JDict (clean_event printable repr ev))"
  unfolding clean_event_def using assms
  by (intro dict_of_pairs_ok) (auto dest!: in_set_takeD intro!: str_ok_take clean_text_ok clean_value_ok)

text \<open>A call whose texts are Unicode strings that JSON represents.\<close>

definition call_ok :: "audit_call \<Rightarrow> bool" where
  "call_ok c \<longleftrightarrow> str_ok (ac_entry_id c) \<and> json_ok (ac_now c) \<and> str_ok (ac_method c) \<and> str_ok (ac_session_id c) \<and>
     (\<forall>p. ac_parent_id c = Some p \<longrightarrow> str_ok p) \<and> (\<forall>ev. ac_event c = Some ev \<longrightarrow> json_ok (JDict ev))"

lemma partial_entry_ok:
  assumes "call_ok c" and "\<forall>x. str_ok (sha x)" and "\<forall>w. str_ok (repr w)" and "str_ok p"
  shows "json_ok (JDict (partial_entry sha printable repr (JStr p) c @ [(k_chain, JStr (sha x))]))"
    and "k_chain \<notin> fst ` set (partial_entry sha printable repr (JStr p) c)"
    and "map_of (partial_entry sha printable repr (JStr p) c) k_prev = Some (JStr p)"
proof -
  have t: "str_ok (ascii s)" if "\<forall>c \<in> set s. of_char c < (128 :: nat)" for s
    using that by (induction s) (auto simp: high_surrogate_def)
  have keys: "map fst (partial_entry sha printable repr (JStr p) c) =
      map ascii ([''entry_id'', ''parent_id'', ''session_id'', ''method'', ''params_digest'', ''timestamp_utc'', ''prev_hash'']
        @ (case ac_event c of None \<Rightarrow> [] | Some _ \<Rightarrow> [''event'']))"
    by (simp add: partial_entry_def k_prev_def del: ascii_simps split: option.split)
  show "k_chain \<notin> fst ` set (partial_entry sha printable repr (JStr p) c)"
    unfolding set_map [symmetric] keys k_chain_def by (auto simp del: ascii_simps split: option.splits)
  moreover have "dict_ok (partial_entry sha printable repr (JStr p) c)"
    unfolding keys by (auto simp del: ascii_simps split: option.splits)
  moreover have "\<forall>k \<in> set (map fst (partial_entry sha printable repr (JStr p) c)). str_ok k"
    unfolding keys by (auto intro!: t simp del: ascii_simps split: option.splits)
  moreover have "str_ok k_chain" unfolding k_chain_def by (rule t) simp
  moreover have "\<forall>v \<in> set (map snd (partial_entry sha printable repr (JStr p) c)). json_ok v"
    using assms clean_event_ok [of _ repr printable]
    by (auto simp: partial_entry_def call_ok_def params_digest_def simp del: ascii_simps json_ok.simps(4) split: option.splits)
  ultimately show "json_ok (JDict (partial_entry sha printable repr (JStr p) c @ [(k_chain, JStr (sha x))]))"
    using assms(2) by (auto simp: image_iff)
  show "map_of (partial_entry sha printable repr (JStr p) c) k_prev = Some (JStr p)"
    by (simp add: partial_entry_def k_prev_def del: ascii_simps)
qed

text \<open>The state of a logger whose file is a valid chain that ends at its head.\<close>

definition chain_ok :: "(str \<Rightarrow> str) \<Rightarrow> audit_logger \<Rightarrow> bool" where
  "chain_ok sha lg \<longleftrightarrow>
     (\<exists>h. al_prev_hash lg = JStr h \<and> str_ok h \<and>
        verify_lines sha 1 genesis 0 (file_lines (al_file lg)) = Inr (h, al_entry_count lg) \<and>
        load_tail (file_lines (al_file lg)) (JStr genesis) 0 = Some (JStr h, al_entry_count lg) \<and>
        (al_entry_count lg = 0 \<longrightarrow> al_file lg = None) \<and> (al_file lg \<noteq> Some []))"

lemma audit_log_chain:
  assumes "chain_ok sha lg" and "call_ok c" and "\<forall>x. str_ok (sha x)" and "\<forall>w. str_ok (repr w)"
  shows "chain_ok sha (snd (audit_log sha printable repr c lg)) \<and>
         al_entry_count (snd (audit_log sha printable repr c lg)) = Suc (al_entry_count lg)"
proof -
  obtain p where p: "al_prev_hash lg = JStr p" "str_ok p"
    and v: "verify_lines sha 1 genesis 0 (file_lines (al_file lg)) = Inr (p, al_entry_count lg)"
    and l: "load_tail (file_lines (al_file lg)) (JStr genesis) 0 = Some (JStr p, al_entry_count lg)"
    using assms(1) by (auto simp: chain_ok_def)
  define d where "d = partial_entry sha printable repr (JStr p) c"
  define h where "h = chain_hash sha d"
  have j: "json_ok (JDict (d @ [(k_chain, JStr h)]))" and k: "k_chain \<notin> fst ` set d" and m: "map_of d k_prev = Some (JStr p)"
    using partial_entry_ok [OF assms(2-4) p(2)] by (auto simp: d_def h_def chain_hash_def simp del: json_ok.simps(4))
  let ?line = "map byte_of (canonical (JDict (d @ [(k_chain, JStr h)])))" and ?o = "sorted_pairs (d @ [(k_chain, JStr h)])"
  have r: "read_line ?line = LineObject ?o" using read_canonical [OF j] .
  have ok: "dict_ok (d @ [(k_chain, JStr h)])" using j by simp
  have "k_prev \<noteq> k_chain" by (simp add: k_prev_def k_chain_def)
  then have g: "map_of ?o k_prev = Some (JStr p)" "map_of ?o k_chain = Some (JStr h)"
    using m k by (simp_all add: map_of_sorted_pairs [OF ok] map_add_Some_iff) (auto simp: map_add_def map_of_eq_None_iff split: option.split)
  have "chain_hash sha (strip_hash ?o) = h" by (simp add: strip_sorted_pairs [OF k] h_def)
  then have "verify_lines sha n p i [?line] = Inr (h, Suc i)" "load_tail [?line] (JStr p) i = Some (JStr h, Suc i)" for n i
    using r g by (simp_all add: get_text_def)
  moreover have "snd (audit_log sha printable repr c lg) =
      \<lparr>al_file = Some (file_lines (al_file lg) @ [?line]), al_prev_hash = JStr h, al_entry_count = Suc (al_entry_count lg)\<rparr>"
    by (simp add: audit_log_def Let_def p d_def h_def)
  moreover have "str_ok h" using assms(3) by (simp add: h_def chain_hash_def)
  ultimately show ?thesis
    using v l by (simp add: chain_ok_def file_lines_def verify_lines_append load_tail_append)
qed

definition log_all :: "(str \<Rightarrow> str) \<Rightarrow> (nat \<Rightarrow> bool) \<Rightarrow> (json \<Rightarrow> str) \<Rightarrow> audit_call list \<Rightarrow> audit_logger \<Rightarrow> audit_logger" where
  "log_all sha printable repr calls lg = fold (\<lambda>c lg. snd (audit_log sha printable repr c lg)) calls lg"

lemma log_all_chain:
  assumes "chain_ok sha lg" and "\<forall>c \<in> set calls. call_ok c" and "\<forall>x. str_ok (sha x)" and "\<forall>w. str_ok (repr w)"
  shows "chain_ok sha (log_all sha printable repr calls lg) \<and>
         al_entry_count (log_all sha printable repr calls lg) = al_entry_count lg + length calls"
  using assms(1,2)
proof (induction calls arbitrary: lg)
  case (Cons c calls)
  from audit_log_chain [OF Cons.prems(1) _ assms(3,4), of c printable] Cons.prems(2)
  have "chain_ok sha (snd (audit_log sha printable repr c lg))"
    "al_entry_count (snd (audit_log sha printable repr c lg)) = Suc (al_entry_count lg)" by auto
  with Cons show ?case by (simp add: log_all_def)
qed (simp add: log_all_def)

lemma genesis_str: "str_ok genesis"
proof -
  have "str_ok (replicate n 48)" for n by (induction n) (auto simp: high_surrogate_def)
  then show ?thesis by (simp add: genesis_def)
qed

lemma new_logger_chain: "new_audit_logger None = Some lg \<Longrightarrow> chain_ok sha lg"
  by (auto simp: new_audit_logger_def chain_ok_def file_lines_def genesis_str)

text \<open>C22. Logging and verifying agree: after any sequence of calls of a logger on a fresh file, the
  file verifies against the logger's head, with as many entries as there were calls, and opening the
  file again gives the very same logger.\<close>

theorem logged_chain_verifies:
  assumes "new_audit_logger None = Some lg" and "\<forall>c \<in> set calls. call_ok c"
    and "\<forall>x. str_ok (sha x)" and "\<forall>w. str_ok (repr w)"
  shows "\<exists>head. al_prev_hash (log_all sha printable repr calls lg) = JStr head \<and>
           verify_chain sha (al_file (log_all sha printable repr calls lg)) (Some head) = Inr (length calls) \<and>
           al_entry_count (log_all sha printable repr calls lg) = length calls \<and>
           new_audit_logger (al_file (log_all sha printable repr calls lg)) = Some (log_all sha printable repr calls lg)"
proof -
  let ?r = "log_all sha printable repr calls lg"
  have n: "al_entry_count lg = 0" using assms(1) by (auto simp: new_audit_logger_def)
  then have ok: "chain_ok sha ?r" "al_entry_count ?r = length calls"
    using log_all_chain [OF new_logger_chain [OF assms(1)] assms(2-4)] by simp_all
  then obtain h where h: "al_prev_hash ?r = JStr h" "verify_lines sha 1 genesis 0 (file_lines (al_file ?r)) = Inr (h, length calls)"
    "load_tail (file_lines (al_file ?r)) (JStr genesis) 0 = Some (JStr h, length calls)" "al_file ?r \<noteq> Some []"
    by (auto simp: chain_ok_def)
  show ?thesis
  proof (cases "al_file ?r")
    case None
    then have "h = genesis" "length calls = 0" using h(2) by (auto simp: file_lines_def)
    then show ?thesis using h None ok(2) by (cases ?r) (auto simp: verify_chain_def new_audit_logger_def)
  next
    case (Some raws)
    then obtain raw rest where "raws = raw # rest" using h(4) by (cases raws) auto
    then show ?thesis using h Some ok(2)
      by (cases ?r) (auto simp: verify_chain_def new_audit_logger_def file_lines_def split: prod.split)
  qed
qed

section \<open>Tampering is evident\<close>

text \<open>One entry after the hash \<open>p\<close> with its own hash \<open>h\<close>, and a chain of them.\<close>

definition link :: "(str \<Rightarrow> str) \<Rightarrow> str \<Rightarrow> (str \<times> json) list \<Rightarrow> str \<Rightarrow> bool" where
  "link sha p d h \<longleftrightarrow> json_ok (JDict d) \<and> get_text d k_prev = JStr p \<and> get_text d k_chain = JStr h \<and>
     h = chain_hash sha (strip_hash d)"

fun linked :: "(str \<Rightarrow> str) \<Rightarrow> str \<Rightarrow> (str \<times> json) list list \<Rightarrow> str \<Rightarrow> bool" where
  "linked sha p [] h = (p = h)"
| "linked sha p (d # ds) h = (\<exists>q. link sha p d q \<and> linked sha q ds h)"

lemma linked_snoc: "linked sha p (ds @ [d]) h \<longleftrightarrow> (\<exists>q. linked sha p ds q \<and> link sha q d h)"
  by (induction ds arbitrary: p) auto

lemma read_line_ok: "read_line raw = LineObject d \<Longrightarrow> json_ok (JDict d)"
proof -
  assume r: "read_line raw = LineObject d"
  then obtain t where t: "utf8_decode raw = Some t" "loads (py_strip t) = Some (JDict d)"
    by (auto simp: read_line_def split: option.splits if_splits json.splits)
  have "text_ok (py_strip t)"
    using utf8_decode_text [OF t(1)] by (auto simp: text_ok_def py_strip_def dest!: set_dropWhileD)
  then show ?thesis using loads_ok [OF t(2)] by simp
qed

lemma verify_lines_linked:
  "verify_lines sha n p c raws = Inr (h, m) \<Longrightarrow> \<exists>ds. line_objects raws = Some ds \<and> linked sha p ds h"
proof (induction raws arbitrary: n p c)
  case (Cons raw raws)
  show ?case
  proof (cases "read_line raw")
    case (LineObject d)
    then have "link sha p d (chain_hash sha (strip_hash d))"
      and v: "verify_lines sha (n + 1) (chain_hash sha (strip_hash d)) (c + 1) raws = Inr (h, m)"
      using Cons.prems read_line_ok [OF LineObject] by (auto simp: link_def simp del: json_ok.simps(4) split: if_splits)
    then show ?thesis using Cons.IH [OF v] LineObject by auto
  qed (use Cons in auto)
qed simp

text \<open>What an entry says, up to the order of its keys.\<close>

definition entry_view :: "(str \<times> json) list \<Rightarrow> json \<times> json" where
  "entry_view d = (sorted_json (JDict (strip_hash d)), get_text d k_chain)"

text \<open>The text whose hash an entry carries, and the texts of a file.\<close>

definition hashed_text :: "(str \<times> json) list \<Rightarrow> str" where
  "hashed_text d = canonical (JDict (strip_hash d))"

definition hashed_texts :: "byte list list \<Rightarrow> str list" where
  "hashed_texts raws = (case line_objects raws of None \<Rightarrow> [] | Some ds \<Rightarrow> map hashed_text ds)"

lemma link_hash: "link sha p d h \<Longrightarrow> sha (hashed_text d) = h"
  by (simp add: link_def chain_hash_def hashed_text_def)

lemma link_same_hash:
  assumes "link sha p d h" and "link sha q e h" and same: "hashed_text d = hashed_text e"
  shows "entry_view d = entry_view e \<and> p = q"
proof -
  have ok: "json_ok (JDict (strip_hash x))" if "json_ok (JDict x)" for x
    using that by (auto simp: strip_hash_def)
  have d: "json_ok (JDict d)" and e: "json_ok (JDict e)" using assms(1,2) by (simp_all only: link_def)
  have "canonical (JDict (strip_hash d)) = canonical (JDict (strip_hash e))"
    using same by (simp only: hashed_text_def)
  then have s: "sorted_json (JDict (strip_hash d)) = sorted_json (JDict (strip_hash e))"
    by (rule canonical_inj [OF ok [OF d] ok [OF e]])
  have pv: "map_option sorted_json (map_of x k_prev) = map_of (sorted_pairs (strip_hash x)) k_prev" if "json_ok (JDict x)" for x
  proof -
    have "k_prev \<noteq> k_chain" by (simp add: k_prev_def k_chain_def)
    then have "map_of (strip_hash x) k_prev = map_of x k_prev" by (induction x) (auto simp: strip_hash_def)
    then show ?thesis using ok [OF that] map_of_sorted_pairs [of "strip_hash x" k_prev] by simp
  qed
  have "map_option sorted_json (map_of d k_prev) = map_option sorted_json (map_of e k_prev)"
    unfolding pv [OF d] pv [OF e] using s by (simp only: sorted_json_pairs json.inject)
  moreover have "get_text d k_prev = JStr p" "get_text e k_prev = JStr q"
    using assms(1,2) by (simp_all only: link_def)
  then have "map_option sorted_json (map_of d k_prev) = Some (JStr p) \<or> map_of d k_prev = None \<and> p = []"
    "map_option sorted_json (map_of e k_prev) = Some (JStr q) \<or> map_of e k_prev = None \<and> q = []"
    by (auto simp: get_text_def split: option.splits)
  ultimately have "p = q" by auto
  moreover have "get_text d k_chain = get_text e k_chain" using assms(1,2) unfolding link_def by metis
  ultimately show ?thesis using s by (simp only: entry_view_def)
qed

lemma linked_same_head:
  assumes "linked sha genesis ds h" and "linked sha genesis es h"
  shows "map entry_view ds = map entry_view es \<or>
    (\<exists>d \<in> set ds. \<exists>e \<in> set es. hashed_text d \<noteq> hashed_text e \<and> sha (hashed_text d) = sha (hashed_text e)) \<or>
    (\<exists>d \<in> set ds \<union> set es. sha (hashed_text d) = genesis)"
  using assms
proof (induction ds arbitrary: es h rule: rev_induct)
  case Nil
  show ?case
  proof (cases es rule: rev_cases)
    case (snoc es' e)
    then show ?thesis using Nil link_hash by (fastforce simp: linked_snoc)
  qed simp
next
  case (snoc d ds)
  then obtain q where q: "linked sha genesis ds q" "link sha q d h" by (auto simp: linked_snoc)
  show ?case
  proof (cases es rule: rev_cases)
    case Nil
    then show ?thesis using q(2) snoc.prems(2) link_hash by fastforce
  next
    case es: (snoc es' e)
    then obtain r where r: "linked sha genesis es' r" "link sha r e h" using snoc.prems by (auto simp: linked_snoc)
    show ?thesis
    proof (cases "hashed_text d = hashed_text e")
      case True
      then have v: "entry_view d = entry_view e" "q = r" using link_same_hash [OF q(2) r(2)] by auto
      from snoc.IH [OF q(1), of es'] r(1) v(2) show ?thesis by (auto simp: es v(1))
    next
      case False
      then show ?thesis using link_hash [OF q(2)] link_hash [OF r(2)] es by auto
    qed
  qed
qed

text \<open>C23. Tampering is evident against an anchored head: two files that both verify against the same
  head hold the same entries in the same order, each with the same fields and the same hash (whatever
  the attacker wrote between), unless the two files themselves exhibit a break of SHA-256: an entry of the one and an
  entry of the other whose hashed texts differ and have the same hash, or an entry of either whose hashed text has the
  genesis value as its hash. So removing, adding, changing or reordering entries of a log is detected.\<close>

theorem anchored_head_fixes_log:
  assumes "verify_chain sha (Some file) (Some head) = Inr n" and "verify_chain sha (Some file') (Some head) = Inr m"
  shows "(\<exists>ds ds'. line_objects file = Some ds \<and> line_objects file' = Some ds' \<and>
             map entry_view ds = map entry_view ds')
         \<or> (\<exists>x \<in> set (hashed_texts file). \<exists>y \<in> set (hashed_texts file'). x \<noteq> y \<and> sha x = sha y)
         \<or> (\<exists>x \<in> set (hashed_texts file) \<union> set (hashed_texts file'). sha x = genesis)"
proof -
  have "\<exists>ds. line_objects raws = Some ds \<and> linked sha genesis ds head"
    if "verify_chain sha (Some raws) (Some head) = Inr k" for raws k
    using that verify_lines_linked [of sha 1 genesis 0 raws]
    by (auto simp: verify_chain_def split: sum.splits if_splits)
  then obtain ds ds' where d: "line_objects file = Some ds" "linked sha genesis ds head"
    and d': "line_objects file' = Some ds'" "linked sha genesis ds' head" using assms by meson
  then have t: "set (hashed_texts file) = hashed_text ` set ds" "set (hashed_texts file') = hashed_text ` set ds'"
    by (simp_all add: hashed_texts_def)
  show ?thesis
    using linked_same_head [OF d(2) d'(2)] d(1) d'(1) unfolding t by (auto simp del: image_eqI)
qed

definition toy_sha :: "str \<Rightarrow> str" where
  "toy_sha s = take 64 (map (\<lambda>c. 97 + c mod 16) s @ replicate 64 98)"

definition toy_call :: audit_call where
  "toy_call = \<lparr>ac_entry_id = ascii ''e1'', ac_now = JFloat 15 1, ac_method = ascii ''tools/call'',
     ac_session_id = ascii ''s'', ac_params = [], ac_parent_id = None, ac_event = None\<rparr>"

lemma toy_facts: "call_ok toy_call" "str_ok (toy_sha x)"
proof -
  show "call_ok toy_call" by (simp add: call_ok_def toy_call_def high_surrogate_def)
  have "str_ok s" if "\<forall>c \<in> set s. c < 128" for s
    using that by (induction s) (auto simp: high_surrogate_def)
  moreover have "\<forall>c \<in> set (toy_sha x). c < 128" by (auto simp: toy_sha_def dest!: in_set_takeD)
  ultimately show "str_ok (toy_sha x)" by blast
qed

definition toy_logger :: audit_logger where
  "toy_logger = \<lparr>al_file = None, al_prev_hash = JStr genesis, al_entry_count = 0\<rparr>"

theorem logged_chain_verifies_witness:
  "\<exists>head. verify_chain toy_sha (al_file (log_all toy_sha (\<lambda>c. True) (\<lambda>v. []) [toy_call, toy_call] toy_logger)) (Some head)
            = Inr 2"
proof -
  have "new_audit_logger None = Some toy_logger" by (simp add: new_audit_logger_def toy_logger_def)
  from logged_chain_verifies [OF this, of "[toy_call, toy_call]" toy_sha "\<lambda>v. []" "\<lambda>c. True"] toy_facts
  show ?thesis by (auto simp: numeral_2_eq_2)
qed

text \<open>A file and the same file with a blank line behind it.\<close>

theorem anchored_head_fixes_log_witness:
  "\<exists>raws head. verify_chain toy_sha (Some raws) (Some head) = Inr 1 \<and> verify_chain toy_sha (Some (raws @ [[]])) (Some head) = Inr 1 \<and>
     ((\<exists>ds ds'. line_objects raws = Some ds \<and> line_objects (raws @ [[]]) = Some ds' \<and> map entry_view ds = map entry_view ds')
      \<or> (\<exists>x \<in> set (hashed_texts raws). \<exists>y \<in> set (hashed_texts (raws @ [[]])). x \<noteq> y \<and> toy_sha x = toy_sha y)
      \<or> (\<exists>x \<in> set (hashed_texts raws) \<union> set (hashed_texts (raws @ [[]])). toy_sha x = genesis))"
proof -
  let ?lg = "snd (audit_log toy_sha (\<lambda>c. True) (\<lambda>v. []) toy_call toy_logger)"
  have "chain_ok toy_sha toy_logger" by (rule new_logger_chain) (simp add: new_audit_logger_def toy_logger_def)
  from audit_log_chain [OF this toy_facts(1)] toy_facts(2)
  have c: "chain_ok toy_sha ?lg" "al_entry_count ?lg = 1" by (auto simp: toy_logger_def)
  then obtain head raws where r: "al_file ?lg = Some raws \<and> raws \<noteq> [] \<and> verify_lines toy_sha 1 genesis 0 raws = Inr (head, 1)"
    by (auto simp: chain_ok_def file_lines_def split: option.splits)
  have "read_line [] = LineBlank" by (simp add: read_line_def utf8_decode.simps py_strip_def)
  with r have v: "verify_chain toy_sha (Some raws) (Some head) = Inr 1" "verify_chain toy_sha (Some (raws @ [[]])) (Some head) = Inr 1"
    by (auto simp: verify_chain_def verify_lines_append)
  from anchored_head_fixes_log [OF v] v show ?thesis by blast
qed

end
