(* ===== verification/Integrity.thy ===== *)
theory Integrity
  imports Json_Facts
begin

text \<open>
  \<open>middleware/integrity.py\<close>: edit distance, typosquat and shadowing detection, manifest drift.
  A tool is the dictionary of its definition; a name that is not a string makes the detectors raise
  (\<open>None\<close>). SHA-256 as hex digits is the argument \<open>sha\<close>, Unicode \<open>str.lower\<close> the argument \<open>lower\<close>;
  a \<open>frozenset\<close> that is iterated is the list of its elements in iteration order.
\<close>

section \<open>Edit distance\<close>

text \<open>One row of the table: \<open>left\<close> is the entry just written, the list is the previous row from \<open>j - 1\<close> on.\<close>

fun row_from :: "'a \<Rightarrow> nat \<Rightarrow> nat list \<Rightarrow> 'a list \<Rightarrow> nat list" where
  "row_from ca left (diag # up # prev) (cb # b) =
     (let c = min (min (up + 1) (left + 1)) (diag + (if ca = cb then 0 else 1))
      in c # row_from ca c (up # prev) b)"
| "row_from ca left prev b = []"

fun lev_rows :: "nat \<Rightarrow> nat list \<Rightarrow> 'a list \<Rightarrow> 'a list \<Rightarrow> nat list" where
  "lev_rows i prev [] b = prev"
| "lev_rows i prev (ca # a) b = lev_rows (i + 1) (i # row_from ca i prev b) a b"

definition levenshtein :: "'a list \<Rightarrow> 'a list \<Rightarrow> nat" where
  "levenshtein a b =
     (if a = b then 0
      else if a = [] then length b
      else if b = [] then length a
      else lev_rows 1 [0..<length b + 1] a b ! length b)"

text \<open>The reference: an alignment of two strings and its cost in insertions, deletions and substitutions.\<close>

inductive edits :: "'a list \<Rightarrow> 'a list \<Rightarrow> nat \<Rightarrow> bool" where
  finish: "edits [] [] 0"
| keep: "edits a b n \<Longrightarrow> edits (x # a) (x # b) n"
| subst: "edits a b n \<Longrightarrow> edits (x # a) (y # b) (Suc n)"
| del: "edits a b n \<Longrightarrow> edits (x # a) b (Suc n)"
| ins: "edits a b n \<Longrightarrow> edits a (y # b) (Suc n)"

fun dist :: "'a list \<Rightarrow> 'a list \<Rightarrow> nat" where
  "dist [] b = length b"
| "dist a [] = length a"
| "dist (x # a) (y # b) =
     min (min (dist a (y # b) + 1) (dist (x # a) b + 1)) (dist a b + (if x = y then 0 else 1))"

lemma edits_Nil: "edits [] b (length b)" "edits a [] (length a)"
proof -
  show "edits [] b (length b)" by (induction b) (auto intro: edits.intros)
  show "edits a [] (length a)" by (induction a) (auto intro: edits.intros)
qed

lemma dist_Nil2 [simp]: "dist a [] = length a"
  by (cases a) auto

lemma dist_edits: "edits a b (dist a b)"
proof (induction a b rule: dist.induct)
  case (1 b)
  show ?case by (simp add: edits_Nil)
next
  case (2 x a)
  show ?case using edits_Nil(2) [of "x # a"] by simp
next
  case (3 x a y b)
  then show ?case by (auto simp: min_def intro: edits.intros)
qed

lemma dist_Cons1: "dist (x # a) b \<le> dist a b + 1"
  by (cases b) simp_all

lemma dist_Cons2: "dist a (y # b) \<le> dist a b + 1"
  by (cases a) simp_all

lemma dist_least: "edits a b n \<Longrightarrow> dist a b \<le> n"
proof (induction rule: edits.induct)
  case (keep a b n x)
  then show ?case by simp
next
  case (subst a b n x y)
  have "dist (x # a) (y # b) \<le> dist a b + (if x = y then 0 else 1)" by simp
  then show ?case using subst.IH by (simp only: split: if_splits)
next
  case (del a b n x)
  then show ?case using dist_Cons1 [of x a b] by simp
next
  case (ins a b n y)
  then show ?case using dist_Cons2 [of a y b] by simp
qed simp

lemma edits_snoc:
  assumes "edits a b n"
  shows "edits (a @ [x]) (b @ [x]) n" and "edits (a @ [x]) (b @ [y]) (Suc n)"
    and "edits (a @ [x]) b (Suc n)" and "edits a (b @ [y]) (Suc n)"
  using assms by (induction rule: edits.induct) (auto intro: edits.intros)

lemma edits_rev: "edits (rev a) (rev b) n \<longleftrightarrow> edits a b n"
proof -
  have "edits a b n \<Longrightarrow> edits (rev a) (rev b) n" for a b :: "'a list"
    by (induction rule: edits.induct) (auto intro: edits.intros edits_snoc)
  from this [of a b] this [of "rev a" "rev b"] show ?thesis by auto
qed

text \<open>The row of the table for a prefix of \<open>a\<close>: its distance to every prefix of \<open>b\<close>.\<close>

definition table_row :: "'a list \<Rightarrow> 'a list \<Rightarrow> nat list" where
  "table_row p b = map (\<lambda>j. dist (rev p) (rev (take j b))) [0..<length b + 1]"

definition row_tail :: "'a list \<Rightarrow> 'a list \<Rightarrow> 'a list \<Rightarrow> nat list" where
  "row_tail p q b = map (\<lambda>j. dist (rev p) (rev (q @ take j b))) [0..<length b + 1]"

lemma row_tail_simps:
  "row_tail p q [] = [dist (rev p) (rev q)]"
  "row_tail p q (c # b) = dist (rev p) (rev q) # row_tail p (q @ [c]) b"
proof -
  have u: "[0..<length (c # b) + 1] = 0 # map Suc [0..<length b + 1]" by (simp add: map_Suc_upt upt_conv_Cons del: upt_Suc)
  show "row_tail p q [] = [dist (rev p) (rev q)]" by (simp add: row_tail_def)
  show "row_tail p q (c # b) = dist (rev p) (rev q) # row_tail p (q @ [c]) b"
    unfolding row_tail_def u by (simp del: upt_Suc)
qed

lemma row_tail_hd: "\<exists>r. row_tail p q b = dist (rev p) (rev q) # r"
  by (cases b) (simp_all add: row_tail_simps)

lemma row_from_table:
  "row_from c (dist (rev (p @ [c])) (rev q)) (row_tail p q b) b = tl (row_tail (p @ [c]) q b)"
proof (induction b arbitrary: q)
  case (Cons d b)
  obtain r where r: "row_tail p (q @ [d]) b = dist (rev p) (rev (q @ [d])) # r" using row_tail_hd by blast
  obtain r' where r': "row_tail (p @ [c]) (q @ [d]) b = dist (rev (p @ [c])) (rev (q @ [d])) # r'" using row_tail_hd by blast
  have "min (min (dist (rev p) (rev (q @ [d])) + 1) (dist (rev (p @ [c])) (rev q) + 1))
      (dist (rev p) (rev q) + (if c = d then 0 else 1)) = dist (rev (p @ [c])) (rev (q @ [d]))" by simp
  then show ?case using Cons.IH [of "q @ [d]"] unfolding row_tail_simps r r' by (simp add: Let_def del: dist.simps)
qed (simp add: row_tail_simps)

lemma table_row_tail: "table_row p b = row_tail p [] b"
  by (simp add: table_row_def row_tail_def)

lemma lev_rows_table: "length p + 1 = i \<Longrightarrow> lev_rows i (table_row p b) a b = table_row (p @ a) b"
proof (induction a arbitrary: i p)
  case (Cons c a)
  have "dist (rev (p @ [c])) (rev []) = i" using Cons.prems by simp
  then have "i # row_from c i (table_row p b) b = table_row (p @ [c]) b"
    using row_from_table [of c p "[]" b] row_tail_hd [of "p @ [c]" "[]" b] unfolding table_row_tail by force
  then show ?case using Cons.IH [of "p @ [c]" "i + 1"] Cons.prems by simp
qed simp

lemma levenshtein_dist: "levenshtein a b = dist (rev a) (rev b)"
proof -
  have refl: "dist x x = 0" for x :: "'a list" by (induction x) auto
  have "table_row [] b = [0..<length b + 1]"
    unfolding table_row_def by (rule map_idI) auto
  then have "lev_rows 1 [0..<length b + 1] a b = table_row a b" using lev_rows_table [of "[]" 1 b a] by simp
  moreover have "table_row a b ! length b = dist (rev a) (rev b)" unfolding table_row_def by (simp del: upt_Suc)
  ultimately show ?thesis by (auto simp: levenshtein_def refl)
qed

lemma levenshtein_edits: "edits a b (levenshtein a b)" "edits a b n \<Longrightarrow> levenshtein a b \<le> n"
  using dist_edits [of "rev a" "rev b"] dist_least [of "rev a" "rev b" n] by (simp_all add: levenshtein_dist edits_rev)

text \<open>C24. The two-row table computes the edit distance: the result of \<open>levenshtein\<close> is the cost of some
  alignment of the two strings, and no alignment costs less.\<close>

theorem levenshtein_is_edit_distance:
  "levenshtein a b = (LEAST n. edits a b n) \<and> edits a b (levenshtein a b)"
  by (metis (no_types, lifting) LeastI Least_le antisym levenshtein_edits)

lemma levenshtein_swapped: "levenshtein (ascii ''serach'') (ascii ''search'') = 2"
  by (simp add: levenshtein_def)

section \<open>Reference names\<close>

definition well_known_mcp_tools :: "str list" where
  "well_known_mcp_tools = map ascii
     [''read_file'', ''read_text_file'', ''read_media_file'', ''write_file'', ''edit_file'',
      ''list_directory'', ''create_directory'', ''directory_tree'', ''move_file'',
      ''search_files'', ''get_file_info'', ''list_allowed_directories'',
      ''fetch'', ''search'', ''search_repositories'', ''create_issue'', ''create_pull_request'',
      ''get_file_contents'', ''list_commits'', ''create_or_update_file'',
      ''read_query'', ''write_query'', ''create_table'', ''list_tables'', ''describe_table'',
      ''get_current_time'', ''convert_time'', ''sequentialthinking'']"

definition standard_mcp_methods :: "str list" where
  "standard_mcp_methods = map ascii
     [''initialize'', ''ping'', ''tools/list'', ''tools/call'',
      ''resources/list'', ''resources/read'', ''resources/templates/list'',
      ''resources/subscribe'', ''resources/unsubscribe'',
      ''prompts/list'', ''prompts/get'', ''completion/complete'',
      ''logging/setlevel'', ''roots/list'', ''sampling/createmessage'',
      ''notifications/initialized'', ''notifications/cancelled'',
      ''server/discover'', ''subscriptions/listen'']"

text \<open>The Cyrillic and Greek look-alikes, by code point.\<close>

definition homoglyphs :: "(nat \<times> nat) list" where
  "homoglyphs =
     [(1072, 97), (1077, 101), (1086, 111), (1088, 112), (1089, 99), (1093, 120), (1091, 121), (1109, 115),
      (1110, 105), (1112, 106), (1281, 100), (1400, 110), (1084, 109), (1090, 116), (1082, 107), (1074, 98),
      (1085, 104), (1075, 114), (959, 111), (961, 112), (945, 97), (949, 101), (953, 105), (957, 118), (964, 116)]"

definition fold_with :: "(nat \<times> nat) list \<Rightarrow> str \<Rightarrow> str" where
  "fold_with table s = map (\<lambda>c. case map_of table c of None \<Rightarrow> c | Some d \<Rightarrow> d) s"

definition fold_homoglyphs :: "str \<Rightarrow> str" where
  "fold_homoglyphs nm = fold_with homoglyphs nm"

section \<open>Typosquats and shadowing\<close>

datatype squat_severity = SquatHigh | SquatMedium

record typosquat_finding =
  tq_tool_name :: str
  tq_closest_match :: str
  tq_distance :: nat
  tq_severity :: squat_severity

definition tool_name_of :: "(str \<times> json) list \<Rightarrow> str option" where
  "tool_name_of tool =
     (case map_of tool (ascii ''name'') of None \<Rightarrow> Some [] | Some (JStr s) \<Rightarrow> Some s | Some _ \<Rightarrow> None)"

text \<open>The scan for the closest name: a candidate replaces the best so far only if it is closer.\<close>

fun closest :: "(str \<Rightarrow> nat) \<Rightarrow> nat \<Rightarrow> str list \<Rightarrow> nat \<Rightarrow> str \<Rightarrow> nat \<times> str" where
  "closest d limit [] best_dist best_match = (best_dist, best_match)"
| "closest d limit (w # ws) best_dist best_match =
     (if d w \<le> limit \<and> d w < best_dist then closest d limit ws (d w) w
      else closest d limit ws best_dist best_match)"

fun squat_findings :: "nat \<Rightarrow> str list \<Rightarrow> (str \<times> json) list list \<Rightarrow> typosquat_finding list option" where
  "squat_findings max_distance active [] = Some []"
| "squat_findings max_distance active (tool # tools) =
     (case tool_name_of tool of None \<Rightarrow> None
      | Some nm \<Rightarrow>
          if nm \<in> set active then squat_findings max_distance active tools
          else
            (case closest (\<lambda>w. levenshtein (fold_homoglyphs nm) (fold_homoglyphs w)) max_distance active
                    (max_distance + 1) [] of (best_dist, best_match) \<Rightarrow>
               if best_match = [] then squat_findings max_distance active tools
               else map_option ((#)
                      \<lparr>tq_tool_name = nm, tq_closest_match = best_match, tq_distance = best_dist,
                       tq_severity = (if best_dist \<le> 1 then SquatHigh else SquatMedium)\<rparr>)
                      (squat_findings max_distance active tools)))"

definition check_typosquats :: "(str \<times> json) list list \<Rightarrow> str list \<Rightarrow> nat \<Rightarrow> bool \<Rightarrow> typosquat_finding list option" where
  "check_typosquats tools allowlist max_distance use_reference =
     (if allowlist \<noteq> [] then squat_findings max_distance allowlist tools
      else if use_reference then squat_findings max_distance (sort well_known_mcp_tools) tools
      else Some [])"

fun check_shadowing :: "(str \<Rightarrow> str) \<Rightarrow> nat \<Rightarrow> (str \<times> json) list list \<Rightarrow> typosquat_finding list option" where
  "check_shadowing lower max_distance [] = Some []"
| "check_shadowing lower max_distance (tool # tools) =
     (case tool_name_of tool of None \<Rightarrow> None
      | Some nm \<Rightarrow>
          (case closest (\<lambda>w. levenshtein (lower (fold_homoglyphs nm)) w) max_distance standard_mcp_methods
                  (max_distance + 1) [] of (best_dist, best_match) \<Rightarrow>
             if best_match = [] then check_shadowing lower max_distance tools
             else map_option ((#)
                    \<lparr>tq_tool_name = nm, tq_closest_match = best_match, tq_distance = best_dist,
                     tq_severity = SquatHigh\<rparr>)
                    (check_shadowing lower max_distance tools)))"

text \<open>What the scan returns: a nearest candidate within the limit, if there is one.\<close>

lemma closest_spec:
  assumes "closest d limit ws (limit + 1) [] = (n, m)" and "[] \<notin> set ws"
  shows "m \<noteq> [] \<longleftrightarrow> (\<exists>w \<in> set ws. d w \<le> limit)"
    and "m \<noteq> [] \<Longrightarrow> m \<in> set ws \<and> n = d m \<and> n \<le> limit \<and> (\<forall>w \<in> set ws. n \<le> d w)"
proof -
  have "closest d limit ws b mt = (n, m) \<Longrightarrow> [] \<notin> set ws \<Longrightarrow> b \<le> limit + 1 \<Longrightarrow>
      (m = mt \<and> n = b \<and> (\<forall>w \<in> set ws. b \<le> d w)) \<or>
      (m \<in> set ws \<and> n = d m \<and> n < b \<and> n \<le> limit \<and> (\<forall>w \<in> set ws. n \<le> d w))" for b mt
  proof (induction ws arbitrary: b mt)
    case (Cons w ws)
    show ?case
    proof (cases "d w \<le> limit \<and> d w < b")
      case True
      then show ?thesis using Cons.IH [of "d w" w] Cons.prems by auto
    next
      case False
      then show ?thesis using Cons.IH [of b mt] Cons.prems by fastforce
    qed
  qed simp
  from this [OF assms(1,2)] have c: "(m = [] \<and> (\<forall>w \<in> set ws. limit + 1 \<le> d w)) \<or>
      (m \<in> set ws \<and> n = d m \<and> n \<le> limit \<and> (\<forall>w \<in> set ws. n \<le> d w))" by auto
  show "m \<noteq> [] \<longleftrightarrow> (\<exists>w \<in> set ws. d w \<le> limit)" using c assms(2) by force
  show "m \<noteq> [] \<Longrightarrow> m \<in> set ws \<and> n = d m \<and> n \<le> limit \<and> (\<forall>w \<in> set ws. n \<le> d w)" using c by auto
qed

text \<open>The names that are reported, in order: those outside the list within the distance of one on it.\<close>

lemma squat_findings_names:
  assumes "squat_findings limit active tools = Some fs" and "[] \<notin> set active"
  shows "map tq_tool_name fs =
           filter (\<lambda>nm. nm \<notin> set active \<and>
                        (\<exists>w \<in> set active. levenshtein (fold_homoglyphs nm) (fold_homoglyphs w) \<le> limit))
             (map (the \<circ> tool_name_of) tools)"
  using assms(1)
proof (induction tools arbitrary: fs)
  case (Cons tool tools)
  obtain nm where nm: "tool_name_of tool = Some nm" using Cons.prems by (auto split: option.splits)
  obtain n m where c: "closest (\<lambda>w. levenshtein (fold_homoglyphs nm) (fold_homoglyphs w)) limit active (limit + 1) [] = (n, m)"
    by fastforce
  show ?case
    using Cons nm c closest_spec(1) [OF c assms(2)] by (auto split: if_splits)
qed simp

section \<open>Manifest drift\<close>

record manifest_drift =
  md_added :: "str list"
  md_removed :: "str list"

text \<open>The baseline is the sorted list of the distinct names, and its hash.\<close>

definition names_set :: "str list \<Rightarrow> str list" where
  "names_set ns = remdups (sort ns)"

definition store_names :: "(str \<Rightarrow> str) \<Rightarrow> str list \<Rightarrow> str list \<times> str" where
  "store_names sha ns = (names_set ns, sha (dumps [44, 32] [58, 32] (JList (map JStr (names_set ns)))))"

text \<open>\<open>None\<close> is the \<open>RuntimeError\<close> of a check without a baseline.\<close>

definition check_name_drift :: "(str list \<times> str) option \<Rightarrow> str list \<Rightarrow> manifest_drift option option" where
  "check_name_drift baseline ns =
     (case baseline of None \<Rightarrow> None
      | Some (base, h) \<Rightarrow>
          (let added = filter (\<lambda>n. n \<notin> set base) (names_set ns);
               removed = filter (\<lambda>n. n \<notin> set ns) base
           in Some (if added \<noteq> [] \<or> removed \<noteq> [] then Some \<lparr>md_added = added, md_removed = removed\<rparr> else None)))"

text \<open>Drift is exact: against a stored baseline, no drift is reported exactly when the set of tool
  names is unchanged, and a report lists in order, without repetition, exactly the new names and
  exactly the missing ones.\<close>

theorem name_drift_exact:
  "case check_name_drift (Some (store_names sha old)) new of
     None \<Rightarrow> False
   | Some None \<Rightarrow> set new = set old
   | Some (Some dr) \<Rightarrow> set new \<noteq> set old \<and> set (md_added dr) = set new - set old \<and> set (md_removed dr) = set old - set new
       \<and> sorted_wrt (<) (md_added dr) \<and> sorted_wrt (<) (md_removed dr)"
proof -
  have s: "sorted_wrt (<) (filter P (names_set ns))" for P ns
  proof -
    have "sorted (filter P (names_set ns))" "distinct (filter P (names_set ns))"
      by (simp_all add: names_set_def sorted_filter [of id, simplified] sorted_remdups)
    then show ?thesis by (simp add: strict_sorted_iff)
  qed
  have set: "set (names_set ns) = set ns" for ns by (simp add: names_set_def)
  show ?thesis
    by (auto simp: check_name_drift_def store_names_def Let_def s set filter_empty_conv)
qed

end
