(* ===== verification/Supply_Chain.thy ===== *)
theory Supply_Chain
  imports Integrity
begin

text \<open>
  \<open>middleware/supply_chain.py\<close>: the tool allow-list with typosquat detection, and the verification of
  registry signatures. The allow-list is the list of its names in iteration order, Ed25519 verification
  and Python's \<open>str\<close> of a value that is no string are arguments.
\<close>

datatype violation_reason = NotInAllowlist | Typosquat

record allowlist_violation =
  av_tool_name :: str
  av_reason :: violation_reason
  av_closest_match :: str
  av_distance :: nat

definition text_name :: "(json \<Rightarrow> str) \<Rightarrow> (str \<times> json) list \<Rightarrow> str" where
  "text_name repr tool =
     (case map_of tool (ascii ''name'') of None \<Rightarrow> [] | Some (JStr s) \<Rightarrow> s | Some v \<Rightarrow> repr v)"

text \<open>The scan starts from the sentinel 2, so only a distance of at most 1 replaces it.\<close>

fun nearest :: "str \<Rightarrow> str list \<Rightarrow> nat \<Rightarrow> str \<Rightarrow> nat \<times> str" where
  "nearest nm [] best_dist best_match = (best_dist, best_match)"
| "nearest nm (w # ws) best_dist best_match =
     (if levenshtein nm w < best_dist then nearest nm ws (levenshtein nm w) w
      else nearest nm ws best_dist best_match)"

definition allowlist_violation_of :: "str list \<Rightarrow> str \<Rightarrow> allowlist_violation" where
  "allowlist_violation_of allowlist nm =
     (case nearest nm allowlist 2 [] of (best_dist, best_match) \<Rightarrow>
        if best_match \<noteq> []
        then \<lparr>av_tool_name = nm, av_reason = Typosquat, av_closest_match = best_match, av_distance = best_dist\<rparr>
        else \<lparr>av_tool_name = nm, av_reason = NotInAllowlist, av_closest_match = [], av_distance = 0\<rparr>)"

definition allowlist_check :: "(json \<Rightarrow> str) \<Rightarrow> str list \<Rightarrow> (str \<times> json) list list \<Rightarrow> allowlist_violation list" where
  "allowlist_check repr allowlist tools =
     (if allowlist = [] then []
      else map (allowlist_violation_of allowlist)
             (filter (\<lambda>nm. nm \<notin> set allowlist) (map (text_name repr) tools)))"

text \<open>\<open>SupplyChainError\<close> carries the violations.\<close>

definition check_tools :: "(json \<Rightarrow> str) \<Rightarrow> str list \<Rightarrow> (str \<times> json) list list \<Rightarrow> allowlist_violation list + unit" where
  "check_tools repr allowlist tools =
     (let vs = allowlist_check repr allowlist tools in if vs \<noteq> [] then Inl vs else Inr ())"

section \<open>Signatures\<close>

datatype signature_error = NoVerifier | InvalidSignature str

definition canonical_bytes :: "(str \<times> json) list \<Rightarrow> byte list" where
  "canonical_bytes tool = map byte_of (canonical (JDict tool))"

definition verify_tool_signature :: "(json \<Rightarrow> str) \<Rightarrow> (byte list \<Rightarrow> byte list \<Rightarrow> bool) option \<Rightarrow> (str \<times> json) list \<Rightarrow>
    byte list \<Rightarrow> signature_error + unit" where
  "verify_tool_signature repr verifier tool signature =
     (case verifier of None \<Rightarrow> Inl NoVerifier
      | Some ed25519 \<Rightarrow>
          if ed25519 signature (canonical_bytes tool) then Inr ()
          else Inl (InvalidSignature
                 (case map_of tool (ascii ''name'') of None \<Rightarrow> ascii ''<unknown>'' | Some (JStr s) \<Rightarrow> s | Some v \<Rightarrow> repr v)))"

section \<open>Properties\<close>

lemma nearest_spec:
  assumes "nearest nm ws 2 [] = (n, m)" and "[] \<notin> set ws"
  shows "m \<noteq> [] \<longleftrightarrow> (\<exists>w \<in> set ws. levenshtein nm w \<le> 1)"
    and "m \<noteq> [] \<Longrightarrow> m \<in> set ws \<and> n = levenshtein nm m \<and> (\<forall>w \<in> set ws. n \<le> levenshtein nm w)"
proof -
  have "nearest nm ws b m' = closest (levenshtein nm) 1 ws b m'" if "b \<le> 2" for b m'
    using that by (induction ws arbitrary: b m') auto
  then have c: "closest (levenshtein nm) 1 ws (1 + 1) [] = (n, m)" using assms(1) by (simp add: numeral_2_eq_2)
  show "m \<noteq> [] \<longleftrightarrow> (\<exists>w \<in> set ws. levenshtein nm w \<le> 1)" using closest_spec(1) [OF c assms(2)] .
  show "m \<noteq> [] \<Longrightarrow> m \<in> set ws \<and> n = levenshtein nm m \<and> (\<forall>w \<in> set ws. n \<le> levenshtein nm w)"
    using closest_spec(2) [OF c assms(2)] by auto
qed

lemma levenshtein_zero: "levenshtein a b = 0 \<longleftrightarrow> a = b"
proof -
  have e: "x = y" if "edits x y n" "n = 0" for x y :: "'a list" and n using that by (induction rule: edits.induct) auto
  have "levenshtein a a = 0" by (simp add: levenshtein_def)
  then show ?thesis using e [OF levenshtein_edits(1) [of a b]] by auto
qed

text \<open>C25. The allow-list is enforced: with a non-empty list the manifest passes only if every tool's
  name is on it; otherwise the error names each other tool, in order, as a typosquat exactly when it is
  one edit away from an allowed name, and then with such a name.\<close>

theorem allowlist_enforced:
  assumes "allowlist \<noteq> []" and "[] \<notin> set allowlist"
  shows "case check_tools repr allowlist tools of
           Inr _ \<Rightarrow> set (map (text_name repr) tools) \<subseteq> set allowlist
         | Inl vs \<Rightarrow>
             map av_tool_name vs = filter (\<lambda>nm. nm \<notin> set allowlist) (map (text_name repr) tools) \<and> vs \<noteq> [] \<and>
             (\<forall>v \<in> set vs.
                (av_reason v = Typosquat \<longleftrightarrow> (\<exists>w \<in> set allowlist. levenshtein (av_tool_name v) w = 1)) \<and>
                (av_reason v = Typosquat \<longrightarrow> av_closest_match v \<in> set allowlist \<and> av_distance v = 1 \<and>
                   levenshtein (av_tool_name v) (av_closest_match v) = 1))"
proof -
  have v: "av_tool_name (allowlist_violation_of allowlist nm) = nm" for nm
    by (simp add: allowlist_violation_of_def split: prod.split)
  have q: "(av_reason (allowlist_violation_of allowlist nm) = Typosquat \<longleftrightarrow> (\<exists>w \<in> set allowlist. levenshtein nm w = 1)) \<and>
      (av_reason (allowlist_violation_of allowlist nm) = Typosquat \<longrightarrow>
         av_closest_match (allowlist_violation_of allowlist nm) \<in> set allowlist \<and>
         av_distance (allowlist_violation_of allowlist nm) = 1 \<and>
         levenshtein nm (av_closest_match (allowlist_violation_of allowlist nm)) = 1)"
    if out: "nm \<notin> set allowlist" for nm
  proof -
    obtain n m where c: "nearest nm allowlist 2 [] = (n, m)" by fastforce
    have pos: "\<forall>w \<in> set allowlist. levenshtein nm w \<noteq> 0" using out by (auto simp: levenshtein_zero)
    then have one: "(\<exists>w \<in> set allowlist. levenshtein nm w \<le> 1) \<longleftrightarrow> (\<exists>w \<in> set allowlist. levenshtein nm w = 1)"
      by (metis One_nat_def le_0_eq le_Suc_eq order_refl)
    show ?thesis
    proof (cases "m = []")
      case True
      then show ?thesis using nearest_spec(1) [OF c assms(2)] one c by (simp add: allowlist_violation_of_def)
    next
      case False
      note s = nearest_spec(2) [OF c assms(2) False]
      obtain w where w: "w \<in> set allowlist" "levenshtein nm w = 1" using nearest_spec(1) [OF c assms(2)] False one by auto
      then have "n \<le> 1" "n \<noteq> 0" using s pos by force+
      then have "n = 1" by simp
      then show ?thesis using s c False w by (auto simp: allowlist_violation_of_def)
    qed
  qed
  have eq: "map av_tool_name (map (allowlist_violation_of allowlist) ns) = ns" for ns by (simp add: comp_def v map_idI)
  show ?thesis
    unfolding check_tools_def allowlist_check_def Let_def if_not_P [OF assms(1)]
    using eq q v by (auto simp: filter_empty_conv simp del: map_map)
qed

theorem allowlist_enforced_witness:
  "\<exists>vs. check_tools (\<lambda>v. []) [ascii ''search''] [[(ascii ''name'', JStr (ascii ''seorch''))]] = Inl vs \<and>
     av_reason (hd vs) = Typosquat"
proof -
  have lev: "levenshtein (ascii ''seorch'') (ascii ''search'') = 1" by (simp add: levenshtein_def)
  let ?t = "[[(ascii ''name'', JStr (ascii ''seorch''))]]"
  have "text_name (\<lambda>v. []) (hd ?t) = ascii ''seorch''" by (simp add: text_name_def)
  then have nm: "map (text_name (\<lambda>v. [])) ?t = [ascii ''seorch'']" "text_name (\<lambda>v. []) (hd ?t) = ascii ''seorch''"
    by (simp_all del: ascii_simps)
  have "check_tools (\<lambda>v. []) [ascii ''search''] ?t \<noteq> Inr ()"
    unfolding check_tools_def allowlist_check_def nm by (simp del: ascii_simps)
  then obtain vs where c: "check_tools (\<lambda>v. []) [ascii ''search''] ?t = Inl vs" by (cases "check_tools (\<lambda>v. []) [ascii ''search''] ?t") auto
  have "[ascii ''search''] \<noteq> []" "[] \<notin> set [ascii ''search'']" by auto
  from allowlist_enforced [OF this, of "\<lambda>v. []" ?t] lev show ?thesis unfolding c nm
    by (cases vs) (auto simp del: ascii_simps)
qed

text \<open>Signatures cover the whole definition: if a verifier accepts only what was issued, then a tool
  definition that passes under the signature of an issued definition is that definition, up to
  the order of its keys.\<close>

lemma signature_binds_definition:
  assumes "verify_tool_signature repr (Some ed25519) tool signature = Inr ()"
    and "\<forall>msg. ed25519 signature msg \<longrightarrow> msg = canonical_bytes issued"
    and "json_ok (JDict tool)" and "json_ok (JDict issued)"
  shows "sorted_json (JDict tool) = sorted_json (JDict issued)"
proof -
  have "ed25519 signature (canonical_bytes tool)"
    using assms(1) by (simp add: verify_tool_signature_def split: if_splits)
  then have "map byte_of (canonical (JDict tool)) = map byte_of (canonical (JDict issued))"
    using assms(2) by (simp add: canonical_bytes_def)
  moreover have "utf8_decode (map byte_of (canonical v)) = Some (canonical v)" for v
    by (rule utf8_decode_ascii) (rule dumps_ascii; simp)
  ultimately have "canonical (JDict tool) = canonical (JDict issued)" by (metis option.inject)
  then show ?thesis by (rule canonical_inj [OF assms(3,4)])
qed

end
