(* ===== verification/Jwt_Session.thy ===== *)
theory Jwt_Session
  imports Jti_Cache Meta_Identity
begin

text \<open>
  \<open>middleware/session.py\<close>: bearer tokens and DPoP proofs. What \<open>joserfc\<close> verifies is the argument
  \<open>decode\<close>: the header and the claims of a token whose signature checks under a key, \<open>None\<close> when it
  raises. The wall clock is \<open>now\<close>, the monotonic clock of the jti cache is \<open>tick\<close>. Python's \<open>str\<close> of
  a value, \<open>float\<close> of a string, Unicode upper-casing and SHA-256 are arguments. The rejections are the
  constructors of \<open>session_error\<close>; \<open>OtherException\<close> is any exception that is not a
  \<open>SessionValidationError\<close>, such as the \<open>TypeError\<close> of comparing a claim that is no number.
\<close>

datatype session_error =
    DecodeFailed
  | AlgNotAllowed
  | MissingClaim str
  | IssuerMismatch
  | AudienceMismatch
  | TokenExpired
  | NotYetValid
  | JtiReplay
  | ProofMalformed
  | ProofHeaderInvalid
  | ProofTyp
  | ProofAlg
  | ProofJwk
  | ProofSignature
  | HtmMismatch
  | HtuMismatch
  | IatMissing
  | ProofStale
  | JtiMissing
  | AthMismatch
  | OtherException

type_synonym claims = "(str \<times> json) list"

record session_manager =
  sm_issuer :: str
  sm_audience :: str
  sm_algorithms :: "str list"
  sm_clock_skew :: time
  sm_jti_cache :: "str jti_cache"

record session_claims =
  cl_subject :: str
  cl_issuer :: str
  cl_audience :: str
  cl_jti :: str
  cl_expires_at :: json
  cl_issued_at :: json
  cl_extra :: claims

definition new_session_manager :: "str \<Rightarrow> str \<Rightarrow> str list \<Rightarrow> int \<Rightarrow> time \<Rightarrow> time \<Rightarrow> session_manager" where
  "new_session_manager issuer audience algs cache_size ttl skew =
     \<lparr>sm_issuer = issuer, sm_audience = audience, sm_algorithms = algs, sm_clock_skew = skew,
      sm_jti_cache = new_jti_cache cache_size ttl\<rparr>"

section \<open>Values of claims\<close>

text \<open>A number: a rational, or one of the values that are not finite.\<close>

datatype number = Finite rat | NotFinite nonfinite

definition number_of :: "json \<Rightarrow> number option" where
  "number_of v =
     (case v of
        JInt i \<Rightarrow> Some (Finite (of_int i))
      | JBool b \<Rightarrow> Some (Finite (if b then 1 else 0))
      | JFloat m k \<Rightarrow> Some (Finite (of_int m / 10 ^ k))
      | JNonFinite x \<Rightarrow> Some (NotFinite x)
      | _ \<Rightarrow> None)"

text \<open>\<open>x > v + d\<close> and \<open>x < v - d\<close>, as IEEE comparison has them.\<close>

definition later_than :: "time \<Rightarrow> number \<Rightarrow> time \<Rightarrow> bool" where
  "later_than x v d = (case v of Finite r \<Rightarrow> x > r + d | NotFinite NegInf \<Rightarrow> True | NotFinite _ \<Rightarrow> False)"

definition earlier_than :: "time \<Rightarrow> number \<Rightarrow> time \<Rightarrow> bool" where
  "earlier_than x v d = (case v of Finite r \<Rightarrow> x < r - d | NotFinite PosInf \<Rightarrow> True | NotFinite _ \<Rightarrow> False)"

text \<open>\<open>abs(x - v) > d\<close>: false when the difference is not a number.\<close>

definition further_than :: "time \<Rightarrow> number \<Rightarrow> time \<Rightarrow> bool" where
  "further_than x v d = (case v of Finite r \<Rightarrow> \<bar>x - r\<bar> > d | NotFinite NaN \<Rightarrow> False | NotFinite _ \<Rightarrow> True)"

definition py_float :: "(str \<Rightarrow> number option) \<Rightarrow> json \<Rightarrow> number option" where
  "py_float parse v = (case v of JStr s \<Rightarrow> parse s | _ \<Rightarrow> number_of v)"

definition py_str :: "(json \<Rightarrow> str) \<Rightarrow> json \<Rightarrow> str" where
  "py_str repr v = (case v of JStr s \<Rightarrow> s | _ \<Rightarrow> repr v)"

definition claim_or :: "claims \<Rightarrow> str \<Rightarrow> json \<Rightarrow> json" where
  "claim_or cs k d = (case map_of cs k of None \<Rightarrow> d | Some v \<Rightarrow> v)"

text \<open>The audiences a token names: a string, or what \<open>set\<close> makes of an iterable; \<open>None\<close> is a \<open>TypeError\<close>.\<close>

definition aud_set :: "json \<Rightarrow> json list option" where
  "aud_set v =
     (case v of
        JStr s \<Rightarrow> Some [JStr s]
      | JList xs \<Rightarrow> if \<forall>x \<in> set xs. hashable x then Some xs else None
      | JDict ps \<Rightarrow> Some (map (JStr \<circ> fst) ps)
      | _ \<Rightarrow> None)"

section \<open>Bearer tokens\<close>

definition required_claims :: "str list" where
  "required_claims = map ascii [''iss'', ''aud'', ''exp'', ''nbf'', ''jti'', ''sub'']"

definition check_alg :: "str list \<Rightarrow> json \<Rightarrow> session_error option" where
  "check_alg allowed alg =
     (case alg of
        JStr s \<Rightarrow> if s = [] \<or> s = ascii ''none'' \<or> s \<notin> set allowed then Some AlgNotAllowed else None
      | JList [] \<Rightarrow> Some AlgNotAllowed
      | JDict [] \<Rightarrow> Some AlgNotAllowed
      | JList _ \<Rightarrow> Some OtherException
      | JDict _ \<Rightarrow> Some OtherException
      | _ \<Rightarrow> Some AlgNotAllowed)"

text \<open>The checks of the claims before the replay cache, in the order of the code.\<close>

definition check_token_claims :: "session_manager \<Rightarrow> time \<Rightarrow> claims \<Rightarrow> session_error option" where
  "check_token_claims sm now cs =
     (case filter (\<lambda>k. map_of cs k = None) required_claims of
        k # _ \<Rightarrow> Some (MissingClaim k)
      | [] \<Rightarrow>
          if claim_or cs (ascii ''iss'') JNull \<noteq> JStr (sm_issuer sm) then Some IssuerMismatch
          else (case aud_set (claim_or cs (ascii ''aud'') JNull) of None \<Rightarrow> Some OtherException
                | Some auds \<Rightarrow>
          if JStr (sm_audience sm) \<notin> set auds then Some AudienceMismatch
          else (case number_of (claim_or cs (ascii ''exp'') JNull) of None \<Rightarrow> Some OtherException
                | Some e \<Rightarrow>
          if later_than now e (sm_clock_skew sm) then Some TokenExpired
          else (case number_of (claim_or cs (ascii ''nbf'') JNull) of None \<Rightarrow> Some OtherException
                | Some n \<Rightarrow>
          if earlier_than now n (sm_clock_skew sm) then Some NotYetValid else None))))"

definition bearer_key :: "str \<Rightarrow> str" where
  "bearer_key jti = ascii ''bearer:'' @ jti"

definition dpop_key :: "str \<Rightarrow> str" where
  "dpop_key jti = ascii ''dpop:'' @ jti"

definition session_claims_of :: "(json \<Rightarrow> str) \<Rightarrow> (str \<Rightarrow> number option) \<Rightarrow> session_manager \<Rightarrow> claims \<Rightarrow>
    session_error + session_claims" where
  "session_claims_of repr parse_float sm cs =
     (if py_float parse_float (claim_or cs (ascii ''exp'') JNull) = None \<or>
         py_float parse_float (claim_or cs (ascii ''iat'') (JInt 0)) = None
      then Inl OtherException
      else Inr \<lparr>cl_subject = py_str repr (claim_or cs (ascii ''sub'') JNull),
                cl_issuer = py_str repr (claim_or cs (ascii ''iss'') JNull),
                cl_audience = sm_audience sm,
                cl_jti = py_str repr (claim_or cs (ascii ''jti'') JNull),
                cl_expires_at = claim_or cs (ascii ''exp'') JNull,
                cl_issued_at = claim_or cs (ascii ''iat'') (JInt 0),
                cl_extra = filter (\<lambda>(k, v). k \<notin> set (required_claims @ [ascii ''iat''])) cs\<rparr>)"

definition validate_token :: "(str \<Rightarrow> 'key \<Rightarrow> str list \<Rightarrow> (claims \<times> claims) option) \<Rightarrow> (json \<Rightarrow> str) \<Rightarrow>
    (str \<Rightarrow> number option) \<Rightarrow> str \<Rightarrow> 'key \<Rightarrow> time \<Rightarrow> time \<Rightarrow> session_manager \<Rightarrow>
    (session_error + session_claims) \<times> session_manager" where
  "validate_token decode repr parse_float token keyset now tick sm =
     (case decode token keyset (sm_algorithms sm) of None \<Rightarrow> (Inl DecodeFailed, sm)
      | Some (header, cs) \<Rightarrow>
          (case check_alg (sm_algorithms sm) (claim_or header (ascii ''alg'') (JStr [])) of Some e \<Rightarrow> (Inl e, sm)
           | None \<Rightarrow>
               (case check_token_claims sm now cs of Some e \<Rightarrow> (Inl e, sm)
                | None \<Rightarrow>
                    (case check_and_add (bearer_key (py_str repr (claim_or cs (ascii ''jti'') JNull))) tick (sm_jti_cache sm) of
                       (fresh, cache) \<Rightarrow>
                         (if \<not> fresh then Inl JtiReplay else session_claims_of repr parse_float sm cs,
                          sm\<lparr>sm_jti_cache := cache\<rparr>)))))"

section \<open>DPoP proofs\<close>

definition b64url_header :: "str \<Rightarrow> json option" where
  "b64url_header s =
     Option.bind (Option.bind (urlsafe_b64decode (s @ b64_pad s)) utf8_decode) loads"

definition falsy :: "json \<Rightarrow> bool" where
  "falsy v \<longleftrightarrow> v \<in> {JNull, JBool False, JStr [], JList [], JDict []} \<or> num_is v 0"

definition check_proof_header :: "claims \<Rightarrow> session_error option" where
  "check_proof_header header =
     (if claim_or header (ascii ''typ'') JNull \<noteq> JStr (ascii ''dpop+jwt'') then Some ProofTyp
      else if falsy (claim_or header (ascii ''alg'') (JStr [])) \<or>
              claim_or header (ascii ''alg'') (JStr []) = JStr (ascii ''none'') then Some ProofAlg
      else (case claim_or header (ascii ''jwk'') JNull of
              JDict jwk \<Rightarrow> if claim_or jwk (ascii ''kty'') JNull \<noteq> JStr (ascii ''OKP'') then Some ProofJwk else None
            | _ \<Rightarrow> Some ProofJwk))"

text \<open>The checks of a verified proof before the replay cache.\<close>

definition check_proof_claims :: "(str \<Rightarrow> str) \<Rightarrow> (str \<Rightarrow> number option) \<Rightarrow> str \<Rightarrow> str \<Rightarrow> time \<Rightarrow> time \<Rightarrow> claims \<Rightarrow>
    session_error option" where
  "check_proof_claims upper parse_float expected_method expected_url max_age now cs =
     (case claim_or cs (ascii ''htm'') (JStr []) of
        JStr htm \<Rightarrow>
          if upper htm \<noteq> upper expected_method then Some HtmMismatch
          else if claim_or cs (ascii ''htu'') JNull \<noteq> JStr expected_url then Some HtuMismatch
          else if claim_or cs (ascii ''iat'') JNull = JNull then Some IatMissing
          else (case py_float parse_float (claim_or cs (ascii ''iat'') JNull) of None \<Rightarrow> Some OtherException
                | Some iat \<Rightarrow> if further_than now iat max_age then Some ProofStale else None)
      | _ \<Rightarrow> Some OtherException)"

text \<open>The \<open>ath\<close> check; an access token beyond ASCII raises \<open>UnicodeEncodeError\<close>.\<close>

definition check_ath :: "(byte list \<Rightarrow> byte list) \<Rightarrow> str option \<Rightarrow> claims \<Rightarrow> session_error option" where
  "check_ath sha256 bound_access_token cs =
     (case bound_access_token of None \<Rightarrow> None
      | Some t \<Rightarrow>
          if \<exists>c \<in> set t. c \<ge> 128 then Some OtherException
          else if claim_or cs (ascii ''ath'') JNull \<noteq> JStr (rstrip_eq (b64encode True (sha256 (map byte_of t))))
          then Some AthMismatch else None)"

text \<open>Verification under the proof's own key, which must be a JWK of type \<open>OKP\<close>.\<close>

definition verify_dpop_proof :: "(str \<Rightarrow> claims \<Rightarrow> json \<Rightarrow> claims option) \<Rightarrow> (json \<Rightarrow> str) \<Rightarrow> (str \<Rightarrow> str) \<Rightarrow>
    (str \<Rightarrow> number option) \<Rightarrow> (byte list \<Rightarrow> byte list) \<Rightarrow> str \<Rightarrow> str \<Rightarrow> str \<Rightarrow> str option \<Rightarrow> time \<Rightarrow> time \<Rightarrow> time \<Rightarrow>
    session_manager \<Rightarrow> (session_error + unit) \<times> session_manager" where
  "verify_dpop_proof decode_jwk repr upper parse_float sha256 proof expected_method expected_url bound_access_token
      max_age now tick sm =
     (case split_on (\<lambda>c. c = 46) proof of
        [p0, p1, p2] \<Rightarrow>
          (case b64url_header p0 of None \<Rightarrow> (Inl ProofHeaderInvalid, sm)
           | Some (JDict header) \<Rightarrow>
               (case check_proof_header header of Some e \<Rightarrow> (Inl e, sm)
                | None \<Rightarrow>
                    (case decode_jwk proof (case claim_or header (ascii ''jwk'') JNull of JDict jwk \<Rightarrow> jwk | _ \<Rightarrow> [])
                            (claim_or header (ascii ''alg'') (JStr [])) of
                       None \<Rightarrow> (Inl ProofSignature, sm)
                     | Some cs \<Rightarrow>
                         (case check_proof_claims upper parse_float expected_method expected_url max_age now cs of
                            Some e \<Rightarrow> (Inl e, sm)
                          | None \<Rightarrow>
                              (let jti = py_str repr (claim_or cs (ascii ''jti'') (JStr [])) in
                               if jti = [] then (Inl JtiMissing, sm)
                               else case check_and_add (dpop_key jti) tick (sm_jti_cache sm) of
                                 (fresh, cache) \<Rightarrow>
                                   (if \<not> fresh then Inl JtiReplay
                                    else case check_ath sha256 bound_access_token cs of Some e \<Rightarrow> Inl e | None \<Rightarrow> Inr (),
                                    sm\<lparr>sm_jti_cache := cache\<rparr>)))))
           | Some _ \<Rightarrow> (Inl OtherException, sm))
      | _ \<Rightarrow> (Inl ProofMalformed, sm))"

section \<open>Properties\<close>

text \<open>Whatever an operation does, it makes at most one call of the replay cache.\<close>

lemma validate_token_cache:
  "\<exists>calls. snd (validate_token decode repr pf token ks now tick sm) =
             sm\<lparr>sm_jti_cache := serve check_and_add calls (sm_jti_cache sm)\<rparr> \<and> set calls \<subseteq> UNIV \<times> {tick}"
proof -
  have "\<exists>calls. sm\<lparr>sm_jti_cache := snd (check_and_add j tick (sm_jti_cache sm))\<rparr> =
          sm\<lparr>sm_jti_cache := serve check_and_add calls (sm_jti_cache sm)\<rparr> \<and> set calls \<subseteq> UNIV \<times> {tick}" for j
    by (rule exI [of _ "[(j, tick)]"]) simp
  moreover have "\<exists>calls. sm = sm\<lparr>sm_jti_cache := serve check_and_add calls (sm_jti_cache sm)\<rparr> \<and> set calls \<subseteq> UNIV \<times> {tick}"
    by (rule exI [of _ "[]"]) simp
  ultimately show ?thesis
    by (simp add: validate_token_def split: option.split prod.split) (metis snd_conv)
qed

lemma verify_dpop_cache:
  "\<exists>calls. snd (verify_dpop_proof decode repr up pf sha proof em eu bt ma now tick sm) =
             sm\<lparr>sm_jti_cache := serve check_and_add calls (sm_jti_cache sm)\<rparr> \<and> set calls \<subseteq> UNIV \<times> {tick}"
proof -
  have 1: "\<exists>calls. sm\<lparr>sm_jti_cache := snd (check_and_add j tick (sm_jti_cache sm))\<rparr> =
          sm\<lparr>sm_jti_cache := serve check_and_add calls (sm_jti_cache sm)\<rparr> \<and> set calls \<subseteq> UNIV \<times> {tick}" for j
    by (rule exI [of _ "[(j, tick)]"]) simp
  have 2: "\<exists>calls. sm = sm\<lparr>sm_jti_cache := serve check_and_add calls (sm_jti_cache sm)\<rparr> \<and> set calls \<subseteq> UNIV \<times> {tick}"
    by (rule exI [of _ "[]"]) simp
  have lift: "P (snd (verify_dpop_proof decode repr up pf sha proof em eu bt ma now tick sm))"
    if "\<And>j. P (sm\<lparr>sm_jti_cache := snd (check_and_add j tick (sm_jti_cache sm))\<rparr>)" and "P sm" for P
    using that by (simp add: verify_dpop_proof_def Let_def case_prod_beta' split: list.split option.split json.split)
  show ?thesis
    by (rule lift [where P = "\<lambda>s. \<exists>calls. s = sm\<lparr>sm_jti_cache := serve check_and_add calls (sm_jti_cache sm)\<rparr> \<and> set calls \<subseteq> UNIV \<times> {tick}"])
      (rule 1, rule 2)
qed

text \<open>An operation of the manager, with the clocks it reads.\<close>

datatype 'key session_op =
    ValidateToken str 'key time time
  | VerifyProof str str str "str option" time time time

definition op_tick :: "'key session_op \<Rightarrow> time" where
  "op_tick x = (case x of ValidateToken token ks now tick \<Rightarrow> tick | VerifyProof p m u b a now tick \<Rightarrow> tick)"

definition session_step :: "(str \<Rightarrow> 'key \<Rightarrow> str list \<Rightarrow> (claims \<times> claims) option) \<Rightarrow> (str \<Rightarrow> claims \<Rightarrow> json \<Rightarrow> claims option) \<Rightarrow>
    (json \<Rightarrow> str) \<Rightarrow> (str \<Rightarrow> str) \<Rightarrow> (str \<Rightarrow> number option) \<Rightarrow> (byte list \<Rightarrow> byte list) \<Rightarrow>
    'key session_op \<Rightarrow> session_manager \<Rightarrow> session_manager" where
  "session_step decode decode_jwk repr upper parse_float sha256 x sm =
     (case x of
        ValidateToken token ks now tick \<Rightarrow> snd (validate_token decode repr parse_float token ks now tick sm)
      | VerifyProof p m u b a now tick \<Rightarrow>
          snd (verify_dpop_proof decode_jwk repr upper parse_float sha256 p m u b a now tick sm))"

lemma session_step_cache:
  "\<exists>calls. session_step decode decode_jwk repr upper pf sha x sm =
             sm\<lparr>sm_jti_cache := serve check_and_add calls (sm_jti_cache sm)\<rparr> \<and> set calls \<subseteq> UNIV \<times> {op_tick x}"
  by (cases x) (simp_all add: session_step_def op_tick_def validate_token_cache verify_dpop_cache)

lemma serve_append: "serve admit (xs @ ys) s = serve admit ys (serve admit xs s)"
  by (induction xs arbitrary: s) auto

lemma session_run_cache:
  "\<exists>calls. run_ops (session_step decode decode_jwk repr upper pf sha) ops sm =
             sm\<lparr>sm_jti_cache := serve check_and_add calls (sm_jti_cache sm)\<rparr> \<and>
           (\<forall>(j, t) \<in> set calls. \<exists>x \<in> set ops. t = op_tick x)"
proof (induction ops arbitrary: sm)
  case Nil
  show ?case by (rule exI [of _ "[]"]) simp
next
  case (Cons x ops)
  obtain calls where c: "session_step decode decode_jwk repr upper pf sha x sm =
      sm\<lparr>sm_jti_cache := serve check_and_add calls (sm_jti_cache sm)\<rparr>" "set calls \<subseteq> UNIV \<times> {op_tick x}"
    using session_step_cache by blast
  obtain calls' where d: "run_ops (session_step decode decode_jwk repr upper pf sha) ops (session_step decode decode_jwk repr upper pf sha x sm) =
      (session_step decode decode_jwk repr upper pf sha x sm)\<lparr>sm_jti_cache := serve check_and_add calls'
         (sm_jti_cache (session_step decode decode_jwk repr upper pf sha x sm))\<rparr>"
    "\<forall>(j, t) \<in> set calls'. \<exists>x \<in> set ops. t = op_tick x" using Cons.IH by blast
  show ?case
    using c d by (intro exI [of _ "calls @ calls'"]) (auto simp: serve_append)
qed

text \<open>What an accepted token satisfies.\<close>

lemma validate_token_accepts:
  assumes "validate_token decode repr pf token ks now tick sm = (Inr cl, sm')"
  shows "\<exists>header cs s. decode token ks (sm_algorithms sm) = Some (header, cs) \<and>
           map_of header (ascii ''alg'') = Some (JStr s) \<and> s \<in> set (sm_algorithms sm) \<and> s \<noteq> ascii ''none'' \<and>
           check_token_claims sm now cs = None \<and>
           fst (check_and_add (bearer_key (cl_jti cl)) tick (sm_jti_cache sm)) \<and>
           sm' = sm\<lparr>sm_jti_cache := snd (check_and_add (bearer_key (cl_jti cl)) tick (sm_jti_cache sm))\<rparr> \<and>
           cl_jti cl = py_str repr (claim_or cs (ascii ''jti'') JNull)"
proof -
  obtain header cs where d: "decode token ks (sm_algorithms sm) = Some (header, cs)"
    using assms by (auto simp: validate_token_def split: option.splits)
  have a: "check_alg (sm_algorithms sm) (claim_or header (ascii ''alg'') (JStr [])) = None"
    using assms d by (auto simp: validate_token_def simp del: ascii_simps split: option.splits)
  have c: "check_token_claims sm now cs = None"
    using assms d a by (auto simp: validate_token_def simp del: ascii_simps split: option.splits)
  obtain s where s: "claim_or header (ascii ''alg'') (JStr []) = JStr s" "s \<noteq> []" "s \<in> set (sm_algorithms sm)" "s \<noteq> ascii ''none''"
    using a by (auto simp: check_alg_def simp del: ascii_simps split: json.splits list.splits if_splits)
  then have "map_of header (ascii ''alg'') = Some (JStr s)" by (auto simp: claim_or_def simp del: ascii_simps split: option.splits)
  moreover have "cl_jti cl = py_str repr (claim_or cs (ascii ''jti'') JNull)"
    "fst (check_and_add (bearer_key (py_str repr (claim_or cs (ascii ''jti'') JNull))) tick (sm_jti_cache sm))"
    "sm' = sm\<lparr>sm_jti_cache := snd (check_and_add (bearer_key (py_str repr (claim_or cs (ascii ''jti'') JNull))) tick (sm_jti_cache sm))\<rparr>"
    using assms d a c by (auto simp: validate_token_def session_claims_of_def simp del: ascii_simps split: prod.splits if_splits)
  ultimately show ?thesis using d c s by auto
qed

text \<open>C26. A bearer token is used once: when a token is accepted, no token with the same \<open>jti\<close> is
  accepted again within the cache's window, whatever tokens and proofs the manager handles in between,
  and the acceptance pinned an allowed algorithm other than \<open>none\<close>.\<close>

theorem bearer_token_single_use:
  assumes "run_ops (session_step decode decode_jwk repr upper pf sha) history
             (new_session_manager issuer audience algs cache_size ttl skew) = sm"
    and "validate_token decode repr pf token ks now tick sm = (Inr cl, sm')"
    and "\<forall>x \<in> set ops. op_tick x \<le> later" and "tick \<le> later" and "later < tick + ttl"
    and "validate_token decode repr pf token' ks' now' later
           (run_ops (session_step decode decode_jwk repr upper pf sha) ops sm') = (Inr cl', sm'')"
  shows "cl_jti cl' \<noteq> cl_jti cl"
proof
  assume same: "cl_jti cl' = cl_jti cl"
  let ?new = "new_session_manager issuer audience algs cache_size ttl skew"
  obtain hist where h: "sm = ?new\<lparr>sm_jti_cache := serve check_and_add hist (sm_jti_cache ?new)\<rparr>"
    using session_run_cache [of decode decode_jwk repr upper pf sha history ?new] assms(1) by auto
  let ?c = "serve check_and_add hist (new_jti_cache cache_size ttl)" and ?k = "bearer_key (cl_jti cl)"
  have c: "sm_jti_cache sm = ?c" by (simp add: h new_session_manager_def)
  have first: "fst (check_and_add ?k tick ?c)" and sm': "sm_jti_cache sm' = snd (check_and_add ?k tick ?c)"
    using validate_token_accepts [OF assms(2)] c by auto
  obtain calls where calls: "run_ops (session_step decode decode_jwk repr upper pf sha) ops sm' =
      sm'\<lparr>sm_jti_cache := serve check_and_add calls (sm_jti_cache sm')\<rparr>" "\<forall>(j, t) \<in> set calls. t \<le> later"
    using session_run_cache [of decode decode_jwk repr upper pf sha ops sm'] assms(3) by fastforce
  have "fst (check_and_add ?k later (serve check_and_add calls (snd (check_and_add ?k tick ?c))))"
    using validate_token_accepts [OF assms(6)] calls(1) sm' same by auto
  moreover have "jti_good ?c" by (rule serve_new_good)
  moreover have "jc_ttl ?c = ttl" by (simp, simp add: new_jti_cache_def)
  ultimately show False
    using jti.no_replay [OF _ first calls(2) assms(4), of ?k] assms(5) by auto
qed

definition toy_claims :: claims where
  "toy_claims = [(ascii ''iss'', JStr (ascii ''i'')), (ascii ''aud'', JStr (ascii ''a'')), (ascii ''exp'', JInt 100),
     (ascii ''nbf'', JInt 0), (ascii ''jti'', JStr (ascii ''j'')), (ascii ''sub'', JStr (ascii ''s''))]"

definition toy_decode :: "str \<Rightarrow> unit \<Rightarrow> str list \<Rightarrow> (claims \<times> claims) option" where
  "toy_decode token ks algs =
     Some ([(ascii ''alg'', JStr (ascii ''EdDSA''))],
           map (\<lambda>(k, v). (k, if k = ascii ''jti'' then JStr token else v)) toy_claims)"

lemma toy_accepts:
  "\<exists>cl sm'. validate_token toy_decode (\<lambda>v. []) (\<lambda>s. None) token () 10 t
      (new_session_manager (ascii ''i'') (ascii ''a'') [ascii ''EdDSA''] 10 300 30\<lparr>sm_jti_cache := c\<rparr>) = (Inr cl, sm') \<and>
      cl_jti cl = token \<and> sm_jti_cache sm' = snd (check_and_add (bearer_key token) t c)"
  if "fst (check_and_add (bearer_key token) t c)"
proof -
  let ?sm = "new_session_manager (ascii ''i'') (ascii ''a'') [ascii ''EdDSA''] 10 300 30\<lparr>sm_jti_cache := c\<rparr>"
  let ?cs = "map (\<lambda>(k, v). (k, if k = ascii ''jti'' then JStr token else v)) toy_claims"
  have a: "check_alg [ascii ''EdDSA''] (JStr (ascii ''EdDSA'')) = None" by (simp add: check_alg_def del: ascii_simps)
  have "check_token_claims ?sm 10 ?cs = None"
    by (simp add: check_token_claims_def required_claims_def toy_claims_def claim_or_def new_session_manager_def
        aud_set_def number_of_def later_than_def earlier_than_def del: ascii_simps)
  moreover have "claim_or ?cs (ascii ''jti'') JNull = JStr token"
    by (simp add: toy_claims_def claim_or_def del: ascii_simps)
  moreover have "\<exists>cl. session_claims_of (\<lambda>v. []) (\<lambda>s. None) ?sm ?cs = Inr cl \<and> cl_jti cl = token"
    by (simp add: session_claims_of_def py_float_def number_of_def toy_claims_def claim_or_def py_str_def del: ascii_simps)
  moreover have "sm_algorithms ?sm = [ascii ''EdDSA'']" by (simp add: new_session_manager_def)
  ultimately show ?thesis using that a
    by (auto simp: validate_token_def toy_decode_def claim_or_def [of "[_]"] py_str_def simp del: ascii_simps split: prod.split)
qed

theorem bearer_token_single_use_witness:
  "\<exists>cl sm' cl' sm''. validate_token toy_decode (\<lambda>v. []) (\<lambda>s. None) (ascii ''one'') () 10 0
      (new_session_manager (ascii ''i'') (ascii ''a'') [ascii ''EdDSA''] 10 300 30) = (Inr cl, sm') \<and>
     validate_token toy_decode (\<lambda>v. []) (\<lambda>s. None) (ascii ''two'') () 10 5 sm' = (Inr cl', sm'') \<and>
     cl_jti cl' \<noteq> cl_jti cl"
proof -
  let ?new = "new_session_manager (ascii ''i'') (ascii ''a'') [ascii ''EdDSA''] 10 300 30"
  let ?c = "new_jti_cache 10 300 :: str jti_cache"
  let ?c1 = "snd (check_and_add (bearer_key (ascii ''one'')) 0 ?c)"
  have id: "?new\<lparr>sm_jti_cache := ?c\<rparr> = ?new" by (simp add: new_session_manager_def)
  have f1: "fst (check_and_add (bearer_key (ascii ''one'')) 0 ?c)"
    by (simp add: check_and_add_def new_jti_cache_def sweep_expired_def)
  have f2: "fst (check_and_add (bearer_key (ascii ''two'')) 5 ?c1)"
    by (simp add: check_and_add_def new_jti_cache_def sweep_expired_def bearer_key_def)
  obtain cl sm' where v: "validate_token toy_decode (\<lambda>v. []) (\<lambda>s. None) (ascii ''one'') () 10 0 ?new = (Inr cl, sm')"
    using toy_accepts [OF f1] unfolding id by blast
  have sm': "sm' = ?new\<lparr>sm_jti_cache := ?c1\<rparr>"
    using validate_token_accepts [OF v] toy_accepts [OF f1] v unfolding id by (auto simp: new_session_manager_def)
  obtain cl' sm'' where w: "validate_token toy_decode (\<lambda>v. []) (\<lambda>s. None) (ascii ''two'') () 10 5 sm' = (Inr cl', sm'')"
    using toy_accepts [OF f2] unfolding sm' by blast
  have "cl_jti cl' \<noteq> cl_jti cl"
    by (rule bearer_token_single_use [where history = "[]" and ops = "[]" and sm = ?new, OF _ v _ _ _]) (use w in auto)
  then show ?thesis using v w by blast
qed

text \<open>A proof whose issue time is not a number is never stale: the difference of the times is not a number.\<close>

lemma dpop_nan_never_stale:
  assumes "upper htm = upper em"
  shows "check_proof_claims upper pf em eu max_age now
           [(ascii ''htm'', JStr htm), (ascii ''htu'', JStr eu), (ascii ''iat'', JNonFinite NaN)] = None"
  using assms by (simp add: check_proof_claims_def claim_or_def py_float_def number_of_def further_than_def del: ascii_simps)

end
