(* ===== verification/Py_Regex.thy ===== *)
theory Py_Regex
  imports Protocol
begin

text \<open>
  The part of Python's \<open>re\<close> that the middleware uses. \<open>ends r s i\<close> lists where a match of \<open>r\<close> that
  starts at \<open>i\<close> can end, in the order a backtracking matcher tries them (alternatives from the left,
  repetition greedy), so its head is the match that Python finds. The reference is \<open>span\<close>, which says
  what a match is without an order.
\<close>

datatype rx =
    Chr "nat \<Rightarrow> bool"
  | Seq rx rx
  | Alt rx rx
  | Star rx
  | UpTo nat rx
  | Eps
  | NotNext "nat \<Rightarrow> bool"
  | WordEdge "nat \<Rightarrow> bool"
  | LineStart
  | TextEnd

fun rep_ends :: "(nat \<Rightarrow> nat list) \<Rightarrow> nat \<Rightarrow> nat \<Rightarrow> nat list" where
  "rep_ends step 0 i = [i]"
| "rep_ends step (Suc f) i = concat (map (rep_ends step f) (filter (\<lambda>j. i < j) (step i))) @ [i]"

text \<open>A word character before and none after, or the other way round.\<close>

definition word_edge :: "(nat \<Rightarrow> bool) \<Rightarrow> str \<Rightarrow> nat \<Rightarrow> bool" where
  "word_edge w s i \<longleftrightarrow> (0 < i \<and> i \<le> length s \<and> w (s ! (i - 1))) \<noteq> (i < length s \<and> w (s ! i))"

text \<open>\<open>^\<close> of a multi-line pattern, and \<open>$\<close> of a single-line one.\<close>

definition line_start :: "str \<Rightarrow> nat \<Rightarrow> bool" where
  "line_start s i \<longleftrightarrow> i = 0 \<or> i \<le> length s \<and> s ! (i - 1) = 10"

definition text_end :: "str \<Rightarrow> nat \<Rightarrow> bool" where
  "text_end s i \<longleftrightarrow> i = length s \<or> i + 1 = length s \<and> s ! i = 10"

fun ends :: "rx \<Rightarrow> str \<Rightarrow> nat \<Rightarrow> nat list" where
  "ends (Chr P) s i = (if i < length s \<and> P (s ! i) then [i + 1] else [])"
| "ends (Seq a b) s i = concat (map (ends b s) (ends a s i))"
| "ends (Alt a b) s i = ends a s i @ ends b s i"
| "ends (Star r) s i = rep_ends (ends r s) (length s - i) i"
| "ends (UpTo n r) s i = rep_ends (ends r s) n i"
| "ends Eps s i = [i]"
| "ends (NotNext P) s i = (if i < length s \<and> P (s ! i) then [] else [i])"
| "ends (WordEdge w) s i = (if word_edge w s i then [i] else [])"
| "ends LineStart s i = (if line_start s i then [i] else [])"
| "ends TextEnd s i = (if text_end s i then [i] else [])"

text \<open>\<open>pattern.search\<close>: the leftmost match.\<close>

definition rx_search :: "rx \<Rightarrow> str \<Rightarrow> (nat \<times> nat) option" where
  "rx_search r s =
     (case filter (\<lambda>i. ends r s i \<noteq> []) [0..<length s + 1] of
        [] \<Rightarrow> None
      | i # _ \<Rightarrow> Some (i, hd (ends r s i)))"

text \<open>\<open>pattern.findall\<close>: the non-overlapping matches from the left; the fuel is the number of characters left.\<close>

fun find_from :: "nat \<Rightarrow> rx \<Rightarrow> str \<Rightarrow> nat \<Rightarrow> (nat \<times> nat) list" where
  "find_from 0 r s i = []"
| "find_from (Suc f) r s i =
     (if i > length s then []
      else case ends r s i of
        [] \<Rightarrow> find_from f r s (i + 1)
      | j # _ \<Rightarrow> (i, j) # find_from f r s (if j = i then j + 1 else j))"

definition findall :: "rx \<Rightarrow> str \<Rightarrow> str list" where
  "findall r s = map (\<lambda>(i, j). take (j - i) (drop i s)) (find_from (Suc (length s)) r s 0)"

section \<open>Building patterns\<close>

definition Plus :: "rx \<Rightarrow> rx" where "Plus r = Seq r (Star r)"

definition Opt :: "rx \<Rightarrow> rx" where "Opt r = UpTo 1 r"

fun seqs :: "rx list \<Rightarrow> rx" where
  "seqs [] = Eps"
| "seqs [r] = r"
| "seqs (r # q # rs) = Seq r (seqs (q # rs))"

fun alts :: "rx list \<Rightarrow> rx" where
  "alts [] = NotNext (\<lambda>c. True)"
| "alts [r] = r"
| "alts (r # q # rs) = Alt r (alts (q # rs))"

definition at_least :: "nat \<Rightarrow> rx \<Rightarrow> rx" where
  "at_least n r = seqs (replicate n r @ [Star r])"

definition exactly :: "nat \<Rightarrow> rx \<Rightarrow> rx" where
  "exactly n r = seqs (replicate n r)"

definition between :: "nat \<Rightarrow> nat \<Rightarrow> rx \<Rightarrow> rx" where
  "between m n r = seqs (replicate m r @ [UpTo (n - m) r])"

definition lit :: "str \<Rightarrow> rx" where
  "lit s = seqs (map (\<lambda>c. Chr (\<lambda>x. x = c)) s)"

text \<open>
  \<open>re.IGNORECASE\<close> on a letter of Latin-1: both cases, and the characters whose simple lower case it is
  (dotted and dotless i, the Kelvin sign, the long s).
\<close>

definition low_letter :: "nat \<Rightarrow> nat" where
  "low_letter c = (if 65 \<le> c \<and> c \<le> 90 \<or> 192 \<le> c \<and> c \<le> 222 \<and> c \<noteq> 215 then c + 32 else c)"

definition ci_eq :: "nat \<Rightarrow> nat \<Rightarrow> bool" where
  "ci_eq c x \<longleftrightarrow> low_letter x = low_letter c \<or>
     (low_letter c = 105 \<and> (x = 304 \<or> x = 305)) \<or> (low_letter c = 107 \<and> x = 8490) \<or> (low_letter c = 115 \<and> x = 383)"

definition ci :: "str \<Rightarrow> rx" where
  "ci s = seqs (map (\<lambda>c. Chr (ci_eq c)) s)"

definition ci_class :: "str \<Rightarrow> rx" where
  "ci_class cs = Chr (\<lambda>x. \<exists>c \<in> set cs. ci_eq c x)"

definition space :: rx where "space = Chr py_space"

definition spaces :: rx where "spaces = Plus space"

definition not_newline :: rx where "not_newline = Chr (\<lambda>c. c \<noteq> 10)"

definition any_char :: rx where "any_char = Chr (\<lambda>c. True)"

section \<open>What a match is\<close>

fun span :: "rx \<Rightarrow> str \<Rightarrow> nat \<Rightarrow> nat \<Rightarrow> bool" where
  "span (Chr P) s i j \<longleftrightarrow> i < length s \<and> P (s ! i) \<and> j = i + 1"
| "span (Seq a b) s i k \<longleftrightarrow> (\<exists>j. span a s i j \<and> span b s j k)"
| "span (Alt a b) s i j \<longleftrightarrow> span a s i j \<or> span b s i j"
| "span (Star r) s i j \<longleftrightarrow> (\<exists>m. ((\<lambda>x y. x < y \<and> span r s x y) ^^ m) i j)"
| "span (UpTo n r) s i j \<longleftrightarrow> (\<exists>m \<le> n. ((\<lambda>x y. x < y \<and> span r s x y) ^^ m) i j)"
| "span Eps s i j \<longleftrightarrow> i = j"
| "span (NotNext P) s i j \<longleftrightarrow> i = j \<and> \<not> (i < length s \<and> P (s ! i))"
| "span (WordEdge w) s i j \<longleftrightarrow> i = j \<and> word_edge w s i"
| "span LineStart s i j \<longleftrightarrow> i = j \<and> line_start s i"
| "span TextEnd s i j \<longleftrightarrow> i = j \<and> text_end s i"

lemma rep_ends_steps:
  "set (rep_ends step f i) = {j. \<exists>m \<le> f. ((\<lambda>x y. x < y \<and> y \<in> set (step x)) ^^ m) i j}"
proof (induction f arbitrary: i)
  case (Suc f)
  let ?R = "\<lambda>x y. x < y \<and> y \<in> set (step x)"
  have 1: "(\<exists>m \<le> Suc f. (?R ^^ m) i j) \<longleftrightarrow> j = i \<or> (\<exists>m \<le> f. (?R ^^ Suc m) i j)" for j
  proof
    assume "\<exists>m \<le> Suc f. (?R ^^ m) i j"
    then obtain m where "m \<le> Suc f" "(?R ^^ m) i j" by blast
    then show "j = i \<or> (\<exists>m \<le> f. (?R ^^ Suc m) i j)" by (cases m) (simp, blast)
  next
    assume "j = i \<or> (\<exists>m \<le> f. (?R ^^ Suc m) i j)"
    moreover have "j = i \<Longrightarrow> (?R ^^ 0) i j" by simp
    ultimately show "\<exists>m \<le> Suc f. (?R ^^ m) i j" using Suc_le_mono le0 by blast
  qed
  have 2: "(?R ^^ Suc m) i j \<longleftrightarrow> (\<exists>k. ?R i k \<and> (?R ^^ m) k j)" for m j
    unfolding relpowp_commute [symmetric] relpowp.simps by blast
  show ?case
  proof (rule set_eqI)
    fix j
    have "j \<in> set (rep_ends step (Suc f) i) \<longleftrightarrow> j = i \<or> (\<exists>k. ?R i k \<and> j \<in> set (rep_ends step f k))" by auto
    also have "\<dots> \<longleftrightarrow> j = i \<or> (\<exists>k. ?R i k \<and> (\<exists>m \<le> f. (?R ^^ m) k j))" unfolding Suc.IH mem_Collect_eq ..
    also have "\<dots> \<longleftrightarrow> (\<exists>m \<le> Suc f. (?R ^^ m) i j)" unfolding 1 2 by blast
    finally show "j \<in> set (rep_ends step (Suc f) i) \<longleftrightarrow> j \<in> {j. \<exists>m \<le> Suc f. (?R ^^ m) i j}" by (simp only: mem_Collect_eq)
  qed
qed simp

lemma steps_bound:
  assumes span: "\<forall>x y. span r s x y \<longrightarrow> x \<le> length s \<longrightarrow> y \<le> length s" and "i \<le> length s"
  shows "((\<lambda>x y. x < y \<and> span r s x y) ^^ m) i j \<Longrightarrow> i + m \<le> j \<and> j \<le> length s"
proof (induction m arbitrary: j)
  case (Suc m)
  then obtain k where k: "((\<lambda>x y. x < y \<and> span r s x y) ^^ m) i k" "k < j" "span r s k j" by auto
  from Suc.IH [OF k(1)] have "i + m \<le> k" "k \<le> length s" by auto
  then show ?case using k(2,3) span by auto
qed (use assms(2) in simp)

lemma span_bound: "span r s i j \<Longrightarrow> i \<le> length s \<Longrightarrow> j \<le> length s"
proof (induction r arbitrary: i j)
  case (Star r)
  then obtain m where m: "((\<lambda>x y. x < y \<and> span r s x y) ^^ m) i j" by auto
  have "\<forall>x y. span r s x y \<longrightarrow> x \<le> length s \<longrightarrow> y \<le> length s" using Star.IH by blast
  then show ?case using steps_bound Star.prems(2) m by blast
next
  case (UpTo n r)
  then obtain m where m: "((\<lambda>x y. x < y \<and> span r s x y) ^^ m) i j" by auto
  have "\<forall>x y. span r s x y \<longrightarrow> x \<le> length s \<longrightarrow> y \<le> length s" using UpTo.IH by blast
  then show ?case using steps_bound UpTo.prems(2) m by blast
qed auto

lemma all_span_bound: "\<forall>x y. span r s x y \<longrightarrow> x \<le> length s \<longrightarrow> y \<le> length s"
  using span_bound by blast

lemma steps_ends:
  assumes "\<And>x y. x \<le> length s \<Longrightarrow> y \<in> set (ends r s x) \<longleftrightarrow> span r s x y" and "i \<le> length s"
  shows "((\<lambda>x y. x < y \<and> y \<in> set (ends r s x)) ^^ m) i j \<longleftrightarrow> ((\<lambda>x y. x < y \<and> span r s x y) ^^ m) i j"
proof (induction m arbitrary: j)
  case (Suc m)
  have "k \<le> length s" if "((\<lambda>x y. x < y \<and> span r s x y) ^^ m) i k" for k
    using steps_bound [OF all_span_bound assms(2) that] by blast
  then have "((\<lambda>x y. x < y \<and> span r s x y) ^^ m) i k \<and> k < j \<and> j \<in> set (ends r s k) \<longleftrightarrow>
      ((\<lambda>x y. x < y \<and> span r s x y) ^^ m) i k \<and> k < j \<and> span r s k j" for k
    using assms(1) by blast
  then show ?case using Suc.IH by (simp add: relcompp_apply)
qed simp

lemma ends_span: "i \<le> length s \<Longrightarrow> j \<in> set (ends r s i) \<longleftrightarrow> span r s i j"
proof (induction r arbitrary: i j)
  case (Seq a b)
  show ?case using Seq.IH(1) [OF Seq.prems] Seq.IH(2) span_bound [OF _ Seq.prems, of a] by auto
next
  case (Star r)
  have "m \<le> length s - i" if "((\<lambda>x y. x < y \<and> span r s x y) ^^ m) i j" for m
    using steps_bound [OF all_span_bound Star.prems that] by linarith
  then show ?case using steps_ends [OF Star.IH Star.prems] by (auto simp: rep_ends_steps)
next
  case (UpTo n r)
  show ?case using steps_ends [OF UpTo.IH UpTo.prems] by (simp add: rep_ends_steps)
qed auto

definition occurs_in :: "rx \<Rightarrow> str \<Rightarrow> bool" where
  "occurs_in r s \<longleftrightarrow> (\<exists>i \<le> length s. \<exists>j. span r s i j)"

lemma rx_search_iff: "rx_search r s \<noteq> None \<longleftrightarrow> occurs_in r s"
proof -
  have "rx_search r s \<noteq> None \<longleftrightarrow> filter (\<lambda>i. ends r s i \<noteq> []) [0..<length s + 1] \<noteq> []"
    by (simp add: rx_search_def del: upt_Suc split: list.split)
  also have "\<dots> \<longleftrightarrow> (\<exists>i \<le> length s. ends r s i \<noteq> [])"
    unfolding filter_empty_conv by (auto simp: less_Suc_eq_le simp del: upt_Suc)
  also have "\<dots> \<longleftrightarrow> (\<exists>i \<le> length s. \<exists>j. j \<in> set (ends r s i))" by (simp add: ex_in_conv)
  also have "\<dots> \<longleftrightarrow> (\<exists>i \<le> length s. \<exists>j. span r s i j)" using ends_span by blast
  finally show ?thesis unfolding occurs_in_def .
qed

lemma rx_search_span: "rx_search r s = Some (i, j) \<Longrightarrow> i \<le> length s \<and> span r s i j"
proof -
  assume "rx_search r s = Some (i, j)"
  then obtain rest where f: "filter (\<lambda>i. ends r s i \<noteq> []) [0..<length s + 1] = i # rest" and j: "j = hd (ends r s i)"
    by (auto simp: rx_search_def split: list.splits)
  have "i \<in> set (filter (\<lambda>i. ends r s i \<noteq> []) [0..<length s + 1])" unfolding f by simp
  then have i: "i \<le> length s" "ends r s i \<noteq> []" by (auto simp: less_Suc_eq_le simp del: upt_Suc)
  then show ?thesis using j ends_span [OF i(1), of j r] by (metis list.set_sel(1))
qed

end
