(* ===== verification/Boundary.thy ===== *)
theory Boundary
  imports Py_Regex Meta_Identity
begin

text \<open>
  \<open>middleware/boundary.py\<close>: injection patterns, the normalised variants of a text that are matched
  against them, and the scans of tool definitions and responses. A pattern is a regular expression of
  \<open>Py_Regex\<close>, and a finding names it by its position in the list. The Unicode database is the record
  \<open>unicode\<close>; the word class \<open>\w\<close> is its field. The set of the two base64 candidates of a fragment is
  visited in a fixed order, and Python's \<open>str\<close> of a value that is no string is the argument \<open>repr\<close>.
\<close>

section \<open>Patterns\<close>

definition kw :: "string \<Rightarrow> rx" where
  "kw s = ci (ascii s)"

definition injection_patterns :: "unicode \<Rightarrow> rx list" where
  "injection_patterns u =
     (let word = Plus (Chr (u_word u)) in
     [seqs [kw ''ignore'', spaces, Opt (seqs [kw ''all'', spaces]), alts [kw ''previous'', kw ''prior'', kw ''above''], spaces, kw ''instruction'', Opt (kw ''s'')],
      seqs [kw ''disregard'', spaces, Opt (seqs [kw ''all'', spaces]), alts [kw ''previous'', kw ''prior'', kw ''above''], spaces, kw ''instruction'', Opt (kw ''s'')],
      seqs [kw ''forget'', spaces, Opt (seqs [kw ''all'', spaces]), alts [kw ''previous'', kw ''prior'', kw ''above''], spaces, kw ''instruction'', Opt (kw ''s'')],
      seqs [kw ''you'', spaces, kw ''are'', spaces, kw ''now'', spaces, alts [kw ''a'', kw ''an'', kw ''the''], spaces, word],
      seqs [kw ''new'', spaces, kw ''system'', spaces, kw ''prompt'', Star space, kw '':''],
      seqs [kw ''<'', Star space, kw ''system'', Star space, kw ''>''],
      kw ''[system]'',
      seqs [kw ''act'', spaces, kw ''as'', spaces, alts [kw ''a'', kw ''an'', kw ''the''], spaces, word, spaces, alts [kw ''without'', seqs [kw ''with'', spaces, kw ''no'']], spaces, kw ''restriction'', Opt (kw ''s'')],
      kw ''jailbreak'',
      seqs [kw ''DAN'', spaces, kw ''mode''],
      seqs [kw ''developer'', spaces, kw ''mode'', spaces, alts [kw ''enabled'', kw ''on'', kw ''activated'']],
      seqs [kw ''bypass'', spaces, Opt (seqs [kw ''your'', spaces]), alts [kw ''safety'', kw ''content'', kw ''ethical''], spaces, alts [seqs [kw ''filter'', Opt (kw ''s'')], seqs [kw ''guideline'', Opt (kw ''s'')], seqs [kw ''restriction'', Opt (kw ''s'')]]],
      seqs [kw ''reveal'', spaces, Opt (seqs [kw ''your'', spaces]), alts [kw ''system'', kw ''initial'', kw ''original''], spaces, kw ''prompt''],
      seqs [kw ''print'', spaces, Opt (seqs [kw ''your'', spaces]), alts [kw ''system'', kw ''initial'', kw ''original''], spaces, kw ''prompt''],
      seqs [kw ''repeat'', spaces, Opt (seqs [kw ''your'', spaces]), alts [kw ''system'', kw ''initial'', kw ''original''], spaces, kw ''prompt''],
      kw ''exfiltrate'',
      seqs [kw ''always'', spaces, Opt (seqs [kw ''first'', spaces]), kw ''call'', spaces, Opt (seqs [kw ''the'', spaces]), word, spaces, kw ''tool''],
      seqs [kw ''before'', spaces, alts [kw ''anything'', seqs [kw ''every'', Opt (kw ''thing'')]], spaces, Opt (seqs [kw ''else'', spaces]), Opt (seqs [kw ''you'', spaces]), Opt (seqs [kw ''must'', spaces]), kw ''call''],
      seqs [kw ''ignora'', spaces, Opt (seqs [kw ''todas'', spaces]), Opt (seqs [kw ''las'', spaces]), kw ''instrucciones'', spaces, alts [kw ''previas'', kw ''anteriores'']],
      seqs [kw ''ignore'', Opt (ci_class [114, 122]), spaces, Opt (seqs [kw ''toutes'', spaces]), kw ''les'', spaces, kw ''instructions'', spaces, alts [ci [112, 114, 233, 99, 233, 100, 101, 110, 116, 101, 115], kw ''precedentes'']],
      seqs [kw ''ignoriere'', spaces, Opt (seqs [kw ''alle'', spaces]), alts [kw ''vorherigen'', kw ''vorigen''], spaces, kw ''anweisungen''],
      seqs [kw ''ignor'', ci_class [97, 101], spaces, Opt (seqs [kw ''todas'', spaces]), kw ''as'', spaces, ci [105, 110, 115, 116, 114, 117, 231, 245, 101, 115], spaces, kw ''anteriores''],
      seqs [alts [lit [24573, 30053], lit [28961, 35222], lit [26080, 35270]], UpTo 8 not_newline, alts [lit [20043, 21069], lit [20808, 21069], lit [19978, 36848], lit [20197, 19978]], UpTo 6 not_newline, alts [lit [25351, 20196], lit [25351, 31034], lit [25552, 31034]]]])"

definition tool_description_patterns :: "unicode \<Rightarrow> rx list" where
  "tool_description_patterns u = injection_patterns u @
     [seqs [kw ''<!--'', UpTo 300 any_char, kw ''-->''],
      seqs [kw ''['', Star space, kw ''INST'', Star space, kw '']''],
      kw ''<|im_start|>'',
      seqs [kw ''['', Opt (kw ''/''), kw ''INST'', kw '']'']]"

section \<open>Normalisation\<close>

definition invisible_chars :: "nat list" where
  "invisible_chars =
     [0x200B, 0x200C, 0x200D, 0x2060, 0xFEFF, 0x00AD, 0x202A, 0x202B, 0x202C, 0x202D, 0x202E,
      0x2066, 0x2067, 0x2068, 0x2069]"

definition latin_lookalikes :: "(nat \<times> nat) list" where
  "latin_lookalikes =
     [(1072, 97), (1077, 101), (1086, 111), (1088, 112), (1089, 99), (1093, 120), (1091, 121), (1109, 115), (1110, 105), (1112, 106), (1281, 100), (1400, 110), (1084, 109), (1090, 116), (1082, 107), (1074, 98), (1085, 104), (1040, 65), (1045, 69), (1054, 79), (1056, 80), (1057, 67), (1061, 88), (1059, 89), (1042, 66), (1053, 72), (1050, 75), (1052, 77), (1058, 84), (959, 111), (961, 112), (945, 97), (949, 101), (953, 105), (957, 118), (964, 116), (927, 79), (929, 80), (913, 65), (917, 69), (932, 84), (921, 73)]"

definition leet_table :: "(nat \<times> nat) list" where
  "leet_table = [(48, 111), (49, 105), (51, 101), (52, 97), (53, 115), (55, 116), (64, 97), (36, 115), (56, 98),
     (43, 116), (124, 105)]"

definition translate_chars :: "(nat \<times> nat) list \<Rightarrow> str \<Rightarrow> str" where
  "translate_chars table s = map (\<lambda>c. case map_of table c of None \<Rightarrow> c | Some d \<Rightarrow> d) s"

definition tag_char :: "nat \<Rightarrow> bool" where
  "tag_char c \<longleftrightarrow> 0xE0000 \<le> c \<and> c \<le> 0xE007F"

definition decode_tag_chars :: "str \<Rightarrow> str" where
  "decode_tag_chars s =
     concat (map (\<lambda>c. if tag_char c
                      then (if 0x20 \<le> c - 0xE0000 \<and> c - 0xE0000 \<le> 0x7E then [c - 0xE0000] else [])
                      else [c]) s)"

definition normalize_unicode :: "unicode \<Rightarrow> str \<Rightarrow> str" where
  "normalize_unicode u s =
     translate_chars latin_lookalikes (filter (\<lambda>c. c \<notin> set invisible_chars) (u_nfkc u s))"

text \<open>Decoding with \<open>errors="ignore"\<close>: bytes that start no character are dropped.\<close>

function utf8_ignore :: "byte list \<Rightarrow> str" where
  "utf8_ignore bs =
     (if bs = [] then []
      else case utf8_next bs of None \<Rightarrow> utf8_ignore (tl bs) | Some (n, r) \<Rightarrow> n # utf8_ignore r)"
  by pat_completeness auto

termination utf8_ignore
  by (relation "measure length") (auto dest: utf8_next_shorter)

definition b64_fragment :: rx where
  "b64_fragment =
     Seq (at_least 16 (Chr (\<lambda>c. is_digit c \<or> 65 \<le> c \<and> c \<le> 90 \<or> 97 \<le> c \<and> c \<le> 122 \<or> c \<in> {43, 47, 95, 45})))
         (UpTo 2 (Chr (\<lambda>c. c = 61)))"

definition hex_fragment :: rx where
  "hex_fragment = at_least 16 (Chr (\<lambda>c. is_digit c \<or> 65 \<le> c \<and> c \<le> 70 \<or> 97 \<le> c \<and> c \<le> 102))"

definition mostly_printable :: "unicode \<Rightarrow> str \<Rightarrow> bool" where
  "mostly_printable u s \<longleftrightarrow>
     s \<noteq> [] \<and> 4 * length s \<le> 5 * length (filter (\<lambda>c. u_printable u c \<or> py_space c) s)"

fun hex_bytes :: "str \<Rightarrow> byte list option" where
  "hex_bytes [] = Some []"
| "hex_bytes [c] = None"
| "hex_bytes (c # d # s) =
     (case (hex_value c, hex_value d) of
        (Some x, Some y) \<Rightarrow> map_option ((#) (byte_of (16 * x + y))) (hex_bytes s)
      | _ \<Rightarrow> None)"

definition b64_candidates :: "str \<Rightarrow> str list" where
  "b64_candidates frag =
     (let candidate = rstrip_eq frag;
          std = map (\<lambda>c. if c = 45 then 43 else if c = 95 then 47 else c) candidate
      in if std = candidate then [candidate] else [candidate, std])"

definition decoded_b64 :: "unicode \<Rightarrow> str \<Rightarrow> str list" where
  "decoded_b64 u frag =
     concat (map (\<lambda>s. case b64decode False (s @ b64_pad s) of
                        None \<Rightarrow> []
                      | Some bs \<Rightarrow> if mostly_printable u (utf8_ignore bs) then [utf8_ignore bs] else [])
                 (b64_candidates frag))"

definition decoded_hex :: "unicode \<Rightarrow> str \<Rightarrow> str list" where
  "decoded_hex u frag =
     (if length frag mod 2 \<noteq> 0 then []
      else case hex_bytes frag of
             None \<Rightarrow> []
           | Some bs \<Rightarrow> if mostly_printable u (utf8_ignore bs) then [utf8_ignore bs] else [])"

definition decode_encoded_fragments :: "unicode \<Rightarrow> str \<Rightarrow> str list" where
  "decode_encoded_fragments u s =
     concat (map (decoded_b64 u) (findall b64_fragment s)) @ concat (map (decoded_hex u) (findall hex_fragment s))"

definition add_variant :: "str \<Rightarrow> str list \<Rightarrow> str list" where
  "add_variant s vs = (if s = [] \<or> s \<in> set vs then vs else vs @ [s])"

definition detection_variants :: "unicode \<Rightarrow> str \<Rightarrow> str list" where
  "detection_variants u s =
     (let tagged = decode_tag_chars s;
          folded = normalize_unicode u s; tagged_folded = normalize_unicode u tagged
      in fold add_variant
           ([s, tagged, folded, translate_chars leet_table folded, tagged_folded,
             translate_chars leet_table tagged_folded] @ decode_encoded_fragments u tagged) [])"

section \<open>Findings\<close>

datatype scan_severity = ScanCritical | ScanHigh

record injection_finding =
  if_location :: str
  if_pattern :: nat
  if_excerpt :: str
  if_severity :: scan_severity

definition html_char :: "nat \<Rightarrow> str" where
  "html_char c =
     (if c = 38 then ascii ''&amp;'' else if c = 60 then ascii ''&lt;'' else if c = 62 then ascii ''&gt;''
      else if c = 34 then ascii ''&quot;'' else if c = 39 then ascii ''&#x27;'' else [c])"

definition html_escape :: "str \<Rightarrow> str" where
  "html_escape s = concat (map html_char s)"

definition excerpt_of :: "nat \<Rightarrow> str \<Rightarrow> nat \<times> nat \<Rightarrow> str" where
  "excerpt_of window s m =
     (let start = fst m - window; fin = min (length s) (snd m + window) in html_escape (take (fin - start) (drop start s)))"

text \<open>The first variant, in order, in which a pattern occurs.\<close>

fun first_hit :: "rx \<Rightarrow> str list \<Rightarrow> (str \<times> nat \<times> nat) option" where
  "first_hit r [] = None"
| "first_hit r (v # vs) = (case rx_search r v of Some m \<Rightarrow> Some (v, m) | None \<Rightarrow> first_hit r vs)"

fun check_patterns :: "str list \<Rightarrow> str \<Rightarrow> scan_severity \<Rightarrow> nat \<Rightarrow> rx list \<Rightarrow> injection_finding list" where
  "check_patterns variants loc sev n [] = []"
| "check_patterns variants loc sev n (r # rs) =
     (case first_hit r variants of
        None \<Rightarrow> check_patterns variants loc sev (Suc n) rs
      | Some (v, m) \<Rightarrow>
          \<lparr>if_location = loc, if_pattern = n, if_excerpt = excerpt_of 60 v m, if_severity = sev\<rparr>
          # check_patterns variants loc sev (Suc n) rs)"

text \<open>\<open>ResponseBoundaryGuard.check\<close>; the scan is flagged when it has findings.\<close>

definition guard_check :: "unicode \<Rightarrow> str \<Rightarrow> injection_finding list" where
  "guard_check u body =
     check_patterns (detection_variants u body) (ascii ''response_body'') ScanHigh 0 (injection_patterns u)"

definition check_text :: "unicode \<Rightarrow> rx list \<Rightarrow> str \<Rightarrow> str \<Rightarrow> injection_finding list" where
  "check_text u patterns s loc = check_patterns (detection_variants u s) loc ScanCritical 0 patterns"

section \<open>Tool definitions\<close>

definition text_field :: "(json \<Rightarrow> str) \<Rightarrow> (str \<times> json) list \<Rightarrow> string \<Rightarrow> str" where
  "text_field repr d k =
     (case map_of d (ascii k) of None \<Rightarrow> [] | Some (JStr s) \<Rightarrow> s | Some v \<Rightarrow> repr v)"

fun concat_some :: "'a list option list \<Rightarrow> 'a list option" where
  "concat_some [] = Some []"
| "concat_some (None # xs) = None"
| "concat_some (Some x # xs) = map_option ((@) x) (concat_some xs)"

lemma json_size_dict: "(k, v) \<in> set ps \<Longrightarrow> size v < size (JDict ps)"
  by (induction ps) auto

text \<open>\<open>_scan_schema\<close>; \<open>None\<close> is the \<open>AttributeError\<close> of a \<open>properties\<close> that is no dictionary.\<close>

function scan_schema :: "unicode \<Rightarrow> (json \<Rightarrow> str) \<Rightarrow> json \<Rightarrow> str \<Rightarrow> injection_finding list option" where
  "scan_schema u repr schema loc =
     (case schema of
        JDict d \<Rightarrow>
          (let desc = text_field repr d ''description'';
               own = (if desc \<noteq> [] then check_text u (tool_description_patterns u) desc (loc @ ascii '':description'') else [])
           in case map_of d (ascii ''properties'') of
                None \<Rightarrow> Some own
              | Some (JDict props) \<Rightarrow>
                  map_option ((@) own)
                    (concat_some (map (\<lambda>(k, v). scan_schema u repr v (loc @ 46 # k)) props))
              | Some _ \<Rightarrow> None)
      | _ \<Rightarrow> Some [])"
  by pat_completeness auto

termination scan_schema
  by (relation "measure (\<lambda>(u, repr, schema, loc). size schema)")
    (auto dest!: map_of_SomeD json_size_dict)

declare scan_schema.simps [simp del]

definition scan_tool :: "unicode \<Rightarrow> (json \<Rightarrow> str) \<Rightarrow> (str \<times> json) list \<Rightarrow> injection_finding list option" where
  "scan_tool u repr tool =
     (let nm = text_field repr tool ''name''; loc = ascii ''tool:'' @ nm;
          schema = (case map_of tool (ascii ''inputSchema'') of None \<Rightarrow> JDict [] | Some v \<Rightarrow> v)
      in map_option ((@) (check_text u (injection_patterns u) nm (loc @ ascii '':name'')
             @ check_text u (tool_description_patterns u) (text_field repr tool ''description'') (loc @ ascii '':description'')))
           (scan_schema u repr schema (loc @ ascii '':schema'')))"

definition scan_tools :: "unicode \<Rightarrow> (json \<Rightarrow> str) \<Rightarrow> (str \<times> json) list list \<Rightarrow> injection_finding list option" where
  "scan_tools u repr tools = concat_some (map (scan_tool u repr) tools)"

section \<open>Properties\<close>

lemma first_hit_iff: "first_hit r vs \<noteq> None \<longleftrightarrow> (\<exists>v \<in> set vs. occurs_in r v)"
  by (induction vs) (auto split: option.split simp flip: rx_search_iff)

lemma check_patterns_positions:
  "map if_pattern (check_patterns vs loc sev n rs) =
     map fst (filter (\<lambda>(i, r). \<exists>v \<in> set vs. occurs_in r v) (List.enumerate n rs))"
proof (induction rs arbitrary: n)
  case (Cons r rs)
  then show ?case using first_hit_iff [of r vs] by (cases "first_hit r vs") auto
qed simp

lemma check_patterns_spec:
  "set (map if_pattern (check_patterns vs loc sev 0 rs)) =
     {i. i < length rs \<and> (\<exists>v \<in> set vs. occurs_in (rs ! i) v)}"
  "distinct (map if_pattern (check_patterns vs loc sev 0 rs))"
proof -
  show "set (map if_pattern (check_patterns vs loc sev 0 rs)) =
     {i. i < length rs \<and> (\<exists>v \<in> set vs. occurs_in (rs ! i) v)}"
    unfolding check_patterns_positions by (force simp: in_set_enumerate_eq)
  show "distinct (map if_pattern (check_patterns vs loc sev 0 rs))"
    unfolding check_patterns_positions by (rule dict_ok_filter) simp
qed

lemma fold_add_variant: "set (fold add_variant xs vs) = set vs \<union> {x \<in> set xs. x \<noteq> []}"
  by (induction xs arbitrary: vs) (auto simp: add_variant_def)

lemma detection_variants_mem:
  "{s, decode_tag_chars s, normalize_unicode u s, translate_chars leet_table (normalize_unicode u s)} - {[]}
     \<subseteq> set (detection_variants u s)"
  "set (decode_encoded_fragments u (decode_tag_chars s)) - {[]} \<subseteq> set (detection_variants u s)"
  unfolding detection_variants_def Let_def fold_add_variant by auto

text \<open>C27. The response guard reports what is there: the findings name, each once, exactly the patterns
  that occur (as the reference semantics of regular expressions has it) in some variant of the body;
  and every pattern that occurs in the body itself, in the body with hidden tag characters revealed, in
  the body with invisible characters removed and look-alikes folded, in its leetspeak reading, or in a
  decoded base64 or hex fragment, is among them.\<close>

theorem guard_reports_occurrences:
  "set (map if_pattern (guard_check u body)) =
     {i. i < length (injection_patterns u) \<and>
         (\<exists>v \<in> set (detection_variants u body). occurs_in (injection_patterns u ! i) v)} \<and>
   distinct (map if_pattern (guard_check u body)) \<and>
   {i. i < length (injection_patterns u) \<and>
       (\<exists>v \<in> {body, decode_tag_chars body, normalize_unicode u body, translate_chars leet_table (normalize_unicode u body)}
              \<union> set (decode_encoded_fragments u (decode_tag_chars body)) - {[]}.
          occurs_in (injection_patterns u ! i) v)}
     \<subseteq> set (map if_pattern (guard_check u body))"
  using detection_variants_mem [where u = u and s = body]
  unfolding guard_check_def check_patterns_spec by (auto simp: check_patterns_spec(2))

text \<open>Folding does not depend on invisible characters: removing them before makes no difference.\<close>

lemma invisible_ignored:
  assumes "\<And>t. u_nfkc u t = t"
  shows "normalize_unicode u (filter (\<lambda>c. c \<notin> set invisible_chars) s) = normalize_unicode u s"
  by (simp add: normalize_unicode_def assms filter_filter)

end
