(* ===== verification/Trust.thy ===== *)
theory Trust
  imports Boundary
begin

text \<open>
  \<open>middleware/trust.py\<close>: sanitizing model output and the trust-boundary check. Whether a code point is
  of a dangerous Unicode category (format, surrogate, private use, unassigned) is the argument
  \<open>dangerous\<close>; what was found is the constructor of the message.
\<close>

datatype sanitize_issue = Truncated nat | NullBytes | ControlChars | DangerousUnicode | InjectionAt str str

record sanitized_output =
  so_text :: str
  so_flagged :: bool
  so_truncated :: bool
  so_findings :: "sanitize_issue list"

definition max_safe_length :: nat where "max_safe_length = 32768"

definition control_char :: "nat \<Rightarrow> bool" where
  "control_char c \<longleftrightarrow> c \<le> 8 \<or> c = 11 \<or> c = 12 \<or> 14 \<le> c \<and> c \<le> 31 \<or> c = 127"

text \<open>A step that removes characters and notes that it did.\<close>

definition scrub_step :: "(nat \<Rightarrow> bool) \<Rightarrow> sanitize_issue \<Rightarrow> str \<times> sanitize_issue list \<Rightarrow> str \<times> sanitize_issue list" where
  "scrub_step bad issue st =
     (case st of (s, fs) \<Rightarrow>
        if \<exists>c \<in> set s. bad c then (filter (\<lambda>c. \<not> bad c) s, fs @ [issue]) else (s, fs))"

definition sanitize :: "unicode \<Rightarrow> (nat \<Rightarrow> bool) \<Rightarrow> nat \<Rightarrow> str \<Rightarrow> sanitized_output" where
  "sanitize u dangerous max_length s =
     (let truncated = length s > max_length;
          st = (if truncated then (take max_length s, [Truncated max_length]) else (s, []));
          st = scrub_step (\<lambda>c. c = 0) NullBytes st;
          st = scrub_step control_char ControlChars st;
          st = scrub_step dangerous DangerousUnicode st;
          scan = guard_check u (fst st);
          findings = snd st @ map (\<lambda>f. InjectionAt (if_location f) (take 80 (if_excerpt f))) scan
      in \<lparr>so_text = html_escape (fst st), so_flagged = (scan \<noteq> [] \<or> findings \<noteq> []),
          so_truncated = truncated, so_findings = findings\<rparr>)"

text \<open>\<open>require_safe\<close>; the error carries the first three findings and the context.\<close>

definition require_safe :: "unicode \<Rightarrow> (nat \<Rightarrow> bool) \<Rightarrow> nat \<Rightarrow> str \<Rightarrow> str \<Rightarrow> (str \<times> sanitize_issue list) + str" where
  "require_safe u dangerous max_length context s =
     (let r = sanitize u dangerous max_length s
      in if so_flagged r then Inl (context, take 3 (so_findings r)) else Inr (so_text r))"

lemma scrub_step_clean:
  "scrub_step bad issue (s, fs) = (s', fs') \<Longrightarrow> fs' = [] \<longleftrightarrow> fs = [] \<and> (\<forall>c \<in> set s. \<not> bad c)"
  "scrub_step bad issue (s, fs) = (s', fs') \<Longrightarrow> (\<forall>c \<in> set s. \<not> bad c) \<Longrightarrow> s' = s"
proof -
  show "scrub_step bad issue (s, fs) = (s', fs') \<Longrightarrow> fs' = [] \<longleftrightarrow> fs = [] \<and> (\<forall>c \<in> set s. \<not> bad c)"
    by (cases "\<exists>c \<in> set s. bad c") (auto simp: scrub_step_def)
  show "scrub_step bad issue (s, fs) = (s', fs') \<Longrightarrow> (\<forall>c \<in> set s. \<not> bad c) \<Longrightarrow> s' = s"
    by (auto simp: scrub_step_def)
qed

definition passes_boundary :: "unicode \<Rightarrow> (nat \<Rightarrow> bool) \<Rightarrow> nat \<Rightarrow> str \<Rightarrow> bool" where
  "passes_boundary u dangerous max_length s \<longleftrightarrow>
     length s \<le> max_length \<and> (\<forall>c \<in> set s. \<not> control_char c \<and> \<not> dangerous c) \<and> guard_check u s = []"

lemma escaped_char_safe: "c \<in> set (html_escape s) \<Longrightarrow> c \<notin> {60, 62, 34, 39}"
proof -
  have "set (html_char d) \<inter> {60, 62, 34, 39} = {}" for d by (simp add: html_char_def)
  then show "c \<in> set (html_escape s) \<Longrightarrow> c \<notin> {60, 62, 34, 39}" unfolding html_escape_def by (auto simp del: insert_iff)
qed

lemma control_chars: "{c. control_char c} = {0..31} - {9, 10, 13} \<union> {127}"
  by (rule set_eqI) (simp only: control_char_def mem_Collect_eq Un_iff Diff_iff atLeastAtMost_iff insert_iff empty_iff, presburger)

text \<open>C28. What crosses the trust boundary: \<open>require_safe\<close> lets a text pass exactly when it
  is within the length limit, holds no C0 control character other than tab, line feed and carriage return, no DEL and no
  character of a dangerous category, and no injection pattern is
  found in it; what it returns then is the HTML-escaped text itself, nothing removed, with no character
  that opens a tag or ends an attribute. A C1 control character (U+0080 to U+009F) does not stop a text, although the
  class is documented to remove it.\<close>

theorem trust_boundary_exact:
  "require_safe u dangerous max_length context s =
     (if passes_boundary u dangerous max_length s then Inr (html_escape s)
      else Inl (context, take 3 (so_findings (sanitize u dangerous max_length s)))) \<and>
   set (html_escape s) \<inter> {60, 62, 34, 39} = {} \<and>
   {c. control_char c} = {0..31} - {9, 10, 13} \<union> {127}"
proof -
  define s0 fs0 where "s0 = (if length s > max_length then take max_length s else s)"
    and "fs0 = (if length s > max_length then [Truncated max_length] else [])"
  obtain s1 fs1 where 1: "scrub_step (\<lambda>c. c = 0) NullBytes (s0, fs0) = (s1, fs1)" by fastforce
  obtain s2 fs2 where 2: "scrub_step control_char ControlChars (s1, fs1) = (s2, fs2)" by fastforce
  obtain s3 fs3 where 3: "scrub_step dangerous DangerousUnicode (s2, fs2) = (s3, fs3)" by fastforce
  have z: "(if length s > max_length then (take max_length s, [Truncated max_length]) else (s, [])) = (s0, fs0)"
    by (simp add: s0_def fs0_def)
  have san: "sanitize u dangerous max_length s =
      \<lparr>so_text = html_escape s3, so_flagged = (guard_check u s3 \<noteq> [] \<or> fs3 @ map (\<lambda>f. InjectionAt (if_location f) (take 80 (if_excerpt f))) (guard_check u s3) \<noteq> []),
       so_truncated = (length s > max_length),
       so_findings = fs3 @ map (\<lambda>f. InjectionAt (if_location f) (take 80 (if_excerpt f))) (guard_check u s3)\<rparr>"
    unfolding sanitize_def Let_def z 1 2 3 by simp
  have null: "control_char 0" by (simp add: control_char_def)
  have clean: "fs3 = [] \<longleftrightarrow> length s \<le> max_length \<and> (\<forall>c \<in> set s. \<not> control_char c \<and> \<not> dangerous c)"
  proof (cases "length s \<le> max_length")
    case False
    then have "fs0 \<noteq> []" by (simp add: fs0_def)
    then show ?thesis using scrub_step_clean(1) [OF 1] scrub_step_clean(1) [OF 2] scrub_step_clean(1) [OF 3] False by auto
  next
    case True
    then have s0: "s0 = s" "fs0 = []" by (simp_all add: s0_def fs0_def)
    show ?thesis
      using scrub_step_clean [OF 1] scrub_step_clean [OF 2] scrub_step_clean [OF 3] s0 True null by metis
  qed
  have same: "s3 = s" if "fs3 = []"
    using that clean scrub_step_clean [OF 1] scrub_step_clean [OF 2] scrub_step_clean [OF 3] null
    by (metis linorder_not_le s0_def)
  have "so_flagged (sanitize u dangerous max_length s) \<longleftrightarrow> \<not> passes_boundary u dangerous max_length s"
    unfolding passes_boundary_def san using clean same by auto
  moreover have "passes_boundary u dangerous max_length s \<Longrightarrow> so_text (sanitize u dangerous max_length s) = html_escape s"
    unfolding passes_boundary_def san using clean same by auto
  ultimately show ?thesis using escaped_char_safe [of _ s] control_chars by (auto simp: require_safe_def Let_def)
qed

text \<open>The documentation names C0 and C1. The control sequence introducer U+009B, whose category is none of the dangerous
  ones, passes.\<close>

lemma c1_controls_pass:
  "128 \<le> c \<Longrightarrow> c \<le> 159 \<Longrightarrow> \<not> dangerous c \<Longrightarrow> guard_check u [c] = [] \<Longrightarrow> 1 \<le> max_length \<Longrightarrow> passes_boundary u dangerous max_length [c]"
  by (simp add: passes_boundary_def control_char_def)

end
