(* ===== verification/Validation.thy ===== *)
theory Validation
  imports Boundary
begin

text \<open>
  \<open>middleware/validation.py\<close>: the injection guard over parameter values and the validator. What the
  \<open>jsonschema\<close> library reports for a schema and an instance is the argument \<open>schema_errors\<close>: for each
  error its path, the failing keyword and the message; whether a schema is well-formed is \<open>schema_ok\<close>. A
  well-formed schema of Draft 7 is an object or a boolean.
\<close>

definition param_patterns :: "unicode \<Rightarrow> (string \<times> rx) list" where
  "param_patterns u =
     [(''sql_injection'', alts [seqs [kw ''union'', spaces, kw ''select''], seqs [kw ''drop'', spaces, kw ''table''],
         seqs [kw ''insert'', spaces, kw ''into''], seqs [kw ''delete'', spaces, kw ''from''],
         seqs [kw ''exec'', Star space, kw ''('' ], kw ''xp_cmdshell'']),
      (''path_traversal'', seqs [lit [46, 46], Chr (\<lambda>c. c = 92 \<or> c = 47)]),
      (''null_byte'', lit [0]),
      (''shell_metachar'', Chr (\<lambda>c. c \<in> {59, 38, 124, 96})),
      (''template_injection'', alts [seqs [lit [123, 123], UpTo 200 not_newline, lit [125, 125]],
         seqs [lit [36, 123], UpTo 200 not_newline, lit [125]]]),
      (''script_injection'', seqs [kw ''<'', Star space, kw ''script'', WordEdge (u_word u)]),
      (''crlf_injection'', alts [lit [13, 10], seqs [lit [13], NotNext (\<lambda>c. c = 10)]])]"

datatype param_issue = Injection string | SchemaNotRegistered | SchemaViolation str

record validation_finding =
  vf_parameter :: str
  vf_issue :: param_issue
  vf_excerpt :: str

text \<open>The first pattern that occurs in a value, with the context of the match.\<close>

fun scan_text :: "(string \<times> rx) list \<Rightarrow> str \<Rightarrow> str \<Rightarrow> validation_finding list" where
  "scan_text [] s path = []"
| "scan_text ((label, r) # rs) s path =
     (case rx_search r s of
        Some m \<Rightarrow> [\<lparr>vf_parameter = path, vf_issue = Injection label, vf_excerpt = excerpt_of 30 s m\<rparr>]
      | None \<Rightarrow> scan_text rs s path)"

fun scan_value :: "unicode \<Rightarrow> json \<Rightarrow> str \<Rightarrow> validation_finding list" where
  "scan_value u (JStr s) path = scan_text (param_patterns u) s path"
| "scan_value u (JDict ps) path = concat (map (\<lambda>(k, v). scan_value u v (path @ 46 # k)) ps)"
| "scan_value u (JList xs) path =
     concat (map (\<lambda>(i, f). f (path @ 91 # digits i @ [93])) (List.enumerate 0 (map (scan_value u) xs)))"
| "scan_value u v path = []"

record param_validator =
  pv_schemas :: "str \<rightharpoonup> json"
  pv_allow_unknown :: bool

definition new_validator :: "bool \<Rightarrow> param_validator" where
  "new_validator allow_unknown = \<lparr>pv_schemas = Map.empty, pv_allow_unknown = allow_unknown\<rparr>"

definition register_schema :: "(json \<Rightarrow> bool) \<Rightarrow> str \<Rightarrow> json \<Rightarrow> param_validator \<Rightarrow> param_validator option" where
  "register_schema schema_ok tool schema pv =
     (if schema_ok schema then Some (pv\<lparr>pv_schemas := (pv_schemas pv)(tool \<mapsto> schema)\<rparr>) else None)"

text \<open>Strict mode: a schema that declares properties admits no others.\<close>

definition strict_schema :: "(str \<times> json) list \<Rightarrow> (str \<times> json) list" where
  "strict_schema d =
     (if ascii ''properties'' \<in> fst ` set d \<and> ascii ''additionalProperties'' \<notin> fst ` set d
      then d @ [(ascii ''additionalProperties'', JBool False)] else d)"

definition schema_findings :: "(json \<Rightarrow> (str list \<times> str \<times> str) list) \<Rightarrow> json \<Rightarrow> validation_finding list" where
  "schema_findings errors arguments =
     map (\<lambda>(path, keyword, message).
            \<lparr>vf_parameter = (if join [46] path = [] then ascii ''arguments'' else join [46] path),
             vf_issue = SchemaViolation keyword, vf_excerpt = html_escape (take 120 message)\<rparr>) (errors arguments)"

text \<open>\<open>ParameterValidationError\<close> carries the findings. \<open>dict(schema)\<close> of a boolean schema raises \<open>TypeError\<close>, with the
  findings so far lost.\<close>

datatype params_failure = Findings "validation_finding list" | SchemaTypeError

definition validate_params :: "unicode \<Rightarrow> (json \<Rightarrow> json \<Rightarrow> (str list \<times> str \<times> str) list) \<Rightarrow> param_validator \<Rightarrow> str \<Rightarrow>
    (str \<times> json) list \<Rightarrow> params_failure + unit" where
  "validate_params u schema_errors pv tool arguments =
     (let injected = scan_value u (JDict arguments) (ascii ''arguments'')
      in case pv_schemas pv tool of
           None \<Rightarrow>
             if \<not> pv_allow_unknown pv
             then Inl (Findings (injected @ [\<lparr>vf_parameter = ascii ''tool_name'', vf_issue = SchemaNotRegistered,
                                              vf_excerpt = html_escape (take 120 tool)\<rparr>]))
             else if injected \<noteq> [] then Inl (Findings injected) else Inr ()
         | Some (JDict d) \<Rightarrow>
             (let findings = injected @ schema_findings (schema_errors (JDict (strict_schema d))) (JDict arguments)
              in if findings \<noteq> [] then Inl (Findings findings) else Inr ())
         | Some _ \<Rightarrow> Inl SchemaTypeError)"

section \<open>Properties\<close>

text \<open>Every string that is a value inside a value, at any depth. The names of the arguments are not among them.\<close>

fun strings_in :: "json \<Rightarrow> str list" where
  "strings_in (JStr s) = [s]"
| "strings_in (JDict ps) = concat (map (\<lambda>(k, v). strings_in v) ps)"
| "strings_in (JList xs) = concat (map strings_in xs)"
| "strings_in v = []"

definition clean_text_value :: "unicode \<Rightarrow> str \<Rightarrow> bool" where
  "clean_text_value u s \<longleftrightarrow> (\<forall>(label, r) \<in> set (param_patterns u). \<not> occurs_in r s)"

lemma scan_text_clean: "scan_text rs s path = [] \<longleftrightarrow> (\<forall>(label, r) \<in> set rs. \<not> occurs_in r s)"
proof (induction rs)
  case (Cons lr rs)
  obtain l r where lr: "lr = (l, r)" by (cases lr)
  show ?case using Cons rx_search_iff [of r s] by (cases "rx_search r s") (auto simp: lr)
qed simp

lemma scan_value_clean: "scan_value u v path = [] \<longleftrightarrow> (\<forall>s \<in> set (strings_in v). clean_text_value u s)"
proof (induction v arbitrary: path)
  case (JStr s)
  then show ?case by (simp add: scan_text_clean clean_text_value_def)
next
  case (JList xs)
  have "scan_value u (JList xs) path = [] \<longleftrightarrow>
      (\<forall>i < length xs. scan_value u (xs ! i) (path @ 91 # digits i @ [93]) = [])"
  proof -
    have "set (List.enumerate 0 (map (scan_value u) xs)) = (\<lambda>i. (i, scan_value u (xs ! i))) ` {..<length xs}"
      by (auto simp: in_set_enumerate_eq image_iff)
    then show ?thesis by auto
  qed
  also have "\<dots> \<longleftrightarrow> (\<forall>x \<in> set xs. \<forall>s \<in> set (strings_in x). clean_text_value u s)"
    using JList by (metis in_set_conv_nth nth_mem)
  finally show ?case by auto
next
  case (JDict ps)
  have "(\<forall>(k, v) \<in> set ps. scan_value u v (path @ 46 # k) = []) \<longleftrightarrow>
      (\<forall>(k, v) \<in> set ps. \<forall>s \<in> set (strings_in v). clean_text_value u s)"
    using JDict by fastforce
  then show ?case by auto
qed auto

text \<open>C29. Validation is complete: a call passes exactly when no string value anywhere in its arguments
  contains an injection pattern, and its tool is registered with a schema that is an object and that the arguments satisfy
  in strict mode, or unregistered where that is allowed. A registered boolean schema makes every call of its tool end in a
  \<open>TypeError\<close>, and nothing else does. The names of the arguments are not scanned.\<close>

theorem validation_exact:
  "(validate_params u schema_errors pv tool arguments = Inr () \<longleftrightarrow>
      list_all (clean_text_value u) (strings_in (JDict arguments)) \<and>
      (case pv_schemas pv tool of
         None \<Rightarrow> pv_allow_unknown pv
       | Some schema \<Rightarrow>
           (\<exists>d. schema = JDict d \<and> schema_errors (JDict (strict_schema d)) (JDict arguments) = []))) \<and>
   (validate_params u schema_errors pv tool arguments = Inl SchemaTypeError \<longleftrightarrow>
      (\<exists>schema. pv_schemas pv tool = Some schema \<and> (\<nexists>d. schema = JDict d)))"
proof -
  note clean = scan_value_clean [of u "JDict arguments" "ascii ''arguments''"]
  show ?thesis
  proof (cases "pv_schemas pv tool")
    case None
    then show ?thesis
      unfolding validate_params_def Let_def list_all_iff clean [symmetric] by (simp del: scan_value.simps ascii_simps)
  next
    case (Some schema)
    then show ?thesis
      unfolding validate_params_def Let_def list_all_iff clean [symmetric]
      by (cases schema) (simp_all add: schema_findings_def del: scan_value.simps ascii_simps)
  qed
qed

text \<open>A name that carries a separator of commands passes where unknown tools are allowed; a boolean schema, which is
  well-formed, raises.\<close>

lemma argument_names_unscanned: "scan_value u (JDict [([97, 59, 98], JInt 1)]) path = []"
  by simp

lemma boolean_schema_raises:
  "register_schema schema_ok tool (JBool b) pv = Some pv' \<Longrightarrow>
     validate_params u schema_errors pv' tool arguments = Inl SchemaTypeError"
  by (auto simp: register_schema_def validate_params_def Let_def split: if_splits)

end
