(* ===== verification/Mcp_Session.thy ===== *)
theory Mcp_Session
  imports Protocol
begin

text \<open>
  \<open>session.py\<close>: the client's session over both eras of the protocol. The network is the argument
  \<open>net\<close>: what comes back for a request, given all requests sent so far. A sent request records the
  transport it went over and the version its metadata headers declare (\<open>None\<close>: no such headers).
  Server-controlled error texts are reduced to the constructor of the failure; a warning is not a
  state change. \<open>Raised\<close> stands for any exception other than \<open>SessionIncompleteError\<close>.
\<close>

datatype session_status = Incomplete | Ready | Closed

datatype era = ModernEra | LegacyEra

datatype requested_era = AutoEra | OnlyModern | OnlyLegacy

datatype transport_kind = ConfiguredTransport | LegacySse

record sent_request =
  sr_method :: str
  sr_params :: "(str \<times> json) list"
  sr_version :: "str option"
  sr_headers :: "(str, str) dict option"
  sr_transport :: transport_kind
  sr_notification :: bool

datatype net_reply = NetException str | NetReply "(str \<times> json) list"

datatype summary_part = SummaryStatus | SummaryError | SummaryException str | SummaryResult

datatype fail_reason =
    NotReady
  | RequestFailed str
  | ServerError str
  | MissingResult
  | NotComplete
  | DiscoverFailed era_detection "summary_part list"
  | WithDiscover fail_reason "summary_part list"

datatype session_fail = SessionIncomplete fail_reason | Raised

record session_info =
  si_protocol_version :: json
  si_server_info :: json
  si_tool_manifest :: json
  si_transport_type :: str
  si_protocol_era :: era

record mcp_session =
  ms_target_url :: str
  ms_kind :: transport_kind
  ms_header_version :: "str option"
  ms_sent :: "sent_request list"
  ms_status :: session_status
  ms_protocol_version :: json
  ms_server_info :: json
  ms_tool_manifest :: json
  ms_transport_type :: str
  ms_era :: era
  ms_auth_rejected :: bool
  ms_detection :: "era_detection option"
  ms_error_code :: json

definition new_session :: "str \<Rightarrow> str \<Rightarrow> mcp_session" where
  "new_session transport_type target_url =
     \<lparr>ms_target_url = target_url, ms_kind = ConfiguredTransport, ms_header_version = None, ms_sent = [],
      ms_status = Incomplete, ms_protocol_version = JStr [], ms_server_info = JDict [], ms_tool_manifest = JList [],
      ms_transport_type = transport_type, ms_era = LegacyEra, ms_auth_rejected = False, ms_detection = None,
      ms_error_code = JNull\<rparr>"

definition client_info :: "(str \<times> json) list" where
  "client_info = [(ascii ''name'', JStr (ascii ''cosai-mcp-scanner'')), (ascii ''version'', JStr (ascii ''0.1.0''))]"

definition request_meta :: "(str \<times> json) list" where
  "request_meta = build_request_meta client_info [] modern_version"

definition m_initialize :: str where "m_initialize = ascii ''initialize''"
definition m_initialized :: str where "m_initialized = ascii ''initialized''"
definition m_tools_list :: str where "m_tools_list = ascii ''tools/list''"
definition m_discover :: str where "m_discover = ascii ''server/discover''"

definition handshake_methods :: "str list" where
  "handshake_methods = [m_initialize, ascii ''notifications/initialized'', m_initialized]"

type_synonym network = "sent_request list \<Rightarrow> sent_request \<Rightarrow> net_reply"

section \<open>Sending\<close>

definition send :: "network \<Rightarrow> str \<Rightarrow> (str \<times> json) list \<Rightarrow> (str, str) dict option \<Rightarrow> mcp_session \<Rightarrow> net_reply \<times> mcp_session" where
  "send net mthd params headers s =
     (let req = \<lparr>sr_method = mthd, sr_params = params, sr_version = ms_header_version s, sr_headers = headers,
                 sr_transport = ms_kind s, sr_notification = False\<rparr>
      in (net (ms_sent s) req, s\<lparr>ms_sent := ms_sent s @ [req]\<rparr>))"

text \<open>A notification is fire-and-forget: its failure is swallowed.\<close>

definition notify_server :: "str \<Rightarrow> mcp_session \<Rightarrow> mcp_session" where
  "notify_server mthd s =
     s\<lparr>ms_sent := ms_sent s @ [\<lparr>sr_method = mthd, sr_params = [], sr_version = ms_header_version s, sr_headers = None,
                               sr_transport = ms_kind s, sr_notification = True\<rparr>]\<rparr>"

definition field_or :: "(str \<times> json) list \<Rightarrow> str \<Rightarrow> json \<Rightarrow> json" where
  "field_or d k v = (case map_of d k of None \<Rightarrow> v | Some w \<Rightarrow> w)"

definition summarize :: "(str \<times> json) list \<Rightarrow> summary_part list" where
  "summarize response =
     (let parts =
        (case field_or response (ascii ''_status_code'') JNull of JInt _ \<Rightarrow> [SummaryStatus] | JBool _ \<Rightarrow> [SummaryStatus] | _ \<Rightarrow> []) @
        (if ascii ''error'' \<in> fst ` set response then [SummaryError] else []) @
        (case map_of response (ascii ''exception'') of
           Some (JStr t) \<Rightarrow> [SummaryException (take 60 (takeWhile (\<lambda>c. c \<noteq> 58) t))] | _ \<Rightarrow> [])
      in if parts = [] \<and> ascii ''result'' \<in> fst ` set response then [SummaryResult] else parts)"

text \<open>The probe; \<open>None\<close> is an exception of the classification.\<close>

definition probe_modern :: "network \<Rightarrow> mcp_session \<Rightarrow> (era_detection \<times> (str \<times> json) list) option \<times> mcp_session" where
  "probe_modern net s =
     (case send net m_discover (with_request_meta [] request_meta) None (s\<lparr>ms_header_version := Some modern_version\<rparr>) of
        (NetException nm, s') \<Rightarrow> (Some (Undetermined, [(ascii ''exception'', JStr nm)]), s')
      | (NetReply response, s') \<Rightarrow>
          (map_option (\<lambda>d. (d, response)) (classify_discover_response (JDict response)), s'))"

section \<open>The two lifecycles\<close>

text \<open>The answer to \<open>tools/list\<close>, which both lifecycles need to become ready.\<close>

definition take_manifest :: "bool \<Rightarrow> net_reply \<Rightarrow> session_fail + json" where
  "take_manifest modern reply =
     (case reply of
        NetException nm \<Rightarrow> Inl (SessionIncomplete (RequestFailed m_tools_list))
      | NetReply response \<Rightarrow>
          if ascii ''error'' \<in> fst ` set response then Inl (SessionIncomplete (ServerError m_tools_list))
          else (case field_or response (ascii ''result'') (JDict []) of
                  JDict r \<Rightarrow>
                    if modern \<and> field_or r (ascii ''resultType'') (JStr (ascii ''complete'')) \<noteq> JStr (ascii ''complete'')
                    then Inl (SessionIncomplete NotComplete)
                    else Inr (field_or r (ascii ''tools'') (JList []))
                | _ \<Rightarrow> Inl Raised))"

definition info_of :: "era \<Rightarrow> mcp_session \<Rightarrow> session_info" where
  "info_of e s =
     \<lparr>si_protocol_version = ms_protocol_version s, si_server_info = ms_server_info s,
      si_tool_manifest = ms_tool_manifest s, si_transport_type = ms_transport_type s, si_protocol_era = e\<rparr>"

definition become_ready :: "era \<Rightarrow> json \<Rightarrow> mcp_session \<Rightarrow> (session_fail + session_info) \<times> mcp_session" where
  "become_ready e manifest s =
     (let s' = s\<lparr>ms_tool_manifest := manifest, ms_status := Ready\<rparr> in (Inr (info_of e s'), s'))"

definition server_info_of :: "(str \<times> json) list \<Rightarrow> json" where
  "server_info_of result =
     (case map_of result (ascii ''_meta'') of
        Some (JDict meta) \<Rightarrow>
          (case map_of meta (ascii ''io.modelcontextprotocol/serverInfo'') of Some (JDict i) \<Rightarrow> JDict i | _ \<Rightarrow> JDict [])
      | _ \<Rightarrow> JDict [])"

definition start_modern :: "network \<Rightarrow> (str \<times> json) list \<Rightarrow> mcp_session \<Rightarrow> (session_fail + session_info) \<times> mcp_session" where
  "start_modern net discover s =
     (case field_or discover (ascii ''result'') (JDict []) of
        JDict result \<Rightarrow>
          (let s1 = s\<lparr>ms_server_info := server_info_of result, ms_protocol_version := JStr modern_version, ms_era := ModernEra\<rparr>
           in case send net m_tools_list (with_request_meta [] request_meta) None s1 of
                (reply, s2) \<Rightarrow>
                  (case take_manifest True reply of Inl e \<Rightarrow> (Inl e, s2)
                   | Inr manifest \<Rightarrow> become_ready ModernEra manifest s2))
      | _ \<Rightarrow> (Inl Raised, s))"

definition initialize_params :: "(str \<times> json) list" where
  "initialize_params =
     [(ascii ''protocolVersion'', JStr (ascii ''2025-03-26'')), (ascii ''clientInfo'', JDict client_info),
      (ascii ''capabilities'', JDict [])]"

text \<open>The result object of an \<open>initialize\<close> answer; an empty one is missing on the first round only.\<close>

definition init_result :: "net_reply \<Rightarrow> session_fail + json" where
  "init_result reply =
     (case reply of
        NetException nm \<Rightarrow> Inl (SessionIncomplete (RequestFailed m_initialize))
      | NetReply response \<Rightarrow>
          if ascii ''error'' \<in> fst ` set response then Inl (SessionIncomplete (ServerError m_initialize))
          else Inr (field_or response (ascii ''result'') (JDict [])))"

definition is_falsy :: "json \<Rightarrow> bool" where
  "is_falsy v \<longleftrightarrow> v \<in> {JNull, JStr [], JList [], JDict []} \<or> num_is v 0"

text \<open>Switching to the 2024-11-05 transport and repeating \<open>initialize\<close> over it.\<close>

definition switch_to_sse :: "network \<Rightarrow> bool \<Rightarrow> mcp_session \<Rightarrow> (session_fail + unit) \<times> mcp_session" where
  "switch_to_sse net sse_connects s =
     (if \<not> sse_connects then (Inl Raised, s)
      else case send net m_initialize initialize_params None (s\<lparr>ms_kind := LegacySse, ms_header_version := None\<rparr>) of
        (reply, s1) \<Rightarrow>
          (case init_result reply of Inl e \<Rightarrow> (Inl e, s1)
           | Inr (JDict r) \<Rightarrow>
               (Inr (), s1\<lparr>ms_protocol_version := field_or r (ascii ''protocolVersion'') (ms_protocol_version s1),
                           ms_server_info := field_or r (ascii ''serverInfo'') (ms_server_info s1)\<rparr>)
           | Inr _ \<Rightarrow> (Inl Raised, s1)))"

definition finish_legacy :: "network \<Rightarrow> mcp_session \<Rightarrow> (session_fail + session_info) \<times> mcp_session" where
  "finish_legacy net s =
     (case send net m_tools_list [] None (notify_server m_initialized s) of
        (reply, s') \<Rightarrow>
          (case take_manifest False reply of Inl e \<Rightarrow> (Inl e, s')
           | Inr manifest \<Rightarrow> become_ready LegacyEra manifest s'))"

definition start_legacy :: "network \<Rightarrow> bool \<Rightarrow> mcp_session \<Rightarrow> (session_fail + session_info) \<times> mcp_session" where
  "start_legacy net sse_connects s =
     (case send net m_initialize initialize_params None (s\<lparr>ms_era := LegacyEra\<rparr>) of
        (reply, s1) \<Rightarrow>
          (case init_result reply of Inl e \<Rightarrow> (Inl e, s1)
           | Inr result \<Rightarrow>
               if is_falsy result then (Inl (SessionIncomplete MissingResult), s1)
               else case result of
                 JDict r \<Rightarrow>
                   (let version = field_or r (ascii ''protocolVersion'') (JStr []);
                        s2 = s1\<lparr>ms_protocol_version := version,
                                ms_server_info := field_or r (ascii ''serverInfo'') (JDict [])\<rparr>
                    in if \<not> hashable version then (Inl Raised, s2)
                       else if version = JStr (ascii ''2024-11-05'') then
                         (let s3 = s2\<lparr>ms_transport_type := ascii ''LegacySSETransport''\<rparr>
                          in if ms_target_url s3 = [] then finish_legacy net s3
                             else case switch_to_sse net sse_connects s3 of
                               (Inl e, s4) \<Rightarrow> (Inl e, s4)
                             | (Inr _, s4) \<Rightarrow> finish_legacy net s4)
                       else finish_legacy net s2)
               | _ \<Rightarrow> (Inl Raised, s1)))"

definition note_discover :: "era_detection \<Rightarrow> (str \<times> json) list \<Rightarrow> mcp_session \<Rightarrow> mcp_session" where
  "note_discover detection response s =
     s\<lparr>ms_auth_rejected :=
          (let st = field_or response (ascii ''_status_code'') JNull in num_is st 401 \<or> num_is st 403),
       ms_detection := Some detection,
       ms_error_code := (case map_of response (ascii ''error'') of
                           Some (JDict err) \<Rightarrow> field_or err (ascii ''code'') JNull | _ \<Rightarrow> JNull)\<rparr>"

definition start_session :: "network \<Rightarrow> bool \<Rightarrow> requested_era \<Rightarrow> mcp_session \<Rightarrow> (session_fail + session_info) \<times> mcp_session" where
  "start_session net sse_connects requested s =
     (if requested = OnlyLegacy then start_legacy net sse_connects s
      else case probe_modern net s of
        (None, s1) \<Rightarrow> (Inl Raised, s1)
      | (Some (detection, response), s1) \<Rightarrow>
          (let s2 = note_discover detection response s1 in
           if detection = EraModern then start_modern net response s2
           else if requested = OnlyModern \<or> detection = ModernIncompatible \<or> detection = ModernError
           then (Inl (SessionIncomplete (DiscoverFailed detection (summarize response))), s2)
           else
             (case start_legacy net sse_connects (s2\<lparr>ms_header_version := None\<rparr>) of
                (Inl (SessionIncomplete r), s3) \<Rightarrow>
                  (Inl (SessionIncomplete
                     (if detection = EraLegacy \<and> num_is (ms_error_code s2) (- 32601) then r
                      else WithDiscover r (summarize response))), s3)
              | x \<Rightarrow> x)))"

definition detect_era :: "network \<Rightarrow> mcp_session \<Rightarrow> era_detection option \<times> mcp_session" where
  "detect_era net s =
     (case probe_modern net s of
        (None, s1) \<Rightarrow> (None, s1)
      | (Some (detection, response), s1) \<Rightarrow>
          (Some detection,
           s1\<lparr>ms_error_code := (case map_of response (ascii ''error'') of
                                 Some (JDict err) \<Rightarrow> field_or err (ascii ''code'') JNull | _ \<Rightarrow> JNull),
              ms_header_version := None\<rparr>))"

definition enter_unverified :: "bool \<Rightarrow> mcp_session \<Rightarrow> mcp_session" where
  "enter_unverified modern s =
     (if modern
      then s\<lparr>ms_header_version := Some modern_version, ms_era := ModernEra, ms_protocol_version := JStr modern_version,
             ms_tool_manifest := JList [], ms_status := Ready\<rparr>
      else s\<lparr>ms_header_version := None, ms_era := LegacyEra, ms_tool_manifest := JList [], ms_status := Ready\<rparr>)"

section \<open>Requests of a ready session\<close>

text \<open>The \<open>Mcp-Param-*\<close> headers of a call; \<open>None\<close> is an exception. Tool names are compared as JSON values,
  which is Python's equality for the strings they are.\<close>

fun tool_param_headers :: "json list \<Rightarrow> (str \<times> json) list \<Rightarrow> (str, str) dict option" where
  "tool_param_headers [] payload = Some []"
| "tool_param_headers (t # ts) payload =
     (case t of
        JDict tool \<Rightarrow>
          if field_or tool (ascii ''name'') JNull = field_or payload (ascii ''name'') JNull
          then x_mcp_param_headers False (field_or tool (ascii ''inputSchema'') JNull) (field_or payload (ascii ''arguments'') JNull)
          else tool_param_headers ts payload
      | _ \<Rightarrow> tool_param_headers ts payload)"

definition call_headers :: "json \<Rightarrow> (str \<times> json) list \<Rightarrow> (str, str) dict option" where
  "call_headers manifest payload =
     (case manifest of
        JList tools \<Rightarrow> tool_param_headers tools payload
      | JDict _ \<Rightarrow> Some []
      | JStr _ \<Rightarrow> Some []
      | _ \<Rightarrow> None)"

definition reply_of :: "net_reply \<times> mcp_session \<Rightarrow> (session_fail + (str \<times> json) list) \<times> mcp_session" where
  "reply_of x = (case x of (NetException nm, s) \<Rightarrow> (Inl Raised, s) | (NetReply r, s) \<Rightarrow> (Inr r, s))"

definition send_raw :: "network \<Rightarrow> str \<Rightarrow> (str \<times> json) list \<Rightarrow> (str, str) dict option \<Rightarrow> mcp_session \<Rightarrow>
    (session_fail + (str \<times> json) list) \<times> mcp_session" where
  "send_raw net mthd payload override s =
     (if ms_status s \<noteq> Ready then (Inl (SessionIncomplete NotReady), s)
      else if ms_era s = ModernEra \<and> mthd \<in> set handshake_methods then
        (case reply_of (send net mthd payload override (s\<lparr>ms_header_version := None\<rparr>)) of
           (r, s') \<Rightarrow> (r, s'\<lparr>ms_header_version := Some modern_version\<rparr>))
      else if ms_era s = ModernEra then
        (case (if mthd = ascii ''tools/call'' then call_headers (ms_tool_manifest s) payload else Some []) of
           None \<Rightarrow> (Inl Raised, s)
         | Some hs \<Rightarrow>
             (let headers = (case override of None \<Rightarrow> hs | Some o' \<Rightarrow> dict_merge hs o')
              in reply_of (send net mthd (with_request_meta payload request_meta)
                             (if headers = [] then None else Some headers) s)))
      else reply_of (send net mthd payload override s))"

definition tools_call :: "network \<Rightarrow> str \<Rightarrow> (str \<times> json) list \<Rightarrow> (str, str) dict option \<Rightarrow> mcp_session \<Rightarrow>
    (session_fail + (str \<times> json) list) \<times> mcp_session" where
  "tools_call net nm arguments override s =
     (if ms_status s \<noteq> Ready then (Inl (SessionIncomplete NotReady), s)
      else send_raw net (ascii ''tools/call'') [(ascii ''name'', JStr nm), (ascii ''arguments'', JDict arguments)] override s)"

definition tools_list :: "mcp_session \<Rightarrow> session_fail + json" where
  "tools_list s = (if ms_status s \<noteq> Ready then Inl (SessionIncomplete NotReady) else Inr (ms_tool_manifest s))"

definition close_session :: "mcp_session \<Rightarrow> mcp_session" where
  "close_session s = s\<lparr>ms_status := Closed\<rparr>"

text \<open>Any server-to-client request is answered with \<open>-32601\<close>; \<open>py_repr\<close> prints the method.\<close>

definition handle_server_request :: "(json \<Rightarrow> str) \<Rightarrow> (str \<times> json) list \<Rightarrow> (str \<times> json) list" where
  "handle_server_request py_repr message =
     [(ascii ''jsonrpc'', JStr (ascii ''2.0'')), (ascii ''id'', field_or message (ascii ''id'') JNull),
      (ascii ''error'', JDict [(ascii ''code'', JInt (- 32601)),
         (ascii ''message'', JStr (ascii ''Method not found: '' @
            py_repr (field_or message (ascii ''method'') (JStr (ascii ''<unknown>'')))))])]"

section \<open>Properties\<close>

lemma send_sent:
  "ms_sent (snd (send net mthd params hs s)) = ms_sent s @
     [\<lparr>sr_method = mthd, sr_params = params, sr_version = ms_header_version s, sr_headers = hs,
       sr_transport = ms_kind s, sr_notification = False\<rparr>]"
  by (simp add: send_def Let_def)

lemma send_keeps [simp]:
  "ms_status (snd (send net mthd params hs s)) = ms_status s"
  "ms_era (snd (send net mthd params hs s)) = ms_era s"
  "ms_header_version (snd (send net mthd params hs s)) = ms_header_version s"
  "ms_tool_manifest (snd (send net mthd params hs s)) = ms_tool_manifest s"
  by (simp_all add: send_def Let_def)

text \<open>The methods a session has sent.\<close>

definition methods_sent :: "mcp_session \<Rightarrow> str list" where
  "methods_sent s = map sr_method (ms_sent s)"

lemma methods_send: "send net mthd params hs s = (r, s') \<Longrightarrow> methods_sent s' = methods_sent s @ [mthd]"
  by (auto simp: send_def Let_def methods_sent_def)

lemma start_modern_methods:
  "start_modern net discover s = (r, s') \<Longrightarrow> methods_sent s' = methods_sent s \<or> methods_sent s' = methods_sent s @ [m_tools_list]"
  unfolding start_modern_def become_ready_def
  by (auto simp: Let_def methods_sent_def send_def split: json.splits sum.splits)

lemma probe_modern_methods: "probe_modern net s = (r, s') \<Longrightarrow> methods_sent s' = methods_sent s @ [m_discover]"
  by (auto simp: probe_modern_def methods_sent_def send_def Let_def split: net_reply.splits)

lemma note_discover_methods [simp]: "methods_sent (note_discover d r s) = methods_sent s"
  by (simp add: note_discover_def methods_sent_def)

text \<open>C30. No silent downgrade: when \<open>start\<close> has sent the legacy handshake, the caller asked for the
  legacy era, or the server's answer to \<open>server/discover\<close> was not recognisably modern and the caller
  left the era open; a server that answers as a modern one, compatible or not, never gets an
  \<open>initialize\<close>.\<close>

theorem no_silent_downgrade:
  assumes "start_session net sse_connects requested s = (result, s')"
    and "m_initialize \<notin> set (methods_sent s)" and "m_initialize \<in> set (methods_sent s')"
  shows "requested = OnlyLegacy \<or>
         requested = AutoEra \<and> (\<exists>response s1.
            probe_modern net s = (Some (EraLegacy, response), s1) \<or> probe_modern net s = (Some (Undetermined, response), s1))"
proof (cases "requested = OnlyLegacy")
  case False
  obtain p s1 where p: "probe_modern net s = (p, s1)" by fastforce
  have m1: "m_initialize \<notin> set (methods_sent s1)"
    using probe_modern_methods [OF p] assms(2) by (auto simp: m_initialize_def m_discover_def)
  obtain detection response where d: "p = Some (detection, response)"
    using assms p m1 False by (cases p) (auto simp: start_session_def)
  have "detection \<noteq> EraModern"
  proof
    assume "detection = EraModern"
    then have "start_modern net response (note_discover detection response s1) = (result, s')"
      using assms(1) p d False by (simp add: start_session_def Let_def)
    from start_modern_methods [OF this] have "m_initialize \<notin> set (methods_sent s')"
      using m1 by (auto simp: m_initialize_def m_tools_list_def)
    then show False using assms(3) by simp
  qed
  moreover have "requested \<noteq> OnlyModern \<and> detection \<noteq> ModernIncompatible \<and> detection \<noteq> ModernError"
  proof (rule ccontr)
    assume "\<not> ?thesis"
    then have "s' = note_discover detection response s1"
      using assms(1) p d False \<open>detection \<noteq> EraModern\<close> by (auto simp: start_session_def Let_def split: if_splits)
    then show False using assms(3) m1 by simp
  qed
  ultimately have "requested = AutoEra" "detection = EraLegacy \<or> detection = Undetermined"
    using False by (cases requested; cases detection; simp)+
  then show ?thesis using p d by blast
qed simp

text \<open>A network whose server answers every request with an empty result: a legacy server.\<close>

definition plain_net :: network where
  "plain_net sent req = NetReply [(ascii ''result'', JDict [(ascii ''protocolVersion'', JStr (ascii ''2025-03-26''))])]"

theorem no_silent_downgrade_witness:
  "m_initialize \<in> set (methods_sent (snd (start_session plain_net True AutoEra (new_session [] [])))) \<and>
   (\<exists>response s1. probe_modern plain_net (new_session [] []) = (Some (EraLegacy, response), s1) \<or>
      probe_modern plain_net (new_session [] []) = (Some (Undetermined, response), s1))"
proof -
  let ?s = "new_session [] []"
  obtain result s' where r: "start_session plain_net True AutoEra ?s = (result, s')" by fastforce
  have n: "m_initialize \<notin> set (methods_sent ?s)" by (simp add: new_session_def methods_sent_def)
  have p: "fst (probe_modern plain_net ?s) = Some (EraLegacy, [(ascii ''result'', JDict [(ascii ''protocolVersion'', JStr (ascii ''2025-03-26''))])])"
    by (simp add: probe_modern_def send_def plain_net_def classify_discover_response_def classify_error_def
        classify_status_def status_undetermined_def jget_def Let_def del: ascii_simps)
  have i: "m_initialize \<in> set (methods_sent s')"
  proof -
    obtain s1 where s1: "probe_modern plain_net ?s = (Some (EraLegacy, [(ascii ''result'', JDict [(ascii ''protocolVersion'', JStr (ascii ''2025-03-26''))])]), s1)"
      using p by (metis surjective_pairing)
    show ?thesis
      using r unfolding start_session_def s1
      by (auto simp: Let_def start_legacy_def send_def plain_net_def init_result_def finish_legacy_def field_or_def
          is_falsy_def num_is_def hashable_def take_manifest_def become_ready_def notify_server_def methods_sent_def
          simp del: ascii_simps)
  qed
  from no_silent_downgrade [OF r n i] i r show ?thesis by auto
qed

end
