(* ===== verification/Stack.thy ===== *)
theory Stack
  imports Authz Audit_Log Request_Envelope Meta_Trust Supply_Chain Jwt_Session Validation
begin

text \<open>
  \<open>CoSAIStack\<close> of \<open>middleware/__init__.py\<close>: the composition of the enforcement components. What the
  components take from outside the code is the record \<open>stack_env\<close>; an audit entry gets its identifier
  and time from a \<open>stamp\<close>, and where several entries may be written from a sequence of stamps.
\<close>

record 'key stack_env =
  se_unicode :: unicode
  se_schema_errors :: "json \<Rightarrow> json \<Rightarrow> (str list \<times> str \<times> str) list"
  se_decode :: "str \<Rightarrow> 'key \<Rightarrow> str list \<Rightarrow> (claims \<times> claims) option"
  se_parse_float :: "str \<Rightarrow> number option"
  se_repr :: "json \<Rightarrow> str"
  se_sha :: "str \<Rightarrow> str"
  se_pattern_source :: "nat \<Rightarrow> str"

record stamp =
  stamp_id :: str
  stamp_now :: json

record cosai_stack =
  cs_validator :: param_validator
  cs_allowlist :: "str list"
  cs_authz :: authz_enforcer
  cs_session :: "session_manager option"
  cs_audit :: "audit_logger option"

text \<open>The constructor's defaults: unknown tools are validated only for injections, and unconfigured tools allowed.\<close>

definition new_stack :: "param_validator option \<Rightarrow> str list option \<Rightarrow> authz_enforcer option \<Rightarrow> session_manager option \<Rightarrow>
    audit_logger option \<Rightarrow> cosai_stack" where
  "new_stack validator allowlist authz sessions audit =
     \<lparr>cs_validator = (case validator of None \<Rightarrow> new_validator True | Some v \<Rightarrow> v),
      cs_allowlist = (case allowlist of None \<Rightarrow> [] | Some ws \<Rightarrow> ws),
      cs_authz = (case authz of None \<Rightarrow> new_authz True | Some a \<Rightarrow> a),
      cs_session = sessions, cs_audit = audit\<rparr>"

text \<open>Writing one audit entry, if there is a log.\<close>

definition write_audit :: "'key stack_env \<Rightarrow> stamp \<Rightarrow> str \<Rightarrow> str \<Rightarrow> (str \<times> json) list \<Rightarrow> (str \<times> json) list option \<Rightarrow>
    cosai_stack \<Rightarrow> cosai_stack" where
  "write_audit env sp mthd session_id params event st =
     (case cs_audit st of
        None \<Rightarrow> st
      | Some lg \<Rightarrow>
          st\<lparr>cs_audit := Some (snd (audit_log (se_sha env) (u_printable (se_unicode env)) (se_repr env)
                 \<lparr>ac_entry_id = stamp_id sp, ac_now = stamp_now sp, ac_method = mthd, ac_session_id = session_id,
                  ac_params = params, ac_parent_id = None, ac_event = event\<rparr> lg))\<rparr>)"

section \<open>Manifest time\<close>

datatype manifest_error = SupplyChainRejected "allowlist_violation list" | ManifestRaised

fun audit_findings :: "'key stack_env \<Rightarrow> (nat \<Rightarrow> stamp) \<Rightarrow> nat \<Rightarrow> str \<Rightarrow> str \<Rightarrow> (injection_finding \<Rightarrow> (str \<times> json) list) \<Rightarrow>
    injection_finding list \<Rightarrow> cosai_stack \<Rightarrow> cosai_stack" where
  "audit_findings env stamps n mthd session_id params [] st = st"
| "audit_findings env stamps n mthd session_id params (f # fs) st =
     audit_findings env stamps (Suc n) mthd session_id params fs
       (write_audit env (stamps n) mthd session_id (params f) None st)"

definition check_manifest :: "'key stack_env \<Rightarrow> (nat \<Rightarrow> stamp) \<Rightarrow> (str \<times> json) list list \<Rightarrow> str \<Rightarrow> cosai_stack \<Rightarrow>
    (manifest_error + unit) \<times> cosai_stack" where
  "check_manifest env stamps tools session_id st =
     (case check_tools (se_repr env) (cs_allowlist st) tools of
        Inl vs \<Rightarrow> (Inl (SupplyChainRejected vs), st)
      | Inr _ \<Rightarrow>
          (case scan_tools (se_unicode env) (se_repr env) tools of
             None \<Rightarrow> (Inl ManifestRaised, st)
           | Some fs \<Rightarrow>
               (Inr (), audit_findings env stamps 0 (ascii ''check_manifest:tool_poisoning'') session_id
                  (\<lambda>f. [(ascii ''location'', JStr (if_location f)),
                        (ascii ''pattern'', JStr (se_pattern_source env (if_pattern f)))]) fs st)))"

section \<open>Tool calls\<close>

datatype stack_error =
    ParamsRejected params_failure
  | AuthzRejected authz_error
  | TokenRejected session_error

text \<open>Without a context the call counts as unauthenticated.\<close>

definition effective_context :: "authz_context option \<Rightarrow> authz_context" where
  "effective_context ctx = (case ctx of None \<Rightarrow> \<lparr>ac_scopes = {}, ac_has_user_claim = False\<rparr> | Some c \<Rightarrow> c)"

text \<open>The token check, which runs when a token, a key set and a session manager are all present.\<close>

definition check_token :: "'key stack_env \<Rightarrow> str option \<Rightarrow> 'key option \<Rightarrow> time \<Rightarrow> time \<Rightarrow> cosai_stack \<Rightarrow>
    (session_error + unit) \<times> cosai_stack" where
  "check_token env jwt keyset now tick st =
     (case (jwt, keyset, cs_session st) of
        (Some token, Some ks, Some sm) \<Rightarrow>
          (case validate_token (se_decode env) (se_repr env) (se_parse_float env) token ks now tick sm of
             (Inl e, sm') \<Rightarrow> (Inl e, st\<lparr>cs_session := Some sm'\<rparr>)
           | (Inr _, sm') \<Rightarrow> (Inr (), st\<lparr>cs_session := Some sm'\<rparr>))
      | _ \<Rightarrow> (Inr (), st))"

definition check_tool_call :: "'key stack_env \<Rightarrow> stamp \<Rightarrow> str \<Rightarrow> (str \<times> json) list \<Rightarrow> authz_context option \<Rightarrow> str \<Rightarrow>
    str option \<Rightarrow> 'key option \<Rightarrow> time \<Rightarrow> time \<Rightarrow> cosai_stack \<Rightarrow> (stack_error + unit) \<times> cosai_stack" where
  "check_tool_call env sp tool arguments ctx session_id jwt keyset now tick st =
     (case validate_params (se_unicode env) (se_schema_errors env) (cs_validator st) tool arguments of
        Inl fs \<Rightarrow> (Inl (ParamsRejected fs), st)
      | Inr _ \<Rightarrow>
          (case authz_check (cs_authz st) tool (effective_context ctx) of
             Inl e \<Rightarrow> (Inl (AuthzRejected e), st)
           | Inr _ \<Rightarrow>
               (case check_token env jwt keyset now tick st of
                  (Inl e, st') \<Rightarrow> (Inl (TokenRejected e), st')
                | (Inr _, st') \<Rightarrow>
                    (Inr (), write_audit env sp (ascii ''tools/call'') session_id
                       [(ascii ''tool'', JStr tool), (ascii ''args'', JDict arguments)] None st'))))"

section \<open>Envelopes\<close>

datatype envelope_failure = BodyNotParsed | MetaTrust "str list" | EnvelopeRejected envelope_error

text \<open>Where \<open>_meta\<close> can ride: on a request, a response or an error.\<close>

definition carriers :: "(str \<times> json) list \<Rightarrow> json list" where
  "carriers message =
     map (\<lambda>k. case map_of message k of None \<Rightarrow> JNull | Some v \<Rightarrow> v) [ascii ''params'', ascii ''result''] @
     (case map_of message (ascii ''error'') of
        Some (JDict err) \<Rightarrow> [case map_of err (ascii ''data'') of None \<Rightarrow> JNull | Some v \<Rightarrow> v]
      | _ \<Rightarrow> [])"

definition carrier_meta :: "json \<Rightarrow> json" where
  "carrier_meta c = (case c of JDict d \<Rightarrow> (case map_of d (ascii ''_meta'') of None \<Rightarrow> JNull | Some v \<Rightarrow> v) | _ \<Rightarrow> JNull)"

text \<open>The offending keys of one carrier, if any.\<close>

definition check_carrier :: "unicode \<Rightarrow> auth_principal \<Rightarrow> str list option \<Rightarrow> json \<Rightarrow> str list option" where
  "check_carrier u prin allowed c =
     (case carrier_meta c of
        JNull \<Rightarrow> None
      | JDict meta \<Rightarrow> (case reconcile_meta u prin allowed meta of Inl ks \<Rightarrow> Some ks | Inr _ \<Rightarrow> None)
      | _ \<Rightarrow> Some [ascii ''_meta''])"

fun first_some :: "('a \<Rightarrow> 'b option) \<Rightarrow> 'a list \<Rightarrow> 'b option" where
  "first_some f [] = None"
| "first_some f (x # xs) = (case f x of Some y \<Rightarrow> Some y | None \<Rightarrow> first_some f xs)"

definition check_message :: "unicode \<Rightarrow> auth_principal \<Rightarrow> str list option \<Rightarrow> json \<Rightarrow> str list option" where
  "check_message u prin allowed message =
     (case message of
        JDict m \<Rightarrow> first_some (check_carrier u prin allowed) (carriers m)
      | _ \<Rightarrow> Some [ascii ''<batch element>''])"

definition audit_label :: "int \<Rightarrow> str" where
  "audit_label code =
     (if code = - 32020 then ascii ''header_mismatch'' else if code = - 32022 then ascii ''unsupported_version''
      else if code = - 32602 then ascii ''invalid_params'' else ascii ''invalid_request'')"

definition principal_field :: "auth_principal \<Rightarrow> str \<times> json" where
  "principal_field prin = (ascii ''principal'', JStr (ap_subject prin))"

definition log_meta :: "'key stack_env \<Rightarrow> stamp \<Rightarrow> auth_principal \<Rightarrow> str \<Rightarrow> str list \<Rightarrow> cosai_stack \<Rightarrow> cosai_stack" where
  "log_meta env sp prin session_id ks st =
     write_audit env sp (ascii ''check_request_envelope:meta_mismatch'') session_id
       [(ascii ''keys'', JList (map JStr ks)), principal_field prin]
       (Some [principal_field prin, (ascii ''keys'', JList (map JStr ks))]) st"

definition log_check :: "'key stack_env \<Rightarrow> stamp \<Rightarrow> auth_principal \<Rightarrow> str \<Rightarrow> string \<Rightarrow> string \<Rightarrow> cosai_stack \<Rightarrow> cosai_stack" where
  "log_check env sp prin session_id mthd check st =
     write_audit env sp (ascii mthd) session_id [principal_field prin]
       (Some [principal_field prin, (ascii ''check'', JStr (ascii check))]) st"

definition log_rejection :: "'key stack_env \<Rightarrow> stamp \<Rightarrow> auth_principal \<Rightarrow> str \<Rightarrow> envelope_error \<Rightarrow> cosai_stack \<Rightarrow> cosai_stack" where
  "log_rejection env sp prin session_id e st =
     (case e of
        HeaderTypeError \<Rightarrow>
          log_check env sp prin session_id ''check_request_envelope:invalid_headers'' ''unsupported_header_type'' st
      | MetadataError code reason \<Rightarrow>
          write_audit env sp (ascii ''check_request_envelope:'' @ audit_label code) session_id
            [(ascii ''code'', JInt code), (ascii ''check'', JStr reason), principal_field prin]
            (Some [principal_field prin, (ascii ''code'', JInt code), (ascii ''check'', JStr reason)]) st)"

definition messages_of :: "json \<Rightarrow> json list option" where
  "messages_of body = (case body of JDict _ \<Rightarrow> Some [body] | JList xs \<Rightarrow> Some xs | _ \<Rightarrow> None)"

definition check_request_envelope :: "'key stack_env \<Rightarrow> stamp \<Rightarrow> header_input \<Rightarrow> json \<Rightarrow> auth_principal \<Rightarrow>
    (str \<rightharpoonup> json) option \<Rightarrow> str list option \<Rightarrow> str \<Rightarrow> cosai_stack \<Rightarrow> (envelope_failure + str) \<times> cosai_stack" where
  "check_request_envelope env sp headers body prin tool_schemas allowed session_id st =
     (case messages_of body of
        None \<Rightarrow> (Inl BodyNotParsed,
                 log_check env sp prin session_id ''check_request_envelope:invalid_body'' ''unparsed_body'' st)
      | Some messages \<Rightarrow>
          (case first_some (check_message (se_unicode env) prin allowed) messages of
             Some ks \<Rightarrow> (Inl (MetaTrust ks), log_meta env sp prin session_id ks st)
           | None \<Rightarrow>
               (case validate_request_metadata (u_lower (se_unicode env)) modern_versions tool_schemas headers body of
                  Inl e \<Rightarrow> (Inl (EnvelopeRejected e), log_rejection env sp prin session_id e st)
                | Inr version \<Rightarrow> (Inr version, st))))"

section \<open>Responses\<close>

definition severity_text :: "scan_severity \<Rightarrow> str" where
  "severity_text sev = (case sev of ScanCritical \<Rightarrow> ascii ''critical'' | ScanHigh \<Rightarrow> ascii ''high'')"

definition check_response :: "'key stack_env \<Rightarrow> (nat \<Rightarrow> stamp) \<Rightarrow> str \<Rightarrow> str \<Rightarrow> cosai_stack \<Rightarrow> cosai_stack" where
  "check_response env stamps body session_id st =
     audit_findings env stamps 0 (ascii ''check_response:injection'') session_id
       (\<lambda>f. [(ascii ''location'', JStr (if_location f)), (ascii ''severity'', JStr (severity_text (if_severity f)))])
       (guard_check (se_unicode env) body) st"

section \<open>Properties\<close>

definition audited :: "cosai_stack \<Rightarrow> nat" where
  "audited st = (case cs_audit st of None \<Rightarrow> 0 | Some lg \<Rightarrow> al_entry_count lg)"

lemma write_audit_count:
  "audited (write_audit env sp m sid ps ev st) = audited st + (if cs_audit st = None then 0 else 1)"
  by (simp add: write_audit_def audited_def audit_log_def Let_def split: option.split)

lemma audit_findings_audit [simp]: "cs_audit (audit_findings env stamps n m sid ps fs st) = None \<longleftrightarrow> cs_audit st = None"
  by (induction fs arbitrary: n st) (auto simp: write_audit_def split: option.splits)

lemma audit_findings_count:
  "audited (audit_findings env stamps n m sid ps fs st) = audited st + (if cs_audit st = None then 0 else length fs)"
proof (induction fs arbitrary: n st)
  case (Cons f fs)
  have "cs_audit (write_audit env (stamps n) m sid (ps f) None st) = None \<longleftrightarrow> cs_audit st = None"
    by (simp add: write_audit_def split: option.split)
  then show ?case using Cons by (simp add: write_audit_count)
qed simp

lemma check_token_audit: "cs_audit (snd (check_token env jwt ks now tick st)) = cs_audit st"
  by (auto simp: check_token_def split: option.split sum.split prod.split)

lemma audited_log: "audited (log_rejection env sp prin sid e st) = audited st + (if cs_audit st = None then 0 else 1)"
  "audited (log_meta env sp prin sid ks st) = audited st + (if cs_audit st = None then 0 else 1)"
  "audited (log_check env sp prin sid m c st) = audited st + (if cs_audit st = None then 0 else 1)"
  by (simp_all add: log_rejection_def log_meta_def log_check_def write_audit_count split: envelope_error.split)

text \<open>C31. The order of enforcement: a tool call passes exactly when validation, authorization and (where
  it applies) the token check all pass; otherwise the error is that of the first check that fails, so no
  authorization decision and no token is used up for a call whose parameters are refused; and exactly
  the calls that pass are written to the audit log, one entry each.\<close>

theorem tool_call_order:
  "let v = validate_params (se_unicode env) (se_schema_errors env) (cs_validator st) tool arguments;
       a = authz_check (cs_authz st) tool (effective_context ctx);
       t = check_token env jwt keyset now tick st;
       r = check_tool_call env sp tool arguments ctx session_id jwt keyset now tick st
   in (fst r = Inr () \<longleftrightarrow> v = Inr () \<and> a = Inr () \<and> fst t = Inr ()) \<and>
      (\<forall>fs. fst r = Inl (ParamsRejected fs) \<longleftrightarrow> v = Inl fs) \<and>
      (\<forall>e. fst r = Inl (AuthzRejected e) \<longleftrightarrow> v = Inr () \<and> a = Inl e) \<and>
      (\<forall>e. fst r = Inl (TokenRejected e) \<longleftrightarrow> v = Inr () \<and> a = Inr () \<and> fst t = Inl e) \<and>
      cs_session (snd r) = (if v = Inr () \<and> a = Inr () then cs_session (snd t) else cs_session st) \<and>
      audited (snd r) = audited st + (if fst r = Inr () \<and> cs_audit st \<noteq> None then 1 else 0)"
proof -
  let ?v = "validate_params (se_unicode env) (se_schema_errors env) (cs_validator st) tool arguments"
  let ?a = "authz_check (cs_authz st) tool (effective_context ctx)"
  have w: "cs_session (write_audit env sp m sid ps ev st) = cs_session st" for m sid ps ev st
    by (simp add: write_audit_def split: option.split)
  have au: "audited (snd (check_token env jwt keyset now tick st)) = audited st"
    by (simp add: audited_def check_token_audit)
  show ?thesis
  proof (cases ?v)
    case (Inl fs)
    then show ?thesis by (simp add: check_tool_call_def)
  next
    case v: (Inr x)
    show ?thesis
    proof (cases ?a)
      case (Inl e)
      then show ?thesis using v by (simp add: check_tool_call_def)
    next
      case a: (Inr y)
      obtain t st' where t: "check_token env jwt keyset now tick st = (t, st')" by fastforce
      show ?thesis using v a t au check_token_audit [of env jwt keyset now tick st]
        by (cases t) (simp_all add: check_tool_call_def w write_audit_count del: ascii_simps)
    qed
  qed
qed

lemma first_some_None: "first_some f xs = None \<longleftrightarrow> (\<forall>x \<in> set xs. f x = None)"
  by (induction xs) (auto split: option.split)

text \<open>C32. The envelope gate: a request is let through exactly when its body is one JSON object, the
  \<open>_meta\<close> of each of its carriers is absent or agrees with the authenticated principal, and its routing
  headers validate; it is then let through with the validated version and without an audit entry, and
  every rejection, whatever its cause, is written to the audit log as one entry.\<close>

theorem envelope_gate:
  "let r = check_request_envelope env sp headers body prin tool_schemas allowed session_id st
   in (\<forall>version. fst r = Inr version \<longleftrightarrow>
         (\<exists>m. body = JDict m \<and> list_all (\<lambda>c. check_carrier (se_unicode env) prin allowed c = None) (carriers m)) \<and>
         validate_request_metadata (u_lower (se_unicode env)) modern_versions tool_schemas headers body = Inr version) \<and>
      audited (snd r) = audited st + (if (\<exists>version. fst r = Inr version) \<or> cs_audit st = None then 0 else 1)"
proof -
  let ?val = "validate_request_metadata (u_lower (se_unicode env)) modern_versions tool_schemas headers body"
  have batch: "?val \<noteq> Inr version" if "body = JList xs" for xs version
    unfolding that by (auto simp: validate_request_metadata_def gated_def split: sum.splits option.splits)
  show ?thesis
  proof (cases "messages_of body")
    case None
    then have "\<nexists>m. body = JDict m" by (auto simp: messages_of_def)
    then show ?thesis using None by (simp add: check_request_envelope_def audited_log list_all_iff)
  next
    case (Some messages)
    show ?thesis
    proof (cases "first_some (check_message (se_unicode env) prin allowed) messages")
      case bad: (Some ks)
      have "\<not> (\<exists>m. body = JDict m \<and> (\<forall>c \<in> set (carriers m). check_carrier (se_unicode env) prin allowed c = None))"
      proof
        assume "\<exists>m. body = JDict m \<and> (\<forall>c \<in> set (carriers m). check_carrier (se_unicode env) prin allowed c = None)"
        then have "first_some (check_message (se_unicode env) prin allowed) messages = None"
          using Some by (auto simp: messages_of_def check_message_def first_some_None)
        then show False using bad by simp
      qed
      then show ?thesis using Some bad by (simp add: check_request_envelope_def audited_log list_all_iff)
    next
      case None
      have "(\<exists>m. body = JDict m \<and> (\<forall>c \<in> set (carriers m). check_carrier (se_unicode env) prin allowed c = None)) \<or> (\<exists>xs. body = JList xs)"
        using Some None by (auto simp: messages_of_def check_message_def first_some_None split: json.splits)
      then show ?thesis using Some None batch
        by (cases ?val) (auto simp: check_request_envelope_def audited_log list_all_iff)
    qed
  qed
qed

end
