(* ===== verification/Py_Value.thy ===== *)
theory Py_Value
  imports Protocol
begin

text \<open>
  Python values beyond JSON that the catalog handles: tuples and mapping proxies, which are the frozen
  forms of lists and dictionaries, equality and truth of values, and the searching methods of \<open>str\<close>.
  A leaf carries a JSON value that is neither a list nor a dictionary.
\<close>

datatype pyval =
    PyAtom json
  | PyList "pyval list"
  | PyTuple "pyval list"
  | PyDict "(str \<times> pyval) list"
  | PyProxy "(str \<times> pyval) list"

fun of_json :: "json \<Rightarrow> pyval" where
  "of_json (JList xs) = PyList (map of_json xs)"
| "of_json (JDict ps) = PyDict (map (\<lambda>(k, v). (k, of_json v)) ps)"
| "of_json v = PyAtom v"

section \<open>Equality and truth\<close>

text \<open>Booleans are the numbers 0 and 1, and numbers compare by value.\<close>

definition num_value :: "json \<Rightarrow> rat option" where
  "num_value v =
     (case v of JBool b \<Rightarrow> Some (if b then 1 else 0) | JInt i \<Rightarrow> Some (of_int i)
      | JFloat m k \<Rightarrow> Some (of_int m / 10 ^ k) | _ \<Rightarrow> None)"

definition atom_eq :: "json \<Rightarrow> json \<Rightarrow> bool" where
  "atom_eq v w =
     (case (num_value v, num_value w) of
        (Some a, Some b) \<Rightarrow> a = b
      | (None, None) \<Rightarrow> v = w \<and> v \<noteq> JNonFinite NaN
      | _ \<Rightarrow> False)"

fun py_eq :: "pyval \<Rightarrow> pyval \<Rightarrow> bool" where
  "py_eq (PyAtom v) w = (case w of PyAtom v' \<Rightarrow> atom_eq v v' | _ \<Rightarrow> False)"
| "py_eq (PyList xs) w = (case w of PyList ys \<Rightarrow> list_all2 py_eq xs ys | _ \<Rightarrow> False)"
| "py_eq (PyTuple xs) w = (case w of PyTuple ys \<Rightarrow> list_all2 py_eq xs ys | _ \<Rightarrow> False)"
| "py_eq (PyDict ps) w = (let rows = (case w of PyDict qs \<Rightarrow> Some qs | PyProxy qs \<Rightarrow> Some qs | _ \<Rightarrow> None)
     in case rows of None \<Rightarrow> False
        | Some qs \<Rightarrow> length ps = length qs \<and>
            (\<forall>(k, v) \<in> set ps. case map_of qs k of None \<Rightarrow> False | Some w' \<Rightarrow> py_eq v w'))"
| "py_eq (PyProxy ps) w = (let rows = (case w of PyDict qs \<Rightarrow> Some qs | PyProxy qs \<Rightarrow> Some qs | _ \<Rightarrow> None)
     in case rows of None \<Rightarrow> False
        | Some qs \<Rightarrow> length ps = length qs \<and>
            (\<forall>(k, v) \<in> set ps. case map_of qs k of None \<Rightarrow> False | Some w' \<Rightarrow> py_eq v w'))"

definition json_eq :: "json \<Rightarrow> json \<Rightarrow> bool" where
  "json_eq v w = py_eq (of_json v) (of_json w)"

definition truthy :: "json \<Rightarrow> bool" where
  "truthy v =
     (case v of JNull \<Rightarrow> False | JBool b \<Rightarrow> b | JInt i \<Rightarrow> i \<noteq> 0 | JFloat m k \<Rightarrow> m \<noteq> 0 | JNonFinite x \<Rightarrow> True
      | JStr s \<Rightarrow> s \<noteq> [] | JList xs \<Rightarrow> xs \<noteq> [] | JDict ps \<Rightarrow> ps \<noteq> [])"

definition get :: "(str \<times> json) list \<Rightarrow> str \<Rightarrow> json" where
  "get d k = (case map_of d k of None \<Rightarrow> JNull | Some v \<Rightarrow> v)"

definition get_or :: "(str \<times> json) list \<Rightarrow> str \<Rightarrow> json \<Rightarrow> json" where
  "get_or d k v = (case map_of d k of None \<Rightarrow> v | Some w \<Rightarrow> w)"

section \<open>Searching a string\<close>

text \<open>\<open>find_at w s\<close> is the least position at which \<open>w\<close> occurs, \<open>find_sub\<close> is \<open>s.find(w, start)\<close>.\<close>

fun find_at :: "str \<Rightarrow> str \<Rightarrow> nat option" where
  "find_at w [] = (if w = [] then Some 0 else None)"
| "find_at w (c # s) = (if starts_with w (c # s) then Some 0 else map_option Suc (find_at w s))"

definition find_sub :: "str \<Rightarrow> str \<Rightarrow> nat \<Rightarrow> nat option" where
  "find_sub w s start = (if start \<le> length s then map_option ((+) start) (find_at w (drop start s)) else None)"

definition has_sub :: "str \<Rightarrow> str \<Rightarrow> bool" where
  "has_sub w s \<longleftrightarrow> find_at w s \<noteq> None"

function replace_all :: "str \<Rightarrow> str \<Rightarrow> str \<Rightarrow> str" where
  "replace_all w v [] = []"
| "replace_all w v (c # s) =
     (if w \<noteq> [] \<and> starts_with w (c # s) then v @ replace_all w v (drop (length w) (c # s)) else c # replace_all w v s)"
  by pat_completeness auto
termination by (relation "measure (\<lambda>(w, v, s). length s)") auto

lemma starts_with_iff: "starts_with w s \<longleftrightarrow> (\<exists>t. s = w @ t)"
  by (auto simp: starts_with_def) (metis append_take_drop_id)

lemma find_at_Some:
  "find_at w s = Some i \<Longrightarrow> (\<exists>a b. s = a @ w @ b \<and> length a = i) \<and> (\<forall>j < i. \<not> starts_with w (drop j s))"
proof (induction w s arbitrary: i rule: find_at.induct)
  case (2 w c s)
  show ?case
  proof (cases "starts_with w (c # s)")
    case True
    then show ?thesis using 2 by (auto simp: starts_with_iff)
  next
    case False
    then obtain k where k: "find_at w s = Some k" "i = Suc k" using 2 by auto
    from 2(1) [OF False k(1)] obtain a b where s: "s = a @ w @ b" "length a = k"
      and before: "\<And>j. j < k \<Longrightarrow> \<not> starts_with w (drop j s)" by blast
    have "c # s = (c # a) @ w @ b" "length (c # a) = i" using s k by auto
    moreover have "\<not> starts_with w (drop j (c # s))" if "j < i" for j
      using that False before k(2) by (cases j) auto
    ultimately show ?thesis by blast
  qed
qed (auto split: if_splits)

lemma find_at_None: "find_at w s = None \<Longrightarrow> \<not> (\<exists>a b. s = a @ w @ b)"
proof (induction w s rule: find_at.induct)
  case (2 w c s)
  then have no: "\<not> starts_with w (c # s)" and "\<not> (\<exists>a b. s = a @ w @ b)" by (auto split: if_splits)
  then show ?case
    by (metis (no_types, lifting) append_eq_Cons_conv starts_with_iff)
qed (auto split: if_splits)

lemma has_sub_iff: "has_sub w s \<longleftrightarrow> (\<exists>a b. s = a @ w @ b)"
  unfolding has_sub_def using find_at_Some [of w s] find_at_None [of w s] by (cases "find_at w s") auto

lemma find_sub_Some:
  assumes "find_sub w s start = Some i"
  shows "start \<le> i" "i + length w \<le> length s" "take (length w) (drop i s) = w"
proof -
  obtain k where k: "find_at w (drop start s) = Some k" "i = start + k" and le: "start \<le> length s"
    using assms by (auto simp: find_sub_def split: if_splits)
  obtain a b where d: "drop start s = a @ w @ b" "length a = k" using find_at_Some [OF k(1)] by blast
  have "length (drop start s) = k + length w + length b" using d by simp
  then show "start \<le> i" "i + length w \<le> length s" using k(2) le by auto
  have "drop i s = drop k (drop start s)" using k(2) by (simp add: add.commute)
  then have "drop i s = w @ b" using d by simp
  then show "take (length w) (drop i s) = w" by simp
qed

section \<open>Results\<close>

text \<open>Sequencing of steps that may raise, and a loop that stops at the first exception.\<close>

definition bindr :: "'e + 'a \<Rightarrow> ('a \<Rightarrow> 'e + 'b) \<Rightarrow> 'e + 'b" where
  "bindr r f = (case r of Inl e \<Rightarrow> Inl e | Inr x \<Rightarrow> f x)"

lemma bindr_simps [simp]: "bindr (Inl e) f = Inl e" "bindr (Inr x) f = f x"
  by (simp_all add: bindr_def)

lemma bindr_Inr: "bindr r f = Inr y \<longleftrightarrow> (\<exists>x. r = Inr x \<and> f x = Inr y)"
  by (cases r) simp_all

fun each :: "('a \<Rightarrow> 'e + 'b) \<Rightarrow> 'a list \<Rightarrow> 'e + 'b list" where
  "each f [] = Inr []"
| "each f (x # xs) = bindr (f x) (\<lambda>y. bindr (each f xs) (\<lambda>ys. Inr (y # ys)))"

lemma each_all2: "each f xs = Inr ys \<Longrightarrow> list_all2 (\<lambda>x y. f x = Inr y) xs ys"
  by (induction xs arbitrary: ys) (auto simp: bindr_Inr)

lemma each_mem: "each f xs = Inr ys \<Longrightarrow> y \<in> set ys \<Longrightarrow> \<exists>x \<in> set xs. f x = Inr y"
  by (induction xs arbitrary: ys) (auto simp: bindr_Inr)

lemma each_cong [fundef_cong]:
  assumes "xs = ys" "\<And>x. x \<in> set ys \<Longrightarrow> f x = g x"
  shows "each f xs = each g ys"
proof -
  have "(\<And>x. x \<in> set ys \<Longrightarrow> f x = g x) \<Longrightarrow> each f ys = each g ys" by (induction ys) auto
  then show ?thesis using assms by blast
qed

section \<open>Freezing\<close>

text \<open>A value without a list or a dictionary anywhere in it.\<close>

fun immutable :: "pyval \<Rightarrow> bool" where
  "immutable (PyAtom v) = True"
| "immutable (PyList xs) = False"
| "immutable (PyDict ps) = False"
| "immutable (PyTuple xs) = (\<forall>x \<in> set xs. immutable x)"
| "immutable (PyProxy ps) = (\<forall>(k, v) \<in> set ps. immutable v)"

end
