(* ===== verification/Templates.thy ===== *)
theory Templates
  imports Py_Value
begin

text \<open>
  \<open>catalog/template.py\<close>: the substitution of template variables in a probe payload. The scanning loop is
  a \<open>partial_function\<close> whose termination is a theorem; the payload is the parsed JSON value.
\<close>

definition open_mark :: str where "open_mark = ascii ''{{''"
definition close_mark :: str where "close_mark = ascii ''}}''"

definition allowed_vars :: "str list" where
  "allowed_vars = map ascii [''{{target_url}}'', ''{{session_id}}'', ''{{tool_name}}'', ''{{canary}}'']"

datatype template_error = UnknownVariable str | InjectedValue str | LeftOver

partial_function (option) template_scan :: "str \<Rightarrow> nat \<Rightarrow> str list \<Rightarrow> str list option" where
  "template_scan s start tokens =
     (case find_sub open_mark s start of
        None \<Rightarrow> Some tokens
      | Some i \<Rightarrow>
          (case find_sub close_mark s (i + 2) of
             None \<Rightarrow> Some tokens
           | Some j \<Rightarrow> template_scan s (j + 2) (tokens @ [take (j + 2 - i) (drop i s)])))"

definition find_templates :: "str \<Rightarrow> str list" where
  "find_templates s = (case template_scan s 0 [] of None \<Rightarrow> [] | Some tokens \<Rightarrow> tokens)"

fun first_bad_value :: "(str \<times> str) list \<Rightarrow> str option" where
  "first_bad_value [] = None"
| "first_bad_value ((k, v) # vs) = (if has_sub open_mark v \<or> has_sub close_mark v then Some k else first_bad_value vs)"

fun replace_vars :: "(str \<times> str) list \<Rightarrow> str \<Rightarrow> str" where
  "replace_vars [] s = s"
| "replace_vars ((k, v) # vs) s = replace_vars vs (replace_all (open_mark @ k @ close_mark) v s)"

definition substitute_str :: "(str \<times> str) list \<Rightarrow> str \<Rightarrow> template_error + str" where
  "substitute_str variables s =
     (case find (\<lambda>t. t \<notin> set allowed_vars) (find_templates s) of
        Some t \<Rightarrow> Inl (UnknownVariable t)
      | None \<Rightarrow>
          (case first_bad_value variables of
             Some k \<Rightarrow> Inl (InjectedValue k)
           | None \<Rightarrow>
               (let result = replace_vars variables s
                in if has_sub open_mark result then Inl LeftOver else Inr result)))"

fun substitute_value :: "(str \<times> str) list \<Rightarrow> json \<Rightarrow> template_error + json" where
  "substitute_value variables (JStr s) =
     (case substitute_str variables s of Inl e \<Rightarrow> Inl e | Inr t \<Rightarrow> Inr (JStr t))"
| "substitute_value variables (JDict ps) =
     (case each (\<lambda>(k, v). case substitute_value variables v of Inl e \<Rightarrow> Inl e | Inr w \<Rightarrow> Inr (k, w)) ps of
        Inl e \<Rightarrow> Inl e | Inr qs \<Rightarrow> Inr (JDict qs))"
| "substitute_value variables (JList xs) =
     (case each (substitute_value variables) xs of Inl e \<Rightarrow> Inl e | Inr ys \<Rightarrow> Inr (JList ys))"
| "substitute_value variables v = Inr v"

definition brace :: "nat \<Rightarrow> bool" where
  "brace c \<longleftrightarrow> c = 123 \<or> c = 125"

definition bare_key :: "str \<Rightarrow> str" where
  "bare_key k = rev (dropWhile brace (rev (dropWhile brace k)))"

text \<open>Two names that differ only in their braces are one variable; the last value wins.\<close>

definition normalise_vars :: "(str \<times> str) list \<Rightarrow> (str \<times> str) list" where
  "normalise_vars variables = fold (\<lambda>(k, v) d. AList.update (bare_key k) v d) variables []"

definition substitute_probe_payload :: "(str \<times> json) list \<Rightarrow> (str \<times> str) list \<Rightarrow> template_error + json" where
  "substitute_probe_payload payload variables = substitute_value (normalise_vars variables) (JDict payload)"

section \<open>Properties\<close>

text \<open>The tokens of a text, said without positions: the text up to the first opening marker, then a token up to the first
  closing marker behind it, then the same for the rest; no token where no opening marker has a closing one behind it. The
  second brace of a gap's end, or of a body's, makes the markers the first ones even where braces stand in a row.\<close>

definition is_token :: "str \<Rightarrow> bool" where
  "is_token t \<longleftrightarrow> (\<exists>body. t = open_mark @ body @ close_mark \<and> \<not> has_sub close_mark (body @ [125]))"

fun tokens_of_text :: "str \<Rightarrow> str list \<Rightarrow> bool" where
  "tokens_of_text s [] \<longleftrightarrow> \<not> (\<exists>a b c. s = a @ open_mark @ b @ close_mark @ c)"
| "tokens_of_text s (t # ts) \<longleftrightarrow>
     (\<exists>gap rest. s = gap @ t @ rest \<and> \<not> has_sub open_mark (gap @ [123]) \<and> is_token t \<and> tokens_of_text rest ts)"

lemma marks: "open_mark = [123, 123]" "close_mark = [125, 125]"
  by (simp_all add: open_mark_def close_mark_def)

text \<open>The first occurrence of a doubled character.\<close>

lemma find_at_first:
  assumes "find_at [c, c] s = Some k"
  obtains a b where "s = a @ [c, c] @ b" "length a = k" "\<not> has_sub [c, c] (a @ [c])"
proof -
  obtain a b where ab: "s = a @ [c, c] @ b" "length a = k" and early: "\<forall>j < k. \<not> starts_with [c, c] (drop j s)"
    using find_at_Some [OF assms] by blast
  have "\<not> has_sub [c, c] (a @ [c])"
  proof
    assume "has_sub [c, c] (a @ [c])"
    then obtain p q where pq: "a @ [c] = p @ [c, c] @ q" by (auto simp: has_sub_iff)
    from arg_cong [OF pq, of length] have "length p < k" using ab(2) by simp
    moreover have "s = p @ [c, c] @ q @ c # b"
      using ab(1) arg_cong [OF pq, of "\<lambda>x. x @ c # b"] by simp
    then have "starts_with [c, c] (drop (length p) s)" by (simp add: starts_with_iff)
    ultimately show False using early by blast
  qed
  then show thesis using that ab by blast
qed

lemma find_at_nowhere: "find_at w s = None \<Longrightarrow> s \<noteq> a @ w @ b"
  using has_sub_iff [of w s] by (auto simp: has_sub_def)

lemma find_sub_drop: "find_sub w s k = (if k \<le> length s then map_option ((+) k) (find_at w (drop k s)) else None)"
  by (simp add: find_sub_def)

text \<open>One round of the loop: the opening marker and the closing one behind it.\<close>

lemma scan_round:
  assumes "find_sub open_mark s start = Some i" and "find_sub close_mark s (i + 2) = Some j"
  obtains gap where "drop start s = gap @ take (j + 2 - i) (drop i s) @ drop (j + 2) s" "\<not> has_sub open_mark (gap @ [123])"
    "is_token (take (j + 2 - i) (drop i s))" "start \<le> i" "i + 2 \<le> j" "j + 2 \<le> length s"
proof -
  obtain k where k: "find_at open_mark (drop start s) = Some k" "i = start + k" "start \<le> length s"
    using assms(1) by (auto simp: find_sub_drop split: if_splits)
  obtain gap b where g: "drop start s = gap @ [123, 123] @ b" "length gap = k" "\<not> has_sub [123, 123] (gap @ [123])"
    using find_at_first [OF k(1) [unfolded marks]] .
  have b: "drop (i + 2) s = b"
    using g(1,2) k(2) drop_drop [of "k + 2" start s] by (simp add: add.commute add.left_commute)
  have d: "drop i s = [123, 123] @ b"
    using g(1,2) k(2) drop_drop [of k start s] by (simp add: add.commute)
  obtain m where m: "find_at close_mark b = Some m" "j = i + 2 + m" "i + 2 \<le> length s"
    using assms(2) b by (auto simp: find_sub_drop split: if_splits)
  obtain body rest where r: "b = body @ [125, 125] @ rest" "length body = m" "\<not> has_sub [125, 125] (body @ [125])"
    using find_at_first [OF m(1) [unfolded marks]] .
  let ?t = "open_mark @ body @ close_mark"
  have whole: "drop i s = ?t @ rest" unfolding d r(1) marks by simp
  have n: "j + 2 - i = length ?t" "j + 2 = length ?t + i" using m(2) r(2) by (simp_all add: marks)
  have t: "take (j + 2 - i) (drop i s) = ?t" unfolding n(1) whole by simp
  have rest: "drop (j + 2) s = rest" unfolding n(2) drop_drop [symmetric] whole by simp
  have "length (drop i s) = m + 4 + length rest" unfolding d r(1) using r(2) by simp
  then have "j + 2 \<le> length s" using m(2) by simp
  then show thesis
    using that [of gap] g(1,3) t rest r(1,3) m(2) k(2) by (simp add: is_token_def marks)
qed

lemma no_token_left:
  assumes "case find_sub open_mark s start of None \<Rightarrow> True | Some i \<Rightarrow> find_sub close_mark s (i + 2) = None"
    and "start \<le> length s"
  shows "tokens_of_text (drop start s) []"
proof (cases "find_at open_mark (drop start s)")
  case None
  then show ?thesis using find_at_nowhere [OF None] by auto
next
  case (Some k)
  obtain gap b where g: "drop start s = gap @ [123, 123] @ b" "length gap = k" "\<not> has_sub [123, 123] (gap @ [123])"
    using find_at_first [OF Some [unfolded marks]] .
  have "drop (start + k + 2) s = b"
    using g(1,2) drop_drop [of "k + 2" start s] by (simp add: add.commute add.left_commute)
  moreover have "length (drop start s) = k + 2 + length b" unfolding g(1) using g(2) by simp
  ultimately have none: "find_at close_mark b = None"
    using assms Some by (cases "start + k + 2 \<le> length s") (simp_all add: find_sub_drop add.assoc)
  have "False" if e: "drop start s = a @ open_mark @ x @ close_mark @ c" for a x c
  proof -
    have le: "length gap \<le> length a"
    proof (rule ccontr)
      assume "\<not> length gap \<le> length a"
      then have lt: "length a < k" using g(2) by simp
      have "starts_with open_mark (drop (length a) (drop start s))" unfolding e starts_with_iff by simp
      then show False using find_at_Some [OF Some] lt by blast
    qed
    have "b = drop (k + 2) (a @ open_mark @ x @ close_mark @ c)" using g e by simp
    also have "\<dots> = drop (k + 2) (a @ open_mark) @ x @ close_mark @ c"
      using le g(2) drop_append [of "k + 2" "a @ open_mark" "x @ close_mark @ c"] by (simp add: marks del: drop_append)
    finally have "b = (drop (k + 2) (a @ open_mark) @ x) @ close_mark @ c" by simp
    then show False using find_at_nowhere [OF none] by blast
  qed
  then show ?thesis by auto
qed

lemma template_scan_returns:
  "start \<le> length s \<Longrightarrow> \<exists>ts. template_scan s start tokens = Some (tokens @ ts) \<and> tokens_of_text (drop start s) ts"
proof (induction "length s - start" arbitrary: start tokens rule: less_induct)
  case less
  show ?case
  proof (cases "\<exists>i j. find_sub open_mark s start = Some i \<and> find_sub close_mark s (i + 2) = Some j")
    case False
    then have "template_scan s start tokens = Some (tokens @ [])"
      by (subst template_scan.simps) (auto split: option.split)
    moreover have "tokens_of_text (drop start s) []"
      using False less.prems by (intro no_token_left) (auto split: option.split)
    ultimately show ?thesis by blast
  next
    case True
    then obtain i j where ij: "find_sub open_mark s start = Some i" "find_sub close_mark s (i + 2) = Some j" by blast
    let ?t = "take (j + 2 - i) (drop i s)"
    obtain gap where g: "drop start s = gap @ ?t @ drop (j + 2) s" "\<not> has_sub open_mark (gap @ [123])" "is_token ?t"
      "start \<le> i" "i + 2 \<le> j" "j + 2 \<le> length s" using scan_round [OF ij] .
    have "length s - (j + 2) < length s - start" using g(4-6) by linarith
    from less.hyps [OF this g(6), of "tokens @ [?t]"]
    obtain ts where ts: "template_scan s (j + 2) (tokens @ [?t]) = Some (tokens @ [?t] @ ts)" "tokens_of_text (drop (j + 2) s) ts"
      by auto
    have "template_scan s start tokens = Some (tokens @ (?t # ts))"
      using ts(1) ij by (subst template_scan.simps) simp
    moreover have "tokens_of_text (drop start s) (?t # ts)" using g(1-3) ts(2) by auto
    ultimately show ?thesis by blast
  qed
qed

lemma tokens_fit: "tokens_of_text s ts \<Longrightarrow> 4 * length ts \<le> length s"
proof (induction s ts rule: tokens_of_text.induct)
  case (2 s t ts)
  then obtain gap rest where "s = gap @ t @ rest" "is_token t" "4 * length ts \<le> length rest" by auto
  then show ?case by (auto simp: is_token_def marks)
qed simp

text \<open>C36. The token scan ends: for every string the loop returns, whatever braces an attacker's catalog
  puts into it. What it returns are the tokens of the text one behind the other, with no overlap and none left out: each
  begins at the first opening marker after the one before and ends at the first closing marker behind that, and behind
  the last one no opening marker is closed.\<close>

theorem template_scan_terminates:
  "\<exists>tokens. template_scan s 0 [] = Some tokens \<and> find_templates s = tokens \<and>
     tokens_of_text s tokens \<and> 4 * length tokens \<le> length s"
  using template_scan_returns [of 0 s "[]"] tokens_fit by (auto simp: find_templates_def)

fun marker_free :: "json \<Rightarrow> bool" where
  "marker_free (JStr s) = (\<not> has_sub open_mark s)"
| "marker_free (JList xs) = list_all marker_free xs"
| "marker_free (JDict ps) = list_all (\<lambda>(k, v). marker_free v) ps"
| "marker_free v = True"

text \<open>The same value up to its strings.\<close>

fun same_shape :: "json \<Rightarrow> json \<Rightarrow> bool" where
  "same_shape (JStr s) w = (case w of JStr t \<Rightarrow> True | _ \<Rightarrow> False)"
| "same_shape (JList xs) w = (case w of JList ys \<Rightarrow> list_all2 same_shape xs ys | _ \<Rightarrow> False)"
| "same_shape (JDict ps) w =
     (case w of JDict qs \<Rightarrow> list_all2 (\<lambda>(k, v) (k', v'). k = k' \<and> same_shape v v') ps qs | _ \<Rightarrow> False)"
| "same_shape v w = (v = w)"

lemma substitute_value_ok: "substitute_value vars v = Inr w \<Longrightarrow> marker_free w \<and> same_shape v w"
proof (induction v arbitrary: w)
  case (JStr s)
  then show ?case by (auto simp: substitute_str_def Let_def split: sum.splits option.splits if_splits)
next
  case (JList xs)
  then obtain ys where ys: "each (substitute_value vars) xs = Inr ys" "w = JList ys" by (auto split: sum.splits)
  have "list_all2 (\<lambda>x y. marker_free y \<and> same_shape x y) xs ys"
    using each_all2 [OF ys(1)] by (rule list.rel_mono_strong) (use JList.IH in blast)
  then show ?case using ys(2) by (auto simp: list_all2_conv_all_nth list_all_length)
next
  case (JDict ps)
  let ?f = "\<lambda>(k, v). case substitute_value vars v of Inl e \<Rightarrow> Inl e | Inr w \<Rightarrow> Inr (k, w)"
  obtain qs where qs: "each ?f ps = Inr qs" "w = JDict qs" using JDict.prems by (auto split: sum.splits)
  have step: "fst x = fst y \<and> marker_free (snd y) \<and> same_shape (snd x) (snd y)" if "?f x = Inr y" "x \<in> set ps" for x y
    using that JDict.IH [of x "snd x"] by (cases x) (auto split: sum.splits)
  have "list_all2 (\<lambda>x y. fst x = fst y \<and> marker_free (snd y) \<and> same_shape (snd x) (snd y)) ps qs"
    using each_all2 [OF qs(1)] by (rule list.rel_mono_strong) (use step in blast)
  then show ?case using qs(2) by (auto simp: list_all2_conv_all_nth list_all_length split_beta)
qed auto

lemma substituted_clean:
  "substitute_probe_payload payload vars = Inr w \<Longrightarrow> marker_free w \<and> same_shape (JDict payload) w"
  by (simp add: substitute_probe_payload_def substitute_value_ok del: marker_free.simps same_shape.simps substitute_value.simps)

end
