(* ===== verification/Catalog.thy ===== *)
theory Catalog
  imports Py_Value
begin

text \<open>
  \<open>catalog/models.py\<close>, \<open>catalog/schema.py\<close> and the parsing half of \<open>catalog/loader.py\<close>: threat
  definitions, the meta-schema they are validated against, and their frozen form. The JSON Schema
  keywords the meta-schema uses are given their documented meaning; a compiled RE2 pattern is its search
  function, and \<open>compile_rx\<close> returns \<open>None\<close> where RE2 rejects the pattern.
\<close>

section \<open>Models\<close>

datatype provenance = Official | Custom

datatype severity = SevCritical | SevHigh | SevMedium | SevLow | SevInfo

datatype confidence = ConfLow | ConfMedium | ConfHigh

datatype operator = OpEq | OpNe | OpContains | OpNotContains | OpMatchesRegex | OpStatusIn | OpErrorCodeIn

record assertion =
  at_target :: str
  at_operator :: operator
  at_value :: pyval
  at_pattern :: "(str \<Rightarrow> bool) option"

record probe =
  pb_id :: str
  pb_transport :: str
  pb_method :: str
  pb_payload :: pyval
  pb_assertions :: "assertion list"
  pb_token :: "str option"
  pb_count :: int
  pb_headers :: "pyval option"
  pb_corroboration :: "assertion list"
  pb_protocol_error_expected :: bool
  pb_requires_era :: "str option"

record threat =
  th_schema_version :: str
  th_id :: str
  th_category :: str
  th_severity :: severity
  th_cosai_ref :: str
  th_owasp_ref :: str
  th_cwe :: "str list"
  th_probes :: "probe list"
  th_remediation :: str
  th_references :: "str list"
  th_provenance :: provenance
  th_mode :: str
  th_confidence :: confidence
  th_mcp_t_ref :: str
  th_threat_refs :: "int list"

text \<open>The distinct tiers of a threat's numbered references, in order.\<close>

definition threat_tier :: "int \<Rightarrow> int" where
  "threat_tier n = (if n \<le> 7 then 1 else if n \<le> 15 then 2 else 3)"

definition threat_tiers :: "threat \<Rightarrow> int list" where
  "threat_tiers t = sort (remdups (map threat_tier (th_threat_refs t)))"

definition severity_name :: "severity \<Rightarrow> str" where
  "severity_name v = ascii (case v of SevCritical \<Rightarrow> ''critical'' | SevHigh \<Rightarrow> ''high'' | SevMedium \<Rightarrow> ''medium''
     | SevLow \<Rightarrow> ''low'' | SevInfo \<Rightarrow> ''info'')"

definition confidence_name :: "confidence \<Rightarrow> str" where
  "confidence_name v = ascii (case v of ConfLow \<Rightarrow> ''low'' | ConfMedium \<Rightarrow> ''medium'' | ConfHigh \<Rightarrow> ''high'')"

definition operator_name :: "operator \<Rightarrow> str" where
  "operator_name v = ascii (case v of OpEq \<Rightarrow> ''eq'' | OpNe \<Rightarrow> ''ne'' | OpContains \<Rightarrow> ''contains''
     | OpNotContains \<Rightarrow> ''not_contains'' | OpMatchesRegex \<Rightarrow> ''matches_regex'' | OpStatusIn \<Rightarrow> ''status_in''
     | OpErrorCodeIn \<Rightarrow> ''error_code_in'')"

definition all_severities :: "severity list" where
  "all_severities = [SevCritical, SevHigh, SevMedium, SevLow, SevInfo]"

definition all_confidences :: "confidence list" where
  "all_confidences = [ConfLow, ConfMedium, ConfHigh]"

definition all_operators :: "operator list" where
  "all_operators = [OpEq, OpNe, OpContains, OpNotContains, OpMatchesRegex, OpStatusIn, OpErrorCodeIn]"

text \<open>\<open>Enum(value)\<close>: the member with this value, or a \<open>ValueError\<close>.\<close>

definition enum_of :: "('e \<Rightarrow> str) \<Rightarrow> 'e list \<Rightarrow> str \<Rightarrow> 'e option" where
  "enum_of name members s = find (\<lambda>m. name m = s) members"

section \<open>The meta-schema\<close>

datatype schema =
    AnyValue
  | BoolSchema
  | StrSchema "str list option" "(str \<Rightarrow> bool) option"
  | IntSchema int int
  | ArraySchema schema nat bool
  | ObjectSchema "str list" "schema option" bool "(str \<times> schema) list"

text \<open>A number is an integer when its value is one; a boolean is none.\<close>

definition integer_value :: "json \<Rightarrow> int option" where
  "integer_value v =
     (case v of JInt i \<Rightarrow> Some i | JFloat m k \<Rightarrow> if 10 ^ k dvd m then Some (m div 10 ^ k) else None | _ \<Rightarrow> None)"

text \<open>In \<open>ObjectSchema required extra strict properties\<close> an undeclared property is forbidden when \<open>strict\<close>,
  and otherwise has to satisfy \<open>extra\<close>, if that is given.\<close>

fun schema_ok :: "schema \<Rightarrow> json \<Rightarrow> bool" where
  "schema_ok AnyValue v = True"
| "schema_ok BoolSchema v = (case v of JBool b \<Rightarrow> True | _ \<Rightarrow> False)"
| "schema_ok (StrSchema enum pattern) v =
     (case v of
        JStr s \<Rightarrow> (case enum of None \<Rightarrow> True | Some es \<Rightarrow> s \<in> set es) \<and> (case pattern of None \<Rightarrow> True | Some p \<Rightarrow> p s)
      | _ \<Rightarrow> False)"
| "schema_ok (IntSchema lo hi) v = (case integer_value v of None \<Rightarrow> False | Some i \<Rightarrow> lo \<le> i \<and> i \<le> hi)"
| "schema_ok (ArraySchema items least unique) v =
     (case v of
        JList xs \<Rightarrow> least \<le> length xs \<and> (unique \<longrightarrow> distinct (map integer_value xs)) \<and> list_all (schema_ok items) xs
      | _ \<Rightarrow> False)"
| "schema_ok (ObjectSchema required extra strict properties) v =
     (case v of
        JDict d \<Rightarrow>
          list_all (\<lambda>k. k \<in> fst ` set d) required \<and>
          list_all (\<lambda>(k, s). case map_of d k of None \<Rightarrow> True | Some w \<Rightarrow> schema_ok s w) properties \<and>
          list_all (\<lambda>(k, w). k \<in> fst ` set properties \<or>
              \<not> strict \<and> (case extra of None \<Rightarrow> True | Some s \<Rightarrow> schema_ok s w)) d
      | _ \<Rightarrow> False)"

definition digit :: "nat \<Rightarrow> bool" where "digit c \<longleftrightarrow> 48 \<le> c \<and> c \<le> 57"
definition upper :: "nat \<Rightarrow> bool" where "upper c \<longleftrightarrow> 65 \<le> c \<and> c \<le> 90"

text \<open>A pattern is searched for, and \<open>$\<close> also matches before a final newline.\<close>

definition strip_final_newline :: "str \<Rightarrow> str list" where
  "strip_final_newline s = (if s \<noteq> [] \<and> last s = 10 then [s, butlast s] else [s])"

text \<open>\<open>T[0-9]{2}(-[A-Z]{2,5})?-[0-9]{3}\<close>\<close>

definition is_threat_id :: "str \<Rightarrow> bool" where
  "is_threat_id s \<longleftrightarrow>
     length s \<ge> 7 \<and> hd s = 84 \<and> list_all digit (take 2 (drop 1 s)) \<and>
     list_all digit (drop (length s - 3) s) \<and> s ! (length s - 4) = 45 \<and>
     (let mid = take (length s - 7) (drop 3 s)
      in mid = [] \<or> hd mid = 45 \<and> 3 \<le> length mid \<and> length mid \<le> 6 \<and> list_all upper (tl mid))"

definition is_category :: "str \<Rightarrow> bool" where
  "is_category s \<longleftrightarrow> 2 \<le> length s \<and> hd s = 84 \<and> list_all digit (tl s)"

text \<open>\<open>MCP-T([1-9]|1[0-2])\<close>\<close>

definition is_mcp_t_ref :: "str \<Rightarrow> bool" where
  "is_mcp_t_ref s \<longleftrightarrow> s \<in> set (map (\<lambda>n. ascii ''MCP-T'' @ digits n) [1..<13])"

definition anchored :: "(str \<Rightarrow> bool) \<Rightarrow> str \<Rightarrow> bool" where
  "anchored p s \<longleftrightarrow> list_ex p (strip_final_newline s)"

definition text_schema :: schema where "text_schema = StrSchema None None"

definition one_of :: "string list \<Rightarrow> schema" where
  "one_of ws = StrSchema (Some (map ascii ws)) None"

definition assertion_schema :: schema where
  "assertion_schema =
     ObjectSchema (map ascii [''target'', ''operator'', ''value'']) None True
       [(ascii ''target'', text_schema),
        (ascii ''operator'', one_of [''eq'', ''ne'', ''contains'', ''not_contains'', ''matches_regex'', ''status_in'', ''error_code_in'']),
        (ascii ''value'', AnyValue), (ascii ''description'', text_schema)]"

definition probe_schema :: schema where
  "probe_schema =
     ObjectSchema (map ascii [''id'', ''transport'', ''method'', ''payload'', ''assertions'']) None True
       [(ascii ''id'', text_schema), (ascii ''transport'', one_of [''http'', ''stdio'']), (ascii ''method'', text_schema),
        (ascii ''payload'', ObjectSchema [] None False []),
        (ascii ''assertions'', ArraySchema assertion_schema 0 False),
        (ascii ''corroboration'', ArraySchema assertion_schema 1 False),
        (ascii ''protocol_error_is_expected'', BoolSchema),
        (ascii ''requires_protocol_era'', one_of [''modern'', ''legacy'']),
        (ascii ''description'', text_schema), (ascii ''canary_detection'', BoolSchema), (ascii ''session'', text_schema),
        (ascii ''capture'', text_schema), (ascii ''replay_token_from'', text_schema),
        (ascii ''inconclusive_if_no_llm'', BoolSchema), (ascii ''requires_discovered_tools'', BoolSchema),
        (ascii ''probe_token'', one_of [''read'', ''null_scope'', ''foreign_audience'']),
        (ascii ''probe_count'', IntSchema 1 100),
        (ascii ''probe_headers'', ObjectSchema [] (Some text_schema) False [])]"

definition threat_meta_schema :: schema where
  "threat_meta_schema =
     ObjectSchema (map ascii [''schema_version'', ''id'', ''category'', ''severity'', ''cosai_ref'', ''owasp_ref'', ''cwe'',
         ''probes'', ''remediation'', ''references'']) None True
       [(ascii ''schema_version'', one_of [''1.0'', ''1.1'', ''1.2'', ''1.3'']),
        (ascii ''id'', StrSchema None (Some (anchored is_threat_id))),
        (ascii ''category'', StrSchema None (Some (anchored is_category))),
        (ascii ''severity'', one_of [''critical'', ''high'', ''medium'', ''low'', ''info'']),
        (ascii ''cosai_ref'', text_schema), (ascii ''owasp_ref'', text_schema),
        (ascii ''cwe'', ArraySchema text_schema 1 False),
        (ascii ''probes'', ArraySchema probe_schema 0 False),
        (ascii ''remediation'', text_schema), (ascii ''references'', ArraySchema text_schema 0 False),
        (ascii ''confidence'', one_of [''low'', ''medium'', ''high'']),
        (ascii ''mcp_t_ref'', StrSchema None (Some (anchored is_mcp_t_ref))),
        (ascii ''threat_refs'', ArraySchema (IntSchema 1 34) 1 True),
        (ascii ''adversarial'', BoolSchema), (ascii ''mode'', one_of [''read-only'', ''stateful'']),
        (ascii ''description'', text_schema), (ascii ''canary_placement'', text_schema)]"

definition validate_threat_json :: "json \<Rightarrow> bool" where
  "validate_threat_json data = schema_ok threat_meta_schema data"

end
