(* ===== verification/Catalog_Loader.thy ===== *)
theory Catalog_Loader
  imports Catalog Json_Facts
begin

text \<open>
  \<open>catalog/loader.py\<close>: parsing validated threat files into frozen definitions, confining paths to the
  catalog, and loading with signature verification. A path is the list of its components from the file
  system's root; the file system is the record \<open>catalog_fs\<close>, the Ed25519 check, RE2 and the \<open>str\<close> of a
  value that is not a string are parameters. \<open>LoadRaised\<close> stands for any other exception; a repetition
  count written as a float is taken as the integer it denotes.
\<close>

datatype catalog_error =
    PathTraversal
  | CustomDisabled
  | SignatureRejected
  | NotJson
  | SchemaRejected
  | UnsafePattern
  | MutableContainer
  | LoadRaised

section \<open>Parsing\<close>

record rx_env =
  rx_compile :: "str \<Rightarrow> (str \<Rightarrow> bool) option"
  rx_text :: "json \<Rightarrow> str"

record parse_mode =
  pm_custom :: bool
  pm_allow_regex :: bool

fun make_mapping_proxy :: "json \<Rightarrow> pyval" where
  "make_mapping_proxy (JDict ps) = PyProxy (map (\<lambda>(k, v). (k, make_mapping_proxy v)) ps)"
| "make_mapping_proxy (JList xs) = PyTuple (map make_mapping_proxy xs)"
| "make_mapping_proxy v = PyAtom v"

definition field :: "(str \<times> json) list \<Rightarrow> string \<Rightarrow> catalog_error + json" where
  "field d k = (case map_of d (ascii k) of None \<Rightarrow> Inl LoadRaised | Some v \<Rightarrow> Inr v)"

definition as_text :: "json \<Rightarrow> catalog_error + str" where
  "as_text v = (case v of JStr s \<Rightarrow> Inr s | _ \<Rightarrow> Inl LoadRaised)"

definition as_list :: "json \<Rightarrow> catalog_error + json list" where
  "as_list v = (case v of JList xs \<Rightarrow> Inr xs | _ \<Rightarrow> Inl LoadRaised)"

definition as_dict :: "json \<Rightarrow> catalog_error + (str \<times> json) list" where
  "as_dict v = (case v of JDict d \<Rightarrow> Inr d | _ \<Rightarrow> Inl LoadRaised)"

definition as_int :: "json \<Rightarrow> catalog_error + int" where
  "as_int v = (case integer_value v of None \<Rightarrow> Inl LoadRaised | Some i \<Rightarrow> Inr i)"

definition as_enum :: "('e \<Rightarrow> str) \<Rightarrow> 'e list \<Rightarrow> json \<Rightarrow> catalog_error + 'e" where
  "as_enum name members v =
     bindr (as_text v) (\<lambda>s. case enum_of name members s of None \<Rightarrow> Inl LoadRaised | Some m \<Rightarrow> Inr m)"

definition str_field :: "(str \<times> json) list \<Rightarrow> string \<Rightarrow> catalog_error + str" where
  "str_field d k = bindr (field d k) as_text"

definition strs_field :: "(str \<times> json) list \<Rightarrow> string \<Rightarrow> catalog_error + str list" where
  "strs_field d k = bindr (bindr (field d k) as_list) (each as_text)"

definition optional_text :: "(str \<times> json) list \<Rightarrow> string \<Rightarrow> catalog_error + str option" where
  "optional_text d k =
     (case get d (ascii k) of JNull \<Rightarrow> Inr None | v \<Rightarrow> bindr (as_text v) (\<lambda>s. Inr (Some s)))"

text \<open>The value of an assertion: a list becomes a tuple, but only on the outside.\<close>

definition assertion_value :: "json \<Rightarrow> pyval" where
  "assertion_value v = (case v of JList xs \<Rightarrow> PyTuple (map of_json xs) | _ \<Rightarrow> of_json v)"

definition pattern_of :: "rx_env \<Rightarrow> parse_mode \<Rightarrow> operator \<Rightarrow> json \<Rightarrow> catalog_error + (str \<Rightarrow> bool) option" where
  "pattern_of rx pm op v =
     (if op \<noteq> OpMatchesRegex then Inr None
      else if pm_custom pm \<and> \<not> pm_allow_regex pm then Inl UnsafePattern
      else case rx_compile rx (case v of JStr s \<Rightarrow> s | _ \<Rightarrow> rx_text rx v) of
             None \<Rightarrow> Inl UnsafePattern | Some p \<Rightarrow> Inr (Some p))"

definition parse_assertion :: "rx_env \<Rightarrow> parse_mode \<Rightarrow> json \<Rightarrow> catalog_error + assertion" where
  "parse_assertion rx pm raw =
     bindr (as_dict raw) (\<lambda>d.
     bindr (bindr (field d ''operator'') (as_enum operator_name all_operators)) (\<lambda>op.
     bindr (field d ''value'') (\<lambda>v.
     bindr (pattern_of rx pm op v) (\<lambda>pat.
     bindr (str_field d ''target'') (\<lambda>t.
       Inr \<lparr>at_target = t, at_operator = op, at_value = assertion_value v, at_pattern = pat\<rparr>)))))"

text \<open>An empty or missing list of corroborations, and empty headers, count as none.\<close>

definition parse_corroboration :: "rx_env \<Rightarrow> parse_mode \<Rightarrow> (str \<times> json) list \<Rightarrow> catalog_error + assertion list" where
  "parse_corroboration rx pm d =
     (let raw = get d (ascii ''corroboration'')
      in if truthy raw then bindr (as_list raw) (each (parse_assertion rx pm)) else Inr [])"

definition parse_probe :: "rx_env \<Rightarrow> parse_mode \<Rightarrow> json \<Rightarrow> catalog_error + probe" where
  "parse_probe rx pm raw =
     bindr (as_dict raw) (\<lambda>d.
     bindr (bindr (bindr (field d ''assertions'') as_list) (each (parse_assertion rx pm))) (\<lambda>assertions.
     bindr (field d ''payload'') (\<lambda>payload.
     bindr (parse_corroboration rx pm d) (\<lambda>corroboration.
     bindr (str_field d ''id'') (\<lambda>i.
     bindr (str_field d ''transport'') (\<lambda>transport.
     bindr (str_field d ''method'') (\<lambda>mthd.
     bindr (optional_text d ''probe_token'') (\<lambda>token.
     bindr (as_int (get_or d (ascii ''probe_count'') (JInt 1))) (\<lambda>count.
     bindr (optional_text d ''requires_protocol_era'') (\<lambda>era.
       Inr \<lparr>pb_id = i, pb_transport = transport, pb_method = mthd,
            pb_payload = (case make_mapping_proxy payload of PyProxy ps \<Rightarrow> PyProxy ps | _ \<Rightarrow> PyProxy []),
            pb_assertions = assertions, pb_token = token, pb_count = count,
            pb_headers = (let h = get d (ascii ''probe_headers'')
                          in if truthy h then Some (make_mapping_proxy h) else None),
            pb_corroboration = corroboration,
            pb_protocol_error_expected = truthy (get_or d (ascii ''protocol_error_is_expected'') (JBool False)),
            pb_requires_era = era\<rparr>))))))))))"

text \<open>The walk over the finished definition that finds a list or a dictionary.\<close>

definition frozen_assertion :: "assertion \<Rightarrow> bool" where
  "frozen_assertion a \<longleftrightarrow> immutable (at_value a)"

definition frozen_probe :: "probe \<Rightarrow> bool" where
  "frozen_probe p \<longleftrightarrow> immutable (pb_payload p) \<and> list_all frozen_assertion (pb_assertions p) \<and>
     (case pb_headers p of None \<Rightarrow> True | Some h \<Rightarrow> immutable h) \<and> list_all frozen_assertion (pb_corroboration p)"

definition frozen_threat :: "threat \<Rightarrow> bool" where
  "frozen_threat t \<longleftrightarrow> list_all frozen_probe (th_probes t)"

definition parse_threat :: "rx_env \<Rightarrow> parse_mode \<Rightarrow> provenance \<Rightarrow> json \<Rightarrow> catalog_error + threat" where
  "parse_threat rx pm prov raw =
     bindr (as_dict raw) (\<lambda>d.
     bindr (bindr (bindr (field d ''probes'') as_list) (each (parse_probe rx pm))) (\<lambda>probes.
     bindr (str_field d ''schema_version'') (\<lambda>version.
     bindr (str_field d ''id'') (\<lambda>i.
     bindr (str_field d ''category'') (\<lambda>category.
     bindr (bindr (field d ''severity'') (as_enum severity_name all_severities)) (\<lambda>sev.
     bindr (str_field d ''cosai_ref'') (\<lambda>cosai.
     bindr (str_field d ''owasp_ref'') (\<lambda>owasp.
     bindr (strs_field d ''cwe'') (\<lambda>cwe.
     bindr (str_field d ''remediation'') (\<lambda>remediation.
     bindr (strs_field d ''references'') (\<lambda>refs.
     bindr (as_text (get_or d (ascii ''mode'') (JStr (ascii ''read-only'')))) (\<lambda>mode.
     bindr (as_enum confidence_name all_confidences (get_or d (ascii ''confidence'') (JStr (ascii ''medium'')))) (\<lambda>conf.
     bindr (as_text (get_or d (ascii ''mcp_t_ref'') (JStr []))) (\<lambda>mcp.
     bindr (bindr (as_list (get_or d (ascii ''threat_refs'') (JList []))) (each as_int)) (\<lambda>trefs.
       let t = \<lparr>th_schema_version = version, th_id = i, th_category = category, th_severity = sev,
                th_cosai_ref = cosai, th_owasp_ref = owasp, th_cwe = cwe, th_probes = probes,
                th_remediation = remediation, th_references = refs, th_provenance = prov, th_mode = mode,
                th_confidence = conf, th_mcp_t_ref = mcp, th_threat_refs = trefs\<rparr>
       in if frozen_threat t then Inr t else Inl MutableContainer)))))))))))))))"

section \<open>Paths\<close>

type_synonym path = "str list"

record catalog_fs =
  cf_resolve :: "path \<Rightarrow> path option"
  cf_symlink :: "path \<Rightarrow> bool"
  cf_exists :: "path \<Rightarrow> bool"
  cf_read :: "path \<Rightarrow> byte list option"
  cf_listing :: "path \<Rightarrow> path list option"

text \<open>From the file up to the catalog root: no component may be a symbolic link.\<close>

function climb :: "catalog_fs \<Rightarrow> path \<Rightarrow> path \<Rightarrow> catalog_error + unit" where
  "climb fs base p =
     (if cf_symlink fs p then Inl PathTraversal
      else case cf_resolve fs p of
        None \<Rightarrow> Inl PathTraversal
      | Some r \<Rightarrow> if r = base \<or> p = [] then Inr () else climb fs base (butlast p))"
  by pat_completeness auto
termination by (relation "measure (\<lambda>(fs, base, p). length p)") (auto simp: le_less)

declare climb.simps [simp del]

definition relative_to :: "path \<Rightarrow> path \<Rightarrow> path option" where
  "relative_to base p = (if take (length base) p = base then Some (drop (length base) p) else None)"

definition resolve_safe :: "catalog_fs \<Rightarrow> path \<Rightarrow> bool \<Rightarrow> path \<Rightarrow> catalog_error + path" where
  "resolve_safe fs base absolute parts =
     (if absolute then Inl PathTraversal
      else case (cf_resolve fs (base @ parts), cf_resolve fs base) of
        (Some resolved, Some catalog) \<Rightarrow>
          bindr (climb fs catalog (base @ parts)) (\<lambda>_.
            if relative_to catalog resolved = None then Inl PathTraversal else Inr resolved)
      | _ \<Rightarrow> Inl PathTraversal)"

section \<open>Loading\<close>

record loader =
  cl_root :: path
  cl_allow_custom :: bool
  cl_allow_regex :: bool
  cl_allow_adversarial :: bool

record loader_env =
  le_fs :: catalog_fs
  le_verify :: "byte list \<Rightarrow> byte list \<Rightarrow> bool"
  le_rx :: rx_env

definition is_dot :: "nat \<Rightarrow> bool" where "is_dot c \<longleftrightarrow> c = 46"

text \<open>\<open>with_suffix(".json.sig")\<close>: the last suffix of the name, if it has one, is replaced.\<close>

definition stem :: "str \<Rightarrow> str" where
  "stem name =
     (let tail = takeWhile (\<lambda>c. \<not> is_dot c) (rev name); i = length name - length tail
      in if list_ex is_dot name \<and> 1 < i \<and> tail \<noteq> [] then take (i - 1) name else name)"

definition sig_path :: "path \<Rightarrow> path" where
  "sig_path p = butlast p @ [stem (last p) @ ascii ''.json.sig'']"

text \<open>\<open>json.loads\<close> on bytes: only UTF-8 without a byte order mark is read here. The library also detects UTF-16, UTF-32 and
  a byte order mark, so a file in another encoding, which the code would accept, is \<open>NotJson\<close> here.\<close>

definition parse_bytes :: "byte list \<Rightarrow> catalog_error + json" where
  "parse_bytes raw = (case Option.bind (utf8_decode raw) loads of None \<Rightarrow> Inl NotJson | Some v \<Rightarrow> Inr v)"

definition read_file :: "catalog_fs \<Rightarrow> path \<Rightarrow> catalog_error + byte list" where
  "read_file fs p = (case cf_read fs p of None \<Rightarrow> Inl LoadRaised | Some bs \<Rightarrow> Inr bs)"

definition parse_validated :: "rx_env \<Rightarrow> parse_mode \<Rightarrow> provenance \<Rightarrow> byte list \<Rightarrow> catalog_error + threat" where
  "parse_validated rx pm prov raw =
     bindr (parse_bytes raw) (\<lambda>data.
       if \<not> validate_threat_json data then Inl SchemaRejected else parse_threat rx pm prov data)"

text \<open>The signature file in base64; characters outside the alphabet are discarded.\<close>

definition decode_sig :: "byte list \<Rightarrow> byte list option" where
  "decode_sig bs = b64decode False (filter (\<lambda>c. c < 128) (map unat bs))"

definition load_official :: "loader_env \<Rightarrow> path \<Rightarrow> catalog_error + threat" where
  "load_official env p =
     (if \<not> cf_exists (le_fs env) (sig_path p) then Inl SignatureRejected
      else
        bindr (read_file (le_fs env) p) (\<lambda>raw.
        bindr (read_file (le_fs env) (sig_path p)) (\<lambda>sig.
          case decode_sig sig of
            None \<Rightarrow> Inl LoadRaised
          | Some s \<Rightarrow>
              if \<not> le_verify env raw s then Inl SignatureRejected
              else parse_validated (le_rx env) \<lparr>pm_custom = False, pm_allow_regex = False\<rparr> Official raw)))"

definition load_adversarial :: "loader_env \<Rightarrow> path \<Rightarrow> catalog_error + threat" where
  "load_adversarial env p = load_official env p"

definition load_custom :: "loader_env \<Rightarrow> loader \<Rightarrow> path \<Rightarrow> catalog_error + threat" where
  "load_custom env cl p =
     bindr (read_file (le_fs env) p)
       (parse_validated (le_rx env) \<lparr>pm_custom = True, pm_allow_regex = cl_allow_regex cl\<rparr> Custom)"

definition classify_path :: "loader \<Rightarrow> path \<Rightarrow> catalog_error + (provenance \<times> bool)" where
  "classify_path cl resolved =
     (case relative_to (cl_root cl) resolved of
        None \<Rightarrow> Inl PathTraversal
      | Some parts \<Rightarrow>
          if parts \<noteq> [] \<and> hd parts = ascii ''official'' then Inr (Official, False) else Inr (Custom, True))"

definition load_file :: "loader_env \<Rightarrow> loader \<Rightarrow> bool \<Rightarrow> path \<Rightarrow> catalog_error + threat" where
  "load_file env cl absolute parts =
     bindr (resolve_safe (le_fs env) (cl_root cl) absolute parts) (\<lambda>resolved.
     bindr (classify_path cl resolved) (\<lambda>(prov, is_custom).
       if is_custom \<and> \<not> cl_allow_custom cl then Inl CustomDisabled
       else if is_custom then load_custom env cl resolved
       else load_official env resolved))"

text \<open>The files of one directory below the root, in the order of their paths.\<close>

definition load_dir :: "loader_env \<Rightarrow> loader \<Rightarrow> path \<Rightarrow> (path \<Rightarrow> catalog_error + threat) \<Rightarrow> catalog_error + threat list" where
  "load_dir env cl dir load =
     (case cf_listing (le_fs env) (cl_root cl @ dir) of
        None \<Rightarrow> Inr []
      | Some files \<Rightarrow>
          each (\<lambda>p. case relative_to (cl_root cl) p of
                  None \<Rightarrow> Inl LoadRaised
                | Some parts \<Rightarrow> bindr (resolve_safe (le_fs env) (cl_root cl) False parts) load) (sort files))"

definition load_all :: "loader_env \<Rightarrow> loader \<Rightarrow> catalog_error + threat list" where
  "load_all env cl =
     bindr (load_dir env cl [ascii ''official''] (load_official env)) (\<lambda>official.
     bindr (if cl_allow_adversarial cl
            then load_dir env cl [ascii ''official'', ascii ''adversarial''] (load_adversarial env) else Inr []) (\<lambda>adversarial.
     bindr (if cl_allow_custom cl then load_dir env cl [ascii ''custom''] (load_custom env cl) else Inr []) (\<lambda>custom.
       Inr (official @ adversarial @ custom))))"

section \<open>Properties\<close>

lemma make_mapping_proxy_immutable: "immutable (make_mapping_proxy v)"
  by (induction v) auto

lemma parse_threat_frozen: "parse_threat rx pm prov data = Inr t \<Longrightarrow> frozen_threat t \<and> th_provenance t = prov"
  by (auto simp: parse_threat_def bindr_Inr Let_def split: if_splits)

definition patterns_of :: "threat \<Rightarrow> (str \<Rightarrow> bool) option list" where
  "patterns_of t = concat (map (\<lambda>p. map at_pattern (pb_assertions p @ pb_corroboration p)) (th_probes t))"

lemma parse_assertion_pattern:
  assumes "parse_assertion rx \<lparr>pm_custom = True, pm_allow_regex = False\<rparr> raw = Inr a"
  shows "at_pattern a = None"
  using assms by (auto simp: parse_assertion_def bindr_Inr pattern_of_def split: if_splits)

lemma parse_probe_pattern:
  assumes "parse_probe rx \<lparr>pm_custom = True, pm_allow_regex = False\<rparr> raw = Inr p"
    and "a \<in> set (pb_assertions p @ pb_corroboration p)"
  shows "at_pattern a = None"
  using assms
  by (auto simp: parse_probe_def bindr_Inr parse_corroboration_def Let_def split: if_splits dest!: each_mem
      dest: parse_assertion_pattern)

lemma custom_patterns:
  assumes "parse_threat rx \<lparr>pm_custom = True, pm_allow_regex = False\<rparr> prov data = Inr t"
  shows "list_all (\<lambda>p. p = None) (patterns_of t)"
proof -
  have "\<exists>raw. parse_probe rx \<lparr>pm_custom = True, pm_allow_regex = False\<rparr> raw = Inr p" if "p \<in> set (th_probes t)" for p
    using assms that by (auto simp: parse_threat_def bindr_Inr Let_def split: if_splits dest!: each_mem)
  then show ?thesis
    unfolding patterns_of_def list_all_iff using parse_probe_pattern by fastforce
qed

text \<open>Where a definition may come from: an official one from a file whose bytes carry a valid signature, a
  custom one only when custom files are admitted, and without a compiled pattern unless those are too.\<close>

definition trusted_source :: "loader_env \<Rightarrow> loader \<Rightarrow> threat \<Rightarrow> bool" where
  "trusted_source env cl t =
     (case th_provenance t of
        Official \<Rightarrow> \<exists>p raw sig s data. cf_read (le_fs env) p = Some raw \<and> cf_read (le_fs env) (sig_path p) = Some sig \<and>
          decode_sig sig = Some s \<and> le_verify env raw s \<and> parse_bytes raw = Inr data \<and> validate_threat_json data \<and>
          parse_threat (le_rx env) \<lparr>pm_custom = False, pm_allow_regex = False\<rparr> Official data = Inr t
      | Custom \<Rightarrow> cl_allow_custom cl \<and> (cl_allow_regex cl \<or> list_all (\<lambda>p. p = None) (patterns_of t)))"

lemma load_official_sound:
  assumes "load_official env p = Inr t"
  shows "frozen_threat t \<and> trusted_source env cl t"
proof -
  obtain raw sig s where r: "cf_read (le_fs env) p = Some raw" "cf_read (le_fs env) (sig_path p) = Some sig"
    "decode_sig sig = Some s" "le_verify env raw s"
    and v: "parse_validated (le_rx env) \<lparr>pm_custom = False, pm_allow_regex = False\<rparr> Official raw = Inr t"
    using assms by (auto simp: load_official_def bindr_Inr read_file_def split: if_splits option.splits)
  obtain data where d: "parse_bytes raw = Inr data" "validate_threat_json data"
    "parse_threat (le_rx env) \<lparr>pm_custom = False, pm_allow_regex = False\<rparr> Official data = Inr t"
    using v by (auto simp: parse_validated_def bindr_Inr split: if_splits)
  show ?thesis using parse_threat_frozen [OF d(3)] r d unfolding trusted_source_def by (simp, blast)
qed

lemma load_custom_sound:
  assumes "load_custom env cl p = Inr t" "cl_allow_custom cl"
  shows "frozen_threat t \<and> trusted_source env cl t"
proof -
  obtain data where d: "parse_threat (le_rx env) \<lparr>pm_custom = True, pm_allow_regex = cl_allow_regex cl\<rparr> Custom data = Inr t"
    using assms(1) by (auto simp: load_custom_def parse_validated_def bindr_Inr split: if_splits)
  have "cl_allow_regex cl \<or> list_all (\<lambda>p. p = None) (patterns_of t)"
    using custom_patterns [of "le_rx env" Custom data t] d by (cases "cl_allow_regex cl") auto
  then show ?thesis using parse_threat_frozen [OF d] assms(2) by (simp add: trusted_source_def)
qed

lemma load_dir_mem:
  assumes "load_dir env cl dir load = Inr ts" "t \<in> set ts"
  shows "\<exists>p. load p = Inr t"
  using assms by (auto simp: load_dir_def bindr_Inr split: option.splits dest!: each_mem)

lemma load_all_sound:
  assumes "load_all env cl = Inr ts" "t \<in> set ts"
  shows "frozen_threat t \<and> trusted_source env cl t"
proof -
  obtain a b c where l: "load_dir env cl [ascii ''official''] (load_official env) = Inr a"
    "cl_allow_adversarial cl \<and> load_dir env cl [ascii ''official'', ascii ''adversarial''] (load_adversarial env) = Inr b \<or> b = []"
    "cl_allow_custom cl \<and> load_dir env cl [ascii ''custom''] (load_custom env cl) = Inr c \<or> c = []"
    and ts: "ts = a @ b @ c"
    using assms(1) by (auto simp: load_all_def bindr_Inr split: if_splits)
  from assms(2) ts consider "t \<in> set a" | "t \<in> set b" | "t \<in> set c" by auto
  then show ?thesis
  proof cases
    case 1
    then show ?thesis using load_dir_mem [OF l(1)] load_official_sound by blast
  next
    case 2
    then show ?thesis using l(2) load_dir_mem load_official_sound by (fastforce simp: load_adversarial_def)
  next
    case 3
    then have "cl_allow_custom cl" "\<exists>p. load_custom env cl p = Inr t" using l(3) load_dir_mem by fastforce+
    then show ?thesis using load_custom_sound by blast
  qed
qed

text \<open>C35. What the loader returns is well-typed: a threat definition is frozen all the way down, with no list
  or dictionary that later code could change, and its provenance is genuine: official means a valid
  signature over the very bytes that were parsed and validated, custom that the operator admitted custom
  files, with no compiled pattern unless these were admitted as well.\<close>

theorem loaded_threat_frozen:
  assumes "load_all env cl = Inr ts \<and> t \<in> set ts \<or> load_file env cl absolute parts = Inr t"
  shows "frozen_threat t \<and> trusted_source env cl t"
  using assms
proof (elim disjE)
  assume "load_file env cl absolute parts = Inr t"
  then obtain p where "load_official env p = Inr t \<or> cl_allow_custom cl \<and> load_custom env cl p = Inr t"
    by (auto simp: load_file_def bindr_Inr split: if_splits)
  then show ?thesis using load_official_sound load_custom_sound by blast
qed (use load_all_sound in blast)

text \<open>A catalog of one signed file, whose one probe asserts an error.\<close>

definition sample_threat_json :: json where
  "sample_threat_json = JDict
     [(ascii ''schema_version'', JStr (ascii ''1.0'')), (ascii ''id'', JStr (ascii ''T01-001'')),
      (ascii ''category'', JStr (ascii ''T1'')), (ascii ''severity'', JStr (ascii ''high'')),
      (ascii ''cosai_ref'', JStr []), (ascii ''owasp_ref'', JStr []), (ascii ''cwe'', JList [JStr (ascii ''CWE-287'')]),
      (ascii ''probes'', JList [JDict
         [(ascii ''id'', JStr (ascii ''p1'')), (ascii ''transport'', JStr (ascii ''http'')),
          (ascii ''method'', JStr (ascii ''tools/call'')), (ascii ''payload'', JDict [(ascii ''xs'', JList [])]),
          (ascii ''assertions'', JList [JDict
             [(ascii ''target'', JStr (ascii ''response.error'')), (ascii ''operator'', JStr (ascii ''eq'')),
              (ascii ''value'', JBool True)]])]]),
      (ascii ''remediation'', JStr []), (ascii ''references'', JList [])]"

definition sample_env :: loader_env where
  "sample_env =
     \<lparr>le_fs = \<lparr>cf_resolve = Some, cf_symlink = (\<lambda>p. False), cf_exists = (\<lambda>p. True),
        cf_read = (\<lambda>p. Some (if last p = ascii ''a.json'' then map byte_of (compact sample_threat_json) else [])),
        cf_listing = (\<lambda>p. None)\<rparr>,
      le_verify = (\<lambda>raw sig. sig = []), le_rx = \<lparr>rx_compile = (\<lambda>p. None), rx_text = (\<lambda>v. [])\<rparr>\<rparr>"

definition sample_loader :: loader where
  "sample_loader = \<lparr>cl_root = [], cl_allow_custom = False, cl_allow_regex = False, cl_allow_adversarial = False\<rparr>"

lemma sample_parses: "parse_bytes (map byte_of (compact sample_threat_json)) = Inr sample_threat_json"
proof -
  have "loads (compact sample_threat_json) = Some sample_threat_json"
    by (rule loads_dumps) (simp_all add: sample_threat_json_def high_surrogate_def)
  moreover have "utf8_decode (map byte_of (compact sample_threat_json)) = Some (compact sample_threat_json)"
    by (rule utf8_decode_ascii, rule dumps_ascii) simp_all
  ultimately show ?thesis by (simp add: parse_bytes_def)
qed

lemma sample_valid: "validate_threat_json sample_threat_json"
  by (simp add: validate_threat_json_def threat_meta_schema_def sample_threat_json_def probe_schema_def
      assertion_schema_def text_schema_def one_of_def anchored_def strip_final_newline_def is_threat_id_def
      is_category_def digit_def)

lemma sample_loads: "\<exists>t. parse_threat rx pm Official sample_threat_json = Inr t \<and> th_probes t \<noteq> []"
  by (simp add: parse_threat_def sample_threat_json_def as_dict_def field_def as_list_def as_text_def as_enum_def
      enum_of_def str_field_def strs_field_def parse_probe_def parse_assertion_def pattern_of_def
      parse_corroboration_def optional_text_def get_def get_or_def as_int_def integer_value_def truthy_def
      all_operators_def operator_name_def all_severities_def severity_name_def all_confidences_def
      confidence_name_def frozen_threat_def frozen_probe_def frozen_assertion_def assertion_value_def)

theorem loaded_threat_frozen_witness:
  "\<exists>t. load_file sample_env sample_loader False [ascii ''official'', ascii ''a.json''] = Inr t \<and> th_probes t \<noteq> [] \<and>
     frozen_threat t \<and> trusted_source sample_env sample_loader t"
proof -
  obtain t where t: "parse_threat (le_rx sample_env) \<lparr>pm_custom = False, pm_allow_regex = False\<rparr> Official sample_threat_json = Inr t"
    "th_probes t \<noteq> []"
    using sample_loads by blast
  have sig: "sig_path [ascii ''official'', ascii ''a.json''] = [ascii ''official'', ascii ''a.json.sig'']"
    by (simp add: sig_path_def stem_def is_dot_def Let_def)
  have "load_file sample_env sample_loader False [ascii ''official'', ascii ''a.json''] = Inr t"
    using t(1) sample_parses sample_valid
    by (simp add: load_file_def resolve_safe_def sample_env_def sample_loader_def climb.simps relative_to_def
        classify_path_def load_official_def read_file_def sig decode_sig_def
        b64decode_def parse_validated_def del: ascii_simps)
  with loaded_threat_frozen [OF disjI2 [OF this]] t(2) show ?thesis by blast
qed

end
