(* ===== verification/Probe_Result.thy ===== *)
theory Probe_Result
  imports Boundary Catalog
begin

text \<open>
  \<open>harness/result.py\<close> and \<open>harness/assertions.py\<close>: the immutable result of a probe, whose captured text is
  HTML-escaped when it is built, and the evaluation of assertions against a response. How Python prints
  a value that is not a string, and the text of the exceptions, are the record \<open>py_text\<close>.
\<close>

record py_text =
  pt_str :: "pyval \<Rightarrow> str"
  pt_repr :: "pyval \<Rightarrow> str"
  pt_membership_error :: "json \<Rightarrow> pyval \<Rightarrow> str"
  pt_lower :: "str \<Rightarrow> str"

definition to_str :: "py_text \<Rightarrow> pyval \<Rightarrow> str" where
  "to_str pt v = (case v of PyAtom (JStr s) \<Rightarrow> s | _ \<Rightarrow> pt_str pt v)"

section \<open>Results\<close>

definition body_size_cap :: nat where "body_size_cap = 10485760"

record assertion_result =
  ar_target :: str
  ar_operator :: str
  ar_expected :: str
  ar_actual :: str
  ar_passed :: bool
  ar_message :: str

definition assertion_result_to_dict :: "assertion_result \<Rightarrow> (str \<times> json) list" where
  "assertion_result_to_dict a =
     [(ascii ''target'', JStr (ar_target a)), (ascii ''operator'', JStr (ar_operator a)),
      (ascii ''expected'', JStr (ar_expected a)), (ascii ''actual'', JStr (ar_actual a)),
      (ascii ''passed'', JBool (ar_passed a)), (ascii ''message'', JStr (ar_message a))]"

record probe_result =
  pr_probe_id :: str
  pr_threat_id :: str
  pr_passed :: bool
  pr_status_code :: json
  pr_response_body :: str
  pr_error :: "str option"
  pr_assertions :: "assertion_result list"
  pr_duration :: json
  pr_inconclusive :: "str option"
  pr_synthesis_attempted :: bool
  pr_canary_detected :: bool
  pr_suppressed :: bool

definition opt_text :: "str option \<Rightarrow> json" where
  "opt_text x = (case x of None \<Rightarrow> JNull | Some s \<Rightarrow> JStr s)"

definition probe_result_to_dict :: "probe_result \<Rightarrow> (str \<times> json) list" where
  "probe_result_to_dict r =
     [(ascii ''probe_id'', JStr (pr_probe_id r)), (ascii ''threat_id'', JStr (pr_threat_id r)),
      (ascii ''passed'', JBool (pr_passed r)), (ascii ''status_code'', pr_status_code r),
      (ascii ''response_body'', JStr (pr_response_body r)), (ascii ''error'', opt_text (pr_error r)),
      (ascii ''assertions'', JList (map (JDict \<circ> assertion_result_to_dict) (pr_assertions r))),
      (ascii ''duration_seconds'', pr_duration r), (ascii ''inconclusive_reason'', opt_text (pr_inconclusive r)),
      (ascii ''synthesis_attempted'', JBool (pr_synthesis_attempted r)),
      (ascii ''canary_detected'', JBool (pr_canary_detected r)), (ascii ''suppressed'', JBool (pr_suppressed r))]"

text \<open>The cap on the text, then the escape; \<open>None\<close> is the empty text.\<close>

definition escape_capped :: "str \<Rightarrow> str" where
  "escape_capped s = html_escape (take body_size_cap s)"

definition escape_value :: "py_text \<Rightarrow> json \<Rightarrow> str" where
  "escape_value pt v = (case v of JNull \<Rightarrow> [] | _ \<Rightarrow> escape_capped (to_str pt (of_json v)))"

definition escape_some :: "str option \<Rightarrow> str option" where
  "escape_some x = (case x of None \<Rightarrow> None | Some s \<Rightarrow> if s = [] then None else Some (escape_capped s))"

definition make_probe_result :: "py_text \<Rightarrow> str \<Rightarrow> str \<Rightarrow> bool \<Rightarrow> assertion_result list \<Rightarrow> (str \<times> json) list option \<Rightarrow>
    str option \<Rightarrow> json \<Rightarrow> str option \<Rightarrow> bool \<Rightarrow> probe_result" where
  "make_probe_result pt probe_id threat_id passed assertions response error duration inconclusive synthesis =
     \<lparr>pr_probe_id = probe_id, pr_threat_id = threat_id, pr_passed = passed,
      pr_status_code = (case response of None \<Rightarrow> JNull | Some r \<Rightarrow> get r (ascii ''_status_code'')),
      pr_response_body = (case response of None \<Rightarrow> [] | Some r \<Rightarrow> escape_value pt (get_or r (ascii ''_body'') (JStr []))),
      pr_error = escape_some error, pr_assertions = assertions, pr_duration = duration,
      pr_inconclusive = escape_some inconclusive, pr_synthesis_attempted = synthesis,
      pr_canary_detected = False, pr_suppressed = False\<rparr>"

section \<open>Assertions\<close>

definition response_error :: "(str \<times> json) list \<Rightarrow> bool" where
  "response_error r =
     (let e = get r (ascii ''error'') in
      if e \<noteq> JNull \<and> e \<noteq> JBool False then True
      else case get_or r (ascii ''result'') (JDict []) of
             JDict d \<Rightarrow> truthy (get d (ascii ''isError''))
           | _ \<Rightarrow> False)"

fun walk_path :: "json \<Rightarrow> str list \<Rightarrow> json" where
  "walk_path v [] = v"
| "walk_path v (p # ps) = (case v of JDict d \<Rightarrow> walk_path (get d p) ps | _ \<Rightarrow> JNull)"

definition header_prefix :: str where "header_prefix = ascii ''response.header.''"

text \<open>\<open>None\<close> is the exception of a header table that is no dictionary.\<close>

definition extract_target :: "py_text \<Rightarrow> (str \<times> json) list \<Rightarrow> str \<Rightarrow> json option" where
  "extract_target pt r target =
     (if target = ascii ''response.error'' then Some (JBool (response_error r))
      else if target = ascii ''response.error_code'' then
        Some (case get r (ascii ''error'') of JDict e \<Rightarrow> get e (ascii ''code'') | _ \<Rightarrow> JNull)
      else if target = ascii ''response.body'' then Some (get_or r (ascii ''_body'') (JStr []))
      else if target = ascii ''response.status_code'' then Some (get r (ascii ''_status_code''))
      else if starts_with header_prefix target then
        (let h = drop (length header_prefix) target in
         case get_or r (ascii ''_headers'') (JDict []) of
           JDict hs \<Rightarrow> Some (if truthy (get hs h) then get hs h else get hs (pt_lower pt h))
         | _ \<Rightarrow> None)
      else Some (walk_path (JDict r) (tl (split_on (\<lambda>c. c = 46) target))))"

text \<open>\<open>actual in expected\<close>; \<open>None\<close> is a \<open>TypeError\<close>.\<close>

definition member_of :: "json \<Rightarrow> pyval \<Rightarrow> bool option" where
  "member_of a v =
     (case v of
        PyTuple vs \<Rightarrow> Some (list_ex (py_eq (of_json a)) vs)
      | PyList vs \<Rightarrow> Some (list_ex (py_eq (of_json a)) vs)
      | PyDict ps \<Rightarrow> if hashable a then Some (list_ex (\<lambda>(k, w). a = JStr k) ps) else None
      | PyProxy ps \<Rightarrow> if hashable a then Some (list_ex (\<lambda>(k, w). a = JStr k) ps) else None
      | PyAtom (JStr s) \<Rightarrow> (case a of JStr t \<Rightarrow> Some (has_sub t s) | _ \<Rightarrow> None)
      | PyAtom _ \<Rightarrow> None)"

definition actual_text :: "py_text \<Rightarrow> json \<Rightarrow> str" where
  "actual_text pt a = (if a = JNull then [] else to_str pt (of_json a))"

definition assertion_holds :: "py_text \<Rightarrow> assertion \<Rightarrow> (str \<times> json) list \<Rightarrow> json \<Rightarrow> bool option" where
  "assertion_holds pt a r actual =
     (case at_operator a of
        OpEq \<Rightarrow> Some (py_eq (of_json actual) (at_value a))
      | OpNe \<Rightarrow> Some (\<not> py_eq (of_json actual) (at_value a))
      | OpContains \<Rightarrow> Some (has_sub (to_str pt (at_value a)) (actual_text pt actual))
      | OpNotContains \<Rightarrow> Some (\<not> has_sub (to_str pt (at_value a)) (actual_text pt actual))
      | OpMatchesRegex \<Rightarrow> Some (case at_pattern a of None \<Rightarrow> False | Some p \<Rightarrow> p (actual_text pt actual))
      | OpStatusIn \<Rightarrow> member_of actual (at_value a)
      | OpErrorCodeIn \<Rightarrow> if actual = JNull \<and> response_error r then Some True else member_of actual (at_value a))"

definition quoted_name :: "str \<Rightarrow> str" where "quoted_name s = 39 # s @ [39]"

definition evaluate_assertion :: "py_text \<Rightarrow> assertion \<Rightarrow> (str \<times> json) list \<Rightarrow> assertion_result option" where
  "evaluate_assertion pt a r =
     (case extract_target pt r (at_target a) of
        None \<Rightarrow> None
      | Some actual \<Rightarrow>
          (let verdict = assertion_holds pt a r actual;
               message =
                 (case verdict of
                    None \<Rightarrow> ascii ''assertion evaluation error: '' @ pt_membership_error pt actual (at_value a)
                  | Some True \<Rightarrow> ascii ''passed''
                  | Some False \<Rightarrow> ascii ''expected '' @ quoted_name (operator_name (at_operator a)) @ ascii '' '' @
                      pt_repr pt (at_value a) @ ascii '', got '' @ pt_repr pt (of_json actual))
           in Some \<lparr>ar_target = at_target a, ar_operator = operator_name (at_operator a),
                ar_expected = escape_capped (to_str pt (at_value a)), ar_actual = escape_capped (to_str pt (of_json actual)),
                ar_passed = (verdict = Some True), ar_message = escape_capped message\<rparr>))"

fun evaluate_all :: "py_text \<Rightarrow> assertion list \<Rightarrow> (str \<times> json) list \<Rightarrow> assertion_result list option" where
  "evaluate_all pt [] r = Some []"
| "evaluate_all pt (a # as) r =
     (case evaluate_assertion pt a r of
        None \<Rightarrow> None
      | Some x \<Rightarrow> map_option ((#) x) (evaluate_all pt as r))"

text \<open>A genuine finding: the probe ran, was conclusive, and its assertions failed.\<close>

definition is_finding :: "probe_result \<Rightarrow> bool" where
  "is_finding r \<longleftrightarrow> \<not> pr_passed r \<and> pr_error r = None \<and> pr_inconclusive r = None"

lemma make_probe_result_simps [simp]:
  "pr_passed (make_probe_result pt i t p as r e d inc sy) = p"
  "pr_probe_id (make_probe_result pt i t p as r e d inc sy) = i"
  "pr_threat_id (make_probe_result pt i t p as r e d inc sy) = t"
  "pr_assertions (make_probe_result pt i t p as r e d inc sy) = as"
  "pr_error (make_probe_result pt i t p as r e d inc sy) = escape_some e"
  "pr_inconclusive (make_probe_result pt i t p as r e d inc sy) = escape_some inc"
  by (simp_all add: make_probe_result_def)

lemma html_escape_empty [simp]: "html_escape s = [] \<longleftrightarrow> s = []"
  by (cases s) (auto simp: html_escape_def html_char_def)

lemma escape_some_None [simp]: "escape_some x = None \<longleftrightarrow> x = None \<or> x = Some []"
  by (cases x) (auto simp: escape_some_def)

lemma evaluate_all_passed:
  "evaluate_all pt as r = Some xs \<Longrightarrow> list_all2 (\<lambda>a x. evaluate_assertion pt a r = Some x) as xs"
  by (induction as arbitrary: xs) (auto split: option.splits)

end
