(* ===== verification/Probe_Context.thy ===== *)
theory Probe_Context
  imports Probe_Result Templates Mcp_Session
begin

text \<open>
  \<open>harness/context.py\<close>: executing one probe over a session. The texts of exceptions and the elapsed time
  are arguments; \<open>None\<close> is an exception that leaves \<open>execute_probe\<close>.
\<close>

definition schema_mismatch_keywords :: "str list" where
  "schema_mismatch_keywords = map ascii
     [''unknown argument'', ''unexpected argument'', ''extra argument'', ''invalid argument'', ''unrecognized argument'',
      ''required field'', ''required argument'', ''missing field'', ''missing required'', ''field required'',
      ''does not accept'', ''not accepted'', ''not allowed'', ''not a valid'', ''type error'', ''validation error'',
      ''validation failed'', ''invalid input'', ''unrecognized key'', ''schema'', ''unknown tool'', ''tool not found'',
      ''no such tool'']"

definition em_dash :: str where "em_dash = [8212]"

definition era_not_applicable :: str where "era_not_applicable = ascii ''not applicable''"

definition protocol_validation_codes :: "int list" where
  "protocol_validation_codes = [-32700, -32600, -32601, -32602, -32020, -32021, -32022]"

definition request_level_codes :: "int list" where
  "request_level_codes = [-32700, -32600]"

definition code_among :: "int list \<Rightarrow> json \<Rightarrow> bool" where
  "code_among codes v = list_ex (num_is v) codes"

definition inspects_error_code :: "probe \<Rightarrow> bool" where
  "inspects_error_code p = list_ex (\<lambda>a. at_target a = ascii ''response.error_code'') (pb_assertions p)"

definition protocol_error_reason :: "py_text \<Rightarrow> json \<Rightarrow> str \<Rightarrow> str" where
  "protocol_error_reason pt code msg =
     ascii ''Server returned JSON-RPC protocol error '' @ to_str pt (of_json code) @ ascii '' ('' @
     pt_repr pt (PyAtom (JStr msg)) @ ascii ''). The probe's assumed method/tool was not found or the arguments did not match the tool schema, so the security property could not be reached. This test is INCONCLUSIVE: a protocol-level rejection is not evidence that the security control under test was enforced.''"

text \<open>The outer \<open>None\<close> is the \<open>TypeError\<close> of an unhashable error code.\<close>

definition detect_protocol_error :: "py_text \<Rightarrow> (str \<times> json) list \<Rightarrow> probe \<Rightarrow> str option option" where
  "detect_protocol_error pt r p =
     (if inspects_error_code p then Some None
      else case get r (ascii ''error'') of
        JDict err \<Rightarrow>
          (let code = get err (ascii ''code'') in
           if \<not> hashable code then None
           else if \<not> code_among protocol_validation_codes code then Some None
           else if pb_protocol_error_expected p \<and> code_among request_level_codes code then Some None
           else Some (Some (protocol_error_reason pt code
                  (take 200 (to_str pt (of_json (get_or err (ascii ''message'') (JStr []))))))))
      | _ \<Rightarrow> Some None)"

text \<open>The text of a content-layer error.\<close>

definition content_texts :: "json \<Rightarrow> str list" where
  "content_texts content =
     (case content of
        JList items \<Rightarrow>
          concat (map (\<lambda>i. case i of
              JDict d \<Rightarrow> (case get d (ascii ''text'') of JStr t \<Rightarrow> [t] | _ \<Rightarrow> [])
            | _ \<Rightarrow> []) items)
      | JStr s \<Rightarrow> [s]
      | _ \<Rightarrow> [])"

definition error_content :: "(str \<times> json) list \<Rightarrow> str option" where
  "error_content r =
     (case get_or r (ascii ''result'') (JDict []) of
        JDict result \<Rightarrow>
          if truthy (get result (ascii ''isError''))
          then Some (join [32] (content_texts (get_or result (ascii ''content'') (JList [])))) else None
      | _ \<Rightarrow> None)"

definition detect_schema_mismatch :: "py_text \<Rightarrow> (str \<times> json) list \<Rightarrow> str option" where
  "detect_schema_mismatch pt r =
     (case error_content r of
        None \<Rightarrow> None
      | Some t \<Rightarrow>
          if list_ex (\<lambda>kw. has_sub kw (pt_lower pt t)) schema_mismatch_keywords
          then Some (ascii ''Probe payload did not match the server's tool schema '' @ em_dash @ ascii '' server rejected for: '' @
                 pt_repr pt (PyAtom (JStr (take 200 t))) @ ascii ''. This test is INCONCLUSIVE: the security property could not be verified because the probe arguments were not accepted by the tool.'')
          else None)"

fun to_json_safe :: "pyval \<Rightarrow> json" where
  "to_json_safe (PyProxy ps) = JDict (map (\<lambda>(k, v). (k, to_json_safe v)) ps)"
| "to_json_safe (PyDict ps) = JDict (map (\<lambda>(k, v). (k, to_json_safe v)) ps)"
| "to_json_safe (PyTuple xs) = JList (map to_json_safe xs)"
| "to_json_safe (PyList xs) = JList (map to_json_safe xs)"
| "to_json_safe (PyAtom v) = v"

section \<open>Printing the body\<close>

text \<open>\<open>json.dumps(..., ensure_ascii=False)\<close>: only quotes, backslashes and control characters are escaped.\<close>

definition plain_char :: "nat \<Rightarrow> str" where
  "plain_char c = (if c < 32 \<or> c = 34 \<or> c = 92 then escape_char c else [c])"

definition plain_str :: "str \<Rightarrow> str" where
  "plain_str s = 34 # concat (map plain_char s) @ [34]"

fun dumps_plain :: "json \<Rightarrow> str" where
  "dumps_plain (JStr s) = plain_str s"
| "dumps_plain (JList xs) = 91 # join [44, 32] (map dumps_plain xs) @ [93]"
| "dumps_plain (JDict ps) = 123 # join [44, 32] (map (\<lambda>(k, v). plain_str k @ [58, 32] @ dumps_plain v) ps) @ [125]"
| "dumps_plain v = dumps [44, 32] [58, 32] v"

definition with_body :: "(str \<times> json) list \<Rightarrow> (str \<times> json) list" where
  "with_body r =
     AList.update (ascii ''_body'')
       (JStr (join [32] (map (\<lambda>k. dumps_plain (get r k)) (filter (\<lambda>k. k \<in> fst ` set r) [ascii ''result'', ascii ''error'']))))
       r"

section \<open>Executing a probe\<close>

record probe_env =
  pe_text :: py_text
  pe_template_error :: "template_error \<Rightarrow> str"
  pe_transport_error :: "session_fail \<Rightarrow> str"

definition era_name :: "era \<Rightarrow> str" where
  "era_name e = (case e of ModernEra \<Rightarrow> ascii ''modern'' | LegacyEra \<Rightarrow> ascii ''legacy'')"

definition dispatch :: "py_text \<Rightarrow> network \<Rightarrow> str \<Rightarrow> (str \<times> json) list \<Rightarrow> (str, str) dict option \<Rightarrow> mcp_session \<Rightarrow>
    (session_fail + (str \<times> json) list) \<times> mcp_session" where
  "dispatch pt net mthd payload override s =
     (if mthd = ascii ''tools/call'' \<and> ascii ''_meta'' \<in> fst ` set payload then send_raw net mthd payload override s
      else if mthd = ascii ''tools/call'' then
        tools_call net (to_str pt (of_json (get_or payload (ascii ''name'') (JStr []))))
          (case get_or payload (ascii ''arguments'') (JDict []) of JDict d \<Rightarrow> d | _ \<Rightarrow> []) override s
      else send_raw net mthd payload override s)"

definition set_default :: "str \<Rightarrow> str \<Rightarrow> (str \<times> str) list \<Rightarrow> (str \<times> str) list" where
  "set_default k v d = (if k \<in> fst ` set d then d else d @ [(k, v)])"

definition probe_variables :: "str \<Rightarrow> (str \<times> str) list \<Rightarrow> (str \<times> str) list" where
  "probe_variables target_url variables =
     set_default (ascii ''tool_name'') [] (set_default (ascii ''session_id'') []
       (set_default (ascii ''target_url'') target_url variables))"

definition header_texts :: "pyval \<Rightarrow> (str, str) dict" where
  "header_texts h =
     (case h of PyProxy ps \<Rightarrow> map (\<lambda>(k, v). (k, case v of PyAtom (JStr s) \<Rightarrow> s | _ \<Rightarrow> [])) ps | _ \<Rightarrow> [])"

definition override_headers :: "probe \<Rightarrow> (str, str) dict option" where
  "override_headers p =
     (case pb_headers p of None \<Rightarrow> None | Some h \<Rightarrow> if header_texts h = [] then None else Some (header_texts h))"

definition missing_evidence :: "assertion_result list \<Rightarrow> str" where
  "missing_evidence xs =
     join (ascii ''; '') (map (\<lambda>x. ar_target x @ [32] @ ar_operator x @ [32] @ ar_expected x) (filter (\<lambda>x. \<not> ar_passed x) xs))"

definition uncorroborated_reason :: "assertion_result list \<Rightarrow> str" where
  "uncorroborated_reason xs =
     ascii ''Primary assertion failed but corroborating positive evidence was absent ('' @ missing_evidence xs @
     ascii ''). This test is INCONCLUSIVE: a single uncorroborated signal is not sufficient to report a finding.''"

text \<open>What made the result inconclusive, if anything did.\<close>

definition inconclusive_reason :: "py_text \<Rightarrow> probe \<Rightarrow> (str \<times> json) list \<Rightarrow> assertion_result list \<Rightarrow> str option option" where
  "inconclusive_reason pt p r results =
     (case detect_schema_mismatch pt r of
        Some m \<Rightarrow> Some (Some m)
      | None \<Rightarrow>
          (case detect_protocol_error pt r p of
             None \<Rightarrow> None
           | Some (Some m) \<Rightarrow> Some (Some m)
           | Some None \<Rightarrow>
               if list_all ar_passed results \<or> pb_corroboration p = [] then Some None
               else (case evaluate_all pt (pb_corroboration p) r of
                       None \<Rightarrow> None
                     | Some cs \<Rightarrow> Some (if list_all ar_passed cs then None else Some (uncorroborated_reason cs)))))"

definition judge_response :: "py_text \<Rightarrow> probe \<Rightarrow> str \<Rightarrow> (str \<times> json) list \<Rightarrow> json \<Rightarrow> probe_result option" where
  "judge_response pt p threat_id response duration =
     (let r = with_body response in
      case evaluate_all pt (pb_assertions p) r of
        None \<Rightarrow> None
      | Some results \<Rightarrow>
          (case inconclusive_reason pt p r results of
             None \<Rightarrow> None
           | Some reason \<Rightarrow>
               Some (make_probe_result pt (pb_id p) threat_id (list_all ar_passed results \<and> reason = None) results
                       (Some r) None duration reason False)))"

definition wrong_era_reason :: "py_text \<Rightarrow> str \<Rightarrow> era \<Rightarrow> str" where
  "wrong_era_reason pt wanted e =
     ascii ''Probe targets the '' @ pt_repr pt (PyAtom (JStr wanted)) @ ascii '' MCP protocol era but the target was scanned over the '' @
     pt_repr pt (PyAtom (JStr (era_name e))) @ ascii '' era '' @ em_dash @ [32] @ era_not_applicable @ ascii ''. This test is INCONCLUSIVE.''"

definition failed_probe :: "py_text \<Rightarrow> probe \<Rightarrow> str \<Rightarrow> str \<Rightarrow> json \<Rightarrow> probe_result" where
  "failed_probe pt p threat_id msg duration =
     make_probe_result pt (pb_id p) threat_id False [] None (Some msg) duration None False"

definition send_probe :: "probe_env \<Rightarrow> network \<Rightarrow> str \<Rightarrow> probe \<Rightarrow> str \<Rightarrow> (str \<times> str) list \<Rightarrow> json \<Rightarrow> mcp_session \<Rightarrow>
    probe_result option \<times> mcp_session" where
  "send_probe env net target_url p threat_id variables duration s =
     (let pt = pe_text env;
          payload = (case to_json_safe (pb_payload p) of JDict d \<Rightarrow> d | _ \<Rightarrow> [])
      in case substitute_probe_payload payload (probe_variables target_url variables) of
           Inl e \<Rightarrow> (Some (failed_probe pt p threat_id (ascii ''Template substitution failed: '' @ pe_template_error env e) (JFloat 0 1)), s)
         | Inr resolved \<Rightarrow>
             (case dispatch pt net (pb_method p) (case resolved of JDict d \<Rightarrow> d | _ \<Rightarrow> []) (override_headers p) s of
                (Inl e, s') \<Rightarrow> (Some (failed_probe pt p threat_id (ascii ''Transport error: '' @ pe_transport_error env e) duration), s')
              | (Inr response, s') \<Rightarrow> (judge_response pt p threat_id response duration, s')))"

definition execute_probe :: "probe_env \<Rightarrow> network \<Rightarrow> str \<Rightarrow> probe \<Rightarrow> str \<Rightarrow> (str \<times> str) list \<Rightarrow> json \<Rightarrow> mcp_session \<Rightarrow>
    probe_result option \<times> mcp_session" where
  "execute_probe env net target_url p threat_id variables duration s =
     (let pt = pe_text env in
      case pb_requires_era p of
        Some wanted \<Rightarrow>
          if era_name (ms_era s) \<noteq> wanted
          then (Some (make_probe_result pt (pb_id p) threat_id False [] None None (JFloat 0 1)
                  (Some (wrong_era_reason pt wanted (ms_era s))) False), s)
          else send_probe env net target_url p threat_id variables duration s
      | None \<Rightarrow> send_probe env net target_url p threat_id variables duration s)"

section \<open>Properties\<close>

lemma to_json_safe_of_json [simp]: "to_json_safe (of_json v) = v"
  by (induction v) (auto simp: map_idI split_beta intro!: map_idI)

text \<open>A response the probe's security logic never produced: a content-layer error that complains about the
  arguments, or a protocol-level rejection that the probe neither asserts on nor expects.\<close>

definition vacuous :: "py_text \<Rightarrow> probe \<Rightarrow> (str \<times> json) list \<Rightarrow> bool" where
  "vacuous pt p r \<longleftrightarrow>
     (case error_content r of None \<Rightarrow> False
      | Some t \<Rightarrow> list_ex (\<lambda>kw. has_sub kw (pt_lower pt t)) schema_mismatch_keywords) \<or>
     (\<not> inspects_error_code p \<and>
      (case get r (ascii ''error'') of
         JDict err \<Rightarrow>
           code_among protocol_validation_codes (get err (ascii ''code'')) \<and>
           \<not> (pb_protocol_error_expected p \<and> code_among request_level_codes (get err (ascii ''code'')))
       | _ \<Rightarrow> False))"

lemma reasons_nonempty:
  "protocol_error_reason pt c m \<noteq> []" "detect_schema_mismatch pt r \<noteq> Some []" "uncorroborated_reason xs \<noteq> []"
  by (auto simp: protocol_error_reason_def detect_schema_mismatch_def uncorroborated_reason_def
      simp del: ascii_simps split: option.splits)

lemma inconclusive_reason_nonempty: "inconclusive_reason pt p r xs \<noteq> Some (Some [])"
  using reasons_nonempty
  by (auto simp: inconclusive_reason_def detect_protocol_error_def Let_def split: option.splits json.splits if_splits)

lemma inconclusive_reason_None:
  assumes "inconclusive_reason pt p r xs = Some None"
  shows "\<not> vacuous pt p r \<and>
    (list_all ar_passed xs \<or> pb_corroboration p = [] \<or>
     (\<exists>cs. evaluate_all pt (pb_corroboration p) r = Some cs \<and> list_all ar_passed cs))"
proof
  have "detect_schema_mismatch pt r = None" "detect_protocol_error pt r p = Some None"
    using assms by (auto simp: inconclusive_reason_def split: option.splits)
  then show "\<not> vacuous pt p r"
    by (auto simp: vacuous_def detect_schema_mismatch_def detect_protocol_error_def Let_def
        split: option.splits json.splits if_splits)
  show "list_all ar_passed xs \<or> pb_corroboration p = [] \<or>
     (\<exists>cs. evaluate_all pt (pb_corroboration p) r = Some cs \<and> list_all ar_passed cs)"
    using assms by (auto simp: inconclusive_reason_def split: option.splits if_splits)
qed

lemma judged:
  assumes "judge_response pt p th response d = Some res"
  obtains xs reason where "evaluate_all pt (pb_assertions p) (with_body response) = Some xs"
    "inconclusive_reason pt p (with_body response) xs = Some reason"
    "res = make_probe_result pt (pb_id p) th (list_all ar_passed xs \<and> reason = None) xs (Some (with_body response)) None d reason False"
  using assms by (auto simp: judge_response_def Let_def split: option.splits)

lemma judged_pass:
  assumes "judge_response pt p th response d = Some res" "pr_passed res"
  shows "\<not> vacuous pt p (with_body response) \<and> list_all ar_passed (pr_assertions res) \<and> pr_error res = None \<and> pr_inconclusive res = None \<and>
    evaluate_all pt (pb_assertions p) (with_body response) = Some (pr_assertions res)"
proof -
  obtain xs reason where j: "evaluate_all pt (pb_assertions p) (with_body response) = Some xs"
    "inconclusive_reason pt p (with_body response) xs = Some reason"
    "res = make_probe_result pt (pb_id p) th (list_all ar_passed xs \<and> reason = None) xs (Some (with_body response)) None d reason False"
    using judged [OF assms(1)] by blast
  then show ?thesis using assms(2) inconclusive_reason_None [of pt p "with_body response" xs] by simp
qed

lemma judged_finding:
  assumes "judge_response pt p th response d = Some res" "is_finding res"
  shows "\<not> vacuous pt p (with_body response) \<and> \<not> list_all ar_passed (pr_assertions res) \<and>
    evaluate_all pt (pb_assertions p) (with_body response) = Some (pr_assertions res) \<and>
    (pb_corroboration p = [] \<or> (\<exists>cs. evaluate_all pt (pb_corroboration p) (with_body response) = Some cs \<and> list_all ar_passed cs))"
proof -
  obtain xs reason where j: "evaluate_all pt (pb_assertions p) (with_body response) = Some xs"
    "inconclusive_reason pt p (with_body response) xs = Some reason"
    "res = make_probe_result pt (pb_id p) th (list_all ar_passed xs \<and> reason = None) xs (Some (with_body response)) None d reason False"
    using judged [OF assms(1)] by blast
  have r: "reason = None"
    using assms(2) j(2,3) inconclusive_reason_nonempty [of pt p "with_body response" xs] by (auto simp: is_finding_def)
  then show ?thesis using assms(2) j inconclusive_reason_None [of pt p "with_body response" xs]
    by (auto simp: is_finding_def)
qed

text \<open>The request of the probe and the answer to it.\<close>

definition answered :: "probe_env \<Rightarrow> network \<Rightarrow> str \<Rightarrow> probe \<Rightarrow> (str \<times> str) list \<Rightarrow> mcp_session \<Rightarrow> (str \<times> json) list \<Rightarrow> bool" where
  "answered env net target_url p variables s response \<longleftrightarrow>
     (\<exists>payload s'. substitute_probe_payload (case to_json_safe (pb_payload p) of JDict d \<Rightarrow> d | _ \<Rightarrow> [])
           (probe_variables target_url variables) = Inr (JDict payload) \<and>
        dispatch (pe_text env) net (pb_method p) payload (override_headers p) s = (Inr response, s'))"

lemma substituted_dict: "substitute_probe_payload d vs = Inr w \<Longrightarrow> \<exists>q. w = JDict q"
  by (auto simp: substitute_probe_payload_def split: sum.splits)

lemma send_probe_answered:
  assumes "send_probe env net url p th vs d s = (Some res, s')" "pr_passed res \<or> is_finding res"
  shows "\<exists>response. answered env net url p vs s response \<and> judge_response (pe_text env) p th response d = Some res"
proof -
  let ?pay = "case to_json_safe (pb_payload p) of JDict d \<Rightarrow> d | _ \<Rightarrow> []"
  have fails: "\<not> (pr_passed x \<or> is_finding x)" if "x = failed_probe (pe_text env) p th (ascii (c # m) @ t) d'" for x c m t d'
    using that by (simp add: failed_probe_def is_finding_def)
  show ?thesis
  proof (cases "substitute_probe_payload ?pay (probe_variables url vs)")
    case (Inl e)
    then have "res = failed_probe (pe_text env) p th (ascii ''Template substitution failed: '' @ pe_template_error env e) (JFloat 0 1)"
      using assms(1) by (simp add: send_probe_def Let_def del: ascii_simps)
    with fails assms(2) show ?thesis by blast
  next
    case (Inr w)
    then obtain q where q: "w = JDict q" using substituted_dict by blast
    obtain x s1 where x: "dispatch (pe_text env) net (pb_method p) q (override_headers p) s = (x, s1)" by fastforce
    show ?thesis
    proof (cases x)
      case (Inl e)
      then have "res = failed_probe (pe_text env) p th (ascii ''Transport error: '' @ pe_transport_error env e) d"
        using assms(1) Inr q x by (simp add: send_probe_def Let_def del: ascii_simps)
      with fails assms(2) show ?thesis by blast
    next
      case r: (Inr response)
      then have "judge_response (pe_text env) p th response d = Some res"
        using assms(1) Inr q x by (simp add: send_probe_def Let_def del: ascii_simps)
      moreover have "answered env net url p vs s response"
        using Inr q x r unfolding answered_def by blast
      ultimately show ?thesis by blast
    qed
  qed
qed

lemma evaluate_all_length: "evaluate_all pt as r = Some xs \<Longrightarrow> length xs = length as"
  by (induction as arbitrary: xs) (auto split: option.splits)

text \<open>C33. No vacuous verdict: a probe passes or is reported as a finding only on the server's own answer to its
  request, and the answer is neither a complaint about the arguments nor an unexpected protocol-level rejection. The
  assertions of the result are those of the probe, each evaluated on that answer; the probe passes exactly when all of
  them hold, and a finding needs every corroborating assertion to hold on the answer too. A probe of the other era never
  gets either verdict.\<close>

theorem verdicts_not_vacuous:
  assumes "execute_probe env net target_url p threat_id variables duration s = (Some res, s')"
    and "pr_passed res \<or> is_finding res"
  shows "\<exists>response. answered env net target_url p variables s response \<and>
           \<not> vacuous (pe_text env) p (with_body response) \<and>
           evaluate_all (pe_text env) (pb_assertions p) (with_body response) = Some (pr_assertions res) \<and>
           length (pr_assertions res) = length (pb_assertions p) \<and>
           (pr_passed res \<longleftrightarrow> list_all ar_passed (pr_assertions res)) \<and>
           (pr_passed res \<or> pb_corroboration p = [] \<or>
            (\<exists>cs. evaluate_all (pe_text env) (pb_corroboration p) (with_body response) = Some cs \<and> list_all ar_passed cs)) \<and>
           pb_requires_era p \<in> {None, Some (era_name (ms_era s))}"
proof -
  have e: "pb_requires_era p \<in> {None, Some (era_name (ms_era s))}"
    and sp: "send_probe env net target_url p threat_id variables duration s = (Some res, s')"
    using assms by (auto simp: execute_probe_def Let_def is_finding_def wrong_era_reason_def
        simp del: ascii_simps split: option.splits if_splits)
  obtain response where r: "answered env net target_url p variables s response"
    "judge_response (pe_text env) p threat_id response duration = Some res"
    using send_probe_answered [OF sp assms(2)] by blast
  from assms(2) show ?thesis
  proof
    assume "pr_passed res"
    then show ?thesis using judged_pass [OF r(2)] evaluate_all_length r(1) e by blast
  next
    assume f: "is_finding res"
    then have "\<not> pr_passed res" by (simp add: is_finding_def)
    then show ?thesis using judged_finding [OF r(2) f] evaluate_all_length r(1) e by blast
  qed
qed

text \<open>A probe of a server that answers every request with an application error.\<close>

definition sample_text :: py_text where
  "sample_text = \<lparr>pt_str = (\<lambda>v. []), pt_repr = (\<lambda>v. []), pt_membership_error = (\<lambda>a v. []), pt_lower = (\<lambda>s. s)\<rparr>"

definition sample_probe_env :: probe_env where
  "sample_probe_env = \<lparr>pe_text = sample_text, pe_template_error = (\<lambda>e. []), pe_transport_error = (\<lambda>e. [])\<rparr>"

definition sample_probe :: probe where
  "sample_probe =
     \<lparr>pb_id = ascii ''p1'', pb_transport = ascii ''http'', pb_method = ascii ''admin/do'', pb_payload = PyProxy [],
      pb_assertions = [\<lparr>at_target = ascii ''response.error'', at_operator = OpEq, at_value = PyAtom (JBool True), at_pattern = None\<rparr>],
      pb_token = None, pb_count = 1, pb_headers = None, pb_corroboration = [],
      pb_protocol_error_expected = False, pb_requires_era = None\<rparr>"

definition refusing_net :: network where
  "refusing_net sent req = NetReply [(ascii ''error'', JDict [(ascii ''code'', JInt (- 32001))])]"

definition ready_session :: mcp_session where
  "ready_session = enter_unverified False (new_session [] [])"

lemma sample_executes:
  "\<exists>res s'. execute_probe sample_probe_env refusing_net [] sample_probe (ascii ''T01-001'') [] JNull ready_session = (Some res, s') \<and> pr_passed res"
  by (simp add: execute_probe_def send_probe_def Let_def sample_probe_def sample_probe_env_def sample_text_def
      ready_session_def enter_unverified_def new_session_def refusing_net_def dispatch_def send_raw_def send_def reply_of_def
      substitute_probe_payload_def override_headers_def judge_response_def evaluate_assertion_def extract_target_def
      response_error_def get_def get_or_def with_body_def assertion_holds_def atom_eq_def num_value_def
      inconclusive_reason_def detect_schema_mismatch_def error_content_def truthy_def detect_protocol_error_def
      inspects_error_code_def hashable_def code_among_def protocol_validation_codes_def num_is_def del: ascii_simps)

theorem verdicts_not_vacuous_witness:
  "\<exists>res s' response. execute_probe sample_probe_env refusing_net [] sample_probe (ascii ''T01-001'') [] JNull ready_session = (Some res, s') \<and>
     pr_passed res \<and> answered sample_probe_env refusing_net [] sample_probe [] ready_session response \<and>
     \<not> vacuous sample_text sample_probe (with_body response) \<and> length (pr_assertions res) = 1 \<and>
     list_all ar_passed (pr_assertions res)"
proof -
  obtain res s' where r: "execute_probe sample_probe_env refusing_net [] sample_probe (ascii ''T01-001'') [] JNull ready_session = (Some res, s')"
    "pr_passed res"
    using sample_executes by blast
  have "length (pb_assertions sample_probe) = 1" by (simp add: sample_probe_def)
  with verdicts_not_vacuous [OF r(1) disjI1 [OF r(2)]] r show ?thesis by (auto simp: sample_probe_env_def)
qed

end
