(* ===== verification/Discovery.thy ===== *)
theory Discovery
  imports Probe_Result Mcp_Session
begin

text \<open>
  \<open>discovery.py\<close> and \<open>synthesis.py\<close>: reading the tool schemas of a live server within fixed bounds, finding
  out its protocol era, and building a probe payload that fits a discovered tool. Opening a transport is the
  argument \<open>connects\<close>; a deadline that passes is the argument \<open>in_time\<close>. An exception is \<open>None\<close>.
\<close>

section \<open>Tools\<close>

definition schema_size_limit :: nat where "schema_size_limit = 65536"
definition max_properties :: nat where "max_properties = 64"
definition max_description :: nat where "max_description = 4096"
definition max_tools :: nat where "max_tools = 256"

record discovered_tool =
  dt_name :: str
  dt_description :: str
  dt_input_schema :: "(str \<times> json) list"
  dt_string_params :: "str list"
  dt_numeric_params :: "str list"
  dt_boolean_params :: "str list"
  dt_required_params :: "str list"

definition alnum :: "nat \<Rightarrow> bool" where
  "alnum c \<longleftrightarrow> 65 \<le> c \<and> c \<le> 90 \<or> 97 \<le> c \<and> c \<le> 122 \<or> 48 \<le> c \<and> c \<le> 57"

definition safe_name :: "str \<Rightarrow> bool" where
  "safe_name s \<longleftrightarrow> s \<noteq> [] \<and> length s \<le> 256 \<and> alnum (hd s) \<and> list_all (\<lambda>c. alnum c \<or> c = 95 \<or> c = 45) (tl s)"

text \<open>The pattern is anchored with \<open>$\<close>, which also matches before a final newline.\<close>

definition validate_tool_name :: "str \<Rightarrow> bool" where
  "validate_tool_name s \<longleftrightarrow> list_ex safe_name (strip_final_newline s)"

definition has_type :: "string list \<Rightarrow> json \<Rightarrow> bool" where
  "has_type types v =
     (case v of
        JDict d \<Rightarrow> (case get_or d (ascii ''type'') (JStr []) of JStr t \<Rightarrow> t \<in> ascii ` set types | _ \<Rightarrow> False)
      | _ \<Rightarrow> False)"

definition names_of_type :: "string list \<Rightarrow> (str \<times> json) list \<Rightarrow> str list" where
  "names_of_type types props = map fst (filter (\<lambda>p. has_type types (snd p)) props)"

definition parse_input_schema :: "(str \<times> json) list \<Rightarrow> str list \<times> str list \<times> str list \<times> str list" where
  "parse_input_schema schema =
     (case get_or schema (ascii ''properties'') (JDict []) of
        JDict properties \<Rightarrow>
          (let props = take max_properties properties;
               required = (case get_or schema (ascii ''required'') (JList []) of
                   JList rs \<Rightarrow> remdups (concat (map (\<lambda>r. case r of JStr s \<Rightarrow> [s] | _ \<Rightarrow> []) rs)) | _ \<Rightarrow> [])
           in (names_of_type [''string''] props, names_of_type [''integer'', ''number''] props,
               names_of_type [''boolean''] props, required))
      | _ \<Rightarrow> ([], [], [], []))"

definition tool_dict_to_discovered :: "py_text \<Rightarrow> json \<Rightarrow> discovered_tool option" where
  "tool_dict_to_discovered pt entry =
     (case entry of
        JDict d \<Rightarrow>
          (case get_or d (ascii ''name'') (JStr []) of
             JStr nm \<Rightarrow>
               (let desc = get d (ascii ''description'');
                    schema = (case get d (ascii ''inputSchema'') of JDict s \<Rightarrow> s | _ \<Rightarrow> [])
                in if nm = [] \<or> \<not> validate_tool_name nm then None
                   else if length (dumps [44, 32] [58, 32] (JDict schema)) > schema_size_limit then None
                   else case parse_input_schema schema of (strings, numerics, booleans, required) \<Rightarrow>
                     Some \<lparr>dt_name = nm,
                       dt_description = (if truthy desc then take max_description (to_str pt (of_json desc)) else []),
                       dt_input_schema = schema, dt_string_params = strings, dt_numeric_params = numerics,
                       dt_boolean_params = booleans, dt_required_params = required\<rparr>)
           | _ \<Rightarrow> None)
      | _ \<Rightarrow> None)"

text \<open>The entries of a manifest, capped. A manifest that is no list is iterated as Python would.\<close>

definition manifest_entries :: "json \<Rightarrow> json list option" where
  "manifest_entries m =
     (if \<not> truthy m then Some []
      else case m of
        JList xs \<Rightarrow> Some (take max_tools xs)
      | JStr s \<Rightarrow> Some (map (\<lambda>c. JStr [c]) (take max_tools s))
      | JDict ps \<Rightarrow> if length ps > max_tools then None else Some (map (JStr \<circ> fst) ps)
      | _ \<Rightarrow> None)"

definition usable_tools :: "py_text \<Rightarrow> json list \<Rightarrow> discovered_tool list" where
  "usable_tools pt es = concat (map (\<lambda>e. case tool_dict_to_discovered pt e of None \<Rightarrow> [] | Some t \<Rightarrow> [t]) es)"

definition discover_tools_raw :: "py_text \<Rightarrow> network \<Rightarrow> bool \<Rightarrow> bool \<Rightarrow> requested_era \<Rightarrow> mcp_session \<Rightarrow> discovered_tool list option" where
  "discover_tools_raw pt net connects sse_connects requested s =
     (if \<not> connects then None
      else case fst (start_session net sse_connects requested s) of
        Inl e \<Rightarrow> None
      | Inr info \<Rightarrow>
          map_option (usable_tools pt) (manifest_entries (si_tool_manifest info)))"

definition discover_tools :: "py_text \<Rightarrow> network \<Rightarrow> bool \<Rightarrow> bool \<Rightarrow> bool \<Rightarrow> requested_era \<Rightarrow> mcp_session \<Rightarrow> discovered_tool list" where
  "discover_tools pt net connects sse_connects in_time requested s =
     (if \<not> in_time then []
      else case discover_tools_raw pt net connects sse_connects requested s of None \<Rightarrow> [] | Some ts \<Rightarrow> ts)"

definition discover_tools_checked :: "py_text \<Rightarrow> network \<Rightarrow> bool \<Rightarrow> bool \<Rightarrow> bool \<Rightarrow> requested_era \<Rightarrow> mcp_session \<Rightarrow>
    discovered_tool list option" where
  "discover_tools_checked pt net connects sse_connects in_time requested s =
     (if \<not> in_time then None else discover_tools_raw pt net connects sse_connects requested s)"

text \<open>The pinned era: legacy only on positive evidence, that the server does not know the discovery method or
  that the legacy handshake succeeds over a second connection.\<close>

definition detect_protocol_era :: "network \<Rightarrow> bool \<Rightarrow> network \<Rightarrow> bool \<Rightarrow> bool \<Rightarrow> bool \<Rightarrow> mcp_session \<Rightarrow> era option" where
  "detect_protocol_era net connects legacy_net legacy_connects sse_connects in_time s =
     (if \<not> in_time \<or> \<not> connects then None
      else case detect_era net s of
        (None, s') \<Rightarrow> None
      | (Some detection, s') \<Rightarrow>
          if detection = EraModern then Some ModernEra
          else if detection \<noteq> EraLegacy then None
          else if num_is (ms_error_code s') (- 32601) then Some LegacyEra
          else if \<not> legacy_connects then None
          else case fst (start_session legacy_net sse_connects OnlyLegacy s) of Inr info \<Rightarrow> Some LegacyEra | Inl e \<Rightarrow> None)"

section \<open>Synthesis\<close>

definition template_escape :: str where "template_escape = ascii ''{{''"

definition injection_value :: str where "injection_value = ascii ''; cat /etc/passwd''"
definition traversal_value :: str where "traversal_value = ascii ''../../etc/passwd''"
definition oversize_value :: str where "oversize_value = replicate 100000 65"

definition path_hints :: "str list" where
  "path_hints = map ascii [''path'', ''file'', ''dir'', ''url'', ''location'', ''dest'', ''src'']"

definition safe_minimal_value :: "str \<Rightarrow> discovered_tool \<Rightarrow> json" where
  "safe_minimal_value param tool =
     (if param \<in> set (dt_string_params tool) then JStr []
      else if param \<in> set (dt_numeric_params tool) then JInt 0
      else if param \<in> set (dt_boolean_params tool) then JBool False else JStr [])"

definition pick_traversal_param :: "(str \<Rightarrow> str) \<Rightarrow> discovered_tool \<Rightarrow> str option" where
  "pick_traversal_param lower tool =
     (case find (\<lambda>p. list_ex (\<lambda>h. has_sub h (lower p)) path_hints) (dt_string_params tool) of
        Some p \<Rightarrow> Some p
      | None \<Rightarrow> (case dt_string_params tool of [] \<Rightarrow> None | p # ps \<Rightarrow> Some p))"

fun first_text :: "(str \<times> json) list \<Rightarrow> str option" where
  "first_text [] = None"
| "first_text ((k, v) # ps) =
     (case v of JStr s \<Rightarrow> if s \<noteq> [] \<and> \<not> has_sub template_escape s then Some s else first_text ps | _ \<Rightarrow> first_text ps)"

definition catalog_adversarial_value :: "(str \<times> json) list \<Rightarrow> str option" where
  "catalog_adversarial_value payload =
     (case get_or payload (ascii ''arguments'') (JDict []) of JDict args \<Rightarrow> first_text args | _ \<Rightarrow> None)"

definition template_escape_free :: "(str \<times> json) list \<Rightarrow> bool" where
  "template_escape_free args = list_all (\<lambda>(k, v). case v of JStr s \<Rightarrow> \<not> has_sub template_escape s | _ \<Rightarrow> True) args"

fun fill_params :: "discovered_tool \<Rightarrow> str option \<Rightarrow> str list \<Rightarrow> (str \<times> json) list \<Rightarrow> (str \<times> json) list" where
  "fill_params tool skip [] args = args"
| "fill_params tool skip (p # ps) args =
     fill_params tool skip ps
       (if skip \<noteq> Some p \<and> p \<notin> fst ` set args then args @ [(p, safe_minimal_value p tool)] else args)"

definition fill_required_params :: "discovered_tool \<Rightarrow> str option \<Rightarrow> (str \<times> json) list \<Rightarrow> (str \<times> json) list" where
  "fill_required_params tool skip args = fill_params tool skip (dt_required_params tool) args"

datatype threat_pattern = PatInjection | PatTraversal | PatOversize | PatReplay | PatUnknownTool

definition call_payload :: "str \<Rightarrow> (str \<times> json) list \<Rightarrow> (str \<times> json) list" where
  "call_payload nm args = [(ascii ''name'', JStr nm), (ascii ''arguments'', JDict args)]"

text \<open>The single injected argument and the required ones; \<open>None\<close> is the \<open>ValueError\<close> of a template marker.\<close>

definition inject_value :: "discovered_tool \<Rightarrow> str \<Rightarrow> str \<Rightarrow> (str \<times> json) list option" where
  "inject_value tool param adv =
     (if has_sub template_escape adv then None
      else let args = fill_required_params tool (Some param) [(param, JStr adv)]
           in if template_escape_free args then Some (call_payload (dt_name tool) args) else None)"

definition synthesize_probe_payload :: "(str \<Rightarrow> str) \<Rightarrow> discovered_tool \<Rightarrow> threat_pattern \<Rightarrow> (str \<times> json) list \<Rightarrow>
    (str \<times> json) list option" where
  "synthesize_probe_payload lower tool pattern payload =
     (case pattern of
        PatReplay \<Rightarrow> Some payload
      | PatUnknownTool \<Rightarrow> Some (call_payload (ascii ''cosai_probe_nonexistent_tool'') [])
      | PatOversize \<Rightarrow>
          if dt_string_params tool = [] then Some payload
          else let args = fill_required_params tool None (map (\<lambda>p. (p, JStr oversize_value)) (dt_string_params tool))
               in if template_escape_free args then Some (call_payload (dt_name tool) args) else None
      | PatTraversal \<Rightarrow>
          (case pick_traversal_param lower tool of
             None \<Rightarrow> Some payload
           | Some p \<Rightarrow> inject_value tool p traversal_value)
      | PatInjection \<Rightarrow>
          (case dt_string_params tool of
             [] \<Rightarrow> Some payload
           | p # ps \<Rightarrow>
               inject_value tool p
                 (case catalog_adversarial_value payload of None \<Rightarrow> injection_value | Some v \<Rightarrow> v)))"

definition threat_pattern_from_category :: "(str \<Rightarrow> str) \<Rightarrow> str \<Rightarrow> threat_pattern" where
  "threat_pattern_from_category to_upper category =
     (let cat = dropWhile (\<lambda>c. c = 84) (to_upper category) in
      if cat = ascii ''8'' then PatTraversal else if cat = ascii ''10'' then PatOversize
      else if cat = ascii ''11'' then PatUnknownTool else PatInjection)"

section \<open>Facts\<close>

lemma names_of_type_bound: "length (names_of_type ts props) \<le> length props"
  by (simp add: names_of_type_def)

text \<open>Each property is counted under one type only.\<close>

lemma has_type_unique: "has_type a v \<Longrightarrow> has_type b v \<Longrightarrow> \<exists>t. t \<in> set a \<and> t \<in> set b"
  by (auto simp: has_type_def simp del: ascii_simps split: json.splits)

lemma names_of_types_bound:
  assumes "set a \<inter> set b = {}" "set a \<inter> set c = {}" "set b \<inter> set c = {}"
  shows "length (names_of_type a props) + length (names_of_type b props) + length (names_of_type c props) \<le> length props"
proof (induction props)
  case (Cons x props)
  have "\<not> (has_type a (snd x) \<and> has_type b (snd x))" "\<not> (has_type a (snd x) \<and> has_type c (snd x))"
    "\<not> (has_type b (snd x) \<and> has_type c (snd x))"
    using has_type_unique [of _ "snd x"] assms by blast+
  then show ?case using Cons by (auto simp: names_of_type_def)
qed (simp add: names_of_type_def)

definition within_bounds :: "discovered_tool \<Rightarrow> bool" where
  "within_bounds t \<longleftrightarrow>
     length (dt_string_params t) + length (dt_numeric_params t) + length (dt_boolean_params t) \<le> max_properties \<and>
     length (dt_description t) \<le> max_description \<and> length (dt_name t) \<le> 257 \<and> \<not> has_sub template_escape (dt_name t) \<and>
     length (dumps [44, 32] [58, 32] (JDict (dt_input_schema t))) \<le> schema_size_limit"

lemma valid_name_bounds:
  assumes "validate_tool_name s"
  shows "length s \<le> 257" "\<not> has_sub template_escape s"
proof -
  obtain t where t: "safe_name t" "s = t \<or> s = t @ [10]"
    using assms by (auto simp: validate_tool_name_def strip_final_newline_def split: if_splits) (metis append_butlast_last_id)
  show "length s \<le> 257" using t by (auto simp: safe_name_def)
  have "list_all (\<lambda>c. alnum c \<or> c = 95 \<or> c = 45) t"
    using t(1) by (cases t) (auto simp: safe_name_def)
  then have "123 \<notin> set t" by (auto simp: list_all_iff alnum_def)
  then have "123 \<notin> set s" using t(2) by auto
  moreover have "123 \<in> set template_escape" by (simp add: template_escape_def)
  ultimately show "\<not> has_sub template_escape s" by (auto simp: has_sub_iff)
qed

lemma discovered_within_bounds: "tool_dict_to_discovered pt e = Some t \<Longrightarrow> within_bounds t"
proof -
  assume t: "tool_dict_to_discovered pt e = Some t"
  obtain d nm schema where d: "validate_tool_name nm" "dt_name t = nm" "dt_input_schema t = schema"
      "length (dumps [44, 32] [58, 32] (JDict schema)) \<le> schema_size_limit" "length (dt_description t) \<le> max_description"
      "parse_input_schema schema = (dt_string_params t, dt_numeric_params t, dt_boolean_params t, dt_required_params t)"
    using t by (auto simp: tool_dict_to_discovered_def Let_def simp del: dumps.simps split: json.splits if_splits prod.splits)
  have "length (dt_string_params t) + length (dt_numeric_params t) + length (dt_boolean_params t) \<le> max_properties"
  proof (cases "get_or schema (ascii ''properties'') (JDict [])")
    case (JDict ps)
    have "length (names_of_type [''string''] (take max_properties ps)) +
        length (names_of_type [''integer'', ''number''] (take max_properties ps)) +
        length (names_of_type [''boolean''] (take max_properties ps)) \<le> length (take max_properties ps)"
      by (rule names_of_types_bound) auto
    then show ?thesis using d(6) JDict by (auto simp: parse_input_schema_def Let_def)
  qed (use d(6) in \<open>auto simp: parse_input_schema_def\<close>)
  then show ?thesis using d valid_name_bounds [OF d(1)] by (simp add: within_bounds_def del: dumps.simps)
qed

lemma discovery_bounded:
  assumes "discover_tools_raw pt net c sc requested s = Some ts"
  shows "length ts \<le> max_tools \<and> list_all within_bounds ts"
proof -
  obtain info where i: "fst (start_session net sc requested s) = Inr info"
    using assms by (cases "fst (start_session net sc requested s)") (auto simp: discover_tools_raw_def split: if_splits)
  obtain es where e: "manifest_entries (si_tool_manifest info) = Some es"
    using assms i by (cases "manifest_entries (si_tool_manifest info)") (auto simp: discover_tools_raw_def split: if_splits)
  have ts: "ts = usable_tools pt es"
    using assms i e by (auto simp: discover_tools_raw_def split: if_splits)
  have "length es \<le> max_tools" using e by (auto simp: manifest_entries_def split: if_splits json.splits)
  moreover have "length ts \<le> length es" unfolding ts usable_tools_def by (induction es) (auto split: option.splits)
  moreover have "list_all within_bounds ts"
    unfolding ts usable_tools_def list_all_iff using discovered_within_bounds by (auto split: option.splits)
  ultimately show ?thesis by simp
qed

text \<open>A synthesized payload holds no template marker in its arguments.\<close>

lemma inject_value_safe:
  "inject_value tool p adv = Some payload \<Longrightarrow> \<exists>args. payload = call_payload (dt_name tool) args \<and> template_escape_free args"
  by (auto simp: inject_value_def Let_def split: if_splits)

end
