(* ===== verification/Probe_Runner.thy ===== *)
theory Probe_Runner
  imports Probe_Context Discovery Catalog_Loader
begin

text \<open>
  \<open>harness/runner.py\<close>: the probe and its threat as plain dictionaries for the subprocess, the subprocess
  with its handling of a refused handshake, and the parent with its adaptive retry. The queue between the
  processes is the argument \<open>spawn\<close>: what the parent reads for the dictionaries it sent. Exceptions carry
  their text; a status code is a number or absent.
\<close>

section \<open>Probes as dictionaries\<close>

definition assertion_to_dict :: "assertion \<Rightarrow> (str \<times> json) list" where
  "assertion_to_dict a =
     [(ascii ''target'', JStr (at_target a)), (ascii ''operator'', JStr (operator_name (at_operator a))),
      (ascii ''value'', to_json_safe (at_value a))]"

text \<open>Fields with their default value are left out.\<close>

definition probe_to_dict :: "probe \<Rightarrow> (str \<times> json) list" where
  "probe_to_dict p =
     [(ascii ''id'', JStr (pb_id p)), (ascii ''transport'', JStr (pb_transport p)), (ascii ''method'', JStr (pb_method p)),
      (ascii ''payload'', to_json_safe (pb_payload p)),
      (ascii ''assertions'', JList (map (JDict \<circ> assertion_to_dict) (pb_assertions p)))] @
     (case pb_token p of None \<Rightarrow> [] | Some t \<Rightarrow> [(ascii ''probe_token'', JStr t)]) @
     (if pb_count p = 1 then [] else [(ascii ''probe_count'', JInt (pb_count p))]) @
     (case pb_headers p of None \<Rightarrow> [] | Some h \<Rightarrow> [(ascii ''probe_headers'', to_json_safe h)]) @
     (if pb_corroboration p = [] then []
      else [(ascii ''corroboration'', JList (map (JDict \<circ> assertion_to_dict) (pb_corroboration p)))]) @
     (if pb_protocol_error_expected p then [(ascii ''protocol_error_is_expected'', JBool True)] else []) @
     (case pb_requires_era p of None \<Rightarrow> [] | Some e \<Rightarrow> [(ascii ''requires_protocol_era'', JStr e)])"

definition threat_to_dict :: "threat \<Rightarrow> (str \<times> json) list" where
  "threat_to_dict t =
     [(ascii ''id'', JStr (th_id t)), (ascii ''category'', JStr (th_category t)),
      (ascii ''severity'', JStr (severity_name (th_severity t))),
      (ascii ''provenance'', JStr (case th_provenance t of Official \<Rightarrow> ascii ''official'' | Custom \<Rightarrow> ascii ''custom''))]"

text \<open>The assertion the subprocess rebuilds; no pattern is compiled again.\<close>

definition assertion_from_dict :: "json \<Rightarrow> catalog_error + assertion" where
  "assertion_from_dict raw =
     bindr (as_dict raw) (\<lambda>d.
     bindr (str_field d ''target'') (\<lambda>t.
     bindr (bindr (field d ''operator'') (as_enum operator_name all_operators)) (\<lambda>op.
     bindr (field d ''value'') (\<lambda>v.
       Inr \<lparr>at_target = t, at_operator = op, at_value = assertion_value v, at_pattern = None\<rparr>))))"

definition threat_from_dict :: "(str \<times> json) list \<Rightarrow> catalog_error + threat" where
  "threat_from_dict d =
     bindr (str_field d ''id'') (\<lambda>i.
     bindr (str_field d ''category'') (\<lambda>category.
     bindr (bindr (field d ''severity'') (as_enum severity_name all_severities)) (\<lambda>sev.
     bindr (as_enum (\<lambda>v. case v of Official \<Rightarrow> ascii ''official'' | Custom \<Rightarrow> ascii ''custom'') [Official, Custom]
              (get_or d (ascii ''provenance'') (JStr (ascii ''official'')))) (\<lambda>prov.
       Inr \<lparr>th_schema_version = ascii ''1.0'', th_id = i, th_category = category, th_severity = sev, th_cosai_ref = [],
            th_owasp_ref = [], th_cwe = [], th_probes = [], th_remediation = [], th_references = [],
            th_provenance = prov, th_mode = ascii ''read-only'', th_confidence = ConfMedium, th_mcp_t_ref = [],
            th_threat_refs = []\<rparr>))))"

definition proxy_of :: "json \<Rightarrow> pyval" where
  "proxy_of v = (case of_json v of PyDict ps \<Rightarrow> PyProxy ps | w \<Rightarrow> w)"

definition probe_from_dict :: "(str \<times> json) list \<Rightarrow> catalog_error + probe" where
  "probe_from_dict d =
     bindr (bindr (bindr (field d ''assertions'') as_list) (each assertion_from_dict)) (\<lambda>assertions.
     bindr (let raw = get d (ascii ''corroboration'')
            in if truthy raw then bindr (as_list raw) (each assertion_from_dict) else Inr []) (\<lambda>corroboration.
     bindr (str_field d ''id'') (\<lambda>i.
     bindr (str_field d ''transport'') (\<lambda>transport.
     bindr (str_field d ''method'') (\<lambda>mthd.
     bindr (field d ''payload'') (\<lambda>payload.
     bindr (optional_text d ''probe_token'') (\<lambda>token.
     bindr (as_int (get_or d (ascii ''probe_count'') (JInt 1))) (\<lambda>count.
     bindr (optional_text d ''requires_protocol_era'') (\<lambda>e.
       Inr \<lparr>pb_id = i, pb_transport = transport, pb_method = mthd, pb_payload = proxy_of payload,
            pb_assertions = assertions, pb_token = token, pb_count = count,
            pb_headers = (let h = get d (ascii ''probe_headers'') in if truthy h then Some (proxy_of h) else None),
            pb_corroboration = corroboration,
            pb_protocol_error_expected = truthy (get_or d (ascii ''protocol_error_is_expected'') (JBool False)),
            pb_requires_era = e\<rparr>)))))))))"

section \<open>The subprocess\<close>

datatype token_choice = ConfiguredToken | ReadToken | ForeignToken

record scan_config =
  sc_read_token :: "str option"
  sc_foreign_token :: "str option"
  sc_era :: requested_era
  sc_timeout :: rat

record runner_env =
  re_probe :: probe_env
  re_net :: "token_choice \<Rightarrow> network"
  re_connects :: "str \<Rightarrow> bool"
  re_sse_connects :: bool
  re_url :: str
  re_new_session :: mcp_session
  re_start_text :: "fail_reason \<Rightarrow> str"
  re_other_text :: str
  re_duration :: "mcp_session \<Rightarrow> json"

definition auth_reject_keywords :: "str list" where
  "auth_reject_keywords = map ascii [''invalid_token'', ''authentication required'', ''401'', ''403'', ''unauthorized'']"

definition is_auth_rejection :: "runner_env \<Rightarrow> fail_reason \<Rightarrow> bool" where
  "is_auth_rejection env e =
     list_ex (\<lambda>kw. has_sub kw (pt_lower (pe_text (re_probe env)) (re_start_text env e))) auth_reject_keywords"

definition inconclusive_result :: "runner_env \<Rightarrow> probe \<Rightarrow> str \<Rightarrow> str \<Rightarrow> probe_result" where
  "inconclusive_result env p th reason =
     make_probe_result (pe_text (re_probe env)) (pb_id p) th False [] None None (JFloat 0 1) (Some reason) False"

text \<open>Which token the probe runs with; a token that is not configured makes it inconclusive.\<close>

definition has_token :: "str option \<Rightarrow> bool" where
  "has_token t = (case t of None \<Rightarrow> False | Some s \<Rightarrow> s \<noteq> [])"

definition choose_token :: "scan_config \<Rightarrow> probe \<Rightarrow> str + token_choice" where
  "choose_token cfg p =
     (if pb_token p = Some (ascii ''read'') then
        if has_token (sc_read_token cfg) then Inr ReadToken
        else Inl (ascii ''probe_token='' @ quoted_name (ascii ''read'') @ ascii '' requires --read-token to be configured; skipping scope-enforcement probe'')
      else if pb_token p = Some (ascii ''foreign_audience'') then
        if has_token (sc_foreign_token cfg) then Inr ForeignToken
        else Inl (ascii ''probe_token='' @ quoted_name (ascii ''foreign_audience'') @ ascii '' requires --foreign-audience-token (a valid token issued for a different resource); skipping audience-restriction probe'')
      else Inr ConfiguredToken)"

text \<open>One probe over the current session: the exception, if there is one, is the fixed text.\<close>

definition execute_once :: "runner_env \<Rightarrow> network \<Rightarrow> probe \<Rightarrow> str \<Rightarrow> (str \<times> str) list \<Rightarrow> mcp_session \<Rightarrow> probe_result option \<times> mcp_session" where
  "execute_once env net p th vars s = execute_probe (re_probe env) net (re_url env) p th vars (re_duration env s) s"

fun repeat_probe :: "runner_env \<Rightarrow> network \<Rightarrow> probe \<Rightarrow> str \<Rightarrow> (str \<times> str) list \<Rightarrow> nat \<Rightarrow> probe_result option \<Rightarrow> mcp_session \<Rightarrow>
    probe_result option" where
  "repeat_probe env net p th vars 0 res s = res"
| "repeat_probe env net p th vars (Suc n) res s =
     (case execute_once env net p th vars s of
        (None, s') \<Rightarrow> None
      | (Some r, s') \<Rightarrow> if pr_passed r then Some r else repeat_probe env net p th vars n (Some r) s')"

definition run_started :: "runner_env \<Rightarrow> network \<Rightarrow> probe \<Rightarrow> str \<Rightarrow> (str \<times> str) list \<Rightarrow> mcp_session \<Rightarrow> probe_result option" where
  "run_started env net p th vars s =
     (if pb_count p > 1 then repeat_probe env net p th vars (nat (pb_count p)) None s
      else fst (execute_once env net p th vars s))"

text \<open>The probe's own request, unauthenticated, in every framing that applies to it.\<close>

definition framings_of :: "probe \<Rightarrow> bool list" where
  "framings_of p =
     (if pb_requires_era p = Some (ascii ''modern'') then [True]
      else if pb_requires_era p = Some (ascii ''legacy'') then [False] else [True, False])"

fun verify_framings :: "runner_env \<Rightarrow> network \<Rightarrow> probe \<Rightarrow> str \<Rightarrow> (str \<times> str) list \<Rightarrow> bool list \<Rightarrow> mcp_session \<Rightarrow> probe_result option list" where
  "verify_framings env net p th vars [] s = []"
| "verify_framings env net p th vars (f # fs) s =
     (case execute_once env net p th vars (enter_unverified f s) of
        (r, s') \<Rightarrow> r # verify_framings env net p th vars fs s')"

definition status_of :: "probe_result option \<Rightarrow> rat option" where
  "status_of r = (case r of None \<Rightarrow> None | Some x \<Rightarrow> num_value (pr_status_code x))"

definition served :: "probe_result option \<Rightarrow> bool" where
  "served r = (case status_of r of None \<Rightarrow> False | Some q \<Rightarrow> q < 400)"

definition refused :: "probe_result option \<Rightarrow> bool" where
  "refused r = (status_of r \<in> {Some 401, Some 403})"

datatype framing_verdict = Decided probe_result | Unverifiable | AllRefused

definition judge_framings :: "probe_result option list \<Rightarrow> framing_verdict" where
  "judge_framings os =
     (case find (\<lambda>r. served r \<and> \<not> pr_passed (the r)) os of
        Some r \<Rightarrow> Decided (the r)
      | None \<Rightarrow>
          if list_ex (\<lambda>r. status_of r = None) os then Unverifiable
          else (case find served os of
                  Some r \<Rightarrow> Decided (the r)
                | None \<Rightarrow> if list_ex refused os then AllRefused else Unverifiable))"

definition rejected_assertion :: assertion_result where
  "rejected_assertion =
     \<lparr>ar_target = ascii ''response.error'', ar_operator = ascii ''eq'', ar_expected = ascii ''True'', ar_actual = ascii ''True'',
      ar_passed = True, ar_message = ascii ''Server correctly rejected unauthenticated initialize''\<rparr>"

definition auth_enforced :: "runner_env \<Rightarrow> probe \<Rightarrow> str \<Rightarrow> probe_result" where
  "auth_enforced env p th =
     make_probe_result (pe_text (re_probe env)) (pb_id p) th True [rejected_assertion] None None (JFloat 0 1) None False"

definition legacy_only :: "scan_config \<Rightarrow> probe \<Rightarrow> mcp_session \<Rightarrow> bool" where
  "legacy_only cfg p s \<longleftrightarrow>
     pb_requires_era p = Some (ascii ''modern'') \<and> ms_detection s = Some EraLegacy \<and>
     num_is (ms_error_code s) (- 32601) \<and> sc_era cfg \<noteq> OnlyModern"

definition must_verify :: "runner_env \<Rightarrow> probe \<Rightarrow> fail_reason \<Rightarrow> mcp_session \<Rightarrow> bool" where
  "must_verify env p e s \<longleftrightarrow>
     is_auth_rejection env e \<and> ms_auth_rejected s \<or>
     pb_requires_era p = Some (ascii ''modern'') \<and> ms_detection s \<noteq> None"

text \<open>The handshake failed with \<open>SessionIncompleteError\<close>: \<open>Inl\<close> raises it again.\<close>

definition pass_or_raise :: "runner_env \<Rightarrow> probe \<Rightarrow> str \<Rightarrow> bool \<Rightarrow> fail_reason \<Rightarrow> str + probe_result" where
  "pass_or_raise env p th pass_on_auth_reject e =
     (if pass_on_auth_reject \<and> is_auth_rejection env e then Inr (auth_enforced env p th) else Inl (re_start_text env e))"

definition handshake_failed :: "runner_env \<Rightarrow> scan_config \<Rightarrow> network \<Rightarrow> probe \<Rightarrow> str \<Rightarrow> (str \<times> str) list \<Rightarrow> bool \<Rightarrow> fail_reason \<Rightarrow>
    mcp_session \<Rightarrow> str + probe_result" where
  "handshake_failed env cfg net p th vars pass_on_auth_reject e s =
     (if legacy_only cfg p s then
        Inr (inconclusive_result env p th (ascii ''Probe targets the '' @ quoted_name (ascii ''modern'') @
          ascii '' MCP protocol era but the target identified as legacy '' @ em_dash @ [32] @ era_not_applicable @
          ascii ''. This test is INCONCLUSIVE.''))
      else if pass_on_auth_reject \<and> must_verify env p e s then
        (case judge_framings (verify_framings env net p th vars (framings_of p) s) of
           Decided r \<Rightarrow> Inr r
         | Unverifiable \<Rightarrow> Inl (re_start_text env e)
         | AllRefused \<Rightarrow> pass_or_raise env p th pass_on_auth_reject e)
      else pass_or_raise env p th pass_on_auth_reject e)"

definition run_in_session :: "runner_env \<Rightarrow> scan_config \<Rightarrow> network \<Rightarrow> probe \<Rightarrow> str \<Rightarrow> (str \<times> str) list \<Rightarrow> bool \<Rightarrow> str + probe_result" where
  "run_in_session env cfg net p th vars pass_on_auth_reject =
     (case start_session net (re_sse_connects env) (sc_era cfg) (re_new_session env) of
        (Inl (SessionIncomplete e), s) \<Rightarrow> handshake_failed env cfg net p th vars pass_on_auth_reject e s
      | (Inl Raised, s) \<Rightarrow> Inl (re_other_text env)
      | (Inr info, s) \<Rightarrow> (case run_started env net p th vars s of None \<Rightarrow> Inl (re_other_text env) | Some r \<Rightarrow> Inr r))"

definition probe_subprocess :: "runner_env \<Rightarrow> scan_config \<Rightarrow> (str \<times> json) list \<Rightarrow> (str \<times> json) list \<Rightarrow> (str \<times> str) list \<Rightarrow> bool \<Rightarrow>
    str + probe_result" where
  "probe_subprocess env cfg probe_dict threat_dict vars pass_on_auth_reject =
     (case (probe_from_dict probe_dict, map_sum id th_id (threat_from_dict threat_dict)) of
        (Inr p, Inr th) \<Rightarrow>
          (case choose_token cfg p of
             Inl reason \<Rightarrow> Inr (inconclusive_result env p th reason)
           | Inr token \<Rightarrow>
               if pb_transport p \<notin> {ascii ''http'', ascii ''stdio''} \<or> \<not> re_connects env (pb_transport p)
               then Inl (re_other_text env)
               else run_in_session env cfg (re_net env token) p th vars pass_on_auth_reject)
      | _ \<Rightarrow> Inl (re_other_text env))"

text \<open>What the subprocess puts into the queue: it never raises.\<close>

definition subprocess_entry :: "runner_env \<Rightarrow> scan_config \<Rightarrow> (str \<times> json) list \<Rightarrow> (str \<times> json) list \<Rightarrow> (str \<times> str) list \<Rightarrow> bool \<Rightarrow>
    (str \<times> json) list" where
  "subprocess_entry env cfg probe_dict threat_dict vars pass_on_auth_reject =
     (case probe_subprocess env cfg probe_dict threat_dict vars pass_on_auth_reject of
        Inr r \<Rightarrow> probe_result_to_dict r
      | Inl e \<Rightarrow>
          [(ascii ''probe_id'', get_or probe_dict (ascii ''id'') (JStr [])),
           (ascii ''threat_id'', get_or threat_dict (ascii ''id'') (JStr [])),
           (ascii ''passed'', JBool False), (ascii ''status_code'', JNull), (ascii ''response_body'', JStr []),
           (ascii ''error'', JStr (ascii ''Subprocess error: '' @ e)), (ascii ''assertions'', JList []),
           (ascii ''duration_seconds'', JFloat 0 1)])"

section \<open>The parent\<close>

text \<open>What the parent gets from the queue before the deadline, and the time that took.\<close>

datatype queue_item = NoItem | Item json

record queue_read =
  qr_item :: queue_item
  qr_elapsed :: json

definition required_result_keys :: "str list" where
  "required_result_keys = map ascii [''assertions'', ''duration_seconds'', ''passed'', ''probe_id'', ''threat_id'']"

definition type_name :: "json \<Rightarrow> str" where
  "type_name v = ascii (case v of JNull \<Rightarrow> ''NoneType'' | JBool b \<Rightarrow> ''bool'' | JInt i \<Rightarrow> ''int'' | JFloat m k \<Rightarrow> ''float''
     | JNonFinite x \<Rightarrow> ''float'' | JStr s \<Rightarrow> ''str'' | JList xs \<Rightarrow> ''list'' | JDict d \<Rightarrow> ''dict'')"

definition validate_raw_result :: "py_text \<Rightarrow> json \<Rightarrow> str + (str \<times> json) list" where
  "validate_raw_result pt raw =
     (case raw of
        JDict d \<Rightarrow>
          (let missing = filter (\<lambda>k. k \<notin> fst ` set d) required_result_keys
           in if missing = [] then Inr d
              else Inl (ascii ''Queue payload missing required keys: '' @ pt_repr pt (PyList (map (PyAtom \<circ> JStr) missing))))
      | _ \<Rightarrow> Inl (ascii ''Queue payload must be a dict, got '' @ quoted_name (type_name raw)))"

text \<open>Rebuilding a result; a field that is not of its declared type counts as the exception \<open>None\<close>.\<close>

definition assertion_result_of :: "json \<Rightarrow> assertion_result option" where
  "assertion_result_of v =
     (case v of
        JDict d \<Rightarrow>
          (case (map_of d (ascii ''target''), map_of d (ascii ''operator''), map_of d (ascii ''expected''),
                 map_of d (ascii ''actual''), map_of d (ascii ''passed''), map_of d (ascii ''message'')) of
             (Some (JStr t), Some (JStr op), Some (JStr ex), Some (JStr ac), Some (JBool b), Some (JStr m)) \<Rightarrow>
               Some \<lparr>ar_target = t, ar_operator = op, ar_expected = ex, ar_actual = ac, ar_passed = b, ar_message = m\<rparr>
           | _ \<Rightarrow> None)
      | _ \<Rightarrow> None)"

definition escape_field :: "py_text \<Rightarrow> json \<Rightarrow> str option" where
  "escape_field pt v = (if truthy v then Some (escape_value pt v) else None)"

fun all_results :: "json list \<Rightarrow> assertion_result list option" where
  "all_results [] = Some []"
| "all_results (v # vs) = (case assertion_result_of v of None \<Rightarrow> None | Some a \<Rightarrow> map_option ((#) a) (all_results vs))"

definition result_from_dict :: "py_text \<Rightarrow> (str \<times> json) list \<Rightarrow> probe_result option" where
  "result_from_dict pt d =
     (case (get d (ascii ''probe_id''), get d (ascii ''threat_id''), get d (ascii ''passed''),
            get_or d (ascii ''response_body'') (JStr []), get_or d (ascii ''assertions'') (JList [])) of
        (JStr i, JStr t, JBool b, JStr body, JList raws) \<Rightarrow>
          map_option (\<lambda>as. \<lparr>pr_probe_id = i, pr_threat_id = t, pr_passed = b, pr_status_code = get d (ascii ''status_code''),
              pr_response_body = body, pr_error = escape_field pt (get d (ascii ''error'')), pr_assertions = as,
              pr_duration = get_or d (ascii ''duration_seconds'') (JFloat 0 1),
              pr_inconclusive = escape_field pt (get d (ascii ''inconclusive_reason'')),
              pr_synthesis_attempted = truthy (get_or d (ascii ''synthesis_attempted'') (JBool False)),
              pr_canary_detected = False, pr_suppressed = False\<rparr>) (all_results raws)
      | _ \<Rightarrow> None)"

type_synonym spawner = "nat \<Rightarrow> (str \<times> json) list \<Rightarrow> (str \<times> json) list \<Rightarrow> queue_read"

text \<open>One subprocess; \<open>n\<close> is the number of subprocesses started before it.\<close>

definition run_process :: "py_text \<Rightarrow> spawner \<Rightarrow> str \<Rightarrow> nat \<Rightarrow> probe \<Rightarrow> threat \<Rightarrow> probe_result option" where
  "run_process pt spawn timeout_text n p t =
     (let got = spawn n (probe_to_dict p) (threat_to_dict t);
          failed = (\<lambda>msg. failed_probe pt p (th_id t) msg (qr_elapsed got))
      in case qr_item got of
           NoItem \<Rightarrow> Some (failed (ascii ''Probe timed out after '' @ timeout_text @ ascii ''s''))
         | Item JNull \<Rightarrow> Some (failed (ascii ''Probe subprocess exited without producing a result''))
         | Item raw \<Rightarrow>
             (case validate_raw_result pt raw of
                Inl msg \<Rightarrow> Some (failed (ascii ''Invalid subprocess result: '' @ msg))
              | Inr d \<Rightarrow> result_from_dict pt d))"

text \<open>The adapted probe: every key of the catalog payload other than the name and the arguments is kept.\<close>

definition synthesize_probe :: "(str \<Rightarrow> str) \<Rightarrow> (str \<Rightarrow> str) \<Rightarrow> probe \<Rightarrow> threat \<Rightarrow> discovered_tool \<Rightarrow> probe option" where
  "synthesize_probe to_upper lower p t tool =
     (if pb_method p \<noteq> ascii ''tools/call'' \<or> to_upper (th_category t) = ascii ''T2'' then None
      else let payload = (case to_json_safe (pb_payload p) of JDict d \<Rightarrow> d | _ \<Rightarrow> [])
           in case synthesize_probe_payload lower tool (threat_pattern_from_category to_upper (th_category t)) payload of
                None \<Rightarrow> None
              | Some synth \<Rightarrow>
                  Some (p\<lparr>pb_payload := proxy_of (JDict (dict_merge synth
                     (filter (\<lambda>(k, v). k \<notin> {ascii ''name'', ascii ''arguments''}) payload)))\<rparr>))"

definition may_adapt :: "probe_result \<Rightarrow> bool" where
  "may_adapt r = (case pr_inconclusive r of None \<Rightarrow> False | Some reason \<Rightarrow> \<not> has_sub era_not_applicable reason)"

definition run_probe :: "py_text \<Rightarrow> (str \<Rightarrow> str) \<Rightarrow> spawner \<Rightarrow> str \<Rightarrow> nat \<Rightarrow> probe \<Rightarrow> threat \<Rightarrow> discovered_tool option \<Rightarrow>
    probe_result option" where
  "run_probe pt to_upper spawn timeout_text n p t tool =
     (case run_process pt spawn timeout_text n p t of
        None \<Rightarrow> None
      | Some first \<Rightarrow>
          (case tool of
             None \<Rightarrow> Some first
           | Some dt \<Rightarrow>
               if \<not> may_adapt first then Some first
               else (case synthesize_probe to_upper (pt_lower pt) p t dt of
                       None \<Rightarrow> Some (first\<lparr>pr_synthesis_attempted := True\<rparr>)
                     | Some adapted \<Rightarrow>
                         map_option (\<lambda>r. r\<lparr>pr_synthesis_attempted := True\<rparr>)
                           (run_process pt spawn timeout_text (Suc n) adapted t))))"

text \<open>All probes of a threat, in order, stopping at an exception; each uses up at most two subprocesses.\<close>

fun run_threat :: "py_text \<Rightarrow> (str \<Rightarrow> str) \<Rightarrow> spawner \<Rightarrow> str \<Rightarrow> nat \<Rightarrow> threat \<Rightarrow> discovered_tool option \<Rightarrow> probe list \<Rightarrow>
    probe_result list option" where
  "run_threat pt to_upper spawn timeout_text n t tool [] = Some []"
| "run_threat pt to_upper spawn timeout_text n t tool (p # ps) =
     (case run_probe pt to_upper spawn timeout_text n p t tool of
        None \<Rightarrow> None
      | Some r \<Rightarrow> map_option ((#) r) (run_threat pt to_upper spawn timeout_text (n + 2) t tool ps))"

section \<open>Properties\<close>

lemma make_mapping_proxy_safe [simp]: "to_json_safe (make_mapping_proxy v) = v"
  by (induction v) (auto simp: split_beta intro!: map_idI)

lemma assertion_value_safe [simp]: "to_json_safe (assertion_value v) = v"
  by (cases v) (auto simp: assertion_value_def split_beta intro!: map_idI)

lemma operator_of_name: "enum_of operator_name all_operators (operator_name op) = Some op"
  by (cases op) (simp_all add: enum_of_def operator_name_def all_operators_def)

text \<open>An assertion crosses to the subprocess unchanged, but for its compiled pattern, which is lost; so there
  no \<open>matches_regex\<close> assertion ever holds.\<close>

lemma assertion_crosses:
  assumes "at_value a = assertion_value v"
  shows "assertion_from_dict (JDict (assertion_to_dict a)) = Inr (a\<lparr>at_pattern := None\<rparr>)"
  using assms by (simp add: assertion_from_dict_def assertion_to_dict_def as_dict_def str_field_def field_def as_text_def
      as_enum_def operator_of_name)

lemma subprocess_regex_fails:
  assumes "assertion_from_dict raw = Inr a" "at_operator a = OpMatchesRegex" "evaluate_assertion pt a r = Some x"
  shows "\<not> ar_passed x"
proof -
  have "at_pattern a = None" using assms(1) by (auto simp: assertion_from_dict_def bindr_Inr)
  then show ?thesis using assms(2,3) by (auto simp: evaluate_assertion_def assertion_holds_def Let_def split: option.splits)
qed

lemma judge_framings_Decided:
  assumes "judge_framings os = Decided r" "pr_passed r"
  shows "list_all (\<lambda>o'. served o' \<longrightarrow> pr_passed (the o')) os \<and> list_all (\<lambda>o'. status_of o' \<noteq> None) os \<and>
    Some r \<in> set os \<and> served (Some r)"
proof -
  have nf: "find (\<lambda>r. served r \<and> \<not> pr_passed (the r)) os = None"
  proof (rule ccontr)
    assume "\<not> ?thesis"
    then obtain x where x: "find (\<lambda>r. served r \<and> \<not> pr_passed (the r)) os = Some x" by blast
    then have "\<not> pr_passed (the x)" by (auto simp: find_Some_iff)
    then show False using assms x by (simp add: judge_framings_def)
  qed
  then have st: "\<not> list_ex (\<lambda>r. status_of r = None) os" using assms(1) by (auto simp: judge_framings_def split: if_splits)
  then obtain x where x: "find served os = Some x" "r = the x"
    using assms(1) nf by (auto simp: judge_framings_def split: option.splits if_splits)
  then have m: "x \<in> set os" "served x" by (auto simp: find_Some_iff)
  have "x = Some r" using m(2) x(2) by (cases x) (simp_all add: served_def status_of_def)
  then show ?thesis using m nf st by (auto simp: find_None_iff list_all_iff list_ex_iff)
qed

lemma judge_framings_AllRefused:
  assumes "judge_framings os = AllRefused"
  shows "list_all (\<lambda>o'. \<not> served o' \<and> status_of o' \<noteq> None) os \<and> list_ex refused os"
  using assms by (auto simp: judge_framings_def list_all_iff list_ex_iff find_None_iff split: option.splits if_splits)

text \<open>What backs a pass when the handshake failed.\<close>

definition verified_pass :: "runner_env \<Rightarrow> network \<Rightarrow> probe \<Rightarrow> str \<Rightarrow> (str \<times> str) list \<Rightarrow> mcp_session \<Rightarrow> probe_result \<Rightarrow> bool" where
  "verified_pass env net p th vars s r =
     (let os = verify_framings env net p th vars (framings_of p) s in
      list_all (\<lambda>o'. status_of o' \<noteq> None) os \<and> list_all (\<lambda>o'. served o' \<longrightarrow> pr_passed (the o')) os \<and>
      (Some r \<in> set os \<and> served (Some r) \<or>
       r = auth_enforced env p th \<and> list_all (\<lambda>o'. \<not> served o') os \<and> list_ex refused os))"

lemma handshake_failed_pass:
  assumes "handshake_failed env cfg net p th vars auth e s = Inr r" "pr_passed r"
  shows "auth \<and> (if must_verify env p e s then verified_pass env net p th vars s r
                 else is_auth_rejection env e \<and> r = auth_enforced env p th)"
proof -
  have nl: "\<not> legacy_only cfg p s"
    using assms by (auto simp: handshake_failed_def inconclusive_result_def simp del: ascii_simps)
  show ?thesis
  proof (cases "auth \<and> must_verify env p e s")
    case True
    show ?thesis
    proof (cases "judge_framings (verify_framings env net p th vars (framings_of p) s)")
      case (Decided x)
      then have "x = r" using assms(1) nl True by (simp add: handshake_failed_def)
      then show ?thesis using judge_framings_Decided [OF Decided] assms(2) True by (simp add: verified_pass_def)
    next
      case Unverifiable
      then show ?thesis using assms(1) nl True by (simp add: handshake_failed_def)
    next
      case AllRefused
      then have "r = auth_enforced env p th" using assms(1) nl True by (simp add: handshake_failed_def pass_or_raise_def split: if_splits)
      then show ?thesis using judge_framings_AllRefused [OF AllRefused] True by (auto simp: verified_pass_def Let_def list_all_iff)
    qed
  next
    case False
    then have "pass_or_raise env p th auth e = Inr r" using assms(1) nl by (auto simp: handshake_failed_def)
    then show ?thesis using False by (auto simp: pass_or_raise_def split: if_splits)
  qed
qed

text \<open>C34. What a PASS of the subprocess rests on: either the session started and the probe's own run passed, or
  the handshake failed, passing on a refusal was asked for, and: where the refusal has to be verified, the
  probe's own request was answered in every framing, none that was served (a status below 400) failed,
  and one that was served passed or all were refused, one with 401 or 403; elsewhere the failure text names an
  authentication keyword, and nothing was sent.\<close>

theorem pass_is_earned:
  assumes "run_in_session env cfg net p th vars auth = Inr r" and "pr_passed r"
  shows "(\<exists>info s. start_session net (re_sse_connects env) (sc_era cfg) (re_new_session env) = (Inr info, s) \<and>
             run_started env net p th vars s = Some r) \<or>
         (\<exists>e s. start_session net (re_sse_connects env) (sc_era cfg) (re_new_session env) = (Inl (SessionIncomplete e), s) \<and> auth \<and>
             (if must_verify env p e s then verified_pass env net p th vars s r
              else is_auth_rejection env e \<and> r = auth_enforced env p th))"
proof -
  obtain x s where st: "start_session net (re_sse_connects env) (sc_era cfg) (re_new_session env) = (x, s)" by fastforce
  show ?thesis
  proof (cases x)
    case (Inr info)
    then have "run_started env net p th vars s = Some r"
      using assms(1) st by (auto simp: run_in_session_def split: option.splits)
    then show ?thesis using st Inr by blast
  next
    case (Inl e)
    then obtain f where f: "e = SessionIncomplete f" using assms(1) st by (cases e) (auto simp: run_in_session_def)
    then have "handshake_failed env cfg net p th vars auth f s = Inr r" using assms(1) st Inl by (simp add: run_in_session_def)
    from handshake_failed_pass [OF this assms(2)] show ?thesis using st Inl f by blast
  qed
qed

text \<open>A legacy server that answers every request with an error whose text happens to contain \<open>401\<close>: the
  probe passes although only the discovery and the handshake were sent.\<close>

definition sample_runner :: runner_env where
  "sample_runner =
     \<lparr>re_probe = sample_probe_env, re_net = (\<lambda>t. refusing_net), re_connects = (\<lambda>t. True), re_sse_connects = True,
      re_url = [], re_new_session = new_session [] [], re_start_text = (\<lambda>e. ascii ''Server rejected initialize: trace a401f''),
      re_other_text = [], re_duration = (\<lambda>s. JNull)\<rparr>"

definition sample_config :: scan_config where
  "sample_config = \<lparr>sc_read_token = None, sc_foreign_token = None, sc_era = AutoEra, sc_timeout = 30\<rparr>"

lemma sample_discover:
  "classify_discover_response (JDict [(ascii ''error'', JDict [(ascii ''code'', JInt (- 32001))])]) = Some EraLegacy"
  by (simp add: classify_discover_response_def classify_error_def classify_status_def status_undetermined_def jget_def
      code_is_def num_is_def Let_def del: ascii_simps)

lemma sample_start:
  "\<exists>e s. start_session refusing_net True AutoEra (new_session [] []) = (Inl (SessionIncomplete e), s) \<and>
     \<not> ms_auth_rejected s \<and> methods_sent s = [m_discover, m_initialize]"
  by (simp add: start_session_def probe_modern_def send_def refusing_net_def sample_discover note_discover_def
      start_legacy_def init_result_def new_session_def methods_sent_def field_or_def num_is_def Let_def del: ascii_simps)

lemma unverified_pass:
  "run_in_session sample_runner sample_config refusing_net sample_probe (ascii ''T01-001'') [] True =
     Inr (auth_enforced sample_runner sample_probe (ascii ''T01-001''))"
proof -
  obtain e s where s: "start_session refusing_net True AutoEra (new_session [] []) = (Inl (SessionIncomplete e), s)" "\<not> ms_auth_rejected s"
    using sample_start by blast
  have "has_sub (ascii ''401'') (ascii ''Server rejected initialize: trace a401f'')"
    by (simp add: has_sub_def starts_with_def)
  then have "is_auth_rejection sample_runner e'" for e'
    by (simp add: is_auth_rejection_def auth_reject_keywords_def sample_runner_def sample_probe_env_def sample_text_def del: ascii_simps)
  then show ?thesis using s
    by (simp add: run_in_session_def handshake_failed_def legacy_only_def must_verify_def pass_or_raise_def sample_runner_def
        sample_config_def sample_probe_def del: ascii_simps)
qed

theorem pass_is_earned_witness:
  "pr_passed (auth_enforced sample_runner sample_probe (ascii ''T01-001'')) \<and>
   ((\<exists>info s. start_session refusing_net True AutoEra (new_session [] []) = (Inr info, s)) \<or>
    (\<exists>e s. start_session refusing_net True AutoEra (new_session [] []) = (Inl (SessionIncomplete e), s)))"
proof -
  have p: "pr_passed (auth_enforced sample_runner sample_probe (ascii ''T01-001''))" by (simp add: auth_enforced_def)
  have env: "re_sse_connects sample_runner = True" "sc_era sample_config = AutoEra" "re_new_session sample_runner = new_session [] []"
    by (simp_all add: sample_runner_def sample_config_def)
  from pass_is_earned [OF unverified_pass p] p show ?thesis unfolding env by blast
qed

end
