(* ===== verification/Stateful.thy ===== *)
theory Stateful
  imports Probe_Result Mcp_Session Integrity
begin

text \<open>
  \<open>stateful/harness.py\<close> and \<open>stateful/scenarios\<close>: the scenarios that run several requests over one
  session, their assertions, the gates before and after the run and the two checks over the whole run
  (drift of the tool manifest, unbounded tool loops). \<open>None\<close> is an exception that leaves the harness:
  an unhashable error code or tool name, a manifest entry that is no object, a comparison Python
  refuses. The texts of the session's own exceptions are the argument \<open>exn\<close>.
\<close>

section \<open>Scenarios and results\<close>

record step_action =
  sa_method :: str
  sa_params :: "(str \<times> json) list"

record step_assertion =
  sn_target :: str
  sn_operator :: str
  sn_expected :: json
  sn_message :: str

record scenario_step =
  ss_description :: str
  ss_action :: step_action
  ss_assertions :: "step_assertion list"

record scenario =
  sc_id :: str
  sc_name :: str
  sc_categories :: "str list"
  sc_steps :: "scenario_step list"
  sc_description :: str
  sc_loop_check :: bool

record assertion_failure =
  af_target :: str
  af_operator :: str
  af_expected :: json
  af_actual :: json
  af_message :: str

record step_result =
  st_index :: nat
  st_description :: str
  st_passed :: bool
  st_response :: "(str \<times> json) list option"
  st_failures :: "assertion_failure list"
  st_error :: "str option"

datatype scenario_status = ScenarioComplete | ScenarioIncomplete | ScenarioInconclusive

record scenario_result =
  sr_scenario_id :: str
  sr_scenario_name :: str
  sr_categories :: "str list"
  sr_status :: scenario_status
  sr_passed :: bool
  sr_steps :: "step_result list"
  sr_inconclusive :: "str option"

section \<open>Assertions\<close>

text \<open>The path \<open>error\<close> covers the protocol error and the content-layer error.\<close>

definition resolve_path :: "(str \<times> json) list \<Rightarrow> str \<Rightarrow> json" where
  "resolve_path response path =
     (if path = ascii ''error'' then
        (if get response (ascii ''error'') \<noteq> JNull then get response (ascii ''error'')
         else case get_or response (ascii ''result'') (JDict []) of
                JDict result \<Rightarrow>
                  if truthy (get result (ascii ''isError'')) then JDict [(ascii ''isError'', JBool True)] else JNull
              | _ \<Rightarrow> JNull)
      else walk_path (JDict response) (split_on (\<lambda>c. c = 46) path))"

definition json_length :: "json \<Rightarrow> nat option" where
  "json_length v = (case v of JStr s \<Rightarrow> Some (length s) | JList xs \<Rightarrow> Some (length xs) | JDict ps \<Rightarrow> Some (length ps) | _ \<Rightarrow> None)"

text \<open>\<open>exp in actual\<close>; \<open>None\<close> is the \<open>TypeError\<close> of a non-string searched in a string.\<close>

definition member_in :: "json \<Rightarrow> json \<Rightarrow> bool option" where
  "member_in x v =
     (case v of
        JStr s \<Rightarrow> (case x of JStr w \<Rightarrow> Some (has_sub w s) | _ \<Rightarrow> None)
      | JList xs \<Rightarrow> Some (list_ex (json_eq x) xs)
      | _ \<Rightarrow> Some False)"

definition is_text_or_list :: "json \<Rightarrow> bool" where
  "is_text_or_list v = (case v of JStr s \<Rightarrow> True | JList xs \<Rightarrow> True | _ \<Rightarrow> False)"

definition longer_than :: "nat \<Rightarrow> json \<Rightarrow> bool option" where
  "longer_than n v =
     (case num_value v of Some q \<Rightarrow> Some (of_nat n > q)
      | None \<Rightarrow> (case v of JNonFinite x \<Rightarrow> Some (x = NegInf) | _ \<Rightarrow> None))"

definition step_holds :: "str \<Rightarrow> json \<Rightarrow> json \<Rightarrow> bool option" where
  "step_holds opr actual expected =
     (if opr = ascii ''eq'' then Some (json_eq actual expected)
      else if opr = ascii ''ne'' then Some (\<not> json_eq actual expected)
      else if opr = ascii ''contains'' then (if is_text_or_list actual then member_in expected actual else Some False)
      else if opr = ascii ''not_contains'' then
        (if is_text_or_list actual then map_option Not (member_in expected actual) else Some False)
      else if opr = ascii ''is_none'' then Some (actual = JNull)
      else if opr = ascii ''is_not_none'' then Some (actual \<noteq> JNull)
      else if opr = ascii ''len_eq'' then
        (case json_length actual of None \<Rightarrow> Some False | Some n \<Rightarrow> Some (num_value expected = Some (of_nat n)))
      else if opr = ascii ''len_gt'' then
        (case json_length actual of None \<Rightarrow> Some False | Some n \<Rightarrow> longer_than n expected)
      else Some False)"

definition failure_message :: "py_text \<Rightarrow> step_assertion \<Rightarrow> json \<Rightarrow> str" where
  "failure_message pt a actual =
     (if sn_message a \<noteq> [] then sn_message a
      else sn_target a @ [32] @ sn_operator a @ [32] @ pt_repr pt (of_json (sn_expected a)) @ ascii '': got '' @
           pt_repr pt (of_json actual))"

text \<open>The outer \<open>None\<close> is an exception, the inner one a passing assertion.\<close>

definition evaluate_step_assertion :: "py_text \<Rightarrow> (str \<times> json) list \<Rightarrow> step_assertion \<Rightarrow> assertion_failure option option" where
  "evaluate_step_assertion pt response a =
     (if sn_target a = [] then
        Some (Some \<lparr>af_target = [], af_operator = sn_operator a, af_expected = sn_expected a, af_actual = JNull,
                    af_message = ascii ''assertion target must not be empty''\<rparr>)
      else let actual = resolve_path response (sn_target a) in
        (case step_holds (sn_operator a) actual (sn_expected a) of
           None \<Rightarrow> None
         | Some True \<Rightarrow> Some None
         | Some False \<Rightarrow>
             Some (Some \<lparr>af_target = sn_target a, af_operator = sn_operator a, af_expected = sn_expected a,
                         af_actual = actual, af_message = failure_message pt a actual\<rparr>)))"

fun step_failures :: "py_text \<Rightarrow> (str \<times> json) list \<Rightarrow> step_assertion list \<Rightarrow> assertion_failure list option" where
  "step_failures pt response [] = Some []"
| "step_failures pt response (a # as) =
     (case evaluate_step_assertion pt response a of
        None \<Rightarrow> None
      | Some f \<Rightarrow> map_option (\<lambda>fs. (case f of None \<Rightarrow> fs | Some x \<Rightarrow> x # fs)) (step_failures pt response as))"

section \<open>The tools of a manifest\<close>

definition manifest_tool_names :: "py_text \<Rightarrow> (str \<times> json) list option \<Rightarrow> str list option" where
  "manifest_tool_names pt response =
     (case response of None \<Rightarrow> None
      | Some r \<Rightarrow>
          (case get r (ascii ''result'') of
             JDict result \<Rightarrow>
               (case get result (ascii ''tools'') of
                  JList tools \<Rightarrow>
                    Some (names_set (concat (map (\<lambda>t. case t of
                        JDict d \<Rightarrow> [to_str pt (of_json (get_or d (ascii ''name'') (JStr [])))] | _ \<Rightarrow> []) tools)))
                | _ \<Rightarrow> None)
           | _ \<Rightarrow> None))"

definition standard_methods :: "str list" where
  "standard_methods = map ascii
     [''initialize'', ''notifications/initialized'', ''tools/list'', ''tools/call'', ''ping'', ''resources/list'',
      ''resources/read'', ''resources/templates/list'', ''prompts/list'', ''prompts/get'', ''completion/complete'',
      ''logging/setLevel'', ''server/discover'', ''subscriptions/listen'']"

definition unsupported_method_codes :: "int list" where
  "unsupported_method_codes = [-32700, -32600, -32601, -32602]"

text \<open>The first step whose non-standard method the server does not know; the outer \<open>None\<close> is the \<open>TypeError\<close>
  of an unhashable code.\<close>

fun method_not_found :: "(scenario_step \<times> step_result) list \<Rightarrow> str option option" where
  "method_not_found [] = Some None"
| "method_not_found ((stp, sr) # rest) =
     (if sa_method (ss_action stp) \<in> set standard_methods then method_not_found rest
      else case st_response sr of None \<Rightarrow> method_not_found rest
      | Some r \<Rightarrow>
          (case get r (ascii ''error'') of
             JDict err \<Rightarrow>
               (let code = get err (ascii ''code'') in
                if \<not> hashable code then None
                else if list_ex (num_is code) unsupported_method_codes then
                  Some (Some (digits (st_index sr) @ ascii '' ('' @ [39] @ st_description sr @ [39] @ ascii '') via method '' @
                              [39] @ sa_method (ss_action stp) @ [39]))
                else method_not_found rest)
           | _ \<Rightarrow> method_not_found rest))"

section \<open>Drift of the manifest\<close>

definition manifests :: "py_text \<Rightarrow> (scenario_step \<times> step_result) list \<Rightarrow> (nat \<times> str list) list" where
  "manifests pt zs =
     concat (map (\<lambda>(stp, sr).
       if sa_method (ss_action stp) \<noteq> ascii ''tools/list'' then []
       else case manifest_tool_names pt (st_response sr) of None \<Rightarrow> [] | Some ns \<Rightarrow> [(st_index sr, ns)]) zs)"

definition names_value :: "str list \<Rightarrow> json" where "names_value ns = JList (map JStr ns)"

definition names_repr :: "py_text \<Rightarrow> str list \<Rightarrow> str" where
  "names_repr pt ns = pt_repr pt (of_json (names_value ns))"

definition drift_detail :: "py_text \<Rightarrow> nat \<Rightarrow> str list \<Rightarrow> nat \<Rightarrow> str list \<Rightarrow> str" where
  "drift_detail pt i baseline j names =
     ascii ''Tool manifest drifted between tools/list step '' @ digits i @ ascii '' and step '' @ digits j @
     ascii '' within the same session (no re-initialization). added='' @
     names_repr pt (filter (\<lambda>n. n \<notin> set baseline) names) @ ascii '' removed='' @
     names_repr pt (filter (\<lambda>n. n \<notin> set names) baseline) @
     ascii ''. This indicates T6 tool shadowing '' @ [8212] @ ascii '' a tool was injected, renamed, or withdrawn mid-session.''"

text \<open>A step that the harness appends because a check over the whole run failed.\<close>

definition synthetic_failure :: "nat \<Rightarrow> str \<Rightarrow> str \<Rightarrow> json \<Rightarrow> json \<Rightarrow> str \<Rightarrow> step_result" where
  "synthetic_failure i description target expected actual detail =
     \<lparr>st_index = i, st_description = description, st_passed = False, st_response = None,
      st_failures = [\<lparr>af_target = target, af_operator = ascii ''eq'', af_expected = expected, af_actual = actual,
                      af_message = detail\<rparr>],
      st_error = None\<rparr>"

definition detect_manifest_drift :: "py_text \<Rightarrow> scenario \<Rightarrow> step_result list \<Rightarrow> step_result option" where
  "detect_manifest_drift pt sc rs =
     (case manifests pt (zip (sc_steps sc) rs) of
        [] \<Rightarrow> None
      | (i, baseline) # rest \<Rightarrow>
          map_option (\<lambda>(j, names).
              synthetic_failure (length rs) (ascii ''T6 manifest-drift check'') (ascii ''manifest.tool_names'')
                (names_value baseline) (names_value names) (drift_detail pt i baseline j names))
            (find (\<lambda>(j, names). names \<noteq> baseline) rest))"

section \<open>Unbounded loops\<close>

definition rejected_step :: "step_result \<Rightarrow> bool" where
  "rejected_step sr = (case st_response sr of None \<Rightarrow> False | Some r \<Rightarrow> resolve_path r (ascii ''error'') \<noteq> JNull)"

definition loop_calls :: "scenario \<Rightarrow> step_result list \<Rightarrow> step_result list" where
  "loop_calls sc rs =
     map snd (filter (\<lambda>(stp, sr). sa_method (ss_action stp) = ascii ''tools/call'') (zip (sc_steps sc) rs))"

definition loop_detail :: "nat \<Rightarrow> nat \<Rightarrow> str" where
  "loop_detail calls rejected =
     ascii ''Server answered all '' @ digits calls @ ascii '' calls of a repeated tool-invocation loop within one session without ever exhausting a call budget (rejected='' @
     digits rejected @ ascii '', final call accepted). An unbounded recursive/looping tool chain burns the operator'' @ [39] @
     ascii ''s wallet '' @ [8212] @ ascii '' this is the core T10 denial-of-wallet failure. Enforce a per-session call budget (max calls per session) and a recursion/loop guard, returning a rate-limit error (JSON-RPC -32029) once the budget is exhausted.''"

definition detect_unbounded_tool_loop :: "scenario \<Rightarrow> step_result list \<Rightarrow> step_result option" where
  "detect_unbounded_tool_loop sc rs =
     (let calls = loop_calls sc rs in
      if length calls < 2 then None
      else if rejected_step (last calls) then None
      else Some (synthetic_failure (length rs) (ascii ''T10 call-budget / loop check'')
                   (ascii ''session.call_budget_enforced'') (JBool True) (JBool False)
                   (loop_detail (length calls) (length (filter rejected_step calls)))))"

section \<open>Remapping placeholders\<close>

definition remap_action :: "(str, str) dict \<Rightarrow> step_action \<Rightarrow> step_action" where
  "remap_action overrides a =
     \<lparr>sa_method = (case map_of overrides (sa_method a) of None \<Rightarrow> sa_method a | Some m \<Rightarrow> m),
      sa_params = (case get (sa_params a) (ascii ''name'') of
         JStr nm \<Rightarrow> (case map_of overrides nm of None \<Rightarrow> sa_params a
                    | Some m \<Rightarrow> AList.update (ascii ''name'') (JStr m) (sa_params a))
       | _ \<Rightarrow> sa_params a)\<rparr>"

definition apply_method_overrides :: "(str, str) dict \<Rightarrow> scenario \<Rightarrow> scenario" where
  "apply_method_overrides overrides sc =
     (if overrides = [] then sc
      else sc\<lparr>sc_steps := map (\<lambda>stp. stp\<lparr>ss_action := remap_action overrides (ss_action stp)\<rparr>) (sc_steps sc)\<rparr>)"

section \<open>Running a scenario\<close>

record harness =
  hn_text :: py_text
  hn_exn :: "session_fail \<Rightarrow> str"
  hn_era :: requested_era
  hn_overrides :: "(str, str) dict"

definition scenario_outcome :: "scenario \<Rightarrow> scenario_status \<Rightarrow> bool \<Rightarrow> step_result list \<Rightarrow> str option \<Rightarrow> scenario_result" where
  "scenario_outcome sc st passed rs reason =
     \<lparr>sr_scenario_id = sc_id sc, sr_scenario_name = sc_name sc, sr_categories = sc_categories sc, sr_status = st,
      sr_passed = passed, sr_steps = rs, sr_inconclusive = reason\<rparr>"

definition incomplete :: "scenario \<Rightarrow> step_result list \<Rightarrow> scenario_result" where
  "incomplete sc rs = scenario_outcome sc ScenarioIncomplete False rs None"

text \<open>The names in the server's manifest; \<open>None\<close> where an entry is no object or a name cannot be hashed.\<close>

definition available_tools :: "json \<Rightarrow> json list option" where
  "available_tools manifest =
     (case manifest of
        JList tools \<Rightarrow>
          those (map (\<lambda>t. case t of
              JDict d \<Rightarrow> (let n = get_or d (ascii ''name'') (JStr []) in if hashable n then Some n else None)
            | _ \<Rightarrow> None) tools)
      | JDict ps \<Rightarrow> if ps = [] then Some [] else None
      | JStr s \<Rightarrow> if s = [] then Some [] else None
      | _ \<Rightarrow> None)"

definition required_tools :: "scenario \<Rightarrow> json list" where
  "required_tools sc =
     map (\<lambda>stp. get (sa_params (ss_action stp)) (ascii ''name''))
       (filter (\<lambda>stp. sa_method (ss_action stp) = ascii ''tools/call'' \<and>
                      truthy (get (sa_params (ss_action stp)) (ascii ''name''))) (sc_steps sc))"

definition json_text :: "json \<Rightarrow> str option" where
  "json_text v = (case v of JStr s \<Rightarrow> Some s | _ \<Rightarrow> None)"

text \<open>The required tools that the server lacks, sorted; \<open>None\<close> where they cannot be hashed or sorted.\<close>

definition missing_tools :: "json list \<Rightarrow> scenario \<Rightarrow> str list option" where
  "missing_tools available sc =
     (let required = required_tools sc;
          missing = filter (\<lambda>v. \<not> list_ex (json_eq v) available) required
      in if available = [] then Some []
         else if \<not> list_all hashable required then None
         else map_option names_set (those (map json_text missing)))"

definition missing_reason :: "str list \<Rightarrow> str" where
  "missing_reason missing =
     ascii ''Scenario requires tool(s) not present on this server: '' @ join [44, 32] missing @
     ascii ''. The scenario tests a generic vulnerability pattern using placeholder tool names. To test this scenario, configure method_overrides to map them to equivalent tools on this server.''"

definition unsupported_reason :: "str \<Rightarrow> str" where
  "unsupported_reason step_label =
     ascii ''Scenario step '' @ step_label @
     ascii '' returned a JSON-RPC method-not-found/invalid-request error: the server does not implement the non-standard method this scenario depends on. The security property could not be evaluated '' @ [8212] @
     ascii '' configure method_overrides to map it to this server'' @ [39] @ ascii ''s equivalent. INCONCLUSIVE, not a finding.''"

definition run_step :: "harness \<Rightarrow> network \<Rightarrow> nat \<Rightarrow> scenario_step \<Rightarrow> mcp_session \<Rightarrow> step_result option \<times> mcp_session" where
  "run_step h net i stp s =
     (case send_raw net (sa_method (ss_action stp)) (sa_params (ss_action stp)) None s of
        (Inl e, s') \<Rightarrow>
          (Some \<lparr>st_index = i, st_description = ss_description stp, st_passed = False, st_response = None, st_failures = [],
                 st_error = Some (hn_exn h e)\<rparr>, s')
      | (Inr response, s') \<Rightarrow>
          (map_option (\<lambda>fs.
              \<lparr>st_index = i, st_description = ss_description stp, st_passed = (fs = []), st_response = Some response,
               st_failures = fs, st_error = None\<rparr>)
            (step_failures (hn_text h) response (ss_assertions stp)), s'))"

text \<open>The steps in order; the run stops after a step that raised a transport error.\<close>

fun run_steps :: "harness \<Rightarrow> network \<Rightarrow> nat \<Rightarrow> scenario_step list \<Rightarrow> mcp_session \<Rightarrow> step_result list option \<times> mcp_session" where
  "run_steps h net i [] s = (Some [], s)"
| "run_steps h net i (stp # steps) s =
     (case run_step h net i stp s of
        (None, s') \<Rightarrow> (None, s')
      | (Some sr, s') \<Rightarrow>
          if st_error sr \<noteq> None then (Some [sr], s')
          else (case run_steps h net (i + 1) steps s' of
                  (None, s'') \<Rightarrow> (None, s'')
                | (Some srs, s'') \<Rightarrow> (Some (sr # srs), s'')))"

definition append_some :: "'a list \<Rightarrow> 'a option \<Rightarrow> 'a list" where
  "append_some xs x = (case x of None \<Rightarrow> xs | Some y \<Rightarrow> xs @ [y])"

text \<open>The verdict over the results of a run that no transport error stopped.\<close>

definition judge_run :: "py_text \<Rightarrow> scenario \<Rightarrow> step_result list \<Rightarrow> scenario_result option" where
  "judge_run pt sc rs =
     (case method_not_found (zip (sc_steps sc) rs) of
        None \<Rightarrow> None
      | Some (Some l) \<Rightarrow> Some (scenario_outcome sc ScenarioInconclusive False rs (Some (unsupported_reason l)))
      | Some None \<Rightarrow>
          (let rs1 = append_some rs (detect_manifest_drift pt sc rs);
               rs2 = (if sc_loop_check sc then append_some rs1 (detect_unbounded_tool_loop sc rs1) else rs1)
           in Some (scenario_outcome sc ScenarioComplete (list_all st_passed rs2) rs2 None)))"

definition run_in_started :: "harness \<Rightarrow> network \<Rightarrow> scenario \<Rightarrow> mcp_session \<Rightarrow> scenario_result option \<times> mcp_session" where
  "run_in_started h net sc s =
     (case available_tools (ms_tool_manifest s) of
        None \<Rightarrow> (None, s)
      | Some available \<Rightarrow>
          (case missing_tools available sc of
             None \<Rightarrow> (None, s)
           | Some missing \<Rightarrow>
               if missing \<noteq> [] then
                 (Some (scenario_outcome sc ScenarioInconclusive False [] (Some (missing_reason missing))), s)
               else (case run_steps h net 0 (sc_steps sc) s of
                       (None, s') \<Rightarrow> (None, s')
                     | (Some rs, s') \<Rightarrow>
                         if list_ex (\<lambda>sr. st_error sr \<noteq> None) rs then (Some (incomplete sc rs), s')
                         else (judge_run (hn_text h) sc rs, s'))))"

definition run_scenario :: "harness \<Rightarrow> network \<Rightarrow> bool \<Rightarrow> bool \<Rightarrow> scenario \<Rightarrow> str \<Rightarrow> str \<Rightarrow> scenario_result option \<times> mcp_session" where
  "run_scenario h net connects sse_connects sc0 transport_type target_url =
     (let s0 = new_session transport_type target_url in
      if sc_steps sc0 = [] then (Some (incomplete sc0 []), s0)
      else let sc = apply_method_overrides (hn_overrides h) sc0 in
        if \<not> connects then (Some (incomplete sc []), close_session s0)
        else (case start_session net sse_connects (hn_era h) s0 of
                (Inl e, s) \<Rightarrow> (Some (incomplete sc []), close_session s)
              | (Inr info, s) \<Rightarrow> (case run_in_started h net sc s of (r, s') \<Rightarrow> (r, close_session s'))))"

section \<open>The built-in scenarios\<close>

definition step_of :: "str \<Rightarrow> string \<Rightarrow> (str \<times> json) list \<Rightarrow> step_assertion list \<Rightarrow> scenario_step" where
  "step_of description mthd params assertions =
     \<lparr>ss_description = description, ss_action = \<lparr>sa_method = ascii mthd, sa_params = params\<rparr>, ss_assertions = assertions\<rparr>"

definition expect :: "string \<Rightarrow> string \<Rightarrow> str \<Rightarrow> step_assertion" where
  "expect target opr msg = \<lparr>sn_target = ascii target, sn_operator = ascii opr, sn_expected = JNull, sn_message = msg\<rparr>"

definition call_params :: "string \<Rightarrow> (str \<times> json) list \<Rightarrow> (str \<times> json) list" where
  "call_params tool arguments = [(ascii ''name'', JStr (ascii tool)), (ascii ''arguments'', JDict arguments)]"

definition text_arg :: "string \<Rightarrow> string \<Rightarrow> str \<times> json" where
  "text_arg k v = (ascii k, JStr (ascii v))"

definition dashed :: "string \<Rightarrow> string \<Rightarrow> str" where
  "dashed a b = ascii a @ [32, 8212, 32] @ ascii b"

definition t2_privilege_escalation_chain :: scenario where
  "t2_privilege_escalation_chain =
     \<lparr>sc_id = ascii ''T2-SC-001'', sc_name = ascii ''Privilege escalation via direct tool call'',
      sc_categories = [ascii ''T2''],
      sc_steps =
        [step_of (dashed ''List tools'' ''baseline manifest'') ''tools/list'' [] [expect ''result'' ''is_not_none'' []],
         step_of (dashed ''Call privileged tool without authorization'' ''must fail'') ''tools/call''
           (call_params ''admin_delete'' [text_arg ''path'' ''/etc''])
           [expect ''error'' ''is_not_none'' (ascii ''Privileged tool admin_delete must reject unauthenticated call'')]],
      sc_description = ascii ''Verify that calling a privileged tool (admin_delete) without the required authorization produces an error response. A server that permits this call is vulnerable to T2.'',
      sc_loop_check = False\<rparr>"

definition t2_confused_deputy :: scenario where
  "t2_confused_deputy =
     \<lparr>sc_id = ascii ''T2-SC-002'', sc_name = dashed ''Confused deputy'' ''cross-tool authority abuse'',
      sc_categories = [ascii ''T2''],
      sc_steps =
        [step_of (dashed ''Call unprivileged tool'' ''read_file must succeed'') ''tools/call''
           (call_params ''read_file'' [text_arg ''path'' ''/tmp/test.txt''])
           [expect ''result'' ''is_not_none'' (ascii ''read_file must return a result (unprivileged call must succeed)'')],
         step_of (dashed ''Attempt privileged tool'' ''must still fail'') ''tools/call''
           (call_params ''admin_delete'' [text_arg ''path'' ''/etc''])
           [expect ''error'' ''is_not_none'' (ascii ''Privileged tool admin_delete must not be accessible after an unprivileged read_file call (confused deputy)'')]],
      sc_description = ascii ''After calling an unprivileged tool (read_file), attempt to call a privileged tool (admin_delete) in the same session. The server must not elevate permissions based on prior calls.'',
      sc_loop_check = False\<rparr>"

definition t6_tool_shadowing_mid_session :: scenario where
  "t6_tool_shadowing_mid_session =
     \<lparr>sc_id = ascii ''T6-SC-001'', sc_name = dashed ''Tool shadowing'' ''manifest drift detection'',
      sc_categories = [ascii ''T6''],
      sc_steps =
        [step_of (dashed ''First tools/list'' ''capture baseline manifest'') ''tools/list'' [] [expect ''result.tools'' ''is_not_none'' []],
         step_of (dashed ''Second tools/list'' ''for drift comparison'') ''tools/list'' [] [expect ''result.tools'' ''is_not_none'' []]],
      sc_description = ascii ''Call tools/list twice within the same session.  If the manifest differs between calls (without re-initialization), this indicates a T6 tool-shadowing violation.  The caller compares step results.'',
      sc_loop_check = False\<rparr>"

definition t10_recursive_tool_loop :: "nat \<Rightarrow> scenario" where
  "t10_recursive_tool_loop calls =
     (let n = max 2 calls in
      \<lparr>sc_id = ascii ''T10-SC-001'', sc_name = dashed ''Recursive tool-chain loop'' ''per-session call budget'',
       sc_categories = [ascii ''T10''],
       sc_steps = map (\<lambda>i. step_of (ascii ''Loop iteration '' @ digits (i + 1) @ [47] @ digits n @ [32, 8212] @ ascii '' repeated tool call'')
           ''tools/call'' (call_params ''echo'' [(ascii ''iteration'', JStr (digits i))]) []) [0..<n],
       sc_description = ascii ''Call the same tool repeatedly within one session to simulate an agent stuck in a recursive tool-invocation loop. A server that answers the entire loop without ever applying a per-session call budget is vulnerable to T10 denial-of-wallet. A secure server exhausts its call budget and rejects the final iteration.'',
       sc_loop_check = True\<rparr>)"

definition t7_session_token_binding :: scenario where
  "t7_session_token_binding =
     \<lparr>sc_id = ascii ''T7-SC-001'', sc_name = dashed ''Session token binding'' ''multi-call session integrity'',
      sc_categories = [ascii ''T7''],
      sc_steps =
        [step_of (dashed ''tools/list'' ''verify session is active'') ''tools/list'' [] [expect ''result'' ''is_not_none'' []],
         step_of (dashed ''tools/call echo'' ''verify call succeeds in same session'') ''tools/call''
           (call_params ''echo'' [text_arg ''message'' ''ping''])
           [expect ''result'' ''is_not_none'' (ascii ''tools/call must succeed within active session'')]],
      sc_description = ascii ''Execute tools/list then tools/call within a single session. Both steps must succeed, confirming the session token is correctly bound across the full call sequence.'',
      sc_loop_check = False\<rparr>"

definition t7_session_revocation :: scenario where
  "t7_session_revocation =
     \<lparr>sc_id = ascii ''T7-SC-002'', sc_name = dashed ''Session token revocation'' ''post-revocation calls must fail'',
      sc_categories = [ascii ''T7''],
      sc_steps =
        [step_of (dashed ''tools/list'' ''confirm session is active before revocation'') ''tools/list'' []
           [expect ''result'' ''is_not_none'' (ascii ''Session must be active before revocation test'')],
         step_of (dashed ''session/terminate'' ''signal explicit revocation (notification)'') ''session/terminate''
           [text_arg ''reason'' ''explicit_revocation_test''] [],
         step_of (dashed ''tools/list after revocation'' ''must be rejected'') ''tools/list'' []
           [expect ''error'' ''is_not_none'' (ascii ''Session token must be rejected after explicit revocation. A successful tools/list here indicates the server does not honour revocation (T7 token revocation bypass).'')]],
      sc_description = ascii ''Establish an active session, signal explicit revocation via session/terminate notification, then call tools/list. A server that continues to accept the session token after revocation is vulnerable to T7 (token revocation bypass).'',
      sc_loop_check = False\<rparr>"

section \<open>What a pass means\<close>

text \<open>\<open>exchanged net steps s responses s'\<close>: the requests of the steps are sent in this order and the server
  answers them with these responses.\<close>

inductive exchanged :: "network \<Rightarrow> scenario_step list \<Rightarrow> mcp_session \<Rightarrow> (str \<times> json) list list \<Rightarrow> mcp_session \<Rightarrow> bool"
  for net where
  exchanged_Nil: "exchanged net [] s [] s"
| exchanged_Cons: "send_raw net (sa_method (ss_action stp)) (sa_params (ss_action stp)) None s = (Inr r, s') \<Longrightarrow>
    exchanged net steps s' rs s'' \<Longrightarrow> exchanged net (stp # steps) s (r # rs) s''"

inductive_simps exchanged_simps: "exchanged net [] s rs s'" "exchanged net (stp # steps) s rs s'"

text \<open>The manifests that the server gave for the \<open>tools/list\<close> steps, and its answers to the tool calls.\<close>

definition listed_manifests :: "py_text \<Rightarrow> (scenario_step \<times> (str \<times> json) list) list \<Rightarrow> str list list" where
  "listed_manifests pt zs =
     concat (map (\<lambda>(stp, r). if sa_method (ss_action stp) \<noteq> ascii ''tools/list'' then []
       else case manifest_tool_names pt (Some r) of None \<Rightarrow> [] | Some ns \<Rightarrow> [ns]) zs)"

definition call_answers :: "(scenario_step \<times> (str \<times> json) list) list \<Rightarrow> (str \<times> json) list list" where
  "call_answers zs = map snd (filter (\<lambda>(stp, r). sa_method (ss_action stp) = ascii ''tools/call'') zs)"

definition refuses :: "(str \<times> json) list \<Rightarrow> bool" where
  "refuses r \<longleftrightarrow> resolve_path r (ascii ''error'') \<noteq> JNull"

definition judged :: "py_text \<Rightarrow> scenario_step \<Rightarrow> (str \<times> json) list \<Rightarrow> step_result \<Rightarrow> bool" where
  "judged pt stp r sr \<longleftrightarrow>
     st_response sr = Some r \<and> step_failures pt r (ss_assertions stp) = Some (st_failures sr) \<and>
     st_passed sr = (st_failures sr = [])"

lemma run_steps_exchanged:
  "run_steps h net i steps s = (Some rs, s') \<Longrightarrow> \<not> list_ex (\<lambda>sr. st_error sr \<noteq> None) rs \<Longrightarrow>
     \<exists>responses. exchanged net steps s responses s' \<and> length responses = length steps \<and> length rs = length steps \<and>
       list_all (\<lambda>(stp, r, sr). judged (hn_text h) stp r sr) (zip steps (zip responses rs))"
proof (induction steps arbitrary: i s rs)
  case Nil
  then show ?case by (auto simp: exchanged_simps)
next
  case (Cons stp steps)
  obtain x s1 where x: "run_step h net i stp s = (x, s1)" by fastforce
  with Cons.prems(1) obtain sr where sr: "x = Some sr" by (cases x) auto
  have "st_error sr = None"
    using Cons.prems x sr by (auto split: if_splits option.splits prod.splits)
  moreover obtain y s2 where y: "send_raw net (sa_method (ss_action stp)) (sa_params (ss_action stp)) None s = (y, s2)" by fastforce
  ultimately obtain r where r: "y = Inr r" "s2 = s1" and j: "judged (hn_text h) stp r sr"
    using x sr by (cases y) (auto simp: run_step_def judged_def)
  obtain z where z: "run_steps h net (i + 1) steps s1 = (Some z, s')" and rs: "rs = sr # z"
    using Cons.prems(1) x sr \<open>st_error sr = None\<close> by (auto split: option.splits prod.splits)
  have "\<not> list_ex (\<lambda>sr. st_error sr \<noteq> None) z" using Cons.prems(2) rs by simp
  from Cons.IH [OF z this] obtain q where "exchanged net steps s1 q s'" "length q = length steps" "length z = length steps"
    "list_all (\<lambda>(stp, r, sr). judged (hn_text h) stp r sr) (zip steps (zip q z))" by blast
  then show ?case using y r j rs by (intro exI [of _ "r # q"]) (auto simp: exchanged_simps)
qed

lemma judged_views:
  assumes "length steps = length responses" "length responses = length rs"
    and "list_all (\<lambda>(stp, r, sr). judged pt stp r sr) (zip steps (zip responses rs))"
  shows "map snd (manifests pt (zip steps rs)) = listed_manifests pt (zip steps responses) \<and>
    map rejected_step (map snd (filter (\<lambda>(stp, sr). sa_method (ss_action stp) = ascii ''tools/call'') (zip steps rs))) =
      map refuses (call_answers (zip steps responses)) \<and>
    (list_all st_passed rs \<longrightarrow> list_all (\<lambda>(stp, r). step_failures pt r (ss_assertions stp) = Some []) (zip steps responses))"
  using assms
proof (induction steps responses rs rule: list_induct3)
  case (Cons stp steps r responses sr rs)
  then have j: "judged pt stp r sr" by simp
  then have "st_response sr = Some r" "rejected_step sr = refuses r" by (auto simp: judged_def rejected_step_def refuses_def)
  with Cons j show ?case
    by (auto simp: manifests_def listed_manifests_def call_answers_def judged_def simp del: ascii_simps split: option.splits)
qed (auto simp: manifests_def listed_manifests_def call_answers_def)

definition all_same :: "'a list \<Rightarrow> bool" where
  "all_same xs = list_all (\<lambda>x. x = hd xs) xs"

lemma no_drift:
  "detect_manifest_drift pt sc rs = None \<longleftrightarrow> all_same (map snd (manifests pt (zip (sc_steps sc) rs)))"
  by (cases "manifests pt (zip (sc_steps sc) rs)")
    (auto simp: detect_manifest_drift_def all_same_def find_None_iff list_all_iff split: prod.splits)

definition loop_bounded :: "(scenario_step \<times> (str \<times> json) list) list \<Rightarrow> bool" where
  "loop_bounded zs \<longleftrightarrow> length (call_answers zs) < 2 \<or> refuses (last (call_answers zs))"

lemma no_loop:
  assumes "map rejected_step (loop_calls sc rs) = map refuses (call_answers zs)"
  shows "detect_unbounded_tool_loop sc rs = None \<longleftrightarrow> loop_bounded zs"
proof -
  have l: "length (loop_calls sc rs) = length (call_answers zs)" using assms by (metis length_map)
  have "rejected_step (last (loop_calls sc rs)) = refuses (last (call_answers zs))" if "call_answers zs \<noteq> []"
    using that l assms by (metis last_map length_0_conv)
  then show ?thesis using l
    by (cases "call_answers zs = []") (auto simp: detect_unbounded_tool_loop_def loop_bounded_def Let_def)
qed

lemma judge_run_passed:
  assumes "judge_run pt sc rs = Some res" "sr_passed res"
  shows "sr_status res = ScenarioComplete \<and> sr_steps res = rs \<and> list_all st_passed rs \<and>
    detect_manifest_drift pt sc rs = None \<and> (sc_loop_check sc \<longrightarrow> detect_unbounded_tool_loop sc rs = None)"
proof -
  have nf: "method_not_found (zip (sc_steps sc) rs) = Some None"
    using assms by (auto simp: judge_run_def scenario_outcome_def split: option.splits)
  have synth: "st_passed sr = False" if "detect_manifest_drift pt sc rs = Some sr \<or> detect_unbounded_tool_loop sc xs = Some sr" for sr xs
    using that by (auto simp: detect_manifest_drift_def detect_unbounded_tool_loop_def synthetic_failure_def Let_def
        split: list.splits if_splits)
  from assms nf have d: "detect_manifest_drift pt sc rs = None"
    by (cases "detect_manifest_drift pt sc rs")
      (auto simp: judge_run_def scenario_outcome_def append_some_def Let_def dest!: synth [OF disjI1] split: if_splits option.splits)
  from assms nf d have "sc_loop_check sc \<Longrightarrow> detect_unbounded_tool_loop sc rs = None"
    by (cases "detect_unbounded_tool_loop sc rs")
      (auto simp: judge_run_def scenario_outcome_def append_some_def Let_def dest!: synth [OF disjI2] split: if_splits)
  with assms nf d show ?thesis by (auto simp: judge_run_def scenario_outcome_def append_some_def Let_def split: if_splits)
qed

text \<open>C37. A scenario passes only on a full run against the live server: it has steps, the session was
  started, every request was answered in order, every assertion of every step holds of the server's own
  answer to it, all tool manifests listed during the session are the same, and a scenario with the loop
  check ends with a refused call.\<close>

theorem scenario_pass_earned:
  assumes "run_scenario h net connects sse_connects sc0 transport_type target_url = (Some res, s')" and "sr_passed res"
  shows "\<exists>info s s'' responses.
           let sc = apply_method_overrides (hn_overrides h) sc0; zs = zip (sc_steps sc) responses in
           sr_status res = ScenarioComplete \<and> sc_steps sc \<noteq> [] \<and> length responses = length (sc_steps sc) \<and>
           start_session net sse_connects (hn_era h) (new_session transport_type target_url) = (Inr info, s) \<and>
           exchanged net (sc_steps sc) s responses s'' \<and>
           list_all (\<lambda>(stp, r). step_failures (hn_text h) r (ss_assertions stp) = Some []) zs \<and>
           all_same (listed_manifests (hn_text h) zs) \<and>
           (sc_loop_check sc \<longrightarrow> loop_bounded zs)"
proof -
  define sc where "sc = apply_method_overrides (hn_overrides h) sc0"
  obtain info s where st: "start_session net sse_connects (hn_era h) (new_session transport_type target_url) = (Inr info, s)"
    and run: "fst (run_in_started h net sc s) = Some res" and ne: "sc_steps sc0 \<noteq> []"
    using assms by (auto simp: run_scenario_def Let_def incomplete_def scenario_outcome_def sc_def [symmetric]
        split: if_splits prod.splits sum.splits)
  have ne': "sc_steps sc \<noteq> []" using ne by (auto simp: sc_def apply_method_overrides_def)
  obtain rs s'' where rs: "run_steps h net 0 (sc_steps sc) s = (Some rs, s'')"
    and err: "\<not> list_ex (\<lambda>sr. st_error sr \<noteq> None) rs" and j: "judge_run (hn_text h) sc rs = Some res"
    using run assms(2) by (auto simp: run_in_started_def incomplete_def scenario_outcome_def
        split: option.splits if_splits prod.splits)
  obtain q where q: "exchanged net (sc_steps sc) s q s''" "length q = length (sc_steps sc)" "length rs = length (sc_steps sc)"
    "list_all (\<lambda>(stp, r, sr). judged (hn_text h) stp r sr) (zip (sc_steps sc) (zip q rs))"
    using run_steps_exchanged [OF rs err] by blast
  note v = judged_views [OF q(2) [symmetric] _ q(4)] q(2,3)
  note p = judge_run_passed [OF j assms(2)]
  have "all_same (listed_manifests (hn_text h) (zip (sc_steps sc) q))" using v p no_drift by metis
  moreover have "sc_loop_check sc \<longrightarrow> loop_bounded (zip (sc_steps sc) q)"
    using v p no_loop [of sc rs "zip (sc_steps sc) q"] by (auto simp: loop_calls_def)
  ultimately show ?thesis using p v ne' st q(1,2) unfolding sc_def [symmetric] Let_def by auto
qed

text \<open>A legacy server with the privileged tool, which refuses the call.\<close>

definition sample_harness :: harness where
  "sample_harness =
     \<lparr>hn_text = \<lparr>pt_str = (\<lambda>v. []), pt_repr = (\<lambda>v. []), pt_membership_error = (\<lambda>a v. []), pt_lower = (\<lambda>s. s)\<rparr>,
      hn_exn = (\<lambda>e. []), hn_era = OnlyLegacy, hn_overrides = []\<rparr>"

definition guarded_net :: network where
  "guarded_net sent req =
     (if sr_method req = m_initialize then
        NetReply [(ascii ''result'', JDict [(ascii ''protocolVersion'', JStr (ascii ''2025-03-26''))])]
      else if sr_method req = m_tools_list then
        NetReply [(ascii ''result'', JDict [(ascii ''tools'', JList [JDict [(ascii ''name'', JStr (ascii ''admin_delete''))]])])]
      else NetReply [(ascii ''error'', JDict [(ascii ''code'', JInt (- 32001))])])"

lemma result_path: "split_on (\<lambda>c. c = 46) (ascii ''result'') = [ascii ''result'']"
  by simp

lemma sample_run:
  "\<exists>res s'. run_scenario sample_harness guarded_net True True t2_privilege_escalation_chain [] [] = (Some res, s') \<and> sr_passed res"
  by (simp add: run_scenario_def sample_harness_def guarded_net_def t2_privilege_escalation_chain_def step_of_def expect_def
      call_params_def text_arg_def apply_method_overrides_def start_session_def start_legacy_def send_def init_result_def
      new_session_def field_or_def is_falsy_def num_is_def hashable_def finish_legacy_def notify_server_def take_manifest_def
      become_ready_def info_of_def m_initialize_def m_tools_list_def m_initialized_def run_in_started_def available_tools_def
      get_or_def get_def missing_tools_def required_tools_def truthy_def json_eq_def atom_eq_def num_value_def names_set_def
      run_step_def send_raw_def reply_of_def evaluate_step_assertion_def resolve_path_def step_holds_def judge_run_def
      standard_methods_def detect_manifest_drift_def manifests_def manifest_tool_names_def append_some_def
      scenario_outcome_def Let_def result_path del: ascii_simps)

theorem scenario_pass_earned_witness:
  "\<exists>res s' s s'' responses. run_scenario sample_harness guarded_net True True t2_privilege_escalation_chain [] [] = (Some res, s') \<and>
     sr_status res = ScenarioComplete \<and> length responses = 2 \<and>
     exchanged guarded_net (sc_steps t2_privilege_escalation_chain) s responses s''"
proof -
  obtain res s' where r: "run_scenario sample_harness guarded_net True True t2_privilege_escalation_chain [] [] = (Some res, s')"
    "sr_passed res"
    using sample_run by blast
  have sc: "apply_method_overrides (hn_overrides sample_harness) t2_privilege_escalation_chain = t2_privilege_escalation_chain"
    by (simp add: sample_harness_def apply_method_overrides_def)
  have two: "length (sc_steps t2_privilege_escalation_chain) = 2" by (simp add: t2_privilege_escalation_chain_def)
  from scenario_pass_earned [OF r] r(1) two show ?thesis unfolding Let_def sc by auto
qed

end
