(* ===== verification/Assurance_Model.thy ===== *)
theory Assurance_Model
  imports Probe_Result Integrity
begin

text \<open>
  \<open>assurance/models.py\<close>: controls, operator evidence, verdicts and the report of an assurance claim,
  with the report's dictionary form and its inverse.
\<close>

datatype strength = Must | Should

datatype verdict = VPass | VFail | VAttested | VUnverified | VNotRequired

datatype level_result = LevelMet | MetWithAttestation | LevelNotMet | Indeterminate

record requirement =
  rq_strength :: strength
  rq_text :: str

record control =
  ct_id :: str
  ct_dimension :: str
  ct_title :: str
  ct_levels :: "(int \<times> requirement) list"
  ct_mcp_t :: "str list"
  ct_probes :: "str list"
  ct_max_level :: int
  ct_verify :: "str list"
  ct_optional :: "str list"

definition requirement_at :: "control \<Rightarrow> int \<Rightarrow> requirement option" where
  "requirement_at c level = map_of (ct_levels c) level"

record evidence_item =
  ev_control_id :: str
  ev_artifact :: str
  ev_sha256 :: str
  ev_note :: str

record evidence_manifest =
  em_target :: str
  em_items :: "(str, evidence_item) dict"

record control_verdict =
  cv_control_id :: str
  cv_dimension :: str
  cv_title :: str
  cv_strength :: "strength option"
  cv_verdict :: verdict
  cv_reason :: str
  cv_linked :: "str list"
  cv_sha256 :: "str option"

record assurance_report =
  as_level :: int
  as_result :: level_result
  as_version :: str
  as_controls :: "control_verdict list"
  as_scope :: "(str \<times> json) list"

section \<open>Names and dictionaries\<close>

definition strength_name :: "strength \<Rightarrow> str" where
  "strength_name s = ascii (case s of Must \<Rightarrow> ''must'' | Should \<Rightarrow> ''should'')"

definition verdict_name :: "verdict \<Rightarrow> str" where
  "verdict_name v = ascii (case v of VPass \<Rightarrow> ''pass'' | VFail \<Rightarrow> ''fail'' | VAttested \<Rightarrow> ''attested''
     | VUnverified \<Rightarrow> ''unverified'' | VNotRequired \<Rightarrow> ''not_required'')"

definition level_result_name :: "level_result \<Rightarrow> str" where
  "level_result_name r = ascii (case r of LevelMet \<Rightarrow> ''met'' | MetWithAttestation \<Rightarrow> ''met_with_attestation''
     | LevelNotMet \<Rightarrow> ''not_met'' | Indeterminate \<Rightarrow> ''indeterminate'')"

definition all_strengths :: "strength list" where "all_strengths = [Must, Should]"

definition all_verdicts :: "verdict list" where
  "all_verdicts = [VPass, VFail, VAttested, VUnverified, VNotRequired]"

definition all_level_results :: "level_result list" where
  "all_level_results = [LevelMet, MetWithAttestation, LevelNotMet, Indeterminate]"

definition verdict_to_dict :: "control_verdict \<Rightarrow> (str \<times> json) list" where
  "verdict_to_dict c =
     [(ascii ''control_id'', JStr (cv_control_id c)), (ascii ''dimension'', JStr (cv_dimension c)),
      (ascii ''title'', JStr (cv_title c)),
      (ascii ''strength'', (case cv_strength c of None \<Rightarrow> JNull | Some s \<Rightarrow> JStr (strength_name s))),
      (ascii ''verdict'', JStr (verdict_name (cv_verdict c))), (ascii ''reason'', JStr (cv_reason c)),
      (ascii ''linked_results'', JList (map JStr (cv_linked c))), (ascii ''evidence_sha256'', opt_text (cv_sha256 c))]"

definition must_verdicts :: "control_verdict list \<Rightarrow> control_verdict list" where
  "must_verdicts cs = filter (\<lambda>c. cv_strength c = Some Must) cs"

definition count_verdict :: "verdict \<Rightarrow> control_verdict list \<Rightarrow> nat" where
  "count_verdict v cs = length (filter (\<lambda>c. cv_verdict c = v) cs)"

text \<open>The counts in the order in which the verdicts first occur.\<close>

definition report_counts :: "assurance_report \<Rightarrow> (str \<times> nat) list" where
  "report_counts r =
     fold (\<lambda>c out. AList.update (verdict_name (cv_verdict c))
              ((case map_of out (verdict_name (cv_verdict c)) of None \<Rightarrow> 0 | Some n \<Rightarrow> n) + 1) out)
       (must_verdicts (as_controls r)) []"

definition report_to_dict :: "assurance_report \<Rightarrow> (str \<times> json) list" where
  "report_to_dict r =
     [(ascii ''claimed_level'', JInt (as_level r)), (ascii ''result'', JStr (level_result_name (as_result r))),
      (ascii ''profile_version'', JStr (as_version r)),
      (ascii ''must_counts'', JDict (map (\<lambda>v. (verdict_name v, JInt (int (count_verdict v (must_verdicts (as_controls r))))))
         [VPass, VAttested, VFail, VUnverified])),
      (ascii ''scope'', JDict (as_scope r)), (ascii ''controls'', JList (map (JDict \<circ> verdict_to_dict) (as_controls r)))]"

text \<open>Reading a report back; \<open>None\<close> is the exception of a missing key or a value outside the enumeration.
  Values of a wrong type are coerced with \<open>str\<close>, which is the argument \<open>pt\<close>; a report whose level is no
  integer, or whose nested values are no containers, is not modelled further than as an exception.\<close>

definition str_or :: "py_text \<Rightarrow> (str \<times> json) list \<Rightarrow> str \<Rightarrow> str" where
  "str_or pt d k = to_str pt (of_json (get_or d k (JStr [])))"

definition enum_at :: "('e \<Rightarrow> str) \<Rightarrow> 'e list \<Rightarrow> json \<Rightarrow> 'e option" where
  "enum_at name members v = (case v of JStr s \<Rightarrow> enum_of name members s | _ \<Rightarrow> None)"

definition list_items :: "json \<Rightarrow> json list option" where
  "list_items v = (case v of JList xs \<Rightarrow> Some xs | _ \<Rightarrow> None)"

definition verdict_from_dict :: "py_text \<Rightarrow> json \<Rightarrow> control_verdict option" where
  "verdict_from_dict pt v =
     (case v of
        JDict d \<Rightarrow>
          (case (map_of d (ascii ''control_id''), enum_at verdict_name all_verdicts (get d (ascii ''verdict'')),
                 list_items (get_or d (ascii ''linked_results'') (JList []))) of
             (Some i, Some w, Some linked) \<Rightarrow>
               (let strength = get d (ascii ''strength''); sha = get d (ascii ''evidence_sha256'') in
                if truthy strength \<and> enum_at strength_name all_strengths strength = None then None
                else Some \<lparr>cv_control_id = to_str pt (of_json i), cv_dimension = str_or pt d (ascii ''dimension''),
                           cv_title = str_or pt d (ascii ''title''),
                           cv_strength = (if truthy strength then enum_at strength_name all_strengths strength else None),
                           cv_verdict = w, cv_reason = str_or pt d (ascii ''reason''),
                           cv_linked = map (\<lambda>x. to_str pt (of_json x)) linked,
                           cv_sha256 = (if truthy sha then Some (to_str pt (of_json sha)) else None)\<rparr>)
           | _ \<Rightarrow> None)
      | _ \<Rightarrow> None)"

definition report_from_dict :: "py_text \<Rightarrow> (str \<times> json) list \<Rightarrow> assurance_report option" where
  "report_from_dict pt d =
     (case (get d (ascii ''claimed_level''), enum_at level_result_name all_level_results (get d (ascii ''result'')),
            list_items (get_or d (ascii ''controls'') (JList []))) of
        (JInt n, Some r, Some cs) \<Rightarrow>
          (case (those (map (verdict_from_dict pt) cs), get d (ascii ''scope'')) of
             (Some vs, JDict sc) \<Rightarrow>
               Some \<lparr>as_level = n, as_result = r, as_version = str_or pt d (ascii ''profile_version''), as_controls = vs, as_scope = sc\<rparr>
           | (Some vs, JNull) \<Rightarrow>
               Some \<lparr>as_level = n, as_result = r, as_version = str_or pt d (ascii ''profile_version''), as_controls = vs, as_scope = []\<rparr>
           | _ \<Rightarrow> None)
      | _ \<Rightarrow> None)"

text \<open>A report survives its dictionary form, an evidence digest being no empty text.\<close>

lemma enum_strength: "enum_at strength_name all_strengths (JStr (strength_name s)) = Some s"
  by (cases s) (simp_all add: enum_at_def enum_of_def all_strengths_def strength_name_def del: ascii_simps)

lemma enum_verdict: "enum_at verdict_name all_verdicts (JStr (verdict_name s)) = Some s"
  by (cases s) (simp_all add: enum_at_def enum_of_def all_verdicts_def verdict_name_def del: ascii_simps)

lemma strength_name_nonempty: "strength_name s \<noteq> []"
  by (cases s) (simp_all add: strength_name_def)

lemma verdict_round_trip:
  "cv_sha256 c \<noteq> Some [] \<Longrightarrow> verdict_from_dict pt (JDict (verdict_to_dict c)) = Some c"
  by (cases c; cases "cv_strength c"; cases "cv_sha256 c")
    (simp_all add: verdict_from_dict_def verdict_to_dict_def get_def get_or_def str_or_def to_str_def list_items_def
       enum_strength enum_verdict strength_name_nonempty opt_text_def truthy_def Let_def o_def del: ascii_simps)

lemma report_round_trip:
  assumes "list_all (\<lambda>c. cv_sha256 c \<noteq> Some []) (as_controls r)"
  shows "report_from_dict pt (report_to_dict r) = Some r"
proof -
  have vs: "those (map (verdict_from_dict pt) (map (JDict \<circ> verdict_to_dict) cs)) = Some cs"
    if "list_all (\<lambda>c. cv_sha256 c \<noteq> Some []) cs" for cs
    using that by (induction cs) (simp_all add: verdict_round_trip)
  have e: "enum_at level_result_name all_level_results (JStr (level_result_name x)) = Some x" for x
    by (cases x) (simp_all add: enum_at_def enum_of_def all_level_results_def level_result_name_def)
  show ?thesis
    using vs [OF assms] e
    by (cases r) (simp add: report_from_dict_def report_to_dict_def get_def get_or_def str_or_def to_str_def list_items_def)
qed

end
