(* ===== verification/Assurance_Controls.thy ===== *)
theory Assurance_Controls
  imports Assurance_Model
begin

text \<open>
  \<open>assurance/controls.py\<close>: the control table of the assurance profile, one list of rows per dimension,
  in the order of the source.
\<close>

definition profile_version :: str where "profile_version = ascii ''cosai-mcp-security-v2.0''"

definition d_identity :: string where "d_identity = ''Identity and Authentication''"
definition d_authorization :: string where "d_authorization = ''Authorization and Delegation''"
definition d_network :: string where "d_network = ''Transport and Network Security''"
definition d_isolation :: string where "d_isolation = ''Isolation and Sandboxing''"
definition d_logging :: string where "d_logging = ''Logging and Observability''"
definition d_supply_chain :: string where "d_supply_chain = ''Supply Chain and Lifecycle''"
definition d_integrity :: string where "d_integrity = ''Tool Definition, Input, and Output Integrity''"
definition d_state :: string where "d_state = ''State and Discovery Security''"

definition dimensions :: "str list" where
  "dimensions = map ascii [d_identity, d_authorization, d_network, d_isolation, d_logging, d_supply_chain, d_integrity, d_state]"

definition auth_probes :: "string list" where
  "auth_probes = [''T01-001'', ''T01-002'', ''T01-004'', ''T01-006'']"

definition ssrf_probes :: "string list" where
  "ssrf_probes = [''T08-001'', ''T08-004'', ''T08-005'', ''T08-006'', ''T08-007'', ''T08-008'', ''T08-009'']"

definition input_probes :: "string list" where
  "input_probes = [''T03-001'', ''T03-002'', ''T03-003'', ''T03-004'', ''T03-005'', ''T03-006'', ''T03-007'']"

definition limit_probes :: "string list" where
  "limit_probes = [''T10-001'', ''T10-002'', ''T10-003'', ''T10-004'', ''T10-005'']"

definition control_row :: "string \<Rightarrow> string \<Rightarrow> string \<Rightarrow> string list \<Rightarrow> (int \<times> strength \<times> string) list \<Rightarrow>
    string list \<Rightarrow> int \<Rightarrow> string list \<Rightarrow> string list \<Rightarrow> control" where
  "control_row cid dimension title mcp_t levels probes max_level verify optional =
     \<lparr>ct_id = ascii cid, ct_dimension = ascii dimension, ct_title = ascii title,
      ct_levels = map (\<lambda>(l, st, t). (l, \<lparr>rq_strength = st, rq_text = ascii t\<rparr>)) levels,
      ct_mcp_t = map ascii mcp_t, ct_probes = map ascii probes, ct_max_level = max_level,
      ct_verify = map ascii verify, ct_optional = map ascii optional\<rparr>"

definition identity_controls :: "control list" where
  "identity_controls =
    [control_row ''ID-01'' d_identity ''MCP client-server authentication'' [''MCP-T1'']
       [(2, Must, ''OAuth 2.1 with PKCE for all remote server connections''),
        (3, Must, ''OAuth 2.1 + PKCE, short-lived credentials, Client ID Metadata Documents''),
        (4, Must, ''OAuth 2.1 + PKCE, short-lived, enterprise-managed authorization'')]
       auth_probes 0 [] [],
     control_row ''ID-02'' d_identity ''Authorization issuer validation'' [''MCP-T1'']
       [(2, Must, ''Validate issuer metadata during authorization server discovery''),
        (3, Must, ''Validate RFC 9207 iss; bind registration state to issuing AS''),
        (4, Must, ''Issuer binding enforced centrally with alerts on issuer mismatch'')]
       [] 0 [] [],
     control_row ''ID-03'' d_identity ''Agent identity'' [''MCP-T1'']
       [(2, Should, ''Agents registered in a local inventory with unique identifiers''),
        (3, Must, ''Standardized workload identity (e.g. SPIFFE SVIDs) tied to code version''),
        (4, Must, ''Workload identity with attestation of the execution environment'')]
       [] 0 [] [],
     control_row ''ID-04'' d_identity ''User identity propagation'' [''MCP-T1'', ''MCP-T2'']
       [(2, Should, ''Preserve subject identity to downstream authorization''),
        (3, Must, ''Token exchange with distinct actor and subject claims''),
        (4, Must, ''Token exchange with delegation chain preserved for audit'')]
       [] 0 [] [],
     control_row ''ID-05'' d_identity ''Credential storage'' [''MCP-T1'']
       [(2, Must, ''OS keychain or secrets manager''),
        (3, Must, ''Secrets manager with automated rotation''),
        (4, Must, ''Hardware-backed/isolated keystores for long-lived keys'')]
       [] 0 [] [],
     control_row ''ID-06'' d_identity ''Credential lifetime'' [''MCP-T1'']
       [(2, Should, ''Bounded lifetime, scheduled rotation''),
        (3, Must, ''Short-lived tokens; refresh tokens rotated and stored confidentially''),
        (4, Must, ''Short-lived sender-constrained credentials bounded by task risk'')]
       [''T01-003''] 0 [] []]"

definition authorization_controls :: "control list" where
  "authorization_controls =
    [control_row ''AZ-01'' d_authorization ''Tool-level authorization'' [''MCP-T2'', ''MCP-T9'']
       [(2, Should, ''Tool allowlists per agent role''),
        (3, Must, ''ABAC/PBAC plus TBAC parameter-level constraints before execution''),
        (4, Must, ''TBAC with continuous evaluation and automated credential revocation'')]
       [''T02-001'', ''T02-005'', ''T07-002'', ''T07-003'', ''T2-SC-001'', ''T2-SC-002''] 0 [] [],
     control_row ''AZ-02'' d_authorization ''Scope management'' [''MCP-T2'']
       [(2, Should, ''Scoped permissions per server connection''),
        (3, Must, ''Least-privilege scopes; incremental consent via WWW-Authenticate''),
        (4, Must, ''Rich Authorization Requests (RFC 9396) for sensitive operations'')]
       [''T02-005''] 0 [] [],
     control_row ''AZ-03'' d_authorization ''Delegation depth'' [''MCP-T2'']
       [(2, Should, ''Defined maximum depth for agent chains''),
        (3, Must, ''Enforced depth limits with TTL and audience restrictions''),
        (4, Must, ''Depth limits, audience restrictions, sender-constrained tokens per hop'')]
       [] 0 [] [],
     control_row ''AZ-04'' d_authorization ''Token binding (sender-constrained tokens)'' [''MCP-T1'', ''MCP-T2'']
       [(3, Must, ''DPoP or mTLS sender-constrained tokens for delegated sensitive ops''),
        (4, Must, ''Sender-constrained tokens with hardware-attested keys where supported'')]
       [''T01-003''] 0 [] [],
     control_row ''AZ-05'' d_authorization ''Scope narrowing on delegation'' [''MCP-T2'']
       [(2, Should, ''Scope narrows at each hop''),
        (3, Must, ''Scope narrows at each hop; never exceeds delegating principal''),
        (4, Must, ''Scope narrowing cryptographically bound to the transaction path'')]
       [] 0 [] [],
     control_row ''AZ-06'' d_authorization ''Audience restriction'' [''MCP-T1'']
       [(2, Should, ''aud claim validation on received tokens''),
        (3, Must, ''RFC 8707 resource indicators; reject audience mismatch''),
        (4, Must, ''Resource indicators enforced globally with RFC 9728 discovery'')]
       [] 0 [] [''T01-008''],
     control_row ''AZ-07'' d_authorization ''No token passthrough'' [''MCP-T1'', ''MCP-T2'']
       [(2, Must, ''Never forward tokens issued for the MCP server to upstream APIs''),
        (3, Must, ''Downstream auth only via RFC 8693 token exchange''),
        (4, Must, ''Token exchange with sender-constrained bindings downstream'')]
       [] 0 [] [],
     control_row ''AZ-08'' d_authorization ''Human-in-the-loop'' [''MCP-T2'', ''MCP-T9'']
       [(1, Should, ''Warning on untrusted tools''),
        (2, Must, ''Explicit confirmation for destructive or state-mutating actions''),
        (3, Must, ''Central approval policies with step-up for high-impact actions''),
        (4, Must, ''Multi-party approval for irreversible or high-value operations'')]
       [''T02-003'', ''T09''] 0 [] []]"

definition network_controls :: "control list" where
  "network_controls =
    [control_row ''TN-01'' d_network ''Transport encryption'' [''MCP-T7'']
       [(2, Must, ''TLS for all remote connections''),
        (3, Must, ''TLS 1.3; mTLS for server-to-server; certificate validation''),
        (4, Must, ''mTLS governed by workload identity federation'')]
       [''T08-002''] 0 [] [],
     control_row ''TN-02'' d_network ''Network binding'' [''MCP-T8'']
       [(1, Must, ''HTTP transport binds to 127.0.0.1 only; never 0.0.0.0''),
        (2, Must, ''Explicit internal interface binding behind authenticated ingress''),
        (3, Must, ''Network segmentation between MCP components''),
        (4, Must, ''Dedicated segments, default-deny egress via proxy with logging'')]
       [''T08-003''] 0 [] [],
     control_row ''TN-03'' d_network ''Origin and CSRF protection'' [''MCP-T7'', ''MCP-T8'']
       [(1, Must, ''Validate Origin and Host headers on HTTP transport''),
        (2, Must, ''Origin, Host validation and CSRF protection on all HTTP endpoints''),
        (3, Must, ''Strict origin policies; authentication for all remote access''),
        (4, Must, ''Strict origin policies, request signing, DNS pinning'')]
       [''T07-001''] 0 [] [],
     control_row ''TN-04'' d_network ''Protocol request metadata validation'' [''MCP-T7'']
       [(2, Must, ''Validate MCP-Protocol-Version, Mcp-Method, Mcp-Name (Streamable HTTP)''),
        (3, Must, ''Reject header/body mismatches before auth, routing, caching, execution''),
        (4, Must, ''Gateway enforcement with alerts on HeaderMismatch and bad versions'')]
       [''T07-004'', ''T07-005''] 3 [''T07-004'', ''T07-005''] [],
     control_row ''TN-05'' d_network ''Payload limits'' [''MCP-T10'']
       [(2, Must, ''Defined payload size and basic recursion depth limits''),
        (3, Must, ''Payload/depth limits with per-client/principal/tenant rate limits''),
        (4, Must, ''Limits with anomaly-based throttling and tenant-aware cost controls'')]
       limit_probes 0 [] [],
     control_row ''TN-06'' d_network ''Message integrity'' [''MCP-T7'']
       [(2, Should, ''Payload hashing and strict content-length validation''),
        (3, Must, ''Application-layer signatures over the full JSON-RPC body''),
        (4, Must, ''Signatures with unique nonces and time-window replay protection'')]
       [] 0 [] [],
     control_row ''TN-07'' d_network ''Local HTTP exposure'' [''MCP-T8'']
       [(1, Must, ''If HTTP: validate Origin, bind localhost; prefer stdio/UDS'')]
       [''T08-003'', ''T07-001''] 0 [] []]"

definition isolation_controls :: "control list" where
  "isolation_controls =
    [control_row ''IS-01'' d_isolation ''Execution isolation'' [''MCP-T8'', ''MCP-T9'']
       [(1, Must, ''MUST NOT access production credentials or live data (SHOULD: restricted local user context)''),
        (2, Must, ''Application sandboxing or containers with resource limits''),
        (3, Must, ''Strong container isolation (gVisor/Kata); no shared runtime''),
        (4, Must, ''Strong tenant isolation with attested workload identity'')]
       [] 0 [] [],
     control_row ''IS-02'' d_isolation ''Data isolation'' [''MCP-T5'']
       [(1, Must, ''Synthetic/mock data only (else reclassify as Level 2+)''),
        (2, Must, ''Per-user data separation''),
        (3, Must, ''Per-tenant isolation with encryption''),
        (4, Must, ''Per-tenant encryption with tenant-specific keys'')]
       [] 0 [] [],
     control_row ''IS-03'' d_isolation ''Context isolation'' [''MCP-T5'']
       [(2, Should, ''Scope cached tool outputs and context to user and workflow''),
        (3, Must, ''Context scoped to user, tenant, task, and agent boundary''),
        (4, Must, ''Cross-tenant context sharing prohibited'')]
       [''T05-001'', ''T05-002'', ''T05''] 0 [] [],
     control_row ''IS-04'' d_isolation ''Snapshot and rollback'' [''MCP-T9'']
       [(1, Should, ''Environment supports snapshot/rewind for experimentation''),
        (3, Should, ''Rollback capability for MCP server updates''),
        (4, Must, ''Rollback, staged rollouts, canary deployments'')]
       [] 0 [] []]"

definition logging_controls :: "control list" where
  "logging_controls =
    [control_row ''LO-01'' d_logging ''Action logging'' [''MCP-T12'']
       [(2, Must, ''Structured logs of tool, caller, decision, target, outcome (redacted)''),
        (3, Must, ''Comprehensive logging incl. auth/cache decisions and header mismatches''),
        (4, Must, ''Immutable, tamper-evident logging of all interactions'')]
       [] 0 [] [],
     control_row ''LO-02'' d_logging ''Delegation chain logging'' [''MCP-T12'']
       [(2, Should, ''Correlation IDs linking related events''),
        (3, Must, ''Full delegation-chain reconstruction with scope/audience per hop''),
        (4, Must, ''Reconstruction with policy version and attestation state per hop'')]
       [] 0 [] [],
     control_row ''LO-03'' d_logging ''Distributed tracing'' [''MCP-T12'']
       [(2, Should, ''Propagate correlation IDs across host, client, server''),
        (3, Must, ''W3C Trace Context in _meta; bounded allowlisted baggage''),
        (4, Must, ''Trace context correlated with identity, policy, runtime telemetry'')]
       [] 0 [] [],
     control_row ''LO-04'' d_logging ''Log schema'' [''MCP-T12'']
       [(2, Should, ''Structured format mapped to OCSF or CEF''),
        (3, Must, ''OCSF/CEF with agentic extension fields''),
        (4, Must, ''Mandatory agentic fields correlated in SIEM'')]
       [] 0 [] [],
     control_row ''LO-05'' d_logging ''Monitoring and alerting'' [''MCP-T12'']
       [(2, Should, ''Centralized log aggregation''),
        (3, Must, ''SIEM integration and anomaly detection on agent behavior''),
        (4, Must, ''Continuous monitoring with automated containment hooks'')]
       [] 0 [] []]"

definition supply_chain_controls :: "control list" where
  "supply_chain_controls =
    [control_row ''SC-01'' d_supply_chain ''Server provenance'' [''MCP-T6'', ''MCP-T11'']
       [(1, Should, ''Warn when running unverified servers''),
        (2, Should, ''Provenance checks for tool definitions and server packages''),
        (3, Must, ''Code-signing verification before installation; SBOM tracking''),
        (4, Must, ''Signing, SBOM, reproducible builds, binary authorization'')]
       [] 0 [] [],
     control_row ''SC-02'' d_supply_chain ''Server inventory'' [''MCP-T11'']
       [(2, Should, ''Documented inventory with owner and trust status''),
        (3, Must, ''Centralized inventory with version/owner/purpose metadata''),
        (4, Must, ''Automated discovery and alerting on unregistered servers'')]
       [] 0 [] [],
     control_row ''SC-03'' d_supply_chain ''Extension inventory'' [''MCP-T11'']
       [(2, Should, ''Approved extensions by reverse-DNS identifier and version''),
        (3, Must, ''Extension IDs, versions, maintainers, capabilities tracked''),
        (4, Must, ''Policy enforcement with block-by-default for unapproved extensions'')]
       [] 0 [] [],
     control_row ''SC-04'' d_supply_chain ''Update management'' [''MCP-T11'']
       [(2, Should, ''Version tracking''),
        (3, Must, ''Dependency pinning with hash verification, vulnerability scanning''),
        (4, Must, ''Pinning, automated scanning, staged rollout, forced CVE upgrades'')]
       [] 0 [] [],
     control_row ''SC-05'' d_supply_chain ''Decommissioning'' [''MCP-T11'']
       [(2, Should, ''Documented removal process''),
        (3, Must, ''Complete removal of deprecated servers; credential revocation''),
        (4, Must, ''Automated lifecycle policies; downstream delegation revocation'')]
       [] 0 [] []]"

definition integrity_controls :: "control list" where
  "integrity_controls =
    [control_row ''TI-01'' d_integrity ''Tool schema integrity'' [''MCP-T3'', ''MCP-T4'', ''MCP-T6'']
       [(1, Should, ''Review tool descriptions and schemas before use''),
        (2, Should, ''Pin trusted tool definitions and alert on changes''),
        (3, Must, ''Cryptographically pin approved definitions; re-approve changes''),
        (4, Must, ''Signed tool-definition manifests; unsigned rejected at runtime'')]
       [''T06-001'', ''T06-002'', ''T06'', ''T04'', ''T11-001'', ''T11'', ''T6-SC-001''] 0 [] [],
     control_row ''TI-02'' d_integrity ''Schema validation'' [''MCP-T3'']
       [(1, Should, ''Validate obvious dangerous inputs''),
        (2, Must, ''Validate against JSON Schema; reject undeclared parameters''),
        (3, Must, ''Bounded JSON Schema 2020-12 validation; no external $ref deref''),
        (4, Must, ''Signed schema manifests and bounded validation budgets'')]
       [''T03''] 0 [] [],
     control_row ''TI-03'' d_integrity ''Input validation'' [''MCP-T3'']
       [(1, Should, ''Validate obvious dangerous inputs''),
        (2, Must, ''Sanitize file paths against directory traversal''),
        (3, Must, ''Strict schemas; validate paths, URLs, commands, x-mcp-header params''),
        (4, Must, ''Policy-aware validation with per-tool allowlists and deep inspection'')]
       input_probes 0 [] [],
     control_row ''TI-04'' d_integrity ''Output handling'' [''MCP-T4'']
       [(1, Should, ''Treat tool output as untrusted''),
        (2, Must, ''Sanitize tool outputs before returning them to the model''),
        (3, Must, ''Classify and sanitize output against injection, SSRF, commands''),
        (4, Must, ''Content classification and policy enforcement on outputs'')]
       [''T05-001'', ''T05-002''] 0 [] [],
     control_row ''TI-05'' d_integrity ''Cacheable result handling'' [''MCP-T5'', ''MCP-T7'']
       [(2, Should, ''Honor ttlMs/cacheScope; default private/no-store''),
        (3, Must, ''Prevent cross-user/tenant caching; revalidate pinned definitions''),
        (4, Must, ''Centralized cache policy with tenant-isolated keys'')]
       [] 0 [] [''T05-003''],
     control_row ''TI-06'' d_integrity ''SSRF and traversal defense'' [''MCP-T3'', ''MCP-T8'']
       [(2, Must, ''Restrict URL schemes to HTTPS; sanitize file paths''),
        (3, Must, ''Deny loopback, link-local, and cloud metadata destinations''),
        (4, Must, ''All egress through strict allowlists at inspected proxies'')]
       (ssrf_probes @ [''T03-002'']) 0 [] []]"

definition state_controls :: "control list" where
  "state_controls =
    [control_row ''SD-01'' d_state ''Explicit state handle integrity'' [''MCP-T7'']
       [(2, Must, ''Handles are CSPRNG, opaque, principal-scoped; auth on every request''),
        (3, Must, ''Tenant-bound, expiring, revocable handles; revocation cancels tasks''),
        (4, Must, ''Continuous re-evaluation and automated revocation on anomaly'')]
       [''T7-SC-001'', ''T7-SC-002''] 0 [] [''T07-007''],
     control_row ''SD-02'' d_state ''Request metadata trust'' [''MCP-T1'']
       [(2, Must, ''_meta identity/capability claims never used alone for authorization''),
        (3, Must, ''Reject _meta claims conflicting with the authenticated principal''),
        (4, Must, ''Gateway reconciliation of _meta claims with workload identity'')]
       [] 0 [] [''T01-007''],
     control_row ''SD-03'' d_state ''Client-held state integrity'' [''MCP-T7'']
       [(2, Must, ''Sealed state (e.g. requestState) HMAC/AEAD-protected; reject on failure''),
        (3, Must, ''Principal, expiry, and request ID sealed inside the payload''),
        (4, Must, ''Centrally managed rotated sealing keys; failures alerted'')]
       [] 0 [] [],
     control_row ''SD-04'' d_state ''Server and authorization discovery'' [''MCP-T1'', ''MCP-T6'']
       [(2, Should, ''Support server/discover and RFC 9728 Protected Resource Metadata''),
        (3, Must, ''Implement server/discover and Protected Resource Metadata''),
        (4, Must, ''Discovery and OIDC validation with centralized policy'')]
       [''T01''] 0 [] [],
     control_row ''SD-05'' d_state ''Elicitation security'' [''MCP-T4'', ''MCP-T9'']
       [(2, Should, ''Treat elicitation as untrusted; no credentials via form mode''),
        (3, Must, ''Input-required flows isolated from privileged tool invocation''),
        (4, Must, ''Elicited content fully validated before influencing execution'')]
       [] 0 [] [],
     control_row ''SD-06'' d_state ''Deprecated feature migration'' [''MCP-T6'', ''MCP-T11'']
       [(2, Should, ''Avoid new dependencies on Roots, Sampling, protocol Logging''),
        (3, Must, ''Migrate Roots, Sampling, Logging to supported replacements''),
        (4, Must, ''Deprecated usage inventoried, exception-approved, time-boxed'')]
       [''T11-002'', ''T07-006''] 0 [] [],
     control_row ''SD-07'' d_state ''Refresh tokens'' [''MCP-T1'']
       [(2, Must, ''If issued, MUST be protected as confidential credentials (SHOULD be rotated)''),
        (3, Must, ''Rotated, stored securely, not a substitute for runtime authorization''),
        (4, Must, ''Rotation enforced; revocation propagated within SLA'')]
       [] 0 [] []]"

definition controls :: "control list" where
  "controls =
     identity_controls @ authorization_controls @ network_controls @ isolation_controls @ logging_controls @ supply_chain_controls @ integrity_controls @ state_controls"

definition control_ids :: "str list" where
  "control_ids = map ct_id controls"

end
