(* ===== verification/Assurance.thy ===== *)
theory Assurance
  imports Assurance_Controls Stateful
begin

text \<open>
  \<open>assurance/evaluate.py\<close>: the verdict of every control and of the claimed level over the results of a
  scan. A Python set of identifiers is a list without order; where the code sorts one, \<open>names_set\<close> does.
\<close>

section \<open>The outcomes of the linked tests\<close>

definition always_emitting_passive :: "str list" where
  "always_emitting_passive = [ascii ''T01'']"

text \<open>\<open>^T\d{2}$\<close>, which is only matched against identifiers of the control table; they are ASCII.\<close>

definition passive_id :: "str \<Rightarrow> bool" where
  "passive_id s =
     (case s of
        t # a # b # rest \<Rightarrow> t = 84 \<and> is_digit a \<and> is_digit b \<and> (rest = [] \<or> rest = [10])
      | _ \<Rightarrow> False)"

record tally =
  ty_conclusive :: "str list"
  ty_failed :: "(str \<times> str list) list"
  ty_unproven :: "str list"
  ty_seen :: "str list"

definition add_failure :: "str \<Rightarrow> str \<Rightarrow> (str \<times> str list) list \<Rightarrow> (str \<times> str list) list" where
  "add_failure i pid d = (case map_of d i of None \<Rightarrow> d @ [(i, [pid])] | Some xs \<Rightarrow> AList.update i (xs @ [pid]) d)"

definition note_result :: "str list \<Rightarrow> str \<Rightarrow> bool \<Rightarrow> bool \<Rightarrow> str \<Rightarrow> tally \<Rightarrow> tally" where
  "note_result ids i concluded passed pid t =
     (if i \<notin> set ids then t
      else let t1 = t\<lparr>ty_seen := i # ty_seen t\<rparr> in
        if \<not> concluded then t1\<lparr>ty_unproven := i # ty_unproven t1\<rparr>
        else let t2 = t1\<lparr>ty_conclusive := i # ty_conclusive t1\<rparr> in
          if passed then t2 else t2\<lparr>ty_failed := add_failure i pid (ty_failed t2)\<rparr>)"

definition probe_concluded :: "probe_result \<Rightarrow> bool" where
  "probe_concluded r \<longleftrightarrow> pr_error r = None \<and> (pr_inconclusive r = None \<or> pr_inconclusive r = Some [])"

definition scenario_concluded :: "scenario_result \<Rightarrow> bool" where
  "scenario_concluded s \<longleftrightarrow> sr_status s = ScenarioComplete"

definition tally_of :: "str list \<Rightarrow> probe_result list \<Rightarrow> scenario_result list \<Rightarrow> tally" where
  "tally_of ids probes scenarios =
     fold (\<lambda>s. note_result ids (sr_scenario_id s) (scenario_concluded s) (sr_passed s) (sr_scenario_id s)) scenarios
       (fold (\<lambda>r. note_result ids (pr_threat_id r) (probe_concluded r) (pr_passed r) (pr_probe_id r)) probes
          \<lparr>ty_conclusive = [], ty_failed = [], ty_unproven = [], ty_seen = []\<rparr>)"

definition fully_passed :: "tally \<Rightarrow> str list" where
  "fully_passed t = filter (\<lambda>i. i \<notin> set (ty_unproven t) \<and> i \<notin> fst ` set (ty_failed t)) (ty_seen t)"

section \<open>The verdict of a control\<close>

definition linked_ids :: "control \<Rightarrow> str list" where
  "linked_ids c = ct_probes c @ ct_verify c"

definition control_tally :: "control \<Rightarrow> probe_result list \<Rightarrow> scenario_result list \<Rightarrow> tally" where
  "control_tally c probes scenarios = tally_of (linked_ids c @ ct_optional c) probes scenarios"

definition promoted :: "control \<Rightarrow> str list \<Rightarrow> str list" where
  "promoted c required_optional = filter (\<lambda>i. i \<in> set required_optional) (ct_optional c)"

definition required_to_run :: "control \<Rightarrow> str list \<Rightarrow> str list" where
  "required_to_run c required_optional =
     filter (\<lambda>i. \<not> passive_id i \<or> i \<in> set always_emitting_passive) (linked_ids c) @ promoted c required_optional"

definition not_run :: "control \<Rightarrow> str list \<Rightarrow> tally \<Rightarrow> str list" where
  "not_run c required_optional t =
     names_set (filter (\<lambda>i. i \<notin> set (ty_conclusive t))
       (required_to_run c required_optional @
        filter (\<lambda>i. passive_id i \<and> i \<in> set (ty_seen t)) (linked_ids c)))"

definition skipped_optional :: "control \<Rightarrow> str list \<Rightarrow> tally \<Rightarrow> str list" where
  "skipped_optional c required_optional t =
     names_set (filter (\<lambda>i. i \<notin> set (ty_conclusive t) \<and> i \<notin> set (promoted c required_optional)) (ct_optional c))"

definition skipped_note :: "str list \<Rightarrow> str" where
  "skipped_note skipped =
     (if skipped = [] then []
      else ascii '' Optional disproof test(s) not conclusively run in this scan: '' @ join [44, 32] skipped @ [46])"

definition not_run_reason :: "str list \<Rightarrow> str \<Rightarrow> str" where
  "not_run_reason missing text =
     ascii ''Unverified: linked test(s) did not run or produced no conclusive result in this scan ('' @ join [44, 32] missing @
     ascii '') '' @ [8212] @ ascii '' evidence cannot stand in for a test that could disprove it. Requirement: '' @ text @ [46]"

definition why_unverified :: "control \<Rightarrow> int \<Rightarrow> str list \<Rightarrow> str" where
  "why_unverified c level passed =
     (if ct_verify c = [] then
        (if ct_probes c \<noteq> [] then
           dashed ''no black-box probe can prove this control (linked probes can only disprove it)'' ''supply evidence (--evidence)''
         else dashed ''organisational/runtime control'' ''supply evidence (--evidence)'')
      else if level > ct_max_level c then
        ascii ''black-box probes verify only up to Level '' @ dump_int (ct_max_level c) @ [32, 8212] @ ascii '' supply evidence (--evidence)''
      else ascii ''positive-signal probe(s) inconclusive: '' @
           join [44, 32] (names_set (filter (\<lambda>i. i \<notin> set passed) (ct_verify c))))"

definition make_verdict :: "control \<Rightarrow> strength option \<Rightarrow> verdict \<Rightarrow> str \<Rightarrow> str list \<Rightarrow> str option \<Rightarrow> control_verdict" where
  "make_verdict c st v reason linked sha =
     \<lparr>cv_control_id = ct_id c, cv_dimension = ct_dimension c, cv_title = ct_title c, cv_strength = st, cv_verdict = v,
      cv_reason = reason, cv_linked = linked, cv_sha256 = sha\<rparr>"

definition control_verdict_of :: "control \<Rightarrow> int \<Rightarrow> probe_result list \<Rightarrow> scenario_result list \<Rightarrow>
    (str, evidence_item) dict \<Rightarrow> str list \<Rightarrow> control_verdict" where
  "control_verdict_of c level probes scenarios evidence required_optional =
     (case requirement_at c level of
        None \<Rightarrow> make_verdict c None VNotRequired (ascii ''Not required at Level '' @ dump_int level @ [46]) [] None
      | Some req \<Rightarrow>
          (let t = control_tally c probes scenarios;
               item = map_of evidence (ct_id c);
               sha = map_option ev_sha256 item;
               passed = fully_passed t;
               note = skipped_note (skipped_optional c required_optional t);
               missing = not_run c required_optional t
           in if ty_failed t \<noteq> [] then
                make_verdict c (Some (rq_strength req)) VFail
                  (ascii ''Scanner finding(s) contradict: '' @ rq_text req @ [46]) (concat (map snd (ty_failed t))) sha
              else if missing \<noteq> [] then
                make_verdict c (Some (rq_strength req)) VUnverified (not_run_reason missing (rq_text req) @ note)
                  (names_set passed) sha
              else if item \<noteq> None then
                make_verdict c (Some (rq_strength req)) VAttested
                  (ascii ''Operator evidence recorded ('' @ ev_artifact (the item) @
                   ascii ''); not verified by the scanner. Requirement: '' @ rq_text req @ [46] @ note) (names_set passed) sha
              else if ct_verify c \<noteq> [] \<and> level \<le> ct_max_level c \<and> set (ct_verify c) \<subseteq> set passed then
                make_verdict c (Some (rq_strength req)) VPass
                  (ascii ''Verified by positive-signal probes: '' @ rq_text req @ [46] @ note) (names_set (ct_verify c)) None
              else make_verdict c (Some (rq_strength req)) VUnverified
                  (ascii ''Unverified: '' @ why_unverified c level passed @ ascii ''. Requirement: '' @ rq_text req @ [46] @ note)
                  (names_set passed) None))"

section \<open>The claimed level\<close>

definition level_verdict :: "control_verdict list \<Rightarrow> level_result" where
  "level_verdict verdicts =
     (let musts = must_verdicts verdicts in
      if list_ex (\<lambda>v. cv_verdict v = VFail) musts then LevelNotMet
      else if list_all (\<lambda>v. cv_verdict v = VPass) musts then LevelMet
      else if list_all (\<lambda>v. cv_verdict v \<in> {VPass, VAttested}) musts then MetWithAttestation
      else Indeterminate)"

text \<open>\<open>None\<close> is the \<open>ValueError\<close> of a level outside 1 to 4.\<close>

definition evaluate_assurance :: "int \<Rightarrow> probe_result list \<Rightarrow> scenario_result list \<Rightarrow>
    (str, evidence_item) dict \<Rightarrow> (str \<times> json) list \<Rightarrow> str list \<Rightarrow> assurance_report option" where
  "evaluate_assurance level probes scenarios evidence scope required_optional =
     (if level \<notin> {1, 2, 3, 4} then None
      else let verdicts = map (\<lambda>c. control_verdict_of c level probes scenarios evidence required_optional) controls
           in Some \<lparr>as_level = level, as_result = level_verdict verdicts, as_version = profile_version,
                    as_controls = verdicts, as_scope = scope\<rparr>)"

section \<open>What the results say\<close>

text \<open>The results of a scan as identifier, conclusive, passed.\<close>

type_synonym outcome = "str \<times> bool \<times> bool"

definition outcomes :: "probe_result list \<Rightarrow> scenario_result list \<Rightarrow> outcome list" where
  "outcomes probes scenarios =
     map (\<lambda>r. (pr_threat_id r, probe_concluded r, pr_passed r)) probes @
     map (\<lambda>s. (sr_scenario_id s, scenario_concluded s, sr_passed s)) scenarios"

definition concluded_on :: "outcome list \<Rightarrow> str \<Rightarrow> bool" where
  "concluded_on os i \<longleftrightarrow> list_ex (\<lambda>(j, k, p). j = i \<and> k) os"

definition reported_on :: "outcome list \<Rightarrow> str \<Rightarrow> bool" where
  "reported_on os i \<longleftrightarrow> list_ex (\<lambda>(j, k, p). j = i) os"

definition all_passed_on :: "outcome list \<Rightarrow> str \<Rightarrow> bool" where
  "all_passed_on os i \<longleftrightarrow> reported_on os i \<and> list_all (\<lambda>(j, k, p). j \<noteq> i \<or> k \<and> p) os"

text \<open>A conclusive finding on any link disproves a control.\<close>

definition disproved :: "outcome list \<Rightarrow> control \<Rightarrow> bool" where
  "disproved os c \<longleftrightarrow> list_ex (\<lambda>(i, k, p). i \<in> set (linked_ids c @ ct_optional c) \<and> k \<and> \<not> p) os"

text \<open>A test that could disprove the control is missing: a linked catalog or scenario test, or an optional one whose
  surface the target has, without a conclusive result, or a passive scan that reported only that it could not run.\<close>

definition untested :: "str list \<Rightarrow> outcome list \<Rightarrow> control \<Rightarrow> bool" where
  "untested opt os c \<longleftrightarrow>
     list_ex (\<lambda>i. \<not> concluded_on os i \<and> (\<not> passive_id i \<or> i \<in> set always_emitting_passive \<or> reported_on os i)) (linked_ids c) \<or>
     list_ex (\<lambda>i. \<not> concluded_on os i \<and> i \<in> set opt) (ct_optional c)"

definition proved :: "int \<Rightarrow> outcome list \<Rightarrow> control \<Rightarrow> bool" where
  "proved level os c \<longleftrightarrow> ct_verify c \<noteq> [] \<and> level \<le> ct_max_level c \<and> list_all (all_passed_on os) (ct_verify c)"

definition attested :: "(str, evidence_item) dict \<Rightarrow> control \<Rightarrow> bool" where
  "attested evidence c \<longleftrightarrow> ct_id c \<in> fst ` set evidence"

definition must_at :: "int \<Rightarrow> control \<Rightarrow> bool" where
  "must_at level c = (case requirement_at c level of None \<Rightarrow> False | Some r \<Rightarrow> rq_strength r = Must)"

definition tally_outcomes :: "str list \<Rightarrow> (outcome \<times> str) list \<Rightarrow> tally" where
  "tally_outcomes ids zs =
     fold (\<lambda>((i, k, p), pid). note_result ids i k p pid) zs
       \<lparr>ty_conclusive = [], ty_failed = [], ty_unproven = [], ty_seen = []\<rparr>"

lemma tally_of_outcomes:
  "\<exists>zs. map fst zs = outcomes probes scenarios \<and> tally_of ids probes scenarios = tally_outcomes ids zs"
  by (rule exI [of _ "map (\<lambda>r. ((pr_threat_id r, probe_concluded r, pr_passed r), pr_probe_id r)) probes @
        map (\<lambda>s. ((sr_scenario_id s, scenario_concluded s, sr_passed s), sr_scenario_id s)) scenarios"])
    (simp add: outcomes_def tally_of_def tally_outcomes_def fold_map o_def)

lemma add_failure_keys: "fst ` set (add_failure i pid d) = insert i (fst ` set d)"
  by (auto simp: add_failure_def dom_update [symmetric] image_iff dom_map_of_conv_image_fst [symmetric] update_conv' split: option.splits
      dest: map_of_SomeD)

lemma outcome_snoc:
  "concluded_on (os @ [(i, k, p)]) j \<longleftrightarrow> concluded_on os j \<or> j = i \<and> k"
  "reported_on (os @ [(i, k, p)]) j \<longleftrightarrow> reported_on os j \<or> j = i"
  by (auto simp: concluded_on_def reported_on_def)

lemma note_result_facts:
  "set (ty_conclusive (note_result ids i k p pid t)) = set (ty_conclusive t) \<union> (if i \<in> set ids \<and> k then {i} else {})"
  "fst ` set (ty_failed (note_result ids i k p pid t)) = fst ` set (ty_failed t) \<union> (if i \<in> set ids \<and> k \<and> \<not> p then {i} else {})"
  "set (ty_unproven (note_result ids i k p pid t)) = set (ty_unproven t) \<union> (if i \<in> set ids \<and> \<not> k then {i} else {})"
  "set (ty_seen (note_result ids i k p pid t)) = set (ty_seen t) \<union> (if i \<in> set ids then {i} else {})"
  by (simp_all add: note_result_def Let_def add_failure_keys)

lemma tally_outcomes_facts:
  "set (ty_conclusive (tally_outcomes ids zs)) = {i \<in> set ids. concluded_on (map fst zs) i}"
  "fst ` set (ty_failed (tally_outcomes ids zs)) = {i \<in> set ids. (i, True, False) \<in> set (map fst zs)}"
  "set (ty_unproven (tally_outcomes ids zs)) = {i \<in> set ids. (i, False, False) \<in> set (map fst zs) \<or> (i, False, True) \<in> set (map fst zs)}"
  "set (ty_seen (tally_outcomes ids zs)) = {i \<in> set ids. reported_on (map fst zs) i}"
proof (induction zs rule: rev_induct)
  case Nil
  { case 1 show ?case by (simp add: tally_outcomes_def concluded_on_def)
  next case 2 show ?case by (simp add: tally_outcomes_def)
  next case 3 show ?case by (simp add: tally_outcomes_def)
  next case 4 show ?case by (simp add: tally_outcomes_def reported_on_def) }
next
  case (snoc z zs)
  obtain i k p pid where z: "z = ((i, k, p), pid)" by (metis prod.collapse)
  have step: "tally_outcomes ids (zs @ [((i, k, p), pid)]) = note_result ids i k p pid (tally_outcomes ids zs)"
    by (simp add: tally_outcomes_def)
  { case 1 show ?case unfolding z step note_result_facts snoc(1) by (simp add: outcome_snoc) blast
  next case 2 show ?case unfolding z step note_result_facts snoc(2) by simp blast
  next case 3 show ?case unfolding z step note_result_facts snoc(3) by (cases p) auto
  next case 4 show ?case unfolding z step note_result_facts snoc(4) by (simp add: outcome_snoc) blast }
qed

lemma all_passed_on_iff:
  "all_passed_on os i \<longleftrightarrow>
     reported_on os i \<and> (i, False, False) \<notin> set os \<and> (i, False, True) \<notin> set os \<and> (i, True, False) \<notin> set os"
proof -
  have "list_all (\<lambda>(j, k, p). j \<noteq> i \<or> k \<and> p) os \<longleftrightarrow> (\<forall>k p. (i, k, p) \<in> set os \<longrightarrow> k \<and> p)"
    by (fastforce simp: list_all_iff)
  also have "\<dots> \<longleftrightarrow> (i, False, False) \<notin> set os \<and> (i, False, True) \<notin> set os \<and> (i, True, False) \<notin> set os"
    by (metis (full_types))
  finally show ?thesis by (simp add: all_passed_on_def)
qed

lemma set_names_set [simp]: "set (names_set xs) = set xs"
  by (simp add: names_set_def)

lemma names_set_Nil [simp]: "names_set xs = [] \<longleftrightarrow> xs = []"
  by (metis set_names_set set_empty)

lemma control_verdict_cases:
  fixes probes scenarios
  defines "os \<equiv> outcomes probes scenarios"
  assumes "requirement_at c level = Some req"
  shows "cv_strength (control_verdict_of c level probes scenarios evidence opt) = Some (rq_strength req) \<and>
    cv_verdict (control_verdict_of c level probes scenarios evidence opt) =
      (if disproved os c then VFail else if untested opt os c then VUnverified
       else if attested evidence c then VAttested else if proved level os c then VPass else VUnverified)"
proof -
  obtain zs where zs: "map fst zs = os" "control_tally c probes scenarios = tally_outcomes (linked_ids c @ ct_optional c) zs"
    unfolding os_def control_tally_def using tally_of_outcomes by blast
  define t where "t = control_tally c probes scenarios"
  note f = tally_outcomes_facts [of "linked_ids c @ ct_optional c" zs, folded zs(2) t_def, unfolded zs(1)]
  have failed: "ty_failed t = [] \<longleftrightarrow> \<not> disproved os c"
  proof -
    have "ty_failed t = [] \<longleftrightarrow> fst ` set (ty_failed t) = {}" by simp
    also have "\<dots> \<longleftrightarrow> \<not> disproved os c" using f by (auto simp: disproved_def list_ex_iff)
    finally show ?thesis .
  qed
  have missing: "not_run c opt t = [] \<longleftrightarrow> \<not> untested opt os c"
  proof -
    have "not_run c opt t = [] \<longleftrightarrow> set (not_run c opt t) = {}" by simp
    also have "\<dots> \<longleftrightarrow> \<not> untested opt os c"
      using f by (auto simp: not_run_def required_to_run_def promoted_def untested_def list_ex_iff)
    finally show ?thesis .
  qed
  have passed: "set (ct_verify c) \<subseteq> set (fully_passed t) \<longleftrightarrow> list_all (all_passed_on os) (ct_verify c)"
  proof -
    have "i \<in> set (fully_passed t) \<longleftrightarrow> all_passed_on os i" if "i \<in> set (ct_verify c)" for i
    proof -
      have "i \<in> set (linked_ids c @ ct_optional c)" using that by (simp add: linked_ids_def)
      then show ?thesis using f by (auto simp: fully_passed_def all_passed_on_iff)
    qed
    then show ?thesis by (auto simp: list_all_iff)
  qed
  show ?thesis
    using failed missing passed assms(2) unfolding control_verdict_of_def
    by (simp add: t_def [symmetric] Let_def make_verdict_def proved_def attested_def map_of_eq_None_iff)
qed

lemma control_verdict_none:
  "requirement_at c level = None \<Longrightarrow> cv_strength (control_verdict_of c level probes scenarios evidence opt) = None"
  by (simp add: control_verdict_of_def make_verdict_def)

lemma must_verdicts_controls:
  "must_verdicts (map (\<lambda>c. control_verdict_of c level probes scenarios evidence opt) cs) =
   map (\<lambda>c. control_verdict_of c level probes scenarios evidence opt) (filter (must_at level) cs)"
proof (induction cs)
  case (Cons c cs)
  then show ?case using control_verdict_cases [of c level] control_verdict_none [of c level]
    by (cases "requirement_at c level") (simp_all add: must_verdicts_def must_at_def)
qed (simp add: must_verdicts_def)

text \<open>Every level has a requirement that no probe can prove: \<open>TN-02\<close>.\<close>

lemma unprovable_control:
  assumes "level \<in> {1, 2, 3, 4}"
  shows "\<exists>c \<in> set controls. must_at level c \<and> ct_verify c = []"
proof -
  let ?c = "network_controls ! 1"
  have "?c \<in> set controls" by (simp add: controls_def network_controls_def)
  moreover have "must_at level ?c \<and> ct_verify ?c = []"
    using assms by (auto simp: network_controls_def control_row_def must_at_def requirement_at_def simp del: ascii_simps)
  ultimately show ?thesis by blast
qed

text \<open>C38. The verdict on a claimed level, from the results alone: it fails exactly when a conclusive result
  contradicts a mandatory control; it is reached, with attestation, exactly when every mandatory control has
  all its disproving tests conclusively run and passed and is either attested or proved by its positive-signal
  probes; otherwise it is indeterminate. \<open>MET\<close> is never the verdict, at any level and for any results:
  each level has a mandatory control without a positive-signal probe. Recommended controls never count.\<close>

theorem assurance_level_exact:
  "map_option as_result (evaluate_assurance level probes scenarios evidence scope opt) =
     (let os = outcomes probes scenarios; musts = filter (must_at level) controls in
      if level \<notin> {1, 2, 3, 4} then None
      else if list_ex (disproved os) musts then Some LevelNotMet
      else if list_all (\<lambda>c. \<not> untested opt os c \<and> (attested evidence c \<or> proved level os c)) musts
      then Some MetWithAttestation
      else Some Indeterminate)"
proof -
  define os where "os = outcomes probes scenarios"
  define V where "V = (\<lambda>c. control_verdict_of c level probes scenarios evidence opt)"
  define musts where "musts = filter (must_at level) controls"
  have v: "cv_verdict (V c) =
      (if disproved os c then VFail else if untested opt os c then VUnverified
       else if attested evidence c then VAttested else if proved level os c then VPass else VUnverified)"
    if "c \<in> set musts" for c
    using that control_verdict_cases [of c level] unfolding V_def os_def musts_def
    by (auto simp: must_at_def split: option.splits)
  have fail: "list_ex (\<lambda>v. cv_verdict v = VFail) (map V musts) = list_ex (disproved os) musts"
    using v by (auto simp: list_ex_iff split: if_splits)
  have met: "\<not> list_all (\<lambda>v. cv_verdict v = VPass) (map V musts)" if l: "level \<in> {1, 2, 3, 4}"
  proof -
    obtain c where c: "c \<in> set musts" "ct_verify c = []" using unprovable_control [OF l] by (auto simp: musts_def)
    have "cv_verdict (V c) \<noteq> VPass" using v [OF c(1)] c(2) by (auto simp: proved_def)
    then show ?thesis using c(1) by (auto simp: list_all_iff)
  qed
  have att: "list_all (\<lambda>v. cv_verdict v \<in> {VPass, VAttested}) (map V musts) =
      list_all (\<lambda>c. \<not> untested opt os c \<and> (attested evidence c \<or> proved level os c)) musts"
    if "\<not> list_ex (disproved os) musts"
    using v that by (auto simp: list_all_iff list_ex_iff split: if_splits)
  have ev: "map_option as_result (evaluate_assurance level probes scenarios evidence scope opt) =
      (if level \<notin> {1, 2, 3, 4} then None else Some (level_verdict (map V controls)))"
    by (simp add: evaluate_assurance_def V_def Let_def)
  have lv: "level_verdict (map V controls) =
      (if list_ex (\<lambda>v. cv_verdict v = VFail) (map V musts) then LevelNotMet
       else if list_all (\<lambda>v. cv_verdict v = VPass) (map V musts) then LevelMet
       else if list_all (\<lambda>v. cv_verdict v \<in> {VPass, VAttested}) (map V musts) then MetWithAttestation else Indeterminate)"
    unfolding level_verdict_def V_def musts_def must_verdicts_controls Let_def ..
  show ?thesis
  proof (cases "level \<in> {1, 2, 3, 4}")
    case True
    then show ?thesis unfolding ev lv os_def [symmetric] musts_def [symmetric] Let_def
      by (cases "list_ex (disproved os) musts")
        (simp_all only: fail met [OF True] att if_True if_False not_True_eq_False not_False_eq_True split: if_split, simp_all)
  next
    case False
    then show ?thesis unfolding ev Let_def by (simp only: if_True not_False_eq_True)
  qed
qed

end
