(* ===== verification/Evidence.thy ===== *)
theory Evidence
  imports Assurance_Controls
begin

text \<open>
  \<open>assurance/evidence.py\<close>: the operator's evidence directory. The file system is the record \<open>file_system\<close>;
  a path is the list of its components. SHA-256 is the argument \<open>sha\<close>. \<open>OsFailure\<close> is the exception of a
  path that does not exist, every other refusal is a \<open>ValueError\<close>. That \<open>read_text\<close> normalises line ends is
  immaterial: they cannot occur in a JSON string.
\<close>

type_synonym fs_path = "str list"

record file_system =
  ef_is_link :: "fs_path \<Rightarrow> bool"
  ef_resolve :: "fs_path \<Rightarrow> fs_path option"
  ef_is_dir :: "fs_path \<Rightarrow> bool"
  ef_is_file :: "fs_path \<Rightarrow> bool"
  ef_bytes :: "fs_path \<Rightarrow> byte list"

datatype evidence_error =
    OsFailure
  | LinkedDirectory
  | NoDirectory
  | NoManifest
  | ManifestTooBig
  | ManifestNotJson
  | BadTopLevel
  | BadVersion
  | BadTarget
  | BadControls
  | UnknownControl str
  | BadEntry str
  | BadArtifact
  | LinkedArtifact
  | ArtifactOutside
  | ArtifactNoFile
  | ArtifactEmpty
  | ArtifactTooBig
  | BadNote

definition manifest_name :: str where "manifest_name = ascii ''evidence.json''"
definition max_manifest_bytes :: nat where "max_manifest_bytes = 1000000"
definition max_artifact_bytes :: nat where "max_artifact_bytes = 50000000"
definition max_note_chars :: nat where "max_note_chars = 500"

definition note_control_char :: "nat \<Rightarrow> bool" where
  "note_control_char c \<longleftrightarrow> c \<le> 31 \<or> c = 127"

definition clean_display :: "str \<Rightarrow> nat \<Rightarrow> str" where
  "clean_display s cap = html_escape (take cap (filter (\<lambda>c. \<not> note_control_char c) s))"

definition clean_note :: "json \<Rightarrow> evidence_error + str" where
  "clean_note note = (case note of JStr s \<Rightarrow> Inr (clean_display s max_note_chars) | _ \<Rightarrow> Inl BadNote)"

section \<open>Artifacts\<close>

text \<open>\<open>PurePosixPath(s).parts\<close> of a relative path.\<close>

definition posix_parts :: "str \<Rightarrow> fs_path" where
  "posix_parts s = filter (\<lambda>p. p \<noteq> [] \<and> p \<noteq> [46]) (split_on (\<lambda>c. c = 47) s)"

fun any_link :: "file_system \<Rightarrow> fs_path \<Rightarrow> fs_path \<Rightarrow> bool" where
  "any_link fs current [] = False"
| "any_link fs current (p # ps) = (ef_is_link fs (current @ [p]) \<or> any_link fs (current @ [p]) ps)"

definition strictly_inside :: "fs_path \<Rightarrow> fs_path \<Rightarrow> bool" where
  "strictly_inside root' p \<longleftrightarrow> length root' < length p \<and> take (length root') p = root'"

definition resolve_artifact :: "file_system \<Rightarrow> fs_path \<Rightarrow> json \<Rightarrow> evidence_error + fs_path" where
  "resolve_artifact fs root' artifact =
     (case artifact of
        JStr s \<Rightarrow>
          (if s = [] then Inl BadArtifact
           else if starts_with [47] s \<or> [46, 46] \<in> set (posix_parts s) \<or> 92 \<in> set s then Inl BadArtifact
           else if any_link fs root' (posix_parts s) then Inl LinkedArtifact
           else case ef_resolve fs (root' @ posix_parts s) of
             None \<Rightarrow> Inl OsFailure
           | Some p \<Rightarrow>
               if \<not> strictly_inside root' p then Inl ArtifactOutside
               else if \<not> ef_is_file fs p then Inl ArtifactNoFile
               else if ef_bytes fs p = [] then Inl ArtifactEmpty
               else if length (ef_bytes fs p) > max_artifact_bytes then Inl ArtifactTooBig
               else Inr p)
      | _ \<Rightarrow> Inl BadArtifact)"

section \<open>The manifest\<close>

definition keys_within :: "string list \<Rightarrow> (str \<times> json) list \<Rightarrow> bool" where
  "keys_within ks d \<longleftrightarrow> list_all (\<lambda>(k, v). k \<in> set (map ascii ks)) d"

definition evidence_entry :: "(byte list \<Rightarrow> str) \<Rightarrow> file_system \<Rightarrow> fs_path \<Rightarrow> str \<Rightarrow> json \<Rightarrow> evidence_error + evidence_item" where
  "evidence_entry sha fs root' control_id entry =
     (if control_id \<notin> set control_ids then Inl (UnknownControl control_id)
      else case entry of
        JDict d \<Rightarrow>
          (if \<not> keys_within [''artifact'', ''note''] d then Inl (BadEntry control_id)
           else case resolve_artifact fs root' (get d (ascii ''artifact'')) of
             Inl e \<Rightarrow> Inl e
           | Inr p \<Rightarrow>
               (case clean_note (get_or d (ascii ''note'') (JStr [])) of
                  Inl e \<Rightarrow> Inl e
                | Inr note \<Rightarrow>
                    Inr \<lparr>ev_control_id = control_id,
                         ev_artifact = clean_display (join [47] (drop (length root') p)) 300,
                         ev_sha256 = sha (ef_bytes fs p), ev_note = note\<rparr>))
      | _ \<Rightarrow> Inl (BadEntry control_id))"

fun evidence_items :: "(byte list \<Rightarrow> str) \<Rightarrow> file_system \<Rightarrow> fs_path \<Rightarrow> (str \<times> json) list \<Rightarrow>
    evidence_error + (str, evidence_item) dict" where
  "evidence_items sha fs root' [] = Inr []"
| "evidence_items sha fs root' ((control_id, entry) # rest) =
     (case evidence_entry sha fs root' control_id entry of
        Inl e \<Rightarrow> Inl e
      | Inr item \<Rightarrow>
          (case evidence_items sha fs root' rest of
             Inl e \<Rightarrow> Inl e
           | Inr items \<Rightarrow> Inr ((control_id, item) # items)))"

definition parse_evidence :: "(byte list \<Rightarrow> str) \<Rightarrow> file_system \<Rightarrow> fs_path \<Rightarrow> json \<Rightarrow> evidence_error + evidence_manifest" where
  "parse_evidence sha fs root' data =
     (case data of
        JDict d \<Rightarrow>
          (if \<not> keys_within [''schema_version'', ''target'', ''controls''] d then Inl BadTopLevel
           else if get d (ascii ''schema_version'') \<noteq> JStr (ascii ''1.0'') then Inl BadVersion
           else case get d (ascii ''target'') of
             JStr target \<Rightarrow>
               (if py_strip target = [] then Inl BadTarget
                else case get d (ascii ''controls'') of
                  JDict cs \<Rightarrow>
                    (case evidence_items sha fs root' cs of
                       Inl e \<Rightarrow> Inl e
                     | Inr items \<Rightarrow> Inr \<lparr>em_target = py_strip target, em_items = items\<rparr>)
                | _ \<Rightarrow> Inl BadControls)
           | _ \<Rightarrow> Inl BadTarget)
      | _ \<Rightarrow> Inl BadTopLevel)"

definition load_evidence :: "(byte list \<Rightarrow> str) \<Rightarrow> file_system \<Rightarrow> fs_path \<Rightarrow> evidence_error + evidence_manifest" where
  "load_evidence sha fs dir =
     (if ef_is_link fs dir then Inl LinkedDirectory
      else case ef_resolve fs dir of
        None \<Rightarrow> Inl OsFailure
      | Some root' \<Rightarrow>
          if \<not> ef_is_dir fs root' then Inl NoDirectory
          else let manifest = root' @ [manifest_name] in
            if ef_is_link fs manifest \<or> \<not> ef_is_file fs manifest then Inl NoManifest
            else if length (ef_bytes fs manifest) > max_manifest_bytes then Inl ManifestTooBig
            else case utf8_decode (ef_bytes fs manifest) of
              None \<Rightarrow> Inl ManifestNotJson
            | Some s \<Rightarrow> (case loads s of None \<Rightarrow> Inl ManifestNotJson | Some data \<Rightarrow> parse_evidence sha fs root' data))"

section \<open>What is recorded\<close>

text \<open>The artifact behind a recorded item: a regular, non-empty file of bounded length inside the evidence directory,
  reached without a symbolic link, whose digest is the recorded one.\<close>

definition backed :: "(byte list \<Rightarrow> str) \<Rightarrow> file_system \<Rightarrow> fs_path \<Rightarrow> evidence_item \<Rightarrow> bool" where
  "backed sha fs root' item \<longleftrightarrow>
     ev_control_id item \<in> set control_ids \<and>
     (\<exists>parts p. \<not> any_link fs root' parts \<and> [46, 46] \<notin> set parts \<and> ef_resolve fs (root' @ parts) = Some p \<and>
        strictly_inside root' p \<and> ef_is_file fs p \<and> ef_bytes fs p \<noteq> [] \<and>
        length (ef_bytes fs p) \<le> max_artifact_bytes \<and> ev_sha256 item = sha (ef_bytes fs p))"

lemma resolve_artifact_Inr:
  "resolve_artifact fs root' a = Inr p \<Longrightarrow>
     \<exists>parts. \<not> any_link fs root' parts \<and> [46, 46] \<notin> set parts \<and> ef_resolve fs (root' @ parts) = Some p \<and>
       strictly_inside root' p \<and> ef_is_file fs p \<and> ef_bytes fs p \<noteq> [] \<and> length (ef_bytes fs p) \<le> max_artifact_bytes"
  by (auto simp: resolve_artifact_def split: json.splits if_splits option.splits)

lemma evidence_entry_backed:
  assumes "evidence_entry sha fs root' i entry = Inr item"
  shows "ev_control_id item = i \<and> backed sha fs root' item"
proof -
  from assms obtain d where d: "entry = JDict d" "i \<in> set control_ids"
    by (auto simp: evidence_entry_def split: json.splits if_splits)
  with assms obtain p where p: "resolve_artifact fs root' (get d (ascii ''artifact'')) = Inr p"
    by (auto simp: evidence_entry_def simp del: ascii_simps split: if_splits sum.splits)
  with assms d have "ev_control_id item = i" "ev_sha256 item = sha (ef_bytes fs p)"
    by (auto simp: evidence_entry_def simp del: ascii_simps split: if_splits sum.splits)
  with resolve_artifact_Inr [OF p] d(2) show ?thesis unfolding backed_def by metis
qed

lemma evidence_items_backed:
  "evidence_items sha fs root' ps = Inr items \<Longrightarrow>
     map fst items = map fst ps \<and> list_all (\<lambda>(i, item). ev_control_id item = i \<and> backed sha fs root' item) items"
proof (induction ps arbitrary: items)
  case (Cons q ps)
  obtain i entry where q: "q = (i, entry)" by fastforce
  with Cons.prems obtain item where e: "evidence_entry sha fs root' i entry = Inr item" by (auto split: sum.splits)
  with Cons.prems q obtain rest where r: "evidence_items sha fs root' ps = Inr rest" "items = (i, item) # rest"
    by (auto split: sum.splits)
  from Cons.IH [OF r(1)] r(2) evidence_entry_backed [OF e] q show ?case by simp
qed simp

lemma load_evidence_backed:
  assumes "load_evidence sha fs dir = Inr m"
  shows "\<exists>root'. ef_resolve fs dir = Some root' \<and> list_all (\<lambda>(i, item). ev_control_id item = i \<and> backed sha fs root' item) (em_items m)"
proof -
  from assms obtain root' data where r: "ef_resolve fs dir = Some root'" "parse_evidence sha fs root' data = Inr m"
    by (auto simp: load_evidence_def Let_def split: if_splits option.splits)
  then obtain cs items where i: "evidence_items sha fs root' cs = Inr items" "em_items m = items"
    by (auto simp: parse_evidence_def simp del: ascii_simps split: json.splits if_splits sum.splits)
  from r(1) evidence_items_backed [OF i(1)] i(2) show ?thesis by auto
qed

end
