(* ===== verification/Protection.thy ===== *)
theory Protection
  imports Py_Regex Discovery "HOL-Library.Product_Lexorder"
begin

text \<open>
  \<open>middleware/protection.py\<close>: the secret and PII scrubber and the check for foreign session identifiers.
  The patterns have RE2's meaning, in which the classes and the word boundary are ASCII; like Python's \<open>re\<close> it
  finds the leftmost match with the first alternative and greedy repetition. Positions are code points.
\<close>

section \<open>Patterns\<close>

definition lower_letter :: "nat \<Rightarrow> bool" where "lower_letter c \<longleftrightarrow> 97 \<le> c \<and> c \<le> 122"
definition ascii_word :: "nat \<Rightarrow> bool" where "ascii_word c \<longleftrightarrow> alnum c \<or> c = 95"
definition re2_space :: "nat \<Rightarrow> bool" where "re2_space c \<longleftrightarrow> c \<in> {9, 10, 12, 13, 32}"

definition wb :: rx where "wb = WordEdge ascii_word"

text \<open>A class: ASCII letters and digits, and the listed characters.\<close>

definition alnum_or :: "string \<Rightarrow> rx" where
  "alnum_or cs = Chr (\<lambda>c. alnum c \<or> c \<in> set (ascii cs))"

definition letter :: rx where "letter = Chr (\<lambda>c. upper c \<or> lower_letter c)"
definition upper_or_digit :: rx where "upper_or_digit = Chr (\<lambda>c. upper c \<or> digit c)"
definition digit_rx :: rx where "digit_rx = Chr digit"
definition word_lit :: "string \<Rightarrow> rx" where "word_lit s = lit (ascii s)"
definition one_of :: "string \<Rightarrow> rx" where "one_of cs = Chr (\<lambda>c. c \<in> set (ascii cs))"
definition white :: rx where "white = Chr re2_space"

definition default_patterns :: "(string \<times> rx) list" where
  "default_patterns =
     [(''email'', seqs [wb, Plus (alnum_or ''._%+-''), word_lit ''@'', Plus (alnum_or ''.-''), word_lit ''.'', at_least 2 letter, wb]),
      (''jwt'', seqs [word_lit ''eyJ'', at_least 2 (alnum_or ''_-''), word_lit ''.eyJ'', at_least 2 (alnum_or ''_-''), word_lit ''.'', Star (alnum_or ''_-'')]),
      (''api_key_sk'', seqs [wb, word_lit ''sk-'', at_least 20 (alnum_or ''''), wb]),
      (''github_pat'', seqs [wb, word_lit ''gh'', one_of ''posu'', word_lit ''_'', exactly 36 (alnum_or ''''), wb]),
      (''gitlab_pat'', seqs [wb, word_lit ''glpat-'', exactly 20 (alnum_or ''_-''), wb]),
      (''aws_access_key'', seqs [wb, word_lit ''AKIA'', exactly 16 upper_or_digit, wb]),
      (''google_api_key'', seqs [wb, word_lit ''AIza'', exactly 35 (alnum_or ''_-''), wb]),
      (''gcp_service_account'', seqs [lit [34], word_lit ''type'', lit [34], Star white, word_lit '':'', Star white, lit [34], word_lit ''service_account'', lit [34]]),
      (''azure_sas'', seqs [one_of ''?&'', word_lit ''sig='', at_least 20 (alnum_or ''%/+'')]),
      (''internal_hostname'', seqs [wb, Chr (\<lambda>c. lower_letter c \<or> digit c), Star (Chr (\<lambda>c. lower_letter c \<or> digit c \<or> c = 45)), word_lit ''.'',
         alts [word_lit ''internal'', word_lit ''local'', word_lit ''corp'', word_lit ''intranet'', word_lit ''svc.cluster.local''], wb]),
      (''stack_trace'', Alt (word_lit ''Traceback (most recent call last)'')
         (seqs [LineStart, Plus white, word_lit ''at '', Plus (Chr (\<lambda>c. ascii_word c \<or> c \<in> set (ascii ''.$<>/''))), word_lit ''('']))]"

definition strict_patterns :: "(string \<times> rx) list" where
  "strict_patterns =
     [(''ssn'', seqs [wb, exactly 3 digit_rx, word_lit ''-'', exactly 2 digit_rx, word_lit ''-'', exactly 4 digit_rx, wb]),
      (''us_phone'', seqs [wb, Opt (seqs [word_lit ''+1'', Opt (Chr (\<lambda>c. c = 46 \<or> c = 45 \<or> re2_space c))]), Opt (word_lit ''(''), exactly 3 digit_rx, Opt (word_lit '')''),
         Opt (Chr (\<lambda>c. c = 46 \<or> c = 45 \<or> re2_space c)), exactly 3 digit_rx, Opt (Chr (\<lambda>c. c = 46 \<or> c = 45 \<or> re2_space c)), exactly 4 digit_rx, wb]),
      (''iban'', seqs [wb, exactly 2 (Chr upper), exactly 2 digit_rx, between 11 30 upper_or_digit, wb]),
      (''pan'', seqs [wb, between 13 19 (Seq digit_rx (Opt (one_of '' -''))), wb])]"

definition session_pattern :: rx where
  "session_pattern = seqs [wb, word_lit ''sess'', Opt (word_lit ''ion''), one_of ''-_'', at_least 3 (alnum_or ''_-''), wb]"

definition credential_types :: "string list" where
  "credential_types =
     [''jwt'', ''api_key_sk'', ''github_pat'', ''gitlab_pat'', ''aws_access_key'', ''google_api_key'', ''gcp_service_account'', ''azure_sas'']"

definition strict_pii_types :: "string list" where
  "strict_pii_types = [''ssn'', ''us_phone'', ''iban'', ''pan'']"

section \<open>The Luhn checksum\<close>

definition doubled :: "nat \<Rightarrow> nat" where
  "doubled d = (if 2 * d > 9 then 2 * d - 9 else 2 * d)"

fun luhn_sum :: "nat \<Rightarrow> nat \<Rightarrow> nat list \<Rightarrow> nat" where
  "luhn_sum parity i [] = 0"
| "luhn_sum parity i (d # ds) = (if i mod 2 = parity then doubled d else d) + luhn_sum parity (i + 1) ds"

definition luhn_valid :: "str \<Rightarrow> bool" where
  "luhn_valid candidate =
     (let ds = map (\<lambda>c. c - 48) (filter digit candidate) in
      13 \<le> length ds \<and> length ds \<le> 19 \<and> luhn_sum (length ds mod 2) 0 ds mod 10 = 0)"

definition corroborated :: "string \<Rightarrow> str \<Rightarrow> bool" where
  "corroborated pii_type m = (if pii_type = ''pan'' then luhn_valid m else True)"

section \<open>Scrubbing\<close>

record redacted_match =
  rm_type :: string
  rm_start :: nat
  rm_end :: nat

record scrub_result =
  sb_text :: str
  sb_count :: nat
  sb_findings :: "redacted_match list"

record pii_scrubber =
  ps_strict :: bool
  ps_patterns :: "(string \<times> rx) list"

definition new_scrubber :: "bool \<Rightarrow> pii_scrubber" where
  "new_scrubber strict =
     \<lparr>ps_strict = strict, ps_patterns = default_patterns @ (if strict then strict_patterns else [])\<rparr>"

definition slice :: "str \<Rightarrow> nat \<Rightarrow> nat \<Rightarrow> str" where
  "slice s i j = take (j - i) (drop i s)"

definition rx_matches :: "rx \<Rightarrow> str \<Rightarrow> (nat \<times> nat) list" where
  "rx_matches r s = find_from (Suc (length s)) r s 0"

definition pattern_matches :: "str \<Rightarrow> string \<times> rx \<Rightarrow> (nat \<times> nat \<times> string) list" where
  "pattern_matches s p =
     map (\<lambda>(i, j). (i, j, fst p)) (filter (\<lambda>(i, j). corroborated (fst p) (slice s i j)) (rx_matches (snd p) s))"

definition all_matches :: "pii_scrubber \<Rightarrow> str \<Rightarrow> (nat \<times> nat \<times> string) list" where
  "all_matches ps s =
     sort_key (\<lambda>(i, j, t). (i, - (int j - int i))) (concat (map (pattern_matches s) (ps_patterns ps)))"

fun select :: "nat \<Rightarrow> (nat \<times> nat \<times> string) list \<Rightarrow> (nat \<times> nat \<times> string) list" where
  "select cursor [] = []"
| "select cursor ((i, j, t) # ms) = (if cursor \<le> i then (i, j, t) # select j ms else select cursor ms)"

definition redaction_mark :: "string \<Rightarrow> str" where
  "redaction_mark t = ascii ''[REDACTED:'' @ ascii t @ [93]"

fun redact :: "str \<Rightarrow> nat \<Rightarrow> (nat \<times> nat \<times> string) list \<Rightarrow> str" where
  "redact s prev [] = drop prev s"
| "redact s prev ((i, j, t) # ms) = slice s prev i @ redaction_mark t @ redact s j ms"

definition scrub :: "pii_scrubber \<Rightarrow> str \<Rightarrow> scrub_result" where
  "scrub ps s =
     (let ms = all_matches ps s; sel = select 0 ms in
      if ms = [] then \<lparr>sb_text = s, sb_count = 0, sb_findings = []\<rparr>
      else \<lparr>sb_text = redact s 0 sel, sb_count = length sel,
            sb_findings = map (\<lambda>(i, j, t). \<lparr>rm_type = t, rm_start = i, rm_end = j\<rparr>) sel\<rparr>)"

section \<open>Foreign sessions\<close>

record leak_finding =
  lf_current :: str
  lf_found :: str
  lf_offset :: nat

definition check_leaks :: "str \<Rightarrow> str \<Rightarrow> bool \<times> leak_finding list" where
  "check_leaks current content =
     (let fs = map (\<lambda>(i, j). \<lparr>lf_current = current, lf_found = slice content i j, lf_offset = i\<rparr>)
                 (filter (\<lambda>(i, j). slice content i j \<noteq> current) (rx_matches session_pattern content))
      in (fs \<noteq> [], fs))"

section \<open>The checksum detects a single wrong digit\<close>

lemma doubled_inj: "a < 10 \<Longrightarrow> b < 10 \<Longrightarrow> doubled a = doubled b \<Longrightarrow> a = b"
proof -
  assume "a < 10" "b < 10" "doubled a = doubled b"
  moreover have "a \<in> {0, 1, 2, 3, 4, 5, 6, 7, 8, 9} \<and> b \<in> {0, 1, 2, 3, 4, 5, 6, 7, 8, 9}"
    using \<open>a < 10\<close> \<open>b < 10\<close> by auto
  ultimately show "a = b" by (elim conjE insertE emptyE) (simp_all add: doubled_def)
qed

lemma doubled_digit: "a < 10 \<Longrightarrow> doubled a < 10"
  by (auto simp: doubled_def)

lemma luhn_sum_update:
  "k < length ds \<Longrightarrow>
     luhn_sum parity i (ds[k := d]) + (if (i + k) mod 2 = parity then doubled (ds ! k) else ds ! k) =
     luhn_sum parity i ds + (if (i + k) mod 2 = parity then doubled d else d)"
proof (induction ds arbitrary: i k)
  case (Cons a ds)
  show ?case
  proof (cases k)
    case (Suc k')
    then show ?thesis using Cons.IH [of k' "i + 1"] Cons.prems by (auto simp: algebra_simps)
  qed simp
qed simp

lemma mod10_cancel: "a + x = b + y \<Longrightarrow> a mod 10 = 0 \<Longrightarrow> b mod 10 = 0 \<Longrightarrow> x mod 10 = y mod (10 :: nat)"
proof -
  assume e: "a + x = b + y" and z: "a mod 10 = 0" "b mod 10 = 0"
  have "x mod 10 = (a mod 10 + x) mod 10" using z by simp
  also have "\<dots> = (a + x) mod 10" by (rule mod_add_left_eq)
  also have "\<dots> = (b mod 10 + y) mod 10" unfolding e by (rule mod_add_left_eq [symmetric])
  finally show ?thesis using z by simp
qed

lemma luhn_single_error:
  assumes "k < length ds" "d < 10" "ds ! k < 10" "d \<noteq> ds ! k" "luhn_sum parity i ds mod 10 = 0"
  shows "luhn_sum parity i (ds[k := d]) mod 10 \<noteq> 0"
proof
  assume z: "luhn_sum parity i (ds[k := d]) mod 10 = 0"
  define w where "w x = (if (i + k) mod 2 = parity then doubled x else x)" for x
  have "luhn_sum parity i (ds[k := d]) + w (ds ! k) = luhn_sum parity i ds + w d"
    unfolding w_def by (rule luhn_sum_update [OF assms(1)])
  then have "w (ds ! k) mod 10 = w d mod 10" using z assms(5) by (rule mod10_cancel)
  moreover have "w (ds ! k) < 10" "w d < 10" using assms(2,3) doubled_digit by (auto simp: w_def)
  ultimately have "w (ds ! k) = w d" by simp
  then show False using assms(2-4) doubled_inj [of d "ds ! k"] by (auto simp: w_def split: if_splits)
qed

section \<open>What the scrubber leaves\<close>

text \<open>The selected matches are disjoint and in order, and every match is selected or starts inside a selected one.\<close>

lemma select_disjoint:
  "list_all (\<lambda>(i, j, t). i \<le> j) ms \<Longrightarrow>
     list_all (\<lambda>(i, j, t). cursor \<le> i) (select cursor ms) \<and> sorted_wrt (\<lambda>(i, j, t) (i', j', t'). j \<le> i') (select cursor ms)"
proof (induction cursor ms rule: select.induct)
  case (2 cursor i j t ms)
  then show ?case by (auto simp: list_all_iff split: prod.splits) fastforce+
qed simp

lemma select_covers:
  "sorted (map fst ms) \<Longrightarrow> (i, j, t) \<in> set ms \<Longrightarrow>
     i < cursor \<or> (i, j, t) \<in> set (select cursor ms) \<or> (\<exists>(i', j', t') \<in> set (select cursor ms). i' \<le> i \<and> i < j')"
proof (induction cursor ms rule: select.induct)
  case (2 cursor a b u ms)
  show ?case
  proof (cases "cursor \<le> a")
    case True
    have "(i, j, t) = (a, b, u) \<or> (i, j, t) \<in> set ms" using 2(4) by auto
    then show ?thesis
    proof
      assume m: "(i, j, t) \<in> set ms"
      have "a \<le> i" using 2(3) m by fastforce
      have "sorted (map fst ms)" using 2(3) by simp
      from 2(1) [OF True this m] \<open>a \<le> i\<close> True show ?thesis by auto
    qed (use True in auto)
  next
    case False
    then show ?thesis using 2 by auto
  qed
qed simp

text \<open>But it may leave the rest of the longer one: when the first of two overlapping matches is the shorter, the
  tail of the second stays in the text.\<close>

lemma scrub_keeps_tail:
  assumes "i < i'" "i' < j" "j < j'"
  shows "select 0 [(i, j, t), (i', j', t')] = [(i, j, t)] \<and>
    redact s 0 (select 0 [(i, j, t), (i', j', t')]) = take i s @ redaction_mark t @ drop j s"
  using assms by (simp add: slice_def)

lemma scrub_leaks_key:
  "sb_text (scrub (new_scrubber False) (ascii ''a@b.sk-ABCDEFGHIJKLMNOPQRST'')) = ascii ''[REDACTED:email]-ABCDEFGHIJKLMNOPQRST''"
  by code_simp

end
