(* ===== verification/Manifest_Scans.thy ===== *)
theory Manifest_Scans
  imports Protection Supply_Chain
begin

text \<open>
  The passive scans of \<open>api.py\<close> over the discovered tools: poisoned definitions (T4), destructive tools
  without a second stage (T9), embedded secrets (T5), the allow-list (T11), name integrity (T6) and schema
  hygiene (T3). A scan that returns \<open>None\<close> raises, which aborts the scan run. Tools carry the JSON form of
  their schema, so \<open>_to_plain\<close> is the identity; the set of reserved names is visited in a fixed order.
\<close>

section \<open>Results of passive scans\<close>

text \<open>A result that is built directly, so its text is not escaped, and one that goes through
  \<open>make_probe_result\<close>.\<close>

definition raw_result :: "str \<Rightarrow> string \<Rightarrow> bool \<Rightarrow> str \<Rightarrow> probe_result" where
  "raw_result pid tid passed body =
     \<lparr>pr_probe_id = pid, pr_threat_id = ascii tid, pr_passed = passed, pr_status_code = JNull, pr_response_body = body,
      pr_error = None, pr_assertions = [], pr_duration = JFloat 0 1, pr_inconclusive = None,
      pr_synthesis_attempted = False, pr_canary_detected = False, pr_suppressed = False\<rparr>"

definition made_result :: "py_text \<Rightarrow> str \<Rightarrow> string \<Rightarrow> bool \<Rightarrow> str \<Rightarrow> probe_result" where
  "made_result pt pid tid passed body =
     make_probe_result pt pid (ascii tid) passed [] (Some [(ascii ''_body'', JStr body)]) None (JFloat 0 1) None False"

definition numbered :: "string \<Rightarrow> nat \<Rightarrow> str" where
  "numbered prefix n = ascii prefix @ digits n"

definition quoted :: "str \<Rightarrow> str" where
  "quoted s = 39 # s @ [39]"

section \<open>T4: poisoned definitions\<close>

text \<open>The schema goes through \<open>json.dumps\<close> and \<open>json.loads\<close>; a failure gives the empty schema.\<close>

definition plain_schema :: "(str \<times> json) list \<Rightarrow> json" where
  "plain_schema schema =
     (case loads (dumps [44, 32] [58, 32] (JDict schema)) of None \<Rightarrow> JDict [] | Some v \<Rightarrow> v)"

definition tool_entry :: "discovered_tool \<Rightarrow> (str \<times> json) list" where
  "tool_entry t =
     [(ascii ''name'', JStr (dt_name t)), (ascii ''description'', JStr (dt_description t)),
      (ascii ''inputSchema'', plain_schema (dt_input_schema t))]"

definition scan_manifest_t4 :: "unicode \<Rightarrow> (json \<Rightarrow> str) \<Rightarrow> discovered_tool list \<Rightarrow> probe_result list option" where
  "scan_manifest_t4 u repr tools =
     map_option (\<lambda>fs. map (\<lambda>(i, f). raw_result (numbered ''T04-manifest-p'' (i + 1)) ''T04'' False (if_excerpt f))
                         (List.enumerate 0 fs))
       (scan_tools u repr (map tool_entry tools))"

section \<open>T9: destructive tools\<close>

definition destructive_verbs :: "str list" where
  "destructive_verbs = map ascii
     [''delete'', ''remove'', ''drop'', ''destroy'', ''wipe'', ''purge'', ''reset'', ''revoke'', ''terminate'', ''shutdown'',
      ''cancel'', ''truncate'', ''flush'', ''erase'', ''uninstall'', ''deactivate'', ''deregister'']"

definition confirm_params :: "str list" where
  "confirm_params = map ascii [''confirmed'', ''confirm'', ''dry_run'', ''dryrun'', ''preview'', ''plan_only'']"

definition plan_markers :: "str list" where
  "plan_markers = map ascii [''preview'', ''plan'', ''dry'', ''dryrun'', ''simulate'', ''check'']"

definition name_parts :: "py_text \<Rightarrow> str \<Rightarrow> str list" where
  "name_parts pt nm = split_on (\<lambda>c. c = 95 \<or> c = 45 \<or> c = 47 \<or> py_space c) (pt_lower pt nm)"

definition sibling_candidates :: "str \<Rightarrow> str list" where
  "sibling_candidates nm =
     [nm @ ascii ''_preview'', ascii ''preview_'' @ nm, nm @ ascii ''_plan'', ascii ''plan_'' @ nm, nm @ ascii ''_dry_run'']"

definition lacks_second_stage :: "py_text \<Rightarrow> str list \<Rightarrow> discovered_tool \<Rightarrow> bool" where
  "lacks_second_stage pt tool_names t \<longleftrightarrow>
     \<not> list_ex (\<lambda>p. p \<in> set plan_markers) (name_parts pt (dt_name t)) \<and>
     list_ex (\<lambda>p. p \<in> set destructive_verbs) (name_parts pt (dt_name t)) \<and>
     \<not> list_ex (\<lambda>p. pt_lower pt p \<in> set confirm_params) (dt_boolean_params t) \<and>
     \<not> list_ex (\<lambda>s. s \<in> set tool_names) (sibling_candidates (dt_name t))"

definition t9_excerpt :: "str \<Rightarrow> str" where
  "t9_excerpt nm =
     ascii ''Tool '' @ quoted nm @ ascii '' performs destructive operations but lacks a two-stage commit pattern (no confirmed/dry_run parameter and no preview/plan sibling tool). Remediation: add a confirmed: boolean parameter or expose a '' @
     quoted (nm @ ascii ''_preview'') @ ascii '' tool that returns a description without executing.''"

definition scan_manifest_t9 :: "py_text \<Rightarrow> discovered_tool list \<Rightarrow> probe_result list" where
  "scan_manifest_t9 pt tools =
     map (\<lambda>(i, t). raw_result (numbered ''T09-manifest-p'' (i + 1)) ''T09'' False (t9_excerpt (dt_name t)))
       (filter (\<lambda>(i, t). lacks_second_stage pt (map dt_name tools) t) (List.enumerate 0 tools))"

section \<open>T5: secrets\<close>

definition reportable_types :: "bool \<Rightarrow> string list" where
  "reportable_types strict = credential_types @ (if strict then strict_pii_types else [])"

definition t5_flagged :: "bool \<Rightarrow> discovered_tool \<Rightarrow> redacted_match list" where
  "t5_flagged strict t =
     filter (\<lambda>f. rm_type f \<in> set (reportable_types strict))
       (sb_findings (scrub (new_scrubber strict) (dt_name t @ [10] @ dt_description t)))"

definition t5_excerpt :: "bool \<Rightarrow> discovered_tool \<Rightarrow> str" where
  "t5_excerpt strict t =
     (let flagged = t5_flagged strict t in
      ascii ''Tool '' @ quoted (dt_name t) @ ascii '' manifest entry leaks '' @ digits (length flagged) @
      ascii '' secret/PII value(s) ['' @ join [44, 32] (names_set (map (ascii \<circ> rm_type) flagged)) @
      ascii '']. Redacted: '' @ sb_text (scrub (new_scrubber strict) (dt_name t @ [10] @ dt_description t)))"

definition scan_manifest_t5 :: "py_text \<Rightarrow> bool \<Rightarrow> discovered_tool list \<Rightarrow> probe_result list" where
  "scan_manifest_t5 pt strict tools =
     map (\<lambda>(i, t). made_result pt (numbered ''T05-manifest-p'' (i + 1)) ''T05'' False (t5_excerpt strict t))
       (List.enumerate 0 (filter (\<lambda>t. t5_flagged strict t \<noteq> []) tools))"

section \<open>T11: the allow-list\<close>

definition no_allowlist_reason :: str where
  "no_allowlist_reason = ascii ''No --tool-allowlist supplied; typosquat / unexpected-tool detection could not run. Provide the operator'' @ [39] @
     ascii ''s approved tool names to enable T11 supply-chain checks. INCONCLUSIVE, not a finding.''"

definition t11_excerpt :: "py_text \<Rightarrow> str list \<Rightarrow> str \<Rightarrow> str" where
  "t11_excerpt pt allowlist nm =
     (let near = names_set (filter (\<lambda>e. levenshtein nm e = 1) allowlist) in
      ascii ''Discovered tool '' @ pt_repr pt (PyAtom (JStr nm)) @
      (if near \<noteq> []
       then ascii '' is within one edit of approved tool(s) '' @ pt_repr pt (of_json (JList (map JStr near))) @
            ascii '' but is not itself on the allowlist '' @ [8212] @
            ascii '' possible typosquat masquerading as an approved tool (T11 supply-chain).''
       else ascii '' is not on the operator allowlist '' @ [8212] @
            ascii '' an unexpected/unauthorized tool addition (T11 supply-chain). Confirm it is approved, or remove it from the server.''))"

definition scan_manifest_t11 :: "py_text \<Rightarrow> discovered_tool list \<Rightarrow> str list option \<Rightarrow> probe_result list" where
  "scan_manifest_t11 pt tools allowlist =
     (if tools = [] then []
      else case allowlist of
        None \<Rightarrow> [make_probe_result pt (ascii ''T11-manifest-no-allowlist'') (ascii ''T11'') False [] None None (JFloat 0 1)
                   (Some no_allowlist_reason) False]
      | Some [] \<Rightarrow> [make_probe_result pt (ascii ''T11-manifest-no-allowlist'') (ascii ''T11'') False [] None None (JFloat 0 1)
                   (Some no_allowlist_reason) False]
      | Some allowed \<Rightarrow>
          (case filter (\<lambda>nm. nm \<notin> set allowed) (map dt_name tools) of
             [] \<Rightarrow> [made_result pt (ascii ''T11-manifest-clean'') ''T11'' True
                     (ascii ''All discovered tools are present on the operator allowlist.'')]
           | bad \<Rightarrow> map (\<lambda>(i, nm). made_result pt (numbered ''T11-manifest-p'' (i + 1)) ''T11'' False (t11_excerpt pt allowed nm))
                      (List.enumerate 0 bad)))"

section \<open>T6: name integrity\<close>

definition reserved_mcp_methods :: "str list" where
  "reserved_mcp_methods = map ascii
     [''initialize'', ''ping'', ''tools/list'', ''tools/call'', ''resources/list'', ''resources/read'',
      ''resources/templates/list'', ''resources/subscribe'', ''resources/unsubscribe'', ''prompts/list'', ''prompts/get'',
      ''completion/complete'', ''logging/setlevel'', ''roots/list'', ''sampling/createmessage'',
      ''notifications/initialized'', ''notifications/cancelled'', ''server/discover'', ''subscriptions/listen'']"

definition folded_name :: "py_text \<Rightarrow> str \<Rightarrow> str" where
  "folded_name pt nm = pt_lower pt (fold_homoglyphs nm)"

definition first_occurrences :: "str list \<Rightarrow> str list" where
  "first_occurrences ns = rev (remdups (rev ns))"

definition collisions :: "str list \<Rightarrow> str list" where
  "collisions ns =
     map (\<lambda>nm. ascii ''Tool name collision: '' @ quoted nm @ ascii '' appears '' @ digits (count_list ns nm) @
            ascii '' times in the manifest. Duplicate tool names allow one definition to shadow another (T6). Tool names must be unique within a server.'')
       (filter (\<lambda>nm. count_list ns nm > 1) (first_occurrences ns))"

definition shadowed_method :: "py_text \<Rightarrow> str \<Rightarrow> str option" where
  "shadowed_method pt nm = find (\<lambda>m. levenshtein (folded_name pt nm) m \<le> 1) reserved_mcp_methods"

definition shadow_text :: "py_text \<Rightarrow> str \<Rightarrow> str \<Rightarrow> str" where
  "shadow_text pt nm m =
     ascii ''Tool '' @ quoted nm @ [32] @
     (if levenshtein (folded_name pt nm) m = 0 then ascii ''matches'' else ascii ''is within edit-distance 1 of'') @
     ascii '' the reserved MCP method '' @ quoted m @
     ascii ''. A tool whose name shadows a protocol method can intercept or impersonate that method (T6 shadowing).''"

definition shadows :: "py_text \<Rightarrow> str list \<Rightarrow> str list" where
  "shadows pt ns =
     concat (map (\<lambda>nm. case shadowed_method pt nm of None \<Rightarrow> [] | Some m \<Rightarrow> [shadow_text pt nm m]) (names_set ns))"

definition is_plural_variant :: "py_text \<Rightarrow> str \<Rightarrow> str \<Rightarrow> bool" where
  "is_plural_variant pt a b =
     (let x = pt_lower pt a; y = pt_lower pt b; lo = (if length y < length x then y else x); hi = (if length y < length x then x else y)
      in hi = lo @ [115])"

definition near_collision :: "py_text \<Rightarrow> str \<Rightarrow> str \<Rightarrow> bool" where
  "near_collision pt a b \<longleftrightarrow>
     levenshtein (folded_name pt a) (folded_name pt b) \<le> 1 \<and> \<not> is_plural_variant pt a b"

definition near_text :: "py_text \<Rightarrow> str \<Rightarrow> str \<Rightarrow> str" where
  "near_text pt a b =
     ascii ''Tool names '' @ quoted a @ ascii '' and '' @ quoted b @
     (if levenshtein (folded_name pt a) (folded_name pt b) = 0
      then ascii '' are identical after folding look-alike (homoglyph) characters. One impersonates the other (T6 homoglyph squat).''
      else ascii '' differ by a single edit (Levenshtein 1). One may be a typosquat or shadow of the other (T6). Verify both are intentional and distinct.'')"

fun near_collisions :: "py_text \<Rightarrow> str list \<Rightarrow> str list" where
  "near_collisions pt [] = []"
| "near_collisions pt (a # ns) =
     map (near_text pt a) (filter (near_collision pt a) ns) @ near_collisions pt ns"

definition t6_texts :: "py_text \<Rightarrow> str list \<Rightarrow> str list" where
  "t6_texts pt ns = collisions ns @ shadows pt ns @ near_collisions pt (names_set ns)"

definition scan_manifest_t6 :: "py_text \<Rightarrow> discovered_tool list \<Rightarrow> probe_result list" where
  "scan_manifest_t6 pt tools =
     (if tools = [] then []
      else let ns = map dt_name tools in
        (case t6_texts pt ns of
           [] \<Rightarrow> [raw_result (ascii ''T06-manifest-clean'') ''T06'' True
                   (ascii ''Manifest integrity scan: '' @ digits (length ns) @
                    ascii '' tool(s) enumerated; no name collisions, reserved-method shadows, or near-duplicate names detected.'')]
         | ts \<Rightarrow> map (\<lambda>(i, t). raw_result (numbered ''T06-manifest-p'' (i + 1)) ''T06'' False t) (List.enumerate 0 ts)))"

section \<open>T3: schema hygiene\<close>

definition header_problem_text :: "py_text \<Rightarrow> header_problem \<Rightarrow> str" where
  "header_problem_text pt p =
     (case p of
        NotAToken \<Rightarrow> ascii ''name is not an HTTP token''
      | DuplicateName \<Rightarrow> ascii ''duplicate name (case-insensitive)''
      | BadType t \<Rightarrow> ascii ''type '' @ pt_repr pt (case t of None \<Rightarrow> PyAtom JNull | Some v \<Rightarrow> of_json v) @ ascii '' not string/integer/boolean''
      | NotViaProperties \<Rightarrow> ascii ''not reachable from the root via '' @ quoted (ascii ''properties'') @ ascii '' only'')"

definition violation_text :: "py_text \<Rightarrow> schema_violation \<Rightarrow> str" where
  "violation_text pt v =
     (case v of
        ExternalRef path ref \<Rightarrow> ascii ''external $ref at '' @ path @ ascii '': '' @ ref
      | InvalidHeader path p \<Rightarrow> ascii ''invalid x-mcp-header at '' @ path @ ascii '' ('' @ header_problem_text pt p @ ascii '')''
      | TooManyNodes \<Rightarrow> ascii ''schema exceeds '' @ digits max_schema_nodes @ ascii '' subschemas''
      | TooDeep n \<Rightarrow> ascii ''schema nesting depth '' @ digits n @ ascii '' exceeds '' @ digits max_schema_depth)"

definition t3_detail :: "py_text \<Rightarrow> str \<Rightarrow> schema_violation list \<Rightarrow> str" where
  "t3_detail pt nm vs =
     ascii ''Tool '' @ quoted nm @ ascii '' inputSchema: '' @ join [59, 32] (map (violation_text pt) (take 10 vs)) @
     (if length vs > 10 then ascii '' (+'' @ digits (length vs - 10) @ ascii '' more)'' else [])"

fun t3_findings :: "py_text \<Rightarrow> nat \<Rightarrow> discovered_tool list \<Rightarrow> probe_result list option" where
  "t3_findings pt i [] = Some []"
| "t3_findings pt i (t # ts) =
     (case tool_schema_violations (pt_lower pt) (JDict (dt_input_schema t)) of
        None \<Rightarrow> None
      | Some vs \<Rightarrow>
          map_option (\<lambda>rs. (if vs = [] then []
              else [raw_result (numbered ''T03-schema-p'' i) ''T03'' False (escape_capped (take 2000 (t3_detail pt (dt_name t) vs)))]) @ rs)
            (t3_findings pt (i + 1) ts))"

definition scan_manifest_t3_schema :: "py_text \<Rightarrow> discovered_tool list \<Rightarrow> probe_result list option" where
  "scan_manifest_t3_schema pt tools =
     (if tools = [] then Some []
      else map_option (\<lambda>rs. if rs \<noteq> [] then rs
          else [raw_result (ascii ''T03-schema-clean'') ''T03'' True
                  (ascii ''Tool-schema hygiene scan: '' @ digits (length tools) @
                   ascii '' tool(s); no external $ref, invalid x-mcp-header annotations, or oversized schemas.'')])
        (t3_findings pt 1 tools))"

section \<open>What a clean manifest means\<close>

lemma count_list_distinct: "list_all (\<lambda>x. count_list xs x \<le> 1) xs \<longleftrightarrow> distinct xs"
proof (induction xs)
  case (Cons a xs)
  have "list_all (\<lambda>x. count_list (a # xs) x \<le> 1) (a # xs) \<longleftrightarrow> count_list xs a = 0 \<and> list_all (\<lambda>x. count_list xs x \<le> 1) xs"
    by (auto simp: list_all_iff count_list_0_iff)
  then show ?case using Cons by (simp add: count_list_0_iff)
qed simp

lemma no_collisions: "collisions ns = [] \<longleftrightarrow> distinct ns"
  unfolding count_list_distinct [symmetric]
  by (auto simp: collisions_def first_occurrences_def filter_empty_conv list_all_iff not_less)

lemma no_shadows: "shadows pt ns = [] \<longleftrightarrow> (\<forall>nm \<in> set ns. \<forall>m \<in> set reserved_mcp_methods. levenshtein (folded_name pt nm) m > 1)"
proof -
  have "shadowed_method pt nm = None \<longleftrightarrow> (\<forall>m \<in> set reserved_mcp_methods. levenshtein (folded_name pt nm) m > 1)" for nm
    by (auto simp: shadowed_method_def find_None_iff not_le)
  then show ?thesis by (auto simp: shadows_def names_set_def split: option.splits)
qed

lemma no_near_collisions:
  "near_collisions pt ns = [] \<longleftrightarrow> sorted_wrt (\<lambda>a b. \<not> near_collision pt a b) ns"
  by (induction ns) (auto simp: filter_empty_conv)

text \<open>The integrity scan passes exactly when the names are distinct, none is within one edit of a reserved method and
  no two are look-alikes.\<close>

lemma t6_pass:
  assumes "tools \<noteq> []"
  shows "list_all pr_passed (scan_manifest_t6 pt tools) \<longleftrightarrow>
    distinct (map dt_name tools) \<and>
    (\<forall>nm \<in> set (map dt_name tools). \<forall>m \<in> set reserved_mcp_methods. levenshtein (folded_name pt nm) m > 1) \<and>
    sorted_wrt (\<lambda>a b. \<not> near_collision pt a b) (names_set (map dt_name tools))"
proof -
  let ?ns = "map dt_name tools"
  have "list_all pr_passed (scan_manifest_t6 pt tools) \<longleftrightarrow> t6_texts pt ?ns = []"
    using assms
    by (cases "t6_texts pt ?ns") (auto simp: scan_manifest_t6_def raw_result_def Let_def)
  then show ?thesis by (simp add: t6_texts_def no_collisions no_shadows no_near_collisions)
qed

text \<open>Without an allow-list the supply-chain scan never passes.\<close>

lemma t11_no_allowlist:
  "allowlist \<in> {None, Some []} \<Longrightarrow> list_all (\<lambda>r. \<not> pr_passed r \<and> pr_inconclusive r \<noteq> None) (scan_manifest_t11 pt tools allowlist)"
  by (auto simp: scan_manifest_t11_def make_probe_result_def escape_some_def no_allowlist_reason_def)

text \<open>A secret in the name of a tool is reported in clear: only the copy after \<open>Redacted:\<close> is redacted.\<close>

lemma t5_prints_name:
  "\<exists>a b. t5_excerpt strict t = a @ dt_name t @ b"
proof -
  have "t5_excerpt strict t = (ascii ''Tool '' @ [39]) @ dt_name t @
      ([39] @ ascii '' manifest entry leaks '' @ digits (length (t5_flagged strict t)) @
       ascii '' secret/PII value(s) ['' @ join [44, 32] (names_set (map (ascii \<circ> rm_type) (t5_flagged strict t))) @
       ascii '']. Redacted: '' @ sb_text (scrub (new_scrubber strict) (dt_name t @ [10] @ dt_description t)))"
    by (simp add: t5_excerpt_def quoted_def Let_def del: ascii_simps)
  then show ?thesis by blast
qed

text \<open>The identifier of a finding about destructive tools is the position of the tool, which the server chooses.\<close>

lemma t9_id_by_position:
  "pr_probe_id ` set (scan_manifest_t9 pt tools) =
     (\<lambda>i. numbered ''T09-manifest-p'' (i + 1)) ` {i. i < length tools \<and> lacks_second_stage pt (map dt_name tools) (tools ! i)}"
proof -
  have "set (filter (\<lambda>(i, t). lacks_second_stage pt (map dt_name tools) t) (List.enumerate 0 tools)) =
      (\<lambda>i. (i, tools ! i)) ` {i. i < length tools \<and> lacks_second_stage pt (map dt_name tools) (tools ! i)}"
    by (auto simp: in_set_enumerate_eq image_iff)
  then show ?thesis by (auto simp: scan_manifest_t9_def raw_result_def image_image)
qed

end
