(* ===== verification/Baseline.thy ===== *)
theory Baseline
  imports Probe_Result
begin

text \<open>
  \<open>baseline.py\<close>: the file of accepted findings. SHA-256 is the argument \<open>sha\<close>, \<open>decode\<close> is how \<open>json.loads\<close>
  turns the bytes of a file into text (it detects the encoding), \<open>lower\<close> is \<open>str.lower\<close>. All refusals of a file
  are one \<open>ValueError\<close>, \<open>None\<close>. A fingerprint is \<open>None\<close> where an identifier has no UTF-8 form.
\<close>

definition max_baseline_bytes :: nat where "max_baseline_bytes = 1048576"

definition fingerprint_domain :: str where "fingerprint_domain = ascii ''cosai-finding-v1''"

definition finding_fingerprint :: "(byte list \<Rightarrow> str) \<Rightarrow> str \<Rightarrow> str \<Rightarrow> str option" where
  "finding_fingerprint sha threat_id probe_id =
     map_option sha (utf8_encode (fingerprint_domain @ [31] @ threat_id @ [31] @ probe_id))"

definition hex_text :: "str \<Rightarrow> bool" where
  "hex_text s \<longleftrightarrow> length s = 64 \<and> list_all (\<lambda>c. c \<in> set (ascii ''0123456789abcdef'')) s"

definition entry_fingerprint :: "(str \<Rightarrow> str) \<Rightarrow> json \<Rightarrow> str option" where
  "entry_fingerprint lower entry =
     (case entry of
        JDict d \<Rightarrow>
          (case get d (ascii ''fingerprint'') of
             JStr s \<Rightarrow> (let fp = lower (py_strip s) in if hex_text fp then Some fp else None)
           | _ \<Rightarrow> None)
      | _ \<Rightarrow> None)"

definition parse_baseline :: "(str \<Rightarrow> str) \<Rightarrow> json \<Rightarrow> str list option" where
  "parse_baseline lower data =
     (case data of
        JDict d \<Rightarrow>
          (if num_value (get d (ascii ''version'')) \<noteq> Some 1 then None
           else case get d (ascii ''fingerprints'') of
             JList entries \<Rightarrow> those (map (entry_fingerprint lower) entries)
           | _ \<Rightarrow> None)
      | _ \<Rightarrow> None)"

definition load_baseline :: "(byte list \<Rightarrow> str option) \<Rightarrow> (str \<Rightarrow> str) \<Rightarrow> byte list \<Rightarrow> str list option" where
  "load_baseline decode lower raw =
     (if length raw > max_baseline_bytes then None
      else case decode raw of None \<Rightarrow> None
      | Some s \<Rightarrow> (case loads s of None \<Rightarrow> None | Some data \<Rightarrow> parse_baseline lower data))"

definition is_suppressed :: "(byte list \<Rightarrow> str) \<Rightarrow> str list \<Rightarrow> str \<Rightarrow> str \<Rightarrow> bool option" where
  "is_suppressed sha fingerprints threat_id probe_id =
     map_option (\<lambda>fp. fp \<in> set fingerprints) (finding_fingerprint sha threat_id probe_id)"

definition suppress :: "(byte list \<Rightarrow> str) \<Rightarrow> str list \<Rightarrow> probe_result \<Rightarrow> probe_result option" where
  "suppress sha fingerprints r =
     (if is_finding r
      then map_option (\<lambda>b. if b then r\<lparr>pr_suppressed := True\<rparr> else r) (is_suppressed sha fingerprints (pr_threat_id r) (pr_probe_id r))
      else Some r)"

definition apply_baseline :: "(byte list \<Rightarrow> str) \<Rightarrow> str list \<Rightarrow> probe_result list \<Rightarrow> probe_result list option" where
  "apply_baseline sha fingerprints rs = those (map (suppress sha fingerprints) rs)"

section \<open>What is suppressed\<close>

lemma those_Some_iff: "those xs = Some ys \<longleftrightarrow> xs = map Some ys"
  by (induction xs arbitrary: ys) (auto split: option.splits)

text \<open>Accepting a baseline changes nothing but the flag of the findings it names.\<close>

lemma apply_baseline_exact:
  assumes "apply_baseline sha fps rs = Some rs'"
  shows "list_all2 (\<lambda>r r'. r' = r \<and> (is_finding r \<longrightarrow> finding_fingerprint sha (pr_threat_id r) (pr_probe_id r) \<notin> Some ` set fps) \<or>
      r' = r\<lparr>pr_suppressed := True\<rparr> \<and> is_finding r \<and> finding_fingerprint sha (pr_threat_id r) (pr_probe_id r) \<in> Some ` set fps) rs rs'"
proof -
  have "map (suppress sha fps) rs = map Some rs'" using assms by (simp add: apply_baseline_def those_Some_iff)
  then have "list_all2 (\<lambda>r r'. suppress sha fps r = Some r') rs rs'"
    by (simp add: list_all2_conv_all_nth) (metis length_map nth_map)
  then show ?thesis
    by (rule list.rel_mono_strong) (auto simp: suppress_def is_suppressed_def split: if_splits)
qed

lemma baseline_entries_hex:
  assumes "load_baseline decode lower raw = Some fps"
  shows "list_all hex_text fps"
proof -
  have e: "hex_text fp" if "entry_fingerprint lower entry = Some fp" for entry fp
    using that by (auto simp: entry_fingerprint_def Let_def simp del: ascii_simps split: json.splits if_splits)
  obtain entries where "those (map (entry_fingerprint lower) entries) = Some fps"
    using assms by (auto simp: load_baseline_def parse_baseline_def simp del: ascii_simps split: if_splits option.splits json.splits)
  then have "map (entry_fingerprint lower) entries = map Some fps" by (simp add: those_Some_iff)
  then show ?thesis unfolding list_all_iff using e by (metis imageE list.set_map image_eqI)
qed

text \<open>Two findings share a fingerprint only if they are the same pair of identifiers, or SHA-256 collides; identifiers
  hold no separator.\<close>

lemma fingerprint_identifies_finding:
  assumes "finding_fingerprint sha t p = Some fp" "finding_fingerprint sha t' p' = Some fp"
    and "31 \<notin> set t" "31 \<notin> set p" "31 \<notin> set t'" "31 \<notin> set p'"
  shows "t = t' \<and> p = p' \<or> (\<exists>a b. a \<noteq> b \<and> sha a = sha b)"
proof -
  obtain x y where x: "utf8_encode (fingerprint_domain @ [31] @ t @ [31] @ p) = Some x" "sha x = fp"
    and y: "utf8_encode (fingerprint_domain @ [31] @ t' @ [31] @ p') = Some y" "sha y = fp"
    using assms(1,2) by (auto simp: finding_fingerprint_def)
  show ?thesis
  proof (cases "x = y")
    case True
    then have "t @ [31] @ p = t' @ [31] @ p'" using x y utf8_encode_inj by fastforce
    then have "takeWhile (\<lambda>c. c \<noteq> 31) (t @ [31] @ p) = takeWhile (\<lambda>c. c \<noteq> 31) (t' @ [31] @ p')" by simp
    moreover have "takeWhile (\<lambda>c. c \<noteq> 31) (s @ [31] @ q) = s" if "31 \<notin> set s" for s q :: str
      using that by (induction s) auto
    ultimately have "t = t'" using assms(3,5) by simp
    then show ?thesis using \<open>t @ [31] @ p = t' @ [31] @ p'\<close> by simp
  next
    case False
    then show ?thesis using x(2) y(2) by metis
  qed
qed

end
