(* ===== verification/Scan_Outcome.thy ===== *)
theory Scan_Outcome
  imports Assurance Baseline Py_Regex "HOL-Library.Product_Lexorder" "HOL-Library.Multiset"
begin

text \<open>
  The parts of \<open>api.py\<close> that judge a finished scan: which environment variables a subprocess may see, the hash that
  binds a report to its catalog, the result of a scan and its exit code. SHA-256 is the argument \<open>sha\<close>,
  \<open>lower\<close> and \<open>upper\<close> are \<open>str.lower\<close> and \<open>str.upper\<close>.
\<close>

section \<open>Coverage\<close>

definition coverage_matrix :: "(str \<times> str) list" where
  "coverage_matrix =
     [(ascii ''T1'', ascii ''black-box-prober''), (ascii ''T2'', ascii ''black-box-partial+stateful''),
      (ascii ''T3'', ascii ''black-box-prober''), (ascii ''T4'', ascii ''middleware-only+manifest''),
      (ascii ''T5'', ascii ''black-box-partial''), (ascii ''T6'', ascii ''black-box-partial+stateful''),
      (ascii ''T7'', ascii ''stateful''), (ascii ''T8'', ascii ''black-box-prober''),
      (ascii ''T9'', ascii ''middleware-only+manifest''), (ascii ''T10'', ascii ''black-box-prober''),
      (ascii ''T11'', ascii ''black-box-partial''), (ascii ''T12'', ascii ''middleware-only'')]"

definition middleware_only_categories :: "str list" where
  "middleware_only_categories = [ascii ''T4'', ascii ''T9'', ascii ''T12'']"

definition auth_probe_categories :: "str list" where
  "auth_probe_categories = [ascii ''T1'']"

definition normalise_categories :: "(str \<Rightarrow> str) \<Rightarrow> str list option \<Rightarrow> str list option" where
  "normalise_categories upper_of categories =
     (case categories of
        None \<Rightarrow> None
      | Some cs \<Rightarrow>
          (if cs = [] then None
           else let us = map upper_of cs in if set us = {ascii ''ALL''} then None else Some us))"

section \<open>The environment of a subprocess\<close>

definition dots :: rx where "dots = Star not_newline"

definition scrub_patterns :: "rx list" where
  "scrub_patterns =
     [seqs [dots, ci (ascii ''_TOKEN''), TextEnd], seqs [dots, ci (ascii ''_KEY''), TextEnd],
      seqs [dots, ci (ascii ''_SECRET''), TextEnd], seqs [dots, ci (ascii ''_PASSWORD''), TextEnd],
      seqs [dots, ci (ascii ''_CREDENTIAL''), dots], seqs [ci (ascii ''AWS_''), dots],
      ci (ascii ''GOOGLE_APPLICATION_CREDENTIALS''), seqs [ci (ascii ''GCP_''), dots], seqs [ci (ascii ''AZURE_''), dots],
      seqs [ci (ascii ''GH_''), dots], seqs [ci (ascii ''GITHUB_''), dots], seqs [ci (ascii ''DATABASE_URL''), TextEnd],
      seqs [ci (ascii ''MONGODB_URI''), TextEnd], seqs [ci (ascii ''MONGO_URI''), TextEnd],
      seqs [ci (ascii ''REDIS_URL''), TextEnd], seqs [ci (ascii ''CELERY_BROKER_URL''), TextEnd],
      seqs [ci (ascii ''SMTP_''), dots], seqs [ci (ascii ''MAIL_PASSWORD''), TextEnd]]"

definition scrub_allowlist :: "str list" where
  "scrub_allowlist = [ascii ''COSAI_REPORT_SIGNING_KEY'']"

text \<open>\<open>p.match\<close>: a match that starts at the first character.\<close>

definition matches_scrub :: "str \<Rightarrow> bool" where
  "matches_scrub k \<longleftrightarrow> list_ex (\<lambda>p. ends p k 0 \<noteq> []) scrub_patterns"

definition scrub_env :: "(str, str) dict \<Rightarrow> (str, str) dict" where
  "scrub_env env = filter (\<lambda>(k, v). k \<in> set scrub_allowlist \<or> \<not> matches_scrub k) env"

fun delete_matching :: "str list \<Rightarrow> (str, str) dict \<Rightarrow> (str, str) dict" where
  "delete_matching [] env = env"
| "delete_matching (k # ks) env =
     delete_matching ks
       (if k \<in> set scrub_allowlist then env else if matches_scrub k then AList.delete k env else env)"

definition apply_env_scrub :: "(str, str) dict \<Rightarrow> (str, str) dict" where
  "apply_env_scrub env = delete_matching (map fst env) env"

section \<open>The hash of a catalog\<close>

fun plain_json :: "pyval \<Rightarrow> json" where
  "plain_json (PyAtom v) = v"
| "plain_json (PyList vs) = JList (map plain_json vs)"
| "plain_json (PyTuple vs) = JList (map plain_json vs)"
| "plain_json (PyDict ps) = JDict (sort_key fst (map (\<lambda>(k, v). (k, plain_json v)) ps))"
| "plain_json (PyProxy ps) = JDict (sort_key fst (map (\<lambda>(k, v). (k, plain_json v)) ps))"

definition provenance_name :: "provenance \<Rightarrow> str" where
  "provenance_name v = ascii (case v of Official \<Rightarrow> ''official'' | Custom \<Rightarrow> ''custom'')"

definition canonical_assertion :: "assertion \<Rightarrow> json" where
  "canonical_assertion a =
     JDict [(ascii ''target'', JStr (at_target a)), (ascii ''operator'', JStr (operator_name (at_operator a))),
            (ascii ''value'', plain_json (at_value a))]"

definition headers_value :: "pyval option \<Rightarrow> json" where
  "headers_value h =
     (case h of None \<Rightarrow> JNull | Some v \<Rightarrow> if v = PyProxy [] \<or> v = PyDict [] then JNull else plain_json v)"

definition canonical_probe :: "probe \<Rightarrow> json" where
  "canonical_probe p =
     JDict [(ascii ''id'', JStr (pb_id p)), (ascii ''transport'', JStr (pb_transport p)), (ascii ''method'', JStr (pb_method p)),
            (ascii ''payload'', plain_json (pb_payload p)), (ascii ''assertions'', JList (map canonical_assertion (pb_assertions p))),
            (ascii ''corroboration'', JList (map canonical_assertion (pb_corroboration p))),
            (ascii ''probe_token'', opt_text (pb_token p)), (ascii ''probe_count'', JInt (pb_count p)),
            (ascii ''probe_headers'', headers_value (pb_headers p)),
            (ascii ''protocol_error_is_expected'', JBool (pb_protocol_error_expected p))]"

definition canonical_threat :: "threat \<Rightarrow> json" where
  "canonical_threat t =
     JDict [(ascii ''schema_version'', JStr (th_schema_version t)), (ascii ''id'', JStr (th_id t)),
            (ascii ''category'', JStr (th_category t)), (ascii ''severity'', JStr (severity_name (th_severity t))),
            (ascii ''cosai_ref'', JStr (th_cosai_ref t)), (ascii ''owasp_ref'', JStr (th_owasp_ref t)),
            (ascii ''cwe'', JList (map JStr (th_cwe t))), (ascii ''probes'', JList (map canonical_probe (th_probes t))),
            (ascii ''remediation'', JStr (th_remediation t)), (ascii ''references'', JList (map JStr (th_references t))),
            (ascii ''provenance'', JStr (provenance_name (th_provenance t))), (ascii ''mode'', JStr (th_mode t)),
            (ascii ''confidence'', JStr (confidence_name (th_confidence t)))]"

definition threat_order :: "threat \<Rightarrow> str \<times> str" where
  "threat_order t = (th_id t, provenance_name (th_provenance t))"

definition catalog_hash :: "(byte list \<Rightarrow> str) \<Rightarrow> threat list \<Rightarrow> str" where
  "catalog_hash sha ts = sha (map byte_of (canonical (JList (map canonical_threat (sort_key threat_order ts)))))"

section \<open>The result of a scan\<close>

record scan_result =
  so_target_url :: str
  so_threats :: "threat list"
  so_probes :: "probe_result list"
  so_scenarios :: "scenario_result list"
  so_timestamp :: str
  so_catalog_hash :: str
  so_exit_code :: nat
  so_assurance :: "assurance_report option"

definition has_findings :: "scan_result \<Rightarrow> bool" where
  "has_findings s \<longleftrightarrow>
     list_ex (\<lambda>r. pr_error r = None \<and> \<not> pr_passed r \<and> \<not> pr_suppressed r \<and> pr_inconclusive r = None) (so_probes s) \<or>
     list_ex (\<lambda>r. \<not> sr_passed r \<and> sr_status r = ScenarioComplete) (so_scenarios s)"

definition is_incomplete :: "scan_result \<Rightarrow> bool" where
  "is_incomplete s \<longleftrightarrow> list_ex (\<lambda>r. sr_status r = ScenarioIncomplete) (so_scenarios s)"

section \<open>The exit code\<close>

definition severity_rank :: "str \<Rightarrow> nat option" where
  "severity_rank s =
     map_of [(ascii ''info'', 0), (ascii ''low'', 1), (ascii ''medium'', 2), (ascii ''high'', 3), (ascii ''critical'', 4)] s"

definition threshold_of :: "(str \<Rightarrow> str) \<Rightarrow> str \<Rightarrow> nat" where
  "threshold_of lower fail_on = (case severity_rank (lower fail_on) of Some n \<Rightarrow> n | None \<Rightarrow> 4)"

definition is_crash :: "probe_result \<Rightarrow> bool" where
  "is_crash r =
     (case pr_error r of None \<Rightarrow> False | Some e \<Rightarrow> \<not> (has_sub (ascii ''timed out'') e \<or> has_sub (ascii ''-32029'') e))"

text \<open>Without severities every failed probe counts; a threat without a known severity counts.\<close>

definition above_threshold :: "nat \<Rightarrow> (str \<Rightarrow> severity option) option \<Rightarrow> probe_result \<Rightarrow> bool" where
  "above_threshold threshold severities r =
     (case severities of
        None \<Rightarrow> True
      | Some sev \<Rightarrow>
          (case sev (pr_threat_id r) of
             None \<Rightarrow> True
           | Some v \<Rightarrow> (case severity_rank (severity_name v) of None \<Rightarrow> 0 | Some n \<Rightarrow> n) \<ge> threshold))"

definition gating :: "(probe_result \<Rightarrow> bool) \<Rightarrow> probe_result \<Rightarrow> bool" where
  "gating over r \<longleftrightarrow> is_finding r \<and> \<not> pr_suppressed r \<and> over r"

definition clean_pass :: "(probe_result \<Rightarrow> bool) \<Rightarrow> probe_result \<Rightarrow> bool" where
  "clean_pass over r \<longleftrightarrow> pr_passed r \<and> \<not> pr_suppressed r \<and> over r"

definition nothing_verified :: "(probe_result \<Rightarrow> bool) \<Rightarrow> probe_result list \<Rightarrow> bool" where
  "nothing_verified over rs =
     (if list_ex (clean_pass over) rs then False
      else let qualifying = filter (\<lambda>r. \<not> pr_suppressed r \<and> \<not> pr_passed r \<and> over r) rs
           in qualifying \<noteq> [] \<and> list_all (\<lambda>r. pr_error r \<noteq> None) qualifying)"

definition failed_scenario :: "scenario_result \<Rightarrow> bool" where
  "failed_scenario s \<longleftrightarrow> \<not> sr_passed s \<and> sr_status s \<noteq> ScenarioInconclusive"

definition determine_exit_code :: "(str \<Rightarrow> str) \<Rightarrow> probe_result list \<Rightarrow> scenario_result list \<Rightarrow> str \<Rightarrow>
    (str \<Rightarrow> severity option) option \<Rightarrow> nat" where
  "determine_exit_code lower rs ss fail_on severities =
     (if list_ex (\<lambda>s. sr_status s = ScenarioIncomplete) ss then 2
      else if list_ex is_crash rs then 2
      else let over = above_threshold (threshold_of lower fail_on) severities in
        if nothing_verified over rs then 2
        else if list_ex (gating over) rs \<or> list_ex failed_scenario ss then 1
        else 0)"

section \<open>What a subprocess cannot see\<close>

lemma matches_scrub_iff: "matches_scrub k \<longleftrightarrow> (\<exists>p \<in> set scrub_patterns. \<exists>j. span p k 0 j)"
proof -
  have "ends p k 0 \<noteq> [] \<longleftrightarrow> (\<exists>j. span p k 0 j)" for p
    using ends_span [of 0 k _ p] by (metis ex_in_conv le0 set_empty2)
  then show ?thesis by (simp add: matches_scrub_def list_ex_iff)
qed

lemma seqs_Cons: "rs \<noteq> [] \<Longrightarrow> seqs (r # rs) = Seq r (seqs rs)"
  by (cases rs) auto

lemma span_ci:
  "span (ci w) s i j \<longleftrightarrow> j = i + length w \<and> (i + length w \<le> length s \<or> w = []) \<and> list_all2 ci_eq w (take (length w) (drop i s))"
proof (induction w arbitrary: i)
  case Nil
  show ?case by (auto simp: ci_def)
next
  case (Cons c w)
  have 1: "span (ci (c # w)) s i j \<longleftrightarrow> i < length s \<and> ci_eq c (s ! i) \<and> span (ci w) s (i + 1) j"
    by (cases w) (auto simp: ci_def)
  have 2: "take (length (c # w)) (drop i s) = s ! i # take (length w) (drop (i + 1) s)" if "i < length s"
    using that by (simp add: Cons_nth_drop_Suc [symmetric])
  show ?case
  proof (cases "i < length s")
    case True
    show ?thesis unfolding 1 2 [OF True] Cons.IH using True by auto
  qed (auto simp: 1)
qed

lemma span_dots: "i \<le> j \<Longrightarrow> j \<le> length s \<Longrightarrow> 10 \<notin> set s \<Longrightarrow> span dots s i j"
proof (induction "j - i" arbitrary: j)
  case 0
  then show ?case by (auto simp: dots_def intro: exI [of _ 0])
next
  case (Suc n)
  then have j: "n = (j - 1) - i" "i \<le> j - 1" "j - 1 \<le> length s" "j - 1 < length s" "j - 1 + 1 = j" by auto
  from Suc.hyps(1) [OF j(1-3) Suc.prems(3)]
  obtain m where m: "((\<lambda>x y. x < y \<and> span not_newline s x y) ^^ m) i (j - 1)" unfolding dots_def span.simps by blast
  have "s ! (j - 1) \<noteq> 10" using j(4) Suc.prems(3) by (metis nth_mem)
  then have "span not_newline s (j - 1) j" using j(4,5) by (simp add: not_newline_def)
  then have "((\<lambda>x y. x < y \<and> span not_newline s x y) ^^ Suc m) i j" using m j(5) by auto
  then show ?case unfolding dots_def span.simps by blast
qed

text \<open>A name on one line that ends like a secret, in whatever case, never reaches a subprocess.\<close>

lemma secret_names_match:
  assumes "10 \<notin> set k" and "k = a @ b" and "list_all2 ci_eq w b"
    and "w \<in> {ascii ''_TOKEN'', ascii ''_KEY'', ascii ''_SECRET'', ascii ''_PASSWORD''}"
  shows "matches_scrub k"
proof -
  have l: "length w = length b" using assms(3) by (rule list_all2_lengthD)
  have "seqs [dots, ci w, TextEnd] \<in> set scrub_patterns" using assms(4) by (auto simp: scrub_patterns_def simp del: ascii_simps)
  moreover have "span dots k 0 (length a)" using assms(1,2) by (intro span_dots) auto
  moreover have "span (ci w) k (length a) (length k)" using assms(2,3) l by (simp add: span_ci)
  moreover have "span TextEnd k (length k) (length k)" by (simp add: text_end_def)
  ultimately show ?thesis unfolding matches_scrub_iff by (metis seqs.simps(2,3) span.simps(2))
qed

lemma scrub_env_hides:
  assumes "matches_scrub k" "k \<notin> set scrub_allowlist"
  shows "k \<notin> fst ` set (scrub_env env)"
  using assms by (auto simp: scrub_env_def)

lemma delete_filter: "AList.delete k d = filter (\<lambda>(x, v). x \<noteq> k) d"
  by (auto simp: AList.delete_eq intro!: filter_cong)

lemma delete_matching_filter:
  "delete_matching ks d = filter (\<lambda>(k, v). \<not> (k \<in> set ks \<and> k \<notin> set scrub_allowlist \<and> matches_scrub k)) d"
proof (induction ks arbitrary: d)
  case Nil
  show ?case by simp
next
  case (Cons k ks)
  show ?case unfolding delete_matching.simps Cons.IH
    by (auto simp: delete_filter intro!: filter_cong)
qed

text \<open>Deleting the secrets from the environment in place leaves what the copy without them holds.\<close>

lemma apply_env_scrub_eq: "apply_env_scrub env = scrub_env env"
  unfolding apply_env_scrub_def scrub_env_def delete_matching_filter by (rule filter_cong) force+

section \<open>What the hash of a catalog binds\<close>

lemma catalog_hash_binds:
  assumes "catalog_hash sha ts = catalog_hash sha ts'"
    and "list_all (json_ok \<circ> canonical_threat) ts" "list_all (json_ok \<circ> canonical_threat) ts'"
    and "\<And>a b. sha a = sha b \<Longrightarrow> a = b"
  shows "mset (map (sorted_json \<circ> canonical_threat) ts) = mset (map (sorted_json \<circ> canonical_threat) ts')"
proof -
  let ?v = "\<lambda>ts. JList (map canonical_threat (sort_key threat_order ts))"
  have dec: "utf8_decode (map byte_of (canonical v)) = Some (canonical v)" for v
    by (rule utf8_decode_ascii) (rule dumps_ascii; simp)
  have "map byte_of (canonical (?v ts)) = map byte_of (canonical (?v ts'))" using assms(1,4) unfolding catalog_hash_def by blast
  then have c: "canonical (?v ts) = canonical (?v ts')" using dec by (metis option.inject)
  have "json_ok (?v ts)" "json_ok (?v ts')" using assms(2,3) by (auto simp: list_all_iff)
  from canonical_inj [OF this c]
  have "map (sorted_json \<circ> canonical_threat) (sort_key threat_order ts) = map (sorted_json \<circ> canonical_threat) (sort_key threat_order ts')"
    by simp
  then have "mset (map (sorted_json \<circ> canonical_threat) (sort_key threat_order ts)) =
      mset (map (sorted_json \<circ> canonical_threat) (sort_key threat_order ts'))" by simp
  then show ?thesis by (simp only: mset_map mset_sort)
qed

text \<open>The era a probe is for, and the numbered references, are not part of the hash.\<close>

lemma catalog_hash_omits:
  "catalog_hash sha (map (\<lambda>t. t\<lparr>th_probes := map (pb_requires_era_update (\<lambda>_. e)) (th_probes t), th_mcp_t_ref := m, th_threat_refs := n\<rparr>) ts) =
   catalog_hash sha ts"
proof -
  let ?f = "\<lambda>t. t\<lparr>th_probes := map (pb_requires_era_update (\<lambda>_. e)) (th_probes t), th_mcp_t_ref := m, th_threat_refs := n\<rparr>"
  have k: "threat_order (?f t) = threat_order t" for t by (simp add: threat_order_def)
  have i: "insort_key threat_order (?f t) (map ?f xs) = map ?f (insort_key threat_order t xs)" for t xs
    by (induction xs) (simp_all add: k)
  have s: "sort_key threat_order (map ?f xs) = map ?f (sort_key threat_order xs)" for xs
    by (induction xs) (simp_all add: sort_key_def i del: threat.update_convs)
  have p: "canonical_probe (pb_requires_era_update (\<lambda>_. e) x) = canonical_probe x" for x by (simp add: canonical_probe_def)
  have "canonical_threat (?f t) = canonical_threat t" for t by (simp add: canonical_threat_def p)
  then show ?thesis unfolding catalog_hash_def s by (simp add: comp_def)
qed

section \<open>What the exit code says\<close>

lemma exit_code_zero_iff:
  "determine_exit_code lower rs ss fail_on sev = 0 \<longleftrightarrow>
     list_all (\<lambda>s. sr_status s = ScenarioComplete \<and> sr_passed s \<or> sr_status s = ScenarioInconclusive) ss \<and>
     list_all (\<lambda>r. \<not> is_crash r) rs \<and>
     list_all (\<lambda>r. \<not> gating (above_threshold (threshold_of lower fail_on) sev) r) rs \<and>
     \<not> nothing_verified (above_threshold (threshold_of lower fail_on) sev) rs"
proof -
  have "sr_status s = ScenarioComplete \<and> sr_passed s \<or> sr_status s = ScenarioInconclusive \<longleftrightarrow>
      sr_status s \<noteq> ScenarioIncomplete \<and> \<not> failed_scenario s" for s
    by (cases "sr_status s") (auto simp: failed_scenario_def)
  then show ?thesis
    by (auto simp: determine_exit_code_def Let_def list_all_iff list_ex_iff)
qed

lemma exit_code_range: "determine_exit_code lower rs ss fail_on sev \<in> {0, 1, 2}"
  by (simp add: determine_exit_code_def Let_def)

text \<open>A server that lets every probe time out cannot get a clean exit, unless one probe is inconclusive.\<close>

lemma nothing_verified_iff:
  "nothing_verified over rs \<longleftrightarrow>
     list_all (\<lambda>r. pr_suppressed r \<or> \<not> over r \<or> \<not> pr_passed r \<and> pr_error r \<noteq> None) rs \<and>
     list_ex (\<lambda>r. \<not> pr_suppressed r \<and> over r) rs"
  unfolding nothing_verified_def clean_pass_def Let_def list_all_iff list_ex_iff filter_empty_conv by auto

lemma timeouts_beside_one_inconclusive:
  assumes "pr_inconclusive r = Some reason" "pr_error r = None" "\<not> pr_passed r"
    and "list_all (\<lambda>q. \<not> pr_passed q \<and> pr_error q = Some (ascii ''timed out'')) rs"
  shows "determine_exit_code lower (r # rs) [] fail_on None = (if pr_suppressed r \<and> list_ex (\<lambda>q. \<not> pr_suppressed q) rs then 2 else 0)"
proof -
  have "has_sub (ascii ''timed out'') (ascii ''timed out'')" by code_simp
  then have "list_all (\<lambda>q. \<not> is_crash q) rs" "list_all (\<lambda>q. \<not> gating over q) rs" for over
    using assms(4) by (auto simp: list_all_iff is_crash_def gating_def is_finding_def simp del: ascii_simps)
  moreover have "\<not> is_crash r" "\<not> gating over r" for over using assms by (auto simp: is_crash_def gating_def is_finding_def)
  ultimately show ?thesis
    using assms by (auto simp: determine_exit_code_def Let_def nothing_verified_iff above_threshold_def list_all_iff list_ex_iff)
qed

end
