(* ===== verification/Py_Url.thy ===== *)
theory Py_Url
  imports Meta_Identity
begin

text \<open>
  \<open>urllib.parse.urlparse\<close>, \<open>hostname\<close> and \<open>port\<close>, as the standard library documents and implements them. A
  \<open>url_env\<close> is what they rest on: \<open>str.lower\<close>, the check of a bracketed host (\<open>ipaddress\<close>), and the check that
  a host that is not ASCII has no delimiter in its NFKC form. \<open>None\<close> is a \<open>ValueError\<close>.
\<close>

record url_env =
  ue_lower :: "str \<Rightarrow> str"
  ue_bracket :: "str \<Rightarrow> bool"
  ue_nfkc :: "str \<Rightarrow> bool"

record url =
  url_scheme :: str
  url_netloc :: str
  url_path :: str
  url_query :: str
  url_fragment :: str

definition letter :: "nat \<Rightarrow> bool" where
  "letter c \<longleftrightarrow> 65 \<le> c \<and> c \<le> 90 \<or> 97 \<le> c \<and> c \<le> 122"

definition scheme_char :: "nat \<Rightarrow> bool" where
  "scheme_char c \<longleftrightarrow> letter c \<or> is_digit c \<or> c \<in> {43, 45, 46}"

text \<open>Leading control characters and spaces, and every tab and line break, are removed.\<close>

definition clean_url :: "str \<Rightarrow> str" where
  "clean_url s = filter (\<lambda>c. c \<notin> {9, 10, 13}) (dropWhile (\<lambda>c. c \<le> 32) s)"

text \<open>\<open>s.partition(c)\<close>, and whether the separator was found.\<close>

definition cut_at :: "nat \<Rightarrow> str \<Rightarrow> str \<times> bool \<times> str" where
  "cut_at c s =
     (let a = takeWhile (\<lambda>x. x \<noteq> c) s in (a, length a < length s, drop (length a + 1) s))"

definition split_scheme :: "(str \<Rightarrow> str) \<Rightarrow> str \<Rightarrow> str \<times> str" where
  "split_scheme lower s =
     (let (a, found, rest) = cut_at 58 s in
      if found \<and> a \<noteq> [] \<and> letter (hd a) \<and> list_all scheme_char a then (lower a, rest) else ([], s))"

definition split_netloc :: "str \<Rightarrow> str \<times> str" where
  "split_netloc s =
     (if starts_with (ascii ''//'') s
      then let r = drop 2 s; n = takeWhile (\<lambda>c. c \<notin> {47, 63, 35}) r in (n, drop (length n) r)
      else ([], s))"

definition netloc_ok :: "url_env \<Rightarrow> str \<Rightarrow> bool" where
  "netloc_ok e n \<longleftrightarrow>
     (91 \<in> set n \<longleftrightarrow> 93 \<in> set n) \<and> (91 \<in> set n \<longrightarrow> ue_bracket e n) \<and> (list_all (\<lambda>c. c < 128) n \<or> ue_nfkc e n)"

text \<open>The parameters of the last path segment are cut off for the schemes that have them.\<close>

definition uses_params :: "str list" where
  "uses_params = map ascii ['''', ''ftp'', ''hdl'', ''prospero'', ''http'', ''https'', ''shttp'', ''rtsp'', ''rtspu'',
     ''sip'', ''sips'', ''mms'', ''sftp'', ''tel'']"

definition last_segment :: "str \<Rightarrow> str" where
  "last_segment s = rev (takeWhile (\<lambda>c. c \<noteq> 47) (rev s))"

definition cut_params :: "str \<Rightarrow> str \<Rightarrow> str" where
  "cut_params scheme p =
     (if scheme \<in> set uses_params
      then let l = last_segment p in take (length p - length l) p @ fst (cut_at 59 l)
      else p)"

definition urlparse :: "url_env \<Rightarrow> str \<Rightarrow> url option" where
  "urlparse e s =
     (let (scheme, rest) = split_scheme (ue_lower e) (clean_url s);
          (netloc, rest2) = split_netloc rest;
          (rest3, _, fragment) = cut_at 35 rest2;
          (path, _, query) = cut_at 63 rest3
      in if netloc_ok e netloc
         then Some \<lparr>url_scheme = scheme, url_netloc = netloc, url_path = cut_params scheme path, url_query = query,
                    url_fragment = fragment\<rparr>
         else None)"

definition hostinfo :: "url \<Rightarrow> str \<times> str" where
  "hostinfo u =
     (let h = rev (takeWhile (\<lambda>c. c \<noteq> 64) (rev (url_netloc u)));
          (_, bracket, bracketed) = cut_at 91 h
      in if bracket
         then let (host, _, rest) = cut_at 93 bracketed; (_, _, port) = cut_at 58 rest in (host, port)
         else let (host, _, port) = cut_at 58 h in (host, port))"

definition url_hostname :: "url_env \<Rightarrow> url \<Rightarrow> str option" where
  "url_hostname e u =
     (let host = fst (hostinfo u); (h, percent, zone) = cut_at 37 host
      in if host = [] then None else Some (ue_lower e h @ (if percent then 37 # zone else [])))"

text \<open>No port is \<open>Some None\<close>.\<close>

definition url_port :: "url \<Rightarrow> nat option option" where
  "url_port u =
     (let port = snd (hostinfo u) in
      if port = [] then Some None
      else if list_all is_digit port \<and> digits_value port \<le> 65535 then Some (Some (digits_value port))
      else None)"

definition url_origin :: "url \<Rightarrow> str" where
  "url_origin u = url_scheme u @ ascii ''://'' @ url_netloc u"

section \<open>What parsing yields\<close>

lemma cut_at_parts:
  assumes "cut_at c s = (a, f, b)"
  shows "c \<notin> set a" "s = a @ (if f then c # b else [])" "\<not> f \<Longrightarrow> b = []"
proof -
  let ?a = "takeWhile (\<lambda>x. x \<noteq> c) s"
  have p: "a = ?a" "f \<longleftrightarrow> length ?a < length s" "b = drop (length ?a + 1) s"
    using assms by (auto simp: cut_at_def Let_def)
  show "c \<notin> set a" using p(1) set_takeWhileD by fastforce
  have s: "s = ?a @ dropWhile (\<lambda>x. x \<noteq> c) s" by simp
  have l: "length s = length ?a + length (dropWhile (\<lambda>x. x \<noteq> c) s)" by (metis length_append s)
  show "s = a @ (if f then c # b else [])"
  proof (cases "dropWhile (\<lambda>x. x \<noteq> c) s")
    case Nil
    then have "\<not> f" using p(2) l by simp
    moreover have "a = s" unfolding p(1) using Nil by (metis append_Nil2 takeWhile_dropWhile_id)
    ultimately show ?thesis by simp
  next
    case (Cons d r)
    then have "d = c" by (metis (mono_tags) dropWhile_eq_Cons_conv)
    moreover have "b = r" using p(3) Cons by (simp add: dropWhile_eq_drop)
      (metis Cons drop_Suc dropWhile_eq_drop list.sel(3) tl_drop)
    moreover have "f" using p(2) l Cons by simp
    ultimately show ?thesis using p(1) s Cons by simp
  qed
  show "\<not> f \<Longrightarrow> b = []" using p by simp
qed

lemma split_netloc_chars:
  assumes "split_netloc s = (n, r)"
  shows "list_all (\<lambda>c. c \<notin> {47, 63, 35}) n"
  using assms unfolding split_netloc_def Let_def
  by (auto simp: list_all_iff split: if_splits dest: set_takeWhileD)

text \<open>No part of a parsed host can hold a delimiter: what follows the host cannot be mistaken for it.\<close>

lemma parsed_netloc:
  assumes "urlparse e s = Some u"
  shows "list_all (\<lambda>c. c \<notin> {47, 63, 35}) (url_netloc u)" and "netloc_ok e (url_netloc u)"
proof -
  obtain sc r n r2 where "split_scheme (ue_lower e) (clean_url s) = (sc, r)" "split_netloc r = (n, r2)" "url_netloc u = n" "netloc_ok e n"
    using assms by (auto simp: urlparse_def Let_def split: prod.splits if_splits)
  then show "list_all (\<lambda>c. c \<notin> {47, 63, 35}) (url_netloc u)" "netloc_ok e (url_netloc u)"
    using split_netloc_chars by auto
qed

lemma hostname_nonempty: "url_hostname e u = Some h \<Longrightarrow> fst (hostinfo u) \<noteq> []"
  by (auto simp: url_hostname_def Let_def split: prod.splits if_splits)

lemma url_port_bound: "url_port u = Some (Some p) \<Longrightarrow> p \<le> 65535"
  by (auto simp: url_port_def Let_def split: if_splits)

definition plain_env :: url_env where
  "plain_env = \<lparr>ue_lower = map (\<lambda>c. if 65 \<le> c \<and> c \<le> 90 then c + 32 else c), ue_bracket = (\<lambda>_. True), ue_nfkc = (\<lambda>_. True)\<rparr>"

lemma urlparse_example:
  "map_option (\<lambda>u. (url_scheme u, url_hostname plain_env u, url_path u)) (urlparse plain_env (ascii ''HTTP://u@Mcp:84/a/b;c?q#f'')) =
   Some (ascii ''http'', Some (ascii ''mcp''), ascii ''/a/b'')"
  by code_simp

end
