(* ===== verification/Addresses.thy ===== *)
theory Addresses
  imports Py_Url Py_Value "HOL-Library.Word"
begin

text \<open>
  The network allow-list of the transports (\<open>transport/base.py\<close>) and the operator's bind-address check
  (\<open>middleware/network.py\<close>). \<open>parse\<close> is \<open>ipaddress.ip_address\<close> on text (\<open>None\<close> is its \<open>ValueError\<close>),
  \<open>resolver\<close> is \<open>socket.getaddrinfo\<close>: the answers in order, with whether their family is \<open>AF_INET\<close>, or the text of
  the error it raises.
\<close>

datatype ip_address = V4 "32 word" | V6 "128 word"

type_synonym resolver = "str \<Rightarrow> str + (bool \<times> str) list"

section \<open>Address blocks\<close>

datatype ip_network = Net4 "32 word" nat | Net6 "128 word" nat

text \<open>Membership compares the prefix, and an address of the other family is in no block.\<close>

fun in_network :: "ip_address \<Rightarrow> ip_network \<Rightarrow> bool" where
  "in_network (V4 a) (Net4 n k) = (drop_bit (32 - k) a = drop_bit (32 - k) n)"
| "in_network (V6 a) (Net6 n k) = (drop_bit (128 - k) a = drop_bit (128 - k) n)"
| "in_network _ _ = False"

definition rfc1918 :: "ip_network list" where
  "rfc1918 = [Net4 0x0A000000 8, Net4 0xAC100000 12, Net4 0xC0A80000 16]"

definition link_local :: "ip_network list" where
  "link_local = [Net4 0xA9FE0000 16, Net6 0xFE800000000000000000000000000000 10]"

definition loopback_nets :: "ip_network list" where
  "loopback_nets = [Net4 0x7F000000 8, Net6 1 128]"

definition ula :: "ip_network list" where
  "ula = [Net6 0xFC000000000000000000000000000000 7]"

definition always_blocked :: "ip_network list" where "always_blocked = ula"

definition private_blocks :: "ip_network list" where "private_blocks = rfc1918 @ link_local @ loopback_nets"

definition is_private_address :: "(str \<Rightarrow> ip_address option) \<Rightarrow> str \<Rightarrow> bool option" where
  "is_private_address parse ip = map_option (\<lambda>a. list_ex (in_network a) private_blocks) (parse ip)"

definition is_always_blocked :: "(str \<Rightarrow> ip_address option) \<Rightarrow> str \<Rightarrow> bool option" where
  "is_always_blocked parse ip = map_option (\<lambda>a. list_ex (in_network a) always_blocked) (parse ip)"

section \<open>Resolving and pinning\<close>

datatype pin_error = LookupFailed str | NotResolved | AlwaysBlocked str | PrivateAddress str | NotAnAddress

text \<open>The verdict on one resolved address; the scanner and the containment code share it.\<close>

definition vet_address :: "(str \<Rightarrow> ip_address option) \<Rightarrow> bool \<Rightarrow> str \<Rightarrow> pin_error + str" where
  "vet_address parse allow_private raw_ip =
     (case is_always_blocked parse raw_ip of
        None \<Rightarrow> Inl NotAnAddress
      | Some blocked \<Rightarrow>
          if blocked then Inl (AlwaysBlocked raw_ip)
          else (case is_private_address parse raw_ip of
                  None \<Rightarrow> Inl NotAnAddress
                | Some p \<Rightarrow> if p \<and> \<not> allow_private then Inl (PrivateAddress raw_ip) else Inr raw_ip))"

definition ipv4_first :: "(bool \<times> str) list \<Rightarrow> (bool \<times> str) list" where
  "ipv4_first results = sort_key (\<lambda>r. if fst r then 0 else 1 :: nat) results"

definition resolve_and_pin :: "(str \<Rightarrow> ip_address option) \<Rightarrow> resolver \<Rightarrow> bool \<Rightarrow> str \<Rightarrow> pin_error + str" where
  "resolve_and_pin parse resolver allow_private hostname =
     (case resolver hostname of
        Inl e \<Rightarrow> Inl (LookupFailed e)
      | Inr results \<Rightarrow> (case ipv4_first results of [] \<Rightarrow> Inl NotResolved | r # _ \<Rightarrow> vet_address parse allow_private (snd r)))"

datatype wire_error = SuspiciousRedirect int | DnsRebinding str str

definition check_redirect :: "int \<Rightarrow> wire_error + unit" where
  "check_redirect status = (if 300 \<le> status \<and> status < 400 then Inl (SuspiciousRedirect status) else Inr ())"

definition check_dns_rebinding :: "str \<Rightarrow> str \<Rightarrow> wire_error + unit" where
  "check_dns_rebinding expected actual = (if expected \<noteq> actual then Inl (DnsRebinding expected actual) else Inr ())"

section \<open>The operator's bind address\<close>

record bind_check =
  bc_host :: str
  bc_port :: int
  bc_loopback_only :: bool
  bc_resolved :: "str list"
  bc_error :: "str option"

text \<open>\<open>loopback6\<close> is \<open>IPv6Address.is_loopback\<close>; whether it looks through mapped IPv4 addresses depends on the Python release.\<close>

definition is_loopback_ip :: "(str \<Rightarrow> ip_address option) \<Rightarrow> (128 word \<Rightarrow> bool) \<Rightarrow> str \<Rightarrow> bool" where
  "is_loopback_ip parse loopback6 ip =
     (case parse ip of None \<Rightarrow> False | Some (V4 a) \<Rightarrow> in_network (V4 a) (Net4 0x7F000000 8) | Some (V6 a) \<Rightarrow> loopback6 a)"

definition is_loopback_only :: "(str \<Rightarrow> ip_address option) \<Rightarrow> (128 word \<Rightarrow> bool) \<Rightarrow> resolver \<Rightarrow> str \<Rightarrow> bool" where
  "is_loopback_only parse loopback6 resolver host =
     (case resolver host of
        Inl e \<Rightarrow> False
      | Inr infos \<Rightarrow> (let ips = map snd infos in if ips = [] then False else list_all (is_loopback_ip parse loopback6) ips))"

definition check_bind_address :: "(str \<Rightarrow> ip_address option) \<Rightarrow> (128 word \<Rightarrow> bool) \<Rightarrow> resolver \<Rightarrow> str \<Rightarrow> int \<Rightarrow> bind_check" where
  "check_bind_address parse loopback6 resolver host port =
     (case resolver host of
        Inl e \<Rightarrow> \<lparr>bc_host = host, bc_port = port, bc_loopback_only = False, bc_resolved = [], bc_error = Some e\<rparr>
      | Inr infos \<Rightarrow>
          (let ips = map snd infos in
           \<lparr>bc_host = host, bc_port = port, bc_loopback_only = ips \<noteq> [] \<and> list_all (is_loopback_ip parse loopback6) ips,
            bc_resolved = ips, bc_error = None\<rparr>))"

section \<open>The certificate of the transport\<close>

text \<open>\<open>ssl.getpeercert()\<close>: the subject's names, the alternative names and the expiry date.\<close>

record peer_cert =
  pc_subject :: "(str \<times> str) list list"
  pc_san :: "(str \<times> str) list"
  pc_not_after :: "str option"

record cert_summary =
  cs_subject_cn :: "str option"
  cs_san :: "str list"
  cs_not_after :: "str option"
  cs_cipher :: "str option"
  cs_protocol :: "str option"

definition common_name :: "(str \<times> str) list list \<Rightarrow> str option" where
  "common_name subject = map_of (rev (concat subject)) (ascii ''commonName'')"

text \<open>\<open>cert\<close> is \<open>None\<close> for a missing or empty certificate, \<open>cipher\<close> is the pair of a name and a protocol.\<close>

definition summarize_certificate :: "peer_cert option \<Rightarrow> (str \<times> str) option \<Rightarrow> str option \<Rightarrow> cert_summary" where
  "summarize_certificate cert cipher protocol =
     \<lparr>cs_subject_cn = (case cert of None \<Rightarrow> None | Some c \<Rightarrow> common_name (pc_subject c)),
      cs_san = (case cert of None \<Rightarrow> [] | Some c \<Rightarrow> map (\<lambda>(t, v). t @ 58 # v) (pc_san c)),
      cs_not_after = (case cert of None \<Rightarrow> None | Some c \<Rightarrow> pc_not_after c),
      cs_cipher = map_option fst cipher,
      cs_protocol = (case protocol of Some p \<Rightarrow> if p = [] then map_option snd cipher else Some p | None \<Rightarrow> map_option snd cipher)\<rparr>"

datatype tls_attempt =
    Handshake "peer_cert option" "(str \<times> str) option" "str option"
  | SslFailure str
  | SocketFailure str

record tls_inspection =
  ti_host :: str
  ti_port :: int
  ti_tls :: bool
  ti_summary :: "cert_summary option"
  ti_mtls_required :: "bool option"
  ti_error :: "str option"

definition inspect_tls :: "(str \<Rightarrow> str) \<Rightarrow> str \<Rightarrow> int \<Rightarrow> tls_attempt \<Rightarrow> tls_inspection" where
  "inspect_tls lower host port attempt =
     (case attempt of
        Handshake cert cipher version \<Rightarrow>
          \<lparr>ti_host = host, ti_port = port, ti_tls = True, ti_summary = Some (summarize_certificate cert cipher version),
           ti_mtls_required = Some False, ti_error = None\<rparr>
      | SslFailure msg \<Rightarrow>
          (let l = lower msg; mtls = has_sub (ascii ''certificate required'') l \<or> has_sub (ascii ''peer did not return'') l in
           \<lparr>ti_host = host, ti_port = port, ti_tls = False, ti_summary = None,
            ti_mtls_required = (if mtls then Some True else None), ti_error = Some msg\<rparr>)
      | SocketFailure msg \<Rightarrow>
          \<lparr>ti_host = host, ti_port = port, ti_tls = False, ti_summary = None, ti_mtls_required = None, ti_error = Some msg\<rparr>)"

section \<open>What a pinned address is\<close>

definition blocked_by :: "ip_network list \<Rightarrow> (str \<Rightarrow> ip_address option) \<Rightarrow> str \<Rightarrow> bool" where
  "blocked_by nets parse ip = (case parse ip of None \<Rightarrow> True | Some a \<Rightarrow> list_ex (in_network a) nets)"

lemma vetted_address:
  assumes "vet_address parse allow_private raw = Inr ip"
  shows "ip = raw" "\<not> blocked_by always_blocked parse ip" "blocked_by private_blocks parse ip \<Longrightarrow> allow_private"
  using assms
  by (cases "parse raw"; simp add: vet_address_def is_always_blocked_def is_private_address_def blocked_by_def split: if_splits)+

lemma resolve_and_pin_Inr:
  assumes "resolve_and_pin parse resolver allow_private hostname = Inr ip"
  obtains results r rest where "resolver hostname = Inr results" "ipv4_first results = r # rest" "vet_address parse allow_private (snd r) = Inr ip"
proof (cases "resolver hostname")
  case (Inl e)
  then show ?thesis using assms by (simp add: resolve_and_pin_def)
next
  case (Inr results)
  then show ?thesis using assms that by (cases "ipv4_first results") (simp_all add: resolve_and_pin_def)
qed

lemma set_ipv4_first [simp]: "set (ipv4_first results) = set results"
  by (simp add: ipv4_first_def)

lemma pinned_address:
  assumes "resolve_and_pin parse resolver allow_private hostname = Inr ip"
  shows "\<not> blocked_by always_blocked parse ip" and "blocked_by private_blocks parse ip \<Longrightarrow> allow_private"
    and "\<exists>results inet. resolver hostname = Inr results \<and> (inet, ip) \<in> set results"
proof -
  from assms obtain results r rest where r: "resolver hostname = Inr results" "ipv4_first results = r # rest"
    and v: "vet_address parse allow_private (snd r) = Inr ip" by (rule resolve_and_pin_Inr)
  show "\<not> blocked_by always_blocked parse ip" by (rule vetted_address(2) [OF v])
  show "allow_private" if "blocked_by private_blocks parse ip" by (rule vetted_address(3) [OF v that])
  have "r \<in> set results" using r(2) by (metis list.set_intros(1) set_ipv4_first)
  then show "\<exists>results inet. resolver hostname = Inr results \<and> (inet, ip) \<in> set results"
    using r(1) vetted_address(1) [OF v] by (metis prod.collapse)
qed

text \<open>IPv4 answers are preferred: an IPv6 address is pinned only when no IPv4 answer came.\<close>

lemma pin_prefers_ipv4:
  assumes "resolve_and_pin parse resolver allow_private hostname = Inr ip" "resolver hostname = Inr results"
    and "(True, a) \<in> set results"
  shows "(True, ip) \<in> set results"
proof -
  from assms(1) obtain rs r rest where r: "resolver hostname = Inr rs" "ipv4_first rs = r # rest"
    and v: "vet_address parse allow_private (snd r) = Inr ip" by (rule resolve_and_pin_Inr)
  have m: "set (r # rest) = set results" using r assms(2) by (metis Inr_inject set_ipv4_first)
  have "sorted (map (\<lambda>r. if fst r then 0 else 1 :: nat) (r # rest))"
    using r(2) by (metis ipv4_first_def sorted_sort_key)
  moreover have "(True, a) = r \<or> (True, a) \<in> set rest" using m assms(3) by auto
  ultimately have "fst r" by (cases "fst r") force+
  moreover have "r \<in> set results" using m by auto
  ultimately show ?thesis using vetted_address(1) [OF v] by (metis (full_types) prod.collapse)
qed

text \<open>Two addresses that lead to the scanner's own host are in no block: the unspecified address, and an IPv4 loopback
  address mapped into IPv6.\<close>

lemma unspecified_address_allowed: "\<not> list_ex (in_network (V4 0)) (private_blocks @ always_blocked)"
  by (simp add: private_blocks_def always_blocked_def rfc1918_def link_local_def loopback_nets_def ula_def)

lemma mapped_loopback_allowed: "\<not> list_ex (in_network (V6 0xFFFF7F000001)) (private_blocks @ always_blocked)"
  by (simp add: private_blocks_def always_blocked_def rfc1918_def link_local_def loopback_nets_def ula_def)

lemma loopback_checks_agree:
  "bc_loopback_only (check_bind_address parse loopback6 resolver host port) = is_loopback_only parse loopback6 resolver host"
  by (cases "resolver host") (auto simp: check_bind_address_def is_loopback_only_def Let_def)

end
