(* ===== verification/Incident.thy ===== *)
theory Incident
  imports Addresses Assurance_Model
begin

text \<open>
  Incident response (\<open>ir/incident.py\<close>, \<open>ir/ocsf_incident.py\<close>, \<open>ir/containment.py\<close>): the incident record and its
  JSON form, the OCSF event built from it, and the containment actions. An action's outside effects are a list, in
  the order they happen. \<open>to_int\<close> is \<open>int\<close> on a JSON value; the identifier and the clock of a new incident
  are arguments.
\<close>

datatype containment_action = EmitIncident | QuarantineReport | BlockEgress | SessionKill

datatype incident_severity = IncCritical | IncHigh | IncMedium | IncLow | IncInfo

definition action_name :: "containment_action \<Rightarrow> str" where
  "action_name a = ascii (case a of EmitIncident \<Rightarrow> ''emit_incident'' | QuarantineReport \<Rightarrow> ''quarantine_report''
     | BlockEgress \<Rightarrow> ''block_egress'' | SessionKill \<Rightarrow> ''session_kill'')"

definition all_actions :: "containment_action list" where
  "all_actions = [EmitIncident, QuarantineReport, BlockEgress, SessionKill]"

definition incident_severity_name :: "incident_severity \<Rightarrow> str" where
  "incident_severity_name v = ascii (case v of IncCritical \<Rightarrow> ''critical'' | IncHigh \<Rightarrow> ''high'' | IncMedium \<Rightarrow> ''medium''
     | IncLow \<Rightarrow> ''low'' | IncInfo \<Rightarrow> ''info'')"

definition all_incident_severities :: "incident_severity list" where
  "all_incident_severities = [IncCritical, IncHigh, IncMedium, IncLow, IncInfo]"

definition ocsf_severities :: "(str \<times> int) list" where
  "ocsf_severities =
     [(ascii ''critical'', 5), (ascii ''high'', 4), (ascii ''medium'', 3), (ascii ''low'', 2), (ascii ''info'', 1),
      (ascii ''informational'', 1)]"

definition severity_ranks :: "(str \<times> nat) list" where
  "severity_ranks =
     [(ascii ''info'', 0), (ascii ''informational'', 0), (ascii ''low'', 1), (ascii ''medium'', 2), (ascii ''high'', 3),
      (ascii ''critical'', 4)]"

record finding_summary =
  fs_probe_id :: str
  fs_threat_id :: str
  fs_severity :: json

record incident =
  in_id :: str
  in_target_url :: str
  in_timestamp :: str
  in_triggered_ms :: int
  in_findings :: "finding_summary list"
  in_rules :: "str list"
  in_severity :: incident_severity
  in_actions :: "containment_action list"

section \<open>The JSON form\<close>

definition finding_to_dict :: "finding_summary \<Rightarrow> json" where
  "finding_to_dict f =
     JDict [(ascii ''probe_id'', JStr (fs_probe_id f)), (ascii ''threat_id'', JStr (fs_threat_id f)),
            (ascii ''severity'', fs_severity f)]"

definition incident_to_dict :: "incident \<Rightarrow> (str \<times> json) list" where
  "incident_to_dict i =
     [(ascii ''incident_id'', JStr (in_id i)), (ascii ''target_url'', JStr (in_target_url i)),
      (ascii ''scan_timestamp'', JStr (in_timestamp i)), (ascii ''triggered_at_ms'', JInt (in_triggered_ms i)),
      (ascii ''findings'', JList (map finding_to_dict (in_findings i))),
      (ascii ''anomaly_rules'', JList (map JStr (in_rules i))),
      (ascii ''severity'', JStr (incident_severity_name (in_severity i))),
      (ascii ''recommended_actions'', JList (map (\<lambda>a. JStr (action_name a)) (in_actions i)))]"

text \<open>Iterating over a value: a string yields its characters, a dictionary its keys.\<close>

definition iterate :: "json \<Rightarrow> json list option" where
  "iterate v =
     (case v of JList xs \<Rightarrow> Some xs | JStr s \<Rightarrow> Some (map (\<lambda>c. JStr [c]) s) | JDict d \<Rightarrow> Some (map (\<lambda>(k, _). JStr k) d) | _ \<Rightarrow> None)"

definition finding_from_dict :: "py_text \<Rightarrow> json \<Rightarrow> finding_summary option" where
  "finding_from_dict pt v =
     (case v of
        JDict f \<Rightarrow>
          (case (map_of f (ascii ''probe_id''), map_of f (ascii ''threat_id'')) of
             (Some p, Some t) \<Rightarrow>
               Some \<lparr>fs_probe_id = to_str pt (of_json p), fs_threat_id = to_str pt (of_json t),
                     fs_severity = JStr (to_str pt (of_json (get_or f (ascii ''severity'') (JStr (ascii ''medium'')))))\<rparr>
           | _ \<Rightarrow> None)
      | _ \<Rightarrow> None)"

text \<open>\<open>None\<close> is the exception of a missing key, of a value outside an enumeration or of one that cannot be iterated.\<close>

definition incident_from_dict :: "py_text \<Rightarrow> (json \<Rightarrow> int option) \<Rightarrow> (str \<times> json) list \<Rightarrow> incident option" where
  "incident_from_dict pt to_int d =
     (case (map_of d (ascii ''incident_id''), map_of d (ascii ''target_url''), map_of d (ascii ''scan_timestamp''),
            Option.bind (map_of d (ascii ''triggered_at_ms'')) to_int) of
        (Some i, Some u, Some t, Some ms) \<Rightarrow>
          (case (Option.bind (iterate (get_or d (ascii ''findings'') (JList []))) (\<lambda>fs. those (map (finding_from_dict pt) fs)),
                 iterate (get_or d (ascii ''anomaly_rules'') (JList [])),
                 enum_at incident_severity_name all_incident_severities (get_or d (ascii ''severity'') (JStr (ascii ''high''))),
                 Option.bind (iterate (get_or d (ascii ''recommended_actions'') (JList [])))
                   (\<lambda>xs. those (map (enum_at action_name all_actions) xs))) of
             (Some fs, Some rules, Some sev, Some acts) \<Rightarrow>
               Some \<lparr>in_id = to_str pt (of_json i), in_target_url = to_str pt (of_json u), in_timestamp = to_str pt (of_json t),
                     in_triggered_ms = ms, in_findings = fs, in_rules = map (\<lambda>r. to_str pt (of_json r)) rules,
                     in_severity = sev, in_actions = acts\<rparr>
           | _ \<Rightarrow> None)
      | _ \<Rightarrow> None)"

section \<open>Building an incident\<close>

text \<open>\<open>_SEV_RANK.get\<close> raises on a severity that cannot be hashed.\<close>

definition rank_of :: "json \<Rightarrow> nat option" where
  "rank_of v =
     (case v of
        JStr s \<Rightarrow> Some (case map_of severity_ranks s of None \<Rightarrow> 0 | Some n \<Rightarrow> n)
      | JList _ \<Rightarrow> None | JDict _ \<Rightarrow> None | _ \<Rightarrow> Some 0)"

definition summarize_finding :: "py_text \<Rightarrow> (str, json) dict \<Rightarrow> (str \<times> json) list \<Rightarrow> finding_summary option" where
  "summarize_finding pt probe_severity f =
     (case (map_of f (ascii ''probe_id''), map_of f (ascii ''threat_id'')) of
        (Some p, Some t) \<Rightarrow>
          (let pid = to_str pt (of_json p) in
           Some \<lparr>fs_probe_id = pid, fs_threat_id = to_str pt (of_json t),
                 fs_severity = (case map_of probe_severity pid of
                                  Some s \<Rightarrow> s | None \<Rightarrow> get_or f (ascii ''severity'') (JStr (ascii ''medium'')))\<rparr>)
      | _ \<Rightarrow> None)"

definition severity_of_rank :: "nat \<Rightarrow> incident_severity" where
  "severity_of_rank n = (if n = 0 then IncInfo else if n = 1 then IncLow else if n = 2 then IncMedium
     else if n = 3 then IncHigh else IncCritical)"

definition worst_rank :: "nat list \<Rightarrow> nat" where
  "worst_rank ns = (if ns = [] then 2 else Max (set ns))"

definition default_actions :: "nat \<Rightarrow> containment_action list" where
  "default_actions worst =
     (if worst \<ge> 3 then [SessionKill, EmitIncident, QuarantineReport, BlockEgress] else [EmitIncident, QuarantineReport])"

definition build_incident :: "py_text \<Rightarrow> str \<Rightarrow> int \<Rightarrow> str \<Rightarrow> str \<Rightarrow> (str \<times> json) list list \<Rightarrow> str list \<Rightarrow>
    (str, json) dict \<Rightarrow> incident option" where
  "build_incident pt uuid now_ms target_url timestamp findings rules probe_severity =
     (case those (map (summarize_finding pt probe_severity) findings) of
        None \<Rightarrow> None
      | Some summaries \<Rightarrow>
          (case those (map (\<lambda>s. rank_of (fs_severity s)) summaries) of
             None \<Rightarrow> None
           | Some ranks \<Rightarrow>
               (let worst = worst_rank ranks in
                Some \<lparr>in_id = uuid, in_target_url = target_url, in_timestamp = timestamp, in_triggered_ms = now_ms,
                      in_findings = summaries, in_rules = rules, in_severity = severity_of_rank worst,
                      in_actions = default_actions worst\<rparr>)))"

section \<open>The OCSF event\<close>

definition finding_info :: "incident \<Rightarrow> int \<Rightarrow> (str \<times> json) list" where
  "finding_info i ts =
     [(ascii ''uid'', JStr (in_id i)), (ascii ''title'', JStr (ascii ''MCP Server Security Incident: '' @ in_target_url i)),
      (ascii ''types'', JList [JStr (ascii ''Security Incident'')]), (ascii ''created_time'', JInt ts),
      (ascii ''related_events'', JList (map (\<lambda>f. JDict [(ascii ''uid'', JStr (fs_probe_id f))]) (in_findings i)))] @
     (if in_rules i = [] then [] else [(ascii ''desc'', JStr (ascii ''Anomaly rules fired: '' @ join [44, 32] (in_rules i)))])"

definition ocsf_severity_id :: "incident_severity \<Rightarrow> int" where
  "ocsf_severity_id v = (case map_of ocsf_severities (incident_severity_name v) of Some n \<Rightarrow> n | None \<Rightarrow> 99)"

definition capitalized :: "str \<Rightarrow> str" where
  "capitalized s = (case s of [] \<Rightarrow> [] | c # r \<Rightarrow> (if 97 \<le> c \<and> c \<le> 122 then c - 32 else c) # r)"

definition unmapped_fields :: "incident \<Rightarrow> (str \<times> json) list" where
  "unmapped_fields i =
     [(ascii ''incident_id'', JStr (in_id i)), (ascii ''scan_timestamp'', JStr (in_timestamp i)),
      (ascii ''target_url'', JStr (in_target_url i)), (ascii ''finding_count'', JInt (int (length (in_findings i)))),
      (ascii ''anomaly_rules'', JList (map JStr (in_rules i))),
      (ascii ''recommended_actions'', JList (map (\<lambda>a. JStr (action_name a)) (in_actions i)))]"

definition build_ocsf_incident :: "int \<Rightarrow> incident \<Rightarrow> (str \<times> json) list" where
  "build_ocsf_incident now_ms i =
     (let ts = (if in_triggered_ms i = 0 then now_ms else in_triggered_ms i) in
      [(ascii ''class_uid'', JInt 2001), (ascii ''class_name'', JStr (ascii ''Security Incident'')),
       (ascii ''category_uid'', JInt 2), (ascii ''category_name'', JStr (ascii ''Findings'')),
       (ascii ''type_uid'', JInt 200101), (ascii ''type_name'', JStr (ascii ''Security Incident: Create'')),
       (ascii ''time'', JInt ts), (ascii ''severity_id'', JInt (ocsf_severity_id (in_severity i))),
       (ascii ''severity'', JStr (capitalized (incident_severity_name (in_severity i)))),
       (ascii ''status_id'', JInt 1), (ascii ''status'', JStr (ascii ''New'')), (ascii ''activity_id'', JInt 1),
       (ascii ''activity_name'', JStr (ascii ''Create'')), (ascii ''verdict_id'', JInt 1),
       (ascii ''verdict'', JStr (ascii ''True Positive'')), (ascii ''finding_info'', JDict (finding_info i ts)),
       (ascii ''resources'', JList [JDict [(ascii ''uid'', JStr (in_target_url i)), (ascii ''name'', JStr (ascii ''MCP Server'')),
          (ascii ''type'', JStr (ascii ''Other''))]]),
       (ascii ''metadata'', JDict [(ascii ''version'', JStr (ascii ''2.0.0'')),
          (ascii ''product'', JDict [(ascii ''name'', JStr (ascii ''cosai-mcp'')), (ascii ''vendor_name'', JStr (ascii ''CoSAI''))]),
          (ascii ''log_provider'', JStr (ascii ''CoSAI''))]),
       (ascii ''unmapped'', JDict (unmapped_fields i))])"

section \<open>Containment\<close>

datatype egress_error =
    DisallowedScheme str
  | NoHost str
  | Unresolvable str "str option"
  | BlockedAddress str str
  | PrivateTarget str str
  | NotAllowlistError

datatype http_outcome = HttpStatus int | HttpException str

record containment_env =
  ce_url :: url_env
  ce_parse :: "str \<Rightarrow> ip_address option"
  ce_resolver :: resolver
  ce_host_ip :: "str \<Rightarrow> str option"
  ce_post :: "str \<Rightarrow> http_outcome"
  ce_write :: "str \<Rightarrow> str option"
  ce_text :: py_text

definition quoted_text :: "containment_env \<Rightarrow> str \<Rightarrow> str" where
  "quoted_text e s = pt_repr (ce_text e) (PyAtom (JStr s))"

text \<open>Every answer of the resolver has to pass, not only the first. \<open>NotAllowlistError\<close> is a \<open>ValueError\<close> of the
  URL or of an address, which the callers do not catch.\<close>

fun vet_all :: "containment_env \<Rightarrow> bool \<Rightarrow> str \<Rightarrow> (bool \<times> str) list \<Rightarrow> egress_error option" where
  "vet_all e allow_private host [] = None"
| "vet_all e allow_private host (r # rs) =
     (case vet_address (ce_parse e) allow_private (snd r) of
        Inr _ \<Rightarrow> vet_all e allow_private host rs
      | Inl (AlwaysBlocked ip) \<Rightarrow> Some (BlockedAddress host ip)
      | Inl (PrivateAddress ip) \<Rightarrow> Some (PrivateTarget host ip)
      | Inl _ \<Rightarrow> Some NotAllowlistError)"

definition assert_egress_allowed :: "containment_env \<Rightarrow> bool \<Rightarrow> str \<Rightarrow> egress_error option" where
  "assert_egress_allowed e allow_private u =
     (case urlparse (ce_url e) u of
        None \<Rightarrow> Some NotAllowlistError
      | Some p \<Rightarrow>
          (if url_scheme p \<notin> {ascii ''http'', ascii ''https''} then Some (DisallowedScheme (url_scheme p))
           else case url_hostname (ce_url e) p of
             None \<Rightarrow> Some (NoHost u)
           | Some h \<Rightarrow>
               (if h = [] then Some (NoHost u)
                else case ce_resolver e h of
                  Inl err \<Rightarrow> Some (Unresolvable h (Some err))
                | Inr results \<Rightarrow> if results = [] then Some (Unresolvable h None) else vet_all e allow_private h results)))"

definition egress_text :: "containment_env \<Rightarrow> egress_error \<Rightarrow> str" where
  "egress_text e err =
     (case err of
        DisallowedScheme s \<Rightarrow> ascii ''Containment target URL has disallowed scheme '' @ quoted_text e s @
          ascii ''; only http and https are permitted.''
      | NoHost u \<Rightarrow> ascii ''Containment target URL has no host: '' @ quoted_text e u
      | Unresolvable h r \<Rightarrow> ascii ''Cannot resolve containment target host '' @ quoted_text e h @
          (case r of None \<Rightarrow> [] | Some t \<Rightarrow> ascii '': '' @ t)
      | BlockedAddress h ip \<Rightarrow> ascii ''Containment target '' @ quoted_text e h @ ascii '' resolves to '' @ ip @
          ascii '', which is in an always-blocked range (ULA/fc00::/7).''
      | PrivateTarget h ip \<Rightarrow> ascii ''Containment target '' @ quoted_text e h @ ascii '' resolves to '' @ ip @
          ascii '', a private/loopback/link-local address. Pass allow_private=True (operator opt-in) to act on internal targets.''
      | NotAllowlistError \<Rightarrow> [])"

record containment_result =
  cr_action :: containment_action
  cr_success :: bool
  cr_detail :: str

datatype effect =
    HttpPost str "(str \<times> json) list" "str option"
  | HttpDelete str
  | FileWrite str "(str \<times> json) list"

definition block_commands :: "containment_env \<Rightarrow> str \<Rightarrow> str list option" where
  "block_commands e target =
     (case urlparse (ce_url e) target of
        None \<Rightarrow> None
      | Some p \<Rightarrow>
          (let h = (case url_hostname (ce_url e) p of None \<Rightarrow> [] | Some x \<Rightarrow> x);
               ip = (if h = [] then None else ce_host_ip e h);
               head = ascii ''# Block egress to MCP server: '' @ target
           in Some (head #
             (if ip \<noteq> None \<and> ip \<noteq> Some []
              then [ascii ''# Resolved: '' @ h @ [32, 8594, 32] @ the ip, ascii ''iptables -A OUTPUT -d '' @ the ip @ ascii '' -j DROP'',
                    ascii ''pfctl -t cosai_quarantine -T add '' @ the ip]
              else [ascii ''# Could not resolve '' @ quoted_text e h @ [32, 8212, 32] @ ascii ''block by hostname instead:'',
                    ascii ''# iptables does not support hostnames; use DNS sinkhole or WAF rule.'',
                    ascii ''# Add to /etc/hosts:  0.0.0.0  '' @ h]))))"

definition contained :: "containment_action \<Rightarrow> bool \<Rightarrow> str \<Rightarrow> effect list \<Rightarrow> (containment_result \<times> effect list) option" where
  "contained a ok detail effects = Some (\<lparr>cr_action = a, cr_success = ok, cr_detail = detail\<rparr>, effects)"

definition blocked_detail :: "containment_env \<Rightarrow> egress_error \<Rightarrow> str" where
  "blocked_detail e err = ascii ''blocked by network allowlist ('' @ egress_text e err @ [41]"

text \<open>\<open>None\<close> is an exception that leaves \<open>perform_containment\<close>.\<close>

definition emit_incident_http :: "containment_env \<Rightarrow> bool \<Rightarrow> (str \<times> json) list \<Rightarrow> str \<Rightarrow> str option \<Rightarrow>
    (containment_result \<times> effect list) option" where
  "emit_incident_http e allow_private ocsf endpoint auth =
     (case assert_egress_allowed e allow_private endpoint of
        Some NotAllowlistError \<Rightarrow> None
      | Some err \<Rightarrow> contained EmitIncident False (blocked_detail e err) []
      | None \<Rightarrow>
          (let eff = [HttpPost endpoint ocsf (if auth = Some [] then None else auth)] in
           case ce_post e endpoint of
             HttpStatus n \<Rightarrow>
               (if 200 \<le> n \<and> n < 300
                then contained EmitIncident True (ascii ''OCSF Security Incident emitted '' @ [8594] @ ascii '' HTTP '' @ dump_int n) eff
                else contained EmitIncident False (ascii ''SIEM returned HTTP '' @ dump_int n) eff)
           | HttpException name \<Rightarrow> contained EmitIncident False (ascii ''connection error ('' @ name @ [41]) eff))"

definition session_kill :: "containment_env \<Rightarrow> bool \<Rightarrow> str \<Rightarrow> (containment_result \<times> effect list) option" where
  "session_kill e allow_private target =
     (case assert_egress_allowed e allow_private target of
        Some NotAllowlistError \<Rightarrow> None
      | Some err \<Rightarrow> contained SessionKill False (blocked_detail e err) []
      | None \<Rightarrow> contained SessionKill True
          (ascii ''Session kill signal sent to '' @ target @ ascii '' (best-effort; not guaranteed)'') [HttpDelete target])"

definition quarantine_report :: "containment_env \<Rightarrow> (str \<times> json) list \<Rightarrow> incident \<Rightarrow> str option \<Rightarrow>
    (containment_result \<times> effect list) option" where
  "quarantine_report e ocsf i report_path =
     (let path = (case report_path of Some p \<Rightarrow> p | None \<Rightarrow> ascii ''cosai-incident-'' @ in_id i @ ascii ''.json'');
          payload = [(ascii ''cosai_ir_version'', JStr (ascii ''1.0'')), (ascii ''incident'', JDict (incident_to_dict i)),
                     (ascii ''ocsf_incident'', JDict ocsf)]
      in case ce_write e path of
           None \<Rightarrow> contained QuarantineReport True (ascii ''Quarantine report written to '' @ path) [FileWrite path payload]
         | Some name \<Rightarrow> contained QuarantineReport False (ascii ''Failed to write report: '' @ name) [])"

definition contain_one :: "containment_env \<Rightarrow> (str \<times> json) list \<Rightarrow> incident \<Rightarrow> str option \<Rightarrow> str option \<Rightarrow> str option \<Rightarrow> bool \<Rightarrow>
    containment_action \<Rightarrow> (containment_result \<times> effect list) option" where
  "contain_one e ocsf i endpoint auth report_path allow_private a =
     (case a of
        EmitIncident \<Rightarrow>
          (case endpoint of
             None \<Rightarrow> contained a False (ascii ''No emit endpoint configured '' @ [8212] @ ascii '' pass --emit-to'') []
           | Some u \<Rightarrow>
               if u = [] then contained a False (ascii ''No emit endpoint configured '' @ [8212] @ ascii '' pass --emit-to'') []
               else emit_incident_http e allow_private ocsf u auth)
      | QuarantineReport \<Rightarrow> quarantine_report e ocsf i report_path
      | BlockEgress \<Rightarrow>
          (case block_commands e (in_target_url i) of
             None \<Rightarrow> None
           | Some cmds \<Rightarrow> contained a True (ascii ''Block commands (review and execute as root):'' @ 10 # join [10] cmds) [])
      | SessionKill \<Rightarrow> session_kill e allow_private (in_target_url i))"

fun contain_all :: "(containment_action \<Rightarrow> (containment_result \<times> effect list) option) \<Rightarrow> containment_action list \<Rightarrow>
    containment_result list option \<times> effect list" where
  "contain_all step [] = (Some [], [])"
| "contain_all step (a # as) =
     (case step a of
        None \<Rightarrow> (None, [])
      | Some (r, eff) \<Rightarrow> (case contain_all step as of (rs, effs) \<Rightarrow> (map_option ((#) r) rs, eff @ effs)))"

definition perform_containment :: "containment_env \<Rightarrow> int \<Rightarrow> incident \<Rightarrow> containment_action list option \<Rightarrow> str option \<Rightarrow> str option \<Rightarrow>
    str option \<Rightarrow> bool \<Rightarrow> containment_result list option \<times> effect list" where
  "perform_containment e now_ms i actions endpoint auth report_path allow_private =
     contain_all (contain_one e (build_ocsf_incident now_ms i) i endpoint auth report_path allow_private)
       (case actions of None \<Rightarrow> in_actions i | Some as \<Rightarrow> as)"

section \<open>Properties\<close>

text \<open>An incident survives its JSON form, its severities being texts.\<close>

definition text_severities :: "incident \<Rightarrow> bool" where
  "text_severities i \<longleftrightarrow> list_all (\<lambda>f. case fs_severity f of JStr _ \<Rightarrow> True | _ \<Rightarrow> False) (in_findings i)"

lemma finding_dict_round_trip:
  "(case fs_severity f of JStr _ \<Rightarrow> True | _ \<Rightarrow> False) \<Longrightarrow> finding_from_dict pt (finding_to_dict f) = Some f"
  by (cases f; cases "fs_severity f") (simp_all add: finding_from_dict_def finding_to_dict_def get_or_def to_str_def)

lemma action_of_name: "enum_at action_name all_actions (JStr (action_name a)) = Some a"
  by (cases a) (simp_all add: enum_at_def enum_of_def all_actions_def action_name_def)

lemma severity_of_name: "enum_at incident_severity_name all_incident_severities (JStr (incident_severity_name v)) = Some v"
  by (cases v) (simp_all add: enum_at_def enum_of_def all_incident_severities_def incident_severity_name_def)

lemma those_map_inverse: "list_all (\<lambda>x. f (g x) = Some x) xs \<Longrightarrow> those (map f (map g xs)) = Some xs"
  by (induction xs) simp_all

lemma incident_round_trip:
  assumes "text_severities i" and "\<And>n. to_int (JInt n) = Some n"
  shows "incident_from_dict pt to_int (incident_to_dict i) = Some i"
proof -
  have f: "those (map (finding_from_dict pt) (map finding_to_dict (in_findings i))) = Some (in_findings i)"
    using assms(1) unfolding text_severities_def
    by (intro those_map_inverse) (auto simp: list_all_iff intro: finding_dict_round_trip)
  have a: "those (map (enum_at action_name all_actions) (map (\<lambda>a. JStr (action_name a)) (in_actions i))) = Some (in_actions i)"
    by (intro those_map_inverse) (simp add: list_all_iff action_of_name)
  show ?thesis
    using f a assms(2)
    by (cases i) (simp add: incident_from_dict_def incident_to_dict_def get_or_def iterate_def to_str_def severity_of_name comp_def)
qed

text \<open>The severity of an incident is that of its worst finding, and only then is the session killed.\<close>

lemma built_incident_worst:
  assumes "build_incident pt uuid now u t findings rules sev = Some i"
  shows "in_severity i \<in> {IncHigh, IncCritical} \<longleftrightarrow>
      list_ex (\<lambda>f. fs_severity f = JStr (ascii ''high'') \<or> fs_severity f = JStr (ascii ''critical'')) (in_findings i)"
    and "SessionKill \<in> set (in_actions i) \<longleftrightarrow> in_severity i \<in> {IncHigh, IncCritical}"
proof -
  from assms obtain ss where ss: "those (map (summarize_finding pt sev) findings) = Some ss"
    by (cases "those (map (summarize_finding pt sev) findings)") (simp_all add: build_incident_def)
  from assms ss obtain ranks where ranks: "those (map (\<lambda>s. rank_of (fs_severity s)) ss) = Some ranks"
    by (cases "those (map (\<lambda>s. rank_of (fs_severity s)) ss)") (simp_all add: build_incident_def)
  have i: "in_findings i = ss" "in_severity i = severity_of_rank (worst_rank ranks)" "in_actions i = default_actions (worst_rank ranks)"
    using assms ss ranks by (auto simp: build_incident_def Let_def)
  have s: "severity_of_rank n \<in> {IncHigh, IncCritical} \<longleftrightarrow> 3 \<le> n" for n by (auto simp: severity_of_rank_def)
  have w: "3 \<le> worst_rank ns \<longleftrightarrow> list_ex (\<lambda>n. 3 \<le> n) ns" for ns
    by (auto simp: worst_rank_def list_ex_iff Max_ge_iff)
  have r: "list_ex (\<lambda>n. 3 \<le> n) ns \<longleftrightarrow> list_ex (\<lambda>f. fs_severity f = JStr (ascii ''high'') \<or> fs_severity f = JStr (ascii ''critical'')) fs"
    if "those (map (\<lambda>s. rank_of (fs_severity s)) fs) = Some ns" for fs ns
    using that
  proof (induction fs arbitrary: ns)
    case (Cons f fs)
    then obtain n ms where n: "rank_of (fs_severity f) = Some n" "those (map (\<lambda>s. rank_of (fs_severity s)) fs) = Some ms" "ns = n # ms"
      by (auto split: option.splits)
    have "3 \<le> n \<longleftrightarrow> fs_severity f = JStr (ascii ''high'') \<or> fs_severity f = JStr (ascii ''critical'')"
      using n(1) by (auto simp: rank_of_def severity_ranks_def simp del: ascii_simps split: json.splits if_splits)
    then show ?case using Cons.IH [OF n(2)] n(3) by simp
  qed simp
  show "in_severity i \<in> {IncHigh, IncCritical} \<longleftrightarrow>
      list_ex (\<lambda>f. fs_severity f = JStr (ascii ''high'') \<or> fs_severity f = JStr (ascii ''critical'')) (in_findings i)"
    unfolding i s w r [OF ranks] ..
  show "SessionKill \<in> set (in_actions i) \<longleftrightarrow> in_severity i \<in> {IncHigh, IncCritical}"
    unfolding i s by (simp add: default_actions_def)
qed

text \<open>Every request of a containment run goes to a URL whose host resolved, at the check, to allowed addresses only.\<close>

definition egress_ok :: "containment_env \<Rightarrow> bool \<Rightarrow> str \<Rightarrow> bool" where
  "egress_ok e allow_private u = (assert_egress_allowed e allow_private u = None)"

definition effect_allowed :: "containment_env \<Rightarrow> bool \<Rightarrow> effect \<Rightarrow> bool" where
  "effect_allowed e allow_private eff =
     (case eff of HttpPost u _ _ \<Rightarrow> egress_ok e allow_private u | HttpDelete u \<Rightarrow> egress_ok e allow_private u | FileWrite _ _ \<Rightarrow> True)"

lemma contain_one_effects:
  assumes "contain_one e ocsf i endpoint auth path allow a = Some (r, eff)"
  shows "list_all (effect_allowed e allow) eff"
  using assms
  by (cases a)
    (auto simp: contain_one_def emit_incident_http_def session_kill_def quarantine_report_def contained_def Let_def
       effect_allowed_def egress_ok_def split: option.splits if_splits egress_error.splits http_outcome.splits)

lemma contain_all_effects:
  assumes "\<And>a r eff. step a = Some (r, eff) \<Longrightarrow> list_all P eff"
  shows "list_all P (snd (contain_all step as))"
proof (induction as)
  case (Cons a as)
  then show ?case using assms [of a] by (cases "step a") (auto split: prod.splits)
qed simp

lemma containment_only_allowed:
  "list_all (effect_allowed e allow) (snd (perform_containment e now i actions endpoint auth path allow))"
  unfolding perform_containment_def by (rule contain_all_effects) (rule contain_one_effects)

lemma vet_all_None:
  "vet_all e allow h rs = None \<longleftrightarrow> list_all (\<lambda>r. vet_address (ce_parse e) allow (snd r) = Inr (snd r)) rs"
proof (induction rs)
  case (Cons r rs)
  show ?case
  proof (cases "vet_address (ce_parse e) allow (snd r)")
    case (Inl err)
    then show ?thesis by (cases err) auto
  next
    case (Inr ip)
    then show ?thesis using Cons.IH vetted_address(1) [OF Inr] by simp
  qed
qed simp

lemma egress_ok_addresses:
  assumes "egress_ok e allow u"
  shows "\<exists>p h results. urlparse (ce_url e) u = Some p \<and> url_hostname (ce_url e) p = Some h \<and>
    (url_scheme p = ascii ''http'' \<or> url_scheme p = ascii ''https'') \<and> ce_resolver e h = Inr results \<and> results \<noteq> [] \<and>
    list_all (\<lambda>r. \<not> blocked_by always_blocked (ce_parse e) (snd r) \<and> (blocked_by private_blocks (ce_parse e) (snd r) \<longrightarrow> allow)) results"
proof -
  from assms obtain p h results where p: "urlparse (ce_url e) u = Some p" "url_hostname (ce_url e) p = Some h"
      "url_scheme p \<in> {ascii ''http'', ascii ''https''}" "ce_resolver e h = Inr results" "results \<noteq> []"
    and v: "vet_all e allow h results = None"
    unfolding egress_ok_def assert_egress_allowed_def
    by (auto simp del: ascii_simps split: option.splits sum.splits if_splits)
  have "list_all (\<lambda>r. \<not> blocked_by always_blocked (ce_parse e) (snd r) \<and> (blocked_by private_blocks (ce_parse e) (snd r) \<longrightarrow> allow)) results"
    using v unfolding vet_all_None list_all_iff using vetted_address(2,3) by blast
  then show ?thesis using p by (auto simp del: ascii_simps)
qed

end
