(* ===== verification/Streamable_Http.thy ===== *)
theory Streamable_Http
  imports Addresses
begin

text \<open>
  \<open>transport/streamable_http.py\<close>: the pinned HTTP transport. A \<open>wire_env\<close> holds what the code calls and does not
  define: \<open>httpx.URL\<close> with \<open>join\<close> and \<open>str\<close>, the resolver, the decoding of a body to text, and the network
  \<open>we_inner\<close>, which answers a request given all requests sent before it. Header names are lower-case, as in the
  tables the code builds from \<open>httpx\<close> headers. Deadlines are the network's errors.
\<close>

record hx_url =
  hx_scheme :: str
  hx_host :: str
  hx_port :: "nat option"
  hx_path :: str
  hx_query :: str
  hx_fragment :: str

record http_request =
  hq_method :: str
  hq_url :: hx_url
  hq_headers :: "(str, str) dict"
  hq_body :: "byte list option"
  hq_sni :: str

record http_response =
  hr_status :: int
  hr_headers :: "(str, str) dict"
  hr_body :: "byte list"

record wire_env =
  we_url :: url_env
  we_hx :: "str \<Rightarrow> hx_url option"
  we_join :: "hx_url \<Rightarrow> str \<Rightarrow> hx_url option"
  we_str :: "hx_url \<Rightarrow> str"
  we_parse :: "str \<Rightarrow> ip_address option"
  we_resolver :: resolver
  we_decode :: "byte list \<Rightarrow> str option"
  we_inner :: "http_request list \<Rightarrow> http_request \<Rightarrow> str + http_response"

datatype send_error =
    NotConnected
  | ResolveFailed str
  | Rebinding wire_error
  | Redirected wire_error
  | NetworkFailure str
  | InvalidUrl
  | CrossOrigin
  | EncodedBody
  | LineCap
  | StreamEnded
  | NotJson

section \<open>The pinned transport\<close>

record pinned =
  pn_ip :: str
  pn_canonicalized :: bool
  pn_url :: "str option"
  pn_sent :: "http_request list"

definition strip_slashes :: "str \<Rightarrow> str" where
  "strip_slashes s = rev (dropWhile (\<lambda>c. c = 47) (rev s))"

definition same_site :: "hx_url \<Rightarrow> hx_url \<Rightarrow> bool" where
  "same_site a b \<longleftrightarrow> (hx_scheme a, hx_host a, hx_port a) = (hx_scheme b, hx_host b, hx_port b)"

definition trailing_slash_variant :: "wire_env \<Rightarrow> hx_url \<Rightarrow> str option \<Rightarrow> hx_url option" where
  "trailing_slash_variant e current location =
     (case location of
        None \<Rightarrow> None
      | Some l \<Rightarrow>
          (if l = [] then None
           else case we_join e current l of
             None \<Rightarrow> None
           | Some target \<Rightarrow>
               (if \<not> same_site target current then None
                else if hx_query target \<noteq> hx_query current \<or> hx_fragment target \<noteq> hx_fragment current then None
                else if hx_path target = hx_path current \<or> strip_slashes (hx_path target) \<noteq> strip_slashes (hx_path current) then None
                else Some target)))"

definition send_pinned :: "wire_env \<Rightarrow> pinned \<Rightarrow> http_request \<Rightarrow> (str + http_response) \<times> pinned" where
  "send_pinned e p q = (we_inner e (pn_sent p) q, p\<lparr>pn_sent := pn_sent p @ [q]\<rparr>)"

definition rebinding_check :: "wire_env \<Rightarrow> pinned \<Rightarrow> str \<Rightarrow> send_error option" where
  "rebinding_check e p host =
     (case we_resolver e host of
        Inl err \<Rightarrow> Some (ResolveFailed err)
      | Inr results \<Rightarrow>
          (case ipv4_first results of
             [] \<Rightarrow> None
           | r # _ \<Rightarrow> (case check_dns_rebinding (pn_ip p) (snd r) of Inl w \<Rightarrow> Some (Rebinding w) | Inr _ \<Rightarrow> None)))"

definition refuse_redirect :: "http_response \<Rightarrow> send_error + http_response" where
  "refuse_redirect r = (case check_redirect (hr_status r) of Inl w \<Rightarrow> Inl (Redirected w) | Inr _ \<Rightarrow> Inr r)"

definition handle_request :: "wire_env \<Rightarrow> pinned \<Rightarrow> http_request \<Rightarrow> (send_error + http_response) \<times> pinned" where
  "handle_request e p q =
     (case rebinding_check e p (hx_host (hq_url q)) of
        Some err \<Rightarrow> (Inl err, p)
      | None \<Rightarrow>
          (let pq = q\<lparr>hq_url := (hq_url q)\<lparr>hx_host := pn_ip p\<rparr>, hq_sni := hx_host (hq_url q)\<rparr> in
           case send_pinned e p pq of
             (Inl err, p1) \<Rightarrow> (Inl (NetworkFailure err), p1)
           | (Inr r, p1) \<Rightarrow>
               (if pn_canonicalized p1 then (refuse_redirect r, p1)
                else let p2 = p1\<lparr>pn_canonicalized := True\<rparr> in
                  if \<not> (300 \<le> hr_status r \<and> hr_status r < 400) then (refuse_redirect r, p2)
                  else case trailing_slash_variant e (hq_url q) (map_of (hr_headers r) (ascii ''location'')) of
                    None \<Rightarrow> (refuse_redirect r, p2)
                  | Some canon \<Rightarrow>
                      (case send_pinned e (p2\<lparr>pn_url := Some (we_str e canon)\<rparr>) (pq\<lparr>hq_url := (hq_url pq)\<lparr>hx_path := hx_path canon\<rparr>\<rparr>) of
                         (Inl err, p3) \<Rightarrow> (Inl (NetworkFailure err), p3)
                       | (Inr r2, p3) \<Rightarrow> (refuse_redirect r2, p3)))))"

section \<open>The transport\<close>

record wire_config =
  wc_auth_token :: "str option"
  wc_auth_header :: "str option"
  wc_extra_headers :: "(str, str) dict"
  wc_mcp_path :: str
  wc_allow_private :: bool
  wc_target_host :: str

record http_transport =
  ht_base_url :: str
  ht_endpoint :: str
  ht_session_id :: "str option"
  ht_version :: "str option"
  ht_pinned :: "pinned option"

text \<open>A base URL with a path is the endpoint; an origin gets the configured path, with a final slash.\<close>

definition endpoint_of :: "wire_env \<Rightarrow> str \<Rightarrow> str \<Rightarrow> str option" where
  "endpoint_of e base mcp_path =
     (case urlparse (we_url e) base of
        None \<Rightarrow> None
      | Some u \<Rightarrow>
          (if url_path u \<noteq> [] \<and> url_path u \<noteq> ascii ''/'' then Some (strip_slashes base)
           else Some (url_origin u @ strip_slashes mcp_path @ ascii ''/'')))"

definition new_transport :: "wire_env \<Rightarrow> wire_config \<Rightarrow> str \<Rightarrow> http_transport option" where
  "new_transport e c url =
     map_option (\<lambda>ep. \<lparr>ht_base_url = strip_slashes url, ht_endpoint = ep, ht_session_id = None, ht_version = None, ht_pinned = None\<rparr>)
       (endpoint_of e (strip_slashes url) (wc_mcp_path c))"

definition connect :: "wire_env \<Rightarrow> wire_config \<Rightarrow> http_transport \<Rightarrow> (pin_error + http_transport) option" where
  "connect e c t =
     (case urlparse (we_url e) (ht_base_url t) of
        None \<Rightarrow> None
      | Some u \<Rightarrow>
          (let h = (case url_hostname (we_url e) u of Some h \<Rightarrow> h | None \<Rightarrow> wc_target_host c) in
           case resolve_and_pin (we_parse e) (we_resolver e) (wc_allow_private c) h of
             Inl err \<Rightarrow> Some (Inl err)
           | Inr ip \<Rightarrow> Some (Inr (t\<lparr>ht_pinned := Some \<lparr>pn_ip = ip, pn_canonicalized = False, pn_url = None, pn_sent = []\<rparr>\<rparr>))))"

definition close_transport :: "http_transport \<Rightarrow> http_transport" where
  "close_transport t = t\<lparr>ht_pinned := None\<rparr>"

definition filled :: "str option \<Rightarrow> bool" where
  "filled x \<longleftrightarrow> x \<noteq> None \<and> x \<noteq> Some []"

definition build_headers :: "wire_config \<Rightarrow> http_transport \<Rightarrow> (str, str) dict" where
  "build_headers c t =
     fold (\<lambda>(k, v). AList.update k v) (wc_extra_headers c)
       ([(ascii ''Content-Type'', ascii ''application/json''), (ascii ''Accept'', ascii ''application/json, text/event-stream'')] @
        (if filled (ht_session_id t) \<and> ht_version t = None then [(ascii ''Mcp-Session-Id'', the (ht_session_id t))] else []) @
        (if filled (wc_auth_header c) then [(ascii ''Authorization'', the (wc_auth_header c))]
         else if filled (wc_auth_token c) then [(ascii ''Authorization'', ascii ''Bearer '' @ the (wc_auth_token c))] else []))"

definition make_rpc :: "str \<Rightarrow> str \<Rightarrow> (str \<times> json) list \<Rightarrow> json" where
  "make_rpc rpc_id mthd params =
     JDict [(ascii ''jsonrpc'', JStr (ascii ''2.0'')), (ascii ''id'', JStr rpc_id), (ascii ''method'', JStr mthd),
            (ascii ''params'', JDict params)]"

definition body_bytes :: "json \<Rightarrow> byte list" where
  "body_bytes v = map byte_of (dumps [44, 32] [58, 32] v)"

definition meta_version_key :: str where "meta_version_key = ascii ''io.modelcontextprotocol/protocolVersion''"

definition wire_version :: "str \<Rightarrow> (str \<times> json) list \<Rightarrow> str" where
  "wire_version version params =
     (case map_of params (ascii ''_meta'') of
        Some (JDict meta) \<Rightarrow> (case map_of meta meta_version_key of Some (JStr s) \<Rightarrow> s | _ \<Rightarrow> version)
      | _ \<Rightarrow> version)"

definition send_headers :: "wire_config \<Rightarrow> http_transport \<Rightarrow> str \<Rightarrow> (str \<times> json) list \<Rightarrow> (str, str) dict \<Rightarrow> (str, str) dict" where
  "send_headers c t mthd params override =
     fold (\<lambda>(k, v). AList.update k v) override
       (case ht_version t of
          None \<Rightarrow> build_headers c t
        | Some version \<Rightarrow>
            fold (\<lambda>(k, v). AList.update k v) (request_metadata_headers mthd params (wire_version version params)) (build_headers c t))"

section \<open>Server-sent events\<close>

definition sse_max_lines :: nat where "sse_max_lines = 10000"

text \<open>The first event: the last \<open>data:\<close> line before the first blank line after one.\<close>

fun read_first :: "nat \<Rightarrow> str option \<Rightarrow> str list \<Rightarrow> send_error + json" where
  "read_first n data [] = Inl StreamEnded"
| "read_first 0 data (l # ls) = Inl LineCap"
| "read_first (Suc n) data (l # ls) =
     (let line = py_strip l in
      if starts_with (ascii ''data:'') line then read_first n (Some (py_strip (drop 5 line))) ls
      else case data of
        Some d \<Rightarrow> (if line = [] then (case loads d of None \<Rightarrow> Inl NotJson | Some v \<Rightarrow> Inr v) else read_first n data ls)
      | None \<Rightarrow> read_first n data ls)"

definition consume_sse :: "str list \<Rightarrow> send_error + json" where
  "consume_sse ls = read_first sse_max_lines None ls"

section \<open>Sending\<close>

text \<open>\<open>split_lines\<close> is how \<open>httpx\<close> cuts the decoded body of a stream into lines.\<close>

definition parse_body :: "wire_env \<Rightarrow> (byte list \<Rightarrow> str list) \<Rightarrow> http_response \<Rightarrow> send_error + json" where
  "parse_body e split_lines r =
     (if has_sub (ascii ''text/event-stream'') (case map_of (hr_headers r) (ascii ''content-type'') of Some s \<Rightarrow> s | None \<Rightarrow> [])
      then consume_sse (split_lines (hr_body r))
      else case Option.bind (we_decode e (hr_body r)) loads of None \<Rightarrow> Inl NotJson | Some v \<Rightarrow> Inr v)"

definition with_metadata :: "http_response \<Rightarrow> json \<Rightarrow> json" where
  "with_metadata r v =
     (case v of
        JDict d \<Rightarrow> JDict (AList.update (ascii ''_headers'') (JDict (map (\<lambda>(k, w). (k, JStr w)) (hr_headers r)))
                     (AList.update (ascii ''_status_code'') (JInt (hr_status r)) d))
      | _ \<Rightarrow> v)"

definition adopt :: "http_response \<Rightarrow> pinned \<Rightarrow> http_transport \<Rightarrow> http_transport" where
  "adopt r p t =
     (let t1 = (if filled (pn_url p) then t\<lparr>ht_endpoint := the (pn_url p)\<rparr> else t) in
      case map_of (hr_headers r) (ascii ''mcp-session-id'') of
        None \<Rightarrow> t1
      | Some sid \<Rightarrow> if sid = [] then t1 else t1\<lparr>ht_session_id := Some sid\<rparr>)"

definition send_rpc :: "wire_env \<Rightarrow> (byte list \<Rightarrow> str list) \<Rightarrow> wire_config \<Rightarrow> str \<Rightarrow> str \<Rightarrow> (str \<times> json) list \<Rightarrow> (str, str) dict \<Rightarrow>
    http_transport \<Rightarrow> (send_error + json) \<times> http_transport" where
  "send_rpc e split_lines c rpc_id mthd params override t =
     (case ht_pinned t of
        None \<Rightarrow> (Inl NotConnected, t)
      | Some p \<Rightarrow>
          (case we_hx e (ht_endpoint t) of
             None \<Rightarrow> (Inl InvalidUrl, t)
           | Some u \<Rightarrow>
               (case handle_request e p \<lparr>hq_method = ascii ''POST'', hq_url = u, hq_headers = send_headers c t mthd params override,
                       hq_body = Some (body_bytes (make_rpc rpc_id mthd params)), hq_sni = []\<rparr> of
                  (Inl err, p') \<Rightarrow> (Inl err, t\<lparr>ht_pinned := Some p'\<rparr>)
                | (Inr r, p') \<Rightarrow>
                    (case parse_body e split_lines r of
                       Inl err \<Rightarrow> (Inl err, adopt r p' (t\<lparr>ht_pinned := Some p'\<rparr>))
                     | Inr v \<Rightarrow> (Inr (with_metadata r v), adopt r p' (t\<lparr>ht_pinned := Some p'\<rparr>))))))"

text \<open>A notification reports nothing, whatever happens to it, and leaves the endpoint alone.\<close>

definition send_notification :: "wire_env \<Rightarrow> wire_config \<Rightarrow> json \<Rightarrow> http_transport \<Rightarrow> http_transport" where
  "send_notification e c notification t =
     (case (ht_pinned t, we_hx e (ht_endpoint t)) of
        (Some p, Some u) \<Rightarrow>
          t\<lparr>ht_pinned := Some (snd (handle_request e p \<lparr>hq_method = ascii ''POST'', hq_url = u, hq_headers = build_headers c t,
               hq_body = Some (body_bytes notification), hq_sni = []\<rparr>))\<rparr>
      | _ \<Rightarrow> t)"

section \<open>Requests to the same origin\<close>

definition same_origin :: "wire_env \<Rightarrow> http_transport \<Rightarrow> str \<Rightarrow> bool option" where
  "same_origin e t u =
     (case (we_hx e (ht_endpoint t), we_hx e u) of (Some a, Some b) \<Rightarrow> Some (same_site a b) | _ \<Rightarrow> None)"

definition raw_headers :: "wire_env \<Rightarrow> wire_config \<Rightarrow> http_transport \<Rightarrow> byte list option \<Rightarrow> (str, str) dict \<Rightarrow> (str, str) dict" where
  "raw_headers e c t content headers =
     AList.update (ascii ''Accept-Encoding'') (ascii ''identity'')
       (fold (\<lambda>(k, v). AList.update k v) headers
         (if content = None then filter (\<lambda>(k, v). ue_lower (we_url e) k \<noteq> ascii ''content-type'') (build_headers c t)
          else build_headers c t))"

definition accept_raw :: "wire_env \<Rightarrow> nat \<Rightarrow> http_response \<Rightarrow> send_error + http_response" where
  "accept_raw e max_bytes r =
     (let coding = (case map_of (hr_headers r) (ascii ''content-encoding'') of Some s \<Rightarrow> s | None \<Rightarrow> ascii ''identity'') in
      if ue_lower (we_url e) (py_strip coding) \<notin> {[], ascii ''identity''} then Inl EncodedBody
      else Inr (r\<lparr>hr_body := take max_bytes (hr_body r)\<rparr>))"

definition request_raw :: "wire_env \<Rightarrow> wire_config \<Rightarrow> str \<Rightarrow> str \<Rightarrow> byte list option \<Rightarrow> (str, str) dict \<Rightarrow> nat \<Rightarrow>
    http_transport \<Rightarrow> (send_error + http_response) \<times> http_transport" where
  "request_raw e c mthd url content headers max_bytes t =
     (case ht_pinned t of
        None \<Rightarrow> (Inl NotConnected, t)
      | Some p \<Rightarrow>
          (case (same_origin e t url, we_hx e url) of
             (Some same, Some u) \<Rightarrow>
               (if \<not> same then (Inl CrossOrigin, t)
                else case handle_request e p \<lparr>hq_method = mthd, hq_url = u, hq_headers = raw_headers e c t content headers,
                            hq_body = content, hq_sni = []\<rparr> of
                  (Inl err, p') \<Rightarrow> (Inl err, t\<lparr>ht_pinned := Some p'\<rparr>)
                | (Inr r, p') \<Rightarrow> (accept_raw e max_bytes r, t\<lparr>ht_pinned := Some p'\<rparr>))
           | _ \<Rightarrow> (Inl InvalidUrl, t)))"

section \<open>What goes over the wire\<close>

text \<open>Every request names the pinned address, so the kernel never resolves the target's name again; the name itself is
  only sent for the TLS handshake.\<close>

definition to_pin :: "pinned \<Rightarrow> http_request \<Rightarrow> bool" where
  "to_pin p q \<longleftrightarrow> hx_host (hq_url q) = pn_ip p"

lemma handle_request_pinned:
  assumes "handle_request e p q = (res, p')"
  shows "pn_ip p' = pn_ip p" and "\<exists>qs. pn_sent p' = pn_sent p @ qs \<and> list_all (to_pin p) qs \<and> length qs \<le> (if pn_canonicalized p then 1 else 2)"
proof -
  have "pn_ip p' = pn_ip p \<and> (\<exists>qs. pn_sent p' = pn_sent p @ qs \<and> list_all (to_pin p) qs \<and> length qs \<le> (if pn_canonicalized p then 1 else 2))"
  proof (cases "rebinding_check e p (hx_host (hq_url q))")
    case (Some err)
    then show ?thesis using assms by (auto simp: handle_request_def)
  next
    case None
    let ?pq = "q\<lparr>hq_url := (hq_url q)\<lparr>hx_host := pn_ip p\<rparr>, hq_sni := hx_host (hq_url q)\<rparr>"
    let ?p1 = "p\<lparr>pn_sent := pn_sent p @ [?pq]\<rparr>"
    have to: "to_pin p ?pq" by (simp add: to_pin_def)
    show ?thesis
    proof (cases "we_inner e (pn_sent p) ?pq")
      case (Inl err)
      then have "p' = ?p1" using assms None by (simp add: handle_request_def send_pinned_def Let_def)
      then show ?thesis using to by (simp add: exI [of _ "[?pq]"])
    next
      case (Inr r)
      note step = assms [unfolded handle_request_def None option.case Let_def send_pinned_def Inr prod.case sum.case]
      show ?thesis
      proof (cases "pn_canonicalized p \<or> \<not> (300 \<le> hr_status r \<and> hr_status r < 400) \<or>
          trailing_slash_variant e (hq_url q) (map_of (hr_headers r) (ascii ''location'')) = None")
        case True
        then have "pn_sent p' = pn_sent p @ [?pq] \<and> pn_ip p' = pn_ip p"
          using step by (auto simp del: ascii_simps split: if_splits)
        then show ?thesis using to by (simp add: exI [of _ "[?pq]"])
      next
        case False
        then obtain canon where canon: "trailing_slash_variant e (hq_url q) (map_of (hr_headers r) (ascii ''location'')) = Some canon" by auto
        let ?pq2 = "?pq\<lparr>hq_url := (hq_url ?pq)\<lparr>hx_path := hx_path canon\<rparr>\<rparr>"
        have "pn_sent p' = pn_sent p @ [?pq, ?pq2] \<and> pn_ip p' = pn_ip p"
          using step False canon by (auto simp del: ascii_simps split: sum.splits if_splits)
        moreover have "to_pin p ?pq2" by (simp add: to_pin_def)
        ultimately show ?thesis using to False by (auto intro!: exI [of _ "[?pq, ?pq2]"])
      qed
    qed
  qed
  then show "pn_ip p' = pn_ip p" "\<exists>qs. pn_sent p' = pn_sent p @ qs \<and> list_all (to_pin p) qs \<and> length qs \<le> (if pn_canonicalized p then 1 else 2)"
    by auto
qed

text \<open>A redirect never reaches the caller.\<close>

lemma handle_request_no_redirect:
  assumes "handle_request e p q = (Inr r, p')"
  shows "\<not> (300 \<le> hr_status r \<and> hr_status r < 400)"
proof -
  have rr: "\<not> (300 \<le> hr_status x \<and> hr_status x < 400)" if "refuse_redirect y = Inr x" for x y
    using that by (auto simp: refuse_redirect_def check_redirect_def split: if_splits)
  show ?thesis
    using assms rr unfolding handle_request_def Let_def send_pinned_def
    by (auto simp del: ascii_simps split: option.splits sum.splits prod.splits if_splits)
qed

text \<open>The retried request stays on the site and differs from the first in a trailing slash only.\<close>

lemma trailing_slash_same_site:
  assumes "trailing_slash_variant e u l = Some v"
  shows "same_site v u" "hx_query v = hx_query u" "hx_fragment v = hx_fragment u" "hx_path v \<noteq> hx_path u"
    "strip_slashes (hx_path v) = strip_slashes (hx_path u)"
  using assms by (auto simp: trailing_slash_variant_def split: option.splits if_splits)

text \<open>What \<open>request_raw\<close> returns comes from the endpoint's own origin, is not encoded, and keeps its size limit.\<close>

lemma request_raw_result:
  assumes "request_raw e c m u content hs n t = (Inr r, t')"
  shows "same_origin e t u = Some True" "length (hr_body r) \<le> n" "\<not> (300 \<le> hr_status r \<and> hr_status r < 400)"
proof -
  from assms obtain p where p: "ht_pinned t = Some p" by (cases "ht_pinned t") (auto simp: request_raw_def)
  from assms p obtain hu where hu: "same_origin e t u = Some True" "we_hx e u = Some hu"
    by (auto simp: request_raw_def split: option.splits if_splits)
  then show "same_origin e t u = Some True" by simp
  let ?q = "\<lparr>hq_method = m, hq_url = hu, hq_headers = raw_headers e c t content hs, hq_body = content, hq_sni = []\<rparr>"
  obtain res p' where h: "handle_request e p ?q = (res, p')" by (cases "handle_request e p ?q") auto
  from assms p hu h obtain r0 where r0: "res = Inr r0" "accept_raw e n r0 = Inr r"
    by (cases res) (auto simp: request_raw_def)
  have r: "r = r0\<lparr>hr_body := take n (hr_body r0)\<rparr>"
    using r0(2) by (auto simp: accept_raw_def Let_def simp del: ascii_simps split: if_splits)
  show "length (hr_body r) \<le> n" unfolding r by simp
  show "\<not> (300 \<le> hr_status r \<and> hr_status r < 400)"
    using handle_request_no_redirect [of e p ?q r0 p'] h r0(1) unfolding r by simp
qed

text \<open>A modern server never sees a session identifier, unless the operator configured one.\<close>

lemma update_keys: "fst ` set (fold (\<lambda>(k, v). AList.update k v) ps d) = fst ` set ps \<union> fst ` set d"
proof (induction ps arbitrary: d)
  case (Cons p ps)
  show ?case by (cases p) (simp add: Cons.IH dom_update)
qed simp

lemma modern_no_session_id:
  assumes "ht_version t = Some v" "ascii ''Mcp-Session-Id'' \<notin> fst ` set (wc_extra_headers c)"
  shows "ascii ''Mcp-Session-Id'' \<notin> fst ` set (build_headers c t)"
  using assms by (auto simp: build_headers_def update_keys)

text \<open>The event reader stops within its line limit, and takes the first event, whatever it is.\<close>

lemma read_first_prefix: "read_first n data ls = Inr v \<Longrightarrow> read_first n data (ls @ rest) = Inr v"
  by (induction n data ls rule: read_first.induct) (auto simp: Let_def split: if_splits option.splits)

lemma line_limit: "length ls > n \<Longrightarrow> read_first n data (map (\<lambda>_. [58]) ls) = Inl LineCap"
proof (induction ls arbitrary: n)
  case (Cons l ls)
  have "py_strip [58] = [58]" by (simp add: py_strip_def py_space_def)
  then show ?case using Cons by (cases n) (auto simp: starts_with_def Let_def split: option.splits)
qed simp

lemma first_event_taken:
  assumes "py_strip l = ascii ''data:'' @ d"
  shows "read_first (Suc (Suc n)) data (l # [] # rest) = (case loads (py_strip d) of None \<Rightarrow> Inl NotJson | Some v \<Rightarrow> Inr v)"
proof -
  have "starts_with (ascii ''data:'') (py_strip l)" "drop 5 (py_strip l) = d" unfolding assms by (simp_all add: starts_with_def)
  moreover have "py_strip [] = []" "\<not> starts_with (ascii ''data:'') []" by (simp_all add: py_strip_def starts_with_def)
  ultimately show ?thesis by (simp add: Let_def del: ascii_simps)
qed

lemma earlier_data_line_dropped:
  assumes "starts_with (ascii ''data:'') (py_strip l)" "starts_with (ascii ''data:'') (py_strip l')"
  shows "read_first (Suc (Suc n)) data (l # l' # ls) = read_first (Suc n) data (l' # ls)"
  using assms by (simp add: Let_def del: ascii_simps)

end
