(* ===== verification/Wellknown.thy ===== *)
theory Wellknown
  imports Streamable_Http Probe_Result Py_Regex
begin

text \<open>
  \<open>wellknown.py\<close>: the check of Protected Resource Metadata (RFC 9728). \<open>join_url\<close> is \<open>urljoin\<close>, \<open>None\<close> being its
  \<open>ValueError\<close>; \<open>exn\<close> names an exception. The check talks to the server through \<open>request_raw\<close> only.
\<close>

definition resource_metadata_rx :: rx where
  "resource_metadata_rx =
     seqs [ci (ascii ''resource_metadata''), Star space, lit [61], Star space, lit [34],
           between 1 2048 (Chr (\<lambda>c. c \<noteq> 34)), lit [34]]"

definition loopback_hosts :: "str list" where
  "loopback_hosts = [ascii ''localhost'', ascii ''127.0.0.1'', ascii ''::1'']"

definition max_auth_servers :: nat where "max_auth_servers = 16"

definition prm_result :: "string \<Rightarrow> bool \<Rightarrow> str \<Rightarrow> str option \<Rightarrow> probe_result" where
  "prm_result idx passed detail inconclusive =
     \<lparr>pr_probe_id = ascii ''T01-prm-'' @ ascii idx, pr_threat_id = ascii ''T01'', pr_passed = passed, pr_status_code = JNull,
      pr_response_body = html_escape (take 2000 detail), pr_error = None, pr_assertions = [], pr_duration = JFloat 0 1,
      pr_inconclusive = (if filled inconclusive then map_option html_escape inconclusive else None),
      pr_synthesis_attempted = False, pr_canary_detected = False, pr_suppressed = False\<rparr>"

text \<open>A URL for comparison: scheme and host in lower case, no default port, no trailing slashes.\<close>

definition default_port :: "str \<Rightarrow> nat option" where
  "default_port scheme = map_of [(ascii ''http'', 80), (ascii ''https'', 443)] scheme"

definition canonical_url :: "wire_env \<Rightarrow> str \<Rightarrow> str option" where
  "canonical_url e u =
     (case we_hx e u of
        None \<Rightarrow> None
      | Some h \<Rightarrow>
          (if hx_scheme h = [] \<or> hx_host h = [] then None
           else let scheme = ue_lower (we_url e) (hx_scheme h); host = ue_lower (we_url e) (hx_host h);
                    port = (case hx_port h of
                              None \<Rightarrow> []
                            | Some p \<Rightarrow> if default_port scheme = Some p then [] else 58 # digits p)
                in Some (scheme @ ascii ''://'' @ (if 58 \<in> set host then 91 # host @ [93] else host) @ port @ strip_slashes (hx_path h))))"

definition text_repr :: "py_text \<Rightarrow> str \<Rightarrow> str" where
  "text_repr pt s = pt_repr pt (PyAtom (JStr s))"

definition server_problem :: "py_text \<Rightarrow> wire_env \<Rightarrow> bool \<Rightarrow> json \<Rightarrow> str list" where
  "server_problem pt e loopback srv =
     (let shown = text_repr pt (take 200 (to_str pt (of_json srv)));
          parsed = (case srv of JStr s \<Rightarrow> urlparse (we_url e) s | _ \<Rightarrow> None);
          host = (case parsed of None \<Rightarrow> None | Some p \<Rightarrow> url_hostname (we_url e) p)
      in case (parsed, host) of
           (Some p, Some h) \<Rightarrow>
             (if url_netloc p = [] \<or> h = [] then [ascii ''authorization server is not a URL: '' @ shown]
              else if url_scheme p \<noteq> ascii ''https'' \<and> \<not> (loopback \<and> h \<in> set loopback_hosts)
              then [ascii ''authorization server is not HTTPS: '' @ shown] else [])
         | _ \<Rightarrow> [ascii ''authorization server is not a URL: '' @ shown])"

definition resource_problem :: "py_text \<Rightarrow> wire_env \<Rightarrow> str \<Rightarrow> json \<Rightarrow> str list" where
  "resource_problem pt e expected v =
     (case v of
        JStr r \<Rightarrow>
          (if r = [] then [quoted_name (ascii ''resource'') @ ascii '' is missing'']
           else if canonical_url e r \<noteq> canonical_url e expected
           then [quoted_name (ascii ''resource'') @ ascii '' does not identify this MCP server ('' @ text_repr pt (take 200 r) @ ascii '' vs '' @
                 text_repr pt expected @ [41]]
           else [])
      | _ \<Rightarrow> [quoted_name (ascii ''resource'') @ ascii '' is missing''])"

definition validate_prm :: "py_text \<Rightarrow> wire_env \<Rightarrow> json \<Rightarrow> str \<Rightarrow> bool \<Rightarrow> str list" where
  "validate_prm pt e doc expected loopback =
     (case doc of
        JDict d \<Rightarrow>
          resource_problem pt e expected (get d (ascii ''resource'')) @
          (case get d (ascii ''authorization_servers'') of
             JList servers \<Rightarrow>
               (if servers = [] then [quoted_name (ascii ''authorization_servers'') @ ascii '' is missing or empty'']
                else (if length servers > max_auth_servers
                      then [quoted_name (ascii ''authorization_servers'') @ ascii '' lists '' @ digits (length servers) @
                            ascii '' entries (more than '' @ digits max_auth_servers @ [41]] else []) @
                     concat (map (server_problem pt e loopback) servers))
           | _ \<Rightarrow> [quoted_name (ascii ''authorization_servers'') @ ascii '' is missing or empty''])
      | _ \<Rightarrow> [ascii ''metadata is not a JSON object''])"

section \<open>The candidates\<close>

definition advertised_url :: "str \<Rightarrow> str option" where
  "advertised_url challenge =
     map_option (\<lambda>(i, j). takeWhile (\<lambda>c. c \<noteq> 34) (tl (dropWhile (\<lambda>c. c \<noteq> 34) (take (j - i) (drop i challenge)))))
       (rx_search resource_metadata_rx challenge)"

definition wellknown_base :: "str \<Rightarrow> str" where
  "wellknown_base origin = origin @ ascii ''/.well-known/oauth-protected-resource''"

text \<open>The default locations and the identifier each has to name.\<close>

definition default_candidates :: "str \<Rightarrow> str \<Rightarrow> str \<Rightarrow> (str \<times> str) list" where
  "default_candidates endpoint origin path =
     (if path \<noteq> [] then [(wellknown_base origin @ path, endpoint)] else []) @
     [(wellknown_base origin, if path = [] then origin else endpoint)]"

definition off_origin_note :: "py_text \<Rightarrow> str \<Rightarrow> str" where
  "off_origin_note pt u =
     ascii ''WWW-Authenticate resource_metadata points to another origin ('' @ text_repr pt (take 200 u) @ ascii ''); reported, not fetched.''"

text \<open>The remarks and the candidates, or the advertised text where it is malformed.\<close>

definition candidates :: "py_text \<Rightarrow> wire_env \<Rightarrow> (str \<Rightarrow> str \<Rightarrow> str option) \<Rightarrow> http_transport \<Rightarrow> str \<Rightarrow> str \<Rightarrow> str \<Rightarrow>
    str + str list \<times> (str \<times> str) list" where
  "candidates pt e join_url t origin path challenge =
     (case advertised_url challenge of
        None \<Rightarrow> Inr ([], default_candidates (ht_endpoint t) origin path)
      | Some adv \<Rightarrow>
          (case join_url (ht_endpoint t) adv of
             None \<Rightarrow> Inl adv
           | Some u \<Rightarrow>
               (case same_origin e t u of
                  None \<Rightarrow> Inl adv
                | Some same \<Rightarrow>
                    if same then Inr ([], (u, ht_endpoint t) # default_candidates (ht_endpoint t) origin path)
                    else Inr ([off_origin_note pt u], default_candidates (ht_endpoint t) origin path))))"

section \<open>The check\<close>

definition spaced :: "str list \<Rightarrow> str" where "spaced xs = join [32] xs"

definition not_challenged_reason :: str where
  "not_challenged_reason =
     ascii ''The server did not answer an unauthenticated request with HTTP 401, so Protected Resource Metadata discovery does not apply. INCONCLUSIVE.''"

definition other_origin_reason :: str where
  "other_origin_reason =
     ascii ''The server advertises Protected Resource Metadata on another origin, which the scanner does not fetch; the metadata clients use could not be verified. INCONCLUSIVE.''"

definition undetermined_reason :: str where
  "undetermined_reason =
     ascii ''The server requires authentication (HTTP 401), but at least one metadata location redirected, timed out, or returned an unreadable response; absence of Protected Resource Metadata could not be established. INCONCLUSIVE.''"

definition no_metadata_detail :: str where
  "no_metadata_detail =
     ascii ''The server requires authentication (HTTP 401) but serves no usable RFC 9728 Protected Resource Metadata on its own origin: clients cannot discover its authorization server.''"

definition judge_document :: "py_text \<Rightarrow> wire_env \<Rightarrow> bool \<Rightarrow> str list \<Rightarrow> str \<Rightarrow> str \<Rightarrow> json option \<Rightarrow> probe_result" where
  "judge_document pt e loopback remarks u expected doc =
     (case doc of
        None \<Rightarrow> prm_result ''2'' False (spaced (remarks @ [ascii ''Protected Resource Metadata at '' @ u @ ascii '' is not valid JSON.''])) None
      | Some d \<Rightarrow>
          (let problems = validate_prm pt e d expected loopback in
           if problems \<noteq> [] then
             prm_result ''2'' False (spaced (remarks @ [ascii ''Protected Resource Metadata at '' @ u @ ascii '': '' @ join [59, 32] problems])) None
           else if remarks \<noteq> [] then
             prm_result ''6'' False (spaced (remarks @ [ascii ''Same-origin metadata at '' @ u @ ascii '' is valid.''])) (Some other_origin_reason)
           else prm_result ''ok'' True
             (ascii ''Protected Resource Metadata at '' @ u @ ascii '' names this server and lists HTTPS authorization server(s).'') None))"

text \<open>Trying the candidates in turn: a failed fetch leaves the matter undetermined, a status other than 200 does not.
  An invalid URL is not among the exceptions the loop catches.\<close>

fun try_candidates :: "py_text \<Rightarrow> wire_env \<Rightarrow> wire_config \<Rightarrow> bool \<Rightarrow> str list \<Rightarrow> (str \<times> str) list \<Rightarrow> bool \<Rightarrow> http_transport \<Rightarrow>
    send_error + probe_result" where
  "try_candidates pt e c loopback remarks [] undetermined t =
     Inr (if undetermined then prm_result ''5'' False (spaced remarks) (Some undetermined_reason)
          else prm_result ''3'' False (spaced (remarks @ [no_metadata_detail])) None)"
| "try_candidates pt e c loopback remarks ((u, expected) # us) undetermined t =
     (case request_raw e c (ascii ''GET'') u None [(ascii ''Accept'', ascii ''application/json'')] 65536 t of
        (Inl err, t') \<Rightarrow>
          (if err \<in> {InvalidUrl, NotConnected} then Inl err else try_candidates pt e c loopback remarks us True t')
      | (Inr r, t') \<Rightarrow>
          (if hr_status r \<noteq> 200 then try_candidates pt e c loopback remarks us undetermined t'
           else Inr (judge_document pt e loopback remarks u expected (Option.bind (utf8_decode (hr_body r)) loads))))"

definition prm_probe_body :: "byte list" where
  "prm_probe_body = body_bytes (make_rpc (ascii ''cosai-prm'') (ascii ''tools/list'') [])"

definition scan_endpoint :: "py_text \<Rightarrow> wire_env \<Rightarrow> (str \<Rightarrow> str \<Rightarrow> str option) \<Rightarrow> wire_config \<Rightarrow> http_transport \<Rightarrow>
    send_error + probe_result" where
  "scan_endpoint pt e join_url c t =
     (case urlparse (we_url e) (ht_endpoint t) of
        None \<Rightarrow> Inl InvalidUrl
      | Some p \<Rightarrow>
          (let loopback = (case url_hostname (we_url e) p of None \<Rightarrow> [] | Some h \<Rightarrow> h) \<in> set loopback_hosts in
           case request_raw e c (ascii ''POST'') (ht_endpoint t) (Some prm_probe_body) [] 65536 t of
             (Inl err, t') \<Rightarrow> Inl err
           | (Inr r, t') \<Rightarrow>
               (if hr_status r \<noteq> 401 then
                  Inr (prm_result ''1'' False (ascii ''unauthenticated request '' @ [8594] @ ascii '' HTTP '' @ dump_int (hr_status r))
                    (Some not_challenged_reason))
                else case candidates pt e join_url t' (url_origin p) (strip_slashes (url_path p))
                       (case map_of (hr_headers r) (ascii ''www-authenticate'') of Some s \<Rightarrow> s | None \<Rightarrow> []) of
                  Inl adv \<Rightarrow> Inr (prm_result ''4'' False
                    (ascii ''WWW-Authenticate resource_metadata is malformed: '' @ text_repr pt (take 200 adv)) None)
                | Inr (remarks, us) \<Rightarrow> try_candidates pt e c loopback remarks us False t')))"

definition no_credentials :: "wire_config \<Rightarrow> wire_config" where
  "no_credentials c = c\<lparr>wc_auth_token := None, wc_auth_header := None\<rparr>"

definition could_not_run :: "str \<Rightarrow> probe_result" where
  "could_not_run exn_name =
     prm_result ''1'' False [] (Some (ascii ''Protected Resource Metadata check could not run ('' @ exn_name @ ascii ''). INCONCLUSIVE.''))"

definition scan_protected_resource_metadata :: "py_text \<Rightarrow> wire_env \<Rightarrow> (str \<Rightarrow> str \<Rightarrow> str option) \<Rightarrow> (pin_error option \<Rightarrow> str) \<Rightarrow>
    (send_error \<Rightarrow> str) \<Rightarrow> wire_config \<Rightarrow> str \<Rightarrow> probe_result list" where
  "scan_protected_resource_metadata pt e join_url connect_exn send_exn c target_url =
     (let c' = no_credentials c in
      case Option.bind (new_transport e c' target_url) (connect e c') of
        None \<Rightarrow> [could_not_run (connect_exn None)]
      | Some (Inl err) \<Rightarrow> [could_not_run (connect_exn (Some err))]
      | Some (Inr t) \<Rightarrow>
          (case scan_endpoint pt e join_url c' t of
             Inl err \<Rightarrow> [could_not_run (send_exn err)]
           | Inr r \<Rightarrow> [r]))"

section \<open>What a passed check means\<close>

lemma prm_result_fields [simp]:
  "pr_passed (prm_result i b d x) = b" "pr_threat_id (prm_result i b d x) = ascii ''T01''" "pr_error (prm_result i b d x) = None"
  by (simp_all add: prm_result_def)

definition metadata_served :: "wire_env \<Rightarrow> wire_config \<Rightarrow> http_transport \<Rightarrow> str \<Rightarrow> json \<Rightarrow> bool" where
  "metadata_served e c t u doc \<longleftrightarrow>
     (\<exists>r t'. request_raw e c (ascii ''GET'') u None [(ascii ''Accept'', ascii ''application/json'')] 65536 t = (Inr r, t') \<and>
        hr_status r = 200 \<and> Option.bind (utf8_decode (hr_body r)) loads = Some doc)"

lemma judged_document_pass:
  assumes "pr_passed (judge_document pt e loopback remarks u expected doc)"
  shows "remarks = []" "\<exists>d. doc = Some d \<and> validate_prm pt e d expected loopback = []"
  using assms by (auto simp: judge_document_def Let_def split: option.splits if_splits)

lemma candidate_pass:
  assumes "try_candidates pt e c loopback remarks us und t = Inr r" "pr_passed r"
  shows "remarks = [] \<and> (\<exists>u expected doc t'. (u, expected) \<in> set us \<and> metadata_served e c t' u doc \<and> validate_prm pt e doc expected loopback = [])"
  using assms
proof (induction us arbitrary: und t)
  case Nil
  then show ?case by (auto split: if_splits)
next
  case (Cons a us)
  obtain u expected where a: "a = (u, expected)" by (cases a)
  obtain q t' where q: "request_raw e c (ascii ''GET'') u None [(ascii ''Accept'', ascii ''application/json'')] 65536 t = (q, t')"
    by (cases "request_raw e c (ascii ''GET'') u None [(ascii ''Accept'', ascii ''application/json'')] 65536 t")
  note step = Cons.prems(1) [unfolded a try_candidates.simps q prod.case]
  show ?case
  proof (cases q)
    case (Inl err)
    then have "try_candidates pt e c loopback remarks us True t' = Inr r" using step by (auto split: if_splits)
    from Cons.IH [OF this Cons.prems(2)] show ?thesis by auto
  next
    case (Inr h)
    show ?thesis
    proof (cases "hr_status h = 200")
      case True
      then have r: "r = judge_document pt e loopback remarks u expected (Option.bind (utf8_decode (hr_body h)) loads)"
        using step Inr by simp
      from judged_document_pass [OF Cons.prems(2) [unfolded r]] obtain d where
        d: "remarks = []" "Option.bind (utf8_decode (hr_body h)) loads = Some d" "validate_prm pt e d expected loopback = []" by blast
      have "metadata_served e c t u d" unfolding metadata_served_def using q Inr True d(2) by blast
      then show ?thesis using d a by auto
    next
      case False
      then have "try_candidates pt e c loopback remarks us und t' = Inr r" using step Inr by simp
      from Cons.IH [OF this Cons.prems(2)] show ?thesis by auto
    qed
  qed
qed

text \<open>The check passes only if the server demands authentication and a location on the endpoint's own origin metadata_served a
  document that names the server and lists only HTTPS authorization servers (or loopback ones, for a loopback target).\<close>

lemma prm_pass_earned:
  assumes "r \<in> set (scan_protected_resource_metadata pt e join_url cx sx c target)" "pr_passed r"
  shows "\<exists>t t' t2 u expected doc q loopback.
    request_raw e (no_credentials c) (ascii ''POST'') (ht_endpoint t) (Some prm_probe_body) [] 65536 t = (Inr q, t') \<and> hr_status q = 401 \<and>
    metadata_served e (no_credentials c) t2 u doc \<and> same_origin e t2 u = Some True \<and> validate_prm pt e doc expected loopback = []"
proof -
  obtain t where t: "scan_endpoint pt e join_url (no_credentials c) t = Inr r"
    using assms by (auto simp: scan_protected_resource_metadata_def Let_def could_not_run_def split: option.splits sum.splits)
  from t obtain p where p: "urlparse (we_url e) (ht_endpoint t) = Some p"
    by (cases "urlparse (we_url e) (ht_endpoint t)") (simp_all add: scan_endpoint_def)
  obtain q0 t' where q0: "request_raw e (no_credentials c) (ascii ''POST'') (ht_endpoint t) (Some prm_probe_body) [] 65536 t = (q0, t')"
    by (cases "request_raw e (no_credentials c) (ascii ''POST'') (ht_endpoint t) (Some prm_probe_body) [] 65536 t")
  note step = t [unfolded scan_endpoint_def p option.case Let_def q0 prod.case]
  from step obtain q where q: "q0 = Inr q" by (cases q0) auto
  have s: "hr_status q = 401" using step q assms(2) by (auto simp del: ascii_simps split: if_splits)
  obtain remarks us loopback where us: "try_candidates pt e (no_credentials c) loopback remarks us False t' = Inr r"
    using step q s assms(2) by (auto simp del: ascii_simps split: sum.splits prod.splits)
  from candidate_pass [OF us assms(2)] obtain u expected doc t2
    where d: "metadata_served e (no_credentials c) t2 u doc" "validate_prm pt e doc expected loopback = []" by blast
  have "same_origin e t2 u = Some True" using d(1) unfolding metadata_served_def by (auto dest: request_raw_result(1))
  then show ?thesis using q0 q s d by blast
qed

end
