(* ===== verification/Adversarial.thy ===== *)
theory Adversarial
  imports Addresses Catalog
begin

text \<open>
  The adversarial mode (\<open>adversarial/\<close>): the double opt-in, the check that a probe names no other host, and the
  canaries. URLs are parsed with the environment \<open>e\<close>, addresses with \<open>parse\<close>; the random part of a canary is an
  argument.
\<close>

section \<open>Canaries\<close>

record canary =
  cn_value :: str
  cn_threat_id :: str
  cn_prefix :: str

definition canary_redacted :: str where "canary_redacted = ascii ''[CANARY REDACTED]''"

definition canary_head :: str where "canary_head = ascii ''COSAI_PROBE''"

definition generate_canary :: "(str \<Rightarrow> str) \<Rightarrow> str \<Rightarrow> str \<Rightarrow> str \<Rightarrow> canary" where
  "generate_canary upper_of token threat_id scan_id =
     (let safe_id = upper_of threat_id;
          prefix = (if scan_id = [] then ascii ''00000000'' else upper_of (take 8 scan_id))
      in \<lparr>cn_value = canary_head @ 95 # safe_id @ 95 # prefix @ 95 # token, cn_threat_id = threat_id, cn_prefix = prefix\<rparr>)"

definition detect_canary :: "str \<Rightarrow> canary \<Rightarrow> bool" where
  "detect_canary body c \<longleftrightarrow> (if body = [] then False else has_sub (cn_value c) body)"

record adversarial_mode =
  am_enabled :: bool
  am_declaration :: "str option"
  am_allow_stateful :: bool
  am_scan_id :: str

definition adversarial_off :: adversarial_mode where
  "adversarial_off = \<lparr>am_enabled = False, am_declaration = None, am_allow_stateful = False, am_scan_id = []\<rparr>"

definition make_canary :: "(str \<Rightarrow> str) \<Rightarrow> str \<Rightarrow> adversarial_mode \<Rightarrow> str \<Rightarrow> canary" where
  "make_canary upper_of token m threat_id = generate_canary upper_of token threat_id (am_scan_id m)"

section \<open>The double opt-in\<close>

datatype optin_error = DeclarationMissing | HostnameMissing | HostnameTooShort str | HostnameNotDeclared str

definition min_hostname_len :: nat where "min_hostname_len = 4"

text \<open>The lower-case name of the host of a URL, or nothing where it cannot be parsed.\<close>

definition host_or_empty :: "url_env \<Rightarrow> str \<Rightarrow> str" where
  "host_or_empty e u =
     (case urlparse e u of None \<Rightarrow> [] | Some p \<Rightarrow> (case url_hostname e p of None \<Rightarrow> [] | Some h \<Rightarrow> h))"

definition host_char :: "nat \<Rightarrow> bool" where
  "host_char c \<longleftrightarrow> letter c \<or> is_digit c \<or> c \<in> {45, 46, 95}"

definition whole_word_at :: "str \<Rightarrow> str \<Rightarrow> nat \<Rightarrow> bool" where
  "whole_word_at w s i \<longleftrightarrow>
     starts_with w (drop i s) \<and> \<not> (0 < i \<and> host_char (s ! (i - 1))) \<and> \<not> (i + length w < length s \<and> host_char (s ! (i + length w)))"

definition whole_word :: "str \<Rightarrow> str \<Rightarrow> bool" where
  "whole_word w s \<longleftrightarrow> list_ex (whole_word_at w s) [0..<Suc (length s)]"

definition validate_dual_optin :: "url_env \<Rightarrow> bool \<Rightarrow> str option \<Rightarrow> str \<Rightarrow> optin_error option" where
  "validate_dual_optin e adversarial declaration target_url =
     (if \<not> adversarial then None
      else case declaration of
        None \<Rightarrow> Some DeclarationMissing
      | Some d \<Rightarrow>
          (if d = [] then Some DeclarationMissing
           else let h = host_or_empty e target_url in
             if h = [] then Some HostnameMissing
             else if length h < min_hostname_len then Some (HostnameTooShort h)
             else if whole_word (ue_lower e h) (ue_lower e d) then None
             else Some (HostnameNotDeclared h)))"

definition validate_mode :: "url_env \<Rightarrow> adversarial_mode \<Rightarrow> str \<Rightarrow> optin_error option" where
  "validate_mode e m target_url = validate_dual_optin e (am_enabled m) (am_declaration m) target_url"

section \<open>No external endpoints\<close>

datatype unsafe_probe = StatefulForbidden json | BlockedUrl str | ExternalUrl str str

definition always_blocked_urls :: "ip_network list" where
  "always_blocked_urls = [Net4 0x7F000000 8, Net6 1 128, Net4 0 32, Net4 0xA9FE0000 16]"

definition is_blocked_address :: "(str \<Rightarrow> ip_address option) \<Rightarrow> str \<Rightarrow> bool" where
  "is_blocked_address parse host =
     (case parse host of None \<Rightarrow> False | Some a \<Rightarrow> list_ex (in_network a) always_blocked_urls)"

definition looks_like_url :: "url_env \<Rightarrow> str \<Rightarrow> bool" where
  "looks_like_url e s \<longleftrightarrow>
     (let l = py_strip (ue_lower e s) in starts_with (ascii ''http://'') l \<or> starts_with (ascii ''https://'') l)"

definition reject_if_external_url :: "url_env \<Rightarrow> (str \<Rightarrow> ip_address option) \<Rightarrow> str \<Rightarrow> str \<Rightarrow> unsafe_probe option" where
  "reject_if_external_url e parse target_host s =
     (if \<not> looks_like_url e s then None
      else let host = ue_lower e (host_or_empty e s) in
        if host = [] then None
        else if is_blocked_address parse host then Some (BlockedUrl host)
        else if host \<noteq> target_host then Some (ExternalUrl host target_host)
        else None)"

definition first_error :: "'a option list \<Rightarrow> 'a option" where
  "first_error xs = (case filter (\<lambda>x. x \<noteq> None) xs of [] \<Rightarrow> None | x # _ \<Rightarrow> x)"

fun check_external :: "url_env \<Rightarrow> (str \<Rightarrow> ip_address option) \<Rightarrow> str \<Rightarrow> json \<Rightarrow> unsafe_probe option" where
  "check_external e parse target_host (JStr s) = reject_if_external_url e parse target_host s"
| "check_external e parse target_host (JDict d) = first_error (map (\<lambda>(k, v). check_external e parse target_host v) d)"
| "check_external e parse target_host (JList xs) = first_error (map (check_external e parse target_host) xs)"
| "check_external e parse target_host _ = None"

definition stateful_probe :: "(str \<times> json) list \<Rightarrow> bool" where
  "stateful_probe probe \<longleftrightarrow> get_or probe (ascii ''mode'') (JStr (ascii ''read-only'')) = JStr (ascii ''stateful'')"

definition check_no_external_endpoints :: "url_env \<Rightarrow> (str \<Rightarrow> ip_address option) \<Rightarrow> (str \<times> json) list \<Rightarrow> str \<Rightarrow> bool \<Rightarrow>
    unsafe_probe option" where
  "check_no_external_endpoints e parse probe target_url allow_stateful =
     (if stateful_probe probe \<and> \<not> allow_stateful
      then Some (StatefulForbidden (get_or probe (ascii ''id'') (JStr (ascii ''<unknown>''))))
      else check_external e parse (ue_lower e (host_or_empty e target_url)) (JDict probe))"

section \<open>What the checks promise\<close>

lemma first_error_None: "first_error xs = None \<longleftrightarrow> list_all (\<lambda>x. x = None) xs"
  by (auto simp: first_error_def list_all_iff filter_empty_conv dest: filter_eq_ConsD split: list.splits)

fun string_leaves :: "json \<Rightarrow> str list" where
  "string_leaves (JStr s) = [s]"
| "string_leaves (JDict d) = concat (map (\<lambda>(k, v). string_leaves v) d)"
| "string_leaves (JList xs) = concat (map string_leaves xs)"
| "string_leaves _ = []"

definition in_band :: "url_env \<Rightarrow> (str \<Rightarrow> ip_address option) \<Rightarrow> str \<Rightarrow> str \<Rightarrow> bool" where
  "in_band e parse target_host s \<longleftrightarrow>
     (looks_like_url e s \<and> ue_lower e (host_or_empty e s) \<noteq> [] \<longrightarrow>
      ue_lower e (host_or_empty e s) = target_host \<and> \<not> is_blocked_address parse target_host)"

lemma reject_None: "reject_if_external_url e parse t s = None \<longleftrightarrow> in_band e parse t s"
  by (auto simp: reject_if_external_url_def in_band_def Let_def)

text \<open>A probe is accepted exactly when every string in it that begins as a URL names the target's host.\<close>

lemma check_external_None: "check_external e parse t v = None \<longleftrightarrow> list_all (in_band e parse t) (string_leaves v)"
  by (induction v rule: string_leaves.induct) (auto simp: first_error_None list_all_iff reject_None split: prod.splits)

lemma accepted_probe_in_band:
  assumes "check_no_external_endpoints e parse probe u allow = None"
  shows "list_all (in_band e parse (ue_lower e (host_or_empty e u))) (string_leaves (JDict probe))"
    and "stateful_probe probe \<Longrightarrow> allow"
proof -
  have "check_external e parse (ue_lower e (host_or_empty e u)) (JDict probe) = None"
    using assms unfolding check_no_external_endpoints_def by (auto simp del: check_external.simps ascii_simps split: if_splits)
  then show "list_all (in_band e parse (ue_lower e (host_or_empty e u))) (string_leaves (JDict probe))"
    by (simp only: check_external_None)
  show "stateful_probe probe \<Longrightarrow> allow" using assms unfolding check_no_external_endpoints_def by (auto simp del: check_external.simps ascii_simps split: if_splits)
qed

lemma optin_given:
  assumes "validate_dual_optin e True declaration u = None"
  obtains d h where "declaration = Some d" "h = host_or_empty e u" "min_hostname_len \<le> length h" "whole_word (ue_lower e h) (ue_lower e d)"
  using assms by (auto simp: validate_dual_optin_def Let_def split: option.splits if_splits)

text \<open>The declaration holds the host between two characters that cannot belong to a host name.\<close>

lemma whole_word_parts:
  assumes "whole_word w s"
  shows "\<exists>a b. s = a @ w @ b \<and> (a = [] \<or> \<not> host_char (last a)) \<and> (b = [] \<or> \<not> host_char (hd b))"
proof -
  obtain i where i: "i \<le> length s" "whole_word_at w s i"
    using assms unfolding whole_word_def list_ex_iff set_upt by (auto simp: less_Suc_eq_le)
  then obtain b where b: "drop i s = w @ b" by (auto simp: whole_word_at_def starts_with_iff)
  let ?a = "take i s"
  have s: "s = ?a @ w @ b" using b by (metis append_take_drop_id)
  have l: "length ?a = i" using i(1) by simp
  have "?a = [] \<or> \<not> host_char (last ?a)"
    using i l by (cases i) (auto simp: whole_word_at_def last_conv_nth)
  moreover have "b = [] \<or> \<not> host_char (hd b)"
  proof (cases b)
    case (Cons c r)
    have "s ! (i + length w) = c" using s l Cons by (metis append.assoc length_append nth_append_length)
    moreover have "i + length w < length s" using arg_cong [OF s, of length] l Cons by simp
    ultimately show ?thesis using i(2) Cons by (simp add: whole_word_at_def)
  qed simp
  ultimately show ?thesis using s by blast
qed

text \<open>A URL behind other text is not seen.\<close>

lemma embedded_url_accepted:
  "reject_if_external_url plain_env (\<lambda>_. None) [97] (ascii ''x http://e.b'') = None"
  by (simp add: reject_if_external_url_def looks_like_url_def starts_with_def py_strip_def plain_env_def py_space_def)

lemma userinfo_is_no_host:
  "reject_if_external_url plain_env (\<lambda>_. None) [97] (ascii ''http://a@e.b/'') = Some (ExternalUrl (ascii ''e.b'') [97])"
  by (simp add: reject_if_external_url_def looks_like_url_def starts_with_def py_strip_def plain_env_def py_space_def
       host_or_empty_def urlparse_def split_scheme_def cut_at_def clean_url_def split_netloc_def scheme_char_def letter_def
       netloc_ok_def is_digit_def url_hostname_def hostinfo_def is_blocked_address_def Let_def)

end
