(* ===== verification/Profiles.thy ===== *)
theory Profiles
  imports Probe_Result
begin

text \<open>
  Server profiles (\<open>profiles/\<close>): the built-in ones, and profile files. Python's parser is an argument: \<open>parse\<close> turns
  the text of a file into its single assignment \<open>name = expression\<close>, \<open>None\<close> for anything else. Every refusal is
  \<open>None\<close>. \<open>to_upper\<close>, \<open>alnum_text\<close> and \<open>lit_text\<close> are \<open>str.upper\<close>, \<open>str.isalnum\<close> and \<open>str\<close> on a literal.
\<close>

record server_profile =
  pf_name :: str
  pf_description :: str
  pf_mcp_path :: str
  pf_auth_header_format :: "str option"
  pf_tool_name_map :: "(str, str) dict"
  pf_skip_categories :: "str list"
  pf_notes :: str

definition apply_tool_name :: "server_profile \<Rightarrow> str \<Rightarrow> str" where
  "apply_tool_name p placeholder = (case map_of (pf_tool_name_map p) placeholder of None \<Rightarrow> placeholder | Some x \<Rightarrow> x)"

section \<open>Built-in profiles\<close>

definition fastmcp_profile :: server_profile where
  "fastmcp_profile =
     \<lparr>pf_name = ascii ''fastmcp'',
      pf_description = ascii ''FastMCP framework server '' @ [8212] @ ascii '' unauthenticated, standard MCP path.'',
      pf_mcp_path = ascii ''/mcp'', pf_auth_header_format = None,
      pf_tool_name_map = [(ascii ''ping'', ascii ''ping''), (ascii ''echo'', ascii ''echo'')], pf_skip_categories = [],
      pf_notes = ascii ''Use for servers built with the FastMCP Python framework. No auth header is sent. Tool name map seeds common FastMCP defaults.''\<rparr>"

definition bearer_format :: str where "bearer_format = ascii ''Bearer {token}''"

definition mnemo_profile :: server_profile where
  "mnemo_profile =
     \<lparr>pf_name = ascii ''mnemo'',
      pf_description = ascii ''Mnemo MCP memory server '' @ [8212] @ ascii '' Bearer auth, trailing-slash path, no SSRF surface.'',
      pf_mcp_path = ascii ''/mcp/'', pf_auth_header_format = Some bearer_format,
      pf_tool_name_map = [(ascii ''admin_delete'', ascii ''purge_records''), (ascii ''read_file'', ascii ''search_memories''),
        (ascii ''echo'', ascii ''ping'')],
      pf_skip_categories = [ascii ''T8''],
      pf_notes = ascii ''Use for Mnemo (cosai-mnemo) servers. Requires --auth-token. T8 (Network Binding) skipped '' @ [8212] @
        ascii '' Mnemo has no external fetch surface. MCP path uses trailing slash as required by the Mnemo router.''\<rparr>"

definition openai_plugin_profile :: server_profile where
  "openai_plugin_profile =
     \<lparr>pf_name = ascii ''openai-plugin'',
      pf_description = ascii ''OpenAI plugin'' @ [8211] @ ascii ''style MCP adapter '' @ [8212] @ ascii '' Bearer auth, no session concept.'',
      pf_mcp_path = ascii ''/mcp'', pf_auth_header_format = Some bearer_format, pf_tool_name_map = [],
      pf_skip_categories = [ascii ''T7''],
      pf_notes = ascii ''Use for stateless OpenAI-plugin'' @ [8211] @ ascii ''style MCP adapters. T7 (Session Security) skipped '' @ [8212] @
        ascii '' these servers are stateless by design.''\<rparr>"

definition generic_auth_profile :: server_profile where
  "generic_auth_profile =
     \<lparr>pf_name = ascii ''generic-auth'',
      pf_description = ascii ''Generic authenticated MCP server '' @ [8212] @ ascii '' Bearer auth, standard path.'',
      pf_mcp_path = ascii ''/mcp'', pf_auth_header_format = Some bearer_format, pf_tool_name_map = [], pf_skip_categories = [],
      pf_notes = ascii ''Use for any MCP server that requires a Bearer token. No tool name mappings '' @ [8212] @
        ascii '' relies on adaptive discovery.''\<rparr>"

definition generic_noauth_profile :: server_profile where
  "generic_noauth_profile =
     \<lparr>pf_name = ascii ''generic-noauth'',
      pf_description = ascii ''Generic unauthenticated MCP server '' @ [8212] @ ascii '' no auth, standard path.'',
      pf_mcp_path = ascii ''/mcp'', pf_auth_header_format = None, pf_tool_name_map = [], pf_skip_categories = [ascii ''T1''],
      pf_notes = ascii ''Use for internal or development MCP servers with no authentication. T1 (Authentication) skipped '' @ [8212] @
        ascii '' auth is not applicable by design.''\<rparr>"

definition builtin_profiles :: "(str \<times> server_profile) list" where
  "builtin_profiles =
     map (\<lambda>p. (pf_name p, p)) [fastmcp_profile, mnemo_profile, openai_plugin_profile, generic_auth_profile, generic_noauth_profile]"

section \<open>Literals\<close>

text \<open>Expressions of a profile file. \<open>EOther\<close> stands for every node that is not whitelisted, with its
  subexpressions; a dictionary entry without a key is an unpacking.\<close>

datatype py_expr =
    EConst json
  | EBytes "byte list"
  | EDict "(py_expr option \<times> py_expr) list"
  | EList "py_expr list"
  | ETuple "py_expr list"
  | ESet "py_expr list"
  | ENeg py_expr
  | EOther "py_expr list"

datatype py_lit =
    LAtom json
  | LBytes "byte list"
  | LList "py_lit list"
  | LTuple "py_lit list"
  | LSet "py_lit list"
  | LDict "(py_lit \<times> py_lit) list"

fun literal_only :: "py_expr \<Rightarrow> bool" where
  "literal_only (EConst v) = True"
| "literal_only (EBytes b) = True"
| "literal_only (EDict rows) = list_all (\<lambda>(k, v). (case k of None \<Rightarrow> True | Some k' \<Rightarrow> literal_only k') \<and> literal_only v) rows"
| "literal_only (EList es) = list_all literal_only es"
| "literal_only (ETuple es) = list_all literal_only es"
| "literal_only (ESet es) = list_all literal_only es"
| "literal_only (ENeg e) = literal_only e"
| "literal_only (EOther es) = False"

fun lit_hashable :: "py_lit \<Rightarrow> bool" where
  "lit_hashable (LAtom v) = True"
| "lit_hashable (LBytes b) = True"
| "lit_hashable (LTuple vs) = list_all lit_hashable vs"
| "lit_hashable _ = False"

definition negated :: "py_lit \<Rightarrow> py_lit option" where
  "negated v =
     (case v of
        LAtom (JInt i) \<Rightarrow> Some (LAtom (JInt (- i)))
      | LAtom (JFloat m k) \<Rightarrow> Some (LAtom (JFloat (- m) k))
      | LAtom (JNonFinite PosInf) \<Rightarrow> Some (LAtom (JNonFinite NegInf))
      | _ \<Rightarrow> None)"

definition is_const :: "py_expr \<Rightarrow> bool" where
  "is_const e = (case e of EConst v \<Rightarrow> True | _ \<Rightarrow> False)"

text \<open>\<open>ast.literal_eval\<close>: a minus sign stands before a numeric constant only, keys and members are hashable.\<close>

fun literal_eval :: "py_expr \<Rightarrow> py_lit option" where
  "literal_eval (EConst v) = Some (LAtom v)"
| "literal_eval (EBytes b) = Some (LBytes b)"
| "literal_eval (EDict rows) =
     Option.bind (those (map (\<lambda>(k, v). case k of
          None \<Rightarrow> None
        | Some k' \<Rightarrow> Option.bind (literal_eval k') (\<lambda>x. if lit_hashable x then map_option (Pair x) (literal_eval v) else None)) rows))
       (\<lambda>ps. Some (LDict (fold (\<lambda>(k, v). AList.update k v) ps [])))"
| "literal_eval (EList es) = map_option LList (those (map literal_eval es))"
| "literal_eval (ETuple es) = map_option LTuple (those (map literal_eval es))"
| "literal_eval (ESet es) =
     Option.bind (those (map literal_eval es)) (\<lambda>vs. if list_all lit_hashable vs then Some (LSet vs) else None)"
| "literal_eval (ENeg e) = (if is_const e then Option.bind (literal_eval e) negated else None)"
| "literal_eval (EOther es) = None"

section \<open>Profile files\<close>

definition profile_fields :: "str list" where
  "profile_fields = map ascii [''name'', ''description'', ''mcp_path'', ''auth_header_format'', ''tool_name_map'', ''skip_categories'', ''notes'']"

record profile_env =
  pv_upper :: "str \<Rightarrow> str"
  pv_alnum :: "str \<Rightarrow> bool"
  pv_text :: "py_lit \<Rightarrow> str"
  pv_parse :: "str \<Rightarrow> (str \<times> py_expr) option"

definition name_ok :: "profile_env \<Rightarrow> str \<Rightarrow> bool" where
  "name_ok e s \<longleftrightarrow> pv_alnum e (filter (\<lambda>c. c \<noteq> 45 \<and> c \<noteq> 95) s)"

text \<open>The format of the authorization header names the token and cannot end the header.\<close>

definition format_ok :: "str \<Rightarrow> bool" where
  "format_ok s \<longleftrightarrow> has_sub (ascii ''{token}'') s \<and> list_all (\<lambda>c. c \<notin> {10, 13, 0}) s"

definition lit_string :: "py_lit \<Rightarrow> str option" where
  "lit_string v = (case v of LAtom (JStr s) \<Rightarrow> Some s | _ \<Rightarrow> None)"

definition header_format :: "py_lit \<Rightarrow> str option option" where
  "header_format v =
     (if v = LAtom JNull then Some None
      else case lit_string v of None \<Rightarrow> None | Some s \<Rightarrow> if format_ok s then Some (Some s) else None)"

definition string_pairs :: "py_lit \<Rightarrow> (str, str) dict option" where
  "string_pairs v =
     (case v of
        LDict ps \<Rightarrow> those (map (\<lambda>(k, w). case (lit_string k, lit_string w) of (Some a, Some b) \<Rightarrow> Some (a, b) | _ \<Rightarrow> None) ps)
      | _ \<Rightarrow> None)"

definition skip_list :: "profile_env \<Rightarrow> py_lit \<Rightarrow> str list option" where
  "skip_list e v =
     (case v of
        LList vs \<Rightarrow> map_option (map (pv_upper e)) (those (map lit_string vs))
      | LSet vs \<Rightarrow> map_option (map (pv_upper e)) (those (map lit_string vs))
      | _ \<Rightarrow> None)"

definition field_of :: "(py_lit \<times> py_lit) list \<Rightarrow> string \<Rightarrow> py_lit option" where
  "field_of raw k = map_of raw (LAtom (JStr (ascii k)))"

definition known_fields :: "(py_lit \<times> py_lit) list \<Rightarrow> bool" where
  "known_fields raw \<longleftrightarrow>
     list_all (\<lambda>(k, _). case lit_string k of None \<Rightarrow> False | Some s \<Rightarrow> s \<in> set profile_fields) raw \<and>
     list_all (\<lambda>f. LAtom (JStr f) \<in> fst ` set raw) profile_fields"

definition dict_to_profile :: "profile_env \<Rightarrow> (py_lit \<times> py_lit) list \<Rightarrow> server_profile option" where
  "dict_to_profile e raw =
     (if \<not> known_fields raw then None
      else case (Option.bind (field_of raw ''name'') lit_string, Option.bind (field_of raw ''mcp_path'') lit_string,
                 Option.bind (field_of raw ''auth_header_format'') header_format,
                 Option.bind (field_of raw ''tool_name_map'') string_pairs,
                 Option.bind (field_of raw ''skip_categories'') (skip_list e),
                 field_of raw ''description'', field_of raw ''notes'') of
             (Some n, Some path, Some fmt, Some tools, Some skip, Some d, Some nt) \<Rightarrow>
               (if name_ok e n \<and> starts_with [47] path
                then Some \<lparr>pf_name = n, pf_description = pv_text e d, pf_mcp_path = path, pf_auth_header_format = fmt,
                           pf_tool_name_map = tools, pf_skip_categories = skip, pf_notes = pv_text e nt\<rparr>
                else None)
           | _ \<Rightarrow> None)"

definition parse_user_profile :: "profile_env \<Rightarrow> str \<Rightarrow> server_profile option" where
  "parse_user_profile e source =
     (case pv_parse e source of
        None \<Rightarrow> None
      | Some (target, rhs) \<Rightarrow>
          (if target \<noteq> ascii ''profile'' \<or> \<not> literal_only rhs then None
           else case literal_eval rhs of Some (LDict raw) \<Rightarrow> dict_to_profile e raw | _ \<Rightarrow> None))"

section \<open>Resolution\<close>

text \<open>\<open>candidate\<close> is the path of a profile in a directory, \<open>resolve\<close> the real path of a path, as its components.\<close>

record profile_files =
  ps_candidate :: "str list \<Rightarrow> str \<Rightarrow> str list"
  ps_exists :: "str list \<Rightarrow> bool"
  ps_resolve :: "str list \<Rightarrow> str list"
  ps_read :: "str list \<Rightarrow> str option"

fun search_profile :: "profile_env \<Rightarrow> profile_files \<Rightarrow> str \<Rightarrow> str list list \<Rightarrow> server_profile option" where
  "search_profile e fs nm [] = None"
| "search_profile e fs nm (d # ds) =
     (let c = ps_candidate fs d nm in
      if \<not> ps_exists fs c then search_profile e fs nm ds
      else let inside = ps_resolve fs d in
        if take (length inside) (ps_resolve fs c) \<noteq> inside then None
        else Option.bind (ps_read fs c) (parse_user_profile e))"

definition profile_dirs :: "str list option \<Rightarrow> str list \<Rightarrow> str list list" where
  "profile_dirs project home =
     (case project of None \<Rightarrow> [] | Some r \<Rightarrow> [r @ [ascii ''.cosai'', ascii ''profiles'']]) @ [home @ [ascii ''.cosai'', ascii ''profiles'']]"

definition resolve_profile :: "profile_env \<Rightarrow> profile_files \<Rightarrow> str \<Rightarrow> bool \<Rightarrow> str list option \<Rightarrow> str list \<Rightarrow> server_profile option" where
  "resolve_profile e fs nm allow_custom project home =
     (case map_of builtin_profiles nm of
        Some p \<Rightarrow> Some p
      | None \<Rightarrow> if \<not> allow_custom then None else search_profile e fs nm (profile_dirs project home))"

section \<open>What a resolved profile is\<close>

text \<open>No profile, built-in or from a file, can inject a second header line, and its path is absolute.\<close>

definition harmless :: "server_profile \<Rightarrow> bool" where
  "harmless p \<longleftrightarrow> (case pf_auth_header_format p of None \<Rightarrow> True | Some f \<Rightarrow> format_ok f) \<and> starts_with [47] (pf_mcp_path p)"

lemma parsed_profile_harmless:
  assumes "parse_user_profile e source = Some p"
  shows "harmless p"
proof -
  obtain raw where raw: "dict_to_profile e raw = Some p"
    using assms by (auto simp: parse_user_profile_def split: option.splits if_splits py_lit.splits)
  have h: "case f of None \<Rightarrow> True | Some x \<Rightarrow> format_ok x" if "header_format v = Some f" for v f
    using that by (auto simp: header_format_def split: option.splits if_splits)
  show ?thesis using raw
    by (auto simp: dict_to_profile_def harmless_def Option.bind_eq_Some_conv simp del: ascii_simps split: option.splits if_splits dest!: h)
qed

lemma builtin_harmless: "list_all (\<lambda>(k, p). harmless p) builtin_profiles"
  by (simp add: builtin_profiles_def fastmcp_profile_def mnemo_profile_def openai_plugin_profile_def generic_auth_profile_def
      generic_noauth_profile_def harmless_def format_ok_def bearer_format_def has_sub_def starts_with_def)

lemma resolved_profile_harmless:
  assumes "resolve_profile e fs nm allow_custom project home = Some p"
  shows "harmless p"
proof -
  have s: "harmless p" if "search_profile e fs nm ds = Some p" for ds
    using that by (induction ds) (auto simp: Let_def Option.bind_eq_Some_conv intro: parsed_profile_harmless split: if_splits)
  show ?thesis
  proof (cases "map_of builtin_profiles nm")
    case (Some q)
    then have "(nm, q) \<in> set builtin_profiles" by (rule map_of_SomeD)
    then have "harmless q" using builtin_harmless by (auto simp: list_all_iff)
    then show ?thesis using assms Some by (simp add: resolve_profile_def)
  next
    case None
    then show ?thesis using assms s by (auto simp: resolve_profile_def split: if_splits)
  qed
qed

text \<open>Without the opt-in no file is read.\<close>

lemma builtin_only: "resolve_profile e fs nm False project home = map_of builtin_profiles nm"
  by (simp add: resolve_profile_def split: option.split)

text \<open>What is not whitelisted never reaches the evaluation.\<close>

lemma literal_only_evaluated: "parse_user_profile e source = Some p \<Longrightarrow> \<exists>rhs. pv_parse e source = Some (ascii ''profile'', rhs) \<and> literal_only rhs"
  by (auto simp: parse_user_profile_def simp del: ascii_simps split: option.splits if_splits)

end
