(* ===== verification/Scan_Run.thy ===== *)
theory Scan_Run
  imports Scan_Outcome Manifest_Scans Evidence Wellknown Adversarial Profiles Probe_Runner
begin

text \<open>
  The orchestration of a scan (\<open>_run_scan\<close> in \<open>api.py\<close>): validation of the request, the choice of threats, the
  passive and active engines, the baseline, the exit code and the assurance gate. A \<open>scan_env\<close> holds the outside
  world: the standard library's functions, the file system, and the connections to the server, each of which may
  depend on the configuration it is opened with. Sleeping between threats is left out.
\<close>

section \<open>Errors\<close>

datatype foreign_error = Cleartext | NoAuthToken | NotJwt | NoAudience | OwnAudience | NoExpiry | LongLived

datatype scan_error =
    BadTargetUrl
  | ForeignToken foreign_error
  | ExpiryOverflow
  | EvidenceWithoutLevel
  | LevelOutOfRange
  | LevelNeedsFullScan
  | EvidenceError evidence_error
  | EvidenceTarget
  | BadProtocolEra
  | OptIn optin_error
  | CatalogError catalog_error
  | UnsafeThreat unsafe_probe
  | CatalogDrift
  | BadBaseline
  | UnencodableFinding
  | NoBaselineFile
  | EngineFailure

text \<open>The errors that are \<open>ValueError\<close>s; \<open>Scanner.run\<close> turns every other one into a \<open>ScannerInternalError\<close>.\<close>

definition value_error :: "scan_error \<Rightarrow> bool" where
  "value_error e \<longleftrightarrow>
     (case e of
        ExpiryOverflow \<Rightarrow> False | EvidenceError err \<Rightarrow> err \<noteq> OsFailure | CatalogError _ \<Rightarrow> False | UnsafeThreat _ \<Rightarrow> False
      | NoBaselineFile \<Rightarrow> False | EngineFailure \<Rightarrow> False | _ \<Rightarrow> True)"

section \<open>The request\<close>

record scan_request =
  rq_target :: str
  rq_categories :: "str list option"
  rq_engine :: str
  rq_allow_custom :: bool
  rq_fail_on :: str
  rq_allow_private :: bool
  rq_auth_token :: "str option"
  rq_read_token :: "str option"
  rq_foreign_token :: "str option"
  rq_mcp_path :: str
  rq_adaptive :: bool
  rq_profile :: "server_profile option"
  rq_adversarial :: "adversarial_mode option"
  rq_baseline :: "fs_path option"
  rq_pii_strict :: bool
  rq_overrides :: "(str, str) dict option"
  rq_allowlist :: "str list option"
  rq_expected_hash :: "str option"
  rq_protocol_era :: str
  rq_level :: "int option"
  rq_evidence :: "fs_path option"

text \<open>The configuration every connection is opened with (\<open>ScanConfig\<close>).\<close>

record scan_setup =
  su_host :: str
  su_port :: nat
  su_allow_private :: bool
  su_auth_token :: "str option"
  su_read_token :: "str option"
  su_foreign_token :: "str option"
  su_mcp_path :: str
  su_auth_header :: "str option"
  su_pii_strict :: bool
  su_overrides :: "(str, str) dict option"
  su_allowlist :: "str list option"
  su_era :: requested_era

record server_link =
  lk_net :: network
  lk_connects :: bool
  lk_sse_connects :: bool
  lk_in_time :: bool
  lk_session :: mcp_session

datatype purpose = ForDetection | ForLegacyCheck | ForDiscovery | ForConfirmation | ForScenario nat

record scan_env =
  sv_text :: py_text
  sv_unicode :: unicode
  sv_json_repr :: "json \<Rightarrow> str"
  sv_upper :: "str \<Rightarrow> str"
  sv_unescape :: "str \<Rightarrow> str"
  sv_sha :: "byte list \<Rightarrow> str"
  sv_now :: rat
  sv_timestamp :: str
  sv_scan_id :: str
  sv_token :: "str \<Rightarrow> str"
  sv_wire :: wire_env
  sv_join :: "str \<Rightarrow> str \<Rightarrow> str option"
  sv_connect_exn :: "pin_error option \<Rightarrow> str"
  sv_send_exn :: "send_error \<Rightarrow> str"
  sv_files :: file_system
  sv_baseline_file :: "fs_path \<Rightarrow> byte list option"
  sv_loader :: loader_env
  sv_catalog_root :: path
  sv_link :: "scan_setup \<Rightarrow> purpose \<Rightarrow> server_link"
  sv_spawn :: "scan_setup \<Rightarrow> (str \<times> str) list \<Rightarrow> bool \<Rightarrow> spawner"
  sv_timeout_text :: str
  sv_exn :: "session_fail \<Rightarrow> str"
  sv_transport_type :: str

section \<open>Validating the request\<close>

definition parse_target :: "url_env \<Rightarrow> str \<Rightarrow> (str \<times> nat \<times> str) option" where
  "parse_target e target =
     (case urlparse e target of
        None \<Rightarrow> None
      | Some p \<Rightarrow>
          (case url_hostname e p of
             None \<Rightarrow> None
           | Some h \<Rightarrow>
               (if url_scheme p = [] \<or> h = [] then None
                else case url_port p of
                  None \<Rightarrow> None
                | Some port \<Rightarrow>
                    let default = (if url_scheme p = ascii ''https'' then 443 else 80) in
                    Some (h, (case port of None \<Rightarrow> default | Some n \<Rightarrow> if n = 0 then default else n), target))))"

definition jwt_payload :: "wire_env \<Rightarrow> str \<Rightarrow> (str \<times> json) list option" where
  "jwt_payload e token =
     (case split_on (\<lambda>c. c = 46) token of
        [_, body, _] \<Rightarrow>
          (case Option.bind (Option.bind (urlsafe_b64decode (body @ b64_pad body)) (we_decode e)) loads of
             Some (JDict d) \<Rightarrow> Some d
           | _ \<Rightarrow> None)
      | _ \<Rightarrow> None)"

definition audiences :: "json \<Rightarrow> json list" where
  "audiences v = (case v of JStr s \<Rightarrow> [v] | JList xs \<Rightarrow> xs | _ \<Rightarrow> [])"

definition nonempty_text :: "json \<Rightarrow> bool" where
  "nonempty_text v = (case v of JStr s \<Rightarrow> s \<noteq> [] | _ \<Rightarrow> False)"

definition claim_text :: "json \<Rightarrow> str" where
  "claim_text v = (case v of JStr s \<Rightarrow> s | _ \<Rightarrow> [])"

text \<open>An integer too large for a float makes \<open>math.isfinite\<close> raise.\<close>

definition float_overflow :: "json \<Rightarrow> bool" where
  "float_overflow v = (case v of JInt i \<Rightarrow> \<bar>i\<bar> \<ge> 2 ^ 1024 - 2 ^ 970 | _ \<Rightarrow> False)"

definition own_audiences :: "wire_env \<Rightarrow> str \<Rightarrow> url \<Rightarrow> str \<Rightarrow> str option list" where
  "own_audiences e target_url p endpoint =
     filter (\<lambda>x. x \<noteq> None) (map (canonical_url e) [target_url, url_origin p, endpoint])"

definition validate_foreign_token :: "wire_env \<Rightarrow> rat \<Rightarrow> str \<Rightarrow> str \<Rightarrow> str option \<Rightarrow> str \<Rightarrow> scan_error option" where
  "validate_foreign_token e now token target_url auth_token endpoint =
     (case urlparse (we_url e) target_url of
        None \<Rightarrow> Some BadTargetUrl
      | Some p \<Rightarrow>
          (let host = (case url_hostname (we_url e) p of None \<Rightarrow> [] | Some h \<Rightarrow> h) in
           if url_scheme p \<noteq> ascii ''https'' \<and> host \<notin> set loopback_hosts then Some (ForeignToken Cleartext)
           else if \<not> filled auth_token then Some (ForeignToken NoAuthToken)
           else case jwt_payload e token of
             None \<Rightarrow> Some (ForeignToken NotJwt)
           | Some d \<Rightarrow>
               (let auds = audiences (get d (ascii ''aud'')); exp = get d (ascii ''exp'') in
                if auds = [] \<or> \<not> list_all nonempty_text auds then Some (ForeignToken NoAudience)
                else if list_ex (\<lambda>a. canonical_url e (claim_text a) \<in> set (own_audiences e target_url p endpoint)) auds
                then Some (ForeignToken OwnAudience)
                else if float_overflow exp then Some ExpiryOverflow
                else case num_value exp of
                  None \<Rightarrow> Some (ForeignToken NoExpiry)
                | Some x \<Rightarrow> (if x \<le> now then Some (ForeignToken NoExpiry)
                             else if x - now > 3600 then Some (ForeignToken LongLived) else None))))"

definition era_of_text :: "str \<Rightarrow> requested_era option" where
  "era_of_text s =
     (if s = ascii ''auto'' then Some AutoEra else if s = ascii ''modern'' then Some OnlyModern
      else if s = ascii ''legacy'' then Some OnlyLegacy else None)"

text \<open>A claimed level: the checks before any request, and the operator's evidence.\<close>

definition validate_assurance :: "scan_env \<Rightarrow> scan_request \<Rightarrow> scan_error + (str, evidence_item) dict" where
  "validate_assurance e q =
     (case rq_level q of
        None \<Rightarrow> (if rq_evidence q \<noteq> None then Inl EvidenceWithoutLevel else Inr [])
      | Some level \<Rightarrow>
          (if level \<notin> {1, 2, 3, 4} then Inl LevelOutOfRange
           else if (case rq_categories q of None \<Rightarrow> False | Some cs \<Rightarrow> cs \<noteq> []) \<or>
             pt_lower (sv_text e) (rq_engine q) \<noteq> ascii ''all'' \<or> rq_allow_custom q \<or> rq_protocol_era q \<noteq> ascii ''auto'' \<or>
             (case rq_profile q of None \<Rightarrow> False | Some p \<Rightarrow> pf_skip_categories p \<noteq> [])
           then Inl LevelNeedsFullScan
           else case rq_evidence q of
             None \<Rightarrow> Inr []
           | Some dir \<Rightarrow>
               (case load_evidence (sv_sha e) (sv_files e) dir of
                  Inl err \<Rightarrow> Inl (EvidenceError err)
                | Inr m \<Rightarrow>
                    (if parse_target (we_url (sv_wire e)) (em_target m) = None then Inl BadTargetUrl
                     else if em_target m \<noteq> rq_target q then Inl EvidenceTarget else Inr (em_items m)))))"

definition effective_path :: "scan_request \<Rightarrow> str" where
  "effective_path q =
     (case rq_profile q of None \<Rightarrow> rq_mcp_path q | Some p \<Rightarrow> if pf_mcp_path p = [] then rq_mcp_path q else pf_mcp_path p)"

definition effective_header :: "scan_request \<Rightarrow> str option" where
  "effective_header q =
     (case (rq_auth_token q, Option.bind (rq_profile q) pf_auth_header_format) of
        (Some token, Some fmt) \<Rightarrow> if token = [] \<or> fmt = [] then None else Some (replace_all (ascii ''{token}'') token fmt)
      | _ \<Rightarrow> None)"

definition check_foreign :: "scan_env \<Rightarrow> scan_request \<Rightarrow> scan_error option" where
  "check_foreign e q =
     (case rq_foreign_token q of
        None \<Rightarrow> None
      | Some token \<Rightarrow>
          (case endpoint_of (sv_wire e) (rq_target q) (effective_path q) of
             None \<Rightarrow> Some BadTargetUrl
           | Some endpoint \<Rightarrow> validate_foreign_token (sv_wire e) (sv_now e) token (rq_target q) (rq_auth_token q) endpoint))"

definition setup_of :: "scan_request \<Rightarrow> str \<Rightarrow> nat \<Rightarrow> requested_era \<Rightarrow> scan_setup" where
  "setup_of q host port era =
     \<lparr>su_host = host, su_port = port, su_allow_private = rq_allow_private q, su_auth_token = rq_auth_token q,
      su_read_token = rq_read_token q, su_foreign_token = rq_foreign_token q, su_mcp_path = effective_path q,
      su_auth_header = effective_header q, su_pii_strict = rq_pii_strict q, su_overrides = rq_overrides q,
      su_allowlist = rq_allowlist q, su_era = era\<rparr>"

definition adversarial_of :: "scan_env \<Rightarrow> scan_request \<Rightarrow> adversarial_mode" where
  "adversarial_of e q =
     (let base = (case rq_adversarial q of None \<Rightarrow> adversarial_off | Some m \<Rightarrow> m) in
      if am_enabled base then base\<lparr>am_scan_id := sv_scan_id e\<rparr> else base)"

section \<open>The threats\<close>

definition safety_dict :: "threat \<Rightarrow> (str \<times> json) list" where
  "safety_dict t =
     [(ascii ''id'', JStr (th_id t)), (ascii ''mode'', JStr (th_mode t)),
      (ascii ''probes'', JList (map (\<lambda>p. JDict
         [(ascii ''id'', JStr (pb_id p)), (ascii ''transport'', JStr (pb_transport p)), (ascii ''method'', JStr (pb_method p)),
          (ascii ''payload'', to_json_safe (pb_payload p))]) (th_probes t)))]"

definition adversarial_threat :: "(str \<Rightarrow> str) \<Rightarrow> threat \<Rightarrow> bool" where
  "adversarial_threat upper_of t \<longleftrightarrow> has_sub (ascii ''-ADV-'') (upper_of (th_id t))"

definition category_in :: "(str \<Rightarrow> str) \<Rightarrow> str list option \<Rightarrow> threat \<Rightarrow> bool" where
  "category_in upper_of cats t = (case cats of None \<Rightarrow> True | Some cs \<Rightarrow> upper_of (th_category t) \<in> set cs)"

definition in_scope :: "str list option \<Rightarrow> string \<Rightarrow> bool" where
  "in_scope cats c = (case cats of None \<Rightarrow> True | Some cs \<Rightarrow> ascii c \<in> set cs)"

definition skipped_categories :: "scan_request \<Rightarrow> str list" where
  "skipped_categories q = (case rq_profile q of None \<Rightarrow> [] | Some p \<Rightarrow> pf_skip_categories p)"

text \<open>Loading, filtering by category, the safety check of adversarial threats, and the profile's filter.\<close>

definition scan_loader :: "scan_env \<Rightarrow> scan_request \<Rightarrow> loader" where
  "scan_loader e q =
     \<lparr>cl_root = sv_catalog_root e, cl_allow_custom = rq_allow_custom q, cl_allow_regex = False,
      cl_allow_adversarial = am_enabled (adversarial_of e q)\<rparr>"

definition unsafe_threat :: "scan_env \<Rightarrow> scan_request \<Rightarrow> adversarial_mode \<Rightarrow> threat \<Rightarrow> unsafe_probe option" where
  "unsafe_threat e q m t =
     (if am_enabled m \<and> adversarial_threat (sv_upper e) t
      then check_no_external_endpoints (we_url (sv_wire e)) (we_parse (sv_wire e)) (safety_dict t) (rq_target q) (am_allow_stateful m)
      else None)"

definition chosen_threats :: "scan_env \<Rightarrow> scan_request \<Rightarrow> scan_error + threat list" where
  "chosen_threats e q =
     (case load_all (sv_loader e) (scan_loader e q) of
        Inl err \<Rightarrow> Inl (CatalogError err)
      | Inr all_threats \<Rightarrow>
          (let cats = normalise_categories (sv_upper e) (rq_categories q);
               threats = filter (category_in (sv_upper e) cats) all_threats
           in case first_error (map (unsafe_threat e q (adversarial_of e q)) threats) of
                Some err \<Rightarrow> Inl (UnsafeThreat err)
              | None \<Rightarrow> Inr (filter (\<lambda>t. sv_upper e (th_category t) \<notin> set (skipped_categories q)) threats)))"

section \<open>The prober\<close>

definition discovered :: "scan_env \<Rightarrow> scan_setup \<Rightarrow> discovered_tool list" where
  "discovered e su =
     (let l = sv_link e su ForDiscovery in
      discover_tools (sv_text e) (lk_net l) (lk_connects l) (lk_sse_connects l) (lk_in_time l) (su_era su) (lk_session l))"

definition confirmed_empty :: "scan_env \<Rightarrow> scan_setup \<Rightarrow> bool" where
  "confirmed_empty e su =
     (let l = sv_link e su ForConfirmation in
      discover_tools_checked (sv_text e) (lk_net l) (lk_connects l) (lk_sse_connects l) (lk_in_time l) (su_era su) (lk_session l) = Some [])"

definition first_tool_name :: "discovered_tool list \<Rightarrow> str" where
  "first_tool_name tools = (case tools of [] \<Rightarrow> ascii ''ping'' | t # _ \<Rightarrow> dt_name t)"

definition wire_config_of :: "scan_setup \<Rightarrow> wire_config" where
  "wire_config_of su =
     \<lparr>wc_auth_token = su_auth_token su, wc_auth_header = su_auth_header su, wc_extra_headers = [], wc_mcp_path = su_mcp_path su,
      wc_allow_private = su_allow_private su, wc_target_host = su_host su\<rparr>"

definition prm_results :: "scan_env \<Rightarrow> scan_request \<Rightarrow> scan_setup \<Rightarrow> probe_result list" where
  "prm_results e q su =
     scan_protected_resource_metadata (sv_text e) (sv_wire e) (sv_join e) (sv_connect_exn e) (sv_send_exn e) (wire_config_of su) (rq_target q)"

definition guarded :: "bool \<Rightarrow> probe_result list option \<Rightarrow> probe_result list option" where
  "guarded b rs = (if b then rs else Some [])"

text \<open>The passive scans, in their order; one that raises aborts the scan.\<close>

definition passive_results :: "scan_env \<Rightarrow> scan_request \<Rightarrow> scan_setup \<Rightarrow> str list option \<Rightarrow> discovered_tool list \<Rightarrow> probe_result list option" where
  "passive_results e q su cats tools =
     map_option concat (those
       [guarded (in_scope cats ''T4'') (scan_manifest_t4 (sv_unicode e) (sv_json_repr e) tools),
        guarded (in_scope cats ''T9'') (Some (scan_manifest_t9 (sv_text e) tools)),
        guarded (in_scope cats ''T5'') (Some (scan_manifest_t5 (sv_text e) (su_pii_strict su) tools)),
        guarded (in_scope cats ''T6'') (Some (scan_manifest_t6 (sv_text e) tools)),
        guarded (in_scope cats ''T1'') (Some (prm_results e q su)),
        guarded (in_scope cats ''T3'') (scan_manifest_t3_schema (sv_text e) tools),
        guarded (in_scope cats ''T11'') (Some (scan_manifest_t11 (sv_text e) tools (su_allowlist su)))])"

definition real_tool_name :: "scan_request \<Rightarrow> discovered_tool list \<Rightarrow> str" where
  "real_tool_name q tools =
     (case rq_profile q of None \<Rightarrow> first_tool_name tools | Some p \<Rightarrow> apply_tool_name p (first_tool_name tools))"

definition is_auth_category :: "scan_env \<Rightarrow> threat \<Rightarrow> bool" where
  "is_auth_category e t \<longleftrightarrow> sv_upper e (th_category t) \<in> set auth_probe_categories"

definition wants_modern :: "threat \<Rightarrow> bool" where
  "wants_modern t \<longleftrightarrow> list_ex (\<lambda>p. pb_requires_era p = Some (ascii ''modern'')) (th_probes t)"

text \<open>Probes of authentication run without credentials, in the era the operator asked for, unless the target was found
  to be modern and the threat has a modern-only probe.\<close>

definition probe_setup :: "scan_env \<Rightarrow> scan_setup \<Rightarrow> requested_era \<Rightarrow> threat \<Rightarrow> scan_setup" where
  "probe_setup e su requested t =
     (if \<not> is_auth_category e t then su
      else su\<lparr>su_auth_token := None, su_auth_header := None,
              su_era := (if su_era su = OnlyModern \<and> wants_modern t then OnlyModern else requested)\<rparr>)"

definition active_tool :: "scan_request \<Rightarrow> discovered_tool list \<Rightarrow> discovered_tool option" where
  "active_tool q tools =
     (if \<not> rq_adaptive q then None
      else case find (\<lambda>t. dt_name t = real_tool_name q tools) tools of
        Some t \<Rightarrow> Some t
      | None \<Rightarrow> (case tools of [] \<Rightarrow> None | t # _ \<Rightarrow> Some t))"

definition scan_variables :: "scan_request \<Rightarrow> str \<Rightarrow> canary option \<Rightarrow> (str \<times> str) list" where
  "scan_variables q tool c =
     [(ascii ''target_url'', rq_target q), (ascii ''session_id'', ascii ''cosai-scan''), (ascii ''tool_name'', tool)] @
     (case c of None \<Rightarrow> [] | Some x \<Rightarrow> [(ascii ''canary'', cn_value x)])"

definition threat_canary :: "scan_env \<Rightarrow> adversarial_mode \<Rightarrow> threat \<Rightarrow> canary option" where
  "threat_canary e m t =
     (if am_enabled m \<and> adversarial_threat (sv_upper e) t
      then Some (make_canary (sv_upper e) (sv_token e (th_id t)) m (th_id t)) else None)"

definition annotate :: "scan_env \<Rightarrow> canary option \<Rightarrow> probe_result \<Rightarrow> probe_result" where
  "annotate e c r =
     (case c of
        None \<Rightarrow> r
      | Some x \<Rightarrow> if detect_canary (sv_unescape e (pr_response_body r)) x then r\<lparr>pr_canary_detected := True\<rparr> else r)"

text \<open>One threat; \<open>n\<close> is the number of subprocesses started before.\<close>

definition threat_results :: "scan_env \<Rightarrow> scan_request \<Rightarrow> scan_setup \<Rightarrow> requested_era \<Rightarrow> discovered_tool list \<Rightarrow> nat \<Rightarrow> threat \<Rightarrow>
    probe_result list option" where
  "threat_results e q su requested tools n t =
     (if sv_upper e (th_category t) \<in> set middleware_only_categories then Some []
      else let c = threat_canary e (adversarial_of e q) t;
               vars = scan_variables q (real_tool_name q tools) c
           in map_option (map (annotate e c))
                (run_threat (sv_text e) (sv_upper e) (sv_spawn e (probe_setup e su requested t) vars (is_auth_category e t))
                   (sv_timeout_text e) n t (active_tool q tools) (th_probes t)))"

fun all_threat_results :: "scan_env \<Rightarrow> scan_request \<Rightarrow> scan_setup \<Rightarrow> requested_era \<Rightarrow> discovered_tool list \<Rightarrow> nat \<Rightarrow> threat list \<Rightarrow>
    probe_result list option" where
  "all_threat_results e q su requested tools n [] = Some []"
| "all_threat_results e q su requested tools n (t # ts) =
     (case threat_results e q su requested tools n t of
        None \<Rightarrow> None
      | Some rs \<Rightarrow> map_option ((@) rs) (all_threat_results e q su requested tools (n + 2 * length (th_probes t)) ts))"

definition prober_results :: "scan_env \<Rightarrow> scan_request \<Rightarrow> scan_setup \<Rightarrow> requested_era \<Rightarrow> threat list \<Rightarrow> discovered_tool list \<Rightarrow>
    probe_result list option" where
  "prober_results e q su requested threats tools =
     (case passive_results e q su (normalise_categories (sv_upper e) (rq_categories q)) tools of
        None \<Rightarrow> None
      | Some rs \<Rightarrow> map_option ((@) rs) (all_threat_results e q su requested tools 0 threats))"

section \<open>The stateful engine\<close>

definition built_in_scenarios :: "(str \<times> scenario) list" where
  "built_in_scenarios =
     [(ascii ''T2'', t2_privilege_escalation_chain), (ascii ''T2'', t2_confused_deputy), (ascii ''T6'', t6_tool_shadowing_mid_session),
      (ascii ''T7'', t7_session_token_binding), (ascii ''T7'', t7_session_revocation)]"

definition selected_scenarios :: "scan_env \<Rightarrow> scan_request \<Rightarrow> scenario list" where
  "selected_scenarios e q =
     map snd (filter (\<lambda>(c, _). c \<notin> set (skipped_categories q) \<and>
        (case normalise_categories (sv_upper e) (rq_categories q) of None \<Rightarrow> True | Some cs \<Rightarrow> c \<in> set cs)) built_in_scenarios)"

definition scenario_of :: "scan_env \<Rightarrow> scan_request \<Rightarrow> scan_setup \<Rightarrow> nat \<Rightarrow> scenario \<Rightarrow> scenario_result option" where
  "scenario_of e q su i sc =
     (let l = sv_link e su (ForScenario i);
          h = \<lparr>hn_text = sv_text e, hn_exn = sv_exn e, hn_era = su_era su,
               hn_overrides = (case su_overrides su of None \<Rightarrow> [] | Some d \<Rightarrow> d)\<rparr>
      in fst (run_scenario h (lk_net l) (lk_connects l) (lk_sse_connects l) sc (sv_transport_type e) (rq_target q)))"

definition all_scenarios :: "scan_env \<Rightarrow> scan_request \<Rightarrow> scan_setup \<Rightarrow> scenario_result list option" where
  "all_scenarios e q su = those (map (\<lambda>(i, sc). scenario_of e q su i sc) (List.enumerate 0 (selected_scenarios e q)))"

section \<open>The verdict\<close>

definition with_baseline :: "scan_env \<Rightarrow> scan_request \<Rightarrow> probe_result list \<Rightarrow> scan_error + probe_result list" where
  "with_baseline e q rs =
     (case rq_baseline q of
        None \<Rightarrow> Inr rs
      | Some path \<Rightarrow>
          (case sv_baseline_file e path of
             None \<Rightarrow> Inl NoBaselineFile
           | Some raw \<Rightarrow>
               (case load_baseline (we_decode (sv_wire e)) (pt_lower (sv_text e)) raw of
                  None \<Rightarrow> Inl BadBaseline
                | Some fps \<Rightarrow>
                    (case apply_baseline (sv_sha e) fps rs of None \<Rightarrow> Inl UnencodableFinding | Some rs' \<Rightarrow> Inr rs'))))"

definition severities_of :: "threat list \<Rightarrow> str \<Rightarrow> severity option" where
  "severities_of threats = map_of (rev (map (\<lambda>t. (th_id t, th_severity t)) threats))"

definition auth_required_seen :: "scan_request \<Rightarrow> probe_result list \<Rightarrow> bool" where
  "auth_required_seen q rs \<longleftrightarrow>
     rq_auth_token q \<noteq> None \<or> effective_header q \<noteq> None \<or>
     list_ex (\<lambda>r. pr_threat_id r = ascii ''T01'' \<and>
       (pr_inconclusive r = None \<or> pr_probe_id r \<in> {ascii ''T01-prm-5'', ascii ''T01-prm-6''})) rs"

definition modern_only :: "bool \<Rightarrow> threat \<Rightarrow> bool" where
  "modern_only no_tools t \<longleftrightarrow>
     th_probes t \<noteq> [] \<and> list_all (\<lambda>p. pb_requires_era p = Some (ascii ''modern'')) (th_probes t) \<and>
     \<not> (no_tools \<and> list_ex (\<lambda>p. pb_method p = ascii ''tools/call'') (th_probes t))"

definition required_optional :: "scan_request \<Rightarrow> scan_setup \<Rightarrow> bool \<Rightarrow> threat list \<Rightarrow> probe_result list \<Rightarrow> str list" where
  "required_optional q su no_tools threats rs =
     (if su_era su = OnlyLegacy then [] else map th_id (filter (modern_only no_tools) threats)) @
     (if auth_required_seen q rs then [ascii ''T01-008''] else [])"

definition scan_scope :: "scan_env \<Rightarrow> scan_request \<Rightarrow> (str, evidence_item) dict \<Rightarrow> (str \<times> json) list" where
  "scan_scope e q evidence =
     [(ascii ''scan_id'', JStr (sv_scan_id e)), (ascii ''target_url'', JStr (rq_target q)),
      (ascii ''engine'', JStr (pt_lower (sv_text e) (rq_engine q))), (ascii ''categories'', JNull),
      (ascii ''profile'', (case rq_profile q of None \<Rightarrow> JNull | Some p \<Rightarrow> JStr (pf_name p))),
      (ascii ''protocol_era'', JStr (rq_protocol_era q)), (ascii ''auth_token_supplied'', JBool (rq_auth_token q \<noteq> None)),
      (ascii ''read_token_supplied'', JBool (rq_read_token q \<noteq> None)),
      (ascii ''foreign_audience_token_supplied'', JBool (rq_foreign_token q \<noteq> None)), (ascii ''adaptive'', JBool (rq_adaptive q)),
      (ascii ''stateful_method_overrides'', JList (map JStr (sort (map fst (case rq_overrides q of None \<Rightarrow> [] | Some d \<Rightarrow> d))))),
      (ascii ''tool_allowlist_supplied'', JBool (rq_allowlist q \<noteq> None)), (ascii ''baseline_applied'', JBool (rq_baseline q \<noteq> None)),
      (ascii ''evidence_controls'', JList (map JStr (sort (map fst evidence))))]"

definition assurance_verdict :: "scan_env \<Rightarrow> scan_request \<Rightarrow> scan_setup \<Rightarrow> (str, evidence_item) dict \<Rightarrow> threat list \<Rightarrow>
    discovered_tool list \<Rightarrow> probe_result list \<Rightarrow> scenario_result list \<Rightarrow> assurance_report option" where
  "assurance_verdict e q su evidence threats tools rs ss =
     (case rq_level q of
        None \<Rightarrow> None
      | Some level \<Rightarrow>
          evaluate_assurance level rs ss evidence (scan_scope e q evidence)
            (required_optional q su (tools = [] \<and> confirmed_empty e su) threats rs))"

definition level_reached :: "assurance_report option \<Rightarrow> bool" where
  "level_reached a = (case a of None \<Rightarrow> True | Some r \<Rightarrow> as_result r \<in> {LevelMet, MetWithAttestation})"

text \<open>A claimed level that is not reached turns a clean exit into a failure, and leaves every other exit alone.\<close>

definition gated_exit :: "assurance_report option \<Rightarrow> nat \<Rightarrow> nat" where
  "gated_exit a code = (if \<not> level_reached a \<and> code = 0 then 1 else code)"

section \<open>The scan\<close>

definition pinned_setup :: "scan_env \<Rightarrow> scan_setup \<Rightarrow> scan_setup" where
  "pinned_setup e su =
     (if su_era su \<noteq> AutoEra then su
      else let l = sv_link e su ForDetection; l2 = sv_link e su ForLegacyCheck in
        case detect_protocol_era (lk_net l) (lk_connects l) (lk_net l2) (lk_connects l2) (lk_sse_connects l) (lk_in_time l) (lk_session l) of
          None \<Rightarrow> su
        | Some ModernEra \<Rightarrow> su\<lparr>su_era := OnlyModern\<rparr>
        | Some LegacyEra \<Rightarrow> su\<lparr>su_era := OnlyLegacy\<rparr>)"

definition engine_in :: "scan_env \<Rightarrow> scan_request \<Rightarrow> string \<Rightarrow> bool" where
  "engine_in e q x \<longleftrightarrow> pt_lower (sv_text e) (rq_engine q) \<in> {ascii x, ascii ''all''}"

text \<open>The raw results of both engines, and the tools that were discovered.\<close>

definition run_engines :: "scan_env \<Rightarrow> scan_request \<Rightarrow> scan_setup \<Rightarrow> requested_era \<Rightarrow> threat list \<Rightarrow>
    (probe_result list \<times> scenario_result list \<times> discovered_tool list) option" where
  "run_engines e q su requested threats =
     (let tools = (if engine_in e q ''prober'' then discovered e su else []) in
      case (if engine_in e q ''prober'' then prober_results e q su requested threats tools else Some []) of
        None \<Rightarrow> None
      | Some rs \<Rightarrow>
          map_option (\<lambda>ss. (rs, ss, tools)) (if engine_in e q ''stateful'' then all_scenarios e q su else Some []))"

definition conclude :: "scan_env \<Rightarrow> scan_request \<Rightarrow> scan_setup \<Rightarrow> (str, evidence_item) dict \<Rightarrow> threat list \<Rightarrow> discovered_tool list \<Rightarrow>
    probe_result list \<Rightarrow> scenario_result list \<Rightarrow> scan_result" where
  "conclude e q su evidence threats tools rs ss =
     (let code = determine_exit_code (pt_lower (sv_text e)) rs ss (rq_fail_on q) (Some (severities_of threats));
          a = assurance_verdict e q su evidence threats tools rs ss
      in \<lparr>so_target_url = rq_target q, so_threats = threats, so_probes = rs, so_scenarios = ss, so_timestamp = sv_timestamp e,
          so_catalog_hash = catalog_hash (sv_sha e) threats, so_exit_code = gated_exit a code, so_assurance = a\<rparr>)"

definition check_hash :: "scan_env \<Rightarrow> scan_request \<Rightarrow> threat list \<Rightarrow> scan_error option" where
  "check_hash e q threats =
     (case rq_expected_hash q of None \<Rightarrow> None | Some h \<Rightarrow> if catalog_hash (sv_sha e) threats \<noteq> h then Some CatalogDrift else None)"

definition checked :: "scan_error option \<Rightarrow> scan_error + 'a \<Rightarrow> scan_error + 'a" where
  "checked err rest = (case err of Some x \<Rightarrow> Inl x | None \<Rightarrow> rest)"

definition or_error :: "scan_error \<Rightarrow> 'a option \<Rightarrow> scan_error + 'a" where
  "or_error err x = (case x of None \<Rightarrow> Inl err | Some v \<Rightarrow> Inr v)"

definition run_scan :: "scan_env \<Rightarrow> scan_request \<Rightarrow> scan_error + scan_result" where
  "run_scan e q =
     bindr (or_error BadTargetUrl (parse_target (we_url (sv_wire e)) (rq_target q))) (\<lambda>(host, port, _).
     checked (check_foreign e q) (
     bindr (validate_assurance e q) (\<lambda>evidence.
     bindr (or_error BadProtocolEra (era_of_text (rq_protocol_era q))) (\<lambda>era.
     checked (map_option OptIn (validate_mode (we_url (sv_wire e)) (adversarial_of e q) (rq_target q))) (
     bindr (chosen_threats e q) (\<lambda>threats.
     checked (check_hash e q threats) (
     let su = pinned_setup e (setup_of q host port era) in
     bindr (or_error EngineFailure (run_engines e q su era threats)) (\<lambda>(rs, ss, tools).
     bindr (with_baseline e q rs) (\<lambda>rs'.
       Inr (conclude e q su evidence threats tools rs' ss))))))))))"

text \<open>\<open>Scanner.run\<close>: the categories of the call, if it gives any, replace those of the scanner. \<open>Inl True\<close> is a
  \<open>ValueError\<close>, \<open>Inl False\<close> a \<open>ScannerInternalError\<close>.\<close>

definition scanner_run :: "scan_env \<Rightarrow> scan_request \<Rightarrow> str list option \<Rightarrow> bool + scan_result" where
  "scanner_run e q categories =
     map_sum value_error id (run_scan e (case categories of None \<Rightarrow> q | Some c \<Rightarrow> q\<lparr>rq_categories := Some c\<rparr>))"

section \<open>Raw results are not suppressed\<close>

abbreviation unsuppressed :: "probe_result list \<Rightarrow> bool" where
  "unsuppressed rs \<equiv> list_all (\<lambda>r. \<not> pr_suppressed r) rs"

lemma made_unsuppressed [simp]:
  "\<not> pr_suppressed (raw_result i t p b)" "\<not> pr_suppressed (make_probe_result pt i tid p as r err d inc sy)"
  "\<not> pr_suppressed (made_result pt i t p b)" "\<not> pr_suppressed (failed_probe pt pb th msg d)" "\<not> pr_suppressed (prm_result k p b inc)"
  by (simp_all add: raw_result_def make_probe_result_def made_result_def failed_probe_def prm_result_def)

lemma t3_unsuppressed: "t3_findings pt i ts = Some rs \<Longrightarrow> unsuppressed rs"
  by (induction pt i ts arbitrary: rs rule: t3_findings.induct) (auto split: option.splits)

lemma manifest_scans_unsuppressed:
  "scan_manifest_t4 u repr ts = Some rs \<Longrightarrow> unsuppressed rs"
  "unsuppressed (scan_manifest_t9 pt ts)" "unsuppressed (scan_manifest_t5 pt b ts)" "unsuppressed (scan_manifest_t6 pt ts)"
  "unsuppressed (scan_manifest_t11 pt ts al)" "scan_manifest_t3_schema pt ts = Some rs \<Longrightarrow> unsuppressed rs"
proof -
  show "scan_manifest_t4 u repr ts = Some rs \<Longrightarrow> unsuppressed rs" by (auto simp: scan_manifest_t4_def list_all_iff)
  show "unsuppressed (scan_manifest_t9 pt ts)" by (auto simp: scan_manifest_t9_def list_all_iff)
  show "unsuppressed (scan_manifest_t5 pt b ts)" by (auto simp: scan_manifest_t5_def list_all_iff)
  show "unsuppressed (scan_manifest_t6 pt ts)" by (auto simp: scan_manifest_t6_def list_all_iff Let_def split: list.splits)
  show "unsuppressed (scan_manifest_t11 pt ts al)" by (auto simp: scan_manifest_t11_def list_all_iff split: option.splits list.splits)
  show "scan_manifest_t3_schema pt ts = Some rs \<Longrightarrow> unsuppressed rs"
    by (auto simp: scan_manifest_t3_schema_def list_all_iff dest: t3_unsuppressed split: if_splits)
qed

lemma prm_unsuppressed: "unsuppressed (prm_results e q su)"
proof -
  have j: "\<not> pr_suppressed (judge_document pt e' lb rm u x doc)" for pt e' lb rm u x doc
    by (auto simp: judge_document_def Let_def split: option.splits)
  have c: "try_candidates pt e' c lb rm us und t = Inr r \<Longrightarrow> \<not> pr_suppressed r" for pt e' c lb rm us und t r
    by (induction pt e' c lb rm us und t arbitrary: r rule: try_candidates.induct) (auto simp: j split: prod.splits sum.splits if_splits)
  have s: "scan_endpoint pt e' j c t = Inr r \<Longrightarrow> \<not> pr_suppressed r" for pt e' j c t r
    by (auto simp: scan_endpoint_def Let_def simp del: ascii_simps dest: c split: option.splits prod.splits sum.splits if_splits)
  show ?thesis
    by (auto simp: prm_results_def scan_protected_resource_metadata_def could_not_run_def Let_def dest: s split: option.splits sum.splits)
qed

lemma passive_unsuppressed:
  assumes "passive_results e q su cats tools = Some rs"
  shows "unsuppressed rs"
proof -
  have g: "guarded b x = Some ys \<Longrightarrow> (\<And>zs. x = Some zs \<Longrightarrow> unsuppressed zs) \<Longrightarrow> unsuppressed ys" for b x ys
    by (auto simp: guarded_def split: if_splits)
  obtain xss where x: "those
       [guarded (in_scope cats ''T4'') (scan_manifest_t4 (sv_unicode e) (sv_json_repr e) tools),
        guarded (in_scope cats ''T9'') (Some (scan_manifest_t9 (sv_text e) tools)),
        guarded (in_scope cats ''T5'') (Some (scan_manifest_t5 (sv_text e) (su_pii_strict su) tools)),
        guarded (in_scope cats ''T6'') (Some (scan_manifest_t6 (sv_text e) tools)),
        guarded (in_scope cats ''T1'') (Some (prm_results e q su)),
        guarded (in_scope cats ''T3'') (scan_manifest_t3_schema (sv_text e) tools),
        guarded (in_scope cats ''T11'') (Some (scan_manifest_t11 (sv_text e) tools (su_allowlist su)))] = Some xss"
    and rs: "rs = concat xss" using assms by (auto simp: passive_results_def simp del: those.simps)
  from x have m: "map Some xss =
       [guarded (in_scope cats ''T4'') (scan_manifest_t4 (sv_unicode e) (sv_json_repr e) tools),
        guarded (in_scope cats ''T9'') (Some (scan_manifest_t9 (sv_text e) tools)),
        guarded (in_scope cats ''T5'') (Some (scan_manifest_t5 (sv_text e) (su_pii_strict su) tools)),
        guarded (in_scope cats ''T6'') (Some (scan_manifest_t6 (sv_text e) tools)),
        guarded (in_scope cats ''T1'') (Some (prm_results e q su)),
        guarded (in_scope cats ''T3'') (scan_manifest_t3_schema (sv_text e) tools),
        guarded (in_scope cats ''T11'') (Some (scan_manifest_t11 (sv_text e) tools (su_allowlist su)))]"
    unfolding those_Some_iff by simp
  have "unsuppressed ys" if "ys \<in> set xss" for ys
  proof -
    have "Some ys \<in> set (map Some xss)" using that by simp
    then show ?thesis unfolding m
      by (auto dest!: g [OF sym] intro: manifest_scans_unsuppressed prm_unsuppressed)
  qed
  then show ?thesis unfolding rs by (auto simp: list_all_iff)
qed

lemma run_process_unsuppressed: "run_process pt sp tt n p t = Some r \<Longrightarrow> \<not> pr_suppressed r"
  by (auto simp: run_process_def Let_def result_from_dict_def simp del: ascii_simps
      split: queue_item.splits json.splits sum.splits option.splits bool.splits)

lemma run_probe_unsuppressed: "run_probe pt up sp tt n p t tool = Some r \<Longrightarrow> \<not> pr_suppressed r"
  by (auto simp: run_probe_def dest: run_process_unsuppressed split: option.splits if_splits)

lemma run_threat_unsuppressed: "run_threat pt up sp tt n t tool ps = Some rs \<Longrightarrow> unsuppressed rs"
  by (induction ps arbitrary: n rs) (auto dest: run_probe_unsuppressed split: option.splits)

lemma annotate_suppressed [simp]: "pr_suppressed (annotate e c r) = pr_suppressed r"
  by (simp add: annotate_def split: option.split)

lemma all_threats_unsuppressed: "all_threat_results e q su era tools n ts = Some rs \<Longrightarrow> unsuppressed rs"
proof (induction ts arbitrary: n rs)
  case (Cons t ts)
  then obtain xs ys where x: "threat_results e q su era tools n t = Some xs"
    and y: "all_threat_results e q su era tools (n + 2 * length (th_probes t)) ts = Some ys" "rs = xs @ ys"
    by (auto split: option.splits)
  have "unsuppressed xs"
    using x by (auto simp: threat_results_def Let_def list_all_iff dest: run_threat_unsuppressed split: if_splits)
      (metis list_all_iff run_threat_unsuppressed)
  then show ?case using Cons.IH [OF y(1)] y(2) by simp
qed simp

lemma engines_unsuppressed:
  assumes "run_engines e q su era threats = Some (rs, ss, tools)"
  shows "unsuppressed rs"
  using assms
  by (auto simp: run_engines_def prober_results_def Let_def dest: passive_unsuppressed all_threats_unsuppressed split: if_splits option.splits)

section \<open>What a clean exit means\<close>

text \<open>The fingerprint of the finding is in the operator's baseline file.\<close>

definition accepted :: "scan_env \<Rightarrow> scan_request \<Rightarrow> probe_result \<Rightarrow> bool" where
  "accepted e q r =
     (case Option.bind (Option.bind (rq_baseline q) (sv_baseline_file e)) (load_baseline (we_decode (sv_wire e)) (pt_lower (sv_text e))) of
        None \<Rightarrow> False
      | Some fps \<Rightarrow> finding_fingerprint (sv_sha e) (pr_threat_id r) (pr_probe_id r) \<in> Some ` set fps)"

lemma with_baseline_flags:
  assumes "with_baseline e q rs = Inr rs'" "unsuppressed rs"
  shows "list_all (\<lambda>r. pr_suppressed r \<longleftrightarrow> is_finding r \<and> accepted e q r) rs'"
proof (cases "rq_baseline q")
  case None
  then show ?thesis using assms by (auto simp: with_baseline_def accepted_def list_all_iff)
next
  case (Some path)
  from assms(1) Some obtain raw where raw: "sv_baseline_file e path = Some raw"
    by (cases "sv_baseline_file e path") (simp_all add: with_baseline_def)
  from assms(1) Some raw obtain fps where fps: "load_baseline (we_decode (sv_wire e)) (pt_lower (sv_text e)) raw = Some fps"
    by (cases "load_baseline (we_decode (sv_wire e)) (pt_lower (sv_text e)) raw") (simp_all add: with_baseline_def)
  have ap: "apply_baseline (sv_sha e) fps rs = Some rs'"
    using assms(1) Some raw fps by (cases "apply_baseline (sv_sha e) fps rs") (simp_all add: with_baseline_def)
  have acc: "accepted e q r \<longleftrightarrow> finding_fingerprint (sv_sha e) (pr_threat_id r) (pr_probe_id r) \<in> Some ` set fps" for r
    using Some raw fps by (simp add: accepted_def)
  have all2: "list_all2 (\<lambda>r r'. \<not> pr_suppressed r \<longrightarrow> (pr_suppressed r' \<longleftrightarrow> is_finding r' \<and> accepted e q r')) rs rs'"
    by (rule list.rel_mono_strong [OF apply_baseline_exact [OF ap]]) (auto simp: acc is_finding_def)
  show ?thesis unfolding list_all_length
  proof (intro allI impI)
    fix n assume "n < length rs'"
    then have "n < length rs" using list_all2_lengthD [OF all2] by simp
    then show "pr_suppressed (rs' ! n) = (is_finding (rs' ! n) \<and> accepted e q (rs' ! n))"
      using list_all2_nthD [OF all2, of n] assms(2) by (auto simp: list_all_length)
  qed
qed

lemma run_scan_Inr:
  assumes "run_scan e q = Inr res"
  obtains su era evidence threats rs ss tools rs' where
    "check_hash e q threats = None" "chosen_threats e q = Inr threats" "validate_assurance e q = Inr evidence"
    "run_engines e q su era threats = Some (rs, ss, tools)" "with_baseline e q rs = Inr rs'"
    "res = conclude e q su evidence threats tools rs' ss"
proof -
  have c: "checked x y = Inr z \<longleftrightarrow> x = None \<and> y = Inr z" for x and y :: "scan_error + 'b" and z
    by (simp add: checked_def split: option.split)
  have o': "or_error x y = Inr z \<longleftrightarrow> y = Some z" for x and y :: "'b option" and z
    by (simp add: or_error_def split: option.split)
  show ?thesis
    using assms unfolding run_scan_def Let_def
    by (auto simp: bindr_Inr c o' simp del: ascii_simps split: prod.splits intro: that)
qed

text \<open>A scan that is clean: every scenario passed or was inconclusive, no probe crashed, every finding at or above the
  threshold is accepted by the baseline, something was verified unless nothing ran, and a claimed level is reached.\<close>

definition scenario_settled :: "scenario_result \<Rightarrow> bool" where
  "scenario_settled s \<longleftrightarrow> sr_status s = ScenarioComplete \<and> sr_passed s \<or> sr_status s = ScenarioInconclusive"

definition finding_settled :: "scan_env \<Rightarrow> scan_request \<Rightarrow> threat list \<Rightarrow> probe_result \<Rightarrow> bool" where
  "finding_settled e q threats r \<longleftrightarrow>
     (if is_finding r \<and> above_threshold (threshold_of (pt_lower (sv_text e)) (rq_fail_on q)) (Some (severities_of threats)) r
      then accepted e q r else True)"

definition scan_clean :: "scan_env \<Rightarrow> scan_request \<Rightarrow> scan_result \<Rightarrow> bool" where
  "scan_clean e q res \<longleftrightarrow>
     list_all scenario_settled (so_scenarios res) \<and> list_all (\<lambda>r. \<not> is_crash r) (so_probes res) \<and>
     list_all (finding_settled e q (so_threats res)) (so_probes res) \<and>
     \<not> nothing_verified (above_threshold (threshold_of (pt_lower (sv_text e)) (rq_fail_on q)) (Some (severities_of (so_threats res)))) (so_probes res) \<and>
     level_reached (so_assurance res)"

text \<open>C40. Whatever the server, the catalog and the operator's files are, a scan that ends exits 0 exactly if it is clean:
  every scenario passed or was inconclusive, no probe crashed, every finding at or above the threshold is in the
  operator's baseline, not every counted probe timed out, and a claimed assurance level was reached. The catalog then
  has the hash the operator pinned.\<close>

theorem exit_zero_is_clean:
  "case run_scan e q of
     Inl err \<Rightarrow> True
   | Inr res \<Rightarrow> (so_exit_code res = 0 \<longleftrightarrow> scan_clean e q res) \<and> so_exit_code res \<in> {0, 1, 2} \<and>
       rq_expected_hash q \<in> {None, Some (so_catalog_hash res)} \<and> (so_assurance res = None \<longleftrightarrow> rq_level q = None)"
proof (cases "run_scan e q")
  case (Inr res)
  then obtain su era evidence threats rs ss tools rs' where
    h: "check_hash e q threats = None" and v: "validate_assurance e q = Inr evidence" and
    en: "run_engines e q su era threats = Some (rs, ss, tools)" and b: "with_baseline e q rs = Inr rs'" and
    res: "res = conclude e q su evidence threats tools rs' ss" by (rule run_scan_Inr)
  let ?th = "threshold_of (pt_lower (sv_text e)) (rq_fail_on q)" and ?sev = "Some (severities_of threats)"
  let ?code = "determine_exit_code (pt_lower (sv_text e)) rs' ss (rq_fail_on q) ?sev"
  have fields: "so_threats res = threats" "so_probes res = rs'" "so_scenarios res = ss"
    "so_exit_code res = gated_exit (so_assurance res) ?code" "so_catalog_hash res = catalog_hash (sv_sha e) threats"
    "so_assurance res = assurance_verdict e q su evidence threats tools rs' ss"
    unfolding res by (simp_all add: conclude_def Let_def)
  have flags: "\<forall>r \<in> set rs'. pr_suppressed r \<longleftrightarrow> is_finding r \<and> accepted e q r"
    using with_baseline_flags [OF b engines_unsuppressed [OF en]] by (simp add: list_all_iff)
  have f: "list_all (\<lambda>r. \<not> gating (above_threshold ?th ?sev) r) rs' \<longleftrightarrow> list_all (finding_settled e q threats) rs'"
    unfolding list_all_iff gating_def finding_settled_def using flags by auto
  have "so_exit_code res = 0 \<longleftrightarrow> ?code = 0 \<and> level_reached (so_assurance res)"
    unfolding fields(4) gated_exit_def by auto
  also have "\<dots> \<longleftrightarrow> scan_clean e q res"
    unfolding exit_code_zero_iff scan_clean_def fields(1-3) f scenario_settled_def by auto
  finally have zero: "so_exit_code res = 0 \<longleftrightarrow> scan_clean e q res" .
  have range: "so_exit_code res \<in> {0, 1, 2}"
    using exit_code_range [of "pt_lower (sv_text e)" rs' ss "rq_fail_on q" ?sev] unfolding fields(4) gated_exit_def by auto
  have hash: "rq_expected_hash q \<in> {None, Some (so_catalog_hash res)}"
    using h unfolding fields(5) check_hash_def by (auto split: option.splits if_splits)
  have "so_assurance res = None \<longleftrightarrow> rq_level q = None"
    using v unfolding fields(6) assurance_verdict_def validate_assurance_def evaluate_assurance_def Let_def
    by (auto simp del: ascii_simps split: option.splits if_splits)
  then show ?thesis using Inr zero range hash by simp
qed simp

end
