(* ===== verification/Scorecard.thy ===== *)
theory Scorecard
  imports Scan_Outcome Incident
begin

text \<open>
  The conformance scorecard (\<open>scorecard/models.py\<close>, \<open>scorecard/builder.py\<close>, \<open>scorecard/compliance.py\<close>). The version
  of the package and the signing of a scorecard are arguments.
\<close>

datatype grade = GradePass | GradeWarn | GradeFail | NotTested

datatype conformance = FullConformance | PartialConformance | NonConformant | InsufficientCoverage

definition grade_name :: "grade \<Rightarrow> str" where
  "grade_name g = ascii (case g of GradePass \<Rightarrow> ''pass'' | GradeWarn \<Rightarrow> ''warn'' | GradeFail \<Rightarrow> ''fail'' | NotTested \<Rightarrow> ''not_tested'')"

definition all_grades :: "grade list" where "all_grades = [GradePass, GradeWarn, GradeFail, NotTested]"

definition conformance_name :: "conformance \<Rightarrow> str" where
  "conformance_name c = ascii (case c of FullConformance \<Rightarrow> ''full_conformance'' | PartialConformance \<Rightarrow> ''partial_conformance''
     | NonConformant \<Rightarrow> ''non_conformant'' | InsufficientCoverage \<Rightarrow> ''insufficient_coverage'')"

definition all_conformances :: "conformance list" where
  "all_conformances = [FullConformance, PartialConformance, NonConformant, InsufficientCoverage]"

record compliance_mapping =
  cm_owasp :: str
  cm_nist :: "str list"

record category_result =
  ca_category :: str
  ca_grade :: grade
  ca_probes :: int
  ca_findings :: int
  ca_critical :: int
  ca_high :: int
  ca_engine :: str
  ca_inconclusive :: int
  ca_mapping :: "compliance_mapping option"

record scorecard =
  sk_scan_id :: str
  sk_target_url :: str
  sk_timestamp :: str
  sk_catalog_hash :: str
  sk_version :: str
  sk_categories :: "category_result list"
  sk_conformance :: conformance
  sk_public_key :: str
  sk_signature :: str
  sk_assurance :: "assurance_report option"

section \<open>Dictionaries\<close>

definition mapping_to_dict :: "compliance_mapping \<Rightarrow> json" where
  "mapping_to_dict m = JDict [(ascii ''owasp_mcp_top10'', JStr (cm_owasp m)), (ascii ''nist_ai_rmf'', JList (map JStr (cm_nist m)))]"

definition texts_of :: "py_text \<Rightarrow> json list \<Rightarrow> str list" where
  "texts_of pt vs = map (\<lambda>v. to_str pt (of_json v)) vs"

definition mapping_from_dict :: "py_text \<Rightarrow> json \<Rightarrow> compliance_mapping option" where
  "mapping_from_dict pt v =
     (case v of
        JDict d \<Rightarrow>
          map_option (\<lambda>xs. \<lparr>cm_owasp = str_or pt d (ascii ''owasp_mcp_top10''), cm_nist = texts_of pt xs\<rparr>)
            (iterate (get_or d (ascii ''nist_ai_rmf'') (JList [])))
      | _ \<Rightarrow> None)"

definition category_to_dict :: "category_result \<Rightarrow> json" where
  "category_to_dict c =
     JDict [(ascii ''category'', JStr (ca_category c)), (ascii ''grade'', JStr (grade_name (ca_grade c))),
            (ascii ''probe_count'', JInt (ca_probes c)), (ascii ''finding_count'', JInt (ca_findings c)),
            (ascii ''critical_count'', JInt (ca_critical c)), (ascii ''high_count'', JInt (ca_high c)),
            (ascii ''coverage_engine'', JStr (ca_engine c)), (ascii ''inconclusive_count'', JInt (ca_inconclusive c)),
            (ascii ''compliance_mapping'', case ca_mapping c of None \<Rightarrow> JNull | Some m \<Rightarrow> mapping_to_dict m)]"

text \<open>\<open>None\<close> is the exception of a missing key, a value outside an enumeration, or a value that cannot be coerced.\<close>

definition category_from_dict :: "py_text \<Rightarrow> (json \<Rightarrow> int option) \<Rightarrow> json \<Rightarrow> category_result option" where
  "category_from_dict pt to_int v =
     (case v of
        JDict d \<Rightarrow>
          (let number = (\<lambda>k. to_int (get_or d (ascii k) (JInt 0)));
               raw = get d (ascii ''compliance_mapping'');
               engine = get_or d (ascii ''coverage_engine'') (JStr (ascii ''unknown''))
           in case (map_of d (ascii ''category''), enum_at grade_name all_grades (get d (ascii ''grade'')),
                    Option.bind (map_of d (ascii ''probe_count'')) to_int, Option.bind (map_of d (ascii ''finding_count'')) to_int,
                    (if truthy raw then map_option Some (mapping_from_dict pt raw) else Some None),
                    number ''critical_count'', number ''high_count'', number ''inconclusive_count'') of
                (Some c, Some g, Some p, Some f, Some m, Some crit, Some high, Some inc) \<Rightarrow>
                  Some \<lparr>ca_category = to_str pt (of_json c), ca_grade = g, ca_probes = p, ca_findings = f, ca_critical = crit, ca_high = high,
                        ca_engine = to_str pt (of_json engine), ca_inconclusive = inc, ca_mapping = m\<rparr>
              | _ \<Rightarrow> None)
      | _ \<Rightarrow> None)"

definition is_signed :: "scorecard \<Rightarrow> bool" where
  "is_signed s \<longleftrightarrow> sk_signature s \<noteq> [] \<and> sk_public_key s \<noteq> []"

definition scorecard_to_dict :: "scorecard \<Rightarrow> (str \<times> json) list" where
  "scorecard_to_dict s =
     [(ascii ''scan_id'', JStr (sk_scan_id s)), (ascii ''target_url'', JStr (sk_target_url s)),
      (ascii ''scan_timestamp'', JStr (sk_timestamp s)), (ascii ''catalog_hash'', JStr (sk_catalog_hash s)),
      (ascii ''tool_version'', JStr (sk_version s)), (ascii ''categories'', JList (map category_to_dict (sk_categories s))),
      (ascii ''conformance_level'', JStr (conformance_name (sk_conformance s))), (ascii ''public_key'', JStr (sk_public_key s)),
      (ascii ''signature'', JStr (sk_signature s))] @
     (case sk_assurance s of None \<Rightarrow> [] | Some r \<Rightarrow> [(ascii ''assurance'', JDict (report_to_dict r))])"

definition scorecard_from_dict :: "py_text \<Rightarrow> (json \<Rightarrow> int option) \<Rightarrow> (str \<times> json) list \<Rightarrow> scorecard option" where
  "scorecard_from_dict pt to_int d =
     (case (map_of d (ascii ''scan_id''), map_of d (ascii ''target_url''), map_of d (ascii ''scan_timestamp''), map_of d (ascii ''catalog_hash'')) of
        (Some i, Some u, Some t, Some h) \<Rightarrow>
          (case (Option.bind (iterate (get_or d (ascii ''categories'') (JList []))) (\<lambda>cs. those (map (category_from_dict pt to_int) cs)),
                 enum_at conformance_name all_conformances (get d (ascii ''conformance_level'')),
                 (case get d (ascii ''assurance'') of
                    JDict a \<Rightarrow> if a = [] then Some None else map_option Some (report_from_dict pt a)
                  | v \<Rightarrow> if truthy v then None else Some None)) of
             (Some cs, Some level, Some a) \<Rightarrow>
               Some \<lparr>sk_scan_id = to_str pt (of_json i), sk_target_url = to_str pt (of_json u), sk_timestamp = to_str pt (of_json t),
                     sk_catalog_hash = to_str pt (of_json h), sk_version = str_or pt d (ascii ''tool_version''), sk_categories = cs,
                     sk_conformance = level, sk_public_key = str_or pt d (ascii ''public_key''),
                     sk_signature = str_or pt d (ascii ''signature''), sk_assurance = a\<rparr>
           | _ \<Rightarrow> None)
      | _ \<Rightarrow> None)"

section \<open>Tables\<close>

definition engine_coverage :: "(str \<times> str) list" where
  "engine_coverage =
     [(ascii ''T1'', ascii ''black_box_prober''), (ascii ''T2'', ascii ''stateful_harness''), (ascii ''T3'', ascii ''black_box_prober''),
      (ascii ''T4'', ascii ''middleware_instrumentation''), (ascii ''T5'', ascii ''middleware_instrumentation''),
      (ascii ''T6'', ascii ''stateful_harness''), (ascii ''T7'', ascii ''stateful_harness''), (ascii ''T8'', ascii ''black_box_prober''),
      (ascii ''T9'', ascii ''middleware_instrumentation''), (ascii ''T10'', ascii ''black_box_prober''),
      (ascii ''T11'', ascii ''black_box_prober''), (ascii ''T12'', ascii ''middleware_instrumentation'')]"

definition mapping_of :: "string \<Rightarrow> string list \<Rightarrow> compliance_mapping" where
  "mapping_of owasp nist = \<lparr>cm_owasp = ascii owasp, cm_nist = map ascii nist\<rparr>"

definition mcp01 :: string where "mcp01 = ''MCP01:2025 Token Mismanagement & Secret Exposure''"
definition mcp02 :: string where "mcp02 = ''MCP02:2025 Privilege Escalation via Scope Creep''"
definition mcp03 :: string where "mcp03 = ''MCP03:2025 Tool Poisoning''"
definition mcp04 :: string where "mcp04 = ''MCP04:2025 Software Supply Chain Attacks & Dependency Tampering''"
definition mcp05 :: string where "mcp05 = ''MCP05:2025 Command Injection & Execution''"
definition mcp06 :: string where "mcp06 = ''MCP06:2025 Prompt Injection via Contextual Payloads''"
definition mcp07 :: string where "mcp07 = ''MCP07:2025 Insufficient Authentication & Authorization''"
definition mcp08 :: string where "mcp08 = ''MCP08:2025 Lack of Audit and Telemetry''"
definition mcp09 :: string where "mcp09 = ''MCP09:2025 Shadow MCP Servers''"
definition mcp10 :: string where "mcp10 = ''MCP10:2025 Context Injection & Over-Sharing''"

definition compliance_map :: "(str \<times> compliance_mapping) list" where
  "compliance_map =
     [(ascii ''T1'', mapping_of (mcp01 @ ''; '' @ mcp07) [''MANAGE 1.1 Risk Response'', ''GOVERN 6.2 Accountability'']),
      (ascii ''T2'', mapping_of (mcp02 @ ''; '' @ mcp07) [''MANAGE 1.1 Risk Response'', ''MAP 1.1 System Context'']),
      (ascii ''T3'', mapping_of (mcp03 @ ''; '' @ mcp05 @ ''; '' @ mcp06) [''GOVERN 1.2 Accountability'', ''MEASURE 2.1 Assessment'']),
      (ascii ''T4'', mapping_of (mcp03 @ ''; '' @ mcp06) [''GOVERN 1.2'', ''MAP 1.1 System Context'']),
      (ascii ''T5'', mapping_of mcp10 [''MAP 1.1'', ''MEASURE 2.6 Data Quality'']),
      (ascii ''T6'', mapping_of (mcp03 @ ''; '' @ mcp04) [''MAP 4.1 Third-party Risks'', ''MANAGE 2.2'']),
      (ascii ''T7'', mapping_of mcp01 [''MAP 1.1 System Context'', ''MANAGE 1.1'']),
      (ascii ''T8'', mapping_of mcp09 [''MEASURE 2.1 Security Assessment'']),
      (ascii ''T9'', mapping_of mcp02 [''GOVERN 1.2'', ''MAP 1.1'']),
      (ascii ''T10'', \<lparr>cm_owasp = ascii ''Not mapped in OWASP MCP Top 10 (CoSAI MCP Security v2.0 '' @ [167] @ ascii ''3.3.3)'',
                       cm_nist = map ascii [''MEASURE 2.1'', ''MANAGE 2.4'']\<rparr>),
      (ascii ''T11'', mapping_of mcp04 [''MAP 4.1 Third-party Risks'']),
      (ascii ''T12'', mapping_of mcp08 [''MEASURE 1.1 Performance Monitoring''])]"

section \<open>Building a scorecard\<close>

definition max_not_tested :: nat where "max_not_tested = 4"

text \<open>\<open>^T0*([0-9]+)\<close>: the zeros are given back while no other digit follows.\<close>

definition category_from_threat_id :: "str \<Rightarrow> str" where
  "category_from_threat_id s =
     (case s of
        t # r \<Rightarrow>
          (let ds = takeWhile is_digit r; rest = dropWhile (\<lambda>c. c = 48) ds in
           if t \<noteq> 84 \<or> ds = [] then ascii ''T?'' else 84 # (if rest = [] then [48] else rest))
      | [] \<Rightarrow> ascii ''T?'')"

definition grade_category :: "nat \<Rightarrow> nat \<Rightarrow> nat \<Rightarrow> nat \<Rightarrow> nat \<Rightarrow> grade" where
  "grade_category probes findings criticals highs passes =
     (if probes = 0 then NotTested
      else if passes = 0 \<and> findings = 0 then NotTested
      else if findings = 0 then GradePass
      else if criticals > 0 \<or> highs > 0 then GradeFail
      else GradeWarn)"

definition determine_conformance :: "category_result list \<Rightarrow> conformance" where
  "determine_conformance cs =
     (let not_tested = length (filter (\<lambda>c. ca_grade c = NotTested) cs);
          fails = filter (\<lambda>c. ca_grade c = GradeFail) cs;
          criticals = sum_list (map ca_critical fails)
      in if not_tested > max_not_tested then InsufficientCoverage
         else if fails = [] then FullConformance
         else if criticals > 0 \<or> length fails > 3 then NonConformant
         else PartialConformance)"

record category_stats =
  cg_probes :: nat
  cg_findings :: nat
  cg_critical :: nat
  cg_high :: nat
  cg_pass :: nat
  cg_inconclusive :: nat

definition no_stats :: category_stats where
  "no_stats = \<lparr>cg_probes = 0, cg_findings = 0, cg_critical = 0, cg_high = 0, cg_pass = 0, cg_inconclusive = 0\<rparr>"

definition probe_metas :: "threat list \<Rightarrow> (str \<times> severity \<times> str) list" where
  "probe_metas threats = concat (map (\<lambda>t. map (\<lambda>p. (pb_id p, th_severity t, th_category t)) (th_probes t)) threats)"

definition probe_meta :: "threat list \<Rightarrow> str \<Rightarrow> (severity \<times> str) option" where
  "probe_meta threats pid = map_of (rev (probe_metas threats)) pid"

definition result_category :: "threat list \<Rightarrow> probe_result \<Rightarrow> str" where
  "result_category threats r =
     (case probe_meta threats (pr_probe_id r) of
        Some (_, c) \<Rightarrow> if c = [] then category_from_threat_id (pr_threat_id r) else c
      | None \<Rightarrow> category_from_threat_id (pr_threat_id r))"

definition rank_in_scorecard :: "str \<Rightarrow> nat" where
  "rank_in_scorecard s = (case map_of severity_ranks s of None \<Rightarrow> 0 | Some n \<Rightarrow> n)"

definition result_rank :: "threat list \<Rightarrow> probe_result \<Rightarrow> nat" where
  "result_rank threats r =
     rank_in_scorecard (case probe_meta threats (pr_probe_id r) of Some (sev, _) \<Rightarrow> severity_name sev | None \<Rightarrow> ascii ''medium'')"

definition count_result :: "threat list \<Rightarrow> probe_result \<Rightarrow> category_stats \<Rightarrow> category_stats" where
  "count_result threats r st0 =
     (let st = st0\<lparr>cg_probes := cg_probes st0 + 1\<rparr> in
      if pr_inconclusive r \<noteq> None then st\<lparr>cg_inconclusive := cg_inconclusive st + 1\<rparr>
      else if pr_passed r then st\<lparr>cg_pass := cg_pass st + 1\<rparr>
      else if pr_error r = None then
        (let st1 = st\<lparr>cg_findings := cg_findings st + 1\<rparr>; rank = result_rank threats r in
         if rank \<ge> 4 then st1\<lparr>cg_critical := cg_critical st1 + 1\<rparr>
         else if rank \<ge> 3 then st1\<lparr>cg_high := cg_high st1 + 1\<rparr> else st1)
      else st)"

definition category_counts :: "threat list \<Rightarrow> probe_result list \<Rightarrow> (str, category_stats) dict" where
  "category_counts threats rs =
     fold (\<lambda>r d. let c = result_category threats r in
             AList.update c (count_result threats r (case map_of d c of None \<Rightarrow> no_stats | Some st \<Rightarrow> st)) d) rs []"

definition scored_categories :: "str list" where
  "scored_categories = map (\<lambda>i. 84 # digits i) [1..<13]"

definition category_result_of :: "(str, category_stats) dict \<Rightarrow> str \<Rightarrow> category_result" where
  "category_result_of counts c =
     (let st = (case map_of counts c of None \<Rightarrow> no_stats | Some x \<Rightarrow> x) in
      \<lparr>ca_category = c,
       ca_grade = grade_category (cg_probes st) (cg_findings st) (cg_critical st) (cg_high st) (cg_pass st),
       ca_probes = int (cg_probes st), ca_findings = int (cg_findings st), ca_critical = int (cg_critical st), ca_high = int (cg_high st),
       ca_engine = (case map_of engine_coverage c of None \<Rightarrow> ascii ''unknown'' | Some x \<Rightarrow> x),
       ca_inconclusive = int (cg_inconclusive st), ca_mapping = map_of compliance_map c\<rparr>)"

text \<open>A result of a scan has no scan id, so the scorecard's is empty. \<open>sign\<close> returns the signed card, \<open>Inl True\<close> for
  the error of a misconfigured organisation key, which is raised, and \<open>Inl False\<close> for any other, which is ignored.\<close>

definition unsigned_scorecard :: "str \<Rightarrow> scan_result \<Rightarrow> scorecard" where
  "unsigned_scorecard version s =
     (let cats = map (category_result_of (category_counts (so_threats s) (so_probes s))) scored_categories in
      \<lparr>sk_scan_id = [], sk_target_url = so_target_url s, sk_timestamp = so_timestamp s, sk_catalog_hash = so_catalog_hash s,
       sk_version = version, sk_categories = cats, sk_conformance = determine_conformance cats, sk_public_key = [], sk_signature = [],
       sk_assurance = so_assurance s\<rparr>)"

definition build_scorecard :: "(scorecard \<Rightarrow> bool + scorecard) \<Rightarrow> str \<Rightarrow> bool \<Rightarrow> scan_result \<Rightarrow> scorecard option" where
  "build_scorecard sign version signed_wanted s =
     (let card = unsigned_scorecard version s in
      if \<not> signed_wanted then Some card
      else case sign card of Inr c \<Rightarrow> Some c | Inl org_key \<Rightarrow> if org_key then None else Some card)"

section \<open>Round trips\<close>

text \<open>\<open>to_int\<close> is \<open>int()\<close>: on an integer it is the integer.\<close>

lemma grade_of_name: "enum_at grade_name all_grades (JStr (grade_name g)) = Some g"
  by (cases g) (simp_all add: enum_at_def enum_of_def all_grades_def grade_name_def)

lemma conformance_of_name: "enum_at conformance_name all_conformances (JStr (conformance_name c)) = Some c"
  by (cases c) (simp_all add: enum_at_def enum_of_def all_conformances_def conformance_name_def)

lemma texts_of_strings: "texts_of pt (map JStr xs) = xs"
  by (induction xs) (simp_all add: texts_of_def to_str_def)

lemma mapping_round_trip: "mapping_from_dict pt (mapping_to_dict m) = Some m"
  by (simp add: mapping_to_dict_def mapping_from_dict_def get_or_def str_or_def to_str_def texts_of_strings iterate_def)

lemma category_round_trip:
  assumes "\<And>n. to_int (JInt n) = Some n"
  shows "category_from_dict pt to_int (category_to_dict c) = Some c"
proof (cases "ca_mapping c")
  case None
  then show ?thesis using assms
    by (cases c) (simp add: category_to_dict_def category_from_dict_def get_or_def get_def to_str_def grade_of_name truthy_def)
next
  case (Some m)
  then have "truthy (mapping_to_dict m)" by (simp add: mapping_to_dict_def truthy_def)
  then show ?thesis using assms Some
    by (cases c) (simp add: category_to_dict_def category_from_dict_def get_or_def get_def to_str_def grade_of_name mapping_round_trip)
qed

lemma those_map_Some: "(\<And>x. x \<in> set xs \<Longrightarrow> f x = Some (g x)) \<Longrightarrow> those (map f xs) = Some (map g xs)"
  by (induction xs) auto

lemma scorecard_round_trip:
  assumes "\<And>n. to_int (JInt n) = Some n" "\<And>r. sk_assurance s = Some r \<Longrightarrow> report_from_dict pt (report_to_dict r) = Some r"
  shows "scorecard_from_dict pt to_int (scorecard_to_dict s) = Some s"
proof -
  have cats: "those (map (category_from_dict pt to_int \<circ> category_to_dict) (sk_categories s)) = Some (sk_categories s)"
    using those_map_Some [of "sk_categories s" "category_from_dict pt to_int \<circ> category_to_dict" id]
    by (simp add: category_round_trip [OF assms(1)])
  show ?thesis
  proof (cases "sk_assurance s")
    case None
    then show ?thesis using cats
      by (cases s) (simp add: scorecard_to_dict_def scorecard_from_dict_def get_or_def get_def to_str_def str_or_def iterate_def conformance_of_name truthy_def)
  next
    case (Some r)
    have "report_to_dict r \<noteq> []" by (simp add: report_to_dict_def)
    then show ?thesis using cats Some assms(2)
      by (cases s) (simp add: scorecard_to_dict_def scorecard_from_dict_def get_or_def get_def to_str_def str_or_def iterate_def conformance_of_name)
  qed
qed

section \<open>What a grade says\<close>

text \<open>The result is counted as a pass, as a finding, or as a finding of at least the given rank.\<close>

definition counted_pass :: "probe_result \<Rightarrow> bool" where
  "counted_pass r \<longleftrightarrow> pr_inconclusive r = None \<and> pr_passed r"

definition counted_finding :: "probe_result \<Rightarrow> bool" where
  "counted_finding r \<longleftrightarrow> pr_inconclusive r = None \<and> \<not> pr_passed r \<and> pr_error r = None"

definition of_category :: "threat list \<Rightarrow> probe_result list \<Rightarrow> str \<Rightarrow> probe_result list" where
  "of_category threats rs c = filter (\<lambda>r. result_category threats r = c) rs"

definition severe_finding :: "threat list \<Rightarrow> probe_result \<Rightarrow> bool" where
  "severe_finding threats r \<longleftrightarrow> counted_finding r \<and> result_rank threats r \<ge> 3"

definition stats_at :: "(str, category_stats) dict \<Rightarrow> str \<Rightarrow> category_stats" where
  "stats_at d c = (case map_of d c of None \<Rightarrow> no_stats | Some st \<Rightarrow> st)"

lemma stats_at_count:
  "stats_at (category_counts threats (rs @ [r])) c =
     (if result_category threats r = c then count_result threats r (stats_at (category_counts threats rs) c)
      else stats_at (category_counts threats rs) c)"
  by (simp add: stats_at_def category_counts_def Let_def update_conv')

lemma stats_exact:
  "cg_probes (stats_at (category_counts threats rs) c) = length (of_category threats rs c)"
  "cg_findings (stats_at (category_counts threats rs) c) = length (filter counted_finding (of_category threats rs c))"
  "cg_pass (stats_at (category_counts threats rs) c) = length (filter counted_pass (of_category threats rs c))"
  "cg_critical (stats_at (category_counts threats rs) c) + cg_high (stats_at (category_counts threats rs) c) =
     length (filter (severe_finding threats) (of_category threats rs c))"
proof (induction rs rule: rev_induct)
  case Nil
  case 1 then show ?case by (simp add: stats_at_def category_counts_def no_stats_def of_category_def)
  case 2 then show ?case by (simp add: stats_at_def category_counts_def no_stats_def of_category_def)
  case 3 then show ?case by (simp add: stats_at_def category_counts_def no_stats_def of_category_def)
  case 4 then show ?case by (simp add: stats_at_def category_counts_def no_stats_def of_category_def)
next
  case (snoc r rs)
  note d = stats_at_count of_category_def count_result_def counted_finding_def counted_pass_def severe_finding_def Let_def
  case 1 then show ?case using snoc(1) by (simp add: d)
  case 2 then show ?case using snoc(2) by (simp add: d)
  case 3 then show ?case using snoc(3) by (simp add: d)
  case 4 then show ?case using snoc(4) by (simp add: d)
qed

lemma grade_exact:
  "ca_grade (category_result_of (category_counts threats rs) c) =
     (if \<not> list_ex counted_finding (of_category threats rs c) \<and> \<not> list_ex counted_pass (of_category threats rs c) then NotTested
      else if \<not> list_ex counted_finding (of_category threats rs c) then GradePass
      else if list_ex (severe_finding threats) (of_category threats rs c) then GradeFail else GradeWarn)"
proof -
  have n: "length (filter P xs) = 0 \<longleftrightarrow> \<not> list_ex P xs" for P and xs :: "probe_result list"
    by (induction xs) auto
  let ?st = "stats_at (category_counts threats rs) c"
  have g: "ca_grade (category_result_of (category_counts threats rs) c) =
      grade_category (cg_probes ?st) (cg_findings ?st) (cg_critical ?st) (cg_high ?st) (cg_pass ?st)"
    by (simp add: category_result_of_def stats_at_def Let_def)
  have p: "of_category threats rs c = [] \<Longrightarrow> \<not> list_ex P (of_category threats rs c)" for P by simp
  have s: "(cg_critical ?st > 0 \<or> cg_high ?st > 0) \<longleftrightarrow> list_ex (severe_finding threats) (of_category threats rs c)"
    using stats_exact(4) [of threats rs c] n [of "severe_finding threats" "of_category threats rs c"] by linarith
  have z: "filter P xs = [] \<longleftrightarrow> \<not> list_ex P xs" for P and xs :: "probe_result list"
    by (induction xs) auto
  show ?thesis
    unfolding g grade_category_def s stats_exact(1-3) length_0_conv z using p by auto
qed

text \<open>The passive scans give their results ids of their own, which no threat has, so their findings count as medium and
  never fail a category; and a scorecard does not look at the scenarios.\<close>

lemma passive_finding_medium:
  "probe_meta threats (pr_probe_id r) = None \<Longrightarrow> result_rank threats r = 2 \<and> \<not> severe_finding threats r"
  by (simp add: result_rank_def rank_in_scorecard_def severe_finding_def severity_ranks_def)

lemma scenarios_ignored: "unsigned_scorecard v (s\<lparr>so_scenarios := ss\<rparr>) = unsigned_scorecard v s"
  by (simp add: unsigned_scorecard_def Let_def)

lemma suppression_ignored:
  "of_category threats (map (\<lambda>r. r\<lparr>pr_suppressed := b r\<rparr>) rs) c = map (\<lambda>r. r\<lparr>pr_suppressed := b r\<rparr>) (of_category threats rs c)"
  "counted_finding (r\<lparr>pr_suppressed := x\<rparr>) = counted_finding r"
proof -
  have "result_category threats (r\<lparr>pr_suppressed := x\<rparr>) = result_category threats r" for r x
    by (simp add: result_category_def split: option.split)
  then show "of_category threats (map (\<lambda>r. r\<lparr>pr_suppressed := b r\<rparr>) rs) c = map (\<lambda>r. r\<lparr>pr_suppressed := b r\<rparr>) (of_category threats rs c)"
    by (simp add: of_category_def filter_map o_def)
qed (simp add: counted_finding_def)

text \<open>A conformant scorecard has at most four untested categories and none that fails.\<close>

lemma full_conformance_exact:
  "determine_conformance cs = FullConformance \<longleftrightarrow>
     length (filter (\<lambda>c. ca_grade c = NotTested) cs) \<le> 4 \<and> list_all (\<lambda>c. ca_grade c \<noteq> GradeFail) cs"
  by (auto simp: determine_conformance_def Let_def max_not_tested_def list_all_iff filter_empty_conv)

lemma scorecard_needs_tests: "determine_conformance (map (category_result_of []) scored_categories) = InsufficientCoverage"
  by (simp add: determine_conformance_def Let_def max_not_tested_def category_result_of_def no_stats_def grade_category_def scored_categories_def filter_map o_def)

lemma build_keeps_verdict:
  assumes "\<And>c c'. sign c = Inr c' \<Longrightarrow> sk_categories c' = sk_categories c \<and> sk_conformance c' = sk_conformance c"
    "build_scorecard sign v b s = Some sc"
  shows "sk_conformance sc = sk_conformance (unsigned_scorecard v s)"
  using assms by (auto simp: build_scorecard_def Let_def split: if_splits sum.splits)

end
