(* ===== verification/Fleet.thy ===== *)
theory Fleet
  imports Scan_Run Scorecard
begin

text \<open>
  \<open>fleet.py\<close>: many targets, one verdict. The completions of the thread pool are an argument: the submitted scans that
  finish in time, in the order they finish. \<open>tidy\<close> is the sanitizing of an error text.
\<close>

record 'r target_outcome =
  to_target :: str
  to_exit :: nat
  to_result :: "'r option"
  to_error :: "str option"

record 'r fleet_result =
  fl_targets :: "'r target_outcome list"
  fl_exit :: nat

section \<open>The targets file\<close>

text \<open>\<open>lines_of\<close> is \<open>str.splitlines\<close>.\<close>

definition wanted_line :: "str \<Rightarrow> bool" where
  "wanted_line l \<longleftrightarrow> l \<noteq> [] \<and> \<not> starts_with (ascii ''#'') l"

definition parse_targets :: "url_env \<Rightarrow> str list \<Rightarrow> str list option" where
  "parse_targets e ls =
     (let ts = filter wanted_line (map py_strip ls) in
      if ts = [] \<or> \<not> list_all (\<lambda>t. parse_target e t \<noteq> None) ts then None else Some ts)"

section \<open>The aggregate\<close>

definition exit_precedence :: "nat \<Rightarrow> nat" where
  "exit_precedence c = (case map_of [(2, 0), (1, 1), (3, 2), (0, 3)] c of None \<Rightarrow> 0 | Some n \<Rightarrow> n)"

text \<open>\<open>min\<close> with a key: the first of the least.\<close>

fun least_by :: "('a \<Rightarrow> nat) \<Rightarrow> 'a \<Rightarrow> 'a list \<Rightarrow> 'a" where
  "least_by f x [] = x"
| "least_by f x (y # ys) = least_by f (if f y < f x then y else x) ys"

definition aggregate_exit_code :: "nat list \<Rightarrow> nat" where
  "aggregate_exit_code codes = (case codes of [] \<Rightarrow> 0 | c # cs \<Rightarrow> least_by exit_precedence c cs)"

section \<open>One target\<close>

datatype 'r scan_attempt = Finished 'r nat | Unreachable str | Refused str | Crashed str

definition outcome_of :: "(str \<Rightarrow> str) \<Rightarrow> str \<Rightarrow> 'r scan_attempt \<Rightarrow> 'r target_outcome" where
  "outcome_of tidy target a =
     (case a of
        Finished r code \<Rightarrow> \<lparr>to_target = target, to_exit = code, to_result = Some r, to_error = None\<rparr>
      | Unreachable t \<Rightarrow> \<lparr>to_target = target, to_exit = 3, to_result = None, to_error = Some (tidy t)\<rparr>
      | Refused t \<Rightarrow> \<lparr>to_target = target, to_exit = 2, to_result = None, to_error = Some (tidy t)\<rparr>
      | Crashed t \<Rightarrow> \<lparr>to_target = target, to_exit = 2, to_result = None, to_error = Some (tidy t)\<rparr>)"

text \<open>\<open>reach\<close> is the TCP check, with the text of its error; \<open>error_text\<close> renders the error of a scan.\<close>

definition default_scan_one :: "(str \<Rightarrow> str) \<Rightarrow> (scan_error \<Rightarrow> str) \<Rightarrow> (str \<Rightarrow> nat \<Rightarrow> str option) \<Rightarrow> scan_env \<Rightarrow> scan_request \<Rightarrow>
    bool \<Rightarrow> str \<Rightarrow> scan_result target_outcome" where
  "default_scan_one tidy error_text reach e q skip_reachability target =
     (let scan = (case run_scan e (q\<lparr>rq_target := target\<rparr>) of
            Inr res \<Rightarrow> Finished res (so_exit_code res)
          | Inl err \<Rightarrow> if value_error err then Refused (error_text err) else Crashed (error_text err))
      in outcome_of tidy target
           (if skip_reachability then scan
            else case parse_target (we_url (sv_wire e)) target of
              None \<Rightarrow> Refused (error_text BadTargetUrl)
            | Some (host, port, _) \<Rightarrow> (case reach host port of None \<Rightarrow> scan | Some t \<Rightarrow> Unreachable t)))"

section \<open>The fleet\<close>

definition timed_out :: "(str \<Rightarrow> str) \<Rightarrow> str \<Rightarrow> str \<Rightarrow> 'r target_outcome" where
  "timed_out tidy seconds target =
     \<lparr>to_target = target, to_exit = 2, to_result = None,
      to_error = Some (tidy (ascii ''Fleet scan timed out waiting for this target after '' @ seconds @ ascii ''s''))\<rparr>"

text \<open>Each completion is the outcome of a submitted target; outcomes are kept by target, the later one winning.\<close>

definition collect_outcomes :: "(str \<times> 'r target_outcome) list \<Rightarrow> (str, 'r target_outcome) dict" where
  "collect_outcomes completions = fold (\<lambda>(t, r). AList.update t r) completions []"

definition run_fleet_scan :: "(str \<Rightarrow> str) \<Rightarrow> str \<Rightarrow> str list \<Rightarrow> (str \<times> 'r target_outcome) list \<Rightarrow> 'r fleet_result" where
  "run_fleet_scan tidy seconds targets completions =
     (let got = collect_outcomes completions;
          ordered = map (\<lambda>t. case map_of got t of None \<Rightarrow> timed_out tidy seconds t | Some r \<Rightarrow> r) targets
      in \<lparr>fl_targets = ordered, fl_exit = aggregate_exit_code (map to_exit ordered)\<rparr>)"

section \<open>Merged reports\<close>

definition runs_of :: "(str \<times> json) list \<Rightarrow> json list" where
  "runs_of doc = (case get_or doc (ascii ''runs'') (JList []) of JList rs \<Rightarrow> rs | _ \<Rightarrow> [])"

definition merge_sarif :: "(str \<times> json) list list \<Rightarrow> (str \<times> json) list option" where
  "merge_sarif docs =
     (case docs of
        [] \<Rightarrow> None
      | first # _ \<Rightarrow>
          Some [(ascii ''$schema'', get_or first (ascii ''$schema'') (JStr (ascii ''https://json.schemastore.org/sarif-2.1.0.json''))),
                (ascii ''version'', get_or first (ascii ''version'') (JStr (ascii ''2.1.0''))),
                (ascii ''runs'', JList (concat (map runs_of docs)))])"

definition fleet_entry :: "('r \<Rightarrow> (str \<times> json) list) \<Rightarrow> 'r target_outcome \<Rightarrow> json" where
  "fleet_entry scorecard_dict o' =
     JDict [(ascii ''target_url'', JStr (to_target o')), (ascii ''exit_code'', JInt (int (to_exit o'))),
            (ascii ''error'', opt_text (to_error o')),
            (ascii ''scorecard'', case to_result o' of None \<Rightarrow> JNull | Some r \<Rightarrow> JDict (scorecard_dict r))]"

definition build_fleet_scorecard :: "('r \<Rightarrow> (str \<times> json) list) \<Rightarrow> 'r fleet_result \<Rightarrow> (str \<times> json) list" where
  "build_fleet_scorecard scorecard_dict f =
     [(ascii ''fleet_exit_code'', JInt (int (fl_exit f))), (ascii ''target_count'', JInt (int (length (fl_targets f)))),
      (ascii ''targets'', JList (map (fleet_entry scorecard_dict) (fl_targets f)))]"

section \<open>What the verdict says\<close>

lemma least_by_in: "least_by f x ys \<in> set (x # ys) \<and> (\<forall>y \<in> set (x # ys). f (least_by f x ys) \<le> f y)"
proof (induction ys arbitrary: x)
  case (Cons y ys)
  show ?case using Cons.IH [of "if f y < f x then y else x"] by (auto split: if_splits dest: order_trans)
qed simp

lemma aggregate_least:
  assumes "codes \<noteq> []"
  shows "aggregate_exit_code codes \<in> set codes \<and> (\<forall>c \<in> set codes. exit_precedence (aggregate_exit_code codes) \<le> exit_precedence c)"
proof -
  obtain c cs where "codes = c # cs" using assms by (cases codes) auto
  then show ?thesis using least_by_in [of exit_precedence c cs] by (simp add: aggregate_exit_code_def)
qed

text \<open>A scanner error outranks a finding, which outranks an unreachable host; the fleet is clean only if every target is.\<close>

lemma precedence_values:
  "exit_precedence 2 = 0" "exit_precedence 1 = 1" "exit_precedence (Suc 0) = 1" "exit_precedence 3 = 2" "exit_precedence 0 = 3"
  "c \<notin> {0, 1, 2, 3} \<Longrightarrow> exit_precedence c = 0" "exit_precedence c \<le> 3"
  by (auto simp: exit_precedence_def)

lemma aggregate_exact:
  assumes "set codes \<subseteq> {0, 1, 2, 3}"
  shows "aggregate_exit_code codes =
    (if 2 \<in> set codes then 2 else if 1 \<in> set codes then 1 else if 3 \<in> set codes then 3 else 0)"
proof (cases "codes = []")
  case False
  let ?a = "aggregate_exit_code codes"
  have a: "?a \<in> set codes" "\<And>c. c \<in> set codes \<Longrightarrow> exit_precedence ?a \<le> exit_precedence c"
    using aggregate_least [OF False] by auto
  have "?a \<in> {0, 1, 2, 3}" using a(1) assms by blast
  then show ?thesis
    using a(1) a(2) [of 2] a(2) [of 1] a(2) [of 3] by (auto simp: precedence_values)
qed (simp add: aggregate_exit_code_def)

lemma fleet_zero_iff:
  "fl_exit (run_fleet_scan tidy seconds targets completions) = 0 \<longleftrightarrow>
     list_all (\<lambda>o'. to_exit o' = 0) (fl_targets (run_fleet_scan tidy seconds targets completions))"
proof -
  have three: "exit_precedence c = 3 \<longleftrightarrow> c = 0" for c by (auto simp: exit_precedence_def)
  have z: "aggregate_exit_code codes = 0 \<longleftrightarrow> list_all (\<lambda>c. c = 0) codes" for codes
  proof (cases "codes = []")
    case False
    note a = aggregate_least [OF False]
    show ?thesis
    proof
      assume zero: "aggregate_exit_code codes = 0"
      show "list_all (\<lambda>c. c = 0) codes" unfolding list_all_iff
      proof
        fix c assume "c \<in> set codes"
        then have "3 \<le> exit_precedence c" using a zero by (auto simp: precedence_values(5))
        then have "exit_precedence c = 3" using precedence_values(7) [of c] by simp
        then show "c = 0" using three by blast
      qed
    next
      assume "list_all (\<lambda>c. c = 0) codes"
      then show "aggregate_exit_code codes = 0" using a by (simp add: list_all_iff)
    qed
  qed (simp add: aggregate_exit_code_def)
  show ?thesis unfolding run_fleet_scan_def Let_def fleet_result.simps z by (simp add: list_all_iff)
qed

text \<open>The outcomes come in the order of the targets, whatever the order of completion, and a target without a
  completion is an error.\<close>

lemma map_of_updates:
  "map_of (fold (\<lambda>(t, r). AList.update t r) cs d) t = (case map_of (rev cs) t of None \<Rightarrow> map_of d t | Some r \<Rightarrow> Some r)"
  by (induction cs arbitrary: d) (auto simp: update_conv' map_add_def split: option.splits)

lemma collected: "map_of (collect_outcomes completions) t = map_of (rev completions) t"
  by (simp add: collect_outcomes_def map_of_updates split: option.split)

lemma fleet_outcomes:
  "fl_targets (run_fleet_scan tidy seconds targets completions) =
     map (\<lambda>t. case map_of (rev completions) t of None \<Rightarrow> timed_out tidy seconds t | Some r \<Rightarrow> r) targets"
  by (simp add: run_fleet_scan_def Let_def collected)

lemma isolated_failure:
  assumes "distinct targets" "distinct (map fst completions)" "t \<in> set targets" "(t, o') \<in> set completions"
  shows "o' \<in> set (fl_targets (run_fleet_scan tidy seconds targets completions))"
proof -
  have "map_of (rev completions) t = Some o'" using assms(2,4) by (simp add: rev_map [symmetric])
  then show ?thesis unfolding fleet_outcomes using assms(3) by force
qed

text \<open>A target listed twice is scanned twice, and the outcome that comes later hides the other.\<close>

lemma duplicate_target_masked:
  "fl_exit (run_fleet_scan tidy seconds [t, t] [(t, a\<lparr>to_exit := 1\<rparr>), (t, a\<lparr>to_exit := 0\<rparr>)]) = 0"
  by (simp add: run_fleet_scan_def collect_outcomes_def aggregate_exit_code_def)

lemma merged_runs:
  "merge_sarif docs = Some m \<Longrightarrow> runs_of m = concat (map runs_of docs)"
  by (auto simp: merge_sarif_def runs_of_def get_or_def split: list.splits)

lemma parsed_targets_valid:
  "parse_targets e ls = Some ts \<Longrightarrow> ts \<noteq> [] \<and> list_all (\<lambda>t. parse_target e t \<noteq> None \<and> t \<noteq> []) ts"
  by (auto simp: parse_targets_def Let_def list_all_iff wanted_line_def split: if_splits)

end
