(* ===== verification/Sarif.thy ===== *)
theory Sarif
  imports Fleet
begin

text \<open>
  The SARIF report (\<open>report/sarif.py\<close>), its construction from a scan result with the stubs of the passive scans
  (\<open>cli.py\<close>), and what a structural validation accepts. Python's Unicode tables, \<open>html.unescape\<close> and \<open>repr\<close> of a
  string are a record of functions.
\<close>

record sarif_env =
  se_nfkc :: "str \<Rightarrow> str"
  se_category :: "nat \<Rightarrow> string"
  se_unescape :: "str \<Rightarrow> str"
  se_repr :: "str \<Rightarrow> str"

section \<open>Text\<close>

definition kept_char :: "sarif_env \<Rightarrow> nat \<Rightarrow> bool" where
  "kept_char e c \<longleftrightarrow> (take 1 (se_category e c) \<noteq> ''C'' \<or> c \<in> {9, 10, 13}) \<and> se_category e c \<notin> {''Zl'', ''Zp''}"

definition strip_control_chars :: "sarif_env \<Rightarrow> str \<Rightarrow> str" where
  "strip_control_chars e s = filter (kept_char e) s"

definition max_message_chars :: nat where "max_message_chars = 4096"

definition truncated_mark :: str where "truncated_mark = 8230 # ascii ''[truncated]''"

definition sanitize_message :: "sarif_env \<Rightarrow> str \<Rightarrow> str" where
  "sanitize_message e s =
     (let t = strip_control_chars e (se_nfkc e s) in
      if length t > max_message_chars then take max_message_chars t @ truncated_mark else t)"

definition severity_to_level :: "severity \<Rightarrow> str" where
  "severity_to_level v =
     ascii (if v \<in> {SevCritical, SevHigh} then ''error'' else if v = SevMedium then ''warning'' else ''note'')"

text \<open>\<open>^T\d{2}(-[A-Z]{2,5})?-\d{3}$\<close>; the digits are Unicode's.\<close>

definition decimal :: "sarif_env \<Rightarrow> rx" where
  "decimal e = Chr (\<lambda>c. se_category e c = ''Nd'')"

definition dash :: rx where "dash = Chr (\<lambda>c. c = 45)"

definition rule_id_rx :: "sarif_env \<Rightarrow> rx" where
  "rule_id_rx e =
     seqs [Chr (\<lambda>c. c = 84), decimal e, decimal e, Opt (Seq dash (between 2 5 (Chr (\<lambda>c. 65 \<le> c \<and> c \<le> 90)))),
           dash, decimal e, decimal e, decimal e, TextEnd]"

definition rule_id_ok :: "sarif_env \<Rightarrow> str \<Rightarrow> bool" where
  "rule_id_ok e s \<longleftrightarrow> ends (rule_id_rx e) s 0 \<noteq> []"

section \<open>The builder\<close>

record sarif_context =
  sx_target :: str
  sx_timestamp :: str
  sx_hash :: str
  sx_successful :: bool
  sx_exit :: nat

record sarif_builder =
  sb_context :: sarif_context
  sb_rules :: "(str, json) dict"
  sb_results :: "json list"

record rule_meta =
  rm_id :: str
  rm_name :: str
  rm_description :: str
  rm_owasp :: str
  rm_cwe :: "str list"
  rm_confidence :: str
  rm_mcp_t :: str
  rm_refs :: "int list"
  rm_tiers :: "int list"

definition new_builder :: "sarif_context \<Rightarrow> sarif_builder" where
  "new_builder c = \<lparr>sb_context = c, sb_rules = [], sb_results = []\<rparr>"

definition rule_properties :: "rule_meta \<Rightarrow> (str \<times> json) list" where
  "rule_properties m =
     (if rm_cwe m = [] then [] else [(ascii ''cwe'', JList (map JStr (rm_cwe m)))]) @
     (if rm_owasp m = [] then [] else [(ascii ''owasp_ref'', JStr (rm_owasp m))]) @
     (if rm_confidence m \<in> {ascii ''low'', ascii ''high''} then [(ascii ''confidence'', JStr (rm_confidence m))] else []) @
     (if rm_mcp_t m = [] then [] else [(ascii ''cosai_mcp_t'', JStr (take 16 (rm_mcp_t m)))]) @
     (if rm_refs m = [] then [] else [(ascii ''cosai_threats'', JList (map JInt (rm_refs m)))]) @
     (if rm_tiers m = [] then [] else [(ascii ''cosai_threat_tiers'', JList (map JInt (rm_tiers m)))])"

definition sarif_rule :: "sarif_env \<Rightarrow> severity \<Rightarrow> rule_meta \<Rightarrow> json" where
  "sarif_rule e v m =
     JDict ([(ascii ''id'', JStr (rm_id m)), (ascii ''name'', JStr (take 128 (sanitize_message e (rm_name m)))),
             (ascii ''shortDescription'', JDict [(ascii ''text'', JStr (take 512 (sanitize_message e (rm_description m))))]),
             (ascii ''defaultConfiguration'', JDict [(ascii ''level'', JStr (severity_to_level v))])] @
            (if rule_properties m = [] then [] else [(ascii ''properties'', JDict (rule_properties m))]) @
            (if rm_owasp m = [] then []
             else [(ascii ''helpUri'', JStr (ascii ''https://github.com/OWASP/www-project-mcp-top-10''))]))"

definition assertion_text :: "sarif_env \<Rightarrow> assertion_result \<Rightarrow> str" where
  "assertion_text e a =
     ar_target a @ ascii '' '' @ ar_operator a @ ascii '' '' @ se_repr e (se_unescape e (ar_expected a)) @
     ascii '' (got '' @ se_repr e (se_unescape e (ar_actual a)) @ ascii '')''"

fun joined :: "str \<Rightarrow> str list \<Rightarrow> str" where
  "joined sep [] = []"
| "joined sep [x] = x"
| "joined sep (x # y # ys) = x @ sep @ joined sep (y # ys)"

definition raw_message :: "sarif_env \<Rightarrow> probe_result \<Rightarrow> str" where
  "raw_message e r =
     (let failed = filter (\<lambda>a. \<not> ar_passed a) (pr_assertions r) in
      if failed \<noteq> [] then joined (ascii ''; '') (map (assertion_text e) failed)
      else case pr_error r of
        Some err \<Rightarrow> if err = [] then ascii ''Probe failed (no assertion details)'' else ascii ''Probe error: '' @ se_unescape e err
      | None \<Rightarrow> ascii ''Probe failed (no assertion details)'')"

definition sarif_result :: "sarif_env \<Rightarrow> severity \<Rightarrow> str \<Rightarrow> probe_result \<Rightarrow> json" where
  "sarif_result e v rule r =
     JDict [(ascii ''ruleId'', JStr rule), (ascii ''level'', JStr (severity_to_level v)),
            (ascii ''message'', JDict [(ascii ''text'', JStr (sanitize_message e (raw_message e r)))]),
            (ascii ''properties'', JDict [(ascii ''probe_id'', JStr (pr_probe_id r)), (ascii ''threat_id'', JStr (pr_threat_id r)),
               (ascii ''duration_seconds'', pr_duration r)])]"

text \<open>A result that passed or is inconclusive registers its rule only.\<close>

definition in_report :: "probe_result \<Rightarrow> bool" where
  "in_report r \<longleftrightarrow> \<not> pr_passed r \<and> pr_inconclusive r \<in> {None, Some []}"

definition add_result :: "sarif_env \<Rightarrow> sarif_builder \<Rightarrow> probe_result \<Rightarrow> severity \<Rightarrow> rule_meta \<Rightarrow> sarif_builder option" where
  "add_result e b r v m =
     (if \<not> rule_id_ok e (rm_id m) then None
      else Some (b\<lparr>sb_rules := (if map_of (sb_rules b) (rm_id m) = None then sb_rules b @ [(rm_id m, sarif_rule e v m)] else sb_rules b),
                   sb_results := sb_results b @ (if in_report r then [sarif_result e v (rm_id m) r] else [])\<rparr>))"

definition invocation :: "sarif_context \<Rightarrow> json" where
  "invocation c =
     JDict ([(ascii ''executionSuccessful'', JBool (sx_successful c)), (ascii ''commandLine'', JStr (ascii ''cosai scan '' @ sx_target c)),
             (ascii ''startTimeUtc'', JStr (sx_timestamp c)),
             (ascii ''properties'', JDict [(ascii ''catalogHash'', JStr (sx_hash c)), (ascii ''targetUrl'', JStr (sx_target c))])] @
            (if sx_successful c then [] else [(ascii ''exitCode'', JInt (int (sx_exit c)))]))"

definition sarif_version :: str where "sarif_version = ascii ''2.1.0''"

definition build_sarif :: "sarif_builder \<Rightarrow> (str \<times> json) list" where
  "build_sarif b =
     [(ascii ''$schema'', JStr (ascii (''https://raw.githubusercontent.com/oasis-tcs/sarif-spec/master/'' @ ''Schemata/sarif-schema-2.1.0.json''))),
      (ascii ''version'', JStr sarif_version),
      (ascii ''runs'', JList [JDict
         [(ascii ''tool'', JDict [(ascii ''driver'', JDict
            [(ascii ''name'', JStr (ascii ''cosai-mcp'')), (ascii ''version'', JStr (ascii ''0.1.0'')),
             (ascii ''informationUri'', JStr (ascii ''https://github.com/cosai-oasis/cosai-mcp'')),
             (ascii ''rules'', JList (map snd (sb_rules b)))])]),
          (ascii ''results'', JList (sb_results b)), (ascii ''invocations'', JList [invocation (sb_context b)])]])]"

section \<open>Structural validation\<close>

text \<open>\<open>x in v\<close> for a string \<open>x\<close>; a value that has no members raises.\<close>

definition contains_key :: "str \<Rightarrow> json \<Rightarrow> bool" where
  "contains_key k v =
     (case v of JDict d \<Rightarrow> map_of d k \<noteq> None | JStr s \<Rightarrow> has_sub k s | JList xs \<Rightarrow> JStr k \<in> set xs | _ \<Rightarrow> False)"

definition valid_result :: "sarif_env \<Rightarrow> json \<Rightarrow> bool" where
  "valid_result e v =
     (case v of
        JDict d \<Rightarrow> (case get_or d (ascii ''ruleId'') (JStr []) of JStr s \<Rightarrow> rule_id_ok e s | _ \<Rightarrow> False) \<and>
          map_of d (ascii ''suppressions'') = None \<and> map_of d (ascii ''partialFingerprints'') = None
      | _ \<Rightarrow> False)"

definition valid_run :: "sarif_env \<Rightarrow> json \<Rightarrow> bool" where
  "valid_run e v =
     (case v of
        JDict d \<Rightarrow>
          (case (map_of d (ascii ''tool''), map_of d (ascii ''results''), map_of d (ascii ''invocations'')) of
             (Some t, Some rs, Some _) \<Rightarrow>
               contains_key (ascii ''driver'') t \<and> (case iterate rs of None \<Rightarrow> False | Some xs \<Rightarrow> list_all (valid_result e) xs)
           | _ \<Rightarrow> False)
      | _ \<Rightarrow> False)"

text \<open>No exception is raised.\<close>

definition validate_sarif_structure :: "sarif_env \<Rightarrow> (str \<times> json) list \<Rightarrow> bool" where
  "validate_sarif_structure e doc \<longleftrightarrow>
     get doc (ascii ''version'') = JStr sarif_version \<and>
     (case get doc (ascii ''runs'') of JList rs \<Rightarrow> rs \<noteq> [] \<and> list_all (valid_run e) rs | _ \<Rightarrow> False)"

section \<open>The report of a scan\<close>

text \<open>Metadata of the results of the passive scans, whose threat id is a bare category.\<close>

record manifest_stub =
  ms_rule :: str
  ms_name :: str
  ms_severity :: severity
  ms_remediation :: str
  ms_owasp :: str
  ms_cwe :: "str list"

definition manifest_stubs :: "(str \<times> manifest_stub) list" where
  "manifest_stubs =
    [(ascii ''T01'',
      \<lparr>ms_rule = ascii ''T01-100'', ms_name = ascii ''T1 Authentication '' @ [8212] @ ascii '' Protected Resource Metadata (RFC 9728)'', ms_severity = SevMedium,
       ms_remediation =
        ascii ''A server that requires authentication must publish RFC 9728 Protected Resource Metadata on its '' @
        ascii ''own origin (and advertise it via the WWW-Authenticate resource_metadata parameter) whose '' @
        [39] @ ascii ''resource'' @ [39] @ ascii '' is this MCP server and whose '' @ [39] @ ascii ''authorization_servers'' @ [39] @ ascii '' are HTTPS. Ref: CoSAI MCP '' @
        ascii ''Security v2.0 '' @ [167] @ ascii ''3.3.2 (SD-04), MCP authorization.'',
       ms_owasp = ascii ''MCP01:2025; MCP07:2025'', ms_cwe = [ascii ''CWE-287'', ascii ''CWE-346'']\<rparr>),
     (ascii ''T03'',
      \<lparr>ms_rule = ascii ''T03-100'', ms_name = ascii ''T3 Input Validation '' @ [8212] @ ascii '' Unsafe Tool inputSchema'', ms_severity = SevMedium,
       ms_remediation =
        ascii ''Tool inputSchema must not reference external $ref URIs (clients must not dereference them), '' @
        ascii ''must use spec-valid x-mcp-header annotations (HTTP-token name, unique, string/integer/boolean, '' @
        ascii ''reachable via '' @ [39] @ ascii ''properties'' @ [39] @ ascii '' only), and must stay within bounded depth and subschema count. Ref: '' @
        ascii ''CoSAI MCP Security v2.0 '' @ [167] @ ascii ''3.2.3, MCP 2026-07-28 JSON Schema usage, CWE-20.'',
       ms_owasp = ascii ''MCP03:2025; MCP05:2025; MCP06:2025'', ms_cwe = [ascii ''CWE-20'', ascii ''CWE-918'']\<rparr>),
     (ascii ''T05'',
      \<lparr>ms_rule = ascii ''T05-001'', ms_name = ascii ''T5 Data Protection '' @ [8212] @ ascii '' Secret/PII in Tool Manifest'', ms_severity = SevHigh,
       ms_remediation =
        ascii ''Tool names and descriptions must not embed credentials or PII. Remove any API key, token, or '' @
        ascii ''personal data from the manifest; inject secrets via environment/secrets-manager at runtime, '' @
        ascii ''never in tool definitions. Ref: CoSAI T5, CWE-312.'',
       ms_owasp = ascii ''MCP10:2025'', ms_cwe = [ascii ''CWE-312'', ascii ''CWE-200'']\<rparr>),
     (ascii ''T06'',
      \<lparr>ms_rule = ascii ''T06-001'', ms_name = ascii ''T6 Integrity '' @ [8212] @ ascii '' Manifest Tool-Name Collision/Shadowing'', ms_severity = SevHigh,
       ms_remediation =
        ascii ''Tool names must be unique and must not collide with, shadow, or typosquat (Levenshtein 1 of) a '' @
        ascii ''reserved MCP method or another tool. Enforce a unique, signed tool allowlist. Ref: CoSAI T6, '' @
        ascii ''CWE-345.'',
       ms_owasp = ascii ''MCP03:2025; MCP04:2025'', ms_cwe = [ascii ''CWE-345'']\<rparr>),
     (ascii ''T09'',
      \<lparr>ms_rule = ascii ''T09-001'', ms_name = ascii ''T9 Totem Violation '' @ [8212] @ ascii '' Missing Two-Stage Commit'', ms_severity = SevHigh,
       ms_remediation =
        ascii ''Destructive tools must implement a two-stage commit pattern: add a '' @ [96] @ ascii ''confirmed: boolean'' @ [96] @ ascii '' '' @
        ascii ''parameter (when False, return a description of what would happen without executing), or expose '' @
        ascii ''a '' @ [96] @ ascii ''<tool>_preview'' @ [96] @ ascii '' sibling tool. No irreversible action should execute without explicit '' @
        ascii ''confirmation. Ref: TKA Totem layer, CoSAI T9.'',
       ms_owasp = ascii ''MCP02:2025'', ms_cwe = [ascii ''CWE-284'']\<rparr>),
     (ascii ''T04'',
      \<lparr>ms_rule = ascii ''T04-001'', ms_name = ascii ''T4 Tool Poisoning '' @ [8212] @ ascii '' Manifest Anomaly'', ms_severity = SevHigh,
       ms_remediation =
        ascii ''Tool descriptions must not contain instructions that redirect LLM behavior or embed '' @
        ascii ''system-prompt-style directives. Use concise, functional descriptions that describe what the '' @
        ascii ''tool does, not what the LLM should do. Ref: CoSAI T4, MCP tool poisoning.'',
       ms_owasp = ascii ''MCP03:2025; MCP06:2025'', ms_cwe = [ascii ''CWE-74'']\<rparr>),
     (ascii ''T11'',
      \<lparr>ms_rule = ascii ''T11-001'', ms_name = ascii ''T11 Supply Chain '' @ [8212] @ ascii '' Unexpected/Typosquatted Tool'', ms_severity = SevHigh,
       ms_remediation =
        ascii ''A discovered tool is not on the operator allowlist, or is within one edit of an approved name '' @
        ascii ''(typosquat). Confirm the tool is approved and signed, or remove it from the server. Maintain an '' @
        ascii ''explicit approved-tool allowlist. Ref: CoSAI T11, CWE-1357.'',
       ms_owasp = ascii ''MCP04:2025'', ms_cwe = [ascii ''CWE-1357'', ascii ''CWE-494'']\<rparr>)]"


definition stub_meta :: "str \<Rightarrow> manifest_stub \<Rightarrow> rule_meta" where
  "stub_meta threat_id s =
     \<lparr>rm_id = ms_rule s, rm_name = ms_name s, rm_description = ms_remediation s, rm_owasp = ms_owasp s, rm_cwe = ms_cwe s,
      rm_confidence = ascii ''medium'', rm_mcp_t = ascii ''MCP-T'' @ digits (digits_value (drop 1 threat_id)), rm_refs = [], rm_tiers = []\<rparr>"

text \<open>A threat has no name, so the rule is named by its id.\<close>

definition threat_meta :: "threat \<Rightarrow> rule_meta" where
  "threat_meta t =
     \<lparr>rm_id = th_id t, rm_name = th_id t, rm_description = take 512 (th_remediation t), rm_owasp = th_owasp_ref t, rm_cwe = th_cwe t,
      rm_confidence = confidence_name (th_confidence t), rm_mcp_t = th_mcp_t_ref t, rm_refs = th_threat_refs t, rm_tiers = threat_tiers t\<rparr>"

definition threat_at :: "threat list \<Rightarrow> str \<Rightarrow> threat option" where
  "threat_at threats i = map_of (rev (map (\<lambda>t. (th_id t, t)) threats)) i"

text \<open>The rule a result is reported under; a result without one is left out.\<close>

definition rule_of :: "threat list \<Rightarrow> probe_result \<Rightarrow> (severity \<times> rule_meta) option" where
  "rule_of threats r =
     (case threat_at threats (pr_threat_id r) of
        Some t \<Rightarrow> Some (th_severity t, threat_meta t)
      | None \<Rightarrow> map_option (\<lambda>s. (ms_severity s, stub_meta (pr_threat_id r) s)) (map_of manifest_stubs (pr_threat_id r)))"

fun add_results :: "sarif_env \<Rightarrow> threat list \<Rightarrow> sarif_builder \<Rightarrow> probe_result list \<Rightarrow> sarif_builder option" where
  "add_results e threats b [] = Some b"
| "add_results e threats b (r # rs) =
     (case rule_of threats r of
        None \<Rightarrow> add_results e threats b rs
      | Some (v, m) \<Rightarrow> Option.bind (add_result e b r v m) (\<lambda>b'. add_results e threats b' rs))"

definition sarif_context_of :: "scan_result \<Rightarrow> sarif_context" where
  "sarif_context_of s =
     \<lparr>sx_target = so_target_url s, sx_timestamp = so_timestamp s, sx_hash = so_catalog_hash s,
      sx_successful = (so_exit_code s \<noteq> 2), sx_exit = so_exit_code s\<rparr>"

definition build_sarif_dict :: "sarif_env \<Rightarrow> scan_result \<Rightarrow> (str \<times> json) list option" where
  "build_sarif_dict e s =
     map_option build_sarif (add_results e (so_threats s) (new_builder (sarif_context_of s)) (so_probes s))"

text \<open>The text of an exception before it reaches a report of a fleet.\<close>

definition sanitize_error :: "sarif_env \<Rightarrow> str \<Rightarrow> str" where
  "sanitize_error e s = html_escape (sanitize_message e s)"

section \<open>Sanitized text\<close>

lemma sanitized_length: "length (sanitize_message e s) \<le> max_message_chars + length truncated_mark"
  by (simp add: sanitize_message_def Let_def max_message_chars_def truncated_mark_def)

lemma sanitized_chars:
  assumes "list_all (kept_char e) truncated_mark"
  shows "list_all (kept_char e) (sanitize_message e s)"
  using assms by (auto simp: sanitize_message_def strip_control_chars_def list_all_iff Let_def dest: in_set_takeD)

section \<open>The builder's documents are valid\<close>

definition builder_ok :: "sarif_env \<Rightarrow> sarif_builder \<Rightarrow> bool" where
  "builder_ok e b \<longleftrightarrow> list_all (valid_result e) (sb_results b)"

lemma sarif_result_valid: "rule_id_ok e i \<Longrightarrow> valid_result e (sarif_result e v i r)"
  by (simp add: valid_result_def sarif_result_def get_or_def)

lemma new_builder_ok: "builder_ok e (new_builder c)"
  by (simp add: builder_ok_def new_builder_def)

lemma add_result_ok: "builder_ok e b \<Longrightarrow> add_result e b r v m = Some b' \<Longrightarrow> builder_ok e b'"
  by (auto simp: add_result_def builder_ok_def sarif_result_valid split: if_splits)

lemma add_results_ok: "builder_ok e b \<Longrightarrow> add_results e threats b rs = Some b' \<Longrightarrow> builder_ok e b'"
proof (induction rs arbitrary: b)
  case (Cons r rs)
  show ?case
  proof (cases "rule_of threats r")
    case None
    then show ?thesis using Cons by simp
  next
    case (Some vm)
    obtain v m where vm: "vm = (v, m)" by (cases vm)
    obtain b2 where b2: "add_result e b r v m = Some b2" "add_results e threats b2 rs = Some b'"
      using Cons.prems(2) Some vm by (cases "add_result e b r v m") simp_all
    show ?thesis using Cons.IH [OF add_result_ok [OF Cons.prems(1) b2(1)] b2(2)] .
  qed
qed simp

lemma build_valid: "builder_ok e b \<Longrightarrow> validate_sarif_structure e (build_sarif b)"
  by (simp add: validate_sarif_structure_def build_sarif_def get_def valid_run_def contains_key_def iterate_def builder_ok_def)

lemma scan_report_valid: "build_sarif_dict e s = Some doc \<Longrightarrow> validate_sarif_structure e doc"
  by (auto simp: build_sarif_dict_def intro: build_valid add_results_ok [OF new_builder_ok])

lemma merged_report_valid:
  assumes "merge_sarif docs = Some doc" "list_all (validate_sarif_structure e) docs"
  shows "validate_sarif_structure e doc"
proof -
  obtain first rest where d: "docs = first # rest" using assms(1) by (cases docs) (simp_all add: merge_sarif_def)
  have r: "runs_of x \<noteq> [] \<and> list_all (valid_run e) (runs_of x)" if "validate_sarif_structure e x" for x
    using that by (auto simp: validate_sarif_structure_def runs_of_def get_def get_or_def split: option.splits json.splits)
  have v: "get_or first (ascii ''version'') (JStr (ascii ''2.1.0'')) = JStr sarif_version"
    using assms(2) d by (auto simp: validate_sarif_structure_def get_def get_or_def split: option.splits)
  have ne: "concat (map runs_of docs) \<noteq> []" using r assms(2) d by simp
  have ok: "list_all (valid_run e) (concat (map runs_of docs))" using r assms(2) by (auto simp: list_all_iff)
  have doc: "doc = [(ascii ''$schema'', get_or first (ascii ''$schema'') (JStr (ascii ''https://json.schemastore.org/sarif-2.1.0.json''))),
      (ascii ''version'', JStr sarif_version), (ascii ''runs'', JList (concat (map runs_of docs)))]"
    using assms(1) unfolding v [symmetric] by (simp add: merge_sarif_def d del: ascii_simps)
  show ?thesis unfolding doc using ne ok by (simp add: validate_sarif_structure_def get_def)
qed

section \<open>Captured text is confined\<close>

text \<open>Two results that differ only in what the server answered.\<close>

definition same_outcome :: "probe_result \<Rightarrow> probe_result \<Rightarrow> bool" where
  "same_outcome r r' \<longleftrightarrow>
     pr_probe_id r = pr_probe_id r' \<and> pr_threat_id r = pr_threat_id r' \<and> in_report r = in_report r' \<and> pr_duration r = pr_duration r'"

definition erase_message :: "json \<Rightarrow> json" where
  "erase_message v = (case v of JDict d \<Rightarrow> JDict (AList.update (ascii ''message'') JNull d) | _ \<Rightarrow> v)"

definition same_shape :: "sarif_builder \<Rightarrow> sarif_builder \<Rightarrow> bool" where
  "same_shape b b' \<longleftrightarrow> sb_context b = sb_context b' \<and> sb_rules b = sb_rules b' \<and>
     map erase_message (sb_results b) = map erase_message (sb_results b')"

lemma sarif_result_confined: "same_outcome r r' \<Longrightarrow> erase_message (sarif_result e v i r) = erase_message (sarif_result e v i r')"
  by (simp add: same_outcome_def erase_message_def sarif_result_def)

lemma add_result_confined:
  "same_outcome r r' \<Longrightarrow> same_shape b b' \<Longrightarrow> rel_option same_shape (add_result e b r v m) (add_result e b' r' v m)"
  using sarif_result_confined [of r r' e v "rm_id m"]
  by (auto simp: add_result_def same_shape_def same_outcome_def)

lemma rule_of_confined: "same_outcome r r' \<Longrightarrow> rule_of threats r = rule_of threats r'"
  unfolding same_outcome_def rule_of_def by (elim conjE) (simp only:)

text \<open>What the server answered changes nothing of a report but the text of its messages: the rules, the levels, the ids,
  the invocation and the number and order of the results are the same.\<close>

lemma server_text_confined:
  "list_all2 same_outcome rs rs' \<Longrightarrow> same_shape b b' \<Longrightarrow>
     rel_option same_shape (add_results e threats b rs) (add_results e threats b' rs')"
proof (induction rs rs' arbitrary: b b' rule: list_all2_induct)
  case (Cons r rs r' rs')
  show ?case
  proof (cases "rule_of threats r'")
    case None
    then show ?thesis using Cons rule_of_confined [OF Cons.hyps(1), of threats] by simp
  next
    case (Some vm)
    obtain v m where vm: "vm = (v, m)" by (cases vm)
    have "rel_option same_shape (add_result e b r v m) (add_result e b' r' v m)"
      using Cons by (intro add_result_confined)
    then show ?thesis
      using Some vm Cons.IH rule_of_confined [OF Cons.hyps(1), of threats]
      by (cases "add_result e b r v m"; cases "add_result e b' r' v m") simp_all
  qed
qed simp

section \<open>Nothing is lost\<close>

text \<open>Every result that is reported and has a rule is in the document, suppressed by the baseline or not.\<close>

lemma add_results_keep:
  "add_results e threats b rs = Some b' \<Longrightarrow>
     sb_results b' = sb_results b @ concat (map (\<lambda>r. case rule_of threats r of
        None \<Rightarrow> [] | Some (v, m) \<Rightarrow> if in_report r then [sarif_result e v (rm_id m) r] else []) rs)"
  by (induction e threats b rs rule: add_results.induct) (auto simp: add_result_def split: option.splits if_splits bind_splits)

lemma suppressed_still_reported: "in_report (r\<lparr>pr_suppressed := x\<rparr>) = in_report r"
  by (simp add: in_report_def)

lemma passive_results_have_rules:
  "list_all (\<lambda>i. map_of manifest_stubs i \<noteq> None) (map ascii [''T01'', ''T03'', ''T04'', ''T05'', ''T06'', ''T09'', ''T11''])"
  by (simp add: manifest_stubs_def del: ascii_simps)

text \<open>A rule id may end in a newline, which \<open>$\<close> accepts.\<close>

lemma rule_id_with_newline:
  assumes "\<And>c. se_category e c = ''Nd'' \<longleftrightarrow> 48 \<le> c \<and> c \<le> 57"
  shows "rule_id_ok e (ascii ''T01-001'' @ [10])"
  by (simp add: rule_id_ok_def rule_id_rx_def decimal_def dash_def Opt_def between_def text_end_def assms numeral_nat)

end
