(* ===== verification/Remediation.thy ===== *)
theory Remediation
  imports Protocol
begin

text \<open>
  The table of remediations (\<open>report/remediation.py\<close>): one block per probe id, and the lookup at report time.
\<close>

record remediation_block =
  rb_threat_id :: str
  rb_probe_id :: str
  rb_spec_ref :: str
  rb_requires :: str
  rb_fix_shape :: str
  rb_language :: str
  rb_fastmcp :: "str option"
  rb_typescript :: "str option"
  rb_verify :: str

section \<open>The blocks\<close>

definition block_t01_001_p1 :: remediation_block where
  "block_t01_001_p1 =
    \<lparr>rb_threat_id = ascii ''T01-001'', rb_probe_id = ascii ''T01-001-p1'',
      rb_spec_ref = ascii ''MCP 2025-03-26 '' @ [167] @ ascii ''4.1 (Authentication)'',
      rb_requires =
        ascii ''Servers that require authentication MUST reject initialize requests that lack a valid '' @
        ascii ''Bearer token with HTTP 401.'',
      rb_fix_shape =
        ascii ''# Guard at the transport layer, before the MCP dispatcher:'' @ [10] @
        ascii ''if not request.headers.get('' @ [39] @ ascii ''Authorization'' @ [39] @ ascii ''):'' @ [10] @
        ascii ''    return HTTP 401 Unauthorized'' @ [10] @ ascii ''token = request.headers['' @ [39] @
        ascii ''Authorization'' @ [39] @ ascii ''].removeprefix('' @ [39] @ ascii ''Bearer '' @ [39] @ ascii '')'' @
        [10] @ ascii ''if not verify_token(token):'' @ [10] @ ascii ''    return HTTP 401 Unauthorized'',
      rb_language = ascii ''python'',
      rb_fastmcp = Some (ascii ''# FastMCP: add auth middleware'' @ [10] @ ascii ''from fastmcp import FastMCP'' @ [10] @
        ascii ''app = FastMCP('' @ [39] @ ascii ''my-server'' @ [39] @ ascii '')'' @ [10, 10] @
        ascii ''@app.middleware'' @ [10] @ ascii ''async def require_auth(request, call_next):'' @ [10] @
        ascii ''    if not request.headers.get('' @ [39] @ ascii ''Authorization'' @ [39] @ ascii ''):'' @ [10] @
        ascii ''        raise MCPError(INVALID_REQUEST, '' @ [39] @ ascii ''Authentication required'' @ [39] @
        ascii '')'' @ [10] @ ascii ''    return await call_next(request)''),
      rb_typescript = Some (ascii ''// MCP SDK: check Authorization in session handler'' @ [10] @
        ascii ''server.onInitialize(async (params, extra) => {'' @ [10] @
        ascii ''  const token = extra.headers?.authorization;'' @ [10] @
        ascii ''  if (!token) throw new McpError(ErrorCode.InvalidRequest, '' @ [39] @ ascii ''Auth required'' @
        [39] @ ascii '');'' @ [10] @ ascii ''});''),
      rb_verify = ascii ''--categories T1 --fail-on high''\<rparr>"

definition block_t01_002_p1 :: remediation_block where
  "block_t01_002_p1 =
    \<lparr>rb_threat_id = ascii ''T01-002'', rb_probe_id = ascii ''T01-002-p1'',
      rb_spec_ref = ascii ''MCP 2025-03-26 '' @ [167] @ ascii ''4.1 (Authentication)'',
      rb_requires =
        ascii ''Bearer tokens MUST be validated cryptographically '' @ [8212] @
        ascii '' not accepted unconditionally. Any non-empty string must not be treated as valid.'',
      rb_fix_shape =
        ascii ''# Validate signature, not just presence:'' @ [10] @ ascii ''import jwt'' @ [10] @ ascii ''try:'' @
        [10] @ ascii ''    claims = jwt.decode(token, SECRET_KEY, algorithms=['' @ [39] @ ascii ''HS256'' @ [39] @
        ascii ''])'' @ [10] @ ascii ''except jwt.InvalidTokenError:'' @ [10] @
        ascii ''    return HTTP 401 Unauthorized'',
      rb_language = ascii ''python'',
      rb_fastmcp = None,
      rb_typescript = None,
      rb_verify = ascii ''--categories T1 --fail-on high''\<rparr>"

definition block_t01_002_p2 :: remediation_block where
  "block_t01_002_p2 =
    \<lparr>rb_threat_id = ascii ''T01-002'', rb_probe_id = ascii ''T01-002-p2'',
      rb_spec_ref = ascii ''MCP 2025-03-26 '' @ [167] @ ascii ''4.1 (Authentication)'',
      rb_requires =
        ascii ''Malformed or obviously invalid tokens (e.g. single characters) MUST be rejected with '' @
        ascii ''HTTP 401, not processed as valid auth.'',
      rb_fix_shape =
        ascii ''# Reject malformed tokens early:'' @ [10] @ ascii ''if len(token) < MINIMUM_TOKEN_LENGTH:'' @ [10] @
        ascii ''    return HTTP 401 Unauthorized'' @ [10] @ ascii ''# Then validate signature as above.'',
      rb_language = ascii ''python'',
      rb_fastmcp = None,
      rb_typescript = None,
      rb_verify = ascii ''--categories T1 --fail-on high''\<rparr>"

definition block_t02_003_p1 :: remediation_block where
  "block_t02_003_p1 =
    \<lparr>rb_threat_id = ascii ''T02-003'', rb_probe_id = ascii ''T02-003-p1'',
      rb_spec_ref = ascii ''CoSAI T2 '' @ [167] @ ascii ''2.3 (Destructive tool authorization)'',
      rb_requires =
        ascii ''Destructive tools MUST implement a two-stage commit: a plan call returns a description '' @
        ascii ''and short-lived confirmation token; the execute call requires that token. One-shot '' @
        ascii ''destructive calls must be rejected.'',
      rb_fix_shape =
        ascii ''# Two-stage commit pattern:'' @ [10] @ ascii ''def delete_resource_plan(resource_id: str) -> dict:'' @
        [10] @ ascii ''    token = secrets.token_hex(16)  # short-lived, single-use'' @ [10] @
        ascii ''    store_pending(token, resource_id, ttl=60)'' @ [10] @ ascii ''    return {'' @ [39] @
        ascii ''description'' @ [39] @ ascii '': f'' @ [39] @ ascii ''Permanently delete {resource_id}'' @ [39] @
        ascii '', '' @ [39] @ ascii ''confirm_token'' @ [39] @ ascii '': token}'' @ [10, 10] @
        ascii ''def delete_resource_execute(confirm_token: str) -> dict:'' @ [10] @
        ascii ''    resource_id = consume_pending(confirm_token)  # raises if invalid/expired'' @ [10] @
        ascii ''    actually_delete(resource_id)'' @ [10] @ ascii ''    return {'' @ [39] @ ascii ''deleted'' @ [39] @
        ascii '': resource_id}'',
      rb_language = ascii ''python'',
      rb_fastmcp = Some (ascii ''# FastMCP: separate plan and execute tools'' @ [10] @
        ascii ''# WARNING: _pending is process-local. In multi-worker deployments'' @ [10] @
        ascii ''# (gunicorn/uvicorn workers>1) use a shared store (Redis, DB) instead'' @ [10] @ ascii ''# '' @
        [8212] @ ascii '' tokens issued by worker A are invisible to worker B.'' @ [10] @ ascii ''import secrets'' @
        [10] @ ascii ''import time'' @ [10, 10] @
        ascii ''_pending: dict[str, tuple[str, float]] = {}  # token -> (resource_id, expires_at)'' @ [10, 10] @
        ascii ''@app.tool()'' @ [10] @ ascii ''def delete_plan(resource_id: str) -> dict:'' @ [10] @
        ascii ''    # Prune expired entries to prevent unbounded growth'' @ [10] @ ascii ''    now = time.time()'' @
        [10] @ ascii ''    for k in [k for k, (_, exp) in _pending.items() if exp < now]:'' @ [10] @
        ascii ''        _pending.pop(k, None)'' @ [10] @ ascii ''    token = secrets.token_hex(16)'' @ [10] @
        ascii ''    _pending[token] = (resource_id, now + 60)'' @ [10] @ ascii ''    return {'' @ [39] @
        ascii ''description'' @ [39] @ ascii '': f'' @ [39] @ ascii ''Permanently delete {resource_id}'' @ [39] @
        ascii '', '' @ [39] @ ascii ''confirm_token'' @ [39] @ ascii '': token}'' @ [10, 10] @ ascii ''@app.tool()'' @
        [10] @ ascii ''def delete_execute(confirm_token: str) -> dict:'' @ [10] @
        ascii ''    entry = _pending.pop(confirm_token, None)'' @ [10] @
        ascii ''    if not entry or time.time() > entry[1]:'' @ [10] @ ascii ''        raise ValueError('' @ [39] @
        ascii ''Invalid or expired confirmation token'' @ [39] @ ascii '')'' @ [10] @ ascii ''    return {'' @ [39] @
        ascii ''deleted'' @ [39] @ ascii '': actually_delete(entry[0])}''),
      rb_typescript = Some (ascii ''// MCP SDK: plan + execute pattern'' @ [10] @ ascii ''server.tool('' @ [39] @ ascii ''delete_plan'' @
        [39] @ ascii '', async ({ resource_id }) => {'' @ [10] @
        ascii ''  const token = crypto.randomBytes(16).toString('' @ [39] @ ascii ''hex'' @ [39] @ ascii '');'' @
        [10] @ ascii ''  pending.set(token, { resource_id, expires: Date.now() + 60_000 });'' @ [10] @
        ascii ''  return { description: '' @ [96] @ ascii ''Delete ${resource_id} permanently'' @ [96] @
        ascii '', confirm_token: token };'' @ [10] @ ascii ''});'' @ [10] @ ascii ''server.tool('' @ [39] @
        ascii ''delete_execute'' @ [39] @ ascii '', async ({ confirm_token }) => {'' @ [10] @
        ascii ''  const entry = pending.get(confirm_token);'' @ [10] @
        ascii ''  if (!entry || Date.now() > entry.expires)'' @ [10] @
        ascii ''    throw new McpError(ErrorCode.InvalidParams, '' @ [39] @ ascii ''Invalid or expired token'' @
        [39] @ ascii '');'' @ [10] @ ascii ''  pending.delete(confirm_token);'' @ [10] @
        ascii ''  return { deleted: await actuallyDelete(entry.resource_id) };'' @ [10] @ ascii ''});''),
      rb_verify = ascii ''--categories T2 --fail-on critical''\<rparr>"

definition block_t02_003_p2 :: remediation_block where
  "block_t02_003_p2 =
    \<lparr>rb_threat_id = ascii ''T02-003'', rb_probe_id = ascii ''T02-003-p2'',
      rb_spec_ref = ascii ''CoSAI T2 '' @ [167] @ ascii ''2.3 (Destructive tool authorization)'',
      rb_requires =
        ascii ''Tools that destroy resources without dry_run=true MUST require a prior confirmation '' @
        ascii ''token. Accepting operation=destroy, dry_run=false without a token is a one-shot '' @
        ascii ''destructive execution vulnerability.'',
      rb_fix_shape =
        ascii ''# Same two-stage commit applies '' @ [8212] @ ascii '' dry_run does not substitute for a token:'' @
        [10] @ ascii ''# WRONG: if not dry_run: actually_destroy(target)'' @ [10] @
        ascii ''# RIGHT: require confirm_token for any non-dry-run destructive path'' @ [10] @
        ascii ''if not dry_run and not confirm_token:'' @ [10] @ ascii ''    raise McpError(INVALID_PARAMS, '' @
        [39] @ ascii ''Confirmation token required for destructive operations'' @ [39] @ ascii '')'',
      rb_language = ascii ''python'',
      rb_fastmcp = None,
      rb_typescript = None,
      rb_verify = ascii ''--categories T2 --fail-on critical''\<rparr>"

definition block_t03_001_p1 :: remediation_block where
  "block_t03_001_p1 =
    \<lparr>rb_threat_id = ascii ''T03-001'', rb_probe_id = ascii ''T03-001-p1'',
      rb_spec_ref = ascii ''MCP 2025-03-26 '' @ [167] @ ascii ''4.3 (Tool invocation)'',
      rb_requires =
        ascii ''Tool parameters MUST be validated against the declared JSON schema before execution. '' @
        ascii ''Command injection payloads must be rejected.'',
      rb_fix_shape =
        ascii ''# Validate against declared schema before calling implementation:'' @ [10] @
        ascii ''from jsonschema import validate, ValidationError'' @ [10] @ ascii ''try:'' @ [10] @
        ascii ''    validate(instance=arguments, schema=tool.inputSchema)'' @ [10] @
        ascii ''except ValidationError as e:'' @ [10] @ ascii ''    raise McpError(INVALID_PARAMS, str(e))'',
      rb_language = ascii ''python'',
      rb_fastmcp = Some (ascii ''# FastMCP: use typed parameters '' @ [8212] @ ascii '' validation is automatic'' @ [10] @
        ascii ''from fastmcp import FastMCP'' @ [10] @ ascii ''import re'' @ [10, 10] @ ascii ''@app.tool()'' @ [10] @
        ascii ''def my_tool(filename: str) -> str:'' @ [10] @
        ascii ''    # FastMCP validates type; add semantic check:'' @ [10] @ ascii ''    if not re.fullmatch(r'' @
        [39] @ ascii ''['' @ [92] @ ascii ''w'' @ [92] @ ascii ''-'' @ [92] @ ascii ''.]+'' @ [39] @
        ascii '', filename):'' @ [10] @ ascii ''        raise ValueError('' @ [39] @ ascii ''Invalid filename'' @
        [39] @ ascii '')'' @ [10] @ ascii ''    return open(filename).read()''),
      rb_typescript = None,
      rb_verify = ascii ''--categories T3 --fail-on high''\<rparr>"

definition block_t03_001_p2 :: remediation_block where
  "block_t03_001_p2 =
    \<lparr>rb_threat_id = ascii ''T03-001'', rb_probe_id = ascii ''T03-001-p2'',
      rb_spec_ref = ascii ''MCP 2025-03-26 '' @ [167] @ ascii ''4.3 (Tool invocation)'',
      rb_requires =
        ascii ''Path traversal sequences (../../../) in file path parameters MUST be rejected before '' @
        ascii ''any filesystem access.'',
      rb_fix_shape =
        ascii ''# Canonicalize and assert path stays within allowed root:'' @ [10] @ ascii ''import pathlib'' @ [10] @
        ascii ''allowed_root = pathlib.Path('' @ [39] @ ascii ''/allowed/root'' @ [39] @ ascii '').resolve()'' @
        [10] @ ascii ''candidate = (allowed_root / user_path).resolve()'' @ [10] @
        ascii ''if not str(candidate).startswith(str(allowed_root)):'' @ [10] @
        ascii ''    raise McpError(INVALID_PARAMS, '' @ [39] @ ascii ''Path traversal rejected'' @ [39] @
        ascii '')'',
      rb_language = ascii ''python'',
      rb_fastmcp = None,
      rb_typescript = None,
      rb_verify = ascii ''--categories T3 --fail-on high''\<rparr>"

definition block_t03_001_p3 :: remediation_block where
  "block_t03_001_p3 =
    \<lparr>rb_threat_id = ascii ''T03-001'', rb_probe_id = ascii ''T03-001-p3'',
      rb_spec_ref = ascii ''MCP 2025-03-26 '' @ [167] @ ascii ''4.3 (Tool invocation)'',
      rb_requires =
        ascii ''Oversized payloads MUST be rejected before deserialization to prevent memory exhaustion '' @
        ascii ''and denial-of-service.'',
      rb_fix_shape =
        ascii ''# Enforce payload size limit at transport layer:'' @ [10] @
        ascii ''MAX_PAYLOAD_BYTES = 1_000_000  # 1 MB'' @ [10] @ ascii ''if len(request.body) > MAX_PAYLOAD_BYTES:'' @
        [10] @ ascii ''    return HTTP 413 Content Too Large'',
      rb_language = ascii ''python'',
      rb_fastmcp = None,
      rb_typescript = None,
      rb_verify = ascii ''--categories T3 --fail-on medium''\<rparr>"

definition block_t03_002_p1 :: remediation_block where
  "block_t03_002_p1 =
    \<lparr>rb_threat_id = ascii ''T03-002'', rb_probe_id = ascii ''T03-002-p1'',
      rb_spec_ref = ascii ''MCP 2025-03-26 '' @ [167] @ ascii ''4.3 (Tool invocation)'',
      rb_requires =
        ascii ''Integer parameters with defined bounds (min/max in schema) MUST be rejected when values '' @
        ascii ''exceed those bounds.'',
      rb_fix_shape =
        ascii ''# Use '' @ [39] @ ascii ''minimum'' @ [39] @ ascii ''/'' @ [39] @ ascii ''maximum'' @ [39] @
        ascii '' in your JSON schema:'' @ [10] @ ascii ''{'' @ [34] @ ascii ''type'' @ [34] @ ascii '': '' @ [34] @
        ascii ''integer'' @ [34] @ ascii '', '' @ [34] @ ascii ''minimum'' @ [34] @ ascii '': 1, '' @ [34] @
        ascii ''maximum'' @ [34] @ ascii '': 1000}'' @ [10] @ ascii ''# Then validate '' @ [8212] @
        ascii '' do not just cast and clamp silently.'',
      rb_language = ascii ''pseudocode'',
      rb_fastmcp = None,
      rb_typescript = None,
      rb_verify = ascii ''--categories T3 --fail-on medium''\<rparr>"

definition block_t05_001_p1 :: remediation_block where
  "block_t05_001_p1 =
    \<lparr>rb_threat_id = ascii ''T05-001'', rb_probe_id = ascii ''T05-001-p1'',
      rb_spec_ref = ascii ''MCP 2025-03-26 '' @ [167] @ ascii ''5.2 (Data protection)'',
      rb_requires =
        ascii ''Tool responses MUST NOT include credentials, secrets, or tokens in plaintext. Sensitive '' @
        ascii ''fields must be redacted before returning.'',
      rb_fix_shape =
        ascii ''# Scrub secrets from tool response before returning:'' @ [10] @ ascii ''import re'' @ [10] @
        ascii ''REDACT_PATTERNS = [r'' @ [39] @ ascii ''(?i)(password|secret|token|key)'' @ [92] @ ascii ''s*[:=]'' @
        [92] @ ascii ''s*'' @ [92] @ ascii ''S+'' @ [39] @ ascii '']'' @ [10] @ ascii ''def scrub(text):'' @ [10] @
        ascii ''    for pat in REDACT_PATTERNS:'' @ [10] @ ascii ''        text = re.sub(pat, '' @ [39] @
        ascii ''[REDACTED]'' @ [39] @ ascii '', text)'' @ [10] @ ascii ''    return text'',
      rb_language = ascii ''python'',
      rb_fastmcp = None,
      rb_typescript = None,
      rb_verify = ascii ''--categories T5 --fail-on high''\<rparr>"

definition block_t06_001_p1 :: remediation_block where
  "block_t06_001_p1 =
    \<lparr>rb_threat_id = ascii ''T06-001'', rb_probe_id = ascii ''T06-001-p1'',
      rb_spec_ref = ascii ''MCP 2025-03-26 '' @ [167] @ ascii ''4.2.2 (Tool list stability)'',
      rb_requires =
        ascii ''The tools/list response MUST be stable within a session. Returning different tools '' @
        ascii ''after initialize is a T6 integrity violation.'',
      rb_fix_shape =
        ascii ''# Freeze the tool manifest at session start:'' @ [10] @
        ascii ''session.tool_manifest = frozenset(tools.keys())'' @ [10, 10] @ ascii ''# On each tools/list call:'' @
        [10] @ ascii ''if set(tools.keys()) != session.tool_manifest:'' @ [10] @
        ascii ''    raise McpError(INTERNAL_ERROR, '' @ [39] @ ascii ''Tool manifest changed mid-session'' @ [39] @
        ascii '')'',
      rb_language = ascii ''python'',
      rb_fastmcp = None,
      rb_typescript = None,
      rb_verify = ascii ''--categories T6 --fail-on high''\<rparr>"

definition block_t08_001_p1 :: remediation_block where
  "block_t08_001_p1 =
    \<lparr>rb_threat_id = ascii ''T08-001'', rb_probe_id = ascii ''T08-001-p1'',
      rb_spec_ref = ascii ''MCP 2025-03-26 '' @ [167] @ ascii ''6.1 (Network isolation)'',
      rb_requires =
        ascii ''MCP servers MUST NOT allow tool parameters to redirect HTTP requests to RFC1918 or '' @
        ascii ''loopback addresses (SSRF).'',
      rb_fix_shape =
        ascii ''# Block RFC1918, loopback, link-local before fetching:'' @ [10] @ ascii ''import ipaddress, socket'' @
        [10] @ ascii ''def is_safe(host):'' @ [10] @ ascii ''    ip = socket.gethostbyname(host)'' @ [10] @
        ascii ''    addr = ipaddress.ip_address(ip)'' @ [10] @
        ascii ''    return not (addr.is_private or addr.is_loopback or addr.is_link_local)'' @ [10] @
        ascii ''if not is_safe(parsed_url.hostname):'' @ [10] @ ascii ''    raise McpError(INVALID_PARAMS, '' @ [39] @
        ascii ''Disallowed target address'' @ [39] @ ascii '')'',
      rb_language = ascii ''python'',
      rb_fastmcp = None,
      rb_typescript = None,
      rb_verify = ascii ''--categories T8 --fail-on critical''\<rparr>"

definition block_t08_001_p2 :: remediation_block where
  "block_t08_001_p2 =
    \<lparr>rb_threat_id = ascii ''T08-001'', rb_probe_id = ascii ''T08-001-p2'',
      rb_spec_ref = ascii ''MCP 2025-03-26 '' @ [167] @ ascii ''6.1 (Network isolation)'',
      rb_requires =
        ascii ''IPv6 loopback (::1) and link-local addresses MUST be blocked in addition to IPv4 '' @
        ascii ''private ranges.'',
      rb_fix_shape =
        ascii ''# Include IPv6 checks:'' @ [10] @ ascii ''addr = ipaddress.ip_address(resolved_ip)'' @ [10] @
        ascii ''if addr.is_loopback or addr.is_link_local or addr.is_private:'' @ [10] @
        ascii ''    raise McpError(INVALID_PARAMS, '' @ [39] @ ascii ''Address not permitted'' @ [39] @ ascii '')'',
      rb_language = ascii ''python'',
      rb_fastmcp = None,
      rb_typescript = None,
      rb_verify = ascii ''--categories T8 --fail-on critical''\<rparr>"

definition block_t10_001_p1 :: remediation_block where
  "block_t10_001_p1 =
    \<lparr>rb_threat_id = ascii ''T10-001'', rb_probe_id = ascii ''T10-001-p1'',
      rb_spec_ref = ascii ''MCP 2025-03-26 '' @ [167] @ ascii ''7.1 (Rate limiting)'',
      rb_requires =
        ascii ''Servers MUST enforce per-session call budgets to prevent runaway agents from causing '' @
        ascii ''denial-of-wallet or resource exhaustion.'',
      rb_fix_shape =
        ascii ''# Enforce per-session rate limit at dispatcher:'' @ [10] @ ascii ''session.call_count += 1'' @ [10] @
        ascii ''if session.call_count > MAX_CALLS_PER_SESSION:'' @ [10] @
        ascii ''    raise McpError(INVALID_REQUEST, '' @ [39] @ ascii ''Session call budget exceeded'' @ [39] @
        ascii '')'' @ [10] @ ascii ''# Also enforce per-minute sliding window.'',
      rb_language = ascii ''python'',
      rb_fastmcp = None,
      rb_typescript = None,
      rb_verify = ascii ''--categories T10 --fail-on high''\<rparr>"

definition block_t11_001_p1 :: remediation_block where
  "block_t11_001_p1 =
    \<lparr>rb_threat_id = ascii ''T11-001'', rb_probe_id = ascii ''T11-001-p1'',
      rb_spec_ref = ascii ''MCP 2025-03-26 '' @ [167] @ ascii ''4.3.1 (Unknown tool names)'',
      rb_requires =
        ascii ''tools/call with an unknown tool name MUST return JSON-RPC error -32601 (Method not '' @
        ascii ''found) with isError:true. Returning isError:false for unknown tools is a supply-chain '' @
        ascii ''integrity failure.'',
      rb_fix_shape =
        ascii ''# Guard in your tool dispatcher:'' @ [10] @ ascii ''if tool_name not in registered_tools:'' @ [10] @
        ascii ''    raise McpError('' @ [10] @ ascii ''        METHOD_NOT_FOUND,'' @ [10] @ ascii ''        f'' @
        [39] @ ascii ''Unknown tool: {tool_name!r}'' @ [39, 10] @ ascii ''    )'',
      rb_language = ascii ''python'',
      rb_fastmcp = Some (ascii ''# FastMCP raises METHOD_NOT_FOUND automatically for unknown tools.'' @ [10] @
        ascii ''# If you are routing manually, add:'' @ [10] @ ascii ''@app.call_tool()'' @ [10] @
        ascii ''async def call_tool(name: str, arguments: dict):'' @ [10] @ ascii ''    if name not in app.tools:'' @
        [10] @ ascii ''        raise McpError(METHOD_NOT_FOUND, f'' @ [39] @ ascii ''Unknown tool: {name!r}'' @ [39] @
        ascii '')'' @ [10] @ ascii ''    return await app.tools[name](arguments)''),
      rb_typescript = Some (ascii ''// MCP SDK TypeScript: guard in tool handler'' @ [10] @
        ascii ''server.setRequestHandler(CallToolRequestSchema, async (request) => {'' @ [10] @
        ascii ''  const { name } = request.params;'' @ [10] @ ascii ''  if (!tools[name]) {'' @ [10] @
        ascii ''    throw new McpError(ErrorCode.MethodNotFound, '' @ [96] @ ascii ''Unknown tool: ${name}'' @ [96] @
        ascii '');'' @ [10] @ ascii ''  }'' @ [10] @ ascii ''  return tools[name](request.params.arguments);'' @
        [10] @ ascii ''});''),
      rb_verify = ascii ''--categories T11 --fail-on high''\<rparr>"

definition block_t11_001_p2 :: remediation_block where
  "block_t11_001_p2 =
    \<lparr>rb_threat_id = ascii ''T11-001'', rb_probe_id = ascii ''T11-001-p2'',
      rb_spec_ref = ascii ''MCP 2025-03-26 '' @ [167] @ ascii ''4.3.1 (Unknown tool names)'',
      rb_requires =
        ascii ''tools/call for an unregistered tool MUST set isError:true in the result object even '' @
        ascii ''when the server does not raise a JSON-RPC error.'',
      rb_fix_shape =
        ascii ''# Per spec, isError:true signals tool-level failure:'' @ [10] @ ascii ''return {'' @ [10] @
        ascii ''    '' @ [39] @ ascii ''isError'' @ [39] @ ascii '': True,'' @ [10] @ ascii ''    '' @ [39] @
        ascii ''content'' @ [39] @ ascii '': [{'' @ [39] @ ascii ''type'' @ [39] @ ascii '': '' @ [39] @
        ascii ''text'' @ [39] @ ascii '', '' @ [39] @ ascii ''text'' @ [39] @ ascii '': f'' @ [39] @
        ascii ''Unknown tool: {name!r}'' @ [39] @ ascii ''}]'' @ [10] @ ascii ''}'',
      rb_language = ascii ''python'',
      rb_fastmcp = None,
      rb_typescript = None,
      rb_verify = ascii ''--categories T11 --fail-on high''\<rparr>"

definition block_t12_002_p1 :: remediation_block where
  "block_t12_002_p1 =
    \<lparr>rb_threat_id = ascii ''T12-002'', rb_probe_id = ascii ''T12-002-p1'',
      rb_spec_ref = ascii ''CoSAI T12 '' @ [167] @ ascii ''12.2 (Observability and auditability)'',
      rb_requires =
        ascii ''tools/list MUST be accessible so operators can enumerate tool descriptions and audit '' @
        ascii ''which tools are exposed to agents.'',
      rb_fix_shape =
        ascii ''# Ensure tools/list is handled by your MCP server dispatcher:'' @ [10] @
        ascii ''# Standard method '' @ [8212] @ ascii '' all MCP servers must implement it.'' @ [10] @
        ascii ''# If returning 401/403, ensure scanner credentials can list tools.'',
      rb_language = ascii ''pseudocode'',
      rb_fastmcp = None,
      rb_typescript = None,
      rb_verify = ascii ''--categories T12 --fail-on info''\<rparr>"

definition block_t12_002_p2 :: remediation_block where
  "block_t12_002_p2 =
    \<lparr>rb_threat_id = ascii ''T12-002'', rb_probe_id = ascii ''T12-002-p2'',
      rb_spec_ref = ascii ''CoSAI T12 '' @ [167] @ ascii ''12.2 (Tool description transparency)'',
      rb_requires =
        ascii ''Tool descriptions for destructive operations MUST include explicit irreversibility '' @
        ascii ''disclosure so the LLM and operator know the action cannot be undone before a '' @
        ascii ''confirmation is issued.'',
      rb_fix_shape =
        ascii ''# Add irreversibility disclosure to destructive tool descriptions:'' @ [10] @ ascii ''# BEFORE: '' @
        [34] @ ascii ''Deletes the specified resource.'' @ [34, 10] @ ascii ''# AFTER:  '' @ [34] @
        ascii ''Permanently deletes the specified resource. This action is irreversible and cannot be '' @
        ascii ''undone. Use delete_plan first to review what will be deleted.'' @ [34, 10, 10] @
        ascii ''# Pair with T02-003 two-stage commit so the warning appears'' @ [10] @
        ascii ''# in the plan response before the confirmation token is issued.'',
      rb_language = ascii ''pseudocode'',
      rb_fastmcp = Some (ascii ''# FastMCP: tool description in decorator'' @ [10] @ ascii ''@app.tool('' @ [10] @
        ascii ''    description=('' @ [10] @ ascii ''        '' @ [39] @
        ascii ''Permanently deletes the specified resource. '' @ [39, 10] @ ascii ''        '' @ [39] @
        ascii ''THIS ACTION IS IRREVERSIBLE AND CANNOT BE UNDONE. '' @ [39, 10] @ ascii ''        '' @ [39] @
        ascii ''Call delete_plan first to obtain a confirmation token.'' @ [39, 10] @ ascii ''    )'' @ [10] @
        ascii '')'' @ [10] @ ascii ''def delete_execute(confirm_token: str) -> dict:'' @ [10] @ ascii ''    ...''),
      rb_typescript = Some (ascii ''// MCP SDK: description on tool registration'' @ [10] @ ascii ''server.tool('' @ [10] @ ascii ''  '' @
        [39] @ ascii ''delete_execute'' @ [39] @ ascii '','' @ [10] @ ascii ''  '' @ [39] @
        ascii ''Permanently deletes the specified resource. '' @ [39, 10] @ ascii ''  + '' @ [39] @
        ascii ''THIS ACTION IS IRREVERSIBLE AND CANNOT BE UNDONE. '' @ [39, 10] @ ascii ''  + '' @ [39] @
        ascii ''Requires a confirmation token from delete_plan.'' @ [39] @ ascii '','' @ [10] @
        ascii ''  { confirm_token: z.string() },'' @ [10] @ ascii ''  async ({ confirm_token }) => { ... }'' @ [10] @
        ascii '');''),
      rb_verify = ascii ''--categories T12 --fail-on info''\<rparr>"

section \<open>The registry\<close>

definition remediation_blocks :: "remediation_block list" where
  "remediation_blocks =
     [block_t01_001_p1, block_t01_002_p1, block_t01_002_p2, block_t02_003_p1,
      block_t02_003_p2, block_t03_001_p1, block_t03_001_p2, block_t03_001_p3,
      block_t03_002_p1, block_t05_001_p1, block_t06_001_p1, block_t08_001_p1,
      block_t08_001_p2, block_t10_001_p1, block_t11_001_p1, block_t11_001_p2,
      block_t12_002_p1, block_t12_002_p2]"

text \<open>A block whose language is unknown makes the import of the module raise.\<close>

definition valid_languages :: "str list" where
  "valid_languages = [ascii ''python'', ascii ''typescript'', ascii ''pseudocode'']"

definition valid_block :: "remediation_block \<Rightarrow> bool" where
  "valid_block b \<longleftrightarrow> rb_language b \<in> set valid_languages"

definition remediation_registry :: "(str \<times> remediation_block) list option" where
  "remediation_registry =
     (if list_all valid_block remediation_blocks then Some (map (\<lambda>b. (rb_probe_id b, b)) remediation_blocks) else None)"

text \<open>The later of two blocks for one probe wins.\<close>

definition get_remediation :: "str \<Rightarrow> remediation_block option" where
  "get_remediation i = (case remediation_registry of None \<Rightarrow> None | Some d \<Rightarrow> map_of (rev d) i)"

section \<open>The registry is sound\<close>

lemmas block_defs =
  block_t01_001_p1_def
  block_t01_002_p1_def
  block_t01_002_p2_def
  block_t02_003_p1_def
  block_t02_003_p2_def
  block_t03_001_p1_def
  block_t03_001_p2_def
  block_t03_001_p3_def
  block_t03_002_p1_def
  block_t05_001_p1_def
  block_t06_001_p1_def
  block_t08_001_p1_def
  block_t08_001_p2_def
  block_t10_001_p1_def
  block_t11_001_p1_def
  block_t11_001_p2_def
  block_t12_002_p1_def
  block_t12_002_p2_def

lemma languages_valid: "list_all valid_block remediation_blocks"
  by (simp add: remediation_blocks_def valid_block_def valid_languages_def block_defs del: ascii_simps)

lemma registry_distinct: "distinct (map rb_probe_id remediation_blocks)"
  by (simp add: remediation_blocks_def block_defs del: ascii_simps)

lemma registry_exact: "get_remediation i = find (\<lambda>b. rb_probe_id b = i) remediation_blocks"
proof -
  have u: "map_of (map (\<lambda>b. (rb_probe_id b, b)) bs) i = find (\<lambda>b. rb_probe_id b = i) bs" for bs
    by (induction bs) auto
  have d: "distinct (map fst (map (\<lambda>b. (rb_probe_id b, b)) remediation_blocks))"
    using registry_distinct by (simp add: o_def)
  then have r: "map_of (rev (map (\<lambda>b. (rb_probe_id b, b)) remediation_blocks)) = map_of (map (\<lambda>b. (rb_probe_id b, b)) remediation_blocks)"
    by (subst map_of_inject_set) (simp_all add: rev_map [symmetric])
  show ?thesis
    unfolding get_remediation_def remediation_registry_def
    using languages_valid r u [of remediation_blocks] by simp
qed

lemma registry_lookup: "b \<in> set remediation_blocks \<Longrightarrow> get_remediation (rb_probe_id b) = Some b"
proof -
  assume b: "b \<in> set remediation_blocks"
  have "find (\<lambda>x. rb_probe_id x = rb_probe_id b) bs = Some b" if "b \<in> set bs" "distinct (map rb_probe_id bs)" for bs
    using that by (induction bs) (auto simp: rev_image_eqI)
  then show ?thesis using b registry_distinct by (simp add: registry_exact)
qed

text \<open>Every block names a probe of the threat it is filed under.\<close>

lemma blocks_name_their_threat:
  "list_all (\<lambda>b. starts_with (rb_threat_id b @ ascii ''-p'') (rb_probe_id b)) remediation_blocks"
  by (simp add: remediation_blocks_def block_defs starts_with_def del: ascii_simps) (simp add: ascii_def)

end
