(* ===== verification/Csv_Report.thy ===== *)
theory Csv_Report
  imports Sarif Remediation
begin

text \<open>
  The CSV report (\<open>report/csv_report.py\<close>): its rows, the quoting of the \<open>csv\<close> module with \<open>QUOTE_ALL\<close>, and a reader of
  that dialect, which is the reference of the round trip. The rendering of a duration is an argument.
\<close>

record csv_env =
  ce_text :: py_text
  ce_seconds :: "json \<Rightarrow> str"

definition category_names :: "(str \<times> str) list" where
  "category_names =
     [(ascii ''T1'', ascii ''Improper Authentication''), (ascii ''T2'', ascii ''Missing Access Control''),
      (ascii ''T3'', ascii ''Input Validation Failures''), (ascii ''T4'', ascii ''Data/Control Boundary''),
      (ascii ''T5'', ascii ''Inadequate Data Protection''), (ascii ''T6'', ascii ''Integrity / Verification Failures''),
      (ascii ''T7'', ascii ''Session Security Failures''), (ascii ''T8'', ascii ''Network Binding Failures''),
      (ascii ''T9'', ascii ''Trust Boundary Failures''), (ascii ''T10'', ascii ''Resource Management''),
      (ascii ''T11'', ascii ''Supply Chain / Lifecycle''), (ascii ''T12'', ascii ''Insufficient Logging'')]"

definition category_label :: "str \<Rightarrow> str" where
  "category_label c = (case map_of category_names c of None \<Rightarrow> c | Some n \<Rightarrow> n)"

definition csv_headers :: "str list" where
  "csv_headers = map ascii
     [''probe_id'', ''threat_id'', ''category'', ''category_name'', ''severity'', ''engine'', ''status'', ''assertion_target'',
      ''assertion_operator'', ''assertion_expected'', ''assertion_actual'', ''assertion_passed'', ''response_body'', ''error'',
      ''duration_seconds'', ''remediation'', ''remediation_spec_ref'', ''remediation_fix_shape'']"

section \<open>Cells\<close>

definition truncate_text :: "nat \<Rightarrow> str \<Rightarrow> str" where
  "truncate_text n s = (if length s > n then take n s @ [8230] else s)"

definition formula_prefixes :: "nat list" where
  "formula_prefixes = [61, 43, 45, 64, 9, 13]"

definition safe_cell :: "str \<Rightarrow> str" where
  "safe_cell s = (case s of [] \<Rightarrow> s | c # _ \<Rightarrow> if c \<in> set formula_prefixes then 9 # s else s)"

definition error_text :: "str option \<Rightarrow> str" where
  "error_text x = (case x of None \<Rightarrow> [] | Some s \<Rightarrow> s)"

section \<open>Rows\<close>

definition probe_status :: "probe_result \<Rightarrow> str" where
  "probe_status r =
     ascii (if pr_passed r then ''PASS'' else if pr_assertions r = [] \<and> error_text (pr_error r) \<noteq> [] then ''ERROR'' else ''FINDING'')"

definition probe_head :: "threat list \<Rightarrow> probe_result \<Rightarrow> str list" where
  "probe_head threats r =
     (let t = threat_at threats (pr_threat_id r);
          c = (case t of None \<Rightarrow> [] | Some x \<Rightarrow> th_category x)
      in [pr_probe_id r, pr_threat_id r, c, category_label c, (case t of None \<Rightarrow> [] | Some x \<Rightarrow> severity_name (th_severity x)),
          ascii ''prober'', probe_status r])"

definition probe_tail :: "csv_env \<Rightarrow> threat list \<Rightarrow> probe_result \<Rightarrow> str list" where
  "probe_tail e threats r =
     [safe_cell (truncate_text 500 (pr_response_body r)), safe_cell (error_text (pr_error r)), ce_seconds e (pr_duration r),
      (case threat_at threats (pr_threat_id r) of None \<Rightarrow> [] | Some x \<Rightarrow> th_remediation x),
      (case get_remediation (pr_probe_id r) of None \<Rightarrow> [] | Some b \<Rightarrow> rb_spec_ref b),
      (case get_remediation (pr_probe_id r) of None \<Rightarrow> [] | Some b \<Rightarrow> rb_fix_shape b)]"

definition assertion_cells :: "assertion_result \<Rightarrow> str list" where
  "assertion_cells a =
     [ar_target a, ar_operator a, safe_cell (ar_expected a), safe_cell (ar_actual a), ascii (if ar_passed a then ''yes'' else ''no'')]"

definition no_cells :: "nat \<Rightarrow> str list" where "no_cells n = replicate n []"

text \<open>One row per assertion, or one row when there is none.\<close>

definition probe_rows :: "csv_env \<Rightarrow> threat list \<Rightarrow> probe_result \<Rightarrow> str list list" where
  "probe_rows e threats r =
     map (\<lambda>cells. probe_head threats r @ cells @ probe_tail e threats r)
       (if pr_assertions r = [] then [no_cells 5] else map assertion_cells (pr_assertions r))"

definition step_head :: "scenario_result \<Rightarrow> step_result \<Rightarrow> str list" where
  "step_head s st =
     (let c = (case sr_categories s of [] \<Rightarrow> [] | x # _ \<Rightarrow> x) in
      [sr_scenario_id s, sr_scenario_id s, c, category_label c, ascii ''high'', ascii ''stateful'',
       ascii (if st_passed st then ''PASS'' else if st_failures st = [] \<and> error_text (st_error st) \<noteq> [] then ''ERROR'' else ''FINDING'')])"

definition step_tail :: "step_result \<Rightarrow> str list" where
  "step_tail st =
     [[], error_text (st_error st), [], ascii ''Step '' @ digits (st_index st) @ ascii '': '' @ st_description st, [], []]"

definition failure_cells :: "csv_env \<Rightarrow> assertion_failure \<Rightarrow> str list" where
  "failure_cells e f =
     [af_target f, af_operator f, to_str (ce_text e) (of_json (af_expected f)), to_str (ce_text e) (of_json (af_actual f)), ascii ''no'']"

definition step_rows :: "csv_env \<Rightarrow> scenario_result \<Rightarrow> step_result \<Rightarrow> str list list" where
  "step_rows e s st =
     map (\<lambda>cells. step_head s st @ cells @ step_tail st)
       (if st_failures st = [] then [no_cells 5] else map (failure_cells e) (st_failures st))"

definition csv_rows :: "csv_env \<Rightarrow> scan_result \<Rightarrow> str list list" where
  "csv_rows e res =
     csv_headers # concat (map (probe_rows e (so_threats res)) (so_probes res)) @
     concat (map (\<lambda>s. concat (map (step_rows e s) (sr_steps s))) (so_scenarios res))"

section \<open>Writing\<close>

definition quote_cell :: "str \<Rightarrow> str" where
  "quote_cell s = 34 # concat (map (\<lambda>c. if c = 34 then [34, 34] else [c]) s) @ [34]"

definition write_row :: "str list \<Rightarrow> str" where
  "write_row cells = joined [44] (map quote_cell cells) @ [13, 10]"

definition csv_text :: "str list list \<Rightarrow> str" where
  "csv_text rows = concat (map write_row rows)"

text \<open>The bytes of the file, with the byte order mark; \<open>None\<close> is the failure to encode a lone surrogate.\<close>

definition write_csv_report :: "csv_env \<Rightarrow> scan_result \<Rightarrow> byte list option" where
  "write_csv_report e res = map_option ((@) [239, 187, 191]) (utf8_encode (csv_text (csv_rows e res)))"

section \<open>A reader\<close>

fun read_quoted :: "str \<Rightarrow> (str \<times> str) option" where
  "read_quoted [] = None"
| "read_quoted (c # s) =
     (if c \<noteq> 34 then map_option (apfst (Cons c)) (read_quoted s)
      else case s of
        [] \<Rightarrow> Some ([], [])
      | d # t \<Rightarrow> if d = 34 then map_option (apfst (Cons 34)) (read_quoted t) else Some ([], s))"

lemma read_quoted_shorter: "read_quoted s = Some (x, u) \<Longrightarrow> length u < length s"
proof (induction s arbitrary: x u rule: length_induct)
  case (1 s)
  show ?case
  proof (cases s)
    case (Cons c t)
    show ?thesis
    proof (cases "c = 34 \<and> (t = [] \<or> hd t \<noteq> 34)")
      case True
      then show ?thesis using 1(2) Cons by (cases t) auto
    next
      case False
      define v where "v = (if c = 34 then tl t else t)"
      obtain y where y: "read_quoted v = Some (y, u)"
        using 1(2) Cons False by (cases t) (auto simp: v_def split: if_splits)
      have v: "length v < length s" using Cons by (auto simp: v_def)
      then show ?thesis using 1(1) y by fastforce
    qed
  qed (use 1(2) in simp)
qed

text \<open>The cells of a row after its first quote, and the rows.\<close>

function read_row :: "str \<Rightarrow> (str list \<times> str) option" where
  "read_row s =
     (case read_quoted s of
        None \<Rightarrow> None
      | Some (x, u) \<Rightarrow>
          (if take 2 u = [44, 34] then map_option (apfst (Cons x)) (read_row (drop 2 u))
           else if take 2 u = [13, 10] then Some ([x], drop 2 u) else None))"
  by pat_completeness auto
termination by (relation "measure length") (auto dest: read_quoted_shorter)

declare read_row.simps [simp del]

lemma read_row_shorter: "read_row s = Some (xs, u) \<Longrightarrow> length u < length s"
proof (induction s arbitrary: xs u rule: read_row.induct)
  case (1 s)
  then obtain x v where x: "read_quoted s = Some (x, v)" by (auto simp: read_row.simps [of s] split: option.splits)
  note l = read_quoted_shorter [OF x]
  show ?case
  proof (cases "take 2 v = [44, 34]")
    case True
    then obtain ys where "read_row (drop 2 v) = Some (ys, u)"
      using 1(2) x by (auto simp: read_row.simps [of s])
    then show ?thesis using 1(1) [OF x _ True] l by fastforce
  next
    case False
    then show ?thesis using 1(2) x l by (auto simp: read_row.simps [of s] split: if_splits)
  qed
qed

function read_csv :: "str \<Rightarrow> str list list option" where
  "read_csv s =
     (case s of
        [] \<Rightarrow> Some []
      | c # t \<Rightarrow>
          (if c \<noteq> 34 then None
           else case read_row t of None \<Rightarrow> None | Some (row, u) \<Rightarrow> map_option (Cons row) (read_csv u)))"
  by pat_completeness auto
termination by (relation "measure length") (auto dest: read_row_shorter)

declare read_csv.simps [simp del]

section \<open>Round trip\<close>

text \<open>Whatever the cells hold (quotes, commas, line ends), the reader returns them.\<close>

lemma read_quoted_cell:
  "take 1 rest \<noteq> [34] \<Longrightarrow> read_quoted (concat (map (\<lambda>c. if c = 34 then [34, 34] else [c]) s) @ 34 # rest) = Some (s, rest)"
  by (induction s) (auto split: list.split)

lemma read_row_cells:
  "cells \<noteq> [] \<Longrightarrow> read_row (tl (joined [44] (map quote_cell cells)) @ [13, 10] @ rest) = Some (cells, rest)"
proof (induction cells)
  case (Cons c cells)
  show ?case
  proof (cases cells)
    case Nil
    then show ?thesis
      using read_quoted_cell [of "[13, 10] @ rest" c] by (subst read_row.simps) (simp add: quote_cell_def)
  next
    case (Cons d ds)
    let ?tail = "tl (joined [44] (map quote_cell cells)) @ [13, 10] @ rest"
    have hd: "joined [44] (map quote_cell cells) = 34 # tl (joined [44] (map quote_cell cells))"
      unfolding Cons by (cases ds) (simp_all add: quote_cell_def)
    have j: "joined [44] (map quote_cell (c # cells)) = quote_cell c @ 44 # joined [44] (map quote_cell cells)"
      unfolding Cons by simp
    have q: "read_quoted (tl (joined [44] (map quote_cell (c # cells))) @ [13, 10] @ rest) = Some (c, 44 # 34 # ?tail)"
      unfolding j using read_quoted_cell [of "44 # 34 # ?tail" c] by (subst hd) (simp add: quote_cell_def)
    have r: "read_row ?tail = Some (cells, rest)" using Cons.IH Cons by blast
    show ?thesis unfolding read_row.simps [of "tl (joined [44] (map quote_cell (c # cells))) @ [13, 10] @ rest"] q
      using r by (simp del: joined.simps list.map)
  qed
qed simp

lemma csv_round_trip: "list_all (\<lambda>r. r \<noteq> []) rows \<Longrightarrow> read_csv (csv_text rows) = Some rows"
proof (induction rows)
  case Nil
  then show ?case by (simp add: csv_text_def read_csv.simps)
next
  case (Cons r rows)
  have "joined [44] (map quote_cell r) = 34 # tl (joined [44] (map quote_cell r))"
    using Cons.prems by (cases r; cases "tl r") (simp_all add: quote_cell_def)
  then have t: "csv_text (r # rows) = 34 # tl (joined [44] (map quote_cell r)) @ [13, 10] @ csv_text rows"
    by (simp add: csv_text_def write_row_def)
  show ?case
    unfolding t using Cons read_row_cells [of r "csv_text rows"] by (subst read_csv.simps) simp
qed

text \<open>Every row has the eighteen columns of the header.\<close>

lemma row_lengths: "list_all (\<lambda>r. length r = length csv_headers) (csv_rows e res)"
proof -
  have "list_all (\<lambda>r. length r = 18) (probe_rows e ts r)" for ts r
    by (simp add: probe_rows_def list_all_iff probe_head_def probe_tail_def assertion_cells_def no_cells_def Let_def)
  moreover have "list_all (\<lambda>r. length r = 18) (step_rows e s st)" for s st
    by (simp add: step_rows_def list_all_iff step_head_def step_tail_def failure_cells_def no_cells_def Let_def)
  ultimately show ?thesis
    by (auto simp: csv_rows_def list_all_iff csv_headers_def)
qed

lemma report_readable: "read_csv (csv_text (csv_rows e res)) = Some (csv_rows e res)"
  by (rule csv_round_trip) (use row_lengths [of e res] in \<open>auto simp: list_all_iff csv_headers_def\<close>)

section \<open>Formulas\<close>

definition formula_start :: "str \<Rightarrow> bool" where
  "formula_start s \<longleftrightarrow> (case s of [] \<Rightarrow> False | c # _ \<Rightarrow> c \<in> {61, 43, 45, 64, 13})"

lemma safe_cell_no_formula: "\<not> formula_start (safe_cell s)"
  by (auto simp: safe_cell_def formula_start_def formula_prefixes_def split: list.split)

text \<open>What a server answered to a probe never starts a formula; what it answered to a scenario can.\<close>

lemma probe_cells_safe:
  "\<not> formula_start (hd (probe_tail e threats r))" "\<not> formula_start (probe_tail e threats r ! 1)"
  "\<not> formula_start (assertion_cells a ! 2)" "\<not> formula_start (assertion_cells a ! 3)"
  by (simp_all add: probe_tail_def assertion_cells_def safe_cell_no_formula)

lemma scenario_cell_formula:
  "formula_start (failure_cells e \<lparr>af_target = t, af_operator = p, af_expected = x, af_actual = JStr (ascii ''=1+1''), af_message = m\<rparr> ! 3)"
  by (simp add: failure_cells_def formula_start_def to_str_def)

text \<open>An inconclusive result and a suppressed one are written as findings.\<close>

lemma inconclusive_written_as_finding:
  "\<not> pr_passed r \<Longrightarrow> pr_error r = None \<Longrightarrow> probe_status r = ascii ''FINDING''"
  by (simp add: probe_status_def error_text_def)

end
