(* ===== verification/Inventory.thy ===== *)
theory Inventory
  imports Scan_Run Incident
begin

text \<open>
  Tool inventories (\<open>inventory/snapshot.py\<close>, \<open>inventory/drift.py\<close>): the snapshot of a server's manifest, its
  dictionary form, its capture over a session, and the drift between two snapshots.
\<close>

section \<open>Records\<close>

definition terminal_control :: "nat \<Rightarrow> bool" where
  "terminal_control c \<longleftrightarrow> c < 32 \<or> c = 127"

definition strip_controls :: "str \<Rightarrow> str" where
  "strip_controls s = filter (\<lambda>c. \<not> terminal_control c) s"

record tool_record =
  tc_name :: str
  tc_description :: str
  tc_schema :: str

definition or_else :: "json \<Rightarrow> json \<Rightarrow> json" where
  "or_else v w = (if truthy v then v else w)"

definition tool_from_dict :: "py_text \<Rightarrow> (str \<times> json) list \<Rightarrow> tool_record" where
  "tool_from_dict pt d =
     \<lparr>tc_name = str_or pt d (ascii ''name''), tc_description = strip_controls (str_or pt d (ascii ''description'')),
      tc_schema = canonical (or_else (or_else (get d (ascii ''inputSchema'')) (get d (ascii ''input_schema''))) (JDict []))\<rparr>"

text \<open>\<open>None\<close> is the exception of a schema text that does not parse.\<close>

definition tool_to_dict :: "tool_record \<Rightarrow> json option" where
  "tool_to_dict t =
     map_option (\<lambda>v. JDict [(ascii ''name'', JStr (tc_name t)), (ascii ''description'', JStr (tc_description t)), (ascii ''inputSchema'', v)])
       (loads (tc_schema t))"

record tool_inventory =
  iv_target :: str
  iv_captured_at :: str
  iv_protocol :: json
  iv_server_name :: json
  iv_server_version :: json
  iv_tools :: "tool_record list"
  iv_hash :: str

definition tool_dicts :: "tool_record list \<Rightarrow> json list option" where
  "tool_dicts ts = those (map tool_to_dict ts)"

definition text_bytes :: "str \<Rightarrow> byte list" where
  "text_bytes s = map byte_of s"

definition build_inventory :: "py_text \<Rightarrow> (byte list \<Rightarrow> str) \<Rightarrow> str \<Rightarrow> str \<Rightarrow> json \<Rightarrow> json \<Rightarrow> json \<Rightarrow> (str \<times> json) list list \<Rightarrow> tool_inventory option" where
  "build_inventory pt sha now target protocol server version raw =
     (let ts = sort_key tc_name (map (tool_from_dict pt) raw) in
      map_option (\<lambda>ds. \<lparr>iv_target = target, iv_captured_at = now, iv_protocol = protocol, iv_server_name = server,
                        iv_server_version = version, iv_tools = ts, iv_hash = sha (text_bytes (canonical (JList ds)))\<rparr>)
        (tool_dicts ts))"

definition inventory_to_dict :: "tool_inventory \<Rightarrow> (str \<times> json) list option" where
  "inventory_to_dict i =
     map_option (\<lambda>ds.
       [(ascii ''target'', JStr (iv_target i)), (ascii ''captured_at'', JStr (iv_captured_at i)),
        (ascii ''protocol_version'', iv_protocol i), (ascii ''server_name'', iv_server_name i),
        (ascii ''server_version'', iv_server_version i), (ascii ''tools'', JList ds), (ascii ''content_hash'', JStr (iv_hash i))])
       (tool_dicts (iv_tools i))"

definition dict_of :: "json \<Rightarrow> (str \<times> json) list option" where
  "dict_of v = (case v of JDict d \<Rightarrow> Some d | _ \<Rightarrow> None)"

text \<open>A missing key or an item that is no dictionary raises.\<close>

definition inventory_from_dict :: "py_text \<Rightarrow> (str \<times> json) list \<Rightarrow> tool_inventory option" where
  "inventory_from_dict pt d =
     (case (map_of d (ascii ''target''), map_of d (ascii ''captured_at''), map_of d (ascii ''content_hash''),
            Option.bind (iterate (get_or d (ascii ''tools'') (JList []))) (\<lambda>xs. those (map dict_of xs))) of
        (Some t, Some c, Some h, Some ds) \<Rightarrow>
          Some \<lparr>iv_target = to_str pt (of_json t), iv_captured_at = to_str pt (of_json c), iv_protocol = JStr (str_or pt d (ascii ''protocol_version'')),
                iv_server_name = JStr (str_or pt d (ascii ''server_name'')), iv_server_version = JStr (str_or pt d (ascii ''server_version'')),
                iv_tools = map (tool_from_dict pt) ds, iv_hash = to_str pt (of_json h)\<rparr>
      | _ \<Rightarrow> None)"

section \<open>Capture\<close>

text \<open>The manifest of a started session; what is no list, or no dictionary in it, is left out.\<close>

definition manifest_dicts :: "json \<Rightarrow> (str \<times> json) list list" where
  "manifest_dicts v = (case v of JList xs \<Rightarrow> List.map_filter dict_of xs | _ \<Rightarrow> [])"

definition server_dict :: "json \<Rightarrow> (str \<times> json) list" where
  "server_dict v = (case v of JDict d \<Rightarrow> d | _ \<Rightarrow> [])"

datatype capture_error = NoHostname | BadPort | Blocked pin_error | NoConnection | CaptureFailed era session_fail | CaptureDeadline | CaptureCrash

definition capture_session :: "network \<Rightarrow> bool \<Rightarrow> bool \<Rightarrow> bool \<Rightarrow> mcp_session \<Rightarrow> capture_error + session_info" where
  "capture_session net connects sse_connects in_time s =
     (if \<not> in_time then Inl CaptureDeadline
      else if \<not> connects then Inl NoConnection
      else case start_session net sse_connects AutoEra s of
        (Inl err, s') \<Rightarrow> Inl (CaptureFailed (ms_era s') err)
      | (Inr info, _) \<Rightarrow> Inr info)"

definition strip_slash :: "str \<Rightarrow> str" where
  "strip_slash s = rev (dropWhile (\<lambda>c. c = 47) (rev s))"

text \<open>The protocol version and the server's name and version are stored as the server sent them.\<close>

definition capture :: "py_text \<Rightarrow> url_env \<Rightarrow> (byte list \<Rightarrow> str) \<Rightarrow> (str \<Rightarrow> ip_address option) \<Rightarrow> resolver \<Rightarrow> str \<Rightarrow>
    server_link \<Rightarrow> bool \<Rightarrow> str \<Rightarrow> capture_error + tool_inventory" where
  "capture pt e sha parse resolve now l allow_private target =
     (case urlparse e (strip_slash target) of
        None \<Rightarrow> Inl NoHostname
      | Some p \<Rightarrow>
          (case url_hostname e p of
             None \<Rightarrow> Inl NoHostname
           | Some h \<Rightarrow>
               (if h = [] then Inl NoHostname
                else if url_port p = None then Inl BadPort
                else case resolve_and_pin parse resolve allow_private h of
                  Inl err \<Rightarrow> Inl (Blocked err)
                | Inr _ \<Rightarrow>
                    (case capture_session (lk_net l) (lk_connects l) (lk_sse_connects l) (lk_in_time l) (lk_session l) of
                       Inl err \<Rightarrow> Inl err
                     | Inr info \<Rightarrow>
                         (let sd = server_dict (si_server_info info) in
                          case build_inventory pt sha now target ((si_protocol_version info))
                                 (get_or sd (ascii ''name'') (JStr [])) (get_or sd (ascii ''version'') (JStr []))
                                 (manifest_dicts (si_tool_manifest info)) of
                            None \<Rightarrow> Inl CaptureCrash
                          | Some i \<Rightarrow> Inr i)))))"

section \<open>Drift\<close>

datatype drift_kind = Added | Removed | DescriptionChanged | SchemaChanged

record drift_entry =
  de_kind :: drift_kind
  de_tool :: str
  de_before :: "str option"
  de_after :: "str option"

definition tool_map :: "tool_inventory \<Rightarrow> str \<Rightarrow> tool_record option" where
  "tool_map i = map_of (rev (map (\<lambda>t. (tc_name t, t)) (iv_tools i)))"

definition sorted_names :: "tool_inventory \<Rightarrow> (str \<Rightarrow> bool) \<Rightarrow> str list" where
  "sorted_names i P = sort (remdups (filter P (map tc_name (iv_tools i))))"

definition shown :: "str \<Rightarrow> str" where
  "shown s = (if s = [] then ascii ''<no description>'' else s)"

definition tool_at :: "tool_inventory \<Rightarrow> str \<Rightarrow> tool_record" where
  "tool_at i n = the (tool_map i n)"

definition changes :: "tool_record \<Rightarrow> tool_record \<Rightarrow> drift_entry list" where
  "changes old new =
     (if tc_description old \<noteq> tc_description new
      then [\<lparr>de_kind = DescriptionChanged, de_tool = tc_name new, de_before = Some (tc_description old), de_after = Some (tc_description new)\<rparr>]
      else []) @
     (if tc_schema old \<noteq> tc_schema new
      then [\<lparr>de_kind = SchemaChanged, de_tool = tc_name new, de_before = Some (tc_schema old), de_after = Some (tc_schema new)\<rparr>] else [])"

definition detect_drift :: "tool_inventory \<Rightarrow> tool_inventory \<Rightarrow> drift_entry list" where
  "detect_drift b c =
     map (\<lambda>n. \<lparr>de_kind = Added, de_tool = n, de_before = None, de_after = Some (shown (tc_description (tool_at c n)))\<rparr>)
       (sorted_names c (\<lambda>n. tool_map b n = None)) @
     map (\<lambda>n. \<lparr>de_kind = Removed, de_tool = n, de_before = Some (shown (tc_description (tool_at b n))), de_after = None\<rparr>)
       (sorted_names b (\<lambda>n. tool_map c n = None)) @
     concat (map (\<lambda>n. changes (tool_at b n) (tool_at c n)) (sorted_names b (\<lambda>n. tool_map c n \<noteq> None)))"

definition of_kinds :: "drift_kind list \<Rightarrow> drift_entry list \<Rightarrow> drift_entry list" where
  "of_kinds ks es = filter (\<lambda>x. de_kind x \<in> set ks) es"

definition counted :: "drift_entry list \<Rightarrow> string \<Rightarrow> str list" where
  "counted es what = (if es = [] then [] else [digits (length es) @ ascii ('' tool(s) '' @ what)])"

definition drift_summary :: "drift_entry list \<Rightarrow> str" where
  "drift_summary es =
     (if es = [] then ascii ''No drift detected.''
      else join (ascii ''; '') (counted (of_kinds [Added] es) ''added'' @ counted (of_kinds [Removed] es) ''removed'' @
        counted (of_kinds [DescriptionChanged, SchemaChanged] es) ''changed'') @ ascii ''.'')"

section \<open>Snapshots survive their dictionary form\<close>

text \<open>The schema text of a record is the canonical text of a value that \<open>or\<close> keeps.\<close>

definition schema_ok :: "tool_record \<Rightarrow> bool" where
  "schema_ok t \<longleftrightarrow> (\<exists>v. tc_schema t = canonical v \<and> json_ok v \<and> (truthy (sorted_json v) \<or> v = JDict []) \<and>
     sorted_json (sorted_json v) = sorted_json v)"

lemma tool_round_trip:
  assumes "schema_ok t" "strip_controls (tc_description t) = tc_description t"
  shows "\<exists>d. tool_to_dict t = Some (JDict d) \<and> tool_from_dict pt d = t"
proof -
  obtain v where v: "tc_schema t = canonical v" "json_ok v" "truthy (sorted_json v) \<or> v = JDict []" "sorted_json (sorted_json v) = sorted_json v"
    using assms(1) unfolding schema_ok_def by blast
  let ?d = "[(ascii ''name'', JStr (tc_name t)), (ascii ''description'', JStr (tc_description t)), (ascii ''inputSchema'', sorted_json v)]"
  have "tool_to_dict t = Some (JDict ?d)"
    unfolding tool_to_dict_def v(1) canonical_loads [OF v(2)] by simp
  moreover have o: "or_else (or_else (get ?d (ascii ''inputSchema'')) (get ?d (ascii ''input_schema''))) (JDict []) = sorted_json v"
    using v(3) by (auto simp: or_else_def get_def truthy_def)
  moreover have "tool_from_dict pt ?d = t"
  proof -
    have n: "str_or pt ?d (ascii ''name'') = tc_name t" "str_or pt ?d (ascii ''description'') = tc_description t"
      by (simp_all add: str_or_def get_or_def to_str_def)
    show ?thesis unfolding tool_from_dict_def n o assms(2) v(4) v(1) [symmetric] by simp
  qed
  ultimately show ?thesis by blast
qed

lemma strip_controls_idem [simp]: "strip_controls (strip_controls s) = strip_controls s"
  by (simp add: strip_controls_def)

lemma description_stripped: "strip_controls (tc_description (tool_from_dict pt d)) = tc_description (tool_from_dict pt d)"
  by (simp add: tool_from_dict_def)

text \<open>A tool's name is stored as the server sent it, escape sequences included.\<close>

lemma name_not_stripped: "tc_name (tool_from_dict pt [(ascii ''name'', JStr (27 # s))]) = 27 # s"
  by (simp add: tool_from_dict_def str_or_def get_or_def to_str_def)

section \<open>What no drift means\<close>

lemma tool_map_names: "tool_map i n \<noteq> None \<longleftrightarrow> n \<in> tc_name ` set (iv_tools i)"
  by (simp add: tool_map_def map_of_eq_None_iff image_image)

lemma sorted_names_set: "set (sorted_names i P) = {n \<in> tc_name ` set (iv_tools i). P n}"
  by (auto simp: sorted_names_def)

lemma tool_map_name: "tool_map i n = Some t \<Longrightarrow> tc_name t = n"
  by (auto simp: tool_map_def dest: map_of_SomeD)

lemma changes_empty: "changes old new = [] \<longleftrightarrow> tc_description old = tc_description new \<and> tc_schema old = tc_schema new"
  by (simp add: changes_def)

lemma same_tool: "tc_name s = tc_name t \<Longrightarrow> changes s t = [] \<longleftrightarrow> s = t"
  by (cases s; cases t) (simp add: changes_empty)

text \<open>No drift is reported exactly when both snapshots have the same tool under every name.\<close>

lemma no_drift_exact: "detect_drift b c = [] \<longleftrightarrow> tool_map b = tool_map c"
proof
  assume e: "detect_drift b c = []"
  have added: "tool_map b n \<noteq> None" if "tool_map c n \<noteq> None" for n
  proof
    assume "tool_map b n = None"
    then have "n \<in> set (sorted_names c (\<lambda>n. tool_map b n = None))" using that tool_map_names [of c n] by (simp add: sorted_names_set)
    then show False using e by (auto simp: detect_drift_def)
  qed
  have removed: "tool_map c n \<noteq> None" if "tool_map b n \<noteq> None" for n
  proof
    assume "tool_map c n = None"
    then have "n \<in> set (sorted_names b (\<lambda>n. tool_map c n = None))" using that tool_map_names [of b n] by (simp add: sorted_names_set)
    then show False using e by (auto simp: detect_drift_def)
  qed
  show "tool_map b = tool_map c"
  proof
    fix n
    show "tool_map b n = tool_map c n"
    proof (cases "tool_map b n")
      case None
      then show ?thesis using added [of n] by (cases "tool_map c n") auto
    next
      case (Some t)
      then obtain t' where t': "tool_map c n = Some t'" using removed [of n] by auto
      have "n \<in> set (sorted_names b (\<lambda>n. tool_map c n \<noteq> None))"
        using Some t' tool_map_names [of b n] by (simp add: sorted_names_set)
      then have "changes (tool_at b n) (tool_at c n) = []" using e by (auto simp: detect_drift_def)
      then show ?thesis
        using Some t' same_tool [of t t'] tool_map_name [OF Some] tool_map_name [OF t'] by (simp add: tool_at_def)
    qed
  qed
next
  assume eq: "tool_map b = tool_map c"
  have none: "sorted_names i (\<lambda>n. tool_map i n = None) = []" for i
    unfolding set_empty [symmetric] sorted_names_set using tool_map_names [of i] by auto
  have "sorted_names c (\<lambda>n. tool_map b n = None) = []" "sorted_names b (\<lambda>n. tool_map c n = None) = []"
    using none [of c] none [of b] by (simp_all add: eq)
  moreover have "changes (tool_at b n) (tool_at c n) = []" for n using eq by (simp add: tool_at_def changes_empty)
  ultimately show "detect_drift b c = []" by (simp add: detect_drift_def)
qed

text \<open>Of two tools with one name only the later counts, so a tool that shadows another at an earlier place is no drift.\<close>

lemma shadowing_unseen:
  "tc_name s = tc_name t \<Longrightarrow> detect_drift (i\<lparr>iv_tools := [t]\<rparr>) (i\<lparr>iv_tools := [s, t]\<rparr>) = []"
  unfolding no_drift_exact by (simp add: tool_map_def fun_eq_iff)

lemma drift_to_itself: "detect_drift i i = []"
  unfolding no_drift_exact by simp

end
