(* ===== verification/Signing.thy ===== *)
theory Signing
  imports Scorecard Inventory
begin

text \<open>
  Signatures: the keys of the catalog (\<open>keys.py\<close>, \<open>signing.py\<close>), of reports (\<open>report/sign.py\<close>), of scorecards
  (\<open>scorecard/signing.py\<close>) and of inventories (\<open>inventory/signing.py\<close>), and the strict reading of a signed
  scorecard by the commands that verify it (\<open>cli.py\<close>). Ed25519 is a record of functions on keys and bytes; the
  environment variables, the key ring and a freshly generated key are arguments.
\<close>

record 'k ed25519 =
  ed_key :: "byte list \<Rightarrow> 'k"
  ed_public :: "'k \<Rightarrow> byte list"
  ed_sign :: "'k \<Rightarrow> byte list \<Rightarrow> byte list"
  ed_verify :: "byte list \<Rightarrow> byte list \<Rightarrow> byte list \<Rightarrow> bool"
  ed_der :: "byte list \<Rightarrow> byte list"

text \<open>What Ed25519 promises: a public key has 32 bytes, and a signature verifies under the key it was made with.\<close>

definition ed_ok :: "'k ed25519 \<Rightarrow> bool" where
  "ed_ok ed \<longleftrightarrow> (\<forall>k. length (ed_public ed k) = 32) \<and> (\<forall>k m. ed_verify ed (ed_public ed k) (ed_sign ed k m) m)"

section \<open>Hexadecimal\<close>

definition hex_of_bytes :: "byte list \<Rightarrow> str" where
  "hex_of_bytes bs = concat (map (\<lambda>b. [hex_digit (unat b div 16), hex_digit (unat b mod 16)]) bs)"

text \<open>\<open>bytes.fromhex\<close>: blanks may stand between two bytes.\<close>

fun fromhex :: "str \<Rightarrow> byte list option" where
  "fromhex [] = Some []"
| "fromhex (c # s) =
     (if c = 32 \<or> 9 \<le> c \<and> c \<le> 13 then fromhex s
      else case s of
        [] \<Rightarrow> None
      | d # t \<Rightarrow>
          (case (hex_value c, hex_value d) of
             (Some a, Some b) \<Rightarrow> map_option (Cons (byte_of (16 * a + b))) (fromhex t)
           | _ \<Rightarrow> None))"

lemma hex_digit_not_blank: "n < 16 \<Longrightarrow> 13 < hex_digit n \<and> hex_digit n \<noteq> 32"
  by (simp add: hex_digit_def)

lemma fromhex_hex [simp]: "fromhex (hex_of_bytes bs) = Some bs"
proof (induction bs)
  case (Cons b bs)
  have lt: "unat b div 16 < 16" "unat b mod 16 < 16" using unat_byte_lt [of b] by (simp_all add: less_mult_imp_div_less)
  have "16 * (unat b div 16) + unat b mod 16 = unat b" by simp
  then show ?case
    using Cons lt hex_digit_not_blank [OF lt(1)] by (auto simp: hex_of_bytes_def)
qed (simp add: hex_of_bytes_def)

section \<open>The catalog's keys\<close>

definition hardcoded_public_key :: "byte list" where
  "hardcoded_public_key =
     map byte_of [206, 207, 86, 251, 217, 116, 68, 55, 226, 55, 204, 80, 85, 30, 85, 116,
                  14, 174, 26, 78, 188, 46, 213, 76, 13, 177, 1, 50, 143, 145, 217, 171]"

text \<open>\<open>None\<close> is an override that is no base64.\<close>

definition get_catalog_public_key :: "str \<Rightarrow> byte list option" where
  "get_catalog_public_key override = (if override \<noteq> [] then b64decode False override else Some hardcoded_public_key)"

datatype catalog_signature = Verified | NoKey | BadSignature | BadKey

definition verify_catalog_signature :: "'k ed25519 \<Rightarrow> str \<Rightarrow> byte list \<Rightarrow> byte list \<Rightarrow> catalog_signature option" where
  "verify_catalog_signature ed override data sig =
     (case get_catalog_public_key override of
        None \<Rightarrow> None
      | Some pub \<Rightarrow> Some (if pub = [] then NoKey else if length pub \<noteq> 32 then BadKey
                         else if ed_verify ed pub sig data then Verified else BadSignature))"

definition dev_signing_seed :: "byte list" where
  "dev_signing_seed = text_bytes (ascii ''cosai-mcp-dev-catalog-signing-k0'')"

text \<open>\<open>None\<close> is the error of a seed that is set and malformed.\<close>

definition seed_from_env :: "str \<Rightarrow> byte list option option" where
  "seed_from_env raw =
     (if raw = [] then Some None
      else case b64decode False raw of Some seed \<Rightarrow> if length seed = 32 then Some (Some seed) else None | None \<Rightarrow> None)"

text \<open>The key file, if one is named: \<open>Some None\<close> when it cannot be read.\<close>

definition get_signing_private_key :: "'k ed25519 \<Rightarrow> byte list option option \<Rightarrow> str \<Rightarrow> 'k option" where
  "get_signing_private_key ed key_file seed_var =
     (case key_file of
        Some None \<Rightarrow> None
      | Some (Some raw) \<Rightarrow> if length raw = 32 then Some (ed_key ed raw) else None
      | None \<Rightarrow>
          map_option (\<lambda>env_seed. ed_key ed (case env_seed of None \<Rightarrow> dev_signing_seed | Some s \<Rightarrow> s)) (seed_from_env seed_var))"

text \<open>The official files in their order; the sidecars written, up to the first file that is no JSON. \<open>None\<close>: the keys
  do not match and nothing is written.\<close>

definition sign_file :: "'k ed25519 \<Rightarrow> 'k \<Rightarrow> byte list \<Rightarrow> byte list" where
  "sign_file ed k raw = text_bytes (b64encode False (ed_sign ed k raw)) @ [10]"

fun sign_files :: "'k ed25519 \<Rightarrow> 'k \<Rightarrow> (byte list \<Rightarrow> bool) \<Rightarrow> (path \<times> byte list) list \<Rightarrow> (path \<times> byte list) list \<times> bool" where
  "sign_files ed k parses_json [] = ([], True)"
| "sign_files ed k parses_json ((p, raw) # fs) =
     (if \<not> parses_json raw then ([], False)
      else case sign_files ed k parses_json fs of (ws, ok) \<Rightarrow> ((sig_path p, sign_file ed k raw) # ws, ok))"

definition sign_catalog :: "'k ed25519 \<Rightarrow> 'k \<Rightarrow> str \<Rightarrow> (byte list \<Rightarrow> bool) \<Rightarrow> (path \<times> byte list) list \<Rightarrow> ((path \<times> byte list) list \<times> bool) option" where
  "sign_catalog ed k override parses_json fs =
     (if Some (ed_public ed k) \<noteq> get_catalog_public_key override then None else Some (sign_files ed k parses_json fs))"

section \<open>Reports\<close>

datatype 'k org_key = NoOrgKey | BadOrgKey | OrgKey 'k

definition org_signing_key :: "'k ed25519 \<Rightarrow> str \<Rightarrow> 'k org_key" where
  "org_signing_key ed raw =
     (if raw = [] then NoOrgKey
      else case b64decode True raw of
        None \<Rightarrow> BadOrgKey
      | Some seed \<Rightarrow> if length seed = 32 then OrgKey (ed_key ed seed) else BadOrgKey)"

definition b64_text :: "byte list \<Rightarrow> str" where
  "b64_text data = rstrip_eq (b64encode True data)"

definition pub_fingerprint :: "'k ed25519 \<Rightarrow> (byte list \<Rightarrow> str) \<Rightarrow> byte list \<Rightarrow> str" where
  "pub_fingerprint ed sha pub = sha (ed_der ed pub)"

record report_signature =
  rs_fingerprint :: str
  rs_public_key :: str
  rs_timestamp :: str
  rs_catalog_hash :: str
  rs_report_hash :: str
  rs_signature :: str

definition signature_to_dict :: "report_signature \<Rightarrow> (str \<times> json) list" where
  "signature_to_dict g =
     [(ascii ''public_key_fingerprint'', JStr (rs_fingerprint g)), (ascii ''public_key_b64'', JStr (rs_public_key g)),
      (ascii ''scan_timestamp'', JStr (rs_timestamp g)), (ascii ''catalog_hash'', JStr (rs_catalog_hash g)),
      (ascii ''report_hash'', JStr (rs_report_hash g)), (ascii ''signature_b64'', JStr (rs_signature g))]"

text \<open>The fields are taken as they come; a value that is no string is out of the model.\<close>

definition text_at :: "(str \<times> json) list \<Rightarrow> string \<Rightarrow> str option" where
  "text_at d k = (case map_of d (ascii k) of Some (JStr s) \<Rightarrow> Some s | _ \<Rightarrow> None)"

definition signature_from_dict :: "(str \<times> json) list \<Rightarrow> report_signature option" where
  "signature_from_dict d =
     (case (text_at d ''public_key_fingerprint'', text_at d ''public_key_b64'', text_at d ''scan_timestamp'', text_at d ''catalog_hash'',
            text_at d ''report_hash'', text_at d ''signature_b64'') of
        (Some f, Some p, Some t, Some c, Some r, Some g) \<Rightarrow>
          Some \<lparr>rs_fingerprint = f, rs_public_key = p, rs_timestamp = t, rs_catalog_hash = c, rs_report_hash = r, rs_signature = g\<rparr>
      | _ \<Rightarrow> None)"

definition signing_payload :: "str \<Rightarrow> str \<Rightarrow> str \<Rightarrow> byte list" where
  "signing_payload timestamp ch rh =
     text_bytes (canonical (JDict [(ascii ''catalog_hash'', JStr ch), (ascii ''report_hash'', JStr rh),
       (ascii ''scan_timestamp'', JStr timestamp)]))"

text \<open>\<open>None\<close> is a report that cannot be encoded.\<close>

definition sign_report :: "'k ed25519 \<Rightarrow> (byte list \<Rightarrow> str) \<Rightarrow> 'k \<Rightarrow> str \<Rightarrow> str \<Rightarrow> str \<Rightarrow> report_signature option" where
  "sign_report ed sha k report timestamp ch =
     map_option (\<lambda>bs.
       \<lparr>rs_fingerprint = pub_fingerprint ed sha (ed_public ed k), rs_public_key = b64_text (ed_public ed k), rs_timestamp = timestamp,
        rs_catalog_hash = ch, rs_report_hash = sha bs,
        rs_signature = b64_text (ed_sign ed k (signing_payload timestamp ch (sha bs)))\<rparr>)
       (utf8_encode report)"

definition unpadded :: "str \<Rightarrow> byte list option" where
  "unpadded s = urlsafe_b64decode (s @ b64_pad s)"

definition verify_report_signature :: "'k ed25519 \<Rightarrow> (byte list \<Rightarrow> str) \<Rightarrow> report_signature \<Rightarrow> str \<Rightarrow> str \<Rightarrow> bool option" where
  "verify_report_signature ed sha g report trusted =
     (case utf8_encode report of
        None \<Rightarrow> None
      | Some bs \<Rightarrow>
          Some (if sha bs \<noteq> rs_report_hash g then False
                else case unpadded (rs_public_key g) of
                  None \<Rightarrow> False
                | Some pub \<Rightarrow>
                    (if length pub \<noteq> 32 then False
                     else if pub_fingerprint ed sha pub \<noteq> rs_fingerprint g then False
                     else if pub_fingerprint ed sha pub \<noteq> trusted then False
                     else case unpadded (rs_signature g) of
                       None \<Rightarrow> False
                     | Some sig \<Rightarrow>
                         ed_verify ed pub sig (signing_payload (rs_timestamp g) (rs_catalog_hash g) (rs_report_hash g)))))"

lemma unpadded_text [simp]: "unpadded (b64_text bs) = Some bs"
  using urlsafe_round_trip by (simp add: unpadded_def b64_text_def rstrip_b64encode)

text \<open>A signed report verifies against the fingerprint of the key that signed it; a report that verifies is the one that
  was signed, by the key with the trusted fingerprint.\<close>

lemma report_round_trip_signature:
  "ed_ok ed \<Longrightarrow> sign_report ed sha k report t c = Some g \<Longrightarrow>
     verify_report_signature ed sha g report (pub_fingerprint ed sha (ed_public ed k)) = Some True"
  by (auto simp: sign_report_def verify_report_signature_def ed_ok_def)

lemma report_verified_exact:
  "verify_report_signature ed sha g report trusted = Some True \<longleftrightarrow>
     (\<exists>bs pub sig. utf8_encode report = Some bs \<and> sha bs = rs_report_hash g \<and> unpadded (rs_public_key g) = Some pub \<and> length pub = 32 \<and>
        pub_fingerprint ed sha pub = trusted \<and> rs_fingerprint g = trusted \<and> unpadded (rs_signature g) = Some sig \<and>
        ed_verify ed pub sig (signing_payload (rs_timestamp g) (rs_catalog_hash g) (rs_report_hash g)))"
  by (auto simp: verify_report_signature_def split: option.splits if_splits)

lemma signature_dict_round_trip: "signature_from_dict (signature_to_dict g) = Some g"
  by (cases g) (simp add: signature_from_dict_def signature_to_dict_def text_at_def)

section \<open>Trust anchors\<close>

text \<open>The key ring: the package may be missing, and a stored key may fail to decode, which is an exception of its own. A
  key that is absent is generated and stored.\<close>

datatype keyring = NoKeyring | KeyAbsent | KeyStored str

datatype 'k key_result = Key 'k | KeyringMissing | KeyBroken | OrgKeyBroken

definition key_of_raw :: "'k ed25519 \<Rightarrow> byte list option \<Rightarrow> 'k key_result" where
  "key_of_raw ed raw = (case raw of None \<Rightarrow> KeyBroken | Some r \<Rightarrow> if length r = 32 then Key (ed_key ed r) else KeyBroken)"

definition scorecard_private_key :: "'k ed25519 \<Rightarrow> str \<Rightarrow> keyring \<Rightarrow> 'k \<Rightarrow> 'k key_result" where
  "scorecard_private_key ed org_var ring fresh =
     (case org_signing_key ed org_var of
        OrgKey k \<Rightarrow> Key k
      | BadOrgKey \<Rightarrow> OrgKeyBroken
      | NoOrgKey \<Rightarrow>
          (case ring of
             NoKeyring \<Rightarrow> KeyringMissing
           | KeyAbsent \<Rightarrow> Key fresh
           | KeyStored s \<Rightarrow> if s = [] then Key fresh else key_of_raw ed (b64decode False s)))"

definition inventory_private_key :: "'k ed25519 \<Rightarrow> keyring \<Rightarrow> 'k \<Rightarrow> 'k key_result" where
  "inventory_private_key ed ring fresh =
     (case ring of
        NoKeyring \<Rightarrow> KeyringMissing
      | KeyAbsent \<Rightarrow> Key fresh
      | KeyStored s \<Rightarrow> if s = [] then Key fresh else key_of_raw ed (fromhex s))"

datatype anchor = Anchor "byte list" | NoAnchor | BadAnchor | AnchorCrash

definition pinned_anchor :: "str \<Rightarrow> anchor" where
  "pinned_anchor var =
     (case b64decode True var of None \<Rightarrow> BadAnchor | Some raw \<Rightarrow> if length raw = 32 then Anchor raw else BadAnchor)"

definition anchor_of_key :: "'k ed25519 \<Rightarrow> 'k key_result \<Rightarrow> anchor" where
  "anchor_of_key ed r = (case r of Key k \<Rightarrow> Anchor (ed_public ed k) | KeyringMissing \<Rightarrow> NoAnchor | _ \<Rightarrow> AnchorCrash)"

definition scorecard_anchor :: "'k ed25519 \<Rightarrow> str \<Rightarrow> str \<Rightarrow> keyring \<Rightarrow> 'k \<Rightarrow> anchor" where
  "scorecard_anchor ed pub_var org_var ring fresh =
     (if pub_var \<noteq> [] then pinned_anchor pub_var
      else case org_signing_key ed org_var of
        BadOrgKey \<Rightarrow> BadAnchor
      | OrgKey k \<Rightarrow> Anchor (ed_public ed k)
      | NoOrgKey \<Rightarrow> anchor_of_key ed (scorecard_private_key ed org_var ring fresh))"

definition inventory_anchor :: "'k ed25519 \<Rightarrow> str \<Rightarrow> keyring \<Rightarrow> 'k \<Rightarrow> anchor" where
  "inventory_anchor ed pub_var ring fresh =
     (if pub_var \<noteq> [] then pinned_anchor pub_var else anchor_of_key ed (inventory_private_key ed ring fresh))"

section \<open>Scorecards\<close>

definition signable_dict :: "scorecard \<Rightarrow> (str \<times> json) list" where
  "signable_dict s = filter (\<lambda>(k, _). k \<notin> {ascii ''public_key'', ascii ''signature''}) (scorecard_to_dict s)"

definition signed_bytes :: "scorecard \<Rightarrow> byte list" where
  "signed_bytes s = text_bytes (canonical (JDict (signable_dict s)))"

definition sign_scorecard :: "'k ed25519 \<Rightarrow> 'k \<Rightarrow> scorecard \<Rightarrow> scorecard" where
  "sign_scorecard ed k s =
     s\<lparr>sk_public_key := hex_of_bytes (ed_public ed k), sk_signature := hex_of_bytes (ed_sign ed k (signed_bytes s))\<rparr>"

datatype verdict_of_file = ValidFile | InvalidFile | VerifierCrash

definition verify_scorecard :: "'k ed25519 \<Rightarrow> anchor \<Rightarrow> scorecard \<Rightarrow> verdict_of_file" where
  "verify_scorecard ed a s =
     (if \<not> is_signed s then InvalidFile
      else case fromhex (sk_public_key s) of
        None \<Rightarrow> InvalidFile
      | Some pub \<Rightarrow>
          (case a of
             AnchorCrash \<Rightarrow> VerifierCrash
           | BadAnchor \<Rightarrow> InvalidFile
           | NoAnchor \<Rightarrow> InvalidFile
           | Anchor trusted \<Rightarrow>
               (if pub \<noteq> trusted then InvalidFile
                else case fromhex (sk_signature s) of
                  None \<Rightarrow> InvalidFile
                | Some sig \<Rightarrow> if length pub = 32 \<and> ed_verify ed pub sig (signed_bytes s) then ValidFile else InvalidFile)))"

lemma signed_bytes_unsigned: "signed_bytes (s\<lparr>sk_public_key := p, sk_signature := g\<rparr>) = signed_bytes s"
  by (simp add: signed_bytes_def signable_dict_def scorecard_to_dict_def split: option.split)

lemma scorecard_sign_verify:
  assumes "ed_ok ed" "ed_sign ed k (signed_bytes s) \<noteq> []"
  shows "verify_scorecard ed (Anchor (ed_public ed k)) (sign_scorecard ed k s) = ValidFile"
proof -
  have ne: "hex_of_bytes bs \<noteq> []" if "bs \<noteq> []" for bs using that by (cases bs) (simp_all add: hex_of_bytes_def)
  have "ed_public ed k \<noteq> []" using assms(1) unfolding ed_ok_def by (metis length_0_conv zero_neq_numeral)
  then show ?thesis
    using assms ne by (simp add: verify_scorecard_def sign_scorecard_def is_signed_def signed_bytes_unsigned ed_ok_def)
qed

text \<open>A scorecard is valid only under the trusted key: without an anchor, or with its own embedded key, it is not.\<close>

lemma scorecard_valid_exact:
  "verify_scorecard ed a s = ValidFile \<longleftrightarrow>
     (\<exists>trusted sig. a = Anchor trusted \<and> is_signed s \<and> fromhex (sk_public_key s) = Some trusted \<and> length trusted = 32 \<and>
        fromhex (sk_signature s) = Some sig \<and> ed_verify ed trusted sig (signed_bytes s))"
  by (auto simp: verify_scorecard_def split: option.splits anchor.splits if_splits)

section \<open>Inventories\<close>

definition inventory_bytes :: "json \<Rightarrow> byte list" where
  "inventory_bytes v = text_bytes (canonical v)"

definition sign_inventory :: "'k ed25519 \<Rightarrow> 'k \<Rightarrow> tool_inventory \<Rightarrow> json option" where
  "sign_inventory ed k i =
     map_option (\<lambda>d. JDict [(ascii ''inventory'', JDict d), (ascii ''signature'', JStr (hex_of_bytes (ed_sign ed k (inventory_bytes (JDict d))))),
                            (ascii ''public_key'', JStr (hex_of_bytes (ed_public ed k)))])
       (inventory_to_dict i)"

datatype inventory_verdict = InventoryOk tool_inventory | InventoryInvalid | InventoryCrash

definition read_inventory :: "py_text \<Rightarrow> json \<Rightarrow> inventory_verdict" where
  "read_inventory pt v =
     (case v of JDict d \<Rightarrow> (case inventory_from_dict pt d of None \<Rightarrow> InventoryCrash | Some i \<Rightarrow> InventoryOk i) | _ \<Rightarrow> InventoryCrash)"

text \<open>A field that is no string makes the decoding raise a \<open>TypeError\<close>, which nothing catches.\<close>

definition check_signature :: "'k ed25519 \<Rightarrow> py_text \<Rightarrow> byte list \<Rightarrow> json \<Rightarrow> json \<Rightarrow> inventory_verdict" where
  "check_signature ed pt pub sg body =
     (if length pub \<noteq> 32 then InventoryInvalid
      else case sg of
        JStr g \<Rightarrow>
          (case fromhex g of
             None \<Rightarrow> InventoryInvalid
           | Some sig \<Rightarrow> if ed_verify ed pub sig (inventory_bytes body) then read_inventory pt body else InventoryInvalid)
      | _ \<Rightarrow> InventoryCrash)"

definition verify_inventory :: "'k ed25519 \<Rightarrow> py_text \<Rightarrow> anchor \<Rightarrow> json \<Rightarrow> inventory_verdict" where
  "verify_inventory ed pt a artifact =
     (case artifact of
        JDict d \<Rightarrow>
          (case (map_of d (ascii ''inventory''), map_of d (ascii ''signature''), map_of d (ascii ''public_key'')) of
             (Some body, Some sg, Some pk) \<Rightarrow>
               (case a of
                  AnchorCrash \<Rightarrow> InventoryCrash
                | BadAnchor \<Rightarrow> InventoryInvalid
                | NoAnchor \<Rightarrow> InventoryInvalid
                | Anchor trusted \<Rightarrow>
                    (case pk of
                       JStr p \<Rightarrow>
                         (case fromhex p of
                            None \<Rightarrow> InventoryInvalid
                          | Some pub \<Rightarrow> if pub \<noteq> trusted then InventoryInvalid else check_signature ed pt pub sg body)
                     | _ \<Rightarrow> InventoryCrash))
           | _ \<Rightarrow> InventoryInvalid)
      | _ \<Rightarrow> InventoryCrash)"

lemma read_inventory_ok: "read_inventory pt v = InventoryOk i \<longleftrightarrow> (\<exists>d. v = JDict d \<and> inventory_from_dict pt d = Some i)"
  by (auto simp: read_inventory_def split: json.splits option.splits)

lemma check_signature_ok:
  "check_signature ed pt pub sg body = InventoryOk i \<longleftrightarrow>
     length pub = 32 \<and> (\<exists>g sig. sg = JStr g \<and> fromhex g = Some sig \<and> ed_verify ed pub sig (inventory_bytes body)) \<and> read_inventory pt body = InventoryOk i"
  by (auto simp: check_signature_def split: json.splits option.splits)

text \<open>An inventory that verifies was signed by the trusted key, over exactly the value that is read.\<close>

definition signed_by :: "'k ed25519 \<Rightarrow> byte list \<Rightarrow> (str \<times> json) list \<Rightarrow> (str \<times> json) list \<Rightarrow> bool" where
  "signed_by ed trusted d body \<longleftrightarrow>
     length trusted = 32 \<and> map_of d (ascii ''inventory'') = Some (JDict body) \<and>
     (\<exists>p g sig. map_of d (ascii ''public_key'') = Some (JStr p) \<and> fromhex p = Some trusted \<and>
        map_of d (ascii ''signature'') = Some (JStr g) \<and> fromhex g = Some sig \<and> ed_verify ed trusted sig (inventory_bytes (JDict body)))"

lemma inventory_valid_exact:
  "verify_inventory ed pt a artifact = InventoryOk i \<longleftrightarrow>
     (\<exists>trusted d body. a = Anchor trusted \<and> artifact = JDict d \<and> signed_by ed trusted d body \<and> inventory_from_dict pt body = Some i)"
  unfolding verify_inventory_def signed_by_def
  by (auto simp: check_signature_ok read_inventory_ok simp del: ascii_simps split: json.splits option.splits anchor.splits if_splits)

lemma inventory_sign_verify:
  assumes "ed_ok ed" "sign_inventory ed k i = Some artifact" "inventory_to_dict i = Some d"
  shows "verify_inventory ed pt (Anchor (ed_public ed k)) artifact = read_inventory pt (JDict d)"
  using assms by (auto simp: sign_inventory_def verify_inventory_def check_signature_def ed_ok_def)

end
