(* ===== verification/Artifact_Commands.thy ===== *)
theory Artifact_Commands
  imports Signing Audit_Log
begin

text \<open>
  The commands that check artifacts (\<open>cli.py\<close>, \<open>report/verify.py\<close>): \<open>scorecard verify\<close> and \<open>scorecard show\<close> with the
  strict reading of a scorecard file, \<open>audit verify\<close>, \<open>inventory verify\<close> and \<open>inventory diff\<close>, each as its exit code.
  A file is what \<open>json.loads\<close> makes of it (\<open>None\<close> if it cannot be read), with every pair of an object kept.
\<close>

section \<open>Strict reading of a scorecard\<close>

fun no_duplicate_keys :: "json \<Rightarrow> bool" where
  "no_duplicate_keys (JDict d) \<longleftrightarrow> distinct (map fst d) \<and> list_all (\<lambda>(k, v). no_duplicate_keys v) d"
| "no_duplicate_keys (JList xs) \<longleftrightarrow> list_all no_duplicate_keys xs"
| "no_duplicate_keys v \<longleftrightarrow> True"

text \<open>Every field of the file equals the field of the signed form; a leaf in value and type, and no NaN equals itself.\<close>

function (sequential) raw_matches :: "json \<Rightarrow> json \<Rightarrow> bool" where
  "raw_matches (JDict d) (JDict c) \<longleftrightarrow>
     list_all (\<lambda>(k, v). case map_of c k of None \<Rightarrow> False | Some w \<Rightarrow> raw_matches v w) d"
| "raw_matches (JList xs) (JList ys) \<longleftrightarrow> length xs = length ys \<and> list_all (\<lambda>(x, y). raw_matches x y) (zip xs ys)"
| "raw_matches (JDict d) w \<longleftrightarrow> False"
| "raw_matches (JList xs) w \<longleftrightarrow> False"
| "raw_matches (JNonFinite x) w \<longleftrightarrow> x \<noteq> NaN \<and> w = JNonFinite x"
| "raw_matches v w \<longleftrightarrow> v = w"
  by pat_completeness auto
termination
proof (relation "measure (size \<circ> fst)")
  fix xs ys :: "json list" and p x y
  assume "p \<in> set (zip xs ys)" "(x, y) = p"
  then have "x \<in> set xs" by (metis set_zip_leftD)
  then show "((x, y), (JList xs, JList ys)) \<in> measure (size \<circ> fst)"
    using size_list_estimation' [of x xs "size x" size] by simp
next
  fix d c :: "(str \<times> json) list" and p k v w
  assume "p \<in> set d" "(k, v) = p"
  then show "((v, w), (JDict d, JDict c)) \<in> measure (size \<circ> fst)"
    using size_list_estimation' [of p d "size v" "size_prod (\<lambda>x. 0) size"] by (auto simp: less_Suc_eq_le)
qed simp

definition load_scorecard_strict :: "py_text \<Rightarrow> (json \<Rightarrow> int option) \<Rightarrow> json option \<Rightarrow> scorecard option" where
  "load_scorecard_strict pt to_int parsed =
     (case parsed of
        Some (JDict d) \<Rightarrow>
          (if \<not> no_duplicate_keys (JDict d) then None
           else case scorecard_from_dict pt to_int d of
             None \<Rightarrow> None
           | Some s \<Rightarrow> if raw_matches (JDict d) (JDict (scorecard_to_dict s)) then Some s else None)
      | _ \<Rightarrow> None)"

section \<open>Verifying a scorecard\<close>

datatype bundle_outcome = BundleUnreadable | NoSigstore | BundleInvalid | BundleValid

record verify_options =
  vo_catalog_pin :: "str option"
  vo_bundle :: "str option"
  vo_identity :: "str option"
  vo_issuer :: "str option"
  vo_staging :: bool

definition catalog_pinned :: "scorecard \<Rightarrow> str option \<Rightarrow> bool" where
  "catalog_pinned s pin \<longleftrightarrow> (case pin of None \<Rightarrow> True | Some h \<Rightarrow> sk_catalog_hash s = h)"

text \<open>The exit code of a refusal, or none. \<open>sigstore\<close> verifies the bundle of a file name for the bytes, an identity and
  an issuer.\<close>

definition check_bundle :: "(str \<Rightarrow> byte list \<Rightarrow> str \<Rightarrow> str option \<Rightarrow> bool \<Rightarrow> bundle_outcome) \<Rightarrow> scorecard \<Rightarrow> verify_options \<Rightarrow> nat option" where
  "check_bundle sigstore s o' =
     (case vo_bundle o' of
        None \<Rightarrow> None
      | Some b \<Rightarrow>
          (if b = [] then None
           else case vo_identity o' of
             None \<Rightarrow> Some 2
           | Some who \<Rightarrow>
               (if who = [] then Some 2
                else case sigstore b (signed_bytes s) who (vo_issuer o') (vo_staging o') of
                  BundleUnreadable \<Rightarrow> Some 2 | NoSigstore \<Rightarrow> Some 2 | BundleInvalid \<Rightarrow> Some 1 | BundleValid \<Rightarrow> None)))"

text \<open>An exception that nothing catches ends the process with exit code 1.\<close>

definition scorecard_verify :: "'k ed25519 \<Rightarrow> py_text \<Rightarrow> (json \<Rightarrow> int option) \<Rightarrow> anchor \<Rightarrow>
    (str \<Rightarrow> byte list \<Rightarrow> str \<Rightarrow> str option \<Rightarrow> bool \<Rightarrow> bundle_outcome) \<Rightarrow> verify_options \<Rightarrow> json option \<Rightarrow> nat" where
  "scorecard_verify ed pt to_int a sigstore o' parsed =
     (case load_scorecard_strict pt to_int parsed of
        None \<Rightarrow> 2
      | Some s \<Rightarrow>
          (if verify_scorecard ed a s \<noteq> ValidFile then 1
           else if \<not> catalog_pinned s (vo_catalog_pin o') then 1
           else case check_bundle sigstore s o' of None \<Rightarrow> 0 | Some code \<Rightarrow> code))"

text \<open>\<open>show\<close> checks the signature and the pin only when it is asked to.\<close>

definition scorecard_show :: "'k ed25519 \<Rightarrow> py_text \<Rightarrow> (json \<Rightarrow> int option) \<Rightarrow> anchor \<Rightarrow>
    (str \<Rightarrow> byte list \<Rightarrow> str \<Rightarrow> str option \<Rightarrow> bool \<Rightarrow> bundle_outcome) \<Rightarrow> bool \<Rightarrow> verify_options \<Rightarrow> json option \<Rightarrow> nat" where
  "scorecard_show ed pt to_int a sigstore do_verify o' parsed =
     (case load_scorecard_strict pt to_int parsed of
        None \<Rightarrow> 2
      | Some s \<Rightarrow>
          (if do_verify \<and> (verify_scorecard ed a s \<noteq> ValidFile \<or> \<not> catalog_pinned s (vo_catalog_pin o')) then 1
           else case check_bundle sigstore s o' of None \<Rightarrow> 0 | Some code \<Rightarrow> code))"

section \<open>Audit logs\<close>

datatype verify_status = VerifyOk | ChainBroken | LogNotFound | LogEmpty

text \<open>\<open>None\<close> is a file that does not exist.\<close>

definition verify_audit_log :: "(str \<Rightarrow> str) \<Rightarrow> byte list list option \<Rightarrow> str option \<Rightarrow> verify_status \<times> nat" where
  "verify_audit_log sha entries expected_head =
     (case entries of
        None \<Rightarrow> (LogNotFound, 0)
      | Some raws \<Rightarrow>
          (case verify_chain sha (Some raws) expected_head of
             Inl err \<Rightarrow> (ChainBroken, 0)
           | Inr n \<Rightarrow> if n = 0 then (LogEmpty, 0) else (VerifyOk, n)))"

definition audit_verify :: "(str \<Rightarrow> str) \<Rightarrow> byte list list option \<Rightarrow> str option \<Rightarrow> nat" where
  "audit_verify sha entries expected_head =
     (case fst (verify_audit_log sha entries expected_head) of VerifyOk \<Rightarrow> 0 | ChainBroken \<Rightarrow> 1 | LogNotFound \<Rightarrow> 2 | LogEmpty \<Rightarrow> 2)"

section \<open>Inventories\<close>

definition inventory_verify :: "'k ed25519 \<Rightarrow> py_text \<Rightarrow> anchor \<Rightarrow> json option \<Rightarrow> nat" where
  "inventory_verify ed pt a parsed =
     (case parsed of
        None \<Rightarrow> 2
      | Some v \<Rightarrow> (case verify_inventory ed pt a v of InventoryOk _ \<Rightarrow> 0 | InventoryInvalid \<Rightarrow> 1 | InventoryCrash \<Rightarrow> 1))"

definition looks_signed :: "(str \<times> json) list \<Rightarrow> bool" where
  "looks_signed d \<longleftrightarrow> map_of d (ascii ''inventory'') \<noteq> None \<and> map_of d (ascii ''signature'') \<noteq> None"

text \<open>\<open>None\<close> is any exception; a value that is no object always raises one.\<close>

definition load_artifact :: "'k ed25519 \<Rightarrow> py_text \<Rightarrow> anchor \<Rightarrow> bool \<Rightarrow> json option \<Rightarrow> tool_inventory option" where
  "load_artifact ed pt a skip_verify parsed =
     (case parsed of
        Some (JDict d) \<Rightarrow>
          (if \<not> looks_signed d then inventory_from_dict pt d
           else if skip_verify then (case get d (ascii ''inventory'') of JDict i \<Rightarrow> inventory_from_dict pt i | _ \<Rightarrow> None)
           else case verify_inventory ed pt a (JDict d) of InventoryOk i \<Rightarrow> Some i | _ \<Rightarrow> None)
      | _ \<Rightarrow> None)"

definition inventory_diff :: "'k ed25519 \<Rightarrow> py_text \<Rightarrow> anchor \<Rightarrow> bool \<Rightarrow> bool \<Rightarrow> json option \<Rightarrow> json option \<Rightarrow> nat" where
  "inventory_diff ed pt a fail_on_drift skip_verify baseline current =
     (case (load_artifact ed pt a skip_verify baseline, load_artifact ed pt a skip_verify current) of
        (Some b, Some c) \<Rightarrow> if detect_drift b c = [] then 0 else if fail_on_drift then 1 else 0
      | _ \<Rightarrow> 2)"

section \<open>What a valid scorecard says\<close>

lemma strict_load_exact:
  "load_scorecard_strict pt to_int parsed = Some s \<longleftrightarrow>
     (\<exists>d. parsed = Some (JDict d) \<and> no_duplicate_keys (JDict d) \<and> scorecard_from_dict pt to_int d = Some s \<and>
        raw_matches (JDict d) (JDict (scorecard_to_dict s)))"
  by (auto simp: load_scorecard_strict_def split: option.splits json.splits if_splits)

lemma bundle_passes:
  "check_bundle sigstore s o' = None \<longleftrightarrow>
     (case vo_bundle o' of None \<Rightarrow> True | Some b \<Rightarrow> b = [] \<or>
        (\<exists>who. vo_identity o' = Some who \<and> who \<noteq> [] \<and> sigstore b (signed_bytes s) who (vo_issuer o') (vo_staging o') = BundleValid))"
  by (auto simp: check_bundle_def split: option.splits bundle_outcome.splits)

text \<open>Exit code 0 of \<open>scorecard verify\<close>: the file has no duplicate keys, every field in it is the one that the trusted key
  signed, the catalog is the pinned one, and a bundle that was given is valid for the identity that was given.\<close>

lemma scorecard_verify_zero:
  "scorecard_verify ed pt to_int a sigstore o' parsed = 0 \<longleftrightarrow>
     (\<exists>d s. parsed = Some (JDict d) \<and> no_duplicate_keys (JDict d) \<and> scorecard_from_dict pt to_int d = Some s \<and>
        raw_matches (JDict d) (JDict (scorecard_to_dict s)) \<and> verify_scorecard ed a s = ValidFile \<and>
        catalog_pinned s (vo_catalog_pin o') \<and> check_bundle sigstore s o' = None)"
proof -
  have nz: "check_bundle sigstore s o' = Some code \<Longrightarrow> code \<noteq> 0" for s code
    by (auto simp: check_bundle_def split: option.splits bundle_outcome.splits if_splits)
  have "scorecard_verify ed pt to_int a sigstore o' parsed = 0 \<longleftrightarrow>
      (\<exists>s. load_scorecard_strict pt to_int parsed = Some s \<and> verify_scorecard ed a s = ValidFile \<and>
        catalog_pinned s (vo_catalog_pin o') \<and> check_bundle sigstore s o' = None)"
    using nz by (cases "load_scorecard_strict pt to_int parsed") (auto simp: scorecard_verify_def split: option.split)
  then show ?thesis unfolding strict_load_exact by (simp del: raw_matches.simps no_duplicate_keys.simps) (rule iffI; elim exE conjE; intro exI conjI; assumption)
qed

text \<open>A field of the file that is text, a number or a truth value is exactly the signed one.\<close>

definition is_leaf :: "json \<Rightarrow> bool" where
  "is_leaf v = (case v of JDict _ \<Rightarrow> False | JList _ \<Rightarrow> False | _ \<Rightarrow> True)"

lemma raw_matches_field:
  assumes "raw_matches (JDict d) (JDict c)" "map_of d k = Some v"
  shows "\<exists>w. map_of c k = Some w \<and> raw_matches v w"
  using assms map_of_SomeD [OF assms(2)] by (fastforce simp: list_all_iff split: option.splits)

lemma raw_matches_leaf: "raw_matches v w \<Longrightarrow> is_leaf v \<Longrightarrow> v = w"
  by (induction v w rule: raw_matches.induct) (auto simp: is_leaf_def)

lemma displayed_is_signed:
  assumes "raw_matches (JDict d) (JDict (scorecard_to_dict s))" "map_of d k = Some v" "is_leaf v"
  shows "map_of (scorecard_to_dict s) k = Some v"
  using raw_matches_field [OF assms(1,2)] raw_matches_leaf assms(3) by blast

text \<open>\<open>show\<close> without \<open>--verify\<close> ignores the pin that the operator gave.\<close>

lemma show_ignores_pin:
  "scorecard_show ed pt to_int a sigstore False o' parsed = scorecard_show ed pt to_int a sigstore False (o'\<lparr>vo_catalog_pin := pin\<rparr>) parsed"
proof -
  have "check_bundle sigstore s (o'\<lparr>vo_catalog_pin := pin\<rparr>) = check_bundle sigstore s o'" for s
    by (simp add: check_bundle_def split: option.split)
  then show ?thesis by (simp add: scorecard_show_def split: option.split)
qed

section \<open>What the inventory gate says\<close>

lemma diff_clean_exact:
  "inventory_diff ed pt a True skip_verify baseline current = 0 \<longleftrightarrow>
     (\<exists>b c. load_artifact ed pt a skip_verify baseline = Some b \<and> load_artifact ed pt a skip_verify current = Some c \<and> tool_map b = tool_map c)"
  by (auto simp: inventory_diff_def no_drift_exact split: option.splits)

lemma signed_artifact_checked:
  assumes "load_artifact ed pt a False (Some (JDict d)) = Some i" "looks_signed d"
  shows "\<exists>trusted body. a = Anchor trusted \<and> signed_by ed trusted d body \<and> inventory_from_dict pt body = Some i"
  using assms inventory_valid_exact [of ed pt a "JDict d" i] by (auto simp: load_artifact_def split: inventory_verdict.splits)

text \<open>An artifact without a signature is accepted without one: who can change a signed artifact can also take its
  signature away.\<close>

lemma stripped_artifact_accepted:
  "map_of d (ascii ''signature'') = None \<Longrightarrow> load_artifact ed pt a False (Some (JDict d)) = inventory_from_dict pt d"
  by (simp add: load_artifact_def looks_signed_def)

lemma audit_zero_exact:
  "audit_verify sha entries expected_head = 0 \<longleftrightarrow>
     (\<exists>raws n. entries = Some raws \<and> verify_chain sha (Some raws) expected_head = Inr n \<and> n > 0)"
  by (auto simp: audit_verify_def verify_audit_log_def split: option.splits sum.splits)

end
