(* ===== verification/Html_Report.thy ===== *)
theory Html_Report
  imports Scorecard Remediation
begin

text \<open>
  The HTML report (\<open>report/html.py\<close>): its fixed parts, the rendering of sections, probes, scenarios and remediations, and
  the page. A template is written with the grave accent for the apostrophe, the caret for the double quote and the
  tilde for the line end. \<open>html.unescape\<close>, \<open>str.lower\<close> and \<open>str.strip\<close> are functions of the environment or of \<open>Py_Value\<close>.
\<close>

definition mk :: "string \<Rightarrow> str" where
  "mk s = map (\<lambda>c. if c = CHR 0x60 then 39 else if c = CHR 0x5E then 34 else if c = CHR 0x7E then 10 else of_char c) s"

lemma mk_simps [simp]:
  "mk [] = []"
  "mk (c # s) = (if c = CHR 0x60 then 39 else if c = CHR 0x5E then 34 else if c = CHR 0x7E then 10 else of_char c) # mk s"
  by (simp_all add: mk_def)

section \<open>The style sheet\<close>

definition css_base :: "str list" where
  "css_base =
    [mk '':root {'',
     mk ''  --mn-bg: #0F1521;'',
     mk ''  --mn-surface: #1A2332;'',
     mk ''  --mn-surface-2: #20293A;'',
     mk ''  --mn-surface-3: #283345;'',
     mk ''  --mn-teal: #0B7285;'',
     mk ''  --mn-teal-hover: #065A6E;'',
     mk ''  --mn-teal-08: rgba(11,114,133,0.08);'',
     mk ''  --mn-teal-16: rgba(11,114,133,0.16);'',
     mk ''  --mn-teal-25: rgba(11,114,133,0.25);'',
     mk ''  --mn-text: #F5F0E8;'',
     mk ''  --mn-text-2: #C8C8C0;'',
     mk ''  --mn-text-3: #7A8599;'',
     mk ''  --mn-border: rgba(255,255,255,0.07);'',
     mk ''  --mn-border-md: rgba(255,255,255,0.12);'',
     mk ''  --mn-border-strong: rgba(255,255,255,0.20);'',
     mk ''  --mn-ok: #10B981;'',
     mk ''  --mn-ok-bg: rgba(16,185,129,0.12);'',
     mk ''  --mn-warn: #F59E0B;'',
     mk ''  --mn-warn-bg: rgba(245,158,11,0.12);'',
     mk ''  --mn-error: #DC2626;'',
     mk ''  --mn-error-bg: rgba(220,38,38,0.12);'',
     mk ''  --mn-shadow: 0 2px 8px rgba(0,0,0,0.30);'',
     mk ''  --mn-shadow-md: 0 8px 24px rgba(0,0,0,0.35);'',
     mk ''  --mn-r-md: 6px;'',
     mk ''  --mn-r-lg: 8px;'',
     mk ''  --mn-r-xl: 12px;'',
     mk ''}'',
     mk ''* { box-sizing: border-box; }'',
     mk ''body {'',
     mk ''  font-family: `Inter`, system-ui, -apple-system, BlinkMacSystemFont,'',
     mk ''               `Segoe UI`, Helvetica, Arial, sans-serif;'',
     mk ''  background: var(--mn-bg);'',
     mk ''  color: var(--mn-text-2);'',
     mk ''  max-width: 1040px;'',
     mk ''  margin: 0 auto;'',
     mk ''  padding: 40px 24px 80px;'',
     mk ''  line-height: 1.6;'',
     mk ''  font-size: 0.9375rem;'',
     mk ''}'',
     mk ''a { color: var(--mn-teal); text-decoration: none; }'',
     mk ''a:hover { text-decoration: underline; }'',
     mk ''h1 {'',
     mk ''  font-size: 1.5rem; font-weight: 700; color: var(--mn-text);'',
     mk ''  margin: 0 0 4px 0; letter-spacing: -0.02em;'',
     mk ''}'',
     mk ''h2 { font-size: 1rem; font-weight: 600; color: var(--mn-text); margin: 0 0 4px 0; }'',
     mk ''h3 { font-size: 0.875rem; font-weight: 600; color: var(--mn-text-2); margin: 10px 0 3px 0; }'',
     mk ''.logo-row { display: flex; align-items: center; gap: 10px; margin-bottom: 24px; }'',
     mk ''.logo-badge {'',
     mk ''  background: var(--mn-teal); color: #fff;'',
     mk ''  font-size: 0.75rem; font-weight: 700; letter-spacing: 0.06em;'',
     mk ''  padding: 4px 10px; border-radius: var(--mn-r-md);'',
     mk ''}'',
     mk ''.meta {'',
     mk ''  background: var(--mn-surface); border: 1px solid var(--mn-border-md);'',
     mk ''  border-radius: var(--mn-r-xl); padding: 16px 20px; margin: 0 0 20px 0;'',
     mk ''  display: grid; grid-template-columns: repeat(auto-fit, minmax(200px, 1fr));'',
     mk ''  gap: 8px 24px;'',
     mk ''}'',
     mk ''.meta-item { font-size: 0.8125rem; }'',
     mk ''.meta-item .lbl { color: var(--mn-text-3); font-size: 0.75rem;'',
     mk ''                  text-transform: uppercase; letter-spacing: 0.05em; display: block; }'',
     mk ''.meta-item .val { color: var(--mn-text); font-weight: 500; }'',
     mk ''.summary-grid {'',
     mk ''  display: grid; grid-template-columns: repeat(5, 1fr);'',
     mk ''  gap: 12px; margin: 0 0 28px 0;'',
     mk ''}'',
     mk ''.stat-box {'',
     mk ''  background: var(--mn-surface); border: 1px solid var(--mn-border-md);'',
     mk ''  border-radius: var(--mn-r-xl); padding: 16px 20px; text-align: center;'',
     mk ''}'',
     mk ''.stat-box .num { font-size: 2rem; font-weight: 700; line-height: 1; }'',
     mk ''.stat-box .lbl { font-size: 0.75rem; color: var(--mn-text-3);'',
     mk ''                 text-transform: uppercase; letter-spacing: 0.05em; margin-top: 6px; }'',
     mk ''.num-critical { color: #DC2626; }'',
     mk ''.num-high     { color: #F59E0B; }'',
     mk ''.num-pass     { color: var(--mn-ok); }'',
     mk ''.num-neutral  { color: var(--mn-text-3); }'',
     mk '''']"

definition css_tables :: "str list" where
  "css_tables =
    [mk ''/* ---- findings table ---- */'',
     mk ''.table-wrap {'',
     mk ''  background: var(--mn-surface); border: 1px solid var(--mn-border-md);'',
     mk ''  border-radius: var(--mn-r-xl); margin: 0 0 32px 0; overflow: hidden;'',
     mk ''}'',
     mk ''.table-wrap h2 {'',
     mk ''  padding: 14px 20px 12px; border-bottom: 1px solid var(--mn-border);'',
     mk ''  font-size: 0.875rem; text-transform: uppercase; letter-spacing: 0.06em;'',
     mk ''  color: var(--mn-text-3);'',
     mk ''}'',
     mk ''table { width: 100%; border-collapse: collapse; font-size: 0.8125rem; }'',
     mk ''thead th {'',
     mk ''  background: var(--mn-surface-2); color: var(--mn-text-3);'',
     mk ''  font-size: 0.6875rem; font-weight: 600; text-transform: uppercase;'',
     mk ''  letter-spacing: 0.06em; padding: 8px 14px; text-align: left;'',
     mk ''  border-bottom: 1px solid var(--mn-border-md);'',
     mk ''}'',
     mk ''tbody tr { border-bottom: 1px solid var(--mn-border); }'',
     mk ''tbody tr:last-child { border-bottom: none; }'',
     mk ''tbody tr:hover { background: var(--mn-surface-3); }'',
     mk ''tbody td { padding: 10px 14px; color: var(--mn-text-2); vertical-align: top; }'',
     mk ''.td-id { font-family: `JetBrains Mono`, `Fira Code`, ui-monospace, Menlo, monospace;'',
     mk ''         color: var(--mn-text); font-size: 0.75rem; white-space: nowrap; }'',
     mk ''.td-cat { color: var(--mn-text-3); font-size: 0.75rem; }'',
     mk '''',
     mk ''/* ---- severity + status badges ---- */'',
     mk ''.badge {'',
     mk ''  display: inline-block; font-size: 0.6875rem; font-weight: 700;'',
     mk ''  letter-spacing: 0.05em; padding: 2px 7px; border-radius: var(--mn-r-md);'',
     mk ''  white-space: nowrap;'',
     mk ''}'',
     mk ''.sev-critical { background: var(--mn-error-bg);  color: #FCA5A5; }'',
     mk ''.sev-high     { background: var(--mn-warn-bg);   color: #FCD34D; }'',
     mk ''.sev-medium   { background: var(--mn-teal-08);   color: #67E8F9; }'',
     mk ''.sev-low      { background: var(--mn-ok-bg);     color: #6EE7B7; }'',
     mk ''.sev-info     { background: rgba(122,133,153,.15); color: var(--mn-text-3); }'',
     mk ''.st-finding      { background: var(--mn-error-bg);  color: #FCA5A5; }'',
     mk ''.st-pass         { background: var(--mn-ok-bg);     color: #6EE7B7; }'',
     mk ''.st-incomplete   { background: var(--mn-warn-bg);   color: #FCD34D; }'',
     mk ''.st-inconclusive { background: var(--mn-warn-bg);   color: #FCD34D; }'',
     mk '''',
     mk ''/* ---- detail sections ---- */'',
     mk ''.section-group { margin: 0 0 12px 0; }'',
     mk ''.section-group-title {'',
     mk ''  font-size: 0.75rem; font-weight: 600; color: var(--mn-text-3);'',
     mk ''  text-transform: uppercase; letter-spacing: 0.07em;'',
     mk ''  padding: 0 0 8px 0; margin: 28px 0 10px 0;'',
     mk ''  border-bottom: 1px solid var(--mn-border);'',
     mk ''}'',
     mk ''.section {'',
     mk ''  background: var(--mn-surface); border: 1px solid var(--mn-border-md);'',
     mk ''  border-radius: var(--mn-r-xl); padding: 18px 22px; margin: 0 0 10px 0;'',
     mk ''  box-shadow: var(--mn-shadow);'',
     mk ''}'',
     mk ''.section-finding { border-left: 3px solid var(--mn-error); }'',
     mk ''.section-pass    { border-left: 3px solid var(--mn-ok); }'',
     mk ''.section-incomplete { border-left: 3px solid var(--mn-warn); }'',
     mk ''.header-row { display: flex; align-items: center; gap: 8px; flex-wrap: wrap; margin-bottom: 10px; }'',
     mk ''.cat-name { font-size: 0.8rem; color: var(--mn-text-3); margin-left: auto; }'',
     mk '''']"

definition css_probes :: "str list" where
  "css_probes =
    [mk ''/* ---- probes ---- */'',
     mk ''.probe {'',
     mk ''  background: var(--mn-surface-2); border: 1px solid var(--mn-border);'',
     mk ''  border-radius: var(--mn-r-lg); padding: 12px 14px; margin: 8px 0;'',
     mk ''}'',
     mk ''.probe-fail { border-left: 2px solid var(--mn-error); }'',
     mk ''.probe-pass { border-left: 2px solid var(--mn-ok); }'',
     mk ''.what-tested {'',
     mk ''  font-size: 0.8rem; color: var(--mn-text-3);'',
     mk ''  background: var(--mn-bg); border: 1px solid var(--mn-border);'',
     mk ''  border-radius: var(--mn-r-md); padding: 6px 10px; margin: 6px 0;'',
     mk ''  font-family: `JetBrains Mono`,`Fira Code`,ui-monospace,Menlo,monospace;'',
     mk ''  word-break: break-all;'',
     mk ''}'',
     mk ''.what-tested .lbl { color: var(--mn-teal); font-family: inherit; }'',
     mk ''.assertion {'',
     mk ''  font-size: 0.8rem; padding: 2px 0;'',
     mk ''  font-family: `JetBrains Mono`,`Fira Code`,ui-monospace,Menlo,monospace;'',
     mk ''}'',
     mk ''.a-pass { color: #6EE7B7; }'',
     mk ''.a-fail { color: #FCA5A5; font-weight: 600; }'',
     mk ''pre {'',
     mk ''  background: var(--mn-bg); border: 1px solid var(--mn-border);'',
     mk ''  border-radius: var(--mn-r-md); padding: 8px 10px;'',
     mk ''  font-size: 0.775rem; white-space: pre-wrap; word-break: break-all;'',
     mk ''  max-height: 120px; overflow-y: auto; color: var(--mn-text-3);'',
     mk ''  margin: 6px 0; font-family: `JetBrains Mono`,`Fira Code`,ui-monospace,Menlo,monospace;'',
     mk ''}'',
     mk ''.error-msg { font-size: 0.8rem; color: #FCA5A5; margin: 4px 0; }'',
     mk ''.remediation {'',
     mk ''  background: var(--mn-teal-08); border-left: 3px solid var(--mn-teal);'',
     mk ''  padding: 10px 14px; margin: 14px 0 8px; font-size: 0.875rem;'',
     mk ''  border-radius: 0 var(--mn-r-md) var(--mn-r-md) 0; color: var(--mn-text-2);'',
     mk ''}'',
     mk ''.remediation .lbl { color: #67E8F9; font-weight: 600; }'',
     mk ''.refs { font-size: 0.8rem; color: var(--mn-text-3); margin-top: 6px; }'',
     mk ''.pass-note { font-size: 0.875rem; color: #6EE7B7; margin: 4px 0; }'',
     mk '''',
     mk ''/* ---- scenario steps ---- */'',
     mk ''.step {'',
     mk ''  padding: 8px 0; border-top: 1px solid var(--mn-border);'',
     mk ''  font-size: 0.875rem;'',
     mk ''}'',
     mk ''.step:first-child { border-top: none; }'',
     mk ''.step-pass { color: #6EE7B7; }'',
     mk ''.step-fail { color: #FCA5A5; font-weight: 600; }'',
     mk ''.step-resp {'',
     mk ''  font-size: 0.775rem; background: var(--mn-bg); border: 1px solid var(--mn-border);'',
     mk ''  border-radius: var(--mn-r-md); padding: 6px 10px; margin: 4px 0 0 18px;'',
     mk ''  white-space: pre-wrap; word-break: break-all; color: var(--mn-text-3);'',
     mk ''  font-family: `JetBrains Mono`,`Fira Code`,ui-monospace,Menlo,monospace;'',
     mk ''}'',
     mk ''.inconclusive-note {'',
     mk ''  background: var(--mn-warn-bg); border-left: 3px solid var(--mn-warn);'',
     mk ''  padding: 8px 12px; margin: 8px 0; font-size: 0.8rem;'',
     mk ''  border-radius: 0 var(--mn-r-md) var(--mn-r-md) 0; color: #FCD34D;'',
     mk ''}'',
     mk ''hr { border: none; border-top: 1px solid var(--mn-border); margin: 32px 0; }'']"

definition css_remediation :: "str list" where
  "css_remediation =
    [mk ''/* ---- remediation details ---- */'',
     mk ''details.remediation-details {'',
     mk ''  margin: 14px 0 4px;'',
     mk ''  border: 1px solid var(--mn-teal-25);'',
     mk ''  border-radius: var(--mn-r-lg);'',
     mk ''  overflow: hidden;'',
     mk ''}'',
     mk ''details.remediation-details summary {'',
     mk ''  cursor: pointer; list-style: none;'',
     mk ''  background: var(--mn-teal-08);'',
     mk ''  padding: 8px 14px;'',
     mk ''  font-size: 0.8125rem; font-weight: 600; color: #67E8F9;'',
     mk ''  user-select: none;'',
     mk ''}'',
     mk ''details.remediation-details summary::-webkit-details-marker { display: none; }'',
     mk ''details.remediation-details summary::before {'',
     mk ''  content: `'' @ [9654] @ mk '' `; font-size: 0.65rem; margin-right: 4px; color: var(--mn-teal);'',
     mk ''}'',
     mk ''details.remediation-details[open] summary::before { content: `'' @ [9660] @ mk '' `; }'',
     mk ''.remediation-body {'',
     mk ''  padding: 12px 16px; background: var(--mn-surface-2);'',
     mk ''  font-size: 0.8125rem; color: var(--mn-text-2);'',
     mk ''}'',
     mk ''.rem-row { margin: 10px 0; }'',
     mk ''.rem-label {'',
     mk ''  font-size: 0.7rem; font-weight: 700; letter-spacing: 0.07em;'',
     mk ''  text-transform: uppercase; color: #67E8F9; display: block; margin-bottom: 4px;'',
     mk ''}'',
     mk ''.rem-specref {'',
     mk ''  font-size: 0.75rem; color: var(--mn-text-3); font-style: italic;'',
     mk ''}'',
     mk ''.rem-code {'',
     mk ''  background: var(--mn-bg); border: 1px solid var(--mn-border);'',
     mk ''  border-radius: var(--mn-r-md); padding: 8px 10px;'',
     mk ''  font-size: 0.775rem; white-space: pre-wrap; word-break: break-all;'',
     mk ''  color: #a5f3fc;'',
     mk ''  font-family: `JetBrains Mono`,`Fira Code`,ui-monospace,Menlo,monospace;'',
     mk ''  margin: 4px 0;'',
     mk ''}'',
     mk ''.rem-verify {'',
     mk ''  font-size: 0.775rem; color: #6EE7B7;'',
     mk ''  font-family: `JetBrains Mono`,`Fira Code`,ui-monospace,Menlo,monospace;'',
     mk ''  background: var(--mn-bg); border: 1px solid var(--mn-border);'',
     mk ''  border-radius: var(--mn-r-md); padding: 6px 10px; margin: 4px 0;'',
     mk ''  white-space: pre-wrap; word-break: break-all;'',
     mk ''}'',
     mk ''.footer {'',
     mk ''  font-size: 0.75rem; color: var(--mn-text-3); text-align: center;'',
     mk ''  margin-top: 48px; padding-top: 24px; border-top: 1px solid var(--mn-border);'',
     mk ''}'']"

definition report_css :: str where
  "report_css = 10 # concat (map (\<lambda>l. l @ [10]) (css_base @ css_tables @ css_probes @ css_remediation))"

definition content_policy :: str where
  "content_policy =
     mk ''default-src `none`; script-src `none`; style-src `unsafe-inline`; font-src `none`; img-src `none`; connect-src `none`''"

section \<open>Texts\<close>

record html_env =
  he_lower :: "str \<Rightarrow> str"
  he_unescape :: "str \<Rightarrow> str"

definition html_category_names :: "(str \<times> str) list" where
  "html_category_names =
     [(ascii ''T1'', ascii ''Improper Authentication''), (ascii ''T2'', ascii ''Missing Access Control''),
      (ascii ''T3'', ascii ''Input Validation Failures''), (ascii ''T4'', ascii ''Data/Control Boundary''),
      (ascii ''T5'', ascii ''Inadequate Data Protection''), (ascii ''T6'', ascii ''Integrity / Verification Failures''),
      (ascii ''T7'', ascii ''Session Security Failures''), (ascii ''T8'', ascii ''Network Binding Failures''),
      (ascii ''T9'', ascii ''Trust Boundary Failures''), (ascii ''T10'', ascii ''Resource Management''),
      (ascii ''T11'', ascii ''Supply Chain / Lifecycle''), (ascii ''T12'', ascii ''Insufficient Logging'')]"

definition category_title :: "str \<Rightarrow> str" where
  "category_title c = (case map_of html_category_names c of None \<Rightarrow> c | Some n \<Rightarrow> n)"

definition safe_url :: "html_env \<Rightarrow> str \<Rightarrow> str option" where
  "safe_url e ref =
     (let s = py_strip ref in
      if starts_with (ascii ''https://'') (he_lower e s) \<or> starts_with (ascii ''http://'') (he_lower e s) then Some s else None)"

definition shown_text :: "html_env \<Rightarrow> str \<Rightarrow> str" where
  "shown_text e s = html_escape (he_unescape e s)"

definition severity_caps :: "severity \<Rightarrow> str" where
  "severity_caps v = mk (case v of SevCritical \<Rightarrow> ''CRITICAL'' | SevHigh \<Rightarrow> ''HIGH'' | SevMedium \<Rightarrow> ''MEDIUM'' | SevLow \<Rightarrow> ''LOW'' | SevInfo \<Rightarrow> ''INFO'')"

abbreviation reason_given :: "str option \<Rightarrow> bool" where
  "reason_given x \<equiv> x \<noteq> None \<and> x \<noteq> Some []"

section \<open>What the report is made from\<close>

record probe_description =
  pd_method :: str
  pd_summary :: str
  pd_assertions :: "str list"

record html_section =
  hs_threat_id :: str
  hs_category :: str
  hs_severity :: severity
  hs_passed :: bool
  hs_results :: "probe_result list"
  hs_remediation :: str
  hs_references :: "str list"
  hs_contexts :: "probe_description option list"

record html_step =
  hp_index :: nat
  hp_description :: str
  hp_passed :: bool
  hp_response :: str

record html_scenario =
  hc_id :: str
  hc_name :: str
  hc_category :: str
  hc_passed :: bool
  hc_steps :: "html_step list"
  hc_inconclusive :: "str option"

record html_builder =
  hb_target :: str
  hb_timestamp :: str
  hb_mode :: str
  hb_sections :: "html_section list"
  hb_scenarios :: "html_scenario list"
  hb_coverage :: "category_result list"

definition html_report_builder :: "str \<Rightarrow> str \<Rightarrow> str \<Rightarrow> html_builder" where
  "html_report_builder target timestamp mode =
     \<lparr>hb_target = target, hb_timestamp = timestamp,
      hb_mode = (if mode \<in> {ascii ''full'', ascii ''developer'', ascii ''executive''} then mode else ascii ''full''),
      hb_sections = [], hb_scenarios = [], hb_coverage = []\<rparr>"

definition add_section :: "html_section \<Rightarrow> html_builder \<Rightarrow> html_builder" where
  "add_section s b = b\<lparr>hb_sections := hb_sections b @ [s]\<rparr>"

definition add_scenario :: "html_scenario \<Rightarrow> html_builder \<Rightarrow> html_builder" where
  "add_scenario s b = b\<lparr>hb_scenarios := hb_scenarios b @ [s]\<rparr>"

definition set_coverage :: "category_result list \<Rightarrow> html_builder \<Rightarrow> html_builder" where
  "set_coverage rows b = b\<lparr>hb_coverage := rows\<rparr>"

section \<open>The coverage matrix\<close>

definition grade_label :: "grade \<Rightarrow> str" where
  "grade_label g = mk (case g of GradePass \<Rightarrow> ''PASS'' | GradeWarn \<Rightarrow> ''WARN'' | GradeFail \<Rightarrow> ''FAIL'' | NotTested \<Rightarrow> ''NOT TESTED'')"

definition grade_colour :: "grade \<Rightarrow> str" where
  "grade_colour g = mk (case g of GradePass \<Rightarrow> ''var(--mn-ok)'' | GradeWarn \<Rightarrow> ''var(--mn-warn)'' | GradeFail \<Rightarrow> ''var(--mn-error)''
     | NotTested \<Rightarrow> ''var(--mn-muted, #888)'')"

definition coverage_row :: "category_result \<Rightarrow> str" where
  "coverage_row c =
     mk ''<tr><td>'' @ html_escape (ca_category c) @ mk ''</td><td>'' @ html_escape (ca_engine c) @ mk ''</td><td style=`color:'' @
     grade_colour (ca_grade c) @ mk '';font-weight:600`>'' @ html_escape (grade_label (ca_grade c)) @ mk ''</td><td>'' @
     dump_int (ca_probes c) @
     html_escape (if ca_inconclusive c = 0 then [] else [32, 183, 32] @ dump_int (ca_inconclusive c) @ mk '' inconclusive'') @
     mk ''</td></tr>''"

definition render_coverage_matrix :: "category_result list \<Rightarrow> str" where
  "render_coverage_matrix rows =
     (if rows = [] then []
      else mk ''<div class=`section-group`>~<div class=`section-group-title`>Coverage '' @ [8212] @ mk '' all CoSAI categories</div>~'' @
        mk ''<table class=`coverage-table`>~<thead><tr><th>Category</th><th>Engine</th><th>Grade</th><th>Probes</th></tr></thead>~<tbody>~'' @
        join [10] (map coverage_row rows) @
        mk ''~</tbody></table>~<div class=`coverage-note`>NOT TESTED means no probe ran for this category (e.g. middleware-only '' @
        mk ''categories, or a category whose probes were all inconclusive). It is NOT a pass.</div>~</div>~'')"

section \<open>The table of findings\<close>

definition result_badge :: "probe_result \<Rightarrow> str \<times> str" where
  "result_badge r =
     (if reason_given (pr_inconclusive r) then (mk ''INCONCLUSIVE'', mk ''st-inconclusive'')
      else if pr_passed r then (mk ''PASS'', mk ''st-pass'') else (mk ''FINDING'', mk ''st-finding''))"

definition first_parts :: "str list \<Rightarrow> str" where
  "first_parts parts =
     join (mk ''; '') (take 2 parts) @
     (if length parts > 2 then mk '' (+'' @ dump_int (int (length parts) - 2) @ mk '' more)'' else [])"

definition assertion_part :: "assertion_result \<Rightarrow> str" where
  "assertion_part a = ar_target a @ [32] @ ar_operator a @ [32] @ ar_expected a @ [32, 8594] @ mk '' got '' @ ar_actual a"

definition assertion_summary :: "probe_result \<Rightarrow> str" where
  "assertion_summary r =
     (if \<not> pr_passed r \<and> pr_assertions r \<noteq> [] then first_parts (map assertion_part (filter (\<lambda>a. \<not> ar_passed a) (pr_assertions r))) else [])"

definition findings_row :: "str \<Rightarrow> str \<Rightarrow> str \<Rightarrow> str \<Rightarrow> str \<Rightarrow> str \<Rightarrow> str \<Rightarrow> str \<Rightarrow> str" where
  "findings_row i tid cat sev_class sev badge status summary =
     mk ''<tr><td class=`td-id`>'' @ html_escape i @ mk ''</td><td class=`td-id`>'' @ html_escape tid @ mk ''</td><td class=`td-cat`>'' @
     cat @ mk ''</td><td><span class=`badge '' @ sev_class @ mk ''`>'' @ sev @ mk ''</span></td><td><span class=`badge '' @ badge @ mk ''`>'' @
     html_escape status @ mk ''</span></td><td style=`font-size:0.775rem;color:var(--mn-text-3)`>'' @ html_escape summary @ mk ''</td></tr>~''"

definition result_row :: "html_section \<Rightarrow> probe_result \<Rightarrow> str" where
  "result_row s r =
     findings_row (pr_probe_id r) (hs_threat_id s) (html_escape (category_title (hs_category s))) (mk ''sev-'' @ severity_name (hs_severity s))
       (html_escape (severity_caps (hs_severity s))) (snd (result_badge r)) (fst (result_badge r)) (assertion_summary r)"

definition scenario_badge :: "html_scenario \<Rightarrow> str \<times> str" where
  "scenario_badge c =
     (if hc_passed c then (mk ''PASS'', mk ''st-pass'')
      else if reason_given (hc_inconclusive c) then (mk ''INCONCLUSIVE'', mk ''st-inconclusive'') else (mk ''FINDING'', mk ''st-finding''))"

definition scenario_row :: "html_scenario \<Rightarrow> str" where
  "scenario_row c =
     findings_row (hc_id c) (hc_id c) (html_escape (category_title (hc_category c)) @ mk '' (scenario)'') (mk ''sev-high'') (mk ''HIGH'')
       (snd (scenario_badge c)) (fst (scenario_badge c))
       (join (mk ''; '') (take 2 (map hp_description (filter (\<lambda>s. \<not> hp_passed s) (hc_steps c)))))"

definition render_findings_table :: "html_builder \<Rightarrow> str" where
  "render_findings_table b =
     mk ''<div class=`table-wrap`>~<h2>Findings Summary</h2>~<table>~<thead><tr>'' @
     mk ''<th>Probe</th><th>Threat</th><th>Category</th><th>Severity</th><th>Status</th><th>Assertion detail</th></tr></thead>~<tbody>'' @
     concat (map (\<lambda>s. concat (map (result_row s) (hs_results s))) (hb_sections b)) @ concat (map scenario_row (hb_scenarios b)) @
     mk ''</tbody>~</table>~</div>~''"

section \<open>Probes\<close>

definition probe_badge :: "probe_result \<Rightarrow> str \<times> str \<times> str" where
  "probe_badge r =
     (if reason_given (pr_inconclusive r) then (mk ''probe'', mk ''st-inconclusive'', mk ''INCONCLUSIVE'')
      else if pr_passed r then (mk ''probe probe-pass'', mk ''st-pass'', mk ''PASS'')
      else (mk ''probe probe-fail'', mk ''st-finding'', mk ''FAIL''))"

definition assertion_line :: "bool \<Rightarrow> str \<Rightarrow> str" where
  "assertion_line ok t =
     mk ''<div class=`assertion '' @ (if ok then mk ''a-pass'' else mk ''a-fail'') @ mk ''`>'' @ [if ok then 10003 else 10007, 32] @ t @ mk ''</div>''"

definition what_tested :: "probe_result \<Rightarrow> probe_description option \<Rightarrow> str" where
  "what_tested r ctx =
     (case ctx of
        Some d \<Rightarrow>
          mk ''<div class=`what-tested`><span class=`lbl`>TEST</span> '' @ html_escape (pd_summary d) @ mk ''</div>~'' @
          concat (map (\<lambda>a. assertion_line (pr_passed r) (html_escape a)) (pd_assertions d)) @ mk ''~''
      | None \<Rightarrow>
          (if pr_assertions r = [] then []
           else concat (map (\<lambda>a. assertion_line (ar_passed a)
                  (html_escape (ar_target a) @ [32] @ html_escape (ar_operator a) @ [32] @ html_escape (ar_expected a) @ [32, 8212] @ mk '' got '' @
                   html_escape (ar_actual a))) (pr_assertions r)) @ mk ''~''))"

definition render_probe :: "html_env \<Rightarrow> probe_result \<Rightarrow> probe_description option \<Rightarrow> str" where
  "render_probe e r ctx =
     mk ''<div class=`'' @ fst (probe_badge r) @ mk ''`>~<h3>Probe '' @ html_escape (pr_probe_id r) @ mk '': <span class=`badge '' @
     fst (snd (probe_badge r)) @ mk ''`>'' @ html_escape (snd (snd (probe_badge r))) @ mk ''</span></h3>~'' @ what_tested r ctx @
     (if reason_given (pr_inconclusive r)
      then mk ''<div class=`inconclusive-note`>'' @ [9888] @ mk '' <strong>Inconclusive:</strong> '' @ shown_text e (the (pr_inconclusive r)) @ mk ''</div>~''
      else []) @
     (if reason_given (pr_error r) then mk ''<p class=`error-msg`>'' @ [9888, 32] @ shown_text e (the (pr_error r)) @ mk ''</p>~'' else []) @
     (if pr_response_body r \<noteq> [] \<and> \<not> pr_passed r then mk ''<pre>Server response: '' @ shown_text e (pr_response_body r) @ mk ''</pre>~'' else []) @
     mk ''</div>~''"

text \<open>The description at the result's position; a list that is too short is an \<open>IndexError\<close>, an empty one has none.\<close>

definition description_at :: "probe_description option list \<Rightarrow> nat \<Rightarrow> probe_description option option" where
  "description_at ctxs i = (if ctxs = [] then Some None else if i < length ctxs then Some (ctxs ! i) else None)"

fun render_probes :: "html_env \<Rightarrow> probe_description option list \<Rightarrow> nat \<Rightarrow> probe_result list \<Rightarrow> str list option" where
  "render_probes e ctxs i [] = Some []"
| "render_probes e ctxs i (r # rs) =
     (case description_at ctxs i of
        None \<Rightarrow> None
      | Some ctx \<Rightarrow> map_option ((#) (render_probe e r ctx)) (render_probes e ctxs (i + 1) rs))"

section \<open>Remediations and references\<close>

definition render_reference :: "html_env \<Rightarrow> str \<Rightarrow> str" where
  "render_reference e ref =
     (case safe_url e ref of
        Some u \<Rightarrow> mk ''<a href=^'' @ html_escape u @ mk ''^ rel=^noopener noreferrer^>'' @ html_escape u @ mk ''</a>''
      | None \<Rightarrow> html_escape ref)"

definition render_references :: "html_env \<Rightarrow> str list \<Rightarrow> str" where
  "render_references e refs = join [32, 183, 32] (map (render_reference e) refs)"

fun first_remediation :: "probe_result list \<Rightarrow> remediation_block option" where
  "first_remediation [] = None"
| "first_remediation (r # rs) =
     (if \<not> pr_passed r \<and> \<not> reason_given (pr_inconclusive r)
      then (case get_remediation (pr_probe_id r) of None \<Rightarrow> first_remediation rs | Some b \<Rightarrow> Some b)
      else first_remediation rs)"

definition snippet_row :: "string \<Rightarrow> str option \<Rightarrow> str" where
  "snippet_row label x =
     (if reason_given x
      then mk ''<div class=`rem-row`><span class=`rem-label`>'' @ mk label @ mk ''</span><div class=`rem-code`>'' @ html_escape (the x) @ mk ''</div></div>''
      else [])"

definition remediation_html :: "str \<Rightarrow> remediation_block \<Rightarrow> str" where
  "remediation_html mode b =
     mk ''<details class=`remediation-details`'' @ (if mode = ascii ''developer'' then mk '' open'' else []) @ mk ''>~<summary>Remediation '' @ [8212, 32] @
     html_escape (rb_threat_id b) @ mk ''</summary>~<div class=`remediation-body`>~'' @
     mk ''<div class=`rem-row`><span class=`rem-label`>What the spec requires</span>'' @ html_escape (rb_requires b) @
     mk '' <span class=`rem-specref`>'' @ html_escape (rb_spec_ref b) @ mk ''</span></div>~'' @
     mk ''<div class=`rem-row`><span class=`rem-label`>Fix shape ('' @ html_escape (rb_language b) @ mk '')</span><div class=`rem-code`>'' @
     html_escape (rb_fix_shape b) @ mk ''</div></div>~'' @ snippet_row ''FastMCP (Python)'' (rb_fastmcp b) @ mk ''~'' @
     snippet_row ''MCP SDK (TypeScript)'' (rb_typescript b) @ mk ''~'' @
     mk ''<div class=`rem-row`><span class=`rem-label`>Verify with cosai-mcp</span><div class=`rem-verify`>cosai scan '' @
     html_escape (mk ''<target>'') @ [32] @ html_escape (rb_verify b) @ mk ''</div></div>~</div>~</details>~''"

definition render_remediation_details :: "str \<Rightarrow> html_section \<Rightarrow> str" where
  "render_remediation_details mode s =
     (if mode = ascii ''executive'' then []
      else case first_remediation (hs_results s) of None \<Rightarrow> [] | Some b \<Rightarrow> remediation_html mode b)"

section \<open>Sections and scenarios\<close>

definition section_body :: "html_env \<Rightarrow> str \<Rightarrow> html_section \<Rightarrow> str \<Rightarrow> str" where
  "section_body e mode s probes =
     (if hs_passed s
      then mk ''<p class=`pass-note`>'' @ [10003] @ mk '' All probes passed '' @ [8212] @ mk '' no '' @ html_escape (category_title (hs_category s)) @
        mk '' vulnerabilities detected.</p>~'' @ probes @ mk ''~''
      else probes @ mk ''~<div class=`remediation`><span class=`lbl`>How to fix:</span> '' @ html_escape (hs_remediation s) @ mk ''</div>~'' @
        render_remediation_details mode s @ mk ''<div class=`refs`>References: '' @ render_references e (hs_references s) @ mk ''</div>~'')"

definition render_section :: "html_env \<Rightarrow> str \<Rightarrow> html_section \<Rightarrow> str option" where
  "render_section e mode s =
     map_option (\<lambda>probes.
       mk ''<div class=`'' @ (if hs_passed s then mk ''section section-pass'' else mk ''section section-finding'') @
       mk ''`>~<div class=`header-row`>~<h2>'' @ html_escape (hs_threat_id s) @ mk ''</h2>~<span class=`badge sev-'' @ severity_name (hs_severity s) @
       mk ''`>'' @ html_escape (severity_caps (hs_severity s)) @ mk ''</span>~<span class=`badge '' @
       (if hs_passed s then mk ''st-pass'' else mk ''st-finding'') @ mk ''`>'' @ html_escape (if hs_passed s then mk ''PASS'' else mk ''FINDING'') @
       mk ''</span>~<span class=`cat-name`>'' @ html_escape (category_title (hs_category s)) @ mk ''</span>~</div>~'' @
       section_body e mode s (join [10] probes) @ mk ''</div>~'')
     (render_probes e (hs_contexts s) 0 (hs_results s))"

definition section_group :: "str \<Rightarrow> str list \<Rightarrow> str" where
  "section_group title parts = (if parts = [] then [] else mk ''<div class=`section-group-title`>'' @ title @ mk ''</div>~'' @ concat parts)"

definition render_sections :: "html_env \<Rightarrow> html_builder \<Rightarrow> str option" where
  "render_sections e b =
     (case (those (map (render_section e (hb_mode b)) (filter (\<lambda>s. \<not> hs_passed s) (hb_sections b))),
            those (map (render_section e (hb_mode b)) (filter hs_passed (hb_sections b)))) of
        (Some findings, Some passed) \<Rightarrow>
          Some (section_group (mk ''Findings '' @ [8212] @ mk '' Action Required'') findings @
                section_group (mk ''Passed '' @ [8212] @ mk '' No Vulnerabilities Detected'') passed)
      | _ \<Rightarrow> None)"

definition render_step :: "html_step \<Rightarrow> str" where
  "render_step s =
     mk ''<div class=`step`>~<span class=`'' @ (if hp_passed s then mk ''step-pass'' else mk ''step-fail'') @ mk ''`>'' @
     [if hp_passed s then 10003 else 10007] @ mk '' Step '' @ dump_int (int (hp_index s)) @ mk '': '' @ html_escape (hp_description s) @ mk ''</span>~'' @
     (if \<not> hp_passed s \<and> hp_response s \<noteq> [] then mk ''<div class=`step-resp`>'' @ html_escape (hp_response s) @ mk ''</div>~'' else []) @
     mk ''</div>~''"

definition scenario_class :: "html_scenario \<Rightarrow> str \<times> str \<times> str" where
  "scenario_class c =
     (if reason_given (hc_inconclusive c) then (mk ''section section-incomplete'', mk ''st-inconclusive'', mk ''INCONCLUSIVE'')
      else if hc_passed c then (mk ''section section-pass'', mk ''st-pass'', mk ''PASS'')
      else (mk ''section section-finding'', mk ''st-finding'', mk ''FINDING''))"

definition render_scenario :: "html_scenario \<Rightarrow> str" where
  "render_scenario c =
     mk ''<div class=`'' @ fst (scenario_class c) @ mk ''`>~<div class=`header-row`>~<h2>'' @ html_escape (hc_id c) @ mk ''</h2>~<span class=`badge '' @
     fst (snd (scenario_class c)) @ mk ''`>'' @ html_escape (snd (snd (scenario_class c))) @ mk ''</span>~<span class=`cat-name`>'' @
     html_escape (category_title (hc_category c)) @ [32, 8212, 32] @ html_escape (hc_name c) @ mk ''</span>~</div>~'' @
     (if reason_given (hc_inconclusive c)
      then mk ''<div class=`inconclusive-note`>'' @ [9888] @ mk '' <strong>Inconclusive:</strong> '' @ html_escape (the (hc_inconclusive c)) @ mk ''</div>~''
      else []) @
     mk ''<div style=`margin-top:8px`>'' @ concat (map render_step (hc_steps c)) @ mk ''</div>~</div>~''"

definition render_scenarios :: "html_scenario list \<Rightarrow> str" where
  "render_scenarios cs =
     (if cs = [] then [] else mk ''<div class=`section-group-title`>Stateful Scenario Results</div>~'' @ concat (map render_scenario cs))"

section \<open>The page\<close>

definition section_is_finding :: "html_section \<Rightarrow> bool" where
  "section_is_finding s \<longleftrightarrow> \<not> hs_passed s \<and> \<not> list_all (\<lambda>r. reason_given (pr_inconclusive r)) (hs_results s)"

definition html_findings :: "html_builder \<Rightarrow> nat" where
  "html_findings b =
     length (filter section_is_finding (hb_sections b)) +
     length (filter (\<lambda>c. \<not> hc_passed c \<and> \<not> reason_given (hc_inconclusive c)) (hb_scenarios b))"

definition html_inconclusive :: "html_builder \<Rightarrow> nat" where
  "html_inconclusive b =
     length (filter (\<lambda>r. reason_given (pr_inconclusive r)) (concat (map hs_results (hb_sections b)))) +
     length (filter (\<lambda>c. reason_given (hc_inconclusive c)) (hb_scenarios b))"

definition severe_sections :: "html_builder \<Rightarrow> severity \<Rightarrow> nat" where
  "severe_sections b v = length (filter (\<lambda>s. section_is_finding s \<and> hs_severity s = v) (hb_sections b))"

definition stat_box :: "string \<Rightarrow> nat \<Rightarrow> string \<Rightarrow> str" where
  "stat_box attr n label =
     mk ''<div class=`stat-box`><div class=`num'' @ mk attr @ mk ''`>'' @ dump_int (int n) @ mk ''</div><div class=`lbl`>'' @ mk label @ mk ''</div></div>~''"

definition page_head :: str where
  "page_head =
     mk ''<!DOCTYPE html>~<html lang=^en^>~<head>~<meta charset=^UTF-8^>~<meta http-equiv=^Content-Security-Policy^ content=^'' @ content_policy @
     mk ''^>~<title>CoSAI MCP Security Report</title>~<style>'' @ report_css @ mk ''</style>~</head>~<body>~'' @
     mk ''<div class=`logo-row`>~<span class=`logo-badge`>CoSAI-MCP</span>~<h1>MCP Security Report</h1>~</div>~''"

definition meta_item :: "string \<Rightarrow> str \<Rightarrow> str \<Rightarrow> str" where
  "meta_item label style t =
     mk ''<div class=`meta-item`><span class=`lbl`>'' @ mk label @ mk ''</span><span class=`val`'' @ style @ mk ''>'' @ html_escape t @ mk ''</span></div>~''"

definition result_style :: "nat \<Rightarrow> str" where
  "result_style n = mk '' style=`color:'' @ (if n > 0 then mk ''var(--mn-error)'' else mk ''var(--mn-ok)'') @ mk ''`''"

definition result_text :: "nat \<Rightarrow> str" where
  "result_text n = (if n > 0 then dump_int (int n) @ mk '' finding(s) detected'' else mk ''Clean '' @ [8212] @ mk '' no findings'')"

definition page_summary :: "html_builder \<Rightarrow> str" where
  "page_summary b =
     mk ''<div class=`meta`>~'' @ meta_item ''Target'' [] (hb_target b) @ meta_item ''Scan time'' [] (hb_timestamp b) @
     meta_item ''Result'' (result_style (html_findings b)) (result_text (html_findings b)) @ mk ''</div>~<div class=`summary-grid`>~'' @
     stat_box '' num-critical'' (severe_sections b SevCritical) ''Critical'' @ stat_box '' num-high'' (severe_sections b SevHigh) ''High'' @
     stat_box '' num-neutral'' (html_findings b) ''Total findings'' @
     stat_box '' num-pass'' (length (filter hs_passed (hb_sections b))) ''Categories passed'' @
     mk ''<div class=`stat-box`><div class=`num` style=`color:var(--mn-warn)`>'' @ dump_int (int (html_inconclusive b)) @
     mk ''</div><div class=`lbl`>Inconclusive</div></div>~</div>~''"

definition page_footer :: str where
  "page_footer =
     mk ''<div class=`footer`>Generated by <strong>cosai-mcp</strong> '' @ [8212] @ mk '' CoSAI / OASIS MCP Security Scanner</div>~</body>~</html>~''"

definition build_html :: "html_env \<Rightarrow> html_builder \<Rightarrow> str option" where
  "build_html e b =
     map_option (\<lambda>sections.
       page_head @ page_summary b @ render_coverage_matrix (hb_coverage b) @ mk ''~'' @ render_findings_table b @ mk ''~'' @ sections @ mk ''~'' @
       (if hb_mode b = ascii ''executive'' then [] else render_scenarios (hb_scenarios b)) @ mk ''~'' @ page_footer)
     (if hb_mode b = ascii ''executive'' then Some [] else render_sections e b)"

section \<open>No markup from data\<close>

text \<open>
  A reader of the page: outside of a tag, inside one, or inside a quoted attribute value. \<open>markup_within tags\<close> says that
  every tag of a text, attribute values left out, is one of \<open>tags\<close>, and that the text ends outside of any tag.
\<close>

datatype html_mode = InText | InTag str | InQuote nat str

fun markup_within :: "str list \<Rightarrow> html_mode \<Rightarrow> str \<Rightarrow> bool" where
  "markup_within tags InText [] = True"
| "markup_within tags (InTag acc) [] = False"
| "markup_within tags (InQuote q acc) [] = False"
| "markup_within tags InText (c # s) = (if c = 60 then markup_within tags (InTag [60]) s else markup_within tags InText s)"
| "markup_within tags (InTag acc) (c # s) =
     (if c = 62 then acc @ [62] \<in> set tags \<and> markup_within tags InText s
      else if c = 34 \<or> c = 39 then markup_within tags (InQuote c acc) s else markup_within tags (InTag (acc @ [c])) s)"
| "markup_within tags (InQuote q acc) (c # s) =
     (if c = q then markup_within tags (InTag acc) s else markup_within tags (InQuote q acc) s)"

lemma within_text [simp]: "60 \<notin> set t \<Longrightarrow> markup_within tags InText (t @ s) = markup_within tags InText s"
  by (induction t) auto

lemma within_text_end: "60 \<notin> set t \<Longrightarrow> markup_within tags InText t"
  using within_text [of t tags "[]"] by simp

lemma within_quote [simp]: "q \<notin> set t \<Longrightarrow> markup_within tags (InQuote q acc) (t @ s) = markup_within tags (InQuote q acc) s"
  by (induction t) auto

lemma html_char_inert: "{60, 62, 34, 39} \<inter> set (html_char c) = {}"
  by (simp add: html_char_def)

lemma escaped_inert [simp]: "60 \<notin> set (html_escape t)" "62 \<notin> set (html_escape t)" "34 \<notin> set (html_escape t)" "39 \<notin> set (html_escape t)"
  using html_char_inert by (auto simp: html_escape_def)

lemma shown_inert [simp]: "60 \<notin> set (shown_text e t)"
  by (simp add: shown_text_def)

lemma digits_inert: "c < 48 \<or> 57 < c \<Longrightarrow> c \<notin> set (digits n)"
  using digits_all [of c n] by (auto simp: is_digit_def)

lemma dump_int_inert [simp]: "60 \<notin> set (dump_int i)" "39 \<notin> set (dump_int i)"
  by (simp_all add: dump_int_def digits_inert)

lemma within_append:
  "markup_within tags m t \<Longrightarrow> markup_within tags InText s \<Longrightarrow> markup_within tags m (t @ s)"
  by (induction tags m t rule: markup_within.induct) (auto split: if_splits)

lemma within_append_eq: "markup_within tags m t \<Longrightarrow> markup_within tags m (t @ s) = markup_within tags InText s"
  by (induction tags m t rule: markup_within.induct) (auto split: if_splits)

lemma within_concat: "list_all (markup_within tags InText) ts \<Longrightarrow> markup_within tags InText (concat ts)"
  by (induction ts) (simp_all add: within_append)

lemma within_join: "60 \<notin> set sep \<Longrightarrow> list_all (markup_within tags InText) ts \<Longrightarrow> markup_within tags InText (join sep ts)"
  by (induction sep ts rule: join.induct) (simp_all add: within_append)

lemma within_mono: "markup_within tags m s \<Longrightarrow> set tags \<subseteq> set tags' \<Longrightarrow> markup_within tags' m s"
  by (induction tags m s rule: markup_within.induct) (auto split: if_splits)

text \<open>The tags of the report.\<close>

definition plain_tags :: "string list" where
  "plain_tags = [''html'', ''head'', ''title'', ''style'', ''body'', ''div'', ''span'', ''h1'', ''h2'', ''h3'', ''table'', ''thead'', ''tbody'', ''tr'', ''th'', ''td'',
     ''p'', ''pre'', ''strong'', ''a'', ''details'', ''summary'']"

definition report_tags :: "str list" where
  "report_tags =
     map (\<lambda>t. mk ''<'' @ mk t @ mk ''>'') plain_tags @ map (\<lambda>t. mk ''</'' @ mk t @ mk ''>'') plain_tags @
     map mk [''<!DOCTYPE html>'', ''<html lang=>'', ''<meta charset=>'', ''<meta http-equiv= content=>'', ''<div class=>'', ''<span class=>'',
       ''<span class= style=>'', ''<div class= style=>'', ''<div style=>'', ''<td class=>'', ''<td style=>'', ''<table class=>'', ''<p class=>'', ''<a href= rel=>'',
       ''<details class=>'', ''<details class= open>'']"

text \<open>The same tags as code points.\<close>

lemma report_tags_codes:
  "report_tags =
    [[60, 104, 116, 109, 108, 62],
     [60, 104, 101, 97, 100, 62],
     [60, 116, 105, 116, 108, 101, 62],
     [60, 115, 116, 121, 108, 101, 62],
     [60, 98, 111, 100, 121, 62],
     [60, 100, 105, 118, 62],
     [60, 115, 112, 97, 110, 62],
     [60, 104, 49, 62],
     [60, 104, 50, 62],
     [60, 104, 51, 62],
     [60, 116, 97, 98, 108, 101, 62],
     [60, 116, 104, 101, 97, 100, 62],
     [60, 116, 98, 111, 100, 121, 62],
     [60, 116, 114, 62],
     [60, 116, 104, 62],
     [60, 116, 100, 62],
     [60, 112, 62],
     [60, 112, 114, 101, 62],
     [60, 115, 116, 114, 111, 110, 103, 62],
     [60, 97, 62],
     [60, 100, 101, 116, 97, 105, 108, 115, 62],
     [60, 115, 117, 109, 109, 97, 114, 121, 62],
     [60, 47, 104, 116, 109, 108, 62],
     [60, 47, 104, 101, 97, 100, 62],
     [60, 47, 116, 105, 116, 108, 101, 62],
     [60, 47, 115, 116, 121, 108, 101, 62],
     [60, 47, 98, 111, 100, 121, 62],
     [60, 47, 100, 105, 118, 62],
     [60, 47, 115, 112, 97, 110, 62],
     [60, 47, 104, 49, 62],
     [60, 47, 104, 50, 62],
     [60, 47, 104, 51, 62],
     [60, 47, 116, 97, 98, 108, 101, 62],
     [60, 47, 116, 104, 101, 97, 100, 62],
     [60, 47, 116, 98, 111, 100, 121, 62],
     [60, 47, 116, 114, 62],
     [60, 47, 116, 104, 62],
     [60, 47, 116, 100, 62],
     [60, 47, 112, 62],
     [60, 47, 112, 114, 101, 62],
     [60, 47, 115, 116, 114, 111, 110, 103, 62],
     [60, 47, 97, 62],
     [60, 47, 100, 101, 116, 97, 105, 108, 115, 62],
     [60, 47, 115, 117, 109, 109, 97, 114, 121, 62],
     [60, 33, 68, 79, 67, 84, 89, 80, 69, 32, 104, 116, 109, 108, 62],
     [60, 104, 116, 109, 108, 32, 108, 97, 110, 103, 61, 62],
     [60, 109, 101, 116, 97, 32, 99, 104, 97, 114, 115, 101, 116, 61, 62],
     [60, 109, 101, 116, 97, 32, 104, 116, 116, 112, 45, 101, 113, 117, 105, 118, 61, 32, 99, 111, 110, 116, 101, 110, 116, 61, 62],
     [60, 100, 105, 118, 32, 99, 108, 97, 115, 115, 61, 62],
     [60, 115, 112, 97, 110, 32, 99, 108, 97, 115, 115, 61, 62],
     [60, 115, 112, 97, 110, 32, 99, 108, 97, 115, 115, 61, 32, 115, 116, 121, 108, 101, 61, 62],
     [60, 100, 105, 118, 32, 99, 108, 97, 115, 115, 61, 32, 115, 116, 121, 108, 101, 61, 62],
     [60, 100, 105, 118, 32, 115, 116, 121, 108, 101, 61, 62],
     [60, 116, 100, 32, 99, 108, 97, 115, 115, 61, 62],
     [60, 116, 100, 32, 115, 116, 121, 108, 101, 61, 62],
     [60, 116, 97, 98, 108, 101, 32, 99, 108, 97, 115, 115, 61, 62],
     [60, 112, 32, 99, 108, 97, 115, 115, 61, 62],
     [60, 97, 32, 104, 114, 101, 102, 61, 32, 114, 101, 108, 61, 62],
     [60, 100, 101, 116, 97, 105, 108, 115, 32, 99, 108, 97, 115, 115, 61, 62],
     [60, 100, 101, 116, 97, 105, 108, 115, 32, 99, 108, 97, 115, 115, 61, 32, 111, 112, 101, 110, 62]]"
  by (simp add: report_tags_def plain_tags_def)

lemma tag_members [simp]:
  "[60, 104, 116, 109, 108, 62] \<in> set report_tags"
  "[60, 104, 101, 97, 100, 62] \<in> set report_tags"
  "[60, 116, 105, 116, 108, 101, 62] \<in> set report_tags"
  "[60, 115, 116, 121, 108, 101, 62] \<in> set report_tags"
  "[60, 98, 111, 100, 121, 62] \<in> set report_tags"
  "[60, 100, 105, 118, 62] \<in> set report_tags"
  "[60, 115, 112, 97, 110, 62] \<in> set report_tags"
  "[60, 104, 49, 62] \<in> set report_tags"
  "[60, 104, 50, 62] \<in> set report_tags"
  "[60, 104, 51, 62] \<in> set report_tags"
  "[60, 116, 97, 98, 108, 101, 62] \<in> set report_tags"
  "[60, 116, 104, 101, 97, 100, 62] \<in> set report_tags"
  "[60, 116, 98, 111, 100, 121, 62] \<in> set report_tags"
  "[60, 116, 114, 62] \<in> set report_tags"
  "[60, 116, 104, 62] \<in> set report_tags"
  "[60, 116, 100, 62] \<in> set report_tags"
  "[60, 112, 62] \<in> set report_tags"
  "[60, 112, 114, 101, 62] \<in> set report_tags"
  "[60, 115, 116, 114, 111, 110, 103, 62] \<in> set report_tags"
  "[60, 97, 62] \<in> set report_tags"
  "[60, 100, 101, 116, 97, 105, 108, 115, 62] \<in> set report_tags"
  "[60, 115, 117, 109, 109, 97, 114, 121, 62] \<in> set report_tags"
  "[60, 47, 104, 116, 109, 108, 62] \<in> set report_tags"
  "[60, 47, 104, 101, 97, 100, 62] \<in> set report_tags"
  "[60, 47, 116, 105, 116, 108, 101, 62] \<in> set report_tags"
  "[60, 47, 115, 116, 121, 108, 101, 62] \<in> set report_tags"
  "[60, 47, 98, 111, 100, 121, 62] \<in> set report_tags"
  "[60, 47, 100, 105, 118, 62] \<in> set report_tags"
  "[60, 47, 115, 112, 97, 110, 62] \<in> set report_tags"
  "[60, 47, 104, 49, 62] \<in> set report_tags"
  "[60, 47, 104, 50, 62] \<in> set report_tags"
  "[60, 47, 104, 51, 62] \<in> set report_tags"
  "[60, 47, 116, 97, 98, 108, 101, 62] \<in> set report_tags"
  "[60, 47, 116, 104, 101, 97, 100, 62] \<in> set report_tags"
  "[60, 47, 116, 98, 111, 100, 121, 62] \<in> set report_tags"
  "[60, 47, 116, 114, 62] \<in> set report_tags"
  "[60, 47, 116, 104, 62] \<in> set report_tags"
  "[60, 47, 116, 100, 62] \<in> set report_tags"
  "[60, 47, 112, 62] \<in> set report_tags"
  "[60, 47, 112, 114, 101, 62] \<in> set report_tags"
  "[60, 47, 115, 116, 114, 111, 110, 103, 62] \<in> set report_tags"
  "[60, 47, 97, 62] \<in> set report_tags"
  "[60, 47, 100, 101, 116, 97, 105, 108, 115, 62] \<in> set report_tags"
  "[60, 47, 115, 117, 109, 109, 97, 114, 121, 62] \<in> set report_tags"
  "[60, 33, 68, 79, 67, 84, 89, 80, 69, 32, 104, 116, 109, 108, 62] \<in> set report_tags"
  "[60, 104, 116, 109, 108, 32, 108, 97, 110, 103, 61, 62] \<in> set report_tags"
  "[60, 109, 101, 116, 97, 32, 99, 104, 97, 114, 115, 101, 116, 61, 62] \<in> set report_tags"
  "[60, 109, 101, 116, 97, 32, 104, 116, 116, 112, 45, 101, 113, 117, 105, 118, 61, 32, 99, 111, 110, 116, 101, 110, 116, 61, 62] \<in> set report_tags"
  "[60, 100, 105, 118, 32, 99, 108, 97, 115, 115, 61, 62] \<in> set report_tags"
  "[60, 115, 112, 97, 110, 32, 99, 108, 97, 115, 115, 61, 62] \<in> set report_tags"
  "[60, 115, 112, 97, 110, 32, 99, 108, 97, 115, 115, 61, 32, 115, 116, 121, 108, 101, 61, 62] \<in> set report_tags"
  "[60, 100, 105, 118, 32, 99, 108, 97, 115, 115, 61, 32, 115, 116, 121, 108, 101, 61, 62] \<in> set report_tags"
  "[60, 100, 105, 118, 32, 115, 116, 121, 108, 101, 61, 62] \<in> set report_tags"
  "[60, 116, 100, 32, 99, 108, 97, 115, 115, 61, 62] \<in> set report_tags"
  "[60, 116, 100, 32, 115, 116, 121, 108, 101, 61, 62] \<in> set report_tags"
  "[60, 116, 97, 98, 108, 101, 32, 99, 108, 97, 115, 115, 61, 62] \<in> set report_tags"
  "[60, 112, 32, 99, 108, 97, 115, 115, 61, 62] \<in> set report_tags"
  "[60, 97, 32, 104, 114, 101, 102, 61, 32, 114, 101, 108, 61, 62] \<in> set report_tags"
  "[60, 100, 101, 116, 97, 105, 108, 115, 32, 99, 108, 97, 115, 115, 61, 62] \<in> set report_tags"
  "[60, 100, 101, 116, 97, 105, 108, 115, 32, 99, 108, 97, 115, 115, 61, 32, 111, 112, 101, 110, 62] \<in> set report_tags"
  by (simp_all add: report_tags_codes)

abbreviation in_report_tags :: "str \<Rightarrow> bool" where
  "in_report_tags \<equiv> markup_within report_tags InText"

lemma severity_name_inert [simp]: "39 \<notin> set (severity_name v)" "60 \<notin> set (severity_name v)"
  by (cases v; simp add: severity_name_def)+

lemma severity_caps_inert [simp]: "60 \<notin> set (severity_caps v)"
  by (cases v; simp add: severity_caps_def)

lemma coverage_row_tags: "in_report_tags (coverage_row c)"
  by (cases "ca_grade c") (simp_all add: coverage_row_def grade_colour_def)

lemma coverage_matrix_tags: "in_report_tags (render_coverage_matrix rows)"
proof -
  have "in_report_tags (join [10] (map coverage_row rows))"
    by (rule within_join) (simp_all add: list_all_iff coverage_row_tags)
  then show ?thesis by (simp add: render_coverage_matrix_def within_append)
qed

lemma badge_inert [simp]:
  "39 \<notin> set (snd (result_badge r))" "39 \<notin> set (snd (scenario_badge c))" "39 \<notin> set (fst (probe_badge r))" "39 \<notin> set (fst (snd (probe_badge r)))"
  "39 \<notin> set (fst (scenario_class c))" "39 \<notin> set (fst (snd (scenario_class c)))"
  by (simp_all add: result_badge_def scenario_badge_def probe_badge_def scenario_class_def)

lemma findings_row_tags:
  "60 \<notin> set cat \<Longrightarrow> 39 \<notin> set sc \<Longrightarrow> 60 \<notin> set sev \<Longrightarrow> 39 \<notin> set badge \<Longrightarrow> in_report_tags (findings_row i tid cat sc sev badge status summary)"
  by (simp add: findings_row_def)

lemma result_row_tags: "in_report_tags (result_row s r)"
  by (simp add: result_row_def findings_row_tags)

lemma scenario_row_tags: "in_report_tags (scenario_row c)"
  by (simp add: scenario_row_def findings_row_tags)

lemma findings_table_tags: "in_report_tags (render_findings_table b)"
proof -
  have "in_report_tags (concat (map (\<lambda>s. concat (map (result_row s) (hs_results s))) (hb_sections b)))"
    by (intro within_concat) (simp add: list_all_iff result_row_tags within_concat)
  moreover have "in_report_tags (concat (map scenario_row (hb_scenarios b)))"
    by (intro within_concat) (simp add: list_all_iff scenario_row_tags)
  ultimately show ?thesis by (simp add: render_findings_table_def within_append)
qed

lemma assertion_line_tags: "60 \<notin> set t \<Longrightarrow> in_report_tags (assertion_line ok t)"
  by (cases ok) (simp_all add: assertion_line_def)

lemma what_tested_tags: "in_report_tags (what_tested r ctx)"
proof (cases ctx)
  case None
  have "in_report_tags (concat (map (\<lambda>a. assertion_line (ar_passed a)
         (html_escape (ar_target a) @ [32] @ html_escape (ar_operator a) @ [32] @ html_escape (ar_expected a) @ [32, 8212] @ mk '' got '' @
          html_escape (ar_actual a))) (pr_assertions r)))"
    by (intro within_concat) (simp add: list_all_iff assertion_line_tags)
  then show ?thesis by (simp add: what_tested_def None within_append)
next
  case (Some d)
  have "in_report_tags (concat (map (\<lambda>a. assertion_line (pr_passed r) (html_escape a)) (pd_assertions d)))"
    by (intro within_concat) (simp add: list_all_iff assertion_line_tags)
  then show ?thesis by (simp add: what_tested_def Some within_append)
qed

text \<open>A text in the middle that is itself in order.\<close>

lemma within_inner: "in_report_tags t \<Longrightarrow> in_report_tags s \<Longrightarrow> in_report_tags (t @ s)"
  by (rule within_append)

lemma render_probe_tags: "in_report_tags (render_probe e r ctx)"
  unfolding render_probe_def by (simp add: within_inner [OF what_tested_tags])

lemma render_probes_tags: "render_probes e ctxs i rs = Some ts \<Longrightarrow> list_all in_report_tags ts"
  by (induction e ctxs i rs arbitrary: ts rule: render_probes.induct) (auto simp: render_probe_tags split: option.splits)

lemma references_tags: "in_report_tags (render_references e refs)"
proof -
  have "in_report_tags (render_reference e ref)" for ref
    by (simp add: render_reference_def within_text_end split: option.split)
  then show ?thesis by (simp add: render_references_def within_join list_all_iff)
qed

lemma snippet_row_tags:
  assumes "60 \<notin> set (mk label)"
  shows "in_report_tags (snippet_row label x)"
  using assms by (simp add: snippet_row_def)

lemma remediation_html_tags: "in_report_tags (remediation_html mode b)"
  unfolding remediation_html_def by (simp add: within_inner [OF snippet_row_tags])

lemma remediation_details_tags: "in_report_tags (render_remediation_details mode s)"
  by (simp add: render_remediation_details_def remediation_html_tags split: option.split)

lemma section_body_tags: "in_report_tags probes \<Longrightarrow> in_report_tags (section_body e mode s probes)"
  by (simp add: section_body_def within_inner remediation_details_tags references_tags)

lemma render_section_tags: "render_section e mode s = Some t \<Longrightarrow> in_report_tags t"
proof -
  assume "render_section e mode s = Some t"
  then obtain ps where ps: "render_probes e (hs_contexts s) 0 (hs_results s) = Some ps"
    and t: "t = mk ''<div class=`'' @ (if hs_passed s then mk ''section section-pass'' else mk ''section section-finding'') @
       mk ''`>~<div class=`header-row`>~<h2>'' @ html_escape (hs_threat_id s) @ mk ''</h2>~<span class=`badge sev-'' @ severity_name (hs_severity s) @
       mk ''`>'' @ html_escape (severity_caps (hs_severity s)) @ mk ''</span>~<span class=`badge '' @
       (if hs_passed s then mk ''st-pass'' else mk ''st-finding'') @ mk ''`>'' @ html_escape (if hs_passed s then mk ''PASS'' else mk ''FINDING'') @
       mk ''</span>~<span class=`cat-name`>'' @ html_escape (category_title (hs_category s)) @ mk ''</span>~</div>~'' @
       section_body e mode s (join [10] ps) @ mk ''</div>~''"
    unfolding render_section_def by blast
  have "in_report_tags (section_body e mode s (join [10] ps))"
    by (intro section_body_tags within_join) (simp_all add: render_probes_tags [OF ps])
  then show ?thesis unfolding t by (simp add: within_inner)
qed

lemma section_group_tags: "60 \<notin> set title \<Longrightarrow> list_all in_report_tags parts \<Longrightarrow> in_report_tags (section_group title parts)"
  by (simp add: section_group_def within_concat)

lemma those_render: "those (map f xs) = Some ys \<Longrightarrow> (\<And>x y. f x = Some y \<Longrightarrow> P y) \<Longrightarrow> list_all P ys"
  by (induction xs arbitrary: ys) (auto split: option.splits)

lemma render_sections_tags: "render_sections e b = Some t \<Longrightarrow> in_report_tags t"
  unfolding render_sections_def
  by (auto split: option.splits intro!: within_inner section_group_tags those_render [OF _ render_section_tags])

lemma render_step_tags: "in_report_tags (render_step s)"
  by (simp add: render_step_def)

lemma render_scenario_tags: "in_report_tags (render_scenario c)"
proof -
  have "in_report_tags (concat (map render_step (hc_steps c)))"
    by (intro within_concat) (simp add: list_all_iff render_step_tags)
  then show ?thesis by (simp add: render_scenario_def within_inner)
qed

lemma render_scenarios_tags: "in_report_tags (render_scenarios cs)"
proof -
  have "in_report_tags (concat (map render_scenario cs))"
    by (intro within_concat) (simp add: list_all_iff render_scenario_tags)
  then show ?thesis by (simp add: render_scenarios_def)
qed

text \<open>A template without the character has no tag; decided on characters, not on their codes.\<close>

lemma mk_code:
  "60 = (if c = CHR 0x60 then 39 else if c = CHR 0x5E then 34 else if c = CHR 0x7E then 10 else of_char c :: nat) \<longleftrightarrow> CHR ''<'' = c"
proof (cases "c = CHR 0x60 \<or> c = CHR 0x5E \<or> c = CHR 0x7E")
  case True
  then show ?thesis by (elim disjE) simp_all
next
  case False
  have k: "of_char (CHR ''<'') = (60 :: nat)" by simp
  have "60 = (of_char c :: nat) \<longleftrightarrow> CHR ''<'' = c" unfolding k [symmetric] by (rule of_char_eq_iff)
  then show ?thesis using False by (simp only: de_Morgan_disj if_False)
qed

lemma mk_less: "60 \<in> set (mk s) \<longleftrightarrow> CHR ''<'' \<in> set s"
proof (induction s)
  case (Cons c s)
  then show ?case by (simp only: mk_simps list.set insert_iff mk_code)
qed (simp only: mk_simps list.set empty_iff)

lemmas inert_simps = list.pred_inject mk_less list.set insert_iff empty_iff char.inject simp_thms set_append Un_iff

lemma css_inert [simp]: "60 \<notin> set report_css"
proof -
  have "list_all (\<lambda>l. 60 \<notin> set l) css_base" "list_all (\<lambda>l. 60 \<notin> set l) css_tables"
    "list_all (\<lambda>l. 60 \<notin> set l) css_probes" "list_all (\<lambda>l. 60 \<notin> set l) css_remediation"
    by (simp_all only: css_base_def css_tables_def css_probes_def css_remediation_def inert_simps) simp
  then show ?thesis by (auto simp: report_css_def list_all_iff)
qed

lemma policy_inert [simp]: "34 \<notin> set content_policy"
  by (simp add: content_policy_def)

lemma page_head_tags: "in_report_tags page_head"
  by (simp add: page_head_def)

lemma meta_item_tags:
  assumes "60 \<notin> set (mk label)" and "style = [] \<or> (\<exists>n. style = result_style n)"
  shows "in_report_tags (meta_item label style t)"
  using assms by (auto simp: meta_item_def result_style_def)

lemma stat_box_tags:
  assumes "39 \<notin> set (mk attr)" and "60 \<notin> set (mk label)"
  shows "in_report_tags (stat_box attr n label)"
  using assms by (simp add: stat_box_def)

lemma page_summary_tags: "in_report_tags (page_summary b)"
proof -
  have m: "in_report_tags (meta_item ''Target'' [] t)" "in_report_tags (meta_item ''Scan time'' [] t)"
    "in_report_tags (meta_item ''Result'' (result_style n) t)" for n t
    by (rule meta_item_tags; auto)+
  have st: "in_report_tags (stat_box '' num-critical'' n ''Critical'')" "in_report_tags (stat_box '' num-high'' n ''High'')"
    "in_report_tags (stat_box '' num-neutral'' n ''Total findings'')" "in_report_tags (stat_box '' num-pass'' n ''Categories passed'')" for n
    by (rule stat_box_tags; simp)+
  show ?thesis unfolding page_summary_def by (simp add: within_append_eq [OF m(1)] within_append_eq [OF m(2)] within_append_eq [OF m(3)]
      within_append_eq [OF st(1)] within_append_eq [OF st(2)] within_append_eq [OF st(3)] within_append_eq [OF st(4)])
qed

lemma page_footer_tags: "in_report_tags page_footer"
  by (simp add: page_footer_def)

text \<open>
  Whatever the texts of the scan are, the page has no tag but the fixed ones, and no text of the scan is read as part of a
  tag other than an attribute's value.
\<close>

lemma html_page_tags:
  assumes "build_html e b = Some page"
  shows "markup_within report_tags InText page"
proof -
  from assms obtain sections where sections: "in_report_tags sections" and
    page: "page = page_head @ page_summary b @ render_coverage_matrix (hb_coverage b) @ mk ''~'' @ render_findings_table b @ mk ''~'' @ sections @ mk ''~'' @
       (if hb_mode b = ascii ''executive'' then [] else render_scenarios (hb_scenarios b)) @ mk ''~'' @ page_footer"
    unfolding build_html_def by (cases "hb_mode b = ascii ''executive''") (auto dest: render_sections_tags)
  have line: "in_report_tags (mk ''~'')" by simp
  show ?thesis
    unfolding page
    by (intro within_inner page_head_tags page_summary_tags coverage_matrix_tags line findings_table_tags sections page_footer_tags)
      (simp add: render_scenarios_tags)
qed

lemma no_script_tag: "mk ''<script>'' \<notin> set report_tags" "mk ''<img>'' \<notin> set report_tags" "mk ''<iframe>'' \<notin> set report_tags"
  by (simp_all add: report_tags_codes)

text \<open>A link of the page has an http address.\<close>

lemma safe_url_scheme:
  "safe_url e ref = Some u \<Longrightarrow> starts_with (ascii ''https://'') (he_lower e u) \<or> starts_with (ascii ''http://'') (he_lower e u)"
  by (auto simp: safe_url_def Let_def simp del: ascii_simps split: if_splits)

section \<open>What the page says\<close>

text \<open>The page cannot be built exactly when some section has fewer descriptions than results, but at least one.\<close>

lemma render_probes_None:
  "render_probes e ctxs i rs = None \<longleftrightarrow> ctxs \<noteq> [] \<and> rs \<noteq> [] \<and> length ctxs < i + length rs"
  by (induction e ctxs i rs rule: render_probes.induct) (auto simp: description_at_def split: option.splits if_splits)

definition enough_descriptions :: "html_section \<Rightarrow> bool" where
  "enough_descriptions s \<longleftrightarrow> hs_contexts s = [] \<or> length (hs_results s) \<le> length (hs_contexts s)"

lemma render_section_None: "render_section e mode s = None \<longleftrightarrow> \<not> enough_descriptions s"
  by (auto simp: render_section_def render_probes_None enough_descriptions_def)

lemma those_None: "those xs = None \<longleftrightarrow> None \<in> set xs"
  by (induction xs) (auto split: option.splits)

lemma build_html_defined:
  "build_html e b \<noteq> None \<longleftrightarrow> hb_mode b = ascii ''executive'' \<or> list_all enough_descriptions (hb_sections b)"
proof -
  have "render_sections e b = None \<longleftrightarrow> (\<exists>s \<in> set (hb_sections b). render_section e (hb_mode b) s = None)"
  proof -
    have f: "those (map (render_section e (hb_mode b)) (filter P (hb_sections b))) = None \<longleftrightarrow>
        (\<exists>s \<in> set (hb_sections b). P s \<and> render_section e (hb_mode b) s = None)" for P
      by (auto simp: those_None eq_commute [of None])
    have "render_sections e b = None \<longleftrightarrow>
        those (map (render_section e (hb_mode b)) (filter (\<lambda>s. \<not> hs_passed s) (hb_sections b))) = None \<or>
        those (map (render_section e (hb_mode b)) (filter hs_passed (hb_sections b))) = None"
      by (auto simp: render_sections_def split: option.split)
    then show ?thesis unfolding f by blast
  qed
  then have "render_sections e b = None \<longleftrightarrow> \<not> list_all enough_descriptions (hb_sections b)"
    unfolding render_section_None by (auto simp: list_all_iff)
  then show ?thesis by (auto simp: build_html_def simp del: ascii_simps)
qed

text \<open>C39. Whatever the texts of a scan are - what the server answered, errors, names, links - the page has no tag but the
  fixed ones, none of which runs a script, and no text is read as part of a tag other than the value of an attribute; there
  is no page only where a detailed section has fewer descriptions than results.\<close>

theorem html_markup_fixed:
  "mk ''<script>'' \<notin> set report_tags \<and>
   (case build_html e b of
      None \<Rightarrow> hb_mode b \<noteq> ascii ''executive'' \<and> \<not> list_all enough_descriptions (hb_sections b)
    | Some page \<Rightarrow> markup_within report_tags InText page)"
proof (cases "build_html e b")
  case None
  then show ?thesis using build_html_defined [of e b] no_script_tag(1) by (simp del: mk_simps ascii_simps)
next
  case (Some page)
  then show ?thesis using html_page_tags [OF Some] no_script_tag(1) by (simp del: mk_simps)
qed

text \<open>Results whose probe ended in an error, and accepted ones, count as findings of the page, though not of the scan.\<close>

lemma error_is_html_finding:
  assumes "pr_inconclusive r = None"
  shows "section_is_finding \<lparr>hs_threat_id = t, hs_category = c, hs_severity = v, hs_passed = False, hs_results = [r], hs_remediation = m,
    hs_references = refs, hs_contexts = cs\<rparr>"
  using assms by (simp add: section_is_finding_def)

lemma category_title_two_digits: "category_title (ascii ''T09'') = ascii ''T09''" "category_title (ascii ''T9'') = ascii ''Trust Boundary Failures''"
  by (simp_all add: category_title_def html_category_names_def)

end
