(* ===== verification/Html_Writer.thy ===== *)
theory Html_Writer
  imports Html_Report Sarif Adversarial Probe_Context
begin

text \<open>
  The HTML reports of a scan (\<open>_write_html_report\<close> and \<open>_write_adversarial_html_report\<close> of \<open>cli.py\<close>) and the page of the
  adversarial mode (\<open>report/adversarial_html.py\<close>). \<open>None\<close> is an exception; the file's bytes are the result.
\<close>

section \<open>The report of a scan\<close>

text \<open>\<open>json.dumps\<close> with its default separators, cut to 120 characters.\<close>

definition payload_text :: "probe \<Rightarrow> str" where
  "payload_text p =
     (let s = dumps [44, 32] [58, 32] (to_json_safe (pb_payload p)) in if length s > 120 then take 117 s @ [8230] else s)"

definition value_text :: "py_text \<Rightarrow> pyval \<Rightarrow> str" where
  "value_text pt v = (case v of PyTuple xs \<Rightarrow> join [44, 32] (map (to_str pt) xs) | _ \<Rightarrow> to_str pt v)"

definition assertion_description :: "py_text \<Rightarrow> assertion \<Rightarrow> str" where
  "assertion_description pt a = at_target a @ ascii '' must '' @ operator_name (at_operator a) @ [32] @ value_text pt (at_value a)"

definition describe_probe :: "py_text \<Rightarrow> probe \<Rightarrow> probe_description" where
  "describe_probe pt p =
     \<lparr>pd_method = pb_method p, pd_summary = pb_method p @ [32, 8594, 32] @ payload_text p,
      pd_assertions = map (assertion_description pt) (pb_assertions p)\<rparr>"

definition descriptions :: "py_text \<Rightarrow> threat list \<Rightarrow> str \<Rightarrow> probe_description option" where
  "descriptions pt threats i =
     map_of (rev (concat (map (\<lambda>t. map (\<lambda>p. (pb_id p, describe_probe pt p)) (th_probes t)) threats))) i"

definition results_of_threat :: "scan_result \<Rightarrow> str \<Rightarrow> probe_result list" where
  "results_of_threat s tid = filter (\<lambda>r. pr_threat_id r = tid) (so_probes s)"

text \<open>A passive finding has a stub of its category and no description; without a stub it is left out.\<close>

definition stub_section :: "str \<Rightarrow> manifest_stub \<Rightarrow> probe_result list \<Rightarrow> html_section" where
  "stub_section tid st rs =
     \<lparr>hs_threat_id = ms_rule st, hs_category = tid, hs_severity = ms_severity st, hs_passed = list_all pr_passed rs, hs_results = rs,
      hs_remediation = ms_remediation st, hs_references = [], hs_contexts = replicate (length rs) None\<rparr>"

text \<open>The descriptions that exist, without the gaps of those that do not.\<close>

definition threat_section :: "py_text \<Rightarrow> threat list \<Rightarrow> threat \<Rightarrow> probe_result list \<Rightarrow> html_section" where
  "threat_section pt threats t rs =
     \<lparr>hs_threat_id = th_id t, hs_category = th_category t, hs_severity = th_severity t, hs_passed = list_all pr_passed rs, hs_results = rs,
      hs_remediation = th_remediation t, hs_references = th_references t,
      hs_contexts = filter (\<lambda>c. c \<noteq> None) (map (\<lambda>r. descriptions pt threats (pr_probe_id r)) rs)\<rparr>"

definition section_for :: "py_text \<Rightarrow> scan_result \<Rightarrow> str \<Rightarrow> html_section option" where
  "section_for pt s tid =
     (let rs = results_of_threat s tid in
      case threat_at (so_threats s) tid of
        Some t \<Rightarrow> Some (threat_section pt (so_threats s) t rs)
      | None \<Rightarrow> map_option (\<lambda>st. stub_section tid st rs) (map_of manifest_stubs tid))"

definition report_sections :: "py_text \<Rightarrow> scan_result \<Rightarrow> html_section list" where
  "report_sections pt s = List.map_filter (section_for pt s) (sort (remdups (map pr_threat_id (so_probes s))))"

definition failure_text :: "py_text \<Rightarrow> assertion_failure \<Rightarrow> str" where
  "failure_text pt f =
     af_target f @ ascii '': expected '' @ af_operator f @ [32] @ pt_repr pt (of_json (af_expected f)) @ ascii '', got '' @
     pt_repr pt (of_json (af_actual f))"

definition step_summary :: "py_text \<Rightarrow> step_result \<Rightarrow> str" where
  "step_summary pt st =
     (if st_failures st \<noteq> [] then join (ascii ''; '') (map (failure_text pt) (st_failures st))
      else if reason_given (st_error st) then the (st_error st)
      else case st_response st of
        None \<Rightarrow> []
      | Some d \<Rightarrow>
          (if d = [] then []
           else let raw = dumps [44, 32] [58, 32] (JDict d) in take 200 raw @ (if length raw > 200 then [8230] else [])))"

definition html_step_of :: "py_text \<Rightarrow> step_result \<Rightarrow> html_step" where
  "html_step_of pt st =
     \<lparr>hp_index = st_index st, hp_description = st_description st, hp_passed = st_passed st, hp_response = step_summary pt st\<rparr>"

definition html_scenario_of :: "py_text \<Rightarrow> scenario_result \<Rightarrow> html_scenario" where
  "html_scenario_of pt r =
     \<lparr>hc_id = sr_scenario_id r, hc_name = sr_scenario_name r, hc_category = (case sr_categories r of [] \<Rightarrow> [] | c # _ \<Rightarrow> c),
      hc_passed = sr_passed r, hc_steps = map (html_step_of pt) (sr_steps r), hc_inconclusive = sr_inconclusive r\<rparr>"

definition scan_html_builder :: "py_text \<Rightarrow> str \<Rightarrow> scan_result \<Rightarrow> str \<Rightarrow> html_builder" where
  "scan_html_builder pt version s mode =
     fold add_scenario (map (html_scenario_of pt) (so_scenarios s))
       (fold add_section (report_sections pt s)
         (set_coverage (sk_categories (unsigned_scorecard version s)) (html_report_builder (so_target_url s) (so_timestamp s) mode)))"

definition write_html_report :: "html_env \<Rightarrow> py_text \<Rightarrow> str \<Rightarrow> scan_result \<Rightarrow> str \<Rightarrow> byte list option" where
  "write_html_report e pt version s mode = Option.bind (build_html e (scan_html_builder pt version s mode)) utf8_encode"

section \<open>The page of the adversarial mode\<close>

record adversarial_finding =
  ax_probe_id :: str
  ax_threat_id :: str
  ax_category :: str
  ax_severity :: severity
  ax_passed :: bool
  ax_canary_detected :: bool
  ax_payload :: str
  ax_response :: str
  ax_error :: "str option"
  ax_canary :: "canary option"
  ax_notes :: str

record adversarial_page =
  ap_target :: str
  ap_timestamp :: str
  ap_scan_id :: str
  ap_ownership :: str
  ap_findings :: "adversarial_finding list"

definition adversarial_policy :: str where
  "adversarial_policy =
     mk ''default-src `none`; script-src `none`; style-src `unsafe-inline`; font-src `none`; img-src `none`; connect-src `none`; frame-ancestors `none`''"

definition adversarial_css :: "str list" where
  "adversarial_css =
    [mk ''  body {'',
     mk ''    font-family: monospace;'',
     mk ''    background: #0a0a0a;'',
     mk ''    color: #e0e0e0;'',
     mk ''    margin: 0;'',
     mk ''    padding: 0;'',
     mk ''  }'',
     mk ''  .banner {'',
     mk ''    background: #8b0000;'',
     mk ''    color: #fff;'',
     mk ''    padding: 1rem 2rem;'',
     mk ''    border-bottom: 3px solid #ff0000;'',
     mk ''    font-size: 1.1rem;'',
     mk ''    font-weight: bold;'',
     mk ''  }'',
     mk ''  .banner .subtitle {'',
     mk ''    font-size: 0.85rem;'',
     mk ''    font-weight: normal;'',
     mk ''    margin-top: 0.25rem;'',
     mk ''    color: #ffcccc;'',
     mk ''  }'',
     mk ''  .container { max-width: 1100px; margin: 0 auto; padding: 1.5rem; }'',
     mk ''  .meta-table { border-collapse: collapse; margin-bottom: 1.5rem; width: 100%; }'',
     mk ''  .meta-table td { padding: 0.3rem 0.8rem; border: 1px solid #333; }'',
     mk ''  .meta-table td:first-child { color: #aaa; width: 180px; }'',
     mk ''  .finding {'',
     mk ''    border: 1px solid #444;'',
     mk ''    border-radius: 4px;'',
     mk ''    margin-bottom: 1.2rem;'',
     mk ''    overflow: hidden;'',
     mk ''  }'',
     mk ''  .finding.fail { border-color: #8b0000; }'',
     mk ''  .finding.pass { border-color: #006400; }'',
     mk ''  .finding.canary-hit { border-color: #ff4500; border-width: 2px; }'',
     mk ''  .finding-header {'',
     mk ''    display: flex;'',
     mk ''    justify-content: space-between;'',
     mk ''    align-items: center;'',
     mk ''    padding: 0.5rem 0.8rem;'',
     mk ''    background: #111;'',
     mk ''    border-bottom: 1px solid #333;'',
     mk ''  }'',
     mk ''  .badge {'',
     mk ''    padding: 0.2rem 0.5rem;'',
     mk ''    border-radius: 3px;'',
     mk ''    font-size: 0.8rem;'',
     mk ''    font-weight: bold;'',
     mk ''  }'',
     mk ''  .badge.fail { background: #8b0000; color: #fff; }'',
     mk ''  .badge.pass { background: #006400; color: #fff; }'',
     mk ''  .badge.canary { background: #ff4500; color: #fff; }'',
     mk ''  .badge.inconclusive { background: #555; color: #ddd; }'',
     mk ''  .finding-body { padding: 0.8rem; }'',
     mk ''  .section-label { color: #888; font-size: 0.8rem; margin: 0.6rem 0 0.2rem; }'',
     mk ''  pre {'',
     mk ''    background: #111;'',
     mk ''    border: 1px solid #333;'',
     mk ''    border-radius: 3px;'',
     mk ''    padding: 0.5rem;'',
     mk ''    overflow-x: auto;'',
     mk ''    white-space: pre-wrap;'',
     mk ''    word-break: break-all;'',
     mk ''    margin: 0;'',
     mk ''    font-size: 0.8rem;'',
     mk ''    color: #c0c0c0;'',
     mk ''  }'',
     mk ''  pre.redacted { color: #666; font-style: italic; }'',
     mk ''  .no-findings { color: #666; padding: 1rem; }'',
     mk ''  h1 { color: #ff6666; margin: 0; font-size: 1.2rem; }'',
     mk ''  h2 { color: #cc4444; border-bottom: 1px solid #333; padding-bottom: 0.3rem; }'']"

text \<open>The value of a canary is never empty.\<close>

definition redact_canary :: "str \<Rightarrow> canary option \<Rightarrow> str" where
  "redact_canary payload c = (case c of None \<Rightarrow> payload | Some x \<Rightarrow> replace_all (cn_value x) canary_redacted payload)"

definition adversarial_badges :: "adversarial_finding \<Rightarrow> str" where
  "adversarial_badges f =
     (if ax_canary_detected f then mk ''<span class=`badge canary`>CANARY HIT</span>''
      else if ax_passed f then mk ''<span class=`badge pass`>PASS</span>'' else mk ''<span class=`badge fail`>FAIL</span>'') @
     (if ax_severity f = SevCritical then mk '' <span class=`badge fail`>CRITICAL</span>''
      else if ax_severity f = SevHigh then mk '' <span class=`badge fail`>HIGH</span>'' else [])"

definition response_display :: "html_env \<Rightarrow> adversarial_finding \<Rightarrow> str" where
  "response_display e f = (if ax_response f = [] then mk ''<em>(empty)</em>'' else html_escape (take 2000 (he_unescape e (ax_response f))))"

definition finding_before :: "adversarial_finding \<Rightarrow> str" where
  "finding_before f =
     mk ''<div class=^finding '' @ (if ax_canary_detected f then mk ''canary-hit'' else if ax_passed f then mk ''pass'' else mk ''fail'') @
     mk ''^>~  <div class=^finding-header^>~    <strong>'' @ html_escape (ax_probe_id f) @ mk ''</strong>~    <span>Category: '' @
     html_escape (ax_category f) @ mk '' | Severity: '' @ html_escape (severity_caps (ax_severity f)) @ mk ''</span>~    <span>'' @ adversarial_badges f @
     mk ''</span>~  </div>~  <div class=^finding-body^>~    <p class=^section-label^>WHAT WE SENT (canary redacted)</p>~    <pre class=^redacted^>'' @
     html_escape (redact_canary (ax_payload f) (ax_canary f)) @ mk ''</pre>~    <p class=^section-label^>Response</p>~    <pre>''"

definition finding_after :: "adversarial_finding \<Rightarrow> str" where
  "finding_after f =
     mk ''</pre>~    '' @
     (if reason_given (ax_error f) then mk ''<p class=`section-label`>Error</p><pre>'' @ html_escape (the (ax_error f)) @ mk ''</pre>'' else []) @ mk ''~    '' @
     (if ax_notes f \<noteq> [] then mk ''<p class=`section-label`>Notes</p><p>'' @ html_escape (ax_notes f) @ mk ''</p>'' else []) @
     mk ''~  </div>~</div>''"

definition adversarial_block :: "html_env \<Rightarrow> adversarial_finding \<Rightarrow> str" where
  "adversarial_block e f = finding_before f @ response_display e f @ finding_after f"

definition adversarial_head :: "adversarial_page \<Rightarrow> str" where
  "adversarial_head p =
     mk ''<!DOCTYPE html>~<html lang=^en^>~<head>~<meta charset=^UTF-8^>~<meta http-equiv=^Content-Security-Policy^ content=^'' @
     html_escape adversarial_policy @ mk ''^>~<meta name=^robots^ content=^noindex, nofollow, noarchive^>~'' @
     mk ''<meta name=^referrer^ content=^no-referrer^>~<title>CoSAI Adversarial Probe Report '' @ [8212, 32] @ html_escape (ap_target p) @
     mk ''</title>~<style>~'' @ concat (map (\<lambda>l. l @ [10]) adversarial_css) @ mk ''</style>~</head>~<body>~''"

definition adversarial_banner :: str where
  "adversarial_banner =
     mk ''<div class=^banner^>~  '' @ [9888] @ mk '' CoSAI Adversarial Probe Report '' @ [8212] @ mk '' RESTRICTED~  <div class=^subtitle^>~'' @
     mk ''    This report contains active probe payloads and canary strings.~'' @
     mk ''    Do not distribute outside the authorized testing team.~'' @
     mk ''    Not indexed by search engines. Canary values are redacted.~  </div>~</div>~<div class=^container^>~''"

definition meta_row :: "string \<Rightarrow> str \<Rightarrow> str" where
  "meta_row label t = mk ''    <tr><td>'' @ mk label @ mk ''</td><td>'' @ t @ mk ''</td></tr>~''"

definition build_adversarial_html :: "html_env \<Rightarrow> adversarial_page \<Rightarrow> str" where
  "build_adversarial_html e p =
     adversarial_head p @ adversarial_banner @ mk ''  <h1>Adversarial Scan Results</h1>~  <table class=^meta-table^>~'' @
     meta_row ''Target'' (html_escape (ap_target p)) @ meta_row ''Scan ID'' (html_escape (ap_scan_id p)) @
     meta_row ''Timestamp'' (html_escape (ap_timestamp p)) @ meta_row ''Ownership Declaration'' (html_escape (ap_ownership p)) @
     meta_row ''Total Probes'' (dump_int (int (length (ap_findings p)))) @
     meta_row ''Canary Hits'' (dump_int (int (length (filter ax_canary_detected (ap_findings p))))) @
     mk ''  </table>~  <h2>Findings</h2>~  '' @
     (if ap_findings p = [] then mk ''<p class=`no-findings`>No adversarial findings recorded.</p>''
      else join [10] (map (adversarial_block e) (ap_findings p))) @
     mk ''~</div>~</body>~</html>''"

text \<open>The results shown are those whose probe id has \<open>-ADV-\<close>. A scan result has no scan id, so the page's is empty.\<close>

definition is_adversarial_id :: "(str \<Rightarrow> str) \<Rightarrow> str \<Rightarrow> bool" where
  "is_adversarial_id to_upper i \<longleftrightarrow> find_at (ascii ''-ADV-'') (to_upper i) \<noteq> None"

definition adversarial_finding_of :: "threat list \<Rightarrow> probe_result \<Rightarrow> adversarial_finding" where
  "adversarial_finding_of threats r =
     (let t = find (\<lambda>t. list_ex (\<lambda>p. pb_id p = pr_probe_id r) (th_probes t)) threats in
      \<lparr>ax_probe_id = pr_probe_id r, ax_threat_id = pr_threat_id r, ax_category = (case t of None \<Rightarrow> ascii ''?'' | Some x \<Rightarrow> th_category x),
       ax_severity = (case t of None \<Rightarrow> SevHigh | Some x \<Rightarrow> th_severity x), ax_passed = pr_passed r, ax_canary_detected = pr_canary_detected r,
       ax_payload = ascii ''(see probe catalog)'', ax_response = pr_response_body r, ax_error = pr_error r, ax_canary = None, ax_notes = []\<rparr>)"

definition adversarial_page_of :: "(str \<Rightarrow> str) \<Rightarrow> scan_result \<Rightarrow> str \<Rightarrow> str \<Rightarrow> adversarial_page" where
  "adversarial_page_of to_upper s target ownership =
     \<lparr>ap_target = target, ap_timestamp = so_timestamp s, ap_scan_id = [], ap_ownership = ownership,
      ap_findings = map (adversarial_finding_of (so_threats s)) (filter (\<lambda>r. is_adversarial_id to_upper (pr_probe_id r)) (so_probes s))\<rparr>"

definition write_adversarial_html_report :: "html_env \<Rightarrow> (str \<Rightarrow> str) \<Rightarrow> scan_result \<Rightarrow> str \<Rightarrow> str \<Rightarrow> byte list option" where
  "write_adversarial_html_report e to_upper s target ownership =
     utf8_encode (build_adversarial_html e (adversarial_page_of to_upper s target ownership))"

section \<open>No markup from data\<close>

definition adversarial_plain_tags :: "string list" where
  "adversarial_plain_tags = [''html'', ''head'', ''title'', ''style'', ''body'', ''div'', ''span'', ''h1'', ''h2'', ''table'', ''tr'', ''td'', ''p'', ''pre'', ''strong'', ''em'']"

definition adversarial_tags :: "str list" where
  "adversarial_tags =
     map (\<lambda>t. mk ''<'' @ mk t @ mk ''>'') adversarial_plain_tags @ map (\<lambda>t. mk ''</'' @ mk t @ mk ''>'') adversarial_plain_tags @
     map mk [''<!DOCTYPE html>'', ''<html lang=>'', ''<meta charset=>'', ''<meta http-equiv= content=>'', ''<meta name= content=>'', ''<div class=>'', ''<span class=>'', ''<table class=>'', ''<p class=>'', ''<pre class=>'']"

lemma adversarial_tags_codes:
  "adversarial_tags =
    [[60, 104, 116, 109, 108, 62],
     [60, 104, 101, 97, 100, 62],
     [60, 116, 105, 116, 108, 101, 62],
     [60, 115, 116, 121, 108, 101, 62],
     [60, 98, 111, 100, 121, 62],
     [60, 100, 105, 118, 62],
     [60, 115, 112, 97, 110, 62],
     [60, 104, 49, 62],
     [60, 104, 50, 62],
     [60, 116, 97, 98, 108, 101, 62],
     [60, 116, 114, 62],
     [60, 116, 100, 62],
     [60, 112, 62],
     [60, 112, 114, 101, 62],
     [60, 115, 116, 114, 111, 110, 103, 62],
     [60, 101, 109, 62],
     [60, 47, 104, 116, 109, 108, 62],
     [60, 47, 104, 101, 97, 100, 62],
     [60, 47, 116, 105, 116, 108, 101, 62],
     [60, 47, 115, 116, 121, 108, 101, 62],
     [60, 47, 98, 111, 100, 121, 62],
     [60, 47, 100, 105, 118, 62],
     [60, 47, 115, 112, 97, 110, 62],
     [60, 47, 104, 49, 62],
     [60, 47, 104, 50, 62],
     [60, 47, 116, 97, 98, 108, 101, 62],
     [60, 47, 116, 114, 62],
     [60, 47, 116, 100, 62],
     [60, 47, 112, 62],
     [60, 47, 112, 114, 101, 62],
     [60, 47, 115, 116, 114, 111, 110, 103, 62],
     [60, 47, 101, 109, 62],
     [60, 33, 68, 79, 67, 84, 89, 80, 69, 32, 104, 116, 109, 108, 62],
     [60, 104, 116, 109, 108, 32, 108, 97, 110, 103, 61, 62],
     [60, 109, 101, 116, 97, 32, 99, 104, 97, 114, 115, 101, 116, 61, 62],
     [60, 109, 101, 116, 97, 32, 104, 116, 116, 112, 45, 101, 113, 117, 105, 118, 61, 32, 99, 111, 110, 116, 101, 110, 116, 61, 62],
     [60, 109, 101, 116, 97, 32, 110, 97, 109, 101, 61, 32, 99, 111, 110, 116, 101, 110, 116, 61, 62],
     [60, 100, 105, 118, 32, 99, 108, 97, 115, 115, 61, 62],
     [60, 115, 112, 97, 110, 32, 99, 108, 97, 115, 115, 61, 62],
     [60, 116, 97, 98, 108, 101, 32, 99, 108, 97, 115, 115, 61, 62],
     [60, 112, 32, 99, 108, 97, 115, 115, 61, 62],
     [60, 112, 114, 101, 32, 99, 108, 97, 115, 115, 61, 62]]"
  by (simp add: adversarial_tags_def adversarial_plain_tags_def)

lemma adversarial_tag_members [simp]:
  "[60, 104, 116, 109, 108, 62] \<in> set adversarial_tags"
  "[60, 104, 101, 97, 100, 62] \<in> set adversarial_tags"
  "[60, 116, 105, 116, 108, 101, 62] \<in> set adversarial_tags"
  "[60, 115, 116, 121, 108, 101, 62] \<in> set adversarial_tags"
  "[60, 98, 111, 100, 121, 62] \<in> set adversarial_tags"
  "[60, 100, 105, 118, 62] \<in> set adversarial_tags"
  "[60, 115, 112, 97, 110, 62] \<in> set adversarial_tags"
  "[60, 104, 49, 62] \<in> set adversarial_tags"
  "[60, 104, 50, 62] \<in> set adversarial_tags"
  "[60, 116, 97, 98, 108, 101, 62] \<in> set adversarial_tags"
  "[60, 116, 114, 62] \<in> set adversarial_tags"
  "[60, 116, 100, 62] \<in> set adversarial_tags"
  "[60, 112, 62] \<in> set adversarial_tags"
  "[60, 112, 114, 101, 62] \<in> set adversarial_tags"
  "[60, 115, 116, 114, 111, 110, 103, 62] \<in> set adversarial_tags"
  "[60, 101, 109, 62] \<in> set adversarial_tags"
  "[60, 47, 104, 116, 109, 108, 62] \<in> set adversarial_tags"
  "[60, 47, 104, 101, 97, 100, 62] \<in> set adversarial_tags"
  "[60, 47, 116, 105, 116, 108, 101, 62] \<in> set adversarial_tags"
  "[60, 47, 115, 116, 121, 108, 101, 62] \<in> set adversarial_tags"
  "[60, 47, 98, 111, 100, 121, 62] \<in> set adversarial_tags"
  "[60, 47, 100, 105, 118, 62] \<in> set adversarial_tags"
  "[60, 47, 115, 112, 97, 110, 62] \<in> set adversarial_tags"
  "[60, 47, 104, 49, 62] \<in> set adversarial_tags"
  "[60, 47, 104, 50, 62] \<in> set adversarial_tags"
  "[60, 47, 116, 97, 98, 108, 101, 62] \<in> set adversarial_tags"
  "[60, 47, 116, 114, 62] \<in> set adversarial_tags"
  "[60, 47, 116, 100, 62] \<in> set adversarial_tags"
  "[60, 47, 112, 62] \<in> set adversarial_tags"
  "[60, 47, 112, 114, 101, 62] \<in> set adversarial_tags"
  "[60, 47, 115, 116, 114, 111, 110, 103, 62] \<in> set adversarial_tags"
  "[60, 47, 101, 109, 62] \<in> set adversarial_tags"
  "[60, 33, 68, 79, 67, 84, 89, 80, 69, 32, 104, 116, 109, 108, 62] \<in> set adversarial_tags"
  "[60, 104, 116, 109, 108, 32, 108, 97, 110, 103, 61, 62] \<in> set adversarial_tags"
  "[60, 109, 101, 116, 97, 32, 99, 104, 97, 114, 115, 101, 116, 61, 62] \<in> set adversarial_tags"
  "[60, 109, 101, 116, 97, 32, 104, 116, 116, 112, 45, 101, 113, 117, 105, 118, 61, 32, 99, 111, 110, 116, 101, 110, 116, 61, 62] \<in> set adversarial_tags"
  "[60, 109, 101, 116, 97, 32, 110, 97, 109, 101, 61, 32, 99, 111, 110, 116, 101, 110, 116, 61, 62] \<in> set adversarial_tags"
  "[60, 100, 105, 118, 32, 99, 108, 97, 115, 115, 61, 62] \<in> set adversarial_tags"
  "[60, 115, 112, 97, 110, 32, 99, 108, 97, 115, 115, 61, 62] \<in> set adversarial_tags"
  "[60, 116, 97, 98, 108, 101, 32, 99, 108, 97, 115, 115, 61, 62] \<in> set adversarial_tags"
  "[60, 112, 32, 99, 108, 97, 115, 115, 61, 62] \<in> set adversarial_tags"
  "[60, 112, 114, 101, 32, 99, 108, 97, 115, 115, 61, 62] \<in> set adversarial_tags"
  by (simp_all add: adversarial_tags_codes)

abbreviation in_adversarial_tags :: "str \<Rightarrow> bool" where
  "in_adversarial_tags \<equiv> markup_within adversarial_tags InText"

lemma adversarial_css_inert: "60 \<notin> set (concat (map (\<lambda>l. l @ [10]) adversarial_css))"
  by (simp add: adversarial_css_def)

lemma adversarial_head_tags: "in_adversarial_tags (adversarial_head p)"
  by (simp add: adversarial_head_def within_text [OF adversarial_css_inert])

lemma adversarial_banner_tags: "in_adversarial_tags adversarial_banner"
  by (simp add: adversarial_banner_def)

lemma adversarial_badges_tags: "in_adversarial_tags (adversarial_badges f)"
  by (simp add: adversarial_badges_def)

lemma response_display_tags: "in_adversarial_tags (response_display e f)"
  by (simp add: response_display_def within_text_end)

lemma finding_before_tags: "in_adversarial_tags (finding_before f)"
  by (simp add: finding_before_def within_append_eq [OF adversarial_badges_tags])

lemma finding_after_tags: "in_adversarial_tags (finding_after f)"
  by (simp add: finding_after_def)

lemma adversarial_block_tags: "in_adversarial_tags (adversarial_block e f)"
  unfolding adversarial_block_def by (intro within_append finding_before_tags response_display_tags finding_after_tags)

lemma meta_row_tags:
  assumes "60 \<notin> set (mk label)" and "60 \<notin> set t"
  shows "in_adversarial_tags (meta_row label t)"
  using assms by (simp add: meta_row_def)

lemma adversarial_page_tags: "markup_within adversarial_tags InText (build_adversarial_html e p)"
proof -
  have m: "in_adversarial_tags (meta_row ''Target'' t)" "in_adversarial_tags (meta_row ''Scan ID'' t)"
    "in_adversarial_tags (meta_row ''Timestamp'' t)" "in_adversarial_tags (meta_row ''Ownership Declaration'' t)"
    "in_adversarial_tags (meta_row ''Total Probes'' t)" "in_adversarial_tags (meta_row ''Canary Hits'' t)" if "60 \<notin> set t" for t
    by (rule meta_row_tags; use that in simp)+
  have b: "in_adversarial_tags (join [10] (map (adversarial_block e) (ap_findings p)))"
    by (rule within_join) (simp_all add: list_all_iff adversarial_block_tags)
  show ?thesis
    unfolding build_adversarial_html_def
    by (simp add: within_append_eq [OF adversarial_head_tags] within_append_eq [OF adversarial_banner_tags]
        within_append_eq [OF m(1)] within_append_eq [OF m(2)] within_append_eq [OF m(3)] within_append_eq [OF m(4)]
        within_append_eq [OF m(5)] within_append_eq [OF m(6)] within_append_eq [OF b])
qed

section \<open>What is shown\<close>

text \<open>A canary in a response is shown as it is: only the payload is redacted, and a scan's findings carry no canary.\<close>

lemma response_not_redacted:
  assumes "ax_response f \<noteq> []"
  shows "adversarial_block e f = finding_before f @ html_escape (take 2000 (he_unescape e (ax_response f))) @ finding_after f"
  using assms by (simp add: adversarial_block_def response_display_def)

lemma scan_findings_have_no_canary: "f \<in> set (ap_findings (adversarial_page_of to_upper s target own)) \<Longrightarrow> ax_canary f = None"
  by (auto simp: adversarial_page_of_def adversarial_finding_of_def Let_def)

lemma scan_id_missing: "ap_scan_id (adversarial_page_of to_upper s target own) = []"
  by (simp add: adversarial_page_of_def)

text \<open>Every result that has a section is shown in the report exactly once.\<close>

lemma mset_filter_disjoint:
  "(\<And>x. x \<in> set xs \<Longrightarrow> \<not> (P x \<and> Q x)) \<Longrightarrow> mset (filter P xs) + mset (filter Q xs) = mset (filter (\<lambda>x. P x \<or> Q x) xs)"
  by (induction xs) auto

lemma mset_grouped:
  "distinct ks \<Longrightarrow> mset (concat (map (\<lambda>k. filter (\<lambda>x. f x = k) xs) ks)) = mset (filter (\<lambda>x. f x \<in> set ks) xs)"
proof (induction ks)
  case (Cons k ks)
  then have "mset (concat (map (\<lambda>k. filter (\<lambda>x. f x = k) xs) (k # ks))) = mset (filter (\<lambda>x. f x = k) xs) + mset (filter (\<lambda>x. f x \<in> set ks) xs)"
    by simp
  also have "\<dots> = mset (filter (\<lambda>x. f x = k \<or> f x \<in> set ks) xs)"
    using Cons.prems by (intro mset_filter_disjoint) auto
  finally show ?case by simp
qed simp

lemma section_for_results: "section_for pt s tid = Some sec \<Longrightarrow> hs_results sec = results_of_threat s tid"
  by (auto simp: section_for_def threat_section_def stub_section_def Let_def split: option.splits)

lemma map_filter_results:
  "map hs_results (List.map_filter (section_for pt s) ks) = map (results_of_threat s) (filter (\<lambda>k. section_for pt s k \<noteq> None) ks)"
  by (induction ks) (auto simp: List.map_filter_simps section_for_results split: option.splits)

definition has_section :: "scan_result \<Rightarrow> probe_result \<Rightarrow> bool" where
  "has_section s r \<longleftrightarrow> threat_at (so_threats s) (pr_threat_id r) \<noteq> None \<or> map_of manifest_stubs (pr_threat_id r) \<noteq> None"

lemma section_for_Some: "section_for pt s k \<noteq> None \<longleftrightarrow> threat_at (so_threats s) k \<noteq> None \<or> map_of manifest_stubs k \<noteq> None"
  by (auto simp: section_for_def Let_def split: option.split)

lemma results_shown_once: "mset (concat (map hs_results (report_sections pt s))) = mset (filter (has_section s) (so_probes s))"
proof -
  let ?ks = "filter (\<lambda>k. section_for pt s k \<noteq> None) (sort (remdups (map pr_threat_id (so_probes s))))"
  have "concat (map hs_results (report_sections pt s)) = concat (map (\<lambda>k. filter (\<lambda>r. pr_threat_id r = k) (so_probes s)) ?ks)"
    by (simp add: report_sections_def map_filter_results results_of_threat_def [abs_def])
  moreover have "mset (concat (map (\<lambda>k. filter (\<lambda>r. pr_threat_id r = k) (so_probes s)) ?ks)) = mset (filter (\<lambda>r. pr_threat_id r \<in> set ?ks) (so_probes s))"
    by (rule mset_grouped) simp
  moreover have "filter (\<lambda>r. pr_threat_id r \<in> set ?ks) (so_probes s) = filter (has_section s) (so_probes s)"
    by (rule filter_cong) (auto simp: section_for_Some has_section_def simp del: not_None_eq)
  ultimately show ?thesis by (simp only:)
qed

text \<open>
  The descriptions of a section keep no gaps, so one result without a description among others that have one leaves the
  list too short, and the report fails.
\<close>

lemma stub_section_enough: "enough_descriptions (stub_section tid st rs)"
  by (simp add: enough_descriptions_def stub_section_def)

lemma described_section_enough:
  "list_all (\<lambda>r. descriptions pt threats (pr_probe_id r) \<noteq> None) rs \<Longrightarrow> enough_descriptions (threat_section pt threats t rs)"
  by (simp add: enough_descriptions_def threat_section_def list_all_iff filter_map o_def)

lemma gap_breaks_section:
  assumes "r1 \<in> set rs" "descriptions pt threats (pr_probe_id r1) = None" and "r2 \<in> set rs" "descriptions pt threats (pr_probe_id r2) \<noteq> None"
  shows "\<not> enough_descriptions (threat_section pt threats t rs)"
proof -
  let ?P = "\<lambda>r. descriptions pt threats (pr_probe_id r) \<noteq> None"
  have "length (filter ?P rs) < length rs" using assms(1,2) by (auto intro: length_filter_less)
  moreover have "filter ?P rs \<noteq> []" using assms(3,4) by (auto simp: filter_empty_conv)
  ultimately show ?thesis by (simp add: enough_descriptions_def threat_section_def filter_map o_def)
qed

end
