(* ===== verification/Telemetry.thy ===== *)
theory Telemetry
  imports Scorecard
begin

text \<open>
  Telemetry: the OCSF events of probes and of requests (\<open>telemetry/ocsf.py\<close>), the anomaly detector over them
  (\<open>telemetry/anomaly.py\<close>), the emitters (\<open>telemetry/emitter.py\<close>), and what the commands do with them and with
  containment (\<open>cli.py\<close>). The clock, the HTTP client, \<open>round\<close>, \<open>int\<close> and the HMAC are arguments.
\<close>

section \<open>Detection findings\<close>

definition severity_map :: "(str \<times> int) list" where
  "severity_map =
     [(ascii ''critical'', 5), (ascii ''high'', 4), (ascii ''medium'', 3), (ascii ''low'', 2), (ascii ''informational'', 1), (ascii ''info'', 1)]"

definition severity_number :: "(str \<Rightarrow> str) \<Rightarrow> str \<Rightarrow> int" where
  "severity_number lower_of s = (case map_of severity_map (lower_of s) of None \<Rightarrow> 99 | Some n \<Rightarrow> n)"

record ocsf_env =
  oe_lower :: "str \<Rightarrow> str"
  oe_capital :: "str \<Rightarrow> str"
  oe_round :: "json \<Rightarrow> json"
  oe_now :: int

definition optional_entry :: "string \<Rightarrow> str option \<Rightarrow> (str \<times> json) list" where
  "optional_entry k x = (case x of None \<Rightarrow> [] | Some s \<Rightarrow> if s = [] then [] else [(ascii k, JStr s)])"

definition detection_body :: "str \<Rightarrow> str \<Rightarrow> int \<Rightarrow> str option \<Rightarrow> str option \<Rightarrow> str option \<Rightarrow> (str \<times> json) list" where
  "detection_body probe threat ts category description remediation =
     [(ascii ''uid'', JStr probe), (ascii ''title'', JStr threat), (ascii ''types'', JList [JStr (ascii ''Security Finding'')]),
      (ascii ''created_time'', JInt ts)] @ optional_entry ''desc'' description @
     [(ascii ''rule'', JDict ([(ascii ''uid'', JStr threat), (ascii ''name'', JStr threat)] @ optional_entry ''category'' category @
        optional_entry ''desc'' description))] @
     (case remediation of None \<Rightarrow> [] | Some s \<Rightarrow> if s = [] then [] else [(ascii ''remediation'', JDict [(ascii ''desc'', JStr s)])])"

definition build_detection_finding :: "ocsf_env \<Rightarrow> str \<Rightarrow> str \<Rightarrow> bool \<Rightarrow> str \<Rightarrow> json \<Rightarrow> str \<Rightarrow> str option \<Rightarrow> str option \<Rightarrow> str option \<Rightarrow>
    int option \<Rightarrow> (str \<times> json) list" where
  "build_detection_finding e probe threat passed target duration sev category description remediation timestamp =
     (let ts = (case timestamp of None \<Rightarrow> oe_now e | Some t \<Rightarrow> t) in
      [(ascii ''class_uid'', JInt 2004), (ascii ''class_name'', JStr (ascii ''Detection Finding'')), (ascii ''category_uid'', JInt 2),
       (ascii ''category_name'', JStr (ascii ''Findings'')), (ascii ''type_uid'', JInt 200401),
       (ascii ''type_name'', JStr (ascii ''Detection Finding: Create'')), (ascii ''time'', JInt ts),
       (ascii ''severity_id'', JInt (severity_number (oe_lower e) sev)), (ascii ''severity'', JStr (oe_capital e sev)),
       (ascii ''status_id'', JInt 1), (ascii ''status'', JStr (ascii ''New'')), (ascii ''activity_id'', JInt 1),
       (ascii ''activity_name'', JStr (ascii ''Create'')), (ascii ''finding'', JDict (detection_body probe threat ts category description remediation)),
       (ascii ''resources'', JList [JDict [(ascii ''uid'', JStr target), (ascii ''name'', JStr (ascii ''MCP Server'')), (ascii ''type'', JStr (ascii ''Other''))]]),
       (ascii ''metadata'', JDict [(ascii ''version'', JStr (ascii ''2.0.0'')),
          (ascii ''product'', JDict [(ascii ''name'', JStr (ascii ''cosai-mcp'')), (ascii ''vendor_name'', JStr (ascii ''CoSAI''))]),
          (ascii ''log_provider'', JStr (ascii ''CoSAI''))]),
       (ascii ''unmapped'', JDict [(ascii ''passed'', JBool passed), (ascii ''duration_seconds'', oe_round e duration),
          (ascii ''probe_id'', JStr probe), (ascii ''threat_id'', JStr threat)])])"

definition probe_result_to_ocsf :: "ocsf_env \<Rightarrow> probe_result \<Rightarrow> str \<Rightarrow> str \<Rightarrow> str option \<Rightarrow> str option \<Rightarrow> str option \<Rightarrow> (str \<times> json) list" where
  "probe_result_to_ocsf e r target sev category description remediation =
     build_detection_finding e (pr_probe_id r) (pr_threat_id r) (pr_passed r) target (pr_duration r) sev category description remediation None"

section \<open>Request activity\<close>

text \<open>The parameters of a request: none, a JSON value, or a value that is no JSON.\<close>

datatype activity_params = NoParams | JsonParams json | OtherParams

record activity =
  ac_server :: str
  ac_method :: str
  ac_decision :: str
  ac_user :: "str option"
  ac_tenant :: "str option"
  ac_name :: "str option"
  ac_correlation :: "str option"
  ac_path :: "str list"
  ac_attestation :: "str option"
  ac_trace :: "str option"
  ac_reason :: "str option"
  ac_time :: "int option"

definition cap_text :: "nat \<Rightarrow> str option \<Rightarrow> json" where
  "cap_text n x = (case x of None \<Rightarrow> JNull | Some s \<Rightarrow> JStr (take n s))"

text \<open>The digest of the parameters under the deployment's key, and whether they could not be printed.\<close>

definition params_hmac :: "(byte list \<Rightarrow> byte list \<Rightarrow> str) \<Rightarrow> activity_params \<Rightarrow> byte list option \<Rightarrow> json \<times> bool" where
  "params_hmac hmac p key =
     (case (p, key) of
        (NoParams, _) \<Rightarrow> (JNull, False)
      | (_, None) \<Rightarrow> (JNull, False)
      | (OtherParams, Some _) \<Rightarrow> (JNull, True)
      | (JsonParams v, Some k) \<Rightarrow> if finite_json v then (JStr (hmac k (map byte_of (canonical v))), False) else (JNull, True))"

datatype activity_error = BadDecision | ShortParamsKey

definition decisions :: "str list" where "decisions = map ascii [''allow'', ''deny'', ''error'']"

definition activity_event :: "activity \<Rightarrow> int \<Rightarrow> json \<times> bool \<Rightarrow> (str \<times> json) list" where
  "activity_event a ts digest =
     (let ok = ac_decision a = ascii ''allow'' in
      [(ascii ''class_uid'', JInt 6003), (ascii ''class_name'', JStr (ascii ''API Activity'')), (ascii ''category_uid'', JInt 6),
       (ascii ''category_name'', JStr (ascii ''Application Activity'')), (ascii ''activity_id'', JInt 99),
       (ascii ''activity_name'', JStr (ascii ''Other'')), (ascii ''type_uid'', JInt 600399), (ascii ''time'', JInt ts),
       (ascii ''severity_id'', JInt (if ok then 1 else 3)), (ascii ''status_id'', JInt (if ok then 1 else 2)),
       (ascii ''api'', JDict [(ascii ''operation'', JStr (take 128 (ac_method a))),
          (ascii ''service'', JDict [(ascii ''name'', JStr (ascii ''MCP'')), (ascii ''uid'', JStr (take 256 (ac_server a)))])]),
       (ascii ''actor'', JDict ([(ascii ''user'', JDict [(ascii ''uid'', cap_text 256 (ac_user a))])] @
          (if ac_tenant a \<in> {None, Some []} then [] else [(ascii ''tenant_uid'', cap_text 256 (ac_tenant a))]))),
       (ascii ''metadata'', JDict ([(ascii ''product'', JDict [(ascii ''name'', JStr (ascii ''cosai-mcp'')), (ascii ''vendor_name'', JStr (ascii ''CoSAI''))]),
          (ascii ''version'', JStr (ascii ''2.0.0''))] @
          (if ac_correlation a \<in> {None, Some []} then [] else [(ascii ''correlation_uid'', cap_text 128 (ac_correlation a))]))),
       (ascii ''unmapped'', JDict [(ascii ''cosai_agentic'', JDict
          [(ascii ''mcp_method'', JStr (take 128 (ac_method a))), (ascii ''mcp_name'', cap_text 256 (ac_name a)),
           (ascii ''correlation_id'', cap_text 128 (ac_correlation a)),
           (ascii ''delegation_path'', JList (take 32 (map (\<lambda>h. JStr (take 256 h)) (ac_path a)))),
           (ascii ''attestation_state'', cap_text 64 (ac_attestation a)), (ascii ''params_hmac_sha256'', fst digest),
           (ascii ''params_unserializable'', JBool (snd digest)), (ascii ''trace_id'', cap_text 64 (ac_trace a)),
           (ascii ''decision'', JStr (ac_decision a)), (ascii ''reason'', cap_text 256 (ac_reason a))])])])"

definition build_mcp_api_activity :: "ocsf_env \<Rightarrow> (byte list \<Rightarrow> byte list \<Rightarrow> str) \<Rightarrow> activity \<Rightarrow> activity_params \<Rightarrow> byte list option \<Rightarrow>
    activity_error + (str \<times> json) list" where
  "build_mcp_api_activity e hmac a p key =
     (if ac_decision a \<notin> set decisions then Inl BadDecision
      else if (case key of None \<Rightarrow> False | Some k \<Rightarrow> length k < 32) then Inl ShortParamsKey
      else Inr (activity_event a (case ac_time a of None \<Rightarrow> oe_now e | Some t \<Rightarrow> t) (params_hmac hmac p key)))"

section \<open>Emitters\<close>

record emit_result =
  er_success :: bool
  er_status :: "int option"
  er_error :: "str option"

definition null_emit :: "(str \<times> json) list \<Rightarrow> emit_result" where
  "null_emit ev = \<lparr>er_success = True, er_status = None, er_error = None\<rparr>"

definition emitter_endpoint_ok :: "str \<Rightarrow> bool" where
  "emitter_endpoint_ok u \<longleftrightarrow> starts_with (ascii ''http://'') u \<or> starts_with (ascii ''https://'') u"

definition emitter_headers :: "str option \<Rightarrow> (str \<times> str) list" where
  "emitter_headers auth =
     [(ascii ''Content-Type'', ascii ''application/json'')] @
     (case auth of None \<Rightarrow> [] | Some a \<Rightarrow> if a = [] then [] else [(ascii ''Authorization'', a)])"

definition http_emit :: "((str \<times> str) list \<Rightarrow> (str \<times> json) list \<Rightarrow> http_outcome) \<Rightarrow> str option \<Rightarrow> (str \<times> json) list \<Rightarrow> emit_result" where
  "http_emit post auth ev =
     (case post (emitter_headers auth) ev of
        HttpStatus n \<Rightarrow>
          (let ok = 200 \<le> n \<and> n < 300 in
           \<lparr>er_success = ok, er_status = Some n, er_error = (if ok then None else Some (ascii ''HTTP '' @ dump_int n))\<rparr>)
      | HttpException name \<Rightarrow>
          \<lparr>er_success = False, er_status = None, er_error = Some (ascii ''connection error ('' @ name @ ascii '')'')\<rparr>)"

definition emit_batch :: "((str \<times> json) list \<Rightarrow> emit_result) \<Rightarrow> (str \<times> json) list list \<Rightarrow> emit_result list" where
  "emit_batch emit evs = map emit evs"

section \<open>Anomalies\<close>

datatype anomaly_rule = HighFindingRate | CriticalBurst | SeverityEscalation

record anomaly_alert =
  aa_rule :: anomaly_rule
  aa_message :: str
  aa_count :: nat
  aa_window_ms :: int
  aa_at :: int

record anomaly_detector =
  ad_rate :: int
  ad_burst :: int
  ad_baseline :: int
  ad_window_ms :: int
  ad_window_text :: str
  ad_events :: "(str \<times> json) list list"
  ad_alerts :: "anomaly_alert list"

text \<open>\<open>None\<close> is an exception: an \<open>unmapped\<close> that is no dictionary, or a severity that \<open>int\<close> refuses.\<close>

definition is_finding_event :: "(str \<times> json) list \<Rightarrow> bool option" where
  "is_finding_event ev =
     (case get_or ev (ascii ''unmapped'') (JDict []) of
        JDict u \<Rightarrow> Some (\<not> truthy (get_or u (ascii ''passed'') (JBool True)))
      | _ \<Rightarrow> None)"

definition event_severity :: "(json \<Rightarrow> int option) \<Rightarrow> (str \<times> json) list \<Rightarrow> int option" where
  "event_severity to_int ev = to_int (get_or ev (ascii ''severity_id'') (JInt 99))"

definition critical_event :: "(json \<Rightarrow> int option) \<Rightarrow> (str \<times> json) list \<Rightarrow> bool option" where
  "critical_event to_int ev =
     (case is_finding_event ev of
        None \<Rightarrow> None | Some False \<Rightarrow> Some False | Some True \<Rightarrow> map_option (\<lambda>n. n \<ge> 5) (event_severity to_int ev))"

definition ingested_at :: str where "ingested_at = ascii ''_ingested_at_ms''"

definition stamped :: "int \<Rightarrow> (str \<times> json) list \<Rightarrow> (str \<times> json) list" where
  "stamped now ev = AList.update ingested_at (JInt now) ev"

definition fresh_event :: "int \<Rightarrow> (str \<times> json) list \<Rightarrow> bool" where
  "fresh_event cutoff ev = (case get_or ev ingested_at (JInt 0) of JInt t \<Rightarrow> t \<ge> cutoff | _ \<Rightarrow> False)"

definition evict_stale :: "int \<Rightarrow> anomaly_detector \<Rightarrow> anomaly_detector" where
  "evict_stale now d = d\<lparr>ad_events := filter (fresh_event (now - ad_window_ms d)) (ad_events d)\<rparr>"

definition add_event :: "int \<Rightarrow> (str \<times> json) list \<Rightarrow> anomaly_detector \<Rightarrow> anomaly_detector" where
  "add_event now ev d = evict_stale now (d\<lparr>ad_events := ad_events d @ [stamped now ev]\<rparr>)"

definition count_where :: "((str \<times> json) list \<Rightarrow> bool option) \<Rightarrow> (str \<times> json) list list \<Rightarrow> nat option" where
  "count_where P evs = map_option (\<lambda>bs. length (filter id bs)) (those (map P evs))"

definition last_alert :: "anomaly_rule \<Rightarrow> anomaly_alert list \<Rightarrow> anomaly_alert option" where
  "last_alert rule as = find (\<lambda>a. aa_rule a = rule) (rev as)"

text \<open>An alert of a rate rule: over the threshold, and more than the last alert of the rule counted.\<close>

definition rate_alert :: "anomaly_detector \<Rightarrow> anomaly_rule \<Rightarrow> string \<Rightarrow> string \<Rightarrow> int \<Rightarrow> nat \<Rightarrow> int \<Rightarrow> anomaly_alert list" where
  "rate_alert d rule what unit_name threshold n now =
     (if int n > threshold \<and> (case last_alert rule (ad_alerts d) of None \<Rightarrow> True | Some a \<Rightarrow> aa_count a < n)
      then [\<lparr>aa_rule = rule,
             aa_message = ascii what @ dump_int (int n) @ ascii unit_name @ ad_window_text d @ ascii ''s window (threshold='' @ dump_int threshold @ ascii '')'',
             aa_count = n, aa_window_ms = ad_window_ms d, aa_at = now\<rparr>]
      else [])"

definition escalation_alert :: "py_text \<Rightarrow> anomaly_detector \<Rightarrow> (json \<Rightarrow> int option) \<Rightarrow> (str \<times> json) list \<Rightarrow> int \<Rightarrow> anomaly_alert list option" where
  "escalation_alert pt d to_int ev now =
     (case is_finding_event ev of
        None \<Rightarrow> None
      | Some False \<Rightarrow> Some []
      | Some True \<Rightarrow>
          map_option (\<lambda>sev.
            if sev > ad_baseline d
            then [\<lparr>aa_rule = SeverityEscalation,
                   aa_message = ascii ''Severity escalation: '' @ to_str pt (of_json (get_or ev (ascii ''severity'') (JStr (dump_int sev)))) @ ascii '' (id='' @ dump_int sev @
                     ascii '') finding exceeds baseline threshold (id='' @ dump_int (ad_baseline d) @ ascii ''). probe='' @
                     (case get_or ev (ascii ''unmapped'') (JDict []) of JDict u \<Rightarrow> to_str pt (of_json (get_or u (ascii ''probe_id'') (JStr (ascii ''?'')))) | _ \<Rightarrow> []),
                   aa_count = 1, aa_window_ms = 0, aa_at = now\<rparr>]
            else []) (event_severity to_int ev))"

definition ingest :: "py_text \<Rightarrow> (json \<Rightarrow> int option) \<Rightarrow> int \<Rightarrow> (str \<times> json) list \<Rightarrow> anomaly_detector \<Rightarrow> (anomaly_alert list \<times> anomaly_detector) option" where
  "ingest pt to_int now ev d0 =
     (let d = add_event now ev d0 in
      case (count_where is_finding_event (ad_events d), count_where (critical_event to_int) (ad_events d), escalation_alert pt d to_int ev now) of
        (Some n, Some c, Some esc) \<Rightarrow>
          (let new = rate_alert d HighFindingRate ''High finding rate: '' '' findings in '' (ad_rate d) n now @
                     rate_alert d CriticalBurst ''Critical finding burst: '' '' critical findings in '' (ad_burst d) c now @ esc
           in Some (new, d\<lparr>ad_alerts := ad_alerts d @ new\<rparr>))
      | _ \<Rightarrow> None)"

fun ingest_batch :: "py_text \<Rightarrow> (json \<Rightarrow> int option) \<Rightarrow> (int \<times> (str \<times> json) list) list \<Rightarrow> anomaly_detector \<Rightarrow>
    (anomaly_alert list \<times> anomaly_detector) option" where
  "ingest_batch pt to_int [] d = Some ([], d)"
| "ingest_batch pt to_int ((now, ev) # evs) d =
     (case ingest pt to_int now ev d of
        None \<Rightarrow> None
      | Some (new, d') \<Rightarrow> map_option (apfst ((@) new)) (ingest_batch pt to_int evs d'))"

definition reset_detector :: "anomaly_detector \<Rightarrow> anomaly_detector" where
  "reset_detector d = d\<lparr>ad_events := [], ad_alerts := []\<rparr>"

section \<open>Properties\<close>

subsection \<open>Activity events\<close>

text \<open>The parameters of a request enter an event only through their digest, which needs a key.\<close>

lemma activity_exact:
  "build_mcp_api_activity e hmac a p key = Inr ev \<longleftrightarrow>
     ac_decision a \<in> set decisions \<and> (\<forall>k. key = Some k \<longrightarrow> 32 \<le> length k) \<and>
     ev = activity_event a (case ac_time a of None \<Rightarrow> oe_now e | Some t \<Rightarrow> t) (params_hmac hmac p key)"
  by (cases key) (auto simp: build_mcp_api_activity_def)

lemma activity_digest_only:
  assumes "params_hmac hmac p key = params_hmac hmac q key"
  shows "build_mcp_api_activity e hmac a p key = build_mcp_api_activity e hmac a q key"
  using assms by (simp add: build_mcp_api_activity_def)

lemma no_key_no_digest [simp]: "params_hmac hmac p None = (JNull, False)"
  by (cases p) (simp_all add: params_hmac_def)

lemma no_key_hides_params: "build_mcp_api_activity e hmac a p None = build_mcp_api_activity e hmac a q None"
  by (rule activity_digest_only) simp

lemma digest_of_json:
  "finite_json v \<Longrightarrow> params_hmac hmac (JsonParams v) (Some k) = (JStr (hmac k (map byte_of (canonical v))), False)"
  by (simp add: params_hmac_def)

subsection \<open>Emitters\<close>

lemma http_emit_success:
  "er_success (http_emit post auth ev) \<longleftrightarrow> (\<exists>n. post (emitter_headers auth) ev = HttpStatus n \<and> 200 \<le> n \<and> n < 300)"
  by (simp add: http_emit_def Let_def split: http_outcome.split)

lemma http_emit_error_iff: "er_error (http_emit post auth ev) = None \<longleftrightarrow> er_success (http_emit post auth ev)"
  by (simp add: http_emit_def Let_def split: http_outcome.split)

lemma emit_batch_length [simp]: "length (emit_batch emit evs) = length evs"
  by (simp add: emit_batch_def)

subsection \<open>The detector\<close>

lemma unknown_severity_outranks:
  assumes "map_of severity_map (lower_of s) = None"
  shows "severity_number lower_of s = 99" "5 \<le> severity_number lower_of s"
  using assms by (simp_all add: severity_number_def)

lemma rate_alert_exact:
  "rate_alert d rule what u threshold n now \<noteq> [] \<longleftrightarrow>
     threshold < int n \<and> (\<forall>a. last_alert rule (ad_alerts d) = Some a \<longrightarrow> aa_count a < n)"
  by (auto simp: rate_alert_def split: option.splits)

lemma rate_alert_cases:
  assumes "rate_alert d rule what u threshold n now = []
    \<Longrightarrow> P []" and "\<And>a. \<lbrakk>aa_rule a = rule; aa_count a = n; threshold < int n;
      \<forall>b. last_alert rule (ad_alerts d) = Some b \<longrightarrow> aa_count b < n\<rbrakk> \<Longrightarrow> P [a]"
  shows "P (rate_alert d rule what u threshold n now)"
proof (cases "rate_alert d rule what u threshold n now = []")
  case True
  then show ?thesis using assms(1) by simp
next
  case False
  have c: "threshold < int n \<and> (\<forall>b. last_alert rule (ad_alerts d) = Some b \<longrightarrow> aa_count b < n)"
    using False unfolding rate_alert_exact .
  have "\<exists>a. rate_alert d rule what u threshold n now = [a] \<and> aa_rule a = rule \<and> aa_count a = n"
    using False by (auto simp: rate_alert_def split: if_splits option.splits)
  then obtain a where a: "rate_alert d rule what u threshold n now = [a]" "aa_rule a = rule" "aa_count a = n" by blast
  have "P [a]" using assms(2) [OF a(2,3)] c by blast
  then show ?thesis by (simp only: a(1))
qed

text \<open>The counts of a rate rule's alerts never fall: an alert that was raised silences every later burst that is not larger.\<close>

definition counts_of :: "anomaly_rule \<Rightarrow> anomaly_alert list \<Rightarrow> nat list" where
  "counts_of rule as = map aa_count (filter (\<lambda>a. aa_rule a = rule) as)"

definition rising_counts :: "anomaly_detector \<Rightarrow> bool" where
  "rising_counts d \<longleftrightarrow> sorted_wrt (<) (counts_of HighFindingRate (ad_alerts d)) \<and> sorted_wrt (<) (counts_of CriticalBurst (ad_alerts d))"

lemma counts_of_append [simp]: "counts_of rule (as @ bs) = counts_of rule as @ counts_of rule bs"
  by (simp add: counts_of_def)

lemma last_alert_count: "map_option aa_count (last_alert rule as) = (if counts_of rule as = [] then None else Some (last (counts_of rule as)))"
proof (induction as rule: rev_induct)
  case (snoc a as)
  have step: "last_alert rule (as @ [a]) = (if aa_rule a = rule then Some a else last_alert rule as)"
    by (simp add: last_alert_def)
  have counts: "counts_of rule (as @ [a]) = (if aa_rule a = rule then counts_of rule as @ [aa_count a] else counts_of rule as)"
    by (simp add: counts_of_def)
  show ?case
  proof (cases "aa_rule a = rule")
    case False
    then have "last_alert rule (as @ [a]) = last_alert rule as" "counts_of rule (as @ [a]) = counts_of rule as"
      by (simp_all only: step counts if_False)
    then show ?thesis using snoc.IH by (simp only:)
  qed (simp add: step counts_of_def)
qed (simp add: last_alert_def counts_of_def)

lemma sorted_snoc_last: "sorted_wrt (<) (ns @ [n :: nat]) \<longleftrightarrow> sorted_wrt (<) ns \<and> (ns \<noteq> [] \<longrightarrow> last ns < n)"
proof (induction ns)
  case (Cons m ns)
  then show ?case by (cases "ns = []") (auto intro: less_trans last_in_set)
qed simp

lemma rate_alert_rising:
  assumes "sorted_wrt (<) (counts_of rule (ad_alerts d))"
  shows "sorted_wrt (<) (counts_of rule (ad_alerts d) @ counts_of rule (rate_alert d rule what u threshold n now))"
proof (rule rate_alert_cases [where P = "\<lambda>xs. sorted_wrt (<) (counts_of rule (ad_alerts d) @ counts_of rule xs)"])
  fix a :: anomaly_alert
  assume a: "aa_rule a = rule" "aa_count a = n" "\<forall>b. last_alert rule (ad_alerts d) = Some b \<longrightarrow> aa_count b < n"
  have "counts_of rule (ad_alerts d) \<noteq> [] \<longrightarrow> last (counts_of rule (ad_alerts d)) < n"
    using a(3) last_alert_count [of rule "ad_alerts d"] by (cases "last_alert rule (ad_alerts d)") (auto split: if_splits)
  then show "sorted_wrt (<) (counts_of rule (ad_alerts d) @ counts_of rule [a])"
    using assms a(1,2) by (simp add: counts_of_def sorted_snoc_last)
qed (use assms in \<open>simp add: counts_of_def\<close>)

lemma rate_alert_other: "rule' \<noteq> rule \<Longrightarrow> counts_of rule' (rate_alert d rule what u threshold n now) = []"
  by (simp add: counts_of_def rate_alert_def)

lemma escalation_other:
  assumes "escalation_alert pt d to_int ev now = Some as" and "rule \<noteq> SeverityEscalation"
  shows "counts_of rule as = []"
  using assms by (auto simp: escalation_alert_def counts_of_def split: option.splits bool.splits if_splits)

lemma add_event_alerts [simp]: "ad_alerts (add_event now ev d) = ad_alerts d"
  by (simp add: add_event_def evict_stale_def)

lemma ingest_exact:
  assumes "ingest pt to_int now ev d0 = Some (new, d1)"
  obtains n c esc where "count_where is_finding_event (ad_events (add_event now ev d0)) = Some n"
    "count_where (critical_event to_int) (ad_events (add_event now ev d0)) = Some c"
    "escalation_alert pt (add_event now ev d0) to_int ev now = Some esc"
    "new = rate_alert (add_event now ev d0) HighFindingRate ''High finding rate: '' '' findings in '' (ad_rate (add_event now ev d0)) n now @
           rate_alert (add_event now ev d0) CriticalBurst ''Critical finding burst: '' '' critical findings in '' (ad_burst (add_event now ev d0)) c now @ esc"
    "d1 = (add_event now ev d0)\<lparr>ad_alerts := ad_alerts d0 @ new\<rparr>"
proof -
  define d where "d = add_event now ev d0"
  have a: "ad_alerts d = ad_alerts d0" by (simp add: d_def)
  from assms obtain n c esc where "count_where is_finding_event (ad_events d) = Some n"
      "count_where (critical_event to_int) (ad_events d) = Some c" "escalation_alert pt d to_int ev now = Some esc"
    "new = rate_alert d HighFindingRate ''High finding rate: '' '' findings in '' (ad_rate d) n now @
           rate_alert d CriticalBurst ''Critical finding burst: '' '' critical findings in '' (ad_burst d) c now @ esc"
    "d1 = d\<lparr>ad_alerts := ad_alerts d0 @ new\<rparr>"
    unfolding ingest_def Let_def d_def [symmetric] a [symmetric] by (auto split: option.splits)
  then show thesis unfolding d_def by (rule that)
qed

lemma ingest_rising:
  assumes "ingest pt to_int now ev d0 = Some (new, d1)" and "rising_counts d0"
  shows "rising_counts d1"
  using assms(1)
proof (rule ingest_exact)
  let ?d = "add_event now ev d0"
  fix n c esc
  assume esc: "escalation_alert pt ?d to_int ev now = Some esc"
    and new: "new = rate_alert ?d HighFindingRate ''High finding rate: '' '' findings in '' (ad_rate ?d) n now @
           rate_alert ?d CriticalBurst ''Critical finding burst: '' '' critical findings in '' (ad_burst ?d) c now @ esc"
    and d1: "d1 = ?d\<lparr>ad_alerts := ad_alerts d0 @ new\<rparr>"
  show ?thesis
    using assms(2) rate_alert_rising [of HighFindingRate ?d] rate_alert_rising [of CriticalBurst ?d]
    by (simp add: rising_counts_def d1 new rate_alert_other escalation_other [OF esc])
qed

lemma ingest_batch_rising:
  "ingest_batch pt to_int evs d = Some (new, d') \<Longrightarrow> rising_counts d \<Longrightarrow> rising_counts d'"
proof (induction evs arbitrary: d new)
  case (Cons x evs)
  obtain now ev where x: "x = (now, ev)" by (cases x)
  from Cons.prems(1) x obtain n1 d1 where 1: "ingest pt to_int now ev d = Some (n1, d1)" by (auto split: option.splits)
  from Cons.prems(1) x 1 obtain n2 where 2: "ingest_batch pt to_int evs d1 = Some (n2, d')" by (auto split: prod.splits)
  show ?case by (rule Cons.IH [OF 2 ingest_rising [OF 1 Cons.prems(2)]])
qed simp

lemma smaller_burst_silent:
  assumes "last_alert rule (ad_alerts d) = Some a" and "n \<le> aa_count a"
  shows "rate_alert d rule what u threshold n now = []"
proof -
  have "\<not> rate_alert d rule what u threshold n now \<noteq> []"
    unfolding rate_alert_exact using assms by auto
  then show ?thesis by simp
qed

lemma every_further_finding_alerts:
  assumes "last_alert rule (ad_alerts d) = Some a" and "threshold < int (aa_count a)"
  shows "rate_alert d rule what u threshold (Suc (aa_count a)) now \<noteq> []"
  unfolding rate_alert_exact using assms by simp

text \<open>After a call the detector holds only events of the window, the new one among them if the window is not negative.\<close>

lemma ingest_window:
  assumes "ingest pt to_int now ev d = Some (new, d')"
  shows "list_all (fresh_event (now - ad_window_ms d)) (ad_events d')" and "ad_alerts d' = ad_alerts d @ new"
    and "0 \<le> ad_window_ms d \<Longrightarrow> stamped now ev \<in> set (ad_events d')"
proof -
  have e: "ad_events d' = filter (fresh_event (now - ad_window_ms d)) (ad_events d @ [stamped now ev])"
    by (rule ingest_exact [OF assms]) (simp add: add_event_def evict_stale_def)
  show "list_all (fresh_event (now - ad_window_ms d)) (ad_events d')" using e by (auto simp: list_all_iff)
  show "ad_alerts d' = ad_alerts d @ new" by (rule ingest_exact [OF assms]) simp
  show "stamped now ev \<in> set (ad_events d')" if "0 \<le> ad_window_ms d"
  proof -
    have "map_of (stamped now ev) ingested_at = Some (JInt now)" by (simp add: stamped_def update_conv)
    then show ?thesis using that by (simp add: e fresh_event_def get_or_def)
  qed
qed

end
