(* ===== verification/Cli_Response.thy ===== *)
theory Cli_Response
  imports Telemetry Incident
begin

text \<open>
  What the commands do with telemetry and containment (\<open>cli.py\<close>): \<open>_emit_scan_telemetry\<close> and \<open>_run_ir_containment\<close>
  after a scan, \<open>ir contain\<close> and \<open>ir status\<close> on an incident file. A command ends with an exit code or with an exception
  that nothing catches, for which Python exits with code 1.
\<close>

datatype cli_end = Exit nat | Uncaught

definition process_status :: "cli_end \<Rightarrow> nat" where
  "process_status x = (case x of Exit n \<Rightarrow> n | Uncaught \<Rightarrow> 1)"

section \<open>Telemetry of a scan\<close>

definition severity_of_probe :: "threat list \<Rightarrow> str \<Rightarrow> str" where
  "severity_of_probe threats pid = (case probe_meta threats pid of Some (v, _) \<Rightarrow> severity_name v | None \<Rightarrow> ascii ''medium'')"

record telemetry_env =
  te_ocsf :: ocsf_env
  te_text :: py_text
  te_int :: "json \<Rightarrow> int option"
  te_url :: url_env
  te_post :: "(str \<times> str) list \<Rightarrow> (str \<times> json) list \<Rightarrow> http_outcome"
  te_clock :: "nat \<Rightarrow> int"
  te_window :: str

definition fresh_detector :: "telemetry_env \<Rightarrow> int \<Rightarrow> int \<Rightarrow> anomaly_detector" where
  "fresh_detector e rate burst =
     \<lparr>ad_rate = rate, ad_burst = burst, ad_baseline = 3, ad_window_ms = 300000, ad_window_text = te_window e, ad_events = [], ad_alerts = []\<rparr>"

definition scan_event :: "telemetry_env \<Rightarrow> threat list \<Rightarrow> str \<Rightarrow> probe_result \<Rightarrow> (str \<times> json) list" where
  "scan_event e threats target r =
     build_detection_finding (te_ocsf e) (pr_probe_id r) (pr_threat_id r) (pr_passed r) target (pr_duration r)
       (severity_of_probe threats (pr_probe_id r)) None None None None"

text \<open>The address that is printed: the host and a port that is not zero, without credentials.\<close>

definition url_without_userinfo :: "url_env \<Rightarrow> str \<Rightarrow> (str \<times> str) option" where
  "url_without_userinfo e u =
     (case urlparse e u of
        None \<Rightarrow> None
      | Some p \<Rightarrow>
          (case url_port p of
             None \<Rightarrow> None
           | Some port \<Rightarrow>
               Some (url_scheme p, (case url_hostname e p of None \<Rightarrow> [] | Some h \<Rightarrow> h) @
                 (case port of None \<Rightarrow> [] | Some n \<Rightarrow> if n = 0 then [] else ascii '':'' @ dump_int (int n)))))"

record telemetry_outcome =
  to_emitted :: nat
  to_failed :: nat
  to_alerts :: "anomaly_alert list"
  to_shown :: "str \<times> str"

text \<open>Each event is posted and then judged; an exception of the detector stops the run. \<open>None\<close> is an exception.\<close>

fun emit_events :: "telemetry_env \<Rightarrow> str option \<Rightarrow> nat \<Rightarrow> (str \<times> json) list list \<Rightarrow> anomaly_detector \<Rightarrow> (nat \<times> nat \<times> anomaly_detector) option" where
  "emit_events e auth k [] d = Some (0, 0, d)"
| "emit_events e auth k (ev # evs) d =
     (let ok = er_success (http_emit (te_post e) auth ev) in
      case ingest (te_text e) (te_int e) (te_clock e k) ev d of
        None \<Rightarrow> None
      | Some (_, d') \<Rightarrow>
          map_option (\<lambda>(n, m, d''). (if ok then (n + 1, m, d'') else (n, m + 1, d''))) (emit_events e auth (k + 1) evs d'))"

definition emit_scan_telemetry :: "telemetry_env \<Rightarrow> scan_result \<Rightarrow> str \<Rightarrow> str \<Rightarrow> str option \<Rightarrow> int \<Rightarrow> int \<Rightarrow> telemetry_outcome option" where
  "emit_scan_telemetry e s target emit_to auth rate burst =
     (if \<not> emitter_endpoint_ok emit_to then None
      else case emit_events e auth 0 (map (scan_event e (so_threats s) target) (so_probes s)) (fresh_detector e rate burst) of
        None \<Rightarrow> None
      | Some (n, m, d) \<Rightarrow>
          map_option (\<lambda>shown. \<lparr>to_emitted = n, to_failed = m, to_alerts = ad_alerts d, to_shown = shown\<rparr>) (url_without_userinfo (te_url e) emit_to))"

section \<open>Containment after a scan\<close>

definition ir_finding :: "threat list \<Rightarrow> probe_result \<Rightarrow> (str \<times> json) list" where
  "ir_finding threats r =
     [(ascii ''probe_id'', JStr (pr_probe_id r)), (ascii ''threat_id'', JStr (pr_threat_id r)),
      (ascii ''severity'', JStr (severity_of_probe threats (pr_probe_id r)))]"

definition drives_incident :: "probe_result \<Rightarrow> bool" where
  "drives_incident r \<longleftrightarrow> \<not> pr_passed r \<and> pr_error r = None \<and> \<not> pr_suppressed r"

definition ir_findings :: "scan_result \<Rightarrow> (str \<times> json) list list" where
  "ir_findings s = map (ir_finding (so_threats s)) (filter drives_incident (so_probes s))"

definition ir_rules :: "(str \<times> json) list list \<Rightarrow> int \<Rightarrow> int \<Rightarrow> str list" where
  "ir_rules fs rate burst =
     (if int (length fs) > rate then [ascii ''high_finding_rate''] else []) @
     (if int (length (filter (\<lambda>f. map_of f (ascii ''severity'') = Some (JStr (ascii ''critical''))) fs)) > burst
      then [ascii ''critical_burst''] else [])"

definition probe_severities :: "threat list \<Rightarrow> (str, json) dict" where
  "probe_severities threats = rev (map (\<lambda>(pid, v, _). (pid, JStr (severity_name v))) (probe_metas threats))"

record ir_options =
  io_contain :: bool
  io_report :: "str option"
  io_emit :: "str option"
  io_auth :: "str option"
  io_rate :: int
  io_burst :: int
  io_private :: bool

abbreviation given :: "str option \<Rightarrow> bool" where
  "given x \<equiv> x \<noteq> None \<and> x \<noteq> Some []"

definition ir_actions :: "ir_options \<Rightarrow> incident \<Rightarrow> str list \<Rightarrow> containment_action list" where
  "ir_actions opt i rules =
     (if rules \<noteq> [] \<and> io_contain opt then in_actions i
      else (if given (io_emit opt) then [EmitIncident] else []) @ (if given (io_report opt) then [QuarantineReport] else []))"

text \<open>
  The results of the actions and the effects they had; no results where the function returns before it acts, \<open>None\<close>
  where it raises, which its caller turns into a warning.
\<close>

definition run_ir_containment :: "containment_env \<Rightarrow> str \<Rightarrow> int \<Rightarrow> ir_options \<Rightarrow> scan_result \<Rightarrow> str \<Rightarrow>
    containment_result list option \<times> effect list" where
  "run_ir_containment e uuid now opt s target =
     (let fs = ir_findings s;
          rules = (if io_contain opt then ir_rules fs (io_rate opt) (io_burst opt) else []) in
      if fs = [] then (Some [], [])
      else if io_contain opt \<and> rules = [] \<and> \<not> given (io_report opt) \<and> \<not> given (io_emit opt) then (Some [], [])
      else case build_incident (ce_text e) uuid now target (so_timestamp s) fs rules (probe_severities (so_threats s)) of
        None \<Rightarrow> (None, [])
      | Some i \<Rightarrow>
          (let actions = ir_actions opt i rules in
           if actions = [] then (Some [], [])
           else case perform_containment e now i (Some actions) (io_emit opt) (io_auth opt)
                       (if given (io_report opt) then io_report opt else None) (io_private opt) of
             (rs, effs) \<Rightarrow>
               (if given (io_emit opt) \<and> url_without_userinfo (ce_url e) (the (io_emit opt)) = None then None else rs, effs)))"

section \<open>Incident files\<close>

text \<open>The exceptions that the commands catch (\<open>KeyError\<close>, \<open>ValueError\<close>, \<open>OSError\<close>), and the others.\<close>

datatype load_error = CaughtError | OtherError

fun earliest_error :: "load_error option list \<Rightarrow> load_error option" where
  "earliest_error [] = None"
| "earliest_error (None # xs) = earliest_error xs"
| "earliest_error (Some x # xs) = Some x"

definition key_error :: "(str \<times> json) list \<Rightarrow> string \<Rightarrow> load_error option" where
  "key_error d k = (if map_of d (ascii k) = None then Some CaughtError else None)"

definition finding_error :: "json \<Rightarrow> load_error option" where
  "finding_error v = (case v of JDict f \<Rightarrow> earliest_error [key_error f ''probe_id'', key_error f ''threat_id''] | _ \<Rightarrow> Some OtherError)"

definition each_error :: "(json \<Rightarrow> load_error option) \<Rightarrow> json \<Rightarrow> load_error option" where
  "each_error f v = (case iterate v of None \<Rightarrow> Some OtherError | Some xs \<Rightarrow> earliest_error (map f xs))"

definition enum_error :: "('a \<Rightarrow> str) \<Rightarrow> 'a list \<Rightarrow> json \<Rightarrow> load_error option" where
  "enum_error name all v = (if enum_at name all v = None then Some CaughtError else None)"

definition int_error :: "(json \<Rightarrow> load_error + int) \<Rightarrow> json option \<Rightarrow> load_error option" where
  "int_error to_int v = (case v of None \<Rightarrow> Some CaughtError | Some x \<Rightarrow> (case to_int x of Inl err \<Rightarrow> Some err | Inr _ \<Rightarrow> None))"

text \<open>The first exception of \<open>IncidentRecord.from_dict\<close>, in the order the arguments are evaluated.\<close>

definition incident_error :: "(json \<Rightarrow> load_error + int) \<Rightarrow> (str \<times> json) list \<Rightarrow> load_error option" where
  "incident_error to_int d =
     earliest_error
       [key_error d ''incident_id'', key_error d ''target_url'', key_error d ''scan_timestamp'',
        int_error to_int (map_of d (ascii ''triggered_at_ms'')),
        each_error finding_error (get_or d (ascii ''findings'') (JList [])),
        each_error (\<lambda>_. None) (get_or d (ascii ''anomaly_rules'') (JList [])),
        enum_error incident_severity_name all_incident_severities (get_or d (ascii ''severity'') (JStr (ascii ''high''))),
        each_error (enum_error action_name all_actions) (get_or d (ascii ''recommended_actions'') (JList []))]"

definition int_value :: "(json \<Rightarrow> load_error + int) \<Rightarrow> json \<Rightarrow> int option" where
  "int_value to_int v = (case to_int v of Inl _ \<Rightarrow> None | Inr n \<Rightarrow> Some n)"

text \<open>The file is what \<open>json.loads\<close> makes of it; \<open>None\<close> if it cannot be read. A report wraps the incident.\<close>

definition load_incident :: "py_text \<Rightarrow> (json \<Rightarrow> load_error + int) \<Rightarrow> json option \<Rightarrow> load_error + incident" where
  "load_incident pt to_int content =
     (case content of
        None \<Rightarrow> Inl CaughtError
      | Some (JDict raw) \<Rightarrow>
          (case get_or raw (ascii ''incident'') (JDict raw) of
             JDict d \<Rightarrow>
               (case incident_error to_int d of
                  Some err \<Rightarrow> Inl err
                | None \<Rightarrow> (case incident_from_dict pt (int_value to_int) d of None \<Rightarrow> Inl OtherError | Some i \<Rightarrow> Inr i))
           | _ \<Rightarrow> Inl OtherError)
      | Some _ \<Rightarrow> Inl OtherError)"

record contain_options =
  co_emit :: "str option"
  co_auth :: "str option"
  co_block :: bool
  co_kill :: bool
  co_all :: bool
  co_private :: bool

definition contain_actions :: "contain_options \<Rightarrow> incident \<Rightarrow> containment_action list" where
  "contain_actions opt i =
     (if co_all opt then in_actions i
      else let chosen = (if given (co_emit opt) then [EmitIncident] else []) @ (if co_block opt then [BlockEgress] else []) @
                        (if co_kill opt then [SessionKill] else [])
           in if chosen = [] then [QuarantineReport] else chosen)"

definition ir_contain :: "containment_env \<Rightarrow> (json \<Rightarrow> load_error + int) \<Rightarrow> int \<Rightarrow> contain_options \<Rightarrow> json option \<Rightarrow> cli_end \<times> effect list" where
  "ir_contain e to_int now opt content =
     (case load_incident (ce_text e) to_int content of
        Inl CaughtError \<Rightarrow> (Exit 2, [])
      | Inl OtherError \<Rightarrow> (Uncaught, [])
      | Inr i \<Rightarrow>
          (case perform_containment e now i (Some (contain_actions opt i)) (co_emit opt) (co_auth opt) None (co_private opt) of
             (None, effs) \<Rightarrow> (Uncaught, effs)
           | (Some rs, effs) \<Rightarrow> (Exit (if list_all cr_success rs then 0 else 1), effs)))"

definition ir_status :: "py_text \<Rightarrow> (json \<Rightarrow> load_error + int) \<Rightarrow> json option \<Rightarrow> cli_end" where
  "ir_status pt to_int content =
     (case load_incident pt to_int content of
        Inl CaughtError \<Rightarrow> Exit 2 | Inl OtherError \<Rightarrow> Uncaught | Inr _ \<Rightarrow> Exit 0)"

section \<open>Properties\<close>

subsection \<open>Telemetry\<close>

lemma emit_events_total: "emit_events e auth k evs d = Some (n, m, d') \<Longrightarrow> n + m = length evs"
proof (induction evs arbitrary: k d n m d')
  case (Cons ev evs)
  from Cons.prems obtain x d1 where i: "ingest (te_text e) (te_int e) (te_clock e k) ev d = Some (x, d1)"
    by (auto simp: Let_def split: option.splits)
  from Cons.prems i obtain n1 m1 d2 where r: "emit_events e auth (k + 1) evs d1 = Some (n1, m1, d2)"
    and nm: "(n, m, d') = (if er_success (http_emit (te_post e) auth ev) then (n1 + 1, m1, d2) else (n1, m1 + 1, d2))"
    by (auto simp: Let_def)
  from Cons.IH [OF r] nm show ?case by (auto split: if_splits)
qed simp

lemma telemetry_counts:
  assumes "emit_scan_telemetry e s target u auth rate burst = Some t"
  shows "to_emitted t + to_failed t = length (so_probes s)"
  using assms emit_events_total
  by (fastforce simp: emit_scan_telemetry_def split: if_splits option.splits)

text \<open>An address that is no http URL is an exception, outside the delivery whose failures the command tolerates.\<close>

lemma bad_endpoint_raises: "\<not> emitter_endpoint_ok u \<Longrightarrow> emit_scan_telemetry e s target u auth rate burst = None"
  by (simp add: emit_scan_telemetry_def)

lemma bad_port_raises: "url_without_userinfo (te_url e) u = None \<Longrightarrow> emit_scan_telemetry e s target u auth rate burst = None"
  by (simp add: emit_scan_telemetry_def split: option.split)

subsection \<open>Containment\<close>

lemma no_finding_no_action:
  "list_all (\<lambda>r. \<not> drives_incident r) (so_probes s) \<Longrightarrow> run_ir_containment e uuid now opt s target = (Some [], [])"
  by (simp add: run_ir_containment_def ir_findings_def list_all_iff Let_def)

text \<open>Every effect of a containment run passed the egress check at that moment.\<close>

lemma ir_effects_allowed: "list_all (effect_allowed e (io_private opt)) (snd (run_ir_containment e uuid now opt s target))"
proof -
  note c = containment_only_allowed [of e "io_private opt"]
  show ?thesis
    unfolding run_ir_containment_def Let_def
    by (simp add: split_def c split: option.split)
qed

lemma contain_effects_allowed: "list_all (effect_allowed e (co_private opt)) (snd (ir_contain e to_int now opt content))"
proof -
  note c = containment_only_allowed [of e "co_private opt"]
  show ?thesis
    unfolding ir_contain_def
    using c by (auto simp: split_def split: option.split sum.split load_error.split prod.split)
qed

text \<open>The session is killed only when a threshold was passed and the operator asked for containment.\<close>

lemma kill_needs_rules:
  assumes "SessionKill \<in> set (ir_actions opt i rules)"
  shows "io_contain opt" and "rules \<noteq> []"
  using assms by (auto simp: ir_actions_def split: if_splits)

lemma inconclusive_drives: "drives_incident (r\<lparr>pr_inconclusive := x\<rparr>) \<longleftrightarrow> drives_incident r"
  by (simp add: drives_incident_def)

lemma inconclusive_no_finding:
  "pr_inconclusive r \<noteq> None \<Longrightarrow> has_findings (s\<lparr>so_probes := [r], so_scenarios := []\<rparr>) = False"
  by (simp add: has_findings_def)

subsection \<open>Incident files\<close>

lemma earliest_error_None [simp]: "earliest_error xs = None \<longleftrightarrow> list_all (\<lambda>x. x = None) xs"
  by (induction xs rule: earliest_error.induct) simp_all

lemma those_defined_iff: "those xs \<noteq> None \<longleftrightarrow> list_all (\<lambda>x. x \<noteq> None) xs"
  by (induction xs) (auto split: option.splits)

lemma finding_error_None: "finding_error v = None \<longleftrightarrow> finding_from_dict pt v \<noteq> None"
  by (cases v) (auto simp: finding_error_def finding_from_dict_def key_error_def split: option.splits)

lemma each_error_None:
  "each_error f v = None \<longleftrightarrow> (\<exists>xs. iterate v = Some xs \<and> list_all (\<lambda>x. f x = None) xs)"
  by (auto simp: each_error_def list_all_iff split: option.splits)

lemma int_error_None: "int_error to_int v = None \<longleftrightarrow> Option.bind v (int_value to_int) \<noteq> None"
  by (auto simp: int_error_def int_value_def split: option.splits sum.splits)

lemma those_map_exists: "list_all (\<lambda>x. f x \<noteq> None) xs \<longleftrightarrow> (\<exists>ys. those (map f xs) = Some ys)"
  using those_defined_iff [of "map f xs"] by (auto simp: list_all_iff)

text \<open>The order of the exceptions accounts for every failure: an incident is loaded exactly when there is none.\<close>

lemma incident_error_exact: "incident_error to_int d = None \<longleftrightarrow> incident_from_dict pt (int_value to_int) d \<noteq> None"
proof -
  have f: "each_error finding_error v = None \<longleftrightarrow> Option.bind (iterate v) (\<lambda>fs. those (map (finding_from_dict pt) fs)) \<noteq> None" for v
    unfolding each_error_None finding_error_None [where pt = pt] those_map_exists
    by (cases "iterate v") auto
  have r: "each_error (\<lambda>_. None) v = None \<longleftrightarrow> iterate v \<noteq> None" for v
    unfolding each_error_None by (auto simp: list_all_iff)
  have a: "each_error (enum_error action_name all_actions) v = None \<longleftrightarrow>
      Option.bind (iterate v) (\<lambda>xs. those (map (enum_at action_name all_actions) xs)) \<noteq> None" for v
  proof -
    have "list_all (\<lambda>x. enum_error action_name all_actions x = None) xs \<longleftrightarrow> (\<exists>ys. those (map (enum_at action_name all_actions) xs) = Some ys)" for xs
      unfolding those_map_exists [symmetric] by (auto simp: list_all_iff enum_error_def)
    then show ?thesis unfolding each_error_None by (cases "iterate v") auto
  qed
  show ?thesis
    unfolding incident_error_def incident_from_dict_def
    by (simp add: f r a int_error_None key_error_def enum_error_def del: ascii_simps split: option.split)
qed

lemma load_incident_exact:
  "load_incident pt to_int content = Inr i \<longleftrightarrow>
     (\<exists>raw d. content = Some (JDict raw) \<and> get_or raw (ascii ''incident'') (JDict raw) = JDict d \<and>
        incident_from_dict pt (int_value to_int) d = Some i)"
proof
  assume "load_incident pt to_int content = Inr i"
  then show "\<exists>raw d. content = Some (JDict raw) \<and> get_or raw (ascii ''incident'') (JDict raw) = JDict d \<and>
        incident_from_dict pt (int_value to_int) d = Some i"
    by (auto simp: load_incident_def split: option.splits json.splits)
next
  assume "\<exists>raw d. content = Some (JDict raw) \<and> get_or raw (ascii ''incident'') (JDict raw) = JDict d \<and>
        incident_from_dict pt (int_value to_int) d = Some i"
  then obtain raw d where d: "content = Some (JDict raw)" "get_or raw (ascii ''incident'') (JDict raw) = JDict d"
      "incident_from_dict pt (int_value to_int) d = Some i" by blast
  have "incident_error to_int d = None" unfolding incident_error_exact [where pt = pt] using d(3) by simp
  then show "load_incident pt to_int content = Inr i" using d by (simp add: load_incident_def)
qed

text \<open>Exit code 0 exactly when the file holds an incident and every action succeeded.\<close>

lemma ir_contain_zero:
  "process_status (fst (ir_contain e to_int now opt content)) = 0 \<longleftrightarrow>
     (\<exists>i rs. load_incident (ce_text e) to_int content = Inr i \<and>
        fst (perform_containment e now i (Some (contain_actions opt i)) (co_emit opt) (co_auth opt) None (co_private opt)) = Some rs \<and>
        list_all cr_success rs)"
  by (auto simp: ir_contain_def process_status_def split: sum.splits load_error.splits option.splits prod.splits)

text \<open>A file that is JSON but no object is an exception that is not caught, so its status is that of a failed action.\<close>

lemma no_object_is_uncaught:
  assumes "content = Some v" and "\<And>d. v \<noteq> JDict d"
  shows "fst (ir_contain e to_int now opt content) = Uncaught" and "ir_status pt to_int content = Uncaught"
  using assms by (cases v; simp add: ir_contain_def ir_status_def load_incident_def)+

end
