(* ===== verification/Cli_Scan.thy ===== *)
theory Cli_Scan
  imports Html_Writer Csv_Report Fleet Artifact_Commands Cli_Response
begin

text \<open>
  The command \<open>cosai scan\<close> (\<open>cli.py\<close>): the checks of its options, the choice between one target and a fleet, the scan,
  and everything that is done with the result, in order, up to the exit code. What it prints is left out, but for the
  numbers of the summary; so are the signature beside a report, which is best effort and changes nothing else, and the
  parsing of the command line.
\<close>

section \<open>Options\<close>

record scan_options =
  cs_target :: "str option"
  cs_targets_file :: "str option"
  cs_concurrency :: int
  cs_timeout_text :: str
  cs_categories :: str
  cs_engine :: str
  cs_fail_on :: str
  cs_baseline :: "str option"
  cs_allow_custom_catalog :: bool
  cs_report_sarif :: "str option"
  cs_report_html :: "str option"
  cs_no_report :: bool
  cs_report_mode :: str
  cs_report_csv :: "str option"
  cs_allow_private :: bool
  cs_catalog_root :: "str option"
  cs_auth_token :: "str option"
  cs_read_token :: "str option"
  cs_mcp_path :: str
  cs_no_adaptive :: bool
  cs_pii_strict :: bool
  cs_profile :: "str option"
  cs_allow_custom_profiles :: bool
  cs_adversarial :: bool
  cs_own :: "str option"
  cs_allow_stateful :: bool
  cs_report_adversarial :: "str option"
  cs_skip_reachability :: bool
  cs_contain :: bool
  cs_ir_report :: "str option"
  cs_emit_to :: "str option"
  cs_emit_auth :: "str option"
  cs_anomaly_threshold :: int
  cs_burst_threshold :: int
  cs_scorecard :: "str option"
  cs_no_sign :: bool
  cs_sigstore_sign :: bool
  cs_sigstore_staging :: bool
  cs_experimental :: bool
  cs_method_overrides :: "str option"
  cs_tool_allowlist :: "str option"
  cs_expected_hash :: "str option"
  cs_era :: str
  cs_level :: "int option"
  cs_evidence :: "str option"
  cs_report_assurance :: "str option"
  cs_foreign_token :: "str option"

text \<open>\<open>raw.split(",")\<close> with each part stripped.\<close>

definition comma_parts :: "str \<Rightarrow> str list" where
  "comma_parts s = map py_strip (split_on (\<lambda>c. c = 44) s)"

definition parse_tool_allowlist :: "str option \<Rightarrow> str list option" where
  "parse_tool_allowlist raw =
     (case raw of
        None \<Rightarrow> None
      | Some s \<Rightarrow> let names = filter (\<lambda>n. n \<noteq> []) (comma_parts s) in if names = [] then None else Some (rev (remdups (rev names))))"

text \<open>An item \<open>key=value\<close>, split at the first equality sign; an item without one, or with an empty side, is left out.\<close>

definition override_item :: "str \<Rightarrow> (str \<times> str) option" where
  "override_item item =
     (case dropWhile (\<lambda>c. c \<noteq> 61) item of
        [] \<Rightarrow> None
      | _ # v \<Rightarrow> let key = py_strip (takeWhile (\<lambda>c. c \<noteq> 61) item); val = py_strip v in if key = [] \<or> val = [] then None else Some (key, val))"

definition parse_method_overrides :: "str option \<Rightarrow> (str, str) dict option" where
  "parse_method_overrides raw =
     (if \<not> given raw then None
      else let d = fold (\<lambda>(k, v). AList.update k v) (List.map_filter override_item (comma_parts (the raw))) [] in if d = [] then None else Some d)"

definition category_list :: "str \<Rightarrow> str list option" where
  "category_list s = (if s = ascii ''all'' then None else Some (filter (\<lambda>c. c \<noteq> []) (comma_parts s)))"

section \<open>The world around the command\<close>

record cli_env =
  cv_scan :: scan_env
  cv_reach :: "str \<Rightarrow> nat \<Rightarrow> str option"
  cv_path :: "str \<Rightarrow> fs_path"
  cv_catalog_path :: "str \<Rightarrow> path"
  cv_profile_env :: profile_env
  cv_profile_files :: profile_files
  cv_cwd :: "str list"
  cv_home :: "str list"
  cv_html :: html_env
  cv_csv :: csv_env
  cv_sarif :: sarif_env
  cv_telemetry :: telemetry_env
  cv_containment :: containment_env
  cv_uuid :: str
  cv_now_ms :: int
  cv_version :: str
  cv_sign :: "scorecard \<Rightarrow> bool + scorecard"
  cv_sigstore :: "scorecard \<Rightarrow> bool \<Rightarrow> json option"
  cv_writable :: "str \<Rightarrow> bool"
  cv_target_lines :: "str \<Rightarrow> load_error + str list"
  cv_error_text :: "scan_error \<Rightarrow> str"
  cv_pool :: "(str \<times> scan_result target_outcome) list \<Rightarrow> (str \<times> scan_result target_outcome) list"

text \<open>What the command leaves behind, in order.\<close>

datatype artifact =
    SarifFile str "(str \<times> json) list"
  | HtmlFile str "byte list"
  | CsvFile str "byte list"
  | AdversarialFile str "byte list"
  | ScorecardFile str scorecard
  | SigstoreFile str json
  | AssuranceFile str "(str \<times> json) list"
  | Emitted telemetry_outcome
  | Contained "effect list"
  | MergedSarifFile str "(str \<times> json) list"
  | FleetScorecardFile str "(str \<times> json) list"

text \<open>A step either goes on or ends the process.\<close>

datatype stage = Go "artifact list" | Stop cli_end "artifact list"

fun run_stages :: "stage list \<Rightarrow> stage" where
  "run_stages [] = Go []"
| "run_stages (Stop x a # sts) = Stop x a"
| "run_stages (Go a # sts) = (case run_stages sts of Go b \<Rightarrow> Go (a @ b) | Stop x b \<Rightarrow> Stop x (a @ b))"

definition finish :: "nat \<Rightarrow> stage \<Rightarrow> cli_end \<times> artifact list" where
  "finish code st = (case st of Go a \<Rightarrow> (Exit code, a) | Stop x a \<Rightarrow> (x, a))"

definition write_stage :: "cli_env \<Rightarrow> str \<Rightarrow> artifact option \<Rightarrow> stage" where
  "write_stage e p x = (case x of None \<Rightarrow> Stop (Exit 2) [] | Some a \<Rightarrow> if cv_writable e p then Go [a] else Stop (Exit 2) [])"

section \<open>After the scan\<close>

definition assurance_flag_stage :: "scan_options \<Rightarrow> scan_result \<Rightarrow> stage" where
  "assurance_flag_stage opt s = (if so_assurance s = None \<and> given (cs_report_assurance opt) then Stop (Exit 2) [] else Go [])"

text \<open>The emission is not inside a \<open>try\<close>.\<close>

definition telemetry_stage :: "cli_env \<Rightarrow> scan_options \<Rightarrow> str \<Rightarrow> scan_result \<Rightarrow> stage" where
  "telemetry_stage e opt target s =
     (if given (cs_emit_to opt) \<and> cs_experimental opt
      then case emit_scan_telemetry (cv_telemetry e) s target (the (cs_emit_to opt)) (cs_emit_auth opt) (cs_anomaly_threshold opt) (cs_burst_threshold opt) of
             None \<Rightarrow> Stop Uncaught [] | Some t \<Rightarrow> Go [Emitted t]
      else Go [])"

definition valid_sarif :: "cli_env \<Rightarrow> scan_result \<Rightarrow> (str \<times> json) list option" where
  "valid_sarif e s =
     (case build_sarif_dict (cv_sarif e) s of None \<Rightarrow> None | Some doc \<Rightarrow> if validate_sarif_structure (cv_sarif e) doc then Some doc else None)"

definition sarif_stage :: "cli_env \<Rightarrow> scan_options \<Rightarrow> scan_result \<Rightarrow> stage" where
  "sarif_stage e opt s =
     (if given (cs_report_sarif opt)
      then write_stage e (the (cs_report_sarif opt)) (map_option (SarifFile (the (cs_report_sarif opt))) (valid_sarif e s)) else Go [])"

abbreviation cli_lower :: "cli_env \<Rightarrow> str \<Rightarrow> str" where
  "cli_lower e \<equiv> pt_lower (sv_text (cv_scan e))"

definition html_path :: "cli_env \<Rightarrow> scan_options \<Rightarrow> str option" where
  "html_path e opt =
     (if cs_no_report opt \<or> cli_lower e (cs_report_mode opt) = ascii ''ci'' then None
      else Some (if given (cs_report_html opt) then the (cs_report_html opt) else ascii ''cosai-report.html''))"

definition html_stage :: "cli_env \<Rightarrow> scan_options \<Rightarrow> scan_result \<Rightarrow> stage" where
  "html_stage e opt s =
     (case html_path e opt of
        None \<Rightarrow> Go []
      | Some p \<Rightarrow> write_stage e p (map_option (HtmlFile p) (write_html_report (cv_html e) (sv_text (cv_scan e)) (cv_version e) s (cs_report_mode opt))))"

definition csv_stage :: "cli_env \<Rightarrow> scan_options \<Rightarrow> scan_result \<Rightarrow> stage" where
  "csv_stage e opt s =
     (if given (cs_report_csv opt)
      then write_stage e (the (cs_report_csv opt)) (map_option (CsvFile (the (cs_report_csv opt))) (write_csv_report (cv_csv e) s)) else Go [])"

definition adversarial_path :: "scan_options \<Rightarrow> str" where
  "adversarial_path opt =
     (if given (cs_report_adversarial opt) then the (cs_report_adversarial opt) else ascii ''cosai-adversarial-report.html'')"

definition adversarial_stage :: "cli_env \<Rightarrow> scan_options \<Rightarrow> str \<Rightarrow> scan_result \<Rightarrow> stage" where
  "adversarial_stage e opt target s =
     (if cs_adversarial opt \<and> \<not> cs_no_report opt \<and> cli_lower e (cs_report_mode opt) \<noteq> ascii ''ci''
      then write_stage e (adversarial_path opt) (map_option (AdversarialFile (adversarial_path opt))
             (write_adversarial_html_report (cv_html e) (sv_upper (cv_scan e)) s target (case cs_own opt of None \<Rightarrow> [] | Some d \<Rightarrow> d)))
      else Go [])"

definition ir_options_of :: "scan_options \<Rightarrow> ir_options" where
  "ir_options_of opt =
     \<lparr>io_contain = cs_contain opt, io_report = cs_ir_report opt, io_emit = cs_emit_to opt, io_auth = cs_emit_auth opt,
      io_rate = cs_anomaly_threshold opt, io_burst = cs_burst_threshold opt, io_private = cs_allow_private opt\<rparr>"

text \<open>An exception of the containment is a warning.\<close>

definition containment_stage :: "cli_env \<Rightarrow> scan_options \<Rightarrow> str \<Rightarrow> scan_result \<Rightarrow> stage" where
  "containment_stage e opt target s =
     (if cs_experimental opt \<and> (cs_contain opt \<or> given (cs_ir_report opt) \<or> given (cs_emit_to opt))
      then Go [Contained (snd (run_ir_containment (cv_containment e) (cv_uuid e) (cv_now_ms e) (ir_options_of opt) s target))]
      else Go [])"

definition scan_card :: "cli_env \<Rightarrow> scan_options \<Rightarrow> scan_result \<Rightarrow> scorecard option" where
  "scan_card e opt s = build_scorecard (cv_sign e) (cv_version e) (\<not> cs_no_sign opt) s"

definition sigstore_path :: "str \<Rightarrow> str" where
  "sigstore_path p = p @ ascii ''.sigstore.json''"

definition scorecard_stage :: "cli_env \<Rightarrow> scan_options \<Rightarrow> scan_result \<Rightarrow> stage" where
  "scorecard_stage e opt s =
     (if \<not> given (cs_scorecard opt) then Go []
      else let p = the (cs_scorecard opt) in
        case scan_card e opt s of
          None \<Rightarrow> Stop (Exit 2) []
        | Some c \<Rightarrow>
            run_stages
              [write_stage e p (Some (ScorecardFile p c)),
               (if cs_sigstore_sign opt
                then write_stage e (sigstore_path p) (map_option (SigstoreFile (sigstore_path p)) (cv_sigstore e c (cs_sigstore_staging opt))) else Go [])])"

definition assurance_doc :: "cli_env \<Rightarrow> scan_options \<Rightarrow> scan_result \<Rightarrow> assurance_report \<Rightarrow> (str \<times> json) list" where
  "assurance_doc e opt s a =
     [(ascii ''unsigned_copy'', JBool True),
      (ascii ''authoritative_source'', JStr (ascii ''the '' @ [39] @ ascii ''assurance'' @ [39] @ ascii '' block of the signed scorecard'' @
         (if given (cs_scorecard opt) then [32] @ the (cs_scorecard opt) else ascii '' (--scorecard not given)''))),
      (ascii ''scorecard_signature'', if given (cs_scorecard opt) then (case scan_card e opt s of None \<Rightarrow> JNull | Some c \<Rightarrow> JStr (sk_signature c)) else JNull),
      (ascii ''target_url'', JStr (so_target_url s)), (ascii ''scan_timestamp'', JStr (so_timestamp s)),
      (ascii ''catalog_hash'', JStr (so_catalog_hash s)), (ascii ''assurance'', JDict (report_to_dict a))]"

definition assurance_stage :: "cli_env \<Rightarrow> scan_options \<Rightarrow> scan_result \<Rightarrow> stage" where
  "assurance_stage e opt s =
     (case so_assurance s of
        None \<Rightarrow> Go []
      | Some a \<Rightarrow>
          (if given (cs_report_assurance opt)
           then write_stage e (the (cs_report_assurance opt)) (Some (AssuranceFile (the (cs_report_assurance opt)) (assurance_doc e opt s a))) else Go []))"

definition scan_stages :: "cli_env \<Rightarrow> scan_options \<Rightarrow> str \<Rightarrow> scan_result \<Rightarrow> stage list" where
  "scan_stages e opt target s =
     [assurance_flag_stage opt s, telemetry_stage e opt target s, sarif_stage e opt s, html_stage e opt s, csv_stage e opt s,
      adversarial_stage e opt target s, containment_stage e opt target s, scorecard_stage e opt s, assurance_stage e opt s]"

definition after_scan :: "cli_env \<Rightarrow> scan_options \<Rightarrow> str \<Rightarrow> scan_result \<Rightarrow> cli_end \<times> artifact list" where
  "after_scan e opt target s = finish (so_exit_code s) (run_stages (scan_stages e opt target s))"

section \<open>The summary\<close>

definition failed_probes :: "scan_result \<Rightarrow> nat" where
  "failed_probes s = length (filter (\<lambda>r. \<not> pr_passed r \<and> \<not> given (pr_inconclusive r)) (so_probes s))"

definition failed_scenarios :: "scan_result \<Rightarrow> nat" where
  "failed_scenarios s = length (filter (\<lambda>r. \<not> sr_passed r \<and> \<not> given (sr_inconclusive r)) (so_scenarios s))"

definition summary_findings :: "scan_result \<Rightarrow> nat" where
  "summary_findings s =
     length (filter (\<lambda>r. \<not> pr_passed r \<and> pr_error r = None \<and> \<not> given (pr_inconclusive r) \<and> \<not> pr_suppressed r) (so_probes s)) +
     length (filter (\<lambda>r. \<not> sr_passed r \<and> sr_status r = ScenarioComplete) (so_scenarios s))"

definition summary_inconclusive :: "scan_result \<Rightarrow> nat" where
  "summary_inconclusive s =
     length (filter (\<lambda>r. given (pr_inconclusive r)) (so_probes s)) + length (filter (\<lambda>r. sr_status r = ScenarioInconclusive) (so_scenarios s))"

datatype summary_line = CleanBelow nat nat | CleanNone nat | FindingsLine nat | ErrorLine

definition summary_verdict :: "scan_result \<Rightarrow> summary_line" where
  "summary_verdict s =
     (if so_exit_code s = 0
      then (if summary_findings s > 0 then CleanBelow (summary_findings s) (summary_inconclusive s) else CleanNone (summary_inconclusive s))
      else if so_exit_code s = 1 then FindingsLine (failed_probes s + failed_scenarios s) else ErrorLine)"

section \<open>The command\<close>

definition experimental_used :: "scan_options \<Rightarrow> bool" where
  "experimental_used opt \<longleftrightarrow> given (cs_emit_to opt) \<or> given (cs_emit_auth opt) \<or> cs_contain opt \<or> given (cs_ir_report opt)"

definition options_refused :: "scan_options \<Rightarrow> bool" where
  "options_refused opt \<longleftrightarrow>
     experimental_used opt \<and> \<not> cs_experimental opt \<or>
     (case cs_expected_hash opt of None \<Rightarrow> False | Some h \<Rightarrow> py_strip h = []) \<or>
     cs_sigstore_sign opt \<and> \<not> given (cs_scorecard opt) \<or>
     cs_sigstore_staging opt \<and> \<not> cs_sigstore_sign opt"

definition fleet_unsupported :: "scan_options \<Rightarrow> bool" where
  "fleet_unsupported opt \<longleftrightarrow>
     given (cs_profile opt) \<or> cs_adversarial opt \<or> given (cs_own opt) \<or> cs_allow_stateful opt \<or> given (cs_baseline opt) \<or>
     given (cs_method_overrides opt) \<or> cs_era opt \<noteq> ascii ''auto'' \<or> cs_level opt \<noteq> None \<or> given (cs_evidence opt) \<or>
     given (cs_report_assurance opt) \<or> given (cs_foreign_token opt)"

definition catalog_env :: "cli_env \<Rightarrow> scan_options \<Rightarrow> scan_env" where
  "catalog_env e opt =
     (if given (cs_catalog_root opt) then (cv_scan e)\<lparr>sv_catalog_root := cv_catalog_path e (the (cs_catalog_root opt))\<rparr> else cv_scan e)"

definition optional_path :: "cli_env \<Rightarrow> str option \<Rightarrow> fs_path option" where
  "optional_path e x = (if given x then Some (cv_path e (the x)) else None)"

definition adversarial_config :: "scan_options \<Rightarrow> adversarial_mode option" where
  "adversarial_config opt =
     (if cs_adversarial opt
      then Some \<lparr>am_enabled = True, am_declaration = cs_own opt, am_allow_stateful = cs_allow_stateful opt, am_scan_id = []\<rparr> else None)"

definition fleet_request :: "scan_options \<Rightarrow> scan_request" where
  "fleet_request opt =
     \<lparr>rq_target = [], rq_categories = category_list (cs_categories opt), rq_engine = cs_engine opt, rq_allow_custom = cs_allow_custom_catalog opt,
      rq_fail_on = cs_fail_on opt, rq_allow_private = cs_allow_private opt, rq_auth_token = cs_auth_token opt, rq_read_token = cs_read_token opt,
      rq_foreign_token = None, rq_mcp_path = cs_mcp_path opt, rq_adaptive = (\<not> cs_no_adaptive opt), rq_profile = None, rq_adversarial = None,
      rq_baseline = None, rq_pii_strict = cs_pii_strict opt, rq_overrides = None, rq_allowlist = parse_tool_allowlist (cs_tool_allowlist opt),
      rq_expected_hash = cs_expected_hash opt, rq_protocol_era = ascii ''auto'', rq_level = None, rq_evidence = None\<rparr>"

definition single_request :: "cli_env \<Rightarrow> scan_options \<Rightarrow> str \<Rightarrow> server_profile option \<Rightarrow> scan_request" where
  "single_request e opt target profile =
     (fleet_request opt)\<lparr>rq_target := target, rq_foreign_token := cs_foreign_token opt, rq_profile := profile,
       rq_adversarial := adversarial_config opt, rq_baseline := optional_path e (cs_baseline opt),
       rq_overrides := parse_method_overrides (cs_method_overrides opt), rq_protocol_era := cs_era opt, rq_level := cs_level opt,
       rq_evidence := optional_path e (cs_evidence opt)\<rparr>"

subsection \<open>A fleet\<close>

text \<open>Nothing of the fleet's reports is inside a \<open>try\<close>.\<close>

definition fleet_write :: "cli_env \<Rightarrow> str \<Rightarrow> artifact \<Rightarrow> stage" where
  "fleet_write e p a = (if cv_writable e p then Go [a] else Stop Uncaught [])"

definition fleet_sarif_stage :: "cli_env \<Rightarrow> scan_options \<Rightarrow> scan_result fleet_result \<Rightarrow> stage" where
  "fleet_sarif_stage e opt fl =
     (if \<not> given (cs_report_sarif opt) then Go []
      else case those (map (build_sarif_dict (cv_sarif e)) (List.map_filter to_result (fl_targets fl))) of
        None \<Rightarrow> Stop Uncaught []
      | Some docs \<Rightarrow>
          (case merge_sarif docs of
             None \<Rightarrow> Go []
           | Some merged \<Rightarrow>
               (if validate_sarif_structure (cv_sarif e) merged
                then fleet_write e (the (cs_report_sarif opt)) (MergedSarifFile (the (cs_report_sarif opt)) merged) else Stop Uncaught [])))"

definition fleet_scorecard_stage :: "cli_env \<Rightarrow> scan_options \<Rightarrow> scan_result fleet_result \<Rightarrow> stage" where
  "fleet_scorecard_stage e opt fl =
     (if \<not> given (cs_scorecard opt) then Go []
      else if list_ex (\<lambda>t. case to_result t of None \<Rightarrow> False | Some s \<Rightarrow> scan_card e opt s = None) (fl_targets fl) then Stop Uncaught []
      else fleet_write e (the (cs_scorecard opt)) (FleetScorecardFile (the (cs_scorecard opt))
             (build_fleet_scorecard (\<lambda>s. case scan_card e opt s of None \<Rightarrow> [] | Some c \<Rightarrow> scorecard_to_dict c) fl)))"

definition fleet_outcome :: "cli_env \<Rightarrow> scan_options \<Rightarrow> str \<Rightarrow> scan_result target_outcome" where
  "fleet_outcome e opt =
     default_scan_one (sanitize_error (cv_sarif e)) (cv_error_text e) (cv_reach e) (catalog_env e opt) (fleet_request opt) (cs_skip_reachability opt)"

definition run_fleet :: "cli_env \<Rightarrow> scan_options \<Rightarrow> str list \<Rightarrow> scan_result fleet_result" where
  "run_fleet e opt targets =
     run_fleet_scan (sanitize_error (cv_sarif e)) (cs_timeout_text opt) targets (cv_pool e (map (\<lambda>t. (t, fleet_outcome e opt t)) targets))"

definition fleet_command :: "cli_env \<Rightarrow> scan_options \<Rightarrow> cli_end \<times> artifact list" where
  "fleet_command e opt =
     (case cv_target_lines e (the (cs_targets_file opt)) of
        Inl CaughtError \<Rightarrow> (Exit 2, [])
      | Inl OtherError \<Rightarrow> (Uncaught, [])
      | Inr ls \<Rightarrow>
          (case parse_targets (we_url (sv_wire (cv_scan e))) ls of
             None \<Rightarrow> (Exit 2, [])
           | Some targets \<Rightarrow>
               (if cs_concurrency opt < 1 then (Exit 2, [])
                else let fl = run_fleet e opt targets in
                  finish (fl_exit fl) (run_stages [fleet_sarif_stage e opt fl, fleet_scorecard_stage e opt fl]))))"

subsection \<open>One target\<close>

definition chosen_profile :: "cli_env \<Rightarrow> scan_options \<Rightarrow> server_profile option option" where
  "chosen_profile e opt =
     (if given (cs_profile opt)
      then map_option Some (resolve_profile (cv_profile_env e) (cv_profile_files e) (the (cs_profile opt)) (cs_allow_custom_profiles opt) (Some (cv_cwd e)) (cv_home e))
      else Some None)"

text \<open>The exit code of the check, if it ends the command.\<close>

definition reachability :: "cli_env \<Rightarrow> scan_options \<Rightarrow> str \<Rightarrow> nat option" where
  "reachability e opt target =
     (if cs_skip_reachability opt then None
      else case parse_target (we_url (sv_wire (cv_scan e))) target of
        None \<Rightarrow> Some 2
      | Some (host, port, _) \<Rightarrow> (if cv_reach e host port = None then None else Some 3))"

definition single_command :: "cli_env \<Rightarrow> scan_options \<Rightarrow> str \<Rightarrow> cli_end \<times> artifact list" where
  "single_command e opt target =
     (case chosen_profile e opt of
        None \<Rightarrow> (Exit 2, [])
      | Some profile \<Rightarrow>
          (case reachability e opt target of
             Some code \<Rightarrow> (Exit code, [])
           | None \<Rightarrow>
               (case run_scan (catalog_env e opt) (single_request e opt target profile) of
                  Inl _ \<Rightarrow> (Exit 2, [])
                | Inr s \<Rightarrow> after_scan e opt target s)))"

definition scan_command :: "cli_env \<Rightarrow> scan_options \<Rightarrow> cli_end \<times> artifact list" where
  "scan_command e opt =
     (if options_refused opt then (Exit 2, [])
      else if given (cs_targets_file opt)
        then (if given (cs_target opt) \<or> fleet_unsupported opt \<or> cs_sigstore_sign opt then (Exit 2, []) else fleet_command e opt)
      else if \<not> given (cs_target opt) then (Exit 2, [])
      else single_command e opt (the (cs_target opt)))"

section \<open>How the command ends\<close>

lemma run_stages_Go: "run_stages sts = Go b \<longleftrightarrow> (\<exists>bs. sts = map Go bs \<and> b = concat bs)"
proof (induction sts arbitrary: b rule: run_stages.induct)
  case (3 a sts)
  show ?case
  proof
    assume "run_stages (Go a # sts) = Go b"
    then obtain c where "run_stages sts = Go c" "b = a @ c" by (auto split: stage.splits)
    then obtain bs where "sts = map Go bs" "c = concat bs" using 3 by blast
    then have "Go a # sts = map Go (a # bs) \<and> b = concat (a # bs)" using \<open>b = a @ c\<close> by simp
    then show "\<exists>bs. Go a # sts = map Go bs \<and> b = concat bs" by (intro exI [of _ "a # bs"])
  next
    assume "\<exists>bs. Go a # sts = map Go bs \<and> b = concat bs"
    then have "\<exists>cs. sts = map Go cs \<and> b = a @ concat cs" by (auto simp: Cons_eq_map_conv)
    then have "\<exists>c. run_stages sts = Go c \<and> b = a @ c" using 3 by auto
    then show "run_stages (Go a # sts) = Go b" by auto
  qed
qed auto

lemma run_stages_parts: "run_stages sts = Go b \<Longrightarrow> st \<in> set sts \<Longrightarrow> \<exists>a. st = Go a \<and> set a \<subseteq> set b"
  by (fastforce simp: run_stages_Go)

text \<open>How a step stops: every step of one target but the telemetry stops with exit code 2.\<close>

definition stops_with_two :: "stage \<Rightarrow> bool" where
  "stops_with_two st = (case st of Go _ \<Rightarrow> True | Stop x _ \<Rightarrow> x = Exit 2)"

lemma write_stage_stops: "stops_with_two (write_stage e p x)"
  by (simp add: write_stage_def stops_with_two_def split: option.split)

lemma run_stages_stops: "list_all stops_with_two sts \<Longrightarrow> stops_with_two (run_stages sts)"
  by (induction sts rule: run_stages.induct) (auto simp: stops_with_two_def split: stage.splits)

lemma stages_stop:
  "stops_with_two (assurance_flag_stage opt s)" "stops_with_two (sarif_stage e opt s)" "stops_with_two (html_stage e opt s)"
  "stops_with_two (csv_stage e opt s)" "stops_with_two (adversarial_stage e opt t s)" "stops_with_two (containment_stage e opt t s)"
  "stops_with_two (scorecard_stage e opt s)" "stops_with_two (assurance_stage e opt s)"
proof -
  have g: "stops_with_two (Go a)" "stops_with_two (Stop (Exit 2) a)" for a by (simp_all add: stops_with_two_def)
  show "stops_with_two (assurance_flag_stage opt s)" "stops_with_two (sarif_stage e opt s)" "stops_with_two (html_stage e opt s)"
    "stops_with_two (csv_stage e opt s)" "stops_with_two (adversarial_stage e opt t s)" "stops_with_two (containment_stage e opt t s)"
    "stops_with_two (assurance_stage e opt s)"
    by (auto simp: assurance_flag_stage_def sarif_stage_def html_stage_def csv_stage_def adversarial_stage_def containment_stage_def
        assurance_stage_def g write_stage_stops split: option.split)
  have "stops_with_two (run_stages [write_stage e p x, if b then write_stage e q y else Go []])" for p x b q y
    by (rule run_stages_stops) (simp add: write_stage_stops g)
  then show "stops_with_two (scorecard_stage e opt s)"
    by (simp add: scorecard_stage_def g Let_def split: option.split)
qed

lemma run_stages_Cons: "run_stages (st # sts) = (case st of Stop x a \<Rightarrow> Stop x a
    | Go a \<Rightarrow> (case run_stages sts of Go b \<Rightarrow> Go (a @ b) | Stop x b \<Rightarrow> Stop x (a @ b)))"
  by (cases st) simp_all

lemma after_scan_ends:
  "fst (after_scan e opt t s) \<in> {Exit (so_exit_code s), Exit 2} \<or>
     (fst (after_scan e opt t s) = Uncaught \<and> (\<exists>a. telemetry_stage e opt t s = Stop Uncaught a))"
proof -
  let ?rest = "[sarif_stage e opt s, html_stage e opt s, csv_stage e opt s,
      adversarial_stage e opt t s, containment_stage e opt t s, scorecard_stage e opt s, assurance_stage e opt s]"
  have r: "stops_with_two (run_stages ?rest)" by (rule run_stages_stops) (simp add: stages_stop)
  have f: "stops_with_two (assurance_flag_stage opt s)" by (rule stages_stop)
  have tel: "telemetry_stage e opt t s = Stop x a \<Longrightarrow> x = Uncaught" for x a
    by (auto simp: telemetry_stage_def split: if_splits option.splits)
  have "scan_stages e opt t s = assurance_flag_stage opt s # telemetry_stage e opt t s # ?rest" by (simp add: scan_stages_def)
  then have a: "after_scan e opt t s = finish (so_exit_code s) (run_stages (assurance_flag_stage opt s # telemetry_stage e opt t s # ?rest))"
    by (simp add: after_scan_def)
  show ?thesis
  proof (cases "assurance_flag_stage opt s")
    case (Stop x a)
    then show ?thesis using f by (simp add: after_scan_def scan_stages_def finish_def stops_with_two_def)
  next
    case (Go a1)
    show ?thesis
    proof (cases "telemetry_stage e opt t s")
      case (Stop x a)
      then show ?thesis using tel Go by (auto simp: after_scan_def scan_stages_def finish_def)
    next
      case tg: (Go a2)
      show ?thesis
        unfolding a Go tg run_stages.simps
        using r by (auto simp: finish_def stops_with_two_def split: stage.splits)
    qed
  qed
qed

lemma scan_code_range:
  assumes "run_scan e q = Inr s"
  shows "so_exit_code s \<in> {0, 1, 2}"
  using assms
proof (rule run_scan_Inr)
  fix su era evidence threats rs ss tools rs'
  assume "s = conclude e q su evidence threats tools rs' ss"
  then have "so_exit_code s = gated_exit (so_assurance s)
      (determine_exit_code (pt_lower (sv_text e)) rs' ss (rq_fail_on q) (Some (severities_of threats)))"
    by (simp add: conclude_def Let_def)
  then show ?thesis
    using exit_code_range [of "pt_lower (sv_text e)" rs' ss "rq_fail_on q" "Some (severities_of threats)"]
    unfolding gated_exit_def by auto
qed

lemma after_scan_range:
  assumes "run_scan x q = Inr s"
  shows "fst (after_scan e opt t s) \<in> {Exit 0, Exit 1, Exit 2, Uncaught}"
  using after_scan_ends [of e opt t s] scan_code_range [OF assms] by auto

lemma after_scan_zero:
  "after_scan e opt t s = (Exit 0, files) \<longleftrightarrow> so_exit_code s = 0 \<and> run_stages (scan_stages e opt t s) = Go files"
proof
  assume h: "after_scan e opt t s = (Exit 0, files)"
  show "so_exit_code s = 0 \<and> run_stages (scan_stages e opt t s) = Go files"
  proof (cases "run_stages (scan_stages e opt t s)")
    case (Go a)
    then show ?thesis using h by (simp add: after_scan_def finish_def)
  next
    case (Stop x a)
    then have "x = Exit 0" using h by (simp add: after_scan_def finish_def)
    have "stops_with_two (run_stages (scan_stages e opt t s)) \<or> x = Uncaught"
    proof (cases "telemetry_stage e opt t s")
      case (Go b)
      then have "list_all stops_with_two (scan_stages e opt t s)" by (simp add: scan_stages_def stages_stop) (simp add: stops_with_two_def)
      then show ?thesis using run_stages_stops by blast
    next
      case (Stop y b)
      then have y: "y = Uncaught" by (auto simp: telemetry_stage_def split: if_splits option.splits)
      show ?thesis
      proof (cases "assurance_flag_stage opt s")
        case (Go c)
        then show ?thesis using Stop y \<open>run_stages (scan_stages e opt t s) = Stop x a\<close> by (simp add: scan_stages_def)
      next
        case (Stop z c)
        then show ?thesis using stages_stop(1) [of opt s] by (simp add: scan_stages_def stops_with_two_def)
      qed
    qed
    then show ?thesis using Stop \<open>x = Exit 0\<close> by (simp add: stops_with_two_def)
  qed
next
  assume "so_exit_code s = 0 \<and> run_stages (scan_stages e opt t s) = Go files"
  then show "after_scan e opt t s = (Exit 0, files)" by (simp add: after_scan_def finish_def)
qed

text \<open>
  A clean exit of the command for one target: the options are coherent, the profile resolved, the target was reached, the scan
  ended with code 0 and every step after it went through, so that everything asked for is among the files.
\<close>

lemma single_command_zero:
  "single_command e opt t = (Exit 0, files) \<longleftrightarrow>
     (\<exists>profile s. chosen_profile e opt = Some profile \<and> reachability e opt t = None \<and>
        run_scan (catalog_env e opt) (single_request e opt t profile) = Inr s \<and> so_exit_code s = 0 \<and>
        run_stages (scan_stages e opt t s) = Go files)"
proof -
  have "reachability e opt t = Some n \<Longrightarrow> n \<noteq> 0" for n
    by (auto simp: reachability_def split: if_splits option.splits)
  then show ?thesis
    by (auto simp: single_command_def after_scan_zero split: option.splits sum.splits)
qed

lemma scan_command_zero:
  "scan_command e (opt\<lparr>cs_targets_file := None, cs_target := Some (c # t)\<rparr>) = (Exit 0, files) \<longleftrightarrow>
     \<not> options_refused opt \<and> single_command e (opt\<lparr>cs_targets_file := None, cs_target := Some (c # t)\<rparr>) (c # t) = (Exit 0, files)"
proof -
  have "options_refused (opt\<lparr>cs_targets_file := None, cs_target := Some (c # t)\<rparr>) = options_refused opt"
    by (simp add: options_refused_def experimental_used_def)
  then show ?thesis by (auto simp: scan_command_def)
qed

text \<open>The files of a clean exit.\<close>

lemma clean_exit_sarif:
  assumes "run_stages (scan_stages e opt t s) = Go files" and "given (cs_report_sarif opt)"
  shows "\<exists>doc. valid_sarif e s = Some doc \<and> SarifFile (the (cs_report_sarif opt)) doc \<in> set files"
proof -
  have "sarif_stage e opt s \<in> set (scan_stages e opt t s)" by (simp add: scan_stages_def)
  from run_stages_parts [OF assms(1) this] show ?thesis
    using assms(2) by (auto simp: sarif_stage_def write_stage_def split: option.splits if_splits)
qed

lemma clean_exit_scorecard:
  assumes "run_stages (scan_stages e opt t s) = Go files" and "given (cs_scorecard opt)"
  shows "\<exists>c. scan_card e opt s = Some c \<and> ScorecardFile (the (cs_scorecard opt)) c \<in> set files"
proof -
  have "scorecard_stage e opt s \<in> set (scan_stages e opt t s)" by (simp add: scan_stages_def)
  from run_stages_parts [OF assms(1) this] show ?thesis
    using assms(2) by (auto simp: scorecard_stage_def write_stage_def Let_def split: option.splits if_splits stage.splits)
qed

text \<open>Exit code 3 only for a target that could not be reached.\<close>

lemma single_command_three:
  "fst (single_command e opt t) = Exit 3 \<longleftrightarrow> chosen_profile e opt \<noteq> None \<and> reachability e opt t = Some 3"
proof -
  have "fst (after_scan e opt t s) \<noteq> Exit 3" if "run_scan x q = Inr s" for x q s
    using after_scan_range [OF that, of e opt t] by auto
  then show ?thesis by (auto simp: single_command_def split: option.splits sum.splits)
qed

text \<open>A scan that is clean still ends with the status of findings when the address of the telemetry is no http address.\<close>

lemma bad_emit_address_ends_with_one:
  assumes "so_exit_code s = 0" and "so_assurance s \<noteq> None \<or> \<not> given (cs_report_assurance opt)"
    and "cs_experimental opt" and "cs_emit_to opt = Some (c # u)" and "\<not> emitter_endpoint_ok (c # u)"
  shows "process_status (fst (after_scan e opt t s)) = 1" and "snd (after_scan e opt t s) = []"
  using assms by (auto simp: after_scan_def scan_stages_def assurance_flag_stage_def telemetry_stage_def bad_endpoint_raises finish_def process_status_def)

section \<open>Fleets\<close>

text \<open>The options a fleet neither uses nor refuses: changing them changes nothing.\<close>

lemma fleet_ignores:
  assumes "given (cs_targets_file opt)" and "cs_experimental opt"
  shows "scan_command e (opt\<lparr>cs_report_html := h, cs_report_csv := c, cs_report_adversarial := a, cs_no_report := n, cs_ir_report := i,
      cs_emit_to := em, cs_contain := k\<rparr>) = scan_command e opt" (is "scan_command e ?opt = _")
proof -
  have r: "options_refused ?opt = options_refused opt" using assms(2) by (simp add: options_refused_def)
  have u: "fleet_unsupported ?opt = fleet_unsupported opt" by (simp add: fleet_unsupported_def)
  have q: "fleet_request ?opt = fleet_request opt" "catalog_env e ?opt = catalog_env e opt" "scan_card e ?opt = scan_card e opt"
      "cs_report_sarif ?opt = cs_report_sarif opt" "cs_scorecard ?opt = cs_scorecard opt"
      "cs_concurrency ?opt = cs_concurrency opt" "cs_targets_file ?opt = cs_targets_file opt" "cs_target ?opt = cs_target opt"
      "cs_sigstore_sign ?opt = cs_sigstore_sign opt"
    by (simp_all add: fleet_request_def catalog_env_def scan_card_def fun_eq_iff)
  have o1: "fleet_outcome e ?opt = fleet_outcome e opt" unfolding fleet_outcome_def q by simp
  have o2: "run_fleet e ?opt ts = run_fleet e opt ts" for ts unfolding run_fleet_def o1 by simp
  have st: "fleet_sarif_stage e ?opt fl = fleet_sarif_stage e opt fl" "fleet_scorecard_stage e ?opt fl = fleet_scorecard_stage e opt fl" for fl
    unfolding fleet_sarif_stage_def fleet_scorecard_stage_def q by (rule refl)+
  have f: "fleet_command e ?opt = fleet_command e opt" unfolding fleet_command_def o2 st q ..
  show ?thesis unfolding scan_command_def r u f q using assms(1) by simp
qed

text \<open>A fleet's report that cannot be written ends the process with the status of findings.\<close>

lemma fleet_write_failure_ends_with_one:
  assumes "given (cs_scorecard opt)" and "\<not> given (cs_report_sarif opt)" and "\<not> cv_writable e (the (cs_scorecard opt))"
  shows "process_status (fst (finish code (run_stages [fleet_sarif_stage e opt fl, fleet_scorecard_stage e opt fl]))) = 1"
  using assms by (auto simp: fleet_sarif_stage_def fleet_scorecard_stage_def fleet_write_def finish_def process_status_def)

section \<open>The summary misreports\<close>

text \<open>The number of the line \<open>[FINDINGS]\<close> counts crashed and accepted probes and those below the threshold, and can be zero.\<close>

lemma findings_line_counts_all:
  "failed_probes s = length (filter (\<lambda>r. \<not> pr_passed r) (filter (\<lambda>r. \<not> given (pr_inconclusive r)) (so_probes s)))"
  by (simp add: failed_probes_def) (metis (mono_tags, lifting) filter_cong)

lemma summary_below_failed: "summary_findings s \<le> failed_probes s + length (so_scenarios s)"
proof -
  have "length (filter (\<lambda>r. \<not> pr_passed r \<and> pr_error r = None \<and> \<not> given (pr_inconclusive r) \<and> \<not> pr_suppressed r) (so_probes s)) \<le> failed_probes s"
  proof -
    have "length (filter (\<lambda>r. \<not> pr_passed r \<and> pr_error r = None \<and> \<not> given (pr_inconclusive r) \<and> \<not> pr_suppressed r) xs)
        \<le> length (filter (\<lambda>r. \<not> pr_passed r \<and> \<not> given (pr_inconclusive r)) xs)" for xs
      by (induction xs) auto
    then show ?thesis unfolding failed_probes_def .
  qed
  then show ?thesis unfolding summary_findings_def by (intro add_mono) simp_all
qed

section \<open>Option texts\<close>

lemma allowlist_names: "parse_tool_allowlist raw = Some ns \<Longrightarrow> distinct ns \<and> ns \<noteq> [] \<and> list_all (\<lambda>n. n \<noteq> []) ns"
  by (auto simp: parse_tool_allowlist_def Let_def list_all_iff split: option.splits if_splits)

text \<open>An allow-list of separators only is no allow-list at all, so nothing is checked against it.\<close>

lemma blank_allowlist: "parse_tool_allowlist (Some (ascii '' , '')) = None"
  by (simp add: parse_tool_allowlist_def comma_parts_def py_strip_def py_space_def)

lemma override_items: "override_item item = Some (k, v) \<Longrightarrow> k \<noteq> [] \<and> v \<noteq> []"
  by (auto simp: override_item_def Let_def split: list.splits if_splits)

end
