(* ===== verification/Mock_Server.thy ===== *)
theory Mock_Server
  imports Meta_Identity Py_Value
begin

text \<open>
  \<open>harness/mock_server.py\<close>: the server that the scanner's own probes are tried against, as a state machine over
  JSON-RPC requests. Its options select the defences and the weaknesses that a probe has to tell apart. The state
  is what the object keeps between requests: its logs, the counters of \<open>tools/list\<close> and \<open>tools/call\<close>, and the
  tokens it has seen. An answer \<open>None\<close> is an exception inside the handler, which closes the connection; whatever was
  recorded before it stays recorded. \<open>str.lower\<close> comes with the \<open>unicode\<close> argument, \<open>repr\<close> and the decoding of
  bytes by \<open>json.loads\<close> are arguments of their own. Sockets and threads are not modelled, except that a started
  server has a port.
\<close>

section \<open>Options and state\<close>

datatype loaded = Undecodable | Malformed | Loaded json

record mock_env =
  me_unicode :: unicode
  me_repr :: "json \<Rightarrow> str"
  me_loads :: "byte list \<Rightarrow> loaded"

type_synonym reply = "(str \<times> json) list"
type_synonym http_headers = "(str, str) dict"

record mock_config =
  mc_tools :: "json list option"
  mc_tools_call_response :: "reply option"
  mc_initialize_error :: "str option"
  mc_tools_list_sequence :: "json list list option"
  mc_privileged_tools :: "str list"
  mc_scope_guarded_tools :: "(str, str) dict"
  mc_confirmation_bypasses_scope :: bool
  mc_confirmation_gates_access :: bool
  mc_reject_replayed_tokens :: bool
  mc_call_budget :: "int option"
  mc_protocol_era :: str
  mc_modern_supported_versions :: "str list option"
  mc_modern_requires_auth :: bool
  mc_sse_responses :: bool
  mc_modern_auth_only_on_discover :: bool
  mc_discover_http_status :: "int option"
  mc_reject_modern_framing_unauth :: bool
  mc_initialize_http_status :: "int option"
  mc_initialize_requires_auth :: bool
  mc_drop_tools_call :: bool
  mc_modern_framing_unauth_jsonrpc_error :: bool
  mc_skip_header_validation :: bool
  mc_accept_unknown_versions :: bool
  mc_advertise_logging :: bool
  mc_trust_meta_admin_identity :: bool
  mc_expose_task_enumeration :: bool
  mc_tool_cache_scope_public :: bool
  mc_auth_exempt_discover :: bool
  mc_unauth_http_status :: int
  mc_discover_error_message :: str
  mc_require_bearer :: "str option"
  mc_accept_any_bearer :: bool
  mc_www_authenticate :: "str option"
  mc_well_known :: "(str, json) dict"

definition default_mock_config :: mock_config where
  "default_mock_config =
     \<lparr>mc_tools = None, mc_tools_call_response = None, mc_initialize_error = None, mc_tools_list_sequence = None,
      mc_privileged_tools = [], mc_scope_guarded_tools = [], mc_confirmation_bypasses_scope = False,
      mc_confirmation_gates_access = False, mc_reject_replayed_tokens = False, mc_call_budget = None,
      mc_protocol_era = ascii ''legacy'', mc_modern_supported_versions = None, mc_modern_requires_auth = False,
      mc_sse_responses = False, mc_modern_auth_only_on_discover = False, mc_discover_http_status = None,
      mc_reject_modern_framing_unauth = False, mc_initialize_http_status = None,
      mc_initialize_requires_auth = False, mc_drop_tools_call = False,
      mc_modern_framing_unauth_jsonrpc_error = False, mc_skip_header_validation = False,
      mc_accept_unknown_versions = False, mc_advertise_logging = False, mc_trust_meta_admin_identity = False,
      mc_expose_task_enumeration = False, mc_tool_cache_scope_public = False, mc_auth_exempt_discover = False,
      mc_unauth_http_status = 401, mc_discover_error_message = ascii ''unavailable'', mc_require_bearer = None,
      mc_accept_any_bearer = False, mc_www_authenticate = None, mc_well_known = []\<rparr>"

record mock_state =
  mk_get_log :: "str list"
  mk_request_log :: "reply list"
  mk_last_request_headers :: http_headers
  mk_tools_list_call_count :: nat
  mk_tools_call_count :: nat
  mk_seen_token_ids :: "str list"

definition valid_mock_era :: "str \<Rightarrow> bool" where
  "valid_mock_era e \<longleftrightarrow> e \<in> set (map ascii [''legacy'', ''modern'', ''dual''])"

text \<open>The constructor; \<open>None\<close> is its \<open>ValueError\<close>.\<close>

definition mock_mcp_server :: "mock_config \<Rightarrow> mock_state option" where
  "mock_mcp_server cfg =
     (if valid_mock_era (mc_protocol_era cfg)
      then Some \<lparr>mk_get_log = [], mk_request_log = [], mk_last_request_headers = [], mk_tools_list_call_count = 0,
                 mk_tools_call_count = 0, mk_seen_token_ids = []\<rparr>
      else None)"

definition modern_supported :: "mock_config \<Rightarrow> str list" where
  "modern_supported cfg =
     (case mc_modern_supported_versions cfg of Some (v # vs) \<Rightarrow> v # vs | _ \<Rightarrow> [modern_version])"

definition default_tools :: "json list" where
  "default_tools =
     [JDict [(ascii ''name'', JStr (ascii ''echo'')), (ascii ''description'', JStr (ascii ''Echoes input'')),
             (ascii ''inputSchema'', JDict [(ascii ''type'', JStr (ascii ''object''))])]]"

section \<open>Answers\<close>

definition rpc_reply :: "json \<Rightarrow> reply \<Rightarrow> reply" where
  "rpc_reply req_id body = (ascii ''jsonrpc'', JStr (ascii ''2.0'')) # (ascii ''id'', req_id) # body"

definition rpc_result :: "json \<Rightarrow> reply \<Rightarrow> reply" where
  "rpc_result req_id body = rpc_reply req_id [(ascii ''result'', JDict body)]"

definition rpc_error_value :: "int \<Rightarrow> str \<Rightarrow> json \<Rightarrow> json" where
  "rpc_error_value code msg data =
     JDict ((ascii ''code'', JInt code) # (ascii ''message'', JStr msg) #
            (if data = JNull then [] else [(ascii ''data'', data)]))"

definition rpc_error :: "json \<Rightarrow> int \<Rightarrow> str \<Rightarrow> reply" where
  "rpc_error req_id code msg = rpc_reply req_id [(ascii ''error'', rpc_error_value code msg JNull)]"

definition rpc_error_status :: "json \<Rightarrow> int \<Rightarrow> int \<Rightarrow> str \<Rightarrow> reply" where
  "rpc_error_status req_id status code msg =
     rpc_reply req_id [(ascii ''_http_status'', JInt status), (ascii ''error'', rpc_error_value code msg JNull)]"

definition unauthorized :: "json \<Rightarrow> int \<Rightarrow> reply" where
  "unauthorized req_id status = rpc_error_status req_id status (- 32001) (ascii ''Unauthorized'')"

definition gate_error :: "json \<Rightarrow> int \<Rightarrow> str \<Rightarrow> json \<Rightarrow> reply" where
  "gate_error req_id code msg data =
     rpc_reply req_id [(ascii ''error'', rpc_error_value code msg data), (ascii ''_http_status'', JInt 400)]"

section \<open>Reading a request\<close>

definition lower_headers :: "mock_env \<Rightarrow> http_headers \<Rightarrow> http_headers" where
  "lower_headers env hs = fold (\<lambda>(k, v) d. AList.update (u_lower (me_unicode env) k) v d) hs []"

definition header_at :: "http_headers \<Rightarrow> str \<Rightarrow> json" where
  "header_at hs k = (case map_of hs k of None \<Rightarrow> JNull | Some v \<Rightarrow> JStr v)"

definition dict_or_empty :: "json \<Rightarrow> reply" where
  "dict_or_empty v = (case v of JDict ps \<Rightarrow> ps | _ \<Rightarrow> [])"

definition version_field :: str where
  "version_field = ascii ''io.modelcontextprotocol/protocolVersion''"

definition client_field :: str where
  "client_field = ascii ''io.modelcontextprotocol/clientInfo''"

definition request_params :: "reply \<Rightarrow> reply" where
  "request_params req = dict_or_empty (get req (ascii ''params''))"

definition meta_of_params :: "reply \<Rightarrow> reply option" where
  "meta_of_params params = (case get params (ascii ''_meta'') of JDict m \<Rightarrow> Some m | _ \<Rightarrow> None)"

definition has_modern_meta :: "reply \<Rightarrow> bool" where
  "has_modern_meta req =
     (case meta_of_params (request_params req) of None \<Rightarrow> False | Some m \<Rightarrow> map_of m version_field \<noteq> None)"

text \<open>The header names of the protocol, as the code compares them: lowered.\<close>

definition lowered :: "mock_env \<Rightarrow> string \<Rightarrow> str" where
  "lowered env nm = u_lower (me_unicode env) (ascii nm)"

definition modern_framing :: "mock_env \<Rightarrow> http_headers \<Rightarrow> reply \<Rightarrow> bool" where
  "modern_framing env lower req \<longleftrightarrow>
     map_of lower (lowered env ''MCP-Protocol-Version'') \<noteq> None \<or> has_modern_meta req"

definition unauthenticated :: "http_headers \<Rightarrow> bool" where
  "unauthenticated lower \<longleftrightarrow> map_of lower (ascii ''authorization'') = None"

definition is_method :: "json \<Rightarrow> string \<Rightarrow> bool" where
  "is_method v nm \<longleftrightarrow> v = JStr (ascii nm)"

section \<open>Refusals before any handling\<close>

text \<open>In the code's order; the answer of a dropped call is a mark that the connection handler reads.\<close>

definition framing_refusal ::
    "mock_env \<Rightarrow> mock_config \<Rightarrow> reply \<Rightarrow> json \<Rightarrow> json \<Rightarrow> http_headers \<Rightarrow> reply option" where
  "framing_refusal env cfg req mthd req_id lower =
     (if mc_reject_modern_framing_unauth cfg \<and> unauthenticated lower \<and> modern_framing env lower req
      then Some (unauthorized req_id 401)
      else if mc_modern_framing_unauth_jsonrpc_error cfg \<and> unauthenticated lower \<and> modern_framing env lower req \<and>
              \<not> is_method mthd ''server/discover''
      then Some (rpc_error req_id (- 32001) (ascii ''Unauthorized''))
      else None)"

definition method_refusal ::
    "mock_config \<Rightarrow> json \<Rightarrow> json \<Rightarrow> http_headers \<Rightarrow> reply option" where
  "method_refusal cfg mthd req_id lower =
     (if is_method mthd ''initialize'' \<and> mc_initialize_requires_auth cfg \<and> unauthenticated lower
      then Some (unauthorized req_id 401)
      else if is_method mthd ''initialize'' \<and> mc_initialize_http_status cfg \<noteq> None
      then Some (rpc_error_status req_id (the (mc_initialize_http_status cfg)) (- 32603) (ascii ''Internal error''))
      else if is_method mthd ''tools/call'' \<and> mc_drop_tools_call cfg
      then Some [(ascii ''_drop'', JBool True)]
      else if is_method mthd ''server/discover'' \<and> mc_discover_http_status cfg \<noteq> None
      then Some (rpc_error_status req_id (the (mc_discover_http_status cfg)) (- 32000) (mc_discover_error_message cfg))
      else if is_method mthd ''server/discover'' \<and> mc_modern_auth_only_on_discover cfg \<and> unauthenticated lower
      then Some (unauthorized req_id 401)
      else None)"

section \<open>The gate of a modern server\<close>

definition spoofed_admin :: "mock_config \<Rightarrow> reply option \<Rightarrow> bool" where
  "spoofed_admin cfg meta \<longleftrightarrow> mc_trust_meta_admin_identity cfg \<and>
     (case meta of None \<Rightarrow> False
      | Some m \<Rightarrow> get (dict_or_empty (get m client_field)) (ascii ''name'') = JStr (ascii ''admin-console''))"

definition gate_unauthorized :: "mock_config \<Rightarrow> json \<Rightarrow> reply option \<Rightarrow> http_headers \<Rightarrow> bool" where
  "gate_unauthorized cfg mthd meta lower \<longleftrightarrow>
     mc_modern_requires_auth cfg \<and> meta \<noteq> None \<and> unauthenticated lower \<and> \<not> spoofed_admin cfg meta \<and>
     \<not> (mc_auth_exempt_discover cfg \<and> is_method mthd ''server/discover'')"

definition version_supported :: "mock_config \<Rightarrow> json \<Rightarrow> bool" where
  "version_supported cfg v \<longleftrightarrow> (case v of JStr s \<Rightarrow> s \<in> set (modern_supported cfg) | _ \<Rightarrow> False)"

definition method_name_for :: "json \<Rightarrow> reply \<Rightarrow> str option" where
  "method_name_for mthd params = (case mthd of JStr m \<Rightarrow> mcp_name_for m params | _ \<Rightarrow> None)"

definition name_agrees :: "mock_env \<Rightarrow> json \<Rightarrow> reply \<Rightarrow> http_headers \<Rightarrow> bool" where
  "name_agrees env mthd params lower \<longleftrightarrow>
     (case method_name_for mthd params of None \<Rightarrow> True
      | Some n \<Rightarrow> Option.bind (map_of lower (lowered env ''Mcp-Name'')) decode_header_value = Some n)"

definition header_checks ::
    "mock_env \<Rightarrow> mock_config \<Rightarrow> json \<Rightarrow> json \<Rightarrow> reply \<Rightarrow> json \<Rightarrow> http_headers \<Rightarrow> reply option" where
  "header_checks env cfg mthd req_id params version lower =
     (if header_at lower (lowered env ''MCP-Protocol-Version'') \<noteq> version
      then Some (gate_error req_id (- 32020) (ascii ''Header mismatch: MCP-Protocol-Version'') JNull)
      else if \<not> version_supported cfg version \<and> \<not> mc_accept_unknown_versions cfg
      then Some (gate_error req_id (- 32022) (ascii ''Unsupported protocol version'')
                   (JDict [(ascii ''supported'', JList (map JStr (modern_supported cfg))),
                           (ascii ''requested'', version)]))
      else if mc_skip_header_validation cfg then None
      else if header_at lower (lowered env ''Mcp-Method'') \<noteq> mthd
      then Some (gate_error req_id (- 32020) (ascii ''Header mismatch: Mcp-Method'') JNull)
      else if \<not> name_agrees env mthd params lower
      then Some (gate_error req_id (- 32020) (ascii ''Header mismatch: Mcp-Name'') JNull)
      else None)"

definition missing_meta :: "mock_env \<Rightarrow> mock_config \<Rightarrow> json \<Rightarrow> json \<Rightarrow> reply option" where
  "missing_meta env cfg mthd req_id =
     (if mc_protocol_era cfg = ascii ''dual'' then None
      else if is_method mthd ''initialize''
      then Some (gate_error req_id (- 32601) (ascii ''initialize not supported; supported versions: '' @
                   me_repr env (JList (map JStr (modern_supported cfg)))) JNull)
      else Some (gate_error req_id (- 32602) (ascii ''Missing required _meta field '' @
                   me_repr env (JStr version_field)) JNull))"

definition modern_gate :: "mock_env \<Rightarrow> mock_config \<Rightarrow> reply \<Rightarrow> http_headers \<Rightarrow> reply option" where
  "modern_gate env cfg req headers =
     (let req_id = get req (ascii ''id''); mthd = get_or req (ascii ''method'') (JStr []);
          params = request_params req; meta = meta_of_params params; lower = lower_headers env headers
      in if gate_unauthorized cfg mthd meta lower then Some (unauthorized req_id (mc_unauth_http_status cfg))
         else case Option.bind meta (\<lambda>m. map_of m version_field) of
                None \<Rightarrow> missing_meta env cfg mthd req_id
              | Some version \<Rightarrow> header_checks env cfg mthd req_id params version lower)"

section \<open>Tokens\<close>

definition segments :: "str \<Rightarrow> str list" where
  "segments = split_on (\<lambda>c. c = 46)"

text \<open>The claims of a token, unverified; \<open>None\<close> is any exception on the way.\<close>

definition token_claims :: "mock_env \<Rightarrow> str \<Rightarrow> reply option" where
  "token_claims env token =
     (case segments token of
        a # payload # _ \<Rightarrow>
          (case urlsafe_b64decode (payload @ replicate ((4 - length payload mod 4) mod 4) 61) of
             None \<Rightarrow> None
           | Some bs \<Rightarrow> (case me_loads env bs of Loaded (JDict ps) \<Rightarrow> Some ps | _ \<Rightarrow> None))
      | _ \<Rightarrow> None)"

definition value_shown :: "mock_env \<Rightarrow> json \<Rightarrow> str" where
  "value_shown env v = (case v of JStr s \<Rightarrow> s | _ \<Rightarrow> me_repr env v)"

definition token_replay_id :: "mock_env \<Rightarrow> str \<Rightarrow> str option" where
  "token_replay_id env token =
     (if token = [] then None
      else case token_claims env token of
        None \<Rightarrow> Some (ascii ''tok:'' @ token)
      | Some ps \<Rightarrow> if truthy (get ps (ascii ''jti'')) then Some (ascii ''jti:'' @ value_shown env (get ps (ascii ''jti'')))
                   else Some (ascii ''tok:'' @ token))"

definition token_has_scope :: "mock_env \<Rightarrow> str \<Rightarrow> str \<Rightarrow> bool" where
  "token_has_scope env token needed \<longleftrightarrow> token \<noteq> [] \<and>
     (case token_claims env token of None \<Rightarrow> False
      | Some ps \<Rightarrow> (case get_or ps (ascii ''scope'') (JStr []) of
                     JStr s \<Rightarrow> needed \<in> set (words_on py_space s) | _ \<Rightarrow> False))"

definition bearer_of :: "http_headers \<Rightarrow> str" where
  "bearer_of headers =
     (let auth = (case map_of headers (ascii ''Authorization'') of None \<Rightarrow> [] | Some v \<Rightarrow> v)
      in if starts_with (ascii ''Bearer '') auth then py_strip (drop 7 auth) else [])"

section \<open>Tools\<close>

text \<open>\<open>_get_tools_for_call\<close>; an empty sequence makes the index \<open>-1\<close>, which raises.\<close>

definition get_tools_for_call :: "mock_config \<Rightarrow> mock_state \<Rightarrow> json list option \<times> mock_state" where
  "get_tools_for_call cfg s =
     (case mc_tools_list_sequence cfg of
        None \<Rightarrow> (Some (case mc_tools cfg of None \<Rightarrow> default_tools | Some ts \<Rightarrow> ts), s)
      | Some [] \<Rightarrow> (None, s)
      | Some (ts # rest) \<Rightarrow>
          (Some ((ts # rest) ! min (mk_tools_list_call_count s) (length rest)),
           s\<lparr>mk_tools_list_call_count := mk_tools_list_call_count s + 1\<rparr>))"

definition mock_tools_list :: "mock_config \<Rightarrow> json \<Rightarrow> reply \<Rightarrow> mock_state \<Rightarrow> reply option \<times> mock_state" where
  "mock_tools_list cfg req_id prefix s =
     (case get_tools_for_call cfg s of (ts, s') \<Rightarrow>
        (map_option (\<lambda>l. rpc_result req_id (prefix @ [(ascii ''tools'', JList l)])) ts, s'))"

definition modern_extras :: "mock_env \<Rightarrow> mock_config \<Rightarrow> json \<Rightarrow> json \<Rightarrow> reply \<Rightarrow> reply option" where
  "modern_extras env cfg mthd req_id params =
     (if mc_expose_task_enumeration cfg \<and> is_method mthd ''tasks/list''
      then Some (rpc_result req_id
             [(ascii ''resultType'', JStr (ascii ''complete'')),
              (ascii ''tasks'', JList [JDict [(ascii ''taskId'', JStr (ascii ''1'')),
                                              (ascii ''status'', JStr (ascii ''working''))]])])
      else if mc_expose_task_enumeration cfg \<and> is_method mthd ''tasks/get''
      then Some (rpc_result req_id
             [(ascii ''resultType'', JStr (ascii ''complete'')),
              (ascii ''taskId'', JStr (value_shown env (get params (ascii ''taskId'')))),
              (ascii ''status'', JStr (ascii ''completed'')),
              (ascii ''result'', JDict [(ascii ''content'', JList [])])])
      else if is_method mthd ''tools/call'' \<and> mc_tool_cache_scope_public cfg
      then Some (rpc_result req_id
             [(ascii ''resultType'', JStr (ascii ''complete'')), (ascii ''cacheScope'', JStr (ascii ''public'')),
              (ascii ''ttlMs'', JInt 3600000),
              (ascii ''content'', JList [JDict [(ascii ''type'', JStr (ascii ''text'')),
                                                (ascii ''text'', JStr (ascii ''ok''))]])])
      else None)"

section \<open>The call of a tool\<close>

definition spend_call :: "mock_config \<Rightarrow> mock_state \<Rightarrow> bool \<times> mock_state" where
  "spend_call cfg s =
     (case mc_call_budget cfg of None \<Rightarrow> (False, s)
      | Some b \<Rightarrow> (int (mk_tools_call_count s) + 1 > b,
                    s\<lparr>mk_tools_call_count := mk_tools_call_count s + 1\<rparr>))"

definition note_token :: "mock_env \<Rightarrow> mock_config \<Rightarrow> http_headers \<Rightarrow> mock_state \<Rightarrow> bool \<times> mock_state" where
  "note_token env cfg headers s =
     (if \<not> mc_reject_replayed_tokens cfg then (False, s)
      else case token_replay_id env (bearer_of headers) of
        None \<Rightarrow> (False, s)
      | Some i \<Rightarrow> (i \<in> set (mk_seen_token_ids s), s\<lparr>mk_seen_token_ids := List.insert i (mk_seen_token_ids s)\<rparr>))"

text \<open>The scope check of a guarded tool: \<open>None\<close> lets the call through, and an exception comes from arguments that
  are no dictionary.\<close>

definition scope_refusal ::
    "mock_env \<Rightarrow> mock_config \<Rightarrow> json \<Rightarrow> reply \<Rightarrow> http_headers \<Rightarrow> str \<Rightarrow> unit + reply option" where
  "scope_refusal env cfg req_id params headers needed =
     (case get_or params (ascii ''arguments'') (JDict []) of
        JDict args \<Rightarrow>
          let confirmed = (get args (ascii ''confirmation'') = JBool True)
          in Inr (if mc_confirmation_gates_access cfg \<and> \<not> confirmed
             then Some (rpc_error req_id (- 32001) (ascii ''Confirmation required to call this tool''))
             else if mc_confirmation_bypasses_scope cfg \<and> confirmed then None
             else if token_has_scope env (bearer_of headers) needed then None
             else Some (rpc_error req_id (- 32001) (ascii ''Insufficient scope: '' @ me_repr env (JStr needed) @
                          ascii '' required'')))
      | _ \<Rightarrow> Inl ())"

definition privileged_request :: "mock_env \<Rightarrow> http_headers \<Rightarrow> bool" where
  "privileged_request env headers \<longleftrightarrow>
     (case map_of headers (ascii ''X-Privileged'') of None \<Rightarrow> False
      | Some v \<Rightarrow> u_lower (me_unicode env) v = ascii ''true'')"

definition echo_answer :: "mock_config \<Rightarrow> json \<Rightarrow> reply \<Rightarrow> reply" where
  "echo_answer cfg req_id params =
     (case mc_tools_call_response cfg of
        Some d \<Rightarrow>
          let d' = AList.update (ascii ''id'') req_id d
          in if map_of d' (ascii ''jsonrpc'') = None then d' @ [(ascii ''jsonrpc'', JStr (ascii ''2.0''))] else d'
      | None \<Rightarrow> rpc_result req_id
          [(ascii ''content'', JList [JDict [(ascii ''type'', JStr (ascii ''text'')),
              (ascii ''text'', JStr (ascii ''echo: '' @ dumps (ascii '', '') (ascii '': '')
                 (get_or params (ascii ''arguments'') (JDict []))))]]),
           (ascii ''isError'', JBool False)])"

text \<open>A name that is a list or a dictionary cannot be looked up in a set.\<close>

definition guarded_call :: "mock_env \<Rightarrow> mock_config \<Rightarrow> json \<Rightarrow> reply \<Rightarrow> http_headers \<Rightarrow> reply option" where
  "guarded_call env cfg req_id params headers =
     (case get_or params (ascii ''name'') (JStr (ascii ''unknown'')) of
        JStr n \<Rightarrow>
          if n \<in> set (mc_privileged_tools cfg) \<and> \<not> privileged_request env headers
          then Some (rpc_error req_id (- 32000) (ascii ''Unauthorized: '' @ me_repr env (JStr n) @
                       ascii '' requires X-Privileged: true''))
          else (case map_of (mc_scope_guarded_tools cfg) n of
                  None \<Rightarrow> Some (echo_answer cfg req_id params)
                | Some needed \<Rightarrow>
                    (case scope_refusal env cfg req_id params headers needed of
                       Inl _ \<Rightarrow> None
                     | Inr (Some e) \<Rightarrow> Some e
                     | Inr None \<Rightarrow> Some (echo_answer cfg req_id params)))
      | v \<Rightarrow> if hashable v then Some (echo_answer cfg req_id params) else None)"

definition over_budget :: "json \<Rightarrow> reply" where
  "over_budget req_id = rpc_error req_id (- 32029) (ascii ''Per-session call budget exceeded'')"

definition replay_error :: "json \<Rightarrow> reply" where
  "replay_error req_id =
     rpc_error req_id (- 32001) (ascii ''Token replayed: jti already seen in session window'')"

definition mock_tools_call ::
    "mock_env \<Rightarrow> mock_config \<Rightarrow> reply \<Rightarrow> json \<Rightarrow> http_headers \<Rightarrow> mock_state \<Rightarrow> reply option \<times> mock_state" where
  "mock_tools_call env cfg req req_id headers s =
     (case get_or req (ascii ''params'') (JDict []) of
        JDict params \<Rightarrow>
          (case spend_call cfg s of (over, s1) \<Rightarrow>
             if over then (Some (over_budget req_id), s1)
             else case note_token env cfg headers s1 of (replayed, s2) \<Rightarrow>
               if replayed then (Some (replay_error req_id), s2)
               else (guarded_call env cfg req_id params headers, s2))
      | _ \<Rightarrow> (None, s))"

section \<open>One request\<close>

definition discover_answer :: "mock_config \<Rightarrow> json \<Rightarrow> reply" where
  "discover_answer cfg req_id =
     rpc_result req_id
       [(ascii ''resultType'', JStr (ascii ''complete'')),
        (ascii ''supportedVersions'', JList (map JStr (modern_supported cfg))),
        (ascii ''capabilities'', JDict ((ascii ''tools'', JDict []) #
           (if mc_advertise_logging cfg then [(ascii ''logging'', JDict [])] else []))),
        (ascii ''_meta'', JDict [(ascii ''io.modelcontextprotocol/serverInfo'',
           JDict [(ascii ''name'', JStr (ascii ''mock-mcp-server'')), (ascii ''version'', JStr (ascii ''0.2.0''))])])]"

definition initialize_answer :: "mock_config \<Rightarrow> json \<Rightarrow> reply" where
  "initialize_answer cfg req_id =
     (case mc_initialize_error cfg of
        Some (c # msg) \<Rightarrow> rpc_error req_id (- 32600) (c # msg)
      | _ \<Rightarrow> rpc_result req_id
          [(ascii ''protocolVersion'', JStr (ascii ''2025-03-26'')),
           (ascii ''serverInfo'', JDict [(ascii ''name'', JStr (ascii ''mock-mcp-server'')),
                                         (ascii ''version'', JStr (ascii ''0.1.0''))]),
           (ascii ''capabilities'', JDict [])])"

text \<open>What a modern request is answered with before the handling that both eras share; \<open>None\<close> goes on there.\<close>

definition modern_stage ::
    "mock_env \<Rightarrow> mock_config \<Rightarrow> reply \<Rightarrow> json \<Rightarrow> json \<Rightarrow> http_headers \<Rightarrow> mock_state
       \<Rightarrow> (reply option \<times> mock_state) option" where
  "modern_stage env cfg req mthd req_id headers s =
     (if mc_protocol_era cfg = ascii ''legacy'' then None
      else case modern_gate env cfg req headers of
        Some refusal \<Rightarrow> Some (Some refusal, s)
      | None \<Rightarrow>
          if is_method mthd ''server/discover'' \<and> has_modern_meta req then Some (Some (discover_answer cfg req_id), s)
          else if is_method mthd ''tools/list'' \<and> has_modern_meta req
          then Some (mock_tools_list cfg req_id [(ascii ''resultType'', JStr (ascii ''complete''))] s)
          else None)"

definition common_stage ::
    "mock_env \<Rightarrow> mock_config \<Rightarrow> reply \<Rightarrow> json \<Rightarrow> json \<Rightarrow> http_headers \<Rightarrow> mock_state \<Rightarrow> reply option \<times> mock_state" where
  "common_stage env cfg req mthd req_id headers s =
     (case modern_extras env cfg mthd req_id (request_params req) of
        Some r \<Rightarrow> (Some r, s)
      | None \<Rightarrow>
          if is_method mthd ''initialize'' then (Some (initialize_answer cfg req_id), s)
          else if is_method mthd ''tools/list'' then mock_tools_list cfg req_id [] s
          else if is_method mthd ''tools/call'' then mock_tools_call env cfg req req_id headers s
          else (Some (rpc_error req_id (- 32601) (ascii ''Method not found: '' @ me_repr env mthd)), s))"

definition log_request :: "reply \<Rightarrow> http_headers option \<Rightarrow> mock_state \<Rightarrow> mock_state" where
  "log_request req headers s =
     s\<lparr>mk_request_log := mk_request_log s @ [req],
       mk_last_request_headers := (case headers of None \<Rightarrow> mk_last_request_headers s | Some h \<Rightarrow> h)\<rparr>"

definition handle_rpc ::
    "mock_env \<Rightarrow> mock_config \<Rightarrow> reply \<Rightarrow> http_headers option \<Rightarrow> mock_state \<Rightarrow> reply option \<times> mock_state" where
  "handle_rpc env cfg req headers s0 =
     (let s = log_request req headers s0; mthd = get_or req (ascii ''method'') (JStr []);
          req_id = get req (ascii ''id''); hs = (case headers of None \<Rightarrow> [] | Some h \<Rightarrow> h);
          lower = lower_headers env hs
      in if req_id = JNull then (Some [], s)
         else case framing_refusal env cfg req mthd req_id lower of
           Some r \<Rightarrow> (Some r, s)
         | None \<Rightarrow>
             (case method_refusal cfg mthd req_id lower of
                Some r \<Rightarrow> (Some r, s)
              | None \<Rightarrow>
                  (case modern_stage env cfg req mthd req_id hs s of
                     Some answer \<Rightarrow> answer
                   | None \<Rightarrow> common_stage env cfg req mthd req_id hs s)))"

section \<open>The HTTP side\<close>

text \<open>A message's headers are a list that may repeat a name; looking one up ignores case and takes the first.\<close>

datatype http_answer =
    Answer json "(str \<times> str) list" str
  | ConnectionDropped
  | HandlerCrashed

definition message_get :: "mock_env \<Rightarrow> (str \<times> str) list \<Rightarrow> str \<Rightarrow> str option" where
  "message_get env hs k =
     map_option snd (List.find (\<lambda>(k', _). u_lower (me_unicode env) k' = u_lower (me_unicode env) k) hs)"

definition message_dict :: "mock_env \<Rightarrow> (str \<times> str) list \<Rightarrow> http_headers" where
  "message_dict env hs =
     fold (\<lambda>(k, _) d. AList.update k (case message_get env hs k of None \<Rightarrow> [] | Some v \<Rightarrow> v) d) hs []"

definition send_json :: "json \<Rightarrow> reply \<Rightarrow> (str \<times> str) list \<Rightarrow> http_answer" where
  "send_json status data extra =
     (let payload = dumps (ascii '', '') (ascii '': '') (JDict data)
      in Answer status ([(ascii ''Content-Type'', ascii ''application/json''),
                         (ascii ''Content-Length'', digits (length payload))] @ extra) payload)"

definition send_event :: "json \<Rightarrow> reply \<Rightarrow> http_answer" where
  "send_event status data =
     (let payload = ascii ''event: message'' @ [10] @ ascii ''data: '' @
                    dumps (ascii '', '') (ascii '': '') (JDict data) @ [10, 10]
      in Answer status [(ascii ''Content-Type'', ascii ''text/event-stream''),
                        (ascii ''Content-Length'', digits (length payload))] payload)"

definition bearer_accepted :: "mock_env \<Rightarrow> mock_config \<Rightarrow> (str \<times> str) list \<Rightarrow> bool" where
  "bearer_accepted env cfg hs \<longleftrightarrow>
     (case mc_require_bearer cfg of None \<Rightarrow> True
      | Some expected \<Rightarrow>
          let auth = (case message_get env hs (ascii ''Authorization'') of None \<Rightarrow> [] | Some v \<Rightarrow> v)
          in if mc_accept_any_bearer cfg then starts_with (ascii ''Bearer '') auth \<and> length auth > 7
             else auth = ascii ''Bearer '' @ expected)"

definition bearer_refusal :: "mock_config \<Rightarrow> http_answer" where
  "bearer_refusal cfg =
     send_json (JInt 401)
       [(ascii ''jsonrpc'', JStr (ascii ''2.0'')), (ascii ''id'', JNull),
        (ascii ''error'', rpc_error_value (- 32001) (ascii ''Unauthorized'') JNull)]
       (case mc_www_authenticate cfg of Some (c # v) \<Rightarrow> [(ascii ''WWW-Authenticate'', c # v)] | _ \<Rightarrow> [])"

text \<open>What becomes of the handler's answer: dropped, silent for a notification, or sent with its status.\<close>

definition send_reply :: "mock_config \<Rightarrow> reply \<Rightarrow> http_answer" where
  "send_reply cfg r =
     (if truthy (get r (ascii ''_drop'')) then ConnectionDropped
      else if r = [] then Answer (JInt 204) [] []
      else (let status = get_or r (ascii ''_http_status'') (JInt 200);
                body = AList.delete (ascii ''_http_status'') r
            in if mc_sse_responses cfg then send_event status body else send_json status body []))"

definition do_POST ::
    "mock_env \<Rightarrow> mock_config \<Rightarrow> (str \<times> str) list \<Rightarrow> byte list \<Rightarrow> mock_state \<Rightarrow> http_answer \<times> mock_state" where
  "do_POST env cfg hs body s =
     (if \<not> bearer_accepted env cfg hs then (bearer_refusal cfg, s)
      else if \<not> starts_with (ascii ''application/json'')
                  (case message_get env hs (ascii ''Content-Type'') of None \<Rightarrow> [] | Some v \<Rightarrow> v)
      then (send_json (JInt 415) [(ascii ''error'',
              JStr (ascii ''Unsupported Media Type '' @ [8212] @ ascii '' expected application/json''))] [], s)
      else case me_loads env body of
        Undecodable \<Rightarrow> (HandlerCrashed, s)
      | Malformed \<Rightarrow> (send_json (JInt 400) [(ascii ''error'', JStr (ascii ''Invalid JSON''))] [], s)
      | Loaded (JDict req) \<Rightarrow>
          (case handle_rpc env cfg req (Some (message_dict env hs)) s of
             (None, s') \<Rightarrow> (HandlerCrashed, s')
           | (Some r, s') \<Rightarrow> (send_reply cfg r, s'))
      | Loaded _ \<Rightarrow> (HandlerCrashed, s))"

definition do_GET :: "mock_config \<Rightarrow> str \<Rightarrow> mock_state \<Rightarrow> http_answer \<times> mock_state" where
  "do_GET cfg path s =
     (case get (mc_well_known cfg) path of
        JNull \<Rightarrow> send_json (JInt 404) [(ascii ''error'', JStr (ascii ''not found''))] []
      | JDict doc \<Rightarrow> send_json (JInt 200) doc []
      | v \<Rightarrow> Answer (JInt 200) [(ascii ''Content-Type'', ascii ''application/json''),
                 (ascii ''Content-Length'', digits (length (dumps (ascii '', '') (ascii '': '') v)))]
               (dumps (ascii '', '') (ascii '': '') v),
      s\<lparr>mk_get_log := mk_get_log s @ [path]\<rparr>)"

section \<open>Life of the server\<close>

text \<open>The bound port while the server runs, and the flag of \<open>wait_ready\<close>. Binding is the operating system's choice;
  \<open>None\<close> is the exception of a port in use.\<close>

record mock_life =
  ml_port :: "nat option"
  ml_ready :: bool

definition mock_start :: "nat option \<Rightarrow> mock_life \<Rightarrow> mock_life option" where
  "mock_start bound s = map_option (\<lambda>p. s\<lparr>ml_port := Some p, ml_ready := True\<rparr>) bound"

definition mock_stop :: "mock_life \<Rightarrow> mock_life" where
  "mock_stop s = s\<lparr>ml_ready := False, ml_port := None\<rparr>"

definition request_log :: "mock_state \<Rightarrow> reply list" where
  "request_log s = mk_request_log s"

section \<open>What a request changes\<close>

definition rpc_method :: "reply \<Rightarrow> json" where
  "rpc_method req = get_or req (ascii ''method'') (JStr [])"

definition sent_headers :: "http_headers option \<Rightarrow> http_headers" where
  "sent_headers headers = (case headers of None \<Rightarrow> [] | Some h \<Rightarrow> h)"

definition with_result :: "reply option \<Rightarrow> bool" where
  "with_result a = (case a of None \<Rightarrow> False | Some r \<Rightarrow> map_of r (ascii ''result'') \<noteq> None)"

lemma errors_without_result [simp]:
  "\<not> with_result (Some (rpc_error i c m))" "\<not> with_result (Some (rpc_error_status i st c m))"
  "\<not> with_result (Some (unauthorized i st))" "\<not> with_result (Some (gate_error i c m d))"
  "\<not> with_result (Some (over_budget i))" "\<not> with_result (Some (replay_error i))"
  "\<not> with_result (Some [])" "\<not> with_result None"
  by (simp_all add: with_result_def rpc_error_def rpc_error_status_def unauthorized_def gate_error_def rpc_reply_def
      over_budget_def replay_error_def)

lemma framing_without_result: "\<not> with_result (framing_refusal env cfg req mthd i lower)"
  by (simp add: framing_refusal_def)

lemma method_without_result: "\<not> with_result (method_refusal cfg mthd i lower)"
  by (simp add: method_refusal_def) (simp add: with_result_def)

lemma header_checks_without_result: "\<not> with_result (header_checks env cfg mthd i params v lower)"
  by (simp add: header_checks_def)

lemma gate_without_result: "\<not> with_result (modern_gate env cfg req hs)"
  by (simp add: modern_gate_def Let_def missing_meta_def header_checks_without_result split: option.split)

lemma is_method_same [simp]: "is_method v nm \<Longrightarrow> is_method v nm' \<longleftrightarrow> nm = nm'"
  by (auto simp: is_method_def)

lemma handle_rpc_cases [case_names silent framing mthd modern common]:
  obtains "handle_rpc env cfg req headers s = (Some [], log_request req headers s)"
  | r where "framing_refusal env cfg req (rpc_method req) (get req (ascii ''id''))
               (lower_headers env (sent_headers headers)) = Some r"
      and "handle_rpc env cfg req headers s = (Some r, log_request req headers s)"
  | r where "method_refusal cfg (rpc_method req) (get req (ascii ''id''))
               (lower_headers env (sent_headers headers)) = Some r"
      and "handle_rpc env cfg req headers s = (Some r, log_request req headers s)"
  | a where "modern_stage env cfg req (rpc_method req) (get req (ascii ''id'')) (sent_headers headers)
               (log_request req headers s) = Some a"
      and "handle_rpc env cfg req headers s = a"
  | "handle_rpc env cfg req headers s =
       common_stage env cfg req (rpc_method req) (get req (ascii ''id'')) (sent_headers headers) (log_request req headers s)"
proof -
  let ?i = "get req (ascii ''id'')" and ?l = "lower_headers env (sent_headers headers)"
  have eq: "handle_rpc env cfg req headers s =
     (let s = log_request req headers s
      in if ?i = JNull then (Some [], s)
         else case framing_refusal env cfg req (rpc_method req) ?i ?l of
           Some r \<Rightarrow> (Some r, s)
         | None \<Rightarrow>
             (case method_refusal cfg (rpc_method req) ?i ?l of
                Some r \<Rightarrow> (Some r, s)
              | None \<Rightarrow>
                  (case modern_stage env cfg req (rpc_method req) ?i (sent_headers headers) s of
                     Some answer \<Rightarrow> answer
                   | None \<Rightarrow> common_stage env cfg req (rpc_method req) ?i (sent_headers headers) s)))"
    by (simp only: handle_rpc_def rpc_method_def sent_headers_def Let_def)
  show ?thesis
    using that eq
    by (cases "?i = JNull"; cases "framing_refusal env cfg req (rpc_method req) ?i ?l";
        cases "method_refusal cfg (rpc_method req) ?i ?l";
        cases "modern_stage env cfg req (rpc_method req) ?i (sent_headers headers) (log_request req headers s)";
        simp add: Let_def del: ascii_simps)
qed

lemma modern_stage_call:
  "is_method mthd ''tools/call'' \<Longrightarrow> modern_stage env cfg req mthd i hs s = Some a \<Longrightarrow>
     \<exists>r. a = (Some r, s) \<and> \<not> with_result (Some r)"
  using gate_without_result [of env cfg req hs]
  by (auto simp: modern_stage_def split: if_splits option.splits)

lemma common_stage_call:
  "is_method mthd ''tools/call'' \<Longrightarrow> \<not> mc_tool_cache_scope_public cfg \<Longrightarrow>
     common_stage env cfg req mthd i hs s = mock_tools_call env cfg req i hs s"
  by (simp add: common_stage_def modern_extras_def)

text \<open>A tool call is refused before the state is touched, or it is \<open>mock_tools_call\<close> on the logged state.\<close>

lemma handle_tools_call:
  assumes "is_method (rpc_method req) ''tools/call''" and "\<not> mc_tool_cache_scope_public cfg"
  shows "(snd (handle_rpc env cfg req headers s) = log_request req headers s \<and>
            \<not> with_result (fst (handle_rpc env cfg req headers s))) \<or>
         handle_rpc env cfg req headers s =
           mock_tools_call env cfg req (get req (ascii ''id'')) (sent_headers headers) (log_request req headers s)"
proof (cases rule: handle_rpc_cases [of env cfg req headers s])
  case (framing r)
  then show ?thesis using framing_without_result by (metis fst_conv snd_conv)
next
  case (mthd r)
  then show ?thesis using method_without_result by (metis fst_conv snd_conv)
next
  case (modern a)
  then show ?thesis using modern_stage_call [OF assms(1) modern(1)] by auto
next
  case common
  then show ?thesis using common_stage_call [OF assms] by simp
qed simp

definition same_tokens :: "mock_state \<Rightarrow> mock_state \<Rightarrow> bool" where
  "same_tokens s s' \<longleftrightarrow>
     mk_seen_token_ids s' = mk_seen_token_ids s \<and> mk_tools_call_count s' = mk_tools_call_count s"

lemma log_same [simp]:
  "mk_seen_token_ids (log_request req headers s) = mk_seen_token_ids s"
  "mk_tools_call_count (log_request req headers s) = mk_tools_call_count s"
  "mk_request_log (log_request req headers s) = mk_request_log s @ [req]"
  by (simp_all add: log_request_def)

lemma tools_list_same: "same_tokens s (snd (mock_tools_list cfg i pre s))"
  by (simp add: mock_tools_list_def get_tools_for_call_def same_tokens_def split: option.split list.split prod.split)

lemma tools_list_log: "mk_request_log (snd (mock_tools_list cfg i pre s)) = mk_request_log s"
  by (simp add: mock_tools_list_def get_tools_for_call_def split: option.split list.split prod.split)

lemma tools_call_log: "mk_request_log (snd (mock_tools_call env cfg req i hs s)) = mk_request_log s"
  by (simp add: mock_tools_call_def spend_call_def note_token_def Let_def
      split: json.split option.split prod.split if_splits)

lemma modern_stage_state:
  "modern_stage env cfg req mthd i hs s = Some a \<Longrightarrow>
     same_tokens s (snd a) \<and> mk_request_log (snd a) = mk_request_log s"
  by (auto simp: modern_stage_def tools_list_same tools_list_log same_tokens_def [of s s]
      split: if_splits option.splits)

lemma common_stage_same:
  "\<not> is_method mthd ''tools/call'' \<Longrightarrow> same_tokens s (snd (common_stage env cfg req mthd i hs s))"
  by (simp add: common_stage_def tools_list_same same_tokens_def [of s s] split: option.split)

lemma common_stage_log: "mk_request_log (snd (common_stage env cfg req mthd i hs s)) = mk_request_log s"
  by (simp add: common_stage_def tools_list_log tools_call_log split: option.split)

lemma other_methods_same:
  assumes "\<not> is_method (rpc_method req) ''tools/call''"
  shows "same_tokens s (snd (handle_rpc env cfg req headers s))"
proof (cases rule: handle_rpc_cases [of env cfg req headers s])
  case (modern a)
  then show ?thesis using modern_stage_state [OF modern(1)] by (simp add: same_tokens_def)
next
  case common
  then show ?thesis using common_stage_same [OF assms, of "log_request req headers s"] by (simp add: same_tokens_def)
qed (simp_all add: same_tokens_def)

text \<open>Every request is logged, whatever becomes of it.\<close>

lemma every_request_logged: "mk_request_log (snd (handle_rpc env cfg req headers s)) = mk_request_log s @ [req]"
proof (cases rule: handle_rpc_cases [of env cfg req headers s])
  case (modern a)
  then show ?thesis using modern_stage_state [OF modern(1)] by simp
qed (simp_all add: common_stage_log)

section \<open>Replay and budget\<close>

definition call_token :: "mock_env \<Rightarrow> http_headers option \<Rightarrow> str option" where
  "call_token env headers = token_replay_id env (bearer_of (sent_headers headers))"

text \<open>A call that carries a token and is answered with a result.\<close>

definition token_served ::
    "mock_env \<Rightarrow> mock_config \<Rightarrow> reply \<times> http_headers option \<Rightarrow> time \<Rightarrow> mock_state \<Rightarrow> bool \<times> mock_state" where
  "token_served env cfg r t s =
     (is_method (rpc_method (fst r)) ''tools/call'' \<and> call_token env (snd r) \<noteq> None \<and>
        with_result (fst (handle_rpc env cfg (fst r) (snd r) s)),
      snd (handle_rpc env cfg (fst r) (snd r) s))"

text \<open>The options under which the server promises single use.\<close>

definition single_use :: "mock_config \<Rightarrow> mock_config" where
  "single_use cfg = cfg\<lparr>mc_reject_replayed_tokens := True, mc_tool_cache_scope_public := False\<rparr>"

definition seen_key :: "mock_state \<Rightarrow> str option \<Rightarrow> bool" where
  "seen_key s k = (case k of None \<Rightarrow> False | Some i \<Rightarrow> i \<in> set (mk_seen_token_ids s))"

lemma tools_call_tokens:
  assumes "mc_reject_replayed_tokens cfg"
  shows "set (mk_seen_token_ids s) \<subseteq> set (mk_seen_token_ids (snd (mock_tools_call env cfg req i hs s)))"
    and "token_replay_id env (bearer_of hs) = Some k \<Longrightarrow> with_result (fst (mock_tools_call env cfg req i hs s)) \<Longrightarrow>
           k \<notin> set (mk_seen_token_ids s) \<and> k \<in> set (mk_seen_token_ids (snd (mock_tools_call env cfg req i hs s)))"
  using assms
  by (auto simp: mock_tools_call_def spend_call_def note_token_def Let_def split: json.splits option.splits prod.splits if_splits)

lemma handle_keeps_tokens:
  "set (mk_seen_token_ids s) \<subseteq> set (mk_seen_token_ids (snd (handle_rpc env (single_use cfg) req headers s)))"
proof (cases "is_method (rpc_method req) ''tools/call''")
  case True
  note c = handle_tools_call [OF True, of "single_use cfg" env headers s]
  note k = tools_call_tokens(1) [of "single_use cfg" "log_request req headers s" env req "get req (ascii ''id'')"
      "sent_headers headers"]
  have "\<not> mc_tool_cache_scope_public (single_use cfg)" "mc_reject_replayed_tokens (single_use cfg)"
    by (simp_all add: single_use_def)
  then show ?thesis using c k by auto
next
  case False
  then show ?thesis using other_methods_same [of req s env "single_use cfg" headers] by (simp add: same_tokens_def)
qed

lemma handle_records_token:
  assumes "fst (token_served env (single_use cfg) r t s)" and "call_token env (snd r) = Some k"
  shows "k \<notin> set (mk_seen_token_ids s) \<and> k \<in> set (mk_seen_token_ids (snd (token_served env (single_use cfg) r t s)))"
proof -
  have m: "is_method (rpc_method (fst r)) ''tools/call''"
    and w: "with_result (fst (handle_rpc env (single_use cfg) (fst r) (snd r) s))"
    using assms(1) by (simp_all add: token_served_def)
  have c: "\<not> mc_tool_cache_scope_public (single_use cfg)" "mc_reject_replayed_tokens (single_use cfg)"
    by (simp_all add: single_use_def)
  have eq: "handle_rpc env (single_use cfg) (fst r) (snd r) s =
      mock_tools_call env (single_use cfg) (fst r) (get (fst r) (ascii ''id'')) (sent_headers (snd r))
        (log_request (fst r) (snd r) s)"
    using handle_tools_call [OF m c(1), of env "snd r" s] w by blast
  have b: "token_replay_id env (bearer_of (sent_headers (snd r))) = Some k"
    using assms(2) by (simp add: call_token_def)
  show ?thesis
    using tools_call_tokens(2) [OF c(2) b w [unfolded eq]] by (simp add: token_served_def eq del: ascii_simps)
qed

interpretation mock_tokens: replay_guard "token_served env (single_use cfg)" "\<lambda>r. call_token env (snd r)"
    "\<lambda>s r t. t + 1" "\<lambda>s t k. seen_key s k" "\<lambda>s. True" for env cfg
proof
  fix s t and r :: "reply \<times> http_headers option"
  assume "seen_key s (call_token env (snd r))"
  then show "\<not> fst (token_served env (single_use cfg) r t s)"
    using handle_records_token [of env cfg r t s] by (auto simp: seen_key_def split: option.splits)
next
  fix s t k and r :: "reply \<times> http_headers option"
  assume "seen_key s k"
  then show "seen_key (snd (token_served env (single_use cfg) r t s)) k"
    using handle_keeps_tokens [of s env cfg "fst r" "snd r"] by (auto simp: seen_key_def token_served_def split: option.splits)
next
  fix s t and r :: "reply \<times> http_headers option"
  assume a: "fst (token_served env (single_use cfg) r t s)"
  then obtain k where "call_token env (snd r) = Some k" by (auto simp: token_served_def)
  then show "seen_key (snd (token_served env (single_use cfg) r t s)) (call_token env (snd r))"
    using handle_records_token [OF a] by (simp add: seen_key_def)
qed simp

text \<open>A token buys one result, whatever is asked in between.\<close>

lemma mock_token_single_use:
  assumes "fst (token_served env (single_use cfg) r 0 s)" and "call_token env (snd r') = call_token env (snd r)"
  shows "\<not> fst (token_served env (single_use cfg) r' 0
           (serve (token_served env (single_use cfg)) (map (\<lambda>q. (q, 0)) qs) (snd (token_served env (single_use cfg) r 0 s))))"
  by (rule mock_tokens.no_replay) (use assms in auto)

text \<open>The budget counts every call that reaches it, and none beyond it has a result.\<close>

lemma guarded_counts:
  assumes "mc_call_budget cfg = Some b"
  shows "with_result (fst (mock_tools_call env cfg req i hs s)) \<Longrightarrow>
           int (mk_tools_call_count (snd (mock_tools_call env cfg req i hs s))) \<le> b \<and>
           mk_tools_call_count (snd (mock_tools_call env cfg req i hs s)) = mk_tools_call_count s + 1"
    and "mk_tools_call_count s \<le> mk_tools_call_count (snd (mock_tools_call env cfg req i hs s))"
  using assms
  by (auto simp: mock_tools_call_def spend_call_def note_token_def Let_def split: json.splits option.splits prod.splits if_splits)

fun run_rpc ::
    "mock_env \<Rightarrow> mock_config \<Rightarrow> (reply \<times> http_headers option) list \<Rightarrow> mock_state \<Rightarrow> (reply \<times> reply option) list" where
  "run_rpc env cfg [] s = []"
| "run_rpc env cfg ((req, headers) # rest) s =
     (req, fst (handle_rpc env cfg req headers s)) # run_rpc env cfg rest (snd (handle_rpc env cfg req headers s))"

definition call_served :: "reply \<times> reply option \<Rightarrow> bool" where
  "call_served x \<longleftrightarrow> is_method (rpc_method (fst x)) ''tools/call'' \<and> with_result (snd x)"

lemma handle_counts:
  assumes "mc_call_budget cfg = Some b" and "\<not> mc_tool_cache_scope_public cfg"
  shows "call_served (req, fst (handle_rpc env cfg req headers s)) \<Longrightarrow>
           int (mk_tools_call_count s) < b \<and>
           mk_tools_call_count (snd (handle_rpc env cfg req headers s)) = mk_tools_call_count s + 1"
    and "mk_tools_call_count s \<le> mk_tools_call_count (snd (handle_rpc env cfg req headers s))"
proof -
  let ?t = "mock_tools_call env cfg req (get req (ascii ''id'')) (sent_headers headers) (log_request req headers s)"
  note g = guarded_counts [OF assms(1), where env = env and req = req and i = "get req (ascii ''id'')"
      and hs = "sent_headers headers" and s = "log_request req headers s"]
  {
    assume a: "call_served (req, fst (handle_rpc env cfg req headers s))"
    then have "handle_rpc env cfg req headers s = ?t"
      using handle_tools_call [OF _ assms(2), of req env headers s] by (auto simp: call_served_def)
    then show "int (mk_tools_call_count s) < b \<and>
           mk_tools_call_count (snd (handle_rpc env cfg req headers s)) = mk_tools_call_count s + 1"
      using a g(1) by (simp add: call_served_def del: ascii_simps)
  }
  show "mk_tools_call_count s \<le> mk_tools_call_count (snd (handle_rpc env cfg req headers s))"
  proof (cases "is_method (rpc_method req) ''tools/call''")
    case True
    then show ?thesis using handle_tools_call [OF True assms(2), of env headers s] g(2) by (auto simp del: ascii_simps)
  next
    case False
    then show ?thesis using other_methods_same [OF False, of s env cfg headers] by (simp add: same_tokens_def)
  qed
qed

lemma mock_call_budget_bounds:
  assumes "mc_call_budget cfg = Some b" and "\<not> mc_tool_cache_scope_public cfg"
  shows "length (filter call_served (run_rpc env cfg xs s)) \<le> nat (b - int (mk_tools_call_count s))"
proof (induction xs arbitrary: s)
  case (Cons x xs)
  obtain req headers where x: "x = (req, headers)" by (cases x)
  let ?s = "snd (handle_rpc env cfg req headers s)"
  show ?case
    using Cons.IH [of ?s] handle_counts [OF assms, where req = req and env = env and headers = headers and s = s] by (auto simp: x)
qed simp

section \<open>The scanner's framing\<close>

text \<open>What the scanner sends in the modern era is what the gate asks for.\<close>

lemma lower_headers_simps:
  "lower_headers env ((k, v) # hs) = fold (\<lambda>(k, v) d. AList.update (u_lower (me_unicode env) k) v d) hs
     [(u_lower (me_unicode env) k, v)]"
  by (simp add: lower_headers_def)

lemma gate_serves_scanner:
  assumes "distinct (map (lowered env) [''MCP-Protocol-Version'', ''Mcp-Method'', ''Mcp-Name''])"
    and "map_of req (ascii ''method'') = Some (JStr mthd)" and "map_of req (ascii ''params'') = Some (JDict params)"
    and "map_of params (ascii ''_meta'') = Some (JDict m)" and "map_of m version_field = Some (JStr v)"
    and "v \<in> set (modern_supported cfg)" and "\<not> mc_modern_requires_auth cfg"
    and "case mcp_name_for mthd params of None \<Rightarrow> True | Some n \<Rightarrow> encode_header_value n \<noteq> None"
  shows "modern_gate env cfg req (request_metadata_headers mthd params v) = None"
proof -
  let ?hs = "lower_headers env (request_metadata_headers mthd params v)"
  have a: "map_of ?hs (lowered env ''MCP-Protocol-Version'') = Some v" "map_of ?hs (lowered env ''Mcp-Method'') = Some mthd"
    using assms(1)
    by (auto simp: lower_headers_simps request_metadata_headers_def lowered_def simp del: ascii_simps split: option.split)
  have "map_of ?hs (lowered env ''Mcp-Name'') = Option.bind (mcp_name_for mthd params) encode_header_value"
    using assms(1)
    by (auto simp: lower_headers_simps request_metadata_headers_def lowered_def simp del: ascii_simps split: option.split)
  then have b: "name_agrees env (JStr mthd) params ?hs"
    using assms(8) by (auto simp: name_agrees_def method_name_for_def decode_encoded split: option.splits)
  have c: "header_checks env cfg (JStr mthd) i params (JStr v) ?hs = None" for i
    using a b assms(6) by (simp add: header_checks_def header_at_def version_supported_def del: ascii_simps)
  show ?thesis
    using assms(2-5,7) c
    by (simp add: modern_gate_def Let_def get_or_def get_def request_params_def dict_or_empty_def meta_of_params_def
        gate_unauthorized_def del: ascii_simps)
qed

text \<open>And what the gate lets through on a strict modern server agrees with its headers.\<close>

lemma gate_strict:
  assumes "modern_gate env cfg req headers = None" and "mc_protocol_era cfg = ascii ''modern''"
    and "\<not> mc_skip_header_validation cfg" and "\<not> mc_accept_unknown_versions cfg"
  shows "\<exists>m v. meta_of_params (request_params req) = Some m \<and> map_of m version_field = Some (JStr v) \<and>
           v \<in> set (modern_supported cfg) \<and>
           map_of (lower_headers env headers) (lowered env ''MCP-Protocol-Version'') = Some v \<and>
           header_at (lower_headers env headers) (lowered env ''Mcp-Method'') = rpc_method req \<and>
           name_agrees env (rpc_method req) (request_params req) (lower_headers env headers)"
proof -
  let ?l = "lower_headers env headers" and ?i = "get req (ascii ''id'')"
  obtain m v where m: "meta_of_params (request_params req) = Some m" and v: "map_of m version_field = Some v"
    and h: "header_checks env cfg (rpc_method req) ?i (request_params req) v ?l = None"
    using assms(1,2)
    by (auto simp: modern_gate_def Let_def missing_meta_def rpc_method_def split: if_splits option.splits bind_splits)
  show ?thesis using m v h assms(3,4)
    by (auto simp: header_checks_def version_supported_def header_at_def split: if_splits json.splits option.splits)
qed

end
