(* ===== verification/Legacy_Sse.thy ===== *)
theory Legacy_Sse
  imports Streamable_Http
begin

text \<open>
  \<open>transport/legacy_sse.py\<close>: the two-endpoint transport of the 2024-11-05 protocol. A request goes out by POST and
  registers a future under its id; a listener reads the answers from one event stream and resolves the futures, or
  queues what nobody asked for. The event loop interleaves these at its \<open>await\<close>s, so the model is a set of atomic
  steps over one state: a line of the stream, the end of the stream, the beginning of a send, its POST, the end of
  its wait, and a receive. A future is an index into the list of all calls, which keeps the id a call was made
  under. Random ids and the text of an id (\<open>str\<close>) are arguments.
\<close>

section \<open>State\<close>

datatype sse_future = Waiting | Resolved "(str \<times> json) list" | Failed | Abandoned

record sse_transport =
  st_base_url :: str
  st_pinned :: "pinned option"
  st_pending :: "(str, nat) dict"
  st_calls :: "(str \<times> sse_future) list"
  st_queue :: "(str \<times> json) list list"
  st_listening :: bool
  st_event :: "str option"
  st_lines :: nat

definition sse_line_cap :: nat where "sse_line_cap = 100000"
definition sse_queue_cap :: nat where "sse_queue_cap = 64"

definition new_sse :: "str \<Rightarrow> sse_transport" where
  "new_sse base_url =
     \<lparr>st_base_url = strip_slashes base_url, st_pinned = None, st_pending = [], st_calls = [], st_queue = [],
      st_listening = False, st_event = None, st_lines = 0\<rparr>"

section \<open>Futures and the queue\<close>

definition is_waiting :: "(str \<times> sse_future) list \<Rightarrow> nat \<Rightarrow> bool" where
  "is_waiting calls h \<longleftrightarrow> h < length calls \<and> snd (calls ! h) = Waiting"

definition set_future :: "nat \<Rightarrow> sse_future \<Rightarrow> (str \<times> sse_future) list \<Rightarrow> (str \<times> sse_future) list" where
  "set_future h f calls = (if is_waiting calls h then calls[h := (fst (calls ! h), f)] else calls)"

text \<open>\<open>put_nowait\<close>, with a full queue's exception ignored.\<close>

definition enqueue :: "(str \<times> json) list \<Rightarrow> sse_transport \<Rightarrow> sse_transport" where
  "enqueue m t = (if length (st_queue t) < sse_queue_cap then t\<lparr>st_queue := st_queue t @ [m]\<rparr> else t)"

definition closed_mark :: "(str \<times> json) list" where
  "closed_mark = [(ascii ''_sse_closed'', JBool True)]"

definition id_text :: "(json \<Rightarrow> str) \<Rightarrow> json \<Rightarrow> str" where
  "id_text repr v = (case v of JStr s \<Rightarrow> s | _ \<Rightarrow> repr v)"

definition msg_id :: "(str \<times> json) list \<Rightarrow> json" where
  "msg_id m = (case map_of m (ascii ''id'') of None \<Rightarrow> JNull | Some v \<Rightarrow> v)"

definition sse_dispatch :: "(json \<Rightarrow> str) \<Rightarrow> (str \<times> json) list \<Rightarrow> sse_transport \<Rightarrow> sse_transport" where
  "sse_dispatch repr m t =
     (case (if msg_id m = JNull then None else map_of (st_pending t) (id_text repr (msg_id m))) of
        Some h \<Rightarrow> t\<lparr>st_calls := set_future h (Resolved m) (st_calls t),
                    st_pending := AList.delete (id_text repr (msg_id m)) (st_pending t)\<rparr>
      | None \<Rightarrow> enqueue m t)"

section \<open>The listener\<close>

text \<open>The \<open>finally\<close> block: every registered call that still waits fails, and a mark is put on the queue if it fits.\<close>

definition fail_all :: "(str, nat) dict \<Rightarrow> (str \<times> sse_future) list \<Rightarrow> (str \<times> sse_future) list" where
  "fail_all ps calls = fold (\<lambda>(i, h). set_future h Failed) ps calls"

definition stream_gone :: "sse_transport \<Rightarrow> sse_transport" where
  "stream_gone t =
     enqueue closed_mark
       (t\<lparr>st_calls := fail_all (st_pending t) (st_calls t), st_pending := [],
          st_listening := False\<rparr>)"

definition listen_line :: "(json \<Rightarrow> str) \<Rightarrow> str \<Rightarrow> sse_transport \<Rightarrow> sse_transport" where
  "listen_line repr l t =
     (if \<not> st_listening t then t
      else if st_lines t + 1 > sse_line_cap then stream_gone (t\<lparr>st_lines := st_lines t + 1\<rparr>)
      else
        let t1 = t\<lparr>st_lines := st_lines t + 1\<rparr>; line = py_strip l
        in if starts_with (ascii ''data:'') line then t1\<lparr>st_event := Some (py_strip (drop 5 line))\<rparr>
           else case st_event t of
             None \<Rightarrow> t1
           | Some d \<Rightarrow>
               if line \<noteq> [] then t1
               else (case loads d of
                       None \<Rightarrow> t1\<lparr>st_event := None\<rparr>
                     | Some (JDict m) \<Rightarrow> (sse_dispatch repr m t1)\<lparr>st_event := None\<rparr>
                     | Some _ \<Rightarrow> stream_gone t1))"

text \<open>Opening the stream: a redirect or a failed request ends the listener at once.\<close>

definition stream_open :: "wire_env \<Rightarrow> sse_transport \<Rightarrow> sse_transport" where
  "stream_open e t =
     (case (st_pinned t, we_hx e (st_base_url t @ ascii ''/sse'')) of
        (Some p, Some u) \<Rightarrow>
          (case handle_request e p \<lparr>hq_method = ascii ''GET'', hq_url = u, hq_headers = [], hq_body = None, hq_sni = []\<rparr> of
             (Inl _, p') \<Rightarrow> stream_gone (t\<lparr>st_pinned := Some p'\<rparr>)
           | (Inr r, p') \<Rightarrow>
               (case check_redirect (hr_status r) of
                  Inl _ \<Rightarrow> stream_gone (t\<lparr>st_pinned := Some p'\<rparr>)
                | Inr _ \<Rightarrow> t\<lparr>st_pinned := Some p'\<rparr>))
      | _ \<Rightarrow> stream_gone t)"

definition sse_connect :: "wire_env \<Rightarrow> wire_config \<Rightarrow> sse_transport \<Rightarrow> (pin_error + sse_transport) option" where
  "sse_connect e c t =
     (case urlparse (we_url e) (st_base_url t) of
        None \<Rightarrow> None
      | Some u \<Rightarrow>
          (let h = (case url_hostname (we_url e) u of Some h \<Rightarrow> h | None \<Rightarrow> wc_target_host c) in
           case resolve_and_pin (we_parse e) (we_resolver e) (wc_allow_private c) h of
             Inl err \<Rightarrow> Some (Inl err)
           | Inr ip \<Rightarrow> Some (Inr (t\<lparr>st_pinned := Some \<lparr>pn_ip = ip, pn_canonicalized = False, pn_url = None, pn_sent = []\<rparr>,
                                    st_listening := True, st_event := None, st_lines := 0\<rparr>))))"

text \<open>Closing cancels the listener, whose \<open>finally\<close> block runs if it was still listening.\<close>

definition sse_close :: "sse_transport \<Rightarrow> sse_transport" where
  "sse_close t = (if st_listening t then stream_gone t else t)\<lparr>st_pinned := None\<rparr>"

section \<open>Sending and receiving\<close>

definition send_begin :: "str \<Rightarrow> sse_transport \<Rightarrow> (nat \<times> sse_transport) option" where
  "send_begin rpc_id t =
     (if st_pinned t = None then None
      else Some (length (st_calls t),
                 t\<lparr>st_pending := AList.update rpc_id (length (st_calls t)) (st_pending t),
                   st_calls := st_calls t @ [(rpc_id, Waiting)]\<rparr>))"

definition drop_pending :: "str \<Rightarrow> sse_transport \<Rightarrow> sse_transport" where
  "drop_pending rpc_id t = t\<lparr>st_pending := AList.delete rpc_id (st_pending t)\<rparr>"

datatype post_outcome = PostFailed send_error | PostInline json | PostAwaits

definition post_headers :: "(str, str) dict \<Rightarrow> (str, str) dict" where
  "post_headers override =
     fold (\<lambda>(k, v). AList.update k v) override [(ascii ''Content-Type'', ascii ''application/json'')]"

definition inline_answer :: "http_response \<Rightarrow> bool" where
  "inline_answer r \<longleftrightarrow> hr_status r = 200 \<and>
     has_sub (ascii ''application/json'') (case map_of (hr_headers r) (ascii ''content-type'') of None \<Rightarrow> [] | Some s \<Rightarrow> s)"

definition post_message ::
    "wire_env \<Rightarrow> str \<Rightarrow> str \<Rightarrow> (str \<times> json) list \<Rightarrow> (str, str) dict \<Rightarrow> sse_transport \<Rightarrow> post_outcome \<times> sse_transport" where
  "post_message e rpc_id mthd params override t =
     (case (st_pinned t, we_hx e (st_base_url t @ ascii ''/message'')) of
        (Some p, Some u) \<Rightarrow>
          (case handle_request e p \<lparr>hq_method = ascii ''POST'', hq_url = u, hq_headers = post_headers override,
                  hq_body = Some (body_bytes (make_rpc rpc_id mthd params)), hq_sni = []\<rparr> of
             (Inl err, p') \<Rightarrow> (PostFailed err, drop_pending rpc_id (t\<lparr>st_pinned := Some p'\<rparr>))
           | (Inr r, p') \<Rightarrow>
               (case check_redirect (hr_status r) of
                  Inl w \<Rightarrow> (PostFailed (Redirected w), drop_pending rpc_id (t\<lparr>st_pinned := Some p'\<rparr>))
                | Inr _ \<Rightarrow>
                    if inline_answer r
                    then (case Option.bind (we_decode e (hr_body r)) loads of
                            None \<Rightarrow> PostFailed NotJson | Some v \<Rightarrow> PostInline v,
                          drop_pending rpc_id (t\<lparr>st_pinned := Some p'\<rparr>))
                    else (PostAwaits, t\<lparr>st_pinned := Some p'\<rparr>)))
      | _ \<Rightarrow> (PostFailed InvalidUrl, drop_pending rpc_id t))"

text \<open>What the wait for a future gives: its message, the error of a stream that ended, or a timeout, which cancels
  the future. \<open>None\<close> is a wait that goes on.\<close>

definition await_reply :: "bool \<Rightarrow> str \<Rightarrow> nat \<Rightarrow> sse_transport \<Rightarrow> (unit + (str \<times> json) list) option \<times> sse_transport" where
  "await_reply timed_out rpc_id h t =
     (case snd (st_calls t ! h) of
        Resolved m \<Rightarrow> (Some (Inr m), t)
      | Failed \<Rightarrow> (Some (Inl ()), drop_pending rpc_id t)
      | Abandoned \<Rightarrow> (None, t)
      | Waiting \<Rightarrow> (if timed_out
                    then (Some (Inl ()), drop_pending rpc_id (t\<lparr>st_calls := set_future h Abandoned (st_calls t)\<rparr>))
                    else (None, t)))"

text \<open>A cancelled task cancels its future, but its registration stays.\<close>

definition cancel_send :: "nat \<Rightarrow> sse_transport \<Rightarrow> sse_transport" where
  "cancel_send h t = t\<lparr>st_calls := set_future h Abandoned (st_calls t)\<rparr>"

definition sse_notify :: "wire_env \<Rightarrow> json \<Rightarrow> sse_transport \<Rightarrow> sse_transport" where
  "sse_notify e notification t =
     (case (st_pinned t, we_hx e (st_base_url t @ ascii ''/message'')) of
        (Some p, Some u) \<Rightarrow>
          t\<lparr>st_pinned := Some (snd (handle_request e p \<lparr>hq_method = ascii ''POST'', hq_url = u,
               hq_headers = post_headers [], hq_body = Some (body_bytes notification), hq_sni = []\<rparr>))\<rparr>
      | _ \<Rightarrow> t)"

datatype received = Blocked | StreamClosed | Received "(str \<times> json) list"

definition recv_message :: "sse_transport \<Rightarrow> received \<times> sse_transport" where
  "recv_message t =
     (case st_queue t of
        [] \<Rightarrow> (Blocked, t)
      | m # q \<Rightarrow>
          (if (case map_of m (ascii ''_sse_closed'') of None \<Rightarrow> False | Some v \<Rightarrow> truthy v) then StreamClosed
           else Received m, t\<lparr>st_queue := q\<rparr>))"

section \<open>Runs\<close>

datatype sse_op =
    StreamOpens
  | StreamLine str
  | StreamEnds
  | SendBegins str
  | SendPosts str str "(str \<times> json) list" "(str, str) dict"
  | SendWaits bool str nat
  | SendCancelled nat
  | Notify json
  | Receive
  | Close

fun sse_step :: "wire_env \<Rightarrow> (json \<Rightarrow> str) \<Rightarrow> sse_op \<Rightarrow> sse_transport \<Rightarrow> sse_transport" where
  "sse_step e repr StreamOpens t = (if st_listening t then stream_open e t else t)"
| "sse_step e repr (StreamLine l) t = listen_line repr l t"
| "sse_step e repr StreamEnds t = (if st_listening t then stream_gone t else t)"
| "sse_step e repr (SendBegins i) t = (case send_begin i t of None \<Rightarrow> t | Some (h, t') \<Rightarrow> t')"
| "sse_step e repr (SendPosts i mthd params override) t = snd (post_message e i mthd params override t)"
| "sse_step e repr (SendWaits out i h) t = snd (await_reply out i h t)"
| "sse_step e repr (SendCancelled h) t = cancel_send h t"
| "sse_step e repr (Notify v) t = sse_notify e v t"
| "sse_step e repr Receive t = snd (recv_message t)"
| "sse_step e repr Close t = sse_close t"

section \<open>The state between steps\<close>

definition reply_matches :: "(json \<Rightarrow> str) \<Rightarrow> str \<times> sse_future \<Rightarrow> bool" where
  "reply_matches repr c =
     (case snd c of Resolved m \<Rightarrow> msg_id m \<noteq> JNull \<and> id_text repr (msg_id m) = fst c | _ \<Rightarrow> True)"

definition sse_inv :: "(json \<Rightarrow> str) \<Rightarrow> sse_transport \<Rightarrow> bool" where
  "sse_inv repr t \<longleftrightarrow>
     length (st_queue t) \<le> sse_queue_cap \<and> distinct (map fst (st_pending t)) \<and>
     (\<forall>(i, h) \<in> set (st_pending t). h < length (st_calls t) \<and> fst (st_calls t ! h) = i) \<and>
     list_all (reply_matches repr) (st_calls t)"

lemma set_future_length [simp]: "length (set_future h f calls) = length calls"
  by (simp add: set_future_def)

lemma set_future_id [simp]: "fst (set_future h f calls ! k) = fst (calls ! k)"
  by (cases "k = h") (auto simp: set_future_def is_waiting_def)

lemma set_future_matches:
  "list_all (reply_matches repr) calls \<Longrightarrow> (h < length calls \<Longrightarrow> reply_matches repr (fst (calls ! h), f)) \<Longrightarrow>
     list_all (reply_matches repr) (set_future h f calls)"
  by (auto simp: set_future_def is_waiting_def list_all_iff dest: set_update_subset_insert [THEN subsetD])

lemma set_future_other: "k \<noteq> h \<Longrightarrow> set_future h f calls ! k = calls ! k"
  by (simp add: set_future_def)

lemma fail_all_simps [simp]:
  "fail_all [] calls = calls" "fail_all ((i, h) # ps) calls = fail_all ps (set_future h Failed calls)"
  by (simp_all add: fail_all_def)

lemma fail_all_keeps [simp]:
  "length (fail_all ps calls) = length calls" "fst (fail_all ps calls ! k) = fst (calls ! k)"
  by (induction ps arbitrary: calls) auto

lemma fail_all_matches:
  "list_all (reply_matches repr) calls \<Longrightarrow> list_all (reply_matches repr) (fail_all ps calls)"
proof (induction ps arbitrary: calls)
  case (Cons p ps)
  have "list_all (reply_matches repr) (set_future (snd p) Failed calls)"
    using Cons.prems by (rule set_future_matches) (simp add: reply_matches_def)
  then show ?case using Cons.IH by (cases p) simp
qed simp

lemma enqueue_inv: "sse_inv repr t \<Longrightarrow> sse_inv repr (enqueue m t)"
  by (simp add: sse_inv_def enqueue_def)

lemma stream_gone_inv: "sse_inv repr t \<Longrightarrow> sse_inv repr (stream_gone t)"
  unfolding stream_gone_def by (rule enqueue_inv) (simp add: sse_inv_def fail_all_matches)

lemma in_deleted: "x \<in> set (AList.delete i ps) \<Longrightarrow> x \<in> set ps"
  by (auto simp: AList.delete_eq)

lemma in_updated: "x \<in> set (AList.update k v ps) \<Longrightarrow> x = (k, v) \<or> x \<in> set ps"
  by (induction ps) (auto split: if_splits)

lemma drop_pending_inv: "sse_inv repr t \<Longrightarrow> sse_inv repr (drop_pending i t)"
  by (auto simp: sse_inv_def drop_pending_def distinct_delete dest!: in_deleted)

lemma pinned_inv [simp]:
  "sse_inv repr (t\<lparr>st_pinned := p\<rparr>) \<longleftrightarrow> sse_inv repr t" "sse_inv repr (t\<lparr>st_lines := n\<rparr>) \<longleftrightarrow> sse_inv repr t"
  "sse_inv repr (t\<lparr>st_event := x\<rparr>) \<longleftrightarrow> sse_inv repr t" "sse_inv repr (t\<lparr>st_listening := b\<rparr>) \<longleftrightarrow> sse_inv repr t"
  by (simp_all add: sse_inv_def)

lemma calls_inv:
  assumes "sse_inv repr t" and "h < length (st_calls t) \<Longrightarrow> reply_matches repr (fst (st_calls t ! h), f)"
  shows "sse_inv repr (t\<lparr>st_calls := set_future h f (st_calls t)\<rparr>)"
  using assms set_future_matches [of repr "st_calls t" h f] by (simp add: sse_inv_def)

lemma dispatch_inv:
  assumes "sse_inv repr t"
  shows "sse_inv repr (sse_dispatch repr m t)"
proof (cases "if msg_id m = JNull then None else map_of (st_pending t) (id_text repr (msg_id m))")
  case None
  then show ?thesis using assms by (simp add: sse_dispatch_def enqueue_inv)
next
  case (Some h)
  let ?i = "id_text repr (msg_id m)"
  have n: "msg_id m \<noteq> JNull" and "(?i, h) \<in> set (st_pending t)"
    using Some by (auto split: if_splits dest: map_of_SomeD)
  then have h: "fst (st_calls t ! h) = ?i" using assms by (auto simp: sse_inv_def)
  have "sse_inv repr (drop_pending ?i (t\<lparr>st_calls := set_future h (Resolved m) (st_calls t)\<rparr>))"
    by (intro drop_pending_inv calls_inv assms) (simp add: reply_matches_def n h)
  then show ?thesis using Some by (simp add: sse_dispatch_def drop_pending_def)
qed

lemma listen_line_inv: "sse_inv repr t \<Longrightarrow> sse_inv repr (listen_line repr l t)"
  by (simp add: listen_line_def Let_def stream_gone_inv dispatch_inv split: option.split json.split)

lemma stream_open_inv: "sse_inv repr t \<Longrightarrow> sse_inv repr (stream_open e t)"
  by (simp add: stream_open_def stream_gone_inv split: option.split prod.split sum.split)

lemma send_begin_inv:
  assumes "sse_inv repr t" and "send_begin i t = Some (h, t')"
  shows "sse_inv repr t'"
proof -
  let ?n = "length (st_calls t)"
  have t': "t' = t\<lparr>st_pending := AList.update i ?n (st_pending t), st_calls := st_calls t @ [(i, Waiting)]\<rparr>"
    using assms(2) by (auto simp: send_begin_def split: if_splits)
  have "x = (i, ?n) \<or> x \<in> set (st_pending t)" if "x \<in> set (AList.update i ?n (st_pending t))" for x
    using that by (rule in_updated)
  then show ?thesis
    using assms(1) by (fastforce simp: sse_inv_def t' distinct_update reply_matches_def nth_append)
qed

lemma post_message_inv: "sse_inv repr t \<Longrightarrow> sse_inv repr (snd (post_message e i mthd params override t))"
  by (simp add: post_message_def drop_pending_inv split: option.split prod.split sum.split)

lemma await_reply_inv: "sse_inv repr t \<Longrightarrow> sse_inv repr (snd (await_reply out i h t))"
  by (simp add: await_reply_def drop_pending_inv calls_inv reply_matches_def split: sse_future.split)

lemma recv_message_inv: "sse_inv repr t \<Longrightarrow> sse_inv repr (snd (recv_message t))"
  by (auto simp: recv_message_def sse_inv_def split: list.split)

lemma sse_step_inv: "sse_inv repr t \<Longrightarrow> sse_inv repr (sse_step e repr x t)"
  by (cases x) (auto simp: stream_open_inv listen_line_inv stream_gone_inv send_begin_inv post_message_inv await_reply_inv
      cancel_send_def calls_inv reply_matches_def sse_notify_def recv_message_inv sse_close_def
      split: option.splits prod.splits)

interpretation sse_run: component "sse_step e repr" "sse_inv repr" for e repr
  by standard (rule sse_step_inv)

lemma new_sse_inv: "sse_inv repr (new_sse url)"
  by (simp add: new_sse_def sse_inv_def)

text \<open>Any run of a fresh transport: the queue is bounded, and a resolved call holds an answer to its own id.\<close>

lemma sse_answers_match:
  "length (st_queue (run_ops (sse_step e repr) xs (new_sse url))) \<le> 64 \<and>
   list_all (reply_matches repr) (st_calls (run_ops (sse_step e repr) xs (new_sse url)))"
  using sse_run.run_good [OF new_sse_inv, of repr e xs url] by (simp add: sse_inv_def sse_queue_cap_def)

section \<open>A call ends once\<close>

definition settled_stay :: "(str \<times> sse_future) list \<Rightarrow> (str \<times> sse_future) list \<Rightarrow> bool" where
  "settled_stay calls calls' \<longleftrightarrow>
     (\<forall>h < length calls. h < length calls' \<and> (snd (calls ! h) \<noteq> Waiting \<longrightarrow> calls' ! h = calls ! h))"

lemma settled_refl [simp]: "settled_stay calls calls"
  by (simp add: settled_stay_def)

lemma settled_trans: "settled_stay a b \<Longrightarrow> settled_stay b c \<Longrightarrow> settled_stay a c"
  by (auto simp: settled_stay_def)

lemma settled_set [simp]: "settled_stay calls (set_future h f calls)"
  by (auto simp: settled_stay_def set_future_def is_waiting_def nth_list_update)

lemma settled_fail_all [simp]: "settled_stay calls (fail_all ps calls)"
proof (induction ps arbitrary: calls)
  case (Cons p ps)
  show ?case using settled_trans [OF settled_set Cons.IH] by (cases p) simp
qed simp

lemma settled_append [simp]: "settled_stay calls (calls @ new)"
  by (auto simp: settled_stay_def nth_append)

lemma settled_gone [simp]: "settled_stay (st_calls t) (st_calls (stream_gone t))"
  by (simp add: stream_gone_def enqueue_def)

lemma gone_calls: "st_calls (stream_gone t) = fail_all (st_pending t) (st_calls t)"
  by (simp add: stream_gone_def enqueue_def)

lemma settled_dispatch [simp]: "settled_stay (st_calls t) (st_calls (sse_dispatch repr m t))"
  by (simp add: sse_dispatch_def enqueue_def split: option.split)

lemma settled_line: "settled_stay (st_calls t) (st_calls (listen_line repr l t))"
  by (auto simp: listen_line_def Let_def gone_calls sse_dispatch_def enqueue_def split: option.split json.split)

lemma settled_step: "settled_stay (st_calls t) (st_calls (sse_step e repr x t))"
  by (cases x)
    (auto simp: settled_line stream_open_def gone_calls send_begin_def post_message_def drop_pending_def await_reply_def
      cancel_send_def sse_notify_def recv_message_def sse_close_def split: option.split prod.split sum.split list.split
      sse_future.split)

lemma sse_settled_once:
  "settled_stay (st_calls t) (st_calls (run_ops (sse_step e repr) xs t))"
proof (induction xs arbitrary: t)
  case (Cons x xs)
  show ?case using settled_trans [OF settled_step Cons.IH] by simp
qed simp

section \<open>The end of the stream\<close>

text \<open>No call that was registered waits any longer.\<close>

lemma set_future_settles: "f \<noteq> Waiting \<Longrightarrow> \<not> is_waiting (set_future h f calls) h"
  by (auto simp: set_future_def is_waiting_def)

lemma settled_not_waiting: "settled_stay a b \<Longrightarrow> h < length a \<Longrightarrow> \<not> is_waiting a h \<Longrightarrow> \<not> is_waiting b h"
  by (auto simp: settled_stay_def is_waiting_def)

lemma fail_all_settles:
  "(i, h) \<in> set ps \<Longrightarrow> h < length calls \<Longrightarrow> \<not> is_waiting (fail_all ps calls) h"
proof (induction ps arbitrary: calls)
  case (Cons p ps)
  show ?case
  proof (cases "p = (i, h)")
    case True
    have "\<not> is_waiting (fail_all ps (set_future h Failed calls)) h"
      by (rule settled_not_waiting [OF settled_fail_all]) (simp_all add: Cons.prems(2) set_future_settles)
    then show ?thesis using True by simp
  next
    case False
    then show ?thesis using Cons by (cases p) auto
  qed
qed simp

lemma no_call_left_waiting:
  assumes "sse_inv repr t" and "(i, h) \<in> set (st_pending t)"
  shows "\<not> is_waiting (st_calls (stream_gone t)) h \<and> st_pending (stream_gone t) = []"
  using assms fail_all_settles [of i h "st_pending t" "st_calls t"]
  by (auto simp: gone_calls sse_inv_def) (simp_all add: stream_gone_def enqueue_def)

text \<open>The mark for receivers is lost when the queue is full: after the queued messages they wait for ever.\<close>

lemma full_queue_loses_mark:
  "length (st_queue t) = sse_queue_cap \<Longrightarrow> st_queue (stream_gone t) = st_queue t"
  by (simp add: stream_gone_def enqueue_def)

text \<open>And a server can send the mark itself, while the stream goes on.\<close>

lemma forged_mark:
  "fst (recv_message ((new_sse url)\<lparr>st_listening := True, st_queue := [[(ascii ''_sse_closed'', JInt 1)]]\<rparr>)) = StreamClosed"
  by (simp add: recv_message_def truthy_def)

end
