(* ===== verification/Stdio_Transport.thy ===== *)
theory Stdio_Transport
  imports Py_Codec Py_Json Protocol
begin

text \<open>
  \<open>transport/stdio.py\<close>: the transport over the pipes of a local process. The process is its environment: what a
  read of a pipe gives is an argument (\<open>None\<close> an exception, the empty list the end), as is whether a wait timed out.
  The state is the transport's own: the command, whether it is connected, the bytes read so far and the flag of
  truncation. The decoding of invalid UTF-8 with replacement characters is written out, since the bounds on the
  text depend on it.
\<close>

section \<open>Decoding with replacement characters\<close>

text \<open>The length of the part of a sequence that could have been continued, which one U+FFFD stands for.\<close>

definition second_ok :: "byte \<Rightarrow> byte \<Rightarrow> bool" where
  "second_ok b0 b1 \<longleftrightarrow> cont b1 \<and>
     (unat b0 = 0xE0 \<longrightarrow> 0xA0 \<le> unat b1) \<and> (unat b0 = 0xED \<longrightarrow> unat b1 < 0xA0) \<and>
     (unat b0 = 0xF0 \<longrightarrow> 0x90 \<le> unat b1) \<and> (unat b0 = 0xF4 \<longrightarrow> unat b1 < 0x90)"

definition bad_length :: "byte list \<Rightarrow> nat" where
  "bad_length bs =
     (case bs of
        b0 # b1 # r \<Rightarrow>
          if unat b0 < 194 \<or> 244 < unat b0 \<or> \<not> second_ok b0 b1 \<or> unat b0 < 0xE0 then 1
          else (case r of
                  b2 # r2 \<Rightarrow> if \<not> cont b2 \<or> unat b0 < 0xF0 then 2
                             else (case r2 of b3 # _ \<Rightarrow> 3 | [] \<Rightarrow> 3)
                | [] \<Rightarrow> 2)
      | _ \<Rightarrow> 1)"

lemma bad_length_pos: "0 < bad_length bs"
  by (simp add: bad_length_def split: list.split)

function decode_replace :: "byte list \<Rightarrow> str" where
  "decode_replace bs =
     (if bs = [] then []
      else case utf8_next bs of
        Some (n, r) \<Rightarrow> n # decode_replace r
      | None \<Rightarrow> 0xFFFD # decode_replace (drop (bad_length bs) bs))"
  by pat_completeness auto
termination
  by (relation "measure length") (auto dest: utf8_next_shorter simp: bad_length_pos)

declare decode_replace.simps [simp del]

lemma decode_replace_Nil [simp]: "decode_replace [] = []"
  by (simp add: decode_replace.simps)

lemma decode_replace_valid: "utf8_decode bs = Some s \<Longrightarrow> decode_replace bs = s"
proof (induction bs arbitrary: s rule: utf8_decode.induct)
  case (1 bs)
  show ?case
  proof (cases "bs = []")
    case True
    then show ?thesis using "1.prems" by (simp add: utf8_decode.simps)
  next
    case False
    then obtain n r where n: "utf8_next bs = Some (n, r)"
      using "1.prems" by (auto simp: utf8_decode.simps [of bs] split: option.splits)
    then obtain s' where "utf8_decode r = Some s'" "s = n # s'"
      using "1.prems" False by (auto simp: utf8_decode.simps [of bs])
    then show ?thesis using "1.IH" [OF False n refl] False n by (simp add: decode_replace.simps [of bs])
  qed
qed

lemma decode_replace_shorter: "length (decode_replace bs) \<le> length bs"
proof (induction bs rule: decode_replace.induct)
  case (1 bs)
  show ?case
  proof (cases "bs = []")
    case False
    show ?thesis
    proof (cases "utf8_next bs")
      case None
      have "length (drop (bad_length bs) bs) < length bs" using False bad_length_pos [of bs] by simp
      then show ?thesis using "1.IH"(1) [OF False None] False None by (simp add: decode_replace.simps [of bs])
    next
      case (Some x)
      then show ?thesis
        using "1.IH"(2) [OF False Some, of "fst x" "snd x"] utf8_next_shorter [of bs "fst x" "snd x"] False
        by (cases x) (simp add: decode_replace.simps [of bs])
    qed
  qed simp
qed

section \<open>Text from the process\<close>

definition max_output_bytes :: nat where "max_output_bytes = 10485760"
definition max_line_bytes :: nat where "max_line_bytes = 65536"

definition console_char :: "nat \<Rightarrow> bool" where
  "console_char c \<longleftrightarrow> c \<in> {10, 13, 9} \<or> (0x20 \<le> c \<and> c \<noteq> 0x7F)"

definition without_controls :: "str \<Rightarrow> str" where
  "without_controls s = filter console_char s"

text \<open>\<open>None\<close> would be the error of encoding a surrogate.\<close>

definition truncate_line :: "str \<Rightarrow> str option" where
  "truncate_line s =
     (case utf8_encode s of
        None \<Rightarrow> None
      | Some bs \<Rightarrow> Some (if length bs > max_line_bytes then decode_replace (take max_line_bytes bs) else s))"

definition rstrip_newlines :: "str \<Rightarrow> str" where
  "rstrip_newlines s = rev (dropWhile (\<lambda>c. c = 10) (rev s))"

section \<open>The transport\<close>

record stdio_transport =
  so_command :: "str list"
  so_connected :: bool
  so_truncated :: bool
  so_total :: nat

definition new_stdio :: "str list \<Rightarrow> stdio_transport option" where
  "new_stdio command =
     (if command = [] then None
      else Some \<lparr>so_command = command, so_connected = False, so_truncated = False, so_total = 0\<rparr>)"

definition safe_env_keys :: "str list" where
  "safe_env_keys = [ascii ''PATH'', ascii ''LANG'']"

definition safe_env :: "(str \<rightharpoonup> str) \<Rightarrow> (str, str) dict" where
  "safe_env environ =
     concat (map (\<lambda>k. case environ k of None \<Rightarrow> [] | Some v \<Rightarrow> [(k, v)]) safe_env_keys)"

text \<open>What the operating system is asked to start.\<close>

record spawn_request =
  sr_argv :: "str list"
  sr_env :: "(str, str) dict"
  sr_close_fds :: bool
  sr_new_session :: bool

definition stdio_connect :: "(str \<rightharpoonup> str) \<Rightarrow> stdio_transport \<Rightarrow> spawn_request \<times> stdio_transport" where
  "stdio_connect environ t =
     (\<lparr>sr_argv = so_command t, sr_env = safe_env environ, sr_close_fds = True, sr_new_session = True\<rparr>,
      t\<lparr>so_connected := True\<rparr>)"

text \<open>The signals sent on closing; the process may be gone already, or outlive its five seconds.\<close>

datatype process_signal = Terminate | Kill
datatype closing = ExitsInTime | AlreadyGone | Lingers

definition stdio_close :: "closing \<Rightarrow> stdio_transport \<Rightarrow> process_signal list \<times> stdio_transport" where
  "stdio_close c t =
     (if \<not> so_connected t then ([], t)
      else (case c of ExitsInTime \<Rightarrow> [Terminate] | AlreadyGone \<Rightarrow> [Terminate, Kill] | Lingers \<Rightarrow> [Terminate, Kill],
            t\<lparr>so_connected := False\<rparr>))"

definition read_text_line :: "byte list option \<Rightarrow> stdio_transport \<Rightarrow> str option \<times> stdio_transport" where
  "read_text_line raw t =
     (case raw of
        None \<Rightarrow> (Some [], t)
      | Some [] \<Rightarrow> (Some [], t)
      | Some bs \<Rightarrow>
          let t1 = t\<lparr>so_total := so_total t + length bs\<rparr>
          in if so_total t1 > max_output_bytes then (Some [], t1\<lparr>so_truncated := True\<rparr>)
             else (map_option (\<lambda>s. rstrip_newlines (without_controls s)) (truncate_line (decode_replace bs)), t1))"

datatype stdio_error = NoProcess | TimedOut | BadJson | BadText

definition parse_line :: "str option \<Rightarrow> stdio_error + json" where
  "parse_line l =
     (case l of None \<Rightarrow> Inl BadText
      | Some [] \<Rightarrow> Inr (JDict [])
      | Some s \<Rightarrow> (case loads s of None \<Rightarrow> Inl BadJson | Some v \<Rightarrow> Inr v))"

definition stdio_rpc :: "str \<Rightarrow> str \<Rightarrow> (str \<times> json) list \<Rightarrow> json" where
  "stdio_rpc rpc_id mthd params =
     JDict [(ascii ''jsonrpc'', JStr (ascii ''2.0'')), (ascii ''id'', JStr rpc_id), (ascii ''method'', JStr mthd),
            (ascii ''params'', JDict params)]"

definition wire_line :: "json \<Rightarrow> byte list" where
  "wire_line v = map byte_of (dumps (ascii '', '') (ascii '': '') v @ [10])"

text \<open>What is written to the pipe, and the answer: the next line, whatever it answers. A wait that times out reads
  nothing.\<close>

definition recv_stdio :: "bool \<Rightarrow> byte list option \<Rightarrow> stdio_transport \<Rightarrow> (stdio_error + json) \<times> stdio_transport" where
  "recv_stdio timed_out raw t =
     (if timed_out then (Inl TimedOut, t)
      else case read_text_line raw t of (l, t') \<Rightarrow> (parse_line l, t'))"

definition send_stdio ::
    "str \<Rightarrow> str \<Rightarrow> (str \<times> json) list \<Rightarrow> bool \<Rightarrow> byte list option \<Rightarrow> stdio_transport
       \<Rightarrow> byte list \<times> (stdio_error + json) \<times> stdio_transport" where
  "send_stdio rpc_id mthd params timed_out raw t =
     (if \<not> so_connected t then ([], Inl NoProcess, t)
      else (wire_line (stdio_rpc rpc_id mthd params), recv_stdio timed_out raw t))"

definition notify_stdio :: "json \<Rightarrow> stdio_transport \<Rightarrow> byte list" where
  "notify_stdio v t = (if so_connected t then wire_line v else [])"

text \<open>The loop over the chunks of the error pipe.\<close>

fun gather_stderr :: "byte list \<Rightarrow> byte list option list \<Rightarrow> byte list \<times> bool" where
  "gather_stderr buf [] = (buf, False)"
| "gather_stderr buf (None # chunks) = (buf, False)"
| "gather_stderr buf (Some [] # chunks) = (buf, False)"
| "gather_stderr buf (Some c # chunks) =
     (if length (buf @ c) \<ge> max_output_bytes then (buf @ c, True) else gather_stderr (buf @ c) chunks)"

definition read_stderr :: "byte list option list \<Rightarrow> stdio_transport \<Rightarrow> str \<times> stdio_transport" where
  "read_stderr chunks t =
     (if \<not> so_connected t then ([], t)
      else case gather_stderr [] chunks of (buf, capped) \<Rightarrow>
        (without_controls (decode_replace buf), if capped then t\<lparr>so_truncated := True\<rparr> else t))"

section \<open>No line escapes the limits\<close>

lemma utf8_next_char_ok: "utf8_next bs = Some (n, r) \<Longrightarrow> utf8_char n \<noteq> None"
  by (auto simp: utf8_next_def utf8_char_def surrogate_def cont_def Let_def split: list.splits if_splits)

lemma decode_replace_encodes: "utf8_encode (decode_replace bs) \<noteq> None"
proof (induction bs rule: decode_replace.induct)
  case (1 bs)
  show ?case
  proof (cases "bs = []")
    case False
    show ?thesis
    proof (cases "utf8_next bs")
      case None
      then show ?thesis using "1.IH"(1) [OF False None] False
        by (simp add: decode_replace.simps [of bs] utf8_char_def surrogate_def)
    next
      case (Some x)
      then show ?thesis using "1.IH"(2) [OF False Some, of "fst x" "snd x"] utf8_next_char_ok [of bs "fst x" "snd x"] False
        by (cases x) (auto simp: decode_replace.simps [of bs])
    qed
  qed simp
qed

lemma utf8_char_nonempty: "utf8_char c = Some b \<Longrightarrow> 0 < length b"
  by (simp add: utf8_char_def split: if_splits) auto

lemma utf8_encode_longer: "utf8_encode s = Some bs \<Longrightarrow> length s \<le> length bs"
proof (induction s arbitrary: bs)
  case (Cons c s)
  obtain b where b: "utf8_char c = Some b" using Cons.prems by (auto split: option.splits)
  then obtain r where r: "utf8_encode s = Some r" "bs = b @ r" using Cons.prems by auto
  have "length s \<le> length r" "0 < length b" using Cons.IH [OF r(1)] utf8_char_nonempty [OF b] .
  then show ?case unfolding r(2) length_append list.size by linarith
qed simp

lemma truncate_line_bound:
  assumes "truncate_line s = Some s'"
  shows "length s' \<le> max_line_bytes"
proof -
  obtain bs where bs: "utf8_encode s = Some bs"
    and s': "s' = (if length bs > max_line_bytes then decode_replace (take max_line_bytes bs) else s)"
    using assms by (auto simp: truncate_line_def split: option.splits)
  show ?thesis
  proof (cases "length bs > max_line_bytes")
    case True
    have "length (decode_replace (take max_line_bytes bs)) \<le> length (take max_line_bytes bs)" by (rule decode_replace_shorter)
    then show ?thesis using True s' by simp
  next
    case False
    then show ?thesis using utf8_encode_longer [OF bs] s' by simp
  qed
qed

lemma rstrip_newlines_le: "length (rstrip_newlines s) \<le> length s"
  using length_dropWhile_le [of "\<lambda>c. c = 10" "rev s"] by (simp add: rstrip_newlines_def)

lemma set_rstrip_newlines: "set (rstrip_newlines s) \<subseteq> set s"
  using set_dropWhileD [of _ "\<lambda>c. c = 10" "rev s"] by (auto simp: rstrip_newlines_def)

lemma read_line_total: "fst (read_text_line raw t) \<noteq> None"
proof -
  have "truncate_line (decode_replace bs) \<noteq> None" for bs
    using decode_replace_encodes [of bs] by (auto simp: truncate_line_def split: option.split)
  then show ?thesis by (auto simp: read_text_line_def Let_def split: option.split list.split)
qed

lemma cleaned_bound:
  assumes "truncate_line y = Some x"
  shows "length (rstrip_newlines (without_controls x)) \<le> max_line_bytes"
proof -
  have "length (rstrip_newlines (without_controls x)) \<le> length (without_controls x)" by (rule rstrip_newlines_le)
  also have "\<dots> \<le> length x" by (simp add: without_controls_def)
  finally show ?thesis using truncate_line_bound [OF assms] by linarith
qed

lemma read_line_safe:
  assumes "read_text_line raw t = (Some s, t')"
  shows "length s \<le> max_line_bytes \<and> list_all console_char s \<and> (s \<noteq> [] \<longrightarrow> so_total t' \<le> max_output_bytes)"
proof -
  have k: "list_all console_char (rstrip_newlines (without_controls x))" for x
    using set_rstrip_newlines [of "without_controls x"] by (auto simp: list_all_iff without_controls_def)
  show ?thesis
    using assms cleaned_bound k by (auto simp: read_text_line_def Let_def split: option.splits list.splits if_splits)
qed

text \<open>Whatever the lines are, the bytes behind the texts of a session stay within the cap.\<close>

fun read_all :: "byte list option list \<Rightarrow> stdio_transport \<Rightarrow> str list \<times> stdio_transport" where
  "read_all [] t = ([], t)"
| "read_all (raw # raws) t =
     (case read_text_line raw t of (l, t1) \<Rightarrow> case read_all raws t1 of (ls, t2) \<Rightarrow> ((case l of None \<Rightarrow> [] | Some s \<Rightarrow> s) # ls, t2))"

lemma read_line_counts: "snd (read_text_line raw t) = t' \<Longrightarrow> so_total t \<le> so_total t'"
  by (auto simp: read_text_line_def Let_def split: option.splits list.splits)

text \<open>After the cap nothing more is read.\<close>

lemma capped_silent:
  assumes "so_total t > max_output_bytes"
  shows "fst (read_text_line raw t) = Some []"
  using assms by (auto simp: read_text_line_def Let_def split: option.split list.split)

lemma capped_session: "so_total t > max_output_bytes \<Longrightarrow> set (fst (read_all raws t)) \<subseteq> {[]}"
proof (induction raws arbitrary: t)
  case (Cons raw raws)
  obtain l t1 where l: "read_text_line raw t = (l, t1)" by fastforce
  then have "l = Some []" "so_total t \<le> so_total t1"
    using capped_silent [OF Cons.prems, of raw] read_line_counts [of raw t t1] by simp_all
  then show ?case using Cons.IH [of t1] Cons.prems l by (cases "read_all raws t1") simp
qed simp

lemma gather_stderr_bound:
  assumes "\<forall>c \<in> set chunks. case c of None \<Rightarrow> True | Some b \<Rightarrow> length b \<le> 4096" and "length buf < max_output_bytes"
  shows "length (fst (gather_stderr buf chunks)) < max_output_bytes + 4096"
  using assms
proof (induction buf chunks rule: gather_stderr.induct)
  case (4 buf b c chunks)
  show ?case
  proof (cases "length (buf @ b # c) \<ge> max_output_bytes")
    case True
    then show ?thesis using 4 by auto
  next
    case False
    then show ?thesis using 4 by simp
  qed
qed simp_all

section \<open>What is started, and what answers\<close>

lemma spawn_fixed:
  assumes "new_stdio command = Some t"
  shows "sr_argv (fst (stdio_connect environ t)) = command \<and>
    fst ` set (sr_env (fst (stdio_connect environ t))) \<subseteq> {ascii ''PATH'', ascii ''LANG''}"
  using assms
  by (auto simp: new_stdio_def stdio_connect_def safe_env_def safe_env_keys_def split: if_splits option.splits)

text \<open>An answer is the next line, whichever request it answers: the id that was sent plays no part.\<close>

lemma answer_ignores_id:
  "snd (send_stdio i mthd params timed_out raw t) = snd (send_stdio j mthd' params' timed_out raw t)"
  by (simp add: send_stdio_def)

text \<open>Valid UTF-8 that fits, without control characters, is read as it was written.\<close>

lemma read_line_faithful:
  assumes "utf8_decode bs = Some (s @ [10])" and "utf8_encode (s @ [10]) = Some bs" and "length bs \<le> max_line_bytes"
    and "list_all console_char s" and "s \<noteq> []" and "last s \<noteq> 10" and "so_total t + length bs \<le> max_output_bytes"
  shows "fst (read_text_line (Some bs) t) = Some s"
proof -
  have d: "decode_replace bs = s @ [10]" using assms(1) by (rule decode_replace_valid)
  have "bs \<noteq> []" using utf8_encode_longer [OF assms(2)] by auto
  moreover have "filter console_char (s @ [10]) = s @ [10]" using assms(4) by (simp add: console_char_def list_all_iff)
  moreover have "rstrip_newlines (s @ [10]) = s"
    using assms(5,6) by (cases s rule: rev_cases) (auto simp: rstrip_newlines_def)
  ultimately show ?thesis
    using assms(2,3,7) d by (auto simp: read_text_line_def Let_def truncate_line_def without_controls_def split: list.split)
qed

end
