(* ===== verification/Sigstore.thy ===== *)
theory Sigstore
  imports Artifact_Commands
begin

text \<open>
  \<open>scorecard/sigstore_signing.py\<close>: keyless signing and verification of a scorecard. The \<open>sigstore\<close> package is an
  argument: whether it can be imported, the identity token of the environment, what its signer makes of the bytes,
  how it reads a bundle, and the outcome of building a verifier and of checking an artifact, where an exception is
  the package's own error or any other. \<open>bundle_check\<close> is what \<open>scorecard verify\<close> and \<open>scorecard show\<close> call, as the
  argument that \<open>Artifact_Commands\<close> leaves open.
\<close>

section \<open>The package\<close>

datatype library_step = StepOk | LibraryError str | OtherError str

record 'b sigstore_package =
  sg_installed :: bool
  sg_credential :: "str option"
  sg_token_ok :: "str \<Rightarrow> bool"
  sg_sign :: "bool \<Rightarrow> str \<Rightarrow> byte list \<Rightarrow> str option"
  sg_bundle :: "str \<Rightarrow> str + 'b"
  sg_verifier :: "bool \<Rightarrow> library_step"
  sg_verify :: "bool \<Rightarrow> str \<Rightarrow> str option \<Rightarrow> byte list \<Rightarrow> 'b \<Rightarrow> library_step"

datatype sigstore_error =
    SigstoreUnavailable
  | SigstoreSigning
  | MalformedBundle str
  | VerificationFailed str
  | InfrastructureFailed str
  | LibraryRaised

section \<open>Signing\<close>

text \<open>\<open>LibraryRaised\<close> is an exception of the package that the function lets through.\<close>

definition sign_scorecard_sigstore ::
    "'b sigstore_package \<Rightarrow> scorecard \<Rightarrow> bool \<Rightarrow> sigstore_error + json" where
  "sign_scorecard_sigstore g s staging =
     (if \<not> sg_installed g then Inl SigstoreUnavailable
      else case sg_credential g of
        None \<Rightarrow> Inl SigstoreSigning
      | Some token \<Rightarrow>
          if \<not> sg_token_ok g token then Inl LibraryRaised
          else (case Option.bind (sg_sign g staging token (signed_bytes s)) loads of
                  None \<Rightarrow> Inl LibraryRaised
                | Some v \<Rightarrow> Inr v))"

section \<open>Verification\<close>

definition step_error :: "library_step \<Rightarrow> sigstore_error option" where
  "step_error r =
     (case r of StepOk \<Rightarrow> None | LibraryError m \<Rightarrow> Some (VerificationFailed m) | OtherError m \<Rightarrow> Some (InfrastructureFailed m))"

definition verify_scorecard_sigstore ::
    "'b sigstore_package \<Rightarrow> scorecard \<Rightarrow> json \<Rightarrow> str \<Rightarrow> str option \<Rightarrow> bool \<Rightarrow> sigstore_error option" where
  "verify_scorecard_sigstore g s bundle who issuer staging =
     (if \<not> sg_installed g then Some SigstoreUnavailable
      else case sg_bundle g (dumps (ascii '', '') (ascii '': '') bundle) of
        Inl m \<Rightarrow> Some (MalformedBundle m)
      | Inr b \<Rightarrow>
          (case step_error (sg_verifier g staging) of
             Some e \<Rightarrow> Some e
           | None \<Rightarrow> step_error (sg_verify g staging who issuer (signed_bytes s) b)))"

text \<open>The command's reading of the bundle file (\<open>None\<close> if it cannot be read or is no JSON) and its exit code.\<close>

definition bundle_check ::
    "'b sigstore_package \<Rightarrow> (str \<Rightarrow> json option) \<Rightarrow> scorecard \<Rightarrow> str \<Rightarrow> byte list \<Rightarrow> str \<Rightarrow> str option \<Rightarrow> bool \<Rightarrow> bundle_outcome" where
  "bundle_check g read s path bytes who issuer staging =
     (case read path of
        None \<Rightarrow> BundleUnreadable
      | Some bundle \<Rightarrow>
          (case verify_scorecard_sigstore g s bundle who issuer staging of
             None \<Rightarrow> BundleValid
           | Some SigstoreUnavailable \<Rightarrow> NoSigstore
           | Some _ \<Rightarrow> BundleInvalid))"

section \<open>A pass is a check of this scorecard for the expected identity\<close>

lemma verified_exact:
  "verify_scorecard_sigstore g s bundle who issuer staging = None \<longleftrightarrow>
     sg_installed g \<and> sg_verifier g staging = StepOk \<and>
     (\<exists>b. sg_bundle g (dumps (ascii '', '') (ascii '': '') bundle) = Inr b \<and>
          sg_verify g staging who issuer (signed_bytes s) b = StepOk)"
  by (auto simp: verify_scorecard_sigstore_def step_error_def split: sum.split library_step.split)

text \<open>No exception of the package leaves the function: every failure is a verdict of its own kind.\<close>

lemma every_failure_reported:
  "verify_scorecard_sigstore g s bundle who issuer staging \<noteq> Some LibraryRaised \<and>
   verify_scorecard_sigstore g s bundle who issuer staging \<noteq> Some SigstoreSigning"
  by (auto simp: verify_scorecard_sigstore_def step_error_def split: sum.split library_step.split)

lemma bundle_valid_exact:
  "bundle_check g read s path bytes who issuer staging = BundleValid \<longleftrightarrow>
     (\<exists>bundle. read path = Some bundle \<and> verify_scorecard_sigstore g s bundle who issuer staging = None)"
  by (auto simp: bundle_check_def split: option.split sigstore_error.split)

text \<open>\<open>scorecard verify\<close> with a bundle exits 0 only if the package verified this scorecard's signed bytes for the
  identity that the caller named, beside the signature and the pin.\<close>

lemma verify_command_with_bundle:
  assumes "load_scorecard_strict pt to_int parsed = Some s" and "vo_bundle o' = Some path" and "path \<noteq> []"
    and "scorecard_verify ed pt to_int a (bundle_check g read s) o' parsed = 0"
  shows "verify_scorecard ed a s = ValidFile \<and> catalog_pinned s (vo_catalog_pin o') \<and>
    (\<exists>who bundle b. vo_identity o' = Some who \<and> who \<noteq> [] \<and> read path = Some bundle \<and>
       sg_bundle g (dumps (ascii '', '') (ascii '': '') bundle) = Inr b \<and>
       sg_verify g (vo_staging o') who (vo_issuer o') (signed_bytes s) b = StepOk)"
proof -
  have v: "verify_scorecard ed a s = ValidFile" "catalog_pinned s (vo_catalog_pin o')"
    and c: "check_bundle (bundle_check g read s) s o' = None"
  proof -
    have "check_bundle (bundle_check g read s) s o' \<noteq> Some 0"
      by (simp add: check_bundle_def split: option.split bundle_outcome.split)
    then show "verify_scorecard ed a s = ValidFile" "catalog_pinned s (vo_catalog_pin o')"
      "check_bundle (bundle_check g read s) s o' = None"
      using assms(1,4) by (auto simp: scorecard_verify_def split: if_splits option.splits)
  qed
  have "\<exists>who. vo_identity o' = Some who \<and> who \<noteq> [] \<and>
      bundle_check g read s path (signed_bytes s) who (vo_issuer o') (vo_staging o') = BundleValid"
    using c assms(2,3) by (auto simp: check_bundle_def split: option.splits if_splits bundle_outcome.splits)
  then show ?thesis using v by (auto simp: bundle_valid_exact verified_exact)
qed

text \<open>And without a named identity a bundle is never enough.\<close>

lemma bundle_without_identity:
  "vo_bundle o' = Some path \<Longrightarrow> path \<noteq> [] \<Longrightarrow> vo_identity o' = None \<Longrightarrow> check_bundle f s o' = Some 2"
  by (simp add: check_bundle_def)

text \<open>Signing never falls back: without a token there is no artifact.\<close>

lemma no_unsigned_fallback:
  "sg_credential g = None \<Longrightarrow> \<exists>e. sign_scorecard_sigstore g s staging = Inl e"
  by (simp add: sign_scorecard_sigstore_def)

end
