(* ===== verification/Pytest_Plugin.thy ===== *)
theory Pytest_Plugin
  imports Cli_Scan
begin

text \<open>
  \<open>pytest_plugin.py\<close>: the options, the fixtures and the scan gate, the collected item whose body runs a scan and which
  fails the session on anything but a clean one. A scan is \<open>run_scan\<close> of \<open>Scan_Run\<close>; the reachability check is the
  argument that \<open>Cli_Scan\<close> uses. A failed assertion of the item is a constructor; an exception of the scan is an
  error of the item, which fails the session as well.
\<close>

section \<open>Options\<close>

record plugin_option =
  po_name :: string
  po_default :: "string option"
  po_choices :: "string list"

definition plugin_options :: "plugin_option list" where
  "plugin_options =
     [\<lparr>po_name = ''--cosai-target'', po_default = None, po_choices = []\<rparr>,
      \<lparr>po_name = ''--cosai-severity'', po_default = Some ''critical'', po_choices = [''critical'', ''high'', ''medium'', ''low'']\<rparr>,
      \<lparr>po_name = ''--cosai-categories'', po_default = Some ''all'', po_choices = []\<rparr>,
      \<lparr>po_name = ''--cosai-engine'', po_default = Some ''all'', po_choices = [''prober'', ''stateful'', ''all'']\<rparr>]"

record plugin_config =
  pc_target :: "str option"
  pc_severity :: str
  pc_categories :: str
  pc_engine :: str

definition plugin_defaults :: plugin_config where
  "plugin_defaults =
     \<lparr>pc_target = None, pc_severity = ascii ''critical'', pc_categories = ascii ''all'', pc_engine = ascii ''all''\<rparr>"

section \<open>Fixtures\<close>

definition cosai_categories :: "(str \<Rightarrow> str) \<Rightarrow> str \<Rightarrow> str list option" where
  "cosai_categories lower raw =
     (if raw = [] \<or> lower (py_strip raw) = ascii ''all'' then None
      else Some (filter (\<lambda>c. c \<noteq> []) (comma_parts raw)))"

definition plugin_request :: "(str \<Rightarrow> str) \<Rightarrow> plugin_config \<Rightarrow> str \<Rightarrow> scan_request" where
  "plugin_request lower c target =
     \<lparr>rq_target = target, rq_categories = cosai_categories lower (pc_categories c), rq_engine = pc_engine c,
      rq_allow_custom = False, rq_fail_on = pc_severity c, rq_allow_private = True, rq_auth_token = None,
      rq_read_token = None, rq_foreign_token = None, rq_mcp_path = ascii ''/mcp'', rq_adaptive = True,
      rq_profile = None, rq_adversarial = None, rq_baseline = None, rq_pii_strict = False, rq_overrides = None,
      rq_allowlist = None, rq_expected_hash = None, rq_protocol_era = ascii ''auto'', rq_level = None,
      rq_evidence = None\<rparr>"

datatype fixture = Skipped | ScanOf "scan_error + scan_result"

definition cosai_scan_result :: "scan_env \<Rightarrow> plugin_config \<Rightarrow> fixture" where
  "cosai_scan_result e c =
     (case pc_target c of None \<Rightarrow> Skipped
      | Some target \<Rightarrow> ScanOf (run_scan e (plugin_request (pt_lower (sv_text e)) c target)))"

section \<open>The gate\<close>

datatype gate_end = GatePasses | GateUnreachable | GateIncomplete | GateFindings nat | GateError

definition gate_findings :: "scan_result \<Rightarrow> nat" where
  "gate_findings s =
     length (filter (\<lambda>r. \<not> pr_passed r \<and> \<not> pr_suppressed r \<and> pr_error r = None) (so_probes s)) +
     length (filter (\<lambda>r. \<not> sr_passed r \<and> sr_status r = ScenarioComplete) (so_scenarios s))"

definition judge_gate :: "scan_result \<Rightarrow> gate_end" where
  "judge_gate s =
     (if so_exit_code s = 0 then GatePasses
      else if so_exit_code s = 3 then GateUnreachable
      else if so_exit_code s = 2 then GateIncomplete
      else GateFindings (gate_findings s))"

definition runtest :: "scan_env \<Rightarrow> (str \<Rightarrow> nat \<Rightarrow> str option) \<Rightarrow> plugin_config \<Rightarrow> gate_end" where
  "runtest e reach c =
     (case pc_target c of
        None \<Rightarrow> GateError
      | Some target \<Rightarrow>
          (case parse_target (we_url (sv_wire e)) target of
             None \<Rightarrow> GateError
           | Some (host, port, _) \<Rightarrow>
               if reach host port \<noteq> None then GateUnreachable
               else (case run_scan e (plugin_request (pt_lower (sv_text e)) c target) of
                       Inl _ \<Rightarrow> GateError
                     | Inr s \<Rightarrow> judge_gate s)))"

section \<open>Collection\<close>

text \<open>Items are their names; the gate is added once, and only when a target was given.\<close>

definition scan_item_name :: string where "scan_item_name = ''cosai_scan_gate''"

definition collection_modifyitems :: "plugin_config \<Rightarrow> string list \<Rightarrow> string list" where
  "collection_modifyitems c items =
     (if pc_target c = None then items
      else if scan_item_name \<in> set items then items
      else items @ [scan_item_name])"

text \<open>The outcome of a session: every collected item runs, the gate as \<open>runtest\<close>, the others as the argument says.\<close>

definition session_passes ::
    "scan_env \<Rightarrow> (str \<Rightarrow> nat \<Rightarrow> str option) \<Rightarrow> plugin_config \<Rightarrow> (string \<Rightarrow> bool) \<Rightarrow> string list \<Rightarrow> bool" where
  "session_passes e reach c passes items \<longleftrightarrow>
     list_all (\<lambda>i. if i = scan_item_name then runtest e reach c = GatePasses else passes i) (collection_modifyitems c items)"

section \<open>The gate is never silently green\<close>

lemma gate_passes_exact:
  "runtest e reach c = GatePasses \<longleftrightarrow>
     (\<exists>target host port url s. pc_target c = Some target \<and>
        parse_target (we_url (sv_wire e)) target = Some (host, port, url) \<and> reach host port = None \<and>
        run_scan e (plugin_request (pt_lower (sv_text e)) c target) = Inr s \<and> so_exit_code s = 0)"
  by (auto simp: runtest_def judge_gate_def split: option.splits sum.splits prod.splits if_splits)

text \<open>With a target, a session that passes has scanned it and found it clean, even when nothing else was collected.\<close>

lemma session_gate:
  assumes "pc_target c = Some target" and "session_passes e reach c passes items"
  shows "runtest e reach c = GatePasses"
proof -
  have "scan_item_name \<in> set (collection_modifyitems c items)" using assms(1) by (simp add: collection_modifyitems_def)
  then show ?thesis using assms(2) by (auto simp: session_passes_def list_all_iff)
qed

lemma collection_once:
  "collection_modifyitems c (collection_modifyitems c items) = collection_modifyitems c items"
  "distinct items \<Longrightarrow> distinct (collection_modifyitems c items)"
  "pc_target c = None \<Longrightarrow> collection_modifyitems c items = items"
  by (auto simp: collection_modifyitems_def)

text \<open>The number in the failure counts inconclusive probes as findings; the exit code does not.\<close>

lemma gate_counts_inconclusive:
  "gate_findings s = summary_findings s +
     length (filter (\<lambda>r. \<not> pr_passed r \<and> \<not> pr_suppressed r \<and> pr_error r = None \<and> given (pr_inconclusive r)) (so_probes s))"
proof -
  have "length (filter (\<lambda>r. \<not> pr_passed r \<and> \<not> pr_suppressed r \<and> pr_error r = None) rs) =
      length (filter (\<lambda>r. \<not> pr_passed r \<and> pr_error r = None \<and> \<not> given (pr_inconclusive r) \<and> \<not> pr_suppressed r) rs) +
      length (filter (\<lambda>r. \<not> pr_passed r \<and> \<not> pr_suppressed r \<and> pr_error r = None \<and> given (pr_inconclusive r)) rs)" for rs
    by (induction rs) auto
  then show ?thesis by (simp add: gate_findings_def summary_findings_def)
qed

text \<open>The defaults are choices of their options.\<close>

lemma defaults_allowed:
  "list_all (\<lambda>o'. po_choices o' = [] \<or> (\<exists>d. po_default o' = Some d \<and> d \<in> set (po_choices o'))) plugin_options"
  by (simp add: plugin_options_def)

end
