(* ===== verification/Scanner_Api.thy ===== *)
theory Scanner_Api
  imports Scan_Run
begin

text \<open>
  \<open>config.py\<close> and the public \<open>Scanner\<close> of \<open>api.py\<close>: the configuration object with the checks of its construction, and the
  scan request that a scanner makes of a URL with keyword arguments or of a configuration. Timeouts and delays are
  not modelled, since the model of a scan has no clock; the catalog root is part of the scan's environment.
\<close>

section \<open>The configuration\<close>

record api_config =
  cf_target_host :: "str option"
  cf_target_port :: "nat option"
  cf_target :: "str option"
  cf_categories :: "str list option"
  cf_fail_on :: str
  cf_allow_private :: bool
  cf_auth_token :: "str option"
  cf_mcp_path :: str
  cf_auth_header :: "str option"
  cf_read_token :: "str option"
  cf_foreign_token :: "str option"
  cf_extra_headers :: "(str, str) dict option"
  cf_allowlist :: "str list option"
  cf_pii_strict :: bool
  cf_overrides :: "(str, str) dict option"
  cf_protocol_era :: str

definition default_config :: api_config where
  "default_config =
     \<lparr>cf_target_host = None, cf_target_port = None, cf_target = None, cf_categories = None,
      cf_fail_on = ascii ''critical'', cf_allow_private = False, cf_auth_token = None, cf_mcp_path = ascii ''/mcp'',
      cf_auth_header = None, cf_read_token = None, cf_foreign_token = None, cf_extra_headers = None,
      cf_allowlist = None, cf_pii_strict = False, cf_overrides = None, cf_protocol_era = ascii ''auto''\<rparr>"

datatype config_error = UnknownEra | InvalidTargetUrl | NoHostOrPort

definition config_era_ok :: "str \<Rightarrow> bool" where
  "config_era_ok e \<longleftrightarrow> e \<in> set (map ascii [''auto'', ''modern'', ''legacy''])"

text \<open>An explicit host or port is left as it is, even where the URL says something else.\<close>

definition fill :: "'a option \<Rightarrow> 'a \<Rightarrow> 'a option" where
  "fill x v = (case x of None \<Rightarrow> Some v | Some w \<Rightarrow> Some w)"

definition derive_host_port :: "url_env \<Rightarrow> api_config \<Rightarrow> config_error + api_config" where
  "derive_host_port e c =
     (case cf_target c of
        None \<Rightarrow> Inr c
      | Some t \<Rightarrow>
          (case parse_target e t of
             None \<Rightarrow> Inl InvalidTargetUrl
           | Some (host, port, _) \<Rightarrow>
               Inr (c\<lparr>cf_target_host := fill (cf_target_host c) host, cf_target_port := fill (cf_target_port c) port\<rparr>)))"

definition make_config :: "url_env \<Rightarrow> api_config \<Rightarrow> config_error + api_config" where
  "make_config e c =
     (if \<not> config_era_ok (cf_protocol_era c) then Inl UnknownEra
      else case derive_host_port e c of
        Inl err \<Rightarrow> Inl err
      | Inr c' \<Rightarrow> if cf_target_host c' = None \<or> cf_target_port c' = None then Inl NoHostOrPort else Inr c')"

section \<open>The scanner\<close>

text \<open>A scanner is the request that it makes. The keyword arguments of its constructor are a request of their own.\<close>

definition config_url :: "api_config \<Rightarrow> str" where
  "config_url c =
     (case cf_target c of
        Some (a # t) \<Rightarrow> a # t
      | _ \<Rightarrow> ascii ''http://'' @ the (cf_target_host c) @ ascii '':'' @ digits (the (cf_target_port c)))"

definition scanner_of_config :: "scan_request \<Rightarrow> api_config \<Rightarrow> scan_request" where
  "scanner_of_config args c =
     args\<lparr>rq_target := config_url c, rq_categories := cf_categories c, rq_fail_on := cf_fail_on c,
        rq_allow_private := cf_allow_private c, rq_auth_token := cf_auth_token c, rq_mcp_path := cf_mcp_path c,
        rq_pii_strict := cf_pii_strict c, rq_overrides := cf_overrides c, rq_allowlist := cf_allowlist c,
        rq_protocol_era := cf_protocol_era c, rq_foreign_token := cf_foreign_token c, rq_read_token := None\<rparr>"

definition scanner_of_target :: "scan_request \<Rightarrow> str \<Rightarrow> scan_request" where
  "scanner_of_target args target = args\<lparr>rq_target := target, rq_allowlist := None, rq_read_token := None\<rparr>"

definition scanner_defaults :: scan_request where
  "scanner_defaults =
     \<lparr>rq_target = [], rq_categories = None, rq_engine = ascii ''all'', rq_allow_custom = False,
      rq_fail_on = ascii ''critical'', rq_allow_private = True, rq_auth_token = None, rq_read_token = None,
      rq_foreign_token = None, rq_mcp_path = ascii ''/mcp'', rq_adaptive = True, rq_profile = None,
      rq_adversarial = None, rq_baseline = None, rq_pii_strict = False, rq_overrides = None, rq_allowlist = None,
      rq_expected_hash = None, rq_protocol_era = ascii ''auto'', rq_level = None, rq_evidence = None\<rparr>"

section \<open>What construction guarantees\<close>

lemma made_config_complete:
  assumes "make_config e c = Inr c'"
  shows "\<exists>host port. cf_target_host c' = Some host \<and> cf_target_port c' = Some port \<and> config_era_ok (cf_protocol_era c')"
proof -
  obtain d where "derive_host_port e c = Inr d" and d: "c' = d" "cf_target_host d \<noteq> None" "cf_target_port d \<noteq> None"
    and e: "config_era_ok (cf_protocol_era c)"
    using assms by (auto simp: make_config_def split: if_splits sum.splits)
  then have "cf_protocol_era d = cf_protocol_era c"
    by (auto simp: derive_host_port_def split: option.splits prod.splits)
  then show ?thesis using d e by auto
qed

text \<open>A URL alone is enough, and is then what the connection goes to.\<close>

lemma url_alone:
  assumes "make_config e (c\<lparr>cf_target := Some t, cf_target_host := None, cf_target_port := None\<rparr>) = Inr c'"
  shows "parse_target e t = Some (the (cf_target_host c'), the (cf_target_port c'), t)"
proof -
  have "parse_target e t = Some (h, p, u) \<Longrightarrow> u = t" for h p u
    by (auto simp: parse_target_def Let_def split: option.splits if_splits)
  then show ?thesis
    using assms by (auto simp: make_config_def derive_host_port_def fill_def split: if_splits sum.splits option.splits prod.splits)
qed

text \<open>The era of a configuration that was made is one that a scan accepts.\<close>

lemma made_era_accepted: "config_era_ok s \<longleftrightarrow> era_of_text s \<noteq> None"
  by (simp add: config_era_ok_def era_of_text_def)

section \<open>What a scanner drops\<close>

text \<open>Three fields of a configuration that the transports document reach no scan made through the public class.\<close>

lemma config_fields_dropped:
  "scanner_of_config args (c\<lparr>cf_read_token := r, cf_auth_header := h, cf_extra_headers := x\<rparr>) = scanner_of_config args c"
  by (simp add: scanner_of_config_def config_url_def split: option.split list.split)

lemma scanner_without_read_token:
  "rq_read_token (scanner_of_config args c) = None" "rq_read_token (scanner_of_target args t) = None"
  "rq_allowlist (scanner_of_target args t) = None"
  by (simp_all add: scanner_of_config_def scanner_of_target_def)

text \<open>The two ways to name a target differ in what they allow: only the configuration refuses private addresses.\<close>

lemma defaults_differ:
  "rq_allow_private (scanner_of_target scanner_defaults t)" "\<not> rq_allow_private (scanner_of_config scanner_defaults default_config)"
  by (simp_all add: scanner_of_target_def scanner_of_config_def scanner_defaults_def default_config_def)

end
