(* ===== verification/Evidence_Annex.thy ===== *)
theory Evidence_Annex
  imports Assurance_Controls Py_Value
begin

text \<open>
  \<open>scripts/gen_evidence_annex.py\<close>: the annex that says what evidence each control takes at each level, the matrix in
  the README, and the check that both are up to date. The two files are the state; a README that cannot be read is
  not modelled. Texts are written with ASCII stand-ins for the five other characters they use.
\<close>

section \<open>Texts\<close>

definition annex_char :: "nat \<Rightarrow> nat" where
  "annex_char c =
     (if c = 126 then 8212 else if c = 94 then 8211 else if c = 36 then 183 else if c = 37 then 8804
      else if c = 38 then 167 else c)"

definition annex_text :: "string \<Rightarrow> str" where
  "annex_text s = map annex_char (ascii s)"

definition start_mark :: str where
  "start_mark = ascii ''<!-- assurance-matrix:start (generated by scripts/gen_evidence_annex.py) -->''"

definition end_mark :: str where "end_mark = ascii ''<!-- assurance-matrix:end -->''"

definition armor_caveat :: str where
  "armor_caveat = annex_text '' ~ mcp-armor: opt-in, enforced only behind ArmorMiddleware/sidecar, not yet in a released version''"

definition cosai_symbols :: "(string \<times> string) list" where
  "cosai_symbols =
     [(''cosai_mcp.middleware.request_meta'', ''validate_request_metadata''),
      (''cosai_mcp.middleware.request_meta'', ''reconcile_meta''),
      (''cosai_mcp.middleware'', ''CoSAIStack.check_request_envelope''),
      (''cosai_mcp.middleware.state'', ''HandleRegistry''),
      (''cosai_mcp.middleware.state'', ''RequestStateSealer''),
      (''cosai_mcp.telemetry.ocsf'', ''build_mcp_api_activity''),
      (''cosai_mcp.middleware.audit'', ''AuditLogger''),
      (''cosai_mcp.telemetry.tracecontext'', ''preserve_client_trace'')]"

definition reference_impl :: "(str, str) dict" where
  "reference_impl =
     [(ascii ''TN-04'', annex_text ''cosai-mcp `middleware.request_meta.validate_request_metadata` / `CoSAIStack.check_request_envelope`; mcp-armor `EnvelopeEngine` (`T7.enforce_request_envelope`)'' @ armor_caveat),
      (ascii ''SD-01'', annex_text ''cosai-mcp `middleware.state.HandleRegistry`; mcp-armor `explicit_state.HandleRegistry` (not yet in a released version)''),
      (ascii ''SD-02'', annex_text ''cosai-mcp `middleware.request_meta.reconcile_meta`; mcp-armor `EnvelopeEngine` / `request_envelope.reconcile_meta`'' @ armor_caveat),
      (ascii ''SD-03'', annex_text ''cosai-mcp `middleware.state.RequestStateSealer`; mcp-armor `explicit_state.RequestStateSealer` (not yet in a released version)''),
      (ascii ''LO-01'', annex_text ''cosai-mcp `telemetry.ocsf.build_mcp_api_activity` (OCSF 6003, keyed parameter digests); hash-chained `middleware.audit.AuditLogger`; mcp-armor `ocsf.build_mcp_api_activity` (not yet in a released version)''),
      (ascii ''LO-02'', annex_text ''cosai-mcp `telemetry.ocsf.build_mcp_api_activity` (`cosai_agentic.delegation_path`)''),
      (ascii ''LO-03'', annex_text ''cosai-mcp / mcp-armor `tracecontext` (canonical traceparent, identity-free bounded baggage, client trace id preserved)''),
      (ascii ''LO-04'', annex_text ''cosai-mcp / mcp-armor `build_mcp_api_activity` (`unmapped.cosai_agentic`)'')]"

definition annex_intro :: "str list" where
  "annex_intro =
     [annex_text ''# CoSAI MCP Security v2.0 ~ Evidence per Assurance Level (annex)'',
      annex_text '''',
      annex_text ''<!-- GENERATED by scripts/gen_evidence_annex.py from cosai_mcp/assurance/controls.py ~ do not edit by hand. -->'',
      annex_text '''',
      annex_text ''Profile: `'' @ profile_version @ annex_text ''` $ '' @ digits (length controls) @ annex_text '' controls $ '' @ digits (length dimensions) @ annex_text '' dimensions $ levels L1^L4 (v2.0 &3.3).'',
      annex_text '''',
      annex_text ''This annex answers v2.0 open question #4 ~ *what evidence demonstrates each control at each level* ~ for the controls in &3.3.2, and says which part an automated verifier (&3.3.5) can establish on its own.'',
      annex_text '''',
      annex_text ''## How `cosai scan --assurance-level N` decides'',
      annex_text '''',
      annex_text ''Checked in this order (first match wins):'',
      annex_text '''',
      annex_text ''| Verdict | Meaning |'',
      annex_text ''|---|---|'',
      annex_text ''| `not_required` | The control has no requirement at the claimed level. |'',
      annex_text ''| `fail` | A linked probe or scenario produced a conclusive finding. Evidence cannot override it. |'',
      annex_text ''| `unverified` (gap) | A linked test that must run did not run or was never conclusive ~ including a passive check (e.g. `T06`) that is present in the scan but inconclusive, and an *optional* disproof test that became required because the target exposes its surface (speaks 2026-07-28 / the Tasks extension). Evidence cannot stand in for it. |'',
      annex_text ''| `attested` | The operator supplied a hashed artifact (`--evidence DIR`). Recorded, not judged ~ and it takes precedence over a passing proof, so omit evidence for a control you want scanner-verified. |'',
      annex_text ''| `pass` | No evidence was supplied, the claimed level is at or below the control's black-box ceiling, and every *proving* probe (`verify_with`) passed conclusively. |'',
      annex_text ''| `unverified` (default) | Anything else: \"evidence only\" controls without evidence, levels above the black-box ceiling, inconclusive proving probes. |'',
      annex_text '''']"

definition annex_rules :: "str list" where
  "annex_rules =
     [annex_text ''A level is `met` only when every MUST at that level is `pass`; `met_with_attestation` when every MUST is `pass` or `attested`; `not_met` when any MUST fails; otherwise `indeterminate`. The level claim, the effective scan scope and the evidence hashes are embedded in the Ed25519-signed scorecard.'',
      annex_text '''',
      annex_text ''Evidence manifest (`DIR/evidence.json`), bound to the scanned target:'',
      annex_text '''',
      annex_text ''```json'',
      annex_text ''{\"schema_version\": \"1.0\", \"target\": \"https://mcp.example.com/mcp\",'',
      annex_text '' \"controls\": {\"ID-02\": {\"artifact\": \"authz/iss-validation-test.txt\",'',
      annex_text ''                        \"note\": \"RFC 9207 iss check, CI job #812\"}}}'',
      annex_text ''```'',
      annex_text '''',
      annex_text ''**What to attest:** an artifact that demonstrates the requirement text below at the claimed level ~ a configuration export, a test run, a policy, or a log sample ~ for the deployment named in `target`. Where a reference implementation is listed, its configuration plus its regression test output is acceptable evidence.'',
      annex_text '''']"

section \<open>The annex\<close>

definition evidence_levels :: "int list" where "evidence_levels = [1, 2, 3, 4]"

definition annex_cell :: "control \<Rightarrow> int \<Rightarrow> str" where
  "annex_cell c level =
     (case requirement_at c level of
        None \<Rightarrow> annex_text ''~''
      | Some r \<Rightarrow> (if rq_strength r = Must then ascii ''**MUST**'' else ascii ''SHOULD''))"

definition quoted_list :: "str list \<Rightarrow> str" where
  "quoted_list ps = join (ascii '', '') (map (\<lambda>p. ascii ''`'' @ p @ ascii ''`'') ps)"

definition proving :: "control \<Rightarrow> bool" where
  "proving c \<longleftrightarrow> ct_verify c \<noteq> [] \<and> ct_max_level c \<noteq> 0"

definition scanner_parts :: "control \<Rightarrow> str list" where
  "scanner_parts c =
     (if proving c
      then [ascii ''can **prove** up to L'' @ dump_int (ct_max_level c) @ ascii '' when '' @ quoted_list (ct_verify c) @
            ascii '' all pass conclusively''] else []) @
     (let needed = filter (\<lambda>p. p \<notin> set (ct_optional c)) (ct_probes c)
      in if needed = [] then [] else [ascii ''can **disprove** via '' @ quoted_list needed]) @
     (if ct_optional c = [] then []
      else [ascii ''disproof via '' @ quoted_list (ct_optional c) @
            annex_text '' ~ required when the target exposes that surface (2026-07-28 / extension), otherwise optional''])"

definition scanner_line :: "control \<Rightarrow> str" where
  "scanner_line c =
     (if scanner_parts c = [] then annex_text ''no black-box signal ~ evidence only''
      else join (ascii ''; '') (scanner_parts c))"

definition control_table_row :: "control \<Rightarrow> str" where
  "control_table_row c =
     ascii ''| '' @ ct_id c @ ascii '' '' @ ct_title c @ ascii '' | '' @
     join (ascii '' | '') (map (annex_cell c) evidence_levels) @ ascii '' | '' @ scanner_line c @ ascii '' |''"

definition strength_upper :: "strength \<Rightarrow> str" where
  "strength_upper st = (case st of Must \<Rightarrow> ascii ''MUST'' | Should \<Rightarrow> ascii ''SHOULD'')"

definition level_line :: "control \<Rightarrow> int \<Rightarrow> str list" where
  "level_line c level =
     (case requirement_at c level of None \<Rightarrow> []
      | Some r \<Rightarrow> [ascii ''- **L'' @ dump_int level @ ascii '' '' @ strength_upper (rq_strength r) @ annex_text ''** ~ '' @ rq_text r])"

definition control_section :: "control \<Rightarrow> str list" where
  "control_section c =
     [ascii ''### '' @ ct_id c @ annex_text '' ~ '' @ ct_title c, [],
      ascii ''MCP threats: '' @ (if ct_mcp_t c = [] then annex_text ''~'' else join (ascii '', '') (ct_mcp_t c)), []] @
     concat (map (level_line c) evidence_levels) @
     [[], ascii ''Scanner: '' @ scanner_line c @ ascii ''.''] @
     (case map_of reference_impl (ct_id c) of None \<Rightarrow> []
      | Some r \<Rightarrow> [ascii ''Reference implementation: '' @ r @ ascii ''.'']) @ [[]]"

definition dimension_controls :: "str \<Rightarrow> control list" where
  "dimension_controls d = filter (\<lambda>c. ct_dimension c = d) controls"

definition dimension_section :: "str \<Rightarrow> str list" where
  "dimension_section d =
     [ascii ''## '' @ d, [], ascii ''| Control | L1 | L2 | L3 | L4 | Scanner |'', ascii ''|---|:-:|:-:|:-:|:-:|---|''] @
     map control_table_row (dimension_controls d) @ [[]] @ concat (map control_section (dimension_controls d))"

definition annex_lines :: "str list" where
  "annex_lines = annex_intro @ annex_rules @ concat (map dimension_section dimensions)"

definition rstrip_space :: "str \<Rightarrow> str" where
  "rstrip_space s = rev (dropWhile py_space (rev s))"

definition render_annex :: str where
  "render_annex = rstrip_space (join [10] annex_lines) @ [10]"

section \<open>The matrix of the README\<close>

definition musts_at :: "control list \<Rightarrow> int \<Rightarrow> nat" where
  "musts_at cs level =
     length (filter (\<lambda>c. case requirement_at c level of None \<Rightarrow> False | Some r \<Rightarrow> rq_strength r = Must) cs)"

definition matrix_row :: "str \<Rightarrow> str" where
  "matrix_row d =
     (let cs = dimension_controls d;
          disprove = length (filter (\<lambda>c. ct_probes c \<noteq> []) cs);
          optional = length (filter (\<lambda>c. ct_optional c \<noteq> [] \<and> ct_probes c = []) cs);
          prove = map (\<lambda>c. ct_id c @ annex_text '' (%L'' @ dump_int (ct_max_level c) @ ascii '')'') (filter proving cs)
      in ascii ''| '' @ d @ ascii '' | '' @ digits (length cs) @ ascii '' | '' @
         join (ascii '' | '') (map (\<lambda>l. digits (musts_at cs l)) evidence_levels) @ ascii '' | '' @
         digits disprove @ (if optional = 0 then [] else ascii '' (+'' @ digits optional @ ascii '' surface-dependent)'') @
         ascii '' | '' @ (if prove = [] then annex_text ''~'' else join (ascii '', '') prove) @ ascii '' |'')"

definition matrix_rows :: "str list" where
  "matrix_rows =
     [ascii ''| Dimension | Controls | MUST @ L1 | L2 | L3 | L4 | Scanner can disprove | Scanner can prove |'',
      ascii ''|---|:-:|:-:|:-:|:-:|:-:|:-:|:-:|''] @ map matrix_row dimensions"

definition matrix_middle :: "str list" where
  "matrix_middle =
     [[], ascii ''`cosai scan TARGET --assurance-level N [--evidence DIR]` checks a deployment against the CoSAI MCP Security v2.0 '' @
        annex_text ''&3.3 profile ('' @ digits (length controls) @
        annex_text '' controls). A black-box scan can *disprove* many controls but *prove* only a few ~ the rest need hashed operator evidence and cap the result at `met_with_attestation`. Per-control requirements and what to attest: [docs/EVIDENCE_PER_LEVEL.md](docs/EVIDENCE_PER_LEVEL.md).'',
      []] @ matrix_rows @ [[]]"

definition render_readme_block :: str where
  "render_readme_block = join [10] ([start_mark] @ matrix_middle @ [end_mark])"

text \<open>\<open>text.index\<close> finds the first occurrence; \<open>None\<close> is the missing marker.\<close>

definition splice_readme :: "str \<Rightarrow> str option" where
  "splice_readme s =
     (case (find_at start_mark s, find_at end_mark s) of
        (Some i, Some j) \<Rightarrow> Some (take i s @ render_readme_block @ drop (j + length end_mark) s)
      | _ \<Rightarrow> None)"

section \<open>The command\<close>

record annex_files =
  af_doc :: "str option"
  af_readme :: str

definition annex_main :: "bool \<Rightarrow> annex_files \<Rightarrow> nat \<times> annex_files" where
  "annex_main check fs =
     (case splice_readme (af_readme fs) of
        None \<Rightarrow> (2, fs)
      | Some readme \<Rightarrow>
          if check
          then (if (case af_doc fs of None \<Rightarrow> [] | Some d \<Rightarrow> d) \<noteq> render_annex \<or> af_readme fs \<noteq> readme then 1 else 0, fs)
          else (0, \<lparr>af_doc = Some render_annex, af_readme = readme\<rparr>))"

section \<open>The markers in the block\<close>

lemma join_append_last: "join sep (xs @ [y]) = concat (map (\<lambda>x. x @ sep) xs) @ y"
proof (induction xs)
  case (Cons x xs)
  then show ?case by (cases "xs @ [y]") auto
qed simp

text \<open>Between the markers the block has no angle bracket.\<close>

definition no_bracket :: "str \<Rightarrow> bool" where "no_bracket s \<longleftrightarrow> 60 \<notin> set s"

lemma no_bracket_append [simp]: "no_bracket (s @ t) \<longleftrightarrow> no_bracket s \<and> no_bracket t"
  by (auto simp: no_bracket_def)

lemma no_bracket_join: "no_bracket sep \<Longrightarrow> list_all no_bracket xs \<Longrightarrow> no_bracket (join sep xs)"
  by (induction sep xs rule: join.induct) (auto simp: no_bracket_def)

lemma no_bracket_digits [simp]: "no_bracket (digits n)"
  by (induction n rule: digits.induct) (subst digits.simps, auto simp: no_bracket_def)

lemma no_bracket_int [simp]: "no_bracket (dump_int i)"
proof -
  have "no_bracket [45]" by (simp add: no_bracket_def)
  then have "no_bracket ([45] @ digits n)" for n by (simp only: no_bracket_append no_bracket_digits)
  then show ?thesis by (simp add: dump_int_def del: no_bracket_append)
qed

lemma no_bracket_annex [simp]: "no_bracket (annex_text s) \<longleftrightarrow> no_bracket (ascii s)"
  by (auto simp: no_bracket_def annex_text_def annex_char_def)

lemma no_bracket_Nil [simp]: "no_bracket []" "no_bracket [10]"
  by (simp_all add: no_bracket_def)

lemma control_row_sel [simp]:
  "ct_id (control_row cid d t m l p x v opt) = ascii cid"
  by (simp add: control_row_def)

lemma control_ids_plain: "list_all (\<lambda>c. no_bracket (ct_id c)) controls"
  by (simp add: controls_def identity_controls_def authorization_controls_def network_controls_def isolation_controls_def
      logging_controls_def supply_chain_controls_def integrity_controls_def state_controls_def no_bracket_def)

lemma dimensions_plain: "list_all no_bracket dimensions"
  by (simp add: dimensions_def d_identity_def d_authorization_def d_network_def d_isolation_def d_logging_def
      d_supply_chain_def d_integrity_def d_state_def no_bracket_def)

lemma matrix_row_plain:
  assumes "no_bracket d"
  shows "no_bracket (matrix_row d)"
proof -
  have a: "no_bracket (ascii '' | '')" "no_bracket (ascii '', '')" "no_bracket (ascii ''| '')" "no_bracket (ascii '' |'')"
    "no_bracket (ascii '' (+'')" "no_bracket (ascii '' surface-dependent)'')" "no_bracket (ascii '' (%L'')"
    "no_bracket (ascii '')'')" "no_bracket (ascii ''~'')"
    by (simp_all add: no_bracket_def)
  have c: "list_all no_bracket (map (\<lambda>c. ct_id c @ annex_text '' (%L'' @ dump_int (ct_max_level c) @ ascii '')'') (filter P (dimension_controls d)))" for P
    using control_ids_plain a by (auto simp: list_all_iff dimension_controls_def simp del: ascii_simps)
  have l: "list_all no_bracket (map (\<lambda>l. digits (musts_at (dimension_controls d) l)) evidence_levels)"
    by (simp add: list_all_iff)
  show ?thesis
    using assms no_bracket_join [OF a(1) l] no_bracket_join [OF a(2) c, of proving] a
    by (simp add: matrix_row_def Let_def del: ascii_simps)
qed

lemma matrix_middle_plain: "list_all no_bracket matrix_middle"
proof -
  have "list_all no_bracket (map matrix_row dimensions)"
    using dimensions_plain by (auto simp: list_all_iff matrix_row_plain)
  moreover have "60 \<notin> set (digits n)" for n using no_bracket_digits [of n] by (simp add: no_bracket_def)
  ultimately show ?thesis
    by (simp add: matrix_middle_def matrix_rows_def) (simp add: no_bracket_def annex_text_def annex_char_def)
qed

definition block_middle :: str where
  "block_middle = [10] @ concat (map (\<lambda>x. x @ [10]) matrix_middle)"

lemma block_split: "render_readme_block = start_mark @ block_middle @ end_mark"
  using join_append_last [of "[10]" "[start_mark] @ matrix_middle" end_mark]
  by (simp add: render_readme_block_def block_middle_def)

lemma block_middle_plain: "no_bracket block_middle"
  using matrix_middle_plain by (auto simp: block_middle_def no_bracket_def list_all_iff)

section \<open>Writing once is enough\<close>

lemma nth_dropped: "m \<le> k \<Longrightarrow> k < length xs \<Longrightarrow> xs ! k = drop m xs ! (k - m)"
  by simp

lemma hd_slice: "0 < n \<Longrightarrow> k < length xs \<Longrightarrow> hd (take n (drop k xs)) = xs ! k"
  by (simp add: hd_take hd_drop_conv_nth)

lemma drop_append_length: "drop (length xs) (xs @ ys) = ys"
  by simp

lemma take_drop_prefix: "k + n \<le> m \<Longrightarrow> take n (drop k (take m xs)) = take n (drop k xs)"
  by (simp add: drop_take)

lemma find_at_exact:
  assumes "take (length w) (drop i s) = w" and "i + length w \<le> length s" and "\<And>j. j < i \<Longrightarrow> take (length w) (drop j s) \<noteq> w"
  shows "find_at w s = Some i"
proof (cases "find_at w s")
  case None
  have "s = take i s @ w @ drop (i + length w) s"
    using assms(1) by (metis add.commute append_take_drop_id drop_drop)
  then show ?thesis using find_at_None [OF None] by blast
next
  case (Some k)
  obtain a b where s: "s = a @ w @ b" "length a = k" using find_at_Some [OF Some] by blast
  have "take (length w) (drop k s) = w" using s by simp
  then have "i \<le> k" using assms(3) [of k] by force
  moreover have "\<not> i < k" using find_at_Some [OF Some] assms(1) by (auto simp: starts_with_def)
  ultimately show ?thesis using Some by simp
qed

lemma find_at_here: "find_at w s = Some i \<Longrightarrow> take (length w) (drop i s) = w \<and> i + length w \<le> length s"
  using find_at_Some [of w s i] by fastforce

lemma find_at_before: "find_at w s = Some i \<Longrightarrow> j < i \<Longrightarrow> take (length w) (drop j s) \<noteq> w"
  using find_at_Some [of w s i] by (auto simp: starts_with_def)

lemma start_mark_shape: "\<exists>t. start_mark = 60 # t \<and> no_bracket t" "length start_mark = 76"
  by (simp_all add: start_mark_def no_bracket_def)

lemma end_mark_shape: "hd end_mark = 60" "end_mark \<noteq> []" "length end_mark = 29"
    "take 29 start_mark \<noteq> end_mark"
  by (simp_all add: end_mark_def start_mark_def)

text \<open>A README with the end marker behind the start marker is a fixed point once it is written.\<close>

lemma splice_fixed:
  assumes "find_at start_mark s = Some i" and "find_at end_mark s = Some j" and "i < j"
  shows "splice_readme (take i s @ render_readme_block @ drop (j + length end_mark) s) =
    Some (take i s @ render_readme_block @ drop (j + length end_mark) s)"
proof -
  let ?m = "block_middle" and ?p = "take i s" and ?q = "drop (j + length end_mark) s"
  let ?n = "?p @ start_mark @ ?m @ end_mark @ ?q"
  have li: "length ?p = i" and at: "take (length start_mark) (drop i s) = start_mark"
    using find_at_here [OF assms(1)] by simp_all
  have pre: "take (i + length start_mark) s = ?p @ start_mark" using at by (simp add: take_add)
  have same: "take (length w) (drop k ?n) = take (length w) (drop k s)" if "k + length w \<le> i + length start_mark" for k w
  proof -
    have "take (length w) (drop k ?n) = take (length w) (drop k (take (i + length start_mark) ?n))"
      by (rule take_drop_prefix [OF that, symmetric])
    also have "take (i + length start_mark) ?n = take (i + length start_mark) s" using li by (simp add: pre)
    also have "take (length w) (drop k (take (i + length start_mark) s)) = take (length w) (drop k s)"
      by (rule take_drop_prefix [OF that])
    finally show ?thesis .
  qed
  have a: "find_at start_mark ?n = Some i"
  proof (rule find_at_exact)
    show "take (length start_mark) (drop i ?n) = start_mark" "i + length start_mark \<le> length ?n" using li by simp_all
    show "take (length start_mark) (drop k ?n) \<noteq> start_mark" if "k < i" for k
      using find_at_before [OF assms(1) that] same [of k start_mark] that by simp
  qed
  let ?e = "i + length start_mark + length ?m"
  obtain t where t: "start_mark = 60 # t" "no_bracket t" using start_mark_shape(1) by blast
  have b: "find_at end_mark ?n = Some ?e"
  proof (rule find_at_exact)
    show "take (length end_mark) (drop ?e ?n) = end_mark" "?e + length end_mark \<le> length ?n" using li by simp_all
    show "take (length end_mark) (drop k ?n) \<noteq> end_mark" if k: "k < ?e" for k
    proof (cases "k \<le> i")
      case True
      show ?thesis
      proof (cases "k = i")
        case True
        then have "take (length end_mark) (drop k ?n) = take 29 start_mark"
          using li end_mark_shape(3) start_mark_shape(2) by simp
        then show ?thesis using end_mark_shape(4) by simp
      next
        case False
        then have "k < j" "k + length end_mark \<le> i + length start_mark"
          using True assms(3) end_mark_shape(3) start_mark_shape(2) by simp_all
        then show ?thesis using find_at_before [OF assms(2), of k] same [of k end_mark] by simp
      qed
    next
      case False
      then have g: "i < k" by simp
      have n': "?n = (?p @ [60]) @ t @ ?m @ end_mark @ ?q" by (simp add: t(1))
      have "Suc i = length (?p @ [60])" using li by simp
      then have d: "drop (Suc i) ?n = t @ ?m @ end_mark @ ?q" unfolding n' by (simp only: drop_append_length)
      have "length start_mark = Suc (length t)" by (simp add: t(1))
      then have lt: "k - Suc i < length (t @ ?m)" using g k by simp
      have "?n ! k = (t @ ?m) ! (k - Suc i)"
      proof -
        have "?n ! k = drop (Suc i) ?n ! (k - Suc i)" by (rule nth_dropped) (use g k li in auto)
        also have "\<dots> = (t @ ?m) ! (k - Suc i)" unfolding d
          using nth_append [of "t @ ?m" "end_mark @ ?q" "k - Suc i"] lt by simp
        finally show ?thesis .
      qed
      moreover have "(t @ ?m) ! (k - Suc i) \<in> set (t @ ?m)" using lt by (rule nth_mem)
      ultimately have "?n ! k \<noteq> 60" using t(2) block_middle_plain by (auto simp: no_bracket_def)
      moreover have "hd (take (length end_mark) (drop k ?n)) = ?n ! k"
        by (rule hd_slice) (use k li end_mark_shape(3) in auto)
      ultimately show ?thesis using end_mark_shape(1) by metis
    qed
  qed
  have n: "take i s @ render_readme_block @ ?q = ?n" by (simp add: block_split)
  show ?thesis unfolding n using a b li by (simp add: splice_readme_def block_split)
qed

lemma check_after_write:
  assumes "find_at start_mark (af_readme fs) = Some i" and "find_at end_mark (af_readme fs) = Some j" and "i < j"
  shows "fst (annex_main False fs) = 0 \<and> fst (annex_main True (snd (annex_main False fs))) = 0"
  using splice_fixed [OF assms] assms(1,2) by (simp add: annex_main_def splice_readme_def)

text \<open>With the end marker first, the text behind it is written again each time, and no write satisfies the check.\<close>

lemma swapped_markers_grow:
  assumes "find_at start_mark s = Some i" and "find_at end_mark s = Some j" and "j < i" and "splice_readme s = Some s'"
  shows "length s' > length s"
proof -
  have "s' = take i s @ render_readme_block @ drop (j + length end_mark) s" using assms(1,2,4) by (simp add: splice_readme_def)
  moreover have "length render_readme_block \<ge> 105"
    by (simp add: block_split start_mark_shape(2) end_mark_shape(3))
  ultimately show ?thesis using assms(3) find_at_here [OF assms(1)] end_mark_shape(3) by simp
qed

text \<open>Without its markers the README and the annex are left alone, and the exit code says so.\<close>

lemma markers_missing:
  "splice_readme (af_readme fs) = None \<Longrightarrow> annex_main check fs = (2, fs)"
  by (simp add: annex_main_def)

text \<open>Every control of the profile has its row and its section in the annex.\<close>

lemma controls_have_dimensions: "list_all (\<lambda>c. ct_dimension c \<in> set dimensions) controls"
  by (simp add: controls_def identity_controls_def authorization_controls_def network_controls_def isolation_controls_def
      logging_controls_def supply_chain_controls_def integrity_controls_def state_controls_def control_row_def dimensions_def
      del: ascii_simps)

lemma every_control_rendered:
  assumes "c \<in> set controls"
  shows "control_table_row c \<in> set annex_lines \<and> set (control_section c) \<subseteq> set annex_lines"
proof -
  have "ct_dimension c \<in> set dimensions" using assms controls_have_dimensions by (simp add: list_all_iff)
  moreover have "c \<in> set (dimension_controls (ct_dimension c))" using assms by (simp add: dimension_controls_def)
  ultimately show ?thesis by (fastforce simp: annex_lines_def dimension_section_def)
qed

end
