(* ===== verification/Cli_Output.thy ===== *)
theory Cli_Output
  imports Cli_Scan
begin

text \<open>
  What the commands of \<open>cli.py\<close> print: the lines on the two streams together with the exit code that the other
  theories compute. A line is kept as it is given to \<open>click.echo\<close>, with its line breaks. The texts of exceptions are
  arguments.
\<close>

section \<open>Lines\<close>

datatype printed = Out str | Err str

definition pad_right :: "nat \<Rightarrow> str \<Rightarrow> str" where
  "pad_right n s = s @ replicate (n - length s) 32"

definition pad_left_text :: "nat \<Rightarrow> str \<Rightarrow> str" where
  "pad_left_text n s = replicate (n - length s) 32 @ s"

definition says :: "string \<Rightarrow> printed \<Rightarrow> bool" where
  "says w p = (case p of Out s \<Rightarrow> starts_with (ascii w) s | Err s \<Rightarrow> False)"

section \<open>Audit logs\<close>

definition audit_verify_lines :: "str \<Rightarrow> (nat \<times> str) \<Rightarrow> str option \<Rightarrow> verify_status \<times> nat \<Rightarrow> printed list" where
  "audit_verify_lines report broken expected r =
     (if expected = None \<and> fst r = VerifyOk
      then [Err (ascii ''[WARN] No --expected-head anchor supplied '' @ [8212] @
                 ascii '' a wholesale rewrite of the log from genesis would NOT be detected. Persist and pass the last known chain head for full tamper-evidence.'')]
      else []) @
     (case fst r of
        VerifyOk \<Rightarrow> [Out (ascii ''Audit log OK '' @ [8212] @ ascii '' '' @ digits (snd r) @ ascii '' entries verified.'')]
      | ChainBroken \<Rightarrow> [Err (ascii ''[FAIL] Audit chain broken at entry '' @ digits (fst broken) @ ascii '': '' @ snd broken)]
      | LogNotFound \<Rightarrow> [Err (ascii ''[ERROR] Audit log not found: '' @ report)]
      | LogEmpty \<Rightarrow> [Err (ascii ''[WARN] Audit log is empty: '' @ report)])"

lemma audit_ok_printed:
  "list_ex (says ''Audit log OK'') (audit_verify_lines report broken expected (verify_audit_log sha entries expected)) \<longleftrightarrow>
     audit_verify sha entries expected = 0"
  by (auto simp: audit_verify_lines_def audit_verify_def says_def starts_with_def split: verify_status.split)

section \<open>Profiles\<close>

definition comma_join :: "str list \<Rightarrow> str" where
  "comma_join = join (ascii '', '')"

definition profile_row :: "server_profile \<Rightarrow> printed" where
  "profile_row p =
     (let skip = (if pf_skip_categories p = [] then [8212] else join [44] (sort (remdups (pf_skip_categories p))))
      in Out (ascii ''  '' @ pad_right 20 (pf_name p) @ ascii '' '' @ pad_right 14 skip @ ascii '' '' @ pf_description p))"

definition profile_list_lines :: "printed list" where
  "profile_list_lines =
     [Out ([10] @ ascii ''Built-in server profiles:'' @ [10]),
      Out (ascii ''  '' @ pad_right 20 (ascii ''NAME'') @ ascii '' '' @ pad_right 14 (ascii ''SKIP'') @ ascii '' DESCRIPTION''),
      Out (ascii ''  '' @ replicate 70 45)] @
     map (\<lambda>(_, p). profile_row p) (sort_key fst builtin_profiles) @
     [Out [], Out (ascii ''Use 'cosai profile info <name>' for full details.'')]"

definition profile_info_lines :: "server_profile \<Rightarrow> printed list" where
  "profile_info_lines p =
     [Out ([10] @ ascii ''Profile: '' @ pf_name p),
      Out (ascii ''  Description  : '' @ pf_description p),
      Out (ascii ''  MCP path     : '' @ pf_mcp_path p),
      Out (ascii ''  Auth format  : '' @ (if given (pf_auth_header_format p) then the (pf_auth_header_format p) else ascii ''(none)'')),
      Out (ascii ''  Skip cats    : '' @ (if pf_skip_categories p = [] then ascii ''(none)''
                                          else comma_join (sort (remdups (pf_skip_categories p)))))] @
     (if pf_tool_name_map p = [] then [Out (ascii ''  Tool name map: (empty '' @ [8212] @ ascii '' uses adaptive discovery)'')]
      else Out (ascii ''  Tool name map:'') #
           map (\<lambda>(k, v). Out (ascii ''    '' @ k @ [32, 8594, 32] @ v)) (sort_key fst (pf_tool_name_map p))) @
     [Out (ascii ''  Notes        : '' @ pf_notes p), Out []]"

definition profile_info :: "profile_env \<Rightarrow> profile_files \<Rightarrow> str \<Rightarrow> bool \<Rightarrow> str list option \<Rightarrow> str list \<Rightarrow> str \<Rightarrow> nat \<times> printed list" where
  "profile_info e fs nm allow_custom project home err =
     (case resolve_profile e fs nm allow_custom project home of
        None \<Rightarrow> (2, [Err (ascii ''[ERROR] '' @ err)])
      | Some p \<Rightarrow> (0, profile_info_lines p))"

text \<open>\<open>None\<close> is a source that cannot be read.\<close>

definition profile_validate :: "profile_env \<Rightarrow> str option \<Rightarrow> (str \<Rightarrow> str) \<Rightarrow> str \<Rightarrow> nat \<times> printed list" where
  "profile_validate e source repr err =
     (case Option.bind source (parse_user_profile e) of
        Some p \<Rightarrow> (0, [Out (ascii ''[OK] Profile '' @ repr (pf_name p) @ ascii '' is valid.'')])
      | None \<Rightarrow> (1, [Err (ascii ''[INVALID] '' @ err)]))"

section \<open>Inventories\<close>

text \<open>The capture and its signature may fail; an output file that cannot be written is an exception that nothing catches.\<close>

definition inventory_capture ::
    "capture_error + tool_inventory \<Rightarrow> (tool_inventory \<Rightarrow> json option) \<Rightarrow> (tool_inventory \<Rightarrow> json option) \<Rightarrow> bool \<Rightarrow>
       str option \<Rightarrow> str \<Rightarrow> (json \<Rightarrow> str) \<Rightarrow> nat \<times> printed list \<times> (str \<times> str) option" where
  "inventory_capture captured to_dict sign no_sign output err indented =
     (case captured of
        Inl _ \<Rightarrow> (2, [Err (ascii ''[ERROR] Inventory capture failed: '' @ err)], None)
      | Inr inv' \<Rightarrow>
          (case (if no_sign then to_dict inv' else sign inv') of
             None \<Rightarrow> (if no_sign then (1, [], None) else (2, [Err (ascii ''[ERROR] Signing failed: '' @ err)], None))
           | Some payload \<Rightarrow>
               if given output
               then (0, [Out (ascii ''Inventory written to '' @ the output @ ascii '' ('' @
                              (if no_sign then ascii ''unsigned'' else ascii ''signed'') @ ascii '', '' @
                              digits (length (iv_tools inv')) @ ascii '' tool(s), hash='' @ take 16 (iv_hash inv') @ ascii ''...)'')],
                     Some (the output, indented payload))
               else (0, [Out (indented payload)], None)))"

section \<open>Scorecards\<close>

definition compliance_line :: "category_result \<Rightarrow> printed" where
  "compliance_line c =
     Out (ascii ''    '' @ pad_right 5 (ca_category c) @
       (case ca_mapping c of
          None \<Rightarrow> ascii '' (no compliance mapping in this scorecard)''
        | Some m \<Rightarrow> ascii '' '' @ pad_right 32 (cm_owasp m) @ ascii '' NIST AI RMF: '' @ comma_join (cm_nist m)))"

definition compliance_lines :: "scorecard \<Rightarrow> printed list" where
  "compliance_lines s =
     Out ([10] @ ascii ''  Compliance mapping (CoSAI -> OWASP MCP Top 10 / NIST AI RMF):'') # map compliance_line (sk_categories s)"

definition control_free :: "str \<Rightarrow> str" where
  "control_free s = take 80 (filter (\<lambda>c. 0x1F < c \<and> c \<noteq> 0x7F) s)"

definition claim_count :: "assurance_report \<Rightarrow> verdict \<Rightarrow> str" where
  "claim_count r v = digits (count_verdict v (must_verdicts (as_controls r)))"

definition assurance_claim_line :: "assurance_report \<Rightarrow> bool \<Rightarrow> printed" where
  "assurance_claim_line r verified =
     Out (ascii ''  CoSAI assurance: Level '' @ dump_int (as_level r) @ [32, 8594, 32] @ level_result_name (as_result r) @
       ascii '' ('' @ control_free (as_version r) @ ascii ''; MUST pass '' @ claim_count r VPass @ ascii '', attested '' @
       claim_count r VAttested @ ascii '', fail '' @ claim_count r VFail @ ascii '', unverified '' @ claim_count r VUnverified @
       ascii '')'' @
       (if verified then [] else ascii '' (signature NOT verified '' @ [8212] @ ascii '' use --verify)''))"

definition claim_lines :: "scorecard \<Rightarrow> bool \<Rightarrow> printed list" where
  "claim_lines s verified = (case sk_assurance s of None \<Rightarrow> [] | Some r \<Rightarrow> [assurance_claim_line r verified])"

text \<open>A bundle that verifies is announced with the identity the caller named.\<close>

definition bundle_lines :: "verify_options \<Rightarrow> printed list" where
  "bundle_lines o' =
     (if given (vo_bundle o') then [Out (ascii ''[OK] Sigstore signature valid '' @ [8212] @ ascii '' identity: '' @ the (vo_identity o'))]
      else [])"

definition scorecard_verify_lines :: "scorecard \<Rightarrow> verify_options \<Rightarrow> printed list" where
  "scorecard_verify_lines s o' =
     bundle_lines o' @
     [Out (ascii ''[OK] Scorecard signature valid '' @ [8212] @ ascii '' conformance: '' @ conformance_name (sk_conformance s))] @
     claim_lines s True @ compliance_lines s"

text \<open>The command: a refusal prints its reason on the error stream and nothing else.\<close>

definition scorecard_verify_run ::
    "'k ed25519 \<Rightarrow> py_text \<Rightarrow> (json \<Rightarrow> int option) \<Rightarrow> anchor \<Rightarrow>
     (str \<Rightarrow> byte list \<Rightarrow> str \<Rightarrow> str option \<Rightarrow> bool \<Rightarrow> bundle_outcome) \<Rightarrow> verify_options \<Rightarrow> (nat \<Rightarrow> str) \<Rightarrow> json option \<Rightarrow>
     nat \<times> printed list" where
  "scorecard_verify_run ed pt to_int a sigstore o' reason parsed =
     (let code = scorecard_verify ed pt to_int a sigstore o' parsed
      in (code, case load_scorecard_strict pt to_int parsed of
                  None \<Rightarrow> [Err (reason code)]
                | Some s \<Rightarrow> if code = 0 then scorecard_verify_lines s o' else [Err (reason code)]))"

definition grade_icon :: "grade \<Rightarrow> str" where
  "grade_icon g = (case g of GradePass \<Rightarrow> [10003] | GradeWarn \<Rightarrow> [9888] | GradeFail \<Rightarrow> [10007] | NotTested \<Rightarrow> [8211])"

definition grade_row :: "category_result \<Rightarrow> printed" where
  "grade_row c =
     Out (ascii ''  '' @ pad_right 6 (ca_category c) @ ascii '' '' @ grade_icon (ca_grade c) @ ascii '' '' @
       pad_right 4 (grade_name (ca_grade c)) @ ascii ''  '' @ pad_right 10 (dump_int (ca_findings c)) @ ascii '' '' @
       pad_right 10 (dump_int (ca_critical c)) @ ascii '' '' @ ca_engine c)"

definition scorecard_lines :: "scorecard \<Rightarrow> bool \<Rightarrow> bool \<Rightarrow> printed list" where
  "scorecard_lines s has_signature verified =
     [Out ([10] @ ascii ''Conformance Scorecard''),
      Out (ascii ''  Target     : '' @ sk_target_url s),
      Out (ascii ''  Timestamp  : '' @ sk_timestamp s),
      Out (ascii ''  Conformance: '' @ conformance_name (sk_conformance s)),
      Out (ascii ''  Signed     : '' @ (if has_signature then ascii ''yes '' @ [8212, 32] @ take 16 (sk_public_key s) @ [8230] else ascii ''no''))] @
     claim_lines s verified @
     [Out ([10] @ ascii ''  '' @ pad_right 6 (ascii ''Category'') @ ascii '' '' @ pad_right 6 (ascii ''Grade'') @ ascii '' '' @
           pad_right 10 (ascii ''Findings'') @ ascii '' '' @ pad_right 10 (ascii ''Critical'') @ ascii '' Engine''),
      Out (ascii ''  '' @ replicate 60 45)] @
     map grade_row (sk_categories s) @ compliance_lines s @ [Out []]"

definition scorecard_show_run ::
    "'k ed25519 \<Rightarrow> py_text \<Rightarrow> (json \<Rightarrow> int option) \<Rightarrow> anchor \<Rightarrow>
     (str \<Rightarrow> byte list \<Rightarrow> str \<Rightarrow> str option \<Rightarrow> bool \<Rightarrow> bundle_outcome) \<Rightarrow> bool \<Rightarrow> verify_options \<Rightarrow> (nat \<Rightarrow> str) \<Rightarrow> json option \<Rightarrow>
     nat \<times> printed list" where
  "scorecard_show_run ed pt to_int a sigstore do_verify o' reason parsed =
     (let code = scorecard_show ed pt to_int a sigstore do_verify o' parsed
      in (code, case load_scorecard_strict pt to_int parsed of
                  None \<Rightarrow> [Err (reason code)]
                | Some s \<Rightarrow> if code = 0 then bundle_lines o' @ scorecard_lines s (is_signed s) do_verify else [Err (reason code)]))"

lemma load_fails: "load_scorecard_strict pt to_int parsed = None \<Longrightarrow> scorecard_verify ed pt to_int a sigstore o' parsed = 2"
  by (simp add: scorecard_verify_def)

text \<open>An \<open>[OK]\<close> is printed exactly when the exit code is 0: no verdict of an earlier check precedes a refusal.\<close>

lemma ok_exactly_on_success:
  "list_ex (says ''[OK]'') (snd (scorecard_verify_run ed pt to_int a sigstore o' reason parsed)) \<longleftrightarrow>
     fst (scorecard_verify_run ed pt to_int a sigstore o' reason parsed) = 0"
  using load_fails [of pt to_int parsed ed a sigstore o']
  by (auto simp: scorecard_verify_run_def Let_def scorecard_verify_lines_def says_def starts_with_def split: option.split)

text \<open>\<open>show\<close> says that a claim is verified only when it was asked to verify, and then only of a verified card.\<close>

lemma show_verified_claim:
  assumes "scorecard_show_run ed pt to_int a sigstore do_verify o' reason parsed = (0, ls)"
    and "load_scorecard_strict pt to_int parsed = Some s" and "do_verify"
  shows "verify_scorecard ed a s = ValidFile \<and> catalog_pinned s (vo_catalog_pin o')"
  using assms by (auto simp: scorecard_show_run_def scorecard_show_def Let_def split: if_splits option.splits)

section \<open>After a scan\<close>

definition summary_numbers_line :: "scan_result \<Rightarrow> printed" where
  "summary_numbers_line s =
     Out (ascii ''Probes: '' @ digits (failed_probes s) @ [47] @ digits (length (so_probes s)) @ ascii '' failed   Scenarios: '' @
       digits (failed_scenarios s) @ [47] @ digits (length (so_scenarios s)) @ ascii '' failed'')"

definition suppressed_count :: "scan_result \<Rightarrow> nat" where
  "suppressed_count s = length (filter pr_suppressed (so_probes s))"

definition verdict_line :: "(str \<Rightarrow> str) \<Rightarrow> str \<Rightarrow> summary_line \<Rightarrow> printed" where
  "verdict_line repr fail_on l =
     (case l of
        CleanBelow n i \<Rightarrow>
          Out (ascii ''[CLEAN] No findings at or above '' @ repr fail_on @ ascii '' severity. ('' @ digits n @
            ascii '' finding(s) below threshold; '' @ digits i @ ascii '' inconclusive.)'')
      | CleanNone i \<Rightarrow>
          Out (ascii ''[CLEAN] No findings.'' @ (if i = 0 then [] else ascii '' ('' @ digits i @ ascii '' inconclusive.)''))
      | FindingsLine n \<Rightarrow> Out (ascii ''[FINDINGS] '' @ digits n @ ascii '' issue(s) at or above '' @ repr fail_on @ ascii '' severity.'')
      | ErrorLine \<Rightarrow> Err (ascii ''[ERROR] Scan completed with internal errors '' @ [8212] @ ascii '' treat as failure.''))"

definition scan_summary_lines :: "(str \<Rightarrow> str) \<Rightarrow> str \<Rightarrow> scan_result \<Rightarrow> printed list" where
  "scan_summary_lines repr fail_on s =
     [Out ([10] @ ascii ''Target: '' @ so_target_url s), Out (ascii ''Timestamp: '' @ so_timestamp s),
      Out (ascii ''Catalog hash: '' @ take 16 (so_catalog_hash s) @ [8230]), summary_numbers_line s] @
     (if suppressed_count s = 0 then []
      else [Out (ascii ''Baseline: '' @ digits (suppressed_count s) @
                 ascii '' accepted finding(s) suppressed (excluded from exit code; still listed in reports).'')]) @
     [verdict_line repr fail_on (summary_verdict s)]"

lemma clean_exactly_on_zero:
  "list_ex (says ''[CLEAN]'') (scan_summary_lines repr fail_on s) \<longleftrightarrow> so_exit_code s = 0"
  by (auto simp: scan_summary_lines_def summary_numbers_line_def verdict_line_def summary_verdict_def says_def starts_with_def)

definition category_number :: "str \<Rightarrow> nat" where
  "category_number c = digits_value (tl c)"

definition coverage_lines :: "printed list" where
  "coverage_lines =
     [Out ([10] @ ascii ''Coverage Matrix '' @ [8212] @ ascii '' cosai-mcp engine coverage per category:''),
      Out (pad_right 10 (ascii ''Category'') @ ascii '' Engine Coverage''), Out (replicate 45 45)] @
     map (\<lambda>(c, coverage). Out (pad_right 10 c @ ascii '' '' @ coverage @
            (if c \<in> set middleware_only_categories then ascii ''  '' @ [8592] @ ascii '' not probeable from outside'' else [])))
       (sort_key (\<lambda>(c, _). category_number c) coverage_matrix) @ [Out []]"

definition must_line :: "(str \<Rightarrow> str) \<Rightarrow> control_verdict \<Rightarrow> printed" where
  "must_line upper_of c =
     Out (ascii ''  ['' @ pad_right 10 (upper_of (verdict_name (cv_verdict c))) @ ascii ''] '' @ cv_control_id c @ ascii '' '' @
       cv_title c @ ascii '': '' @ cv_reason c)"

definition assurance_summary_lines :: "(str \<Rightarrow> str) \<Rightarrow> assurance_report \<Rightarrow> printed list" where
  "assurance_summary_lines upper_of r =
     (let musts = must_verdicts (as_controls r)
      in [Out [], Out (ascii ''CoSAI assurance Level '' @ dump_int (as_level r) @ ascii '' ('' @ as_version r @ ascii ''): '' @
                        upper_of (level_result_name (as_result r))),
          Out (ascii ''  MUST controls: '' @ digits (length musts) @ [32, 8212] @ ascii '' pass '' @ claim_count r VPass @
               ascii '', attested '' @ claim_count r VAttested @ ascii '', fail '' @ claim_count r VFail @
               ascii '', unverified '' @ claim_count r VUnverified)] @
         map (must_line upper_of) (filter (\<lambda>c. cv_verdict c \<in> {VFail, VUnverified}) musts))"

text \<open>Every failing or unverified MUST control has its line, and no other.\<close>

lemma gaps_listed:
  assumes "c \<in> set (as_controls r)" and "cv_strength c = Some Must" and "cv_verdict c = VFail \<or> cv_verdict c = VUnverified"
  shows "must_line upper_of c \<in> set (assurance_summary_lines upper_of r)"
  using assms by (auto simp: assurance_summary_lines_def Let_def must_verdicts_def)

lemma no_gap_no_line:
  "\<forall>c \<in> set (as_controls r). cv_strength c = Some Must \<longrightarrow> cv_verdict c \<notin> {VFail, VUnverified} \<Longrightarrow>
     length (assurance_summary_lines upper_of r) = 3"
  by (auto simp: assurance_summary_lines_def Let_def must_verdicts_def filter_empty_conv)

section \<open>Incidents\<close>

definition finding_line :: "(json \<Rightarrow> str) \<Rightarrow> finding_summary \<Rightarrow> printed" where
  "finding_line show_text f =
     Out (ascii ''  ['' @ show_text (fs_severity f) @ ascii ''] '' @ fs_probe_id f @ ascii '' / '' @ fs_threat_id f)"

definition ir_status_lines :: "(json \<Rightarrow> str) \<Rightarrow> incident \<Rightarrow> printed list" where
  "ir_status_lines show_text i =
     [Out (ascii ''Incident ID  : '' @ in_id i), Out (ascii ''Target       : '' @ in_target_url i),
      Out (ascii ''Severity     : '' @ incident_severity_name (in_severity i)), Out (ascii ''Timestamp    : '' @ in_timestamp i),
      Out (ascii ''Findings     : '' @ digits (length (in_findings i)))] @
     (if in_rules i = [] then [] else [Out (ascii ''Anomaly rules: '' @ comma_join (in_rules i))]) @
     [Out (ascii ''Rec. actions : '' @ comma_join (map action_name (in_actions i)))] @
     (if in_findings i = [] then [] else Out ([10] @ ascii ''Findings:'') # map (finding_line show_text) (in_findings i))"

definition ir_status_run ::
    "py_text \<Rightarrow> (json \<Rightarrow> load_error + int) \<Rightarrow> (json \<Rightarrow> str) \<Rightarrow> str \<Rightarrow> json option \<Rightarrow> cli_end \<times> printed list" where
  "ir_status_run pt to_int show_text err content =
     (case load_incident pt to_int content of
        Inl CaughtError \<Rightarrow> (Exit 2, [Err (ascii ''[ERROR] Invalid incident file: '' @ err)])
      | Inl OtherError \<Rightarrow> (Uncaught, [])
      | Inr i \<Rightarrow> (Exit 0, ir_status_lines show_text i))"

lemma ir_status_code: "fst (ir_status_run pt to_int show_text err content) = ir_status pt to_int content"
  by (simp add: ir_status_run_def ir_status_def split: sum.split load_error.split)

section \<open>Text that a file controls reaches the terminal\<close>

text \<open>Only the profile version of a claim is freed of control characters; the target of a card is printed as it is,
  also when its signature was not checked.\<close>

lemma claim_free_of_controls: "\<forall>c \<in> set (control_free s). 32 \<le> c \<and> c \<noteq> 127"
  by (auto simp: control_free_def dest: in_set_takeD)

lemma target_printed_raw:
  "Out (ascii ''  Target     : '' @ sk_target_url s) \<in> set (scorecard_lines s has_signature verified)"
  by (simp add: scorecard_lines_def)

end
