(* ===== verification/Cli_Options.thy ===== *)
theory Cli_Options
  imports Cli_Scan
begin

text \<open>
  The declaration of the \<open>scan\<close> command in \<open>cli.py\<close>: its table of options with types, defaults, hidden marks and
  environment variables (the help texts are left out), the defaults as the options record of \<open>Cli_Scan\<close>, and the two
  help pages, of which only the advanced one lists hidden options. How a command line is split is \<open>click\<close>'s.
\<close>

section \<open>The table\<close>

datatype path_kind = AnyPath | FileOnly | DirOnly

datatype option_type =
    Switch
  | FreeText
  | IntArg
  | FloatArg
  | IntIn int int
  | OneOf "string list" bool
  | FilePath bool path_kind

datatype option_default = NoDefault | DBool bool | DInt int | DFloat int | DText string

record cli_option =
  op_flags :: string
  op_dest :: string
  op_type :: option_type
  op_default :: option_default
  op_hidden :: bool
  op_env :: "string option"

definition option_row :: "string \<Rightarrow> string \<Rightarrow> option_type \<Rightarrow> option_default \<Rightarrow> bool \<Rightarrow> string option \<Rightarrow> cli_option" where
  "option_row flags dest t d hidden env =
     \<lparr>op_flags = flags, op_dest = dest, op_type = t, op_default = d, op_hidden = hidden, op_env = env\<rparr>"

definition scan_target_options :: "cli_option list" where
  "scan_target_options =
     [option_row ''--help-advanced'' ''help_advanced'' Switch NoDefault False None,
      option_row ''--targets'' ''targets_path'' (FilePath True FileOnly) NoDefault True None,
      option_row ''--fleet-concurrency'' ''fleet_concurrency'' IntArg (DInt 5) True None,
      option_row ''--fleet-target-timeout'' ''fleet_target_timeout'' FloatArg (DFloat 600) True None,
      option_row ''--categories'' ''categories'' FreeText (DText ''all'') False None,
      option_row ''--engine'' ''engine'' (OneOf [''prober'', ''stateful'', ''all''] False) (DText ''all'') False None,
      option_row ''--fail-on'' ''fail_on'' (OneOf [''critical'', ''high'', ''medium'', ''low''] False) (DText ''high'') False None,
      option_row ''--baseline'' ''baseline_path'' (FilePath True FileOnly) NoDefault False None,
      option_row ''--allow-custom-catalog'' ''allow_custom_catalog'' Switch (DBool False) True None,
      option_row ''--report-sarif'' ''report_sarif'' (FilePath False AnyPath) NoDefault False None,
      option_row ''--report-html'' ''report_html'' (FilePath False AnyPath) NoDefault False None,
      option_row ''--no-report'' ''no_report'' Switch (DBool False) True None,
      option_row ''--report-mode'' ''report_mode'' (OneOf [''full'', ''developer'', ''executive'', ''ci''] False) (DText ''full'') False None,
      option_row ''--report-csv'' ''report_csv'' (FilePath False AnyPath) NoDefault True None,
      option_row ''--report-coverage'' ''report_coverage'' Switch (DBool False) True None,
      option_row ''--probe-timeout'' ''probe_timeout'' FloatArg (DFloat 30) True None,
      option_row ''--probe-delay'' ''probe_delay'' FloatArg (DFloat 0) True None,
      option_row ''--allow-private-targets/--block-private-targets'' ''allow_private_targets'' Switch (DBool True) True None,
      option_row ''--catalog-root'' ''catalog_root'' (FilePath True DirOnly) NoDefault True None,
      option_row ''--auth-token'' ''auth_token'' FreeText NoDefault True (Some ''COSAI_AUTH_TOKEN''),
      option_row ''--read-token'' ''read_token'' FreeText NoDefault True (Some ''COSAI_READ_TOKEN''),
      option_row ''--mcp-path'' ''mcp_path'' FreeText (DText ''/mcp'') True None]"

definition scan_mode_options :: "cli_option list" where
  "scan_mode_options =
     [option_row ''--no-adaptive'' ''no_adaptive'' Switch (DBool False) True None,
      option_row ''--pii-strict'' ''pii_strict'' Switch (DBool False) True None,
      option_row ''--profile'' ''profile'' FreeText NoDefault False None,
      option_row ''--allow-custom-profiles'' ''allow_custom_profiles'' Switch (DBool False) True None,
      option_row ''--adversarial'' ''adversarial'' Switch (DBool False) True None,
      option_row ''--i-own-this-target'' ''i_own_this_target'' FreeText NoDefault True None,
      option_row ''--allow-stateful-adversarial'' ''allow_stateful_adversarial'' Switch (DBool False) True None,
      option_row ''--report-adversarial-html'' ''report_adversarial_html'' (FilePath False AnyPath) NoDefault True None,
      option_row ''--skip-reachability'' ''skip_reachability'' Switch (DBool False) True None,
      option_row ''--emit-to'' ''emit_to'' FreeText NoDefault True (Some ''COSAI_EMIT_TO''),
      option_row ''--emit-auth-header'' ''emit_auth_header'' FreeText NoDefault True (Some ''COSAI_EMIT_AUTH''),
      option_row ''--anomaly-threshold'' ''anomaly_threshold'' IntArg (DInt 10) True None,
      option_row ''--critical-burst-threshold'' ''critical_burst_threshold'' IntArg (DInt 3) True None,
      option_row ''--contain-on-anomaly'' ''contain_on_anomaly'' Switch (DBool False) True None,
      option_row ''--ir-report'' ''ir_report'' (FilePath False AnyPath) NoDefault True None,
      option_row ''--scorecard'' ''scorecard_path'' (FilePath False AnyPath) NoDefault True None,
      option_row ''--no-sign-scorecard'' ''no_sign_scorecard'' Switch (DBool False) True None,
      option_row ''--sigstore-sign'' ''sigstore_sign'' Switch (DBool False) True None,
      option_row ''--sigstore-staging'' ''sigstore_staging'' Switch (DBool False) True None,
      option_row ''--experimental'' ''experimental'' Switch (DBool False) True None,
      option_row ''--method-overrides'' ''method_overrides'' FreeText NoDefault True None,
      option_row ''--tool-allowlist'' ''tool_allowlist'' FreeText NoDefault True None,
      option_row ''--expected-catalog-hash'' ''expected_catalog_hash'' FreeText NoDefault True None,
      option_row ''--protocol-era'' ''protocol_era'' (OneOf [''auto'', ''modern'', ''legacy''] True) (DText ''auto'') True None,
      option_row ''--assurance-level'' ''assurance_level'' (IntIn 1 4) NoDefault True None,
      option_row ''--evidence'' ''evidence_dir'' (FilePath True DirOnly) NoDefault True None,
      option_row ''--foreign-audience-token'' ''foreign_audience_token'' FreeText NoDefault True (Some ''COSAI_FOREIGN_AUDIENCE_TOKEN''),
      option_row ''--report-assurance'' ''report_assurance'' (FilePath False AnyPath) NoDefault True None]"

definition scan_option_table :: "cli_option list" where
  "scan_option_table = scan_target_options @ scan_mode_options"

section \<open>The defaults\<close>

definition default_scan_options :: scan_options where
  "default_scan_options =
     \<lparr>cs_target = None, cs_targets_file = None, cs_concurrency = 5, cs_timeout_text = ascii ''600'',
      cs_categories = ascii ''all'', cs_engine = ascii ''all'', cs_fail_on = ascii ''high'', cs_baseline = None,
      cs_allow_custom_catalog = False, cs_report_sarif = None, cs_report_html = None, cs_no_report = False,
      cs_report_mode = ascii ''full'', cs_report_csv = None, cs_allow_private = True, cs_catalog_root = None,
      cs_auth_token = None, cs_read_token = None, cs_mcp_path = ascii ''/mcp'', cs_no_adaptive = False,
      cs_pii_strict = False, cs_profile = None, cs_allow_custom_profiles = False, cs_adversarial = False,
      cs_own = None, cs_allow_stateful = False, cs_report_adversarial = None, cs_skip_reachability = False,
      cs_contain = False, cs_ir_report = None, cs_emit_to = None, cs_emit_auth = None, cs_anomaly_threshold = 10,
      cs_burst_threshold = 3, cs_scorecard = None, cs_no_sign = False, cs_sigstore_sign = False,
      cs_sigstore_staging = False, cs_experimental = False, cs_method_overrides = None, cs_tool_allowlist = None,
      cs_expected_hash = None, cs_era = ascii ''auto'', cs_level = None, cs_evidence = None,
      cs_report_assurance = None, cs_foreign_token = None\<rparr>"

definition text_default :: "str \<Rightarrow> string \<Rightarrow> option_default" where
  "text_default s t = (if s = ascii t then DText t else NoDefault)"

definition no_default :: "'a option \<Rightarrow> option_default" where
  "no_default x = (case x of None \<Rightarrow> NoDefault | Some _ \<Rightarrow> DBool True)"

text \<open>The fields of the record under the names of the parameters, in the order of the declaration. The parameters that
  the record leaves out are those of the floats, the coverage flag and the eager help.\<close>

definition record_defaults :: "scan_options \<Rightarrow> (string \<times> option_default) list" where
  "record_defaults o' =
     [(''targets_path'', no_default (cs_targets_file o')), (''fleet_concurrency'', DInt (cs_concurrency o')),
      (''categories'', text_default (cs_categories o') ''all''), (''engine'', text_default (cs_engine o') ''all''),
      (''fail_on'', text_default (cs_fail_on o') ''high''), (''baseline_path'', no_default (cs_baseline o')),
      (''allow_custom_catalog'', DBool (cs_allow_custom_catalog o')), (''report_sarif'', no_default (cs_report_sarif o')),
      (''report_html'', no_default (cs_report_html o')), (''no_report'', DBool (cs_no_report o')),
      (''report_mode'', text_default (cs_report_mode o') ''full''), (''report_csv'', no_default (cs_report_csv o')),
      (''allow_private_targets'', DBool (cs_allow_private o')), (''catalog_root'', no_default (cs_catalog_root o')),
      (''auth_token'', no_default (cs_auth_token o')), (''read_token'', no_default (cs_read_token o')),
      (''mcp_path'', text_default (cs_mcp_path o') ''/mcp''), (''no_adaptive'', DBool (cs_no_adaptive o')),
      (''pii_strict'', DBool (cs_pii_strict o')), (''profile'', no_default (cs_profile o')),
      (''allow_custom_profiles'', DBool (cs_allow_custom_profiles o')), (''adversarial'', DBool (cs_adversarial o')),
      (''i_own_this_target'', no_default (cs_own o')), (''allow_stateful_adversarial'', DBool (cs_allow_stateful o')),
      (''report_adversarial_html'', no_default (cs_report_adversarial o')),
      (''skip_reachability'', DBool (cs_skip_reachability o')), (''emit_to'', no_default (cs_emit_to o')),
      (''emit_auth_header'', no_default (cs_emit_auth o')), (''anomaly_threshold'', DInt (cs_anomaly_threshold o')),
      (''critical_burst_threshold'', DInt (cs_burst_threshold o')), (''contain_on_anomaly'', DBool (cs_contain o')),
      (''ir_report'', no_default (cs_ir_report o')), (''scorecard_path'', no_default (cs_scorecard o')),
      (''no_sign_scorecard'', DBool (cs_no_sign o')), (''sigstore_sign'', DBool (cs_sigstore_sign o')),
      (''sigstore_staging'', DBool (cs_sigstore_staging o')), (''experimental'', DBool (cs_experimental o')),
      (''method_overrides'', no_default (cs_method_overrides o')), (''tool_allowlist'', no_default (cs_tool_allowlist o')),
      (''expected_catalog_hash'', no_default (cs_expected_hash o')), (''protocol_era'', text_default (cs_era o') ''auto''),
      (''assurance_level'', no_default (cs_level o')), (''evidence_dir'', no_default (cs_evidence o')),
      (''foreign_audience_token'', no_default (cs_foreign_token o')),
      (''report_assurance'', no_default (cs_report_assurance o'))]"

definition outside_record :: "string list" where
  "outside_record = [''help_advanced'', ''fleet_target_timeout'', ''report_coverage'', ''probe_timeout'', ''probe_delay'']"

lemma defaults_agree:
  "record_defaults default_scan_options =
     map (\<lambda>o'. (op_dest o', op_default o')) (filter (\<lambda>o'. op_dest o' \<notin> set outside_record) scan_option_table)"
  by (simp add: record_defaults_def default_scan_options_def scan_option_table_def scan_target_options_def scan_mode_options_def option_row_def outside_record_def
      text_default_def no_default_def del: ascii_simps)

lemma destinations_distinct: "distinct (map op_dest scan_option_table)"
  by (simp add: scan_option_table_def scan_target_options_def scan_mode_options_def option_row_def)

text \<open>A default is a choice of its option.\<close>

definition default_allowed :: "cli_option \<Rightarrow> bool" where
  "default_allowed o' =
     (case (op_type o', op_default o') of
        (OneOf cs _, DText d) \<Rightarrow> d \<in> set cs
      | (OneOf _ _, _) \<Rightarrow> False
      | _ \<Rightarrow> True)"

lemma defaults_are_choices: "list_all default_allowed scan_option_table"
  by (simp add: scan_option_table_def scan_target_options_def scan_mode_options_def option_row_def default_allowed_def)

section \<open>Help\<close>

text \<open>The signal is kept in the context of one invocation. Listing a hidden option shows it for the moment of its
  record only, so the table is the same afterwards.\<close>

definition help_records :: "bool \<Rightarrow> cli_option list \<Rightarrow> string list" where
  "help_records show_advanced table =
     map op_flags (filter (\<lambda>o'. \<not> op_hidden o' \<or> show_advanced) table)"

definition help_footer :: "bool \<Rightarrow> string list" where
  "help_footer show_advanced =
     (if show_advanced then []
      else [''Run with --help-advanced to see all options (reporting, adversarial mode, profiles, IR/SIEM, timeouts).''])"

lemma plain_help:
  "help_records False scan_option_table =
     [''--help-advanced'', ''--categories'', ''--engine'', ''--fail-on'', ''--baseline'', ''--report-sarif'', ''--report-html'',
      ''--report-mode'', ''--profile'']"
  by (simp add: help_records_def scan_option_table_def scan_target_options_def scan_mode_options_def option_row_def)

lemma advanced_help_complete: "help_records True table = map op_flags table"
  by (simp add: help_records_def)

section \<open>The default scan\<close>

text \<open>A scan with nothing but a target is refused by none of the checks of the options.\<close>

lemma default_scan_accepted:
  "scan_command e (default_scan_options\<lparr>cs_target := Some (c # t)\<rparr>) =
     single_command e (default_scan_options\<lparr>cs_target := Some (c # t)\<rparr>) (c # t)"
  by (simp add: scan_command_def options_refused_def experimental_used_def default_scan_options_def)

text \<open>An exported \<open>COSAI_EMIT_TO\<close> is the option \<open>--emit-to\<close>: without \<open>--experimental\<close> every scan then ends with 2.\<close>

lemma exported_emit_to_refused:
  "scan_command e (default_scan_options\<lparr>cs_target := target, cs_emit_to := Some (c # u)\<rparr>) = (Exit 2, [])"
  by (simp add: scan_command_def options_refused_def experimental_used_def default_scan_options_def)

lemma environment_variables:
  "map (\<lambda>o'. (op_dest o', the (op_env o'))) (filter (\<lambda>o'. op_env o' \<noteq> None) scan_option_table) =
     [(''auth_token'', ''COSAI_AUTH_TOKEN''), (''read_token'', ''COSAI_READ_TOKEN''), (''emit_to'', ''COSAI_EMIT_TO''),
      (''emit_auth_header'', ''COSAI_EMIT_AUTH''), (''foreign_audience_token'', ''COSAI_FOREIGN_AUDIENCE_TOKEN'')]"
  by (simp add: scan_option_table_def scan_target_options_def scan_mode_options_def option_row_def)

end
