(* ===== verification/Dpop_Client.thy ===== *)
theory Dpop_Client
  imports Jwt_Session
begin

text \<open>
  \<open>SessionBoundIdentity\<close> of \<open>middleware/auth.py\<close>: the DPoP proofs that the scanner sends, checked against the verifier of
  \<open>Jwt_Session\<close>. The key pair is a value of type \<open>'k\<close> with its raw public and private bytes; \<open>jwt.encode\<close> of
  \<open>joserfc\<close> is the argument \<open>encode\<close>, on the header, the claims and the key as a JWK. The uuid, the wall clock, the
  clock of the cache and Unicode upper-casing are arguments.
\<close>

section \<open>The identity\<close>

record 'k bound_identity =
  bi_key :: 'k
  bi_cache :: "str jti_cache"

definition new_bound_identity :: "'k \<Rightarrow> 'k bound_identity" where
  "new_bound_identity generated = \<lparr>bi_key = generated, bi_cache = new_jti_cache 10000 300\<rparr>"

definition proof_b64url :: "byte list \<Rightarrow> str" where
  "proof_b64url data = rstrip_eq (b64encode True data)"

record 'k key_bytes =
  kb_public :: "'k \<Rightarrow> byte list"
  kb_private :: "'k \<Rightarrow> byte list"

definition public_jwk :: "'k key_bytes \<Rightarrow> 'k \<Rightarrow> claims" where
  "public_jwk kb k =
     [(ascii ''kty'', JStr (ascii ''OKP'')), (ascii ''crv'', JStr (ascii ''Ed25519'')),
      (ascii ''x'', JStr (proof_b64url (kb_public kb k)))]"

definition private_jwk :: "'k key_bytes \<Rightarrow> 'k \<Rightarrow> claims" where
  "private_jwk kb k =
     [(ascii ''kty'', JStr (ascii ''OKP'')), (ascii ''crv'', JStr (ascii ''Ed25519'')),
      (ascii ''x'', JStr (proof_b64url (kb_public kb k))), (ascii ''d'', JStr (proof_b64url (kb_private kb k)))]"

definition proof_header :: "claims \<Rightarrow> claims" where
  "proof_header jwk =
     [(ascii ''alg'', JStr (ascii ''EdDSA'')), (ascii ''typ'', JStr (ascii ''dpop+jwt'')), (ascii ''jwk'', JDict jwk)]"

text \<open>\<open>int\<close> of a float drops the fraction.\<close>

definition whole_seconds :: "time \<Rightarrow> int" where
  "whole_seconds t = (if 0 \<le> t then \<lfloor>t\<rfloor> else \<lceil>t\<rceil>)"

definition proof_payload :: "(str \<Rightarrow> str) \<Rightarrow> str \<Rightarrow> str \<Rightarrow> str option \<Rightarrow> time \<Rightarrow> str \<Rightarrow> claims" where
  "proof_payload upper_case http_verb url nonce now jti =
     [(ascii ''htm'', JStr (upper_case http_verb)), (ascii ''htu'', JStr url), (ascii ''iat'', JInt (whole_seconds now)),
      (ascii ''jti'', JStr jti)] @ (case nonce of None \<Rightarrow> [] | Some n \<Rightarrow> [(ascii ''nonce'', JStr n)])"

text \<open>\<open>None\<close> is the \<open>RuntimeError\<close> of a missing package. The answer of the cache is not read.\<close>

definition generate_dpop_proof :: "'k key_bytes \<Rightarrow> (claims \<Rightarrow> claims \<Rightarrow> claims \<Rightarrow> str) \<Rightarrow> (str \<Rightarrow> str) \<Rightarrow> bool \<Rightarrow> str \<Rightarrow> str \<Rightarrow>
    str option \<Rightarrow> str \<Rightarrow> time \<Rightarrow> time \<Rightarrow> 'k bound_identity \<Rightarrow> str option \<times> 'k bound_identity" where
  "generate_dpop_proof kb encode upper_case available http_verb url nonce uuid now tick b =
     (if \<not> available then (None, b)
      else case check_and_add uuid tick (bi_cache b) of
        (_, cache) \<Rightarrow>
          (Some (encode (proof_header (public_jwk kb (bi_key b))) (proof_payload upper_case http_verb url nonce now uuid)
                   (private_jwk kb (bi_key b))),
           b\<lparr>bi_cache := cache\<rparr>))"

section \<open>What \<open>joserfc\<close> promises\<close>

text \<open>An encoded token has three parts, the first of which is its header, and it decodes to its claims under the public
  part of the key that signed it.\<close>

definition jose_ok :: "'k key_bytes \<Rightarrow> (claims \<Rightarrow> claims \<Rightarrow> claims \<Rightarrow> str) \<Rightarrow> (str \<Rightarrow> claims \<Rightarrow> json \<Rightarrow> claims option) \<Rightarrow> bool" where
  "jose_ok kb encode decode_jwk \<longleftrightarrow>
     (\<forall>k h c. json_ok (JDict h) \<longrightarrow> json_ok (JDict c) \<longrightarrow>
        (\<exists>p q r. split_on (\<lambda>x. x = 46) (encode h c (private_jwk kb k)) = [p, q, r] \<and> b64url_header p = Some (JDict h)) \<and>
        decode_jwk (encode h c (private_jwk kb k)) (public_jwk kb k) (JStr (ascii ''EdDSA'')) = Some c)"

lemma jose_okD:
  assumes "jose_ok kb encode decode_jwk" "json_ok (JDict h)" "json_ok (JDict c)"
  obtains p q r where "split_on (\<lambda>x. x = 46) (encode h c (private_jwk kb k)) = [p, q, r]" "b64url_header p = Some (JDict h)"
    "decode_jwk (encode h c (private_jwk kb k)) (public_jwk kb k) (JStr (ascii ''EdDSA'')) = Some c"
  using assms unfolding jose_ok_def by blast

section \<open>A proof passes the verifier\<close>

lemma ascii_text_ok: "\<forall>c \<in> set s. c < 128 \<Longrightarrow> str_ok s"
  by (induction s) (auto simp: high_surrogate_def)

lemma proof_b64url_ascii: "\<forall>c \<in> set (proof_b64url bs). c < 128"
  using b64_body_range [of _ True bs] by (fastforce simp: proof_b64url_def rstrip_b64encode)

lemma ascii_literal_ok: "\<forall>c \<in> set s. of_char c < (128 :: nat) \<Longrightarrow> str_ok (ascii s)"
  by (rule ascii_text_ok) (auto simp: ascii_def)

lemma proof_header_ok: "json_ok (JDict (proof_header (public_jwk kb k)))"
  using ascii_text_ok [OF proof_b64url_ascii] by (simp add: proof_header_def public_jwk_def high_surrogate_def)

lemma proof_payload_ok:
  assumes "\<forall>s \<in> {upper_case http_verb, url, uuid} \<union> set_option nonce. str_ok s"
  shows "json_ok (JDict (proof_payload upper_case http_verb url nonce now uuid))"
  using assms by (cases nonce) (simp_all add: proof_payload_def high_surrogate_def)

lemma proof_header_passes:
  "check_proof_header (proof_header (public_jwk kb k)) = None"
  "claim_or (proof_header (public_jwk kb k)) (ascii ''jwk'') JNull = JDict (public_jwk kb k)"
  "claim_or (proof_header (public_jwk kb k)) (ascii ''alg'') (JStr []) = JStr (ascii ''EdDSA'')"
  by (simp_all add: check_proof_header_def proof_header_def public_jwk_def claim_or_def falsy_def num_is_def)

lemma payload_claims:
  "claim_or (proof_payload upper_case http_verb url nonce now uuid) (ascii ''htm'') d = JStr (upper_case http_verb)"
  "claim_or (proof_payload upper_case http_verb url nonce now uuid) (ascii ''htu'') d = JStr url"
  "claim_or (proof_payload upper_case http_verb url nonce now uuid) (ascii ''iat'') d = JInt (whole_seconds now)"
  "claim_or (proof_payload upper_case http_verb url nonce now uuid) (ascii ''jti'') d = JStr uuid"
  "claim_or (proof_payload upper_case http_verb url nonce now uuid) (ascii ''ath'') d = d"
  by (simp_all add: proof_payload_def claim_or_def split: option.split)

lemma payload_passes:
  assumes "upper_case (upper_case http_verb) = upper_case expected_method"
    and "\<bar>later - of_int (whole_seconds now)\<bar> \<le> max_age"
  shows "check_proof_claims upper_case pf expected_method url max_age later
           (proof_payload upper_case http_verb url nonce now uuid) = None"
  using assms by (simp add: check_proof_claims_def payload_claims py_float_def number_of_def further_than_def del: ascii_simps)

text \<open>What the verifier does with a proof of the scanner, in every case of the last two checks.\<close>

lemma generated_proof_outcome:
  assumes jose: "jose_ok kb encode decode_jwk"
    and gen: "fst (generate_dpop_proof kb encode upper_case True http_verb url nonce uuid now tick b) = Some token"
    and oks: "\<forall>s \<in> {upper_case http_verb, url, uuid} \<union> set_option nonce. str_ok s"
    and meth: "upper_case (upper_case http_verb) = upper_case expected_method"
    and age: "\<bar>later - of_int (whole_seconds now)\<bar> \<le> max_age" and jti: "uuid \<noteq> []"
  shows "verify_dpop_proof decode_jwk repr upper_case pf sha token expected_method url bound max_age later vtick sm =
     (case check_and_add (dpop_key uuid) vtick (sm_jti_cache sm) of
        (fresh, cache) \<Rightarrow>
          (if \<not> fresh then Inl JtiReplay
           else case check_ath sha bound (proof_payload upper_case http_verb url nonce now uuid) of Some e \<Rightarrow> Inl e | None \<Rightarrow> Inr (),
           sm\<lparr>sm_jti_cache := cache\<rparr>))"
proof -
  let ?h = "proof_header (public_jwk kb (bi_key b))" and ?c = "proof_payload upper_case http_verb url nonce now uuid"
  have tok: "token = encode ?h ?c (private_jwk kb (bi_key b))"
    using gen by (simp add: generate_dpop_proof_def split: prod.splits)
  obtain p q r where j: "split_on (\<lambda>x. x = 46) token = [p, q, r]" "b64url_header p = Some (JDict ?h)"
    "decode_jwk token (public_jwk kb (bi_key b)) (JStr (ascii ''EdDSA'')) = Some ?c"
    unfolding tok using jose_okD [OF jose proof_header_ok proof_payload_ok [where upper_case = upper_case and http_verb = http_verb, OF oks]] by metis
  show ?thesis
    by (simp add: verify_dpop_proof_def j proof_header_passes payload_passes [where http_verb = http_verb, OF meth age] payload_claims
          py_str_def jti del: ascii_simps)
qed

text \<open>A proof presented in time, for its own method and URL, is accepted once.\<close>

theorem generated_proof_accepted:
  assumes "jose_ok kb encode decode_jwk"
    and "fst (generate_dpop_proof kb encode upper_case True http_verb url nonce uuid now tick b) = Some token"
    and "\<forall>s \<in> {upper_case http_verb, url, uuid} \<union> set_option nonce. str_ok s"
    and "upper_case (upper_case http_verb) = upper_case expected_method"
    and "\<bar>later - of_int (whole_seconds now)\<bar> \<le> max_age" and "uuid \<noteq> []"
    and "fst (check_and_add (dpop_key uuid) vtick (sm_jti_cache sm))"
  shows "verify_dpop_proof decode_jwk repr upper_case pf sha token expected_method url None max_age later vtick sm =
           (Inr (), sm\<lparr>sm_jti_cache := snd (check_and_add (dpop_key uuid) vtick (sm_jti_cache sm))\<rparr>)"
  using generated_proof_outcome [OF assms(1-6), where bound = None and sm = sm and vtick = vtick]
    assms(7) by (simp add: check_ath_def case_prod_beta')

theorem generated_proof_once:
  assumes "jose_ok kb encode decode_jwk"
    and "fst (generate_dpop_proof kb encode upper_case True http_verb url nonce uuid now tick b) = Some token"
    and "\<forall>s \<in> {upper_case http_verb, url, uuid} \<union> set_option nonce. str_ok s"
    and "upper_case (upper_case http_verb) = upper_case expected_method"
    and "\<bar>later' - of_int (whole_seconds now)\<bar> \<le> max_age" and "uuid \<noteq> []"
    and good: "jti_good (sm_jti_cache sm)" and first: "fst (check_and_add (dpop_key uuid) vtick (sm_jti_cache sm))"
    and win: "vtick \<le> vtick'" "vtick' < vtick + jc_ttl (sm_jti_cache sm)"
  shows "fst (verify_dpop_proof decode_jwk repr upper_case pf sha token expected_method url bound max_age later' vtick'
           (sm\<lparr>sm_jti_cache := snd (check_and_add (dpop_key uuid) vtick (sm_jti_cache sm))\<rparr>)) = Inl JtiReplay"
proof -
  let ?c = "sm_jti_cache sm"
  have "\<not> fst (check_and_add (dpop_key uuid) vtick' (snd (check_and_add (dpop_key uuid) vtick ?c)))"
    using jti.no_replay [of ?c "dpop_key uuid" vtick "[]" vtick' "dpop_key uuid"] good first win by simp
  then show ?thesis
    using generated_proof_outcome [OF assms(1-6), where bound = bound and vtick = vtick' and
        sm = "sm\<lparr>sm_jti_cache := snd (check_and_add (dpop_key uuid) vtick ?c)\<rparr>"]
    by (simp add: case_prod_beta')
qed

text \<open>The claim \<open>ath\<close> is never made, so a verifier that binds the proof to an access token refuses it, after it has spent
  its identifier.\<close>

lemma generated_proof_unbound:
  assumes "jose_ok kb encode decode_jwk"
    and "fst (generate_dpop_proof kb encode upper_case True http_verb url nonce uuid now tick b) = Some token"
    and "\<forall>s \<in> {upper_case http_verb, url, uuid} \<union> set_option nonce. str_ok s"
    and "upper_case (upper_case http_verb) = upper_case expected_method"
    and "\<bar>later - of_int (whole_seconds now)\<bar> \<le> max_age" and "uuid \<noteq> []"
    and "fst (check_and_add (dpop_key uuid) vtick (sm_jti_cache sm))" and "\<forall>c \<in> set access_token. c < 128"
  shows "verify_dpop_proof decode_jwk repr upper_case pf sha token expected_method url (Some access_token) max_age later vtick sm =
           (Inl AthMismatch, sm\<lparr>sm_jti_cache := snd (check_and_add (dpop_key uuid) vtick (sm_jti_cache sm))\<rparr>)"
proof -
  have "check_ath sha (Some access_token) (proof_payload upper_case http_verb url nonce now uuid) = Some AthMismatch"
    using assms(8) by (auto simp: check_ath_def payload_claims not_le simp del: ascii_simps)
  then show ?thesis
    using generated_proof_outcome [OF assms(1-6), where bound = "Some access_token" and sm = sm and vtick = vtick]
      assms(7) by (simp add: case_prod_beta')
qed

text \<open>The cache of the identity prevents nothing: an identifier that it refuses still makes a proof.\<close>

lemma refused_identifier_still_proves:
  assumes "\<not> fst (check_and_add uuid tick (bi_cache b))"
  shows "fst (generate_dpop_proof kb encode upper_case True http_verb url nonce uuid now tick b) \<noteq> None"
  by (simp add: generate_dpop_proof_def split: prod.split)

lemma identity_key_kept [simp]:
  "bi_key (snd (generate_dpop_proof kb encode upper_case available http_verb url nonce uuid now tick b)) = bi_key b"
  by (simp add: generate_dpop_proof_def split: prod.split)

section \<open>The promise can be kept\<close>

text \<open>An encoder in the compact form of a signed token, with the public part of the key in the place of a signature.\<close>

definition sample_encode :: "claims \<Rightarrow> claims \<Rightarrow> claims \<Rightarrow> str" where
  "sample_encode h c jwk =
     proof_b64url (map byte_of (compact (JDict h))) @ 46 # proof_b64url (map byte_of (compact (JDict c))) @
     46 # (case claim_or jwk (ascii ''x'') JNull of JStr x \<Rightarrow> x | _ \<Rightarrow> [])"

definition sample_decode_jwk :: "str \<Rightarrow> claims \<Rightarrow> json \<Rightarrow> claims option" where
  "sample_decode_jwk token jwk alg =
     (case split_on (\<lambda>x. x = 46) token of
        [_, q, r] \<Rightarrow> if claim_or jwk (ascii ''x'') JNull \<noteq> JStr r then None
                     else (case b64url_header q of Some (JDict c) \<Rightarrow> Some c | _ \<Rightarrow> None)
      | _ \<Rightarrow> None)"

lemma no_dot: "46 \<notin> set (proof_b64url bs)"
proof -
  have "n < 64 \<Longrightarrow> b64_digit True n \<noteq> 46" for n by (auto simp: b64_digit_def)
  then have "c \<in> set (b64_body True bs) \<Longrightarrow> c \<noteq> 46" for c
    by (induction bs rule: triple_induct) (auto simp: sextets)
  then show ?thesis by (auto simp: proof_b64url_def rstrip_b64encode)
qed

lemma split_no_dot: "46 \<notin> set s \<Longrightarrow> split_on (\<lambda>x. x = 46) s = [s]"
  by (induction s) auto

lemma split_at_dot: "46 \<notin> set s \<Longrightarrow> split_on (\<lambda>x. x = 46) (s @ 46 # t) = s # split_on (\<lambda>x. x = 46) t"
  by (induction s) auto

lemma part_decodes: "json_ok v \<Longrightarrow> b64url_header (proof_b64url (map byte_of (compact v))) = Some v"
proof -
  assume "json_ok v"
  then have "loads (compact v) = Some v" by (rule loads_dumps [OF compact_seps(1,2)])
  moreover have "utf8_decode (map byte_of (compact v)) = Some (compact v)"
    by (rule utf8_decode_ascii) (rule dumps_ascii, simp_all)
  ultimately show ?thesis
    unfolding b64url_header_def proof_b64url_def rstrip_b64encode urlsafe_round_trip by simp
qed

lemma sample_jose_ok: "jose_ok kb sample_encode sample_decode_jwk"
proof (unfold jose_ok_def, intro allI impI)
  fix k h c
  assume h: "json_ok (JDict h)" and c: "json_ok (JDict c)"
  let ?p = "proof_b64url (map byte_of (compact (JDict h)))" and ?q = "proof_b64url (map byte_of (compact (JDict c)))"
    and ?x = "proof_b64url (kb_public kb k)"
  have x: "claim_or (private_jwk kb k) (ascii ''x'') JNull = JStr ?x" "claim_or (public_jwk kb k) (ascii ''x'') JNull = JStr ?x"
    by (simp_all add: private_jwk_def public_jwk_def claim_or_def)
  have s: "split_on (\<lambda>x. x = 46) (sample_encode h c (private_jwk kb k)) = [?p, ?q, ?x]"
    by (simp add: sample_encode_def x split_at_dot split_no_dot no_dot del: ascii_simps)
  show "(\<exists>p q r. split_on (\<lambda>x. x = 46) (sample_encode h c (private_jwk kb k)) = [p, q, r] \<and> b64url_header p = Some (JDict h)) \<and>
        sample_decode_jwk (sample_encode h c (private_jwk kb k)) (public_jwk kb k) (JStr (ascii ''EdDSA'')) = Some c"
    using part_decodes [OF h] part_decodes [OF c] by (simp add: s sample_decode_jwk_def x del: ascii_simps)
qed

end
