(* ===== verification/Scan_Pace.thy ===== *)
theory Scan_Pace
  imports Scan_Run Py_Regex
begin

text \<open>
  The pace of a scan (\<open>_extract_retry_after\<close> and the loop over the threats in \<open>api.py\<close>): how long the scanner sleeps
  after each threat, from the rate-limit answers of the target or the configured delay. \<open>html.unescape\<close>, Python's
  \<open>\d\<close> and its \<open>float\<close> of a matched text are the fields of \<open>pace_env\<close>.
\<close>

record pace_env =
  pe_unescape :: "str \<Rightarrow> str"
  pe_digit :: "nat \<Rightarrow> bool"
  pe_float :: "str \<Rightarrow> time"

section \<open>The answer of the target\<close>

definition retry_number :: "(nat \<Rightarrow> bool) \<Rightarrow> rx" where
  "retry_number dig = Seq (Plus (Chr dig)) (Opt (Seq (Chr (\<lambda>c. c = 46)) (Plus (Chr dig))))"

definition retry_pattern :: "(nat \<Rightarrow> bool) \<Rightarrow> rx" where
  "retry_pattern dig =
     Seq (ci (ascii ''retry_after''))
       (Seq (Opt (Chr (\<lambda>c. c = 39 \<or> c = 34)))
         (Seq (Star space) (Seq (Chr (\<lambda>c. c = 58)) (Seq (Star space) (retry_number dig)))))"

text \<open>The group of the number is the rest of the match from its first digit: nothing before it in the pattern is one.\<close>

definition matched_number :: "pace_env \<Rightarrow> str \<Rightarrow> str option" where
  "matched_number e s =
     map_option (\<lambda>(i, j). dropWhile (\<lambda>c. \<not> pe_digit e c) (take (j - i) (drop i s))) (rx_search (retry_pattern (pe_digit e)) s)"

definition retry_in :: "pace_env \<Rightarrow> str \<Rightarrow> time option" where
  "retry_in e raw =
     (if has_sub (ascii ''-32029'') raw then map_option (pe_float e) (matched_number e (pe_unescape e raw)) else None)"

definition result_retry :: "pace_env \<Rightarrow> probe_result \<Rightarrow> time option" where
  "result_retry e r =
     (case Option.bind (pr_error r) (retry_in e) of Some t \<Rightarrow> Some t | None \<Rightarrow> retry_in e (pr_response_body r))"

fun extract_retry_after :: "pace_env \<Rightarrow> probe_result list \<Rightarrow> time option" where
  "extract_retry_after e [] = None"
| "extract_retry_after e (r # rs) =
     (case result_retry e r of
        Some t \<Rightarrow> Some t
      | None \<Rightarrow> if num_is (pr_status_code r) 429 then None else extract_retry_after e rs)"

section \<open>The sleeps of a scan\<close>

definition threat_delay :: "pace_env \<Rightarrow> time \<Rightarrow> probe_result list \<Rightarrow> time" where
  "threat_delay e probe_delay rs = (case extract_retry_after e rs of Some t \<Rightarrow> t | None \<Rightarrow> probe_delay)"

definition threat_sleep :: "pace_env \<Rightarrow> time \<Rightarrow> probe_result list \<Rightarrow> time list" where
  "threat_sleep e probe_delay rs = filter (\<lambda>d. d > 0) [threat_delay e probe_delay rs]"

definition scan_sleeps :: "pace_env \<Rightarrow> time \<Rightarrow> probe_result list list \<Rightarrow> time list" where
  "scan_sleeps e probe_delay rss = concat (map (threat_sleep e probe_delay) rss)"

lemma scan_sleeps_positive: "d \<in> set (scan_sleeps e probe_delay rss) \<Longrightarrow> d > 0"
  by (auto simp: scan_sleeps_def threat_sleep_def split: if_splits)

lemma scan_sleeps_bounded: "length (scan_sleeps e probe_delay rss) \<le> length rss"
  by (induction rss) (auto simp: scan_sleeps_def threat_sleep_def)

text \<open>A target that never sends the code is scanned at the configured pace.\<close>

definition mentions_rate_limit :: "probe_result \<Rightarrow> bool" where
  "mentions_rate_limit r \<longleftrightarrow>
     (\<exists>s \<in> set_option (pr_error r) \<union> {pr_response_body r}. has_sub (ascii ''-32029'') s)"

lemma no_mention_no_retry: "\<not> mentions_rate_limit r \<Longrightarrow> result_retry e r = None"
  by (cases "pr_error r") (simp_all add: mentions_rate_limit_def result_retry_def retry_in_def del: ascii_simps)

lemma quiet_target_delay:
  "\<forall>r \<in> set rs. \<not> mentions_rate_limit r \<Longrightarrow> threat_delay e probe_delay rs = probe_delay"
proof -
  have "\<forall>r \<in> set rs. \<not> mentions_rate_limit r \<Longrightarrow> extract_retry_after e rs = None"
    by (induction rs) (simp_all add: no_mention_no_retry)
  then show "\<forall>r \<in> set rs. \<not> mentions_rate_limit r \<Longrightarrow> threat_delay e probe_delay rs = probe_delay"
    by (simp add: threat_delay_def)
qed

lemma quiet_target_sleeps:
  assumes "\<forall>rs \<in> set rss. \<forall>r \<in> set rs. \<not> mentions_rate_limit r" and "probe_delay > 0"
  shows "scan_sleeps e probe_delay rss = replicate (length rss) probe_delay"
  using assms(1) by (induction rss) (simp_all add: scan_sleeps_def threat_sleep_def quiet_target_delay assms(2))

text \<open>A plain 429 ends the search: what later results say is not read.\<close>

lemma plain_429_ends_search:
  "result_retry e r = None \<Longrightarrow> num_is (pr_status_code r) 429 \<Longrightarrow> threat_delay e probe_delay (r # rs) = probe_delay"
  by (simp add: threat_delay_def)

section \<open>The target chooses the sleep\<close>

lemma search_here: "ends r s 0 = j # js \<Longrightarrow> rx_search r s = Some (0, j)"
  by (simp add: rx_search_def upt_conv_Cons del: upt_Suc)

lemma rep_ends_stuck: "step i = [] \<Longrightarrow> rep_ends step f i = [i]"
  by (cases f) simp_all

lemma rep_ends_run:
  assumes "\<And>k. k < n \<Longrightarrow> step (i + k) = [i + k + 1]" and "step (i + n) = []" and "n \<le> f"
  shows "\<exists>js. rep_ends step f i = (i + n) # js"
  using assms
proof (induction n arbitrary: i f)
  case 0
  then show ?case by (simp add: rep_ends_stuck)
next
  case (Suc n)
  obtain g where g: "f = Suc g" using Suc.prems(3) by (cases f) auto
  have "\<exists>js. rep_ends step g (i + 1) = (i + 1 + n) # js"
    using Suc.prems by (intro Suc.IH) (simp_all add: g, metis Suc_less_eq add_Suc_right)
  moreover have "step i = [i + 1]" using Suc.prems(1) [of 0] by simp
  ultimately show ?case by (auto simp: g)
qed

text \<open>The longest match of the number at a place: all of a run of digits that ends at a character that is neither a
  digit nor a point.\<close>

lemma number_match:
  assumes "drop i s = ds @ c # t" and "ds \<noteq> []" and "\<forall>d \<in> set ds. dig d" and "\<not> dig c" and "c \<noteq> 46"
  shows "\<exists>js. ends (retry_number dig) s i = (i + length ds) # js"
proof -
  have "length (drop i s) = length ds + Suc (length t)" unfolding assms(1) by simp
  then have len: "i + length ds < length s" by simp
  have at: "i + k < length s \<and> s ! (i + k) = (ds @ c # t) ! k" if "k \<le> length ds" for k
    using len that nth_drop [of i s k] by (simp add: assms(1))
  have step: "ends (Chr dig) s (i + k) = [i + k + 1]" if "k < length ds" for k
    using at [of k] that assms(3) by (simp add: nth_append)
  have stop: "ends (Chr dig) s (i + length ds) = []" using at [of "length ds"] assms(4) by simp
  have pos: "0 < length ds" using assms(2) by simp
  then have last: "i + 1 + (length ds - 1) = i + length ds" by simp
  have "\<exists>js. rep_ends (ends (Chr dig) s) (length s - (i + 1)) (i + 1) = (i + 1 + (length ds - 1)) # js"
  proof (rule rep_ends_run)
    show "ends (Chr dig) s (i + 1 + k) = [i + 1 + k + 1]" if "k < length ds - 1" for k
      using step [of "k + 1"] that by (simp add: add.commute add.left_commute)
    show "ends (Chr dig) s (i + 1 + (length ds - 1)) = []" unfolding last by (rule stop)
    show "length ds - 1 \<le> length s - (i + 1)" using len by linarith
  qed
  then obtain js where "rep_ends (ends (Chr dig) s) (length s - (i + 1)) (i + 1) = (i + length ds) # js" using pos by auto
  then have plus: "ends (Plus (Chr dig)) s i = (i + length ds) # js"
    using step [of 0] pos by (simp add: Plus_def)
  have "ends (Opt (Seq (Chr (\<lambda>c. c = 46)) (Plus (Chr dig)))) s (i + length ds) = [i + length ds]"
    using at [of "length ds"] assms(5) by (simp add: Opt_def rep_ends_stuck)
  then show ?thesis by (simp add: retry_number_def plus)
qed

text \<open>Whatever number a target names, that is how long the scanner sleeps: there is no bound on it.\<close>

definition slow_answer :: "str \<Rightarrow> str" where
  "slow_answer ds = ascii ''retry_after:'' @ ds @ ascii '' -32029''"

lemma slow_answer_match:
  assumes "ds \<noteq> []" and "\<forall>d \<in> set ds. dig d" and "\<not> dig 32" and "\<forall>d \<in> set ds. \<not> py_space d"
  shows "\<exists>js. ends (retry_pattern dig) (slow_answer ds) 0 = (12 + length ds) # js"
proof -
  let ?s = "slow_answer ds"
  obtain d ds' where ds: "ds = d # ds'" using assms(1) by (cases ds) auto
  have "drop 12 ?s = ds @ 32 # ascii ''-32029''" by (simp add: slow_answer_def)
  then obtain js where n: "ends (retry_number dig) ?s 12 = (12 + length ds) # js"
    using number_match [of 12 ?s ds 32 "ascii ''-32029''" dig] assms(1-3) by auto
  have word: "ends (ci (ascii ''retry_after'')) ?s 0 = [11]"
    by (simp add: slow_answer_def ci_def ci_eq_def low_letter_def)
  have colon: "?s ! 11 = 58" "11 < length ?s" by (simp_all add: slow_answer_def)
  have digit: "?s ! 12 = d" "12 < length ?s" by (simp_all add: slow_answer_def ds)
  have q: "ends (Opt (Chr (\<lambda>c. c = 39 \<or> c = 34))) ?s 11 = [11]" by (simp add: Opt_def rep_ends_stuck colon)
  have sp1: "ends (Star space) ?s 11 = [11]" by (simp add: space_def rep_ends_stuck colon py_space_def)
  have sp2: "ends (Star space) ?s 12 = [12]" 
    using assms(4) digit(1) unfolding ds by (simp add: space_def rep_ends_stuck)
  have c: "ends (Chr (\<lambda>c. c = 58)) ?s 11 = [12]" by (simp add: colon)
  show ?thesis
    unfolding retry_pattern_def ends.simps(2) word list.map q sp1 c sp2 concat.simps append_Nil2 n by simp
qed

lemma drop_to_digits:
  "\<forall>c \<in> set xs. \<not> P c \<Longrightarrow> ds \<noteq> [] \<Longrightarrow> P (hd ds) \<Longrightarrow> dropWhile (\<lambda>c. \<not> P c) (xs @ ds) = ds"
  by (cases ds) (simp_all add: dropWhile_append2)

theorem target_sets_sleep:
  assumes raw: "pe_unescape e (pr_response_body r) = slow_answer ds" "has_sub (ascii ''-32029'') (pr_response_body r)" "pr_error r = None"
    and ds: "ds \<noteq> []" "\<forall>d \<in> set ds. pe_digit e d" "\<forall>d \<in> set ds. \<not> py_space d"
    and marks: "\<forall>c \<in> insert 32 (set (ascii ''retry_after:'')). \<not> pe_digit e c"
  shows "threat_delay e probe_delay (r # rs) = pe_float e ds"
proof -
  have "\<exists>js. ends (retry_pattern (pe_digit e)) (slow_answer ds) 0 = (12 + length ds) # js"
    using slow_answer_match [OF ds(1,2) _ ds(3)] marks by auto
  then have "rx_search (retry_pattern (pe_digit e)) (slow_answer ds) = Some (0, 12 + length ds)"
    using search_here by blast
  moreover have "take (12 + length ds) (slow_answer ds) = ascii ''retry_after:'' @ ds"
    by (simp add: slow_answer_def take_Suc_Cons eval_nat_numeral del: ascii_simps)
  moreover have "dropWhile (\<lambda>c. \<not> pe_digit e c) (ascii ''retry_after:'' @ ds) = ds"
    using marks ds by (intro drop_to_digits) auto
  ultimately have "matched_number e (slow_answer ds) = Some ds" by (simp add: matched_number_def del: ascii_simps)
  then show ?thesis using raw by (simp add: threat_delay_def result_retry_def retry_in_def)
qed

end
