(* ===== verification/Report_Key.thy ===== *)
theory Report_Key
  imports Signing
begin

text \<open>
  \<open>ReportSigner._load_or_create_key\<close> of \<open>report/sign.py\<close>: the key that reports are signed with, over the key ring as
  state. A generated key is given by its raw bytes. A ring that raises counts as one that is missing: the caller ends both
  without a signature.
\<close>

definition stored_key :: "byte list \<Rightarrow> keyring" where
  "stored_key raw = KeyStored (b64encode False raw)"

definition report_private_key :: "'k ed25519 \<Rightarrow> str \<Rightarrow> byte list \<Rightarrow> keyring \<Rightarrow> 'k key_result \<times> keyring" where
  "report_private_key ed org_var generated ring =
     (case org_signing_key ed org_var of
        OrgKey k \<Rightarrow> (Key k, ring)
      | BadOrgKey \<Rightarrow> (OrgKeyBroken, ring)
      | NoOrgKey \<Rightarrow>
          (case ring of
             NoKeyring \<Rightarrow> (KeyringMissing, ring)
           | KeyAbsent \<Rightarrow> (Key (ed_key ed generated), stored_key generated)
           | KeyStored s \<Rightarrow> (key_of_raw ed (b64decode False s), ring)))"

text \<open>The key of \<open>ReportSigner()\<close>: the one it is given, else the one of the machine.\<close>

definition report_signer_key :: "'k ed25519 \<Rightarrow> 'k option \<Rightarrow> str \<Rightarrow> byte list \<Rightarrow> keyring \<Rightarrow> 'k key_result \<times> keyring" where
  "report_signer_key ed given org_var generated ring =
     (case given of Some k \<Rightarrow> (Key k, ring) | None \<Rightarrow> report_private_key ed org_var generated ring)"

text \<open>A machine keeps its key: what a load gave once, every later load gives, whatever it would generate.\<close>

fun report_loads :: "'k ed25519 \<Rightarrow> str \<Rightarrow> byte list list \<Rightarrow> keyring \<Rightarrow> 'k key_result list \<times> keyring" where
  "report_loads ed org_var [] ring = ([], ring)"
| "report_loads ed org_var (g # gs) ring =
     (case report_private_key ed org_var g ring of
        (r, ring') \<Rightarrow> (case report_loads ed org_var gs ring' of (rs, ring'') \<Rightarrow> (r # rs, ring'')))"

lemma settled_ring:
  assumes "report_private_key ed org_var g ring = (r, ring')" and "length g = 32"
  shows "report_private_key ed org_var g' ring' = (r, ring')"
  using assms
  by (auto simp: report_private_key_def stored_key_def key_of_raw_def b64_round_trip split: org_key.splits keyring.splits)

lemma settled_loads:
  "(\<And>g. report_private_key ed org_var g ring = (r, ring)) \<Longrightarrow>
     report_loads ed org_var gs ring = (replicate (length gs) r, ring)"
  by (induction gs) simp_all

theorem machine_keeps_its_key:
  assumes "length g = 32" and "report_loads ed org_var (g # gs) ring = (r # rs, ring')"
  shows "rs = replicate (length gs) r"
proof -
  obtain ring1 where one: "report_private_key ed org_var g ring = (r, ring1)" and "report_loads ed org_var gs ring1 = (rs, ring')"
    using assms(2) by (auto split: prod.splits)
  then show ?thesis using settled_loads [of ed org_var ring1 r gs] settled_ring [OF one assms(1)] by simp
qed

text \<open>A fleet that shares the variable shares the key, and a broken variable is never replaced by a key of the machine.\<close>

lemma fleet_shares_key: "org_signing_key ed org_var = OrgKey k \<Longrightarrow> report_private_key ed org_var g ring = (Key k, ring)"
  by (simp add: report_private_key_def)

lemma broken_org_key_refused: "org_signing_key ed org_var = BadOrgKey \<Longrightarrow> fst (report_private_key ed org_var g ring) = OrgKeyBroken"
  by (simp add: report_private_key_def)

text \<open>An empty entry of the key ring is a broken key here and a missing one for scorecards, which sign with a fresh key.\<close>

lemma empty_entry_differs:
  assumes "org_signing_key ed org_var = NoOrgKey"
  shows "fst (report_private_key ed org_var g (KeyStored [])) = KeyBroken" and
    "scorecard_private_key ed org_var (KeyStored []) generated = Key generated"
  using assms by (simp_all add: report_private_key_def scorecard_private_key_def key_of_raw_def b64decode_def)

section \<open>The sidecar of a report\<close>

text \<open>What the writers of \<open>cli.py\<close> do beside a report they have written: the signature's file, a warning, or nothing.\<close>

datatype sidecar = Sidecar "(str \<times> json) list" | OrgKeyWarning | NoSidecar

definition write_sidecar :: "'k ed25519 \<Rightarrow> (byte list \<Rightarrow> str) \<Rightarrow> str \<Rightarrow> byte list \<Rightarrow> str \<Rightarrow> str \<Rightarrow> str \<Rightarrow> keyring \<Rightarrow> sidecar \<times> keyring" where
  "write_sidecar ed sha org_var generated report timestamp ch ring =
     (case report_signer_key ed None org_var generated ring of
        (Key k, ring') \<Rightarrow>
          (case sign_report ed sha k report timestamp ch of
             Some g \<Rightarrow> (Sidecar (signature_to_dict g), ring')
           | None \<Rightarrow> (NoSidecar, ring'))
      | (OrgKeyBroken, ring') \<Rightarrow> (OrgKeyWarning, ring')
      | (_, ring') \<Rightarrow> (NoSidecar, ring'))"

lemma sidecar_written:
  assumes "write_sidecar ed sha org_var generated report timestamp ch ring = (Sidecar d, ring')"
  obtains k g where "report_private_key ed org_var generated ring = (Key k, ring')"
    "sign_report ed sha k report timestamp ch = Some g" "signature_from_dict d = Some g"
  using assms
  by (auto simp: write_sidecar_def report_signer_key_def signature_dict_round_trip split: prod.splits key_result.splits option.splits)

lemma signature_fingerprint:
  "sign_report ed sha k report t c = Some g \<Longrightarrow> rs_fingerprint g = pub_fingerprint ed sha (ed_public ed k)"
  by (auto simp: sign_report_def)

text \<open>Reports of one machine: the fingerprint read off the first sidecar verifies every later one.\<close>

theorem later_report_verifies:
  assumes "ed_ok ed" and "length generated = 32"
    and "write_sidecar ed sha org_var generated report t c ring = (Sidecar d, ring1)"
    and "write_sidecar ed sha org_var generated' report' t' c' ring1 = (Sidecar d', ring2)"
  shows "\<exists>g g'. signature_from_dict d = Some g \<and> signature_from_dict d' = Some g' \<and>
           verify_report_signature ed sha g' report' (rs_fingerprint g) = Some True"
proof -
  obtain k g where one: "report_private_key ed org_var generated ring = (Key k, ring1)"
    "sign_report ed sha k report t c = Some g" "signature_from_dict d = Some g" using assms(3) by (rule sidecar_written)
  obtain k' g' where two: "report_private_key ed org_var generated' ring1 = (Key k', ring2)"
    "sign_report ed sha k' report' t' c' = Some g'" "signature_from_dict d' = Some g'" using assms(4) by (rule sidecar_written)
  have "k' = k" using settled_ring [OF one(1) assms(2), of generated'] two(1) by simp
  then show ?thesis
    using one two report_round_trip_signature [OF assms(1) two(2)] signature_fingerprint [OF one(2)] by auto
qed

lemma org_key_warning_iff:
  "fst (write_sidecar ed sha org_var generated report timestamp ch ring) = OrgKeyWarning \<longleftrightarrow> org_signing_key ed org_var = BadOrgKey"
  by (auto simp: write_sidecar_def report_signer_key_def report_private_key_def key_of_raw_def
        split: org_key.splits keyring.splits option.splits)

end
