(* ===== verification/Spec2Isabelle.thy ===== *)
theory Spec2Isabelle
  imports Jti_Cache Authz Resources Handles Request_State Protocol Request_Envelope Meta_Identity Meta_Trust
    Audit_Log Integrity Supply_Chain Jwt_Session Boundary Trust Validation Mcp_Session Stack Templates Catalog_Loader Probe_Context Discovery Probe_Runner Stateful Assurance Evidence Manifest_Scans Scan_Outcome Incident Wellknown Adversarial Profiles Scan_Run Csv_Report Artifact_Commands Cli_Scan Mock_Server Legacy_Sse Stdio_Transport Sigstore Pytest_Plugin Scanner_Api Evidence_Annex Cli_Output Cli_Options Dpop_Client Scan_Pace Report_Key
begin

text \<open>
  A verification library for \<open>cosai-mcp\<close>, a security scanner and an enforcement library for servers of the Model
  Context Protocol. All paths below are under \<open>src/cosai_mcp/\<close>.

  \<^bold>\<open>The program.\<close> It has two halves that share the protocol code. The \<^emph>\<open>middleware\<close> is built into a server:
  \<open>CoSAIStack\<close> checks every request (envelope headers, identity, tokens and DPoP proofs, authorization, parameters,
  budgets) and every response (injection patterns, secrets) and writes a hash-chained audit log. The \<^emph>\<open>scanner\<close>
  is a client: it loads signed threat definitions, discovers the tools of a server, runs passive scans over their
  definitions and active probes (each in a subprocess) and multi-step scenarios over a session, judges the results
  against a baseline and an assurance level, and writes reports, scorecards and inventories, which it can sign and
  check again. A scan's exit code is the promise the rest builds on: 0 clean, 1 findings, 2 an error or nothing verified, 3 the target is
  unreachable; a claimed assurance level that is not reached turns 0 into a failure.

  \<^bold>\<open>How the model reads.\<close> A class is a \<open>record\<close>, a method a function from the state to the answer and the new
  state; a lock makes a call atomic. An exception is the left side of a sum with the code's error as a
  constructor, or \<open>None\<close> where only the fact that it raises matters. Python's unbounded integers are \<open>int\<close>, clock
  readings rationals, dictionaries association lists in insertion order, bytes \<open>8 word\<close>, and text lists of code
  points (or HOL strings where only ASCII constants are handled). What the code calls and does not define is an
  argument: SHA-256, HMAC, Ed25519, AES-GCM, \<open>joserfc\<close>, \<open>jsonschema\<close>, \<open>httpx\<close>, the resolver, RE2's compilation,
  the Unicode database, clocks, random tokens, the file system and the network (which answers a request given all
  requests sent before it). Laws about an argument are hypotheses of the theorems that need them, each with a
  witness; most results about hashes conclude \<open>or a collision is found\<close> and assume nothing.

  \<^bold>\<open>Foundations.\<close>
  \<^item> \<open>Cosai_Prelude\<close>: Python's scalars, insertion-ordered dictionaries and counters with their lemmas, and the two
    interfaces between components: the locale \<open>component\<close> (a step function that keeps an invariant, so every run
    does) and the locale \<open>replay_guard\<close> (what an admission of an identifier promises about later admissions).
    \<open>Jti_Cache\<close> and \<open>Request_State\<close> interpret them on the program's two replay caches and on the sealer.
  \<^item> \<open>Py_Codec\<close>, \<open>Py_Json\<close>, \<open>Json_Facts\<close>: UTF-8, base64 and \<open>json.dumps\<close>/\<open>json.loads\<close>, with the round trips.
  \<^item> \<open>Py_Regex\<close>, \<open>Py_Value\<close>, \<open>Py_Url\<close>: backtracking matching against a declarative reading of a pattern, Python
    values with equality and truth, \<open>str\<close> methods, and \<open>urllib.parse\<close>.

  \<^bold>\<open>Middleware\<close> (\<open>middleware/\<close>, \<open>protocol.py\<close>, \<open>meta_identity.py\<close>, \<open>telemetry/tracecontext.py\<close>).
  \<^item> \<open>Jti_Cache\<close> (\<open>auth.py\<close>): \<open>JtiCache\<close>; no replay within the window, and the exact rule of admission.
  \<^item> \<open>Jwt_Session\<close> (\<open>session.py\<close>): \<open>validate_token\<close> and \<open>verify_dpop_proof\<close> in the order of their checks, over the
    cache of \<open>Jti_Cache\<close>; a bearer token is accepted once.
  \<^item> \<open>Authz\<close> (\<open>authz.py\<close>), \<open>Validation\<close> (\<open>validation.py\<close>), \<open>Trust\<close> (\<open>trust.py\<close>): exact decisions of the authorization
    check, of parameter validation and of the trust boundary.
  \<^item> \<open>Resources\<close> (\<open>resources.py\<close>): the call budget in closed form, the loop detector's walk with its termination on
    cyclic parent maps, the progress monitor.
  \<^item> \<open>Handles\<close> and \<open>Request_State\<close> (\<open>state.py\<close>): the handle registry (capacity invariant in every reachable state,
    exact authorization of \<open>resolve\<close>, revocation, no lock-out of small owners) and the sealed request state
    (single use, authenticity, round trip, fingerprints).
  \<^item> \<open>Protocol\<close>: header values and their round trip, \<open>x-mcp-header\<close> annotations, \<open>server/discover\<close> answers, the
    hygiene walk over tool schemas. \<open>Request_Envelope\<close> and \<open>Meta_Trust\<close> (\<open>request_meta.py\<close>): the agreement of routing
    headers and body, and of \<open>_meta\<close> with the authenticated principal. \<open>Meta_Identity\<close>: keys that name an
    identity, and the trace context.
  \<^item> \<open>Audit_Log\<close> (\<open>audit.py\<close>): the log as a file of lines; it verifies after any calls, and an anchored head fixes
    its content up to a collision.
  \<^item> \<open>Integrity\<close> (\<open>integrity.py\<close>), \<open>Supply_Chain\<close> (\<open>supply_chain.py\<close>): the edit distance against its declarative
    meaning, name drift, the allow-list.
  \<^item> \<open>Boundary\<close> (\<open>boundary.py\<close>), \<open>Protection\<close> (\<open>protection.py\<close>): injection patterns over normalised readings of a text,
    and the scrubbing of secrets.
  \<^item> \<open>Stack\<close> (\<open>__init__.py\<close>): the composition of all these by \<open>CoSAIStack\<close>, with the order of errors and what is
    audited.

  \<^bold>\<open>Scanner\<close> (\<open>catalog/\<close>, \<open>harness/\<close>, \<open>stateful/\<close>, \<open>transport/\<close>, \<open>assurance/\<close> and the modules at the top level).
  \<^item> \<open>Catalog\<close>, \<open>Catalog_Loader\<close>, \<open>Templates\<close> (\<open>catalog/\<close>): threat definitions, their meta-schema, freezing, path
    confinement, signature verification, and template substitution, whose loop is a \<open>partial_function\<close> proved
    to return.
  \<^item> \<open>Addresses\<close> (\<open>transport/base.py\<close>, \<open>middleware/network.py\<close>), \<open>Streamable_Http\<close> (\<open>transport/streamable_http.py\<close>),
    \<open>Wellknown\<close> (\<open>wellknown.py\<close>), \<open>Mcp_Session\<close> (\<open>session.py\<close>), \<open>Discovery\<close> (\<open>discovery.py\<close>, \<open>synthesis.py\<close>): the network
    allow-list with pinning, the pinned transport, the metadata check, the two handshakes without a silent
    downgrade, bounded discovery and the synthesis of payloads.
  \<^item> \<open>Probe_Result\<close>, \<open>Probe_Context\<close>, \<open>Probe_Runner\<close> (\<open>harness/\<close>): assertions, the execution of a probe and the
    subprocess around it; a pass rests on the server's own answer, or on a refusal that was verified.
  \<^item> \<open>Stateful\<close> (\<open>stateful/\<close>): scenarios over one session and the checks over a whole run.
  \<^item> \<open>Adversarial\<close> (\<open>adversarial/\<close>), \<open>Profiles\<close> (\<open>profiles/\<close>), \<open>Manifest_Scans\<close> (the passive scans of \<open>api.py\<close>),
    \<open>Baseline\<close> (\<open>baseline.py\<close>), \<open>Scan_Outcome\<close> and \<open>Scan_Run\<close> (the rest of \<open>api.py\<close>): a whole scan, with exit code 0
    exactly for a clean one.
  \<^item> \<open>Assurance_Model\<close>, \<open>Assurance_Controls\<close>, \<open>Assurance\<close>, \<open>Evidence\<close> (\<open>assurance/\<close>): the control table, the operator's
    evidence and the verdict on the claimed level.
  \<^item> \<open>Incident\<close> (\<open>ir/\<close>): incidents and containment, effects as a list.

  \<^bold>\<open>Reports and artifacts.\<close>
  \<^item> \<open>Sarif\<close>, \<open>Csv_Report\<close>, \<open>Remediation\<close> (\<open>report/\<close>), \<open>Scorecard\<close> (\<open>scorecard/\<close>), \<open>Fleet\<close> (\<open>fleet.py\<close>): the documents built
    from results, with a reader of the CSV dialect as reference.
  \<^item> \<open>Inventory\<close> (\<open>inventory/\<close>), \<open>Signing\<close> (\<open>keys.py\<close>, \<open>signing.py\<close> and the \<open>signing\<close> modules), \<open>Artifact_Commands\<close>
    (\<open>cli.py\<close>, \<open>report/verify.py\<close>): snapshots and drift, signatures over each kind of artifact, and the exit codes of
    the commands that check them.
  \<^item> \<open>Html_Report\<close> (\<open>report/html.py\<close>), \<open>Html_Writer\<close> (\<open>report/adversarial_html.py\<close> and the writers of \<open>cli.py\<close>): the pages as
    text; which tags a page has does not depend on what the server said, and every result is shown once.
  \<^item> \<open>Telemetry\<close> (\<open>telemetry/\<close>): the OCSF records, the anomaly counters and the emitter. \<open>Cli_Response\<close> (\<open>cli.py\<close>):
    telemetry after a scan, containment, and the \<open>ir\<close> commands.
  \<^item> \<open>Cli_Scan\<close> (\<open>cli.py\<close>): the \<open>scan\<close> command from its parsed options to its exit code; when it ends with 0, when
    with 3, and which options a fleet ignores. \<open>Cli_Options\<close>: its table of options and defaults. \<open>Cli_Output\<close>: the
    lines that the commands print; a line that says OK or CLEAN is printed exactly on exit code 0.
  \<^item> \<open>Scanner_Api\<close> (\<open>config.py\<close>, \<open>Scanner\<close> of \<open>api.py\<close>), \<open>Pytest_Plugin\<close> (\<open>pytest_plugin.py\<close>): the two other ways to a scan; a
    session with a target passes only on a clean scan. \<open>Sigstore\<close> (\<open>scorecard/sigstore_signing.py\<close>): a bundle counts only
    for the scorecard's own bytes and the identity that the caller names.
  \<^item> \<open>Evidence_Annex\<close> (\<open>scripts/gen_evidence_annex.py\<close>): the annex between its two markers; the check of the file passes
    after a write, and a file with the markers swapped grows at each write.
  \<^item> \<open>Report_Key\<close> (\<open>report/sign.py\<close>): the key of a machine in its key ring; the fingerprint of one report's signature verifies
    every later report. \<open>Scan_Pace\<close> (\<open>api.py\<close>): the sleeps between threats; the target can set them, without a bound.
    \<open>Dpop_Client\<close> (\<open>middleware/auth.py\<close>): the scanner's own DPoP proofs; the verifier of \<open>Jwt_Session\<close> accepts one once.

  \<^bold>\<open>Other transports, and the server of the tests.\<close>
  \<^item> \<open>Legacy_Sse\<close> (\<open>transport/legacy_sse.py\<close>): the event loop's interleavings as steps over one state. In every run a call
    is resolved only by an answer to its own id, at most once, and none waits after the end of the stream.
  \<^item> \<open>Stdio_Transport\<close> (\<open>transport/stdio.py\<close>): the limits on what a process can make the scanner read.
  \<^item> \<open>Mock_Server\<close> (\<open>harness/mock_server.py\<close>): the server that the probes are tried against, with its gate for the modern
    protocol. It serves what the scanner's framing sends, a token buys one result, and a budget bounds the calls.

  \<^bold>\<open>Bounds and fuel.\<close> The bounds are the code's constants (sizes of caches, depth 16 of the schema walk, lengths
  of texts). Recursion that is not structural is a \<open>function\<close> with a measure. Fuel occurs three times: the schema
  walk takes the depths that are left, as the code counts them; \<open>findall\<close> takes the number of characters left,
  each match or step consuming one; and the JSON parser takes one more than the length of the text, since
  every level of nesting reads a character. \<open>Json_Facts\<close> proves that this much reads back every printed value.

  \<^bold>\<open>Not modelled.\<close>
  \<^item> In \<open>cli.py\<close>: the parsing of the command line by \<open>click\<close>, which is code of another package; what it gives, the values of
    the options, is an argument.
  \<^item> Processes, sockets, threads and files themselves: what they give is an argument of the definitions that use it.
  \<^item> Python's recursion limit: the walks over nested values are structural recursions here, and a value nested deeper than the
    limit ends them with \<open>RecursionError\<close> in the code.
  \<^item> Encodings of a catalog file other than UTF-8: \<open>json.loads\<close> detects UTF-16, UTF-32 and a byte order mark in bytes, and
    \<open>parse_bytes\<close> does not.
  \<^item> \<open>exceptions.py\<close>: names of exception classes with no code of their own; each is a constructor where it is raised. The
    \<open>__init__.py\<close> files only export names.
  \<^item> \<open>examples/\<close> and \<open>tests/\<close>: programs around the library.
  \<^item> \<open>scripts/backfill_v2_threat_refs.py\<close> and \<open>scripts/sign_catalog.py\<close>: run once by hand over the repository's own files.
  \<^item> Comments, documentation strings and imports, which are most of the lines that no definition names.
\<close>

end
